(* ===== verification/Acdp_Prelude.thy ===== *)
theory Acdp_Prelude
  imports Main "HOL-Library.Word" "HOL-Library.Sublist"
begin

text \<open>
  Shared vocabulary of the development: names for Rust's machine integers and byte strings,
  the \<open>?\<close> operator of fallible Rust code on the sum type \<open>'e + 'a\<close> (\<open>Inl\<close> is
  \<open>Err\<close>, \<open>Inr\<close> is \<open>Ok\<close>), panics as a value, the string operations the code
  uses (\<open>starts_with\<close>, \<open>ends_with\<close>, the decimal \<open>Display\<close> of integers, the
  character count of a UTF-8 string), little-endian bytes, and the interface locale of a
  reduction order, which the delegation components interpret.

  A Rust \<open>String\<close> is a \<open>string\<close> whose characters are its UTF-8 bytes.
\<close>

section \<open>Collections of facts\<close>

named_theorems res_simps \<open>rewriting of the result type\<close>
named_theorems unfold_ops \<open>definitions of the modelled operations, for proofs by unfolding\<close>

section \<open>Machine integers and bytes\<close>

type_synonym u8 = "8 word"
type_synonym u16 = "16 word"
type_synonym u32 = "32 word"
type_synonym u64 = "64 word"
type_synonym bytes = "8 word list"

text \<open>\<open>u64::saturating_sub\<close> and the two's complement reading of an \<open>as i64\<close> cast.\<close>

definition saturating_sub :: "'a::len word \<Rightarrow> 'a word \<Rightarrow> 'a word" where
  "saturating_sub a b = (if a < b then 0 else a - b)"

lemma unat_saturating_sub: "unat (saturating_sub a b) = unat a - unat b"
  by (simp add: saturating_sub_def word_less_nat_alt unat_sub word_le_nat_alt)

lemma unat_u8_less: "unat (w :: u8) < 256"
  using unsigned_less [where ?'a = nat, of w] by simp

lemma unat_u64_less: "unat (w :: u64) < 2 ^ 64"
  using unsigned_less [where ?'a = nat, of w] by simp

lemma unat_add_1_less:
  fixes x y :: "'a::len word"
  assumes "x < y"
  shows "unat (x + 1) = unat x + 1"
proof -
  have "unat x < unat y" using assms by (simp add: word_less_nat_alt)
  also have "unat y < 2 ^ LENGTH('a)" by (rule unsigned_less)
  finally have "unat x < 2 ^ LENGTH('a)" .
  with \<open>unat x < unat y\<close> \<open>unat y < 2 ^ LENGTH('a)\<close> have "unat x + 1 < 2 ^ LENGTH('a)" by linarith
  then show ?thesis by (simp add: unat_word_ariths)
qed

definition str_bytes :: "string \<Rightarrow> bytes" where
  "str_bytes s = map (\<lambda>c. of_nat (of_char c)) s"

lemma str_bytes_append [simp]: "str_bytes (s @ t) = str_bytes s @ str_bytes t"
  by (simp add: str_bytes_def)

lemma length_str_bytes [simp]: "length (str_bytes s) = length s"
  by (simp add: str_bytes_def)

lemma inj_byte_of_char: "inj (\<lambda>c. of_nat (of_char c) :: 8 word)"
proof (rule injI)
  fix c d :: char
  assume "(of_nat (of_char c) :: 8 word) = of_nat (of_char d)"
  then have "unat (of_nat (of_char c) :: 8 word) = unat (of_nat (of_char d) :: 8 word)"
    by simp
  then have "(of_char c :: nat) mod 256 = of_char d mod 256"
    by (simp add: unat_of_nat)
  then show "c = d"
    using of_char_mod_256 [of c] of_char_mod_256 [of d]
    by (metis of_char_eq_iff)
qed

lemma str_bytes_inject [simp]: "str_bytes s = str_bytes t \<longleftrightarrow> s = t"
  by (simp add: str_bytes_def inj_map_eq_map inj_byte_of_char)

text \<open>The \<open>n\<close> least significant bytes of an integer, least significant first
  (\<open>to_le_bytes\<close>; a negative \<open>i64\<close> is read in two's complement).\<close>

primrec le_bytes :: "nat \<Rightarrow> int \<Rightarrow> bytes" where
  "le_bytes 0 x = []"
| "le_bytes (Suc n) x = word_of_int (x mod 256) # le_bytes n (x div 256)"

lemma length_le_bytes [simp]: "length (le_bytes n x) = n"
  by (induction n arbitrary: x) auto

lemma le_bytes_inject_mod: "le_bytes n x = le_bytes n y \<Longrightarrow> x mod 256 ^ n = y mod 256 ^ n"
proof (induction n arbitrary: x y)
  case 0
  then show ?case by simp
next
  case (Suc n)
  from Suc.prems have hd: "(word_of_int (x mod 256) :: 8 word) = word_of_int (y mod 256)"
    and tl: "le_bytes n (x div 256) = le_bytes n (y div 256)"
    by simp_all
  from hd have "uint (word_of_int (x mod 256) :: 8 word) = uint (word_of_int (y mod 256) :: 8 word)"
    by simp
  then have low: "x mod 256 = y mod 256"
    by (simp add: uint_word_of_int)
  have expand: "z mod (256 * 256 ^ n) = 256 * (z div 256 mod 256 ^ n) + z mod 256" for z :: int
    by (rule zmod_zmult2_eq) simp
  from Suc.IH [OF tl] low show ?case
    by (simp add: expand)
qed

lemma le_bytes_8_inject:
  assumes "le_bytes 8 x = le_bytes 8 y"
    and "- (2 ^ 63) \<le> x" "x < 2 ^ 63" "- (2 ^ 63) \<le> y" "y < 2 ^ 63"
  shows "x = y"
proof -
  have "x mod 2 ^ 64 = y mod 2 ^ 64"
    using le_bytes_inject_mod [OF assms(1)] by simp
  then have "2 ^ 64 dvd x - y"
    by (simp add: mod_eq_dvd_iff)
  moreover have "\<bar>x - y\<bar> < 2 ^ 64"
    using assms(2-5) by auto
  ultimately have "x - y = 0"
    by (metis zdvd_imp_le abs_of_nonneg abs_of_nonpos dvd_minus_iff linorder_not_le
        linorder_linear neg_0_less_iff_less neg_le_0_iff_le order_le_less minus_diff_eq)
  then show ?thesis by simp
qed

section \<open>Fallible code\<close>

text \<open>
  \<open>and_then r f\<close> is Rust's \<open>let x = r?; f(x)\<close>. \<open>map_err\<close> is
  \<open>Result::map_err\<close>. A panic is a value of its own: \<open>'a rust\<close> is the outcome of code
  that may panic.
\<close>

primrec and_then :: "'e + 'a \<Rightarrow> ('a \<Rightarrow> 'e + 'b) \<Rightarrow> 'e + 'b" where
  "and_then (Inl e) f = Inl e"
| "and_then (Inr a) f = f a"

definition map_err :: "('e \<Rightarrow> 'f) \<Rightarrow> 'e + 'a \<Rightarrow> 'f + 'a" where
  "map_err f r = (case r of Inl e \<Rightarrow> Inl (f e) | Inr a \<Rightarrow> Inr a)"

definition ok_or :: "'e \<Rightarrow> 'a option \<Rightarrow> 'e + 'a" where
  "ok_or e r = (case r of None \<Rightarrow> Inl e | Some a \<Rightarrow> Inr a)"

datatype 'a rust = Panic | Done 'a

lemma map_rust_eq_Done: "map_rust f r = Done b \<longleftrightarrow> (\<exists>a. r = Done a \<and> f a = b)"
  by (cases r) auto

lemma map_rust_eq_Panic: "map_rust f r = Panic \<longleftrightarrow> r = Panic"
  by (cases r) auto

primrec is_ok :: "'e + 'a \<Rightarrow> bool" where
  "is_ok (Inl e) = False"
| "is_ok (Inr a) = True"

lemma is_ok_iff [res_simps]: "is_ok r \<longleftrightarrow> (\<exists>a. r = Inr a)"
  by (cases r) auto

lemma and_then_eq_Inr [res_simps]:
  "and_then r f = Inr b \<longleftrightarrow> (\<exists>a. r = Inr a \<and> f a = Inr b)"
  by (cases r) auto

lemma and_then_eq_Inl [res_simps]:
  "and_then r f = Inl e \<longleftrightarrow> r = Inl e \<or> (\<exists>a. r = Inr a \<and> f a = Inl e)"
  by (cases r) auto

lemma and_then_assoc: "and_then (and_then r f) g = and_then r (\<lambda>x. and_then (f x) g)"
  by (cases r) auto

lemma map_err_simps [simp]:
  "map_err f (Inl e) = Inl (f e)" "map_err f (Inr a) = Inr a"
  by (simp_all add: map_err_def)

lemma map_err_eq_Inr [res_simps]: "map_err f r = Inr a \<longleftrightarrow> r = Inr a"
  by (cases r) auto

lemma map_err_eq_Inl [res_simps]: "map_err f r = Inl e \<longleftrightarrow> (\<exists>e'. r = Inl e' \<and> e = f e')"
  by (cases r) auto

lemma ok_or_simps [simp]: "ok_or e None = Inl e" "ok_or e (Some a) = Inr a"
  by (simp_all add: ok_or_def)

lemma ok_or_eq_Inr [res_simps]: "ok_or e r = Inr a \<longleftrightarrow> r = Some a"
  by (cases r) auto

text \<open>\<open>i64\<close> values are \<open>int\<close>s between \<open>- (2 ^ 63)\<close> and \<open>2 ^ 63\<close>. Overflow of an
  addition panics when the build has overflow checks (\<open>checks\<close>, the development profile)
  and wraps otherwise (the release profile).\<close>

definition in_i64 :: "int \<Rightarrow> bool" where
  "in_i64 x \<longleftrightarrow> - (2 ^ 63) \<le> x \<and> x < 2 ^ 63"

definition wrap_i64 :: "int \<Rightarrow> int" where
  "wrap_i64 x = (x + 2 ^ 63) mod 2 ^ 64 - 2 ^ 63"

definition i64_add :: "bool \<Rightarrow> int \<Rightarrow> int \<Rightarrow> int rust" where
  "i64_add checks x y =
     (if in_i64 (x + y) then Done (x + y) else if checks then Panic else Done (wrap_i64 (x + y)))"

definition u64_as_i64 :: "u64 \<Rightarrow> int" where
  "u64_as_i64 w = wrap_i64 (uint w)"

lemma wrap_i64_range [simp]: "in_i64 (wrap_i64 x)"
  by (simp add: in_i64_def wrap_i64_def)

lemma wrap_i64_id: "in_i64 x \<Longrightarrow> wrap_i64 x = x"
  by (simp add: in_i64_def wrap_i64_def)

text \<open>A loop \<open>for x in xs { f(x)?; }\<close>: the first error stops it.\<close>

fun try_each :: "('a \<Rightarrow> 'e + unit) \<Rightarrow> 'a list \<Rightarrow> 'e + unit" where
  "try_each f [] = Inr ()"
| "try_each f (x # xs) = and_then (f x) (\<lambda>_. try_each f xs)"

lemma try_each_Inr: "try_each f xs = Inr () \<longleftrightarrow> (\<forall>x\<in>set xs. f x = Inr ())"
  by (induction xs) (auto simp: and_then_eq_Inr)

lemma try_each_Inl:
  "try_each f xs = Inl e \<longleftrightarrow> (\<exists>x. find (\<lambda>x. f x \<noteq> Inr ()) xs = Some x \<and> f x = Inl e)"
proof (induction xs)
  case Nil
  then show ?case by simp
next
  case (Cons x xs)
  then show ?case by (cases "f x") auto
qed

section \<open>Strings\<close>

definition starts_with :: "string \<Rightarrow> string \<Rightarrow> bool" where
  "starts_with s p \<longleftrightarrow> take (length p) s = p"

definition ends_with :: "string \<Rightarrow> char \<Rightarrow> bool" where
  "ends_with s c \<longleftrightarrow> s \<noteq> [] \<and> last s = c"

lemma starts_with_iff: "starts_with s p \<longleftrightarrow> (\<exists>t. s = p @ t)"
  unfolding starts_with_def by (metis append_eq_conv_conj append_take_drop_id)

lemma starts_with_trans: "starts_with s q \<Longrightarrow> starts_with q p \<Longrightarrow> starts_with s p"
  by (auto simp: starts_with_iff)

lemma starts_with_refl [simp]: "starts_with s s"
  by (simp add: starts_with_def)

lemma ends_with_snoc [simp]: "ends_with (s @ [c]) d \<longleftrightarrow> c = d"
  by (simp add: ends_with_def)

lemma ends_with_conv: "ends_with s c \<longleftrightarrow> (\<exists>t. s = t @ [c])"
  unfolding ends_with_def by (metis append_butlast_last_id last_snoc snoc_eq_iff_butlast)

text \<open>The number of Unicode scalar values of a UTF-8 string: the bytes that are not
  continuation bytes \<open>10xxxxxx\<close>.\<close>

definition char_count :: "string \<Rightarrow> nat" where
  "char_count s = length (filter (\<lambda>c. of_char c div 64 \<noteq> (2 :: nat)) s)"

lemma char_count_le: "char_count s \<le> length s"
  by (simp add: char_count_def)

text \<open>\<open>validator\<close>'s \<open>length(min, max)\<close> on a string.\<close>

definition length_between :: "nat \<Rightarrow> nat \<Rightarrow> string \<Rightarrow> bool" where
  "length_between lo hi s \<longleftrightarrow> lo \<le> char_count s \<and> char_count s \<le> hi"

text \<open>The decimal \<open>Display\<close> of unsigned and signed integers.\<close>

definition digit_char :: "nat \<Rightarrow> char" where
  "digit_char d = char_of (48 + d)"

function show_nat :: "nat \<Rightarrow> string" where
  "show_nat n = (if n < 10 then [digit_char n] else show_nat (n div 10) @ [digit_char (n mod 10)])"
  by pat_completeness auto
termination
  by (relation "measure id") auto

declare show_nat.simps [simp del]

text \<open>Reading a decimal numeral back.\<close>

definition nat_of_digits :: "string \<Rightarrow> nat" where
  "nat_of_digits s = foldl (\<lambda>a c. 10 * a + (of_char c - 48)) 0 s"

lemma of_char_digit: "d < 10 \<Longrightarrow> of_char (digit_char d) = 48 + d"
  by (simp add: digit_char_def)

lemma nat_of_digits_show: "nat_of_digits (show_nat n) = n"
proof (induction n rule: show_nat.induct)
  case (1 n)
  show ?case
  proof (cases "n < 10")
    case True
    then show ?thesis by (simp add: show_nat.simps [of n] nat_of_digits_def of_char_digit)
  next
    case False
    with 1 have "nat_of_digits (show_nat (n div 10)) = n div 10" by simp
    with False show ?thesis
      by (simp add: show_nat.simps [of n] nat_of_digits_def of_char_digit)
  qed
qed

lemma show_nat_inject [simp]: "show_nat m = show_nat n \<longleftrightarrow> m = n"
  by (metis nat_of_digits_show)

definition show_int :: "int \<Rightarrow> string" where
  "show_int i = (if i < 0 then CHR ''-'' # show_nat (nat (- i)) else show_nat (nat i))"

text \<open>\<open>slice.join(sep)\<close>.\<close>

fun join_strings :: "string \<Rightarrow> string list \<Rightarrow> string" where
  "join_strings sep [] = []"
| "join_strings sep [s] = s"
| "join_strings sep (s # t # ts) = s @ sep @ join_strings sep (t # ts)"

text \<open>\<open>str::split\<close> with a character: never empty.\<close>

fun split_on :: "char \<Rightarrow> string \<Rightarrow> string list" where
  "split_on c [] = [[]]"
| "split_on c (x # xs) =
     (if x = c then [] # split_on c xs
      else case split_on c xs of [] \<Rightarrow> [[x]] | p # ps \<Rightarrow> (x # p) # ps)"

lemma split_on_nonempty [simp]: "split_on c s \<noteq> []"
  by (induction s) (auto split: list.splits)

text \<open>\<open>str::contains\<close>, \<open>str::find\<close> (a byte index), \<open>str::strip_prefix\<close> and
  \<open>str::lines\<close>: a line ends at a newline, which is removed together with a carriage return
  before it; there is no line after the last newline.\<close>

fun str_contains :: "string \<Rightarrow> string \<Rightarrow> bool" where
  "str_contains [] p \<longleftrightarrow> p = []"
| "str_contains (x # xs) p \<longleftrightarrow> starts_with (x # xs) p \<or> str_contains xs p"

lemma str_contains_iff: "str_contains s p \<longleftrightarrow> (\<exists>a b. s = a @ p @ b)"
proof (induction s)
  case (Cons x xs)
  have "starts_with (x # xs) p \<or> (\<exists>a b. xs = a @ p @ b) \<longleftrightarrow> (\<exists>a b. x # xs = a @ p @ b)"
    by (auto simp: starts_with_iff Cons_eq_append_conv)
  with Cons show ?case by simp
qed simp

fun str_find :: "string \<Rightarrow> string \<Rightarrow> nat option" where
  "str_find [] p = (if p = [] then Some 0 else None)"
| "str_find (x # xs) p =
     (if starts_with (x # xs) p then Some 0 else map_option Suc (str_find xs p))"

lemma str_find_None: "str_find s p = None \<longleftrightarrow> \<not> str_contains s p"
  by (induction s) auto

lemma str_find_Some: "str_find s p = Some i \<Longrightarrow> starts_with (drop i s) p \<and> i \<le> length s"
  by (induction s arbitrary: i) (auto split: if_splits)

definition strip_prefix :: "string \<Rightarrow> string \<Rightarrow> string option" where
  "strip_prefix s p = (if starts_with s p then Some (drop (length p) s) else None)"

definition strip_cr :: "string \<Rightarrow> string" where
  "strip_cr s = (if ends_with s (CHR 0x0D) then butlast s else s)"

definition lines :: "string \<Rightarrow> string list" where
  "lines s = (let ps = split_on (CHR 0x0A) s
     in map strip_cr (butlast ps) @ (if last ps = [] then [] else [last ps]))"

text \<open>\<open>char::is_whitespace\<close> on ASCII, and \<open>str::trim\<close>.\<close>

definition is_whitespace :: "char \<Rightarrow> bool" where
  "is_whitespace c \<longleftrightarrow> (let n = (of_char c :: nat) in n = 32 \<or> (9 \<le> n \<and> n \<le> 13))"

definition trim :: "string \<Rightarrow> string" where
  "trim s = rev (dropWhile is_whitespace (rev (dropWhile is_whitespace s)))"

section \<open>Reduction orders\<close>

text \<open>
  The interface behind every ``may only shrink'' check of the credential system: a value
  \<open>x\<close> grants actions (\<open>grants x a\<close>), and the executable check \<open>le x y\<close> decides
  whether \<open>x\<close> may be handed on by the holder of \<open>y\<close>. A provider promises that on
  well-formed values the check is transitive and never lets a grant grow. The client
  lemmas concern chains of hand-overs.
\<close>

locale reduction_order =
  fixes wf :: "'c \<Rightarrow> bool"
    and le :: "'c \<Rightarrow> 'c \<Rightarrow> bool"
    and grants :: "'c \<Rightarrow> 'act \<Rightarrow> bool"
  assumes le_refl: "le x x"
    and le_trans: "wf y \<Longrightarrow> wf z \<Longrightarrow> le x y \<Longrightarrow> le y z \<Longrightarrow> le x z"
    and le_grants: "wf y \<Longrightarrow> le x y \<Longrightarrow> grants x a \<Longrightarrow> grants y a"
begin

text \<open>\<open>successively (\<lambda>x y. le y x) xs\<close>: each element of the list may be handed on by its
  predecessor.\<close>

lemma chain_le_head:
  assumes "successively (\<lambda>x y. le y x) (x # xs)"
    and "\<forall>c\<in>set (x # xs). wf c" and "y \<in> set (x # xs)"
  shows "le y x"
  using assms
proof (induction xs arbitrary: x)
  case Nil
  then show ?case by (simp add: le_refl)
next
  case (Cons z zs)
  show ?case
  proof (cases "y = x")
    case True
    then show ?thesis by (simp add: le_refl)
  next
    case False
    with Cons.prems have "le y z" by (intro Cons.IH) auto
    moreover from Cons.prems have "le z x" "wf z" "wf x" by auto
    ultimately show ?thesis by (blast intro: le_trans)
  qed
qed

lemma chain_grants:
  assumes "successively (\<lambda>x y. le y x) (x # xs)"
    and "\<forall>c\<in>set (x # xs). wf c" and "y \<in> set (x # xs)" and "grants y a"
  shows "grants x a"
  using chain_le_head [OF assms(1-3)] assms(2,4) le_grants by auto

end

end
