(* ===== verification/Acdp_Error.thy ===== *)
theory Acdp_Error
  imports Acdp_Prelude
begin

text \<open>
  The error type of the credential crate (\<open>acdp-auth/src/error.rs\<close>): the seventeen
  variants, their \<open>Display\<close> text (the \<open>thiserror\<close> format strings), the retry
  classification and the HTTP status every variant maps to.
\<close>

datatype ACDPError =
    InvalidCredential string
  | CredentialExpired string
  | RateLimitExceeded u64 u64
  | ToolNotAllowed string
  | ResourceLimitExceeded string
  | DelegationNotAllowed string
  | DelegationDepthExceeded u8 u8
  | CapabilityReductionViolation string
  | InvalidIDJAG string
  | TokenExchangeFailed string
  | MCPError string
  | ARCVerificationFailed string
  | CryptoError string
  | DatabaseError string
  | HttpError string
  | ConfigError string
  | InternalError string

type_synonym 'a acdp_result = "ACDPError + 'a"

primrec acdp_error_display :: "ACDPError \<Rightarrow> string" where
  "acdp_error_display (InvalidCredential s) = ''Invalid credential: '' @ s"
| "acdp_error_display (CredentialExpired s) = ''Credential expired at '' @ s"
| "acdp_error_display (RateLimitExceeded used limit) =
     ''Rate limit exceeded: '' @ show_nat (unat used) @ ''/'' @ show_nat (unat limit)
       @ '' presentations used''"
| "acdp_error_display (ToolNotAllowed tool) =
     ''Tool '' @ [CHR 0x27] @ tool @ [CHR 0x27] @ '' not allowed by credential capabilities''"
| "acdp_error_display (ResourceLimitExceeded r) = ''Resource limit exceeded: '' @ r"
| "acdp_error_display (DelegationNotAllowed s) = ''Delegation not allowed: '' @ s"
| "acdp_error_display (DelegationDepthExceeded current limit) =
     ''Delegation depth exceeded: '' @ show_nat (unat current) @ '' > '' @ show_nat (unat limit)"
| "acdp_error_display (CapabilityReductionViolation s) =
     ''Delegated capabilities must be subset of parent: '' @ s"
| "acdp_error_display (InvalidIDJAG s) = ''Invalid ID-JAG token: '' @ s"
| "acdp_error_display (TokenExchangeFailed s) = ''Token exchange failed: '' @ s"
| "acdp_error_display (MCPError s) = ''MCP error: '' @ s"
| "acdp_error_display (ARCVerificationFailed s) = ''ARC proof verification failed: '' @ s"
| "acdp_error_display (CryptoError s) = ''Cryptographic error: '' @ s"
| "acdp_error_display (DatabaseError s) = ''Database error: '' @ s"
| "acdp_error_display (HttpError s) = ''HTTP error: '' @ s"
| "acdp_error_display (ConfigError s) = ''Configuration error: '' @ s"
| "acdp_error_display (InternalError s) = ''Internal error: '' @ s"

definition is_retryable :: "ACDPError \<Rightarrow> bool" where
  "is_retryable e = (case e of HttpError _ \<Rightarrow> True | DatabaseError _ \<Rightarrow> True
     | InternalError _ \<Rightarrow> True | _ \<Rightarrow> False)"

primrec status_code :: "ACDPError \<Rightarrow> u16" where
  "status_code (InvalidCredential s) = 401"
| "status_code (CredentialExpired s) = 401"
| "status_code (RateLimitExceeded used limit) = 429"
| "status_code (ToolNotAllowed tool) = 403"
| "status_code (ResourceLimitExceeded r) = 403"
| "status_code (DelegationNotAllowed s) = 403"
| "status_code (DelegationDepthExceeded current limit) = 403"
| "status_code (CapabilityReductionViolation s) = 400"
| "status_code (InvalidIDJAG s) = 401"
| "status_code (TokenExchangeFailed s) = 400"
| "status_code (MCPError s) = 400"
| "status_code (ARCVerificationFailed s) = 401"
| "status_code (CryptoError s) = 500"
| "status_code (DatabaseError s) = 500"
| "status_code (HttpError s) = 502"
| "status_code (ConfigError s) = 500"
| "status_code (InternalError s) = 500"

text \<open>The \<open>From\<close> conversions: the argument is the \<open>Display\<close> text of the foreign error.\<close>

definition from_anyhow :: "string \<Rightarrow> ACDPError" where
  "from_anyhow err = InternalError err"

definition from_serde_json :: "string \<Rightarrow> ACDPError" where
  "from_serde_json err = InternalError (''JSON error: '' @ err)"

definition from_reqwest :: "string \<Rightarrow> ACDPError" where
  "from_reqwest err = HttpError err"

text \<open>Every error is reported as a client error (4xx) or a server error (5xx), and an error
  is worth retrying only when the fault is on the server's side.\<close>

lemma status_code_is_error: "400 \<le> status_code e \<and> status_code e < 600"
  by (cases e) simp_all

lemma retryable_is_server_error: "is_retryable e \<Longrightarrow> 500 \<le> status_code e"
  by (cases e) (simp_all add: is_retryable_def)

text \<open>The converse fails: a configuration or cryptographic failure is a server error that is
  not retried.\<close>

lemma server_error_retryable_iff:
  "500 \<le> status_code e \<Longrightarrow> is_retryable e \<longleftrightarrow> (\<forall>s. e \<noteq> CryptoError s \<and> e \<noteq> ConfigError s)"
  by (cases e) (simp_all add: is_retryable_def)

end
