(* ===== verification/Capabilities.thy ===== *)
theory Capabilities
  imports Acdp_Error
begin

text \<open>
  Tool access control and rate limits (\<open>acdp-auth/src/capabilities.rs\<close>): glob patterns on
  tool names, resource limits, rate limit parameters and the capability record, with the
  access check \<open>is_tool_allowed\<close> and the ``may only shrink'' checks
  \<open>is_subset_of\<close> used on delegation. Each check is shown to be a reduction order
  (\<open>reduction_order\<close> of the prelude) on well-formed values; what the checks do not
  cover (deny lists, windows, patterns that end in two stars) is stated as theorems too.
\<close>

section \<open>Data\<close>

record ToolPattern =
  pattern :: string

text \<open>\<open>std::time::Duration\<close> in whole seconds and nanoseconds.\<close>

record Duration =
  dur_secs :: u64
  dur_nanos :: u32

record RateLimitParams =
  rl_max_presentations :: u64
  rl_window :: Duration

record ResourceLimits =
  max_read_bytes :: "u64 option"
  max_write_bytes :: "u64 option"
  max_concurrent_requests :: "u32 option"

record MCPCapabilities =
  allowed_tools :: "ToolPattern list"
  denied_tools :: "ToolPattern list"
  resource_limits :: ResourceLimits
  rate_limit :: RateLimitParams

section \<open>Operations\<close>

definition ToolPattern_new :: "string \<Rightarrow> ToolPattern" where
  "ToolPattern_new p = \<lparr>pattern = p\<rparr>"

definition tool_matches :: "ToolPattern \<Rightarrow> string \<Rightarrow> bool" where
  "tool_matches p tool_name =
     (if ends_with (pattern p) CHR ''*'' then
        starts_with tool_name (take (length (pattern p) - 1) (pattern p))
      else if ends_with (pattern p) CHR ''/'' then starts_with tool_name (pattern p)
      else tool_name = pattern p)"

definition pattern_subset :: "ToolPattern \<Rightarrow> ToolPattern \<Rightarrow> bool" where
  "pattern_subset self parent =
     (if ends_with (pattern parent) CHR ''*'' then
        starts_with (pattern self) (take (length (pattern parent) - 1) (pattern parent))
      else pattern self = pattern parent)"

definition duration_from_secs :: "u64 \<Rightarrow> Duration" where
  "duration_from_secs s = \<lparr>dur_secs = s, dur_nanos = 0\<rparr>"

definition RateLimitParams_new :: "u64 \<Rightarrow> Duration \<Rightarrow> RateLimitParams" where
  "RateLimitParams_new m w = \<lparr>rl_max_presentations = m, rl_window = w\<rparr>"

definition daily :: "u64 \<Rightarrow> RateLimitParams" where
  "daily m = RateLimitParams_new m (duration_from_secs (24 * 60 * 60))"

definition hourly :: "u64 \<Rightarrow> RateLimitParams" where
  "hourly m = RateLimitParams_new m (duration_from_secs (60 * 60))"

text \<open>The serde representation of a window: whole seconds.\<close>

definition duration_serialize :: "Duration \<Rightarrow> u64" where
  "duration_serialize d = dur_secs d"

definition duration_deserialize :: "u64 \<Rightarrow> Duration" where
  "duration_deserialize secs = duration_from_secs secs"

definition ResourceLimits_default :: ResourceLimits where
  "ResourceLimits_default =
     \<lparr>max_read_bytes = None, max_write_bytes = None, max_concurrent_requests = None\<rparr>"

text \<open>One block of \<open>ResourceLimits::is_subset_of\<close>; the function repeats it per field.\<close>

definition limit_ok :: "'a::len word option \<Rightarrow> 'a word option \<Rightarrow> bool" where
  "limit_ok child parent =
     (case parent of None \<Rightarrow> True
      | Some parent_max \<Rightarrow>
          (case child of Some child_max \<Rightarrow> \<not> child_max > parent_max | None \<Rightarrow> False))"

definition limits_subset :: "ResourceLimits \<Rightarrow> ResourceLimits \<Rightarrow> bool" where
  "limits_subset self parent =
     (if \<not> limit_ok (max_read_bytes self) (max_read_bytes parent) then False
      else if \<not> limit_ok (max_write_bytes self) (max_write_bytes parent) then False
      else if \<not> limit_ok (max_concurrent_requests self) (max_concurrent_requests parent) then False
      else True)"

text \<open>The two early-returning loops of \<open>is_tool_allowed\<close>.\<close>

fun any_match :: "ToolPattern list \<Rightarrow> string \<Rightarrow> bool" where
  "any_match [] tool_name = False"
| "any_match (p # ps) tool_name = (if tool_matches p tool_name then True else any_match ps tool_name)"

definition is_tool_allowed :: "MCPCapabilities \<Rightarrow> string \<Rightarrow> unit acdp_result" where
  "is_tool_allowed c tool_name =
     (if any_match (denied_tools c) tool_name then Inl (ToolNotAllowed tool_name)
      else if any_match (allowed_tools c) tool_name then Inr ()
      else Inl (ToolNotAllowed tool_name))"

fun found_in :: "ToolPattern \<Rightarrow> ToolPattern list \<Rightarrow> bool" where
  "found_in child [] = False"
| "found_in child (p # ps) = (if pattern_subset child p then True else found_in child ps)"

fun all_found :: "ToolPattern list \<Rightarrow> ToolPattern list \<Rightarrow> bool" where
  "all_found [] parents = True"
| "all_found (c # cs) parents = (if \<not> found_in c parents then False else all_found cs parents)"

definition caps_subset :: "MCPCapabilities \<Rightarrow> MCPCapabilities \<Rightarrow> bool" where
  "caps_subset self parent =
     (if \<not> all_found (allowed_tools self) (allowed_tools parent) then False
      else if rl_max_presentations (rate_limit self) > rl_max_presentations (rate_limit parent)
      then False
      else if \<not> limits_subset (resource_limits self) (resource_limits parent) then False
      else True)"

section \<open>Tool patterns\<close>

lemma any_match_iff [simp]: "any_match ps t \<longleftrightarrow> (\<exists>p\<in>set ps. tool_matches p t)"
  by (induction ps) auto

lemma found_in_iff [simp]: "found_in c ps \<longleftrightarrow> (\<exists>p\<in>set ps. pattern_subset c p)"
  by (induction ps) auto

lemma all_found_iff [simp]: "all_found cs ps \<longleftrightarrow> (\<forall>c\<in>set cs. \<exists>p\<in>set ps. pattern_subset c p)"
  by (induction cs) auto

text \<open>A pattern is unambiguous when dropping its final star does not leave another star.\<close>

definition wf_pattern :: "ToolPattern \<Rightarrow> bool" where
  "wf_pattern p \<longleftrightarrow> (\<nexists>s. pattern p = s @ ''**'')"

lemma matches_star [simp]: "pattern p = s @ ''*'' \<Longrightarrow> tool_matches p t \<longleftrightarrow> starts_with t s"
  by (simp add: tool_matches_def)

lemma subset_star [simp]: "pattern q = s @ ''*'' \<Longrightarrow> pattern_subset p q \<longleftrightarrow> starts_with (pattern p) s"
  by (simp add: pattern_subset_def)

lemma subset_plain: "\<not> ends_with (pattern q) CHR ''*'' \<Longrightarrow> pattern_subset p q \<longleftrightarrow> pattern p = pattern q"
  by (simp add: pattern_subset_def)

text \<open>Every name a pattern matches starts with the pattern less its final star.\<close>

lemma matches_starts_with:
  "tool_matches p t \<Longrightarrow>
   starts_with t (if ends_with (pattern p) CHR ''*'' then butlast (pattern p) else pattern p)"
  by (auto simp: tool_matches_def butlast_conv_take split: if_splits)

lemma wf_star_butlast:
  assumes "wf_pattern q" "pattern q = s @ ''*''" "starts_with r s" "ends_with r CHR ''*''"
  shows "starts_with (butlast r) s"
proof -
  from assms(3) obtain u where r: "r = s @ u"
    by (auto simp: starts_with_iff)
  show ?thesis
  proof (cases "u = []")
    case True
    with r assms(4) obtain v where "s = v @ ''*''"
      by (auto simp: ends_with_conv)
    with assms(1,2) show ?thesis
      by (auto simp: wf_pattern_def)
  next
    case False
    with r show ?thesis
      by (auto simp: starts_with_iff butlast_append)
  qed
qed

lemma star_cases:
  obtains (star) s where "pattern q = s @ ''*''" | (plain) "\<not> ends_with (pattern q) CHR ''*''"
  by (cases "ends_with (pattern q) CHR ''*''") (auto simp: ends_with_conv)

lemma pattern_subset_matches:
  assumes "wf_pattern q" "pattern_subset p q" "tool_matches p t"
  shows "tool_matches q t"
proof (cases q rule: star_cases)
  case (star s)
  with assms(2) have ps: "starts_with (pattern p) s" by simp
  show ?thesis
  proof (cases "ends_with (pattern p) CHR ''*''")
    case True
    with matches_starts_with [OF assms(3)] wf_star_butlast [OF assms(1) star ps True]
    show ?thesis using star by (auto intro: starts_with_trans)
  next
    case False
    with matches_starts_with [OF assms(3)] ps star show ?thesis
      by (auto intro: starts_with_trans)
  qed
next
  case plain
  with assms(2,3) show ?thesis
    by (auto simp: subset_plain tool_matches_def)
qed

lemma pattern_subset_refl: "pattern_subset p p"
  by (cases p rule: star_cases) (simp_all add: subset_plain starts_with_iff)

lemma pattern_subset_trans:
  assumes "wf_pattern r" "pattern_subset p q" "pattern_subset q r"
  shows "pattern_subset p r"
proof (cases r rule: star_cases)
  case (star s)
  with assms(3) have qs: "starts_with (pattern q) s" by simp
  show ?thesis
  proof (cases "ends_with (pattern q) CHR ''*''")
    case True
    then have "starts_with (pattern p) (butlast (pattern q))"
      using assms(2) by (simp add: pattern_subset_def butlast_conv_take)
    with wf_star_butlast [OF assms(1) star qs True] star show ?thesis
      by (auto intro: starts_with_trans)
  next
    case False
    with assms(2) qs star show ?thesis by (simp add: subset_plain)
  qed
next
  case plain
  with assms(2,3) show ?thesis by (auto simp: subset_plain)
qed

interpretation pat: reduction_order wf_pattern pattern_subset tool_matches
  by unfold_locales
    (auto intro: pattern_subset_refl pattern_subset_trans pattern_subset_matches)

section \<open>Resource limits\<close>

text \<open>What a limit grants: amounts up to the limit, or any amount without one.\<close>

definition within :: "'a::len word \<Rightarrow> 'a word option \<Rightarrow> bool" where
  "within n l \<longleftrightarrow> (case l of None \<Rightarrow> True | Some m \<Rightarrow> n \<le> m)"

definition limits_grant :: "ResourceLimits \<Rightarrow> u64 \<times> u64 \<times> u32 \<Rightarrow> bool" where
  "limits_grant l use = (case use of (r, w, c) \<Rightarrow>
     within r (max_read_bytes l) \<and> within w (max_write_bytes l)
       \<and> within c (max_concurrent_requests l))"

lemma limit_ok_refl [simp]: "limit_ok x x"
  by (auto simp: limit_ok_def split: option.splits)

lemma limit_ok_trans: "limit_ok x y \<Longrightarrow> limit_ok y z \<Longrightarrow> limit_ok x z"
  by (auto simp: limit_ok_def not_less split: option.splits)

lemma limit_ok_within: "limit_ok x y \<Longrightarrow> within n x \<Longrightarrow> within n y"
  by (auto simp: limit_ok_def within_def not_less split: option.splits)

lemma limits_subset_iff:
  "limits_subset x y \<longleftrightarrow> limit_ok (max_read_bytes x) (max_read_bytes y)
     \<and> limit_ok (max_write_bytes x) (max_write_bytes y)
     \<and> limit_ok (max_concurrent_requests x) (max_concurrent_requests y)"
  by (simp add: limits_subset_def)

interpretation lim: reduction_order "\<lambda>_. True" limits_subset limits_grant
  by unfold_locales
    (auto simp: limits_subset_iff limits_grant_def intro: limit_ok_trans limit_ok_within)

section \<open>Capabilities\<close>

definition wf_caps :: "MCPCapabilities \<Rightarrow> bool" where
  "wf_caps c \<longleftrightarrow> (\<forall>p\<in>set (allowed_tools c). wf_pattern p)"

text \<open>One use of a credential: a tool name, the ordinal of the presentation, and the
  resources it asks for. \<open>caps_reach\<close> is what the allow list, the presentation budget
  and the resource limits leave open, before the deny list is applied.\<close>

definition caps_reach :: "MCPCapabilities \<Rightarrow> string \<times> u64 \<times> (u64 \<times> u64 \<times> u32) \<Rightarrow> bool" where
  "caps_reach c use = (case use of (t, n, res) \<Rightarrow>
     any_match (allowed_tools c) t \<and> n \<le> rl_max_presentations (rate_limit c)
       \<and> limits_grant (resource_limits c) res)"

lemma caps_subset_iff:
  "caps_subset x y \<longleftrightarrow>
     (\<forall>c\<in>set (allowed_tools x). \<exists>p\<in>set (allowed_tools y). pattern_subset c p)
     \<and> rl_max_presentations (rate_limit x) \<le> rl_max_presentations (rate_limit y)
     \<and> limits_subset (resource_limits x) (resource_limits y)"
  by (auto simp: caps_subset_def not_less)

lemma caps_subset_trans:
  assumes "wf_caps z" "caps_subset x y" "caps_subset y z"
  shows "caps_subset x z"
proof -
  have "\<exists>p\<in>set (allowed_tools z). pattern_subset c p" if c: "c \<in> set (allowed_tools x)" for c
  proof -
    from c assms(2) obtain q where q: "q \<in> set (allowed_tools y)" "pattern_subset c q"
      by (auto simp: caps_subset_iff)
    with assms(3) obtain p where p: "p \<in> set (allowed_tools z)" "pattern_subset q p"
      by (auto simp: caps_subset_iff)
    with q assms(1) show ?thesis
      by (auto simp: wf_caps_def intro: pattern_subset_trans)
  qed
  with assms(2,3) show ?thesis
    by (auto simp: caps_subset_iff intro: lim.le_trans)
qed

lemma caps_subset_reach:
  assumes "wf_caps y" "caps_subset x y" "caps_reach x use"
  shows "caps_reach y use"
proof -
  obtain t n res where u: "use = (t, n, res)" by (cases use)
  with assms obtain c where "c \<in> set (allowed_tools x)" "tool_matches c t"
    by (auto simp: caps_reach_def)
  with assms(1,2) have "any_match (allowed_tools y) t"
    unfolding caps_subset_iff wf_caps_def any_match_iff by (meson pattern_subset_matches)
  with assms(2,3) u show ?thesis
    by (auto simp: caps_reach_def caps_subset_iff intro: lim.le_grants [OF TrueI])
qed

lemma caps_subset_refl: "caps_subset x x"
  by (auto simp: caps_subset_iff lim.le_refl intro: pattern_subset_refl)

interpretation caps: reduction_order wf_caps caps_subset caps_reach
  by unfold_locales (auto intro: caps_subset_refl caps_subset_trans caps_subset_reach)

lemma is_tool_allowed_Inr:
  "is_tool_allowed c t = Inr () \<longleftrightarrow>
     \<not> any_match (denied_tools c) t \<and> any_match (allowed_tools c) t"
  by (simp add: is_tool_allowed_def)

section \<open>Properties\<close>

text \<open>C1 (access check). \<open>is_tool_allowed\<close> accepts a tool exactly when no deny pattern and
  some allow pattern matches it, so the deny list takes precedence whatever the order of
  the lists; every refusal names the refused tool.\<close>

theorem is_tool_allowed_correct:
  "is_tool_allowed c t =
     (if \<not> (\<exists>d\<in>set (denied_tools c). tool_matches d t) \<and> (\<exists>a\<in>set (allowed_tools c). tool_matches a t)
      then Inr () else Inl (ToolNotAllowed t))"
  by (auto simp: is_tool_allowed_def)

text \<open>C2 (attenuation along delegation chains). If every capability set of a delegation chain
  passes \<open>is_subset_of\<close> against its predecessor and no allow pattern ends in two
  stars, then no member of the chain reaches a tool name, a presentation count or a resource
  amount that the root's allow list, presentation budget and resource limits do not reach.\<close>

theorem caps_chain_attenuates:
  assumes "successively (\<lambda>x y. caps_subset y x) (root # cs)"
    and "\<forall>c\<in>set (root # cs). wf_caps c"
    and "leaf \<in> set (root # cs)"
    and "caps_reach leaf use"
  shows "caps_reach root use"
  using assms by (rule caps.chain_grants)

definition sample_limits :: ResourceLimits where
  "sample_limits =
     \<lparr>max_read_bytes = Some 1000000, max_write_bytes = Some 100000, max_concurrent_requests = None\<rparr>"

definition sample_root :: MCPCapabilities where
  "sample_root = \<lparr>allowed_tools = [ToolPattern_new ''filesystem/*''], denied_tools = [],
     resource_limits = sample_limits, rate_limit = daily 1000\<rparr>"

definition sample_leaf :: MCPCapabilities where
  "sample_leaf = \<lparr>allowed_tools = [ToolPattern_new ''filesystem/read_file''], denied_tools = [],
     resource_limits = sample_limits\<lparr>max_read_bytes := Some 500000\<rparr>, rate_limit = daily 500\<rparr>"

lemmas sample_defs = sample_limits_def sample_root_def sample_leaf_def ToolPattern_new_def
  daily_def RateLimitParams_new_def

lemma sample_wf: "wf_caps sample_root" "wf_caps sample_leaf"
  by (auto simp: wf_caps_def wf_pattern_def sample_defs Cons_eq_append_conv)

lemma sample_subset: "caps_subset sample_leaf sample_root"
  by (simp add: caps_subset_iff sample_defs pattern_subset_def ends_with_def starts_with_def
      limits_subset_iff limit_ok_def)

lemma sample_reach: "caps_reach sample_leaf (''filesystem/read_file'', 500, 1, 1, 1)"
  by (simp add: caps_reach_def sample_defs tool_matches_def ends_with_def limits_grant_def within_def)

theorem caps_chain_attenuates_witness:
  "caps_reach sample_root (''filesystem/read_file'', 500, 1, 1, 1)"
  by (rule caps_chain_attenuates [where cs = "[sample_leaf]" and leaf = sample_leaf])
    (simp_all add: sample_wf sample_subset sample_reach)

text \<open>Delegation without loss of denials. When the child also repeats every deny pattern
  of the parent, the access check itself is monotone: a tool the child may call, the parent
  may call.\<close>

theorem subset_with_denials_sound:
  assumes "wf_caps parent" and "caps_subset child parent"
    and "set (denied_tools parent) \<subseteq> set (denied_tools child)"
    and "is_tool_allowed child t = Inr ()"
  shows "is_tool_allowed parent t = Inr ()"
proof -
  from assms(4) obtain c where c: "c \<in> set (allowed_tools child)" "tool_matches c t"
    and nd: "\<not> any_match (denied_tools child) t"
    by (auto simp: is_tool_allowed_Inr)
  from c(1) assms(2) obtain p where "p \<in> set (allowed_tools parent)" "pattern_subset c p"
    by (auto simp: caps_subset_iff)
  with c(2) assms(1) have "any_match (allowed_tools parent) t"
    by (auto simp: wf_caps_def dest: pattern_subset_matches)
  with nd assms(3) show ?thesis
    by (auto simp: is_tool_allowed_Inr)
qed

theorem subset_with_denials_sound_witness:
  "is_tool_allowed sample_root ''filesystem/read_file'' = Inr ()"
  by (rule subset_with_denials_sound [where child = sample_leaf])
    (simp_all add: sample_wf sample_subset,
     simp_all add: is_tool_allowed_Inr sample_defs tool_matches_def ends_with_def)

text \<open>Deny lists are not inherited. \<open>is_subset_of\<close> never looks at the deny lists: the
  parent's capabilities with an empty deny list pass the check, and they admit every tool
  the parent's allow list matches, including the ones the parent is denied.\<close>

theorem denials_dropped_on_delegation:
  assumes "a \<in> set (allowed_tools parent)" and "tool_matches a t"
    and "d \<in> set (denied_tools parent)" and "tool_matches d t"
  shows "(caps_subset (parent\<lparr>denied_tools := []\<rparr>) parent)
    \<and> (is_tool_allowed (parent\<lparr>denied_tools := []\<rparr>) t = Inr ())
    \<and> (is_tool_allowed parent t = Inl (ToolNotAllowed t))"
  using assms caps_subset_refl [of parent]
  by (auto simp: caps_subset_iff is_tool_allowed_def)

theorem denials_dropped_on_delegation_witness:
  "caps_subset sample_root (sample_root\<lparr>denied_tools := [ToolPattern_new ''filesystem/execute'']\<rparr>)
   \<and> is_tool_allowed sample_root ''filesystem/execute'' = Inr ()
   \<and> is_tool_allowed (sample_root\<lparr>denied_tools := [ToolPattern_new ''filesystem/execute'']\<rparr>)
       ''filesystem/execute'' = Inl (ToolNotAllowed ''filesystem/execute'')"
proof -
  let ?parent = "sample_root\<lparr>denied_tools := [ToolPattern_new ''filesystem/execute'']\<rparr>"
  have "ToolPattern_new ''filesystem/*'' \<in> set (allowed_tools ?parent)"
    and "tool_matches (ToolPattern_new ''filesystem/*'') ''filesystem/execute''"
    and "ToolPattern_new ''filesystem/execute'' \<in> set (denied_tools ?parent)"
    and "tool_matches (ToolPattern_new ''filesystem/execute'') ''filesystem/execute''"
    by (simp_all add: sample_root_def ToolPattern_new_def tool_matches_def ends_with_def
        starts_with_def)
  from denials_dropped_on_delegation [OF this] show ?thesis
    by (simp add: sample_root_def)
qed

text \<open>Patterns ending in two stars. For every stem \<open>s\<close>, the pattern \<open>s*\<close> passes
  \<open>is_subset_of\<close> against \<open>s**\<close>, although \<open>s*\<close> matches the tool named \<open>s\<close> and
  \<open>s**\<close> does not: the subset check on patterns is unsound there.\<close>

theorem double_star_escalates:
  "pattern_subset (ToolPattern_new (s @ ''*'')) (ToolPattern_new (s @ ''**''))
   \<and> tool_matches (ToolPattern_new (s @ ''*'')) s
   \<and> \<not> tool_matches (ToolPattern_new (s @ ''**'')) s"
proof -
  have two: "s @ ''**'' = (s @ ''*'') @ ''*''" by simp
  show ?thesis
    unfolding two
    by (simp add: ToolPattern_new_def starts_with_def)
qed

text \<open>Serialised windows. Serialising a rate limit window keeps whole seconds only:
  reading it back gives the same window exactly when it had no fraction of a second, and
  the windows built by \<open>daily\<close> and \<open>hourly\<close> survive.\<close>

lemma window_serde_roundtrip:
  "duration_deserialize (duration_serialize d) = d \<longleftrightarrow> dur_nanos d = 0"
  "duration_deserialize (duration_serialize (rl_window (daily m))) = rl_window (daily m)"
  "duration_deserialize (duration_serialize (rl_window (hourly m))) = rl_window (hourly m)"
  by (cases d, auto simp: duration_deserialize_def duration_serialize_def duration_from_secs_def
      daily_def hourly_def RateLimitParams_new_def)

end
