(* ===== verification/Json.thy ===== *)
theory Json
  imports Acdp_Prelude "HOL-Library.Char_ord" "HOL-Library.List_Lexorder"
begin

text \<open>
  JSON documents as the Rust code sees them through \<open>serde_json::Value\<close>: numbers are
  unsigned or negative 64-bit integers or an IEEE double (kept as its bit pattern), and an
  object is \<open>serde_json::Map\<close>, a \<open>BTreeMap\<close> with its keys in byte order (no
  \<open>preserve_order\<close> feature is enabled in the workspace), represented by its sorted
  association list. The interface \<open>field_map\<close> states what clients rely on; the object
  operations interpret it.
\<close>

section \<open>Values\<close>

datatype json_number = PosInt u64 | NegInt int | Float u64

datatype json =
    Null
  | Bool bool
  | Number json_number
  | String string
  | Array "json list"
  | Object "(string \<times> json) list"

section \<open>Object operations\<close>

type_synonym 'v obj = "(string \<times> 'v) list"

definition obj_get :: "'v obj \<Rightarrow> string \<Rightarrow> 'v option" where
  "obj_get m k = map_of m k"

fun obj_insert :: "string \<Rightarrow> 'v \<Rightarrow> 'v obj \<Rightarrow> 'v obj" where
  "obj_insert k v [] = [(k, v)]"
| "obj_insert k v ((k', v') # m) =
     (if k = k' then (k, v) # m
      else if k < k' then (k, v) # (k', v') # m
      else (k', v') # obj_insert k v m)"

definition obj_remove :: "string \<Rightarrow> 'v obj \<Rightarrow> 'v obj" where
  "obj_remove k m = filter (\<lambda>(k', _). k' \<noteq> k) m"

definition obj_wf :: "'v obj \<Rightarrow> bool" where
  "obj_wf m \<longleftrightarrow> sorted_wrt (<) (map fst m)"

text \<open>The contract of a field map: what a lookup returns after an insertion or a removal,
  and that every operation keeps the representation invariant.\<close>

locale field_map =
  fixes get :: "'m \<Rightarrow> string \<Rightarrow> 'v option"
    and ins :: "string \<Rightarrow> 'v \<Rightarrow> 'm \<Rightarrow> 'm"
    and rem :: "string \<Rightarrow> 'm \<Rightarrow> 'm"
    and empty :: 'm
    and wf :: "'m \<Rightarrow> bool"
  assumes get_empty: "get empty k = None"
    and get_ins: "get (ins k v m) k' = (if k' = k then Some v else get m k')"
    and get_rem: "get (rem k m) k' = (if k' = k then None else get m k')"
    and wf_empty: "wf empty"
    and wf_ins: "wf m \<Longrightarrow> wf (ins k v m)"
    and wf_rem: "wf m \<Longrightarrow> wf (rem k m)"
begin

text \<open>Renaming a field as the code does it: remove, and when there was a value, insert it
  under the new name.\<close>

definition rename :: "string \<Rightarrow> string \<Rightarrow> 'm \<Rightarrow> 'm" where
  "rename old new m = (case get m old of None \<Rightarrow> m | Some v \<Rightarrow> ins new v (rem old m))"

lemma get_rename:
  "get m old = Some v \<Longrightarrow>
   get (rename old new m) k = (if k = new then Some v else if k = old then None else get m k)"
  by (simp add: rename_def get_ins get_rem)

lemma wf_rename: "wf m \<Longrightarrow> wf (rename old new m)"
  by (simp add: rename_def wf_ins wf_rem split: option.split)

end

lemma obj_get_insert: "obj_get (obj_insert k v m) k' = (if k' = k then Some v else obj_get m k')"
  by (induction m) (auto simp: obj_get_def)

lemma obj_get_remove: "obj_get (obj_remove k m) k' = (if k' = k then None else obj_get m k')"
  by (induction m) (auto simp: obj_get_def obj_remove_def)

lemma keys_obj_insert: "set (map fst (obj_insert k v m)) = insert k (set (map fst m))"
proof (induction m)
  case (Cons a m)
  obtain k' v' where "a = (k', v')" by (cases a)
  with Cons show ?case by (simp add: insert_commute del: set_map)
qed simp

lemma obj_wf_insert: "obj_wf m \<Longrightarrow> obj_wf (obj_insert k v m)"
proof (induction m)
  case Nil
  then show ?case by (simp add: obj_wf_def)
next
  case (Cons a m)
  obtain k' v' where a: "a = (k', v')" by (cases a)
  show ?case
  proof (cases "k' < k")
    case True
    with Cons a show ?thesis
      by (auto simp: obj_wf_def keys_obj_insert simp del: set_map)
  next
    case False
    then have "k = k' \<or> k < k'" by auto
    with Cons.prems a show ?thesis
      by (auto simp: obj_wf_def simp del: set_map intro: less_trans)
  qed
qed

lemma obj_wf_remove: "obj_wf m \<Longrightarrow> obj_wf (obj_remove k m)"
  by (induction m) (auto simp: obj_wf_def obj_remove_def)

interpretation obj: field_map obj_get obj_insert obj_remove "[]" obj_wf
  by unfold_locales
    (auto simp: obj_get_insert obj_get_remove obj_wf_insert obj_wf_remove,
     simp_all add: obj_get_def obj_wf_def)

text \<open>Two well-formed objects with the same lookups are the same map.\<close>

lemma obj_get_None_iff: "obj_get m k = None \<longleftrightarrow> k \<notin> fst ` set m"
  by (simp add: obj_get_def map_of_eq_None_iff)

lemma obj_eqI:
  assumes "obj_wf m" "obj_wf m'" "\<And>k. obj_get m k = obj_get m' k"
  shows "m = m'"
proof (rule map_sorted_distinct_set_unique)
  have d: "distinct (map fst m)" "distinct (map fst m')"
    using assms(1,2) by (auto simp: obj_wf_def strict_sorted_iff)
  then show "distinct (map fst m)" "distinct (map fst m')" .
  show "sorted (map fst m)" "sorted (map fst m')"
    using assms(1,2) by (auto simp: obj_wf_def strict_sorted_iff)
  have "map_of m = map_of m'"
    using assms(3) by (auto simp: obj_get_def)
  then show eq: "set m = set m'"
    using d by (metis map_of_inject_set)
  from d eq show "inj_on fst (set m \<union> set m')"
    by (simp add: distinct_map)
qed

section \<open>Accessors of \<open>serde_json::Value\<close>\<close>

definition as_str :: "json \<Rightarrow> string option" where
  "as_str v = (case v of String s \<Rightarrow> Some s | _ \<Rightarrow> None)"

definition as_object :: "json \<Rightarrow> json obj option" where
  "as_object v = (case v of Object m \<Rightarrow> Some m | _ \<Rightarrow> None)"

definition as_i64 :: "json \<Rightarrow> int option" where
  "as_i64 v = (case v of
     Number (PosInt n) \<Rightarrow> if uint n < 2 ^ 63 then Some (uint n) else None
   | Number (NegInt i) \<Rightarrow> Some i
   | _ \<Rightarrow> None)"

definition number_from_i64 :: "int \<Rightarrow> json_number" where
  "number_from_i64 i = (if i < 0 then NegInt i else PosInt (word_of_int i))"

lemma as_i64_from_i64: "- (2 ^ 63) \<le> i \<Longrightarrow> i < 2 ^ 63 \<Longrightarrow> as_i64 (Number (number_from_i64 i)) = Some i"
  by (simp add: as_i64_def number_from_i64_def uint_word_of_int)

text \<open>\<open>Value::get\<close> with a string index: a field of an object; any other value has none.\<close>

definition value_get :: "json \<Rightarrow> string \<Rightarrow> json option" where
  "value_get v k = (case v of Object m \<Rightarrow> obj_get m k | _ \<Rightarrow> None)"

end
