(* ===== verification/Identity.thy ===== *)
theory Identity
  imports Acdp_Error Json
begin

text \<open>
  Human principals and agents (\<open>acdp-auth/src/principal.rs\<close>,
  \<open>acdp-auth/src/agent.rs\<close>). Third-party operations are fields of the record
  \<open>auth_ext\<close>, an argument of every operation that calls them: the Ed25519 key and
  signature parsers and verifier, hexadecimal decoding, the URL syntax check of the
  \<open>validator\<close> crate and the text it prints for a list of failing fields. A foreign
  error is represented by its \<open>Display\<close> text.
\<close>

section \<open>Third-party operations\<close>

text \<open>Instants are nanoseconds since the Unix epoch; \<open>timestamp\<close> is whole seconds.\<close>

type_synonym datetime = int

definition timestamp :: "datetime \<Rightarrow> int" where
  "timestamp t = t div 1000000000"

record auth_ext =
  pk_from_slice :: "bytes \<Rightarrow> string + bytes"
  sig_from_slice :: "bytes \<Rightarrow> string + bytes"
  ed_verify :: "bytes \<Rightarrow> bytes \<Rightarrow> bytes \<Rightarrow> string + unit"
  hex_encode :: "bytes \<Rightarrow> string"
  hex_decode :: "string \<Rightarrow> string + bytes"
  is_url :: "string \<Rightarrow> bool"
  verr_display :: "string list \<Rightarrow> string"

text \<open>The field checks of a \<open>validate()\<close> call: the names of the failing fields, in
  declaration order, make an error unless there are none.\<close>

definition validate_fields :: "auth_ext \<Rightarrow> (string \<times> bool) list \<Rightarrow> string + unit" where
  "validate_fields X checks =
     (let bad = map fst (filter (\<lambda>(_, ok). \<not> ok) checks)
      in if bad = [] then Inr () else Inl (verr_display X bad))"

lemma validate_fields_Inr:
  "validate_fields X checks = Inr () \<longleftrightarrow> (\<forall>(n, ok)\<in>set checks. ok)"
  by (auto simp: validate_fields_def Let_def filter_empty_conv)

section \<open>Principals\<close>

record AdditionalClaims =
  email :: "string option"
  claim_name :: "string option"
  org :: "string option"
  groups :: "string list option"
  custom :: "json obj"

record Principal =
  human_id :: string
  idp_issuer :: string
  idp_client_id :: string
  additional_claims :: "AdditionalClaims option"

definition principal_checks :: "auth_ext \<Rightarrow> Principal \<Rightarrow> (string \<times> bool) list" where
  "principal_checks X p =
     [(''human_id'', length_between 1 255 (human_id p)),
      (''idp_issuer'', is_url X (idp_issuer p)),
      (''idp_client_id'', length_between 1 255 (idp_client_id p))]"

definition from_id_jag ::
  "auth_ext \<Rightarrow> string \<Rightarrow> string \<Rightarrow> string \<Rightarrow> Principal acdp_result" where
  "from_id_jag X hid iss cid =
     (let principal = \<lparr>human_id = hid, idp_issuer = iss, idp_client_id = cid,
                       additional_claims = None\<rparr>
      in and_then (map_err (\<lambda>e. InvalidIDJAG (''Invalid principal: '' @ e))
                     (validate_fields X (principal_checks X principal)))
           (\<lambda>_. Inr principal))"

definition with_claims :: "Principal \<Rightarrow> AdditionalClaims \<Rightarrow> Principal" where
  "with_claims p claims = p\<lparr>additional_claims := Some claims\<rparr>"

definition canonical_id :: "Principal \<Rightarrow> string" where
  "canonical_id p = human_id p @ ''@'' @ idp_issuer p"

definition verify_id_jag :: "Principal \<Rightarrow> string \<Rightarrow> string \<Rightarrow> string \<Rightarrow> unit acdp_result" where
  "verify_id_jag p sub iss client_id =
     (if human_id p \<noteq> sub then
        Inl (InvalidIDJAG (''Principal human_id mismatch: '' @ human_id p @ '' != '' @ sub))
      else if idp_issuer p \<noteq> iss then
        Inl (InvalidIDJAG (''Principal idp_issuer mismatch: '' @ idp_issuer p @ '' != '' @ iss))
      else if idp_client_id p \<noteq> client_id then
        Inl (InvalidIDJAG
          (''Principal idp_client_id mismatch: '' @ idp_client_id p @ '' != '' @ client_id))
      else Inr ())"

definition principal_valid :: "auth_ext \<Rightarrow> Principal \<Rightarrow> bool" where
  "principal_valid X p \<longleftrightarrow> length_between 1 255 (human_id p) \<and> is_url X (idp_issuer p)
     \<and> length_between 1 255 (idp_client_id p)"

lemma from_id_jag_Inr:
  "from_id_jag X hid iss cid = Inr p \<longleftrightarrow>
     p = \<lparr>human_id = hid, idp_issuer = iss, idp_client_id = cid, additional_claims = None\<rparr>
     \<and> principal_valid X p"
  by (auto simp: from_id_jag_def res_simps validate_fields_Inr principal_checks_def
      principal_valid_def)

lemma from_id_jag_Inl:
  "from_id_jag X hid iss cid = Inl e \<Longrightarrow> \<exists>s. e = InvalidIDJAG (''Invalid principal: '' @ s)"
  by (auto simp: from_id_jag_def res_simps Let_def)

lemma with_claims_valid: "principal_valid X p \<Longrightarrow> principal_valid X (with_claims p c)"
  by (simp add: principal_valid_def with_claims_def)

lemma verify_id_jag_Inr:
  "verify_id_jag p sub iss cid = Inr () \<longleftrightarrow>
     human_id p = sub \<and> idp_issuer p = iss \<and> idp_client_id p = cid"
  by (simp add: verify_id_jag_def)

text \<open>Principals. A principal is built from ID-JAG claims exactly when the subject and the
  client id have between 1 and 255 characters and the issuer is a URL; it then verifies
  against the claims it was built from and against no others, with or without additional
  claims attached.\<close>

theorem principal_binds_claims:
  assumes "from_id_jag X hid iss cid = Inr p"
  shows "(principal_valid X p)
    \<and> (verify_id_jag (with_claims p claims) sub' iss' cid' = Inr ()
           \<longleftrightarrow> sub' = hid \<and> iss' = iss \<and> cid' = cid)
    \<and> (canonical_id p = hid @ ''@'' @ iss)"
  using assms
  by (auto simp: from_id_jag_Inr verify_id_jag_Inr with_claims_def canonical_id_def)

definition sample_ext :: auth_ext where
  "sample_ext = \<lparr>pk_from_slice = (\<lambda>b. if length b = 32 then Inr b else Inl ''bad key''),
     sig_from_slice = (\<lambda>b. Inr b),
     ed_verify = (\<lambda>pk m s. if s = pk @ m then Inr () else Inl ''signature mismatch''),
     hex_encode = (\<lambda>b. map (\<lambda>x. char_of (unat x)) b),
     hex_decode = (\<lambda>s. Inr (str_bytes s)),
     is_url = (\<lambda>s. starts_with s ''https://''),
     verr_display = (\<lambda>fs. join_strings '', '' fs)\<rparr>"

definition sample_claims :: AdditionalClaims where
  "sample_claims = \<lparr>email = None, claim_name = Some ''Alice'', org = None, groups = None,
     custom = []\<rparr>"

definition sample_principal :: Principal where
  "sample_principal = \<lparr>human_id = ''alice@acme.com'', idp_issuer = ''https://acme.idp'',
     idp_client_id = ''mcp-client'', additional_claims = None\<rparr>"

lemma sample_principal_valid: "principal_valid sample_ext sample_principal"
  by (simp add: principal_valid_def sample_principal_def sample_ext_def length_between_def
      char_count_def starts_with_def)

theorem principal_binds_claims_witness:
  "verify_id_jag (with_claims sample_principal sample_claims)
     ''bob@acme.com'' ''https://acme.idp'' ''mcp-client'' \<noteq> Inr ()
   \<and> canonical_id sample_principal = ''alice@acme.com@https://acme.idp''"
proof -
  have "from_id_jag sample_ext ''alice@acme.com'' ''https://acme.idp'' ''mcp-client''
      = Inr sample_principal"
    unfolding from_id_jag_Inr using sample_principal_valid by (simp add: sample_principal_def)
  from principal_binds_claims [OF this, of sample_claims "''bob@acme.com''"
      "''https://acme.idp''" "''mcp-client''"]
  show ?thesis by simp
qed

section \<open>Agents\<close>

record AgentMetadata =
  agent_version :: "string option"
  code_hash :: "string option"
  build_timestamp :: "datetime option"
  capabilities_description :: "string option"
  agent_custom :: "json obj"

record Agent =
  agent_id :: string
  public_key :: bytes
  platform :: string
  verified :: bool
  agent_metadata :: "AgentMetadata option"

definition agent_checks :: "Agent \<Rightarrow> (string \<times> bool) list" where
  "agent_checks a =
     [(''agent_id'', length_between 1 255 (agent_id a)),
      (''platform'', length_between 1 100 (platform a))]"

definition Agent_new ::
  "auth_ext \<Rightarrow> string \<Rightarrow> bytes \<Rightarrow> string \<Rightarrow> bool \<Rightarrow> Agent acdp_result" where
  "Agent_new X aid pk plat ver =
     (let agent = \<lparr>agent_id = aid, public_key = pk, platform = plat, verified = ver,
                   agent_metadata = None\<rparr>
      in and_then (map_err (\<lambda>e. InvalidCredential (''Invalid agent: '' @ e))
                     (validate_fields X (agent_checks agent)))
           (\<lambda>_. Inr agent))"

definition with_metadata :: "Agent \<Rightarrow> AgentMetadata \<Rightarrow> Agent" where
  "with_metadata a m = a\<lparr>agent_metadata := Some m\<rparr>"

definition public_key_bytes :: "Agent \<Rightarrow> bytes" where
  "public_key_bytes a = public_key a"

definition agent_verify_signature :: "auth_ext \<Rightarrow> Agent \<Rightarrow> bytes \<Rightarrow> bytes \<Rightarrow> unit acdp_result" where
  "agent_verify_signature X a message signature =
     and_then (map_err (\<lambda>e. CryptoError (''Invalid signature: '' @ e)) (sig_from_slice X signature))
       (\<lambda>sig. and_then
          (map_err (\<lambda>e. CryptoError (''Signature verification failed: '' @ e))
             (ed_verify X (public_key a) message sig))
          (\<lambda>_. Inr ()))"

text \<open>The hexadecimal serde representation of a public key.\<close>

definition public_key_serialize :: "auth_ext \<Rightarrow> bytes \<Rightarrow> string" where
  "public_key_serialize X key = hex_encode X key"

definition public_key_deserialize :: "auth_ext \<Rightarrow> string \<Rightarrow> string + bytes" where
  "public_key_deserialize X hex_string =
     and_then (hex_decode X hex_string) (\<lambda>bs. pk_from_slice X bs)"

definition agent_valid :: "Agent \<Rightarrow> bool" where
  "agent_valid a \<longleftrightarrow> length_between 1 255 (agent_id a) \<and> length_between 1 100 (platform a)"

lemma Agent_new_Inr:
  "Agent_new X aid pk plat ver = Inr a \<longleftrightarrow>
     a = \<lparr>agent_id = aid, public_key = pk, platform = plat, verified = ver, agent_metadata = None\<rparr>
     \<and> agent_valid a"
  by (auto simp: Agent_new_def res_simps validate_fields_Inr agent_checks_def agent_valid_def)

lemma Agent_new_Inl:
  "Agent_new X aid pk plat ver = Inl e \<Longrightarrow> \<exists>s. e = InvalidCredential (''Invalid agent: '' @ s)"
  by (auto simp: Agent_new_def res_simps Let_def)

lemma agent_verify_signature_Inr:
  "agent_verify_signature X a m s = Inr () \<longleftrightarrow>
     (\<exists>sig. sig_from_slice X s = Inr sig \<and> ed_verify X (public_key a) m sig = Inr ())"
  by (auto simp: agent_verify_signature_def res_simps)

lemma public_key_serde_roundtrip:
  "hex_decode X (hex_encode X key) = Inr key \<Longrightarrow> pk_from_slice X key = Inr key \<Longrightarrow>
   public_key_deserialize X (public_key_serialize X key) = Inr key"
  by (simp add: public_key_deserialize_def public_key_serialize_def)

end
