(* ===== verification/Delegation.thy ===== *)
theory Delegation
  imports Identity "HOL-Library.Multiset"
begin

text \<open>
  Delegation rights, proofs and chains (\<open>acdp-auth/src/delegation.rs\<close>): who may
  delegate how often, the bytes a delegator signs, the chain with its 8-bit depth, its
  verification and its audit trail.
\<close>

section \<open>Data\<close>

datatype CapabilityReductionPolicy = MustReduce | AllowSame

record DelegationRights =
  can_delegate :: bool
  max_delegation_depth :: u8
  capability_reduction_policy :: CapabilityReductionPolicy

text \<open>A UUID is its 128-bit value; \<open>as_bytes\<close> is big-endian.\<close>

type_synonym uuid = "128 word"

definition uuid_bytes :: "uuid \<Rightarrow> bytes" where
  "uuid_bytes u = rev (le_bytes 16 (uint u))"

record DelegationProof =
  delegator :: string
  delegatee :: string
  parent_credential_id :: uuid
  delegated_credential_id :: uuid
  proof_timestamp :: datetime
  capabilities_reduced :: bool
  proof_signature :: bytes

record DelegationChain =
  proofs :: "DelegationProof list"

section \<open>Operations\<close>

definition allow_delegation :: "u8 \<Rightarrow> DelegationRights" where
  "allow_delegation max_depth = \<lparr>can_delegate = True, max_delegation_depth = max_depth,
     capability_reduction_policy = MustReduce\<rparr>"

definition no_delegation :: DelegationRights where
  "no_delegation = \<lparr>can_delegate = False, max_delegation_depth = 0,
     capability_reduction_policy = MustReduce\<rparr>"

definition can_delegate_at_depth :: "DelegationRights \<Rightarrow> u8 \<Rightarrow> unit acdp_result" where
  "can_delegate_at_depth r current_depth =
     (if \<not> can_delegate r then
        Inl (DelegationNotAllowed ''Delegation not permitted for this credential'')
      else if current_depth \<ge> max_delegation_depth r then
        Inl (DelegationDepthExceeded current_depth (max_delegation_depth r))
      else Inr ())"

text \<open>The argument \<open>now\<close> is \<open>Utc::now()\<close>.\<close>

definition DelegationProof_new ::
  "datetime \<Rightarrow> string \<Rightarrow> string \<Rightarrow> uuid \<Rightarrow> uuid \<Rightarrow> bool \<Rightarrow> bytes \<Rightarrow> DelegationProof" where
  "DelegationProof_new now d1 d2 pid did red sig =
     \<lparr>delegator = d1, delegatee = d2, parent_credential_id = pid, delegated_credential_id = did,
      proof_timestamp = now, capabilities_reduced = red, proof_signature = sig\<rparr>"

definition proof_signing_data :: "DelegationProof \<Rightarrow> bytes" where
  "proof_signing_data p =
     str_bytes (delegator p) @ str_bytes (delegatee p)
     @ uuid_bytes (parent_credential_id p) @ uuid_bytes (delegated_credential_id p)
     @ le_bytes 8 (timestamp (proof_timestamp p))
     @ [if capabilities_reduced p then 1 else 0]"

definition proof_verify :: "auth_ext \<Rightarrow> DelegationProof \<Rightarrow> bytes \<Rightarrow> unit acdp_result" where
  "proof_verify X p delegator_public_key =
     and_then (map_err (\<lambda>e. CryptoError (''Invalid public key: '' @ e))
                 (pk_from_slice X delegator_public_key))
       (\<lambda>pk. and_then
          (map_err (\<lambda>e. InvalidCredential (''Delegation proof verification failed: '' @ e))
             (ed_verify X pk (proof_signing_data p) (proof_signature p)))
          (\<lambda>_. Inr ()))"

definition chain_new :: DelegationChain where
  "chain_new = \<lparr>proofs = []\<rparr>"

definition add_proof :: "DelegationChain \<Rightarrow> DelegationProof \<Rightarrow> DelegationChain" where
  "add_proof c p = c\<lparr>proofs := proofs c @ [p]\<rparr>"

definition depth :: "DelegationChain \<Rightarrow> u8" where
  "depth c = of_nat (length (proofs c))"

definition chain_verify ::
  "auth_ext \<Rightarrow> (string \<Rightarrow> bytes acdp_result) \<Rightarrow> DelegationChain \<Rightarrow> unit acdp_result" where
  "chain_verify X get_public_key c =
     try_each (\<lambda>p. and_then (get_public_key (delegator p)) (\<lambda>key. proof_verify X p key)) (proofs c)"

text \<open>The arrow between the names is U+2192, three bytes in UTF-8.\<close>

definition arrow :: string where
  "arrow = '' '' @ [CHR 0xE2, CHR 0x86, CHR 0x92] @ '' ''"

definition audit_trail :: "DelegationChain \<Rightarrow> string list" where
  "audit_trail c = map (\<lambda>p. delegator p @ arrow @ delegatee p) (proofs c)"

definition check_depth :: "DelegationChain \<Rightarrow> u8 \<Rightarrow> unit acdp_result" where
  "check_depth c max_depth =
     (if depth c > max_depth then Inl (DelegationDepthExceeded (depth c) max_depth) else Inr ())"

text \<open>The hexadecimal serde representation of a signature.\<close>

definition signature_serialize :: "auth_ext \<Rightarrow> bytes \<Rightarrow> string" where
  "signature_serialize X sig = hex_encode X sig"

definition signature_deserialize :: "auth_ext \<Rightarrow> string \<Rightarrow> string + bytes" where
  "signature_deserialize X hex_string =
     and_then (hex_decode X hex_string) (\<lambda>bs. sig_from_slice X bs)"

section \<open>Lemmas\<close>

lemma signature_serde_roundtrip:
  "hex_decode X (hex_encode X sig) = Inr sig \<Longrightarrow> sig_from_slice X sig = Inr sig \<Longrightarrow>
   signature_deserialize X (signature_serialize X sig) = Inr sig"
  by (simp add: signature_deserialize_def signature_serialize_def)

lemma unat_depth: "unat (depth c) = length (proofs c) mod 256"
  by (simp add: depth_def unat_of_nat)

lemma depth_chain_new [simp]: "depth chain_new = 0"
  by (simp add: depth_def chain_new_def)

lemma depth_add_proof [simp]: "depth (add_proof c p) = depth c + 1"
  by (simp add: depth_def add_proof_def)

lemma can_delegate_at_depth_Inr:
  "can_delegate_at_depth r d = Inr () \<longleftrightarrow> can_delegate r \<and> d < max_delegation_depth r"
  by (auto simp: can_delegate_at_depth_def not_le)

lemma proof_verify_Inr:
  "proof_verify X p key = Inr () \<longleftrightarrow>
     (\<exists>pk. pk_from_slice X key = Inr pk
        \<and> ed_verify X pk (proof_signing_data p) (proof_signature p) = Inr ())"
  by (auto simp: proof_verify_def res_simps)

lemma length_uuid_bytes [simp]: "length (uuid_bytes u) = 16"
  by (simp add: uuid_bytes_def)

lemma uuid_bytes_inject [simp]: "uuid_bytes u = uuid_bytes v \<longleftrightarrow> u = v"
proof
  assume "uuid_bytes u = uuid_bytes v"
  then have "uint u mod 256 ^ 16 = uint v mod 256 ^ 16"
    unfolding uuid_bytes_def by (intro le_bytes_inject_mod) simp
  then have "uint u mod 2 ^ 128 = uint v mod 2 ^ 128" by simp
  moreover have "uint w mod 2 ^ 128 = uint w" for w :: uuid
    using unsigned_less [where ?'a = int, of w] by (intro mod_pos_pos_trivial) simp_all
  ultimately have "uint u = uint v" by simp
  then show "u = v" by (simp add: word_uint_eq_iff)
qed simp

text \<open>A chain built by guarded delegations: each proof is appended only after
  \<open>can_delegate_at_depth\<close> accepted the current depth.\<close>

inductive delegated :: "DelegationRights \<Rightarrow> DelegationChain \<Rightarrow> bool" for r where
  root: "delegated r chain_new"
| delegate: "delegated r c \<Longrightarrow> can_delegate_at_depth r (depth c) = Inr () \<Longrightarrow>
    delegated r (add_proof c p)"

inductive_cases delegated_addE: "delegated r (add_proof c p)"

lemma delegated_length:
  "delegated r c \<Longrightarrow> length (proofs c) \<le> unat (max_delegation_depth r)"
proof (induction rule: delegated.induct)
  case root
  then show ?case by (simp add: chain_new_def)
next
  case (delegate c p)
  have "unat (max_delegation_depth r) < 256"
    by (rule unat_u8_less)
  with delegate.IH have "unat (depth c) = length (proofs c)"
    by (simp add: unat_depth)
  moreover from delegate.hyps(2) have "depth c < max_delegation_depth r"
    by (simp add: can_delegate_at_depth_Inr)
  ultimately show ?case
    by (simp add: add_proof_def word_less_nat_alt)
qed

section \<open>Properties\<close>

text \<open>C40 (bounded delegation). Starting from the empty chain and delegating only when
  \<open>can_delegate_at_depth\<close> accepts the current depth, a chain never has more proofs than
  the rights' maximum; its 8-bit depth is then exact and \<open>check_depth\<close> accepts it.\<close>

theorem guarded_delegation_bounded:
  assumes "delegated r c"
  shows "(length (proofs c) \<le> unat (max_delegation_depth r))
    \<and> (unat (depth c) = length (proofs c))
    \<and> (check_depth c (max_delegation_depth r) = Inr ())"
proof (intro conjI)
  show len: "length (proofs c) \<le> unat (max_delegation_depth r)"
    using assms by (rule delegated_length)
  also have "\<dots> < 256" by (rule unat_u8_less)
  finally show "unat (depth c) = length (proofs c)" by (simp add: unat_depth)
  with len show "check_depth c (max_delegation_depth r) = Inr ()"
    by (simp add: check_depth_def word_less_nat_alt)
qed

definition sample_proof :: DelegationProof where
  "sample_proof = DelegationProof_new 5000000000 ''agent://a'' ''agent://b'' 1 2 True []"

theorem guarded_delegation_bounded_witness:
  "check_depth (add_proof chain_new sample_proof) (max_delegation_depth (allow_delegation 1)) = Inr ()"
proof -
  have "delegated (allow_delegation 1) (add_proof chain_new sample_proof)"
    by (rule delegated.delegate [OF delegated.root])
      (simp add: can_delegate_at_depth_Inr allow_delegation_def)
  from guarded_delegation_bounded [OF this] show ?thesis by simp
qed

text \<open>The depth check is modulo 256. For an arbitrary chain, as it arrives over the wire,
  \<open>check_depth\<close> compares the number of proofs modulo 256: any chain whose length is a
  multiple of 256 passes every limit, even the limit 0 that forbids delegation.\<close>

theorem check_depth_wraps:
  "(check_depth c m = Inr () \<longleftrightarrow> length (proofs c) mod 256 \<le> unat m)
    \<and> (256 dvd length (proofs c) \<longrightarrow> check_depth c 0 = Inr ())"
  by (simp_all add: check_depth_def word_less_nat_alt unat_depth not_less)

theorem check_depth_wraps_witness:
  "check_depth \<lparr>proofs = replicate 256 sample_proof\<rparr> 0 = Inr ()"
  by (rule check_depth_wraps [THEN conjunct2, THEN mp]) simp

text \<open>Chain verification. A chain verifies exactly when the key of every delegator is
  found, parses and accepts that proof's signing data; otherwise the error is the one of the
  first failing proof.\<close>

theorem chain_verify_correct:
  "(chain_verify X keys c = Inr () \<longleftrightarrow>
     list_all (\<lambda>p. \<exists>key pk. keys (delegator p) = Inr key \<and> pk_from_slice X key = Inr pk
        \<and> ed_verify X pk (proof_signing_data p) (proof_signature p) = Inr ()) (proofs c))
    \<and> (chain_verify X keys c = Inl e \<longleftrightarrow>
     (\<exists>p. find (\<lambda>p. and_then (keys (delegator p)) (proof_verify X p) \<noteq> Inr ()) (proofs c) = Some p
        \<and> and_then (keys (delegator p)) (proof_verify X p) = Inl e))"
  unfolding chain_verify_def try_each_Inr try_each_Inl
  by (intro conjI) (auto simp: and_then_eq_Inr proof_verify_Inr list_all_iff)

text \<open>Links are not checked. Verification looks at each proof alone: whether a chain
  verifies depends only on the set of its proofs, so reordering, repeating or dropping
  proofs of a verified chain leaves a verified chain, although the audit trail changes.\<close>

theorem chain_verify_ignores_order:
  assumes "set (proofs c') \<subseteq> set (proofs c)" and "chain_verify X keys c = Inr ()"
  shows "chain_verify X keys c' = Inr ()"
  using assms by (auto simp: chain_verify_def try_each_Inr)

definition signed_proof :: "string \<Rightarrow> string \<Rightarrow> DelegationProof" where
  "signed_proof a b =
     (let p = DelegationProof_new 0 a b 1 2 True [] in p\<lparr>proof_signature := proof_signing_data p\<rparr>)"

theorem chain_verify_ignores_order_witness:
  "chain_verify (sample_ext\<lparr>ed_verify := \<lambda>pk m s. if s = m then Inr () else Inl []\<rparr>)
     (\<lambda>_. Inr (replicate 32 0)) \<lparr>proofs = [signed_proof ''b'' ''c'', signed_proof ''a'' ''b'']\<rparr> = Inr ()"
  by (rule chain_verify_ignores_order
        [where c = "\<lparr>proofs = [signed_proof ''a'' ''b'', signed_proof ''b'' ''c'']\<rparr>"])
    (simp_all add: chain_verify_def proof_verify_def sample_ext_def signed_proof_def
      proof_signing_data_def DelegationProof_new_def)

text \<open>What a delegation signature covers. The signed bytes determine the credential ids,
  the delegation time in whole seconds and the reduction flag, and the concatenation of the
  two agent names; with the delegator's length fixed they determine both names.\<close>

theorem proof_signing_data_binds:
  assumes "proof_signing_data p = proof_signing_data q"
    and "\<bar>timestamp (proof_timestamp p)\<bar> < 2 ^ 63" "\<bar>timestamp (proof_timestamp q)\<bar> < 2 ^ 63"
  shows "(delegator p @ delegatee p = delegator q @ delegatee q)
    \<and> (parent_credential_id p = parent_credential_id q)
    \<and> (delegated_credential_id p = delegated_credential_id q)
    \<and> (timestamp (proof_timestamp p) = timestamp (proof_timestamp q))
    \<and> (capabilities_reduced p = capabilities_reduced q)
    \<and> (length (delegator p) = length (delegator q) \<longrightarrow>
         delegator p = delegator q \<and> delegatee p = delegatee q)"
proof (intro conjI impI)
  have eq: "str_bytes (delegator p @ delegatee p) @ uuid_bytes (parent_credential_id p)
      @ uuid_bytes (delegated_credential_id p) @ le_bytes 8 (timestamp (proof_timestamp p))
      @ [if capabilities_reduced p then 1 else 0]
    = str_bytes (delegator q @ delegatee q) @ uuid_bytes (parent_credential_id q)
      @ uuid_bytes (delegated_credential_id q) @ le_bytes 8 (timestamp (proof_timestamp q))
      @ [if capabilities_reduced q then 1 else 0]"
    using assms(1) by (simp add: proof_signing_data_def)
  then have "length (delegator p @ delegatee p) = length (delegator q @ delegatee q)"
    by (drule_tac arg_cong [where f = length]) simp
  with eq have parts: "str_bytes (delegator p @ delegatee p) = str_bytes (delegator q @ delegatee q)"
    "uuid_bytes (parent_credential_id p) = uuid_bytes (parent_credential_id q)"
    "uuid_bytes (delegated_credential_id p) = uuid_bytes (delegated_credential_id q)"
    "le_bytes 8 (timestamp (proof_timestamp p)) = le_bytes 8 (timestamp (proof_timestamp q))"
    "(if capabilities_reduced p then 1 else 0 :: u8) = (if capabilities_reduced q then 1 else 0)"
    by (simp_all add: append_eq_append_conv del: str_bytes_append)
  then show names: "delegator p @ delegatee p = delegator q @ delegatee q"
    and "parent_credential_id p = parent_credential_id q"
    and "delegated_credential_id p = delegated_credential_id q"
    by (simp_all del: str_bytes_append)
  show "timestamp (proof_timestamp p) = timestamp (proof_timestamp q)"
    using parts(4) assms(2,3) by (auto intro: le_bytes_8_inject)
  show "capabilities_reduced p = capabilities_reduced q"
    using parts(5) by (simp split: if_splits)
  assume "length (delegator p) = length (delegator q)"
  with names show "delegator p = delegator q" "delegatee p = delegatee q" by simp_all
qed

theorem proof_signing_data_binds_witness:
  "delegator sample_proof @ delegatee sample_proof
     = delegator (sample_proof\<lparr>proof_timestamp := 5999999999\<rparr>)
         @ delegatee (sample_proof\<lparr>proof_timestamp := 5999999999\<rparr>)"
  by (rule proof_signing_data_binds [THEN conjunct1])
    (simp_all add: sample_proof_def DelegationProof_new_def proof_signing_data_def timestamp_def)

text \<open>Names run together. The two agent names are concatenated without a separator, so a
  signature for the delegation from \<open>a @ x\<close> to \<open>b\<close> is also a signature for the delegation
  from \<open>a\<close> to \<open>x @ b\<close>.\<close>

theorem proof_signing_data_ambiguous:
  "(proof_signing_data (DelegationProof_new now (a @ x) b pid did red sig)
     = proof_signing_data (DelegationProof_new now a (x @ b) pid did red sig))
    \<and> (proof_verify X (DelegationProof_new now (a @ x) b pid did red sig) key
     = proof_verify X (DelegationProof_new now a (x @ b) pid did red sig) key)"
  by (simp_all add: proof_verify_def proof_signing_data_def DelegationProof_new_def)

end
