(* ===== verification/Small_Field.thy ===== *)
theory Small_Field
  imports Main
begin

text \<open>
  The field with three elements, as a datatype: the smallest concrete choice for the scalar
  field and the group of the anonymous credential model that is not degenerate (it has a
  non-zero element other than one), used where the curve parameters are instantiated.
\<close>

datatype gf3 = Z0 | Z1 | Z2

instantiation gf3 :: field
begin

fun plus_gf3 :: "gf3 \<Rightarrow> gf3 \<Rightarrow> gf3" where
  "plus_gf3 Z0 y = y"
| "plus_gf3 Z1 y = (case y of Z0 \<Rightarrow> Z1 | Z1 \<Rightarrow> Z2 | Z2 \<Rightarrow> Z0)"
| "plus_gf3 Z2 y = (case y of Z0 \<Rightarrow> Z2 | Z1 \<Rightarrow> Z0 | Z2 \<Rightarrow> Z1)"

fun uminus_gf3 :: "gf3 \<Rightarrow> gf3" where
  "uminus_gf3 Z0 = Z0"
| "uminus_gf3 Z1 = Z2"
| "uminus_gf3 Z2 = Z1"

fun times_gf3 :: "gf3 \<Rightarrow> gf3 \<Rightarrow> gf3" where
  "times_gf3 Z0 y = Z0"
| "times_gf3 Z1 y = y"
| "times_gf3 Z2 y = - y"

definition zero_gf3 :: gf3 where "zero_gf3 = Z0"

definition one_gf3 :: gf3 where "one_gf3 = Z1"

definition minus_gf3 :: "gf3 \<Rightarrow> gf3 \<Rightarrow> gf3" where "minus_gf3 x y = x + - y"

definition inverse_gf3 :: "gf3 \<Rightarrow> gf3" where "inverse_gf3 x = x"

definition divide_gf3 :: "gf3 \<Rightarrow> gf3 \<Rightarrow> gf3" where "divide_gf3 x y = x * inverse y"

lemmas gf3_defs = zero_gf3_def one_gf3_def minus_gf3_def inverse_gf3_def divide_gf3_def

instance
proof
  fix x y z :: gf3
  show "x + y = y + x" "x * y = y * x"
    by (cases x; cases y; simp)+
  show "x + y + z = x + (y + z)" "x * y * z = x * (y * z)" "(x + y) * z = x * z + y * z"
    by (cases x; cases y; cases z; simp)+
  show "x \<noteq> 0 \<Longrightarrow> inverse x * x = 1" "- x + x = 0"
    by (cases x; simp add: gf3_defs)+
  show "0 + x = x" "1 * x = x" "x - y = x + - y" "x div y = x * inverse y"
    "inverse (0 :: gf3) = 0" "(0 :: gf3) \<noteq> 1"
    by (simp_all add: gf3_defs)
qed

end

lemma gf3_diff: "x - Z0 = x" "x - Z1 = x + Z2" "x - Z2 = x + Z1"
  by (simp_all add: minus_gf3_def zero_gf3_def del: add_uminus_conv_diff)

lemmas gf3_eval = zero_gf3_def one_gf3_def inverse_gf3_def gf3_diff

text \<open>Fixed-width encodings of its elements, and their decoders.\<close>

definition gf3_code :: "gf3 \<Rightarrow> nat" where
  "gf3_code x = (case x of Z0 \<Rightarrow> 0 | Z1 \<Rightarrow> 1 | Z2 \<Rightarrow> 2)"

definition gf3_decode :: "nat \<Rightarrow> gf3 option" where
  "gf3_decode n = (if n = 0 then Some Z0 else if n = 1 then Some Z1 else if n = 2 then Some Z2 else None)"

lemma gf3_decode_code [simp]: "gf3_decode (gf3_code x) = Some x"
  by (cases x) (simp_all add: gf3_decode_def gf3_code_def)

lemma gf3_code_less: "gf3_code x < 256"
  by (cases x) (simp_all add: gf3_code_def)

end
