(* ===== verification/Arc.thy ===== *)
theory Arc
  imports Acdp_Error Small_Field
begin

text \<open>
  Anonymous rate-limited credentials (\<open>acdp-auth/src/arc.rs\<close>) and the statement of their
  presentation proofs (\<open>acdp-auth/src/arc_zkp.rs\<close>). The curve P-256 is a parameter:
  scalars are the elements of any field, points those of any abelian group, and the record
  \<open>arc_ext\<close> holds scalar multiplication, the generator, the encodings, hash-to-curve
  and the proof system of the \<open>sigma-proofs\<close> crate. What the code relies on is stated by
  the predicates \<open>curve_laws\<close>, \<open>nizk_complete\<close> and \<open>nizk_extractable\<close>. Randomness is
  passed in explicitly.

  Rust's \<open>point * scalar\<close> is \<open>smul E scalar point\<close>.
\<close>

section \<open>Parameters\<close>

text \<open>The linear relation the code hands to the proof system: how many secret scalars, the
  public elements, and equations \<open>element = \<Sum> \<plusminus> scalar * element\<close> over their indices.\<close>

record 'p linear_relation =
  rel_scalars :: nat
  rel_elements :: "'p list"
  rel_equations :: "(nat \<times> (bool \<times> nat \<times> nat) list) list"

record ('s, 'p, 'n) arc_ext =
  generator :: 'p
  smul :: "'s \<Rightarrow> 'p \<Rightarrow> 'p"
  point_to_bytes :: "'p \<Rightarrow> bytes"
  point_from_bytes :: "bytes \<Rightarrow> 'p option"
  scalar_to_bytes :: "'s \<Rightarrow> bytes"
  scalar_from_repr :: "bytes \<Rightarrow> 's option"
  hash_to_curve :: "bytes \<Rightarrow> string \<Rightarrow> 'p"
  arc_hex :: "bytes \<Rightarrow> string"
  into_nizk :: "'p linear_relation \<Rightarrow> bytes \<Rightarrow> string + 'n"
  prove_batchable :: "'n \<Rightarrow> 's list \<Rightarrow> nat \<Rightarrow> string + bytes"
  verify_batchable :: "'n \<Rightarrow> bytes \<Rightarrow> string + unit"

text \<open>P-256: the points are a vector space over the scalars, encodings have their fixed
  length and read back what they wrote.\<close>

definition curve_laws :: "('s::field, 'p::ab_group_add, 'n) arc_ext \<Rightarrow> bool" where
  "curve_laws E \<longleftrightarrow>
     (\<forall>a b P. smul E (a + b) P = smul E a P + smul E b P)
     \<and> (\<forall>a P Q. smul E a (P + Q) = smul E a P + smul E a Q)
     \<and> (\<forall>a b P. smul E a (smul E b P) = smul E (a * b) P)
     \<and> (\<forall>P. smul E 1 P = P)
     \<and> (\<forall>P. length (point_to_bytes E P) = 33 \<and> point_from_bytes E (point_to_bytes E P) = Some P)
     \<and> (\<forall>a. length (scalar_to_bytes E a) = 32 \<and> scalar_from_repr E (scalar_to_bytes E a) = Some a)"

definition linear_term ::
  "('s, 'p::ab_group_add, 'n) arc_ext \<Rightarrow> 's list \<Rightarrow> 'p list \<Rightarrow> bool \<times> nat \<times> nat \<Rightarrow> 'p" where
  "linear_term E w els trm = (case trm of (positive, si, ei) \<Rightarrow>
     if positive then smul E (w ! si) (els ! ei) else - smul E (w ! si) (els ! ei))"

definition relation_holds ::
  "('s, 'p::ab_group_add, 'n) arc_ext \<Rightarrow> 'p linear_relation \<Rightarrow> 's list \<Rightarrow> bool" where
  "relation_holds E R w \<longleftrightarrow> length w = rel_scalars R
     \<and> (\<forall>(img, terms)\<in>set (rel_equations R).
          rel_elements R ! img = sum_list (map (linear_term E w (rel_elements R)) terms))"

text \<open>The proof system: an honest prover with a witness of the relation produces a proof that
  verifies; and it is a proof of knowledge: an extractor \<open>ext\<close>, given the statement, the
  session and an accepted proof, returns a witness of the relation. In a group of prime order
  some witness often exists anyway, so the properties speak of the one extracted from the proof
  that was shown.\<close>

definition nizk_complete :: "('s, 'p::ab_group_add, 'n) arc_ext \<Rightarrow> bool" where
  "nizk_complete E \<longleftrightarrow> (\<forall>R sid n w rng pf. into_nizk E R sid = Inr n \<longrightarrow> relation_holds E R w \<longrightarrow>
     prove_batchable E n w rng = Inr pf \<longrightarrow> verify_batchable E n pf = Inr ())"

type_synonym ('s, 'p) extractor = "'p linear_relation \<Rightarrow> bytes \<Rightarrow> bytes \<Rightarrow> 's list"

definition nizk_extractable :: "('s, 'p::ab_group_add, 'n) arc_ext \<Rightarrow> ('s, 'p) extractor \<Rightarrow> bool" where
  "nizk_extractable E ext \<longleftrightarrow> (\<forall>R sid n pf. into_nizk E R sid = Inr n \<longrightarrow>
     verify_batchable E n pf = Inr () \<longrightarrow> relation_holds E R (ext R sid pf))"

section \<open>Keys\<close>

record 'p ARCGenerators =
  gen_g :: 'p
  gen_h :: 'p

definition ARCGenerators_new :: "('s, 'p, 'n) arc_ext \<Rightarrow> 'p ARCGenerators" where
  "ARCGenerators_new E =
     (let g = generator E in
      \<lparr>gen_g = g, gen_h = hash_to_curve E (point_to_bytes E g) ''HashToGroup-ARCV1-P256generatorH''\<rparr>)"

record 's ServerPrivateKey =
  sk_x0 :: 's
  sk_x1 :: 's
  sk_x2 :: 's
  sk_x0_blinding :: 's

definition private_key_to_bytes :: "('s, 'p, 'n) arc_ext \<Rightarrow> 's ServerPrivateKey \<Rightarrow> bytes" where
  "private_key_to_bytes E k = scalar_to_bytes E (sk_x0 k) @ scalar_to_bytes E (sk_x1 k)
     @ scalar_to_bytes E (sk_x2 k) @ scalar_to_bytes E (sk_x0_blinding k)"

definition private_key_from_bytes ::
  "('s, 'p, 'n) arc_ext \<Rightarrow> bytes \<Rightarrow> 's ServerPrivateKey acdp_result" where
  "private_key_from_bytes E bs =
     (if length bs \<noteq> 128 then Inl (ARCVerificationFailed ''Invalid server private key length'')
      else and_then (ok_or (ARCVerificationFailed ''Invalid x0 scalar'')
                       (scalar_from_repr E (take 32 bs)))
        (\<lambda>a. and_then (ok_or (ARCVerificationFailed ''Invalid x1 scalar'')
                         (scalar_from_repr E (take 32 (drop 32 bs))))
        (\<lambda>b. and_then (ok_or (ARCVerificationFailed ''Invalid x2 scalar'')
                         (scalar_from_repr E (take 32 (drop 64 bs))))
        (\<lambda>c. and_then (ok_or (ARCVerificationFailed ''Invalid x0_blinding scalar'')
                         (scalar_from_repr E (take 32 (drop 96 bs))))
        (\<lambda>d. Inr \<lparr>sk_x0 = a, sk_x1 = b, sk_x2 = c, sk_x0_blinding = d\<rparr>)))))"

record 'p ServerPublicKey =
  pk_x0 :: 'p
  pk_x1 :: 'p
  pk_x2 :: 'p

definition from_private_key ::
  "('s, 'p::ab_group_add, 'n) arc_ext \<Rightarrow> 's ServerPrivateKey \<Rightarrow> 'p ARCGenerators \<Rightarrow> 'p ServerPublicKey"
  where
  "from_private_key E k gs =
     \<lparr>pk_x0 = smul E (sk_x0_blinding k) (gen_g gs) + smul E (sk_x0 k) (gen_h gs),
      pk_x1 = smul E (sk_x1 k) (gen_g gs),
      pk_x2 = smul E (sk_x2 k) (gen_g gs)\<rparr>"

definition public_key_to_bytes :: "('s, 'p, 'n) arc_ext \<Rightarrow> 'p ServerPublicKey \<Rightarrow> bytes" where
  "public_key_to_bytes E k =
     point_to_bytes E (pk_x0 k) @ point_to_bytes E (pk_x1 k) @ point_to_bytes E (pk_x2 k)"

definition public_key_from_bytes ::
  "('s, 'p, 'n) arc_ext \<Rightarrow> bytes \<Rightarrow> 'p ServerPublicKey acdp_result" where
  "public_key_from_bytes E bs =
     (if length bs \<noteq> 99 then Inl (ARCVerificationFailed ''Invalid server public key length'')
      else and_then (ok_or (ARCVerificationFailed ''Invalid X0 point'')
                       (point_from_bytes E (take 33 bs)))
        (\<lambda>a. and_then (ok_or (ARCVerificationFailed ''Invalid X1 point'')
                         (point_from_bytes E (take 33 (drop 33 bs))))
        (\<lambda>b. and_then (ok_or (ARCVerificationFailed ''Invalid X2 point'')
                         (point_from_bytes E (take 33 (drop 66 bs))))
        (\<lambda>c. Inr \<lparr>pk_x0 = a, pk_x1 = b, pk_x2 = c\<rparr>))))"

section \<open>Issuance\<close>

record 's ClientSecrets =
  cs_m1 :: 's
  cs_s :: 's
  cs_r1 :: 's
  cs_r2 :: 's

record ARCCredentialRequest =
  m1_commit_blinded :: bytes
  rq_x0_aux :: bytes
  rq_x1_aux :: bytes
  rq_x2_aux :: bytes

definition arc_request_new ::
  "('s::field, 'p::ab_group_add, 'n) arc_ext \<Rightarrow> 's ClientSecrets \<Rightarrow> 'p ServerPublicKey
     \<Rightarrow> 'p ARCGenerators \<Rightarrow> ARCCredentialRequest" where
  "arc_request_new E cs pk gs =
     (let commit_blind = smul E (cs_s cs) (gen_g gs) + smul E (cs_m1 cs) (pk_x1 pk);
          x0_aux = smul E (cs_r1 cs) (gen_g gs);
          x1_aux = smul E 0 (gen_g gs);
          x2_aux = smul E 0 (gen_g gs)
      in \<lparr>m1_commit_blinded = point_to_bytes E commit_blind, rq_x0_aux = point_to_bytes E x0_aux,
          rq_x1_aux = point_to_bytes E x1_aux, rq_x2_aux = point_to_bytes E x2_aux\<rparr>)"

definition deserialize_point :: "('s, 'p, 'n) arc_ext \<Rightarrow> bytes \<Rightarrow> 'p acdp_result" where
  "deserialize_point E bs =
     (if length bs \<noteq> 33 then Inl (ARCVerificationFailed ''Invalid point length'')
      else ok_or (ARCVerificationFailed ''Invalid point encoding'') (point_from_bytes E bs))"

definition to_points ::
  "('s, 'p, 'n) arc_ext \<Rightarrow> ARCCredentialRequest \<Rightarrow> ('p \<times> 'p \<times> 'p \<times> 'p) acdp_result" where
  "to_points E rq =
     and_then (deserialize_point E (m1_commit_blinded rq))
       (\<lambda>m1_commit. and_then (deserialize_point E (rq_x0_aux rq))
       (\<lambda>x0_aux. and_then (deserialize_point E (rq_x1_aux rq))
       (\<lambda>x1_aux. and_then (deserialize_point E (rq_x2_aux rq))
       (\<lambda>x2_aux. Inr (m1_commit, x0_aux, x1_aux, x2_aux)))))"

record ARCCredentialResponse =
  rs_u :: bytes
  enc_u_prime :: bytes
  rs_x0_aux :: bytes
  rs_x1_aux :: bytes
  rs_x2_aux :: bytes
  rs_proof :: bytes

text \<open>The server's random scalar is the argument \<open>b\<close>.\<close>

definition arc_issue ::
  "('s::field, 'p::ab_group_add, 'n) arc_ext \<Rightarrow> 's \<Rightarrow> ARCCredentialRequest \<Rightarrow> 's ServerPrivateKey
     \<Rightarrow> 's \<Rightarrow> 'p ARCGenerators \<Rightarrow> ARCCredentialResponse acdp_result" where
  "arc_issue E b rq sk m2 gs =
     and_then (to_points E rq) (\<lambda>(commit_blinded, x0_aux, _, _).
       let p = smul E b (gen_g gs);
           blind_q = smul E b commit_blinded + smul E (sk_x0 sk + m2 * sk_x2 sk) p;
           enc = blind_q + x0_aux
       in Inr \<lparr>rs_u = point_to_bytes E p, enc_u_prime = point_to_bytes E enc,
               rs_x0_aux = rq_x0_aux rq, rs_x1_aux = rq_x1_aux rq, rs_x2_aux = rq_x2_aux rq,
               rs_proof = replicate 64 0\<rparr>)"

record ('s, 'p) ARCCredential =
  arc_m1 :: 's
  arc_u :: 'p
  arc_u_prime :: 'p
  arc_x1 :: 'p
  arc_max_presentations :: u64
  presentations_used :: u64

text \<open>The client's random scalar is the argument \<open>r\<close>.\<close>

definition from_response ::
  "('s::field, 'p::ab_group_add, 'n) arc_ext \<Rightarrow> 's \<Rightarrow> ARCCredentialResponse \<Rightarrow> ARCCredentialRequest
     \<Rightarrow> 's ClientSecrets \<Rightarrow> 'p ServerPublicKey \<Rightarrow> ('s, 'p) ARCCredential acdp_result" where
  "from_response E r rs rq cs pk =
     and_then (deserialize_point E (rs_u rs)) (\<lambda>p.
     and_then (deserialize_point E (enc_u_prime rs)) (\<lambda>enc_blind_q.
     and_then (deserialize_point E (rs_x0_aux rs)) (\<lambda>x0_aux.
       let blind_q = enc_blind_q - x0_aux;
           q = smul E r (blind_q - smul E (cs_s cs) p);
           u = smul E r p
       in Inr \<lparr>arc_m1 = cs_m1 cs, arc_u = u, arc_u_prime = q, arc_x1 = pk_x1 pk,
               arc_max_presentations = 1000, presentations_used = 0\<rparr>)))"

section \<open>Laws of the curve\<close>

lemma curve_lawsD:
  assumes "curve_laws E"
  shows "smul E (a + b) P = smul E a P + smul E b P" "smul E a (P + Q) = smul E a P + smul E a Q"
    "smul E a (smul E b P) = smul E (a * b) P" "smul E 1 P = P"
    "length (point_to_bytes E P) = 33" "point_from_bytes E (point_to_bytes E P) = Some P"
    "length (scalar_to_bytes E a) = 32" "scalar_from_repr E (scalar_to_bytes E a) = Some a"
  using assms unfolding curve_laws_def by blast+

lemma smul_zero_left:
  assumes "curve_laws E"
  shows "smul E 0 P = 0"
  using curve_lawsD(1) [OF assms, of 0 0 P] by simp

lemma smul_zero_right:
  assumes "curve_laws E"
  shows "smul E a 0 = 0"
  using curve_lawsD(2) [OF assms, of a 0 0] by simp

lemma smul_minus_right:
  assumes "curve_laws E"
  shows "smul E a (- P) = - smul E a P"
  using curve_lawsD(2) [OF assms, of a P "- P"] smul_zero_right [OF assms, of a]
  by (simp add: eq_neg_iff_add_eq_0 add.commute)

lemma smul_diff_right:
  assumes "curve_laws E"
  shows "smul E a (P - Q) = smul E a P - smul E a Q"
  using curve_lawsD(2) [OF assms, of a P "- Q"] smul_minus_right [OF assms, of a Q] by simp

lemmas smul_simps = curve_lawsD(1-4) smul_zero_left smul_zero_right smul_minus_right smul_diff_right

lemma smul_cancel:
  assumes "curve_laws E" "a \<noteq> 0" "smul E a P = Q"
  shows "P = smul E (inverse a) Q"
proof -
  have "smul E (inverse a) (smul E a P) = P"
    using assms(2) by (simp add: curve_lawsD(3,4) [OF assms(1)])
  with assms(3) show ?thesis by simp
qed

lemma smul_nonzero: "curve_laws E \<Longrightarrow> a \<noteq> 0 \<Longrightarrow> P \<noteq> 0 \<Longrightarrow> smul E a P \<noteq> 0"
  using smul_cancel [of E a P 0] by (auto simp: smul_zero_right)

lemma deserialize_serialize: "curve_laws E \<Longrightarrow> deserialize_point E (point_to_bytes E P) = Inr P"
  by (simp add: deserialize_point_def curve_lawsD)

text \<open>The MAC of a credential: \<open>U' = (x0 + m1 x1 + m2 x2) U\<close> under the issuer's private key.\<close>

definition mac_valid ::
  "('s::field, 'p, 'n) arc_ext \<Rightarrow> 's ServerPrivateKey \<Rightarrow> 's \<Rightarrow> ('s, 'p) ARCCredential \<Rightarrow> bool" where
  "mac_valid E sk m2 c \<longleftrightarrow>
     arc_u_prime c = smul E (sk_x0 sk + arc_m1 c * sk_x1 sk + m2 * sk_x2 sk) (arc_u c)"

lemma arc_issue_honest:
  assumes "curve_laws E" and "rq = arc_request_new E cs (from_private_key E sk gs) gs"
  shows "arc_issue E b rq sk m2 gs = Inr
    \<lparr>rs_u = point_to_bytes E (smul E b (gen_g gs)),
     enc_u_prime = point_to_bytes E
       (smul E b (smul E (cs_s cs) (gen_g gs) + smul E (cs_m1 cs) (smul E (sk_x1 sk) (gen_g gs)))
        + smul E (sk_x0 sk + m2 * sk_x2 sk) (smul E b (gen_g gs)) + smul E (cs_r1 cs) (gen_g gs)),
     rs_x0_aux = rq_x0_aux rq, rs_x1_aux = rq_x1_aux rq, rs_x2_aux = rq_x2_aux rq,
     rs_proof = replicate 64 0\<rparr>"
  using assms
  by (simp add: arc_issue_def to_points_def arc_request_new_def from_private_key_def Let_def
      deserialize_serialize)

text \<open>The credential an honest run ends with.\<close>

definition issued_credential ::
  "('s::field, 'p::ab_group_add, 'n) arc_ext \<Rightarrow> 's ServerPrivateKey \<Rightarrow> 's ClientSecrets
     \<Rightarrow> 'p ARCGenerators \<Rightarrow> 's \<Rightarrow> 's \<Rightarrow> 's \<Rightarrow> ('s, 'p) ARCCredential" where
  "issued_credential E sk cs gs b m2 r =
     \<lparr>arc_m1 = cs_m1 cs, arc_u = smul E (r * b) (gen_g gs),
      arc_u_prime = smul E (r * (b * (cs_m1 cs * sk_x1 sk) + (sk_x0 sk + m2 * sk_x2 sk) * b)) (gen_g gs),
      arc_x1 = smul E (sk_x1 sk) (gen_g gs), arc_max_presentations = 1000, presentations_used = 0\<rparr>"

lemma issued_credential_mac:
  "curve_laws E \<Longrightarrow> mac_valid E sk m2 (issued_credential E sk cs gs b m2 r)"
  by (simp add: mac_valid_def issued_credential_def smul_simps algebra_simps)

lemma honest_issuance:
  assumes "curve_laws E"
    and "pk = from_private_key E sk gs" and "rq = arc_request_new E cs pk gs"
  shows "\<exists>rs. arc_issue E b rq sk m2 gs = Inr rs
    \<and> from_response E r rs rq cs pk = Inr (issued_credential E sk cs gs b m2 r)"
proof -
  let ?G = "gen_g gs"
  have rq: "rq = arc_request_new E cs (from_private_key E sk gs) gs" using assms by simp
  note L = smul_simps [OF assms(1)] deserialize_serialize [OF assms(1)]
  obtain rs where iss: "arc_issue E b rq sk m2 gs = Inr rs"
    and rs: "rs_u rs = point_to_bytes E (smul E b ?G)"
      "enc_u_prime rs = point_to_bytes E
       (smul E b (smul E (cs_s cs) ?G + smul E (cs_m1 cs) (smul E (sk_x1 sk) ?G))
        + smul E (sk_x0 sk + m2 * sk_x2 sk) (smul E b ?G) + smul E (cs_r1 cs) ?G)"
      "rs_x0_aux rs = point_to_bytes E (smul E (cs_r1 cs) ?G)"
    using arc_issue_honest [OF assms(1) rq, of b m2]
    by (simp add: rq arc_request_new_def Let_def)
  have "from_response E r rs rq cs pk = Inr (issued_credential E sk cs gs b m2 r)"
    unfolding from_response_def rs
    by (simp add: L Let_def issued_credential_def assms(2) from_private_key_def algebra_simps)
  with iss show ?thesis by blast
qed

text \<open>A concrete instance of the parameters: scalars and points in the three-element field,
  and a proof system for relations over four scalars whose verifier searches for a witness of
  the relation.\<close>

definition gf3_all :: "gf3 list" where
  "gf3_all = [Z0, Z1, Z2]"

definition gf3_witnesses :: "gf3 list list" where
  "gf3_witnesses =
     concat (map (\<lambda>a. concat (map (\<lambda>b. concat (map (\<lambda>c. map (\<lambda>d. [a, b, c, d]) gf3_all) gf3_all))
       gf3_all)) gf3_all)"

definition small_group :: "(gf3, gf3, gf3 linear_relation) arc_ext" where
  "small_group = \<lparr>generator = Z1, smul = (*),
     point_to_bytes = (\<lambda>P. of_nat (gf3_code P) # replicate 32 0),
     point_from_bytes = (\<lambda>bs. case bs of [] \<Rightarrow> None | b # _ \<Rightarrow> gf3_decode (unat b)),
     scalar_to_bytes = (\<lambda>a. of_nat (gf3_code a) # replicate 31 0),
     scalar_from_repr = (\<lambda>bs. case bs of [] \<Rightarrow> None | b # _ \<Rightarrow> gf3_decode (unat b)),
     hash_to_curve = (\<lambda>bs dst. Z2), arc_hex = (\<lambda>bs. []),
     into_nizk = (\<lambda>R sid. if rel_scalars R = 4 then Inr R else Inl ''unsupported''),
     prove_batchable = (\<lambda>R w rng. Inr []),
     verify_batchable = (\<lambda>R pf. Inl [])\<rparr>"

definition small_curve :: "(gf3, gf3, gf3 linear_relation) arc_ext" where
  "small_curve = small_group\<lparr>verify_batchable := (\<lambda>R pf.
     if list_ex (relation_holds small_group R) gf3_witnesses then Inr () else Inl ''no witness'')\<rparr>"

lemma small_curve_sel:
  "generator small_curve = Z1" "smul small_curve = (*)" "hash_to_curve small_curve bs d = Z2"
  "into_nizk small_curve R sid = (if rel_scalars R = 4 then Inr R else Inl ''unsupported'')"
  "prove_batchable small_curve n w rng = Inr []"
  by (simp_all add: small_curve_def small_group_def)

lemma relation_holds_small: "relation_holds small_curve R w = relation_holds small_group R w"
proof -
  have "linear_term small_curve w els = linear_term small_group w els" for els
    by (rule ext) (auto simp: linear_term_def small_curve_def split: prod.splits)
  then show ?thesis by (simp add: relation_holds_def)
qed

lemma gf3_witnesses_complete: "length w = 4 \<Longrightarrow> w \<in> set gf3_witnesses"
proof -
  have all: "x \<in> set gf3_all" for x by (cases x) (simp_all add: gf3_all_def)
  assume "length w = 4"
  then obtain a b c d where "w = [a, b, c, d]"
    by (auto simp: length_Suc_conv numeral_eq_Suc)
  with all show ?thesis by (simp add: gf3_witnesses_def image_iff)
qed

lemma small_nizk_complete: "nizk_complete small_curve"
  unfolding nizk_complete_def
proof (intro allI impI)
  fix R sid n w rng pf
  assume n: "into_nizk small_curve R sid = Inr n" and h: "relation_holds small_curve R w"
  from n have "n = R" "rel_scalars R = 4"
    by (simp_all add: small_curve_def small_group_def split: if_splits)
  moreover from h have h': "relation_holds small_group R w"
    by (simp only: relation_holds_small)
  ultimately have "w \<in> set gf3_witnesses"
    by (simp add: relation_holds_def gf3_witnesses_complete)
  with h' \<open>n = R\<close> show "verify_batchable small_curve n pf = Inr ()"
    by (auto simp: small_curve_def list_ex_iff)
qed

definition small_extract :: "(gf3, gf3) extractor" where
  "small_extract R sid pf =
     (case find (relation_holds small_group R) gf3_witnesses of Some w \<Rightarrow> w | None \<Rightarrow> [])"

lemma small_nizk_extractable: "nizk_extractable small_curve small_extract"
  unfolding nizk_extractable_def
proof (intro allI impI)
  fix R sid n pf
  assume n: "into_nizk small_curve R sid = Inr n" and v: "verify_batchable small_curve n pf = Inr ()"
  from n have "n = R" by (simp add: small_curve_sel split: if_splits)
  with v have "list_ex (relation_holds small_group R) gf3_witnesses"
    by (simp add: small_curve_def split: if_splits)
  then obtain w where "find (relation_holds small_group R) gf3_witnesses = Some w"
    by (cases "find (relation_holds small_group R) gf3_witnesses") (auto simp: find_None_iff list_ex_iff)
  moreover from this have "relation_holds small_group R w" by (auto simp: find_Some_iff)
  ultimately show "relation_holds small_curve R (small_extract R sid pf)"
    by (simp add: small_extract_def relation_holds_small)
qed

lemma small_curve_laws: "curve_laws small_curve"
  using gf3_code_less
  by (auto simp: curve_laws_def small_curve_def small_group_def algebra_simps unat_of_nat)

section \<open>Properties\<close>

text \<open>C8 (blind issuance is correct). For every choice of keys, client secrets, server
  attribute and randomness, the honest run of request, issuance and unblinding succeeds; the
  credential the client ends with carries its own attribute, a valid MAC on \<open>(m1, m2)\<close>
  under the server's key, the server's \<open>X1\<close>, and an unused budget of 1000.\<close>

theorem issuance_correct:
  assumes "curve_laws E"
    and "pk = from_private_key E sk gs" and "rq = arc_request_new E cs pk gs"
  shows "\<exists>rs c. arc_issue E b rq sk m2 gs = Inr rs \<and> from_response E r rs rq cs pk = Inr c
    \<and> mac_valid E sk m2 c \<and> arc_m1 c = cs_m1 cs \<and> arc_u c = smul E (r * b) (gen_g gs)
    \<and> arc_x1 c = smul E (sk_x1 sk) (gen_g gs)
    \<and> arc_max_presentations c = 1000 \<and> presentations_used c = 0"
proof -
  from honest_issuance [OF assms, of b m2 r] obtain rs where
    "arc_issue E b rq sk m2 gs = Inr rs"
    "from_response E r rs rq cs pk = Inr (issued_credential E sk cs gs b m2 r)" by blast
  then show ?thesis
    using issued_credential_mac [OF assms(1), of sk m2 cs gs b r]
    by (intro exI [of _ rs] exI [of _ "issued_credential E sk cs gs b m2 r"])
      (simp add: issued_credential_def)
qed

definition small_gens :: "gf3 ARCGenerators" where
  "small_gens = ARCGenerators_new small_curve"

definition small_key :: "gf3 ServerPrivateKey" where
  "small_key = \<lparr>sk_x0 = Z1, sk_x1 = Z2, sk_x2 = Z1, sk_x0_blinding = Z1\<rparr>"

definition small_secrets :: "gf3 ClientSecrets" where
  "small_secrets = \<lparr>cs_m1 = Z1, cs_s = Z2, cs_r1 = Z1, cs_r2 = Z0\<rparr>"

theorem issuance_correct_witness:
  "\<exists>rs c. arc_issue small_curve Z2
       (arc_request_new small_curve small_secrets
          (from_private_key small_curve small_key small_gens) small_gens) small_key Z0 small_gens = Inr rs
     \<and> from_response small_curve Z1 rs
         (arc_request_new small_curve small_secrets
          (from_private_key small_curve small_key small_gens) small_gens) small_secrets
         (from_private_key small_curve small_key small_gens) = Inr c
     \<and> mac_valid small_curve small_key Z0 c \<and> arc_u c \<noteq> 0"
proof -
  have "smul small_curve (Z1 * Z2) (gen_g small_gens) \<noteq> 0"
    by (simp add: small_curve_def small_group_def small_gens_def ARCGenerators_new_def zero_gf3_def)
  with issuance_correct [OF small_curve_laws refl refl, where sk = small_key and gs = small_gens
      and cs = small_secrets and b = Z2 and ?m2.0 = Z0 and r = Z1]
  show ?thesis by (elim exE conjE) (intro exI conjI, assumption+, simp)
qed

text \<open>Key encodings. A server key pair written to bytes has 128 and 99 bytes and is read
  back unchanged; byte strings of any other length are refused.\<close>

theorem server_key_roundtrip:
  assumes "curve_laws E"
  shows "(private_key_from_bytes E (private_key_to_bytes E sk) = Inr sk)
    \<and> (public_key_from_bytes E (public_key_to_bytes E pk) = Inr pk)
    \<and> (length (private_key_to_bytes E sk) = 128)
    \<and> (length (public_key_to_bytes E pk) = 99)
    \<and> (length bs \<noteq> 128 \<longrightarrow> \<not> is_ok (private_key_from_bytes E bs))
    \<and> (length bs \<noteq> 99 \<longrightarrow> \<not> is_ok (public_key_from_bytes E bs))"
  by (simp_all add: private_key_from_bytes_def private_key_to_bytes_def public_key_from_bytes_def
      public_key_to_bytes_def curve_lawsD [OF assms])

theorem server_key_roundtrip_witness:
  "private_key_from_bytes small_curve (private_key_to_bytes small_curve small_key) = Inr small_key"
  by (rule server_key_roundtrip [OF small_curve_laws, THEN conjunct1])

end
