(* ===== verification/Arc_Presentation.thy ===== *)
theory Arc_Presentation
  imports Arc
begin

text \<open>
  Presenting an anonymous credential (\<open>ARCCredential::create_presentation\<close>,
  \<open>ARCPresentation::verify\<close> in \<open>acdp-auth/src/arc.rs\<close>) with the zero-knowledge
  statement of \<open>acdp-auth/src/arc_zkp.rs\<close>: completeness and soundness of the
  verification, uniqueness of the tag of a presentation, and the presentation budget, first
  sequentially, then with the load and the increment of the atomic counter interleaved.
\<close>

section \<open>Presentation proofs\<close>

text \<open>The relation both \<open>ARCPresentationProof::create\<close> and \<open>::verify\<close> build: scalars
  \<open>m1, z, r, nonce\<close>; elements \<open>u, x1, g, h, tag\<close> and the four images \<open>m1_commit, v, t,
  m1_tag\<close> in the order they are allocated.\<close>

definition arc_relation ::
  "'p \<Rightarrow> 'p \<Rightarrow> 'p \<Rightarrow> 'p \<Rightarrow> 'p \<Rightarrow> 'p \<Rightarrow> 'p \<Rightarrow> 'p \<Rightarrow> 'p \<Rightarrow> 'p linear_relation" where
  "arc_relation u x1 g h tag m1_commit v t m1_tag =
     \<lparr>rel_scalars = 4,
      rel_elements = [u, x1, g, h, tag, m1_commit, v, t, m1_tag],
      rel_equations =
        [(5, [(True, 0, 0), (True, 1, 2)]),
         (6, [(True, 1, 1), (False, 2, 2)]),
         (7, [(True, 0, 4), (True, 3, 4)]),
         (8, [(True, 0, 4)])]\<rparr>"

definition session_id :: "('s, 'p, 'n) arc_ext \<Rightarrow> bytes \<Rightarrow> bytes" where
  "session_id E ctx = str_bytes (''ARC-P256-presentation:'' @ arc_hex E ctx)"

definition zkp_create ::
  "('s::field, 'p::ab_group_add, 'n) arc_ext \<Rightarrow> nat \<Rightarrow> 's \<Rightarrow> 's \<Rightarrow> 's \<Rightarrow> 's \<Rightarrow> 'p \<Rightarrow> 'p \<Rightarrow> 'p \<Rightarrow> 'p \<Rightarrow> 'p
     \<Rightarrow> 'p \<Rightarrow> 'p \<Rightarrow> 'p \<Rightarrow> bytes \<Rightarrow> bytes acdp_result" where
  "zkp_create E rng m1 z r nonce u x1 g h tag m1_commit v m1_tag ctx =
     (let t_value = smul E (m1 + nonce) tag;
          relation = arc_relation u x1 g h tag m1_commit v t_value m1_tag
      in and_then (map_err (\<lambda>e. ARCVerificationFailed (''NIZK creation failed: '' @ e))
                     (into_nizk E relation (session_id E ctx)))
           (\<lambda>nizk. map_err (\<lambda>e. ARCVerificationFailed (''Proof generation failed: '' @ e))
                     (prove_batchable E nizk [m1, z, r, nonce] rng)))"

definition zkp_verify ::
  "('s, 'p, 'n) arc_ext \<Rightarrow> bytes \<Rightarrow> 'p \<Rightarrow> 'p \<Rightarrow> 'p \<Rightarrow> 'p \<Rightarrow> 'p \<Rightarrow> 'p \<Rightarrow> 'p \<Rightarrow> 'p \<Rightarrow> 'p \<Rightarrow> bytes
     \<Rightarrow> unit acdp_result" where
  "zkp_verify E pf u x1 g h tag m1_commit v m1_tag t ctx =
     (let relation = arc_relation u x1 g h tag m1_commit v t m1_tag
      in and_then (map_err (\<lambda>e. ARCVerificationFailed (''NIZK creation failed: '' @ e))
                     (into_nizk E relation (session_id E ctx)))
           (\<lambda>nizk. map_err (\<lambda>e. ARCVerificationFailed (''Proof verification failed: '' @ e))
                     (verify_batchable E nizk pf)))"

section \<open>Presentations\<close>

record 'p ARCPresentation =
  pr_u :: 'p
  u_prime_commit :: 'p
  m1_commit :: 'p
  tag :: 'p
  m1_tag :: 'p
  pr_t :: 'p
  pr_proof :: bytes

definition tag_dst :: string where
  "tag_dst = ''HashToGroup-ARCV1-P256Tag''"

definition nonce_scalar :: "u64 \<Rightarrow> 's::semiring_1" where
  "nonce_scalar n = of_nat (unat n)"

text \<open>The randomness is \<open>a, r, z\<close> and the seed of the proof. The credential is returned with
  its counter as the call leaves it.\<close>

definition create_presentation ::
  "('s::field, 'p::ab_group_add, 'n) arc_ext \<Rightarrow> 's \<times> 's \<times> 's \<times> nat \<Rightarrow> ('s, 'p) ARCCredential \<Rightarrow> bytes
     \<Rightarrow> u64 \<Rightarrow> 'p ARCGenerators \<Rightarrow> 'p ARCPresentation acdp_result \<times> ('s, 'p) ARCCredential" where
  "create_presentation E rnd c ctx nonce gs =
     (case rnd of (a, r, z, rng) \<Rightarrow>
      let used = presentations_used c in
      if used \<ge> arc_max_presentations c then
        (Inl (RateLimitExceeded used (arc_max_presentations c)), c)
      else
        let u_rand = smul E a (arc_u c);
            u_prime_rand = smul E a (arc_u_prime c);
            m1_commit = smul E (arc_m1 c) u_rand + smul E z (gen_g gs);
            u_prime_commit = u_prime_rand + smul E r (gen_g gs);
            v = smul E z (arc_x1 c) - smul E r (gen_g gs)
        in if arc_m1 c + nonce_scalar nonce = 0 then
             (Inl (ARCVerificationFailed ''Cannot invert (m1 + nonce)''), c)
           else
             let inv = inverse (arc_m1 c + nonce_scalar nonce);
                 t = hash_to_curve E ctx tag_dst;
                 tag = smul E inv t;
                 m1_tag = smul E (arc_m1 c) tag
             in case zkp_create E rng (arc_m1 c) z r (nonce_scalar nonce) u_rand (arc_x1 c) (gen_g gs)
                       (gen_h gs) tag m1_commit v m1_tag ctx of
                  Inl e \<Rightarrow> (Inl e, c)
                | Inr pf \<Rightarrow>
                    (Inr \<lparr>pr_u = u_rand, u_prime_commit = u_prime_commit, m1_commit = m1_commit,
                          tag = tag, m1_tag = m1_tag, pr_t = t, pr_proof = pf\<rparr>,
                     c\<lparr>presentations_used := presentations_used c + 1\<rparr>))"

definition presentations_remaining :: "('s, 'p) ARCCredential \<Rightarrow> u64" where
  "presentations_remaining c = saturating_sub (arc_max_presentations c) (presentations_used c)"

definition presentation_verify ::
  "('s::field, 'p::ab_group_add, 'n) arc_ext \<Rightarrow> 'p ARCPresentation \<Rightarrow> 's ServerPrivateKey \<Rightarrow> 's \<Rightarrow> bytes
     \<Rightarrow> u64 \<Rightarrow> u64 \<Rightarrow> 'p ARCGenerators \<Rightarrow> bool acdp_result" where
  "presentation_verify E pr sk m2 ctx nonce presentation_limit gs =
     (if nonce \<ge> presentation_limit then Inr False
      else if pr_u pr = 0 \<or> u_prime_commit pr = 0 then Inr False
      else
        let v = smul E (sk_x1 sk) (m1_commit pr) + smul E (sk_x0 sk) (pr_u pr)
                + smul E (sk_x2 sk * m2) (pr_u pr) - u_prime_commit pr;
            x1 = smul E (sk_x1 sk) (gen_g gs)
        in and_then (zkp_verify E (pr_proof pr) (pr_u pr) x1 (gen_g gs) (gen_h gs) (tag pr)
                       (m1_commit pr) v (m1_tag pr) (pr_t pr) ctx)
          (\<lambda>_. let expected_t = hash_to_curve E ctx tag_dst;
                   expected_m1_tag = expected_t - smul E (nonce_scalar nonce) (tag pr)
               in if pr_t pr \<noteq> expected_t \<or> m1_tag pr \<noteq> expected_m1_tag then Inr False
                  else Inr True))"

section \<open>The relation\<close>

lemma arc_relation_holds:
  "relation_holds E (arc_relation u x1 g h tg mc v t mt) w \<longleftrightarrow>
     (\<exists>m1 z r n. w = [m1, z, r, n] \<and> mc = smul E m1 u + smul E z g \<and> v = smul E z x1 - smul E r g
        \<and> t = smul E m1 tg + smul E n tg \<and> mt = smul E m1 tg)"
proof -
  have "length w = 4 \<longleftrightarrow> (\<exists>m1 z r n. w = [m1, z, r, n])"
    by (auto simp: length_Suc_conv numeral_eq_Suc)
  then show ?thesis
    unfolding relation_holds_def
    by (auto simp: arc_relation_def linear_term_def)
qed

lemma create_presentation_Inr:
  assumes "create_presentation E (a, r, z, rng) c ctx nonce gs = (Inr pr, c')"
  shows "presentations_used c < arc_max_presentations c"
    and "c' = c\<lparr>presentations_used := presentations_used c + 1\<rparr>"
    and "arc_m1 c + nonce_scalar nonce \<noteq> 0"
    and "pr_u pr = smul E a (arc_u c)"
    and "u_prime_commit pr = smul E a (arc_u_prime c) + smul E r (gen_g gs)"
    and "m1_commit pr = smul E (arc_m1 c) (pr_u pr) + smul E z (gen_g gs)"
    and "pr_t pr = hash_to_curve E ctx tag_dst"
    and "tag pr = smul E (inverse (arc_m1 c + nonce_scalar nonce)) (pr_t pr)"
    and "m1_tag pr = smul E (arc_m1 c) (tag pr)"
    and "zkp_create E rng (arc_m1 c) z r (nonce_scalar nonce) (pr_u pr) (arc_x1 c) (gen_g gs)
           (gen_h gs) (tag pr) (m1_commit pr) (smul E z (arc_x1 c) - smul E r (gen_g gs))
           (m1_tag pr) ctx = Inr (pr_proof pr)"
  using assms
  by (auto simp: create_presentation_def Let_def not_le split: if_splits sum.splits)

lemma tag_times_inverse:
  assumes "curve_laws E" and "a \<noteq> 0"
  shows "smul E a (smul E (inverse a) P) = P"
  using assms by (simp add: curve_lawsD)

lemma honest_v:
  assumes "curve_laws E" and "mac_valid E sk m2 c" and "arc_x1 c = smul E (sk_x1 sk) (gen_g gs)"
  shows "smul E (sk_x1 sk) (smul E (arc_m1 c) (smul E a (arc_u c)) + smul E z (gen_g gs))
      + smul E (sk_x0 sk) (smul E a (arc_u c)) + smul E (sk_x2 sk * m2) (smul E a (arc_u c))
      - (smul E a (arc_u_prime c) + smul E r (gen_g gs))
    = smul E z (arc_x1 c) - smul E r (gen_g gs)"
  using assms(2,3) by (simp add: mac_valid_def smul_simps [OF assms(1)] algebra_simps)

lemma honest_presentation_verifies:
  assumes "curve_laws E" and "nizk_complete E"
    and "mac_valid E sk m2 c" and "arc_x1 c = smul E (sk_x1 sk) (gen_g gs)"
    and "create_presentation E rnd c ctx nonce gs = (Inr pr, c')"
    and "nonce < limit" and "pr_u pr \<noteq> 0" and "u_prime_commit pr \<noteq> 0"
  shows "presentation_verify E pr sk m2 ctx nonce limit gs = Inr True"
proof -
  obtain a r z rng where rnd: "rnd = (a, r, z, rng)" by (cases rnd)
  note P = create_presentation_Inr [OF assms(5) [unfolded rnd]]
  note nz = P(3)
  let ?v = "smul E z (arc_x1 c) - smul E r (gen_g gs)"
  let ?R = "arc_relation (pr_u pr) (arc_x1 c) (gen_g gs) (gen_h gs) (tag pr) (m1_commit pr) ?v
    (pr_t pr) (m1_tag pr)"
  have t: "smul E (arc_m1 c + nonce_scalar nonce) (tag pr) = pr_t pr"
    unfolding P(8) by (rule tag_times_inverse [OF assms(1) nz])
  obtain n where n: "into_nizk E ?R (session_id E ctx) = Inr n"
    and pf: "prove_batchable E n [arc_m1 c, z, r, nonce_scalar nonce] rng = Inr (pr_proof pr)"
    using P(10) by (auto simp: zkp_create_def Let_def res_simps t)
  have "relation_holds E ?R [arc_m1 c, z, r, nonce_scalar nonce]"
    unfolding arc_relation_holds using P(6,9) t by (simp add: curve_lawsD(1) [OF assms(1)])
  with assms(2) n pf have ok: "verify_batchable E n (pr_proof pr) = Inr ()"
    unfolding nizk_complete_def by blast
  have v: "smul E (sk_x1 sk) (m1_commit pr) + smul E (sk_x0 sk) (pr_u pr)
      + smul E (sk_x2 sk * m2) (pr_u pr) - u_prime_commit pr = ?v"
    unfolding P(4,5,6) by (rule honest_v [OF assms(1,3,4)])
  have mt: "m1_tag pr = pr_t pr - smul E (nonce_scalar nonce) (tag pr)"
    using t by (simp add: P(9) curve_lawsD(1) [OF assms(1)] algebra_simps)
  show ?thesis
    using assms(6-8) n ok mt P(7)
    by (simp add: presentation_verify_def v assms(4) [symmetric] zkp_verify_def not_le Let_def)
qed

section \<open>Properties\<close>

text \<open>C9 (completeness). If the proof system is complete, every presentation made from a
  credential with a valid MAC for the server's key is accepted by the server for the same
  context and nonce, provided the nonce is below the limit, the \<open>X1\<close> kept in the credential is
  that of the server, and the two randomised points are not the identity.\<close>

theorem presentation_complete:
  assumes "curve_laws E" and "nizk_complete E"
    and "mac_valid E sk m2 c" and "arc_x1 c = smul E (sk_x1 sk) (gen_g gs)"
    and "create_presentation E rnd c ctx nonce gs = (Inr pr, c')"
    and "nonce < limit" and "pr_u pr \<noteq> 0" and "u_prime_commit pr \<noteq> 0"
  shows "presentation_verify E pr sk m2 ctx nonce limit gs = Inr True"
  using assms by (rule honest_presentation_verifies)

definition small_cred :: "(gf3, gf3) ARCCredential" where
  "small_cred = \<lparr>arc_m1 = Z1, arc_u = Z1, arc_u_prime = Z0, arc_x1 = Z2,
     arc_max_presentations = 1000, presentations_used = 0\<rparr>"

definition small_pres :: "gf3 ARCPresentation" where
  "small_pres = \<lparr>pr_u = Z1, u_prime_commit = Z1, m1_commit = Z2, tag = Z2, m1_tag = Z2, pr_t = Z2,
     pr_proof = []\<rparr>"

lemmas small_defs = small_curve_sel small_cred_def small_pres_def small_key_def
  small_gens_def ARCGenerators_new_def gf3_eval

lemma plus_Z0: "x + Z0 = (x :: gf3)"
  by (simp add: zero_gf3_def [symmetric])

lemma small_created:
  "create_presentation small_curve (Z1, Z1, Z1, 0) small_cred [] 0 small_gens
     = (Inr small_pres, small_cred\<lparr>presentations_used := 1\<rparr>)"
  by (simp add: create_presentation_def zkp_create_def arc_relation_def nonce_scalar_def small_defs
      Let_def)

lemma small_cred_mac: "mac_valid small_curve small_key Z0 small_cred"
  by (simp add: mac_valid_def small_defs)

theorem presentation_complete_witness:
  "presentation_verify small_curve small_pres small_key Z0 [] 0 1000 small_gens = Inr True"
  by (rule presentation_complete [OF small_curve_laws small_nizk_complete small_cred_mac _ small_created])
    (simp_all add: small_defs)

text \<open>The statement the server checks the proof of a presentation against, from its own key and
  the public points of the presentation.\<close>

definition verifier_relation ::
  "('s::field, 'p::ab_group_add, 'n) arc_ext \<Rightarrow> 'p ARCPresentation \<Rightarrow> 's ServerPrivateKey \<Rightarrow> 's
     \<Rightarrow> 'p ARCGenerators \<Rightarrow> 'p linear_relation" where
  "verifier_relation E pr sk m2 gs =
     arc_relation (pr_u pr) (smul E (sk_x1 sk) (gen_g gs)) (gen_g gs) (gen_h gs) (tag pr) (m1_commit pr)
       (smul E (sk_x1 sk) (m1_commit pr) + smul E (sk_x0 sk) (pr_u pr)
          + smul E (sk_x2 sk * m2) (pr_u pr) - u_prime_commit pr)
       (pr_t pr) (m1_tag pr)"

lemma presentation_verify_TrueD:
  assumes "presentation_verify E pr sk m2 ctx nonce limit gs = Inr True"
  shows "nonce < limit" "pr_u pr \<noteq> 0" "u_prime_commit pr \<noteq> 0"
    "pr_t pr = hash_to_curve E ctx tag_dst"
    "m1_tag pr = hash_to_curve E ctx tag_dst - smul E (nonce_scalar nonce) (tag pr)"
    "\<exists>n. into_nizk E (verifier_relation E pr sk m2 gs) (session_id E ctx) = Inr n
       \<and> verify_batchable E n (pr_proof pr) = Inr ()"
  using assms
  by (auto simp: presentation_verify_def zkp_verify_def verifier_relation_def Let_def not_le res_simps
      split: if_splits)

lemma committed_mac:
  assumes "curve_laws E"
    and "m1_commit pr = smul E m1 (pr_u pr) + smul E z (gen_g gs)"
    and "smul E (sk_x1 sk) (m1_commit pr) + smul E (sk_x0 sk) (pr_u pr)
      + smul E (sk_x2 sk * m2) (pr_u pr) - u_prime_commit pr
      = smul E z (smul E (sk_x1 sk) (gen_g gs)) - smul E r (gen_g gs)"
  shows "u_prime_commit pr - smul E r (gen_g gs)
      = smul E (sk_x0 sk + m1 * sk_x1 sk + m2 * sk_x2 sk) (pr_u pr)"
proof -
  have "u_prime_commit pr - smul E r (gen_g gs)
      = smul E (sk_x1 sk) (m1_commit pr) + smul E (sk_x0 sk) (pr_u pr)
        + smul E (sk_x2 sk * m2) (pr_u pr) - smul E z (smul E (sk_x1 sk) (gen_g gs))"
    using assms(3) by (simp add: algebra_simps)
  also have "\<dots> = smul E (sk_x0 sk + m1 * sk_x1 sk + m2 * sk_x2 sk) (pr_u pr)"
    unfolding assms(2) by (simp add: smul_simps [OF assms(1)] algebra_simps)
  finally show ?thesis .
qed

lemma smul_eq_scalar:
  assumes "curve_laws E" and "smul E a P = smul E b P" and "smul E b P \<noteq> 0"
  shows "a = b"
proof (rule ccontr)
  assume "a \<noteq> b"
  moreover from assms(3) have "P \<noteq> 0" using smul_zero_right [OF assms(1)] by auto
  ultimately have "smul E (a - b) P \<noteq> 0" using smul_nonzero [OF assms(1)] by simp
  moreover have "smul E (a - b) P + smul E b P = smul E a P"
    using curve_lawsD(1) [OF assms(1), of "a - b" b P] by simp
  ultimately show False using assms(2) by simp
qed

text \<open>C10 (knowledge soundness and binding of the tag). If the proof system is a proof of
  knowledge, then the witness extracted from the proof of an accepted presentation consists of an
  attribute \<open>m1\<close>, blinding scalars \<open>z\<close> and \<open>r\<close> and a nonce such that \<open>m1_commit\<close> commits to
  \<open>m1\<close>, the committed \<open>U'\<close> is the MAC of this very \<open>m1\<close> and of the server's attribute under the
  server's own key, and the tag solves \<open>(m1 + nonce) * tag = H(context)\<close> for the nonce the server
  was given: so the tag is determined by attribute, nonce and context, and the nonce inside the
  proof is that nonce unless the context hashes to the identity. The nonce is below the limit and
  neither randomised point is the identity.\<close>

theorem presentation_sound:
  assumes "curve_laws E" and "nizk_extractable E ext"
    and "presentation_verify E pr sk m2 ctx nonce limit gs = Inr True"
  shows "nonce < limit \<and> pr_u pr \<noteq> 0 \<and> u_prime_commit pr \<noteq> 0 \<and>
    (case ext (verifier_relation E pr sk m2 gs) (session_id E ctx) (pr_proof pr) of
       [m1, z, r, n] \<Rightarrow>
         m1_commit pr = smul E m1 (pr_u pr) + smul E z (gen_g gs)
       \<and> u_prime_commit pr - smul E r (gen_g gs)
           = smul E (sk_x0 sk + m1 * sk_x1 sk + m2 * sk_x2 sk) (pr_u pr)
       \<and> smul E (m1 + nonce_scalar nonce) (tag pr) = hash_to_curve E ctx tag_dst
       \<and> (m1 + nonce_scalar nonce \<noteq> 0 \<longrightarrow>
            tag pr = smul E (inverse (m1 + nonce_scalar nonce)) (hash_to_curve E ctx tag_dst))
       \<and> (hash_to_curve E ctx tag_dst \<noteq> 0 \<longrightarrow> n = nonce_scalar nonce)
     | _ \<Rightarrow> False)"
proof -
  note V = presentation_verify_TrueD [OF assms(3)]
  let ?H = "hash_to_curve E ctx tag_dst"
  from V(6) assms(2) have
    "relation_holds E (verifier_relation E pr sk m2 gs)
       (ext (verifier_relation E pr sk m2 gs) (session_id E ctx) (pr_proof pr))"
    unfolding nizk_extractable_def by blast
  then obtain m1 z r n where
    w: "ext (verifier_relation E pr sk m2 gs) (session_id E ctx) (pr_proof pr) = [m1, z, r, n]"
    and mc: "m1_commit pr = smul E m1 (pr_u pr) + smul E z (gen_g gs)"
    and v: "smul E (sk_x1 sk) (m1_commit pr) + smul E (sk_x0 sk) (pr_u pr)
      + smul E (sk_x2 sk * m2) (pr_u pr) - u_prime_commit pr
      = smul E z (smul E (sk_x1 sk) (gen_g gs)) - smul E r (gen_g gs)"
    and t': "pr_t pr = smul E m1 (tag pr) + smul E n (tag pr)"
    and mt: "m1_tag pr = smul E m1 (tag pr)"
    unfolding verifier_relation_def arc_relation_holds by blast
  have t: "smul E (m1 + nonce_scalar nonce) (tag pr) = ?H"
    using V(5) mt by (simp add: curve_lawsD(1) [OF assms(1)])
  have "smul E (m1 + n) (tag pr) = smul E (m1 + nonce_scalar nonce) (tag pr)"
    unfolding t by (simp only: curve_lawsD(1) [OF assms(1)] V(4) t' [symmetric])
  from smul_eq_scalar [OF assms(1) this] have n: "n = nonce_scalar nonce" if "?H \<noteq> 0"
    unfolding t using that by simp
  show ?thesis
    unfolding w list.case
    using V(1-3) mc committed_mac [OF assms(1) mc v] t smul_cancel [OF assms(1) _ t] n by blast
qed

theorem presentation_sound_witness:
  "case small_extract (verifier_relation small_curve small_pres small_key Z0 small_gens)
          (session_id small_curve []) (pr_proof small_pres) of
     [m1, z, r, n] \<Rightarrow> m1_commit small_pres = smul small_curve m1 (pr_u small_pres)
                         + smul small_curve z (gen_g small_gens)
       \<and> smul small_curve m1 (tag small_pres) = Z2 \<and> n = Z0
   | _ \<Rightarrow> False"
proof -
  have "presentation_verify small_curve small_pres small_key Z0 [] 0 1000 small_gens = Inr True"
    by (rule honest_presentation_verifies [OF small_curve_laws small_nizk_complete small_cred_mac _
          small_created])
      (simp_all add: small_defs)
  from presentation_sound [OF small_curve_laws small_nizk_extractable this] show ?thesis
    by (auto simp: small_curve_sel nonce_scalar_def gf3_eval plus_Z0 split: list.splits)
qed

section \<open>The presentation budget\<close>

lemma create_presentation_cases:
  "(\<exists>e. create_presentation E rnd c ctx nonce gs = (Inl e, c)) \<or>
   (\<exists>pr. create_presentation E rnd c ctx nonce gs
            = (Inr pr, c\<lparr>presentations_used := presentations_used c + 1\<rparr>)
         \<and> presentations_used c < arc_max_presentations c)"
  by (auto simp: create_presentation_def Let_def not_le split: prod.splits sum.splits)

text \<open>A sequence of presentation requests, with their randomness, contexts and nonces: the
  number that succeed and the credential left over.\<close>

fun present_all ::
  "('s::field, 'p::ab_group_add, 'n) arc_ext \<Rightarrow> 'p ARCGenerators \<Rightarrow> ('s, 'p) ARCCredential
     \<Rightarrow> (('s \<times> 's \<times> 's \<times> nat) \<times> bytes \<times> u64) list \<Rightarrow> nat \<times> ('s, 'p) ARCCredential" where
  "present_all E gs c [] = (0, c)"
| "present_all E gs c ((rnd, ctx, nonce) # reqs) =
     (case create_presentation E rnd c ctx nonce gs of
        (res, c') \<Rightarrow> (case present_all E gs c' reqs of
           (k, c'') \<Rightarrow> ((if is_ok res then Suc k else k), c'')))"

text \<open>C11 (sequential budget). However many presentations are requested one after another, the
  successes plus what the counter showed before never exceed the maximum, the counter counts
  exactly the successes, and the remaining number shown to the verifier is the maximum less
  the uses.\<close>

theorem presentation_budget:
  assumes "presentations_used c \<le> arc_max_presentations c"
    and "present_all E gs c reqs = (k, c')"
  shows "(unat (presentations_used c') = unat (presentations_used c) + k)
    \<and> (unat (presentations_used c) + k \<le> unat (arc_max_presentations c))
    \<and> (unat (presentations_remaining c') = unat (presentations_remaining c) - k)"
proof -
  have "unat (presentations_used c') = unat (presentations_used c) + k
      \<and> unat (presentations_used c) + k \<le> unat (arc_max_presentations c)
      \<and> arc_max_presentations c' = arc_max_presentations c"
    using assms
  proof (induction reqs arbitrary: c k)
    case Nil
    then show ?case by (simp add: word_le_nat_alt)
  next
    case (Cons req reqs)
    obtain rnd ctx nonce where req: "req = (rnd, ctx, nonce)" by (cases req)
    from create_presentation_cases [of E rnd c ctx nonce gs] show ?case
    proof (elim disjE exE conjE)
      fix e assume "create_presentation E rnd c ctx nonce gs = (Inl e, c)"
      with Cons req show ?thesis by (auto split: prod.splits)
    next
      fix pr
      let ?c = "c\<lparr>presentations_used := presentations_used c + 1\<rparr>"
      assume pr: "create_presentation E rnd c ctx nonce gs = (Inr pr, ?c)"
        and lt: "presentations_used c < arc_max_presentations c"
      then have inc: "unat (presentations_used c + 1) = unat (presentations_used c) + 1"
        by (intro unat_add_1_less)
      from lt have "presentations_used ?c \<le> arc_max_presentations ?c"
        by (simp add: inc word_le_nat_alt word_less_nat_alt)
      moreover from Cons.prems(2) req pr obtain k' where "k = Suc k'"
        "present_all E gs ?c reqs = (k', c')"
        by (auto split: prod.splits)
      ultimately show ?thesis using Cons.IH [of ?c k'] inc by auto
    qed
  qed
  then show ?thesis by (simp add: presentations_remaining_def unat_saturating_sub)
qed

theorem presentation_budget_witness:
  "unat (presentations_remaining (small_cred\<lparr>presentations_used := 1\<rparr>)) = 999"
proof -
  have "present_all small_curve small_gens small_cred [((Z1, Z1, Z1, 0), [], 0)]
      = (1, small_cred\<lparr>presentations_used := 1\<rparr>)"
    by (simp add: small_created)
  from presentation_budget [OF _ this] show ?thesis
    by (simp add: small_cred_def presentations_remaining_def saturating_sub_def)
qed

section \<open>Concurrent presentations\<close>

text \<open>
  \<open>create_presentation\<close> takes \<open>&self\<close>: it loads the atomic counter, compares it with the
  maximum, computes the presentation and only then executes \<open>fetch_add(1)\<close>. Threads
  sharing a credential interleave between the two accesses. A thread is \<open>True\<close> while it has
  passed the check and not yet incremented; the rejected branch leaves the state unchanged.
\<close>

record budget_state =
  bs_used :: u64
  bs_max :: u64
  bs_inside :: "bool list"
  bs_issued :: nat

inductive budget_step :: "budget_state \<Rightarrow> budget_state \<Rightarrow> bool" where
  load_ok: "i < length (bs_inside s) \<Longrightarrow> \<not> bs_inside s ! i \<Longrightarrow> \<not> bs_used s \<ge> bs_max s \<Longrightarrow>
    budget_step s (s\<lparr>bs_inside := (bs_inside s)[i := True]\<rparr>)"
| load_reject: "i < length (bs_inside s) \<Longrightarrow> \<not> bs_inside s ! i \<Longrightarrow> bs_used s \<ge> bs_max s \<Longrightarrow>
    budget_step s s"
| fetch_add: "i < length (bs_inside s) \<Longrightarrow> bs_inside s ! i \<Longrightarrow>
    budget_step s (s\<lparr>bs_inside := (bs_inside s)[i := False], bs_used := bs_used s + 1,
                     bs_issued := Suc (bs_issued s)\<rparr>)"

definition budget_init :: "nat \<Rightarrow> u64 \<Rightarrow> budget_state" where
  "budget_init n m = \<lparr>bs_used = 0, bs_max = m, bs_inside = replicate n False, bs_issued = 0\<rparr>"

inductive_cases budget_stepE: "budget_step s t"

definition inside_count :: "bool list \<Rightarrow> nat" where
  "inside_count bs = card {i. i < length bs \<and> bs ! i}"

lemma inside_count_enter:
  assumes "i < length bs" "\<not> bs ! i"
  shows "inside_count (bs[i := True]) = Suc (inside_count bs)" and "inside_count bs < length bs"
proof -
  have "{j. j < length (bs[i := True]) \<and> bs[i := True] ! j} = insert i {j. j < length bs \<and> bs ! j}"
    using assms by (auto simp: nth_list_update split: if_splits)
  with assms(2) show "inside_count (bs[i := True]) = Suc (inside_count bs)"
    by (simp add: inside_count_def)
  have "{j. j < length bs \<and> bs ! j} \<subset> {..<length bs}" using assms by auto
  from psubset_card_mono [OF _ this] show "inside_count bs < length bs"
    by (simp add: inside_count_def)
qed

lemma inside_count_leave:
  assumes "i < length bs" "bs ! i"
  shows "Suc (inside_count (bs[i := False])) = inside_count bs"
proof -
  have "bs[i := True] = bs" using assms by (metis (full_types) list_update_id)
  with inside_count_enter(1) [of i "bs[i := False]"] assms show ?thesis by simp
qed

text \<open>The invariant: uses so far plus threads past the check stay within the overshoot that the
  number of threads allows, and the counter counts the presentations issued.\<close>

definition budget_inv :: "nat \<Rightarrow> u64 \<Rightarrow> budget_state \<Rightarrow> bool" where
  "budget_inv n m s \<longleftrightarrow> length (bs_inside s) = n \<and> bs_max s = m
     \<and> unat (bs_used s) = bs_issued s \<and> bs_issued s + inside_count (bs_inside s) \<le> unat m + (n - 1)"

lemma budget_inv_init: "budget_inv n m (budget_init n m)"
proof -
  have "inside_count (replicate n False) = 0"
    by (simp add: inside_count_def cong: conj_cong)
  then show ?thesis by (simp add: budget_inv_def budget_init_def)
qed

lemma budget_inv_step:
  assumes "budget_step s t" "budget_inv n m s" "unat m + n < 2 ^ 64"
  shows "budget_inv n m t"
  using assms(1)
proof cases
  case (load_ok i)
  with assms(2) inside_count_enter [OF load_ok(2,3)] show ?thesis
    by (auto simp: budget_inv_def word_le_nat_alt)
next
  case (load_reject i)
  with assms(2) show ?thesis by simp
next
  case (fetch_add i)
  have "inside_count (bs_inside s) \<ge> 1"
    using inside_count_leave [OF fetch_add(2,3)] by simp
  with assms(2,3) have "bs_issued s + 1 < 2 ^ 64"
    by (auto simp: budget_inv_def)
  with assms(2) have "unat (bs_used s + 1) = Suc (bs_issued s)"
    by (simp add: budget_inv_def unat_word_ariths)
  with fetch_add assms(2) inside_count_leave [OF fetch_add(2,3)] show ?thesis
    by (auto simp: budget_inv_def)
qed

lemma budget_inv_reachable:
  assumes "budget_step\<^sup>*\<^sup>* (budget_init n m) s" "unat m + n < 2 ^ 64"
  shows "budget_inv n m s"
  using assms(1)
  by (induction rule: rtranclp_induct) (auto intro: budget_inv_init budget_inv_step [OF _ _ assms(2)])

text \<open>Concurrent budget. With \<open>n\<close> threads sharing a credential the number of
  presentations issued never exceeds the maximum by more than \<open>n - 1\<close>, and a single
  thread never exceeds it.\<close>

theorem concurrent_budget_bound:
  assumes "budget_step\<^sup>*\<^sup>* (budget_init n m) s" and "unat m + n < 2 ^ 64"
  shows "bs_issued s \<le> unat m + (n - 1)"
  using budget_inv_reachable [OF assms] by (auto simp: budget_inv_def)

lemma two_thread_run:
  "budget_step\<^sup>*\<^sup>* (budget_init 2 1)
     \<lparr>bs_used = 2, bs_max = 1, bs_inside = [False, False], bs_issued = 2\<rparr>"
proof -
  let ?s = "\<lambda>u bs k. \<lparr>bs_used = u, bs_max = 1, bs_inside = bs, bs_issued = k\<rparr>"
  have "budget_step (?s 0 [False, False] 0) (?s 0 [True, False] 0)"
    using budget_step.load_ok [of 0 "?s 0 [False, False] 0"] by simp
  moreover have "budget_step (?s 0 [True, False] 0) (?s 0 [True, True] 0)"
    using budget_step.load_ok [of 1 "?s 0 [True, False] 0"] by simp
  moreover have "budget_step (?s 0 [True, True] 0) (?s 1 [False, True] 1)"
    using budget_step.fetch_add [of 0 "?s 0 [True, True] 0"] by simp
  moreover have "budget_step (?s 1 [False, True] 1) (?s 2 [False, False] 2)"
    using budget_step.fetch_add [of 1 "?s 1 [False, True] 1"] by (simp add: numeral_2_eq_2)
  moreover have "budget_init 2 1 = ?s 0 [False, False] 0"
    by (simp add: budget_init_def numeral_2_eq_2)
  ultimately show ?thesis
    by (metis (no_types, lifting) converse_rtranclp_into_rtranclp rtranclp.rtrancl_refl)
qed

theorem concurrent_budget_bound_witness:
  "bs_issued \<lparr>bs_used = 2, bs_max = 1, bs_inside = [False, False], bs_issued = 2\<rparr>
     \<le> unat (1 :: u64) + (2 - 1)"
  using concurrent_budget_bound [OF two_thread_run] by simp

text \<open>The check and the increment are not atomic. Two threads can both pass the check of a
  credential with one presentation left: two presentations are issued where the maximum is
  one.\<close>

theorem concurrent_budget_exceeded:
  "\<exists>s. budget_step\<^sup>*\<^sup>* (budget_init 2 1) s \<and> bs_issued s > unat (bs_max s)"
  using two_thread_run by (intro exI conjI) (assumption, simp)

end
