(* ===== verification/Credentials.thy ===== *)
theory Credentials
  imports Capabilities Delegation Arc_Presentation
begin

text \<open>
  The three credential types (\<open>acdp-auth/src/credentials.rs\<close>), the bytes the gateway's
  signature is checked against, and expiry. The JSON serialisation of principal, agent,
  capabilities and delegation rights (\<open>serde_json::to_vec\<close> on a tuple) is the parameter
  \<open>canonical\<close>.
\<close>

section \<open>Data\<close>

record Extensions =
  ap2_mandate_link :: "string option"
  ext_metadata :: "json option"

definition Extensions_default :: Extensions where
  "Extensions_default = \<lparr>ap2_mandate_link = None, ext_metadata = None\<rparr>"

record IdentityBoundCredential =
  ib_version :: string
  ib_credential_id :: uuid
  ib_issued_at :: datetime
  ib_expires_at :: datetime
  ib_principal :: Principal
  ib_agent :: Agent
  ib_mcp_capabilities :: MCPCapabilities
  ib_delegation :: DelegationRights
  ib_delegation_chain :: DelegationChain
  ib_signature :: bytes
  ib_extensions :: Extensions

record ('s, 'p) AnonymousCredential =
  an_version :: string
  an_credential_id :: uuid
  an_issued_at :: datetime
  an_expires_at :: datetime
  an_arc_credential :: "('s, 'p) ARCCredential"
  an_mcp_capabilities :: MCPCapabilities
  an_extensions :: Extensions

record ('s, 'p) HybridCredential =
  hy_version :: string
  hy_credential_id :: uuid
  hy_issued_at :: datetime
  hy_expires_at :: datetime
  hy_principal :: Principal
  hy_agent :: Agent
  hy_arc_credential :: "('s, 'p) ARCCredential"
  hy_mcp_capabilities :: MCPCapabilities
  hy_delegation :: DelegationRights
  hy_delegation_chain :: DelegationChain
  hy_signature :: bytes
  hy_extensions :: Extensions

datatype ('s, 'p) ACDPCredential =
    IdentityBound IdentityBoundCredential
  | Anonymous "('s, 'p) AnonymousCredential"
  | Hybrid "('s, 'p) HybridCredential"

datatype CredentialType = IdentityBoundType | AnonymousType | HybridType

type_synonym canonical_fun =
  "Principal \<times> Agent \<times> MCPCapabilities \<times> DelegationRights \<Rightarrow> string + bytes"

section \<open>Operations\<close>

primrec credential_id :: "('s, 'p) ACDPCredential \<Rightarrow> uuid" where
  "credential_id (IdentityBound c) = ib_credential_id c"
| "credential_id (Anonymous c) = an_credential_id c"
| "credential_id (Hybrid c) = hy_credential_id c"

primrec is_expired :: "datetime \<Rightarrow> ('s, 'p) ACDPCredential \<Rightarrow> bool" where
  "is_expired now (IdentityBound c) = (ib_expires_at c < now)"
| "is_expired now (Anonymous c) = (an_expires_at c < now)"
| "is_expired now (Hybrid c) = (hy_expires_at c < now)"

primrec mcp_capabilities :: "('s, 'p) ACDPCredential \<Rightarrow> MCPCapabilities" where
  "mcp_capabilities (IdentityBound c) = ib_mcp_capabilities c"
| "mcp_capabilities (Anonymous c) = an_mcp_capabilities c"
| "mcp_capabilities (Hybrid c) = hy_mcp_capabilities c"

primrec credential_type :: "('s, 'p) ACDPCredential \<Rightarrow> CredentialType" where
  "credential_type (IdentityBound c) = IdentityBoundType"
| "credential_type (Anonymous c) = AnonymousType"
| "credential_type (Hybrid c) = HybridType"

definition ib_signing_data :: "canonical_fun \<Rightarrow> IdentityBoundCredential \<Rightarrow> bytes acdp_result" where
  "ib_signing_data canonical c =
     (let data = str_bytes (ib_version c) @ uuid_bytes (ib_credential_id c)
                 @ le_bytes 8 (timestamp (ib_issued_at c)) @ le_bytes 8 (timestamp (ib_expires_at c))
      in and_then (map_err (\<lambda>e. InternalError (''Serialization failed: '' @ e))
             (canonical (ib_principal c, ib_agent c, ib_mcp_capabilities c, ib_delegation c)))
           (\<lambda>can. Inr (data @ can)))"

definition ib_verify_signature ::
  "auth_ext \<Rightarrow> canonical_fun \<Rightarrow> IdentityBoundCredential \<Rightarrow> bytes \<Rightarrow> unit acdp_result" where
  "ib_verify_signature X canonical c issuer_public_key =
     and_then (map_err (\<lambda>e. CryptoError (''Invalid public key: '' @ e))
                 (pk_from_slice X issuer_public_key)) (\<lambda>pk.
     and_then (ib_signing_data canonical c) (\<lambda>signing_data.
     and_then (map_err (\<lambda>e. InvalidCredential (''Signature verification failed: '' @ e))
                 (ed_verify X pk signing_data (ib_signature c))) (\<lambda>_. Inr ())))"

definition hy_signing_data :: "canonical_fun \<Rightarrow> ('s, 'p) HybridCredential \<Rightarrow> bytes acdp_result" where
  "hy_signing_data canonical c =
     (let data = str_bytes (hy_version c) @ uuid_bytes (hy_credential_id c)
                 @ le_bytes 8 (timestamp (hy_issued_at c)) @ le_bytes 8 (timestamp (hy_expires_at c))
      in and_then (map_err (\<lambda>e. InternalError (''Serialization failed: '' @ e))
             (canonical (hy_principal c, hy_agent c, hy_mcp_capabilities c, hy_delegation c)))
           (\<lambda>can. Inr (data @ can)))"

definition hy_verify_signature ::
  "auth_ext \<Rightarrow> canonical_fun \<Rightarrow> ('s, 'p) HybridCredential \<Rightarrow> bytes \<Rightarrow> unit acdp_result" where
  "hy_verify_signature X canonical c issuer_public_key =
     and_then (map_err (\<lambda>e. CryptoError (''Invalid public key: '' @ e))
                 (pk_from_slice X issuer_public_key)) (\<lambda>pk.
     and_then (hy_signing_data canonical c) (\<lambda>signing_data.
     and_then (map_err (\<lambda>e. InvalidCredential (''Signature verification failed: '' @ e))
                 (ed_verify X pk signing_data (hy_signature c))) (\<lambda>_. Inr ())))"

primrec verify_signature ::
  "auth_ext \<Rightarrow> canonical_fun \<Rightarrow> ('s, 'p) ACDPCredential \<Rightarrow> bytes \<Rightarrow> unit acdp_result" where
  "verify_signature X canonical (IdentityBound c) key = ib_verify_signature X canonical c key"
| "verify_signature X canonical (Anonymous c) key = Inr ()"
| "verify_signature X canonical (Hybrid c) key = hy_verify_signature X canonical c key"

text \<open>Presentations through a credential; the credential comes back with its counter updated.\<close>

definition an_create_presentation ::
  "('s::field, 'p::ab_group_add, 'n) arc_ext \<Rightarrow> 's \<times> 's \<times> 's \<times> nat \<Rightarrow> ('s, 'p) AnonymousCredential
     \<Rightarrow> bytes \<Rightarrow> u64 \<Rightarrow> 'p ARCPresentation acdp_result \<times> ('s, 'p) AnonymousCredential" where
  "an_create_presentation E rnd c ctx nonce =
     (let generators = ARCGenerators_new E in
      case create_presentation E rnd (an_arc_credential c) ctx nonce generators of
        (res, arc) \<Rightarrow> (res, c\<lparr>an_arc_credential := arc\<rparr>))"

definition an_check_rate_limit :: "('s, 'p) AnonymousCredential \<Rightarrow> u64 acdp_result" where
  "an_check_rate_limit c = Inr (presentations_remaining (an_arc_credential c))"

definition hy_create_presentation ::
  "('s::field, 'p::ab_group_add, 'n) arc_ext \<Rightarrow> 's \<times> 's \<times> 's \<times> nat \<Rightarrow> ('s, 'p) HybridCredential
     \<Rightarrow> bytes \<Rightarrow> u64 \<Rightarrow> 'p ARCPresentation acdp_result \<times> ('s, 'p) HybridCredential" where
  "hy_create_presentation E rnd c ctx nonce =
     (let generators = ARCGenerators_new E in
      case create_presentation E rnd (hy_arc_credential c) ctx nonce generators of
        (res, arc) \<Rightarrow> (res, c\<lparr>hy_arc_credential := arc\<rparr>))"

definition hy_check_rate_limit :: "('s, 'p) HybridCredential \<Rightarrow> u64 acdp_result" where
  "hy_check_rate_limit c = Inr (presentations_remaining (hy_arc_credential c))"

section \<open>Lemmas\<close>

lemma ib_signing_data_Inr:
  "ib_signing_data canonical c = Inr d \<longleftrightarrow>
     (\<exists>can. canonical (ib_principal c, ib_agent c, ib_mcp_capabilities c, ib_delegation c) = Inr can
        \<and> d = str_bytes (ib_version c) @ uuid_bytes (ib_credential_id c)
              @ le_bytes 8 (timestamp (ib_issued_at c)) @ le_bytes 8 (timestamp (ib_expires_at c)) @ can)"
  by (auto simp: ib_signing_data_def Let_def res_simps)

lemma hy_signing_data_Inr:
  "hy_signing_data canonical c = Inr d \<longleftrightarrow>
     (\<exists>can. canonical (hy_principal c, hy_agent c, hy_mcp_capabilities c, hy_delegation c) = Inr can
        \<and> d = str_bytes (hy_version c) @ uuid_bytes (hy_credential_id c)
              @ le_bytes 8 (timestamp (hy_issued_at c)) @ le_bytes 8 (timestamp (hy_expires_at c)) @ can)"
  by (auto simp: hy_signing_data_def Let_def res_simps)

lemma ib_verify_signature_Inr:
  "ib_verify_signature X canonical c key = Inr () \<longleftrightarrow>
     (\<exists>pk d. pk_from_slice X key = Inr pk \<and> ib_signing_data canonical c = Inr d
        \<and> ed_verify X pk d (ib_signature c) = Inr ())"
  by (auto simp: ib_verify_signature_def res_simps)

lemma hy_verify_signature_Inr:
  "hy_verify_signature X canonical c key = Inr () \<longleftrightarrow>
     (\<exists>pk d. pk_from_slice X key = Inr pk \<and> hy_signing_data canonical c = Inr d
        \<and> ed_verify X pk d (hy_signature c) = Inr ())"
  by (auto simp: hy_verify_signature_def res_simps)

text \<open>The signed bytes are longer than a bare credential id.\<close>

lemma ib_signing_data_not_id:
  assumes "ib_signing_data canonical c = Inr d"
  shows "d \<noteq> uuid_bytes u"
proof
  assume "d = uuid_bytes u"
  with assms have "length d = 16" by simp
  moreover from assms have "length d \<ge> 32" by (auto simp: ib_signing_data_Inr)
  ultimately show False by simp
qed

lemma hy_signing_data_not_id:
  assumes "hy_signing_data canonical c = Inr d"
  shows "d \<noteq> uuid_bytes u"
proof
  assume "d = uuid_bytes u"
  with assms have "length d = 16" by simp
  moreover from assms have "length d \<ge> 32" by (auto simp: hy_signing_data_Inr)
  ultimately show False by simp
qed

section \<open>Properties\<close>

text \<open>What the gateway's signature binds. If the JSON serialisation is injective, two
  identity-bound credentials of the same version length with the same signing data agree on
  the version, the id, the issue and expiry times in whole seconds, the principal, the
  agent, the capabilities and the delegation rights.\<close>

theorem signing_data_binds:
  assumes "\<And>a b s. canonical a = Inr s \<Longrightarrow> canonical b = Inr s \<Longrightarrow> a = b"
    and "ib_signing_data canonical c = Inr d" and "ib_signing_data canonical c' = Inr d"
    and "length (ib_version c) = length (ib_version c')"
    and "\<forall>t\<in>{ib_issued_at c, ib_expires_at c, ib_issued_at c', ib_expires_at c'}. in_i64 (timestamp t)"
  shows "ib_version c = ib_version c' \<and> ib_credential_id c = ib_credential_id c'
    \<and> timestamp (ib_issued_at c) = timestamp (ib_issued_at c')
    \<and> timestamp (ib_expires_at c) = timestamp (ib_expires_at c')
    \<and> ib_principal c = ib_principal c' \<and> ib_agent c = ib_agent c'
    \<and> ib_mcp_capabilities c = ib_mcp_capabilities c' \<and> ib_delegation c = ib_delegation c'"
proof -
  let ?t = "\<lambda>c. (ib_principal c, ib_agent c, ib_mcp_capabilities c, ib_delegation c)"
  from assms(2,3) obtain s s' where s: "canonical (?t c) = Inr s" "canonical (?t c') = Inr s'"
    and eq: "str_bytes (ib_version c) @ uuid_bytes (ib_credential_id c)
              @ le_bytes 8 (timestamp (ib_issued_at c)) @ le_bytes 8 (timestamp (ib_expires_at c)) @ s
            = str_bytes (ib_version c') @ uuid_bytes (ib_credential_id c')
              @ le_bytes 8 (timestamp (ib_issued_at c')) @ le_bytes 8 (timestamp (ib_expires_at c')) @ s'"
    unfolding ib_signing_data_Inr by blast
  from eq assms(4) have parts: "ib_version c = ib_version c'" "ib_credential_id c = ib_credential_id c'"
    "le_bytes 8 (timestamp (ib_issued_at c)) = le_bytes 8 (timestamp (ib_issued_at c'))"
    "le_bytes 8 (timestamp (ib_expires_at c)) = le_bytes 8 (timestamp (ib_expires_at c'))" "s = s'"
    by (auto simp: append_eq_append_conv)
  from s parts(5) have "?t c = ?t c'" by (intro assms(1) [of _ s']) simp_all
  moreover have "timestamp (ib_issued_at c) = timestamp (ib_issued_at c')"
    "timestamp (ib_expires_at c) = timestamp (ib_expires_at c')"
    using parts(3,4) assms(5) by (auto simp: in_i64_def intro: le_bytes_8_inject)
  ultimately show ?thesis using parts(1,2) by simp
qed

definition sample_agent :: Agent where
  "sample_agent = \<lparr>agent_id = ''agent://test'', public_key = replicate 32 7, platform = ''custom'',
     verified = False, agent_metadata = None\<rparr>"

definition sample_ib :: IdentityBoundCredential where
  "sample_ib = \<lparr>ib_version = ''ACDP/0.3'', ib_credential_id = 42, ib_issued_at = 0,
     ib_expires_at = 604800000000000, ib_principal = sample_principal, ib_agent = sample_agent,
     ib_mcp_capabilities = sample_root, ib_delegation = allow_delegation 5,
     ib_delegation_chain = chain_new, ib_signature = [], ib_extensions = Extensions_default\<rparr>"

theorem signing_data_binds_witness:
  "ib_agent (sample_ib\<lparr>ib_signature := [1]\<rparr>) = ib_agent sample_ib"
proof -
  let ?can = "\<lambda>x. if x = (sample_principal, sample_agent, sample_root, allow_delegation 5)
    then Inr [1] else Inl []"
  have inj: "a = b" if "?can a = Inr s" "?can b = Inr s" for a b s
    using that by (auto split: if_splits)
  obtain d where d: "ib_signing_data ?can sample_ib = Inr d"
    by (simp add: ib_signing_data_def sample_ib_def)
  moreover have "ib_signing_data ?can (sample_ib\<lparr>ib_signature := [1]\<rparr>) = Inr d"
    using d by (simp add: ib_signing_data_def sample_ib_def)
  ultimately show ?thesis
    using signing_data_binds [of ?can "sample_ib\<lparr>ib_signature := [1]\<rparr>" d sample_ib, OF inj]
    by (simp add: sample_ib_def timestamp_def in_i64_def)
qed

end
