(* ===== verification/Verification.thy ===== *)
theory Verification
  imports Credentials
begin

text \<open>
  Credential verification (\<open>acdp-auth/src/verification.rs\<close>): the request, the result and
  the four checks in their order, and the cache entry's expiry. \<open>now\<close> is the time the expiry
  check reads and \<open>stamp\<close> the time written into the result, both from
  \<open>Utc::now()\<close>.
\<close>

section \<open>Data\<close>

record PresentationContext =
  tool :: string
  pc_resource :: "string option"
  pc_timestamp :: datetime
  server_id :: string
  pc_metadata :: "json obj option"

record ('s, 'p) VerificationRequest =
  vr_credential :: "('s, 'p) ACDPCredential"
  vr_context :: PresentationContext
  arc_presentation :: "'p ARCPresentation option"

record VerificationResult =
  valid :: bool
  res_principal :: "Principal option"
  res_agent_id :: "string option"
  res_presentations_remaining :: u64
  res_delegation_chain :: "string list"
  failure_reason :: "string option"
  verified_at :: datetime

definition result_success ::
  "datetime \<Rightarrow> Principal option \<Rightarrow> string option \<Rightarrow> u64 \<Rightarrow> string list \<Rightarrow> VerificationResult" where
  "result_success stamp p a n ch =
     \<lparr>valid = True, res_principal = p, res_agent_id = a, res_presentations_remaining = n,
      res_delegation_chain = ch, failure_reason = None, verified_at = stamp\<rparr>"

definition result_failure :: "datetime \<Rightarrow> string \<Rightarrow> VerificationResult" where
  "result_failure stamp reason =
     \<lparr>valid = False, res_principal = None, res_agent_id = None, res_presentations_remaining = 0,
      res_delegation_chain = [], failure_reason = Some reason, verified_at = stamp\<rparr>"

record CredentialVerifier =
  gateway_public_key :: bytes
  expected_audience :: string

definition CredentialVerifier_new :: "bytes \<Rightarrow> string \<Rightarrow> CredentialVerifier" where
  "CredentialVerifier_new key a = \<lparr>gateway_public_key = key, expected_audience = a\<rparr>"

section \<open>Operations\<close>

primrec check_rate_limit :: "('s, 'p) ACDPCredential \<Rightarrow> u64 acdp_result" where
  "check_rate_limit (IdentityBound c) = Inr (- 1)"
| "check_rate_limit (Anonymous c) = an_check_rate_limit c"
| "check_rate_limit (Hybrid c) = hy_check_rate_limit c"

definition verify ::
  "auth_ext \<Rightarrow> canonical_fun \<Rightarrow> datetime \<Rightarrow> datetime \<Rightarrow> CredentialVerifier
     \<Rightarrow> ('s, 'p) VerificationRequest \<Rightarrow> VerificationResult" where
  "verify X canonical now stamp V request =
     (case verify_signature X canonical (vr_credential request) (gateway_public_key V) of
        Inl e \<Rightarrow> result_failure stamp (''Signature verification failed: '' @ acdp_error_display e)
      | Inr _ \<Rightarrow>
      if is_expired now (vr_credential request) then result_failure stamp ''Credential expired''
      else
        let capabilities = mcp_capabilities (vr_credential request) in
        case is_tool_allowed capabilities (tool (vr_context request)) of
          Inl e \<Rightarrow> result_failure stamp (''Tool not allowed: '' @ acdp_error_display e)
        | Inr _ \<Rightarrow>
          (case check_rate_limit (vr_credential request) of
             Inl e \<Rightarrow> result_failure stamp (''Rate limit exceeded: '' @ acdp_error_display e)
           | Inr remaining \<Rightarrow>
               let (p, a, ch) = (case vr_credential request of
                   IdentityBound c \<Rightarrow>
                     (Some (ib_principal c), Some (agent_id (ib_agent c)),
                      audit_trail (ib_delegation_chain c))
                 | Anonymous _ \<Rightarrow> (None, None, [])
                 | Hybrid _ \<Rightarrow> (None, None, []))
               in result_success stamp p a remaining ch))"

record VerificationCacheEntry =
  ce_credential_id :: uuid
  ce_result :: VerificationResult
  cached_at :: datetime
  ttl_seconds :: u64

text \<open>\<open>plus_secs t n\<close> is chrono's \<open>t + Duration::seconds(n)\<close>, \<open>Panic\<close> when the
  duration or the sum is out of range.\<close>

definition cache_is_expired ::
  "(datetime \<Rightarrow> int \<Rightarrow> datetime rust) \<Rightarrow> datetime \<Rightarrow> VerificationCacheEntry \<Rightarrow> bool rust" where
  "cache_is_expired plus_secs now e =
     (case plus_secs (cached_at e) (u64_as_i64 (ttl_seconds e)) of
        Panic \<Rightarrow> Panic
      | Done expiry \<Rightarrow> Done (now > expiry))"

section \<open>Lemmas\<close>

lemma check_rate_limit_total: "\<exists>n. check_rate_limit c = Inr n"
  by (cases c) (simp_all add: an_check_rate_limit_def hy_check_rate_limit_def)

lemma result_sel [simp]:
  "valid (result_success st p a n ch)" "\<not> valid (result_failure st r)"
  "failure_reason (result_success st p a n ch) = None"
  "failure_reason (result_failure st r) = Some r"
  "res_principal (result_success st p a n ch) = p" "res_principal (result_failure st r) = None"
  "res_agent_id (result_success st p a n ch) = a" "res_agent_id (result_failure st r) = None"
  "res_delegation_chain (result_success st p a n ch) = ch"
  "res_delegation_chain (result_failure st r) = []"
  "res_presentations_remaining (result_success st p a n ch) = n"
  "verified_at (result_success st p a n ch) = st" "verified_at (result_failure st r) = st"
  by (simp_all add: result_success_def result_failure_def)

lemma verify_valid:
  "valid (verify X canonical now stamp V rq) \<longleftrightarrow>
     verify_signature X canonical (vr_credential rq) (gateway_public_key V) = Inr ()
     \<and> \<not> is_expired now (vr_credential rq)
     \<and> is_tool_allowed (mcp_capabilities (vr_credential rq)) (tool (vr_context rq)) = Inr ()"
  using check_rate_limit_total [of "vr_credential rq"]
  by (auto simp: verify_def Let_def split: sum.splits ACDPCredential.splits)

text \<open>The result of an accepted request.\<close>

lemma verify_accepted:
  assumes "valid (verify X canonical now stamp V rq)"
  shows "verify X canonical now stamp V rq =
    (case vr_credential rq of
       IdentityBound c \<Rightarrow> result_success stamp (Some (ib_principal c)) (Some (agent_id (ib_agent c)))
                           (- 1) (audit_trail (ib_delegation_chain c))
     | Anonymous c \<Rightarrow> result_success stamp None None (presentations_remaining (an_arc_credential c)) []
     | Hybrid c \<Rightarrow> result_success stamp None None (presentations_remaining (hy_arc_credential c)) [])"
  using assms [unfolded verify_valid]
  by (simp add: verify_def an_check_rate_limit_def hy_check_rate_limit_def
      split: ACDPCredential.splits)

section \<open>Properties\<close>

text \<open>C4 (verdict). The verifier accepts a request exactly when the credential's signature
  verifies under the gateway key, the credential has not expired, and its capabilities allow
  the tool; the reason of a refusal is that of the first failing check in this order, and
  there is no fourth reason: the rate limit refuses nothing.\<close>

theorem verify_verdict:
  "(failure_reason (verify X canonical now stamp V rq) =
     (let cred = vr_credential rq; t = tool (vr_context rq);
          sig = verify_signature X canonical cred (gateway_public_key V)
      in case sig of
           Inl e \<Rightarrow> Some (''Signature verification failed: '' @ acdp_error_display e)
         | Inr _ \<Rightarrow>
             if is_expired now cred then Some ''Credential expired''
             else if \<not> is_ok (is_tool_allowed (mcp_capabilities cred) t)
             then Some (''Tool not allowed: '' @ acdp_error_display (ToolNotAllowed t))
             else None))
    \<and> (valid (verify X canonical now stamp V rq)
         \<longleftrightarrow> failure_reason (verify X canonical now stamp V rq) = None)"
  using check_rate_limit_total [of "vr_credential rq"]
  by (intro conjI)
    (auto simp: verify_def is_tool_allowed_def Let_def split: sum.splits ACDPCredential.splits)

text \<open>Disclosure to the tool provider. A result names a principal, an agent or a
  delegation chain only for an accepted identity-bound credential, and then those of the
  credential; for a hybrid credential the result depends on the principal, the agent, the
  rights and the chain in no way, once the signature verdict is the same.\<close>

theorem verify_disclosure:
  fixes rq :: "('s, 'p) VerificationRequest"
  shows "(res_principal (verify X canonical now stamp V rq) \<noteq> None
     \<or> res_agent_id (verify X canonical now stamp V rq) \<noteq> None
     \<or> res_delegation_chain (verify X canonical now stamp V rq) \<noteq> []
     \<longrightarrow> (\<exists>c. vr_credential rq = IdentityBound c
        \<and> res_principal (verify X canonical now stamp V rq) = Some (ib_principal c)
        \<and> res_agent_id (verify X canonical now stamp V rq) = Some (agent_id (ib_agent c))
        \<and> res_delegation_chain (verify X canonical now stamp V rq)
            = audit_trail (ib_delegation_chain c)))
    \<and> (hy_verify_signature X canonical h (gateway_public_key V)
       = hy_verify_signature X canonical h' (gateway_public_key V)
     \<longrightarrow> (hy_expires_at h', hy_mcp_capabilities h', hy_arc_credential h')
         = (hy_expires_at h, hy_mcp_capabilities h, hy_arc_credential h)
     \<longrightarrow> verify X canonical now stamp V (rq\<lparr>vr_credential := Hybrid h\<rparr>)
         = verify X canonical now stamp V (rq\<lparr>vr_credential := Hybrid h'\<rparr>))"
  by (intro conjI impI)
    (auto simp: verify_def Let_def hy_check_rate_limit_def
      split: sum.splits ACDPCredential.splits if_splits)

definition sample_request :: "(gf3, gf3) VerificationRequest" where
  "sample_request = \<lparr>vr_credential = IdentityBound
       (sample_ib\<lparr>ib_signature := replicate 32 9 @ str_bytes ''ACDP/0.3'' @ uuid_bytes 42
          @ le_bytes 8 0 @ le_bytes 8 604800 @ [1]\<rparr>),
     vr_context = \<lparr>tool = ''filesystem/read_file'', pc_resource = None, pc_timestamp = 0,
       server_id = ''mcp-1'', pc_metadata = None\<rparr>, arc_presentation = None\<rparr>"

definition sample_verifier :: CredentialVerifier where
  "sample_verifier = CredentialVerifier_new (replicate 32 9) ''https://gw/''"

lemma sample_request_result:
  "verify sample_ext (\<lambda>_. Inr [1]) 5 6 sample_verifier sample_request
     = result_success 6 (Some sample_principal) (Some ''agent://test'') (- 1) []"
  by (simp add: verify_def sample_request_def sample_ib_def sample_verifier_def sample_agent_def
      CredentialVerifier_new_def ib_verify_signature_def ib_signing_data_def sample_ext_def
      timestamp_def is_tool_allowed_def sample_defs tool_matches_def ends_with_def
      starts_with_def audit_trail_def chain_new_def)

theorem verify_disclosure_witness:
  "\<exists>c. vr_credential sample_request = IdentityBound c
     \<and> res_principal (verify sample_ext (\<lambda>_. Inr [1]) 5 6 sample_verifier sample_request)
         = Some (ib_principal c)"
  using verify_disclosure [THEN conjunct1, of sample_ext "\<lambda>_. Inr [1]" 5 6 sample_verifier sample_request]
  unfolding sample_request_result by auto

text \<open>Anonymous credentials are not authenticated. Whatever the gateway key, the
  ARC presentation of the request and the ARC credential inside it, a request with an
  anonymous credential is accepted exactly when the expiry time and the tool patterns that
  the holder wrote into it allow it; the presentation is not looked at, and neither is the
  budget: the result of an accepted request may report no presentations remaining.\<close>

theorem anonymous_unauthenticated:
  fixes rq :: "('s, 'p) VerificationRequest"
  shows "(valid (verify X canonical now stamp V (rq\<lparr>vr_credential := Anonymous c\<rparr>)) \<longleftrightarrow>
      now \<le> an_expires_at c
      \<and> is_tool_allowed (an_mcp_capabilities c) (tool (vr_context rq)) = Inr ())
    \<and> (verify X canonical now stamp V (rq\<lparr>arc_presentation := pr\<rparr>)
           = verify X canonical now stamp V rq)
    \<and> (res_presentations_remaining (verify X canonical now stamp V (rq\<lparr>vr_credential := Anonymous c\<rparr>))
       = (if now \<le> an_expires_at c
             \<and> is_tool_allowed (an_mcp_capabilities c) (tool (vr_context rq)) = Inr ()
          then presentations_remaining (an_arc_credential c) else 0))"
  by (intro conjI, auto simp: verify_valid)
    (auto simp: verify_def result_failure_def an_check_rate_limit_def split: sum.splits)

end
