(* ===== verification/Id_Jag.thy ===== *)
theory Id_Jag
  imports Identity
begin

text \<open>
  The ID-JAG flow (\<open>acdp-auth/src/mcp.rs\<close>): identity assertion tokens with their claim
  checks and JWT form, and the OAuth token exchange request and response. The current time
  is the argument \<open>now\<close>; JWT signing and parsing (\<open>jsonwebtoken\<close>) are parameters.
\<close>

section \<open>Data\<close>

record IDJAGToken =
  token_type :: string
  jti :: string
  iss :: string
  sub :: string
  aud :: string
  token_resource :: string
  client_id :: string
  token_exp :: int
  iat :: int
  scope :: string
  token_claims :: "json obj option"

record TokenExchangeRequest =
  grant_type :: string
  requested_token_type :: string
  audience :: string
  ex_resource :: string
  ex_scope :: string
  subject_token :: string
  subject_token_type :: string
  ex_client_id :: string
  client_secret :: "string option"

record TokenExchangeResponse =
  issued_token_type :: string
  access_token :: string
  resp_token_type :: string
  resp_scope :: string
  expires_in :: int

section \<open>Tokens\<close>

definition id_jag_type :: string where
  "id_jag_type = ''oauth-id-jag+jwt''"

definition token_checks :: "auth_ext \<Rightarrow> IDJAGToken \<Rightarrow> (string \<times> bool) list" where
  "token_checks X t =
     [(''iss'', is_url X (iss t)), (''sub'', 1 \<le> char_count (sub t)), (''aud'', is_url X (aud t)),
      (''resource'', is_url X (token_resource t)), (''client_id'', 1 \<le> char_count (client_id t))]"

definition IDJAGToken_new ::
  "auth_ext \<Rightarrow> bool \<Rightarrow> datetime \<Rightarrow> string \<Rightarrow> string \<Rightarrow> string \<Rightarrow> string \<Rightarrow> string \<Rightarrow> string \<Rightarrow> string
     \<Rightarrow> int \<Rightarrow> IDJAGToken acdp_result rust" where
  "IDJAGToken_new X checks now j i s a res cid scp ttl =
     (let n = timestamp now in
      case i64_add checks n ttl of
        Panic \<Rightarrow> Panic
      | Done e \<Rightarrow>
          let token = \<lparr>token_type = id_jag_type, jti = j, iss = i, sub = s, aud = a,
                       token_resource = res, client_id = cid, token_exp = e, iat = n,
                       scope = scp, token_claims = None\<rparr>
          in Done (and_then (map_err (\<lambda>e. InvalidIDJAG (''Invalid ID-JAG token: '' @ e))
                               (validate_fields X (token_checks X token)))
                     (\<lambda>_. Inr token)))"

definition token_is_expired :: "datetime \<Rightarrow> IDJAGToken \<Rightarrow> bool" where
  "token_is_expired now t \<longleftrightarrow> timestamp now > token_exp t"

definition token_verify :: "datetime \<Rightarrow> IDJAGToken \<Rightarrow> string \<Rightarrow> string option \<Rightarrow> unit acdp_result" where
  "token_verify now t expected_aud expected_resource =
     (if token_is_expired now t then Inl (TokenExchangeFailed ''ID-JAG token expired'')
      else if token_type t \<noteq> id_jag_type then
        Inl (InvalidIDJAG (''Invalid token type: '' @ token_type t))
      else if aud t \<noteq> expected_aud then
        Inl (InvalidIDJAG (''Audience mismatch: '' @ aud t @ '' != '' @ expected_aud))
      else (case expected_resource of
          Some expected_res \<Rightarrow>
            if token_resource t \<noteq> expected_res then
              Inl (InvalidIDJAG (''Resource mismatch: '' @ token_resource t @ '' != '' @ expected_res))
            else Inr ()
        | None \<Rightarrow> Inr ()))"

text \<open>\<open>jwt_encode\<close> and \<open>jwt_decode\<close> are the crate's functions at the default header;
  the flags of \<open>jwt_decode\<close> are \<open>validate_exp\<close> and \<open>validate_aud\<close>.\<close>

definition token_encode ::
  "(IDJAGToken \<Rightarrow> 'ek \<Rightarrow> string + string) \<Rightarrow> IDJAGToken \<Rightarrow> 'ek \<Rightarrow> string acdp_result" where
  "token_encode jwt_encode t signing_key =
     map_err (\<lambda>e. TokenExchangeFailed (''Failed to encode JWT: '' @ e)) (jwt_encode t signing_key)"

definition token_decode ::
  "(bool \<Rightarrow> bool \<Rightarrow> string \<Rightarrow> 'dk \<Rightarrow> string + IDJAGToken) \<Rightarrow> string \<Rightarrow> 'dk \<Rightarrow> IDJAGToken acdp_result" where
  "token_decode jwt_decode token verification_key =
     and_then (map_err (\<lambda>e. InvalidIDJAG (''Failed to decode JWT: '' @ e))
                 (jwt_decode False False token verification_key))
       (\<lambda>claims. Inr claims)"

section \<open>Token exchange\<close>

definition grant_token_exchange :: string where
  "grant_token_exchange = ''urn:ietf:params:oauth:grant-type:token-exchange''"

definition urn_id_jag :: string where
  "urn_id_jag = ''urn:ietf:params:oauth:token-type:id-jag''"

definition urn_id_token :: string where
  "urn_id_token = ''urn:ietf:params:oauth:token-type:id_token''"

definition exchange_checks :: "auth_ext \<Rightarrow> TokenExchangeRequest \<Rightarrow> (string \<times> bool) list" where
  "exchange_checks X r =
     [(''audience'', is_url X (audience r)), (''resource'', is_url X (ex_resource r)),
      (''subject_token'', 1 \<le> char_count (subject_token r)),
      (''client_id'', 1 \<le> char_count (ex_client_id r))]"

definition TokenExchangeRequest_new ::
  "auth_ext \<Rightarrow> string \<Rightarrow> string \<Rightarrow> string \<Rightarrow> string \<Rightarrow> string \<Rightarrow> string option
     \<Rightarrow> TokenExchangeRequest acdp_result" where
  "TokenExchangeRequest_new X a res scp tok cid secret =
     (let request = \<lparr>grant_type = grant_token_exchange, requested_token_type = urn_id_jag,
                     audience = a, ex_resource = res, ex_scope = scp, subject_token = tok,
                     subject_token_type = urn_id_token, ex_client_id = cid,
                     client_secret = secret\<rparr>
      in and_then (map_err (\<lambda>e. TokenExchangeFailed (''Invalid token exchange request: '' @ e))
                     (validate_fields X (exchange_checks X request)))
           (\<lambda>_. Inr request))"

definition validate_request :: "TokenExchangeRequest \<Rightarrow> unit acdp_result" where
  "validate_request r =
     (if grant_type r \<noteq> grant_token_exchange then
        Inl (TokenExchangeFailed (''Invalid grant type: '' @ grant_type r))
      else if requested_token_type r \<noteq> urn_id_jag then
        Inl (TokenExchangeFailed (''Invalid requested token type: '' @ requested_token_type r))
      else if subject_token_type r \<noteq> urn_id_token then
        Inl (TokenExchangeFailed (''Invalid subject token type: '' @ subject_token_type r))
      else Inr ())"

definition TokenExchangeResponse_new :: "string \<Rightarrow> string \<Rightarrow> int \<Rightarrow> TokenExchangeResponse" where
  "TokenExchangeResponse_new id_jag_token scp expires =
     \<lparr>issued_token_type = urn_id_jag, access_token = id_jag_token, resp_token_type = ''N_A'',
      resp_scope = scp, expires_in = expires\<rparr>"

section \<open>Lemmas\<close>

lemma token_verify_Inr:
  "token_verify now t a res = Inr () \<longleftrightarrow>
     timestamp now \<le> token_exp t \<and> token_type t = id_jag_type \<and> aud t = a
     \<and> (\<forall>r. res = Some r \<longrightarrow> token_resource t = r)"
  by (auto simp: token_verify_def token_is_expired_def split: option.splits)

lemma IDJAGToken_new_Done:
  assumes "IDJAGToken_new X checks now j i s a res cid scp ttl = Done (Inr t)"
  shows "token_type t = id_jag_type" "aud t = a" "token_resource t = res" "sub t = s" "iss t = i"
    "client_id t = cid" "iat t = timestamp now"
    "i64_add checks (timestamp now) ttl = Done (token_exp t)"
    "is_url X i" "is_url X a" "is_url X res" "s \<noteq> []" "cid \<noteq> []"
  using assms
  by (auto simp: IDJAGToken_new_def Let_def res_simps validate_fields_Inr token_checks_def
      char_count_def split: rust.splits)

lemma IDJAGToken_new_exp:
  assumes "IDJAGToken_new X checks now j i s a res cid scp ttl = Done (Inr t)"
    and "in_i64 (timestamp now + ttl)"
  shows "token_exp t = timestamp now + ttl"
  using IDJAGToken_new_Done(8) [OF assms(1)] assms(2) by (simp add: i64_add_def)

section \<open>Properties\<close>

text \<open>Lifetime of an ID-JAG. A freshly built token whose expiry does not overflow is
  accepted for an audience and an optional resource at time \<open>later\<close> exactly when they are
  the ones it was issued for and at most \<open>ttl\<close> whole seconds have passed.\<close>

theorem id_jag_lifetime:
  assumes "IDJAGToken_new X checks now j i s a res cid scp ttl = Done (Inr t)"
    and "in_i64 (timestamp now + ttl)"
  shows "token_verify later t a' res' = Inr () \<longleftrightarrow>
    timestamp later - timestamp now \<le> ttl \<and> a' = a \<and> (\<forall>r. res' = Some r \<longrightarrow> r = res)"
  using IDJAGToken_new_Done [OF assms(1)] IDJAGToken_new_exp [OF assms]
  by (auto simp: token_verify_Inr)

definition sample_token :: IDJAGToken where
  "sample_token = \<lparr>token_type = id_jag_type, jti = ''jti-1'', iss = ''https://acme.idp'',
     sub = ''alice@acme.com'', aud = ''https://gw/'', token_resource = ''https://mcp/'',
     client_id = ''mcp-client'', token_exp = 1300, iat = 1000, scope = ''read'',
     token_claims = None\<rparr>"

lemma sample_token_new:
  "IDJAGToken_new sample_ext True 1000000000000 ''jti-1'' ''https://acme.idp'' ''alice@acme.com''
     ''https://gw/'' ''https://mcp/'' ''mcp-client'' ''read'' 300 = Done (Inr sample_token)"
  by (simp add: IDJAGToken_new_def i64_add_def in_i64_def timestamp_def validate_fields_def
      token_checks_def sample_ext_def sample_token_def char_count_def starts_with_def)

theorem id_jag_lifetime_witness:
  "token_verify 1300999999999 sample_token ''https://gw/'' None = Inr ()
   \<and> token_verify 1301000000000 sample_token ''https://gw/'' None \<noteq> Inr ()"
proof -
  have r: "in_i64 (timestamp 1000000000000 + 300)" by (simp add: in_i64_def timestamp_def)
  from id_jag_lifetime [OF sample_token_new r, of 1300999999999 "''https://gw/''" None]
    id_jag_lifetime [OF sample_token_new r, of 1301000000000 "''https://gw/''" None]
  show ?thesis by (simp add: timestamp_def)
qed

text \<open>JWT round trip. If the JWT library reads back, with expiry and audience validation
  switched off as \<open>decode\<close> asks for, what it signed, then decoding an encoded token gives
  the same claims: an expired token decodes too, and only \<open>verify\<close> rejects it.\<close>

lemma token_jwt_roundtrip:
  assumes "\<And>t ek s. jwt_encode t ek = Inr s \<Longrightarrow> jwt_decode False False s (dk_of ek) = Inr t"
    and "token_encode jwt_encode t ek = Inr s"
  shows "token_decode jwt_decode s (dk_of ek) = Inr t"
    and "token_exp t < timestamp now \<Longrightarrow>
         and_then (token_decode jwt_decode s (dk_of ek)) (\<lambda>t. token_verify now t a res)
           = Inl (TokenExchangeFailed ''ID-JAG token expired'')"
  using assms by (auto simp: token_encode_def token_decode_def res_simps token_verify_def
      token_is_expired_def)

text \<open>Token exchange requests. Every request \<open>new\<close> builds passes
  \<open>validate_request\<close>, and \<open>validate_request\<close> accepts exactly the three fixed URNs.\<close>

lemma exchange_request_valid:
  "TokenExchangeRequest_new X a res scp tok cid secret = Inr r \<Longrightarrow> validate_request r = Inr ()"
  "validate_request r' = Inr () \<longleftrightarrow> grant_type r' = grant_token_exchange
     \<and> requested_token_type r' = urn_id_jag \<and> subject_token_type r' = urn_id_token"
  by (auto simp: TokenExchangeRequest_new_def res_simps validate_request_def Let_def)

end
