(* ===== verification/Gateway.thy ===== *)
theory Gateway
  imports Verification Id_Jag
begin

text \<open>
  The credential gateway (\<open>acdp-auth/src/gateway.rs\<close>): issuance of the three credential
  types from an ID-JAG token, and verification with the gateway's own key. Key generation,
  the random id and the random scalars are arguments; \<open>ed_sign\<close> is Ed25519 signing and
  \<open>plus_days t n\<close> is chrono's \<open>t + Duration::days(n)\<close>, \<open>Panic\<close> when the duration or
  the sum is out of range.
\<close>

section \<open>Data\<close>

record CredentialIssuanceRequest =
  req_agent_id :: string
  agent_public_key :: string
  req_credential_type :: CredentialType
  req_capabilities :: MCPCapabilities
  duration_days :: u64

definition DEFAULT_CREDENTIAL_DURATION_DAYS :: u64 where
  "DEFAULT_CREDENTIAL_DURATION_DAYS = 7"

definition default_duration :: u64 where
  "default_duration = DEFAULT_CREDENTIAL_DURATION_DAYS"

definition ACDP_VERSION :: string where
  "ACDP_VERSION = ''ACDP/0.3''"

record RateLimitState =
  rls_max_presentations :: u64
  rls_presentations_remaining :: u64

record ('s, 'p) CredentialIssuanceResponse =
  ir_credential :: "('s, 'p) ACDPCredential"
  ir_credential_id :: uuid
  ir_expires_at :: datetime
  rate_limit_state :: RateLimitState

record DelegationProofRequest =
  dpr_parent_credential_id :: uuid
  dpr_signature :: string

record ('s, 'p) DelegationRequest =
  parent_credential :: "('s, 'p) ACDPCredential"
  delegate_to_agent :: string
  delegate_to_public_key :: string
  sub_capabilities :: MCPCapabilities
  delegation_proof :: DelegationProofRequest

record KeyPair =
  kp_pk :: bytes
  kp_sk :: bytes

record ACDPGateway =
  keypair :: KeyPair
  issuer :: string

definition ACDPGateway_new :: "KeyPair \<Rightarrow> string \<Rightarrow> ACDPGateway" where
  "ACDPGateway_new generated url = \<lparr>keypair = generated, issuer = url\<rparr>"

section \<open>Operations\<close>

definition sign_credential ::
  "(bytes \<Rightarrow> bytes \<Rightarrow> bytes) \<Rightarrow> ACDPGateway \<Rightarrow> uuid \<Rightarrow> bytes acdp_result" where
  "sign_credential ed_sign G uid = Inr (ed_sign (kp_sk (keypair G)) (uuid_bytes uid))"

definition gateway_public_key_bytes :: "ACDPGateway \<Rightarrow> bytes" where
  "gateway_public_key_bytes G = kp_pk (keypair G)"

text \<open>The server key, the client secrets and the two blinding scalars are drawn afresh by every
  call.\<close>

type_synonym 's arc_random = "'s ServerPrivateKey \<times> 's ClientSecrets \<times> 's \<times> 's"

definition issue_arc_credential ::
  "('s::field, 'p::ab_group_add, 'n) arc_ext \<Rightarrow> 's arc_random \<Rightarrow> u64 \<Rightarrow> ('s, 'p) ARCCredential acdp_result"
  where
  "issue_arc_credential E rnd limit =
     (case rnd of (server_private_key, client_secrets, b, r) \<Rightarrow>
      let generators = ARCGenerators_new E;
          server_public_key = from_private_key E server_private_key generators;
          request = arc_request_new E client_secrets server_public_key generators;
          m2 = 0
      in and_then (arc_issue E b request server_private_key m2 generators) (\<lambda>response.
         and_then (from_response E r response request client_secrets server_public_key) (\<lambda>credential.
         Inr (credential\<lparr>arc_max_presentations := limit\<rparr>))))"

text \<open>The \<open>match\<close> on the requested type.\<close>

definition build_credential ::
  "('s::field, 'p::ab_group_add, 'n) arc_ext \<Rightarrow> (bytes \<Rightarrow> bytes \<Rightarrow> bytes) \<Rightarrow> 's arc_random \<Rightarrow> ACDPGateway
     \<Rightarrow> CredentialIssuanceRequest \<Rightarrow> Principal \<Rightarrow> Agent \<Rightarrow> uuid \<Rightarrow> datetime \<Rightarrow> datetime
     \<Rightarrow> ('s, 'p) ACDPCredential acdp_result" where
  "build_credential E ed_sign rnd G request prin agent uid now expires_at =
     (case req_credential_type request of
        IdentityBoundType \<Rightarrow>
          and_then (sign_credential ed_sign G uid) (\<lambda>signature.
            Inr (IdentityBound \<lparr>ib_version = ACDP_VERSION, ib_credential_id = uid,
              ib_issued_at = now, ib_expires_at = expires_at, ib_principal = prin,
              ib_agent = agent, ib_mcp_capabilities = req_capabilities request,
              ib_delegation = allow_delegation 5, ib_delegation_chain = chain_new,
              ib_signature = signature, ib_extensions = Extensions_default\<rparr>))
      | AnonymousType \<Rightarrow>
          and_then (issue_arc_credential E rnd (rl_max_presentations (rate_limit (req_capabilities request))))
            (\<lambda>arc_credential.
            Inr (Anonymous \<lparr>an_version = ACDP_VERSION, an_credential_id = uid,
              an_issued_at = now, an_expires_at = expires_at, an_arc_credential = arc_credential,
              an_mcp_capabilities = req_capabilities request, an_extensions = Extensions_default\<rparr>))
      | HybridType \<Rightarrow>
          and_then (issue_arc_credential E rnd (rl_max_presentations (rate_limit (req_capabilities request))))
            (\<lambda>arc_credential.
          and_then (sign_credential ed_sign G uid) (\<lambda>signature.
            Inr (Hybrid \<lparr>hy_version = ACDP_VERSION, hy_credential_id = uid,
              hy_issued_at = now, hy_expires_at = expires_at, hy_principal = prin,
              hy_agent = agent, hy_arc_credential = arc_credential,
              hy_mcp_capabilities = req_capabilities request, hy_delegation = allow_delegation 5,
              hy_delegation_chain = chain_new, hy_signature = signature,
              hy_extensions = Extensions_default\<rparr>))))"

text \<open>The checks before a credential is built: the token, the principal, the agent and its key.
  \<open>token_now\<close> is the time \<open>IDJAGToken::verify\<close> reads.\<close>

definition issue_parties ::
  "auth_ext \<Rightarrow> datetime \<Rightarrow> ACDPGateway \<Rightarrow> IDJAGToken \<Rightarrow> CredentialIssuanceRequest
     \<Rightarrow> (Principal \<times> Agent) acdp_result" where
  "issue_parties X token_now G id_jag request =
     and_then (token_verify token_now id_jag (issuer G) None) (\<lambda>_.
     and_then (from_id_jag X (sub id_jag) (iss id_jag) (client_id id_jag)) (\<lambda>prin.
     and_then (map_err (\<lambda>e. CryptoError (''Invalid public key hex: '' @ e))
                (hex_decode X (agent_public_key request))) (\<lambda>key_bytes.
     and_then (map_err (\<lambda>e. CryptoError (''Invalid public key: '' @ e))
                (pk_from_slice X key_bytes)) (\<lambda>public_key.
     and_then (Agent_new X (req_agent_id request) public_key ''custom'' False) (\<lambda>agent.
     Inr (prin, agent))))))"

text \<open>\<open>now\<close> is the time the credential is stamped with.\<close>

definition issue_credential ::
  "auth_ext \<Rightarrow> ('s::field, 'p::ab_group_add, 'n) arc_ext \<Rightarrow> (bytes \<Rightarrow> bytes \<Rightarrow> bytes)
     \<Rightarrow> (datetime \<Rightarrow> int \<Rightarrow> datetime rust) \<Rightarrow> 's arc_random \<Rightarrow> uuid \<Rightarrow> datetime \<Rightarrow> datetime \<Rightarrow> ACDPGateway
     \<Rightarrow> IDJAGToken \<Rightarrow> CredentialIssuanceRequest
     \<Rightarrow> ('s, 'p) CredentialIssuanceResponse acdp_result rust" where
  "issue_credential X E ed_sign plus_days rnd uid token_now now G id_jag request =
     (case issue_parties X token_now G id_jag request of
        Inl e \<Rightarrow> Done (Inl e)
      | Inr (prin, agent) \<Rightarrow>
          (case plus_days now (u64_as_i64 (duration_days request)) of
             Panic \<Rightarrow> Panic
           | Done expires_at \<Rightarrow>
               Done (and_then (build_credential E ed_sign rnd G request prin agent uid now expires_at)
                 (\<lambda>credential. Inr \<lparr>ir_credential = credential, ir_credential_id = uid,
                   ir_expires_at = expires_at,
                   rate_limit_state =
                     \<lparr>rls_max_presentations = rl_max_presentations (rate_limit (req_capabilities request)),
                      rls_presentations_remaining =
                        rl_max_presentations (rate_limit (req_capabilities request))\<rparr>\<rparr>))))"

definition verify_credential ::
  "auth_ext \<Rightarrow> canonical_fun \<Rightarrow> datetime \<Rightarrow> datetime \<Rightarrow> ACDPGateway \<Rightarrow> ('s, 'p) VerificationRequest
     \<Rightarrow> VerificationResult" where
  "verify_credential X canonical now stamp G request =
     verify X canonical now stamp (CredentialVerifier_new (kp_pk (keypair G)) (issuer G)) request"

section \<open>Lemmas\<close>

text \<open>What a request must satisfy before a credential is built.\<close>

definition issuance_admissible ::
  "auth_ext \<Rightarrow> datetime \<Rightarrow> ACDPGateway \<Rightarrow> IDJAGToken \<Rightarrow> CredentialIssuanceRequest \<Rightarrow> bytes \<Rightarrow> bool" where
  "issuance_admissible X token_now G t rq key \<longleftrightarrow>
     token_verify token_now t (issuer G) None = Inr ()
     \<and> length_between 1 255 (sub t) \<and> is_url X (iss t) \<and> length_between 1 255 (client_id t)
     \<and> length_between 1 255 (req_agent_id rq)
     \<and> (\<exists>b. hex_decode X (agent_public_key rq) = Inr b \<and> pk_from_slice X b = Inr key)"

definition issued_principal :: "IDJAGToken \<Rightarrow> Principal" where
  "issued_principal t = \<lparr>human_id = sub t, idp_issuer = iss t, idp_client_id = client_id t,
     additional_claims = None\<rparr>"

definition issued_agent :: "CredentialIssuanceRequest \<Rightarrow> bytes \<Rightarrow> Agent" where
  "issued_agent rq key = \<lparr>agent_id = req_agent_id rq, public_key = key, platform = ''custom'',
     verified = False, agent_metadata = None\<rparr>"

lemma issue_arc_credential_honest:
  assumes "curve_laws E"
  shows "issue_arc_credential E (sk, cs, b, r) limit =
    Inr ((issued_credential E sk cs (ARCGenerators_new E) b 0 r)\<lparr>arc_max_presentations := limit\<rparr>)"
  using honest_issuance [OF assms refl refl, of b cs sk "ARCGenerators_new E" 0 r]
  by (auto simp: issue_arc_credential_def Let_def)

lemma build_credential_total:
  assumes "curve_laws E"
  shows "\<exists>c. build_credential E ed_sign rnd G rq p a uid now e = Inr c"
  by (cases rnd; cases "req_credential_type rq")
    (simp_all add: build_credential_def sign_credential_def issue_arc_credential_honest [OF assms])

lemma issue_parties_Inr:
  "issue_parties X token_now G t rq = Inr pa \<longleftrightarrow>
     (\<exists>key. issuance_admissible X token_now G t rq key
        \<and> pa = (issued_principal t, issued_agent rq key))"
proof -
  have "length_between 1 100 ''custom''" by (simp add: length_between_def char_count_def)
  then show ?thesis
    by (auto simp: issue_parties_def res_simps issuance_admissible_def issued_principal_def
        issued_agent_def from_id_jag_Inr Agent_new_Inr principal_valid_def agent_valid_def)
qed

definition issuance_response ::
  "('s, 'p) ACDPCredential \<Rightarrow> uuid \<Rightarrow> datetime \<Rightarrow> u64 \<Rightarrow> ('s, 'p) CredentialIssuanceResponse" where
  "issuance_response c uid e n = \<lparr>ir_credential = c, ir_credential_id = uid, ir_expires_at = e,
     rate_limit_state = \<lparr>rls_max_presentations = n, rls_presentations_remaining = n\<rparr>\<rparr>"

lemma issue_credential_parties:
  "issue_credential X E ed_sign plus_days rnd uid token_now now G t rq = Done (Inr resp) \<longleftrightarrow>
     (\<exists>p a e c. issue_parties X token_now G t rq = Inr (p, a)
        \<and> plus_days now (u64_as_i64 (duration_days rq)) = Done e
        \<and> build_credential E ed_sign rnd G rq p a uid now e = Inr c
        \<and> resp = issuance_response c uid e (rl_max_presentations (rate_limit (req_capabilities rq))))"
  by (auto simp: issue_credential_def issuance_response_def res_simps split: sum.splits rust.splits)

lemma issue_credential_Done_Inr:
  "issue_credential X E ed_sign plus_days rnd uid token_now now G t rq = Done (Inr resp) \<longleftrightarrow>
     (\<exists>key e c. issuance_admissible X token_now G t rq key
        \<and> plus_days now (u64_as_i64 (duration_days rq)) = Done e
        \<and> build_credential E ed_sign rnd G rq (issued_principal t) (issued_agent rq key) uid now e = Inr c
        \<and> resp = issuance_response c uid e (rl_max_presentations (rate_limit (req_capabilities rq))))"
  unfolding issue_credential_parties issue_parties_Inr by blast

lemma build_credential_Inr:
  assumes "build_credential E ed_sign rnd G rq p a uid now e = Inr c"
  shows "credential_type c = req_credential_type rq" "credential_id c = uid"
    "mcp_capabilities c = req_capabilities rq" "is_expired later c \<longleftrightarrow> e < later"
    "case c of
       IdentityBound i \<Rightarrow> ib_principal i = p \<and> ib_agent i = a
         \<and> ib_signature i = ed_sign (kp_sk (keypair G)) (uuid_bytes uid)
     | Anonymous n \<Rightarrow> issue_arc_credential E rnd (rl_max_presentations (rate_limit (req_capabilities rq)))
         = Inr (an_arc_credential n)
     | Hybrid h \<Rightarrow> hy_principal h = p \<and> hy_agent h = a
         \<and> hy_signature h = ed_sign (kp_sk (keypair G)) (uuid_bytes uid)
         \<and> issue_arc_credential E rnd (rl_max_presentations (rate_limit (req_capabilities rq)))
             = Inr (hy_arc_credential h)"
  using assms
  by (auto simp: build_credential_def sign_credential_def res_simps split: CredentialType.splits)

section \<open>Properties\<close>

text \<open>C5 (who gets a credential, and which one). The gateway issues a credential exactly when the
  token verifies for the gateway's own URL, its subject, issuer and client id make a valid
  principal, the agent's key parses and its id is well-formed, and the expiry time is
  representable. The credential is of the requested type, carries the requested
  capabilities and the drawn id, expires at the reported time, and names the principal of the
  token (except an anonymous one, which names nobody).\<close>

theorem issuance_binds:
  assumes "curve_laws E"
  shows "((\<exists>resp. issue_credential X E ed_sign plus_days rnd uid token_now now G t rq = Done (Inr resp))
      \<longleftrightarrow> (\<exists>key. issuance_admissible X token_now G t rq key)
          \<and> plus_days now (u64_as_i64 (duration_days rq)) \<noteq> Panic)
    \<and> (issue_credential X E ed_sign plus_days rnd uid token_now now G t rq = Done (Inr resp) \<longrightarrow>
      (let c = ir_credential resp in
       credential_type c = req_credential_type rq \<and> credential_id c = uid
       \<and> mcp_capabilities c = req_capabilities rq
       \<and> (\<forall>later. is_expired later c \<longleftrightarrow> ir_expires_at resp < later)
       \<and> Done (ir_expires_at resp) = plus_days now (u64_as_i64 (duration_days rq))
       \<and> (\<forall>i. c = IdentityBound i \<longrightarrow>
              verify_id_jag (ib_principal i) (sub t) (iss t) (client_id t) = Inr ()
              \<and> agent_id (ib_agent i) = req_agent_id rq)
       \<and> (\<forall>h. c = Hybrid h \<longrightarrow>
              verify_id_jag (hy_principal h) (sub t) (iss t) (client_id t) = Inr ()
              \<and> agent_id (hy_agent h) = req_agent_id rq)))"
proof (rule conjI; (intro impI)?)
  have "x \<noteq> Panic \<longleftrightarrow> (\<exists>e. x = Done e)" for x :: "datetime rust" by (cases x) auto
  then show "(\<exists>resp. issue_credential X E ed_sign plus_days rnd uid token_now now G t rq
        = Done (Inr resp))
      \<longleftrightarrow> (\<exists>key. issuance_admissible X token_now G t rq key)
          \<and> plus_days now (u64_as_i64 (duration_days rq)) \<noteq> Panic"
    unfolding issue_credential_Done_Inr using build_credential_total [OF assms] by metis
next
  assume "issue_credential X E ed_sign plus_days rnd uid token_now now G t rq = Done (Inr resp)"
  then obtain key e c where *: "plus_days now (u64_as_i64 (duration_days rq)) = Done e"
    "build_credential E ed_sign rnd G rq (issued_principal t) (issued_agent rq key) uid now e = Inr c"
    "resp = issuance_response c uid e (rl_max_presentations (rate_limit (req_capabilities rq)))"
    by (auto simp: issue_credential_Done_Inr)
  note B = build_credential_Inr [OF *(2)]
  from B(5) * show "let c = ir_credential resp in
       credential_type c = req_credential_type rq \<and> credential_id c = uid
       \<and> mcp_capabilities c = req_capabilities rq
       \<and> (\<forall>later. is_expired later c \<longleftrightarrow> ir_expires_at resp < later)
       \<and> Done (ir_expires_at resp) = plus_days now (u64_as_i64 (duration_days rq))
       \<and> (\<forall>i. c = IdentityBound i \<longrightarrow>
              verify_id_jag (ib_principal i) (sub t) (iss t) (client_id t) = Inr ()
              \<and> agent_id (ib_agent i) = req_agent_id rq)
       \<and> (\<forall>h. c = Hybrid h \<longrightarrow>
              verify_id_jag (hy_principal h) (sub t) (iss t) (client_id t) = Inr ()
              \<and> agent_id (hy_agent h) = req_agent_id rq)"
    by (auto simp: B(1-4) issuance_response_def verify_id_jag_Inr issued_principal_def
        issued_agent_def)
qed

text \<open>Sample parameters for the witnesses: signing appends the message to the key, as
  \<open>sample_ext\<close> verifies it; days are added exactly.\<close>

definition sample_sign :: "bytes \<Rightarrow> bytes \<Rightarrow> bytes" where
  "sample_sign sk m = sk @ m"

definition sample_plus_days :: "datetime \<Rightarrow> int \<Rightarrow> datetime rust" where
  "sample_plus_days t n = (if \<bar>n\<bar> \<le> 1000000 then Done (t + n * 86400000000000) else Panic)"

definition sample_gateway :: ACDPGateway where
  "sample_gateway =
     ACDPGateway_new \<lparr>kp_pk = replicate 32 9, kp_sk = replicate 32 9\<rparr> ''https://gw/''"

definition sample_issuance :: "CredentialType \<Rightarrow> u64 \<Rightarrow> CredentialIssuanceRequest" where
  "sample_issuance ty days = \<lparr>req_agent_id = ''agent://test'',
     agent_public_key = replicate 32 (CHR ''k''), req_credential_type = ty,
     req_capabilities = sample_root, duration_days = days\<rparr>"

definition sample_issue ::
  "CredentialType \<Rightarrow> u64 \<Rightarrow> (gf3, gf3) CredentialIssuanceResponse acdp_result rust" where
  "sample_issue ty days = issue_credential sample_ext small_curve sample_sign sample_plus_days
     (small_key, small_secrets, Z2, Z1) 42 1000000000000 0 sample_gateway sample_token
     (sample_issuance ty days)"

lemma sample_admissible:
  "\<exists>key. issuance_admissible sample_ext 1000000000000 sample_gateway sample_token
     (sample_issuance ty days) key"
  by (simp add: issuance_admissible_def sample_ext_def sample_gateway_def ACDPGateway_new_def
      sample_token_def sample_issuance_def token_verify_def token_is_expired_def timestamp_def
      length_between_def char_count_def starts_with_def str_bytes_def)

theorem issuance_binds_witness:
  "\<exists>resp. sample_issue HybridType 7 = Done (Inr resp)
     \<and> credential_id (ir_credential resp) = 42 \<and> ir_expires_at resp = 604800000000000"
proof -
  have d: "u64_as_i64 7 = 7" by (simp add: u64_as_i64_def wrap_i64_id in_i64_def)
  then obtain resp where r: "sample_issue HybridType 7 = Done (Inr resp)"
    using issuance_binds [OF small_curve_laws, THEN conjunct1, of sample_ext sample_sign sample_plus_days
        "(small_key, small_secrets, Z2, Z1)" 42 1000000000000 0 sample_gateway sample_token
        "sample_issuance HybridType 7"] sample_admissible
    by (auto simp: sample_issue_def sample_plus_days_def sample_issuance_def)
  from issuance_binds [OF small_curve_laws, THEN conjunct2, rule_format, OF r [unfolded sample_issue_def]] d r show ?thesis
    by (auto simp: Let_def sample_plus_days_def sample_issuance_def)
qed

text \<open>C6 (issued signatures do not verify). Signatures are made over the 16 bytes of the
  credential id but checked against the longer signing data. So, with a signature scheme
  under which a signature made for one message verifies for no other, every identity-bound
  and every hybrid credential that the gateway issues is refused by the same gateway,
  whatever the tool and the time.\<close>

theorem issued_signature_rejected:
  fixes E :: "('s::field, 'p::ab_group_add, 'n) arc_ext"
  assumes "issue_credential X E ed_sign plus_days rnd uid token_now now G t rq = Done (Inr resp)"
    and "req_credential_type rq \<noteq> AnonymousType"
    and "vr_credential vrq = ir_credential resp"
    and "\<And>pk m m'. pk_from_slice X (kp_pk (keypair G)) = Inr pk \<Longrightarrow>
      ed_verify X pk m' (ed_sign (kp_sk (keypair G)) m) = Inr () \<Longrightarrow> m' = m"
  shows "\<not> valid (verify_credential X canonical later stamp G vrq)"
proof -
  from assms(1,3) obtain p a e where
    b: "build_credential E ed_sign rnd G rq p a uid now e = Inr (vr_credential vrq)"
    by (auto simp: issue_credential_parties issuance_response_def)
  note B = build_credential_Inr [OF b]
  let ?sig = "ed_sign (kp_sk (keypair G)) (uuid_bytes uid)"
  let ?key = "kp_pk (keypair G)"
  have ib: "ed_verify X pk d ?sig \<noteq> Inr ()"
    if "pk_from_slice X ?key = Inr pk" "ib_signing_data canonical i = Inr d" for pk d i
    using assms(4) [OF that(1)] ib_signing_data_not_id [OF that(2)] by blast
  have hy: "ed_verify X pk d ?sig \<noteq> Inr ()"
    if "pk_from_slice X ?key = Inr pk" "hy_signing_data canonical h = Inr d"
    for pk d and h :: "('s, 'p) HybridCredential"
    using assms(4) [OF that(1)] hy_signing_data_not_id [OF that(2)] by blast
  have "verify_signature X canonical (vr_credential vrq) ?key \<noteq> Inr ()"
    using B(1,5) assms(2) ib hy
    by (cases "vr_credential vrq") (auto simp: ib_verify_signature_Inr hy_verify_signature_Inr)
  then show ?thesis by (simp add: verify_credential_def verify_valid CredentialVerifier_new_def)
qed

text \<open>C7 (life of an anonymous credential). An anonymous credential fresh from the gateway is
  accepted by the gateway for exactly the tools its capabilities allow and until its expiry
  time, with the whole budget reported as remaining. Inside it, the ARC credential has a
  valid MAC under the key drawn for it, and every presentation made from it with a nonce
  below the budget passes the presentation check under that key.\<close>

theorem anonymous_lifecycle:
  assumes "curve_laws E" and "nizk_complete E"
    and "issue_credential X E ed_sign plus_days (sk, cs, b, r) uid token_now now G t rq = Done (Inr resp)"
    and "req_credential_type rq = AnonymousType"
  shows "(vr_credential vrq = ir_credential resp \<longrightarrow>
      valid (verify_credential X canonical later stamp G vrq) \<longleftrightarrow>
        later \<le> ir_expires_at resp
        \<and> is_tool_allowed (req_capabilities rq) (tool (vr_context vrq)) = Inr ())
    \<and> (\<exists>c. ir_credential resp = Anonymous c \<and> mac_valid E sk 0 (an_arc_credential c)
      \<and> presentations_remaining (an_arc_credential c)
          = rl_max_presentations (rate_limit (req_capabilities rq))
      \<and> (\<forall>rnd ctx nonce pr c'. an_create_presentation E rnd c ctx nonce = (Inr pr, c') \<longrightarrow>
           nonce < rl_max_presentations (rate_limit (req_capabilities rq)) \<longrightarrow>
           pr_u pr \<noteq> 0 \<longrightarrow> u_prime_commit pr \<noteq> 0 \<longrightarrow>
           presentation_verify E pr sk 0 ctx nonce
             (rl_max_presentations (rate_limit (req_capabilities rq))) (ARCGenerators_new E) = Inr True))"
proof (rule conjI; (intro impI)?)
  let ?n = "rl_max_presentations (rate_limit (req_capabilities rq))"
  let ?gs = "ARCGenerators_new E"
  let ?arc = "(issued_credential E sk cs ?gs b 0 r)\<lparr>arc_max_presentations := ?n\<rparr>"
  from assms(3) obtain p a e c0 where
    b: "build_credential E ed_sign (sk, cs, b, r) G rq p a uid now e = Inr c0"
    and resp: "resp = issuance_response c0 uid e ?n"
    by (auto simp: issue_credential_parties)
  from b assms(4) obtain c where c: "c0 = Anonymous c" and arc: "an_arc_credential c = ?arc"
    by (auto simp: build_credential_def issue_arc_credential_honest [OF assms(1)])
  have mac: "mac_valid E sk 0 ?arc"
    using issued_credential_mac [OF assms(1), of sk 0 cs ?gs b r] by (simp add: mac_valid_def)
  have x1: "arc_x1 ?arc = smul E (sk_x1 sk) (gen_g ?gs)" by (simp add: issued_credential_def)
  have pres: "presentation_verify E pr sk 0 ctx nonce ?n ?gs = Inr True"
    if "an_create_presentation E rnd c ctx nonce = (Inr pr, c')" "nonce < ?n" "pr_u pr \<noteq> 0"
      "u_prime_commit pr \<noteq> 0" for rnd ctx nonce pr c'
  proof -
    note H = that
    obtain arc' where "create_presentation E rnd ?arc ctx nonce ?gs = (Inr pr, arc')"
      using H(1) unfolding an_create_presentation_def arc Let_def
      by (cases "create_presentation E rnd ?arc ctx nonce ?gs") auto
    with H show ?thesis
      by (intro honest_presentation_verifies [OF assms(1,2) mac x1]) auto
  qed
  show "\<exists>c. ir_credential resp = Anonymous c \<and> mac_valid E sk 0 (an_arc_credential c)
      \<and> presentations_remaining (an_arc_credential c) = ?n
      \<and> (\<forall>rnd ctx nonce pr c'. an_create_presentation E rnd c ctx nonce = (Inr pr, c') \<longrightarrow>
           nonce < ?n \<longrightarrow> pr_u pr \<noteq> 0 \<longrightarrow> u_prime_commit pr \<noteq> 0 \<longrightarrow>
           presentation_verify E pr sk 0 ctx nonce ?n ?gs = Inr True)"
    using mac pres
    by (intro exI [of _ c])
      (simp add: resp issuance_response_def c arc presentations_remaining_def
        saturating_sub_def issued_credential_def)
  assume "vr_credential vrq = ir_credential resp"
  then have v: "vr_credential vrq = Anonymous c"
    by (simp add: resp issuance_response_def c)
  have "an_mcp_capabilities c = req_capabilities rq" "an_expires_at c = e"
    using build_credential_Inr(3) [OF b] b assms(4)
    by (auto simp: c build_credential_def res_simps)
  then show "valid (verify_credential X canonical later stamp G vrq) \<longleftrightarrow>
        later \<le> ir_expires_at resp
        \<and> is_tool_allowed (req_capabilities rq) (tool (vr_context vrq)) = Inr ()"
    by (simp add: verify_credential_def verify_valid v resp issuance_response_def not_less)
qed

lemma sample_issue_Done:
  "\<bar>u64_as_i64 days\<bar> \<le> 1000000 \<Longrightarrow> \<exists>resp. sample_issue ty days = Done (Inr resp)"
  unfolding sample_issue_def issue_credential_Done_Inr
proof -
  assume "\<bar>u64_as_i64 days\<bar> \<le> 1000000"
  then have "sample_plus_days 0 (u64_as_i64 (duration_days (sample_issuance ty days)))
      = Done (u64_as_i64 days * 86400000000000)"
    by (simp add: sample_plus_days_def sample_issuance_def)
  with sample_admissible [of ty days] build_credential_total [OF small_curve_laws]
  show "\<exists>resp key e c. issuance_admissible sample_ext 1000000000000 sample_gateway sample_token
        (sample_issuance ty days) key
     \<and> sample_plus_days 0 (u64_as_i64 (duration_days (sample_issuance ty days))) = Done e
     \<and> build_credential small_curve sample_sign (small_key, small_secrets, Z2, Z1) sample_gateway
          (sample_issuance ty days) (issued_principal sample_token)
          (issued_agent (sample_issuance ty days) key) 42 0 e = Inr c
     \<and> resp = issuance_response c 42 e
          (rl_max_presentations (rate_limit (req_capabilities (sample_issuance ty days))))"
    by blast
qed

lemma sample_days: "u64_as_i64 7 = 7" "u64_as_i64 (- 1) = - 1"
  by (simp_all add: u64_as_i64_def wrap_i64_def unsigned_minus_1_eq_mask mask_eq_exp_minus_1)

theorem issued_signature_rejected_witness:
  "\<exists>resp. sample_issue IdentityBoundType 7 = Done (Inr resp)
     \<and> \<not> valid (verify_credential sample_ext (\<lambda>_. Inr [1]) 5 6 sample_gateway
              (sample_request\<lparr>vr_credential := ir_credential resp\<rparr>))"
proof -
  obtain resp where r: "sample_issue IdentityBoundType 7 = Done (Inr resp)"
    using sample_issue_Done [of 7 IdentityBoundType] by (auto simp: sample_days)
  have "m' = m" if "pk_from_slice sample_ext (kp_pk (keypair sample_gateway)) = Inr pk"
    "ed_verify sample_ext pk m' (sample_sign (kp_sk (keypair sample_gateway)) m) = Inr ()" for pk m m'
    using that by (auto simp: sample_ext_def sample_sign_def sample_gateway_def ACDPGateway_new_def
        split: if_splits)
  from issued_signature_rejected [OF r [unfolded sample_issue_def] _ _ this,
      where vrq = "sample_request\<lparr>vr_credential := ir_credential resp\<rparr>"
        and canonical = "\<lambda>_. Inr [1]" and later = 5 and stamp = 6] r
  show ?thesis by (simp add: sample_issuance_def)
qed

theorem anonymous_lifecycle_witness:
  "\<exists>resp. sample_issue AnonymousType 7 = Done (Inr resp)
     \<and> valid (verify_credential sample_ext (\<lambda>_. Inr [1]) 5 6 sample_gateway
              (sample_request\<lparr>vr_credential := ir_credential resp\<rparr>))"
proof -
  obtain resp where r: "sample_issue AnonymousType 7 = Done (Inr resp)"
    using sample_issue_Done [of 7 AnonymousType] by (auto simp: sample_days)
  then have e: "ir_expires_at resp = 604800000000000"
    by (auto simp: sample_issue_def issue_credential_Done_Inr issuance_response_def sample_days
        sample_plus_days_def sample_issuance_def)
  have "is_tool_allowed (req_capabilities (sample_issuance AnonymousType 7))
      (tool (vr_context sample_request)) = Inr ()"
    by (simp add: sample_issuance_def sample_request_def is_tool_allowed_def sample_defs
        tool_matches_def ends_with_def starts_with_def)
  with anonymous_lifecycle [OF small_curve_laws small_nizk_complete r [unfolded sample_issue_def],
      where vrq = "sample_request\<lparr>vr_credential := ir_credential resp\<rparr>"
        and canonical = "\<lambda>_. Inr [1]" and later = 5 and stamp = 6] r e
  show ?thesis by (simp add: sample_issuance_def)
qed

text \<open>Validity period. Where chrono's date arithmetic does not panic it is exact. Then a
  credential issued for fewer than \<open>2 ^ 63\<close> days is valid when issued and for exactly that
  many days; for any larger request the cast to \<open>i64\<close> is negative and the credential has
  expired before it is handed out.\<close>

theorem issued_validity_period:
  assumes "issue_credential X E ed_sign plus_days rnd uid token_now now G t rq = Done (Inr resp)"
    and "\<And>s n e. plus_days s n = Done e \<Longrightarrow> e = s + n * 86400000000000"
  shows "(unat (duration_days rq) < 2 ^ 63 \<longrightarrow>
      is_expired later (ir_credential resp) \<longleftrightarrow>
        now + int (unat (duration_days rq)) * 86400000000000 < later)
    \<and> (2 ^ 63 \<le> unat (duration_days rq) \<longrightarrow> is_expired now (ir_credential resp))"
proof (intro conjI impI)
  let ?d = "duration_days rq"
  from assms(1) obtain p a e c where
    e: "plus_days now (u64_as_i64 ?d) = Done e"
    and b: "build_credential E ed_sign rnd G rq p a uid now e = Inr c"
    and c: "ir_credential resp = c"
    by (auto simp: issue_credential_parties issuance_response_def)
  define k where "k = unat ?d"
  have u: "u64_as_i64 ?d = wrap_i64 (int k)" by (simp add: u64_as_i64_def k_def)
  have k: "k < 2 ^ 64" unfolding k_def by (rule unat_u64_less)
  note x = assms(2) [OF e] build_credential_Inr(4) [OF b] c
  show "is_expired later (ir_credential resp) \<longleftrightarrow>
        now + int (unat ?d) * 86400000000000 < later" if "unat ?d < 2 ^ 63"
    using that x by (simp add: u k_def [symmetric] wrap_i64_id in_i64_def)
  show "is_expired now (ir_credential resp)" if "2 ^ 63 \<le> unat ?d"
  proof -
    have "(int k + 2 ^ 63) mod 2 ^ 64 = int k + 2 ^ 63 - 2 ^ 64"
    proof -
      have "(int k + 2 ^ 63) mod 2 ^ 64 = (int k + 2 ^ 63 - 2 ^ 64) mod 2 ^ 64"
        by (simp add: mod_eq_dvd_iff)
      also have "\<dots> = int k + 2 ^ 63 - 2 ^ 64"
        using that k by (intro mod_pos_pos_trivial) (simp_all add: k_def [symmetric])
      finally show ?thesis .
    qed
    with k x show ?thesis by (simp add: u wrap_i64_def)
  qed
qed

theorem issued_validity_period_witness:
  "\<exists>resp. sample_issue AnonymousType (- 1) = Done (Inr resp) \<and> is_expired 0 (ir_credential resp)"
proof -
  obtain resp where r: "sample_issue AnonymousType (- 1) = Done (Inr resp)"
    using sample_issue_Done [of "- 1" AnonymousType] by (auto simp: sample_days)
  have "e = s + n * 86400000000000" if "sample_plus_days s n = Done e" for s n e
    using that by (simp add: sample_plus_days_def split: if_splits)
  from issued_validity_period [OF r [unfolded sample_issue_def] this] r show ?thesis
    by (simp add: sample_issuance_def unsigned_minus_1_eq_mask mask_eq_exp_minus_1)
qed

end
