(* ===== verification/Gateway_Server.thy ===== *)
theory Gateway_Server
  imports Delegation
begin

text \<open>
  The gateway service (\<open>acdp-gateway\<close>): its request and response types, ID-JAG validation, the
  credential service with its table of issued credentials, and the HTTP endpoints for issuance,
  verification and delegation.

  The service is built on the crate \<open>mcp-auth\<close>, which is not part of the repository. What
  the service calls of it, of the JWT, hexadecimal and JSON crates and of Ed25519 is the parameter
  \<open>mcp_auth\<close>: principals \<open>'p\<close>, delegation chains \<open>'ch\<close>, ARC credentials
  \<open>'arc\<close> with the secrets, requests and responses of their issuance. The credentials have the
  fields the service gives them. A database call may fail; \<open>faults\<close> says with which error.
  The time and the random identifier are arguments. The verification endpoint reads the
  row of a credential and updates it in a second statement, so it is split at that point and
  the workers of the server interleave there.
\<close>

section \<open>Errors\<close>

datatype ACDPGatewayError =
    InvalidIDJAG string
  | CredentialIssuanceFailed string
  | CredentialVerificationFailed string
  | DelegationNotAllowed string
  | RateLimitExceededGw u64 u64
  | Unauthorized string
  | DatabaseErrorGw string
  | RauthyError string
  | MCPAuthError string
  | SerializationErrorGw string
  | HttpErrorGw string
  | InternalErrorGw string

definition gateway_error_display :: "ACDPGatewayError \<Rightarrow> string" where
  "gateway_error_display e = (case e of
     InvalidIDJAG m \<Rightarrow> ''Invalid ID-JAG token: '' @ m
   | CredentialIssuanceFailed m \<Rightarrow> ''Credential issuance failed: '' @ m
   | CredentialVerificationFailed m \<Rightarrow> ''Credential verification failed: '' @ m
   | DelegationNotAllowed m \<Rightarrow> ''Delegation not allowed: '' @ m
   | RateLimitExceededGw used mx \<Rightarrow>
       ''Rate limit exceeded: '' @ show_nat (unat used) @ ''/'' @ show_nat (unat mx)
   | Unauthorized m \<Rightarrow> ''Unauthorized: '' @ m
   | DatabaseErrorGw m \<Rightarrow> ''Database error: '' @ m
   | RauthyError m \<Rightarrow> ''Rauthy integration error: '' @ m
   | MCPAuthError m \<Rightarrow> ''MCP Auth error: '' @ m
   | SerializationErrorGw m \<Rightarrow> ''Serialization error: '' @ m
   | HttpErrorGw m \<Rightarrow> ''HTTP error: '' @ m
   | InternalErrorGw m \<Rightarrow> ''Internal error: '' @ m)"

text \<open>The status code and the body of the error response.\<close>

definition error_response :: "ACDPGatewayError \<Rightarrow> nat \<times> string" where
  "error_response e = ((case e of
       InvalidIDJAG _ \<Rightarrow> 400
     | Unauthorized _ \<Rightarrow> 401
     | RateLimitExceededGw _ _ \<Rightarrow> 429
     | DelegationNotAllowed _ \<Rightarrow> 403
     | _ \<Rightarrow> 500), gateway_error_display e)"

section \<open>Requests and results\<close>

datatype GwCredentialType = GwIdentityBound | GwAnonymous | GwHybrid

record RateLimitConfig =
  cfg_max_presentations :: u64
  cfg_window :: string

record MCPToolAccess =
  tools_allowed :: "string list"
  tools_denied :: "string list"

record CredentialCapabilities =
  cc_rate_limit :: RateLimitConfig
  cc_mcp_tools :: MCPToolAccess

record GwIssuanceRequest =
  gi_agent_id :: string
  gi_agent_public_key :: string
  gi_credential_type :: GwCredentialType
  gi_capabilities :: CredentialCapabilities
  gi_duration_days :: u32

text \<open>The derived \<open>Validate\<close> implementation: the field \<open>capabilities\<close> has no
  \<open>validate\<close> attribute, so the ranges declared inside it are not checked.\<close>

definition issuance_valid :: "GwIssuanceRequest \<Rightarrow> bool" where
  "issuance_valid r \<longleftrightarrow> 1 \<le> char_count (gi_agent_id r) \<and> length_between 64 64 (gi_agent_public_key r)
     \<and> 1 \<le> gi_duration_days r \<and> gi_duration_days r \<le> 365"

record CredentialVerificationRequest =
  cv_credential_id :: uuid
  cv_presentation_context :: string
  cv_nonce :: u64
  cv_credential :: string
  cv_arc_presentation :: "string option"

record PrincipalInfo =
  prin_subject :: string
  prin_issuer :: string
  prin_client_id :: string

record CredentialVerificationResult =
  cr_valid :: bool
  cr_principal :: "PrincipalInfo option"
  cr_agent_id :: "string option"
  cr_presentations_remaining :: u64
  cr_delegation_chain :: "string list"
  cr_failure_reason :: "string option"
  cr_verified_at :: datetime

record GwDelegationRequest =
  gd_parent_credential_id :: uuid
  gd_child_agent_id :: string
  gd_child_agent_public_key :: string
  gd_capabilities :: CredentialCapabilities
  gd_duration_days :: u32

section \<open>Credentials\<close>

record GwAgent =
  ga_agent_id :: string
  ga_public_key :: bytes
  ga_agent_type :: string

record GwCapabilities =
  gc_allowed_tools :: "string list"
  gc_denied_tools :: "string list"
  gc_max_calls_per_tool :: "u64 option"
  gc_rate_limit_window :: "string option"

record GwRights =
  gr_can_delegate :: bool
  gr_max_depth :: u32
  gr_allowed_capabilities :: "string list"

record cred_head =
  hd_version :: string
  hd_id :: uuid
  hd_issued_at :: datetime
  hd_expires_at :: datetime
  hd_capabilities :: GwCapabilities

datatype ('p, 'ch, 'arc) GwCredential =
    IdentityBoundCred (cred_head: cred_head) 'p GwAgent GwRights 'ch bytes
  | AnonymousCred (cred_head: cred_head) 'arc
  | HybridCred (cred_head: cred_head) 'p GwAgent 'arc GwRights 'ch bytes

record IDJAGClaims =
  claim_typ :: string
  claim_jti :: string
  claim_iss :: string
  claim_sub :: string
  claim_aud :: string
  claim_resource :: string
  claim_client_id :: string
  claim_exp :: int
  claim_iat :: int
  claim_scope :: string

record ('p, 'ch, 'arc, 'sec, 'rq, 'rs) mcp_auth =
  ma_from_id_jag :: "string \<Rightarrow> string \<Rightarrow> string \<Rightarrow> string + 'p"
  ma_subject :: "'p \<Rightarrow> string"
  ma_issuer :: "'p \<Rightarrow> string"
  ma_client_id :: "'p \<Rightarrow> string"
  ma_chain_new :: 'ch
  ma_audit_trail :: "'ch \<Rightarrow> string list"
  ma_arc_request :: "'sec \<Rightarrow> 'rq"
  ma_arc_issue :: "'rq \<Rightarrow> string + 'rs"
  ma_arc_finalize :: "'rs \<Rightarrow> 'rq \<Rightarrow> 'sec \<Rightarrow> string + 'arc"
  ma_credential_id :: "('p, 'ch, 'arc) GwCredential \<Rightarrow> uuid"
  ma_is_expired :: "datetime \<Rightarrow> ('p, 'ch, 'arc) GwCredential \<Rightarrow> bool"
  ma_to_json :: "('p, 'ch, 'arc) GwCredential \<Rightarrow> string + string"
  ma_of_json :: "string \<Rightarrow> string + ('p, 'ch, 'arc) GwCredential"
  ma_hex_decode :: "string \<Rightarrow> string + bytes"
  ma_sign :: "bytes \<Rightarrow> bytes \<Rightarrow> bytes"
  ma_jwt_decode :: "bytes \<Rightarrow> string \<Rightarrow> string \<Rightarrow> string + IDJAGClaims"
  ma_validation_text :: "GwIssuanceRequest \<Rightarrow> string"

section \<open>Identity assertions\<close>

text \<open>\<open>jsonwebtoken\<close> checks signature, expiry and audience; the type and, once more, the
  audience are checked here.\<close>

definition validate_id_jag ::
  "('p, 'ch, 'arc, 'sec, 'rq, 'rs) mcp_auth \<Rightarrow> string \<Rightarrow> string \<Rightarrow> bytes \<Rightarrow> ACDPGatewayError + IDJAGClaims" where
  "validate_id_jag A token expected_audience key =
     and_then (map_err (\<lambda>e. InvalidIDJAG (''JWT decode failed: '' @ e))
        (ma_jwt_decode A key token expected_audience)) (\<lambda>claims.
     if claim_typ claims \<noteq> ''oauth-id-jag+jwt''
     then Inl (InvalidIDJAG (''Invalid token type: '' @ claim_typ claims))
     else if claim_aud claims \<noteq> expected_audience
     then Inl (InvalidIDJAG (''Audience mismatch: '' @ claim_aud claims @ '' != '' @ expected_audience))
     else Inr claims)"

section \<open>The table of credentials\<close>

record StoredCredential =
  sc_type :: GwCredentialType
  sc_principal_subject :: "string option"
  sc_principal_issuer :: "string option"
  sc_agent_id :: string
  sc_credential_data :: string
  sc_max_presentations :: int
  sc_presentations_used :: int
  sc_issued_at :: datetime
  sc_expires_at :: datetime
  sc_revoked :: bool

type_synonym credential_table = "uuid \<rightharpoonup> StoredCredential"

record db_faults =
  insert_fault :: "string option"
  select_fault :: "string option"
  update_fault :: "string option"

text \<open>\<open>credential_id\<close> is the primary key.\<close>

definition db_insert ::
  "db_faults \<Rightarrow> uuid \<Rightarrow> StoredCredential \<Rightarrow> credential_table \<Rightarrow> (ACDPGatewayError + unit) \<times> credential_table" where
  "db_insert f uid row db = (case insert_fault f of
     Some e \<Rightarrow> (Inl (DatabaseErrorGw e), db)
   | None \<Rightarrow> if uid \<in> dom db then (Inl (DatabaseErrorGw ''duplicate key''), db)
             else (Inr (), db(uid \<mapsto> row)))"

section \<open>The credential service\<close>

record CredentialService =
  svc_signing_key :: bytes
  svc_gateway_issuer :: string

definition parse_mcp_capabilities :: "CredentialCapabilities \<Rightarrow> GwCapabilities" where
  "parse_mcp_capabilities caps = \<lparr>gc_allowed_tools = tools_allowed (cc_mcp_tools caps),
     gc_denied_tools = tools_denied (cc_mcp_tools caps), gc_max_calls_per_tool = None,
     gc_rate_limit_window = Some (cfg_window (cc_rate_limit caps))\<rparr>"

definition gw_no_delegation :: GwRights where
  "gw_no_delegation = \<lparr>gr_can_delegate = False, gr_max_depth = 0, gr_allowed_capabilities = []\<rparr>"

text \<open>\<open>Seed::from_slice(..).unwrap()\<close> panics unless the key has 32 bytes.\<close>

definition gateway_sign ::
  "('p, 'ch, 'arc, 'sec, 'rq, 'rs) mcp_auth \<Rightarrow> CredentialService \<Rightarrow> bytes \<Rightarrow> bytes rust" where
  "gateway_sign A S data =
     (if length (svc_signing_key S) = 32 then Done (ma_sign A (svc_signing_key S) data) else Panic)"

definition issue_identity_bound ::
  "('p, 'ch, 'arc, 'sec, 'rq, 'rs) mcp_auth \<Rightarrow> CredentialService \<Rightarrow> cred_head \<Rightarrow> 'p \<Rightarrow> GwAgent
     \<Rightarrow> (ACDPGatewayError + ('p, 'ch, 'arc) GwCredential) rust" where
  "issue_identity_bound A S h prin agent =
     (let signing_data = str_bytes ''ACDP-v0.3'' @ uuid_bytes (hd_id h)
            @ le_bytes 8 (timestamp (hd_issued_at h)) @ le_bytes 8 (timestamp (hd_expires_at h))
      in map_rust (\<lambda>signature. Inr (IdentityBoundCred h prin agent gw_no_delegation (ma_chain_new A) signature))
           (gateway_sign A S signing_data))"

text \<open>The blind issuance is played by the service on both sides.\<close>

definition issue_arc ::
  "('p, 'ch, 'arc, 'sec, 'rq, 'rs) mcp_auth \<Rightarrow> 'sec \<Rightarrow> ACDPGatewayError + 'arc" where
  "issue_arc A client_secrets =
     (let arc_request = ma_arc_request A client_secrets in
      and_then (map_err (\<lambda>e. CredentialIssuanceFailed (''ARC issuance failed: '' @ e))
         (ma_arc_issue A arc_request)) (\<lambda>arc_response.
      map_err (\<lambda>e. CredentialIssuanceFailed (''ARC finalization failed: '' @ e))
         (ma_arc_finalize A arc_response arc_request client_secrets)))"

definition issue_anonymous ::
  "('p, 'ch, 'arc, 'sec, 'rq, 'rs) mcp_auth \<Rightarrow> 'sec \<Rightarrow> cred_head
     \<Rightarrow> ACDPGatewayError + ('p, 'ch, 'arc) GwCredential" where
  "issue_anonymous A secrets h =
     and_then (issue_arc A secrets) (\<lambda>arc_credential. Inr (AnonymousCred h arc_credential))"

definition issue_hybrid ::
  "('p, 'ch, 'arc, 'sec, 'rq, 'rs) mcp_auth \<Rightarrow> CredentialService \<Rightarrow> 'sec \<Rightarrow> cred_head \<Rightarrow> 'p \<Rightarrow> GwAgent
     \<Rightarrow> (ACDPGatewayError + ('p, 'ch, 'arc) GwCredential) rust" where
  "issue_hybrid A S secrets h prin agent =
     (case issue_arc A secrets of
        Inl e \<Rightarrow> Done (Inl e)
      | Inr arc_credential \<Rightarrow>
          map_rust (\<lambda>signature.
              Inr (HybridCred h prin agent arc_credential gw_no_delegation (ma_chain_new A) signature))
            (gateway_sign A S (str_bytes ''ACDP-v0.3'' @ uuid_bytes (hd_id h))))"

definition principal_columns ::
  "('p, 'ch, 'arc, 'sec, 'rq, 'rs) mcp_auth \<Rightarrow> ('p, 'ch, 'arc) GwCredential
     \<Rightarrow> string option \<times> string option" where
  "principal_columns A c = (case c of
     IdentityBoundCred _ p _ _ _ _ \<Rightarrow> (Some (ma_subject A p), Some (ma_issuer A p))
   | HybridCred _ p _ _ _ _ _ \<Rightarrow> (Some (ma_subject A p), Some (ma_issuer A p))
   | AnonymousCred _ _ \<Rightarrow> (None, None))"

definition gw_credential_type :: "('p, 'ch, 'arc) GwCredential \<Rightarrow> GwCredentialType" where
  "gw_credential_type c = (case c of
     IdentityBoundCred _ _ _ _ _ _ \<Rightarrow> GwIdentityBound
   | AnonymousCred _ _ \<Rightarrow> GwAnonymous
   | HybridCred _ _ _ _ _ _ _ \<Rightarrow> GwHybrid)"

definition store_credential ::
  "('p, 'ch, 'arc, 'sec, 'rq, 'rs) mcp_auth \<Rightarrow> db_faults \<Rightarrow> ('p, 'ch, 'arc) GwCredential
     \<Rightarrow> GwIssuanceRequest \<Rightarrow> credential_table \<Rightarrow> (ACDPGatewayError + unit) \<times> credential_table" where
  "store_credential A f c request db =
     (case ma_to_json A c of
        Inl e \<Rightarrow> (Inl (SerializationErrorGw e), db)
      | Inr credential_json \<Rightarrow>
          db_insert f (ma_credential_id A c)
            \<lparr>sc_type = gw_credential_type c,
             sc_principal_subject = fst (principal_columns A c),
             sc_principal_issuer = snd (principal_columns A c),
             sc_agent_id = gi_agent_id request, sc_credential_data = credential_json,
             sc_max_presentations =
               u64_as_i64 (cfg_max_presentations (cc_rate_limit (gi_capabilities request))),
             sc_presentations_used = 0, sc_issued_at = hd_issued_at (cred_head c),
             sc_expires_at = hd_expires_at (cred_head c), sc_revoked = False\<rparr> db)"

text \<open>\<open>plus_days\<close> is \<open>issued_at + Duration::days(n)\<close> of chrono, which panics out of range.\<close>

definition svc_issue_credential ::
  "('p, 'ch, 'arc, 'sec, 'rq, 'rs) mcp_auth \<Rightarrow> (datetime \<Rightarrow> int \<Rightarrow> datetime rust) \<Rightarrow> db_faults
     \<Rightarrow> 'sec \<Rightarrow> uuid \<Rightarrow> datetime \<Rightarrow> CredentialService \<Rightarrow> 'p \<Rightarrow> GwIssuanceRequest \<Rightarrow> credential_table
     \<Rightarrow> ((ACDPGatewayError + ('p, 'ch, 'arc) GwCredential) \<times> credential_table) rust" where
  "svc_issue_credential A plus_days f secrets uid issued_at S prin request db =
     (case ma_hex_decode A (gi_agent_public_key request) of
        Inl e \<Rightarrow> Done (Inl (CredentialIssuanceFailed (''Invalid agent public key: '' @ e)), db)
      | Inr agent_pubkey \<Rightarrow>
          let agent = \<lparr>ga_agent_id = gi_agent_id request, ga_public_key = agent_pubkey,
                       ga_agent_type = ''mcp-client''\<rparr>;
              caps = parse_mcp_capabilities (gi_capabilities request)
          in case plus_days issued_at (uint (gi_duration_days request)) of
               Panic \<Rightarrow> Panic
             | Done expires_at \<Rightarrow>
                 let h = \<lparr>hd_version = ''0.3'', hd_id = uid, hd_issued_at = issued_at,
                          hd_expires_at = expires_at, hd_capabilities = caps\<rparr>
                 in case (case gi_credential_type request of
                       GwIdentityBound \<Rightarrow> issue_identity_bound A S h prin agent
                     | GwAnonymous \<Rightarrow> Done (issue_anonymous A secrets h)
                     | GwHybrid \<Rightarrow> issue_hybrid A S secrets h prin agent) of
                      Panic \<Rightarrow> Panic
                    | Done (Inl e) \<Rightarrow> Done (Inl e, db)
                    | Done (Inr credential) \<Rightarrow>
                        (case store_credential A f credential request db of
                           (Inl e, db) \<Rightarrow> Done (Inl e, db)
                         | (Inr _, db) \<Rightarrow> Done (Inr credential, db)))"

section \<open>Endpoints\<close>

definition idp_public_key :: bytes where
  "idp_public_key = str_bytes ''test-secret''"

text \<open>\<open>POST /credentials/issue\<close>; \<open>header\<close> is the value of the authorization header when it
  is a string.\<close>

definition route_issue_credential ::
  "('p, 'ch, 'arc, 'sec, 'rq, 'rs) mcp_auth \<Rightarrow> (datetime \<Rightarrow> int \<Rightarrow> datetime rust) \<Rightarrow> db_faults
     \<Rightarrow> 'sec \<Rightarrow> uuid \<Rightarrow> datetime \<Rightarrow> CredentialService \<Rightarrow> string option \<Rightarrow> GwIssuanceRequest \<Rightarrow> credential_table
     \<Rightarrow> ((ACDPGatewayError + ('p, 'ch, 'arc) GwCredential) \<times> credential_table) rust" where
  "route_issue_credential A plus_days f secrets uid now S header body db =
     (case header of
        None \<Rightarrow> Done (Inl (Unauthorized ''Missing Authorization header''), db)
      | Some auth_header \<Rightarrow>
          if \<not> starts_with auth_header ''Bearer ''
          then Done (Inl (Unauthorized ''Invalid Authorization header format''), db)
          else
            case and_then (validate_id_jag A (drop 7 auth_header) (svc_gateway_issuer S) idp_public_key)
                   (\<lambda>claims. map_err (\<lambda>e. CredentialIssuanceFailed (''Invalid principal: '' @ e))
                      (ma_from_id_jag A (claim_sub claims) (claim_iss claims) (claim_client_id claims))) of
              Inl e \<Rightarrow> Done (Inl e, db)
            | Inr prin \<Rightarrow>
                if \<not> issuance_valid body
                then Done (Inl (CredentialIssuanceFailed
                       (''Invalid request: '' @ ma_validation_text A body)), db)
                else
                  (case svc_issue_credential A plus_days f secrets uid now S prin body db of
                     Panic \<Rightarrow> Panic
                   | Done (Inl e, db) \<Rightarrow> Done (Inl e, db)
                   | Done (Inr c, db) \<Rightarrow>
                       (case ma_to_json A c of
                          Inl e \<Rightarrow> Done (Inl (SerializationErrorGw e), db)
                        | Inr _ \<Rightarrow> Done (Inr c, db))))"

definition verification_failure :: "datetime \<Rightarrow> string \<Rightarrow> CredentialVerificationResult" where
  "verification_failure now reason = \<lparr>cr_valid = False, cr_principal = None, cr_agent_id = None,
     cr_presentations_remaining = 0, cr_delegation_chain = [], cr_failure_reason = Some reason,
     cr_verified_at = now\<rparr>"

text \<open>\<open>POST /credentials/verify\<close> up to and including the query: the answer, or the
  credential and its row when the request goes on to the update.\<close>

definition verify_select ::
  "('p, 'ch, 'arc, 'sec, 'rq, 'rs) mcp_auth \<Rightarrow> db_faults \<Rightarrow> datetime \<Rightarrow> CredentialVerificationRequest
     \<Rightarrow> credential_table
     \<Rightarrow> (ACDPGatewayError + CredentialVerificationResult) + ('p, 'ch, 'arc) GwCredential \<times> StoredCredential" where
  "verify_select A f now body db =
     (case ma_of_json A (cv_credential body) of
        Inl e \<Rightarrow> Inl (Inl (CredentialVerificationFailed (''Invalid credential JSON: '' @ e)))
      | Inr credential \<Rightarrow>
          if ma_is_expired A now credential then Inl (Inr (verification_failure now ''Credential expired''))
          else
            case select_fault f of
              Some e \<Rightarrow> Inl (Inl (DatabaseErrorGw e))
            | None \<Rightarrow>
                (case db (ma_credential_id A credential) of
                   None \<Rightarrow> Inl (Inr (verification_failure now ''Credential not found''))
                 | Some row \<Rightarrow>
                     if sc_revoked row then Inl (Inr (verification_failure now ''Credential revoked''))
                     else if sc_presentations_used row \<ge> sc_max_presentations row
                     then Inl (Inr (verification_failure now ''Rate limit exceeded''))
                     else Inr (credential, row)))"

definition db_increment :: "uuid \<Rightarrow> credential_table \<Rightarrow> credential_table" where
  "db_increment uid db = (case db uid of
     None \<Rightarrow> db
   | Some row \<Rightarrow> db(uid \<mapsto> row\<lparr>sc_presentations_used := sc_presentations_used row + 1\<rparr>))"

definition disclosed ::
  "('p, 'ch, 'arc, 'sec, 'rq, 'rs) mcp_auth \<Rightarrow> ('p, 'ch, 'arc) GwCredential
     \<Rightarrow> PrincipalInfo option \<times> string option \<times> string list" where
  "disclosed A c = (case c of
     IdentityBoundCred _ p agent _ chain _ \<Rightarrow>
       (Some \<lparr>prin_subject = ma_subject A p, prin_issuer = ma_issuer A p, prin_client_id = ma_client_id A p\<rparr>,
        Some (ga_agent_id agent), ma_audit_trail A chain)
   | _ \<Rightarrow> (None, None, []))"

text \<open>The update and the answer; the row is the one the query returned.\<close>

definition verify_update ::
  "('p, 'ch, 'arc, 'sec, 'rq, 'rs) mcp_auth \<Rightarrow> db_faults \<Rightarrow> datetime \<Rightarrow> ('p, 'ch, 'arc) GwCredential
     \<Rightarrow> StoredCredential \<Rightarrow> credential_table
     \<Rightarrow> (ACDPGatewayError + CredentialVerificationResult) \<times> credential_table" where
  "verify_update A f now credential row db =
     (case update_fault f of
        Some e \<Rightarrow> (Inl (DatabaseErrorGw e), db)
      | None \<Rightarrow>
          case disclosed A credential of (prin, agent, chain) \<Rightarrow>
          (Inr \<lparr>cr_valid = True, cr_principal = prin, cr_agent_id = agent,
                cr_presentations_remaining =
                  word_of_int (sc_max_presentations row - (sc_presentations_used row + 1)),
                cr_delegation_chain = chain, cr_failure_reason = None, cr_verified_at = now\<rparr>,
           db_increment (ma_credential_id A credential) db))"

definition route_verify_credential ::
  "('p, 'ch, 'arc, 'sec, 'rq, 'rs) mcp_auth \<Rightarrow> db_faults \<Rightarrow> datetime \<Rightarrow> CredentialVerificationRequest
     \<Rightarrow> credential_table \<Rightarrow> (ACDPGatewayError + CredentialVerificationResult) \<times> credential_table" where
  "route_verify_credential A f now body db =
     (case verify_select A f now body db of
        Inl answer \<Rightarrow> (answer, db)
      | Inr (credential, row) \<Rightarrow> verify_update A f now credential row db)"

definition delegate_credential :: "GwDelegationRequest \<Rightarrow> ACDPGatewayError + unit" where
  "delegate_credential body = Inl (InternalErrorGw ''Delegation not yet implemented'')"

section \<open>Lemmas\<close>

lemma verify_select_Inr:
  "verify_select A f now body db = Inr (c, row) \<longleftrightarrow>
     ma_of_json A (cv_credential body) = Inr c \<and> \<not> ma_is_expired A now c \<and> select_fault f = None
     \<and> db (ma_credential_id A c) = Some row \<and> \<not> sc_revoked row
     \<and> sc_presentations_used row < sc_max_presentations row"
  by (auto simp: verify_select_def split: sum.splits option.splits if_splits)

lemma verify_select_refuses:
  "verify_select A f now body db = Inl (Inr r) \<Longrightarrow> \<not> cr_valid r"
  by (auto simp: verify_select_def verification_failure_def split: sum.splits option.splits if_splits)

text \<open>A call accepts or leaves the table as it is.\<close>

definition accepts :: "ACDPGatewayError + CredentialVerificationResult \<Rightarrow> bool" where
  "accepts r = (case r of Inl _ \<Rightarrow> False | Inr x \<Rightarrow> cr_valid x)"

lemma route_verify_cases:
  assumes "route_verify_credential A f now body db = (r, db')"
  obtains (refused) "\<not> accepts r" "db' = db"
  | (accepted) c row where "accepts r" "verify_select A f now body db = Inr (c, row)" "update_fault f = None"
      "db' = db(ma_credential_id A c \<mapsto> row\<lparr>sc_presentations_used := sc_presentations_used row + 1\<rparr>)"
proof (cases "verify_select A f now body db")
  case (Inl a)
  with assms that(1) show ?thesis
    by (cases a) (auto simp: route_verify_credential_def accepts_def dest: verify_select_refuses)
next
  case (Inr p)
  obtain c row where p: "p = (c, row)" by (cases p)
  with Inr have row: "db (ma_credential_id A c) = Some row" by (simp add: verify_select_Inr)
  have upd: "verify_update A f now c row db = (r, db')"
    using assms Inr p by (simp add: route_verify_credential_def)
  show ?thesis
  proof (cases "update_fault f")
    case None
    obtain pr ag ch where d: "disclosed A c = (pr, ag, ch)" by (metis prod_cases3)
    have "accepts r" using upd d None by (auto simp: verify_update_def accepts_def)
    moreover have "db' = db(ma_credential_id A c \<mapsto> row\<lparr>sc_presentations_used := sc_presentations_used row + 1\<rparr>)"
      using upd d None row by (simp add: verify_update_def db_increment_def)
    ultimately show ?thesis using that(2) Inr p None by blast
  next
    case (Some e)
    then have "\<not> accepts r" "db' = db" using upd by (auto simp: verify_update_def accepts_def)
    then show ?thesis by (rule that(1))
  qed
qed

text \<open>What is presented, and for which entry.\<close>

definition presents :: "('p, 'ch, 'arc, 'sec, 'rq, 'rs) mcp_auth \<Rightarrow> uuid \<Rightarrow> CredentialVerificationRequest \<Rightarrow> bool" where
  "presents A uid body = (case ma_of_json A (cv_credential body) of
     Inl _ \<Rightarrow> False | Inr c \<Rightarrow> ma_credential_id A c = uid)"

type_synonym verify_call = "db_faults \<times> datetime \<times> CredentialVerificationRequest"

fun verify_run ::
  "('p, 'ch, 'arc, 'sec, 'rq, 'rs) mcp_auth \<Rightarrow> verify_call list \<Rightarrow> credential_table
     \<Rightarrow> (CredentialVerificationRequest \<times> (ACDPGatewayError + CredentialVerificationResult)) list
        \<times> credential_table" where
  "verify_run A [] db = ([], db)"
| "verify_run A ((f, now, body) # calls) db =
     (case route_verify_credential A f now body db of (r, db) \<Rightarrow>
      case verify_run A calls db of (rs, db) \<Rightarrow> ((body, r) # rs, db))"

definition accepted_for ::
  "('p, 'ch, 'arc, 'sec, 'rq, 'rs) mcp_auth \<Rightarrow> uuid
     \<Rightarrow> (CredentialVerificationRequest \<times> (ACDPGatewayError + CredentialVerificationResult)) list \<Rightarrow> nat" where
  "accepted_for A uid rs = length (filter (\<lambda>(body, r). presents A uid body \<and> accepts r) rs)"

lemma accepted_for_Nil [simp]: "accepted_for A uid [] = 0"
  by (simp add: accepted_for_def)

lemma accepted_for_Cons [simp]:
  "accepted_for A uid ((body, r) # rs)
   = (if presents A uid body \<and> accepts r then 1 else 0) + accepted_for A uid rs"
  by (simp add: accepted_for_def)

lemma verify_run_row:
  assumes "verify_run A calls db = (rs, db')" and "db uid = Some row"
    and "sc_presentations_used row \<le> sc_max_presentations row"
  shows "db' uid = Some (row\<lparr>sc_presentations_used :=
            sc_presentations_used row + int (accepted_for A uid rs)\<rparr>)
    \<and> sc_presentations_used row + int (accepted_for A uid rs) \<le> sc_max_presentations row"
  using assms
proof (induction calls arbitrary: db rs row)
  case Nil
  then show ?case by auto
next
  case (Cons call calls)
  obtain f now body where call: "call = (f, now, body)" by (cases call)
  obtain r db1 where step: "route_verify_credential A f now body db = (r, db1)"
    by (metis surj_pair)
  obtain rs1 where rest: "verify_run A calls db1 = (rs1, db')" and rs: "rs = (body, r) # rs1"
    using Cons.prems(1) step by (auto simp: call split: prod.splits)
  from step show ?case
  proof (cases rule: route_verify_cases)
    case refused
    with Cons.IH [OF rest, of row] Cons.prems(2,3) rs show ?thesis by simp
  next
    case (accepted c row1)
    show ?thesis
    proof (cases "ma_credential_id A c = uid")
      case True
      with accepted(2) Cons.prems(2) have row1: "row1 = row" by (simp add: verify_select_Inr)
      let ?row = "row\<lparr>sc_presentations_used := sc_presentations_used row + 1\<rparr>"
      have "db1 uid = Some ?row" using accepted(4) True row1 by simp
      moreover have "sc_presentations_used ?row \<le> sc_max_presentations ?row"
        using accepted(2) row1 by (simp add: verify_select_Inr)
      moreover have "presents A uid body" using accepted(2) True by (simp add: verify_select_Inr presents_def)
      ultimately show ?thesis using Cons.IH [OF rest, of ?row] rs accepted(1) by simp
    next
      case False
      with accepted(2,4) Cons.prems(2) have "db1 uid = Some row" "\<not> presents A uid body"
        by (simp_all add: verify_select_Inr presents_def)
      with Cons.IH [OF rest, of row] Cons.prems(3) rs show ?thesis by simp
    qed
  qed
qed

text \<open>A call that presents an unexpired credential of the entry, without a database fault.\<close>

definition good_call :: "('p, 'ch, 'arc, 'sec, 'rq, 'rs) mcp_auth \<Rightarrow> uuid \<Rightarrow> verify_call \<Rightarrow> bool" where
  "good_call A uid = (\<lambda>(f, now, body). select_fault f = None \<and> update_fault f = None
     \<and> (case ma_of_json A (cv_credential body) of
          Inl _ \<Rightarrow> False | Inr c \<Rightarrow> ma_credential_id A c = uid \<and> \<not> ma_is_expired A now c))"

lemma good_call_accepted:
  assumes "good_call A uid (f, now, body)" and "db uid = Some row" and "\<not> sc_revoked row"
    and "route_verify_credential A f now body db = (r, db')"
  shows "accepts r \<longleftrightarrow> sc_presentations_used row < sc_max_presentations row" "presents A uid body"
  using assms
  by (auto simp: good_call_def presents_def route_verify_credential_def verify_select_def
      verify_update_def accepts_def verification_failure_def
      split: sum.splits option.splits if_splits prod.splits)

lemma verify_run_all_good:
  assumes "verify_run A calls db = (rs, db')" and "list_all (good_call A uid) calls"
    and "db uid = Some row" and "\<not> sc_revoked row"
  shows "accepted_for A uid rs
    = min (length calls) (nat (sc_max_presentations row - sc_presentations_used row))"
  using assms
proof (induction calls arbitrary: db rs row)
  case Nil
  then show ?case by auto
next
  case (Cons call calls)
  obtain f now body where call: "call = (f, now, body)" by (cases call)
  obtain r db1 where step: "route_verify_credential A f now body db = (r, db1)"
    by (metis surj_pair)
  obtain rs1 where rest: "verify_run A calls db1 = (rs1, db')" and rs: "rs = (body, r) # rs1"
    using Cons.prems(1) step by (auto simp: call split: prod.splits)
  have good: "good_call A uid (f, now, body)" "list_all (good_call A uid) calls"
    using Cons.prems(2) by (simp_all add: call)
  note acc = good_call_accepted [OF good(1) Cons.prems(3,4) step]
  from step show ?case
  proof (cases rule: route_verify_cases)
    case refused
    with Cons.IH [OF rest good(2), of row] Cons.prems(3,4) rs acc show ?thesis by auto
  next
    case (accepted c row1)
    let ?row = "row\<lparr>sc_presentations_used := sc_presentations_used row + 1\<rparr>"
    have id: "ma_credential_id A c = uid" using accepted(2) acc(2) by (simp add: verify_select_Inr presents_def)
    with accepted(2) Cons.prems(3) have "row1 = row" by (simp add: verify_select_Inr)
    with accepted id have "db1 uid = Some ?row" by simp
    with Cons.IH [OF rest good(2), of ?row] Cons.prems(4) rs accepted(1) acc show ?thesis by auto
  qed
qed

subsection \<open>Interleaved workers\<close>

text \<open>\<open>workers\<close> are the requests between their query and their update.\<close>

record ('p, 'ch, 'arc) server_state =
  srv_table :: credential_table
  srv_workers :: "(('p, 'ch, 'arc) GwCredential \<times> StoredCredential) list"
  srv_accepted :: "uuid list"

inductive server_step ::
  "('p, 'ch, 'arc, 'sec, 'rq, 'rs) mcp_auth \<Rightarrow> nat \<Rightarrow> ('p, 'ch, 'arc) server_state
     \<Rightarrow> ('p, 'ch, 'arc) server_state \<Rightarrow> bool" for A n where
  srv_select: "length (srv_workers s) < n \<Longrightarrow> verify_select A f now body (srv_table s) = Inr x \<Longrightarrow>
    server_step A n s (s\<lparr>srv_workers := srv_workers s @ [x]\<rparr>)"
| srv_update: "srv_workers s = ws @ (c, row) # ws' \<Longrightarrow>
    verify_update A f now c row (srv_table s) = (r, db) \<Longrightarrow>
    server_step A n s (s\<lparr>srv_workers := ws @ ws', srv_table := db,
      srv_accepted := (if accepts r then ma_credential_id A c # srv_accepted s else srv_accepted s)\<rparr>)"

definition in_flight :: "('p, 'ch, 'arc, 'sec, 'rq, 'rs) mcp_auth \<Rightarrow> uuid \<Rightarrow> ('p, 'ch, 'arc) server_state \<Rightarrow> nat" where
  "in_flight A uid s = length (filter (\<lambda>(c, _). ma_credential_id A c = uid) (srv_workers s))"

definition server_inv ::
  "('p, 'ch, 'arc, 'sec, 'rq, 'rs) mcp_auth \<Rightarrow> nat \<Rightarrow> uuid \<Rightarrow> StoredCredential \<Rightarrow> ('p, 'ch, 'arc) server_state \<Rightarrow> bool" where
  "server_inv A n uid row s \<longleftrightarrow> length (srv_workers s) \<le> n
     \<and> srv_table s uid = Some (row\<lparr>sc_presentations_used :=
         sc_presentations_used row + int (count_list (srv_accepted s) uid)\<rparr>)
     \<and> sc_presentations_used row + int (count_list (srv_accepted s) uid) + int (in_flight A uid s)
         \<le> max (sc_presentations_used row) (sc_max_presentations row + int n - 1)"

lemma server_step_inv:
  assumes "server_step A n s s'" and "server_inv A n uid row s"
  shows "server_inv A n uid row s'"
  using assms
proof (cases rule: server_step.cases)
  case (srv_select f now body x)
  obtain c row1 where x: "x = (c, row1)" by (cases x)
  have len: "in_flight A uid s \<le> length (srv_workers s)" by (simp add: in_flight_def)
  show ?thesis
  proof (cases "ma_credential_id A c = uid")
    case True
    then have "sc_presentations_used row + int (count_list (srv_accepted s) uid) < sc_max_presentations row"
      using srv_select(3) assms(2) by (auto simp: x verify_select_Inr server_inv_def)
    moreover have "in_flight A uid s' = in_flight A uid s + 1"
      using True srv_select(1) by (simp add: in_flight_def x)
    ultimately show ?thesis using srv_select(1,2) len assms(2)
      by (auto simp: server_inv_def)
  next
    case False
    with srv_select(1,2) assms(2) show ?thesis by (auto simp: server_inv_def x in_flight_def)
  qed
next
  case (srv_update ws c row1 ws' f now r db)
  show ?thesis
  proof (cases "update_fault f")
    case None
    with srv_update(3) have r: "accepts r" and db: "db = db_increment (ma_credential_id A c) (srv_table s)"
      by (auto simp: verify_update_def accepts_def split: prod.splits)
    show ?thesis using assms(2) srv_update(1,2) r
      by (auto simp: server_inv_def db db_increment_def in_flight_def split: option.splits)
  next
    case (Some e)
    with srv_update(3) have r: "\<not> accepts r" and db: "db = srv_table s"
      by (auto simp: verify_update_def accepts_def)
    show ?thesis using assms(2) srv_update(1,2) r
      by (auto simp: server_inv_def db in_flight_def split: if_splits)
  qed
qed

lemma server_steps_inv:
  assumes "(server_step A n)\<^sup>*\<^sup>* s s'" and "server_inv A n uid row s"
  shows "server_inv A n uid row s'"
  using assms by (induction rule: rtranclp_induct) (auto intro: server_step_inv)

subsection \<open>Issuance\<close>

lemma svc_issue_Inr:
  assumes "svc_issue_credential A plus_days f secrets uid now S prin rq db = Done (Inr c, db')"
  shows "hd_id (cred_head c) = uid" "hd_issued_at (cred_head c) = now"
    "plus_days now (uint (gi_duration_days rq)) = Done (hd_expires_at (cred_head c))"
    "hd_capabilities (cred_head c) = parse_mcp_capabilities (gi_capabilities rq)"
    "gw_credential_type c = gi_credential_type rq"
    "store_credential A f c rq db = (Inr (), db')"
    "case c of IdentityBoundCred _ p _ _ _ _ \<Rightarrow> p = prin | HybridCred _ p _ _ _ _ _ \<Rightarrow> p = prin
     | AnonymousCred _ _ \<Rightarrow> True"
  using assms
  by (auto simp: svc_issue_credential_def Let_def issue_identity_bound_def issue_anonymous_def
      issue_hybrid_def gw_credential_type_def map_rust_eq_Done res_simps
      split: sum.splits rust.splits GwCredentialType.splits prod.splits)

lemma svc_issue_Inl:
  assumes "svc_issue_credential A plus_days f secrets uid now S prin rq db = Done (Inl e, db')"
  shows "db' = db"
  using assms
  by (auto simp: svc_issue_credential_def Let_def store_credential_def db_insert_def
      split: sum.splits rust.splits prod.splits option.splits if_splits)

definition fresh_row :: "GwIssuanceRequest \<Rightarrow> ('p, 'ch, 'arc) GwCredential \<Rightarrow> StoredCredential \<Rightarrow> bool" where
  "fresh_row rq c row \<longleftrightarrow> sc_presentations_used row = 0 \<and> \<not> sc_revoked row
     \<and> sc_max_presentations row = u64_as_i64 (cfg_max_presentations (cc_rate_limit (gi_capabilities rq)))
     \<and> sc_type row = gi_credential_type rq \<and> sc_agent_id row = gi_agent_id rq
     \<and> sc_expires_at row = hd_expires_at (cred_head c)"

lemma svc_issue_row:
  assumes "svc_issue_credential A plus_days f secrets uid now S prin rq db = Done (Inr c, db')"
    and "\<forall>c. ma_credential_id A c = hd_id (cred_head c)"
  shows "uid \<notin> dom db \<and> (\<exists>row. db' = db(uid \<mapsto> row) \<and> fresh_row rq c row) \<and> is_ok (ma_to_json A c)"
  using svc_issue_Inr [OF assms(1)] assms(2)
  by (auto simp: store_credential_def db_insert_def fresh_row_def
      split: sum.splits option.splits if_splits)

text \<open>What the request and its token must satisfy.\<close>

definition authorised_issue ::
  "('p, 'ch, 'arc, 'sec, 'rq, 'rs) mcp_auth \<Rightarrow> CredentialService \<Rightarrow> string option \<Rightarrow> GwIssuanceRequest \<Rightarrow> 'p \<Rightarrow> bool" where
  "authorised_issue A S header rq prin \<longleftrightarrow> issuance_valid rq \<and> (\<exists>token claims.
     header = Some (''Bearer '' @ token)
     \<and> ma_jwt_decode A idp_public_key token (svc_gateway_issuer S) = Inr claims
     \<and> claim_typ claims = ''oauth-id-jag+jwt'' \<and> claim_aud claims = svc_gateway_issuer S
     \<and> ma_from_id_jag A (claim_sub claims) (claim_iss claims) (claim_client_id claims) = Inr prin)"

lemma starts_with_drop: "starts_with s p \<Longrightarrow> s = p @ drop (length p) s"
  by (metis append_take_drop_id starts_with_def)

lemma validate_id_jag_Inr:
  "validate_id_jag A token aud key = Inr claims \<longleftrightarrow>
     ma_jwt_decode A key token aud = Inr claims \<and> claim_typ claims = ''oauth-id-jag+jwt''
     \<and> claim_aud claims = aud"
  by (auto simp: validate_id_jag_def res_simps split: if_splits)

lemma route_issue_Inr:
  assumes "route_issue_credential A plus_days f secrets uid now S header rq db = Done (Inr c, db')"
  obtains prin where "authorised_issue A S header rq prin"
    "svc_issue_credential A plus_days f secrets uid now S prin rq db = Done (Inr c, db')"
proof -
  from assms obtain h where h: "header = Some h" "starts_with h ''Bearer ''"
    by (auto simp: route_issue_credential_def split: option.splits if_splits)
  from assms h obtain claims prin where p:
    "validate_id_jag A (drop 7 h) (svc_gateway_issuer S) idp_public_key = Inr claims"
    "ma_from_id_jag A (claim_sub claims) (claim_iss claims) (claim_client_id claims) = Inr prin"
    and v: "issuance_valid rq"
    and i: "svc_issue_credential A plus_days f secrets uid now S prin rq db = Done (Inr c, db')"
    by (auto simp: route_issue_credential_def res_simps split: sum.splits if_splits rust.splits)
  have "h = ''Bearer '' @ drop 7 h" using starts_with_drop [OF h(2)] by (simp add: numeral_eq_Suc)
  with h(1) p v have "authorised_issue A S header rq prin"
    unfolding authorised_issue_def validate_id_jag_Inr by blast
  from this i show ?thesis by (rule that)
qed

lemma route_issue_Inl:
  assumes "route_issue_credential A plus_days f secrets uid now S header rq db = Done (Inl e, db')"
    and "\<forall>c. ma_credential_id A c = hd_id (cred_head c)"
  shows "db' = db"
  using assms(1)
  by (auto simp: route_issue_credential_def dest: svc_issue_Inl svc_issue_row [OF _ assms(2)]
      split: option.splits sum.splits if_splits rust.splits prod.splits)

text \<open>What the service needs for an authorised request: an agent key that is hexadecimal, for the types
  with an ARC credential a blind issuance that succeeds, and a database that takes the new row.\<close>

definition issuable ::
  "('p, 'ch, 'arc, 'sec, 'rq, 'rs) mcp_auth \<Rightarrow> db_faults \<Rightarrow> 'sec \<Rightarrow> uuid \<Rightarrow> GwIssuanceRequest \<Rightarrow> credential_table \<Rightarrow> bool" where
  "issuable A f secrets uid rq db \<longleftrightarrow>
     (\<exists>key. ma_hex_decode A (gi_agent_public_key rq) = Inr key)
     \<and> (gi_credential_type rq \<noteq> GwIdentityBound \<longrightarrow> (\<exists>resp arc.
          ma_arc_issue A (ma_arc_request A secrets) = Inr resp
          \<and> ma_arc_finalize A resp (ma_arc_request A secrets) secrets = Inr arc))
     \<and> insert_fault f = None \<and> uid \<notin> dom db"

lemma issue_arc_Inr:
  "issue_arc A secrets = Inr arc \<longleftrightarrow> (\<exists>resp. ma_arc_issue A (ma_arc_request A secrets) = Inr resp
     \<and> ma_arc_finalize A resp (ma_arc_request A secrets) secrets = Inr arc)"
  by (auto simp: issue_arc_def res_simps Let_def)

lemma store_credential_ok:
  assumes "\<forall>c. \<exists>j. ma_to_json A c = Inr j"
  shows "is_ok (fst (store_credential A f c rq db)) \<longleftrightarrow> insert_fault f = None \<and> ma_credential_id A c \<notin> dom db"
proof -
  obtain j where "ma_to_json A c = Inr j" using assms by blast
  then show ?thesis by (simp add: store_credential_def db_insert_def split: option.split)
qed

lemma svc_issue_ok_iff:
  assumes "svc_issue_credential A plus_days f secrets uid now S prin rq db = Done (r, db')"
    and "\<forall>c. ma_credential_id A c = hd_id (cred_head c)" and "\<forall>c. \<exists>j. ma_to_json A c = Inr j"
  shows "is_ok r \<longleftrightarrow> issuable A f secrets uid rq db"
proof (cases r)
  case (Inr c)
  note ok = assms(1) [unfolded Inr]
  have "is_ok (fst (store_credential A f c rq db))" using svc_issue_Inr(6) [OF ok] by simp
  then have "insert_fault f = None" "uid \<notin> dom db"
    using store_credential_ok [OF assms(3)] assms(2) svc_issue_Inr(1) [OF ok] by simp_all
  moreover have "\<exists>key. ma_hex_decode A (gi_agent_public_key rq) = Inr key"
    using ok by (cases "ma_hex_decode A (gi_agent_public_key rq)") (simp_all add: svc_issue_credential_def)
  moreover have "\<exists>arc. issue_arc A secrets = Inr arc" if "gi_credential_type rq \<noteq> GwIdentityBound"
    using ok that by (cases "issue_arc A secrets"; cases "gi_credential_type rq")
      (auto simp: svc_issue_credential_def issue_anonymous_def issue_hybrid_def res_simps Let_def
        split: sum.splits rust.splits)
  ultimately show ?thesis using Inr unfolding issuable_def issue_arc_Inr by auto
next
  case (Inl e)
  have "False" if can: "issuable A f secrets uid rq db"
  proof -
    obtain key where key: "ma_hex_decode A (gi_agent_public_key rq) = Inr key"
      using can by (auto simp: issuable_def)
    have arc: "\<exists>arc. issue_arc A secrets = Inr arc" if "gi_credential_type rq \<noteq> GwIdentityBound"
      using can that by (auto simp: issuable_def issue_arc_Inr)
    have store: "hd_id (cred_head c) \<noteq> uid" if "store_credential A f c rq db = (Inl e, d)" for c d
      using can store_credential_ok [OF assms(3), of f c rq db] assms(2) that by (auto simp: issuable_def)
    show False
      using assms(1) [unfolded Inl] key arc
      by (cases "gi_credential_type rq")
        (auto simp: svc_issue_credential_def issue_identity_bound_def issue_anonymous_def issue_hybrid_def
          map_rust_eq_Done Let_def dest!: store split: rust.splits prod.splits sum.splits)
  qed
  with Inl show ?thesis by auto
qed

lemma route_issue_authorised:
  assumes "authorised_issue A S header rq prin"
    and "\<forall>c. \<exists>j. ma_to_json A c = Inr j"
  shows "route_issue_credential A plus_days f secrets uid now S header rq db
     = svc_issue_credential A plus_days f secrets uid now S prin rq db"
proof -
  obtain token claims where t: "issuance_valid rq" "header = Some (''Bearer '' @ token)"
      "validate_id_jag A token (svc_gateway_issuer S) idp_public_key = Inr claims"
      "ma_from_id_jag A (claim_sub claims) (claim_iss claims) (claim_client_id claims) = Inr prin"
    using assms(1) unfolding authorised_issue_def validate_id_jag_Inr by blast
  have "starts_with (''Bearer '' @ token) ''Bearer ''" "drop 7 (''Bearer '' @ token) = token"
    by (simp_all add: starts_with_def)
  moreover obtain j where "\<And>c. ma_to_json A c = Inr (j c)" using assms(2) by metis
  ultimately show ?thesis using t
    by (simp add: route_issue_credential_def split: rust.split prod.split sum.split)
qed

lemma nat_u64_as_i64: "nat (u64_as_i64 w) = (if unat w < 2 ^ 63 then unat w else 0)"
proof -
  have int: "int (unat w) = uint w" by simp
  have lt: "uint w < 2 ^ 64" using uint_lt2p [of w] by simp
  show ?thesis
proof (cases "unat w < 2 ^ 63")
  case True
  then have "int (unat w) < int (2 ^ 63)" by (simp only: of_nat_less_iff)
  then have "uint w < 2 ^ 63" unfolding int by simp
  moreover have "0 \<le> uint w" by simp
  ultimately have "in_i64 (uint w)" unfolding in_i64_def by linarith
  with True show ?thesis by (simp add: u64_as_i64_def wrap_i64_id)
next
  case False
  then have "int (2 ^ 63) \<le> int (unat w)" by (simp only: of_nat_le_iff not_less)
  then have ge: "2 ^ 63 \<le> uint w" unfolding int by simp
  have "(uint w + 2 ^ 63) mod 2 ^ 64 = uint w - 2 ^ 63"
  proof -
    have "(uint w + 2 ^ 63) mod 2 ^ 64 = (uint w - 2 ^ 63 + 2 ^ 64) mod 2 ^ 64" by (simp add: add.commute)
    also have "\<dots> = (uint w - 2 ^ 63) mod 2 ^ 64" by (rule mod_add_self2)
    also have "\<dots> = uint w - 2 ^ 63" using ge lt by (intro mod_pos_pos_trivial) auto
    finally show ?thesis .
  qed
  with False lt show ?thesis by (simp add: u64_as_i64_def wrap_i64_def)
qed
qed

section \<open>Example\<close>

definition sample_head :: cred_head where
  "sample_head = \<lparr>hd_version = ''0.3'', hd_id = 7, hd_issued_at = 0, hd_expires_at = 86400,
     hd_capabilities = \<lparr>gc_allowed_tools = [''read''], gc_denied_tools = [],
       gc_max_calls_per_tool = None, gc_rate_limit_window = Some ''24h''\<rparr>\<rparr>"

definition sample_gw_agent :: GwAgent where
  "sample_gw_agent = \<lparr>ga_agent_id = ''mallory'', ga_public_key = [], ga_agent_type = ''mcp-client''\<rparr>"

definition sample_forged :: "(string, unit, unit) GwCredential" where
  "sample_forged = IdentityBoundCred sample_head ''ceo@example.com'' sample_gw_agent gw_no_delegation () []"

definition gw_claims :: IDJAGClaims where
  "gw_claims = \<lparr>claim_typ = ''oauth-id-jag+jwt'', claim_jti = ''j'', claim_iss = ''https://idp'',
     claim_sub = ''alice'', claim_aud = ''gw'', claim_resource = ''r'', claim_client_id = ''cli'',
     claim_exp = 9, claim_iat = 1, claim_scope = ''s''\<rparr>"

definition sample_mcp_auth :: "(string, unit, unit, unit, unit, unit) mcp_auth" where
  "sample_mcp_auth = \<lparr>ma_from_id_jag = (\<lambda>s i c. Inr s), ma_subject = id, ma_issuer = (\<lambda>_. ''https://idp''),
     ma_client_id = (\<lambda>_. ''cli''), ma_chain_new = (), ma_audit_trail = (\<lambda>_. []),
     ma_arc_request = id, ma_arc_issue = Inr, ma_arc_finalize = (\<lambda>_ _ _. Inr ()),
     ma_credential_id = (\<lambda>c. hd_id (cred_head c)),
     ma_is_expired = (\<lambda>now c. hd_expires_at (cred_head c) < now),
     ma_to_json = (\<lambda>_. Inr ''{}''), ma_of_json = (\<lambda>_. Inr sample_forged),
     ma_hex_decode = (\<lambda>s. Inr (str_bytes s)), ma_sign = (\<lambda>k d. k), ma_jwt_decode = (\<lambda>k t a. Inr gw_claims),
     ma_validation_text = (\<lambda>_. ''invalid'')\<rparr>"

definition no_faults :: db_faults where
  "no_faults = \<lparr>insert_fault = None, select_fault = None, update_fault = None\<rparr>"

definition sample_service :: CredentialService where
  "sample_service = \<lparr>svc_signing_key = replicate 32 1, svc_gateway_issuer = ''gw''\<rparr>"

definition gw_issuance :: GwIssuanceRequest where
  "gw_issuance = \<lparr>gi_agent_id = ''agent'', gi_agent_public_key = replicate 64 CHR ''a'',
     gi_credential_type = GwAnonymous,
     gi_capabilities = \<lparr>cc_rate_limit = \<lparr>cfg_max_presentations = 2, cfg_window = ''24h''\<rparr>,
       cc_mcp_tools = \<lparr>tools_allowed = [''read''], tools_denied = []\<rparr>\<rparr>,
     gi_duration_days = 1\<rparr>"

definition sample_verify :: CredentialVerificationRequest where
  "sample_verify = \<lparr>cv_credential_id = 7, cv_presentation_context = [], cv_nonce = 0,
     cv_credential = ''{}'', cv_arc_presentation = None\<rparr>"

definition sample_row :: StoredCredential where
  "sample_row = \<lparr>sc_type = GwAnonymous, sc_principal_subject = None, sc_principal_issuer = None,
     sc_agent_id = ''agent'', sc_credential_data = ''{}'', sc_max_presentations = 2,
     sc_presentations_used = 0, sc_issued_at = 0, sc_expires_at = 86400, sc_revoked = False\<rparr>"

lemmas gw_sample_defs = sample_head_def sample_gw_agent_def sample_forged_def gw_claims_def
  sample_mcp_auth_def no_faults_def sample_service_def gw_issuance_def sample_verify_def sample_row_def

lemma sample_issued:
  "route_issue_credential sample_mcp_auth (\<lambda>t d. Done (t + d * 86400)) no_faults () 7 0 sample_service
     (Some ''Bearer tok'') gw_issuance Map.empty
   = Done (Inr (AnonymousCred sample_head ()), [7 \<mapsto> sample_row])"
  by (simp add: route_issue_credential_def gw_sample_defs starts_with_def validate_id_jag_def
      issuance_valid_def length_between_def char_count_def svc_issue_credential_def Let_def
      issue_anonymous_def issue_arc_def store_credential_def principal_columns_def gw_credential_type_def
      db_insert_def parse_mcp_capabilities_def u64_as_i64_def wrap_i64_def)

lemma sample_issued_ids: "\<forall>c. ma_credential_id sample_mcp_auth c = hd_id (cred_head c)"
  by (simp add: sample_mcp_auth_def)

lemma sample_good_call: "good_call sample_mcp_auth 7 (no_faults, 5, sample_verify)"
  by (simp add: good_call_def gw_sample_defs)

section \<open>Properties\<close>

text \<open>C24 (issuance is recorded). When the endpoint returns, it has issued a credential exactly if the
  bearer's token decodes for this gateway, has the ID-JAG type and names a principal, the request is
  within the declared limits, the agent key is hexadecimal, the blind issuance (for the types that
  need one) succeeds, and the database takes a row under the fresh identifier. The credential then
  has the requested type, that identifier and, unless anonymous, the principal of the token, and the
  table gains exactly its row, unused and unrevoked, with the requested budget and the expiry of the
  credential. A request that fails leaves the table unchanged. Credentials are assumed to serialise.\<close>

theorem issuance_recorded:
  assumes "route_issue_credential A plus_days f secrets uid now S header rq db = Done (r, db')"
    and "\<forall>c. ma_credential_id A c = hd_id (cred_head c)" and "\<forall>c. \<exists>j. ma_to_json A c = Inr j"
  shows "(is_ok r \<longleftrightarrow> (\<exists>prin. authorised_issue A S header rq prin) \<and> issuable A f secrets uid rq db)
    \<and> (case r of
      Inl _ \<Rightarrow> db' = db
    | Inr c \<Rightarrow> uid \<notin> dom db \<and> (\<exists>row. db' = db(uid \<mapsto> row) \<and> fresh_row rq c row)
        \<and> hd_id (cred_head c) = uid \<and> gw_credential_type c = gi_credential_type rq
        \<and> (\<exists>prin. authorised_issue A S header rq prin
             \<and> (case c of IdentityBoundCred _ p _ _ _ _ \<Rightarrow> p = prin | HybridCred _ p _ _ _ _ _ \<Rightarrow> p = prin
                | AnonymousCred _ _ \<Rightarrow> True)))"
proof (cases r)
  case (Inl e)
  have "False" if "authorised_issue A S header rq prin" "issuable A f secrets uid rq db" for prin
    using svc_issue_ok_iff [OF assms(1) [unfolded route_issue_authorised [OF that(1) assms(3)]] assms(2,3)]
      that(2) Inl by simp
  with assms Inl show ?thesis by (auto dest: route_issue_Inl)
next
  case (Inr c)
  with assms(1) obtain prin where p: "authorised_issue A S header rq prin"
    and i: "svc_issue_credential A plus_days f secrets uid now S prin rq db = Done (Inr c, db')"
    by (auto elim: route_issue_Inr)
  from svc_issue_ok_iff [OF i assms(2,3)] svc_issue_row [OF i assms(2)] svc_issue_Inr [OF i] p Inr
  show ?thesis by auto
qed

theorem issuance_recorded_witness:
  "(\<exists>prin. authorised_issue sample_mcp_auth sample_service (Some ''Bearer tok'') gw_issuance prin)
    \<and> issuable sample_mcp_auth no_faults () 7 gw_issuance Map.empty"
  using issuance_recorded [OF sample_issued sample_issued_ids] by (auto simp: sample_mcp_auth_def)

text \<open>A credential's budget at the gateway. Of the verification requests that follow the issuance
  of a credential, all of them presenting it unexpired, exactly as many succeed as the requested
  budget allows; but a requested budget of \<open>2 ^ 63\<close> or more, which the validation of the
  request lets pass, becomes negative in the table, and the credential is never accepted.\<close>

theorem issued_budget:
  assumes "route_issue_credential A plus_days f secrets uid now S header rq db = Done (Inr c, db1)"
    and "\<forall>c. ma_credential_id A c = hd_id (cred_head c)"
    and "verify_run A calls db1 = (rs, db2)" and "list_all (good_call A uid) calls"
  shows "accepted_for A uid rs = min (length calls)
    (let m = cfg_max_presentations (cc_rate_limit (gi_capabilities rq)) in
     if unat m < 2 ^ 63 then unat m else 0)"
proof -
  let ?m = "cfg_max_presentations (cc_rate_limit (gi_capabilities rq))"
  from assms(1) obtain prin where
    i: "svc_issue_credential A plus_days f secrets uid now S prin rq db = Done (Inr c, db1)"
    by (rule route_issue_Inr)
  from svc_issue_row [OF i assms(2)] obtain row where row: "db1 uid = Some row" "fresh_row rq c row"
    by auto
  then have "accepted_for A uid rs = min (length calls) (nat (u64_as_i64 ?m))"
    using verify_run_all_good [OF assms(3,4) row(1)] by (simp add: fresh_row_def)
  then show ?thesis by (simp add: nat_u64_as_i64 Let_def)
qed

theorem issued_budget_witness:
  "accepted_for sample_mcp_auth 7
     (fst (verify_run sample_mcp_auth (replicate 5 (no_faults, 5, sample_verify)) [7 \<mapsto> sample_row])) = 2"
proof -
  let ?calls = "replicate 5 (no_faults, 5, sample_verify)"
  obtain rs db2 where run: "verify_run sample_mcp_auth ?calls [7 \<mapsto> sample_row] = (rs, db2)"
    by (metis surj_pair)
  have "list_all (good_call sample_mcp_auth 7) ?calls" using sample_good_call by (simp add: list_all_iff)
  from issued_budget [OF sample_issued sample_issued_ids run this] run show ?thesis
    by (simp add: gw_issuance_def)
qed

text \<open>C25 (budget under concurrency). With \<open>n\<close> workers, each of which may be between its query
  and its update, a credential of the table is accepted at most \<open>n - 1\<close> times more often than
  its remaining budget, and the table counts every acceptance.\<close>

theorem concurrent_verifications:
  assumes "(server_step A n)\<^sup>*\<^sup>* \<lparr>srv_table = db, srv_workers = [], srv_accepted = []\<rparr> s"
    and "db uid = Some row" and "sc_presentations_used row \<le> sc_max_presentations row" and "0 < n"
  shows "srv_table s uid = Some (row\<lparr>sc_presentations_used :=
      sc_presentations_used row + int (count_list (srv_accepted s) uid)\<rparr>)
    \<and> int (count_list (srv_accepted s) uid)
        \<le> sc_max_presentations row - sc_presentations_used row + int n - 1"
proof -
  have "server_inv A n uid row s"
    by (rule server_steps_inv [OF assms(1)]) (simp add: server_inv_def in_flight_def assms(2))
  then show ?thesis using assms(3,4) by (auto simp: server_inv_def)
qed

theorem concurrent_verifications_witness:
  "\<exists>s. (server_step sample_mcp_auth 1)\<^sup>*\<^sup>* \<lparr>srv_table = [7 \<mapsto> sample_row], srv_workers = [], srv_accepted = []\<rparr> s
    \<and> srv_accepted s = [7] \<and> int (count_list (srv_accepted s) 7) \<le> 2"
proof -
  let ?s0 = "\<lparr>srv_table = [7 \<mapsto> sample_row], srv_workers = [], srv_accepted = []\<rparr>"
  let ?s1 = "?s0\<lparr>srv_workers := [(sample_forged, sample_row)]\<rparr>"
  have "server_step sample_mcp_auth 1 ?s0 ?s1"
    using srv_select [of ?s0 1 sample_mcp_auth no_faults 5 sample_verify "(sample_forged, sample_row)"]
    by (simp add: verify_select_Inr gw_sample_defs)
  moreover obtain r db where u: "verify_update sample_mcp_auth no_faults 5 sample_forged sample_row [7 \<mapsto> sample_row] = (r, db)"
    by (metis surj_pair)
  then have r: "accepts r" by (auto simp: verify_update_def accepts_def gw_sample_defs split: prod.splits)
  let ?s2 = "?s1\<lparr>srv_workers := [], srv_table := db, srv_accepted := [7]\<rparr>"
  have "server_step sample_mcp_auth 1 ?s1 ?s2"
    using srv_update [of ?s1 "[]" sample_forged sample_row "[]" sample_mcp_auth no_faults 5 r db 1] u r
    by (simp add: gw_sample_defs)
  ultimately have steps: "(server_step sample_mcp_auth 1)\<^sup>*\<^sup>* ?s0 ?s2" by auto
  from concurrent_verifications [OF this, of 7 sample_row]
  have "int (count_list (srv_accepted ?s2) 7) \<le> 2" by (simp add: sample_row_def)
  with steps show ?thesis by (intro exI [of _ ?s2]) simp
qed



end
