(* ===== verification/Sandbox_Policy.thy ===== *)
theory Sandbox_Policy
  imports Capabilities
begin

text \<open>
  The security policy of the code sandbox (\<open>acdp-sandbox/src/policy.rs\<close>) and its resource
  limits (\<open>acdp-sandbox/src/limits.rs\<close>): which runtimes a tool may use, with what limits
  and whether it is audited. A \<open>HashSet\<close> of runtimes is a \<open>set\<close>, a \<open>HashMap\<close> a map.
\<close>

section \<open>Data\<close>

datatype RuntimeType = Process | V8 | Wasm

primrec security_rank :: "RuntimeType \<Rightarrow> u8" where
  "security_rank Wasm = 0"
| "security_rank V8 = 1"
| "security_rank Process = 2"

primrec performance_rank :: "RuntimeType \<Rightarrow> u8" where
  "performance_rank Process = 0"
| "performance_rank V8 = 1"
| "performance_rank Wasm = 2"

datatype TrustLevel = Untrusted | Verified | Trusted | System

text \<open>The derived order of the trust levels is that of their declaration.\<close>

primrec trust_index :: "TrustLevel \<Rightarrow> nat" where
  "trust_index Untrusted = 0"
| "trust_index Verified = 1"
| "trust_index Trusted = 2"
| "trust_index System = 3"

instantiation TrustLevel :: linorder
begin

definition less_eq_TrustLevel :: "TrustLevel \<Rightarrow> TrustLevel \<Rightarrow> bool" where
  "less_eq_TrustLevel a b \<longleftrightarrow> trust_index a \<le> trust_index b"

definition less_TrustLevel :: "TrustLevel \<Rightarrow> TrustLevel \<Rightarrow> bool" where
  "less_TrustLevel a b \<longleftrightarrow> trust_index a < trust_index b"

instance
proof
  fix x y :: TrustLevel
  show "x \<le> y \<Longrightarrow> y \<le> x \<Longrightarrow> x = y"
    by (cases x; cases y) (simp_all add: less_eq_TrustLevel_def)
qed (auto simp: less_eq_TrustLevel_def less_TrustLevel_def)

end

datatype Language = JavaScript | Python | WasmLang | Shell

datatype RuntimeRequirement =
    Specific RuntimeType
  | Auto Language "RuntimeType option"
  | AnyOf "RuntimeType list"

definition RuntimeRequirement_default :: RuntimeRequirement where
  "RuntimeRequirement_default = Specific Wasm"

section \<open>Limits\<close>

record SandboxLimits =
  max_duration :: "Duration option"
  max_memory_bytes :: "u64 option"
  max_cpu_time_ms :: "u64 option"

definition limits_default :: SandboxLimits where
  "limits_default = \<lparr>max_duration = Some (duration_from_secs 30),
     max_memory_bytes = Some (100 * 1024 * 1024), max_cpu_time_ms = Some 30000\<rparr>"

definition limits_unlimited :: SandboxLimits where
  "limits_unlimited = \<lparr>max_duration = None, max_memory_bytes = None, max_cpu_time_ms = None\<rparr>"

definition limits_strict :: SandboxLimits where
  "limits_strict = \<lparr>max_duration = Some (duration_from_secs 5),
     max_memory_bytes = Some (10 * 1024 * 1024), max_cpu_time_ms = Some 5000\<rparr>"

definition limits_permissive :: SandboxLimits where
  "limits_permissive = \<lparr>max_duration = Some (duration_from_secs 300),
     max_memory_bytes = Some (500 * 1024 * 1024), max_cpu_time_ms = Some 300000\<rparr>"

section \<open>Policies\<close>

record ToolPolicy =
  tp_tool_id :: string
  tp_trust_level :: TrustLevel
  tp_allowed_runtimes :: "RuntimeType list"
  tp_limits :: "SandboxLimits option"
  audit_required :: bool

record SecurityPolicy =
  default_runtime_by_trust :: "TrustLevel \<rightharpoonup> RuntimeType"
  allowed_runtimes_by_trust :: "TrustLevel \<rightharpoonup> RuntimeType set"
  limits_by_trust :: "TrustLevel \<rightharpoonup> SandboxLimits"
  tool_policies :: "string \<rightharpoonup> ToolPolicy"
  allow_process_runtime :: bool
  prefer_security_over_performance :: bool

definition runtime_by_trust_default :: "TrustLevel \<rightharpoonup> RuntimeType" where
  "runtime_by_trust_default =
     [Untrusted \<mapsto> Wasm, Verified \<mapsto> Wasm, Trusted \<mapsto> V8, System \<mapsto> V8]"

definition allowed_by_trust_default :: "TrustLevel \<rightharpoonup> RuntimeType set" where
  "allowed_by_trust_default =
     [Untrusted \<mapsto> {Wasm}, Verified \<mapsto> {Wasm, V8}, Trusted \<mapsto> {Wasm, V8}, System \<mapsto> {Wasm, V8, Process}]"

definition limits_by_trust_default :: "TrustLevel \<rightharpoonup> SandboxLimits" where
  "limits_by_trust_default =
     [Untrusted \<mapsto> limits_strict, Verified \<mapsto> limits_default, Trusted \<mapsto> limits_permissive,
      System \<mapsto> limits_permissive]"

definition SecurityPolicy_default :: SecurityPolicy where
  "SecurityPolicy_default = \<lparr>default_runtime_by_trust = runtime_by_trust_default,
     allowed_runtimes_by_trust = allowed_by_trust_default,
     limits_by_trust = limits_by_trust_default, tool_policies = Map.empty,
     allow_process_runtime = False, prefer_security_over_performance = True\<rparr>"

text \<open>Both queries prefer a non-empty tool-specific list over the trust level's set.\<close>

definition is_runtime_allowed :: "SecurityPolicy \<Rightarrow> string \<Rightarrow> TrustLevel \<Rightarrow> RuntimeType \<Rightarrow> bool" where
  "is_runtime_allowed P tool_id trust rt =
     (if rt = Process \<and> \<not> allow_process_runtime P then False
      else
        let by_trust = (case allowed_runtimes_by_trust P trust of Some s \<Rightarrow> rt \<in> s | None \<Rightarrow> False)
        in case tool_policies P tool_id of
             Some tp \<Rightarrow> if tp_allowed_runtimes tp \<noteq> [] then rt \<in> set (tp_allowed_runtimes tp) else by_trust
           | None \<Rightarrow> by_trust)"

definition allowed_runtimes :: "SecurityPolicy \<Rightarrow> string \<Rightarrow> TrustLevel \<Rightarrow> RuntimeType set" where
  "allowed_runtimes P tool_id trust =
     (let drop_process = (\<lambda>s. if \<not> allow_process_runtime P then s - {Process} else s);
          by_trust = drop_process
            (case allowed_runtimes_by_trust P trust of Some s \<Rightarrow> s | None \<Rightarrow> {})
      in case tool_policies P tool_id of
           Some tp \<Rightarrow> if tp_allowed_runtimes tp \<noteq> []
                      then drop_process (set (tp_allowed_runtimes tp)) else by_trust
         | None \<Rightarrow> by_trust)"

definition get_limits :: "SecurityPolicy \<Rightarrow> string \<Rightarrow> TrustLevel \<Rightarrow> SandboxLimits" where
  "get_limits P tool_id trust =
     (let by_trust = (case limits_by_trust P trust of Some l \<Rightarrow> l | None \<Rightarrow> limits_default)
      in case tool_policies P tool_id of
           Some tp \<Rightarrow> (case tp_limits tp of Some l \<Rightarrow> l | None \<Rightarrow> by_trust)
         | None \<Rightarrow> by_trust)"

definition requires_audit :: "SecurityPolicy \<Rightarrow> string \<Rightarrow> TrustLevel \<Rightarrow> bool" where
  "requires_audit P tool_id trust =
     (let by_trust = (case trust of System \<Rightarrow> True | Trusted \<Rightarrow> True | _ \<Rightarrow> False)
      in case tool_policies P tool_id of
           Some tp \<Rightarrow> if audit_required tp then True else by_trust
         | None \<Rightarrow> by_trust)"

section \<open>Lemmas\<close>

text \<open>The membership query and the set query agree.\<close>

lemma allowed_runtimes_iff:
  "rt \<in> allowed_runtimes P tool_id trust \<longleftrightarrow> is_runtime_allowed P tool_id trust rt"
  by (auto simp: allowed_runtimes_def is_runtime_allowed_def Let_def split: option.splits)

lemma process_allowed: "is_runtime_allowed P tool_id trust Process \<Longrightarrow> allow_process_runtime P"
  by (simp add: is_runtime_allowed_def split: if_splits)

lemma security_rank_inject: "security_rank a = security_rank b \<Longrightarrow> a = b"
  by (cases a; cases b) simp_all

lemma requires_audit_trust: "Trusted \<le> trust \<Longrightarrow> requires_audit P tool_id trust"
  by (cases trust)
    (simp_all add: requires_audit_def Let_def less_eq_TrustLevel_def split: option.splits)

text \<open>The default limits grow with trust.\<close>

definition limits_le :: "SandboxLimits \<Rightarrow> SandboxLimits \<Rightarrow> bool" where
  "limits_le a b \<longleftrightarrow>
     (\<forall>d'. max_duration b = Some d' \<longrightarrow> (\<exists>d. max_duration a = Some d \<and> dur_secs d \<le> dur_secs d'))
     \<and> (\<forall>m'. max_memory_bytes b = Some m' \<longrightarrow> (\<exists>m. max_memory_bytes a = Some m \<and> m \<le> m'))
     \<and> (\<forall>t'. max_cpu_time_ms b = Some t' \<longrightarrow> (\<exists>t. max_cpu_time_ms a = Some t \<and> t \<le> t'))"

lemma default_limits_grow:
  assumes "t \<le> t'"
  shows "limits_le (get_limits SecurityPolicy_default tool t) (get_limits SecurityPolicy_default tool t')"
  using assms
  by (cases t; cases t')
    (simp_all add: less_eq_TrustLevel_def get_limits_def SecurityPolicy_default_def
      limits_by_trust_default_def limits_le_def limits_strict_def limits_default_def
      limits_permissive_def duration_from_secs_def)

lemma default_policy_runtimes:
  "allowed_runtimes SecurityPolicy_default tool trust
     = (if trust = Untrusted then {Wasm} else {Wasm, V8})"
  by (cases trust)
    (auto simp: allowed_runtimes_def SecurityPolicy_default_def allowed_by_trust_default_def)

end
