(* ===== verification/Selector.thy ===== *)
theory Selector
  imports Sandbox_Policy
begin

text \<open>
  Runtime selection (\<open>acdp-sandbox/src/selector.rs\<close>): the runtimes that the policy allows and
  the build provides are the candidates, and the tool's requirement picks one of them or is
  overridden by the most secure candidate. The iteration order of the candidate
  \<open>HashSet\<close> is the argument \<open>order\<close>, any list of all three runtimes; the compiled-in
  features are the arguments of \<open>RuntimeSelector_new\<close>.
\<close>

section \<open>Data\<close>

record ToolDefinition =
  tool_id :: string
  tool_name :: string
  trust_level :: TrustLevel
  runtime :: RuntimeRequirement
  description :: string

record RuntimeDecision =
  runtime_type :: RuntimeType
  dec_limits :: SandboxLimits
  is_override :: bool
  reason :: string
  dec_audit_required :: bool

datatype SelectionError =
    NoCompatibleRuntime string
  | RuntimeDenied RuntimeType string
  | UnsupportedLanguage Language
  | RuntimeCreation string

record RuntimeSelector =
  policy :: SecurityPolicy
  available_runtimes :: "RuntimeType set"

definition RuntimeSelector_new :: "bool \<Rightarrow> bool \<Rightarrow> bool \<Rightarrow> SecurityPolicy \<Rightarrow> RuntimeSelector" where
  "RuntimeSelector_new process_feature v8_feature wasm_feature P =
     (let available = {};
          available = (if process_feature then insert Process available else available);
          available = (if v8_feature then insert V8 available else available);
          available = (if wasm_feature then insert Wasm available else available)
      in \<lparr>policy = P, available_runtimes = available\<rparr>)"

definition with_policy :: "bool \<Rightarrow> bool \<Rightarrow> bool \<Rightarrow> SecurityPolicy \<Rightarrow> RuntimeSelector" where
  "with_policy process_feature v8_feature wasm_feature P =
     (let available = {};
          available = (if process_feature then insert Process available else available);
          available = (if v8_feature then insert V8 available else available);
          available = (if wasm_feature then insert Wasm available else available)
      in \<lparr>policy = P, available_runtimes = available\<rparr>)"

text \<open>\<open>Debug\<close> output.\<close>

primrec debug_runtime :: "RuntimeType \<Rightarrow> string" where
  "debug_runtime Process = ''Process''"
| "debug_runtime V8 = ''V8''"
| "debug_runtime Wasm = ''Wasm''"

primrec debug_language :: "Language \<Rightarrow> string" where
  "debug_language JavaScript = ''JavaScript''"
| "debug_language Python = ''Python''"
| "debug_language WasmLang = ''Wasm''"
| "debug_language Shell = ''Shell''"

definition debug_runtimes :: "RuntimeType list \<Rightarrow> string" where
  "debug_runtimes rts = ''['' @ join_strings '', '' (map debug_runtime rts) @ '']''"

primrec selection_error_display :: "SelectionError \<Rightarrow> string" where
  "selection_error_display (NoCompatibleRuntime t) =
     ''No compatible runtime available for tool '' @ [CHR 0x27] @ t @ [CHR 0x27]"
| "selection_error_display (RuntimeDenied rt t) =
     ''Runtime '' @ [CHR 0x27] @ debug_runtime rt @ [CHR 0x27] @ '' denied by policy for tool ''
       @ [CHR 0x27] @ t @ [CHR 0x27]"
| "selection_error_display (UnsupportedLanguage l) =
     ''Language '' @ [CHR 0x27] @ debug_language l @ [CHR 0x27]
       @ '' not supported by available runtimes''"
| "selection_error_display (RuntimeCreation s) = ''Failed to create runtime: '' @ s"

section \<open>Operations\<close>

fun supports_language :: "RuntimeType \<Rightarrow> Language \<Rightarrow> bool" where
  "supports_language V8 JavaScript = True"
| "supports_language Wasm WasmLang = True"
| "supports_language Wasm Python = True"
| "supports_language Process l = True"
| "supports_language rt l = False"

text \<open>\<open>candidates.sort_by_key(security_rank)\<close>, and \<open>Iterator::min_by_key\<close>, which returns the
  first minimum.\<close>

definition by_security :: "RuntimeType list \<Rightarrow> RuntimeType list" where
  "by_security rts = sort_key security_rank rts"

fun min_by_security :: "RuntimeType list \<Rightarrow> RuntimeType option" where
  "min_by_security [] = None"
| "min_by_security (rt # rts) = (case min_by_security rts of
     None \<Rightarrow> Some rt
   | Some m \<Rightarrow> if security_rank rt \<le> security_rank m then Some rt else Some m)"

text \<open>The choice for a non-empty list of candidates: runtime, override flag and reason.
  \<open>acceptable\<close> non-empty makes the \<open>unwrap\<close> of its minimum safe.\<close>

definition choose_runtime ::
  "RuntimeRequirement \<Rightarrow> RuntimeType list \<Rightarrow> SelectionError + (RuntimeType \<times> bool \<times> string)" where
  "choose_runtime req candidates = (case req of
     Specific rt \<Rightarrow>
       if rt \<in> set candidates then
         Inr (rt, False, ''Tool requested '' @ debug_runtime rt @ '' and it'' @ [CHR 0x27] @ ''s allowed'')
       else
         (let candidates = by_security candidates
          in Inr (candidates ! 0, True, ''Tool requested '' @ debug_runtime rt
                 @ '' but policy only allows '' @ debug_runtimes candidates))
   | Auto language preferred \<Rightarrow>
       (let candidates = filter (\<lambda>rt. supports_language rt language) candidates in
        if candidates = [] then Inl (UnsupportedLanguage language)
        else case preferred of
            Some pref \<Rightarrow>
              if pref \<in> set candidates then
                Inr (pref, False, ''Auto-selected preferred runtime '' @ debug_runtime pref)
              else
                (let chosen = by_security candidates ! 0
                 in Inr (chosen, True, ''Preferred '' @ debug_runtime pref @ '' not available, selected ''
                        @ debug_runtime chosen @ '' for '' @ debug_language language))
          | None \<Rightarrow>
              (let chosen = by_security candidates ! 0
               in Inr (chosen, False, ''Auto-selected most secure runtime '' @ debug_runtime chosen
                      @ '' for '' @ debug_language language)))
   | AnyOf runtimes \<Rightarrow>
       (let acceptable = filter (\<lambda>rt. rt \<in> set candidates) runtimes in
        if acceptable = [] then
          (let fallback = by_security candidates ! 0
           in Inr (fallback, True, ''None of requested runtimes '' @ debug_runtimes runtimes
                  @ '' allowed, fallback to '' @ debug_runtime fallback))
        else
          (let chosen = the (min_by_security acceptable)
           in Inr (chosen, False, ''Selected most secure from acceptable runtimes: ''
                  @ debug_runtime chosen))))"

definition select_runtime ::
  "RuntimeType list \<Rightarrow> RuntimeSelector \<Rightarrow> ToolDefinition \<Rightarrow> SelectionError + RuntimeDecision" where
  "select_runtime order S t =
     (let policy_allowed = allowed_runtimes (policy S) (tool_id t) (trust_level t);
          candidates = filter (\<lambda>rt. rt \<in> policy_allowed \<and> rt \<in> available_runtimes S) order
      in if candidates = [] then Inl (NoCompatibleRuntime (tool_id t))
         else and_then (choose_runtime (runtime t) candidates) (\<lambda>(chosen, overridden, why).
           Inr \<lparr>runtime_type = chosen,
                dec_limits = get_limits (policy S) (tool_id t) (trust_level t),
                is_override = overridden, reason = why,
                dec_audit_required = requires_audit (policy S) (tool_id t) (trust_level t)\<rparr>))"

text \<open>The constructors of the runtimes are parameters; the WASM one may fail.\<close>

definition create_runtime ::
  "(RuntimeType \<Rightarrow> bool) \<Rightarrow> 'r \<Rightarrow> (SandboxLimits \<Rightarrow> 'r) \<Rightarrow> (SandboxLimits \<Rightarrow> string + 'r) \<Rightarrow> RuntimeDecision
     \<Rightarrow> SelectionError + 'r" where
  "create_runtime compiled process_new v8_with wasm_with d = (case runtime_type d of
     Process \<Rightarrow> if compiled Process then Inr process_new
                else Inl (RuntimeCreation ''Process runtime not compiled in'')
   | V8 \<Rightarrow> if compiled V8 then Inr (v8_with (dec_limits d))
           else Inl (RuntimeCreation ''V8 runtime not compiled in'')
   | Wasm \<Rightarrow> if compiled Wasm then map_err RuntimeCreation (wasm_with (dec_limits d))
             else Inl (RuntimeCreation ''WASM runtime not compiled in''))"

section \<open>Lemmas\<close>

lemma by_security_head:
  assumes "cs \<noteq> []"
  shows "by_security cs ! 0 \<in> set cs"
    and "\<forall>rt\<in>set cs. security_rank (by_security cs ! 0) \<le> security_rank rt"
proof -
  obtain c rest where c: "by_security cs = c # rest"
    using assms by (cases "by_security cs") (simp_all add: by_security_def, metis length_sort length_0_conv)
  then have "sorted (map security_rank (c # rest))" and s: "set cs = set (c # rest)"
    using sorted_sort_key [of security_rank cs] set_sort [of security_rank cs]
    by (simp_all add: by_security_def)
  then show "by_security cs ! 0 \<in> set cs"
    "\<forall>rt\<in>set cs. security_rank (by_security cs ! 0) \<le> security_rank rt"
    by (auto simp: c)
qed

lemma min_by_security_Some:
  "rts \<noteq> [] \<Longrightarrow> \<exists>m. min_by_security rts = Some m \<and> m \<in> set rts
     \<and> (\<forall>rt\<in>set rts. security_rank m \<le> security_rank rt)"
proof (induction rts rule: list_nonempty_induct)
  case (single x)
  then show ?case by simp
next
  case (cons x xs)
  then obtain m where m: "min_by_security xs = Some m" "m \<in> set xs"
    "\<forall>rt\<in>set xs. security_rank m \<le> security_rank rt" by blast
  then show ?case by (auto intro: order_trans)
qed

lemma most_secure_unique:
  assumes "set cs = set cs'" "cs \<noteq> []"
  shows "by_security cs ! 0 = by_security cs' ! 0"
proof -
  have "cs' \<noteq> []" using assms by auto
  with by_security_head [OF assms(2)] by_security_head [of cs'] assms(1)
  show ?thesis by (intro security_rank_inject order_antisym) auto
qed

lemma by_security_unique:
  assumes "set cs = set cs'" "distinct cs" "distinct cs'"
  shows "by_security cs = by_security cs'"
proof (rule map_sorted_distinct_set_unique [where f = security_rank])
  show "inj_on security_rank (set (by_security cs) \<union> set (by_security cs'))"
    by (rule inj_onI) (rule security_rank_inject)
  then show "distinct (map security_rank (by_security cs))" "distinct (map security_rank (by_security cs'))"
    using assms by (simp_all add: by_security_def distinct_map inj_on_Un)
qed (use assms in \<open>simp_all add: by_security_def\<close>)

text \<open>A runtime the tool may get: allowed by the policy and compiled in.\<close>

definition usable :: "RuntimeSelector \<Rightarrow> ToolDefinition \<Rightarrow> RuntimeType \<Rightarrow> bool" where
  "usable S t rt \<longleftrightarrow> is_runtime_allowed (policy S) (tool_id t) (trust_level t) rt
     \<and> rt \<in> available_runtimes S"

definition candidates_of :: "RuntimeType list \<Rightarrow> RuntimeSelector \<Rightarrow> ToolDefinition \<Rightarrow> RuntimeType list" where
  "candidates_of order S t = filter (usable S t) order"

lemma select_runtime_candidates:
  "select_runtime order S t =
     (if candidates_of order S t = [] then Inl (NoCompatibleRuntime (tool_id t))
      else and_then (choose_runtime (runtime t) (candidates_of order S t)) (\<lambda>(chosen, overridden, why).
        Inr \<lparr>runtime_type = chosen,
             dec_limits = get_limits (policy S) (tool_id t) (trust_level t),
             is_override = overridden, reason = why,
             dec_audit_required = requires_audit (policy S) (tool_id t) (trust_level t)\<rparr>))"
  by (simp add: select_runtime_def candidates_of_def usable_def [abs_def] allowed_runtimes_iff Let_def)

lemma set_candidates: "set order = UNIV \<Longrightarrow> set (candidates_of order S t) = {rt. usable S t rt}"
  by (auto simp: candidates_of_def)

text \<open>What the choice satisfies: it is a candidate that meets the requirement, or, when none
  does, the most secure one that the requirement leaves.\<close>

definition meets :: "RuntimeRequirement \<Rightarrow> RuntimeType \<Rightarrow> bool" where
  "meets req rt = (case req of
     Specific r \<Rightarrow> rt = r
   | Auto l pref \<Rightarrow> supports_language rt l \<and> (case pref of Some p \<Rightarrow> rt = p | None \<Rightarrow> True)
   | AnyOf rts \<Rightarrow> rt \<in> set rts)"

definition eligible :: "RuntimeRequirement \<Rightarrow> RuntimeType \<Rightarrow> bool" where
  "eligible req rt = (case req of Auto l pref \<Rightarrow> supports_language rt l | _ \<Rightarrow> True)"

lemma choose_runtime_Inl:
  assumes "cs \<noteq> []"
  shows "choose_runtime req cs = Inl e \<longleftrightarrow>
    (\<exists>l pref. req = Auto l pref \<and> e = UnsupportedLanguage l \<and> (\<forall>rt\<in>set cs. \<not> supports_language rt l))"
  by (auto simp: choose_runtime_def Let_def filter_empty_conv split: RuntimeRequirement.splits
      option.splits if_splits)

lemma choose_runtime_Inr:
  assumes "cs \<noteq> []" and "choose_runtime req cs = Inr (rt, over, why)"
  shows "rt \<in> set cs \<and> eligible req rt"
    and "over \<longleftrightarrow> (\<forall>c\<in>set cs. \<not> meets req c)" and "\<not> over \<Longrightarrow> meets req rt"
    and "over \<or> (\<forall>r. req \<noteq> Specific r) \<and> (\<forall>l p. req \<noteq> Auto l (Some p)) \<Longrightarrow>
      \<forall>c\<in>set cs. eligible req c \<and> (over \<or> meets req c) \<longrightarrow> security_rank rt \<le> security_rank c"
proof -
  let ?L = "\<lambda>l. filter (\<lambda>rt. supports_language rt l) cs"
  let ?A = "\<lambda>rts. filter (\<lambda>rt. rt \<in> set cs) rts"
  note head = by_security_head [OF assms(1)]
  have lang: "?L l \<noteq> [] \<Longrightarrow> by_security (?L l) ! 0 \<in> set cs \<and> supports_language (by_security (?L l) ! 0) l
      \<and> (\<forall>c\<in>set cs. supports_language c l \<longrightarrow> security_rank (by_security (?L l) ! 0) \<le> security_rank c)" for l
    using by_security_head [of "?L l"] by auto
  have acc: "?A rts \<noteq> [] \<Longrightarrow> the (min_by_security (?A rts)) \<in> set cs \<inter> set rts
      \<and> (\<forall>c\<in>set cs \<inter> set rts. security_rank (the (min_by_security (?A rts))) \<le> security_rank c)" for rts
    using min_by_security_Some [of "?A rts"] by auto
  have none: "?A rts = [] \<longleftrightarrow> (\<forall>c\<in>set cs. c \<notin> set rts)" for rts by (auto simp: filter_empty_conv)
  have "(rt \<in> set cs \<and> eligible req rt) \<and> (over \<longleftrightarrow> (\<forall>c\<in>set cs. \<not> meets req c))
      \<and> (\<not> over \<longrightarrow> meets req rt)
      \<and> (over \<or> (\<forall>r. req \<noteq> Specific r) \<and> (\<forall>l p. req \<noteq> Auto l (Some p)) \<longrightarrow>
      (\<forall>c\<in>set cs. eligible req c \<and> (over \<or> meets req c) \<longrightarrow> security_rank rt \<le> security_rank c))"
  proof (cases req)
    case (Specific r)
    with assms(2) head show ?thesis
      by (auto simp: choose_runtime_def meets_def eligible_def Let_def split: if_splits)
  next
    case (Auto l pref)
    with assms(2) lang [of l] show ?thesis
      by (cases pref) (auto simp: choose_runtime_def meets_def eligible_def Let_def split: if_splits)
  next
    case (AnyOf rts)
    with assms(2) head acc [of rts] none [of rts] show ?thesis
      by (auto simp: choose_runtime_def meets_def eligible_def Let_def split: if_splits)
  qed
  then show "rt \<in> set cs \<and> eligible req rt" "over \<longleftrightarrow> (\<forall>c\<in>set cs. \<not> meets req c)"
    "\<not> over \<Longrightarrow> meets req rt"
    "over \<or> (\<forall>r. req \<noteq> Specific r) \<and> (\<forall>l p. req \<noteq> Auto l (Some p)) \<Longrightarrow>
      \<forall>c\<in>set cs. eligible req c \<and> (over \<or> meets req c) \<longrightarrow> security_rank rt \<le> security_rank c"
    by blast+
qed

lemma choose_runtime_order:
  assumes "set cs = set cs'" "distinct cs" "distinct cs'" "cs \<noteq> []"
  shows "choose_runtime req cs = choose_runtime req cs'"
proof -
  let ?L = "\<lambda>cs l. filter (\<lambda>rt. supports_language rt l) cs"
  have "by_security (?L cs l) = by_security (?L cs' l)" "?L cs l = [] \<longleftrightarrow> ?L cs' l = []" for l
    using assms by (auto intro!: by_security_unique simp: filter_empty_conv)
  moreover have "by_security cs = by_security cs'" by (rule by_security_unique [OF assms(1-3)])
  ultimately show ?thesis using assms(1)
    by (auto simp: choose_runtime_def Let_def cong: if_cong
        split: RuntimeRequirement.splits option.splits)
qed

section \<open>Properties\<close>

text \<open>C16 (selection respects the policy). A selected runtime is allowed by the policy for this
  tool and trust level and is compiled in, so the bare process runtime is selected only when
  it is globally enabled; it supports the language of an automatic requirement; the limits
  and the audit flag are the policy's. The override flag is set exactly when no usable runtime
  meets the tool's request, and then no usable runtime of the language is more secure.\<close>

theorem selection_respects_policy:
  assumes "set order = UNIV" and "select_runtime order S t = Inr d"
  shows "(usable S t (runtime_type d) \<and> eligible (runtime t) (runtime_type d))
    \<and> (runtime_type d = Process \<longrightarrow> allow_process_runtime (policy S))
    \<and> (is_override d \<longleftrightarrow> (\<forall>rt. usable S t rt \<longrightarrow> \<not> meets (runtime t) rt))
    \<and> (\<not> is_override d \<longrightarrow> meets (runtime t) (runtime_type d))
    \<and> (is_override d \<longrightarrow> usable S t rt \<longrightarrow> eligible (runtime t) rt \<longrightarrow>
      security_rank (runtime_type d) \<le> security_rank rt)
    \<and> (dec_limits d = get_limits (policy S) (tool_id t) (trust_level t)
      \<and> dec_audit_required d = requires_audit (policy S) (tool_id t) (trust_level t))"
proof -
  let ?cs = "candidates_of order S t"
  note cs = set_candidates [OF assms(1), of S t]
  from assms(2) obtain chosen over why where ne: "?cs \<noteq> []"
    and ch: "choose_runtime (runtime t) ?cs = Inr (chosen, over, why)"
    and d: "d = \<lparr>runtime_type = chosen, dec_limits = get_limits (policy S) (tool_id t) (trust_level t),
      is_override = over, reason = why,
      dec_audit_required = requires_audit (policy S) (tool_id t) (trust_level t)\<rparr>"
    by (auto simp: select_runtime_candidates res_simps split: if_splits)
  note C = choose_runtime_Inr [OF ne ch, unfolded cs]
  have u: "usable S t (runtime_type d) \<and> eligible (runtime t) (runtime_type d)" using C(1) d by simp
  moreover have "runtime_type d = Process \<longrightarrow> allow_process_runtime (policy S)"
    using u process_allowed [of "policy S" "tool_id t" "trust_level t"] by (auto simp: usable_def)
  moreover have "is_override d \<longleftrightarrow> (\<forall>rt. usable S t rt \<longrightarrow> \<not> meets (runtime t) rt)"
    "\<not> is_override d \<longrightarrow> meets (runtime t) (runtime_type d)"
    "is_override d \<longrightarrow> usable S t rt \<longrightarrow> eligible (runtime t) rt \<longrightarrow>
      security_rank (runtime_type d) \<le> security_rank rt"
    using C(2-4) d by auto
  moreover have "dec_limits d = get_limits (policy S) (tool_id t) (trust_level t)
      \<and> dec_audit_required d = requires_audit (policy S) (tool_id t) (trust_level t)"
    by (simp add: d)
  ultimately show ?thesis by blast
qed

definition sample_tool :: ToolDefinition where
  "sample_tool = \<lparr>tool_id = ''bad_tool'', tool_name = ''Bad Tool'', trust_level = Untrusted,
     runtime = Specific Process, description = []\<rparr>"

definition sample_selector :: RuntimeSelector where
  "sample_selector = RuntimeSelector_new True True True SecurityPolicy_default"

lemma sample_usable: "usable sample_selector sample_tool rt \<longleftrightarrow> rt = Wasm"
  by (auto simp: usable_def allowed_runtimes_iff [symmetric] sample_selector_def sample_tool_def
      RuntimeSelector_new_def default_policy_runtimes)

lemma all_runtimes: "set [Process, V8, Wasm] = UNIV"
  using RuntimeType.exhaust by auto

lemma sample_selected:
  "\<exists>d. select_runtime [Process, V8, Wasm] sample_selector sample_tool = Inr d"
proof -
  have "runtime sample_tool = Specific Process" by (simp add: sample_tool_def)
  then show ?thesis
    by (simp add: select_runtime_candidates candidates_of_def sample_usable choose_runtime_def Let_def)
qed

theorem selection_respects_policy_witness:
  "\<exists>d. select_runtime [Process, V8, Wasm] sample_selector sample_tool = Inr d
     \<and> runtime_type d = Wasm \<and> is_override d"
proof -
  obtain d where d: "select_runtime [Process, V8, Wasm] sample_selector sample_tool = Inr d"
    using sample_selected by blast
  note P = selection_respects_policy [OF all_runtimes d]
  have "runtime sample_tool = Specific Process" by (simp add: sample_tool_def)
  with P d show ?thesis by (auto simp: sample_usable meets_def)
qed

text \<open>Selection fails only for two reasons, whatever the hash order. It fails with
  \<open>NoCompatibleRuntime\<close> exactly when no runtime is usable, and with
  \<open>UnsupportedLanguage\<close> exactly when some are but none supports the language; in every other
  case a decision is made. The decision does not depend on the iteration order of the
  candidate set.\<close>

theorem selection_failures:
  assumes "set order = UNIV" and "distinct order"
  shows "(select_runtime order S t = Inl e \<longleftrightarrow>
      (e = NoCompatibleRuntime (tool_id t) \<and> (\<forall>rt. \<not> usable S t rt))
      \<or> (\<exists>l pref. runtime t = Auto l pref \<and> e = UnsupportedLanguage l \<and> (\<exists>rt. usable S t rt)
           \<and> (\<forall>rt. usable S t rt \<longrightarrow> \<not> supports_language rt l)))
    \<and> (set order' = UNIV \<longrightarrow> distinct order' \<longrightarrow> select_runtime order' S t = select_runtime order S t)"
proof (rule conjI; (intro impI)?)
  let ?cs = "candidates_of order S t"
  note cs = set_candidates [OF assms(1), of S t]
  have ne: "?cs = [] \<longleftrightarrow> (\<forall>rt. \<not> usable S t rt)" using cs by (metis empty_Collect_eq set_empty)
  show "select_runtime order S t = Inl e \<longleftrightarrow>
      (e = NoCompatibleRuntime (tool_id t) \<and> (\<forall>rt. \<not> usable S t rt))
      \<or> (\<exists>l pref. runtime t = Auto l pref \<and> e = UnsupportedLanguage l \<and> (\<exists>rt. usable S t rt)
           \<and> (\<forall>rt. usable S t rt \<longrightarrow> \<not> supports_language rt l))"
  proof (cases "?cs = []")
    case True
    with ne show ?thesis by (auto simp: select_runtime_candidates)
  next
    case False
    with ne choose_runtime_Inl [OF False, unfolded cs] show ?thesis
      by (auto simp: select_runtime_candidates res_simps)
  qed
  assume o': "set order' = UNIV" "distinct order'"
  have "choose_runtime (runtime t) (candidates_of order' S t) = choose_runtime (runtime t) ?cs"
    if "?cs \<noteq> []"
    using that cs set_candidates [OF o'(1), of S t] assms(2) o'(2)
    by (intro choose_runtime_order [symmetric]) (auto simp: candidates_of_def)
  moreover have "candidates_of order' S t = [] \<longleftrightarrow> ?cs = []"
    using cs set_candidates [OF o'(1), of S t] by (metis set_empty)
  ultimately show "select_runtime order' S t = select_runtime order S t"
    by (auto simp: select_runtime_candidates)
qed

theorem selection_failures_witness:
  "select_runtime [Process, V8, Wasm] sample_selector (sample_tool\<lparr>runtime := Auto JavaScript None\<rparr>)
     = Inl (UnsupportedLanguage JavaScript)"
proof -
  let ?t = "sample_tool\<lparr>runtime := Auto JavaScript None\<rparr>"
  have u: "usable sample_selector ?t rt \<longleftrightarrow> rt = Wasm" for rt
    using sample_usable [of rt] by (simp add: usable_def)
  show ?thesis
    using selection_failures [OF all_runtimes, THEN conjunct1, of sample_selector ?t "UnsupportedLanguage JavaScript"]
    by (simp add: u)
qed

end
