(* ===== verification/Mcp_Error.thy ===== *)
theory Mcp_Error
  imports Acdp_Prelude
begin

text \<open>
  The error types of the MCP core (\<open>acdp-core/src/error.rs\<close>): transport, protocol,
  validation, authentication and configuration errors, the sum \<open>McpError\<close> of them, their
  \<open>Display\<close> texts, the retry classes and the categories. Errors of other crates
  (\<open>serde_json::Error\<close>, \<open>io::Error\<close>) are kept as their \<open>Display\<close> text. The
  \<open>Debug\<close> forms of durations and of string vectors, which some texts embed, are the
  fields of the parameter record \<open>debug_fmt\<close>.
\<close>

section \<open>Durations\<close>

text \<open>A \<open>std::time::Duration\<close> is a number of nanoseconds, at most \<open>Duration::MAX\<close>.
  Multiplication by a \<open>u32\<close> panics on overflow.\<close>

type_synonym duration = nat

definition duration_max :: duration where
  "duration_max = 2 ^ 64 * 1000000000 - 1"

definition secs :: "nat \<Rightarrow> duration" where
  "secs n = n * 1000000000"

definition millis :: "nat \<Rightarrow> duration" where
  "millis n = n * 1000000"

definition as_millis :: "duration \<Rightarrow> nat" where
  "as_millis d = d div 1000000"

definition as_secs :: "duration \<Rightarrow> nat" where
  "as_secs d = d div 1000000000"

definition duration_mul :: "duration \<Rightarrow> nat \<Rightarrow> duration rust" where
  "duration_mul d k = (if d * k \<le> duration_max then Done (d * k) else Panic)"

lemma as_millis_secs [simp]: "as_millis (secs n) = n * 1000"
  by (simp add: as_millis_def secs_def)

section \<open>Error types\<close>

datatype TransportError =
    ConnectionFailed string string
  | ConnectionLost string string
  | SendFailed string string
  | ReceiveFailed string string
  | InvalidConfig string string
  | ProcessError string
  | HttpError u16 string
  | SseError string
  | StreamingError string
  | NotConnected string string
  | NetworkError string string
  | SerializationError string string
  | TimeoutError string string
  | DisconnectedError string string
  | ConnectionError string string

datatype ProtocolError =
    InvalidJsonRpc string
  | UnsupportedVersion string "string list"
  | MessageIdMismatch string string
  | UnexpectedMessageType string string
  | MissingField string string
  | InvalidMethod string
  | ServerError int string
  | StateViolation string
  | InitializationFailed string
  | NotInitialized string
  | InvalidResponse string
  | ProtocolInvalidConfig string
  | ProtocolTimeoutError string duration
  | RequestFailed string
  | RequestTimeout duration
  | RequestBlocked string
  | ResponseBlocked string

datatype ValidationError =
    SchemaValidation string string
  | UnsupportedCapability string
  | InvalidToolParameter string string string
  | InvalidResource string string
  | InvalidPrompt string string
  | ConstraintViolation string string

datatype AuthError =
    MissingCredentials string
  | InvalidCredentials string string
  | Expired string
  | AccessDenied string
  | OAuth string string
  | Jwt string

datatype ConfigError =
    FileNotFound string
  | InvalidFormat string string
  | MissingParameter string
  | InvalidValue string string string
  | Conflict string

datatype McpError =
    Transport TransportError
  | Protocol ProtocolError
  | Validation ValidationError
  | Auth AuthError
  | Timeout string u64
  | Config ConfigError
  | Serialization string
  | Io string
  | Internal string

type_synonym 'a mcp_result = "McpError + 'a"

section \<open>Texts\<close>

record debug_fmt =
  debug_duration :: "duration \<Rightarrow> string"
  debug_strings :: "string list \<Rightarrow> string"

definition quoted :: "string \<Rightarrow> string" where
  "quoted s = [CHR 0x27] @ s @ [CHR 0x27]"

primrec transport_error_display :: "TransportError \<Rightarrow> string" where
  "transport_error_display (ConnectionFailed t r) = ''Failed to connect to '' @ t @ '' server: '' @ r"
| "transport_error_display (ConnectionLost t r) = ''Connection lost to '' @ t @ '' server: '' @ r"
| "transport_error_display (SendFailed t r) = ''Failed to send message via '' @ t @ '': '' @ r"
| "transport_error_display (ReceiveFailed t r) = ''Failed to receive message via '' @ t @ '': '' @ r"
| "transport_error_display (InvalidConfig t r) = ''Invalid '' @ t @ '' configuration: '' @ r"
| "transport_error_display (ProcessError r) = ''Process error: '' @ r"
| "transport_error_display (HttpError c r) = ''HTTP error: '' @ show_nat (unat c) @ '' - '' @ r"
| "transport_error_display (SseError r) = ''SSE error: '' @ r"
| "transport_error_display (StreamingError r) = ''Streaming error: '' @ r"
| "transport_error_display (NotConnected t r) = ''Transport not connected ('' @ t @ ''): '' @ r"
| "transport_error_display (NetworkError t r) = ''Network error ('' @ t @ ''): '' @ r"
| "transport_error_display (SerializationError t r) = ''Serialization error ('' @ t @ ''): '' @ r"
| "transport_error_display (TimeoutError t r) = ''Operation timed out ('' @ t @ ''): '' @ r"
| "transport_error_display (DisconnectedError t r) = ''Transport disconnected ('' @ t @ ''): '' @ r"
| "transport_error_display (ConnectionError t r) = ''Connection error ('' @ t @ ''): '' @ r"

primrec protocol_error_display :: "debug_fmt \<Rightarrow> ProtocolError \<Rightarrow> string" where
  "protocol_error_display D (InvalidJsonRpc r) = ''Invalid JSON-RPC message: '' @ r"
| "protocol_error_display D (UnsupportedVersion v vs) =
     ''Unsupported protocol version: '' @ v @ '', supported versions: '' @ debug_strings D vs"
| "protocol_error_display D (MessageIdMismatch e a) =
     ''Message ID mismatch: expected '' @ e @ '', got '' @ a"
| "protocol_error_display D (UnexpectedMessageType e a) =
     ''Unexpected message type: expected '' @ e @ '', got '' @ a"
| "protocol_error_display D (MissingField f m) =
     ''Missing required field '' @ quoted f @ '' in '' @ m"
| "protocol_error_display D (InvalidMethod m) = ''Invalid method name: '' @ m"
| "protocol_error_display D (ServerError c m) = ''Server error '' @ show_int c @ '': '' @ m"
| "protocol_error_display D (StateViolation r) = ''Protocol state violation: '' @ r"
| "protocol_error_display D (InitializationFailed r) = ''Protocol initialization failed: '' @ r"
| "protocol_error_display D (NotInitialized r) = ''Protocol not initialized: '' @ r"
| "protocol_error_display D (InvalidResponse r) = ''Invalid response: '' @ r"
| "protocol_error_display D (ProtocolInvalidConfig r) = ''Protocol configuration error: '' @ r"
| "protocol_error_display D (ProtocolTimeoutError op t) =
     ''Protocol operation '' @ quoted op @ '' timed out after '' @ debug_duration D t"
| "protocol_error_display D (RequestFailed r) = ''Request failed: '' @ r"
| "protocol_error_display D (RequestTimeout t) = ''Request timed out after '' @ debug_duration D t"
| "protocol_error_display D (RequestBlocked r) = ''Request blocked by interceptor: '' @ r"
| "protocol_error_display D (ResponseBlocked r) = ''Response blocked by interceptor: '' @ r"

primrec validation_error_display :: "ValidationError \<Rightarrow> string" where
  "validation_error_display (SchemaValidation t r) = ''Schema validation failed for '' @ t @ '': '' @ r"
| "validation_error_display (UnsupportedCapability c) =
     ''Capability '' @ quoted c @ '' not supported by server''"
| "validation_error_display (InvalidToolParameter t p r) =
     ''Invalid parameter '' @ quoted p @ '' for tool '' @ quoted t @ '': '' @ r"
| "validation_error_display (InvalidResource s r) = ''Invalid resource '' @ quoted s @ '': '' @ r"
| "validation_error_display (InvalidPrompt s r) = ''Invalid prompt '' @ quoted s @ '': '' @ r"
| "validation_error_display (ConstraintViolation c r) = ''Constraint violation: '' @ c @ '' - '' @ r"

primrec auth_error_display :: "AuthError \<Rightarrow> string" where
  "auth_error_display (MissingCredentials t) = ''Missing authentication credentials for '' @ t"
| "auth_error_display (InvalidCredentials t r) = ''Invalid '' @ t @ '' credentials: '' @ r"
| "auth_error_display (Expired t) = ''Authentication expired for '' @ t"
| "auth_error_display (AccessDenied r) = ''Access denied: '' @ r"
| "auth_error_display (OAuth c d) = ''OAuth error: '' @ c @ '' - '' @ d"
| "auth_error_display (Jwt r) = ''JWT error: '' @ r"

primrec config_error_display :: "ConfigError \<Rightarrow> string" where
  "config_error_display (FileNotFound p) = ''Configuration file not found: '' @ p"
| "config_error_display (InvalidFormat p r) = ''Invalid configuration format in '' @ p @ '': '' @ r"
| "config_error_display (MissingParameter p) = ''Missing required configuration parameter: '' @ p"
| "config_error_display (InvalidValue p v r) =
     ''Invalid value for parameter '' @ quoted p @ '': '' @ v @ '' - '' @ r"
| "config_error_display (Conflict r) = ''Conflicting configuration: '' @ r"

primrec mcp_error_display :: "debug_fmt \<Rightarrow> McpError \<Rightarrow> string" where
  "mcp_error_display D (Transport e) = ''Transport error: '' @ transport_error_display e"
| "mcp_error_display D (Protocol e) = ''Protocol error: '' @ protocol_error_display D e"
| "mcp_error_display D (Validation e) = ''Validation error: '' @ validation_error_display e"
| "mcp_error_display D (Auth e) = ''Authentication error: '' @ auth_error_display e"
| "mcp_error_display D (Timeout op ms) =
     ''Operation timed out after '' @ show_nat (unat ms) @ ''ms: '' @ op"
| "mcp_error_display D (Config e) = ''Configuration error: '' @ config_error_display e"
| "mcp_error_display D (Serialization s) = ''Serialization error: '' @ s"
| "mcp_error_display D (Io s) = ''IO error: '' @ s"
| "mcp_error_display D (Internal m) = ''Internal error: '' @ m"

section \<open>Operations\<close>

definition mcp_internal :: "string \<Rightarrow> McpError" where
  "mcp_internal m = Internal m"

text \<open>The cast \<open>as u64\<close> keeps the low 64 bits of the millisecond count.\<close>

definition mcp_timeout :: "string \<Rightarrow> duration \<Rightarrow> McpError" where
  "mcp_timeout operation d = Timeout operation (of_nat (as_millis d))"

primrec transport_is_retryable :: "TransportError \<Rightarrow> bool" where
  "transport_is_retryable (ConnectionFailed t r) = True"
| "transport_is_retryable (ConnectionLost t r) = True"
| "transport_is_retryable (ConnectionError t r) = True"
| "transport_is_retryable (SendFailed t r) = True"
| "transport_is_retryable (ReceiveFailed t r) = True"
| "transport_is_retryable (NetworkError t r) = True"
| "transport_is_retryable (TimeoutError t r) = True"
| "transport_is_retryable (DisconnectedError t r) = True"
| "transport_is_retryable (HttpError status_code r) = (status_code \<ge> 500)"
| "transport_is_retryable (SseError r) = True"
| "transport_is_retryable (StreamingError r) = True"
| "transport_is_retryable (ProcessError r) = False"
| "transport_is_retryable (InvalidConfig t r) = False"
| "transport_is_retryable (NotConnected t r) = False"
| "transport_is_retryable (SerializationError t r) = False"

primrec mcp_is_retryable :: "McpError \<Rightarrow> bool" where
  "mcp_is_retryable (Transport e) = transport_is_retryable e"
| "mcp_is_retryable (Timeout op ms) = True"
| "mcp_is_retryable (Io s) = True"
| "mcp_is_retryable (Auth e) = False"
| "mcp_is_retryable (Protocol e) = False"
| "mcp_is_retryable (Validation e) = False"
| "mcp_is_retryable (Config e) = False"
| "mcp_is_retryable (Serialization s) = False"
| "mcp_is_retryable (Internal m) = False"

primrec category :: "McpError \<Rightarrow> string" where
  "category (Transport e) = ''transport''"
| "category (Protocol e) = ''protocol''"
| "category (Validation e) = ''validation''"
| "category (Auth e) = ''auth''"
| "category (Timeout op ms) = ''timeout''"
| "category (Config e) = ''config''"
| "category (Serialization s) = ''serialization''"
| "category (Io s) = ''io''"
| "category (Internal m) = ''internal''"

text \<open>\<open>From<reqwest::Error>\<close>: what the conversion reads of the error.\<close>

record reqwest_error =
  is_timeout :: bool
  is_connect :: bool
  rq_status :: "u16 option"
  rq_text :: string

definition mcp_from_reqwest :: "reqwest_error \<Rightarrow> McpError" where
  "mcp_from_reqwest e =
     (if is_timeout e then mcp_timeout ''HTTP request'' (secs 30)
      else if is_connect e then Transport (ConnectionFailed ''http'' (rq_text e))
      else case rq_status e of
             Some status \<Rightarrow> Transport (HttpError status (rq_text e))
           | None \<Rightarrow> Transport (HttpError 0 (rq_text e)))"

text \<open>\<open>From<url::ParseError>\<close>, of the error's text.\<close>

definition mcp_from_url_parse :: "string \<Rightarrow> McpError" where
  "mcp_from_url_parse err = Config (InvalidValue ''url'' err ''Invalid URL format'')"

section \<open>Lemmas\<close>

text \<open>A failed HTTP request is worth retrying exactly when it timed out, could not connect, or
  was answered with a server error.\<close>

lemma from_reqwest_retryable:
  "mcp_is_retryable (mcp_from_reqwest e)
   \<longleftrightarrow> is_timeout e \<or> is_connect e \<or> (\<exists>s. rq_status e = Some s \<and> 500 \<le> s)"
  by (auto simp: mcp_from_reqwest_def mcp_timeout_def split: option.splits)

lemma retryable_categories:
  "mcp_is_retryable e \<Longrightarrow> category e \<in> {''transport'', ''timeout'', ''io''}"
  by (cases e) simp_all

end
