(* ===== verification/Transport_Config.thy ===== *)
theory Transport_Config
  imports Mcp_Error Json Identity
begin

text \<open>
  Transport configurations (\<open>acdp-core/src/transport/config.rs\<close>) and the statistics every
  transport keeps (\<open>TransportInfo\<close> of \<open>transport/mod.rs\<close>). A parsed URL is what the code
  reads of one: scheme, host, path and text; parsing is the parameter \<open>parse_url\<close> (the
  \<open>url\<close> crate). The file system and the format crates (JSON, YAML, TOML) are the fields of
  the parameter record \<open>config_env\<close>.
\<close>

section \<open>URLs and paths\<close>

record url =
  url_scheme :: string
  url_host :: "string option"
  url_path :: string
  url_text :: string

type_synonym parse_url = "string \<Rightarrow> string + url"

text \<open>\<open>Path::extension\<close>: the last component of a path (slashes at the end and \<open>.\<close>
  components are skipped, \<open>..\<close> and a leading \<open>.\<close> are no file name), and the part of it
  after the last dot unless that dot starts the name.\<close>

definition file_name :: "string \<Rightarrow> string option" where
  "file_name p =
     (case split_on (CHR ''/'') p of
        [] \<Rightarrow> None
      | q # qs \<Rightarrow>
          let comps = filter (\<lambda>c. c \<noteq> []) [q] @ filter (\<lambda>c. c \<noteq> [] \<and> c \<noteq> ''.'') qs
          in if comps = [] \<or> last comps = ''..'' \<or> last comps = ''.'' then None
             else Some (last comps))"

definition extension :: "string \<Rightarrow> string option" where
  "extension p = (case file_name p of
     None \<Rightarrow> None
   | Some f \<Rightarrow>
       let after = rev (takeWhile (\<lambda>c. c \<noteq> CHR ''.'') (rev f));
           before = butlast (rev (dropWhile (\<lambda>c. c \<noteq> CHR ''.'') (rev f)))
       in if CHR ''.'' \<notin> set f \<or> before = [] then None else Some after)"

section \<open>Authentication\<close>

datatype AuthConfig =
    BasicAuth string string
  | BearerAuth string
  | OAuthConfig string string url "string option"
  | HeaderAuth string string

definition auth_basic :: "string \<Rightarrow> string \<Rightarrow> AuthConfig" where
  "auth_basic username password = BasicAuth username password"

definition auth_bearer :: "string \<Rightarrow> AuthConfig" where
  "auth_bearer token = BearerAuth token"

definition auth_oauth :: "string \<Rightarrow> string \<Rightarrow> url \<Rightarrow> string option \<Rightarrow> AuthConfig" where
  "auth_oauth client_id client_secret token_url scope =
     OAuthConfig client_id client_secret token_url scope"

definition auth_header_config :: "string \<Rightarrow> string \<Rightarrow> AuthConfig" where
  "auth_header_config name val = HeaderAuth name val"

definition auth_validate :: "AuthConfig \<Rightarrow> unit mcp_result" where
  "auth_validate a = (case a of
     BasicAuth username password \<Rightarrow>
       if username = [] \<or> password = []
       then Inl (Config (InvalidValue ''auth'' ''basic'' ''Username and password cannot be empty''))
       else Inr ()
   | BearerAuth token \<Rightarrow>
       if token = [] then Inl (Config (InvalidValue ''auth'' ''bearer'' ''Token cannot be empty''))
       else Inr ()
   | OAuthConfig client_id client_secret token_url _ \<Rightarrow>
       if client_id = [] \<or> client_secret = []
       then Inl (Config (InvalidValue ''auth'' ''oauth'' ''Client ID and secret cannot be empty''))
       else if url_scheme token_url \<noteq> ''https''
       then Inl (Config (InvalidValue ''token_url'' (url_text token_url)
                  ''OAuth token URL must use HTTPS''))
       else Inr ()
   | HeaderAuth name val \<Rightarrow>
       if name = [] \<or> val = []
       then Inl (Config (InvalidValue ''auth'' ''header'' ''Header name and value cannot be empty''))
       else Inr ())"

section \<open>Stdio\<close>

record StdioConfig =
  command :: string
  args :: "string list"
  working_dir :: "string option"
  stdio_timeout :: duration
  environment :: "string \<rightharpoonup> string"

definition StdioConfig_new :: "string \<Rightarrow> StdioConfig" where
  "StdioConfig_new c = \<lparr>command = c, args = [], working_dir = None, stdio_timeout = secs 30,
     environment = Map.empty\<rparr>"

definition stdio_arg :: "string \<Rightarrow> StdioConfig \<Rightarrow> StdioConfig" where
  "stdio_arg a c = c\<lparr>args := args c @ [a]\<rparr>"

definition stdio_args :: "string list \<Rightarrow> StdioConfig \<Rightarrow> StdioConfig" where
  "stdio_args as c = c\<lparr>args := args c @ as\<rparr>"

definition stdio_working_dir :: "string \<Rightarrow> StdioConfig \<Rightarrow> StdioConfig" where
  "stdio_working_dir d c = c\<lparr>working_dir := Some d\<rparr>"

definition stdio_with_timeout :: "duration \<Rightarrow> StdioConfig \<Rightarrow> StdioConfig" where
  "stdio_with_timeout t c = c\<lparr>stdio_timeout := t\<rparr>"

definition stdio_env :: "string \<Rightarrow> string \<Rightarrow> StdioConfig \<Rightarrow> StdioConfig" where
  "stdio_env k v c = c\<lparr>environment := (environment c)(k \<mapsto> v)\<rparr>"

definition stdio_validate :: "(string \<Rightarrow> bool) \<Rightarrow> StdioConfig \<Rightarrow> unit mcp_result" where
  "stdio_validate exists c =
     (if command c = [] then Inl (Config (MissingParameter ''command''))
      else case working_dir c of
             Some dir \<Rightarrow>
               if \<not> exists dir
               then Inl (Config (InvalidValue ''working_dir'' dir ''Directory does not exist''))
               else Inr ()
           | None \<Rightarrow> Inr ())"

section \<open>HTTP\<close>

record HttpSseConfig =
  sse_base_url :: url
  sse_timeout :: duration
  sse_headers :: "string \<rightharpoonup> string"
  sse_auth :: "AuthConfig option"

definition HttpSseConfig_new :: "url \<Rightarrow> HttpSseConfig" where
  "HttpSseConfig_new u = \<lparr>sse_base_url = u, sse_timeout = secs 60, sse_headers = Map.empty,
     sse_auth = None\<rparr>"

definition sse_with_timeout :: "duration \<Rightarrow> HttpSseConfig \<Rightarrow> HttpSseConfig" where
  "sse_with_timeout t c = c\<lparr>sse_timeout := t\<rparr>"

definition sse_header :: "string \<Rightarrow> string \<Rightarrow> HttpSseConfig \<Rightarrow> HttpSseConfig" where
  "sse_header k v c = c\<lparr>sse_headers := (sse_headers c)(k \<mapsto> v)\<rparr>"

definition sse_with_auth :: "AuthConfig \<Rightarrow> HttpSseConfig \<Rightarrow> HttpSseConfig" where
  "sse_with_auth a c = c\<lparr>sse_auth := Some a\<rparr>"

definition scheme_error :: "url \<Rightarrow> McpError" where
  "scheme_error u =
     Config (InvalidValue ''base_url'' (url_text u) ''URL must use http or https scheme'')"

definition sse_validate :: "HttpSseConfig \<Rightarrow> unit mcp_result" where
  "sse_validate c =
     (if url_scheme (sse_base_url c) \<noteq> ''http'' \<and> url_scheme (sse_base_url c) \<noteq> ''https''
      then Inl (scheme_error (sse_base_url c))
      else case sse_auth c of Some a \<Rightarrow> auth_validate a | None \<Rightarrow> Inr ())"

record HttpStreamConfig =
  stream_base_url :: url
  stream_timeout :: duration
  stream_headers :: "string \<rightharpoonup> string"
  stream_auth :: "AuthConfig option"
  compression :: bool
  flow_control_window :: u32

definition HttpStreamConfig_new :: "url \<Rightarrow> HttpStreamConfig" where
  "HttpStreamConfig_new u = \<lparr>stream_base_url = u, stream_timeout = secs 300,
     stream_headers = Map.empty, stream_auth = None, compression = True,
     flow_control_window = 65536\<rparr>"

definition stream_with_timeout :: "duration \<Rightarrow> HttpStreamConfig \<Rightarrow> HttpStreamConfig" where
  "stream_with_timeout t c = c\<lparr>stream_timeout := t\<rparr>"

definition stream_header :: "string \<Rightarrow> string \<Rightarrow> HttpStreamConfig \<Rightarrow> HttpStreamConfig" where
  "stream_header k v c = c\<lparr>stream_headers := (stream_headers c)(k \<mapsto> v)\<rparr>"

definition stream_with_auth :: "AuthConfig \<Rightarrow> HttpStreamConfig \<Rightarrow> HttpStreamConfig" where
  "stream_with_auth a c = c\<lparr>stream_auth := Some a\<rparr>"

definition stream_compression :: "bool \<Rightarrow> HttpStreamConfig \<Rightarrow> HttpStreamConfig" where
  "stream_compression b c = c\<lparr>compression := b\<rparr>"

definition stream_flow_control_window :: "u32 \<Rightarrow> HttpStreamConfig \<Rightarrow> HttpStreamConfig" where
  "stream_flow_control_window n c = c\<lparr>flow_control_window := n\<rparr>"

definition stream_validate :: "HttpStreamConfig \<Rightarrow> unit mcp_result" where
  "stream_validate c =
     (if url_scheme (stream_base_url c) \<noteq> ''http'' \<and> url_scheme (stream_base_url c) \<noteq> ''https''
      then Inl (scheme_error (stream_base_url c))
      else if flow_control_window c = 0
      then Inl (Config (InvalidValue ''flow_control_window'' (show_nat (unat (flow_control_window c)))
                 ''Flow control window must be greater than 0''))
      else case stream_auth c of Some a \<Rightarrow> auth_validate a | None \<Rightarrow> Inr ())"

section \<open>Transport configuration\<close>

datatype TransportConfig =
    Stdio StdioConfig
  | HttpSse HttpSseConfig
  | HttpStream HttpStreamConfig

definition config_stdio :: "string \<Rightarrow> string list \<Rightarrow> TransportConfig" where
  "config_stdio c as = Stdio \<lparr>command = c, args = as, working_dir = None, stdio_timeout = secs 30,
     environment = Map.empty\<rparr>"

definition parse_base_url :: "parse_url \<Rightarrow> string \<Rightarrow> url mcp_result" where
  "parse_base_url parse s =
     map_err (\<lambda>e. Config (InvalidValue ''base_url'' s (''Invalid URL: '' @ e))) (parse s)"

definition config_http_sse :: "parse_url \<Rightarrow> string \<Rightarrow> TransportConfig mcp_result" where
  "config_http_sse parse s =
     and_then (parse_base_url parse s) (\<lambda>u.
       Inr (HttpSse \<lparr>sse_base_url = u, sse_timeout = secs 60, sse_headers = Map.empty,
                     sse_auth = None\<rparr>))"

definition config_http_stream :: "parse_url \<Rightarrow> string \<Rightarrow> TransportConfig mcp_result" where
  "config_http_stream parse s =
     and_then (parse_base_url parse s) (\<lambda>u.
       Inr (HttpStream \<lparr>stream_base_url = u, stream_timeout = secs 300, stream_headers = Map.empty,
                        stream_auth = None, compression = True, flow_control_window = 65536\<rparr>))"

primrec transport_type :: "TransportConfig \<Rightarrow> string" where
  "transport_type (Stdio c) = ''stdio''"
| "transport_type (HttpSse c) = ''http-sse''"
| "transport_type (HttpStream c) = ''http-stream''"

primrec config_validate :: "(string \<Rightarrow> bool) \<Rightarrow> TransportConfig \<Rightarrow> unit mcp_result" where
  "config_validate exists (Stdio c) = stdio_validate exists c"
| "config_validate exists (HttpSse c) = sse_validate c"
| "config_validate exists (HttpStream c) = stream_validate c"

text \<open>Files. A format crate reads a configuration from a text and writes one to a text; both may
  fail with a message.\<close>

record format_crate =
  fmt_read :: "string \<Rightarrow> string + TransportConfig"
  fmt_write :: "TransportConfig \<Rightarrow> string + string"

record config_env =
  env_exists :: "string \<Rightarrow> bool"
  env_read :: "string \<Rightarrow> string option"
  env_json :: format_crate
  env_yaml :: format_crate
  env_toml :: format_crate

definition format_of :: "config_env \<Rightarrow> string \<Rightarrow> format_crate option" where
  "format_of E path =
     (if extension path = Some ''json'' then Some (env_json E)
      else if extension path = Some ''yaml'' \<or> extension path = Some ''yml'' then Some (env_yaml E)
      else if extension path = Some ''toml'' then Some (env_toml E)
      else None)"

definition unsupported_format :: "string \<Rightarrow> McpError" where
  "unsupported_format path =
     Config (InvalidFormat path ''Unsupported file format. Use .json, .yaml, or .toml'')"

definition from_file :: "config_env \<Rightarrow> string \<Rightarrow> TransportConfig mcp_result" where
  "from_file E path =
     and_then (ok_or (Config (FileNotFound path)) (env_read E path)) (\<lambda>content.
     and_then (case format_of E path of
                 Some f \<Rightarrow> map_err (\<lambda>e. Config (InvalidFormat path e)) (fmt_read f content)
               | None \<Rightarrow> Inl (unsupported_format path)) (\<lambda>config.
     and_then (config_validate (env_exists E) config) (\<lambda>_. Inr config)))"

text \<open>The text is written by \<open>std::fs::write\<close>: \<open>write\<close> answers with the file system
  after it or with the text of the I/O error.\<close>

definition to_file ::
  "config_env \<Rightarrow> (string \<Rightarrow> string \<Rightarrow> string + config_env) \<Rightarrow> TransportConfig \<Rightarrow> string \<Rightarrow> config_env mcp_result"
  where
  "to_file E write config path =
     and_then (case format_of E path of
                 Some f \<Rightarrow> map_err (\<lambda>e. Config (InvalidFormat path e)) (fmt_write f config)
               | None \<Rightarrow> Inl (unsupported_format path)) (\<lambda>content.
     map_err Io (write path content))"

section \<open>Transport statistics\<close>

record TransportInfo =
  info_type :: string
  info_connected :: bool
  connected_since :: "datetime option"
  info_requests_sent :: u64
  info_responses_received :: u64
  info_notifications_sent :: u64
  info_notifications_received :: u64
  info_errors :: u64
  info_metadata :: "string \<rightharpoonup> json"

definition TransportInfo_new :: "string \<Rightarrow> TransportInfo" where
  "TransportInfo_new t = \<lparr>info_type = t, info_connected = False, connected_since = None,
     info_requests_sent = 0, info_responses_received = 0, info_notifications_sent = 0,
     info_notifications_received = 0, info_errors = 0, info_metadata = Map.empty\<rparr>"

definition mark_connected :: "datetime \<Rightarrow> TransportInfo \<Rightarrow> TransportInfo" where
  "mark_connected now i = i\<lparr>info_connected := True, connected_since := Some now\<rparr>"

definition mark_disconnected :: "TransportInfo \<Rightarrow> TransportInfo" where
  "mark_disconnected i = i\<lparr>info_connected := False, connected_since := None\<rparr>"

definition increment_requests_sent :: "TransportInfo \<Rightarrow> TransportInfo" where
  "increment_requests_sent i = i\<lparr>info_requests_sent := info_requests_sent i + 1\<rparr>"

definition increment_responses_received :: "TransportInfo \<Rightarrow> TransportInfo" where
  "increment_responses_received i = i\<lparr>info_responses_received := info_responses_received i + 1\<rparr>"

definition increment_notifications_sent :: "TransportInfo \<Rightarrow> TransportInfo" where
  "increment_notifications_sent i = i\<lparr>info_notifications_sent := info_notifications_sent i + 1\<rparr>"

definition increment_notifications_received :: "TransportInfo \<Rightarrow> TransportInfo" where
  "increment_notifications_received i =
     i\<lparr>info_notifications_received := info_notifications_received i + 1\<rparr>"

definition increment_errors :: "TransportInfo \<Rightarrow> TransportInfo" where
  "increment_errors i = i\<lparr>info_errors := info_errors i + 1\<rparr>"

definition add_metadata :: "string \<Rightarrow> json \<Rightarrow> TransportInfo \<Rightarrow> TransportInfo" where
  "add_metadata k v i = i\<lparr>info_metadata := (info_metadata i)(k \<mapsto> v)\<rparr>"

text \<open>\<open>duration_since\<close> of a clock that went back is an error, replaced by zero.\<close>

definition connection_duration :: "datetime \<Rightarrow> TransportInfo \<Rightarrow> int option" where
  "connection_duration now i = map_option (\<lambda>since. max 0 (now - since)) (connected_since i)"

definition info_wf :: "TransportInfo \<Rightarrow> bool" where
  "info_wf i \<longleftrightarrow> (info_connected i \<longleftrightarrow> connected_since i \<noteq> None)"

lemmas info_ops = mark_connected_def mark_disconnected_def increment_requests_sent_def
  increment_responses_received_def increment_notifications_sent_def
  increment_notifications_received_def increment_errors_def add_metadata_def

lemma info_wf_ops [simp]:
  "info_wf (TransportInfo_new t)" "info_wf (mark_connected now i)" "info_wf (mark_disconnected i)"
  "info_wf (increment_requests_sent i) = info_wf i"
  "info_wf (increment_responses_received i) = info_wf i"
  "info_wf (increment_notifications_sent i) = info_wf i"
  "info_wf (increment_notifications_received i) = info_wf i"
  "info_wf (increment_errors i) = info_wf i" "info_wf (add_metadata k v i) = info_wf i"
  by (simp_all add: info_wf_def info_ops TransportInfo_new_def)

section \<open>Lemmas\<close>

text \<open>A declarative reading of a valid configuration.\<close>

primrec auth_ok :: "AuthConfig \<Rightarrow> bool" where
  "auth_ok (BasicAuth u p) \<longleftrightarrow> u \<noteq> [] \<and> p \<noteq> []"
| "auth_ok (BearerAuth t) \<longleftrightarrow> t \<noteq> []"
| "auth_ok (OAuthConfig i s u sc) \<longleftrightarrow> i \<noteq> [] \<and> s \<noteq> [] \<and> url_scheme u = ''https''"
| "auth_ok (HeaderAuth n v) \<longleftrightarrow> n \<noteq> [] \<and> v \<noteq> []"

definition web_url :: "url \<Rightarrow> bool" where
  "web_url u \<longleftrightarrow> url_scheme u \<in> {''http'', ''https''}"

primrec config_ok :: "(string \<Rightarrow> bool) \<Rightarrow> TransportConfig \<Rightarrow> bool" where
  "config_ok ex (Stdio c) \<longleftrightarrow> command c \<noteq> [] \<and> pred_option ex (working_dir c)"
| "config_ok ex (HttpSse c) \<longleftrightarrow> web_url (sse_base_url c) \<and> pred_option auth_ok (sse_auth c)"
| "config_ok ex (HttpStream c) \<longleftrightarrow> web_url (stream_base_url c) \<and> 0 < flow_control_window c
     \<and> pred_option auth_ok (stream_auth c)"

lemma auth_validate_iff: "auth_validate a = Inr () \<longleftrightarrow> auth_ok a"
  by (cases a) (auto simp: auth_validate_def)

lemma config_validate_iff: "config_validate ex c = Inr () \<longleftrightarrow> config_ok ex c"
  by (cases c)
    (auto simp: stdio_validate_def sse_validate_def stream_validate_def web_url_def
      auth_validate_iff word_gt_0 split: option.splits)

lemma config_validate_error:
  "config_validate ex c = Inl e \<Longrightarrow> category e = ''config'' \<and> \<not> mcp_is_retryable e"
  by (cases c)
    (auto simp: stdio_validate_def sse_validate_def stream_validate_def auth_validate_def
      scheme_error_def split: option.splits if_splits AuthConfig.splits)

text \<open>Saving a configuration and loading it again.\<close>

lemma config_file_roundtrip:
  assumes "format_of E path = Some f" "fmt_write f c = Inr content"
    and "fmt_read f content = Inr c"
    and "write path content = Inr E'" "env_read E' path = Some content"
    and "format_of E' path = format_of E path" "env_exists E' = env_exists E"
  shows "to_file E write c path = Inr E' \<and>
    from_file E' path = and_then (config_validate (env_exists E) c) (\<lambda>_. Inr c)"
  using assms by (simp add: to_file_def from_file_def)

end
