(* ===== verification/Jsonrpc.thy ===== *)
theory Jsonrpc
  imports Json
begin

text \<open>
  JSON-RPC 2.0 messages (\<open>acdp-core/src/messages/core.rs\<close>): requests, responses,
  notifications and errors with their constructors and classifications.
  \<open>serde_json::from_value\<close> is the parameter \<open>from_value\<close> of the typed accessors.
\<close>

section \<open>Data\<close>

datatype RequestId = IdString string | IdNumber int | IdNull

record JsonRpcError =
  code :: int
  err_message :: string
  err_data :: "json option"

record JsonRpcRequest =
  req_jsonrpc :: string
  req_id :: RequestId
  req_method :: string
  req_params :: "json option"

record JsonRpcResponse =
  resp_jsonrpc :: string
  resp_id :: RequestId
  resp_result :: "json option"
  resp_error :: "JsonRpcError option"

record JsonRpcNotification =
  notif_jsonrpc :: string
  notif_method :: string
  notif_params :: "json option"

datatype JsonRpcMessage =
    Request JsonRpcRequest
  | Response JsonRpcResponse
  | Notification JsonRpcNotification

section \<open>Requests\<close>

definition request_new :: "RequestId \<Rightarrow> string \<Rightarrow> json \<Rightarrow> JsonRpcRequest" where
  "request_new i m p = \<lparr>req_jsonrpc = ''2.0'', req_id = i, req_method = m, req_params = Some p\<rparr>"

definition request_without_params :: "RequestId \<Rightarrow> string \<Rightarrow> JsonRpcRequest" where
  "request_without_params i m =
     \<lparr>req_jsonrpc = ''2.0'', req_id = i, req_method = m, req_params = None\<rparr>"

text \<open>The random UUID is the argument \<open>uuid\<close>.\<close>

definition request_with_random_id :: "string \<Rightarrow> string \<Rightarrow> json \<Rightarrow> JsonRpcRequest" where
  "request_with_random_id uuid m p = request_new (IdString uuid) m p"

definition request_has_params :: "JsonRpcRequest \<Rightarrow> bool" where
  "request_has_params r = (req_params r \<noteq> None)"

definition request_params_as :: "(json \<Rightarrow> 'e + 't) \<Rightarrow> JsonRpcRequest \<Rightarrow> 'e + 't" where
  "request_params_as from_value r =
     (case req_params r of Some p \<Rightarrow> from_value p | None \<Rightarrow> from_value Null)"

section \<open>Errors\<close>

definition error_new :: "int \<Rightarrow> string \<Rightarrow> json option \<Rightarrow> JsonRpcError" where
  "error_new c m d = \<lparr>code = c, err_message = m, err_data = d\<rparr>"

definition parse_error :: JsonRpcError where
  "parse_error = error_new (- 32700) ''Parse error'' None"

definition invalid_request :: "string \<Rightarrow> JsonRpcError" where
  "invalid_request details = error_new (- 32600) ''Invalid Request'' (Some (String details))"

definition method_not_found :: "string \<Rightarrow> JsonRpcError" where
  "method_not_found m = error_new (- 32601) ''Method not found''
     (Some (String (''Method '' @ [CHR 0x27] @ m @ [CHR 0x27] @ '' not found'')))"

definition invalid_params :: "string \<Rightarrow> JsonRpcError" where
  "invalid_params details = error_new (- 32602) ''Invalid params'' (Some (String details))"

definition internal_error :: "string \<Rightarrow> JsonRpcError" where
  "internal_error details = error_new (- 32603) ''Internal error'' (Some (String details))"

definition application_error :: "int \<Rightarrow> string \<Rightarrow> string \<Rightarrow> JsonRpcError" where
  "application_error c m details = error_new c m (Some (String details))"

definition is_standard_error :: "JsonRpcError \<Rightarrow> bool" where
  "is_standard_error e \<longleftrightarrow> - 32700 \<le> code e \<and> code e \<le> - 32600"

definition is_application_error :: "JsonRpcError \<Rightarrow> bool" where
  "is_application_error e \<longleftrightarrow> - 32099 \<le> code e \<and> code e \<le> - 32000"

text \<open>\<open>Display\<close>; the text of a JSON value is the parameter \<open>show_json\<close>.\<close>

definition jsonrpc_error_display :: "(json \<Rightarrow> string) \<Rightarrow> JsonRpcError \<Rightarrow> string" where
  "jsonrpc_error_display show_json e =
     ''JSON-RPC Error '' @ show_int (code e) @ '': '' @ err_message e
       @ (case err_data e of Some d \<Rightarrow> '' ('' @ show_json d @ '')'' | None \<Rightarrow> [])"

section \<open>Responses\<close>

definition response_success :: "RequestId \<Rightarrow> json \<Rightarrow> JsonRpcResponse" where
  "response_success i r =
     \<lparr>resp_jsonrpc = ''2.0'', resp_id = i, resp_result = Some r, resp_error = None\<rparr>"

definition response_error :: "RequestId \<Rightarrow> JsonRpcError \<Rightarrow> JsonRpcResponse" where
  "response_error i e =
     \<lparr>resp_jsonrpc = ''2.0'', resp_id = i, resp_result = None, resp_error = Some e\<rparr>"

definition is_success :: "JsonRpcResponse \<Rightarrow> bool" where
  "is_success r \<longleftrightarrow> resp_result r \<noteq> None \<and> resp_error r = None"

definition is_error :: "JsonRpcResponse \<Rightarrow> bool" where
  "is_error r \<longleftrightarrow> resp_error r \<noteq> None"

definition result_as ::
  "(json \<Rightarrow> string) \<Rightarrow> (json \<Rightarrow> string + 't) \<Rightarrow> JsonRpcResponse \<Rightarrow> string + 't" where
  "result_as show_json from_value r =
     (case (resp_result r, resp_error r) of
        (Some res, None) \<Rightarrow> from_value res
      | (None, Some e) \<Rightarrow> Inl (''JSON-RPC error: '' @ jsonrpc_error_display show_json e)
      | _ \<Rightarrow> Inl ''Invalid response: both result and error are present or missing'')"

section \<open>Notifications\<close>

definition notification_new :: "string \<Rightarrow> json \<Rightarrow> JsonRpcNotification" where
  "notification_new m p = \<lparr>notif_jsonrpc = ''2.0'', notif_method = m, notif_params = Some p\<rparr>"

definition notification_without_params :: "string \<Rightarrow> JsonRpcNotification" where
  "notification_without_params m =
     \<lparr>notif_jsonrpc = ''2.0'', notif_method = m, notif_params = None\<rparr>"

definition notification_has_params :: "JsonRpcNotification \<Rightarrow> bool" where
  "notification_has_params n = (notif_params n \<noteq> None)"

definition notification_params_as :: "(json \<Rightarrow> 'e + 't) \<Rightarrow> JsonRpcNotification \<Rightarrow> 'e + 't" where
  "notification_params_as from_value n =
     (case notif_params n of Some p \<Rightarrow> from_value p | None \<Rightarrow> from_value Null)"

section \<open>Identifiers and messages\<close>

definition id_from_i32 :: "int \<Rightarrow> RequestId" where
  "id_from_i32 n = IdNumber n"

primrec request_id_display :: "RequestId \<Rightarrow> string" where
  "request_id_display (IdString s) = s"
| "request_id_display (IdNumber n) = show_int n"
| "request_id_display IdNull = ''null''"

primrec message_method :: "JsonRpcMessage \<Rightarrow> string option" where
  "message_method (Request r) = Some (req_method r)"
| "message_method (Response r) = None"
| "message_method (Notification n) = Some (notif_method n)"

primrec message_id :: "JsonRpcMessage \<Rightarrow> RequestId option" where
  "message_id (Request r) = Some (req_id r)"
| "message_id (Response r) = Some (resp_id r)"
| "message_id (Notification n) = None"

definition expects_response :: "JsonRpcMessage \<Rightarrow> bool" where
  "expects_response m = (case m of Request _ \<Rightarrow> True | _ \<Rightarrow> False)"

section \<open>Lemmas\<close>

text \<open>A response is well formed when exactly one of its two fields is present; the
  constructors build only such responses, and on them the two classifications are
  complementary.\<close>

definition response_wf :: "JsonRpcResponse \<Rightarrow> bool" where
  "response_wf r \<longleftrightarrow> resp_jsonrpc r = ''2.0'' \<and> (resp_result r = None) \<noteq> (resp_error r = None)"

lemma response_success_wf: "response_wf (response_success i v)"
  by (simp add: response_wf_def response_success_def)

lemma response_error_wf: "response_wf (response_error i e)"
  by (simp add: response_wf_def response_error_def)

lemma response_wf_classified: "response_wf r \<Longrightarrow> is_success r \<longleftrightarrow> \<not> is_error r"
  by (auto simp: response_wf_def is_success_def is_error_def)

lemma message_kind:
  "expects_response m \<longleftrightarrow> message_id m \<noteq> None \<and> message_method m \<noteq> None"
  by (cases m) (simp_all add: expects_response_def)

text \<open>Error code ranges. The five standard JSON-RPC errors fall in the standard range and
  the application range never overlaps it, so no error is classified both ways; a typed
  result is read exactly from a success, and every other response is an error.\<close>

lemma error_codes_classified:
  "is_standard_error parse_error \<and> is_standard_error (invalid_request s)
   \<and> is_standard_error (method_not_found s) \<and> is_standard_error (invalid_params s)
   \<and> is_standard_error (internal_error s)"
  "\<not> (is_standard_error e \<and> is_application_error e)"
  "result_as sj fv r = (if is_success r then fv (the (resp_result r)) else
     Inl (if resp_result r = None \<and> is_error r
          then ''JSON-RPC error: '' @ jsonrpc_error_display sj (the (resp_error r))
          else ''Invalid response: both result and error are present or missing''))"
  by (auto simp: is_standard_error_def is_application_error_def parse_error_def
      invalid_request_def method_not_found_def invalid_params_def internal_error_def error_new_def
      result_as_def is_success_def is_error_def split: option.splits)

end
