(* ===== verification/Http_Stream.thy ===== *)
theory Http_Stream
  imports Transport_Config Jsonrpc
begin

text \<open>
  The transport interface (trait \<open>Transport\<close> of \<open>acdp-core/src/transport/mod.rs\<close>) and its
  request/response implementation over HTTP (\<open>transport/http_stream.rs\<close>). The network is a
  state \<open>'w\<close>: an exchange sends one request and yields what the \<open>reqwest\<close> client
  observes, a send error, a response, or that the deadline of the surrounding
  \<open>tokio::time::timeout\<close> passes first (while sending or while reading the body); a
  notification waits without a deadline (\<open>exchange_wait\<close>). The locale
  \<open>transport_contract\<close> states what the MCP client relies on; the transport interprets it.
\<close>

section \<open>The trait\<close>

text \<open>Receiving may not return (\<open>None\<close>).\<close>

record 't transport_ops =
  t_connect :: "'t \<Rightarrow> unit mcp_result \<times> 't"
  t_disconnect :: "'t \<Rightarrow> unit mcp_result \<times> 't"
  t_is_connected :: "'t \<Rightarrow> bool"
  t_send_request :: "JsonRpcRequest \<Rightarrow> duration option \<Rightarrow> 't \<Rightarrow> JsonRpcResponse mcp_result \<times> 't"
  t_send_notification :: "JsonRpcNotification \<Rightarrow> 't \<Rightarrow> unit mcp_result \<times> 't"
  t_receive_message :: "duration option \<Rightarrow> 't \<Rightarrow> (JsonRpcMessage mcp_result \<times> 't) option"
  t_get_info :: "'t \<Rightarrow> TransportInfo"
  t_get_config :: "'t \<Rightarrow> TransportConfig"

text \<open>A run of requests through a transport.\<close>

fun send_all :: "'t transport_ops \<Rightarrow> (JsonRpcRequest \<times> duration option) list \<Rightarrow> 't
    \<Rightarrow> JsonRpcResponse mcp_result list \<times> 't" where
  "send_all T [] t = ([], t)"
| "send_all T ((rq, d) # rqs) t =
     (let (r, t) = t_send_request T rq d t; (rs, t) = send_all T rqs t in (r # rs, t))"

text \<open>What a client may rely on: connecting and disconnecting do what they say, a transport
  that is not connected refuses to send and stays as it is, and sending never changes whether
  the transport is connected.\<close>

locale transport_contract =
  fixes T :: "'t transport_ops"
  assumes connect_ok: "t_connect T t = (Inr (), t') \<Longrightarrow> t_is_connected T t'"
    and disconnect_ok: "t_disconnect T t = (Inr (), t') \<Longrightarrow> \<not> t_is_connected T t'"
    and request_refused: "\<not> t_is_connected T t \<Longrightarrow>
      \<exists>k r. t_send_request T rq d t = (Inl (Transport (NotConnected k r)), t)"
    and notification_refused: "\<not> t_is_connected T t \<Longrightarrow>
      \<exists>k r. t_send_notification T n t = (Inl (Transport (NotConnected k r)), t)"
    and request_keeps: "t_send_request T rq d t = (res, t') \<Longrightarrow> t_is_connected T t' = t_is_connected T t"
    and notification_keeps:
      "t_send_notification T n t = (res', t') \<Longrightarrow> t_is_connected T t' = t_is_connected T t"
begin

lemma send_all_keeps: "send_all T rqs t = (rs, t') \<Longrightarrow> t_is_connected T t' = t_is_connected T t"
proof (induction rqs arbitrary: t rs t')
  case (Cons p rqs)
  obtain rq d r t1 where p: "p = (rq, d)" "t_send_request T rq d t = (r, t1)"
    by (metis surj_pair)
  obtain rs2 t2 where rs2: "send_all T rqs t1 = (rs2, t2)" by (metis surj_pair)
  with Cons.prems p have "t' = t2" by simp
  with Cons.IH [OF rs2] request_keeps [OF p(2)] show ?case by simp
qed simp

lemma send_all_refused:
  "\<not> t_is_connected T t \<Longrightarrow> send_all T rqs t = (rs, t') \<Longrightarrow> t' = t \<and> \<not> (\<exists>r\<in>set rs. is_ok r)"
proof (induction rqs arbitrary: rs t')
  case (Cons p rqs)
  obtain rq d k r where p: "p = (rq, d)" "t_send_request T rq d t = (Inl (Transport (NotConnected k r)), t)"
    using request_refused [OF Cons.prems(1)] by (metis surj_pair)
  obtain rs2 t2 where rs2: "send_all T rqs t = (rs2, t2)" by (metis surj_pair)
  with Cons.IH [OF Cons.prems(1) rs2] Cons.prems(2) p show ?case by auto
qed simp

end

section \<open>HTTP\<close>

record http_request =
  hr_method :: string
  hr_url :: string
  hr_headers :: "(string \<times> string) list"
  hr_body :: string

datatype http_body = BodyText string | BodyError string | BodyElapsed

record http_response =
  hs_status :: u16
  hs_headers :: "(string \<times> string) list"
  hs_body :: http_body

datatype http_outcome = SendError string | SendElapsed | Responded http_response

text \<open>The outcome of a future under \<open>tokio::time::timeout\<close>.\<close>

datatype 'a timed = Elapsed | Finished 'a

record 'w http_env =
  exchange :: "http_request \<Rightarrow> 'w \<Rightarrow> http_outcome \<times> 'w"
  exchange_wait :: "http_request \<Rightarrow> 'w \<Rightarrow> (string + http_response) \<times> 'w"
  clock :: "'w \<Rightarrow> datetime"
  msg_to_string :: "JsonRpcMessage \<Rightarrow> string + string"
  json_of_string :: "string \<Rightarrow> json option"
  json_to_string :: "json \<Rightarrow> string"
  http_parse_url :: parse_url
  http_debug :: debug_fmt

definition is_success_status :: "u16 \<Rightarrow> bool" where
  "is_success_status s \<longleftrightarrow> 200 \<le> s \<and> s \<le> 299"

text \<open>\<open>HeaderValue::to_str\<close> accepts visible ASCII characters, spaces and tabs.\<close>

definition header_to_str :: "string \<Rightarrow> string option" where
  "header_to_str v =
     (if list_all (\<lambda>c. (32 \<le> (of_char c :: nat) \<and> (of_char c :: nat) < 127) \<or> (of_char c :: nat) = 9) v
      then Some v else None)"

definition session_header :: "http_response \<Rightarrow> string option" where
  "session_header r = Option.bind (map_of (hs_headers r) ''mcp-session-id'') header_to_str"

section \<open>The transport\<close>

record HttpStreamTransport =
  hst_base_url :: string
  hst_auth_header :: "string option"
  hst_config :: TransportConfig
  hst_session_id :: "string option"
  hst_info :: TransportInfo
  hst_pending :: "string list"
  hst_connected :: bool

definition localhost_url :: "'w http_env \<Rightarrow> url rust" where
  "localhost_url E = (case http_parse_url E ''http://localhost'' of Inr u \<Rightarrow> Done u | Inl _ \<Rightarrow> Panic)"

definition HttpStreamTransport_new ::
  "'w http_env \<Rightarrow> string \<Rightarrow> string option \<Rightarrow> HttpStreamTransport rust" where
  "HttpStreamTransport_new E base_url auth_header =
     map_rust (\<lambda>u.
       \<lparr>hst_base_url = base_url, hst_auth_header = auth_header,
        hst_config = HttpStream \<lparr>stream_base_url = u, stream_timeout = secs 300,
          stream_headers = Map.empty, stream_auth = map_option auth_bearer auth_header,
          compression = True, flow_control_window = 65536\<rparr>,
        hst_session_id = None, hst_info = TransportInfo_new ''http-stream'', hst_pending = [],
        hst_connected = False\<rparr>)
       (case http_parse_url E base_url of Inr u \<Rightarrow> Done u | Inl _ \<Rightarrow> localhost_url E)"

definition get_mcp_url :: "HttpStreamTransport \<Rightarrow> string" where
  "get_mcp_url t =
     (if ends_with (hst_base_url t) (CHR ''/'') then hst_base_url t @ ''mcp''
      else hst_base_url t @ ''/mcp'')"

definition mcp_post :: "HttpStreamTransport \<Rightarrow> bool \<Rightarrow> string \<Rightarrow> http_request" where
  "mcp_post t with_session body =
     \<lparr>hr_method = ''POST'', hr_url = get_mcp_url t,
      hr_headers = [(''Content-Type'', ''application/json''),
                    (''Accept'', ''application/json, text/event-stream'')]
        @ (case hst_auth_header t of Some a \<Rightarrow> [(''Authorization'', a)] | None \<Rightarrow> [])
        @ (case hst_session_id t of
             Some s \<Rightarrow> if with_session then [(''mcp-session-id'', s)] else [] | None \<Rightarrow> []),
      hr_body = body\<rparr>"

definition ser_error :: "string \<Rightarrow> McpError" where
  "ser_error r = Transport (SerializationError ''http-stream'' r)"

definition net_error :: "string \<Rightarrow> McpError" where
  "net_error r = Transport (NetworkError ''http-stream'' r)"

definition extract_request_id :: "json \<Rightarrow> RequestId" where
  "extract_request_id v =
     (case value_get v ''id'' of
        Some (String s) \<Rightarrow> IdString s
      | Some (Number n) \<Rightarrow> (case as_i64 (Number n) of Some i \<Rightarrow> IdNumber i | None \<Rightarrow> IdNull)
      | Some Null \<Rightarrow> IdNull
      | _ \<Rightarrow> IdNull)"

definition parse_json_response :: "'w http_env \<Rightarrow> json \<Rightarrow> JsonRpcResponse mcp_result" where
  "parse_json_response E v =
     (case value_get v ''result'' of
        Some result \<Rightarrow> Inr \<lparr>resp_jsonrpc = ''2.0'', resp_id = extract_request_id v,
                           resp_result = Some result, resp_error = None\<rparr>
      | None \<Rightarrow>
          (case value_get v ''error'' of
             Some e \<Rightarrow> Inl (Transport (TransportError.HttpError 400 (''Server returned error: '' @ json_to_string E e)))
           | None \<Rightarrow> Inl (ser_error ''Invalid JSON-RPC response format'')))"

text \<open>The loop over the lines: the first data line that holds a JSON value with an \<open>id\<close>.\<close>

fun parse_sse_lines :: "'w http_env \<Rightarrow> string list \<Rightarrow> JsonRpcResponse mcp_result" where
  "parse_sse_lines E [] = Inl (ser_error ''No valid JSON-RPC response found in SSE data'')"
| "parse_sse_lines E (line # ls) =
     (case strip_prefix line ''data: '' of
        Some json_text \<Rightarrow>
          (case json_of_string E json_text of
             Some v \<Rightarrow> if value_get v ''id'' \<noteq> None then parse_json_response E v
                       else parse_sse_lines E ls
           | None \<Rightarrow> parse_sse_lines E ls)
      | None \<Rightarrow> parse_sse_lines E ls)"

definition parse_sse_response :: "'w http_env \<Rightarrow> string \<Rightarrow> JsonRpcResponse mcp_result" where
  "parse_sse_response E text = parse_sse_lines E (lines text)"

definition parse_response :: "'w http_env \<Rightarrow> string \<Rightarrow> JsonRpcResponse mcp_result" where
  "parse_response E text =
     (case json_of_string E text of
        Some v \<Rightarrow> parse_json_response E v
      | None \<Rightarrow>
          if str_contains text ''data: '' then parse_sse_response E text
          else Inl (ser_error (''Could not parse response as JSON or SSE: '' @ text)))"

text \<open>What follows the headers of a response: the body of a failed request is the reason, the
  body of a successful one is parsed. \<open>pre\<close> and \<open>what\<close> are the two texts in which the
  callers differ.\<close>

definition finish_failed :: "string \<Rightarrow> http_response \<Rightarrow> JsonRpcResponse mcp_result timed" where
  "finish_failed pre r = (case hs_body r of
     BodyElapsed \<Rightarrow> Elapsed
   | BodyText s \<Rightarrow> Finished (Inl (Transport (TransportError.HttpError (hs_status r) (pre @ s))))
   | BodyError e \<Rightarrow> Finished (Inl (Transport (TransportError.HttpError (hs_status r) pre))))"

definition finish_read :: "'w http_env \<Rightarrow> string \<Rightarrow> http_response \<Rightarrow> JsonRpcResponse mcp_result timed" where
  "finish_read E what r = (case hs_body r of
     BodyElapsed \<Rightarrow> Elapsed
   | BodyError e \<Rightarrow> Finished (Inl (net_error (''Failed to read '' @ what @ '': '' @ e)))
   | BodyText s \<Rightarrow> Finished (parse_response E s))"

definition send_mcp_request ::
  "'w http_env \<Rightarrow> HttpStreamTransport \<Rightarrow> JsonRpcMessage \<Rightarrow> 'w \<Rightarrow> JsonRpcResponse mcp_result timed \<times> 'w" where
  "send_mcp_request E t message w =
     (case msg_to_string E message of
        Inl e \<Rightarrow> (Finished (Inl (ser_error (''Failed to serialize message: '' @ e))), w)
      | Inr body \<Rightarrow>
          (case exchange E (mcp_post t True body) w of
             (SendElapsed, w) \<Rightarrow> (Elapsed, w)
           | (SendError e, w) \<Rightarrow> (Finished (Inl (net_error (''HTTP request failed: '' @ e))), w)
           | (Responded r, w) \<Rightarrow>
               if \<not> is_success_status (hs_status r) then (finish_failed [] r, w)
               else (finish_read E ''response body'' r, w)))"

text \<open>The initialisation request carries no session and keeps the one of the answer.\<close>

definition send_initialize_request ::
  "'w http_env \<Rightarrow> HttpStreamTransport \<Rightarrow> JsonRpcRequest \<Rightarrow> 'w
     \<Rightarrow> JsonRpcResponse mcp_result timed \<times> HttpStreamTransport \<times> 'w" where
  "send_initialize_request E t request w =
     (case msg_to_string E (Request request) of
        Inl e \<Rightarrow> (Finished (Inl (ser_error (''Failed to serialize init request: '' @ e))), t, w)
      | Inr body \<Rightarrow>
          (case exchange E (mcp_post t False body) w of
             (SendElapsed, w) \<Rightarrow> (Elapsed, t, w)
           | (SendError e, w) \<Rightarrow>
               (Finished (Inl (net_error (''Initialization request failed: '' @ e))), t, w)
           | (Responded r, w) \<Rightarrow>
               if \<not> is_success_status (hs_status r)
               then (finish_failed ''Initialization failed: '' r, t, w)
               else
                 let t = (case session_header r of
                            Some s \<Rightarrow> t\<lparr>hst_session_id := Some s\<rparr> | None \<Rightarrow> t)
                 in (finish_read E ''init response'' r, t, w)))"

definition hst_connect :: "'w http_env \<Rightarrow> HttpStreamTransport \<times> 'w \<Rightarrow> unit mcp_result \<times> HttpStreamTransport \<times> 'w" where
  "hst_connect E = (\<lambda>(t, w).
     (Inr (), t\<lparr>hst_connected := True, hst_info := mark_connected (clock E w) (hst_info t)\<rparr>, w))"

definition not_connected :: McpError where
  "not_connected = Transport (NotConnected ''http-stream'' ''Transport not connected'')"

definition hst_send_request ::
  "'w http_env \<Rightarrow> JsonRpcRequest \<Rightarrow> duration option \<Rightarrow> HttpStreamTransport \<times> 'w
     \<Rightarrow> JsonRpcResponse mcp_result \<times> HttpStreamTransport \<times> 'w" where
  "hst_send_request E request timeout_duration = (\<lambda>(t, w).
     if \<not> hst_connected t then (Inl not_connected, t, w)
     else
       let timeout_duration = (case timeout_duration of Some d \<Rightarrow> d | None \<Rightarrow> secs 30);
           (result, t, w) = (if req_method request = ''initialize''
             then send_initialize_request E t request w
             else case send_mcp_request E t (Request request) w of (r, w) \<Rightarrow> (r, t, w))
       in case result of
            Finished response \<Rightarrow>
              (response, t\<lparr>hst_info := increment_responses_received (increment_requests_sent (hst_info t))\<rparr>, w)
          | Elapsed \<Rightarrow>
              (Inl (Transport (TimeoutError ''http-stream''
                 (''Request timed out after '' @ debug_duration (http_debug E) timeout_duration))), t, w))"

definition hst_send_notification ::
  "'w http_env \<Rightarrow> JsonRpcNotification \<Rightarrow> HttpStreamTransport \<times> 'w \<Rightarrow> unit mcp_result \<times> HttpStreamTransport \<times> 'w"
  where
  "hst_send_notification E notification = (\<lambda>(t, w).
     if \<not> hst_connected t then (Inl not_connected, t, w)
     else
       case msg_to_string E (Notification notification) of
         Inl e \<Rightarrow> (Inl (ser_error (''Failed to serialize notification: '' @ e)), t, w)
       | Inr body \<Rightarrow>
           (case exchange_wait E (mcp_post t True body) w of
              (Inr r, w) \<Rightarrow>
                if \<not> is_success_status (hs_status r)
                then (Inl (Transport (TransportError.HttpError (hs_status r) ''Notification failed'')), t, w)
                else (Inr (), t\<lparr>hst_info := increment_notifications_sent (hst_info t)\<rparr>, w)
            | (Inl e, w) \<Rightarrow> (Inl (net_error (''Notification request failed: '' @ e)), t, w)))"

definition hst_receive_message ::
  "duration option \<Rightarrow> HttpStreamTransport \<times> 'w \<Rightarrow> JsonRpcMessage mcp_result \<times> HttpStreamTransport \<times> 'w" where
  "hst_receive_message d s =
     (Inl (Transport (InvalidConfig ''http-stream''
        ''Unsolicited message reception not implemented for Modern Streamable HTTP'')), s)"

definition hst_disconnect :: "HttpStreamTransport \<times> 'w \<Rightarrow> unit mcp_result \<times> HttpStreamTransport \<times> 'w" where
  "hst_disconnect = (\<lambda>(t, w).
     (Inr (), t\<lparr>hst_session_id := None, hst_connected := False, hst_pending := [],
                hst_info := mark_disconnected (hst_info t)\<rparr>, w))"

definition hst_get_info :: "HttpStreamTransport \<times> 'w \<Rightarrow> TransportInfo" where
  "hst_get_info = (\<lambda>(t, w).
     let info = hst_info t;
         info = add_metadata ''base_url'' (String (hst_base_url t)) info;
         info = add_metadata ''mcp_endpoint'' (String (get_mcp_url t)) info;
         info = add_metadata ''has_auth'' (Bool (hst_auth_header t \<noteq> None)) info;
         info = add_metadata ''has_session'' (Bool (hst_session_id t \<noteq> None)) info;
         info = add_metadata ''protocol'' (String ''Modern Streamable HTTP (2025-03-26)'') info;
         info = (case hst_session_id t of
                   Some s \<Rightarrow> add_metadata ''session_id'' (String s) info | None \<Rightarrow> info)
     in add_metadata ''pending_requests'' (Number (PosInt (of_nat (length (hst_pending t))))) info)"

definition http_stream_ops :: "'w http_env \<Rightarrow> (HttpStreamTransport \<times> 'w) transport_ops" where
  "http_stream_ops E =
     \<lparr>t_connect = hst_connect E, t_disconnect = hst_disconnect, t_is_connected = hst_connected \<circ> fst,
      t_send_request = hst_send_request E, t_send_notification = hst_send_notification E,
      t_receive_message = (\<lambda>d s. Some (hst_receive_message d s)), t_get_info = hst_get_info,
      t_get_config = hst_config \<circ> fst\<rparr>"

section \<open>The contract\<close>

lemma http_stream_request [simp]: "t_send_request (http_stream_ops E) = hst_send_request E"
  by (simp add: http_stream_ops_def)

lemma send_initialize_request_keeps:
  "send_initialize_request E t request w = (r, t', w')
   \<Longrightarrow> hst_connected t' = hst_connected t \<and> hst_auth_header t' = hst_auth_header t
       \<and> hst_base_url t' = hst_base_url t \<and> hst_info t' = hst_info t"
  by (auto simp: send_initialize_request_def Let_def
      split: sum.splits prod.splits http_outcome.splits option.splits if_splits)

lemma hst_send_request_keeps:
  "hst_send_request E rq d (t, w) = (r, t', w')
   \<Longrightarrow> hst_connected t' = hst_connected t \<and> hst_auth_header t' = hst_auth_header t
       \<and> hst_base_url t' = hst_base_url t"
  by (auto simp: hst_send_request_def Let_def
      dest!: send_initialize_request_keeps split: prod.splits timed.splits if_splits)

lemma hst_send_notification_keeps:
  "hst_send_notification E n (t, w) = (r, t', w')
   \<Longrightarrow> hst_connected t' = hst_connected t \<and> hst_session_id t' = hst_session_id t"
  by (auto simp: hst_send_notification_def split: prod.splits sum.splits if_splits)

interpretation http_stream: transport_contract "http_stream_ops E"
proof
  fix t t' :: "HttpStreamTransport \<times> 'a"
  show "t_connect (http_stream_ops E) t = (Inr (), t') \<Longrightarrow> t_is_connected (http_stream_ops E) t'"
    by (auto simp: http_stream_ops_def hst_connect_def split: prod.splits)
  show "t_disconnect (http_stream_ops E) t = (Inr (), t') \<Longrightarrow> \<not> t_is_connected (http_stream_ops E) t'"
    by (auto simp: http_stream_ops_def hst_disconnect_def split: prod.splits)
next
  fix t rq d n assume "\<not> t_is_connected (http_stream_ops E) t"
  then show "\<exists>k r. t_send_request (http_stream_ops E) rq d t = (Inl (Transport (NotConnected k r)), t)"
    and "\<exists>k r. t_send_notification (http_stream_ops E) n t = (Inl (Transport (NotConnected k r)), t)"
    by (auto simp: http_stream_ops_def hst_send_request_def hst_send_notification_def
        not_connected_def split: prod.splits)
next
  fix t rq d res t'
  assume "t_send_request (http_stream_ops E) rq d t = (res, t')"
  then show "t_is_connected (http_stream_ops E) t' = t_is_connected (http_stream_ops E) t"
    by (cases t; cases t') (auto simp: http_stream_ops_def dest: hst_send_request_keeps)
next
  fix t n res t'
  assume "t_send_notification (http_stream_ops E) n t = (res, t')"
  then show "t_is_connected (http_stream_ops E) t' = t_is_connected (http_stream_ops E) t"
    by (cases t; cases t') (auto simp: http_stream_ops_def dest: hst_send_notification_keeps)
qed

section \<open>What goes over the wire\<close>

text \<open>An environment that records the requests handed to the HTTP client.\<close>

definition recording :: "'w http_env \<Rightarrow> ('w \<times> http_request list) http_env" where
  "recording E =
     \<lparr>exchange = (\<lambda>r (w, log). case exchange E r w of (x, w) \<Rightarrow> (x, w, log @ [r])),
      exchange_wait = (\<lambda>r (w, log). case exchange_wait E r w of (x, w) \<Rightarrow> (x, w, log @ [r])),
      clock = (\<lambda>(w, log). clock E w), msg_to_string = msg_to_string E,
      json_of_string = json_of_string E, json_to_string = json_to_string E,
      http_parse_url = http_parse_url E, http_debug = http_debug E\<rparr>"

definition posted :: "'w http_env \<Rightarrow> HttpStreamTransport \<Rightarrow> JsonRpcRequest \<Rightarrow> http_request option" where
  "posted E t rq = (case msg_to_string E (Request rq) of
     Inr body \<Rightarrow> Some (mcp_post t True body) | Inl _ \<Rightarrow> None)"

lemma mcp_post_cong:
  "hst_base_url t' = hst_base_url t \<Longrightarrow> hst_auth_header t' = hst_auth_header t \<Longrightarrow>
   hst_session_id t' = hst_session_id t \<Longrightarrow> mcp_post t' = mcp_post t"
  by (simp add: mcp_post_def get_mcp_url_def fun_eq_iff)

lemma posted_cong: "mcp_post t' = mcp_post t \<Longrightarrow> posted E t' = posted E t"
  by (rule ext) (simp add: posted_def split: sum.split)

lemma send_request_posts:
  assumes "hst_connected t" "req_method rq \<noteq> ''initialize''"
    and "hst_send_request (recording E) rq d (t, w, log) = (r, t', w', log')"
  shows "log' = log @ (case posted E t rq of Some p \<Rightarrow> [p] | None \<Rightarrow> [])
    \<and> mcp_post t' = mcp_post t \<and> hst_connected t'"
proof -
  have "mcp_post (t\<lparr>hst_info := i\<rparr>) = mcp_post t" for i
    by (rule mcp_post_cong) simp_all
  with assms show ?thesis
    by (auto simp: hst_send_request_def send_mcp_request_def posted_def Let_def recording_def
        split: sum.splits prod.splits http_outcome.splits timed.splits if_splits)
qed

text \<open>One session, one request each. Once connected, every request other than an
  initialisation is posted exactly once, in order, to the same endpoint with the authorisation
  header and the session header of the transport as it was at the start; a request that cannot
  be serialised is not sent; and the transport stays connected.\<close>

theorem stream_posts_in_session:
  assumes "hst_connected t"
    and "\<forall>p\<in>set rqs. req_method (fst p) \<noteq> ''initialize''"
    and "send_all (http_stream_ops (recording E)) rqs (t, w, log) = (rs, t', w', log')"
  shows "log' = log @ List.map_filter (\<lambda>p. posted E t (fst p)) rqs \<and> hst_connected t'
    \<and> length rs = length rqs"
  using assms
proof (induction rqs arbitrary: t w log rs)
  case Nil
  then show ?case by (simp add: List.map_filter_simps)
next
  case (Cons p rqs)
  obtain rq d r t1 w1 log1 where p: "p = (rq, d)"
    and step: "hst_send_request (recording E) rq d (t, w, log) = (r, t1, w1, log1)"
    by (metis prod.exhaust_sel)
  obtain rs' where rest: "send_all (http_stream_ops (recording E)) rqs (t1, w1, log1) = (rs', t', w', log')"
    and rs: "rs = r # rs'"
    using Cons.prems(3) p step by (auto simp: http_stream_request split: prod.splits)
  from Cons.prems(1,2) p have "req_method rq \<noteq> ''initialize''" by simp
  from send_request_posts [OF Cons.prems(1) this step]
  have log1: "log1 = log @ (case posted E t rq of Some q \<Rightarrow> [q] | None \<Rightarrow> [])"
    and same: "mcp_post t1 = mcp_post t" and conn: "hst_connected t1" by auto
  from same have "posted E t1 = posted E t" by (rule posted_cong)
  with Cons.IH [OF conn _ rest] Cons.prems(2) log1 rs p show ?case
    by (auto simp: List.map_filter_simps split: option.splits)
qed

text \<open>A base URL that already names the endpoint, as in the documentation, gets it twice.\<close>

lemma mcp_endpoint_doubled:
  "hst_base_url t = ''https://api.example.com/mcp''
   \<Longrightarrow> get_mcp_url t = ''https://api.example.com/mcp/mcp''"
  by (simp add: get_mcp_url_def ends_with_def)

section \<open>Example\<close>

definition sample_stream :: HttpStreamTransport where
  "sample_stream = \<lparr>hst_base_url = ''http://localhost:3001'', hst_auth_header = Some ''key'',
     hst_config = config_stdio ''unused'' [], hst_session_id = Some ''s-1'',
     hst_info = TransportInfo_new ''http-stream'', hst_pending = [], hst_connected = True\<rparr>"

definition sample_http :: "unit http_env" where
  "sample_http =
     \<lparr>exchange = (\<lambda>r w. (Responded \<lparr>hs_status = 200, hs_headers = [], hs_body = BodyText ''ok''\<rparr>, w)),
      exchange_wait = (\<lambda>r w. (Inr \<lparr>hs_status = 200, hs_headers = [], hs_body = BodyText []\<rparr>, w)),
      clock = (\<lambda>w. 0), msg_to_string = (\<lambda>m. Inr ''{}''),
      json_of_string = (\<lambda>s. Some (Object [(''id'', Null), (''result'', Bool True)])),
      json_to_string = (\<lambda>j. []), http_parse_url = (\<lambda>s. Inl ''no url''),
      http_debug = \<lparr>debug_duration = (\<lambda>d. []), debug_strings = (\<lambda>ss. [])\<rparr>\<rparr>"

theorem stream_posts_in_session_witness:
  "snd (snd (snd (send_all (http_stream_ops (recording sample_http))
       [(request_without_params (IdNumber 1) ''tools/list'', None)] (sample_stream, (), []))))
   = [mcp_post sample_stream True ''{}'']"
proof -
  let ?rqs = "[(request_without_params (IdNumber 1) ''tools/list'', None :: duration option)]"
  obtain rs t' w' log' where run:
    "send_all (http_stream_ops (recording sample_http)) ?rqs (sample_stream, (), []) = (rs, t', w', log')"
    by (metis prod.exhaust_sel)
  from stream_posts_in_session [OF _ _ this]
  have "log' = [mcp_post sample_stream True ''{}'']"
    by (simp add: sample_stream_def request_without_params_def List.map_filter_simps posted_def
        sample_http_def)
  with run show ?thesis by simp
qed

end
