(* ===== verification/Interceptor.thy ===== *)
theory Interceptor
  imports Jsonrpc Identity
begin

text \<open>
  The message pipeline (\<open>acdp-core/src/interceptor.rs\<close>): message contexts, interception
  results, the interceptor trait as a record of operations over the states of the
  interceptors, and the manager that keeps interceptors in priority order, runs a message
  through them and counts what happened. A call reads clocks: \<open>env k\<close> is what the
  interceptor at position \<open>k\<close> reads. IEEE double arithmetic is the parameter record
  \<open>f64_ops\<close>; an \<open>f64\<close> is its bit pattern. Counters are \<open>u64\<close> and wrap as in the
  release profile. A panic of an interceptor ends the call with \<open>Panic\<close>.

  The abstract semantics \<open>ideal_run\<close> asks and runs every interceptor with the message as
  the earlier ones left it; the locale \<open>interceptor_contract\<close> states when the code
  implements it.
\<close>

section \<open>Data\<close>

type_synonym f64 = u64

record f64_ops =
  f_add :: "f64 \<Rightarrow> f64 \<Rightarrow> f64"
  f_mul :: "f64 \<Rightarrow> f64 \<Rightarrow> f64"
  f_div :: "f64 \<Rightarrow> f64 \<Rightarrow> f64"
  f_of_nat :: "nat \<Rightarrow> f64"

definition f64_zero :: f64 where
  "f64_zero = 0"

datatype MessageDirection = Outgoing | Incoming

record MessageContext =
  ctx_message :: JsonRpcMessage
  ctx_direction :: MessageDirection
  ctx_timestamp :: datetime
  ctx_session_id :: "string option"
  ctx_metadata :: "string \<rightharpoonup> json"

definition context_new :: "datetime \<Rightarrow> JsonRpcMessage \<Rightarrow> MessageDirection \<Rightarrow> MessageContext" where
  "context_new now m d = \<lparr>ctx_message = m, ctx_direction = d, ctx_timestamp = now,
     ctx_session_id = None, ctx_metadata = Map.empty\<rparr>"

definition ctx_method :: "MessageContext \<Rightarrow> string option" where
  "ctx_method c = (case ctx_message c of
     Request r \<Rightarrow> Some (req_method r) | Notification n \<Rightarrow> Some (notif_method n) | _ \<Rightarrow> None)"

definition ctx_id :: "MessageContext \<Rightarrow> string option" where
  "ctx_id c = (case ctx_message c of
     Request r \<Rightarrow> Some (request_id_display (req_id r))
   | Response r \<Rightarrow> Some (request_id_display (resp_id r)) | _ \<Rightarrow> None)"

record InterceptionResult =
  ir_modified :: bool
  ir_message :: JsonRpcMessage
  ir_block :: bool
  ir_reasoning :: "string option"
  ir_confidence :: "f64 option"

definition pass_through :: "JsonRpcMessage \<Rightarrow> InterceptionResult" where
  "pass_through m = \<lparr>ir_modified = False, ir_message = m, ir_block = False, ir_reasoning = None,
     ir_confidence = None\<rparr>"

definition modified :: "JsonRpcMessage \<Rightarrow> string \<Rightarrow> f64 \<Rightarrow> InterceptionResult" where
  "modified m r c = \<lparr>ir_modified = True, ir_message = m, ir_block = False, ir_reasoning = Some r,
     ir_confidence = Some c\<rparr>"

definition blocked :: "string \<Rightarrow> InterceptionResult" where
  "blocked r = \<lparr>ir_modified = False,
     ir_message = Notification \<lparr>notif_jsonrpc = ''2.0'', notif_method = ''blocked'',
                                notif_params = None\<rparr>,
     ir_block = True, ir_reasoning = Some r, ir_confidence = None\<rparr>"

text \<open>The trait: its methods over the type \<open>'i\<close> of interceptor states.\<close>

record ('i, 'e, 'err) interceptor_ops =
  i_name :: "'i \<Rightarrow> string"
  i_priority :: "'i \<Rightarrow> u32"
  i_should :: "'i \<Rightarrow> MessageContext \<Rightarrow> bool"
  i_intercept :: "'i \<Rightarrow> 'e \<Rightarrow> MessageContext \<Rightarrow> (('err + InterceptionResult) \<times> 'i) rust"

definition default_priority :: u32 where
  "default_priority = 50"

record InterceptorStats =
  total_intercepted :: u64
  total_modified :: u64
  total_blocked :: u64
  avg_processing_time_ms :: f64
  last_processed :: "datetime option"

definition InterceptorStats_default :: InterceptorStats where
  "InterceptorStats_default = \<lparr>total_intercepted = 0, total_modified = 0, total_blocked = 0,
     avg_processing_time_ms = f64_zero, last_processed = None\<rparr>"

record InterceptorManagerStats =
  total_messages_processed :: u64
  total_modifications_made :: u64
  total_messages_blocked :: u64
  mgr_avg_processing_time_ms :: f64
  messages_by_method :: "string \<rightharpoonup> u64"

definition InterceptorManagerStats_default :: InterceptorManagerStats where
  "InterceptorManagerStats_default = \<lparr>total_messages_processed = 0, total_modifications_made = 0,
     total_messages_blocked = 0, mgr_avg_processing_time_ms = f64_zero,
     messages_by_method = Map.empty\<rparr>"

record 'i InterceptorManager =
  interceptors :: "'i list"
  mgr_stats :: InterceptorManagerStats

record InterceptionMetadata =
  md_session_id :: "string option"
  md_extra :: "string \<rightharpoonup> json"

definition metadata_new :: InterceptionMetadata where
  "metadata_new = \<lparr>md_session_id = None, md_extra = Map.empty\<rparr>"

definition with_session_id :: "InterceptionMetadata \<Rightarrow> string \<Rightarrow> InterceptionMetadata" where
  "with_session_id m s = m\<lparr>md_session_id := Some s\<rparr>"

definition metadata_insert :: "InterceptionMetadata \<Rightarrow> string \<Rightarrow> json \<Rightarrow> InterceptionMetadata" where
  "metadata_insert m k v = m\<lparr>md_extra := (md_extra m)(k \<mapsto> v)\<rparr>"

section \<open>Registration\<close>

definition manager_new :: "'i InterceptorManager" where
  "manager_new = \<lparr>interceptors = [], mgr_stats = InterceptorManagerStats_default\<rparr>"

text \<open>\<open>Vec::sort_by_key\<close> is a stable sort, as \<open>sort_key\<close> is.\<close>

definition add_interceptor ::
  "('i, 'e, 'err) interceptor_ops \<Rightarrow> 'i InterceptorManager \<Rightarrow> 'i \<Rightarrow> 'i InterceptorManager" where
  "add_interceptor T M i = M\<lparr>interceptors := sort_key (i_priority T) (interceptors M @ [i])\<rparr>"

definition remove_interceptor ::
  "('i, 'e, 'err) interceptor_ops \<Rightarrow> 'i InterceptorManager \<Rightarrow> string \<Rightarrow> bool \<times> 'i InterceptorManager" where
  "remove_interceptor T M name =
     (let initial_len = length (interceptors M);
          M' = M\<lparr>interceptors := filter (\<lambda>i. i_name T i \<noteq> name) (interceptors M)\<rparr>
      in (length (interceptors M') \<noteq> initial_len, M'))"

definition list_interceptors :: "('i, 'e, 'err) interceptor_ops \<Rightarrow> 'i InterceptorManager \<Rightarrow> string list" where
  "list_interceptors T M = map (i_name T) (interceptors M)"

definition get_stats :: "'i InterceptorManager \<Rightarrow> InterceptorManagerStats" where
  "get_stats M = mgr_stats M"

section \<open>Processing\<close>

text \<open>The local variables of \<open>process_message_with_metadata\<close>.\<close>

record loop_state =
  ls_context :: MessageContext
  current_message :: JsonRpcMessage
  was_modified :: bool
  modification_reasoning :: "string list"
  confidence_sum :: f64
  confidence_count :: nat

definition take_modification :: "f64_ops \<Rightarrow> InterceptionResult \<Rightarrow> loop_state \<Rightarrow> loop_state" where
  "take_modification F r st =
     (if ir_modified r then
        st\<lparr>was_modified := True, current_message := ir_message r,
           modification_reasoning := (case ir_reasoning r of
               Some reason \<Rightarrow> modification_reasoning st @ [reason] | None \<Rightarrow> modification_reasoning st),
           confidence_sum := (case ir_confidence r of
               Some c \<Rightarrow> f_add F (confidence_sum st) c | None \<Rightarrow> confidence_sum st),
           confidence_count := (case ir_confidence r of
               Some _ \<Rightarrow> confidence_count st + 1 | None \<Rightarrow> confidence_count st)\<rparr>
      else st)"

abbreviation keep_state :: "'i \<Rightarrow> ('a \<times> 'i list) rust \<Rightarrow> ('a \<times> 'i list) rust" where
  "keep_state i \<equiv> map_rust (map_prod id (Cons i))"

text \<open>The loop over the interceptors. \<open>Inl\<close> is the early return of a blocking result, and
  every interceptor is given back in the state the call left it in.\<close>

fun run_interceptors ::
  "('i, 'e, 'err) interceptor_ops \<Rightarrow> f64_ops \<Rightarrow> (nat \<Rightarrow> 'e) \<Rightarrow> nat \<Rightarrow> 'i list \<Rightarrow> loop_state
     \<Rightarrow> ((InterceptionResult + loop_state) \<times> 'i list) rust" where
  "run_interceptors T F env k [] st = Done (Inr st, [])"
| "run_interceptors T F env k (i # is) st =
     (if i_should T i (ls_context st) then
        (let st = st\<lparr>ls_context := (ls_context st)\<lparr>ctx_message := current_message st\<rparr>\<rparr> in
         case i_intercept T i (env k) (ls_context st) of
           Panic \<Rightarrow> Panic
         | Done (Inr result, i') \<Rightarrow>
             if ir_block result then Done (Inl result, i' # is)
             else keep_state i' (run_interceptors T F env (Suc k) is (take_modification F result st))
         | Done (Inl e, i') \<Rightarrow> keep_state i' (run_interceptors T F env (Suc k) is st))
      else keep_state i (run_interceptors T F env (Suc k) is st))"

definition running_avg :: "f64_ops \<Rightarrow> f64 \<Rightarrow> u64 \<Rightarrow> nat \<Rightarrow> f64" where
  "running_avg F avg n elapsed =
     f_div F (f_add F (f_mul F avg (f_of_nat F (unat (n - 1)))) (f_of_nat F elapsed))
       (f_of_nat F (unat n))"

text \<open>What a built-in interceptor reads from clocks during a call, and its statistics update.\<close>

record call_env =
  at_check :: int
  at_rate :: int
  at_utc :: datetime
  at_elapsed :: nat

definition note_call :: "f64_ops \<Rightarrow> call_env \<Rightarrow> InterceptorStats \<Rightarrow> InterceptorStats" where
  "note_call F e s =
     (let s = s\<lparr>total_intercepted := total_intercepted s + 1\<rparr>;
          s = s\<lparr>last_processed := Some (at_utc e)\<rparr>
      in s\<lparr>avg_processing_time_ms :=
             running_avg F (avg_processing_time_ms s) (total_intercepted s) (at_elapsed e)\<rparr>)"

text \<open>\<open>elapsed\<close> is the measured time in milliseconds.\<close>

definition record_blocked :: "f64_ops \<Rightarrow> nat \<Rightarrow> InterceptorManagerStats \<Rightarrow> InterceptorManagerStats" where
  "record_blocked F elapsed s =
     (let s = s\<lparr>total_messages_processed := total_messages_processed s + 1\<rparr>;
          s = s\<lparr>total_messages_blocked := total_messages_blocked s + 1\<rparr>
      in s\<lparr>mgr_avg_processing_time_ms :=
             running_avg F (mgr_avg_processing_time_ms s) (total_messages_processed s) elapsed\<rparr>)"

definition record_passed ::
  "f64_ops \<Rightarrow> nat \<Rightarrow> bool \<Rightarrow> string option \<Rightarrow> InterceptorManagerStats \<Rightarrow> InterceptorManagerStats" where
  "record_passed F elapsed was_mod method s =
     (let s = s\<lparr>total_messages_processed := total_messages_processed s + 1\<rparr>;
          s = (if was_mod then s\<lparr>total_modifications_made := total_modifications_made s + 1\<rparr> else s);
          s = s\<lparr>mgr_avg_processing_time_ms :=
                running_avg F (mgr_avg_processing_time_ms s) (total_messages_processed s) elapsed\<rparr>
      in case method of
           Some m \<Rightarrow> s\<lparr>messages_by_method := (messages_by_method s)(m \<mapsto>
                        (case messages_by_method s m of Some n \<Rightarrow> n | None \<Rightarrow> 0) + 1)\<rparr>
         | None \<Rightarrow> s)"

definition final_result :: "f64_ops \<Rightarrow> loop_state \<Rightarrow> InterceptionResult" where
  "final_result F st =
     (let final_confidence =
            (if confidence_count st > 0
             then f_div F (confidence_sum st) (f_of_nat F (confidence_count st)) else f64_zero)
      in if was_modified st
         then modified (current_message st) (join_strings ''; '' (modification_reasoning st)) final_confidence
         else pass_through (current_message st))"

definition initial_loop :: "datetime \<Rightarrow> JsonRpcMessage \<Rightarrow> MessageDirection \<Rightarrow> InterceptionMetadata \<Rightarrow> loop_state"
  where
  "initial_loop now m d md =
     (let context = context_new now m d;
          context = context\<lparr>ctx_session_id := md_session_id md\<rparr>;
          context = context\<lparr>ctx_metadata := ctx_metadata context ++ md_extra md\<rparr>
      in \<lparr>ls_context = context, current_message = m, was_modified = False,
          modification_reasoning = [], confidence_sum = f64_zero, confidence_count = 0\<rparr>)"

definition process_message_with_metadata ::
  "('i, 'e, 'err) interceptor_ops \<Rightarrow> f64_ops \<Rightarrow> (nat \<Rightarrow> 'e) \<Rightarrow> datetime \<Rightarrow> nat \<Rightarrow> 'i InterceptorManager
     \<Rightarrow> JsonRpcMessage \<Rightarrow> MessageDirection \<Rightarrow> InterceptionMetadata
     \<Rightarrow> (('err + InterceptionResult) \<times> 'i InterceptorManager) rust" where
  "process_message_with_metadata T F env now elapsed M m d md =
     (case run_interceptors T F env 0 (interceptors M) (initial_loop now m d md) of
        Panic \<Rightarrow> Panic
      | Done (Inl result, is) \<Rightarrow>
          Done (Inr result, M\<lparr>interceptors := is, mgr_stats := record_blocked F elapsed (mgr_stats M)\<rparr>)
      | Done (Inr st, is) \<Rightarrow>
          Done (Inr (final_result F st),
            M\<lparr>interceptors := is,
              mgr_stats := record_passed F elapsed (was_modified st) (ctx_method (ls_context st))
                             (mgr_stats M)\<rparr>))"

definition process_message ::
  "('i, 'e, 'err) interceptor_ops \<Rightarrow> f64_ops \<Rightarrow> (nat \<Rightarrow> 'e) \<Rightarrow> datetime \<Rightarrow> nat \<Rightarrow> 'i InterceptorManager
     \<Rightarrow> JsonRpcMessage \<Rightarrow> MessageDirection \<Rightarrow> (('err + InterceptionResult) \<times> 'i InterceptorManager) rust"
  where
  "process_message T F env now elapsed M m d =
     process_message_with_metadata T F env now elapsed M m d metadata_new"

section \<open>Abstract semantics\<close>

text \<open>The pipeline as the trait documents it: an interceptor is asked about, and given, the
  message as the earlier ones left it. The accumulator holds the modifying results.\<close>

fun ideal_run ::
  "('i, 'e, 'err) interceptor_ops \<Rightarrow> (nat \<Rightarrow> 'e) \<Rightarrow> nat \<Rightarrow> 'i list \<Rightarrow> MessageContext
     \<Rightarrow> InterceptionResult list
     \<Rightarrow> ((InterceptionResult + MessageContext \<times> InterceptionResult list) \<times> 'i list) rust" where
  "ideal_run T env k [] c acc = Done (Inr (c, acc), [])"
| "ideal_run T env k (i # is) c acc =
     (if i_should T i c then
        (case i_intercept T i (env k) c of
           Panic \<Rightarrow> Panic
         | Done (Inr r, i') \<Rightarrow>
             if ir_block r then Done (Inl r, i' # is)
             else keep_state i' (ideal_run T env (Suc k) is
                    (if ir_modified r then c\<lparr>ctx_message := ir_message r\<rparr> else c)
                    (if ir_modified r then acc @ [r] else acc))
         | Done (Inl e, i') \<Rightarrow> keep_state i' (ideal_run T env (Suc k) is c acc))
      else keep_state i (ideal_run T env (Suc k) is c acc))"

definition ideal_result ::
  "f64_ops \<Rightarrow> InterceptionResult + MessageContext \<times> InterceptionResult list \<Rightarrow> InterceptionResult" where
  "ideal_result F x = (case x of
     Inl r \<Rightarrow> r
   | Inr (c, acc) \<Rightarrow>
       if acc = [] then pass_through (ctx_message c)
       else modified (ctx_message c) (join_strings ''; '' (List.map_filter ir_reasoning acc))
         (let cs = List.map_filter ir_confidence acc in
          if cs = [] then f64_zero
          else f_div F (foldl (f_add F) f64_zero cs) (f_of_nat F (length cs))))"

section \<open>Lemmas\<close>

lemma map_rust_Done: "map_rust f x = Done b \<longleftrightarrow> (\<exists>a. x = Done a \<and> f a = b)"
  by (cases x) auto

lemma map_filter_append:
  "List.map_filter f (xs @ ys) = List.map_filter f xs @ List.map_filter f ys"
  by (simp add: List.map_filter_def)

lemma map_filter_single:
  "List.map_filter f [x] = (case f x of Some y \<Rightarrow> [y] | None \<Rightarrow> [])"
  by (simp add: List.map_filter_simps split: option.split)

text \<open>Stable insertion by priority: after every element that may stay before the new one.\<close>

lemma sort_key_snoc:
  fixes f :: "'i \<Rightarrow> 'k::linorder"
  assumes "sorted (map f xs)"
  shows "sort_key f (xs @ [x])
    = takeWhile (\<lambda>y. f y \<le> f x) xs @ x # dropWhile (\<lambda>y. f y \<le> f x) xs"
  using assms
proof (induction xs)
  case Nil
  then show ?case by simp
next
  case (Cons y ys)
  let ?P = "\<lambda>y. f y \<le> f x"
  have IH: "sort_key f (ys @ [x]) = takeWhile ?P ys @ x # dropWhile ?P ys"
    and ge: "\<forall>z\<in>set ys. f y \<le> f z"
    using Cons by auto
  show ?case
  proof (cases "?P y")
    case True
    have "\<forall>z\<in>set (takeWhile ?P ys @ x # dropWhile ?P ys). f y \<le> f z"
      using ge True by (auto dest: set_takeWhileD set_dropWhileD)
    with True show ?thesis by (simp add: IH insort_is_Cons)
  next
    case False
    with ge have none: "takeWhile ?P ys = []" "dropWhile ?P ys = ys"
      by (cases ys; force)+
    from False ge show ?thesis by (simp add: IH none insort_is_Cons)
  qed
qed

section \<open>The contract\<close>

text \<open>What the pipeline needs of its interceptors: processing a message changes neither name nor
  priority; the decision to take part depends on the message only through its method; and a
  modification keeps the method.\<close>

locale interceptor_contract =
  fixes T :: "('i, 'e, 'err) interceptor_ops"
  assumes keeps_identity: "i_intercept T i e c = Done (res, i') \<Longrightarrow>
      i_name T i' = i_name T i \<and> i_priority T i' = i_priority T i"
    and should_by_method: "ctx_method c = ctx_method (c\<lparr>ctx_message := m\<rparr>) \<Longrightarrow>
      i_should T i (c\<lparr>ctx_message := m\<rparr>) = i_should T i c"
    and keeps_method: "i_intercept T i e c = Done (Inr r, i') \<Longrightarrow> ir_modified r \<Longrightarrow>
      ctx_method (c\<lparr>ctx_message := ir_message r\<rparr>) = ctx_method c"
begin

text \<open>The loop state represents a context and the modifying results so far.\<close>

definition represents :: "f64_ops \<Rightarrow> loop_state \<Rightarrow> MessageContext \<Rightarrow> InterceptionResult list \<Rightarrow> bool" where
  "represents F st c acc \<longleftrightarrow>
     c = (ls_context st)\<lparr>ctx_message := current_message st\<rparr>
     \<and> ctx_method c = ctx_method (ls_context st)
     \<and> was_modified st = (acc \<noteq> [])
     \<and> modification_reasoning st = List.map_filter ir_reasoning acc
     \<and> confidence_sum st = foldl (f_add F) f64_zero (List.map_filter ir_confidence acc)
     \<and> confidence_count st = length (List.map_filter ir_confidence acc)"

lemma represents_result:
  "represents F st c acc \<Longrightarrow> final_result F st = ideal_result F (Inr (c, acc))"
  by (auto simp: represents_def final_result_def ideal_result_def Let_def)

lemma represents_refresh:
  "represents F st c acc \<Longrightarrow>
   represents F (st\<lparr>ls_context := (ls_context st)\<lparr>ctx_message := current_message st\<rparr>\<rparr>) c acc"
  by (simp add: represents_def ctx_method_def)

lemma represents_take:
  assumes "represents F st c acc" and "ls_context st = c" and "i_intercept T i e c = Done (Inr r, i')"
  shows "represents F (take_modification F r st)
    (if ir_modified r then c\<lparr>ctx_message := ir_message r\<rparr> else c)
    (if ir_modified r then acc @ [r] else acc)"
  using assms keeps_method [OF assms(3)]
  by (auto simp: represents_def take_modification_def map_filter_append map_filter_single
      split: option.splits)

lemma ls_context_take [simp]: "ls_context (take_modification F r st) = ls_context st"
  by (simp add: take_modification_def)

text \<open>The loop refines the abstract semantics: the same blocking result or panic, represented
  results otherwise, and the same final interceptor states.\<close>

definition agree ::
  "f64_ops \<Rightarrow> ((InterceptionResult + loop_state) \<times> 'i list) rust
     \<Rightarrow> ((InterceptionResult + MessageContext \<times> InterceptionResult list) \<times> 'i list) rust \<Rightarrow> bool" where
  "agree F x y = (case (x, y) of
     (Panic, Panic) \<Rightarrow> True
   | (Done (Inl r, js), Done (Inl r', js')) \<Rightarrow> r = r' \<and> js = js'
   | (Done (Inr st, js), Done (Inr (c, acc), js')) \<Rightarrow> represents F st c acc \<and> js = js'
   | _ \<Rightarrow> False)"

lemma agreeE:
  assumes "agree F x y"
  obtains "x = Panic" "y = Panic"
  | r js where "x = Done (Inl r, js)" "y = Done (Inl r, js)"
  | st c acc js where "x = Done (Inr st, js)" "y = Done (Inr (c, acc), js)" "represents F st c acc"
  using assms
  by (cases x; cases y) (auto simp: agree_def split: prod.splits sum.splits)

lemma agree_keep_state: "agree F x y \<Longrightarrow> agree F (keep_state i x) (keep_state i y)"
  by (cases x; cases y) (auto simp: agree_def split: prod.splits sum.splits)

lemma run_refines:
  "represents F st c acc \<Longrightarrow>
   agree F (run_interceptors T F env k is st) (ideal_run T env k is c acc)"
proof (induction "is" arbitrary: k st c acc)
  case Nil
  then show ?case by (simp add: agree_def)
next
  case (Cons i "is")
  let ?st = "st\<lparr>ls_context := (ls_context st)\<lparr>ctx_message := current_message st\<rparr>\<rparr>"
  have c: "ls_context ?st = c" and st: "represents F ?st c acc"
    using Cons.prems represents_refresh by (auto simp: represents_def)
  have should: "i_should T i (ls_context st) = i_should T i c"
    using Cons.prems should_by_method [of "ls_context st" "current_message st"]
    by (auto simp: represents_def)
  show ?case
  proof (cases "i_should T i c")
    case False
    with Cons.IH [OF Cons.prems] should show ?thesis by (simp add: agree_keep_state)
  next
    case True
    show ?thesis
    proof (cases "i_intercept T i (env k) c")
      case Panic
      with True should c show ?thesis by (simp add: agree_def)
    next
      case (Done x)
      obtain res i' where x: "x = (res, i')" by (cases x)
      show ?thesis
      proof (cases res)
        case (Inl e)
        with True Done x should c Cons.IH [OF st] show ?thesis by (simp add: agree_keep_state)
      next
        case (Inr r)
        with Done x have i: "i_intercept T i (env k) c = Done (Inr r, i')" by simp
        have "agree F (Done (Inl r, i' # is)) (Done (Inl r, i' # is))" by (simp add: agree_def)
        with agree_keep_state [OF Cons.IH [OF represents_take [OF st c i]]] i True should c
        show ?thesis by simp
      qed
    qed
  qed
qed

lemma run_keeps_identity:
  "run_interceptors T F env k is st = Done (out, js) \<Longrightarrow>
   map (i_name T) js = map (i_name T) is \<and> map (i_priority T) js = map (i_priority T) is"
proof (induction "is" arbitrary: k st out js)
  case Nil
  then show ?case by simp
next
  case (Cons i "is")
  then show ?case
    by (fastforce simp: map_rust_Done Let_def dest: keeps_identity
        split: if_splits rust.splits prod.splits sum.splits)
qed

text \<open>The result of a whole call, and what it leaves of the registered interceptors.\<close>

lemma initial_represents: "represents F (initial_loop now m d md) (ls_context (initial_loop now m d md)) []"
  by (simp add: represents_def initial_loop_def Let_def context_new_def List.map_filter_def)

lemma process_refines:
  "map_rust fst (process_message_with_metadata T F env now elapsed M m d md)
     = map_rust (\<lambda>(x, _). Inr (ideal_result F x))
         (ideal_run T env 0 (interceptors M) (ls_context (initial_loop now m d md)) [])"
  using run_refines [OF initial_represents, of F env 0 "interceptors M" now m d md]
  by (cases rule: agreeE)
    (simp_all add: process_message_with_metadata_def represents_result, simp add: ideal_result_def)

lemma process_keeps_identity:
  assumes "process_message_with_metadata T F env now elapsed M m d md = Done (r, M')"
  shows "list_interceptors T M' = list_interceptors T M"
    "map (i_priority T) (interceptors M') = map (i_priority T) (interceptors M)"
  using assms run_keeps_identity
  by (fastforce simp: process_message_with_metadata_def list_interceptors_def
      split: rust.splits prod.splits sum.splits)+

end

section \<open>Managers over time\<close>

text \<open>What clients of a manager do to it.\<close>

datatype ('i, 'e) manager_call =
    Add 'i
  | Remove string
  | Process "nat \<Rightarrow> 'e" datetime nat JsonRpcMessage MessageDirection InterceptionMetadata

inductive manager_step ::
  "('i, 'e, 'err) interceptor_ops \<Rightarrow> f64_ops \<Rightarrow> ('i, 'e) manager_call \<Rightarrow> 'i InterceptorManager
     \<Rightarrow> 'i InterceptorManager \<Rightarrow> bool" for T F where
  "manager_step T F (Add i) M (add_interceptor T M i)"
| "manager_step T F (Remove n) M (snd (remove_interceptor T M n))"
| "process_message_with_metadata T F env now elapsed M m d md = Done (r, M')
   \<Longrightarrow> manager_step T F (Process env now elapsed m d md) M M'"

inductive manager_run ::
  "('i, 'e, 'err) interceptor_ops \<Rightarrow> f64_ops \<Rightarrow> ('i, 'e) manager_call list \<Rightarrow> 'i InterceptorManager \<Rightarrow> bool"
  for T F where
  "manager_run T F [] manager_new"
| "manager_run T F calls M \<Longrightarrow> manager_step T F call M M' \<Longrightarrow> manager_run T F (calls @ [call]) M'"

inductive_cases manager_stepE [elim]: "manager_step T F call M M'"

definition by_priority :: "('i, 'e, 'err) interceptor_ops \<Rightarrow> 'i InterceptorManager \<Rightarrow> bool" where
  "by_priority T M \<longleftrightarrow> sorted (map (i_priority T) (interceptors M))"

lemma add_by_priority: "by_priority T (add_interceptor T M i)"
  by (simp add: by_priority_def add_interceptor_def)

lemma remove_by_priority: "by_priority T M \<Longrightarrow> by_priority T (snd (remove_interceptor T M n))"
  by (simp add: by_priority_def remove_interceptor_def Let_def sorted_filter)

context interceptor_contract
begin

lemma step_by_priority: "manager_step T F call M M' \<Longrightarrow> by_priority T M \<Longrightarrow> by_priority T M'"
  by (cases rule: manager_step.cases, assumption)
    (simp_all add: add_by_priority remove_by_priority, simp add: by_priority_def process_keeps_identity)

lemma run_by_priority: "manager_run T F calls M \<Longrightarrow> by_priority T M"
  by (induction rule: manager_run.induct)
    (auto simp: by_priority_def manager_new_def intro: step_by_priority [unfolded by_priority_def])

end

text \<open>The counters of a manager against the calls it has served.\<close>

definition is_process :: "('i, 'e) manager_call \<Rightarrow> bool" where
  "is_process call = (case call of Process _ _ _ _ _ _ \<Rightarrow> True | _ \<Rightarrow> False)"

definition counts_bounded :: "nat \<Rightarrow> InterceptorManagerStats \<Rightarrow> bool" where
  "counts_bounded n s \<longleftrightarrow> unat (total_messages_processed s) = n
     \<and> unat (total_messages_blocked s) + unat (total_modifications_made s) \<le> n
     \<and> (\<forall>m k. messages_by_method s m = Some k \<longrightarrow> unat k + unat (total_messages_blocked s) \<le> n)"

lemma unat_suc: "unat (w :: u64) < 2 ^ 64 - 1 \<Longrightarrow> unat (w + 1) = unat w + 1"
  by (rule unat_add_1_less [where y = "- 1"])
    (simp add: word_less_nat_alt unsigned_minus_1_eq_mask mask_eq_exp_minus_1)

lemma counts_blocked:
  assumes "counts_bounded n s" and "n < 2 ^ 64 - 1"
  shows "counts_bounded (n + 1) (record_blocked F elapsed s)"
  using assms by (fastforce simp: counts_bounded_def record_blocked_def unat_suc)

lemma counts_passed:
  assumes "counts_bounded n s" and "n < 2 ^ 64 - 1"
  shows "counts_bounded (n + 1) (record_passed F elapsed was_mod meth s)"
proof -
  have "unat (k + 1) + unat (total_messages_blocked s) \<le> n + 1"
    if "messages_by_method s m = Some k" for m k
    using that assms by (fastforce simp: counts_bounded_def unat_suc)
  with assms show ?thesis
    by (fastforce simp: counts_bounded_def record_passed_def Let_def unat_suc split: option.splits)
qed

lemma process_counts:
  assumes "process_message_with_metadata T F env now elapsed M m d md = Done (r, M')"
    and "counts_bounded n (mgr_stats M)" and "n < 2 ^ 64 - 1"
  shows "counts_bounded (n + 1) (mgr_stats M')"
  using assms counts_blocked [OF assms(2,3)] counts_passed [OF assms(2,3)]
  by (auto simp: process_message_with_metadata_def split: rust.splits prod.splits sum.splits)

section \<open>Properties\<close>

text \<open>Counters. After any sequence of calls with fewer than \<open>2 ^ 64\<close> messages, the
  manager has counted every message once; blocked and modified messages are disjoint parts
  of them, and a blocked message is counted under no method.\<close>

theorem manager_counts:
  assumes "manager_run T F calls M" and "length (filter is_process calls) < 2 ^ 64"
  shows "counts_bounded (length (filter is_process calls)) (mgr_stats M)"
  using assms
proof (induction rule: manager_run.induct)
  case 1
  then show ?case
    by (simp add: counts_bounded_def manager_new_def InterceptorManagerStats_default_def)
next
  case (2 calls M call M')
  from 2(2) show ?case
  proof cases
    case (3 env now elapsed m d md r)
    with 2 process_counts [OF 3(2)] show ?thesis by (simp add: is_process_def)
  qed (use 2 in \<open>simp_all add: is_process_def add_interceptor_def remove_interceptor_def Let_def\<close>)
qed

text \<open>Two interceptors for the examples: one rewrites the method \<open>a\<close> to \<open>b\<close>, the other
  blocks the method \<open>b\<close>.\<close>

datatype example_interceptor = Rewriter | Guard

definition example_message :: "string \<Rightarrow> JsonRpcMessage" where
  "example_message m = Notification (notification_without_params m)"

definition example_ops :: "(example_interceptor, unit, string) interceptor_ops" where
  "example_ops = \<lparr>i_name = (\<lambda>i. case i of Rewriter \<Rightarrow> ''rewriter'' | Guard \<Rightarrow> ''guard''),
     i_priority = (\<lambda>_. default_priority),
     i_should = (\<lambda>i c. ctx_method c = Some (case i of Rewriter \<Rightarrow> ''a'' | Guard \<Rightarrow> ''b'')),
     i_intercept = (\<lambda>i _ c. Done (Inr (case i of
        Rewriter \<Rightarrow> modified (example_message ''b'') ''renamed'' f64_zero
      | Guard \<Rightarrow> blocked ''forbidden''), i))\<rparr>"

definition example_f64 :: f64_ops where
  "example_f64 = \<lparr>f_add = (+), f_mul = (*), f_div = (div), f_of_nat = of_nat\<rparr>"

definition example_manager :: "example_interceptor InterceptorManager" where
  "example_manager = add_interceptor example_ops (add_interceptor example_ops manager_new Rewriter) Guard"

lemma example_interceptors: "interceptors example_manager = [Rewriter, Guard]"
  by (simp add: example_manager_def add_interceptor_def manager_new_def example_ops_def)

lemma example_ops_sel:
  "i_should example_ops i c
     \<longleftrightarrow> ctx_method c = Some (case i of Rewriter \<Rightarrow> ''a'' | Guard \<Rightarrow> ''b'')"
  "i_intercept example_ops i u c = Done (Inr (case i of
     Rewriter \<Rightarrow> modified (example_message ''b'') ''renamed'' f64_zero
   | Guard \<Rightarrow> blocked ''forbidden''), i)"
  by (simp_all add: example_ops_def)

lemmas example_defs = example_ops_sel example_message_def notification_without_params_def
  ctx_method_def modified_def blocked_def take_modification_def initial_loop_def context_new_def
  metadata_new_def

theorem manager_counts_witness:
  "\<exists>M. manager_run example_ops example_f64
      [Add Rewriter, Process (\<lambda>_. ()) 0 1 (example_message ''a'') Outgoing metadata_new] M
    \<and> counts_bounded 1 (mgr_stats M)"
proof -
  let ?M = "add_interceptor example_ops manager_new Rewriter"
  have i: "interceptors ?M = [Rewriter]" by (simp add: add_interceptor_def manager_new_def)
  obtain r M where p: "process_message_with_metadata example_ops example_f64 (\<lambda>_. ()) 0 1 ?M
      (example_message ''a'') Outgoing metadata_new = Done (r, M)"
    by (simp add: process_message_with_metadata_def i example_defs)
  have "manager_run example_ops example_f64 ([] @ [Add Rewriter]) ?M"
    by (rule manager_run.intros(2) [OF manager_run.intros(1) manager_step.intros(1)])
  then have "manager_run example_ops example_f64 (([] @ [Add Rewriter])
      @ [Process (\<lambda>_. ()) 0 1 (example_message ''a'') Outgoing metadata_new]) M"
    by (rule manager_run.intros) (rule manager_step.intros(3) [OF p])
  then have r: "manager_run example_ops example_f64
      [Add Rewriter, Process (\<lambda>_. ()) 0 1 (example_message ''a'') Outgoing metadata_new] M"
    by simp
  from manager_counts [OF r] r show ?thesis by (auto simp: is_process_def)
qed

text \<open>Registration order. In a manager whose interceptors are in priority order, a new
  interceptor is placed directly after all those of lower or equal priority, so the order
  stays sorted and equal priorities keep their order of registration.\<close>

lemma add_interceptor_position:
  assumes "by_priority T M"
  shows "interceptors (add_interceptor T M i) =
      takeWhile (\<lambda>j. i_priority T j \<le> i_priority T i) (interceptors M)
      @ i # dropWhile (\<lambda>j. i_priority T j \<le> i_priority T i) (interceptors M)"
    and "by_priority T (add_interceptor T M i)"
  using assms add_by_priority [of T M i]
  by (simp_all add: by_priority_def add_interceptor_def sort_key_snoc)

text \<open>An interceptor is asked about a stale message. \<open>should_intercept\<close> is called before
  the context is refreshed. When one interceptor rewrites a message to a method that the
  next one blocks, the next one is asked about the old method: the forbidden message goes
  through, and is counted under its old method, although with the current message in the
  context it would have been blocked.\<close>

theorem stale_context_misses_block:
  "(\<exists>M'. process_message example_ops example_f64 (\<lambda>_. ()) 0 1 example_manager
        (example_message ''a'') Outgoing
      = Done (Inr (modified (example_message ''b'') ''renamed'' (f_div example_f64 0 1)), M')
    \<and> messages_by_method (mgr_stats M') ''a'' = Some 1
    \<and> messages_by_method (mgr_stats M') ''b'' = None)
    \<and> (\<exists>js. ideal_run example_ops (\<lambda>_. ()) 0 (interceptors example_manager)
        (ls_context (initial_loop 0 (example_message ''a'') Outgoing metadata_new)) []
      = Done (Inl (blocked ''forbidden''), js))"
proof (intro conjI impI)
  have s: "mgr_stats example_manager = InterceptorManagerStats_default"
    by (simp add: example_manager_def add_interceptor_def manager_new_def)
  show "\<exists>M'. process_message example_ops example_f64 (\<lambda>_. ()) 0 1 example_manager
        (example_message ''a'') Outgoing
      = Done (Inr (modified (example_message ''b'') ''renamed'' (f_div example_f64 0 1)), M')
    \<and> messages_by_method (mgr_stats M') ''a'' = Some 1
    \<and> messages_by_method (mgr_stats M') ''b'' = None"
    by (simp add: process_message_def process_message_with_metadata_def example_interceptors s
        example_defs final_result_def record_passed_def InterceptorManagerStats_default_def
        example_f64_def f64_zero_def Let_def)
  show "\<exists>js. ideal_run example_ops (\<lambda>_. ()) 0 (interceptors example_manager)
        (ls_context (initial_loop 0 (example_message ''a'') Outgoing metadata_new)) []
      = Done (Inl (blocked ''forbidden''), js)"
    by (simp add: example_interceptors example_defs)
qed

end
