(* ===== verification/Client.thy ===== *)
theory Client
  imports Http_Stream Interceptor
begin

text \<open>
  The MCP client (\<open>acdp-core/src/client.rs\<close>) with the initialisation messages it sends and
  reads (\<open>messages/mod.rs\<close>, \<open>messages/initialization.rs\<close>). The client is generic in its
  transport (\<open>transport_ops\<close>) and in its interceptors; \<open>serde\<close> conversions are parameters.
  A call of the interceptor manager reads clocks (\<open>icall\<close>). Sleeping between attempts is
  recorded as the list of delays. \<open>checks\<close> tells whether the build has overflow checks.
\<close>

section \<open>Initialisation messages\<close>

datatype ProtocolVersion = V2024_11_05 | V2025_03_26 | Custom string

primrec version_as_str :: "ProtocolVersion \<Rightarrow> string" where
  "version_as_str V2024_11_05 = ''2024-11-05''"
| "version_as_str V2025_03_26 = ''2025-03-26''"
| "version_as_str (Custom version) = version"

definition version_is_supported :: "ProtocolVersion \<Rightarrow> bool" where
  "version_is_supported v = (case v of V2024_11_05 \<Rightarrow> True | V2025_03_26 \<Rightarrow> True | _ \<Rightarrow> False)"

definition supported_versions :: "ProtocolVersion list" where
  "supported_versions = [V2024_11_05, V2025_03_26]"

definition ProtocolVersion_default :: ProtocolVersion where
  "ProtocolVersion_default = V2025_03_26"

record ToolCapabilities =
  tool_list_changed :: "bool option"

record ResourceCapabilities =
  res_subscribe :: "bool option"
  res_list_changed :: "bool option"

record PromptCapabilities =
  prompt_list_changed :: "bool option"

record SamplingCapabilities =
  sampling_enabled :: "bool option"

record LoggingCapabilities =
  logging_level :: "bool option"

record RootsCapabilities =
  roots_list_changed :: "bool option"

record StandardCapabilities =
  sc_tools :: "ToolCapabilities option"
  sc_resources :: "ResourceCapabilities option"
  sc_prompts :: "PromptCapabilities option"
  sc_sampling :: "SamplingCapabilities option"
  sc_logging :: "LoggingCapabilities option"
  sc_roots :: "RootsCapabilities option"

definition StandardCapabilities_default :: StandardCapabilities where
  "StandardCapabilities_default = \<lparr>sc_tools = None, sc_resources = None, sc_prompts = None,
     sc_sampling = None, sc_logging = None, sc_roots = None\<rparr>"

record Capabilities =
  cap_standard :: StandardCapabilities
  cap_custom :: "string \<rightharpoonup> json"

record Implementation =
  impl_name :: string
  impl_version :: string
  impl_metadata :: "string \<rightharpoonup> json"

definition Implementation_new :: "string \<Rightarrow> string \<Rightarrow> Implementation" where
  "Implementation_new n v = \<lparr>impl_name = n, impl_version = v, impl_metadata = Map.empty\<rparr>"

definition impl_with_metadata :: "string \<Rightarrow> json \<Rightarrow> Implementation \<Rightarrow> Implementation" where
  "impl_with_metadata k v i = i\<lparr>impl_metadata := (impl_metadata i)(k \<mapsto> v)\<rparr>"

record InitializeRequest =
  ireq_version :: ProtocolVersion
  ireq_capabilities :: Capabilities
  ireq_client_info :: Implementation

record InitializeResponse =
  iresp_version :: ProtocolVersion
  iresp_capabilities :: Capabilities
  iresp_server_info :: Implementation
  iresp_instructions :: "string option"

definition InitializeRequest_new ::
  "ProtocolVersion \<Rightarrow> Capabilities \<Rightarrow> Implementation \<Rightarrow> InitializeRequest" where
  "InitializeRequest_new v c i = \<lparr>ireq_version = v, ireq_capabilities = c, ireq_client_info = i\<rparr>"

definition Capabilities_default :: Capabilities where
  "Capabilities_default = \<lparr>cap_standard = StandardCapabilities_default, cap_custom = Map.empty\<rparr>"

definition init_request_basic :: "string \<Rightarrow> string \<Rightarrow> InitializeRequest" where
  "init_request_basic n v =
     InitializeRequest_new ProtocolVersion_default Capabilities_default (Implementation_new n v)"

definition with_client_metadata :: "string \<Rightarrow> json \<Rightarrow> InitializeRequest \<Rightarrow> InitializeRequest" where
  "with_client_metadata k v r = r\<lparr>ireq_client_info := impl_with_metadata k v (ireq_client_info r)\<rparr>"

definition is_supported_version :: "InitializeRequest \<Rightarrow> bool" where
  "is_supported_version r = version_is_supported (ireq_version r)"

definition InitializeResponse_new ::
  "ProtocolVersion \<Rightarrow> Capabilities \<Rightarrow> Implementation \<Rightarrow> string option \<Rightarrow> InitializeResponse" where
  "InitializeResponse_new v c i ins = \<lparr>iresp_version = v, iresp_capabilities = c,
     iresp_server_info = i, iresp_instructions = ins\<rparr>"

definition init_response_basic :: "string \<Rightarrow> string \<Rightarrow> InitializeResponse" where
  "init_response_basic n v =
     InitializeResponse_new ProtocolVersion_default Capabilities_default (Implementation_new n v) None"

definition with_instructions :: "string \<Rightarrow> InitializeResponse \<Rightarrow> InitializeResponse" where
  "with_instructions s r = r\<lparr>iresp_instructions := Some s\<rparr>"

definition with_server_metadata :: "string \<Rightarrow> json \<Rightarrow> InitializeResponse \<Rightarrow> InitializeResponse" where
  "with_server_metadata k v r = r\<lparr>iresp_server_info := impl_with_metadata k v (iresp_server_info r)\<rparr>"

section \<open>Client state\<close>

record ClientConfig =
  request_timeout :: duration
  init_timeout :: duration
  max_retries :: u32
  retry_base_delay :: duration
  auto_handle_notifications :: bool
  message_buffer_size :: nat

definition ClientConfig_default :: ClientConfig where
  "ClientConfig_default = \<lparr>request_timeout = secs 30, init_timeout = secs 10, max_retries = 3,
     retry_base_delay = secs 1, auto_handle_notifications = True, message_buffer_size = 1000\<rparr>"

datatype ClientState = Disconnected | Connecting | Initializing | Ready | Error string

record ServerInfo =
  si_implementation :: Implementation
  si_protocol_version :: ProtocolVersion
  si_capabilities :: Capabilities

record ClientStats =
  requests_sent :: u64
  responses_received :: u64
  notifications_sent :: u64
  notifications_received :: u64
  errors :: u64
  retries :: u64
  connection_attempts :: u64

definition ClientStats_default :: ClientStats where
  "ClientStats_default = \<lparr>requests_sent = 0, responses_received = 0, notifications_sent = 0,
     notifications_received = 0, errors = 0, retries = 0, connection_attempts = 0\<rparr>"

text \<open>The waiting callers of \<open>pending_requests\<close> are named by their request identifiers.\<close>

record ('t, 'i) McpClient =
  cl_transport :: 't
  cl_config :: ClientConfig
  cl_state :: ClientState
  cl_server_info :: "ServerInfo option"
  cl_stats :: ClientStats
  request_counter :: u64
  pending_requests :: "string list"
  interceptor_manager :: "'i InterceptorManager"
  cl_session_id :: "string option"

record ('t, 'i, 'e) client_env =
  ce_transport :: "'t transport_ops"
  ce_interceptors :: "('i, 'e, McpError) interceptor_ops"
  ce_f64 :: f64_ops
  ce_checks :: bool
  ce_debug :: debug_fmt
  ce_init_to_value :: "InitializeRequest \<Rightarrow> string + json"
  ce_init_from_value :: "json \<Rightarrow> string + InitializeResponse"
  ce_initialized_to_value :: "string + json"

text \<open>What one call of the manager reads from clocks.\<close>

record 'e icall =
  ic_env :: "nat \<Rightarrow> 'e"
  ic_now :: datetime
  ic_elapsed :: nat

definition McpClient_new :: "'t \<Rightarrow> ClientConfig \<Rightarrow> ('t, 'i) McpClient" where
  "McpClient_new transport config =
     \<lparr>cl_transport = transport, cl_config = config, cl_state = Disconnected, cl_server_info = None,
      cl_stats = ClientStats_default, request_counter = 1, pending_requests = [],
      interceptor_manager = manager_new, cl_session_id = None\<rparr>"

definition is_ready :: "('t, 'i) McpClient \<Rightarrow> bool" where
  "is_ready c = (case cl_state c of Ready \<Rightarrow> True | _ \<Rightarrow> False)"

definition set_interceptor_manager :: "'i InterceptorManager \<Rightarrow> ('t, 'i) McpClient \<Rightarrow> ('t, 'i) McpClient" where
  "set_interceptor_manager m c = c\<lparr>interceptor_manager := m\<rparr>"

definition set_session_id :: "string option \<Rightarrow> ('t, 'i) McpClient \<Rightarrow> ('t, 'i) McpClient" where
  "set_session_id s c = c\<lparr>cl_session_id := s\<rparr>"

definition interception_metadata :: "('t, 'i) McpClient \<Rightarrow> InterceptionMetadata" where
  "interception_metadata c = (case cl_session_id c of
     Some session \<Rightarrow> with_session_id metadata_new session | None \<Rightarrow> metadata_new)"

definition set_error_state :: "string \<Rightarrow> ('t, 'i) McpClient \<Rightarrow> ('t, 'i) McpClient" where
  "set_error_state e c = c\<lparr>cl_state := Error e\<rparr>"

text \<open>\<open>fetch_add\<close> wraps around.\<close>

definition request_id_text :: "u64 \<Rightarrow> string" where
  "request_id_text n = ''req_'' @ show_nat (unat n)"

definition generate_request_id :: "('t, 'i) McpClient \<Rightarrow> string \<times> ('t, 'i) McpClient" where
  "generate_request_id c =
     (request_id_text (request_counter c), c\<lparr>request_counter := request_counter c + 1\<rparr>)"

abbreviation bump_stats :: "(ClientStats \<Rightarrow> ClientStats) \<Rightarrow> ('t, 'i) McpClient \<Rightarrow> ('t, 'i) McpClient" where
  "bump_stats f c \<equiv> c\<lparr>cl_stats := f (cl_stats c)\<rparr>"

section \<open>Requests\<close>

definition intercept ::
  "('t, 'i, 'e) client_env \<Rightarrow> 'e icall \<Rightarrow> JsonRpcMessage \<Rightarrow> MessageDirection \<Rightarrow> ('t, 'i) McpClient
     \<Rightarrow> (InterceptionResult mcp_result \<times> ('t, 'i) McpClient) rust" where
  "intercept E k m d c =
     (case process_message_with_metadata (ce_interceptors E) (ce_f64 E) (ic_env k) (ic_now k)
             (ic_elapsed k) (interceptor_manager c) m d (interception_metadata c) of
        Panic \<Rightarrow> Panic
      | Done (r, M) \<Rightarrow> Done (r, c\<lparr>interceptor_manager := M\<rparr>))"

definition reason_or :: "string \<Rightarrow> InterceptionResult \<Rightarrow> string" where
  "reason_or dflt r = (case ir_reasoning r of Some s \<Rightarrow> s | None \<Rightarrow> dflt)"

definition send_single_request ::
  "('t, 'i, 'e) client_env \<Rightarrow> 'e icall \<times> 'e icall \<Rightarrow> JsonRpcRequest \<Rightarrow> duration \<Rightarrow> ('t, 'i) McpClient
     \<Rightarrow> (JsonRpcResponse mcp_result \<times> ('t, 'i) McpClient) rust" where
  "send_single_request E k request timeout_duration c =
     (case intercept E (fst k) (Request request) Outgoing c of
        Panic \<Rightarrow> Panic
      | Done (Inl e, c) \<Rightarrow> Done (Inl e, c)
      | Done (Inr interception_result, c) \<Rightarrow>
          if ir_block interception_result then
            Done (Inl (Protocol (RequestBlocked
              (reason_or ''Request blocked by interceptor'' interception_result))), c)
          else
            let final_request = (case ir_message interception_result of
                                   Request req \<Rightarrow> req | _ \<Rightarrow> request)
            in case t_send_request (ce_transport E) final_request (Some timeout_duration) (cl_transport c) of
                 (Inl e, t) \<Rightarrow> Done (Inl e, c\<lparr>cl_transport := t\<rparr>)
               | (Inr response, t) \<Rightarrow>
                   let c = c\<lparr>cl_transport := t\<rparr>;
                       c = bump_stats (\<lambda>s. s\<lparr>requests_sent := requests_sent s + 1\<rparr>) c
                   in case intercept E (snd k) (Response response) Incoming c of
                        Panic \<Rightarrow> Panic
                      | Done (Inl e, c) \<Rightarrow> Done (Inl e, c)
                      | Done (Inr response_interception, c) \<Rightarrow>
                          if ir_block response_interception then
                            Done (Inl (Protocol (ResponseBlocked
                              (reason_or ''Response blocked by interceptor'' response_interception))), c)
                          else
                            Done (Inr (case ir_message response_interception of
                                         Response resp \<Rightarrow> resp | _ \<Rightarrow> response), c))"

text \<open>\<open>2_u32.pow(attempt)\<close> and its product with the base delay.\<close>

definition pow_two_u32 :: "bool \<Rightarrow> nat \<Rightarrow> nat rust" where
  "pow_two_u32 checks attempt =
     (if attempt < 32 then Done (2 ^ attempt) else if checks then Panic else Done 0)"

definition backoff_delay :: "bool \<Rightarrow> duration \<Rightarrow> nat \<Rightarrow> duration rust" where
  "backoff_delay checks base attempt =
     (case pow_two_u32 checks attempt of Panic \<Rightarrow> Panic | Done k \<Rightarrow> duration_mul base k)"

text \<open>The retry loop: \<open>left\<close> further attempts are allowed after this one. The list holds the
  delays slept.\<close>

fun retry_loop ::
  "('t, 'i, 'e) client_env \<Rightarrow> (nat \<Rightarrow> 'e icall \<times> 'e icall) \<Rightarrow> JsonRpcRequest \<Rightarrow> duration \<Rightarrow> nat \<Rightarrow> nat
     \<Rightarrow> ('t, 'i) McpClient \<Rightarrow> (JsonRpcResponse mcp_result \<times> ('t, 'i) McpClient \<times> duration list) rust" where
  "retry_loop E ks request tmo attempt left c =
     (case send_single_request E (ks attempt) request tmo c of
        Panic \<Rightarrow> Panic
      | Done (Inr response, c) \<Rightarrow>
          Done (Inr response,
                (if attempt > 0
                 then bump_stats (\<lambda>s. s\<lparr>retries := retries s + of_nat attempt\<rparr>) c else c), [])
      | Done (Inl e, c) \<Rightarrow>
          (case left of
             0 \<Rightarrow> Done (Inl e, bump_stats (\<lambda>s. s\<lparr>errors := errors s + 1\<rparr>) c, [])
           | Suc left' \<Rightarrow>
               (case backoff_delay (ce_checks E) (retry_base_delay (cl_config c)) attempt of
                  Panic \<Rightarrow> Panic
                | Done delay \<Rightarrow>
                    map_rust (\<lambda>(r, c, ds). (r, c, delay # ds))
                      (retry_loop E ks request tmo (Suc attempt) left' c))))"

declare retry_loop.simps [simp del]

definition send_request_with_retries ::
  "('t, 'i, 'e) client_env \<Rightarrow> (nat \<Rightarrow> 'e icall \<times> 'e icall) \<Rightarrow> JsonRpcRequest \<Rightarrow> duration
     \<Rightarrow> ('t, 'i) McpClient \<Rightarrow> (JsonRpcResponse mcp_result \<times> ('t, 'i) McpClient \<times> duration list) rust" where
  "send_request_with_retries E ks request tmo c =
     retry_loop E ks request tmo 0 (unat (max_retries (cl_config c))) c"

definition send_request_with_timeout ::
  "('t, 'i, 'e) client_env \<Rightarrow> (nat \<Rightarrow> 'e icall \<times> 'e icall) \<Rightarrow> string \<Rightarrow> string + json \<Rightarrow> duration option
     \<Rightarrow> ('t, 'i) McpClient \<Rightarrow> (JsonRpcResponse mcp_result \<times> ('t, 'i) McpClient \<times> duration list) rust" where
  "send_request_with_timeout E ks method params timeout_duration c =
     (let (request_id, c) = generate_request_id c in
      case params of
        Inl e \<Rightarrow> Done (Inl (Serialization e), c, [])
      | Inr p \<Rightarrow>
          let request = \<lparr>req_jsonrpc = ''2.0'', req_id = IdString request_id, req_method = method,
                         req_params = Some p\<rparr>;
              timeout_val = (case timeout_duration of
                               Some d \<Rightarrow> d | None \<Rightarrow> request_timeout (cl_config c))
          in send_request_with_retries E ks request timeout_val c)"

definition send_request ::
  "('t, 'i, 'e) client_env \<Rightarrow> (nat \<Rightarrow> 'e icall \<times> 'e icall) \<Rightarrow> string \<Rightarrow> string + json
     \<Rightarrow> ('t, 'i) McpClient \<Rightarrow> (JsonRpcResponse mcp_result \<times> ('t, 'i) McpClient \<times> duration list) rust" where
  "send_request E ks method params c =
     (if \<not> is_ready c
      then Done (Inl (Protocol (NotInitialized ''Client not ready for requests'')), c, [])
      else send_request_with_timeout E ks method params None c)"

definition notify ::
  "('t, 'i, 'e) client_env \<Rightarrow> string \<Rightarrow> string + json \<Rightarrow> ('t, 'i) McpClient
     \<Rightarrow> unit mcp_result \<times> ('t, 'i) McpClient" where
  "notify E method params c =
     (case params of
        Inl e \<Rightarrow> (Inl (Serialization e), c)
      | Inr p \<Rightarrow>
          (case t_send_notification (ce_transport E)
                  \<lparr>notif_jsonrpc = ''2.0'', notif_method = method, notif_params = Some p\<rparr> (cl_transport c) of
             (Inl e, t) \<Rightarrow> (Inl e, c\<lparr>cl_transport := t\<rparr>)
           | (Inr _, t) \<Rightarrow>
               (Inr (), bump_stats (\<lambda>s. s\<lparr>notifications_sent := notifications_sent s + 1\<rparr>)
                          (c\<lparr>cl_transport := t\<rparr>))))"

definition send_notification ::
  "('t, 'i, 'e) client_env \<Rightarrow> string \<Rightarrow> string + json \<Rightarrow> ('t, 'i) McpClient
     \<Rightarrow> unit mcp_result \<times> ('t, 'i) McpClient" where
  "send_notification E method params c =
     (if \<not> is_ready c
      then (Inl (Protocol (NotInitialized ''Client not ready for notifications'')), c)
      else notify E method params c)"

section \<open>Connecting\<close>

definition client_capabilities :: Capabilities where
  "client_capabilities =
     \<lparr>cap_standard = StandardCapabilities_default
        \<lparr>sc_tools := Some \<lparr>tool_list_changed = Some True\<rparr>,
         sc_resources := Some \<lparr>res_subscribe = Some True, res_list_changed = Some True\<rparr>,
         sc_prompts := Some \<lparr>prompt_list_changed = Some True\<rparr>\<rparr>,
      cap_custom = Map.empty\<rparr>"

definition perform_initialization ::
  "('t, 'i, 'e) client_env \<Rightarrow> (nat \<Rightarrow> 'e icall \<times> 'e icall) \<Rightarrow> Implementation \<Rightarrow> ('t, 'i) McpClient
     \<Rightarrow> (ServerInfo mcp_result \<times> ('t, 'i) McpClient \<times> duration list) rust" where
  "perform_initialization E ks client_info c =
     (let c = c\<lparr>cl_state := Initializing\<rparr>;
          request = InitializeRequest_new ProtocolVersion_default client_capabilities client_info
      in case send_request_with_timeout E ks ''initialize'' (ce_init_to_value E request)
                (Some (init_timeout (cl_config c))) c of
           Panic \<Rightarrow> Panic
         | Done (Inl e, c, ds) \<Rightarrow> Done (Inl e, c, ds)
         | Done (Inr response, c, ds) \<Rightarrow>
             (case resp_result response of
                None \<Rightarrow> Done (Inl (Protocol (InitializationFailed
                               ''Missing result in initialize response'')), c, ds)
              | Some result \<Rightarrow>
                  (case ce_init_from_value E result of
                     Inl e \<Rightarrow> Done (Inl (Serialization e), c, ds)
                   | Inr init_response \<Rightarrow>
                       (case notify E ''initialized'' (ce_initialized_to_value E) c of
                          (Inl e, c) \<Rightarrow> Done (Inl e, c, ds)
                        | (Inr _, c) \<Rightarrow>
                            Done (Inr \<lparr>si_implementation = iresp_server_info init_response,
                                       si_protocol_version = iresp_version init_response,
                                       si_capabilities = iresp_capabilities init_response\<rparr>, c, ds)))))"

definition connect ::
  "('t, 'i, 'e) client_env \<Rightarrow> (nat \<Rightarrow> 'e icall \<times> 'e icall) \<Rightarrow> Implementation \<Rightarrow> ('t, 'i) McpClient
     \<Rightarrow> (ServerInfo mcp_result \<times> ('t, 'i) McpClient \<times> duration list) rust" where
  "connect E ks client_info c =
     (let c = c\<lparr>cl_state := Connecting\<rparr> in
      case t_connect (ce_transport E) (cl_transport c) of
        (Inl e, t) \<Rightarrow>
          let err = ''Transport connection failed: '' @ mcp_error_display (ce_debug E) e
          in Done (Inl (Protocol (InitializationFailed err)),
                   set_error_state err (c\<lparr>cl_transport := t\<rparr>), [])
      | (Inr _, t) \<Rightarrow>
          (case perform_initialization E ks client_info (c\<lparr>cl_transport := t\<rparr>) of
             Panic \<Rightarrow> Panic
           | Done (Inl e, c, ds) \<Rightarrow> Done (Inl e, c, ds)
           | Done (Inr server_info, c, ds) \<Rightarrow>
               Done (Inr server_info,
                     c\<lparr>cl_state := Ready, cl_server_info := Some server_info\<rparr>, ds)))"

definition disconnect ::
  "('t, 'i, 'e) client_env \<Rightarrow> ('t, 'i) McpClient \<Rightarrow> unit mcp_result \<times> ('t, 'i) McpClient" where
  "disconnect E c =
     (let c = c\<lparr>cl_state := Disconnected, cl_server_info := None, pending_requests := []\<rparr> in
      case t_disconnect (ce_transport E) (cl_transport c) of
        (r, t) \<Rightarrow> (r, c\<lparr>cl_transport := t\<rparr>))"

section \<open>Incoming messages\<close>

text \<open>The handler methods a notification is dispatched to, and the parameters of the
  \<open>serde\<close> conversions: whether the parameters parse as the type of the handler.\<close>

datatype handler =
    HandleProgress | HandleResourceUpdated | HandleResourceListChanged | HandleToolListChanged
  | HandlePromptListChanged

definition handler_of :: "string \<Rightarrow> handler option" where
  "handler_of m =
     (if m = ''notifications/progress'' then Some HandleProgress
      else if m = ''notifications/resources/updated'' then Some HandleResourceUpdated
      else if m = ''notifications/resources/list_changed'' then Some HandleResourceListChanged
      else if m = ''notifications/tools/list_changed'' then Some HandleToolListChanged
      else if m = ''notifications/prompts/list_changed'' then Some HandlePromptListChanged
      else None)"

definition handle_notification ::
  "(handler \<Rightarrow> json \<Rightarrow> bool) \<Rightarrow> JsonRpcNotification \<Rightarrow> (handler \<times> json) list" where
  "handle_notification parses n =
     (case handler_of (notif_method n) of
        Some h \<Rightarrow> (case notif_params n of
                     Some p \<Rightarrow> if parses h p then [(h, p)] else []
                   | None \<Rightarrow> [])
      | None \<Rightarrow> [])"

text \<open>One message of the processing task: the response it hands to a waiting caller, the handler
  calls it makes, and the client afterwards.\<close>

definition process_incoming ::
  "(handler \<Rightarrow> json \<Rightarrow> bool) \<Rightarrow> JsonRpcMessage \<Rightarrow> ('t, 'i) McpClient
     \<Rightarrow> (string \<times> JsonRpcResponse) option \<times> (handler \<times> json) list \<times> ('t, 'i) McpClient" where
  "process_incoming parses m c = (case m of
     Response response \<Rightarrow>
       let i = request_id_display (resp_id response) in
       if i \<in> set (pending_requests c) then
         (Some (i, response), [],
          bump_stats (\<lambda>s. s\<lparr>responses_received := responses_received s + 1\<rparr>)
            (c\<lparr>pending_requests := removeAll i (pending_requests c)\<rparr>))
       else (None, [], c)
   | Notification n \<Rightarrow>
       (None, handle_notification parses n,
        bump_stats (\<lambda>s. s\<lparr>notifications_received := notifications_received s + 1\<rparr>) c)
   | Request _ \<Rightarrow> (None, [], c))"

section \<open>Builder\<close>

record McpClientBuilder =
  b_transport_config :: "TransportConfig option"
  b_client_config :: ClientConfig

definition McpClientBuilder_new :: McpClientBuilder where
  "McpClientBuilder_new = \<lparr>b_transport_config = None, b_client_config = ClientConfig_default\<rparr>"

definition builder_transport :: "TransportConfig \<Rightarrow> McpClientBuilder \<Rightarrow> McpClientBuilder" where
  "builder_transport t b = b\<lparr>b_transport_config := Some t\<rparr>"

definition builder_config :: "ClientConfig \<Rightarrow> McpClientBuilder \<Rightarrow> McpClientBuilder" where
  "builder_config c b = b\<lparr>b_client_config := c\<rparr>"

definition builder_request_timeout :: "duration \<Rightarrow> McpClientBuilder \<Rightarrow> McpClientBuilder" where
  "builder_request_timeout d b = b\<lparr>b_client_config := (b_client_config b)\<lparr>request_timeout := d\<rparr>\<rparr>"

definition builder_init_timeout :: "duration \<Rightarrow> McpClientBuilder \<Rightarrow> McpClientBuilder" where
  "builder_init_timeout d b = b\<lparr>b_client_config := (b_client_config b)\<lparr>init_timeout := d\<rparr>\<rparr>"

definition builder_max_retries :: "u32 \<Rightarrow> McpClientBuilder \<Rightarrow> McpClientBuilder" where
  "builder_max_retries n b = b\<lparr>b_client_config := (b_client_config b)\<lparr>max_retries := n\<rparr>\<rparr>"

text \<open>\<open>create\<close> is the transport factory.\<close>

definition builder_build ::
  "(TransportConfig \<Rightarrow> 't mcp_result) \<Rightarrow> McpClientBuilder \<Rightarrow> ('t, 'i) McpClient mcp_result" where
  "builder_build create b =
     and_then (ok_or (Protocol (ProtocolInvalidConfig ''Transport configuration is required''))
                 (b_transport_config b)) (\<lambda>transport_config.
     and_then (create transport_config) (\<lambda>transport.
       Inr (McpClient_new transport (b_client_config b))))"

section \<open>Single requests\<close>

text \<open>The part of a client that requests leave alone.\<close>

definition same_client :: "('t, 'i) McpClient \<Rightarrow> ('t, 'i) McpClient \<Rightarrow> bool" where
  "same_client c c' \<longleftrightarrow> cl_config c' = cl_config c \<and> cl_state c' = cl_state c
     \<and> cl_server_info c' = cl_server_info c \<and> request_counter c' = request_counter c
     \<and> cl_session_id c' = cl_session_id c \<and> pending_requests c' = pending_requests c"

lemma same_client_refl [simp]: "same_client c c"
  by (simp add: same_client_def)

lemma same_client_trans: "same_client a b \<Longrightarrow> same_client b c \<Longrightarrow> same_client a c"
  by (simp add: same_client_def)

lemma intercept_Done:
  assumes "intercept E k m d c = Done (r, c')"
  obtains x where "r = Inr x" "cl_transport c' = cl_transport c" "same_client c c'"
    "cl_stats c' = cl_stats c"
  using assms
  by (auto simp: intercept_def process_message_with_metadata_def same_client_def
      split: rust.splits prod.splits sum.splits)

text \<open>One passage of a message through the interceptors, with its outcome. A list of crossings is
  tied to a manager: the first is made by the manager as it is, each further one by the manager the
  previous left, and the last leaves the final manager.\<close>

record 'e crossing =
  cr_call :: "'e icall"
  cr_metadata :: InterceptionMetadata
  cr_message :: JsonRpcMessage
  cr_direction :: MessageDirection
  cr_result :: InterceptionResult

fun crossings ::
  "('t, 'i, 'e) client_env \<Rightarrow> 'i InterceptorManager \<Rightarrow> 'e crossing list \<Rightarrow> 'i InterceptorManager \<Rightarrow> bool" where
  "crossings E M [] M' \<longleftrightarrow> M' = M"
| "crossings E M (x # xs) M' \<longleftrightarrow>
     (\<exists>M1. process_message_with_metadata (ce_interceptors E) (ce_f64 E) (ic_env (cr_call x)) (ic_now (cr_call x))
             (ic_elapsed (cr_call x)) M (cr_message x) (cr_direction x) (cr_metadata x) = Done (Inr (cr_result x), M1)
        \<and> crossings E M1 xs M')"

lemma crossings_append:
  "crossings E M (xs @ ys) M' \<longleftrightarrow> (\<exists>M1. crossings E M xs M1 \<and> crossings E M1 ys M')"
  by (induction xs arbitrary: M) auto

abbreviation outgoing :: "'e crossing \<Rightarrow> bool" where
  "outgoing x \<equiv> cr_direction x = Outgoing"

text \<open>The request an outgoing crossing lets through, and the response an incoming one lets through:
  nothing when it is blocked. A result of another kind is replaced by the message itself.\<close>

definition granted :: "'e crossing \<Rightarrow> JsonRpcRequest option" where
  "granted x = (if \<not> outgoing x \<or> ir_block (cr_result x) then None
     else case ir_message (cr_result x) of
            Request rq \<Rightarrow> Some rq
          | _ \<Rightarrow> (case cr_message x of Request rq \<Rightarrow> Some rq | _ \<Rightarrow> None))"

definition admitted :: "'e crossing \<Rightarrow> JsonRpcResponse option" where
  "admitted x = (if outgoing x \<or> ir_block (cr_result x) then None
     else case ir_message (cr_result x) of
            Response rs \<Rightarrow> Some rs
          | _ \<Rightarrow> (case cr_message x of Response rs \<Rightarrow> Some rs | _ \<Rightarrow> None))"

text \<open>The crossings of one request: the request itself on the way out, responses on the way back.\<close>

definition crossings_of :: "InterceptionMetadata \<Rightarrow> JsonRpcRequest \<Rightarrow> 'e crossing list \<Rightarrow> bool" where
  "crossings_of md rq xs \<longleftrightarrow> (\<forall>x \<in> set xs. cr_metadata x = md \<and>
     (if outgoing x then cr_message x = Request rq else \<exists>rs. cr_message x = Response rs))"

lemma crossings_of_append [simp]:
  "crossings_of md rq (xs @ ys) \<longleftrightarrow> crossings_of md rq xs \<and> crossings_of md rq ys"
  by (auto simp: crossings_of_def)

lemma same_client_metadata: "same_client c c' \<Longrightarrow> interception_metadata c' = interception_metadata c"
  by (simp add: same_client_def interception_metadata_def)

lemma intercept_crossing:
  assumes "intercept E k m d c = Done (Inr x, c')"
  shows "crossings E (interceptor_manager c) [\<lparr>cr_call = k, cr_metadata = interception_metadata c,
    cr_message = m, cr_direction = d, cr_result = x\<rparr>] (interceptor_manager c')"
  using assms by (auto simp: intercept_def split: rust.splits prod.splits)

lemma single_request_cases:
  assumes "send_single_request E k rq tmo c = Done (r, c')"
  obtains (blocked) reason x where "r = Inl (Protocol (RequestBlocked reason))"
      "cl_transport c' = cl_transport c" "same_client c c'"
      "crossings E (interceptor_manager c) [x] (interceptor_manager c')"
      "crossings_of (interception_metadata c) rq [x]" "outgoing x" "granted x = None"
  | (sent) x xs rq' res t where
      "t_send_request (ce_transport E) rq' (Some tmo) (cl_transport c) = (res, t)"
      "cl_transport c' = t" "same_client c c'" "is_ok r \<Longrightarrow> is_ok res"
      "crossings E (interceptor_manager c) (x # xs) (interceptor_manager c')"
      "crossings_of (interception_metadata c) rq (x # xs)" "outgoing x" "granted x = Some rq'"
      "list_all (Not \<circ> outgoing) xs" "\<And>resp. r = Inr resp \<Longrightarrow> \<exists>y. xs = [y] \<and> admitted y = Some resp"
proof (cases "intercept E (fst k) (Request rq) Outgoing c")
  case Panic
  with assms show thesis by (simp add: send_single_request_def)
next
  case (Done p)
  obtain r1 c1 where p: "p = (r1, c1)" by (cases p)
  with Done have out: "intercept E (fst k) (Request rq) Outgoing c = Done (r1, c1)" by simp
  from intercept_Done [OF out] obtain x where x: "r1 = Inr x" "cl_transport c1 = cl_transport c"
    "same_client c c1" .
  let ?x = "\<lparr>cr_call = fst k, cr_metadata = interception_metadata c, cr_message = Request rq,
    cr_direction = Outgoing, cr_result = x\<rparr>"
  have xc: "crossings E (interceptor_manager c) [?x] (interceptor_manager c1)"
    using intercept_crossing out x(1) by blast
  have xo: "crossings_of (interception_metadata c) rq [?x]" by (simp add: crossings_of_def)
  show thesis
  proof (cases "ir_block x")
    case True
    with assms out x have "r = Inl (Protocol (RequestBlocked
        (reason_or ''Request blocked by interceptor'' x)))" "c' = c1"
      by (simp_all add: send_single_request_def)
    with x xc xo True show thesis by (intro blocked [of _ ?x]) (simp_all add: granted_def)
  next
    case False
    let ?rq = "case ir_message x of Request req \<Rightarrow> req | _ \<Rightarrow> rq"
    have pass: "granted ?x = Some ?rq"
      using False by (simp add: granted_def split: JsonRpcMessage.split)
    obtain res t where send: "t_send_request (ce_transport E) ?rq (Some tmo) (cl_transport c) = (res, t)"
      by (metis surj_pair)
    show thesis
    proof (cases res)
      case (Inl e)
      with assms out x False send have "r = Inl e" "c' = c1\<lparr>cl_transport := t\<rparr>"
        by (simp_all add: send_single_request_def)
      with x(3) pass xc xo show thesis
        by (intro sent [OF send, where x = ?x and xs = "[]"]) (simp_all add: same_client_def)
    next
      case (Inr response)
      let ?c2 = "bump_stats (\<lambda>s. s\<lparr>requests_sent := requests_sent s + 1\<rparr>) (c1\<lparr>cl_transport := t\<rparr>)"
      obtain r2 c3 where inc: "intercept E (snd k) (Response response) Incoming ?c2 = Done (r2, c3)"
        using assms out x False send Inr
        by (cases "intercept E (snd k) (Response response) Incoming ?c2")
          (auto simp: send_single_request_def Let_def)
      from intercept_Done [OF inc] obtain y where y: "r2 = Inr y" "cl_transport c3 = t"
        "same_client ?c2 c3" by auto
      let ?y = "\<lparr>cr_call = snd k, cr_metadata = interception_metadata c, cr_message = Response response,
        cr_direction = Incoming, cr_result = y\<rparr>"
      have md: "interception_metadata ?c2 = interception_metadata c"
        using x(3) by (simp add: interception_metadata_def same_client_def)
      have "crossings E (interceptor_manager c1) [?y] (interceptor_manager c3)"
        using intercept_crossing [OF inc [unfolded y(1)]] unfolding md by simp
      with xc have both: "crossings E (interceptor_manager c) [?x, ?y] (interceptor_manager c3)"
        using crossings_append [of E _ "[?x]" "[?y]"] by auto
      have c': "c' = c3" and r: "r = (if ir_block y then Inl (Protocol (ResponseBlocked
              (reason_or ''Response blocked by interceptor'' y)))
            else Inr (case ir_message y of Response resp \<Rightarrow> resp | _ \<Rightarrow> response))"
        using assms out x False send Inr inc y by (auto simp: send_single_request_def Let_def split: if_splits)
      have adm: "admitted ?y = Some resp" if "r = Inr resp" for resp
        using that r by (auto simp: admitted_def split: if_splits JsonRpcMessage.splits)
      show thesis
        by (rule sent [OF send, where x = ?x and xs = "[?y]"])
          (use x y Inr both c' pass adm in \<open>auto simp: same_client_def crossings_of_def\<close>)
    qed
  qed
qed

section \<open>Retries\<close>

text \<open>A transport that keeps a log of the requests it is given.\<close>

definition logged :: "'t transport_ops \<Rightarrow> ('t \<times> JsonRpcRequest list) transport_ops" where
  "logged T =
     \<lparr>t_connect = (\<lambda>(t, l). case t_connect T t of (r, t) \<Rightarrow> (r, t, l)),
      t_disconnect = (\<lambda>(t, l). case t_disconnect T t of (r, t) \<Rightarrow> (r, t, l)),
      t_is_connected = (\<lambda>(t, l). t_is_connected T t),
      t_send_request = (\<lambda>rq d (t, l). case t_send_request T rq d t of (r, t) \<Rightarrow> (r, t, l @ [rq])),
      t_send_notification = (\<lambda>n (t, l). case t_send_notification T n t of (r, t) \<Rightarrow> (r, t, l)),
      t_receive_message = (\<lambda>d (t, l). map_option (\<lambda>(r, t). (r, t, l)) (t_receive_message T d t)),
      t_get_info = (\<lambda>(t, l). t_get_info T t), t_get_config = (\<lambda>(t, l). t_get_config T t)\<rparr>"

lemma logged_send [simp]:
  "t_send_request (logged T) rq d (t, l) = (case t_send_request T rq d t of (r, t) \<Rightarrow> (r, t, l @ [rq]))"
  by (simp add: logged_def)

definition backoff_schedule :: "duration \<Rightarrow> nat \<Rightarrow> nat \<Rightarrow> duration list" where
  "backoff_schedule base from n = map (\<lambda>k. base * (if k < 32 then 2 ^ k else 0)) [from..<from + n]"

lemma length_backoff_schedule [simp]: "length (backoff_schedule base k n) = n"
  by (simp add: backoff_schedule_def)

lemma backoff_delay_Done:
  "backoff_delay checks base k = Done d \<Longrightarrow> d = base * (if k < 32 then 2 ^ k else 0)"
  by (auto simp: backoff_delay_def pow_two_u32_def duration_mul_def split: if_splits)

lemma backoff_schedule_Cons:
  "backoff_schedule base k (Suc n) = base * (if k < 32 then 2 ^ k else 0) # backoff_schedule base (Suc k) n"
  by (simp add: backoff_schedule_def upt_conv_Cons del: upt_Suc)

text \<open>What one attempt adds to the log: what its crossing granted.\<close>

lemma single_request_logged:
  assumes "send_single_request E k rq tmo c = Done (r, c')"
    and "ce_transport E = logged T" and "cl_transport c = (t, l)"
  shows "\<exists>t' xs. cl_transport c' = (t', l @ List.map_filter granted xs) \<and> same_client c c'
    \<and> crossings E (interceptor_manager c) xs (interceptor_manager c')
    \<and> crossings_of (interception_metadata c) rq xs \<and> length (filter outgoing xs) = 1
    \<and> (\<forall>resp. r = Inr resp \<longrightarrow> xs \<noteq> [] \<and> admitted (last xs) = Some resp)"
proof (rule single_request_cases [OF assms(1)])
  fix reason x
  assume "r = Inl (Protocol (RequestBlocked reason))" "cl_transport c' = cl_transport c" "same_client c c'"
    "crossings E (interceptor_manager c) [x] (interceptor_manager c')"
    "crossings_of (interception_metadata c) rq [x]" "outgoing x" "granted x = None"
  with assms(3) show ?thesis by (intro exI [of _ t] exI [of _ "[x]"]) (simp add: List.map_filter_simps)
next
  fix x xs rq' res t1
  assume send: "t_send_request (ce_transport E) rq' (Some tmo) (cl_transport c) = (res, t1)" "cl_transport c' = t1"
    and x: "same_client c c'" "crossings E (interceptor_manager c) (x # xs) (interceptor_manager c')"
      "crossings_of (interception_metadata c) rq (x # xs)" "outgoing x" "granted x = Some rq'"
    and inc: "list_all (Not \<circ> outgoing) xs"
    and resp: "\<And>resp. r = Inr resp \<Longrightarrow> \<exists>y. xs = [y] \<and> admitted y = Some resp"
  from inc have none: "List.map_filter granted xs = []" "filter outgoing xs = []"
    by (induction xs) (auto simp: List.map_filter_simps granted_def)
  have "cl_transport c' = (fst t1, l @ [rq'])"
    using send assms(2,3) by (cases t1) (auto split: prod.splits)
  moreover have "xs \<noteq> [] \<and> admitted (last xs) = Some rs" if "r = Inr rs" for rs
    using resp [OF that] by auto
  ultimately show ?thesis using x none
    by (intro exI [of _ "fst t1"] exI [of _ "x # xs"]) (simp add: List.map_filter_simps)
qed

lemma retry_loop_run:
  assumes "retry_loop E ks rq tmo a left c = Done (r, c', ds)"
    and "ce_transport E = logged T" and "cl_transport c = (t, l)"
  shows "\<exists>t' xs. cl_transport c' = (t', l @ List.map_filter granted xs) \<and> same_client c c'
    \<and> crossings E (interceptor_manager c) xs (interceptor_manager c')
    \<and> crossings_of (interception_metadata c) rq xs \<and> length (filter outgoing xs) = Suc (length ds)
    \<and> (\<forall>resp. r = Inr resp \<longrightarrow> xs \<noteq> [] \<and> admitted (last xs) = Some resp)
    \<and> length ds \<le> left \<and> (is_ok r \<or> length ds = left)
    \<and> ds = backoff_schedule (retry_base_delay (cl_config c)) a (length ds)"
  using assms
proof (induction left arbitrary: a c r c' ds t l)
  case 0
  obtain r1 c1 where single: "send_single_request E (ks a) rq tmo c = Done (r1, c1)"
    using "0.prems"(1) by (subst (asm) retry_loop.simps) (auto split: rust.splits)
  have kept: "ds = []" "r = r1" "cl_transport c' = cl_transport c1" "same_client c1 c'"
    "interceptor_manager c' = interceptor_manager c1"
    using "0.prems"(1) single
    by (auto simp: retry_loop.simps [of _ _ _ _ _ 0] same_client_def split: sum.splits if_splits)
  from single_request_logged [OF single "0.prems"(2,3)] show ?case
    unfolding kept using same_client_trans [OF _ kept(4)] by (auto simp: backoff_schedule_def)
next
  case (Suc left)
  obtain r1 c1 where single: "send_single_request E (ks a) rq tmo c = Done (r1, c1)"
    using Suc.prems(1) by (subst (asm) retry_loop.simps) (auto split: rust.splits)
  obtain t1 xs1 where t1: "cl_transport c1 = (t1, l @ List.map_filter granted xs1)" and sc: "same_client c c1"
    and xs1: "crossings E (interceptor_manager c) xs1 (interceptor_manager c1)"
      "crossings_of (interception_metadata c) rq xs1" "length (filter outgoing xs1) = 1"
      "\<forall>resp. r1 = Inr resp \<longrightarrow> xs1 \<noteq> [] \<and> admitted (last xs1) = Some resp"
    using single_request_logged [OF single Suc.prems(2,3)] by blast
  show ?case
  proof (cases r1)
    case (Inr resp)
    then have kept: "ds = []" "r = Inr resp" "cl_transport c' = cl_transport c1" "same_client c1 c'"
      "interceptor_manager c' = interceptor_manager c1"
      using Suc.prems(1) single by (subst (asm) retry_loop.simps, auto simp: same_client_def)+
    then show ?thesis using Inr t1 xs1 same_client_trans [OF sc kept(4)]
      by (intro exI [of _ t1] exI [of _ xs1]) (simp add: backoff_schedule_def)
  next
    case (Inl e)
    obtain d ds' where d: "backoff_delay (ce_checks E) (retry_base_delay (cl_config c1)) a = Done d"
      and rest: "retry_loop E ks rq tmo (Suc a) left c1 = Done (r, c', ds')" and ds: "ds = d # ds'"
      using Suc.prems(1) single Inl
      by (subst (asm) retry_loop.simps) (auto simp: map_rust_Done split: rust.splits)
    have cfg: "cl_config c1 = cl_config c" using sc by (simp add: same_client_def)
    from Suc.IH [OF rest Suc.prems(2) t1] obtain t' xs2 where
      IH: "cl_transport c' = (t', (l @ List.map_filter granted xs1) @ List.map_filter granted xs2)"
        "same_client c1 c'" "length ds' \<le> left" "is_ok r \<or> length ds' = left"
        "ds' = backoff_schedule (retry_base_delay (cl_config c1)) (Suc a) (length ds')"
      and xs2: "crossings E (interceptor_manager c1) xs2 (interceptor_manager c')"
        "crossings_of (interception_metadata c1) rq xs2" "length (filter outgoing xs2) = Suc (length ds')"
        "\<forall>resp. r = Inr resp \<longrightarrow> xs2 \<noteq> [] \<and> admitted (last xs2) = Some resp" by blast
    have sched: "ds = backoff_schedule (retry_base_delay (cl_config c)) a (length ds)"
      using IH(5) ds backoff_delay_Done [OF d] cfg by (simp add: backoff_schedule_Cons)
    have cross: "crossings E (interceptor_manager c) (xs1 @ xs2) (interceptor_manager c')"
      using xs1(1) xs2(1) by (auto simp: crossings_append)
    have "cl_transport c' = (t', l @ List.map_filter granted (xs1 @ xs2))"
      using IH(1) by (simp add: map_filter_def)
    with sched cross IH xs1 xs2 ds same_client_trans [OF sc IH(2)] same_client_metadata [OF sc] show ?thesis
      by (intro exI [of _ t'] exI [of _ "xs1 @ xs2"]) auto
  qed
qed

text \<open>C27 (what retrying costs). A request that returns makes at most \<open>max_retries + 1\<close>
  attempts; it sleeps \<open>base * 2 ^ k\<close> after the k-th failed attempt (zero from attempt 32
  on) and fails only after the last attempt. Each attempt passes the request once through the
  client's own interceptors, from the manager the client had to the one it is left with: what the
  transport was given is exactly what these outgoing crossings granted, in order and nothing for a
  blocked one, and a response that is returned is what the last incoming crossing admitted. The
  client is otherwise as before.\<close>

theorem retries_bounded:
  assumes "send_request_with_retries E ks rq tmo c = Done (r, c', ds)"
    and "ce_transport E = logged T" and "cl_transport c = (t, l)"
  shows "\<exists>t' xs. cl_transport c' = (t', l @ List.map_filter granted xs) \<and> same_client c c'
    \<and> crossings E (interceptor_manager c) xs (interceptor_manager c')
    \<and> crossings_of (interception_metadata c) rq xs \<and> length (filter outgoing xs) = Suc (length ds)
    \<and> (\<forall>resp. r = Inr resp \<longrightarrow> xs \<noteq> [] \<and> admitted (last xs) = Some resp)
    \<and> length ds \<le> unat (max_retries (cl_config c))
    \<and> (is_ok r \<or> length ds = unat (max_retries (cl_config c)))
    \<and> ds = backoff_schedule (retry_base_delay (cl_config c)) 0 (length ds)"
  by (rule retry_loop_run [OF assms(1) [unfolded send_request_with_retries_def] assms(2,3)])

text \<open>The time slept: less than twice the last delay.\<close>

lemma backoff_total:
  "n \<le> 32 \<Longrightarrow> sum_list (backoff_schedule base 0 n) = base * (2 ^ n - 1)"
proof (induction n)
  case (Suc n)
  then have "n < 32" "(2 :: nat) ^ n \<ge> 1" by simp_all
  with Suc show ?case by (simp add: backoff_schedule_def algebra_simps)
qed (simp add: backoff_schedule_def)

section \<open>A blocked response is requested again\<close>

text \<open>Interceptors that let every request through and block every response.\<close>

definition response_guard :: "(unit, unit, McpError) interceptor_ops" where
  "response_guard =
     \<lparr>i_name = (\<lambda>_. ''guard''), i_priority = (\<lambda>_. 50), i_should = (\<lambda>_ c. ctx_direction c = Incoming),
      i_intercept = (\<lambda>i _ c. Done (Inr (blocked ''secret''), i))\<rparr>"

lemma guard_intercept:
  assumes "ce_interceptors E = response_guard" "interceptors (interceptor_manager c) = [()]"
  shows "\<exists>x c'. intercept E k m d c = Done (Inr x, c') \<and> ir_block x = (d = Incoming)
    \<and> (d = Incoming \<or> ir_message x = m) \<and> (d = Outgoing \<or> reason_or s x = ''secret'')
    \<and> interceptors (interceptor_manager c') = [()] \<and> same_client c c' \<and> cl_transport c' = cl_transport c"
  using assms
  by (cases d)
    (simp_all add: intercept_def process_message_with_metadata_def response_guard_def initial_loop_def
      context_new_def final_result_def pass_through_def blocked_def reason_or_def same_client_def Let_def)

text \<open>A transport that answers every request.\<close>

definition answers :: "'t transport_ops \<Rightarrow> bool" where
  "answers T \<longleftrightarrow> (\<forall>rq d t. \<exists>resp t'. t_send_request T rq d t = (Inr resp, t'))"

lemma guarded_single:
  assumes "ce_interceptors E = response_guard" "interceptors (interceptor_manager c) = [()]"
    and "ce_transport E = logged T" "answers T" "cl_transport c = (t, l)"
  shows "\<exists>c' t'. send_single_request E k rq tmo c = Done (Inl (Protocol (ResponseBlocked ''secret'')), c')
    \<and> cl_transport c' = (t', l @ [rq]) \<and> interceptors (interceptor_manager c') = [()] \<and> same_client c c'"
proof -
  obtain x c1 where out: "intercept E (fst k) (Request rq) Outgoing c = Done (Inr x, c1)"
    and x: "\<not> ir_block x" "ir_message x = Request rq" and c1: "interceptors (interceptor_manager c1) = [()]"
    "same_client c c1" "cl_transport c1 = (t, l)"
    using guard_intercept [OF assms(1,2), of "fst k" "Request rq" Outgoing "[]"] assms(5) by auto
  obtain resp t' where send: "t_send_request T rq (Some tmo) t = (Inr resp, t')"
    using assms(4) unfolding answers_def by blast
  let ?c2 = "bump_stats (\<lambda>s. s\<lparr>requests_sent := requests_sent s + 1\<rparr>) (c1\<lparr>cl_transport := (t', l @ [rq])\<rparr>)"
  obtain y c3 where inc: "intercept E (snd k) (Response resp) Incoming ?c2 = Done (Inr y, c3)"
    and y: "ir_block y" "reason_or ''Response blocked by interceptor'' y = ''secret''"
    and c3: "interceptors (interceptor_manager c3) = [()]" "same_client ?c2 c3" "cl_transport c3 = (t', l @ [rq])"
    using guard_intercept [OF assms(1), of ?c2 "snd k" "Response resp" Incoming
        "''Response blocked by interceptor''"] c1(1) by auto
  have "send_single_request E k rq tmo c = Done (Inl (Protocol (ResponseBlocked ''secret'')), c3)"
    using out x c1(3) send assms(3) inc y by (simp add: send_single_request_def Let_def)
  with c1(2) c3 show ?thesis by (auto simp: same_client_def)
qed

lemma guarded_loop:
  assumes "ce_interceptors E = response_guard" "interceptors (interceptor_manager c) = [()]"
    and "ce_transport E = logged T" "answers T" "cl_transport c = (t, l)"
    and "retry_loop E ks rq tmo a left c = Done (r, c', ds)"
  shows "\<exists>t'. cl_transport c' = (t', l @ replicate (Suc left) rq) \<and> r = Inl (Protocol (ResponseBlocked ''secret''))"
  using assms(2,5,6)
proof (induction left arbitrary: a c t l ds)
  case 0
  then obtain c1 t' where "send_single_request E (ks a) rq tmo c
      = Done (Inl (Protocol (ResponseBlocked ''secret'')), c1)" "cl_transport c1 = (t', l @ [rq])"
    using guarded_single [OF assms(1) "0.prems"(1) assms(3,4)] by blast
  with "0.prems"(3) show ?case by (auto simp: retry_loop.simps [of _ _ _ _ _ 0])
next
  case (Suc left)
  then obtain c1 t' where s: "send_single_request E (ks a) rq tmo c
      = Done (Inl (Protocol (ResponseBlocked ''secret'')), c1)" "cl_transport c1 = (t', l @ [rq])"
      "interceptors (interceptor_manager c1) = [()]"
    using guarded_single [OF assms(1) Suc.prems(1) assms(3,4)] by blast
  then obtain ds' where "retry_loop E ks rq tmo (Suc a) left c1 = Done (r, c', ds')"
    using Suc.prems(3)
    by (subst (asm) retry_loop.simps) (auto simp: map_rust_Done split: rust.splits)
  from Suc.IH [OF s(3,2) this] show ?case by simp
qed

text \<open>A blocked response is requested again. When an interceptor blocks the response of a
  server that answers, the client reports the block, but only after it has sent the same request
  to the server \<open>max_retries + 1\<close> times.\<close>

theorem blocked_response_resent:
  assumes "ce_interceptors E = response_guard" "interceptors (interceptor_manager c) = [()]"
    and "ce_transport E = logged T" "answers T" "cl_transport c = (t, l)"
    and "send_request_with_retries E ks rq tmo c = Done (r, c', ds)"
  shows "\<exists>t'. cl_transport c' = (t', l @ replicate (Suc (unat (max_retries (cl_config c)))) rq)
    \<and> r = Inl (Protocol (ResponseBlocked ''secret''))"
  using guarded_loop [OF assms(1-5)] assms(6) by (simp add: send_request_with_retries_def)

section \<open>Identifiers\<close>

text \<open>The identifiers of a run of requests.\<close>

fun generate_ids :: "nat \<Rightarrow> ('t, 'i) McpClient \<Rightarrow> string list \<times> ('t, 'i) McpClient" where
  "generate_ids 0 c = ([], c)"
| "generate_ids (Suc n) c =
     (let (i, c) = generate_request_id c; (is, c) = generate_ids n c in (i # is, c))"

lemma generate_ids_eq:
  "fst (generate_ids n c) = map (\<lambda>k. request_id_text (request_counter c + of_nat k)) [0..<n]"
proof (induction n arbitrary: c)
  case (Suc n)
  have "map (\<lambda>k. request_id_text (request_counter c + of_nat k)) [0..<Suc n]
      = request_id_text (request_counter c)
        # map (\<lambda>k. request_id_text (request_counter c + 1 + of_nat k)) [0..<n]"
    by (simp add: map_upt_Suc algebra_simps del: upt_Suc)
  then show ?case
    by (simp add: generate_request_id_def case_prod_beta Let_def Suc.IH del: upt_Suc)
qed simp

text \<open>Request identifiers do not repeat. As long as no more than \<open>2 ^ 64\<close> requests are
  made, no two of them carry the same identifier, wherever the counter started.\<close>

theorem request_ids_distinct:
  assumes "n \<le> 2 ^ 64"
  shows "distinct (fst (generate_ids n c))"
proof -
  have "inj_on (\<lambda>k. request_counter c + of_nat k) {0..<n}"
  proof (rule inj_onI)
    fix x y assume *: "x \<in> {0..<n}" "y \<in> {0..<n}"
      "request_counter c + of_nat x = request_counter c + of_nat y"
    then have "(of_nat x :: u64) = of_nat y" by simp
    from arg_cong [OF this, of unat] have "x mod 2 ^ 64 = y mod 2 ^ 64" by (simp add: unat_of_nat)
    with * assms show "x = y" by simp
  qed
  moreover have "inj request_id_text"
    by (auto simp: inj_def request_id_text_def word_unat_eq_iff)
  ultimately have "inj_on (\<lambda>k. request_id_text (request_counter c + of_nat k)) {0..<n}"
    using comp_inj_on [of "\<lambda>k. request_counter c + of_nat k" "{0..<n}" request_id_text]
    by (simp add: comp_def inj_on_subset)
  then show ?thesis by (simp add: generate_ids_eq distinct_map)
qed

section \<open>Life cycle\<close>

inductive client_step :: "('t, 'i, 'e) client_env \<Rightarrow> ('t, 'i) McpClient \<Rightarrow> ('t, 'i) McpClient \<Rightarrow> bool"
  for E where
  step_connect: "connect E ks info c = Done (r, c', ds) \<Longrightarrow> client_step E c c'"
| step_disconnect: "disconnect E c = (r, c') \<Longrightarrow> client_step E c c'"
| step_request: "send_request E ks m p c = Done (r, c', ds) \<Longrightarrow> client_step E c c'"
| step_notification: "send_notification E m p c = (r, c') \<Longrightarrow> client_step E c c'"
| step_incoming: "process_incoming parses m c = (x, hs, c') \<Longrightarrow> client_step E c c'"
| step_manager: "client_step E c (set_interceptor_manager M c)"
| step_session: "client_step E c (set_session_id s c)"

inductive client_reach :: "('t, 'i, 'e) client_env \<Rightarrow> ('t, 'i) McpClient \<Rightarrow> bool" for E where
  reach_new: "client_reach E (McpClient_new t cfg)"
| reach_step: "client_reach E c \<Longrightarrow> client_step E c c' \<Longrightarrow> client_reach E c'"

definition ready_inv :: "'t transport_ops \<Rightarrow> ('t, 'i) McpClient \<Rightarrow> bool" where
  "ready_inv T c \<longleftrightarrow>
     (cl_state c = Ready \<longrightarrow> cl_server_info c \<noteq> None \<and> t_is_connected T (cl_transport c))"

context transport_contract
begin

abbreviation client_connected :: "('t, 'i) McpClient \<Rightarrow> bool" where
  "client_connected c \<equiv> t_is_connected T (cl_transport c)"

lemma single_keeps:
  assumes "send_single_request E k rq tmo c = Done (r, c')" and "ce_transport E = T"
  shows "client_connected c' = client_connected c \<and> same_client c c'"
  by (rule single_request_cases [OF assms(1)]) (auto simp: assms(2) dest: request_keeps)

lemma retry_keeps:
  assumes "retry_loop E ks rq tmo a left c = Done (r, c', ds)" and "ce_transport E = T"
  shows "client_connected c' = client_connected c \<and> same_client c c'"
  using assms
proof (induction left arbitrary: a c r c' ds)
  case 0
  then obtain r1 c1 where s: "send_single_request E (ks a) rq tmo c = Done (r1, c1)"
    by (subst (asm) retry_loop.simps) (auto split: rust.splits)
  with 0 have "cl_transport c' = cl_transport c1" "same_client c1 c'"
    by (auto simp: retry_loop.simps [of _ _ _ _ _ 0] same_client_def split: sum.splits if_splits)
  with single_keeps [OF s "0.prems"(2)] show ?case by (auto intro: same_client_trans)
next
  case (Suc left)
  then obtain r1 c1 where s: "send_single_request E (ks a) rq tmo c = Done (r1, c1)"
    by (subst (asm) retry_loop.simps) (auto split: rust.splits)
  show ?case
  proof (cases r1)
    case (Inl e)
    with Suc.prems(1) s obtain ds' where "retry_loop E ks rq tmo (Suc a) left c1 = Done (r, c', ds')"
      by (subst (asm) retry_loop.simps) (auto simp: map_rust_Done split: rust.splits)
    from Suc.IH [OF this Suc.prems(2)] single_keeps [OF s Suc.prems(2)] show ?thesis
      by (auto intro: same_client_trans)
  next
    case (Inr x)
    with Suc.prems(1) s have "cl_transport c' = cl_transport c1" "same_client c1 c'"
      by (auto simp: retry_loop.simps [of _ _ _ _ _ "Suc left"] same_client_def split: if_splits)
    with single_keeps [OF s Suc.prems(2)] show ?thesis by (auto intro: same_client_trans)
  qed
qed

lemma request_keeps_client:
  assumes "send_request_with_timeout E ks m p d c = Done (r, c', ds)" and "ce_transport E = T"
  shows "client_connected c' = client_connected c \<and> cl_state c' = cl_state c
    \<and> cl_server_info c' = cl_server_info c"
  using assms(1)
  by (auto simp: send_request_with_timeout_def generate_request_id_def Let_def
      send_request_with_retries_def same_client_def dest!: retry_keeps [OF _ assms(2)] split: sum.splits)

lemma notify_keeps_client:
  assumes "notify E m p c = (r, c')" and "ce_transport E = T"
  shows "client_connected c' = client_connected c \<and> cl_state c' = cl_state c
    \<and> cl_server_info c' = cl_server_info c"
  using assms(1)
  by (auto simp: notify_def assms(2) split: sum.splits prod.splits dest: notification_keeps)

lemma initialization_keeps:
  assumes "perform_initialization E ks info c = Done (r, c', ds)" and "ce_transport E = T"
  shows "client_connected c' = client_connected c \<and> cl_state c' = Initializing"
  using assms(1)
  by (auto simp: perform_initialization_def Let_def dest!: request_keeps_client [OF _ assms(2)]
      notify_keeps_client [OF _ assms(2)] split: rust.splits sum.splits prod.splits option.splits)

lemma connect_inv:
  assumes "connect E ks info c = Done (r, c', ds)" and "ce_transport E = T"
  shows "ready_inv T c' \<and> (is_ok r \<longleftrightarrow> cl_state c' = Ready)"
  using assms(1)
  by (auto simp: connect_def Let_def ready_inv_def set_error_state_def assms(2)
      dest!: initialization_keeps [OF _ assms(2)] dest: connect_ok split: rust.splits sum.splits prod.splits)

lemma step_inv:
  assumes "client_step E c c'" and "ce_transport E = T" and "ready_inv T c"
  shows "ready_inv T c'"
  using assms(1)
proof cases
  case (step_connect ks info r ds)
  then show ?thesis using connect_inv assms(2) by blast
next
  case (step_request ks m p r ds)
  with assms(3) show ?thesis
    by (auto simp: send_request_def ready_inv_def dest: request_keeps_client [OF _ assms(2)] split: if_splits)
next
  case (step_notification m p r)
  with assms(3) show ?thesis
    by (auto simp: send_notification_def ready_inv_def dest: notify_keeps_client [OF _ assms(2)] split: if_splits)
next
  case (step_incoming parses m x hs)
  with assms(3) show ?thesis
    by (auto simp: process_incoming_def ready_inv_def Let_def split: JsonRpcMessage.splits if_splits)
qed (use assms(3) in \<open>auto simp: disconnect_def ready_inv_def set_interceptor_manager_def
    set_session_id_def Let_def split: prod.splits\<close>)

lemma reach_inv:
  assumes "client_reach E c" and "ce_transport E = T"
  shows "ready_inv T c"
  using assms(1)
proof induction
  case (reach_step c c')
  then show ?case using step_inv [OF _ assms(2)] by blast
qed (simp add: ready_inv_def McpClient_new_def)

end

text \<open>C28 (a ready client is connected). In every state a client over the HTTP transport can
  reach, being \<open>Ready\<close> means that the server's information has been received and that the
  transport is connected, whatever the interceptors did and whichever calls failed.\<close>

theorem ready_client_connected:
  assumes "client_reach E c" and "ce_transport E = http_stream_ops H" and "cl_state c = Ready"
  shows "cl_server_info c \<noteq> None \<and> hst_connected (fst (cl_transport c))"
  using http_stream.reach_inv [OF assms(1,2)] assms(3)
  by (simp add: ready_inv_def http_stream_ops_def)

section \<open>Examples\<close>

definition sample_icall :: "unit icall" where
  "sample_icall = \<lparr>ic_env = (\<lambda>_. ()), ic_now = 0, ic_elapsed = 0\<rparr>"

abbreviation sample_clocks :: "nat \<Rightarrow> unit icall \<times> unit icall" where
  "sample_clocks \<equiv> (\<lambda>_. (sample_icall, sample_icall))"

definition sample_env :: "'t transport_ops \<Rightarrow> (unit, unit, McpError) interceptor_ops \<Rightarrow> ('t, unit, unit) client_env" where
  "sample_env T I = \<lparr>ce_transport = T, ce_interceptors = I, ce_f64 = example_f64, ce_checks = True,
     ce_debug = http_debug sample_http, ce_init_to_value = (\<lambda>_. Inr Null),
     ce_init_from_value = (\<lambda>_. Inr (init_response_basic ''server'' ''1'')),
     ce_initialized_to_value = Inr Null\<rparr>"

text \<open>A transport that answers every request with success.\<close>

definition echo_ops :: "unit transport_ops" where
  "echo_ops = \<lparr>t_connect = (\<lambda>t. (Inr (), t)), t_disconnect = (\<lambda>t. (Inr (), t)),
     t_is_connected = (\<lambda>t. True),
     t_send_request = (\<lambda>rq d t. (Inr (response_success (req_id rq) Null), t)),
     t_send_notification = (\<lambda>n t. (Inr (), t)),
     t_receive_message = (\<lambda>d t. Some (Inl (Internal []), t)),
     t_get_info = (\<lambda>t. TransportInfo_new ''echo''), t_get_config = (\<lambda>t. config_stdio ''echo'' [])\<rparr>"

definition sample_client :: "'t \<Rightarrow> unit list \<Rightarrow> ('t, unit) McpClient" where
  "sample_client t is =
     (McpClient_new t (ClientConfig_default\<lparr>max_retries := 1\<rparr>))\<lparr>interceptor_manager :=
        \<lparr>interceptors = is, mgr_stats = InterceptorManagerStats_default\<rparr>\<rparr>"

lemmas sample_client_defs = sample_env_def sample_client_def McpClient_new_def ClientConfig_default_def
  manager_new_def

abbreviation sample_rq :: JsonRpcRequest where
  "sample_rq \<equiv> request_without_params (IdString ''req_1'') ''tools/list''"

lemma sample_guarded_run:
  "\<exists>r c' ds. send_request_with_retries (sample_env (logged echo_ops) response_guard) sample_clocks
     sample_rq (secs 1) (sample_client ((), []) [()]) = Done (r, c', ds)"
proof -
  let ?E = "sample_env (logged echo_ops) response_guard"
  have E: "ce_interceptors ?E = response_guard" "ce_transport ?E = logged echo_ops"
    by (simp_all add: sample_env_def)
  have ans: "answers echo_ops" by (simp add: answers_def echo_ops_def)
  obtain c1 t1 where one: "send_single_request ?E (sample_clocks 0) sample_rq (secs 1)
      (sample_client ((), []) [()]) = Done (Inl (Protocol (ResponseBlocked ''secret'')), c1)"
    and c1: "cl_transport c1 = (t1, [] @ [sample_rq])" "interceptors (interceptor_manager c1) = [()]"
    "same_client (sample_client ((), []) [()]) c1"
    using guarded_single [OF E(1) _ E(2) ans, of "sample_client ((), []) [()]" "()" "[]" "sample_clocks 0"
        sample_rq "secs 1"] by (auto simp: sample_client_defs)
  obtain c2 where two: "send_single_request ?E (sample_clocks 1) sample_rq (secs 1) c1
      = Done (Inl (Protocol (ResponseBlocked ''secret'')), c2)"
    using guarded_single [OF E(1) c1(2) E(2) ans c1(1)] by blast
  have "backoff_delay (ce_checks ?E) (retry_base_delay (cl_config c1)) 0 = Done (secs 1)"
    using c1(3) by (simp add: same_client_def sample_client_defs backoff_delay_def pow_two_u32_def
        duration_mul_def secs_def duration_max_def)
  with one two show ?thesis
    by (simp add: send_request_with_retries_def retry_loop.simps [of _ _ _ _ 0]
        retry_loop.simps [of _ _ _ _ "Suc 0"] sample_client_defs)
qed

theorem blocked_response_resent_witness:
  "\<exists>r c' ds. send_request_with_retries (sample_env (logged echo_ops) response_guard) sample_clocks
     sample_rq (secs 1) (sample_client ((), []) [()]) = Done (r, c', ds)
   \<and> snd (cl_transport c') = [sample_rq, sample_rq]"
proof -
  let ?E = "sample_env (logged echo_ops) response_guard"
  obtain r c' ds where run: "send_request_with_retries ?E sample_clocks sample_rq (secs 1)
      (sample_client ((), []) [()]) = Done (r, c', ds)"
    using sample_guarded_run by blast
  have "\<exists>t'. cl_transport c' = (t', [] @ replicate (Suc (unat (max_retries
      (cl_config (sample_client ((), []) [()]))))) sample_rq) \<and> r = Inl (Protocol (ResponseBlocked ''secret''))"
    using blocked_response_resent [OF _ _ _ _ _ run, of echo_ops "()" "[]"]
    by (simp add: sample_client_defs answers_def echo_ops_def)
  with run show ?thesis by (auto simp: sample_client_defs)
qed

theorem retries_bounded_witness:
  "\<exists>r c' ds xs. send_request_with_retries (sample_env (logged echo_ops) response_guard) sample_clocks
     sample_rq (secs 1) (sample_client ((), []) [()]) = Done (r, c', ds) \<and> length ds \<le> 1
   \<and> crossings (sample_env (logged echo_ops) response_guard)
       (interceptor_manager (sample_client ((), [] :: JsonRpcRequest list) [()])) xs (interceptor_manager c')
   \<and> snd (cl_transport c') = List.map_filter granted xs"
proof -
  let ?E = "sample_env (logged echo_ops) response_guard" and ?c = "sample_client ((), [] :: JsonRpcRequest list) [()]"
  obtain r c' ds where run: "send_request_with_retries ?E sample_clocks sample_rq (secs 1) ?c = Done (r, c', ds)"
    using sample_guarded_run by blast
  have "ce_transport ?E = logged echo_ops" "cl_transport ?c = ((), [])"
    by (simp_all add: sample_client_defs)
  from retries_bounded [OF run this] obtain t' xs where
    "cl_transport c' = (t', [] @ List.map_filter granted xs)"
    "crossings ?E (interceptor_manager ?c) xs (interceptor_manager c')"
    "length ds \<le> unat (max_retries (cl_config ?c))" by (elim exE conjE)
  moreover have "unat (max_retries (cl_config ?c)) = 1" by (simp add: sample_client_defs)
  ultimately show ?thesis using run by auto
qed

theorem request_ids_distinct_witness:
  "distinct (fst (generate_ids 2 (sample_client () []))) \<and>
   fst (generate_ids 2 (sample_client () [])) = [''req_1'', ''req_2'']"
  using request_ids_distinct [of 2 "sample_client () []"]
  by (simp add: generate_ids_eq sample_client_defs upt_rec request_id_text_def show_nat.simps
      digit_char_def char_of_def bit_0)

text \<open>A client that connects over the HTTP transport.\<close>

definition stream_client :: "(HttpStreamTransport \<times> unit, unit) McpClient" where
  "stream_client = McpClient_new (sample_stream, ()) ClientConfig_default"

lemma stream_client_connects:
  "\<exists>r c' ds. connect (sample_env (http_stream_ops sample_http) response_guard) sample_clocks
     (Implementation_new ''c'' ''1'') stream_client = Done (r, c', ds) \<and> cl_state c' = Ready"
  by (simp add: connect_def stream_client_def sample_client_defs http_stream_ops_def hst_connect_def
      perform_initialization_def send_request_with_timeout_def generate_request_id_def
      send_request_with_retries_def retry_loop.simps [of _ _ _ _ 0] send_single_request_def intercept_def
      process_message_with_metadata_def initial_loop_def final_result_def pass_through_def
      sample_icall_def hst_send_request_def send_initialize_request_def sample_http_def
      sample_stream_def finish_read_def parse_response_def parse_json_response_def value_get_def
      obj_get_def is_success_status_def session_header_def mark_connected_def notify_def
      hst_send_notification_def Let_def)

theorem ready_client_connected_witness:
  "\<exists>c. client_reach (sample_env (http_stream_ops sample_http) response_guard) c
     \<and> cl_state c = Ready \<and> hst_connected (fst (cl_transport c))"
proof -
  let ?E = "sample_env (http_stream_ops sample_http) response_guard"
  obtain r c' ds where c: "connect ?E sample_clocks (Implementation_new ''c'' ''1'') stream_client
      = Done (r, c', ds)" "cl_state c' = Ready"
    using stream_client_connects by blast
  have reach: "client_reach ?E c'"
    using client_reach.reach_step [OF client_reach.reach_new client_step.step_connect] c(1)
    by (auto simp: stream_client_def)
  have "ce_transport ?E = http_stream_ops sample_http" by (simp add: sample_env_def)
  from ready_client_connected [OF reach this c(2)] reach c(2) show ?thesis by auto
qed

end
