(* ===== verification/Ipc.thy ===== *)
theory Ipc
  imports Mcp_Error Identity "HOL-Library.Sublist"
begin

text \<open>
  Inter-process messages between proxy and monitor: the newline-delimited framing of
  \<open>acdp-common/src/ipc.rs\<close> and the client that buffers while the monitor is away
  (\<open>acdp-transport/src/buffered_ipc_client.rs\<close>). Both treat the message as an opaque value
  \<open>'m\<close>; \<open>serde_json\<close> is a parameter. The background task of the client is a state
  machine whose steps are the branches of its \<open>select!\<close>; the socket decides whether a
  connection or a send succeeds.
\<close>

section \<open>Framing\<close>

record 'm IpcEnvelope =
  env_message :: 'm
  env_timestamp :: datetime
  env_correlation_id :: "string option"

record 'm ipc_serde =
  to_json :: "'m IpcEnvelope \<Rightarrow> string + string"
  of_json :: "string \<Rightarrow> string + 'm IpcEnvelope"

text \<open>A connection: what has been written to the socket, and what is still to be read.\<close>

record IpcConnection =
  ic_written :: string
  ic_unread :: string

text \<open>\<open>written\<close> is the outcome of the two writes and the flush: an error comes with the number of bytes
  of the line that reached the socket before it, which may be some of the JSON, all of it without
  the newline, or the whole line.\<close>

definition send_message ::
  "'m ipc_serde \<Rightarrow> (string \<times> nat + unit) \<Rightarrow> datetime \<Rightarrow> string \<Rightarrow> 'm \<Rightarrow> IpcConnection
     \<Rightarrow> (string + unit) \<times> IpcConnection" where
  "send_message S written now uuid message c =
     (let envelope = \<lparr>env_message = message, env_timestamp = now, env_correlation_id = Some uuid\<rparr> in
      case to_json S envelope of
        Inl e \<Rightarrow> (Inl e, c)
      | Inr json \<Rightarrow>
          (case written of
             Inl (e, n) \<Rightarrow> (Inl e, c\<lparr>ic_written := ic_written c @ take n (json @ [CHR 0x0A])\<rparr>)
           | Inr _ \<Rightarrow> (Inr (), c\<lparr>ic_written := ic_written c @ json @ [CHR 0x0A]\<rparr>)))"

text \<open>\<open>AsyncBufReadExt::read_line\<close>: up to and including the next newline.\<close>

definition read_line :: "string \<Rightarrow> string \<times> string" where
  "read_line s = (let l = takeWhile (\<lambda>c. c \<noteq> CHR 0x0A) s; r = dropWhile (\<lambda>c. c \<noteq> CHR 0x0A) s
     in (l @ take 1 r, drop 1 r))"

definition receive_message ::
  "'m ipc_serde \<Rightarrow> IpcConnection \<Rightarrow> (string + 'm IpcEnvelope option) \<times> IpcConnection" where
  "receive_message S c =
     (let (line, rest) = read_line (ic_unread c); c = c\<lparr>ic_unread := rest\<rparr> in
      if line = [] then (Inr None, c)
      else case of_json S (trim line) of
             Inr envelope \<Rightarrow> (Inr (Some envelope), c)
           | Inl e \<Rightarrow> (Inl e, c))"

lemma read_line_shorter: "read_line s = (l, r) \<Longrightarrow> l \<noteq> [] \<Longrightarrow> length r < length s"
proof (induction s arbitrary: l)
  case (Cons x xs)
  show ?case
  proof (cases "x = CHR 0x0A")
    case True
    with Cons.prems show ?thesis by (auto simp: read_line_def Let_def)
  next
    case False
    with Cons.prems have "r = drop 1 (dropWhile (\<lambda>c. c \<noteq> CHR 0x0A) xs)" by (auto simp: read_line_def Let_def)
    moreover have "length (dropWhile (\<lambda>c. c \<noteq> CHR 0x0A) xs) \<le> length xs" by (rule length_dropWhile_le)
    ultimately show ?thesis by simp
  qed
qed (simp add: read_line_def)

text \<open>The loop over a connection in \<open>acdp-transport/src/ipc_server.rs\<close>: it ends at the end of
  the stream or at the first error.\<close>

function receive_all :: "'m ipc_serde \<Rightarrow> IpcConnection \<Rightarrow> 'm IpcEnvelope list \<times> IpcConnection" where
  "receive_all S c = (case receive_message S c of
     (Inr (Some envelope), c) \<Rightarrow> (case receive_all S c of (es, c) \<Rightarrow> (envelope # es, c))
   | (_, c) \<Rightarrow> ([], c))"
  by pat_completeness auto
termination
  by (relation "measure (\<lambda>(S, c). length (ic_unread c))")
    (auto simp: receive_message_def Let_def intro: read_line_shorter split: prod.splits if_splits sum.splits)

declare receive_all.simps [simp del]

text \<open>What \<open>serde_json\<close> documents for an envelope: the compact encoding has no newline and no
  surrounding white space, and reads back as the envelope.\<close>

definition compact :: "'m ipc_serde \<Rightarrow> 'm IpcEnvelope \<Rightarrow> bool" where
  "compact S e \<longleftrightarrow> (case to_json S e of
     Inl _ \<Rightarrow> False
   | Inr j \<Rightarrow> CHR 0x0A \<notin> set j \<and> trim (j @ [CHR 0x0A]) = j \<and> of_json S j = Inr e)"

definition envelope :: "(datetime \<times> string) \<times> 'm \<Rightarrow> 'm IpcEnvelope" where
  "envelope = (\<lambda>((now, uuid), m). \<lparr>env_message = m, env_timestamp = now, env_correlation_id = Some uuid\<rparr>)"

text \<open>Sending messages with the clock and the identifiers drawn for them over a socket that
  accepts all writes.\<close>

fun send_messages ::
  "'m ipc_serde \<Rightarrow> ((datetime \<times> string) \<times> 'm) list \<Rightarrow> IpcConnection \<Rightarrow> IpcConnection" where
  "send_messages S [] c = c"
| "send_messages S (((now, uuid), m) # ms) c =
     send_messages S ms (snd (send_message S (Inr ()) now uuid m c))"

lemma send_messages_written:
  assumes "\<forall>m\<in>set ms. compact S (envelope m)"
  shows "ic_written (send_messages S ms c)
    = ic_written c @ concat (map (\<lambda>m. projr (to_json S (envelope m)) @ [CHR 0x0A]) ms)"
  using assms
proof (induction ms arbitrary: c)
  case (Cons m ms)
  then show ?case
    by (cases m) (auto simp: send_message_def envelope_def compact_def Let_def split: sum.splits)
qed simp

lemma receive_line:
  assumes "compact S e"
  shows "receive_message S (c\<lparr>ic_unread := projr (to_json S e) @ [CHR 0x0A] @ s\<rparr>)
    = (Inr (Some e), c\<lparr>ic_unread := s\<rparr>)"
  using assms
  by (auto simp: compact_def receive_message_def read_line_def Let_def takeWhile_append dropWhile_append
      split: sum.splits)

lemma receive_all_sent:
  assumes "\<forall>m\<in>set ms. compact S (envelope m)"
  shows "receive_all S \<lparr>ic_written = out, ic_unread = ic_written
      (send_messages S ms \<lparr>ic_written = [], ic_unread = inp\<rparr>)\<rparr>
    = (map envelope ms, \<lparr>ic_written = out, ic_unread = []\<rparr>)"
  unfolding send_messages_written [OF assms] IpcConnection.simps append_Nil
  using assms
proof (induction ms)
  case Nil
  show ?case by (subst receive_all.simps) (simp add: receive_message_def read_line_def)
next
  case (Cons m ms)
  from Cons.prems have c: "compact S (envelope m)" by simp
  from receive_line [OF this, where c = "\<lparr>ic_written = out, ic_unread = []\<rparr>"] Cons show ?case
    by (subst receive_all.simps) simp
qed

text \<open>C32 (framing). A receiver that reads what a sender wrote obtains exactly the envelopes of
  the messages sent, in order, and consumes the whole stream.\<close>

theorem ipc_roundtrip:
  assumes "\<forall>m\<in>set ms. compact S (envelope m)"
  shows "receive_all S \<lparr>ic_written = out, ic_unread = ic_written
      (send_messages S ms \<lparr>ic_written = [], ic_unread = inp\<rparr>)\<rparr>
    = (map envelope ms, \<lparr>ic_written = out, ic_unread = []\<rparr>)"
  using assms by (rule receive_all_sent)

section \<open>The buffering client\<close>

definition MAX_BUFFER_SIZE :: nat where "MAX_BUFFER_SIZE = 10000"

definition INITIAL_RECONNECT_DELAY :: duration where "INITIAL_RECONNECT_DELAY = secs 1"

definition MAX_RECONNECT_DELAY :: duration where "MAX_RECONNECT_DELAY = secs 30"

definition RECONNECT_BACKOFF_FACTOR :: nat where "RECONNECT_BACKOFF_FACTOR = 2"

definition CHANNEL_SIZE :: nat where "CHANNEL_SIZE = 1000"

text \<open>\<open>bc_channel\<close> is the channel from senders to the task (\<open>mpsc::channel(1000)\<close>),
  \<open>bc_running\<close> whether the task still holds its receiver, \<open>bc_last\<close> the instant of the
  last connection attempt. \<open>bc_delivered\<close> records what the socket accepted.\<close>

record 'm BufferedIpcClient =
  bc_buffer :: "'m list"
  bc_channel :: "'m list"
  bc_running :: bool
  bc_client :: bool
  bc_delay :: duration
  bc_last :: int
  bc_delivered :: "'m list"

definition BufferedIpcClient_new :: "int \<Rightarrow> 'm BufferedIpcClient" where
  "BufferedIpcClient_new now = \<lparr>bc_buffer = [], bc_channel = [], bc_running = True, bc_client = False,
     bc_delay = INITIAL_RECONNECT_DELAY, bc_last = now - int INITIAL_RECONNECT_DELAY, bc_delivered = []\<rparr>"

definition push_buffer :: "'m \<Rightarrow> 'm BufferedIpcClient \<Rightarrow> 'm BufferedIpcClient" where
  "push_buffer m c =
     (if length (bc_buffer c) < MAX_BUFFER_SIZE then c\<lparr>bc_buffer := bc_buffer c @ [m]\<rparr> else c)"

text \<open>\<open>send\<close>: the channel refuses only when the task is gone; a full one makes the sender
  wait, so the step is possible only when there is room.\<close>

definition can_send :: "'m BufferedIpcClient \<Rightarrow> bool" where
  "can_send c \<longleftrightarrow> (bc_running c \<longrightarrow> length (bc_channel c) < CHANNEL_SIZE)"

definition bc_send :: "'m \<Rightarrow> 'm BufferedIpcClient \<Rightarrow> 'm BufferedIpcClient" where
  "bc_send m c =
     (if bc_running c then c\<lparr>bc_channel := bc_channel c @ [m]\<rparr> else push_buffer m c)"

definition deliver :: "'m \<Rightarrow> 'm BufferedIpcClient \<Rightarrow> 'm BufferedIpcClient" where
  "deliver m c = c\<lparr>bc_delivered := bc_delivered c @ [m]\<rparr>"

text \<open>The branch of a received message; \<open>ok\<close> tells whether the socket accepts it.\<close>

definition on_message :: "bool \<Rightarrow> 'm BufferedIpcClient \<Rightarrow> 'm BufferedIpcClient" where
  "on_message ok c = (case bc_channel c of
     [] \<Rightarrow> c
   | m # ms \<Rightarrow>
       let c = c\<lparr>bc_channel := ms\<rparr>
       in if bc_client c
          then if ok then deliver m c else push_buffer m (c\<lparr>bc_client := False\<rparr>)
          else push_buffer m c)"

text \<open>Flushing; \<open>oks\<close> lists whether the socket accepts the messages in turn.\<close>

fun flush :: "'m list \<Rightarrow> (nat \<Rightarrow> bool) \<Rightarrow> 'm BufferedIpcClient \<Rightarrow> 'm BufferedIpcClient" where
  "flush [] oks c = c"
| "flush (m # ms) oks c =
     (if oks 0 then flush ms (oks \<circ> Suc) (deliver m c)
      else (push_buffer m c)\<lparr>bc_client := False\<rparr>)"

text \<open>The timer branch: \<open>now\<close> is the current instant, \<open>connects\<close> the outcome of an
  attempt.\<close>

definition on_timer :: "int \<Rightarrow> bool \<Rightarrow> (nat \<Rightarrow> bool) \<Rightarrow> 'm BufferedIpcClient \<Rightarrow> 'm BufferedIpcClient" where
  "on_timer now connects oks c =
     (if \<not> bc_client c \<and> int (bc_delay c) \<le> max 0 (now - bc_last c)
      then
        let c = c\<lparr>bc_last := now\<rparr>
        in if connects
           then flush (bc_buffer c) oks
                  (c\<lparr>bc_client := True, bc_delay := INITIAL_RECONNECT_DELAY, bc_buffer := []\<rparr>)
           else c\<lparr>bc_delay := min (bc_delay c * RECONNECT_BACKOFF_FACTOR) MAX_RECONNECT_DELAY\<rparr>
      else c)"

text \<open>Shutdown ends the task: its receiver and connection are gone, with what the channel held.\<close>

definition on_shutdown :: "'m BufferedIpcClient \<Rightarrow> 'm BufferedIpcClient" where
  "on_shutdown c = c\<lparr>bc_running := False, bc_client := False, bc_channel := []\<rparr>"

text \<open>A run, labelled with the messages handed to \<open>send\<close>.\<close>

inductive bc_run :: "'m list \<Rightarrow> 'm BufferedIpcClient \<Rightarrow> bool" where
  bc_new: "bc_run [] (BufferedIpcClient_new now)"
| bc_send: "bc_run sent c \<Longrightarrow> can_send c \<Longrightarrow> bc_run (sent @ [m]) (bc_send m c)"
| bc_message: "bc_run sent c \<Longrightarrow> bc_running c \<Longrightarrow> bc_run sent (on_message ok c)"
| bc_timer: "bc_run sent c \<Longrightarrow> bc_running c \<Longrightarrow> bc_run sent (on_timer now connects oks c)"
| bc_shutdown: "bc_run sent c \<Longrightarrow> bc_running c \<Longrightarrow> bc_run sent (on_shutdown c)"

section \<open>Bounds and order\<close>

definition bc_inv :: "'m BufferedIpcClient \<Rightarrow> bool" where
  "bc_inv c \<longleftrightarrow> length (bc_buffer c) \<le> MAX_BUFFER_SIZE \<and> length (bc_channel c) \<le> CHANNEL_SIZE
     \<and> INITIAL_RECONNECT_DELAY \<le> bc_delay c \<and> bc_delay c \<le> MAX_RECONNECT_DELAY
     \<and> (bc_client c \<longrightarrow> bc_buffer c = []) \<and> (bc_running c \<or> bc_channel c = [] \<and> \<not> bc_client c)"

abbreviation in_transit :: "'m BufferedIpcClient \<Rightarrow> 'm list" where
  "in_transit c \<equiv> bc_delivered c @ bc_buffer c @ bc_channel c"

lemmas bc_defs = push_buffer_def deliver_def MAX_BUFFER_SIZE_def CHANNEL_SIZE_def
  INITIAL_RECONNECT_DELAY_def MAX_RECONNECT_DELAY_def RECONNECT_BACKOFF_FACTOR_def secs_def

lemma flush_ok:
  "\<forall>i<length ms. oks i \<Longrightarrow> flush ms oks c = c\<lparr>bc_delivered := bc_delivered c @ ms\<rparr>"
proof (induction ms oks c rule: flush.induct)
  case (2 m ms oks c)
  from 2(2) have "oks 0" "\<forall>i<length ms. (oks \<circ> Suc) i" by auto
  with 2(1) show ?case by (simp add: deliver_def comp_def)
qed simp

lemma flush_fails:
  "\<forall>i<length pre. oks i \<Longrightarrow> \<not> oks (length pre) \<Longrightarrow>
   flush (pre @ m # post) oks c
   = (push_buffer m (c\<lparr>bc_delivered := bc_delivered c @ pre\<rparr>))\<lparr>bc_client := False\<rparr>"
proof (induction pre arbitrary: oks c)
  case (Cons x pre)
  have "oks 0" "\<forall>i<length pre. (oks \<circ> Suc) i" "\<not> (oks \<circ> Suc) (length pre)" using Cons.prems by auto
  with Cons.IH [of "oks \<circ> Suc"] show ?case by (simp add: deliver_def comp_def)
qed simp

lemma flush_cases:
  obtains "\<forall>i<length ms. oks i" "flush ms oks c = c\<lparr>bc_delivered := bc_delivered c @ ms\<rparr>"
  | pre m post where "ms = pre @ m # post"
    "flush ms oks c = (push_buffer m (c\<lparr>bc_delivered := bc_delivered c @ pre\<rparr>))\<lparr>bc_client := False\<rparr>"
proof (cases "\<forall>i<length ms. oks i")
  case True
  with that(1) flush_ok show ?thesis by blast
next
  case False
  define n where "n = (LEAST i. \<not> oks i)"
  from False obtain i where i: "i < length ms" "\<not> oks i" by blast
  then have n: "n < length ms" "\<not> oks n" "\<forall>i<n. oks i"
    unfolding n_def by (metis LeastI Least_le le_less_trans, metis LeastI, metis not_less_Least)
  have "ms = take n ms @ ms ! n # drop (Suc n) ms" using n(1) by (rule id_take_nth_drop)
  with flush_fails [of "take n ms" oks "ms ! n" "drop (Suc n) ms" c] n that(2) show ?thesis by auto
qed

lemma on_timer_inv:
  assumes "bc_inv c" "bc_running c"
  shows "bc_inv (on_timer now connects oks c)"
proof (cases "\<not> bc_client c \<and> int (bc_delay c) \<le> max 0 (now - bc_last c) \<and> connects")
  case False
  with assms show ?thesis by (auto simp: on_timer_def bc_inv_def bc_defs)
next
  case True
  let ?c = "c\<lparr>bc_last := now, bc_client := True, bc_delay := INITIAL_RECONNECT_DELAY, bc_buffer := []\<rparr>"
  have t: "on_timer now connects oks c = flush (bc_buffer c) oks ?c"
    using True by (simp add: on_timer_def)
  show ?thesis
    by (rule flush_cases [of "bc_buffer c" oks ?c])
      (use assms in \<open>simp_all add: t bc_inv_def bc_defs\<close>)
qed

lemma bc_run_inv: "bc_run sent c \<Longrightarrow> bc_inv c"
proof (induction rule: bc_run.induct)
  case (bc_new now)
  show ?case by (simp add: BufferedIpcClient_new_def bc_inv_def bc_defs)
next
  case (bc_send sent c m)
  then show ?case
    by (cases "bc_running c") (simp_all add: bc_send_def can_send_def bc_inv_def push_buffer_def)
next
  case (bc_message sent c ok)
  then show ?case
    by (auto simp: on_message_def bc_inv_def bc_defs Let_def split: list.splits)
next
  case (bc_timer sent c now connects oks)
  then show ?case by (intro on_timer_inv)
next
  case (bc_shutdown sent c)
  then show ?case by (auto simp: on_shutdown_def bc_inv_def)
qed

lemma on_message_transit:
  assumes "bc_inv c"
  shows "subseq (in_transit (on_message ok c)) (in_transit c)"
proof (cases "bc_channel c")
  case Nil
  then show ?thesis by (simp add: on_message_def)
next
  case (Cons m ms)
  have "subseq (bc_delivered c @ bc_buffer c @ ms) (bc_delivered c @ bc_buffer c @ m # ms)"
    by (intro list_emb_append_mono subseq_order.refl list_emb_Cons)
  with assms Cons show ?thesis
    by (auto simp: on_message_def bc_inv_def push_buffer_def deliver_def Let_def)
qed

lemma on_timer_transit: "subseq (in_transit (on_timer now connects oks c)) (in_transit c)"
proof (cases "\<not> bc_client c \<and> int (bc_delay c) \<le> max 0 (now - bc_last c) \<and> connects")
  case False
  then show ?thesis by (auto simp: on_timer_def)
next
  case True
  let ?c = "c\<lparr>bc_last := now, bc_client := True, bc_delay := INITIAL_RECONNECT_DELAY, bc_buffer := []\<rparr>"
  have t: "on_timer now connects oks c = flush (bc_buffer c) oks ?c"
    using True by (simp add: on_timer_def)
  show ?thesis
  proof (rule flush_cases [of "bc_buffer c" oks ?c])
    fix pre m post assume "bc_buffer c = pre @ m # post"
      and f: "flush (bc_buffer c) oks ?c
        = (push_buffer m (?c\<lparr>bc_delivered := bc_delivered ?c @ pre\<rparr>))\<lparr>bc_client := False\<rparr>"
    moreover have "subseq (bc_delivered c @ pre @ m # bc_channel c) (bc_delivered c @ pre @ m # post @ bc_channel c)"
      by (intro list_emb_append_mono subseq_order.refl) (simp add: subseq_drop_many)
    ultimately show ?thesis unfolding t f by (simp add: push_buffer_def MAX_BUFFER_SIZE_def)
  qed (simp add: t)
qed

text \<open>C33 (order and bounds). In every run of the client, whatever the socket does, the buffer
  holds at most 10000 and the channel at most 1000 messages, the reconnection delay stays between
  one and thirty seconds, the buffer is empty while connected, and what was delivered followed by
  what is buffered and queued is a subsequence of the messages sent: nothing is
  reordered or delivered twice.\<close>

theorem buffered_in_order:
  assumes "bc_run sent c"
  shows "length (bc_buffer c) \<le> 10000 \<and> length (bc_channel c) \<le> 1000
    \<and> secs 1 \<le> bc_delay c \<and> bc_delay c \<le> secs 30 \<and> (bc_client c \<longrightarrow> bc_buffer c = [])
    \<and> subseq (bc_delivered c @ bc_buffer c @ bc_channel c) sent"
proof -
  from assms have "subseq (in_transit c) sent"
  proof (induction rule: bc_run.induct)
    case (bc_new now)
    show ?case by (simp add: BufferedIpcClient_new_def)
  next
    case (bc_send sent c m)
    from bc_send.IH have "subseq (in_transit c @ [m]) (sent @ [m])" by (subst subseq_append)
    moreover have "bc_channel c = []" if "\<not> bc_running c"
      using bc_run_inv [OF bc_send.hyps(1)] that by (simp add: bc_inv_def)
    moreover have "subseq (in_transit c) (sent @ [m])"
      using bc_send.IH by (rule subseq_rev_drop_many)
    ultimately show ?case by (auto simp: bc_send_def push_buffer_def)
  next
    case (bc_message sent c ok)
    from on_message_transit [OF bc_run_inv [OF bc_message.hyps(1)]] bc_message.IH
    show ?case by (rule subseq_order.trans)
  next
    case (bc_timer sent c now connects oks)
    from on_timer_transit bc_timer.IH show ?case by (rule subseq_order.trans)
  next
    case (bc_shutdown sent c)
    have "subseq (in_transit (on_shutdown c)) (in_transit c)" 
      using subseq_rev_drop_many [OF subseq_order.refl, of "bc_delivered c @ bc_buffer c" "bc_channel c"]
      by (simp add: on_shutdown_def)
    from this bc_shutdown.IH show ?case by (rule subseq_order.trans)
  qed
  with bc_run_inv [OF assms] show ?thesis by (simp add: bc_inv_def bc_defs)
qed

text \<open>C34 (delivery). Once a reconnection attempt is due and succeeds and the socket accepts
  what it is given, everything buffered and everything queued is delivered, in order, within one
  timer step and one step per queued message.\<close>

theorem buffered_delivery:
  assumes "\<not> bc_client c" and "bc_last c + int (bc_delay c) \<le> now" and "\<forall>i<length (bc_buffer c). oks i"
  shows "(on_message True ^^ length (bc_channel c)) (on_timer now True oks c)
    = c\<lparr>bc_last := now, bc_client := True, bc_delay := INITIAL_RECONNECT_DELAY, bc_buffer := [],
        bc_channel := [], bc_delivered := bc_delivered c @ bc_buffer c @ bc_channel c\<rparr>"
proof -
  have drain: "(on_message True ^^ length (bc_channel d)) d
      = d\<lparr>bc_channel := [], bc_delivered := bc_delivered d @ bc_channel d\<rparr>" if "bc_client d" for d :: "'a BufferedIpcClient"
    using that
  proof (induction "bc_channel d" arbitrary: d)
    case Nil
    then show ?case by (cases d) simp
  next
    case (Cons m ms)
    let ?d = "deliver m (d\<lparr>bc_channel := ms\<rparr>)"
    have "on_message True d = ?d" using Cons(2,3) by (simp add: on_message_def flip: Cons(2))
    moreover have "(on_message True ^^ length ms) ?d
        = ?d\<lparr>bc_channel := [], bc_delivered := bc_delivered ?d @ bc_channel ?d\<rparr>"
      using Cons(1) [of ?d] Cons(3) by (simp add: deliver_def)
    ultimately show ?case
      by (simp add: funpow_swap1 deliver_def flip: Cons(2))
  qed
  let ?c = "c\<lparr>bc_last := now, bc_client := True, bc_delay := INITIAL_RECONNECT_DELAY, bc_buffer := []\<rparr>"
  have "on_timer now True oks c = ?c\<lparr>bc_delivered := bc_delivered c @ bc_buffer c\<rparr>"
    using assms flush_ok [of "bc_buffer c" oks ?c] by (simp add: on_timer_def)
  with drain [of "?c\<lparr>bc_delivered := bc_delivered c @ bc_buffer c\<rparr>"] show ?thesis by simp
qed

text \<open>A failed flush loses messages. If the socket refuses a message while the buffer is
  flushed, only that message is kept: the buffered messages behind it are neither delivered
  nor buffered again.\<close>

theorem flush_failure_loses:
  assumes "\<not> bc_client c" and "bc_last c + int (bc_delay c) \<le> now"
    and "bc_buffer c = pre @ m # post" and "\<forall>i<length pre. oks i" and "\<not> oks (length pre)"
  shows "bc_delivered (on_timer now True oks c) = bc_delivered c @ pre
    \<and> bc_buffer (on_timer now True oks c) = [m] \<and> bc_channel (on_timer now True oks c) = bc_channel c"
proof -
  let ?c = "c\<lparr>bc_last := now, bc_client := True, bc_delay := INITIAL_RECONNECT_DELAY, bc_buffer := []\<rparr>"
  have "on_timer now True oks c = flush (pre @ m # post) oks ?c"
    using assms(1-3) by (simp add: on_timer_def)
  with flush_fails [OF assms(4,5)] show ?thesis by (simp add: push_buffer_def MAX_BUFFER_SIZE_def)
qed

text \<open>Backoff. While attempts fail, the delay after the \<open>n\<close>-th of them is
  \<open>min (2 ^ n) 30\<close> seconds, if each attempt is made when it is due.\<close>

theorem reconnect_backoff:
  assumes "\<not> bc_client c" and "bc_delay c = INITIAL_RECONNECT_DELAY"
    and "\<forall>k<n. bc_last (f k) + int (bc_delay (f k)) \<le> due k"
    and "f 0 = c" and "\<forall>k<n. f (Suc k) = on_timer (due k) False oks (f k)"
  shows "bc_delay (f n) = secs (min (2 ^ n) 30) \<and> \<not> bc_client (f n)"
  using assms(3,5)
proof (induction n)
  case 0
  with assms(1,2,4) show ?case by (simp add: INITIAL_RECONNECT_DELAY_def)
next
  case (Suc n)
  then have "bc_delay (f n) = secs (min (2 ^ n) 30)" "\<not> bc_client (f n)"
    "bc_last (f n) + int (bc_delay (f n)) \<le> due n" "f (Suc n) = on_timer (due n) False oks (f n)" by auto
  then show ?case by (auto simp: on_timer_def bc_defs min_def)
qed

section \<open>Examples\<close>

definition sample_serde :: "nat ipc_serde" where
  "sample_serde = \<lparr>to_json = (\<lambda>e. Inr (if env_message e = 1 then ''{1}'' else ''{2}'')),
     of_json = (\<lambda>s. Inr \<lparr>env_message = (if s = ''{1}'' then 1 else 2), env_timestamp = 0,
                        env_correlation_id = Some ''u''\<rparr>)\<rparr>"

theorem ipc_roundtrip_witness:
  "map env_message (fst (receive_all sample_serde \<lparr>ic_written = [], ic_unread = ic_written
      (send_messages sample_serde [((0, ''u''), 2), ((0, ''u''), 1)] \<lparr>ic_written = [], ic_unread = []\<rparr>)\<rparr>)) = [2, 1]"
proof -
  have trims: "trim ''{1}\<newline>'' = ''{1}''" "trim ''{2}\<newline>'' = ''{2}''" by code_simp+
  show ?thesis
    by (subst ipc_roundtrip) (simp_all add: compact_def envelope_def sample_serde_def trims)
qed

definition sample_offline :: "nat BufferedIpcClient" where
  "sample_offline = (BufferedIpcClient_new 0)\<lparr>bc_buffer := [1, 2, 3], bc_channel := [4]\<rparr>"

theorem buffered_in_order_witness:
  "bc_delivered (on_message True (bc_send (7 :: nat) (on_timer 5 True (\<lambda>_. True) (BufferedIpcClient_new 0)))) = [7]
   \<and> subseq [7] [7 :: nat]"
proof -
  let ?c = "on_message True (bc_send (7 :: nat) (on_timer 5 True (\<lambda>_. True) (BufferedIpcClient_new 0)))"
  have "bc_run ([] @ [7]) ?c"
    by (intro bc_message bc_run.bc_send bc_timer bc_new)
      (simp_all add: on_timer_def BufferedIpcClient_new_def bc_send_def can_send_def bc_defs)
  from buffered_in_order [OF this] show ?thesis
    by (simp add: on_timer_def BufferedIpcClient_new_def bc_send_def on_message_def bc_defs)
qed

theorem buffered_delivery_witness:
  "bc_delivered (on_message True (on_timer 5 True (\<lambda>_. True) sample_offline)) = [1, 2, 3, 4]"
  using buffered_delivery [of sample_offline 5 "\<lambda>_. True"]
  by (simp add: sample_offline_def BufferedIpcClient_new_def bc_defs)

theorem flush_failure_loses_witness:
  "in_transit (on_timer 5 True (\<lambda>i. i = 0) sample_offline) = [1, 2, 4]"
  using flush_failure_loses [of sample_offline 5 "[1]" 2 "[3]" "\<lambda>i. i = 0"]
  by (simp add: sample_offline_def BufferedIpcClient_new_def bc_defs)

theorem reconnect_backoff_witness:
  "bc_delay (on_timer (int (secs 60)) False (\<lambda>_. True) (on_timer 50 False (\<lambda>_. True) sample_offline)) = secs 4"
proof -
  let ?g = "\<lambda>k :: nat. if k = 0 then sample_offline else if k = 1 then on_timer 50 False (\<lambda>_. True) sample_offline
    else on_timer (int (secs 60)) False (\<lambda>_. True) (on_timer 50 False (\<lambda>_. True) sample_offline)"
  have "bc_delay (?g 2) = secs (min (2 ^ 2) 30) \<and> \<not> bc_client (?g 2)"
    by (rule reconnect_backoff [where c = sample_offline and due = "\<lambda>k. if k = 0 then 50 else int (secs 60)" and oks = "\<lambda>_. True"])
      (auto simp: less_2_cases_iff sample_offline_def BufferedIpcClient_new_def on_timer_def bc_defs)
  then show ?thesis by simp
qed

end
