(* ===== verification/Sandbox_Execution.thy ===== *)
theory Sandbox_Execution
  imports Acdp_Prelude
begin

text \<open>
  Executions of the code sandbox (\<open>acdp-sandbox/src/types.rs\<close>,
  \<open>acdp-sandbox/src/execution.rs\<close>): requests and results, the state kept for reconnection,
  handles, and the background monitor as a state machine. A stream is seen from its receiving
  end: the chunks its two channels will yield and the result, absent when the sender is
  dropped without sending.
\<close>

section \<open>Requests and results\<close>

record ExecutionRequest =
  er_code :: string
  er_timeout_secs :: "u64 option"
  er_env :: "(string \<times> string) list"
  er_stdin :: "string option"

definition ExecutionRequest_new :: "string \<Rightarrow> ExecutionRequest" where
  "ExecutionRequest_new code = \<lparr>er_code = code, er_timeout_secs = None, er_env = [], er_stdin = None\<rparr>"

definition er_with_timeout :: "u64 \<Rightarrow> ExecutionRequest \<Rightarrow> ExecutionRequest" where
  "er_with_timeout secs r = r\<lparr>er_timeout_secs := Some secs\<rparr>"

definition er_with_env :: "string \<Rightarrow> string \<Rightarrow> ExecutionRequest \<Rightarrow> ExecutionRequest" where
  "er_with_env k v r = r\<lparr>er_env := er_env r @ [(k, v)]\<rparr>"

record ExecutionResult =
  exit_code :: int
  duration_ms :: u64
  timed_out :: bool
  exec_error :: "string option"

definition success :: "ExecutionResult \<Rightarrow> bool" where
  "success r \<longleftrightarrow> exit_code r = 0 \<and> \<not> timed_out r \<and> exec_error r = None"

record ExecutionStream =
  es_stdout :: "bytes list"
  es_stderr :: "bytes list"
  es_result :: "ExecutionResult option"

section \<open>Execution state\<close>

datatype ExecutionStatus = Queued | Running | Completed | Failed | Cancelled

definition finished :: "ExecutionStatus \<Rightarrow> bool" where
  "finished s \<longleftrightarrow> s = Completed \<or> s = Failed \<or> s = Cancelled"

record ExecutionState =
  st_id :: string
  st_request :: ExecutionRequest
  st_status :: ExecutionStatus
  st_result :: "ExecutionResult option"
  stdout_buffer :: "bytes list"
  stderr_buffer :: "bytes list"

definition ExecutionState_new :: "string \<Rightarrow> ExecutionRequest \<Rightarrow> ExecutionState" where
  "ExecutionState_new i request = \<lparr>st_id = i, st_request = request, st_status = Queued,
     st_result = None, stdout_buffer = [], stderr_buffer = []\<rparr>"

text \<open>\<open>Vec::remove(0)\<close> of an empty vector panics, which a limit of zero lines leads to.\<close>

definition push_line :: "bytes \<Rightarrow> nat \<Rightarrow> bytes list \<Rightarrow> bytes list rust" where
  "push_line line max_lines buf =
     (if length buf \<ge> max_lines
      then (case buf of [] \<Rightarrow> Panic | _ # rest \<Rightarrow> Done (rest @ [line]))
      else Done (buf @ [line]))"

definition push_stdout :: "bytes \<Rightarrow> nat \<Rightarrow> ExecutionState \<Rightarrow> ExecutionState rust" where
  "push_stdout line max_lines s =
     map_rust (\<lambda>b. s\<lparr>stdout_buffer := b\<rparr>) (push_line line max_lines (stdout_buffer s))"

definition push_stderr :: "bytes \<Rightarrow> nat \<Rightarrow> ExecutionState \<Rightarrow> ExecutionState rust" where
  "push_stderr line max_lines s =
     map_rust (\<lambda>b. s\<lparr>stderr_buffer := b\<rparr>) (push_line line max_lines (stderr_buffer s))"

section \<open>Handles\<close>

record ExecutionHandle =
  eh_id :: string
  eh_state :: ExecutionState
  eh_stream :: ExecutionStream

definition ExecutionHandle_new :: "string \<Rightarrow> ExecutionRequest \<Rightarrow> ExecutionStream \<Rightarrow> ExecutionHandle" where
  "ExecutionHandle_new i request stream =
     \<lparr>eh_id = i, eh_state = ExecutionState_new i request, eh_stream = stream\<rparr>"

text \<open>Filling a channel of \<open>cap\<close> slots before its receiver is handed out: the sender waits for
  ever once the channel is full, and \<open>None\<close> stands for that.\<close>

fun fill_channel :: "nat \<Rightarrow> 'a list \<Rightarrow> 'a list \<Rightarrow> 'a list option" where
  "fill_channel cap chan [] = Some chan"
| "fill_channel cap chan (x # xs) =
     (if length chan < cap then fill_channel cap (chan @ [x]) xs else None)"

definition reconnect :: "ExecutionState \<Rightarrow> ExecutionStream option" where
  "reconnect s =
     Option.bind (fill_channel 128 [] (stdout_buffer s)) (\<lambda>out.
     Option.bind (fill_channel 128 [] (stderr_buffer s)) (\<lambda>err.
       Some \<lparr>es_stdout = out, es_stderr = err, es_result = st_result s\<rparr>))"

definition handle_reconnect :: "ExecutionHandle \<Rightarrow> ExecutionStream option" where
  "handle_reconnect h = reconnect (eh_state h)"

definition is_complete :: "ExecutionHandle \<Rightarrow> bool" where
  "is_complete h \<longleftrightarrow> finished (st_status (eh_state h))"

definition cancel :: "ExecutionHandle \<Rightarrow> ExecutionHandle" where
  "cancel h = h\<lparr>eh_state := (eh_state h)\<lparr>st_status := Cancelled\<rparr>\<rparr>"

section \<open>The monitor\<close>

text \<open>A monitored execution: its shared state and what its tasks still have to read.
  \<open>mo_started\<close> tells whether the first task has set the status, \<open>mo_waiting\<close> whether the
  result is still awaited.\<close>

record MonitoredExecution =
  mo_id :: string
  mo_state :: ExecutionState
  mo_stream :: ExecutionStream
  mo_started :: bool
  mo_waiting :: bool

definition monitor :: "ExecutionHandle \<Rightarrow> MonitoredExecution" where
  "monitor h = \<lparr>mo_id = eh_id h, mo_state = eh_state h, mo_stream = eh_stream h,
     mo_started = False, mo_waiting = True\<rparr>"

text \<open>The steps of the tasks: starting, a line on either channel, and the end of the wait for the
  result, with the result or with the error of a dropped sender.\<close>

inductive monitor_step :: "MonitoredExecution \<Rightarrow> MonitoredExecution \<Rightarrow> bool" where
  mo_start: "\<not> mo_started m \<Longrightarrow>
    monitor_step m (m\<lparr>mo_state := (mo_state m)\<lparr>st_status := Running\<rparr>, mo_started := True\<rparr>)"
| mo_stdout: "mo_started m \<Longrightarrow> es_stdout (mo_stream m) = line # rest \<Longrightarrow>
    push_stdout line 1000 (mo_state m) = Done s \<Longrightarrow>
    monitor_step m (m\<lparr>mo_state := s, mo_stream := (mo_stream m)\<lparr>es_stdout := rest\<rparr>\<rparr>)"
| mo_stderr: "mo_started m \<Longrightarrow> es_stderr (mo_stream m) = line # rest \<Longrightarrow>
    push_stderr line 1000 (mo_state m) = Done s \<Longrightarrow>
    monitor_step m (m\<lparr>mo_state := s, mo_stream := (mo_stream m)\<lparr>es_stderr := rest\<rparr>\<rparr>)"
| mo_result: "mo_started m \<Longrightarrow> mo_waiting m \<Longrightarrow> es_result (mo_stream m) = Some r \<Longrightarrow>
    monitor_step m (m\<lparr>mo_state := (mo_state m)\<lparr>st_status := (if success r then Completed else Failed),
                        st_result := Some r\<rparr>, mo_waiting := False\<rparr>)"
| mo_dropped: "mo_started m \<Longrightarrow> mo_waiting m \<Longrightarrow> es_result (mo_stream m) = None \<Longrightarrow>
    monitor_step m (m\<lparr>mo_waiting := False\<rparr>)"

inductive_cases monitor_stepE: "monitor_step m m'"

text \<open>One round of \<open>wait\<close>: the result when the loop returns.\<close>

definition wait_poll :: "ExecutionState \<Rightarrow> ExecutionResult option" where
  "wait_poll s = (if finished (st_status s) then st_result s else None)"

section \<open>Buffers\<close>

text \<open>Reference: the last \<open>n\<close> elements.\<close>

definition last_n :: "nat \<Rightarrow> 'a list \<Rightarrow> 'a list" where
  "last_n n xs = drop (length xs - n) xs"

fun push_lines :: "bytes list \<Rightarrow> nat \<Rightarrow> bytes list \<Rightarrow> bytes list rust" where
  "push_lines [] n buf = Done buf"
| "push_lines (l # ls) n buf = (case push_line l n buf of Panic \<Rightarrow> Panic | Done b \<Rightarrow> push_lines ls n b)"

lemma push_line_last_n:
  "0 < n \<Longrightarrow> length buf \<le> n \<Longrightarrow> push_line l n buf = Done (last_n n (buf @ [l]))"
  by (cases buf) (auto simp: push_line_def last_n_def)

lemma last_n_append: "last_n n (last_n n xs @ ys) = last_n n (xs @ ys)"
proof (cases "length xs \<le> n")
  case True
  then show ?thesis by (simp add: last_n_def)
next
  case False
  let ?k = "length xs - n"
  have "last_n n (last_n n xs @ ys) = drop (length ys) (drop ?k (xs @ ys))"
    using False by (simp add: last_n_def)
  also have "\<dots> = drop (length ys + ?k) (xs @ ys)" by simp
  also have "length ys + ?k = length (xs @ ys) - n" using False by simp
  finally show ?thesis by (simp add: last_n_def)
qed

lemma push_lines_last_n:
  "0 < n \<Longrightarrow> length buf \<le> n \<Longrightarrow> push_lines ls n buf = Done (last_n n (buf @ ls))"
proof (induction ls arbitrary: buf)
  case Nil
  then show ?case by (simp add: last_n_def)
next
  case (Cons l ls)
  have "length (last_n n (buf @ [l])) \<le> n" by (simp add: last_n_def)
  from Cons.IH [OF Cons.prems(1) this] push_line_last_n [OF Cons.prems] show ?case
    by (simp add: last_n_append)
qed

lemma fill_channel_eq:
  "fill_channel cap chan xs = (if length chan + length xs \<le> max cap (length chan) then Some (chan @ xs) else None)"
  by (induction cap chan xs rule: fill_channel.induct) auto

text \<open>Output buffer. Pushing lines one by one into a buffer with a positive limit never
  panics and keeps exactly the last lines of all output.\<close>

theorem output_buffer_last_lines:
  assumes "0 < n"
  shows "push_lines ls n [] = Done (drop (length ls - n) ls)"
  using push_lines_last_n [OF assms, of "[]" ls] by (simp add: last_n_def)

text \<open>C36 (reconnecting). Reconnecting returns the buffered output and the result if and only if
  each buffer holds at most 128 lines: a longer one, and a monitor keeps up to 1000, fills
  the new channel before anyone can read it and the call never returns.\<close>

theorem reconnect_returns_iff:
  "reconnect s = (if length (stdout_buffer s) \<le> 128 \<and> length (stderr_buffer s) \<le> 128
     then Some \<lparr>es_stdout = stdout_buffer s, es_stderr = stderr_buffer s, es_result = st_result s\<rparr>
     else None)"
  by (simp add: reconnect_def fill_channel_eq)

section \<open>Waiting\<close>

definition monitor_inv :: "ExecutionStream \<Rightarrow> MonitoredExecution \<Rightarrow> bool" where
  "monitor_inv stream m \<longleftrightarrow> es_result (mo_stream m) = es_result stream
     \<and> (case st_result (mo_state m) of
          Some r \<Rightarrow> es_result stream = Some r \<and> \<not> mo_waiting m \<and> mo_started m
            \<and> st_status (mo_state m) = (if success r then Completed else Failed)
        | None \<Rightarrow> (mo_started m \<longrightarrow> st_status (mo_state m) = Running)
            \<and> (mo_waiting m \<or> mo_started m \<and> es_result stream = None))"

lemma push_Done_status:
  "push_stdout l n s = Done s' \<Longrightarrow> st_status s' = st_status s \<and> st_result s' = st_result s"
  "push_stderr l n s = Done s' \<Longrightarrow> st_status s' = st_status s \<and> st_result s' = st_result s"
  by (auto simp: push_stdout_def push_stderr_def push_line_def split: if_splits list.splits)

lemma monitor_step_inv: "monitor_step m m' \<Longrightarrow> monitor_inv stream m \<Longrightarrow> monitor_inv stream m'"
  by (induction rule: monitor_step.induct)
    (auto simp: monitor_inv_def dest!: push_Done_status dest: sym split: option.splits)

lemma monitor_steps_inv:
  "monitor_step\<^sup>*\<^sup>* (monitor h) m \<Longrightarrow> st_result (eh_state h) = None \<Longrightarrow> monitor_inv (eh_stream h) m"
proof (induction rule: rtranclp_induct)
  case base
  then show ?case by (simp add: monitor_inv_def monitor_def)
next
  case (step m m')
  then show ?case using monitor_step_inv by blast
qed

text \<open>C35 (waiting for a monitored execution). In every state the monitor's tasks can reach,
  \<open>wait\<close> returns no result but the one the execution sent; and from every such state they
  can go on to one where it does return that result.\<close>

theorem monitor_wait_result:
  assumes "monitor_step\<^sup>*\<^sup>* (monitor (ExecutionHandle_new i rq stream)) m"
  shows "(\<forall>r. wait_poll (mo_state m) = Some r \<longrightarrow> es_result stream = Some r)
    \<and> (\<forall>r. es_result stream = Some r \<longrightarrow>
         (\<exists>m'. monitor_step\<^sup>*\<^sup>* m m' \<and> wait_poll (mo_state m') = Some r))"
proof -
  have inv: "monitor_inv stream m"
    using monitor_steps_inv [OF assms] by (simp add: ExecutionHandle_new_def ExecutionState_new_def)
  have returns: "wait_poll (mo_state m') = Some r"
    if "monitor_inv stream m'" "es_result stream = Some r" "\<not> mo_waiting m'" for m' r
    using that by (auto simp: monitor_inv_def wait_poll_def finished_def split: option.splits)
  have finish: "\<exists>m'. monitor_step m0 m' \<and> \<not> mo_waiting m'"
    if "monitor_inv stream m0" "es_result stream = Some r" "mo_started m0" "mo_waiting m0" for m0 r
    using mo_result [OF that(3,4), of r] that(1,2) by (force simp: monitor_inv_def)
  have "\<exists>m'. monitor_step\<^sup>*\<^sup>* m m' \<and> wait_poll (mo_state m') = Some r" if r: "es_result stream = Some r" for r
  proof -
    obtain m0 where m0: "monitor_step\<^sup>*\<^sup>* m m0" "mo_started m0" "monitor_inv stream m0"
    proof (cases "mo_started m")
      case True
      with inv that show ?thesis by blast
    next
      case False
      note start = mo_start [OF this]
      show ?thesis
        by (rule that [OF r_into_rtranclp, OF start _ monitor_step_inv [OF start inv]]) simp
    qed
    show ?thesis
    proof (cases "mo_waiting m0")
      case True
      then obtain m' where "monitor_step m0 m'" "\<not> mo_waiting m'" using finish [OF m0(3) r m0(2)] by blast
      with m0 monitor_step_inv r show ?thesis by (meson returns rtranclp.rtrancl_into_rtrancl)
    qed (use m0 returns r in blast)
  qed
  moreover have "es_result stream = Some r" if "wait_poll (mo_state m) = Some r" for r
    using inv that by (auto simp: monitor_inv_def wait_poll_def split: if_splits)
  ultimately show ?thesis by blast
qed

text \<open>Lost cancellation and lost executions. A handle cancelled before it is monitored is
  running again as soon as the monitor starts; and when the execution drops its result
  channel, \<open>wait\<close> returns in no reachable state and the status stays \<open>Running\<close>.\<close>

theorem monitor_never_returns:
  assumes "monitor_step\<^sup>*\<^sup>* (monitor (cancel (ExecutionHandle_new i rq stream))) m" and "mo_started m"
  shows "st_status (mo_state m) \<noteq> Cancelled
    \<and> (es_result stream = None \<longrightarrow> wait_poll (mo_state m) = None \<and> st_status (mo_state m) = Running)"
proof -
  have "monitor_inv stream m"
    using monitor_steps_inv [OF assms(1)]
    by (simp add: ExecutionHandle_new_def ExecutionState_new_def cancel_def)
  with assms(2) show ?thesis
    by (auto simp: monitor_inv_def wait_poll_def finished_def split: option.splits if_splits)
qed

section \<open>Examples\<close>

theorem output_buffer_last_lines_witness: "push_lines [[1], [2], [3]] 2 [] = Done [[2], [3]]"
  using output_buffer_last_lines [of 2 "[[1], [2], [3]]"] by simp

abbreviation sample_handle :: "ExecutionResult option \<Rightarrow> ExecutionHandle" where
  "sample_handle r \<equiv> ExecutionHandle_new ''x'' (ExecutionRequest_new ''print(1)'')
     \<lparr>es_stdout = [], es_stderr = [], es_result = r\<rparr>"

theorem monitor_wait_result_witness:
  "\<exists>m'. monitor_step\<^sup>*\<^sup>* (monitor (sample_handle (Some \<lparr>exit_code = 0, duration_ms = 5, timed_out = False, exec_error = None\<rparr>))) m'
     \<and> wait_poll (mo_state m') = Some \<lparr>exit_code = 0, duration_ms = 5, timed_out = False, exec_error = None\<rparr>"
  using monitor_wait_result [OF rtranclp.rtrancl_refl] by force

theorem monitor_never_returns_witness:
  "\<exists>m. monitor_step\<^sup>*\<^sup>* (monitor (cancel (sample_handle None))) m \<and> mo_started m \<and> wait_poll (mo_state m) = None"
proof -
  let ?m = "monitor (cancel (sample_handle None))"
  define m' where "m' = ?m\<lparr>mo_state := (mo_state ?m)\<lparr>st_status := Running\<rparr>, mo_started := True\<rparr>"
  have "monitor_step ?m m'" unfolding m'_def by (rule mo_start) (simp add: monitor_def)
  then have r: "monitor_step\<^sup>*\<^sup>* ?m m'" by (rule r_into_rtranclp)
  have "mo_started m'" by (simp add: m'_def)
  with monitor_never_returns [OF r] r show ?thesis by force
qed

end
