(* ===== verification/Plan_Interpreter.thy ===== *)
theory Plan_Interpreter
  imports Sandbox_Execution Json "HOL-Library.AList"
begin

text \<open>
  Execution plans (\<open>acdp-common/src/gencode.rs\<close>), the service that interprets them under
  capability tokens (\<open>acdp-sandbox/src/service.rs\<close>) and the code generators
  (\<open>acdp-sandbox/src/gencode.rs\<close>). The runtime, the file system and the recorder of outcomes
  are parameters that act on a state \<open>'w\<close>; failures recorded by a spawned task go to
  \<open>pl_spawn\<close>. Errors are \<open>anyhow\<close> messages, identifiers are given by their text.
\<close>

section \<open>Plans\<close>

datatype CapabilityKind =
  KindSandboxExecution | KindFileRead | KindFileWrite | KindNetwork | KindCodeFragment | KindData

datatype CapabilityOrigin = OriginTrusted | OriginUserProvided | OriginExternal

datatype CapabilitySink = SandboxExecution | FileRead | FileWrite | NetworkRequest | EmitSink

record CapabilityToken =
  tok_id :: string
  tok_kind :: CapabilityKind
  tok_origin :: CapabilityOrigin
  allowed_sinks :: "CapabilitySink list"

datatype MountMode = ReadOnly | ReadWrite

record MountSpec =
  host_path :: string
  sandbox_path :: string
  mount_mode :: MountMode

datatype NetworkPolicy = Disabled | Limited | Full

text \<open>The processor quota is a double, kept as its bit pattern: nothing computes with it.\<close>

type_synonym f64_bits = u64

record ExecutionPolicy =
  pol_timeout_secs :: "u64 option"
  max_cpu_seconds :: "f64_bits option"
  max_memory_bytes :: "u64 option"
  heartbeat_interval_secs :: "u64 option"
  decay_threshold :: "u32 option"
  mounts :: "MountSpec list"
  network :: NetworkPolicy
  identity_jwt :: "string option"
  pol_capabilities :: "CapabilityToken list"

definition ExecutionPolicy_default :: ExecutionPolicy where
  "ExecutionPolicy_default = \<lparr>pol_timeout_secs = Some 30, max_cpu_seconds = None,
     max_memory_bytes = None, heartbeat_interval_secs = Some 5, decay_threshold = Some 3,
     mounts = [], network = Disabled, identity_jwt = None, pol_capabilities = []\<rparr>"

datatype PlanNodeKind =
    RunPython string string
  | ReadFile string string
  | WriteFile string string
  | Emit string

record PlanNode =
  node_id :: string
  node_kind :: PlanNodeKind

datatype ExecutionPayload =
    Script string string
  | Container string "string list" "(string \<times> string) list"
  | Workflow "(string \<times> ExecutionPayload \<times> (string \<times> string) list) list"
  | Empty

record ExecutionPlan =
  plan_id :: string
  payload :: ExecutionPayload
  plan_nodes :: "PlanNode list"
  plan_policy :: ExecutionPolicy
  plan_metadata :: "string \<rightharpoonup> string"
  created_at :: int

definition ExecutionPlan_empty :: "string \<Rightarrow> int \<Rightarrow> ExecutionPlan" where
  "ExecutionPlan_empty uuid now = \<lparr>plan_id = uuid, payload = Empty, plan_nodes = [],
     plan_policy = ExecutionPolicy_default, plan_metadata = Map.empty, created_at = now\<rparr>"

section \<open>Text\<close>

text \<open>\<open>String::from_utf8_lossy\<close>: how many bytes the next scalar value takes, or the next
  maximal invalid piece, which becomes the replacement character.\<close>

definition cont :: "u8 \<Rightarrow> bool" where
  "cont b \<longleftrightarrow> 0x80 \<le> b \<and> b \<le> 0xBF"

definition second_ok :: "u8 \<Rightarrow> u8 \<Rightarrow> bool" where
  "second_ok a b \<longleftrightarrow>
     (if a = 0xE0 then 0xA0 \<le> b \<and> b \<le> 0xBF else if a = 0xED then 0x80 \<le> b \<and> b \<le> 0x9F
      else if a = 0xF0 then 0x90 \<le> b \<and> b \<le> 0xBF else if a = 0xF4 then 0x80 \<le> b \<and> b \<le> 0x8F
      else cont b)"

definition utf8_width :: "u8 \<Rightarrow> nat" where
  "utf8_width a = (if a < 0x80 then 1 else if 0xC2 \<le> a \<and> a \<le> 0xDF then 2
     else if 0xE0 \<le> a \<and> a \<le> 0xEF then 3 else if 0xF0 \<le> a \<and> a \<le> 0xF4 then 4 else 0)"

definition utf8_unit :: "u8 \<Rightarrow> bytes \<Rightarrow> bool \<times> nat" where
  "utf8_unit a bs =
     (if utf8_width a = 0 then (False, 1)
      else if utf8_width a = 1 then (True, 1)
      else case bs of
             [] \<Rightarrow> (False, 1)
           | b # bs \<Rightarrow>
               if \<not> second_ok a b then (False, 1)
               else if utf8_width a = 2 then (True, 2)
               else case bs of
                      [] \<Rightarrow> (False, 2)
                    | c # bs \<Rightarrow>
                        if \<not> cont c then (False, 2)
                        else if utf8_width a = 3 then (True, 3)
                        else case bs of
                               [] \<Rightarrow> (False, 3)
                             | d # _ \<Rightarrow> if cont d then (True, 4) else (False, 3))"

definition bytes_str :: "bytes \<Rightarrow> string" where
  "bytes_str bs = map (\<lambda>b. char_of (unat b)) bs"

lemma utf8_unit_pos: "utf8_unit a bs = (v, n) \<Longrightarrow> 0 < n"
  by (auto simp: utf8_unit_def split: if_splits list.splits)

function from_utf8_lossy :: "bytes \<Rightarrow> string" where
  "from_utf8_lossy [] = []"
| "from_utf8_lossy (a # bs) =
     (case utf8_unit a bs of
        (valid, n) \<Rightarrow>
          (if valid then bytes_str (take n (a # bs)) else bytes_str [0xEF, 0xBF, 0xBD])
          @ from_utf8_lossy (drop n (a # bs)))"
  by pat_completeness auto
termination
  by (relation "measure length") (auto dest!: utf8_unit_pos [OF sym] simp: drop_Cons split: nat.splits)

text \<open>\<open>chars().take(n)\<close>: a continuation byte belongs to the character before it.\<close>

fun take_chars :: "nat \<Rightarrow> string \<Rightarrow> string" where
  "take_chars n [] = []"
| "take_chars n (c # cs) =
     (if of_char c div 64 = (2 :: nat) then c # take_chars n cs
      else case n of 0 \<Rightarrow> [] | Suc n \<Rightarrow> c # take_chars n cs)"

definition json_object :: "(string \<times> json) list \<Rightarrow> json" where
  "json_object kvs = Object (fold (\<lambda>(k, v). obj_insert k v) kvs [])"

section \<open>The service\<close>

record 'w plan_env =
  pl_new_id :: "'w \<Rightarrow> string \<times> 'w"
  pl_execute :: "ExecutionRequest \<Rightarrow> 'w \<Rightarrow> (string + ExecutionStream) \<times> 'w"
  pl_read :: "string \<Rightarrow> 'w \<Rightarrow> (string + string) \<times> 'w"
  pl_write :: "string \<Rightarrow> string \<Rightarrow> 'w \<Rightarrow> (string + unit) \<times> 'w"
  pl_record :: "ExecutionPlan \<Rightarrow> bool \<Rightarrow> json \<Rightarrow> 'w \<Rightarrow> (string + unit) \<times> 'w"
  pl_spawn :: "ExecutionPlan \<Rightarrow> json \<Rightarrow> 'w \<Rightarrow> 'w"
  pl_debug_error :: "string option \<Rightarrow> string"

type_synonym executions = "(string \<times> ExecutionState) list"

definition execute_with_id ::
  "'w plan_env \<Rightarrow> string \<Rightarrow> ExecutionRequest \<Rightarrow> executions \<times> 'w \<Rightarrow> (string + ExecutionStream) \<times> executions \<times> 'w" where
  "execute_with_id E i request = (\<lambda>(xs, w).
     let xs = AList.update i (ExecutionState_new i request) xs;
         (r, w) = pl_execute E request w
     in (r, xs, w))"

definition execute ::
  "'w plan_env \<Rightarrow> ExecutionRequest \<Rightarrow> executions \<times> 'w \<Rightarrow> (string + ExecutionStream) \<times> executions \<times> 'w" where
  "execute E request = (\<lambda>(xs, w). let (i, w) = pl_new_id E w in execute_with_id E i request (xs, w))"

definition get_execution :: "string \<Rightarrow> executions \<Rightarrow> ExecutionState option" where
  "get_execution i xs = map_of xs i"

definition list_executions :: "executions \<Rightarrow> ExecutionState list" where
  "list_executions xs = map snd xs"

definition cleanup_completed :: "executions \<Rightarrow> executions" where
  "cleanup_completed xs = filter (\<lambda>(i, s). \<not> finished (st_status s)) xs"

primrec sink_debug :: "CapabilitySink \<Rightarrow> string" where
  "sink_debug SandboxExecution = ''SandboxExecution''"
| "sink_debug FileRead = ''FileRead''"
| "sink_debug FileWrite = ''FileWrite''"
| "sink_debug NetworkRequest = ''NetworkRequest''"
| "sink_debug EmitSink = ''Emit''"

definition ensure_capability :: "ExecutionPlan \<Rightarrow> string \<Rightarrow> CapabilitySink \<Rightarrow> string + CapabilityToken" where
  "ensure_capability plan cap sink =
     (case find (\<lambda>c. tok_id c = cap) (pol_capabilities (plan_policy plan)) of
        None \<Rightarrow> Inl (''Capability '' @ cap @ '' missing'')
      | Some token \<Rightarrow>
          if sink \<notin> set (allowed_sinks token)
          then Inl (''Capability '' @ cap @ '' does not permit '' @ sink_debug sink)
          else Inr token)"

definition record_plan_failure ::
  "'w plan_env \<Rightarrow> ExecutionPlan \<Rightarrow> string \<Rightarrow> string \<Rightarrow> string \<Rightarrow> 'w \<Rightarrow> 'w" where
  "record_plan_failure E plan node stage err w =
     pl_spawn E plan (json_object [(''plan_id'', String (plan_id plan)), (''node_id'', String node),
       (''stage'', String stage), (''error'', String err)]) w"

definition record_plan_result ::
  "'w plan_env \<Rightarrow> ExecutionPlan \<Rightarrow> string \<Rightarrow> ExecutionResult \<Rightarrow> string \<Rightarrow> string \<Rightarrow> 'w \<Rightarrow> (string + unit) \<times> 'w" where
  "record_plan_result E plan node r out err w =
     pl_record E plan (success r) (json_object [(''plan_id'', String (plan_id plan)),
       (''node_id'', String node), (''exit_code'', Number (number_from_i64 (exit_code r))),
       (''timed_out'', Bool (timed_out r)), (''stdout_preview'', String (take_chars 200 out)),
       (''stderr_preview'', String (take_chars 200 err)),
       (''error'', (case exec_error r of Some e \<Rightarrow> String e | None \<Rightarrow> Null))]) w"

definition ensure_node_capability ::
  "'w plan_env \<Rightarrow> ExecutionPlan \<Rightarrow> string \<Rightarrow> CapabilitySink \<Rightarrow> string \<Rightarrow> string \<Rightarrow> 'w
     \<Rightarrow> (string + CapabilityToken) \<times> 'w" where
  "ensure_node_capability E plan cap sink node stage w =
     (case ensure_capability plan cap sink of
        Inr token \<Rightarrow> (Inr token, w)
      | Inl e \<Rightarrow> (Inl e, record_plan_failure E plan node stage e w))"

text \<open>The values produced so far and the capability of the last output.\<close>

record plan_values =
  value_store :: "string \<rightharpoonup> string"
  last_output :: "string option"

definition store_value :: "string \<Rightarrow> string \<Rightarrow> plan_values \<Rightarrow> plan_values" where
  "store_value cap v vs = vs\<lparr>value_store := (value_store vs)(cap \<mapsto> v)\<rparr>"

type_synonym 'w node_result = "(string + plan_values) \<times> executions \<times> 'w"

definition node_failed :: "string \<Rightarrow> string \<Rightarrow> string" where
  "node_failed node reason = ''node '' @ [CHR 0x27] @ node @ [CHR 0x27] @ '' failed: '' @ reason"

definition plan_request :: "ExecutionPlan \<Rightarrow> string \<Rightarrow> ExecutionRequest" where
  "plan_request plan code =
     (let request = ExecutionRequest_new code
      in case pol_timeout_secs (plan_policy plan) of
           Some t \<Rightarrow> er_with_timeout t request | None \<Rightarrow> request)"

definition run_python ::
  "'w plan_env \<Rightarrow> ExecutionPlan \<Rightarrow> string \<Rightarrow> string \<Rightarrow> string \<Rightarrow> plan_values \<Rightarrow> executions \<times> 'w \<Rightarrow> 'w node_result" where
  "run_python E plan node code cap vs = (\<lambda>(xs, w).
     case execute E (plan_request plan code) (xs, w) of
       (Inl err, xs, w) \<Rightarrow> (Inl err, xs, record_plan_failure E plan node ''execute_request'' err w)
     | (Inr stream, xs, w) \<Rightarrow>
         (case es_result stream of
            Some exec_result \<Rightarrow>
              let output = from_utf8_lossy (concat (es_stdout stream));
                  (rec, w) = record_plan_result E plan node exec_result output
                               (from_utf8_lossy (concat (es_stderr stream))) w
              in (case rec of
                    Inl e \<Rightarrow> (Inl e, xs, w)
                  | Inr _ \<Rightarrow>
                      if \<not> success exec_result
                      then (Inl (node_failed node (pl_debug_error E (exec_error exec_result))), xs, w)
                      else (Inr ((store_value cap output vs)\<lparr>last_output := Some cap\<rparr>), xs, w))
          | None \<Rightarrow>
              (Inl (node_failed node ''channel closed''), xs,
               record_plan_failure E plan node ''result_channel'' ''channel closed'' w)))"

definition read_file ::
  "'w plan_env \<Rightarrow> ExecutionPlan \<Rightarrow> string \<Rightarrow> string \<Rightarrow> string \<Rightarrow> plan_values \<Rightarrow> executions \<times> 'w \<Rightarrow> 'w node_result" where
  "read_file E plan node path cap vs = (\<lambda>(xs, w).
     case pl_read E path w of
       (Inl err, w) \<Rightarrow> (Inl err, xs, record_plan_failure E plan node ''read_file'' err w)
     | (Inr content, w) \<Rightarrow> (Inr ((store_value cap content vs)\<lparr>last_output := Some cap\<rparr>), xs, w))"

definition write_file ::
  "'w plan_env \<Rightarrow> ExecutionPlan \<Rightarrow> string \<Rightarrow> string \<Rightarrow> string \<Rightarrow> plan_values \<Rightarrow> executions \<times> 'w \<Rightarrow> 'w node_result" where
  "write_file E plan node path cap vs = (\<lambda>(xs, w).
     case value_store vs cap of
       None \<Rightarrow> (Inl (''Capability '' @ cap @ '' has no value''), xs, w)
     | Some data \<Rightarrow>
         (case pl_write E path data w of
            (Inl err, w) \<Rightarrow> (Inl err, xs, record_plan_failure E plan node ''write_file'' err w)
          | (Inr _, w) \<Rightarrow> (Inr vs, xs, w)))"

definition guarded ::
  "'w plan_env \<Rightarrow> ExecutionPlan \<Rightarrow> string \<Rightarrow> CapabilitySink \<Rightarrow> string
     \<Rightarrow> (executions \<times> 'w \<Rightarrow> 'w node_result) \<Rightarrow> executions \<times> 'w \<Rightarrow> 'w node_result" where
  "guarded E plan cap sink node act = (\<lambda>(xs, w).
     case ensure_node_capability E plan cap sink node ''capability_check'' w of
       (Inl e, w) \<Rightarrow> (Inl e, xs, w)
     | (Inr _, w) \<Rightarrow> act (xs, w))"

text \<open>The body of the loop of \<open>interpret_plan\<close>.\<close>

definition run_node ::
  "'w plan_env \<Rightarrow> ExecutionPlan \<Rightarrow> PlanNode \<Rightarrow> plan_values \<Rightarrow> executions \<times> 'w \<Rightarrow> 'w node_result" where
  "run_node E plan node vs = (case node_kind node of
     RunPython code cap \<Rightarrow>
       guarded E plan cap SandboxExecution (node_id node) (run_python E plan (node_id node) code cap vs)
   | ReadFile path cap \<Rightarrow>
       guarded E plan cap FileRead (node_id node) (read_file E plan (node_id node) path cap vs)
   | WriteFile path cap \<Rightarrow>
       guarded E plan cap FileWrite (node_id node) (write_file E plan (node_id node) path cap vs)
   | Emit cap \<Rightarrow>
       guarded E plan cap EmitSink (node_id node) (\<lambda>s. (Inr (vs\<lparr>last_output := Some cap\<rparr>), s)))"

fun run_nodes ::
  "'w plan_env \<Rightarrow> ExecutionPlan \<Rightarrow> PlanNode list \<Rightarrow> plan_values \<Rightarrow> executions \<times> 'w \<Rightarrow> 'w node_result" where
  "run_nodes E plan [] vs s = (Inr vs, s)"
| "run_nodes E plan (n # ns) vs s =
     (case run_node E plan n vs s of
        (Inl e, s) \<Rightarrow> (Inl e, s)
      | (Inr vs, s) \<Rightarrow> run_nodes E plan ns vs s)"

text \<open>A refusal is recorded first; if recording fails, its error is returned instead.\<close>

definition refuse ::
  "'w plan_env \<Rightarrow> ExecutionPlan \<Rightarrow> string \<Rightarrow> string \<Rightarrow> executions \<times> 'w
     \<Rightarrow> (string + ExecutionStream) \<times> executions \<times> 'w" where
  "refuse E plan why msg = (\<lambda>(xs, w).
     case pl_record E plan False (json_object [(''error'', String why)]) w of
       (Inl e, w) \<Rightarrow> (Inl e, xs, w)
     | (Inr _, w) \<Rightarrow> (Inl msg, xs, w))"

definition interpret_plan ::
  "'w plan_env \<Rightarrow> ExecutionPlan \<Rightarrow> executions \<times> 'w \<Rightarrow> (string + ExecutionStream) \<times> executions \<times> 'w" where
  "interpret_plan E plan s =
     (if plan_nodes plan = []
      then refuse E plan ''plan contains no nodes'' ''Execution plan contains no nodes'' s
      else if mounts (plan_policy plan) \<noteq> []
      then refuse E plan ''mounts are not supported yet'' ''Mounts are not supported yet'' s
      else if network (plan_policy plan) \<noteq> Disabled
      then refuse E plan ''network access is not supported yet'' ''Network access is not supported yet'' s
      else case run_nodes E plan (plan_nodes plan) \<lparr>value_store = Map.empty, last_output = None\<rparr> s of
             (Inl e, s) \<Rightarrow> (Inl e, s)
           | (Inr vs, s) \<Rightarrow>
               (case last_output vs of
                  None \<Rightarrow> refuse E plan ''plan produced no executable nodes''
                            ''Execution plan produced no executable nodes'' s
                | Some final_id \<Rightarrow>
                    let data = (case value_store vs final_id of Some v \<Rightarrow> v | None \<Rightarrow> [])
                    in (Inr \<lparr>es_stdout = [str_bytes data], es_stderr = [],
                             es_result = Some \<lparr>exit_code = 0, duration_ms = 0, timed_out = False,
                                               exec_error = None\<rparr>\<rparr>, s)))"

definition execute_plan ::
  "'w plan_env \<Rightarrow> ExecutionPlan \<Rightarrow> executions \<times> 'w \<Rightarrow> (string + ExecutionStream) \<times> executions \<times> 'w" where
  "execute_plan E plan s = interpret_plan E plan s"

section \<open>Code generation\<close>

record CodeGenerationSpec =
  description :: string
  target_language :: "string option"
  spec_context :: "(string \<times> string) list"

record CodeGenerationRequest =
  request_id :: string
  spec :: CodeGenerationSpec
  req_policy :: ExecutionPolicy
  req_metadata :: "string \<rightharpoonup> string"

text \<open>The context is given in the iteration order of its \<open>HashMap\<close>, with the values printed.\<close>

definition newline :: string where "newline = [CHR 0x0A]"

definition build_prompt :: "CodeGenerationRequest \<Rightarrow> string" where
  "build_prompt r =
     ''You are a secure code generation assistant. Generate minimal ''
     @ (case target_language (spec r) of Some l \<Rightarrow> l | None \<Rightarrow> ''python'')
     @ '' code that satisfies the following description:'' @ newline @ description (spec r) @ newline
     @ (if spec_context (spec r) = [] then []
        else newline @ ''Context:'' @ newline
             @ concat (map (\<lambda>(k, v). '' - '' @ k @ '': '' @ v @ newline) (spec_context (spec r))))
     @ newline @ ''Return ONLY the code, wrapped in a fenced code block.''"

definition is_fence :: "string \<Rightarrow> bool" where
  "is_fence line \<longleftrightarrow> starts_with (dropWhile is_whitespace line) ''```''"

fun collect_block :: "bool \<Rightarrow> string list \<Rightarrow> string list" where
  "collect_block inside [] = []"
| "collect_block inside (l # ls) =
     (if is_fence l then (if inside then [] else collect_block True ls)
      else (if inside then l # collect_block inside ls else collect_block inside ls))"

definition extract_code_block :: "string \<Rightarrow> string option" where
  "extract_code_block response =
     (let collected = collect_block False (lines response)
      in if collected = [] then None else Some (join_strings newline collected))"

datatype GenerationEvent = Token string | CompletedEvent

fun generated_text :: "GenerationEvent list \<Rightarrow> string" where
  "generated_text [] = []"
| "generated_text (Token t # es) = t @ generated_text es"
| "generated_text (CompletedEvent # es) = []"

definition or_insert :: "string \<Rightarrow> string \<Rightarrow> (string \<rightharpoonup> string) \<Rightarrow> (string \<rightharpoonup> string)" where
  "or_insert k v m = (if m k = None then m(k \<mapsto> v) else m)"

definition exec_token :: CapabilityToken where
  "exec_token = \<lparr>tok_id = ''sandbox_exec'', tok_kind = KindSandboxExecution, tok_origin = OriginTrusted,
     allowed_sinks = [SandboxExecution]\<rparr>"

definition llm_generate_plan ::
  "(string \<Rightarrow> string + GenerationEvent list) \<Rightarrow> int \<Rightarrow> CodeGenerationRequest \<Rightarrow> string + ExecutionPlan" where
  "llm_generate_plan start_generation now request =
     and_then (start_generation (build_prompt request)) (\<lambda>events.
       let generated = generated_text events;
           code = trim (case extract_code_block generated of Some c \<Rightarrow> c | None \<Rightarrow> trim generated);
           language = (case target_language (spec request) of Some l \<Rightarrow> l | None \<Rightarrow> ''python'');
           policy = req_policy request;
           policy = (if list_ex (\<lambda>c. tok_id c = ''sandbox_exec'') (pol_capabilities policy) then policy
                     else policy\<lparr>pol_capabilities := pol_capabilities policy @ [exec_token]\<rparr>);
           plan = ExecutionPlan_empty (request_id request) now
       in Inr (plan\<lparr>payload := Script language code,
            plan_nodes := [\<lparr>node_id = ''run_python'', node_kind = RunPython code ''sandbox_exec''\<rparr>],
            plan_policy := policy,
            plan_metadata := or_insert ''generated_code_preview'' (take_chars 200 code)
              (or_insert ''prompt_preview'' (take_chars 200 (build_prompt request)) (req_metadata request))\<rparr>))"

definition null_generate_plan :: "string \<Rightarrow> int \<Rightarrow> CodeGenerationRequest \<Rightarrow> string + ExecutionPlan" where
  "null_generate_plan uuid now request = Inr (ExecutionPlan_empty uuid now)"

text \<open>\<open>plan_and_execute\<close> with an installed generator.\<close>

definition plan_and_execute ::
  "'w plan_env \<Rightarrow> (CodeGenerationRequest \<Rightarrow> string + ExecutionPlan) \<Rightarrow> CodeGenerationRequest
     \<Rightarrow> executions \<times> 'w \<Rightarrow> (string + ExecutionPlan \<times> ExecutionStream) \<times> executions \<times> 'w" where
  "plan_and_execute E generate request s = (case generate request of
     Inl e \<Rightarrow> (Inl e, s)
   | Inr plan \<Rightarrow>
       (case execute_plan E plan s of
          (Inl e, s) \<Rightarrow> (Inl e, s)
        | (Inr stream, s) \<Rightarrow> (Inr (plan, stream), s)))"

section \<open>Effects and their authority\<close>

text \<open>An environment that records what the plan does to the outside, with the outcomes.\<close>

datatype effect =
    Ran ExecutionRequest "string + ExecutionStream"
  | FsRead string "string + string"
  | FsWrite string string

definition tracing :: "'w plan_env \<Rightarrow> ('w \<times> effect list) plan_env" where
  "tracing E =
     \<lparr>pl_new_id = (\<lambda>(w, log). case pl_new_id E w of (i, w) \<Rightarrow> (i, w, log)),
      pl_execute = (\<lambda>rq (w, log). case pl_execute E rq w of (r, w) \<Rightarrow> (r, w, log @ [Ran rq r])),
      pl_read = (\<lambda>p (w, log). case pl_read E p w of (r, w) \<Rightarrow> (r, w, log @ [FsRead p r])),
      pl_write = (\<lambda>p d (w, log). case pl_write E p d w of (r, w) \<Rightarrow> (r, w, log @ [FsWrite p d])),
      pl_record = (\<lambda>p b j (w, log). case pl_record E p b j w of (r, w) \<Rightarrow> (r, w, log)),
      pl_spawn = (\<lambda>p j (w, log). (pl_spawn E p j w, log)), pl_debug_error = pl_debug_error E\<rparr>"

text \<open>What the tokens of a plan grant, read off the list of tokens and not off the guard of the
  interpreter: among the tokens of that name the first one counts, and it must list the sink.\<close>

definition permits :: "ExecutionPlan \<Rightarrow> string \<Rightarrow> CapabilitySink \<Rightarrow> bool" where
  "permits plan cap sink \<longleftrightarrow> (let tokens = pol_capabilities (plan_policy plan) in
     \<exists>i < length tokens. tok_id (tokens ! i) = cap \<and> sink \<in> set (allowed_sinks (tokens ! i))
       \<and> (\<forall>j < i. tok_id (tokens ! j) \<noteq> cap))"

lemma guard_permits: "permits plan cap sink \<longleftrightarrow> (\<exists>token. ensure_capability plan cap sink = Inr token)"
proof -
  have "permits plan cap sink \<longleftrightarrow> (\<exists>token. find (\<lambda>c. tok_id c = cap) (pol_capabilities (plan_policy plan)) = Some token
      \<and> sink \<in> set (allowed_sinks token))"
    unfolding permits_def find_Some_iff Let_def by metis
  then show ?thesis by (auto simp: ensure_capability_def split: option.splits if_splits)
qed

abbreviation kinds :: "ExecutionPlan \<Rightarrow> PlanNodeKind set" where
  "kinds plan \<equiv> node_kind ` set (plan_nodes plan)"

text \<open>The origin of a value: a file read or an execution of this plan, done under the
  capability.\<close>

definition produced :: "ExecutionPlan \<Rightarrow> effect list \<Rightarrow> string \<Rightarrow> string \<Rightarrow> bool" where
  "produced plan seen cap v \<longleftrightarrow>
     (\<exists>p. FsRead p (Inr v) \<in> set seen \<and> ReadFile p cap \<in> kinds plan \<and> permits plan cap FileRead) \<or>
     (\<exists>rq stream. Ran rq (Inr stream) \<in> set seen \<and> v = from_utf8_lossy (concat (es_stdout stream))
        \<and> RunPython (er_code rq) cap \<in> kinds plan \<and> permits plan cap SandboxExecution)"

definition effect_ok :: "ExecutionPlan \<Rightarrow> effect list \<Rightarrow> effect \<Rightarrow> bool" where
  "effect_ok plan seen e \<longleftrightarrow> (case e of
     Ran rq r \<Rightarrow> \<exists>cap. RunPython (er_code rq) cap \<in> kinds plan \<and> permits plan cap SandboxExecution
       \<and> er_timeout_secs rq = pol_timeout_secs (plan_policy plan)
   | FsRead p r \<Rightarrow> \<exists>cap. ReadFile p cap \<in> kinds plan \<and> permits plan cap FileRead
   | FsWrite p d \<Rightarrow> \<exists>cap. WriteFile p cap \<in> kinds plan \<and> permits plan cap FileWrite
       \<and> produced plan seen cap d)"

fun flow_ok :: "ExecutionPlan \<Rightarrow> effect list \<Rightarrow> effect list \<Rightarrow> bool" where
  "flow_ok plan seen [] \<longleftrightarrow> True"
| "flow_ok plan seen (e # es) \<longleftrightarrow> effect_ok plan seen e \<and> flow_ok plan (seen @ [e]) es"

definition store_ok :: "ExecutionPlan \<Rightarrow> effect list \<Rightarrow> plan_values \<Rightarrow> bool" where
  "store_ok plan seen vs \<longleftrightarrow> (\<forall>cap v. value_store vs cap = Some v \<longrightarrow> produced plan seen cap v)"

lemma flow_ok_append: "flow_ok plan seen (xs @ ys) \<longleftrightarrow> flow_ok plan seen xs \<and> flow_ok plan (seen @ xs) ys"
  by (induction xs arbitrary: seen) auto

lemma produced_mono: "produced plan seen cap v \<Longrightarrow> produced plan (seen @ later) cap v"
  unfolding produced_def set_append by blast

lemma produced_run:
  "Ran rq (Inr stream) \<in> set seen \<Longrightarrow> RunPython (er_code rq) cap \<in> kinds plan \<Longrightarrow>
   permits plan cap SandboxExecution \<Longrightarrow>
   produced plan seen cap (from_utf8_lossy (concat (es_stdout stream)))"
  unfolding produced_def by blast

lemma produced_read:
  "FsRead p (Inr v) \<in> set seen \<Longrightarrow> ReadFile p cap \<in> kinds plan \<Longrightarrow> permits plan cap FileRead \<Longrightarrow>
   produced plan seen cap v"
  unfolding produced_def by blast

lemma store_ok_mono: "store_ok plan seen vs \<Longrightarrow> store_ok plan (seen @ later) vs"
  by (auto simp: store_ok_def intro: produced_mono)

lemma store_ok_store:
  "store_ok plan seen vs \<Longrightarrow> produced plan seen cap v \<Longrightarrow>
   store_ok plan seen ((store_value cap v vs)\<lparr>last_output := Some cap\<rparr>)"
  by (auto simp: store_ok_def store_value_def)

lemma record_failure_log: "record_plan_failure (tracing E) plan node stage err (w, log)
    = (record_plan_failure E plan node stage err w, log)"
  by (simp add: record_plan_failure_def tracing_def)

lemma record_result_log: "\<exists>rec w'. record_plan_result (tracing E) plan node r out err (w, log) = (rec, w', log)"
  by (auto simp: record_plan_result_def tracing_def split: prod.split)

text \<open>A step of the interpreter from \<open>seen\<close>: it appends at most one authorised effect and
  leaves a justified store.\<close>

definition step_ok :: "ExecutionPlan \<Rightarrow> effect list \<Rightarrow> ('w \<times> effect list) node_result \<Rightarrow> bool" where
  "step_ok plan seen res \<longleftrightarrow> (\<exists>es. snd (snd (snd res)) = seen @ es \<and> flow_ok plan seen es
     \<and> length es \<le> 1 \<and> (case fst res of Inl e \<Rightarrow> True | Inr vs \<Rightarrow> store_ok plan (seen @ es) vs))"

lemma guarded_ok:
  assumes "permits plan cap sink \<Longrightarrow> step_ok plan seen (act (xs, w, seen))"
  shows "step_ok plan seen (guarded (tracing E) plan cap sink node act (xs, w, seen))"
  using assms
  by (auto simp: guarded_def ensure_node_capability_def guard_permits step_ok_def record_failure_log
      intro: exI [of _ "[]"] split: sum.splits)

lemma plan_request_simps [simp]:
  "er_code (plan_request plan code) = code"
  "er_timeout_secs (plan_request plan code) = pol_timeout_secs (plan_policy plan)"
  by (simp_all add: plan_request_def er_with_timeout_def ExecutionRequest_new_def Let_def split: option.split)

text \<open>An execution node runs its code exactly once, and stores only the output of that run.\<close>

lemma run_python_trace:
  assumes "fst (pl_execute E (plan_request plan code) (snd (pl_new_id E w))) = r"
  shows "\<exists>res xs' w'. run_python (tracing E) plan node code cap vs (xs, w, seen)
      = (res, xs', w', seen @ [Ran (plan_request plan code) r])
    \<and> (\<forall>vs'. res = Inr vs' \<longrightarrow> (\<exists>stream. r = Inr stream
         \<and> vs' = (store_value cap (from_utf8_lossy (concat (es_stdout stream))) vs)\<lparr>last_output := Some cap\<rparr>))"
proof -
  let ?rq = "plan_request plan code" and ?log = "seen @ [Ran (plan_request plan code) r]"
  obtain i w1 w2 where id: "pl_new_id E w = (i, w1)" and run: "pl_execute E ?rq w1 = (r, w2)"
    using assms by (metis prod.collapse)
  then have ex: "execute (tracing E) ?rq (xs, w, seen) = (r, AList.update i (ExecutionState_new i ?rq) xs, w2, ?log)"
    by (simp add: execute_def execute_with_id_def tracing_def)
  show ?thesis
  proof (cases r)
    case (Inl err)
    with ex show ?thesis by (simp add: run_python_def record_failure_log)
  next
    case (Inr stream)
    show ?thesis
    proof (cases "es_result stream")
      case None
      with ex Inr show ?thesis by (simp add: run_python_def record_failure_log)
    next
      case (Some er)
      obtain rec w3 where "record_plan_result (tracing E) plan node er (from_utf8_lossy (concat (es_stdout stream)))
          (from_utf8_lossy (concat (es_stderr stream))) (w2, ?log) = (rec, w3, ?log)"
        by (meson record_result_log)
      with ex Inr Some show ?thesis by (cases rec) (simp_all add: run_python_def)
    qed
  qed
qed

lemma run_python_ok:
  assumes "RunPython code cap \<in> kinds plan" "permits plan cap SandboxExecution" "store_ok plan seen vs"
  shows "step_ok plan seen (run_python (tracing E) plan node code cap vs (xs, w, seen))"
proof -
  let ?rq = "plan_request plan code"
  obtain r where "fst (pl_execute E ?rq (snd (pl_new_id E w))) = r" by blast
  from run_python_trace [OF this] obtain res xs' w' where
    run: "run_python (tracing E) plan node code cap vs (xs, w, seen) = (res, xs', w', seen @ [Ran ?rq r])"
    and res: "\<And>vs'. res = Inr vs' \<Longrightarrow> \<exists>stream. r = Inr stream
         \<and> vs' = (store_value cap (from_utf8_lossy (concat (es_stdout stream))) vs)\<lparr>last_output := Some cap\<rparr>"
    by blast
  have "flow_ok plan seen [Ran ?rq r]" using assms(1,2) by (auto simp: effect_ok_def)
  moreover have "store_ok plan (seen @ [Ran ?rq r]) vs'" if vs': "res = Inr vs'" for vs'
  proof -
    from res [OF vs'] obtain stream where r: "r = Inr stream"
      and eq: "vs' = (store_value cap (from_utf8_lossy (concat (es_stdout stream))) vs)\<lparr>last_output := Some cap\<rparr>"
      by blast
    have "produced plan (seen @ [Ran ?rq r]) cap (from_utf8_lossy (concat (es_stdout stream)))"
      by (rule produced_run [where rq = ?rq]) (simp_all add: r assms(1,2))
    with store_ok_store [OF store_ok_mono [OF assms(3)]] eq show ?thesis by blast
  qed
  ultimately show ?thesis using run by (cases res) (auto simp: step_ok_def)
qed

lemma read_file_ok:
  assumes "ReadFile path cap \<in> kinds plan" "permits plan cap FileRead" "store_ok plan seen vs"
  shows "step_ok plan seen (read_file (tracing E) plan node path cap vs (xs, w, seen))"
proof -
  obtain r w1 where r: "pl_read E path w = (r, w1)" by (metis surj_pair)
  have flow: "flow_ok plan seen [FsRead path r]" using assms(1,2) by (auto simp: effect_ok_def)
  have "store_ok plan (seen @ [FsRead path r]) ((store_value cap content vs)\<lparr>last_output := Some cap\<rparr>)"
    if "r = Inr content" for content
    by (intro store_ok_store [OF store_ok_mono [OF assms(3)]] produced_read [OF _ assms(1,2)])
      (simp add: that)
  with r flow show ?thesis
    by (cases r) (auto simp: read_file_def step_ok_def tracing_def record_plan_failure_def)
qed

lemma write_file_ok:
  assumes "WriteFile path cap \<in> kinds plan" "permits plan cap FileWrite" "store_ok plan seen vs"
  shows "step_ok plan seen (write_file (tracing E) plan node path cap vs (xs, w, seen))"
proof (cases "value_store vs cap")
  case None
  then show ?thesis by (simp add: write_file_def step_ok_def)
next
  case (Some d)
  obtain r w1 where r: "pl_write E path d w = (r, w1)" by (metis surj_pair)
  have "flow_ok plan seen [FsWrite path d]"
    using assms Some by (auto simp: effect_ok_def store_ok_def)
  with r Some store_ok_mono [OF assms(3)] show ?thesis
    by (cases r) (auto simp: write_file_def step_ok_def tracing_def record_plan_failure_def)
qed

lemma run_node_ok:
  assumes "n \<in> set (plan_nodes plan)" "store_ok plan seen vs"
  shows "step_ok plan seen (run_node (tracing E) plan n vs (xs, w, seen))"
proof -
  from assms(1) have "node_kind n \<in> kinds plan" by (rule imageI)
  with assms(2) show ?thesis
    unfolding run_node_def
    by (cases "node_kind n")
      (auto intro!: guarded_ok run_python_ok read_file_ok write_file_ok simp: step_ok_def [of _ _ "(Inr _, _)"] store_ok_def)
qed

lemma run_nodes_ok:
  assumes "set ns \<subseteq> set (plan_nodes plan)" "store_ok plan seen vs"
    and "run_nodes (tracing E) plan ns vs (xs, w, seen) = (r, xs', w', log')"
  shows "\<exists>es. log' = seen @ es \<and> flow_ok plan seen es \<and> length es \<le> length ns
    \<and> (\<forall>vs'. r = Inr vs' \<longrightarrow> store_ok plan (seen @ es) vs')"
  using assms
proof (induction ns arbitrary: seen vs xs w)
  case (Cons n ns)
  obtain r1 xs1 w1 log1 where n: "run_node (tracing E) plan n vs (xs, w, seen) = (r1, xs1, w1, log1)"
    by (metis prod_cases4)
  from run_node_ok [of n plan seen vs E xs w] Cons.prems(1,2) n obtain es1 where
    es1: "log1 = seen @ es1" "flow_ok plan seen es1" "length es1 \<le> 1"
      "\<And>vs1. r1 = Inr vs1 \<Longrightarrow> store_ok plan (seen @ es1) vs1"
    by (cases r1) (auto simp: step_ok_def)
  show ?case
  proof (cases r1)
    case (Inl e)
    with Cons.prems(3) n es1 show ?thesis by auto
  next
    case (Inr vs1)
    from Cons.prems(3) n Inr es1(1) have
      "run_nodes (tracing E) plan ns vs1 (xs1, w1, seen @ es1) = (r, xs', w', log')" by simp
    from Cons.IH [OF _ es1(4) [OF Inr] this] Cons.prems(1) obtain es2 where
      "log' = (seen @ es1) @ es2" "flow_ok plan (seen @ es1) es2" "length es2 \<le> length ns"
      "\<forall>vs'. r = Inr vs' \<longrightarrow> store_ok plan ((seen @ es1) @ es2) vs'" by auto
    with es1 show ?thesis by (intro exI [of _ "es1 @ es2"]) (simp add: flow_ok_append)
  qed
qed auto

text \<open>C17 (authority of plans). Whatever the runtime and the file system answer, interpreting a
  plan has at most one effect per node, each demanded by a node and permitted to it: the first token of
  the plan's policy with the node's capability name lists the sink of the effect (execution, reading
  or writing of files), with the plan's timeout on executions; what is written to a file is a value that an
  earlier read or execution of the same plan produced under the same capability; and a plan
  without nodes, with mounts or with network access has no effect at all.\<close>

theorem plan_effects_authorised:
  assumes "interpret_plan (tracing E) plan (xs, w, []) = (r, xs', w', es)"
  shows "flow_ok plan [] es \<and> length es \<le> length (plan_nodes plan)
    \<and> (es \<noteq> [] \<longrightarrow> mounts (plan_policy plan) = [] \<and> network (plan_policy plan) = Disabled)"
proof -
  have ref: "log' = log" if "refuse (tracing E) plan why msg (ys, w1, log) = (r', ys', w2, log')"
    for why msg ys w1 log r' ys' w2 log'
    using that by (auto simp: refuse_def tracing_def split: prod.splits sum.splits)
  show ?thesis
  proof (cases "plan_nodes plan = [] \<or> mounts (plan_policy plan) \<noteq> [] \<or> network (plan_policy plan) \<noteq> Disabled")
    case True
    with assms have "es = []" by (auto simp: interpret_plan_def dest: ref split: if_splits)
    then show ?thesis by simp
  next
    case False
    obtain r1 xs1 w1 log1 where run: "run_nodes (tracing E) plan (plan_nodes plan)
        \<lparr>value_store = Map.empty, last_output = None\<rparr> (xs, w, []) = (r1, xs1, w1, log1)"
      by (metis prod_cases4)
    with assms False have "es = log1"
      by (auto simp: interpret_plan_def Let_def dest: ref split: sum.splits option.splits)
    with run_nodes_ok [OF subset_refl _ run] False show ?thesis by (auto simp: store_ok_def)
  qed
qed

text \<open>Output needs no permission to emit. The content of a file a plan reads is returned to
  the caller although the plan's only token does not permit the \<open>Emit\<close> sink, and the token's
  kind and origin play no role.\<close>

theorem read_returned_without_emit:
  assumes "plan_nodes plan = [\<lparr>node_id = n, node_kind = ReadFile path cap\<rparr>]"
    and "plan_policy plan = ExecutionPolicy_default\<lparr>pol_capabilities :=
           [\<lparr>tok_id = cap, tok_kind = kind, tok_origin = origin, allowed_sinks = [FileRead]\<rparr>]\<rparr>"
    and "pl_read E path w = (Inr content, w')"
  shows "\<not> permits plan cap EmitSink
    \<and> (\<exists>out. interpret_plan E plan (xs, w) = (Inr out, xs, w') \<and> es_stdout out = [str_bytes content])"
  using assms
  by (simp add: guard_permits ensure_capability_def interpret_plan_def ExecutionPolicy_default_def
      run_node_def guarded_def ensure_node_capability_def read_file_def store_value_def)

text \<open>Generated plans grant themselves execution. Unless the policy already holds a token
  named \<open>sandbox_exec\<close>, the plan an LLM generates carries a new one, so its code is executed
  under the policy of a request that granted no capability at all.\<close>

theorem llm_plan_self_authorised:
  assumes "llm_generate_plan gen now request = Inr plan"
    and "\<not> list_ex (\<lambda>c. tok_id c = ''sandbox_exec'') (pol_capabilities (req_policy request))"
    and "mounts (req_policy request) = []" and "network (req_policy request) = Disabled"
  shows "\<exists>rq r xs' w'. er_timeout_secs rq = pol_timeout_secs (req_policy request)
    \<and> interpret_plan (tracing E) plan (xs, w, []) = (r, xs', w', [Ran rq (fst (pl_execute E rq (snd (pl_new_id E w))))])"
proof -
  from assms(1,2) obtain code where plan: "plan_nodes plan = [\<lparr>node_id = ''run_python'', node_kind = RunPython code ''sandbox_exec''\<rparr>]"
    and pol: "plan_policy plan = (req_policy request)\<lparr>pol_capabilities := pol_capabilities (req_policy request) @ [exec_token]\<rparr>"
    by (auto simp: llm_generate_plan_def res_simps Let_def)
  have "find (\<lambda>c. tok_id c = ''sandbox_exec'') (ts @ [exec_token]) = Some exec_token"
    if "\<not> list_ex (\<lambda>c. tok_id c = ''sandbox_exec'') ts" for ts
    using that by (induction ts) (auto simp: exec_token_def)
  with assms(2) pol have perm: "ensure_capability plan ''sandbox_exec'' SandboxExecution = Inr exec_token"
    by (simp add: ensure_capability_def exec_token_def)
  let ?rq = "plan_request plan code"
  let ?vs = "\<lparr>value_store = Map.empty, last_output = None\<rparr>"
  obtain res xs' w' where run: "run_python (tracing E) plan ''run_python'' code ''sandbox_exec'' ?vs (xs, w, [])
      = (res, xs', w', [] @ [Ran ?rq (fst (pl_execute E ?rq (snd (pl_new_id E w))))])"
    and res: "\<forall>vs'. res = Inr vs' \<longrightarrow> (\<exists>stream. fst (pl_execute E ?rq (snd (pl_new_id E w))) = Inr stream
       \<and> vs' = (store_value ''sandbox_exec'' (from_utf8_lossy (concat (es_stdout stream))) ?vs)\<lparr>last_output := Some ''sandbox_exec''\<rparr>)"
    using run_python_trace [OF refl, where node = "''run_python''" and cap = "''sandbox_exec''" and vs = ?vs
        and seen = "[]" and E = E and plan = plan and code = code and w = w and xs = xs]
    by (elim exE conjE)
  from res have "\<forall>vs'. res = Inr vs' \<longrightarrow> last_output vs' = Some ''sandbox_exec''" by auto
  moreover from run have "run_nodes (tracing E) plan (plan_nodes plan) \<lparr>value_store = Map.empty, last_output = None\<rparr> (xs, w, [])
      = (res, xs', w', [Ran ?rq (fst (pl_execute E ?rq (snd (pl_new_id E w))))])"
    by (cases res) (simp_all add: plan run_node_def guarded_def ensure_node_capability_def perm)
  ultimately show ?thesis
    using pol assms(3,4) plan by (intro exI [of _ ?rq], cases res) (auto simp: interpret_plan_def Let_def)
qed

section \<open>The table of executions\<close>

definition all_queued :: "executions \<Rightarrow> bool" where
  "all_queued xs \<longleftrightarrow> list_all (\<lambda>(i, s). st_status s = Queued \<and> st_result s = None) xs"

lemma all_queued_update: "all_queued xs \<Longrightarrow> all_queued (AList.update i (ExecutionState_new i rq) xs)"
  by (induction xs) (auto simp: all_queued_def ExecutionState_new_def)

lemma execute_queued: "execute E rq (xs, w) = (r, xs', w') \<Longrightarrow> all_queued xs \<Longrightarrow> all_queued xs'"
  by (auto simp: execute_def execute_with_id_def intro: all_queued_update split: prod.splits)

lemma run_node_queued:
  assumes "run_node E plan n vs (xs, w) = (r, xs', w')" and "all_queued xs"
  shows "all_queued xs'"
proof (cases "node_kind n")
  case (RunPython code cap)
  with assms show ?thesis
    by (auto simp: run_node_def guarded_def ensure_node_capability_def run_python_def Let_def
        dest: execute_queued split: sum.splits prod.splits option.splits if_splits)
qed (use assms in \<open>auto simp: run_node_def guarded_def ensure_node_capability_def read_file_def write_file_def
       split: sum.splits prod.splits option.splits\<close>)

lemma run_nodes_queued:
  "run_nodes E plan ns vs (xs, w) = (r, xs', w') \<Longrightarrow> all_queued xs \<Longrightarrow> all_queued xs'"
proof (induction ns arbitrary: vs xs w)
  case (Cons n ns)
  then show ?case
    by (auto split: prod.splits sum.splits dest: run_node_queued)
qed simp

lemma interpret_queued:
  "interpret_plan E plan (xs, w) = (r, xs', w') \<Longrightarrow> all_queued xs \<Longrightarrow> all_queued xs'"
  by (auto simp: interpret_plan_def refuse_def Let_def dest: run_nodes_queued
      split: if_splits prod.splits sum.splits option.splits)

inductive service_reach :: "'w plan_env \<Rightarrow> executions \<times> 'w \<Rightarrow> bool" for E where
  svc_new: "service_reach E ([], w)"
| svc_execute: "service_reach E s \<Longrightarrow> execute E rq s = (r, s') \<Longrightarrow> service_reach E s'"
| svc_execute_with_id: "service_reach E s \<Longrightarrow> execute_with_id E i rq s = (r, s') \<Longrightarrow> service_reach E s'"
| svc_plan: "service_reach E s \<Longrightarrow> execute_plan E plan s = (r, s') \<Longrightarrow> service_reach E s'"
| svc_cleanup: "service_reach E (xs, w) \<Longrightarrow> service_reach E (cleanup_completed xs, w)"

lemma service_queued: "service_reach E s \<Longrightarrow> all_queued (fst s)"
proof (induction rule: service_reach.induct)
  case (svc_execute s rq r s')
  then show ?case by (metis execute_queued prod.collapse)
next
  case (svc_execute_with_id s i rq r s')
  then show ?case by (auto simp: execute_with_id_def intro: all_queued_update split: prod.splits)
next
  case (svc_plan s plan r s')
  then show ?case by (metis execute_plan_def interpret_queued prod.collapse)
next
  case (svc_cleanup xs w)
  then show ?case by (auto simp: all_queued_def cleanup_completed_def list_all_iff)
qed (simp add: all_queued_def)

text \<open>Executions are never cleaned up. In every state the service can reach, each recorded
  execution is still \<open>Queued\<close> and without a result, however its run ended, so
  \<open>cleanup_completed\<close> removes nothing.\<close>

theorem service_never_cleans:
  assumes "service_reach E (xs, w)"
  shows "cleanup_completed xs = xs \<and> list_all (\<lambda>s. st_status s = Queued \<and> st_result s = None) (list_executions xs)"
  using service_queued [OF assms]
  by (auto simp: all_queued_def cleanup_completed_def finished_def list_executions_def list_all_iff
      intro!: filter_True)

section \<open>Generated code\<close>

text \<open>A fenced answer yields the lines between the fences.\<close>

lemma collect_block_inside:
  "\<not> list_ex is_fence ls \<Longrightarrow> is_fence f \<Longrightarrow> collect_block True (ls @ f # rest) = ls"
  by (induction ls) auto

lemma collect_block_fenced:
  "\<not> list_ex is_fence pre \<Longrightarrow> is_fence f \<Longrightarrow> \<not> list_ex is_fence ls \<Longrightarrow> is_fence f' \<Longrightarrow>
   collect_block False (pre @ f # ls @ f' # rest) = ls"
  by (induction pre) (auto simp: collect_block_inside)

section \<open>Examples\<close>

definition sample_plan_env :: "unit plan_env" where
  "sample_plan_env = \<lparr>pl_new_id = (\<lambda>w. (''e1'', w)),
     pl_execute = (\<lambda>rq w. (Inr \<lparr>es_stdout = [[52, 50]], es_stderr = [],
        es_result = Some \<lparr>exit_code = 0, duration_ms = 1, timed_out = False, exec_error = None\<rparr>\<rparr>, w)),
     pl_read = (\<lambda>p w. (Inr ''secret'', w)), pl_write = (\<lambda>p d w. (Inr (), w)),
     pl_record = (\<lambda>p b j w. (Inr (), w)), pl_spawn = (\<lambda>p j w. w), pl_debug_error = (\<lambda>e. [])\<rparr>"

definition sample_plan :: ExecutionPlan where
  "sample_plan = (ExecutionPlan_empty ''p1'' 0)\<lparr>
     plan_nodes := [\<lparr>node_id = ''r'', node_kind = ReadFile ''/in'' ''c''\<rparr>,
                    \<lparr>node_id = ''w'', node_kind = WriteFile ''/out'' ''c''\<rparr>],
     plan_policy := ExecutionPolicy_default\<lparr>pol_capabilities := [\<lparr>tok_id = ''c'', tok_kind = KindData,
       tok_origin = OriginUserProvided, allowed_sinks = [FileRead, FileWrite]\<rparr>]\<rparr>\<rparr>"

lemmas plan_simps = interpret_plan_def run_node_def guarded_def ensure_node_capability_def
  ensure_capability_def read_file_def write_file_def store_value_def tracing_def
  ExecutionPlan_empty_def ExecutionPolicy_default_def

theorem plan_effects_authorised_witness:
  "snd (snd (snd (interpret_plan (tracing sample_plan_env) sample_plan ([], (), []))))
     = [FsRead ''/in'' (Inr ''secret''), FsWrite ''/out'' ''secret'']
   \<and> produced sample_plan [FsRead ''/in'' (Inr ''secret'')] ''c'' ''secret''"
proof -
  obtain r xs' w' es where run: "interpret_plan (tracing sample_plan_env) sample_plan ([], (), []) = (r, xs', w', es)"
    by (metis prod_cases4)
  then have es: "es = [FsRead ''/in'' (Inr ''secret''), FsWrite ''/out'' ''secret'']"
    by (simp add: plan_simps sample_plan_def sample_plan_env_def)
  from plan_effects_authorised [OF run] es have "produced sample_plan [FsRead ''/in'' (Inr ''secret'')] ''c'' ''secret''"
    by (auto simp: effect_ok_def sample_plan_def)
  with run es show ?thesis by simp
qed

theorem read_returned_without_emit_witness:
  "\<exists>out. fst (interpret_plan sample_plan_env (sample_plan\<lparr>
        plan_nodes := [\<lparr>node_id = ''r'', node_kind = ReadFile ''/in'' ''c''\<rparr>],
        plan_policy := ExecutionPolicy_default\<lparr>pol_capabilities := [\<lparr>tok_id = ''c'', tok_kind = KindNetwork,
          tok_origin = OriginExternal, allowed_sinks = [FileRead]\<rparr>]\<rparr>\<rparr>) ([], ())) = Inr out
     \<and> es_stdout out = [str_bytes ''secret'']"
proof -
  let ?plan = "sample_plan\<lparr>
        plan_nodes := [\<lparr>node_id = ''r'', node_kind = ReadFile ''/in'' ''c''\<rparr>],
        plan_policy := ExecutionPolicy_default\<lparr>pol_capabilities := [\<lparr>tok_id = ''c'', tok_kind = KindNetwork,
          tok_origin = OriginExternal, allowed_sinks = [FileRead]\<rparr>]\<rparr>\<rparr>"
  have "pl_read sample_plan_env ''/in'' () = (Inr ''secret'', ())" by (simp add: sample_plan_env_def)
  from read_returned_without_emit [of ?plan "''r''" "''/in''" "''c''" KindNetwork OriginExternal, OF _ _ this, of "[]"]
  show ?thesis by fastforce
qed

definition sample_codegen :: CodeGenerationRequest where
  "sample_codegen = \<lparr>request_id = ''q'', spec = \<lparr>description = ''add'', target_language = None, spec_context = []\<rparr>,
     req_policy = ExecutionPolicy_default, req_metadata = Map.empty\<rparr>"

theorem llm_plan_self_authorised_witness:
  "\<exists>plan rq r xs' w'. llm_generate_plan (\<lambda>p. Inr [Token ''print(1)'', CompletedEvent]) 0 sample_codegen = Inr plan
     \<and> interpret_plan (tracing sample_plan_env) plan ([], (), []) = (r, xs', w', [Ran rq (fst (pl_execute sample_plan_env rq ()))])"
proof -
  obtain plan where plan: "llm_generate_plan (\<lambda>p. Inr [Token ''print(1)'', CompletedEvent]) 0 sample_codegen = Inr plan"
    by (cases "llm_generate_plan (\<lambda>p. Inr [Token ''print(1)'', CompletedEvent]) 0 sample_codegen")
      (simp_all add: llm_generate_plan_def Let_def)
  have "pol_capabilities (req_policy sample_codegen) = []" "mounts (req_policy sample_codegen) = []"
    "network (req_policy sample_codegen) = Disabled"
    by (simp_all add: sample_codegen_def ExecutionPolicy_default_def)
  with llm_plan_self_authorised [OF plan, of sample_plan_env "[]" "()"] obtain rq r xs' w' where
    "interpret_plan (tracing sample_plan_env) plan ([], (), [])
       = (r, xs', w', [Ran rq (fst (pl_execute sample_plan_env rq (snd (pl_new_id sample_plan_env ()))))])"
    by auto
  with plan show ?thesis by (metis old.unit.exhaust)
qed

theorem service_never_cleans_witness:
  "cleanup_completed (fst (snd (execute sample_plan_env (ExecutionRequest_new ''x'') ([], ()))))
     = [(''e1'', ExecutionState_new ''e1'' (ExecutionRequest_new ''x''))]"
proof -
  obtain r xs where ex: "execute sample_plan_env (ExecutionRequest_new ''x'') ([], ()) = (r, xs, ())"
    by (metis old.unit.exhaust prod_cases3)
  from service_never_cleans [OF svc_execute [OF svc_new ex]] ex show ?thesis
    by (auto simp: execute_def execute_with_id_def sample_plan_env_def)
qed

end
