(* ===== verification/Param_Validation.thy ===== *)
theory Param_Validation
  imports Json
begin

text \<open>
  Validation of tool parameters against a JSON schema (\<open>acdp-core/src/validation.rs\<close>): URL
  prefixing and coercion of strings, type checks, required fields, and hints for a user
  interface. Doubles are bit patterns; reading and printing them, and Unicode lower case, are
  the operations \<open>float_ops\<close> of the standard library.
\<close>

unbundle bit_operations_syntax

section \<open>Numbers\<close>

record float_ops =
  parse_f64 :: "string \<Rightarrow> u64 option"
  show_f64 :: "u64 \<Rightarrow> string"
  lowercase :: "string \<Rightarrow> string"

text \<open>A double from its bits: exponent field and mantissa.\<close>

definition f64_exponent :: "u64 \<Rightarrow> nat" where
  "f64_exponent b = unat (drop_bit 52 b AND 0x7FF)"

definition f64_mantissa :: "u64 \<Rightarrow> u64" where
  "f64_mantissa b = take_bit 52 b"

definition f64_finite :: "u64 \<Rightarrow> bool" where
  "f64_finite b \<longleftrightarrow> f64_exponent b \<noteq> 0x7FF"

text \<open>\<open>fract() == 0.0\<close>: zero, or a finite value whose mantissa has no bit below the point.\<close>

definition f64_integral :: "u64 \<Rightarrow> bool" where
  "f64_integral b \<longleftrightarrow> f64_finite b \<and>
     (if f64_exponent b < 1023 then f64_exponent b = 0 \<and> f64_mantissa b = 0
      else f64_exponent b \<ge> 1075 \<or> take_bit (1075 - f64_exponent b) (f64_mantissa b) = 0)"

text \<open>\<open>str::parse::<i64>\<close>: an optional sign and decimal digits, in range.\<close>

definition is_digit :: "char \<Rightarrow> bool" where
  "is_digit c \<longleftrightarrow> (48 :: nat) \<le> of_char c \<and> of_char c \<le> (57 :: nat)"

definition parse_i64 :: "string \<Rightarrow> int option" where
  "parse_i64 s =
     (let neg = starts_with s ''-'';
          ds = (if neg \<or> starts_with s ''+'' then drop 1 s else s);
          n = int (nat_of_digits ds); i = (if neg then - n else n)
      in if ds \<noteq> [] \<and> list_all is_digit ds \<and> - (2 ^ 63) \<le> i \<and> i < 2 ^ 63 then Some i else None)"

section \<open>Data\<close>

datatype ParamError =
    SchemaError string
  | MissingRequired string
  | ValidationFailed string string
  | TransformationFailed string string
  | InvalidSchema string

record ValidationResult =
  is_valid :: bool
  errors :: "ParamError list"
  warnings :: "string list"
  validated_params :: json
  transformations :: "string list"

record ParameterValidator =
  auto_transform :: bool
  strict_mode :: bool

definition ParameterValidator_default :: ParameterValidator where
  "ParameterValidator_default = \<lparr>auto_transform = True, strict_mode = False\<rparr>"

definition ParameterValidator_strict :: ParameterValidator where
  "ParameterValidator_strict = \<lparr>auto_transform = False, strict_mode = True\<rparr>"

definition as_array :: "json \<Rightarrow> json list option" where
  "as_array v = (case v of Array vs \<Rightarrow> Some vs | _ \<Rightarrow> None)"

definition str_field :: "json \<Rightarrow> string \<Rightarrow> string option" where
  "str_field v k = Option.bind (value_get v k) as_str"

definition schema_properties :: "json \<Rightarrow> (string \<times> json) list option" where
  "schema_properties schema = Option.bind (value_get schema ''properties'') as_object"

section \<open>Checks\<close>

definition validate_schema_syntax :: "json \<Rightarrow> ParamError + unit" where
  "validate_schema_syntax schema =
     (if as_object schema = None then Inl (InvalidSchema ''Schema must be a JSON object'') else Inr ())"

definition type_name :: "json \<Rightarrow> string" where
  "type_name v = (case v of String _ \<Rightarrow> ''string'' | Number _ \<Rightarrow> ''number'' | Bool _ \<Rightarrow> ''boolean''
     | Array _ \<Rightarrow> ''array'' | Object _ \<Rightarrow> ''object'' | Null \<Rightarrow> ''null'')"

text \<open>Integers of every size convert to an integral double.\<close>

definition valid_type :: "string \<Rightarrow> json \<Rightarrow> bool" where
  "valid_type expected v =
     (if expected = ''string'' then type_name v = ''string''
      else if expected = ''number'' then type_name v = ''number''
      else if expected = ''integer'' then
        (case v of Number (Float b) \<Rightarrow> f64_integral b | Number _ \<Rightarrow> True | _ \<Rightarrow> False)
      else if expected = ''boolean'' then type_name v = ''boolean''
      else if expected = ''array'' then type_name v = ''array''
      else if expected = ''object'' then type_name v = ''object''
      else True)"

definition quote :: "string \<Rightarrow> string" where
  "quote s = [CHR 0x27] @ s @ [CHR 0x27]"

fun check_properties :: "(string \<times> json) list \<Rightarrow> (string \<times> json) list \<Rightarrow> ParamError + unit" where
  "check_properties [] params = Inr ()"
| "check_properties ((field_name, field_schema) # ps) params =
     (case obj_get params field_name of
        Some v \<Rightarrow>
          (case str_field field_schema ''type'' of
             Some expected \<Rightarrow>
               if \<not> valid_type expected v
               then Inl (ValidationFailed field_name
                      (''Expected type '' @ quote expected @ '' but got '' @ quote (type_name v)))
               else check_properties ps params
           | None \<Rightarrow> check_properties ps params)
      | None \<Rightarrow> check_properties ps params)"

definition validate_against_schema :: "json \<Rightarrow> json \<Rightarrow> ParamError + unit" where
  "validate_against_schema schema params =
     (case (schema_properties schema, as_object params) of
        (Some properties, Some params_obj) \<Rightarrow> check_properties properties params_obj
      | _ \<Rightarrow> Inr ())"

fun check_required :: "json list \<Rightarrow> (string \<times> json) list \<Rightarrow> ParamError + unit" where
  "check_required [] params = Inr ()"
| "check_required (r # rs) params =
     (case as_str r of
        Some field_name \<Rightarrow>
          if obj_get params field_name = None then Inl (MissingRequired field_name)
          else check_required rs params
      | None \<Rightarrow> check_required rs params)"

definition check_required_fields :: "json \<Rightarrow> json \<Rightarrow> ParamError + unit" where
  "check_required_fields schema params =
     (case (Option.bind (value_get schema ''required'') as_array, as_object params) of
        (Some required, Some params_obj) \<Rightarrow> check_required required params_obj
      | _ \<Rightarrow> Inr ())"

section \<open>Transformations\<close>

definition auto_fix_url :: "string \<Rightarrow> string option" where
  "auto_fix_url url =
     (if url = [] \<or> starts_with url ''http://'' \<or> starts_with url ''https://'' then None
      else if starts_with url ''localhost'' \<or> starts_with url ''127.0.0.1'' \<or> starts_with url ''0.0.0.0''
      then Some (''http://'' @ url)
      else if CHR ''.'' \<in> set url \<and> CHR '' '' \<notin> set url then Some (''https://'' @ url)
      else None)"

text \<open>The utf8_arrow of the messages, in UTF-8.\<close>

definition utf8_arrow :: string where
  "utf8_arrow = '' '' @ [CHR 0xE2, CHR 0x86, CHR 0x92] @ '' ''"

definition transform_url :: "float_ops \<Rightarrow> string \<Rightarrow> json \<Rightarrow> json \<Rightarrow> json \<times> string list" where
  "transform_url X field_name field_schema v =
     (case (str_field field_schema ''type'', str_field field_schema ''description'', v) of
        (Some t, Some description, String url) \<Rightarrow>
          let desc_lower = lowercase X description
          in if t = ''string'' \<and> (str_contains desc_lower ''url'' \<or> str_contains desc_lower ''uri''
                \<or> str_contains (lowercase X field_name) ''url'')
             then (case auto_fix_url url of
                     Some fixed \<Rightarrow> (String fixed, [''Auto-prefixed URL in '' @ quote field_name @ '': ''
                        @ quote url @ utf8_arrow @ quote fixed])
                   | None \<Rightarrow> (v, []))
             else (v, [])
      | _ \<Rightarrow> (v, []))"

text \<open>\<open>Number::from_f64\<close> of an infinity or NaN is \<open>None\<close>, which is unwrapped.\<close>

definition transform_number :: "float_ops \<Rightarrow> string \<Rightarrow> json \<Rightarrow> json \<Rightarrow> (json \<times> string list) rust" where
  "transform_number X field_name field_schema v =
     (case (str_field field_schema ''type'', v) of
        (Some t, String s) \<Rightarrow>
          if t = ''number''
          then (case parse_f64 X s of
                  Some b \<Rightarrow>
                    if f64_finite b
                    then Done (Number (Float b), [''Converted string to number in '' @ quote field_name @ '': ''
                           @ quote s @ utf8_arrow @ show_f64 X b])
                    else Panic
                | None \<Rightarrow> Done (v, []))
          else Done (v, [])
      | _ \<Rightarrow> Done (v, []))"

definition transform_integer :: "string \<Rightarrow> json \<Rightarrow> json \<Rightarrow> json \<times> string list" where
  "transform_integer field_name field_schema v =
     (case (str_field field_schema ''type'', v) of
        (Some t, String s) \<Rightarrow>
          if t = ''integer''
          then (case parse_i64 s of
                  Some i \<Rightarrow> (Number (number_from_i64 i),
                     [''Converted string to integer in '' @ quote field_name @ '': '' @ quote s @ utf8_arrow @ show_int i])
                | None \<Rightarrow> (v, []))
          else (v, [])
      | _ \<Rightarrow> (v, []))"

definition bool_word :: "string \<Rightarrow> bool option" where
  "bool_word s =
     (if s \<in> {''true'', ''yes'', ''1'', ''on''} then Some True
      else if s \<in> {''false'', ''no'', ''0'', ''off''} then Some False else None)"

definition transform_boolean :: "float_ops \<Rightarrow> string \<Rightarrow> json \<Rightarrow> json \<Rightarrow> json \<times> string list" where
  "transform_boolean X field_name field_schema v =
     (case (str_field field_schema ''type'', v) of
        (Some t, String s) \<Rightarrow>
          if t = ''boolean''
          then (case bool_word (lowercase X s) of
                  Some b \<Rightarrow> (Bool b, [''Converted string to boolean in '' @ quote field_name @ '': '' @ quote s
                     @ utf8_arrow @ (if b then ''true'' else ''false'')])
                | None \<Rightarrow> (v, []))
          else (v, [])
      | _ \<Rightarrow> (v, []))"

definition transform_field_value :: "float_ops \<Rightarrow> string \<Rightarrow> json \<Rightarrow> json \<Rightarrow> (json \<times> string list) rust" where
  "transform_field_value X field_name field_schema v =
     (let (v, ts1) = transform_url X field_name field_schema v
      in case transform_number X field_name field_schema v of
           Panic \<Rightarrow> Panic
         | Done (v, ts2) \<Rightarrow>
             let (v, ts3) = transform_integer field_name field_schema v;
                 (v, ts4) = transform_boolean X field_name field_schema v
             in Done (v, ts1 @ ts2 @ ts3 @ ts4))"

fun transform_fields ::
  "float_ops \<Rightarrow> (string \<times> json) list \<Rightarrow> (string \<times> json) list \<Rightarrow> ((string \<times> json) list \<times> string list) rust" where
  "transform_fields X [] params = Done (params, [])"
| "transform_fields X ((field_name, field_schema) # ps) params =
     (case obj_get params field_name of
        None \<Rightarrow> transform_fields X ps params
      | Some v \<Rightarrow>
          (case transform_field_value X field_name field_schema v of
             Panic \<Rightarrow> Panic
           | Done (v, ts) \<Rightarrow>
               map_rust (\<lambda>(params, ts'). (params, ts @ ts'))
                 (transform_fields X ps (obj_insert field_name v params))))"

definition apply_transformations :: "float_ops \<Rightarrow> json \<Rightarrow> ValidationResult \<Rightarrow> ValidationResult rust" where
  "apply_transformations X schema r =
     (case (schema_properties schema, validated_params r) of
        (Some properties, Object params) \<Rightarrow>
          map_rust (\<lambda>(params, ts). r\<lparr>validated_params := Object params, transformations := transformations r @ ts\<rparr>)
            (transform_fields X properties params)
      | _ \<Rightarrow> Done r)"

section \<open>Validation\<close>

definition initial_result :: "json \<Rightarrow> ValidationResult" where
  "initial_result params =
     \<lparr>is_valid = True, errors = [], warnings = [], validated_params = params, transformations = []\<rparr>"

definition note_error :: "ParamError + unit \<Rightarrow> ValidationResult \<Rightarrow> ValidationResult" where
  "note_error c r = (case c of Inl e \<Rightarrow> r\<lparr>is_valid := False, errors := errors r @ [e]\<rparr> | Inr _ \<Rightarrow> r)"

text \<open>The transformations return no error of their own, so the early return after them does not
  occur.\<close>

definition validate :: "float_ops \<Rightarrow> ParameterValidator \<Rightarrow> json \<Rightarrow> json \<Rightarrow> ValidationResult rust" where
  "validate X self schema params =
     (let r = initial_result params
      in case validate_schema_syntax schema of
           Inl e \<Rightarrow> Done (note_error (Inl e) r)
         | Inr _ \<Rightarrow>
             map_rust (\<lambda>r.
               let r = note_error (validate_against_schema schema (validated_params r)) r
               in note_error (check_required_fields schema (validated_params r)) r)
               (if auto_transform self then apply_transformations X schema r else Done r))"

definition validate_parameters :: "float_ops \<Rightarrow> json \<Rightarrow> json \<Rightarrow> ValidationResult rust" where
  "validate_parameters X schema params = validate X ParameterValidator_default schema params"

definition validate_parameters_strict :: "float_ops \<Rightarrow> json \<Rightarrow> json \<Rightarrow> ValidationResult rust" where
  "validate_parameters_strict X schema params = validate X ParameterValidator_strict schema params"

section \<open>Hints\<close>

record ParameterHint =
  hint_name :: string
  param_type :: string
  hint_description :: "string option"
  required :: bool
  default_value :: "json option"
  enum_values :: "json list option"
  hint_format :: "string option"
  hint_pattern :: "string option"
  min_length :: "u64 option"
  max_length :: "u64 option"

definition as_u64 :: "json \<Rightarrow> u64 option" where
  "as_u64 v = (case v of Number (PosInt n) \<Rightarrow> Some n | _ \<Rightarrow> None)"

definition required_names :: "json \<Rightarrow> string list" where
  "required_names schema = (case Option.bind (value_get schema ''required'') as_array of
     Some vs \<Rightarrow> List.map_filter as_str vs | None \<Rightarrow> [])"

definition parameter_hint :: "json \<Rightarrow> string \<times> json \<Rightarrow> ParameterHint" where
  "parameter_hint schema = (\<lambda>(field_name, field_schema).
     \<lparr>hint_name = field_name,
      param_type = (case str_field field_schema ''type'' of Some t \<Rightarrow> t | None \<Rightarrow> ''string''),
      hint_description = str_field field_schema ''description'',
      required = (field_name \<in> set (required_names schema)),
      default_value = value_get field_schema ''default'',
      enum_values = Option.bind (value_get field_schema ''enum'') as_array,
      hint_format = str_field field_schema ''format'',
      hint_pattern = str_field field_schema ''pattern'',
      min_length = Option.bind (value_get field_schema ''minLength'') as_u64,
      max_length = Option.bind (value_get field_schema ''maxLength'') as_u64\<rparr>)"

definition extract_parameter_hints :: "json \<Rightarrow> (string \<rightharpoonup> ParameterHint)" where
  "extract_parameter_hints schema = (case schema_properties schema of
     Some properties \<Rightarrow> map_of (map (\<lambda>p. (fst p, parameter_hint schema p)) properties)
   | None \<Rightarrow> Map.empty)"

section \<open>What validation guarantees\<close>

text \<open>The types a schema can name, by the values they admit and not by the checks of the validator.
  A double is an integer when significand times power of two is one: with a finite double of
  exponent field \<open>e\<close> and significand \<open>c\<close> this is \<open>c * 2 ^ e = k * 2 ^ 1075\<close> for some \<open>k\<close>. Names that
  are not one of the six types, \<open>null\<close> among them, admit every value.\<close>

definition f64_significand :: "u64 \<Rightarrow> nat" where
  "f64_significand b = unat (f64_mantissa b) + (if f64_exponent b = 0 then 0 else 2 ^ 52)"

definition f64_scale :: "u64 \<Rightarrow> nat" where
  "f64_scale b = (if f64_exponent b = 0 then 1 else f64_exponent b)"

definition f64_is_integer :: "u64 \<Rightarrow> bool" where
  "f64_is_integer b \<longleftrightarrow> f64_finite b \<and> (\<exists>k. f64_significand b * 2 ^ f64_scale b = k * 2 ^ 1075)"

inductive has_type :: "string \<Rightarrow> json \<Rightarrow> bool" where
  string: "has_type ''string'' (String s)"
| number: "has_type ''number'' (Number n)"
| positive: "has_type ''integer'' (Number (PosInt n))"
| negative: "has_type ''integer'' (Number (NegInt i))"
| integral: "f64_is_integer b \<Longrightarrow> has_type ''integer'' (Number (Float b))"
| boolean: "has_type ''boolean'' (Bool b)"
| array: "has_type ''array'' (Array vs)"
| object: "has_type ''object'' (Object kvs)"
| unknown: "t \<notin> {''string'', ''number'', ''integer'', ''boolean'', ''array'', ''object''} \<Longrightarrow> has_type t v"

text \<open>The fields of an object against a schema: every declared field that is present has the type
  its schema names; every required name is present.\<close>

definition well_typed :: "json \<Rightarrow> (string \<times> json) list \<Rightarrow> bool" where
  "well_typed schema ps \<longleftrightarrow> (\<forall>qs f s t v. schema_properties schema = Some qs \<longrightarrow> (f, s) \<in> set qs \<longrightarrow>
     str_field s ''type'' = Some t \<longrightarrow> obj_get ps f = Some v \<longrightarrow> has_type t v)"

definition has_required :: "json \<Rightarrow> (string \<times> json) list \<Rightarrow> bool" where
  "has_required schema ps \<longleftrightarrow> (\<forall>rs f. Option.bind (value_get schema ''required'') as_array = Some rs \<longrightarrow>
     String f \<in> set rs \<longrightarrow> obj_get ps f \<noteq> None)"

lemma unat_take_bit: "unat (take_bit n (w :: u64)) = unat w mod 2 ^ n"
  by (simp add: unsigned_take_bit_eq) (simp add: take_bit_eq_mod)

lemma f64_mantissa_less: "unat (f64_mantissa b) < 2 ^ 52"
  unfolding f64_mantissa_def unat_take_bit by simp

lemma not_dvd_small: "0 < n \<Longrightarrow> n < m \<Longrightarrow> \<not> m dvd (n :: nat)"
  by (auto dest: dvd_imp_le)

lemma f64_integral_iff: "f64_integral b \<longleftrightarrow> f64_is_integer b"
proof -
  let ?e = "f64_exponent b" and ?m = "unat (f64_mantissa b)"
  have m: "?m < 2 ^ 52" by (rule f64_mantissa_less)
  have "(2 :: nat) ^ 1075 dvd f64_significand b * 2 ^ f64_scale b \<longleftrightarrow>
     (if ?e < 1023 then ?e = 0 \<and> f64_mantissa b = 0
      else ?e \<ge> 1075 \<or> take_bit (1075 - ?e) (f64_mantissa b) = 0)" (is "?D \<longleftrightarrow> ?R")
  proof -
    consider "?e = 0" | "0 < ?e" "?e < 1023" | "1023 \<le> ?e" "?e < 1075" | "1075 \<le> ?e" by linarith
    then show ?thesis
    proof cases
      case 1
      have "?m * 2 ^ 1 < (2 :: nat) ^ 53" using m by simp
      also have "\<dots> \<le> 2 ^ 1075" by (rule power_increasing) simp_all
      finally have "(2 :: nat) ^ 1075 dvd ?m * 2 ^ 1 \<longleftrightarrow> ?m = 0"
        using not_dvd_small [of "?m * 2 ^ 1" "2 ^ 1075"] by auto
      with 1 show ?thesis by (simp add: f64_significand_def f64_scale_def unat_eq_0)
    next
      case 2
      have "(?m + 2 ^ 52) * 2 ^ ?e < (2 :: nat) ^ 53 * 2 ^ ?e" using m by simp
      also have "\<dots> \<le> 2 ^ 53 * 2 ^ 1022" using 2 by (intro mult_left_mono power_increasing) simp_all
      also have "\<dots> = 2 ^ 1075" by (simp only: power_add [symmetric]) simp
      finally have "\<not> (2 :: nat) ^ 1075 dvd (?m + 2 ^ 52) * 2 ^ ?e"
        by (intro not_dvd_small) simp_all
      with 2 show ?thesis by (simp add: f64_significand_def f64_scale_def)
    next
      case 3
      let ?k = "1075 - ?e"
      have split: "(2 :: nat) ^ 1075 = 2 ^ ?k * 2 ^ ?e" using 3 by (simp only: power_add [symmetric]) simp
      have "(2 :: nat) ^ 1075 dvd (?m + 2 ^ 52) * 2 ^ ?e \<longleftrightarrow> 2 ^ ?k dvd ?m + 2 ^ 52"
        unfolding split dvd_mult_cancel_right by simp
      also have "\<dots> \<longleftrightarrow> 2 ^ ?k dvd ?m"
        using 3 by (intro dvd_add_left_iff le_imp_power_dvd) simp
      also have "\<dots> \<longleftrightarrow> take_bit ?k (f64_mantissa b) = 0"
        unfolding dvd_eq_mod_eq_0 unat_take_bit [symmetric] by (rule unat_eq_0)
      finally show ?thesis using 3 by (simp add: f64_significand_def f64_scale_def)
    next
      case 4
      then have "(2 :: nat) ^ 1075 dvd 2 ^ ?e" by (rule le_imp_power_dvd)
      with 4 show ?thesis by (simp add: f64_scale_def dvd_mult)
    qed
  qed
  moreover have "(\<exists>k. f64_significand b * 2 ^ f64_scale b = k * 2 ^ 1075) \<longleftrightarrow> ?D"
    by (simp only: dvd_def mult.commute)
  ultimately show ?thesis unfolding f64_integral_def f64_is_integer_def by simp
qed

lemma valid_type_iff: "valid_type t v \<longleftrightarrow> has_type t v"
  unfolding valid_type_def has_type.simps [of t v] f64_integral_iff type_name_def
  by (auto split: json.splits json_number.splits)

lemma check_properties_iff:
  "check_properties qs ps = Inr () \<longleftrightarrow> (\<forall>f s t v. (f, s) \<in> set qs \<longrightarrow> str_field s ''type'' = Some t \<longrightarrow>
     obj_get ps f = Some v \<longrightarrow> has_type t v)"
proof (induction qs ps rule: check_properties.induct)
  case (2 f s qs ps)
  then show ?case
    by (cases "obj_get ps f"; cases "str_field s ''type''") (auto simp: valid_type_iff)
qed simp

lemma check_required_iff:
  "check_required rs ps = Inr () \<longleftrightarrow> (\<forall>f. String f \<in> set rs \<longrightarrow> obj_get ps f \<noteq> None)"
  by (induction rs ps rule: check_required.induct) (auto simp: as_str_def split: option.splits json.splits)

text \<open>Both checks together. Nothing is asked of parameters that are not an object.\<close>

definition conforms :: "json \<Rightarrow> json \<Rightarrow> bool" where
  "conforms schema params \<longleftrightarrow> (\<forall>ps. params = Object ps \<longrightarrow> well_typed schema ps \<and> has_required schema ps)"

lemma checks_iff:
  "validate_against_schema schema params = Inr () \<and> check_required_fields schema params = Inr ()
   \<longleftrightarrow> conforms schema params"
proof -
  have "validate_against_schema schema params = Inr () \<longleftrightarrow> (\<forall>ps. params = Object ps \<longrightarrow> well_typed schema ps)"
    unfolding validate_against_schema_def well_typed_def
    by (cases params; cases "schema_properties schema") (simp_all add: as_object_def check_properties_iff)
  moreover have "check_required_fields schema params = Inr () \<longleftrightarrow> (\<forall>ps. params = Object ps \<longrightarrow> has_required schema ps)"
    unfolding check_required_fields_def has_required_def
    by (cases params; cases "Option.bind (value_get schema ''required'') as_array")
      (simp_all add: as_object_def check_required_iff)
  ultimately show ?thesis unfolding conforms_def by blast
qed

lemma note_error_simps [simp]:
  "is_valid (note_error c r) \<longleftrightarrow> is_valid r \<and> c = Inr ()"
  "validated_params (note_error c r) = validated_params r"
  "transformations (note_error c r) = transformations r"
  by (auto simp: note_error_def split: sum.split)

text \<open>Fields.\<close>

lemma auto_fix_url_fixed: "auto_fix_url u = Some v \<Longrightarrow> auto_fix_url v = None"
  by (auto simp: auto_fix_url_def starts_with_def split: if_splits)

lemmas transform_defs = transform_field_value_def transform_url_def transform_number_def
  transform_integer_def transform_boolean_def

lemma transform_field_idem:
  assumes "transform_field_value X f s v = Done (v', ts)"
  shows "transform_field_value X f s v' = Done (v', [])"
proof (cases "str_field s ''type''")
  case None
  with assms show ?thesis by (simp add: transform_defs)
next
  case (Some t)
  consider "t = ''string''" | "t = ''number''" | "t = ''integer''" | "t = ''boolean''"
    | "t \<notin> {''string'', ''number'', ''integer'', ''boolean''}" by blast
  then show ?thesis
  proof cases
    case 1
    with assms Some show ?thesis
      by (auto simp: transform_defs Let_def split: json.splits option.splits if_splits
          dest: auto_fix_url_fixed)
  qed (use assms Some in \<open>auto simp: transform_defs Let_def split: json.splits option.splits if_splits\<close>)
qed

lemma transform_field_panics:
  "transform_field_value X f s v = Panic \<longleftrightarrow>
     (\<exists>x b. str_field s ''type'' = Some ''number'' \<and> v = String x \<and> parse_f64 X x = Some b \<and> \<not> f64_finite b)"
  by (auto simp: transform_defs Let_def split: json.splits option.splits if_splits)

lemma obj_insert_same: "obj_wf m \<Longrightarrow> obj_get m k = Some v \<Longrightarrow> obj_insert k v m = m"
  by (rule obj_eqI) (auto simp: obj_wf_insert obj_get_insert)

text \<open>Objects: the fields of the schema are rewritten one by one, all others are kept.\<close>

lemma transform_fields_get:
  assumes "transform_fields X qs ps = Done (ps', ts)" and "distinct (map fst qs)"
  shows "obj_get ps' k = (case map_of qs k of
      None \<Rightarrow> obj_get ps k
    | Some s \<Rightarrow> map_option (\<lambda>v. fst (case transform_field_value X k s v of Done r \<Rightarrow> r | Panic \<Rightarrow> (v, []))) (obj_get ps k))
    \<and> (obj_wf ps \<longrightarrow> obj_wf ps')"
  using assms
proof (induction X qs ps arbitrary: ps' ts rule: transform_fields.induct)
  case (1 X params)
  then show ?case by simp
next
  case (2 X f s qs ps)
  show ?case
  proof (cases "obj_get ps f")
    case None
    with 2(1) [OF None] 2(3,4) show ?thesis by (auto simp: map_of_eq_None_iff split: option.splits)
  next
    case (Some v)
    with 2(3) obtain v' ts1 ts2 where v': "transform_field_value X f s v = Done (v', ts1)"
      and rest: "transform_fields X qs (obj_insert f v' ps) = Done (ps', ts2)"
      by (auto split: rust.splits simp: map_rust_eq_Done)
    from 2(2) [OF Some v' _ rest] 2(4) have
      "obj_get ps' k = (case map_of qs k of
        None \<Rightarrow> obj_get (obj_insert f v' ps) k
      | Some s \<Rightarrow> map_option (\<lambda>v. fst (case transform_field_value X k s v of Done r \<Rightarrow> r | Panic \<Rightarrow> (v, [])))
          (obj_get (obj_insert f v' ps) k))
      \<and> (obj_wf (obj_insert f v' ps) \<longrightarrow> obj_wf ps')" by simp
    moreover from 2(4) have "map_of qs f = None" by (simp add: map_of_eq_None_iff)
    ultimately show ?thesis using Some v' by (auto simp: obj_get_insert obj_wf_insert split: option.splits)
  qed
qed

lemma transform_fields_idem_aux:
  assumes "\<forall>(f, s)\<in>set qs. \<forall>v. obj_get ps f = Some v \<longrightarrow> transform_field_value X f s v = Done (v, [])"
    and "obj_wf ps"
  shows "transform_fields X qs ps = Done (ps, [])"
  using assms(1)
proof (induction qs)
  case (Cons q qs)
  then show ?case
    by (cases q) (auto simp: obj_insert_same [OF assms(2)] split: option.splits)
qed simp

lemma transform_fields_done:
  "transform_fields X qs ps = Done (ps', ts) \<Longrightarrow> distinct (map fst qs) \<Longrightarrow> (f, s) \<in> set qs \<Longrightarrow>
   obj_get ps f = Some v \<Longrightarrow> \<exists>v' ts'. transform_field_value X f s v = Done (v', ts')"
proof (induction X qs ps arbitrary: ps' ts rule: transform_fields.induct)
  case (2 X g r qs ps)
  show ?case
  proof (cases "(g, r) = (f, s)")
    case True
    with 2 show ?thesis by (auto split: rust.splits)
  next
    case False
    with 2(4,5) have "(f, s) \<in> set qs" "f \<noteq> g" by auto (metis fst_conv image_eqI)
    with 2 show ?thesis
      by (auto simp: obj_get_insert map_rust_eq_Done split: option.splits rust.splits)
  qed
qed simp

lemma transform_fields_idem:
  assumes "transform_fields X qs ps = Done (ps', ts)" "distinct (map fst qs)" "obj_wf ps"
  shows "transform_fields X qs ps' = Done (ps', [])"
proof (rule transform_fields_idem_aux)
  show "obj_wf ps'" using transform_fields_get [OF assms(1,2)] assms(3) by blast
  show "\<forall>(f, s)\<in>set qs. \<forall>v. obj_get ps' f = Some v \<longrightarrow> transform_field_value X f s v = Done (v, [])"
  proof (clarify)
    fix f s v assume fs: "(f, s) \<in> set qs" and v: "obj_get ps' f = Some v"
    from fs assms(2) have m: "map_of qs f = Some s" by simp
    from transform_fields_get [OF assms(1,2), of f] m v obtain u where u: "obj_get ps f = Some u"
      and vu: "v = fst (case transform_field_value X f s u of Done r \<Rightarrow> r | Panic \<Rightarrow> (u, []))"
      by (auto dest!: sym [of "Some v"])
    from transform_fields_done [OF assms(1,2) fs u] obtain v' ts' where
      "transform_field_value X f s u = Done (v', ts')" by blast
    with vu transform_field_idem show "transform_field_value X f s v = Done (v, [])" by fastforce
  qed
qed

lemma transform_fields_panics:
  "distinct (map fst qs) \<Longrightarrow> transform_fields X qs ps = Panic \<longleftrightarrow>
     (\<exists>f s v. (f, s) \<in> set qs \<and> obj_get ps f = Some v \<and> transform_field_value X f s v = Panic)"
proof (induction X qs ps rule: transform_fields.induct)
  case (2 X f s qs ps)
  have other: "obj_get (obj_insert f v ps) g = obj_get ps g" if "(g, r) \<in> set qs" for g r v
    using 2(3) that by (auto simp: obj_get_insert) (metis fst_conv image_eqI)
  show ?case
  proof (cases "obj_get ps f")
    case None
    with 2(1) [OF None] 2(3) show ?thesis by auto
  next
    case (Some v)
    show ?thesis
    proof (cases "transform_field_value X f s v")
      case Panic
      with Some show ?thesis by auto
    next
      case (Done x)
      obtain v' ts where x: "x = (v', ts)" by (cases x)
      with 2(2) [OF Some Done x [symmetric]] 2(3) Some Done show ?thesis
        by (auto simp: map_rust_eq_Panic other) (metis other)+
    qed
  qed
qed simp

section \<open>Properties\<close>

lemma validateE:
  assumes "validate X self schema params = Done r"
  obtains "as_object schema = None" "\<not> is_valid r" "validated_params r = params" "transformations r = []"
  | r0 where "as_object schema \<noteq> None"
    "(if auto_transform self then apply_transformations X schema (initial_result params)
      else Done (initial_result params)) = Done r0"
    "validated_params r = validated_params r0" "transformations r = transformations r0"
    "is_valid r \<longleftrightarrow> is_valid r0 \<and> conforms schema (validated_params r0)"
proof (cases "as_object schema = None")
  case True
  then show ?thesis using assms that(1)
    by (auto simp: validate_def validate_schema_syntax_def note_error_def initial_result_def)
next
  case False
  with assms obtain r0 where r0: "(if auto_transform self then apply_transformations X schema (initial_result params)
      else Done (initial_result params)) = Done r0"
    and r: "r = note_error (check_required_fields schema (validated_params r0))
       (note_error (validate_against_schema schema (validated_params r0)) r0)"
    by (auto simp: validate_def validate_schema_syntax_def map_rust_eq_Done Let_def)
  from r have "is_valid r \<longleftrightarrow> is_valid r0 \<and> conforms schema (validated_params r0)"
    by (auto simp flip: checks_iff)
  with False r0 r that(2) show ?thesis by simp
qed

lemma apply_transformations_valid:
  "apply_transformations X schema r = Done r' \<Longrightarrow> is_valid r' = is_valid r"
  by (auto simp: apply_transformations_def map_rust_eq_Done split: option.splits json.splits)



text \<open>Transformations are idempotent. Validating the validated parameters of an object again
  changes nothing, reports no transformation and gives the same verdict.\<close>

theorem validation_idempotent:
  assumes "validate X self schema (Object ps) = Done r" and "obj_wf ps"
    and "\<forall>qs. schema_properties schema = Some qs \<longrightarrow> obj_wf qs"
  shows "\<exists>r'. validate X self schema (validated_params r) = Done r'
    \<and> validated_params r' = validated_params r \<and> transformations r' = [] \<and> is_valid r' = is_valid r"
proof -
  have "\<exists>r'. validate X self schema (validated_params r) = Done r'
      \<and> validated_params r' = validated_params r \<and> transformations r' = []"
    using assms(1)
  proof (cases rule: validateE)
    case 1
    then show ?thesis by (auto simp: validate_def validate_schema_syntax_def initial_result_def)
  next
    case (2 r0)
    have "(if auto_transform self then apply_transformations X schema (initial_result (validated_params r0))
        else Done (initial_result (validated_params r0))) = Done (initial_result (validated_params r0))"
    proof (cases "auto_transform self \<and> schema_properties schema \<noteq> None")
      case False
      then show ?thesis by (auto simp: apply_transformations_def)
    next
      case True
      then obtain qs where qs: "schema_properties schema = Some qs" by blast
      with assms(3) have "distinct (map fst qs)" by (auto simp: obj_wf_def strict_sorted_iff)
      moreover from 2(2) True qs obtain ps' ts where "transform_fields X qs ps = Done (ps', ts)"
        and ps': "validated_params r0 = Object ps'"
        by (auto simp: apply_transformations_def initial_result_def map_rust_eq_Done)
      ultimately have "transform_fields X qs ps' = Done (ps', [])"
        using transform_fields_idem assms(2) by blast
      with True qs ps' show ?thesis by (simp add: apply_transformations_def initial_result_def)
    qed
    with 2 show ?thesis
      by (auto simp: validate_def validate_schema_syntax_def) (simp_all add: initial_result_def)
  qed
  moreover have "is_valid r' = is_valid r"
    if "validate X self schema (validated_params r) = Done r'" "validated_params r' = validated_params r" for r'
    using assms(1) that by (elim validateE)
      (auto simp: initial_result_def dest!: apply_transformations_valid split: if_splits)
  ultimately show ?thesis by blast
qed

text \<open>A field typed as \<open>number\<close> whose value is a string that reads as an infinity or as
  not a number.\<close>

definition nonfinite_field :: "float_ops \<Rightarrow> (string \<times> json) list \<Rightarrow> string \<times> json \<Rightarrow> bool" where
  "nonfinite_field X ps = (\<lambda>(f, s). str_field s ''type'' = Some ''number'' \<and>
     (case obj_get ps f of
        Some (String x) \<Rightarrow> (case parse_f64 X x of Some b \<Rightarrow> \<not> f64_finite b | None \<Rightarrow> False)
      | _ \<Rightarrow> False))"

lemma nonfinite_field_iff:
  "nonfinite_field X ps (f, s) \<longleftrightarrow> (\<exists>v. obj_get ps f = Some v \<and> transform_field_value X f s v = Panic)"
  by (auto simp: nonfinite_field_def transform_field_panics split: option.splits json.splits)

text \<open>Panics. Validation panics exactly when transformations are enabled and some field the
  schema types as \<open>number\<close> holds a string that reads as an infinity or as not a number.\<close>

theorem validation_panics_iff:
  assumes "\<forall>qs. schema_properties schema = Some qs \<longrightarrow> obj_wf qs"
  shows "validate X self schema params = Panic \<longleftrightarrow> auto_transform self \<and>
    (case (schema_properties schema, params) of
       (Some qs, Object ps) \<Rightarrow> list_ex (nonfinite_field X ps) qs | _ \<Rightarrow> False)"
proof (cases "schema_properties schema")
  case None
  then show ?thesis
    by (simp add: validate_def validate_schema_syntax_def apply_transformations_def map_rust_eq_Panic Let_def)
next
  case (Some qs)
  then obtain m where obj: "as_object schema = Some m"
    by (auto simp: schema_properties_def value_get_def as_object_def split: json.splits)
  from assms Some have "distinct (map fst qs)" by (auto simp: obj_wf_def strict_sorted_iff)
  from transform_fields_panics [OF this] have
    "transform_fields X qs ps = Panic \<longleftrightarrow> list_ex (nonfinite_field X ps) qs" for ps
    unfolding list_ex_iff Bex_def split_paired_Ex nonfinite_field_iff by simp
  with Some obj show ?thesis
    by (cases params; cases "auto_transform self")
      (simp_all add: validate_def validate_schema_syntax_def apply_transformations_def initial_result_def
        map_rust_eq_Panic Let_def)
qed

text \<open>Parameters that are not an object. Every value that is not an object is valid for every
  object schema, required fields or not, in strict mode too.\<close>

theorem nonobject_params_valid:
  assumes "as_object params = None" and "as_object schema \<noteq> None"
  shows "\<exists>r. validate X self schema params = Done r \<and> is_valid r"
proof (cases "validate X self schema params")
  case Panic
  with assms show ?thesis
    by (auto simp: validate_def validate_schema_syntax_def apply_transformations_def as_object_def initial_result_def Let_def
        split: option.splits json.splits if_splits)
next
  case (Done r)
  then show ?thesis
  proof (cases rule: validateE)
    case (2 r0)
    from 2(2) assms(1) have "r0 = initial_result params"
      by (auto simp: apply_transformations_def initial_result_def as_object_def split: if_splits option.splits json.splits)
    with 2 assms(1) Done show ?thesis by (auto simp: conforms_def initial_result_def as_object_def)
  qed (use assms in simp)
qed

section \<open>Examples\<close>

definition sample_text :: float_ops where
  "sample_text = \<lparr>parse_f64 = (\<lambda>s. if s = ''NaN'' then Some 0x7FF8000000000000
       else if s = ''1.5'' then Some 0x3FF8000000000000 else None),
     show_f64 = (\<lambda>b. ''1.5''), lowercase = id\<rparr>"

definition sample_schema :: json where
  "sample_schema = Object [(''properties'', Object [(''url'', Object [(''description'', String ''the url''), (''type'', String ''string'')]),
       (''w'', Object [(''type'', String ''number'')])]),
     (''required'', Array [String ''url''])]"

lemmas sample_schema_simps = sample_schema_def schema_properties_def value_get_def as_object_def as_array_def
  obj_get_def str_field_def as_str_def

abbreviation sample_args :: json where
  "sample_args \<equiv> Object [(''url'', String ''example.com''), (''w'', String ''1.5'')]"

lemma sample_validated: "\<exists>r. validate sample_text ParameterValidator_default sample_schema sample_args = Done r
    \<and> validated_params r = Object [(''url'', String ''https://example.com''), (''w'', Number (Float 0x3FF8000000000000))]"
  by (simp add: validate_def validate_schema_syntax_def apply_transformations_def initial_result_def
      sample_schema_simps ParameterValidator_default_def transform_defs auto_fix_url_def starts_with_def
      sample_text_def f64_finite_def f64_exponent_def Let_def)


theorem validation_idempotent_witness:
  "\<exists>r'. validate sample_text ParameterValidator_default sample_schema
      (Object [(''url'', String ''https://example.com''), (''w'', Number (Float 0x3FF8000000000000))]) = Done r'
    \<and> transformations r' = []"
proof -
  obtain r where r: "validate sample_text ParameterValidator_default sample_schema sample_args = Done r"
    and p: "validated_params r = Object [(''url'', String ''https://example.com''), (''w'', Number (Float 0x3FF8000000000000))]"
    using sample_validated by blast
  have "obj_wf [(''url'', String ''example.com''), (''w'', String ''1.5'')]"
    and "\<forall>qs. schema_properties sample_schema = Some qs \<longrightarrow> obj_wf qs"
    by (simp_all add: obj_wf_def sample_schema_simps less_char_def)
  from validation_idempotent [OF r this] p show ?thesis by auto
qed

theorem validation_panics_iff_witness:
  "validate sample_text ParameterValidator_default sample_schema (Object [(''w'', String ''NaN'')]) = Panic"
proof -
  have "\<forall>qs. schema_properties sample_schema = Some qs \<longrightarrow> obj_wf qs"
    by (simp add: obj_wf_def sample_schema_simps less_char_def)
  from validation_panics_iff [OF this] show ?thesis
    by (simp add: sample_schema_simps nonfinite_field_def sample_text_def f64_finite_def f64_exponent_def
        ParameterValidator_default_def)
qed

theorem nonobject_params_valid_witness:
  "\<exists>r. validate sample_text ParameterValidator_strict sample_schema Null = Done r \<and> is_valid r"
  by (rule nonobject_params_valid) (simp_all add: sample_schema_simps)

end
