(* ===== verification/Ipc_Types.thy ===== *)
theory Ipc_Types
  imports Mcp_Error Interceptor
begin

text \<open>
  The data the processes of the system exchange: identifiers, statistics, log entries, proxies,
  clients, servers, sessions, rules and message flows (\<open>acdp-common/src/types.rs\<close>), the
  JSON-RPC types of \<open>acdp-common/src/mcp.rs\<close> and the messages between proxy and monitor
  (\<open>acdp-common/src/messages.rs\<close>). Identifiers are UUIDs in their textual form; a default
  value that draws identifiers or reads the clock takes them as arguments. An \<open>f64\<close> is its
  bit pattern.
\<close>

section \<open>JSON-RPC as the monitor sees it\<close>

record RawJsonRpcError =
  raw_code :: int
  raw_message :: string
  raw_data :: "json option"

record RawJsonRpcRequest =
  raw_req_jsonrpc :: string
  raw_req_id :: json
  raw_req_method :: string
  raw_req_params :: "json option"

record RawJsonRpcResponse =
  raw_resp_jsonrpc :: string
  raw_resp_id :: json
  raw_resp_result :: "json option"
  raw_resp_error :: "RawJsonRpcError option"

record RawJsonRpcNotification =
  raw_notif_jsonrpc :: string
  raw_notif_method :: string
  raw_notif_params :: "json option"

datatype RawJsonRpcMessage =
    RawRequest RawJsonRpcRequest
  | RawResponse RawJsonRpcResponse
  | RawNotification RawJsonRpcNotification

definition raw_get_method :: "RawJsonRpcMessage \<Rightarrow> string option" where
  "raw_get_method m = (case m of
     RawRequest r \<Rightarrow> Some (raw_req_method r) | RawNotification n \<Rightarrow> Some (raw_notif_method n)
   | RawResponse _ \<Rightarrow> None)"

definition raw_get_id :: "RawJsonRpcMessage \<Rightarrow> json option" where
  "raw_get_id m = (case m of
     RawRequest r \<Rightarrow> Some (raw_req_id r) | RawResponse r \<Rightarrow> Some (raw_resp_id r)
   | RawNotification _ \<Rightarrow> None)"

section \<open>Identifiers, logs and proxies\<close>

type_synonym ProxyId = string
type_synonym ClientId = string
type_synonym ServerId = string
type_synonym SessionId = string
type_synonym MessageId = string

datatype LogLevel = DebugLevel | InfoLevel | WarningLevel | ErrorLevel | RequestLevel | ResponseLevel

record LogEntry =
  log_id :: string
  log_timestamp :: datetime
  log_level :: LogLevel
  log_message :: string
  log_proxy_id :: ProxyId
  log_request_id :: "string option"
  log_metadata :: "json option"

definition LogEntry_new :: "string \<Rightarrow> datetime \<Rightarrow> LogLevel \<Rightarrow> string \<Rightarrow> ProxyId \<Rightarrow> LogEntry" where
  "LogEntry_new uuid now level message proxy = \<lparr>log_id = uuid, log_timestamp = now,
     log_level = level, log_message = message, log_proxy_id = proxy, log_request_id = None,
     log_metadata = None\<rparr>"

definition with_request_id :: "LogEntry \<Rightarrow> string \<Rightarrow> LogEntry" where
  "with_request_id e i = e\<lparr>log_request_id := Some i\<rparr>"

definition log_with_metadata :: "LogEntry \<Rightarrow> json \<Rightarrow> LogEntry" where
  "log_with_metadata e v = e\<lparr>log_metadata := Some v\<rparr>"

record ProxyStats =
  ps_proxy_id :: ProxyId
  total_requests :: u64
  successful_requests :: u64
  failed_requests :: u64
  active_connections :: u32
  uptime :: duration
  bytes_transferred :: u64

definition ProxyStats_default :: "ProxyId \<Rightarrow> ProxyStats" where
  "ProxyStats_default uuid = \<lparr>ps_proxy_id = uuid, total_requests = 0, successful_requests = 0,
     failed_requests = 0, active_connections = 0, uptime = secs 0, bytes_transferred = 0\<rparr>"

datatype ProxyStatus = ProxyStarting | ProxyRunning | ProxyIsStopped | ProxyError string

datatype TransportType = StdioType | HttpSseType | HttpStreamType

record ProxyInfo =
  pi_id :: ProxyId
  pi_name :: string
  listen_address :: string
  target_command :: "string list"
  pi_status :: ProxyStatus
  pi_stats :: ProxyStats
  pi_transport_type :: TransportType
  pi_routing_mode :: "string option"
  pi_model_status :: "string option"

record MCPError =
  mcp_code :: int
  mcp_message :: string
  mcp_data :: "json option"

record MCPRequest =
  mcp_req_id :: string
  mcp_req_method :: string
  mcp_req_params :: "json option"

record MCPResponse =
  mcp_resp_id :: string
  mcp_resp_result :: "json option"
  mcp_resp_error :: "MCPError option"

section \<open>Clients and servers\<close>

datatype ClientConnectionType = WebSocketClient | StdioClient | HttpClient | HttpSseClient | CustomClient string

definition ClientConnectionType_default :: ClientConnectionType where
  "ClientConnectionType_default = CustomClient ''unknown''"

record ClientInfo =
  ci_id :: ClientId
  ci_name :: string
  connection_type :: ClientConnectionType
  ci_connected_at :: datetime
  ci_last_activity :: datetime
  ci_active_sessions :: "SessionId list"
  ci_total_requests :: u64

definition ClientInfo_default :: "ClientId \<Rightarrow> datetime \<Rightarrow> ClientInfo" where
  "ClientInfo_default uuid now = \<lparr>ci_id = uuid, ci_name = ''unknown-client'',
     connection_type = ClientConnectionType_default, ci_connected_at = now, ci_last_activity = now,
     ci_active_sessions = [], ci_total_requests = 0\<rparr>"

datatype ServerEndpoint =
    CommandEndpoint string "string list" | UrlEndpoint string | SocketEndpoint string | CustomEndpoint string

definition ServerEndpoint_default :: ServerEndpoint where
  "ServerEndpoint_default = CustomEndpoint ''unknown''"

datatype ServerStatus = ServerStarting | ServerRunning | ServerDegraded string | ServerStopped | ServerError string

definition ServerStatus_default :: ServerStatus where
  "ServerStatus_default = ServerStarting"

record ServerCapabilities =
  sc_tools :: "string list"
  sc_resources :: "string list"
  sc_prompts :: "string list"
  sc_features :: "string list"

record HealthMetrics =
  uptime_seconds :: u64
  response_time_ms :: f64
  health_success_rate :: f64
  cpu_percent :: f64
  memory_bytes :: u64
  last_error :: "string option"

definition HealthMetrics_default :: HealthMetrics where
  "HealthMetrics_default = \<lparr>uptime_seconds = 0, response_time_ms = f64_zero,
     health_success_rate = f64_zero, cpu_percent = f64_zero, memory_bytes = 0, last_error = None\<rparr>"

record IpcServerInfo =
  si_id :: ServerId
  si_name :: string
  si_endpoint :: ServerEndpoint
  si_status :: ServerStatus
  si_capabilities :: "ServerCapabilities option"
  si_active_sessions :: "SessionId list"
  si_health :: HealthMetrics

definition IpcServerInfo_default :: "ServerId \<Rightarrow> IpcServerInfo" where
  "IpcServerInfo_default uuid = \<lparr>si_id = uuid, si_name = ''unknown-server'',
     si_endpoint = ServerEndpoint_default, si_status = ServerStatus_default, si_capabilities = None,
     si_active_sessions = [], si_health = HealthMetrics_default\<rparr>"

section \<open>Sessions, rules and flows\<close>

datatype SessionStatus = SessionStarting | SessionActive | SessionIdle | SessionCompleted | SessionFailed string

definition SessionStatus_default :: SessionStatus where
  "SessionStatus_default = SessionStarting"

record ActiveRequest =
  ar_request_id :: string
  ar_method :: string
  ar_started_at :: datetime
  ar_duration_ms :: u64
  ar_target_server :: "ServerId option"

definition ActiveRequest_default :: "datetime \<Rightarrow> ActiveRequest" where
  "ActiveRequest_default now = \<lparr>ar_request_id = [], ar_method = [], ar_started_at = now,
     ar_duration_ms = 0, ar_target_server = None\<rparr>"

datatype TransformDirection = RequestDirection | ResponseDirection

record AppliedTransformation =
  at_rule_id :: string
  at_rule_name :: string
  at_direction :: TransformDirection
  at_duration_ms :: u64
  at_success :: bool
  at_notes :: "string option"

definition AppliedTransformation_default :: AppliedTransformation where
  "AppliedTransformation_default = \<lparr>at_rule_id = [], at_rule_name = [],
     at_direction = RequestDirection, at_duration_ms = 0, at_success = True, at_notes = None\<rparr>"

record ProxySession =
  sess_id :: SessionId
  sess_client_id :: ClientId
  sess_server_id :: ServerId
  sess_started_at :: datetime
  sess_last_activity :: datetime
  request_count :: u64
  bytes_in :: u64
  bytes_out :: u64
  sess_status :: SessionStatus
  active_requests :: "ActiveRequest list"
  transformations_applied :: "AppliedTransformation list"

definition ProxySession_default :: "SessionId \<Rightarrow> ClientId \<Rightarrow> ServerId \<Rightarrow> datetime \<Rightarrow> ProxySession" where
  "ProxySession_default sid cid vid now = \<lparr>sess_id = sid, sess_client_id = cid,
     sess_server_id = vid, sess_started_at = now, sess_last_activity = now, request_count = 0,
     bytes_in = 0, bytes_out = 0, sess_status = SessionStatus_default, active_requests = [],
     transformations_applied = []\<rparr>"

record TransformationStats =
  ts_applied :: u64
  ts_blocked :: u64
  ts_errors :: u64
  ts_last_applied :: "datetime option"

record TransformationRule =
  tr_id :: string
  tr_name :: string
  tr_description :: string
  tr_enabled :: bool
  tr_scope :: string
  tr_stats :: TransformationStats

definition TransformationRule_default :: TransformationRule where
  "TransformationRule_default = \<lparr>tr_id = [], tr_name = [], tr_description = [], tr_enabled = True,
     tr_scope = [], tr_stats = \<lparr>ts_applied = 0, ts_blocked = 0, ts_errors = 0, ts_last_applied = None\<rparr>\<rparr>"

record RoutingRule =
  rr_id :: string
  rr_name :: string
  rr_description :: string
  rr_match_criteria :: "string \<rightharpoonup> string"
  rr_target_servers :: "ServerId list"
  rr_enabled :: bool

definition RoutingRule_default :: RoutingRule where
  "RoutingRule_default = \<lparr>rr_id = [], rr_name = [], rr_description = [],
     rr_match_criteria = Map.empty, rr_target_servers = [], rr_enabled = True\<rparr>"

record RoutingDecision =
  rd_session_id :: SessionId
  rd_rule_id :: "string option"
  rd_target_server :: ServerId
  rd_reason :: string
  rd_timestamp :: datetime

definition RoutingDecision_default :: "SessionId \<Rightarrow> ServerId \<Rightarrow> datetime \<Rightarrow> RoutingDecision" where
  "RoutingDecision_default sid vid now = \<lparr>rd_session_id = sid, rd_rule_id = None,
     rd_target_server = vid, rd_reason = [], rd_timestamp = now\<rparr>"

datatype GatewayStatus = GatewayStarting | GatewayRunning | GatewayDegraded | GatewayStopped

record GatewayMetrics =
  requests_per_minute :: f64
  bytes_in_per_sec :: f64
  bytes_out_per_sec :: f64
  gm_active_sessions :: nat
  error_rate :: f64
  average_latency_ms :: f64

record GatewayState =
  gs_status :: GatewayStatus
  gs_uptime_seconds :: u64
  gs_metrics :: GatewayMetrics

definition GatewayState_default :: GatewayState where
  "GatewayState_default = \<lparr>gs_status = GatewayStarting, gs_uptime_seconds = 0,
     gs_metrics = \<lparr>requests_per_minute = f64_zero, bytes_in_per_sec = f64_zero,
       bytes_out_per_sec = f64_zero, gm_active_sessions = 0, error_rate = f64_zero,
       average_latency_ms = f64_zero\<rparr>\<rparr>"

record MessageTiming =
  received_at :: datetime
  forwarded_at :: "datetime option"
  responded_at :: "datetime option"

datatype MessageStatus = PendingMessage | InFlight | CompletedMessage | FailedMessage string

record MessageFlow =
  mf_id :: MessageId
  mf_session_id :: SessionId
  client_request :: RawJsonRpcRequest
  server_request :: "RawJsonRpcRequest option"
  server_response :: "RawJsonRpcResponse option"
  client_response :: "RawJsonRpcResponse option"
  mf_transformations :: "AppliedTransformation list"
  mf_timing :: MessageTiming
  mf_status :: MessageStatus

definition MessageFlow_default :: "MessageId \<Rightarrow> SessionId \<Rightarrow> datetime \<Rightarrow> MessageFlow" where
  "MessageFlow_default mid sid now = \<lparr>mf_id = mid, mf_session_id = sid,
     client_request = \<lparr>raw_req_jsonrpc = ''2.0'', raw_req_id = Null, raw_req_method = [],
       raw_req_params = None\<rparr>,
     server_request = None, server_response = None, client_response = None,
     mf_transformations = [],
     mf_timing = \<lparr>received_at = now, forwarded_at = None, responded_at = None\<rparr>,
     mf_status = PendingMessage\<rparr>"

section \<open>Messages between proxy and monitor\<close>

record InterceptorInfo =
  ii_name :: string
  ii_priority :: u32
  ii_enabled :: bool
  ii_total_intercepted :: u64
  ii_total_modified :: u64
  ii_total_blocked :: u64
  ii_avg_processing_time_ms :: f64

record InterceptorManagerInfo =
  im_total_messages_processed :: u64
  im_total_modifications_made :: u64
  im_total_messages_blocked :: u64
  im_avg_processing_time_ms :: f64
  im_messages_by_method :: "string \<rightharpoonup> u64"
  im_interceptors :: "InterceptorInfo list"

type_synonym f32 = u32

record SessionMetrics =
  sm_proxy_id :: ProxyId
  sm_session_id :: SessionId
  sm_total_predictions :: u64
  sm_successful_predictions :: u64
  sm_accuracy :: f32
  sm_optimization_score :: f32
  sm_message_count :: u64

datatype (plugins only: code) IpcMessage =
    ProxyStarted ProxyInfo
  | ProxyStopped ProxyId
  | LogEntryMsg LogEntry
  | StatsUpdate ProxyStats
  | InterceptorStatsMsg ProxyId InterceptorManagerInfo
  | ClientConnected ClientInfo
  | ClientDisconnected ClientId
  | ClientUpdated ClientInfo
  | ClientRequest ClientId RawJsonRpcRequest "SessionId option"
  | ServerConnected IpcServerInfo
  | ServerDisconnected ServerId
  | ServerUpdated IpcServerInfo
  | ServerResponse ServerId RawJsonRpcResponse "SessionId option"
  | ServerHealthUpdate ServerId HealthMetrics
  | SessionStarted ProxySession
  | SessionUpdated ProxySession
  | SessionEnded SessionId
  | TransformationRules "TransformationRule list"
  | TransformationApplied SessionId AppliedTransformation
  | RoutingRules "RoutingRule list"
  | RoutingDecisionMsg RoutingDecision
  | SemanticPrediction string string f64 "string option" "bool option"
  | GatewayStateUpdated GatewayState
  | GatewayMetricsMsg GatewayMetrics
  | MessageFlowUpdate MessageFlow
  | SessionStatsMsg SessionMetrics
  | GetStatus ProxyId
  | GetLogs ProxyId "nat option"
  | ShutdownMsg ProxyId
  | ToggleInterceptor ProxyId string
  | TuiQuery string string
  | TuiMcpRequest string "json option" string
  | TuiQueryResponse string string "string option" "f64 option" "f64 option" "nat option" "f64 option"
  | RoutingModeChange ProxyId string
  | RoutingModeChanged ProxyId string
  | Ping
  | Pong
  | ErrorMsg string "ProxyId option"

end
