(* ===== verification/Ieee.thy ===== *)
theory Ieee
  imports Acdp_Prelude Complex_Main "HOL-Library.Log_Nat"
begin

text \<open>
  IEEE 754 arithmetic as Rust's \<open>f32\<close> and \<open>f64\<close> have it, executable on rationals: a
  float is a NaN, an infinity or a finite value with its sign and magnitude, and an operation
  is the exact rational result rounded to nearest, ties to even, to the format's precision,
  with gradual underflow and overflow to infinity. Widening \<open>f32 as f64\<close> is exact, so it is
  the identity here. Comparisons are those of \<open>PartialOrd\<close>: false on a NaN. The lemmas
  show that rounding is monotone and exact on representable values, from which bounds on
  computed scores follow.
\<close>

section \<open>Powers of two and binary logarithm\<close>

definition pow2 :: "int \<Rightarrow> rat" where
  "pow2 k = (if 0 \<le> k then 2 ^ nat k else 1 / 2 ^ nat (- k))"

definition ilog2 :: "rat \<Rightarrow> int" where
  "ilog2 q = (let (a, b) = quotient_of q; k = bitlen a - bitlen b
     in if pow2 k \<le> q then k else k - 1)"

text \<open>Nearest integer, ties to the even one.\<close>

definition round_even :: "rat \<Rightarrow> int" where
  "round_even x = (let f = \<lfloor>x\<rfloor>; d = x - of_int f
     in if d < 1 / 2 then f else if 1 / 2 < d then f + 1 else if even f then f else f + 1)"

section \<open>Formats and values\<close>

text \<open>Precision in bits, exponent of the smallest unit in the last place, and the power of two
  that overflows.\<close>

record fformat =
  precision :: nat
  emin :: int
  etop :: int

definition binary32 :: fformat where
  "binary32 = \<lparr>precision = 24, emin = - 149, etop = 128\<rparr>"

definition binary64 :: fformat where
  "binary64 = \<lparr>precision = 53, emin = - 1074, etop = 1024\<rparr>"

datatype fp = NaN | Infinite bool | Fin bool rat

definition fp_val :: "fp \<Rightarrow> rat" where
  "fp_val x = (case x of Fin s m \<Rightarrow> if s then - m else m | _ \<Rightarrow> 0)"

definition is_finite :: "fp \<Rightarrow> bool" where
  "is_finite x = (case x of Fin _ _ \<Rightarrow> True | _ \<Rightarrow> False)"

definition fp_neg :: "fp \<Rightarrow> bool" where
  "fp_neg x = (case x of Fin s _ \<Rightarrow> s | Infinite s \<Rightarrow> s | NaN \<Rightarrow> False)"

section \<open>Rounding\<close>

definition ulp_exp :: "fformat \<Rightarrow> rat \<Rightarrow> int" where
  "ulp_exp F q = max (emin F) (ilog2 q - int (precision F) + 1)"

definition mag_round :: "fformat \<Rightarrow> rat \<Rightarrow> rat" where
  "mag_round F q = (if q = 0 then 0
     else let u = pow2 (ulp_exp F q) in of_int (round_even (q / u)) * u)"

definition fp_round :: "fformat \<Rightarrow> bool \<Rightarrow> rat \<Rightarrow> fp" where
  "fp_round F s q = (let r = mag_round F q in if pow2 (etop F) \<le> r then Infinite s else Fin s r)"

text \<open>The rounding of an exact result that is not zero; \<open>zs\<close> is the sign of a zero.\<close>

definition fp_of_rat :: "fformat \<Rightarrow> bool \<Rightarrow> rat \<Rightarrow> fp" where
  "fp_of_rat F zs q = (if q = 0 then Fin zs 0 else fp_round F (q < 0) \<bar>q\<bar>)"

section \<open>Arithmetic and comparison\<close>

fun fp_add :: "fformat \<Rightarrow> fp \<Rightarrow> fp \<Rightarrow> fp" where
  "fp_add F NaN _ = NaN"
| "fp_add F _ NaN = NaN"
| "fp_add F (Infinite s) (Infinite t) = (if s = t then Infinite s else NaN)"
| "fp_add F (Infinite s) (Fin _ _) = Infinite s"
| "fp_add F (Fin _ _) (Infinite t) = Infinite t"
| "fp_add F (Fin s m) (Fin t n) = fp_of_rat F (s \<and> t) (fp_val (Fin s m) + fp_val (Fin t n))"

fun fp_uminus :: "fp \<Rightarrow> fp" where
  "fp_uminus NaN = NaN"
| "fp_uminus (Infinite s) = Infinite (\<not> s)"
| "fp_uminus (Fin s m) = Fin (\<not> s) m"

definition fp_sub :: "fformat \<Rightarrow> fp \<Rightarrow> fp \<Rightarrow> fp" where
  "fp_sub F x y = fp_add F x (fp_uminus y)"

fun fp_mul :: "fformat \<Rightarrow> fp \<Rightarrow> fp \<Rightarrow> fp" where
  "fp_mul F NaN _ = NaN"
| "fp_mul F _ NaN = NaN"
| "fp_mul F (Infinite s) (Infinite t) = Infinite (s \<noteq> t)"
| "fp_mul F (Infinite s) (Fin t n) = (if n = 0 then NaN else Infinite (s \<noteq> t))"
| "fp_mul F (Fin s m) (Infinite t) = (if m = 0 then NaN else Infinite (s \<noteq> t))"
| "fp_mul F (Fin s m) (Fin t n) = (if m * n = 0 then Fin (s \<noteq> t) 0 else fp_round F (s \<noteq> t) (m * n))"

fun fp_div :: "fformat \<Rightarrow> fp \<Rightarrow> fp \<Rightarrow> fp" where
  "fp_div F NaN _ = NaN"
| "fp_div F _ NaN = NaN"
| "fp_div F (Infinite s) (Infinite t) = NaN"
| "fp_div F (Infinite s) (Fin t _) = Infinite (s \<noteq> t)"
| "fp_div F (Fin s _) (Infinite t) = Fin (s \<noteq> t) 0"
| "fp_div F (Fin s m) (Fin t n) =
     (if n = 0 then (if m = 0 then NaN else Infinite (s \<noteq> t))
      else if m = 0 then Fin (s \<noteq> t) 0 else fp_round F (s \<noteq> t) (m / n))"

fun fp_le :: "fp \<Rightarrow> fp \<Rightarrow> bool" where
  "fp_le NaN _ = False"
| "fp_le _ NaN = False"
| "fp_le (Infinite s) y = (s \<or> y = Infinite False)"
| "fp_le x (Infinite t) = (\<not> t)"
| "fp_le x y = (fp_val x \<le> fp_val y)"

definition fp_lt :: "fp \<Rightarrow> fp \<Rightarrow> bool" where
  "fp_lt x y \<longleftrightarrow> fp_le x y \<and> \<not> fp_le y x"

text \<open>\<open>f64::min\<close> and \<open>f64::clamp\<close> (the bounds are not NaN).\<close>

definition fp_min :: "fp \<Rightarrow> fp \<Rightarrow> fp" where
  "fp_min x y = (if x = NaN then y else if y = NaN then x else if fp_le x y then x else y)"

definition fp_clamp :: "fp \<Rightarrow> fp \<Rightarrow> fp \<Rightarrow> fp" where
  "fp_clamp lo hi x = (let x = (if fp_lt x lo then lo else x) in if fp_lt hi x then hi else x)"

definition fp_of_nat :: "fformat \<Rightarrow> nat \<Rightarrow> fp" where
  "fp_of_nat F n = fp_of_rat F False (of_nat n)"

text \<open>\<open>Iterator::sum\<close> starts from \<open>-0.0\<close>, the neutral element of addition.\<close>

definition fp_sum :: "fformat \<Rightarrow> fp list \<Rightarrow> fp" where
  "fp_sum F xs = fold (\<lambda>x acc. fp_add F acc x) xs (Fin True 0)"

section \<open>Bit patterns and decimal text\<close>

definition fp_bits64 :: "fp \<Rightarrow> u64" where
  "fp_bits64 x = (case x of NaN \<Rightarrow> 0x7ff8000000000000
     | Infinite s \<Rightarrow> (if s then 0xfff0000000000000 else 0x7ff0000000000000)
     | Fin s m \<Rightarrow> (if s then 0x8000000000000000 else 0) +
         (if m = 0 then 0
          else if ilog2 m < - 1022 then word_of_int \<lfloor>m * pow2 1074\<rfloor>
          else word_of_int (2 ^ 52 * (ilog2 m + 1023) + \<lfloor>(m / pow2 (ilog2 m) - 1) * 2 ^ 52\<rfloor>)))"

definition fp_bits32 :: "fp \<Rightarrow> u32" where
  "fp_bits32 x = (case x of NaN \<Rightarrow> 0x7fc00000
     | Infinite s \<Rightarrow> (if s then 0xff800000 else 0x7f800000)
     | Fin s m \<Rightarrow> (if s then 0x80000000 else 0) +
         (if m = 0 then 0
          else if ilog2 m < - 126 then word_of_int \<lfloor>m * pow2 149\<rfloor>
          else word_of_int (2 ^ 23 * (ilog2 m + 127) + \<lfloor>(m / pow2 (ilog2 m) - 1) * 2 ^ 23\<rfloor>)))"

definition fp_of_bits64 :: "u64 \<Rightarrow> fp" where
  "fp_of_bits64 w = (let s = bit w 63; e = uint (take_bit 11 (drop_bit 52 w));
       f = uint (take_bit 52 w)
     in if e = 2047 then (if f = 0 then Infinite s else NaN)
        else if e = 0 then Fin s (of_int f * pow2 (- 1074))
        else Fin s (of_int (2 ^ 52 + f) * pow2 (e - 1075)))"

text \<open>Fixed-point \<open>Display\<close> with \<open>d > 0\<close> digits after the point.\<close>

definition pad_zeros :: "nat \<Rightarrow> string \<Rightarrow> string" where
  "pad_zeros d s = replicate (d - length s) (CHR 0x30) @ s"

definition show_fixed :: "nat \<Rightarrow> fp \<Rightarrow> string" where
  "show_fixed d x = (case x of NaN \<Rightarrow> ''NaN''
     | Infinite s \<Rightarrow> (if s then ''-inf'' else ''inf'')
     | Fin s m \<Rightarrow> (let k = nat (round_even (m * 10 ^ d))
         in (if s then ''-'' else '''') @ show_nat (k div 10 ^ d) @ ''.''
            @ pad_zeros d (show_nat (k mod 10 ^ d))))"

section \<open>Properties of powers and logarithm\<close>

lemma pow2_pos [simp]: "0 < pow2 k"
  by (simp add: pow2_def)

lemma pow2_nonzero [simp]: "pow2 k \<noteq> 0" "\<not> pow2 k < 0" "0 \<le> pow2 k"
  using pow2_pos [of k] by linarith+

lemma pow2_Suc: "pow2 (k + 1) = 2 * pow2 k"
proof (cases "0 \<le> k")
  case True
  then show ?thesis by (simp add: pow2_def nat_add_distrib)
next
  case False
  then have "nat (- k) = Suc (nat (- (k + 1)))" by linarith
  then show ?thesis using False by (simp add: pow2_def field_simps)
qed

lemma pow2_add_nat: "pow2 (k + int n) = pow2 k * 2 ^ n"
proof (induction n)
  case (Suc n)
  have "pow2 (k + int (Suc n)) = pow2 ((k + int n) + 1)" by (simp add: algebra_simps)
  also have "\<dots> = pow2 k * 2 ^ Suc n" unfolding pow2_Suc Suc.IH by simp
  finally show ?case .
qed simp

lemma pow2_add: "pow2 (j + k) = pow2 j * pow2 k"
proof (cases "0 \<le> k")
  case True
  then show ?thesis using pow2_add_nat [of j "nat k"] by (simp add: pow2_def [of k])
next
  case False
  then show ?thesis using pow2_add_nat [of "j + k" "nat (- k)"] by (simp add: pow2_def [of k])
qed

lemma pow2_mono: "j \<le> k \<Longrightarrow> pow2 j \<le> pow2 k"
  using pow2_add_nat [of j "nat (k - j)"] by (simp add: mult_le_cancel_left1)

lemma pow2_less_cancel: "pow2 j < pow2 k \<Longrightarrow> j < k"
  using pow2_mono [of k j] by (meson not_le)

lemma pow2_diff: "pow2 (j - k) = pow2 j / pow2 k"
  using pow2_add [of "j - k" k] by (simp add: field_simps)

lemma bitlen_pow2:
  assumes "0 < (a :: int)"
  shows "pow2 (bitlen a - 1) \<le> of_int a \<and> (of_int a :: rat) < pow2 (bitlen a)"
proof -
  have b: "2 ^ nat (bitlen a - 1) \<le> a \<and> a < 2 ^ nat (bitlen a)" and p: "0 < bitlen a"
    using bitlen_bounds [OF assms] bitlen_nonneg [of a] assms
    by (auto simp: bitlen_alt_def)
  have "(2 ^ nat (bitlen a - 1) :: rat) \<le> of_int a"
    using b by (metis of_int_le_iff of_int_numeral of_int_power)
  moreover have "(of_int a :: rat) < 2 ^ nat (bitlen a)"
    using b by (metis of_int_less_iff of_int_numeral of_int_power)
  ultimately show ?thesis using p by (simp add: pow2_def)
qed

lemma ilog2_bounds:
  assumes "0 < q"
  shows "pow2 (ilog2 q) \<le> q" "q < pow2 (ilog2 q + 1)"
proof -
  obtain a b where ab: "quotient_of q = (a, b)" by force
  have q: "q = of_int a / of_int b" and b: "0 < b"
    using quotient_of_div [OF ab] quotient_of_denom_pos [OF ab] by auto
  then have a: "0 < a" using assms by (simp add: zero_less_divide_iff)
  let ?k = "bitlen a - bitlen b"
  have lo: "pow2 (?k - 1) \<le> q"
  proof -
    have "pow2 (?k - 1) = pow2 (bitlen a - 1) / pow2 (bitlen b)"
      by (simp add: pow2_diff [symmetric] algebra_simps)
    also have "\<dots> \<le> of_int a / of_int b"
      using bitlen_pow2 [OF a] bitlen_pow2 [OF b] b a by (intro frac_le) auto
    finally show ?thesis by (simp add: q)
  qed
  have hi: "q < pow2 (?k + 1)"
  proof -
    have "of_int a / of_int b < pow2 (bitlen a) / pow2 (bitlen b - 1)"
      using bitlen_pow2 [OF a] bitlen_pow2 [OF b] b a by (intro frac_less) auto
    also have "\<dots> = pow2 (?k + 1)" by (simp add: pow2_diff [symmetric] algebra_simps)
    finally show ?thesis by (simp add: q)
  qed
  show "pow2 (ilog2 q) \<le> q" "q < pow2 (ilog2 q + 1)"
    using lo hi by (auto simp: ilog2_def ab not_le Let_def)
qed

lemma ilog2_unique: "pow2 k \<le> q \<Longrightarrow> q < pow2 (k + 1) \<Longrightarrow> ilog2 q = k"
proof -
  assume k: "pow2 k \<le> q" "q < pow2 (k + 1)"
  then have "0 < q" using pow2_pos [of k] by linarith
  note b = ilog2_bounds [OF this]
  have "k < ilog2 q + 1" "ilog2 q < k + 1"
    using pow2_less_cancel [OF le_less_trans [OF k(1) b(2)]]
      pow2_less_cancel [OF le_less_trans [OF b(1) k(2)]] by simp_all
  then show "ilog2 q = k" by simp
qed

lemma ilog2_mono: "0 < x \<Longrightarrow> x \<le> y \<Longrightarrow> ilog2 x \<le> ilog2 y"
  using ilog2_bounds [of x] ilog2_bounds [of y] pow2_less_cancel [of "ilog2 x" "ilog2 y + 1"]
  by linarith

section \<open>Properties of rounding\<close>

lemma round_even_of_int [simp]: "round_even (of_int n) = n"
  by (simp add: round_even_def)

lemma round_even_floor: "\<lfloor>x\<rfloor> \<le> round_even x" "round_even x \<le> \<lfloor>x\<rfloor> + 1"
  by (auto simp: round_even_def Let_def)

lemma round_even_mono: "x \<le> y \<Longrightarrow> round_even x \<le> round_even y"
proof -
  assume le: "x \<le> y"
  show ?thesis
  proof (cases "\<lfloor>x\<rfloor> = \<lfloor>y\<rfloor>")
    case True
    then show ?thesis using le by (auto simp: round_even_def Let_def)
  next
    case False
    then have "\<lfloor>x\<rfloor> + 1 \<le> \<lfloor>y\<rfloor>" using floor_mono [OF le] by linarith
    then show ?thesis using round_even_floor [of x] round_even_floor [of y] by linarith
  qed
qed

lemma round_even_ge: "of_int n \<le> x \<Longrightarrow> n \<le> round_even x"
  using round_even_mono [of "of_int n" x] by simp

lemma round_even_le: "x \<le> of_int n \<Longrightarrow> round_even x \<le> n"
  using round_even_mono [of x "of_int n"] by simp

lemma mag_round_0 [simp]: "mag_round F 0 = 0"
  by (simp add: mag_round_def)

lemma mag_round_nonneg: "0 \<le> q \<Longrightarrow> 0 \<le> mag_round F q"
  using round_even_ge [of 0 "q / pow2 (ulp_exp F q)"]
  by (auto simp: mag_round_def Let_def intro!: mult_nonneg_nonneg)

text \<open>A value with at most \<open>precision\<close> significant bits is its own rounding.\<close>

lemma mag_round_exact:
  assumes e: "emin F \<le> e" and n: "0 \<le> n" "n \<le> 2 ^ precision F" and p: "0 < precision F"
  shows "mag_round F (of_int n * pow2 e) = of_int n * pow2 e"
proof (cases "n = 0")
  case False
  let ?q = "of_int n * pow2 e" and ?u = "ulp_exp F (of_int n * pow2 e)"
  have q0: "0 < ?q" using n False by simp
  have "\<exists>k. ?q / pow2 ?u = of_int k"
  proof (cases "?u \<le> e")
    case True
    have "?q / pow2 ?u = of_int n * pow2 (e - ?u)" by (simp add: pow2_diff)
    also have "\<dots> = of_int (n * 2 ^ nat (e - ?u))" using True by (simp add: pow2_def)
    finally show ?thesis by blast
  next
    case False
    then have l: "e + int (precision F) \<le> ilog2 ?q" using e by (simp add: ulp_exp_def max_def split: if_splits)
    have "pow2 (e + int (precision F)) \<le> ?q"
      using pow2_mono [OF l] ilog2_bounds(1) [OF q0] by linarith
    moreover have "(of_int n :: rat) \<le> 2 ^ precision F"
      using n by (metis of_int_le_iff of_int_numeral of_int_power)
    ultimately have eq: "?q = pow2 (e + int (precision F))"
      by (simp add: pow2_add_nat mult.commute antisym)
    then have "ilog2 ?q = e + int (precision F)"
      by (intro ilog2_unique) (simp_all add: pow2_Suc)
    then have "?u = e + 1" using e by (simp add: ulp_exp_def)
    then have "?q / pow2 ?u = pow2 (int (precision F) - 1)"
      unfolding eq by (simp add: pow2_diff [symmetric])
    then have "?q / pow2 ?u = of_int (2 ^ (precision F - 1))"
      using p by (simp add: pow2_def nat_diff_distrib)
    then show ?thesis by blast
  qed
  then obtain k where k: "?q / pow2 ?u = of_int k" ..
  have "?q \<noteq> 0" using q0 by linarith
  then have "mag_round F ?q = of_int k * pow2 ?u" unfolding mag_round_def Let_def k by simp
  also have "\<dots> = ?q" using k by (simp add: field_simps)
  finally show ?thesis .
qed simp

lemma mag_round_upper:
  assumes "0 < x" "0 < precision F"
  shows "mag_round F x \<le> pow2 (max (emin F + int (precision F) - 1) (ilog2 x) + 1)"
    (is "_ \<le> pow2 (?m + 1)")
proof -
  let ?u = "ulp_exp F x"
  have u: "?u + int (precision F) = ?m + 1" by (simp add: ulp_exp_def)
  have "x \<le> pow2 (?m + 1)"
    using ilog2_bounds(2) [OF assms(1)] pow2_mono [of "ilog2 x + 1" "?m + 1"] by simp
  then have "x \<le> pow2 ?u * 2 ^ precision F" unfolding u [symmetric] pow2_add_nat .
  then have "x / pow2 ?u \<le> of_int (2 ^ precision F)" by (simp add: field_simps)
  then have "(of_int (round_even (x / pow2 ?u)) :: rat) \<le> of_int (2 ^ precision F)"
    using round_even_le by (simp only: of_int_le_iff)
  then have "mag_round F x \<le> 2 ^ precision F * pow2 ?u"
    using assms by (simp add: mag_round_def Let_def)
  then show ?thesis unfolding u [symmetric] pow2_add_nat by (simp add: mult.commute)
qed

lemma mag_round_lower:
  assumes "0 < y" "0 < precision F" "ilog2 y \<ge> emin F + int (precision F) - 1"
  shows "pow2 (ilog2 y) \<le> mag_round F y"
proof -
  let ?u = "ulp_exp F y"
  have u: "?u + int (precision F - 1) = ilog2 y" using assms by (simp add: ulp_exp_def of_nat_diff)
  have "of_int (2 ^ (precision F - 1)) \<le> y / pow2 ?u"
    using ilog2_bounds(1) [OF assms(1)] unfolding u [symmetric] pow2_add_nat
    by (simp add: field_simps)
  then have "(of_int (2 ^ (precision F - 1)) :: rat) \<le> of_int (round_even (y / pow2 ?u))"
    using round_even_ge by (simp only: of_int_le_iff)
  then have "2 ^ (precision F - 1) * pow2 ?u \<le> mag_round F y"
    using assms by (simp add: mag_round_def Let_def)
  then show ?thesis by (metis u pow2_add_nat mult.commute)
qed

lemma mag_round_mono:
  assumes "0 \<le> x" "x \<le> y" and p: "0 < precision F"
  shows "mag_round F x \<le> mag_round F y"
proof (cases "x = 0")
  case True
  then show ?thesis using assms mag_round_nonneg [of y F] by simp
next
  case False
  then have x: "0 < x" and y: "0 < y" using assms by auto
  have l: "ilog2 x \<le> ilog2 y" by (rule ilog2_mono [OF x assms(2)])
  show ?thesis
  proof (cases "ulp_exp F x = ulp_exp F y")
    case True
    have "round_even (x / pow2 (ulp_exp F y)) \<le> round_even (y / pow2 (ulp_exp F y))"
      using assms(2) by (intro round_even_mono divide_right_mono) (simp_all add: less_imp_le)
    then show ?thesis using x y by (simp add: mag_round_def Let_def True)
  next
    case False
    then have le: "max (emin F + int (precision F) - 1) (ilog2 x) + 1 \<le> ilog2 y"
      and ge: "emin F + int (precision F) - 1 \<le> ilog2 y"
      using l by (auto simp: ulp_exp_def max_def split: if_splits)
    show ?thesis
      using mag_round_upper [OF x p] pow2_mono [OF le] mag_round_lower [OF y p ge] by linarith
  qed
qed

section \<open>Intervals\<close>

text \<open>\<open>x\<close> is finite with a value from 0 to \<open>c\<close>, and \<open>c\<close> is a number of the
  format.\<close>

definition fp_upto :: "rat \<Rightarrow> fp \<Rightarrow> bool" where
  "fp_upto c x \<longleftrightarrow> (\<exists>s m. x = Fin s m \<and> 0 \<le> m \<and> m \<le> c \<and> (s \<longrightarrow> m = 0))"

definition exact :: "fformat \<Rightarrow> rat \<Rightarrow> bool" where
  "exact F c \<longleftrightarrow> 0 \<le> c \<and> c < pow2 (etop F) \<and> mag_round F c = c \<and> 0 < precision F"

lemma fp_upto_zero [simp]: "0 \<le> c \<Longrightarrow> fp_upto c (Fin s 0)"
  by (simp add: fp_upto_def)

lemma fp_upto_val: "fp_upto c x \<Longrightarrow> is_finite x \<and> 0 \<le> fp_val x \<and> fp_val x \<le> c"
  by (auto simp: fp_upto_def is_finite_def fp_val_def)

lemma fp_upto_mono: "fp_upto c x \<Longrightarrow> c \<le> d \<Longrightarrow> fp_upto d x"
  by (auto simp: fp_upto_def)

lemma fp_round_upto:
  assumes "0 \<le> q" "q \<le> c" "exact F c"
  shows "fp_upto c (fp_round F False q)"
  using assms mag_round_mono [of q c F] mag_round_nonneg [of q F]
  by (auto simp: fp_upto_def fp_round_def exact_def Let_def)

lemma fp_of_rat_upto:
  assumes "0 \<le> q" "q \<le> c" "exact F c"
  shows "fp_upto c (fp_of_rat F zs q)"
  using assms fp_round_upto [OF assms] by (auto simp: fp_of_rat_def exact_def)

lemma fp_add_upto:
  assumes x: "fp_upto a x" and y: "fp_upto b y" and c: "a + b \<le> c" "exact F c"
  shows "fp_upto c (fp_add F x y)"
proof -
  obtain s m t n where "x = Fin s m" "y = Fin t n" "0 \<le> m" "m \<le> a" "s \<longrightarrow> m = 0"
    "0 \<le> n" "n \<le> b" "t \<longrightarrow> n = 0"
    using x y unfolding fp_upto_def by blast
  then show ?thesis using c by (auto simp: fp_val_def intro!: fp_of_rat_upto)
qed

lemma fp_mul_upto:
  assumes x: "fp_upto 1 x" and y: "fp_upto c y" and c: "exact F c"
  shows "fp_upto c (fp_mul F x y)"
proof -
  obtain s m t n where xy: "x = Fin s m" "y = Fin t n" "0 \<le> m" "m \<le> 1" "s \<longrightarrow> m = 0"
    "0 \<le> n" "n \<le> c" "t \<longrightarrow> n = 0"
    using x y unfolding fp_upto_def by blast
  have "m * n \<le> c" using xy mult_mono [of m 1 n c] by simp
  then have "0 \<le> m * n \<and> m * n \<le> c" using xy by simp
  then show ?thesis using xy c fp_round_upto [of "m * n" c F] by (auto simp: exact_def)
qed

lemma fp_div_upto:
  assumes x: "fp_upto n x" and y: "y = Fin False n" "0 < n" and c: "exact F 1"
  shows "fp_upto 1 (fp_div F x y)"
proof -
  obtain s m where x: "x = Fin s m" "0 \<le> m" "m \<le> n" "s \<longrightarrow> m = 0"
    using x unfolding fp_upto_def by blast
  then show ?thesis using y c fp_round_upto [of "m / n" 1 F] by (auto simp: exact_def)
qed

lemma fp_of_nat_exact: "exact F (of_nat n) \<Longrightarrow> fp_of_nat F n = Fin False (of_nat n)"
  by (auto simp: fp_of_nat_def fp_of_rat_def fp_round_def exact_def)

text \<open>Small integers are numbers of both formats.\<close>

lemma exact32_nat: "n \<le> 2 ^ 24 \<Longrightarrow> exact binary32 (of_nat n)"
proof -
  assume n: "n \<le> 2 ^ 24"
  then have "(of_nat n :: rat) \<le> of_nat (2 ^ 24)" by (simp only: of_nat_le_iff)
  moreover have "mag_round binary32 (of_int (int n) * pow2 0) = of_int (int n) * pow2 0"
    using n by (intro mag_round_exact) (simp_all add: binary32_def)
  ultimately show ?thesis by (simp add: exact_def binary32_def pow2_def)
qed

lemma exact64_nat: "n \<le> 2 ^ 53 \<Longrightarrow> exact binary64 (of_nat n)"
proof -
  assume n: "n \<le> 2 ^ 53"
  then have "(of_nat n :: rat) \<le> of_nat (2 ^ 53)" by (simp only: of_nat_le_iff)
  moreover have "mag_round binary64 (of_int (int n) * pow2 0) = of_int (int n) * pow2 0"
    using n by (intro mag_round_exact) (simp_all add: binary64_def)
  ultimately show ?thesis by (simp add: exact_def binary64_def pow2_def)
qed

text \<open>A sum of \<open>n\<close> values up to 1 is at most \<open>n\<close>, whatever the roundings.\<close>

lemma fp_sum_upto_acc:
  assumes "\<And>x. x \<in> set xs \<Longrightarrow> fp_upto 1 x" "fp_upto (of_nat k) acc"
    "\<And>n. n \<le> k + length xs \<Longrightarrow> exact F (of_nat n)"
  shows "fp_upto (of_nat (k + length xs)) (fold (\<lambda>x acc. fp_add F acc x) xs acc)"
  using assms
proof (induction xs arbitrary: k acc)
  case (Cons x xs)
  have "exact F (of_nat (Suc k))" by (rule Cons.prems(3)) simp
  then have "fp_upto (of_nat (Suc k)) (fp_add F acc x)"
    using fp_add_upto [OF Cons.prems(2), of 1 x "of_nat (Suc k)" F] Cons.prems(1) by simp
  then show ?case using Cons.IH [of "Suc k" "fp_add F acc x"] Cons.prems by simp
qed simp

lemma fp_sum_upto:
  assumes "\<And>x. x \<in> set xs \<Longrightarrow> fp_upto 1 x" "\<And>n. n \<le> length xs \<Longrightarrow> exact F (of_nat n)"
  shows "fp_upto (of_nat (length xs)) (fp_sum F xs)"
  using fp_sum_upto_acc [of xs 0 "Fin True 0" F] assms by (simp add: fp_sum_def)

section \<open>Order\<close>

lemma fp_le_total: "x \<noteq> NaN \<Longrightarrow> y \<noteq> NaN \<Longrightarrow> fp_le x y \<or> fp_le y x"
  by (cases x; cases y) auto

lemma fp_le_trans: "fp_le x y \<Longrightarrow> fp_le y z \<Longrightarrow> fp_le x z"
  by (cases x; cases y; cases z) auto

lemma fp_le_not_NaN: "fp_le x y \<Longrightarrow> x \<noteq> NaN \<and> y \<noteq> NaN"
  by (cases x; cases y) auto

lemma fp_not_lt: "x \<noteq> NaN \<Longrightarrow> y \<noteq> NaN \<Longrightarrow> \<not> fp_lt x y \<longleftrightarrow> fp_le y x"
  using fp_le_total unfolding fp_lt_def by blast

lemma fp_lt_imp_le: "fp_lt x y \<Longrightarrow> fp_le x y"
  by (simp add: fp_lt_def)

end
