(* ===== verification/Llm_Database.thy ===== *)
theory Llm_Database
  imports Ipc_Types Ieee
begin

text \<open>
  Errors, routing modes and the prediction database of the routing component
  (\<open>acdp-llm/src/error.rs\<close>, \<open>routing_modes.rs\<close>, \<open>database/*.rs\<close>, \<open>metrics.rs\<close>). A
  table is the list of its rows in insertion order. Every statement takes what the driver
  answers as an argument: \<open>Some e\<close> when it fails with the text \<open>e\<close>, \<open>None\<close> when it
  succeeds. Fresh identifiers and clock readings are arguments. \<open>ORDER BY\<close> is a stable sort.
  The average of a column is the parameter \<open>avg\<close>, defined on a nonempty column only, as in
  SQL.
\<close>

section \<open>Errors\<close>

datatype LlmError =
    LlmBindingError string
  | LlmRuntimeError string
  | LlmSerializationError string
  | LlmConfigError string
  | LlmPredictionError string
  | LlmDatabaseError string

fun llm_error_display :: "LlmError \<Rightarrow> string" where
  "llm_error_display (LlmBindingError s) = ''LiteRT-LM binding error: '' @ s"
| "llm_error_display (LlmRuntimeError s) = ''LiteRT-LM runtime error: '' @ s"
| "llm_error_display (LlmSerializationError s) = ''Serialization error: '' @ s"
| "llm_error_display (LlmConfigError s) = ''Invalid configuration: '' @ s"
| "llm_error_display (LlmPredictionError s) = ''Prediction error: '' @ s"
| "llm_error_display (LlmDatabaseError s) = ''Database error: '' @ s"

section \<open>Routing modes\<close>

datatype RoutingMode = BypassMode | SemanticMode | HybridMode

definition mode_display_name :: "RoutingMode \<Rightarrow> string" where
  "mode_display_name m = (case m of BypassMode \<Rightarrow> ''Bypass'' | SemanticMode \<Rightarrow> ''Semantic''
     | HybridMode \<Rightarrow> ''Hybrid'')"

definition mode_description :: "RoutingMode \<Rightarrow> string" where
  "mode_description m = (case m of
     BypassMode \<Rightarrow> ''Direct pass-through without LLM processing''
   | SemanticMode \<Rightarrow> ''LLM predicts optimal routing for each request''
   | HybridMode \<Rightarrow> ''Database rules with LLM fallback'')"

definition mode_as_str :: "RoutingMode \<Rightarrow> string" where
  "mode_as_str m = (case m of BypassMode \<Rightarrow> ''bypass'' | SemanticMode \<Rightarrow> ''semantic''
     | HybridMode \<Rightarrow> ''hybrid'')"

definition RoutingMode_default :: RoutingMode where
  "RoutingMode_default = HybridMode"

definition ascii_lower :: "char \<Rightarrow> char" where
  "ascii_lower c = (if 65 \<le> (of_char c :: nat) \<and> (of_char c :: nat) \<le> 90
     then char_of ((of_char c :: nat) + 32) else c)"

definition mode_from_str :: "string \<Rightarrow> string + RoutingMode" where
  "mode_from_str s = (let l = map ascii_lower s in
     if l = ''bypass'' then Inr BypassMode
     else if l = ''semantic'' then Inr SemanticMode
     else if l = ''hybrid'' then Inr HybridMode
     else Inl (''Unsupported routing_mode '' @ [CHR 0x27] @ l @ [CHR 0x27]))"

record RoutingConfig =
  rc_mode :: RoutingMode
  rc_confidence_threshold :: fp
  enable_learning :: bool
  fallback_to_bypass :: bool

definition RoutingConfig_default :: RoutingConfig where
  "RoutingConfig_default = \<lparr>rc_mode = RoutingMode_default,
     rc_confidence_threshold = fp_round binary32 False (8 / 10), enable_learning = True,
     fallback_to_bypass = True\<rparr>"

section \<open>Statements\<close>

type_synonym sql_outcome = "string option"

definition sql_insert :: "sql_outcome \<Rightarrow> 'a \<Rightarrow> 'r \<Rightarrow> 'r list \<Rightarrow> (LlmError + 'a) \<times> 'r list" where
  "sql_insert out answer row tbl = (case out of
     Some e \<Rightarrow> (Inl (LlmDatabaseError e), tbl) | None \<Rightarrow> (Inr answer, tbl @ [row]))"

definition sql_select :: "sql_outcome \<Rightarrow> 'a \<Rightarrow> LlmError + 'a" where
  "sql_select out answer = (case out of Some e \<Rightarrow> Inl (LlmDatabaseError e) | None \<Rightarrow> Inr answer)"

definition sql_limit :: "int \<Rightarrow> 'r list \<Rightarrow> 'r list" where
  "sql_limit n rows = (if n < 0 then rows else take (nat n) rows)"

text \<open>Newest first.\<close>

definition order_desc :: "('r \<Rightarrow> int) \<Rightarrow> 'r list \<Rightarrow> 'r list" where
  "order_desc key rows = sort_key (\<lambda>r. - key r) rows"

section \<open>Predictions\<close>

record PredictionRecord =
  pr_id :: string
  context_hash :: string
  predicted_tool :: string
  pr_actual_tool :: "string option"
  pr_confidence :: fp
  prediction_data :: json
  pr_timestamp :: datetime
  correct :: "bool option"

type_synonym predictions_table = "PredictionRecord list"

definition db_record_prediction ::
  "string \<Rightarrow> datetime \<Rightarrow> sql_outcome \<Rightarrow> string \<Rightarrow> string \<Rightarrow> fp \<Rightarrow> json \<Rightarrow> predictions_table
     \<Rightarrow> (LlmError + string) \<times> predictions_table" where
  "db_record_prediction uid now out hash tool conf data tbl =
     sql_insert out uid
       \<lparr>pr_id = uid, context_hash = hash, predicted_tool = tool, pr_actual_tool = None,
        pr_confidence = conf, prediction_data = data, pr_timestamp = now, correct = None\<rparr> tbl"

definition get_prediction_tool ::
  "sql_outcome \<Rightarrow> string \<Rightarrow> predictions_table \<Rightarrow> LlmError + string option" where
  "get_prediction_tool out i tbl =
     sql_select out (map_option predicted_tool (find (\<lambda>r. pr_id r = i) tbl))"

definition db_update_prediction_result ::
  "sql_outcome \<Rightarrow> sql_outcome \<Rightarrow> string \<Rightarrow> string \<Rightarrow> predictions_table
     \<Rightarrow> (LlmError + unit) \<times> predictions_table" where
  "db_update_prediction_result out1 out2 i actual tbl =
     (case get_prediction_tool out1 i tbl of
        Inl e \<Rightarrow> (Inl e, tbl)
      | Inr tool \<Rightarrow>
         (let ok = (case tool of None \<Rightarrow> False | Some p \<Rightarrow> p = actual) in
          case out2 of
            Some e \<Rightarrow> (Inl (LlmDatabaseError e), tbl)
          | None \<Rightarrow> (Inr (), map (\<lambda>r. if pr_id r = i
                then r\<lparr>pr_actual_tool := Some actual, correct := Some ok\<rparr> else r) tbl)))"

record AccuracyMetrics =
  am_accuracy :: fp
  am_total_predictions :: int
  am_correct_predictions :: int
  am_avg_confidence :: fp
  am_time_window_hours :: int

text \<open>\<open>SUM\<close> over no rows is \<open>NULL\<close>, which the driver refuses to read as an \<open>i64\<close> with
  the error text \<open>null_error\<close>.\<close>

definition finished_since :: "datetime \<Rightarrow> predictions_table \<Rightarrow> predictions_table" where
  "finished_since since tbl = filter (\<lambda>r. since < pr_timestamp r \<and> pr_actual_tool r \<noteq> None) tbl"

definition sum_correct :: "predictions_table \<Rightarrow> nat option" where
  "sum_correct rows = (if rows = [] then None
     else Some (length (filter (\<lambda>r. correct r = Some True) rows)))"

definition get_accuracy_metrics ::
  "(fp list \<Rightarrow> fp) \<Rightarrow> string \<Rightarrow> datetime \<Rightarrow> sql_outcome \<Rightarrow> int \<Rightarrow> predictions_table
     \<Rightarrow> LlmError + AccuracyMetrics" where
  "get_accuracy_metrics avg null_error since out hours tbl =
     (let rows = finished_since since tbl in
      case out of
        Some e \<Rightarrow> Inl (LlmDatabaseError e)
      | None \<Rightarrow>
         (case sum_correct rows of
            None \<Rightarrow> Inl (LlmDatabaseError null_error)
          | Some k \<Rightarrow>
             Inr \<lparr>am_accuracy = (if 0 < length rows
                    then fp_div binary64 (fp_of_nat binary64 k) (fp_of_nat binary64 (length rows))
                    else Fin False 0),
                  am_total_predictions = int (length rows), am_correct_predictions = int k,
                  am_avg_confidence =
                    (if rows = [] then Fin False 0 else avg (map pr_confidence rows)),
                  am_time_window_hours = hours\<rparr>))"

definition get_predictions_by_tool ::
  "sql_outcome \<Rightarrow> string \<Rightarrow> int \<Rightarrow> predictions_table \<Rightarrow> LlmError + predictions_table" where
  "get_predictions_by_tool out tool limit tbl =
     sql_select out (sql_limit limit (order_desc pr_timestamp
       (filter (\<lambda>r. predicted_tool r = tool) tbl)))"

definition get_recent_predictions ::
  "sql_outcome \<Rightarrow> int \<Rightarrow> predictions_table \<Rightarrow> LlmError + predictions_table" where
  "get_recent_predictions out limit tbl =
     sql_select out (sql_limit limit (order_desc pr_timestamp tbl))"

section \<open>Routing rules\<close>

record DbRoutingRule =
  rule_id :: string
  rule_pattern :: string
  target_tool :: string
  target_transport :: string
  rule_confidence :: fp
  rule_created_at :: datetime
  rule_updated_at :: datetime
  rule_enabled :: bool

type_synonym rules_table = "DbRoutingRule list"

definition create_rule ::
  "string \<Rightarrow> datetime \<Rightarrow> sql_outcome \<Rightarrow> string \<Rightarrow> string \<Rightarrow> string \<Rightarrow> fp \<Rightarrow> rules_table
     \<Rightarrow> (LlmError + string) \<times> rules_table" where
  "create_rule uid now out pat tool transport conf tbl =
     sql_insert out uid
       \<lparr>rule_id = uid, rule_pattern = pat, target_tool = tool, target_transport = transport,
        rule_confidence = conf, rule_created_at = now, rule_updated_at = now,
        rule_enabled = True\<rparr> tbl"

definition get_rule_by_pattern ::
  "sql_outcome \<Rightarrow> string \<Rightarrow> rules_table \<Rightarrow> LlmError + DbRoutingRule option" where
  "get_rule_by_pattern out pat tbl =
     sql_select out (find (\<lambda>r. rule_pattern r = pat \<and> rule_enabled r) tbl)"

text \<open>\<open>ORDER BY confidence DESC\<close>, ties in insertion order.\<close>

fun insert_by_confidence :: "DbRoutingRule \<Rightarrow> rules_table \<Rightarrow> rules_table" where
  "insert_by_confidence r [] = [r]"
| "insert_by_confidence r (x # xs) =
     (if fp_lt (rule_confidence r) (rule_confidence x) then x # insert_by_confidence r xs
      else r # x # xs)"

definition order_by_confidence :: "rules_table \<Rightarrow> rules_table" where
  "order_by_confidence tbl = foldr insert_by_confidence tbl []"

definition find_matching_rule ::
  "sql_outcome \<Rightarrow> string \<Rightarrow> rules_table \<Rightarrow> LlmError + DbRoutingRule option" where
  "find_matching_rule out content tbl =
     and_then (sql_select out (order_by_confidence (filter rule_enabled tbl)))
       (\<lambda>rules. Inr (find (\<lambda>r. str_contains content (rule_pattern r)) rules))"

definition update_rule_confidence ::
  "datetime \<Rightarrow> sql_outcome \<Rightarrow> string \<Rightarrow> fp \<Rightarrow> rules_table \<Rightarrow> (LlmError + unit) \<times> rules_table" where
  "update_rule_confidence now out i conf tbl = (case out of
     Some e \<Rightarrow> (Inl (LlmDatabaseError e), tbl)
   | None \<Rightarrow> (Inr (), map (\<lambda>r. if rule_id r = i
        then r\<lparr>rule_confidence := conf, rule_updated_at := now\<rparr> else r) tbl))"

definition list_enabled_rules :: "sql_outcome \<Rightarrow> rules_table \<Rightarrow> LlmError + rules_table" where
  "list_enabled_rules out tbl =
     sql_select out (order_desc rule_created_at (filter rule_enabled tbl))"

section \<open>Optimization history\<close>

record OptimizationIteration =
  iteration :: nat
  original_prompt :: string
  optimized_prompt :: string
  expected_improvement :: fp
  actual_improvement :: "fp option"
  oi_reasoning :: string
  oi_timestamp :: datetime

record GepaOptimizationRecord =
  gepa_id :: string
  gepa_module_name :: string
  gepa_iteration :: int
  gepa_original_prompt :: string
  gepa_optimized_prompt :: string
  gepa_expected_improvement :: fp
  gepa_actual_improvement :: "fp option"
  gepa_reasoning :: "string option"
  gepa_timestamp :: datetime

type_synonym gepa_table = "GepaOptimizationRecord list"

definition record_optimization ::
  "string \<Rightarrow> sql_outcome \<Rightarrow> string \<Rightarrow> OptimizationIteration \<Rightarrow> gepa_table
     \<Rightarrow> (LlmError + string) \<times> gepa_table" where
  "record_optimization uid out module_name it tbl =
     sql_insert out uid
       \<lparr>gepa_id = uid, gepa_module_name = module_name,
        gepa_iteration = wrap_i64 (int (iteration it)), gepa_original_prompt = original_prompt it,
        gepa_optimized_prompt = optimized_prompt it,
        gepa_expected_improvement = expected_improvement it,
        gepa_actual_improvement = actual_improvement it,
        gepa_reasoning = Some (oi_reasoning it), gepa_timestamp = oi_timestamp it\<rparr> tbl"

definition get_recent_optimizations ::
  "sql_outcome \<Rightarrow> string \<Rightarrow> int \<Rightarrow> gepa_table \<Rightarrow> LlmError + gepa_table" where
  "get_recent_optimizations out m limit tbl =
     sql_select out (sql_limit limit (order_desc gepa_timestamp
       (filter (\<lambda>r. gepa_module_name r = m) tbl)))"

definition get_all_optimizations ::
  "sql_outcome \<Rightarrow> string \<Rightarrow> gepa_table \<Rightarrow> LlmError + gepa_table" where
  "get_all_optimizations out m tbl =
     sql_select out (sort_key gepa_iteration (filter (\<lambda>r. gepa_module_name r = m) tbl))"

definition get_total_improvement ::
  "sql_outcome \<Rightarrow> string \<Rightarrow> gepa_table \<Rightarrow> LlmError + fp option" where
  "get_total_improvement out m tbl =
     sql_select out (case sql_limit 1 (order_desc gepa_iteration
         (filter (\<lambda>r. gepa_module_name r = m \<and> gepa_actual_improvement r \<noteq> None) tbl)) of
       [] \<Rightarrow> None | r # _ \<Rightarrow> gepa_actual_improvement r)"

definition get_average_improvement ::
  "(fp list \<Rightarrow> fp) \<Rightarrow> sql_outcome \<Rightarrow> gepa_table \<Rightarrow> LlmError + fp option" where
  "get_average_improvement avg out tbl =
     sql_select out (let xs = List.map_filter gepa_actual_improvement tbl
       in if xs = [] then None else Some (avg xs))"

section \<open>Performance metrics\<close>

record PerformanceMetric =
  pm_id :: string
  metric_type :: string
  pm_value :: fp
  pm_tags :: string
  pm_timestamp :: datetime

type_synonym metrics_table = "PerformanceMetric list"

definition record_metric ::
  "string \<Rightarrow> datetime \<Rightarrow> sql_outcome \<Rightarrow> string \<Rightarrow> fp \<Rightarrow> string \<Rightarrow> metrics_table
     \<Rightarrow> (LlmError + string) \<times> metrics_table" where
  "record_metric uid now out mtype v tags tbl =
     sql_insert out uid \<lparr>pm_id = uid, metric_type = mtype, pm_value = v, pm_tags = tags,
       pm_timestamp = now\<rparr> tbl"

definition metrics_since :: "string \<Rightarrow> datetime \<Rightarrow> metrics_table \<Rightarrow> metrics_table" where
  "metrics_since mtype since tbl =
     filter (\<lambda>m. metric_type m = mtype \<and> since < pm_timestamp m) tbl"

definition get_metrics ::
  "sql_outcome \<Rightarrow> string \<Rightarrow> datetime \<Rightarrow> metrics_table \<Rightarrow> LlmError + metrics_table" where
  "get_metrics out mtype since tbl =
     sql_select out (order_desc pm_timestamp (metrics_since mtype since tbl))"

definition get_average_metric ::
  "(fp list \<Rightarrow> fp) \<Rightarrow> sql_outcome \<Rightarrow> string \<Rightarrow> datetime \<Rightarrow> metrics_table \<Rightarrow> LlmError + fp option" where
  "get_average_metric avg out mtype since tbl =
     sql_select out (let rows = metrics_since mtype since tbl
       in if rows = [] then None else Some (avg (map pm_value rows)))"

record MetricTrend =
  mt_metric_type :: string
  mt_avg_value :: fp
  mt_min_value :: fp
  mt_max_value :: fp
  mt_sample_count :: int
  mt_time_window_hours :: int

fun fp_minimum :: "fp list \<Rightarrow> fp option" where
  "fp_minimum [] = None"
| "fp_minimum (x # xs) = (case fp_minimum xs of
     None \<Rightarrow> Some x | Some y \<Rightarrow> Some (if fp_lt y x then y else x))"

fun fp_maximum :: "fp list \<Rightarrow> fp option" where
  "fp_maximum [] = None"
| "fp_maximum (x # xs) = (case fp_maximum xs of
     None \<Rightarrow> Some x | Some y \<Rightarrow> Some (if fp_lt x y then y else x))"

definition or_zero :: "fp option \<Rightarrow> fp" where
  "or_zero x = (case x of None \<Rightarrow> Fin False 0 | Some v \<Rightarrow> v)"

definition get_metric_trends ::
  "(fp list \<Rightarrow> fp) \<Rightarrow> sql_outcome \<Rightarrow> string \<Rightarrow> datetime \<Rightarrow> int \<Rightarrow> metrics_table
     \<Rightarrow> LlmError + MetricTrend" where
  "get_metric_trends avg out mtype since hours tbl =
     sql_select out (let vs = map pm_value (metrics_since mtype since tbl) in
       \<lparr>mt_metric_type = mtype,
        mt_avg_value = or_zero (if vs = [] then None else Some (avg vs)),
        mt_min_value = or_zero (fp_minimum vs), mt_max_value = or_zero (fp_maximum vs),
        mt_sample_count = int (length vs), mt_time_window_hours = hours\<rparr>)"

section \<open>The metrics collector\<close>

text \<open>A measurement and its companion are two statements: the second is not attempted when the
  first fails, and nothing is undone when the second fails. The arguments \<open>u1\<close>, \<open>u2\<close> are
  the fresh identifiers, \<open>n1\<close>, \<open>n2\<close> the clock readings. The text of a JSON document is
  the parameter \<open>show_json\<close>.\<close>

definition record_two ::
  "string \<times> datetime \<times> sql_outcome \<Rightarrow> string \<times> datetime \<times> sql_outcome
     \<Rightarrow> string \<times> fp \<Rightarrow> string \<times> fp \<Rightarrow> string \<Rightarrow> metrics_table \<Rightarrow> (LlmError + unit) \<times> metrics_table" where
  "record_two a b m1 m2 tags tbl =
     (case a of (u1, n1, o1) \<Rightarrow> case b of (u2, n2, o2) \<Rightarrow>
      case record_metric u1 n1 o1 (fst m1) (snd m1) tags tbl of
        (Inl e, tbl) \<Rightarrow> (Inl e, tbl)
      | (Inr _, tbl) \<Rightarrow>
         (case record_metric u2 n2 o2 (fst m2) (snd m2) tags tbl of
            (Inl e, tbl) \<Rightarrow> (Inl e, tbl)
          | (Inr _, tbl) \<Rightarrow> (Inr (), tbl)))"

definition collector_record_prediction where
  "collector_record_prediction show_json a b tool conf (time_ms :: u64) success tbl =
     record_two a b (''prediction_confidence'', conf)
       (''prediction_time'', fp_of_nat binary64 (unat time_ms))
       (show_json (Object [(''success'', Bool success), (''tool_name'', String tool)])) tbl"

definition record_gepa_optimization where
  "record_gepa_optimization show_json a b (iterations :: u64) improvement (time_ms :: u64) tbl =
     record_two a b (''gepa_improvement'', improvement)
       (''gepa_optimization_time'', fp_of_nat binary64 (unat time_ms))
       (show_json (Object [(''iterations'', Number (PosInt iterations)),
          (''successful'', Bool (fp_lt (fp_round binary64 False (1 / 10)) improvement))])) tbl"

definition record_routing_decision ::
  "(json \<Rightarrow> string) \<Rightarrow> string \<times> datetime \<times> sql_outcome \<Rightarrow> string \<Rightarrow> fp \<Rightarrow> bool \<Rightarrow> metrics_table
     \<Rightarrow> (LlmError + unit) \<times> metrics_table" where
  "record_routing_decision show_json a mode conf used_llm tbl =
     (case a of (u1, n1, o1) \<Rightarrow>
      case record_metric u1 n1 o1 ''routing_confidence'' conf
          (show_json (Object [(''mode'', String mode), (''used_llm'', Bool used_llm)])) tbl of
        (Inl e, tbl) \<Rightarrow> (Inl e, tbl)
      | (Inr _, tbl) \<Rightarrow> (Inr (), tbl))"

record PerformanceSummary =
  sum_total_predictions :: int
  sum_average_confidence :: fp
  sum_success_rate :: fp
  sum_average_prediction_time_ms :: fp
  sum_gepa_optimizations :: int
  sum_average_gepa_improvement :: fp

definition PerformanceSummary_new :: PerformanceSummary where
  "PerformanceSummary_new = \<lparr>sum_total_predictions = 0, sum_average_confidence = Fin False 0,
     sum_success_rate = Fin False 0, sum_average_prediction_time_ms = Fin False 0,
     sum_gepa_optimizations = 0, sum_average_gepa_improvement = Fin False 0\<rparr>"

section \<open>Modes\<close>

text \<open>The canonical text of a mode parses back to it, in any capitalization.\<close>

theorem mode_roundtrip: "map ascii_lower s = mode_as_str m \<Longrightarrow> mode_from_str s = Inr m"
  by (cases m) (simp_all add: mode_from_str_def mode_as_str_def)

theorem mode_from_str_complete: "mode_from_str s = Inr m \<Longrightarrow> map ascii_lower s = mode_as_str m"
  by (auto simp: mode_from_str_def mode_as_str_def Let_def split: if_splits)

section \<open>Rule selection\<close>

lemma set_insert_by_confidence [simp]: "set (insert_by_confidence r xs) = insert r (set xs)"
  by (induction xs) auto

lemma set_order_by_confidence [simp]: "set (order_by_confidence xs) = set xs"
proof -
  have "set (foldr insert_by_confidence xs acc) = set xs \<union> set acc" for acc
    by (induction xs) auto
  then show ?thesis by (simp add: order_by_confidence_def)
qed

definition by_confidence :: "rules_table \<Rightarrow> bool" where
  "by_confidence xs = sorted_wrt (\<lambda>x y. fp_le (rule_confidence y) (rule_confidence x)) xs"

lemma insert_by_confidence_sorted:
  assumes "by_confidence xs" "rule_confidence r \<noteq> NaN" "\<And>x. x \<in> set xs \<Longrightarrow> rule_confidence x \<noteq> NaN"
  shows "by_confidence (insert_by_confidence r xs)"
  using assms
  by (induction xs)
    (auto simp: by_confidence_def fp_not_lt fp_lt_imp_le intro: fp_le_trans)

lemma order_by_confidence_sorted:
  assumes "\<And>x. x \<in> set xs \<Longrightarrow> rule_confidence x \<noteq> NaN"
  shows "by_confidence (order_by_confidence xs)"
proof -
  have "by_confidence (foldr insert_by_confidence xs [])
      \<and> set (foldr insert_by_confidence xs []) = set xs"
    using assms
    by (induction xs) (auto simp: by_confidence_def [of "[]"] intro!: insert_by_confidence_sorted)
  then show ?thesis by (simp add: order_by_confidence_def)
qed

lemma find_sorted_best:
  assumes "sorted_wrt R xs" "find P xs = Some r" "x \<in> set xs" "P x"
  shows "x = r \<or> R r x"
  using assms by (induction xs) (auto split: if_splits)

text \<open>Rule selection. When no stored confidence is a NaN, the rule that the hybrid mode
  applies to a request is an enabled rule whose pattern occurs in the request, and no other such
  rule has a higher confidence; when no rule is found, no enabled rule matches.\<close>

theorem matching_rule_best:
  assumes "\<forall>x\<in>set tbl. rule_confidence x \<noteq> NaN"
  shows "\<exists>found. find_matching_rule None content tbl = Inr found \<and>
    (case found of
       Some r \<Rightarrow> r \<in> set tbl \<and> rule_enabled r \<and> str_contains content (rule_pattern r) \<and>
         (\<forall>x\<in>set tbl. rule_enabled x \<and> str_contains content (rule_pattern x)
            \<longrightarrow> fp_le (rule_confidence x) (rule_confidence r))
     | None \<Rightarrow> \<forall>x\<in>set tbl. rule_enabled x \<longrightarrow> \<not> str_contains content (rule_pattern x))"
proof -
  let ?xs = "order_by_confidence (filter rule_enabled tbl)"
  let ?P = "\<lambda>r. str_contains content (rule_pattern r)"
  have f: "find_matching_rule None content tbl = Inr (find ?P ?xs)"
    by (simp add: find_matching_rule_def sql_select_def)
  show ?thesis
  proof (cases "find ?P ?xs")
    case None
    then have "\<forall>x\<in>set tbl. rule_enabled x \<longrightarrow> \<not> ?P x" by (auto simp: find_None_iff)
    then show ?thesis using None by (simp add: f)
  next
    case (Some r)
    then have r: "r \<in> set tbl" "rule_enabled r" "?P r"
      by (auto simp: find_Some_iff dest!: nth_mem [of _ ?xs])
    have "sorted_wrt (\<lambda>x y. fp_le (rule_confidence y) (rule_confidence x)) ?xs"
      using order_by_confidence_sorted [of "filter rule_enabled tbl"] assms
      by (simp add: by_confidence_def)
    note best = find_sorted_best [OF this Some]
    have refl: "fp_le (rule_confidence r) (rule_confidence r)"
      using fp_le_total [of "rule_confidence r" "rule_confidence r"] assms r by blast
    then show ?thesis using r best f Some by auto
  qed
qed

definition sample_rule :: "string \<Rightarrow> fp \<Rightarrow> DbRoutingRule" where
  "sample_rule pat conf = \<lparr>rule_id = pat, rule_pattern = pat, target_tool = ''t'',
     target_transport = ''stdio'', rule_confidence = conf, rule_created_at = 0,
     rule_updated_at = 0, rule_enabled = True\<rparr>"

theorem matching_rule_best_witness:
  "\<exists>r. find_matching_rule None ''tools/list''
        [sample_rule ''tools'' (Fin False 1), sample_rule ''list'' (Fin False 2)] = Inr (Some r) \<and>
      fp_le (Fin False 2) (rule_confidence r)"
proof -
  let ?tbl = "[sample_rule ''tools'' (Fin False 1), sample_rule ''list'' (Fin False 2)]"
  have "\<forall>x\<in>set ?tbl. rule_confidence x \<noteq> NaN" by (simp add: sample_rule_def)
  moreover have "str_contains ''tools/list'' ''list''" by code_simp
  ultimately show ?thesis
    using matching_rule_best [of ?tbl "''tools/list''"]
    by (auto simp: sample_rule_def split: option.splits)
qed

section \<open>Predictions\<close>

text \<open>A settled prediction is marked correct exactly when it named the tool that was used.\<close>

lemma update_prediction_marks:
  assumes "distinct (map pr_id tbl)" "r \<in> set tbl"
  shows "\<exists>tbl'. db_update_prediction_result None None (pr_id r) actual tbl = (Inr (), tbl') \<and>
    tbl' = map (\<lambda>x. if x = r then r\<lparr>pr_actual_tool := Some actual,
                                     correct := Some (predicted_tool r = actual)\<rparr> else x) tbl"
proof -
  have inj: "inj_on pr_id (set tbl)" using assms by (simp add: distinct_map)
  have "find (\<lambda>x. pr_id x = pr_id r) tbl = Some r"
    using assms inj
    by (induction tbl) (auto simp: inj_on_def)
  moreover have "map (\<lambda>x. if pr_id x = pr_id r then x\<lparr>pr_actual_tool := Some actual,
        correct := Some ok\<rparr> else x) tbl
      = map (\<lambda>x. if x = r then r\<lparr>pr_actual_tool := Some actual, correct := Some ok\<rparr> else x) tbl"
    for ok using inj_onD [OF inj] assms(2) by auto
  ultimately show ?thesis
    by (simp add: db_update_prediction_result_def get_prediction_tool_def sql_select_def)
qed

text \<open>Accuracy query. Without a settled prediction in the window the accuracy query fails,
  although the code means to report an accuracy of zero then; otherwise the accuracy it reports
  is a number from 0 to 1 (for up to 2 to the power of 53 rows).\<close>

theorem accuracy_metrics_outcome:
  assumes "length tbl \<le> 2 ^ 53"
  shows "case get_accuracy_metrics avg null_error since None hours tbl of
      Inl e \<Rightarrow> e = LlmDatabaseError null_error \<and> finished_since since tbl = []
    | Inr m \<Rightarrow> finished_since since tbl \<noteq> [] \<and> is_finite (am_accuracy m) \<and>
        0 \<le> fp_val (am_accuracy m) \<and> fp_val (am_accuracy m) \<le> 1"
proof -
  let ?rows = "finished_since since tbl"
  have "length ?rows \<le> 2 ^ 53" using assms length_filter_le order_trans
    unfolding finished_since_def by blast
  then have ex: "n \<le> length ?rows \<Longrightarrow> exact binary64 (of_nat n)" for n
    by (simp add: exact64_nat)
  have one: "exact binary64 1" using exact64_nat [of 1] by simp
  have "fp_upto 1 (fp_div binary64 (fp_of_nat binary64 k) (fp_of_nat binary64 (length ?rows)))"
    if "k \<le> length ?rows" "?rows \<noteq> []" for k
    using that ex one
    by (intro fp_div_upto [of "of_nat (length ?rows)"])
      (auto simp: fp_of_nat_exact fp_upto_def)
  from fp_upto_val [OF this] show ?thesis
    by (auto simp: get_accuracy_metrics_def sum_correct_def Let_def split: sum.splits)
qed

theorem accuracy_metrics_outcome_witness:
  "get_accuracy_metrics hd ''null'' 0 None 24 [] = Inl (LlmDatabaseError ''null'')"
  using accuracy_metrics_outcome [where tbl = "[]" and avg = hd and null_error = "''null''" and since = 0 and hours = 24]
  by (simp add: get_accuracy_metrics_def sum_correct_def finished_since_def)

end
