(* ===== verification/Llm_Predictor.thy ===== *)
theory Llm_Predictor
  imports Llm_Database
begin

text \<open>
  Tool prediction (\<open>acdp-llm/src/predictors.rs\<close>, \<open>dspy_predictor.rs\<close>,
  \<open>dspy_signatures.rs\<close>, \<open>lm_provider.rs\<close>, \<open>litert_wrapper.rs\<close>, \<open>streaming.rs\<close>): the
  language model is asked for a prediction in JSON; when it fails, keywords of the request
  decide; every prediction is stored. The native library behind the model is the parameter
  record \<open>litert\<close>: opening a conversation, and the answer to a message after the messages
  sent before it. The record \<open>llm_ext\<close> holds the other operations of the standard library
  and of \<open>serde_json\<close> that are not pinned down by their documentation: Unicode lower case,
  the parser and printer of JSON text, the default hasher, and error texts.
\<close>

section \<open>External operations\<close>

abbreviation nl :: string where "nl \<equiv> [CHR 0x0A]"
abbreviation dq :: string where "dq \<equiv> [CHR 0x22]"
abbreviation sq :: string where "sq \<equiv> [CHR 0x27]"

record llm_ext =
  lx_lower :: "string \<Rightarrow> string"
  lx_parse :: "string \<Rightarrow> string + json"
  lx_show :: "json \<Rightarrow> string"
  lx_hash :: "string \<Rightarrow> u64"
  lx_schema_error :: "json \<Rightarrow> string"

record litert =
  lt_open :: "string option \<Rightarrow> LlmError + unit"
  lt_send :: "string option \<Rightarrow> (string \<times> string) list \<Rightarrow> string \<times> string \<Rightarrow> LlmError + string"

section \<open>Predictions\<close>

record ToolPrediction =
  tool_name :: string
  tp_confidence :: fp
  tp_reasoning :: string
  tp_parameters :: json

text \<open>Serialization by \<open>serde_json::to_value\<close>: a number that is not finite becomes
  \<open>null\<close>.\<close>

definition fp_json :: "fp \<Rightarrow> json" where
  "fp_json x = (if is_finite x then Number (Float (fp_bits64 x)) else Null)"

definition tool_prediction_to_value :: "ToolPrediction \<Rightarrow> json" where
  "tool_prediction_to_value p = Object [(''confidence'', fp_json (tp_confidence p)),
     (''parameters'', tp_parameters p), (''reasoning'', String (tp_reasoning p)),
     (''tool_name'', String (tool_name p))]"

text \<open>Deserialization: every field must be there; a number is converted to \<open>f32\<close>. The range
  of the confidence is not checked. A sequence of the four fields is accepted as well.\<close>

definition f32_of_fp :: "fp \<Rightarrow> fp" where
  "f32_of_fp x = (case x of Fin s m \<Rightarrow> fp_round binary32 s m | y \<Rightarrow> y)"

definition number_as_f32 :: "json_number \<Rightarrow> fp" where
  "number_as_f32 n = (case n of
     PosInt u \<Rightarrow> fp_of_rat binary32 False (of_int (uint u))
   | NegInt i \<Rightarrow> fp_of_rat binary32 False (of_int i)
   | Float b \<Rightarrow> f32_of_fp (fp_of_bits64 b))"

definition tool_prediction_fields :: "json \<Rightarrow> json \<Rightarrow> json \<Rightarrow> json \<Rightarrow> ToolPrediction option" where
  "tool_prediction_fields t c r p = (case (t, c, r) of
     (String tool, Number n, String why) \<Rightarrow>
       Some \<lparr>tool_name = tool, tp_confidence = number_as_f32 n, tp_reasoning = why,
             tp_parameters = p\<rparr>
   | _ \<Rightarrow> None)"

definition tool_prediction_from_value :: "json \<Rightarrow> ToolPrediction option" where
  "tool_prediction_from_value v = (case v of
     Object m \<Rightarrow> (case (obj_get m ''tool_name'', obj_get m ''confidence'',
         obj_get m ''reasoning'', obj_get m ''parameters'') of
       (Some t, Some c, Some r, Some p) \<Rightarrow> tool_prediction_fields t c r p
     | _ \<Rightarrow> None)
   | Array [t, c, r, p] \<Rightarrow> tool_prediction_fields t c r p
   | _ \<Rightarrow> None)"

section \<open>The language model\<close>

datatype LiteRTBackend = CpuBackend | GpuBackend

datatype ChatMessage = SystemMessage string | UserMessage string | AssistantMessage string

text \<open>A chat is sent message by message; the answer to the last user message is the output.\<close>

fun send_chat ::
  "litert \<Rightarrow> string option \<Rightarrow> (string \<times> string) list \<Rightarrow> string \<Rightarrow> ChatMessage list \<Rightarrow> string + string" where
  "send_chat L sys sent response [] = Inr response"
| "send_chat L sys sent response (SystemMessage _ # ms) = send_chat L sys sent response ms"
| "send_chat L sys sent response (UserMessage c # ms) =
     (case lt_send L sys sent (''user'', c) of
        Inl e \<Rightarrow> Inl (''LiteRT generation error: '' @ llm_error_display e)
      | Inr answer \<Rightarrow> send_chat L sys (sent @ [(''user'', c)]) answer ms)"
| "send_chat L sys sent response (AssistantMessage c # ms) =
     (case lt_send L sys sent (''model'', c) of
        Inl e \<Rightarrow> Inl (''LiteRT error: '' @ llm_error_display e)
      | Inr _ \<Rightarrow> send_chat L sys (sent @ [(''model'', c)]) response ms)"

fun find_system :: "ChatMessage list \<Rightarrow> string option" where
  "find_system [] = None"
| "find_system (SystemMessage c # _) = Some c"
| "find_system (_ # ms) = find_system ms"

definition litert_call :: "litert \<Rightarrow> ChatMessage list \<Rightarrow> string + ChatMessage" where
  "litert_call L chat =
     (case lt_open L (find_system chat) of
        Inl e \<Rightarrow> Inl (''Failed to create conversation: '' @ llm_error_display e)
      | Inr _ \<Rightarrow> and_then (send_chat L (find_system chat) [] [] chat)
                  (\<lambda>text. Inr (AssistantMessage text)))"

record LiteRTConfig =
  lc_model_path :: string
  lc_backend :: LiteRTBackend
  lc_temperature :: fp
  lc_max_tokens :: nat

record LiteRTBuilder =
  lb_model_path :: "string option"
  lb_backend :: LiteRTBackend
  lb_temperature :: fp
  lb_max_tokens :: nat

definition LiteRTBuilder_new :: LiteRTBuilder where
  "LiteRTBuilder_new = \<lparr>lb_model_path = None, lb_backend = CpuBackend,
     lb_temperature = fp_round binary32 False (7 / 10), lb_max_tokens = 1000\<rparr>"

definition LiteRTBuilder_build ::
  "(LiteRTConfig \<Rightarrow> LlmError + 'm) \<Rightarrow> LiteRTBuilder \<Rightarrow> LlmError + 'm" where
  "LiteRTBuilder_build create b = and_then
     (ok_or (LlmConfigError ''Model path is required'') (lb_model_path b))
     (\<lambda>path. create \<lparr>lc_model_path = path, lc_backend = lb_backend b,
        lc_temperature = lb_temperature b, lc_max_tokens = lb_max_tokens b\<rparr>)"

section \<open>Benchmarks and streaming\<close>

record TurnBenchmark =
  num_tokens :: u64
  duration_seconds :: fp
  tokens_per_sec :: fp

record BenchmarkInfo =
  prefill_turns :: "TurnBenchmark list"
  decode_turns :: "TurnBenchmark list"
  time_to_first_token_ms :: fp
  last_prefill_token_count :: u64
  last_decode_token_count :: u64

definition avg_tokens_per_sec :: "TurnBenchmark list \<Rightarrow> fp" where
  "avg_tokens_per_sec turns = (if turns = [] then Fin False 0
     else fp_div binary64 (fp_sum binary64 (map tokens_per_sec turns))
            (fp_of_nat binary64 (length turns)))"

definition avg_prefill_tokens_per_sec :: "BenchmarkInfo \<Rightarrow> fp" where
  "avg_prefill_tokens_per_sec b = avg_tokens_per_sec (prefill_turns b)"

definition avg_decode_tokens_per_sec :: "BenchmarkInfo \<Rightarrow> fp" where
  "avg_decode_tokens_per_sec b = avg_tokens_per_sec (decode_turns b)"

text \<open>Sums of \<open>u64\<close> wrap, as in the release profile.\<close>

definition total_tokens :: "BenchmarkInfo \<Rightarrow> u64" where
  "total_tokens b = sum_list (map num_tokens (prefill_turns b))
     + sum_list (map num_tokens (decode_turns b))"

definition total_duration_seconds :: "BenchmarkInfo \<Rightarrow> fp" where
  "total_duration_seconds b = fp_add binary64
     (fp_sum binary64 (map duration_seconds (prefill_turns b)))
     (fp_sum binary64 (map duration_seconds (decode_turns b)))"

definition overall_tokens_per_sec :: "BenchmarkInfo \<Rightarrow> fp" where
  "overall_tokens_per_sec b = (let d = total_duration_seconds b in
     if is_finite d \<and> fp_val d = 0 then Fin False 0
     else fp_div binary64 (fp_of_nat binary64 (unat (total_tokens b))) d)"

text \<open>The words of an answer, each but the last followed by a space.\<close>

fun split_whitespace_acc :: "string \<Rightarrow> string \<Rightarrow> string list" where
  "split_whitespace_acc w [] = (if w = [] then [] else [w])"
| "split_whitespace_acc w (c # s) =
     (if is_whitespace c then (if w = [] then [] else [w]) @ split_whitespace_acc [] s
      else split_whitespace_acc (w @ [c]) s)"

definition split_whitespace :: "string \<Rightarrow> string list" where
  "split_whitespace s = split_whitespace_acc [] s"

definition stream_tokens :: "string list \<Rightarrow> string list" where
  "stream_tokens ws = map (\<lambda>(i, w). if i < length ws - 1 then w @ '' '' else w) (enumerate 0 ws)"

definition generate_streaming :: "litert \<Rightarrow> string option \<Rightarrow> (string \<times> string) list \<Rightarrow> string
    \<Rightarrow> LlmError + string list" where
  "generate_streaming L sys sent prompt =
     and_then (lt_send L sys sent (''user'', prompt))
       (\<lambda>response. Inr (stream_tokens (split_whitespace response)))"

section \<open>The prompt and the answer\<close>

definition tool_prompt :: "string \<Rightarrow> string" where
  "tool_prompt ctx =
     ''You are a tool prediction system. Analyze the MCP request below and predict which tool will be called.'' @ nl @ nl
   @ ''Available MCP methods: tools/list, tools/call, resources/list, resources/read, prompts/list, prompts/get'' @ nl @ nl
   @ ''IMPORTANT: If the method is '' @ sq @ ''tools/call'' @ sq @ '', look at the '' @ sq @ ''name'' @ sq
   @ '' parameter to find the ACTUAL tool being called.'' @ nl
   @ ''In that case, predict the specific tool name (like '' @ sq @ ''web_search'' @ sq @ '', '' @ sq
   @ ''calculator'' @ sq @ '', etc.), NOT just '' @ sq @ ''tools.call'' @ sq @ ''.'' @ nl @ nl
   @ ''Respond with ONLY a JSON object in this format:'' @ nl
   @ ''{'' @ dq @ ''tool_name'' @ dq @ '': '' @ dq @ ''<tool>'' @ dq @ '', '' @ dq @ ''confidence'' @ dq
   @ '': <0.0-1.0>, '' @ dq @ ''reasoning'' @ dq @ '': '' @ dq @ ''<brief explanation>'' @ dq @ '', ''
   @ dq @ ''parameters'' @ dq @ '': {}}'' @ nl @ nl
   @ ''Examples:'' @ nl
   @ ''- If method='' @ sq @ ''tools/list'' @ sq @ '', predict tool_name='' @ sq @ ''tools.list'' @ sq @ nl
   @ ''- If method='' @ sq @ ''tools/call'' @ sq @ '' with name='' @ sq @ ''web_search'' @ sq
   @ '', predict tool_name='' @ sq @ ''web_search'' @ sq @ nl
   @ ''- If method='' @ sq @ ''resources/read'' @ sq @ '', predict tool_name='' @ sq @ ''resources.read'' @ sq @ nl @ nl
   @ ''MCP Request:'' @ nl @ ctx @ nl @ nl @ ''JSON Response:''"

definition fence :: string where
  "fence = [CHR 0x60, CHR 0x60, CHR 0x60]"

text \<open>The text between an opening mark and the next fence.\<close>

definition fenced :: "string \<Rightarrow> string \<Rightarrow> string option" where
  "fenced opening s = (case str_find s opening of
     None \<Rightarrow> None
   | Some start \<Rightarrow>
       (let rest = drop (start + length opening) s in
        map_option (\<lambda>end. trim (take end rest)) (str_find rest fence)))"

definition rfind_char :: "char \<Rightarrow> string \<Rightarrow> nat option" where
  "rfind_char c s = (case str_find (rev s) [c] of
     None \<Rightarrow> None | Some k \<Rightarrow> Some (length s - 1 - k))"

definition extract_json :: "string \<Rightarrow> string" where
  "extract_json text = (let trimmed = trim text in
     case fenced (fence @ ''json'') trimmed of Some j \<Rightarrow> j
   | None \<Rightarrow> (case fenced fence trimmed of Some j \<Rightarrow> j
     | None \<Rightarrow> (case (str_find trimmed ''{'', rfind_char (CHR ''}'') trimmed) of
         (Some start, Some end) \<Rightarrow>
           (if start < end then drop start (take (Suc end) trimmed) else trimmed)
       | _ \<Rightarrow> trimmed)))"

definition dspy_predict :: "llm_ext \<Rightarrow> litert \<Rightarrow> string \<Rightarrow> LlmError + ToolPrediction" where
  "dspy_predict X L ctx =
     (case litert_call L [UserMessage (tool_prompt ctx)] of
        Inl e \<Rightarrow> Inl (LlmPredictionError (''LiteRT call failed: '' @ e))
      | Inr (AssistantMessage text) \<Rightarrow>
         (if trim text = [] then Inl (LlmPredictionError
            ''LiteRT returned empty response - model may not be loaded or prompt is invalid'')
          else (let j = extract_json text in
            case lx_parse X j of
              Inl e \<Rightarrow> Inl (LlmPredictionError (''Failed to parse LiteRT response as JSON: '' @ e
                 @ ''. Raw response: '' @ text @ ''. Extracted: '' @ j))
            | Inr v \<Rightarrow> ok_or (LlmPredictionError
                 (''Response doesn'' @ sq @ ''t match ToolPrediction schema: '' @ lx_schema_error X v))
                 (tool_prediction_from_value v)))
      | Inr _ \<Rightarrow> Inl (LlmPredictionError ''Unexpected message type from LiteRT''))"

section \<open>The predictor\<close>

record PredictionOutcome =
  po_prediction :: ToolPrediction
  po_record_id :: string
  po_context_hash :: string

text \<open>What one call reads: a fresh identifier, the clock and the driver's answer.\<close>

record store_call =
  sc_uuid :: string
  sc_now :: datetime
  sc_out :: sql_outcome

fun show_hex_digits :: "nat \<Rightarrow> nat \<Rightarrow> string" where
  "show_hex_digits 0 n = []"
| "show_hex_digits (Suc k) n = (if n < 16 then [] else show_hex_digits k (n div 16))
     @ [(let d = n mod 16 in if d < 10 then char_of (48 + d) else char_of (87 + d))]"

definition hash_context :: "llm_ext \<Rightarrow> string \<Rightarrow> string" where
  "hash_context X ctx = show_hex_digits 16 (unat (lx_hash X ctx))"

definition persist_prediction ::
  "llm_ext \<Rightarrow> store_call \<Rightarrow> string \<Rightarrow> string \<Rightarrow> fp \<Rightarrow> string \<Rightarrow> predictions_table
     \<Rightarrow> (LlmError + PredictionOutcome) \<times> predictions_table" where
  "persist_prediction X k ctx tool conf why tbl =
     (let p = \<lparr>tool_name = tool, tp_confidence = conf, tp_reasoning = why,
               tp_parameters = Object []\<rparr>;
          h = hash_context X ctx in
      case db_record_prediction (sc_uuid k) (sc_now k) (sc_out k) h tool conf
             (tool_prediction_to_value p) tbl of
        (Inl e, tbl) \<Rightarrow> (Inl e, tbl)
      | (Inr rid, tbl) \<Rightarrow>
          (Inr \<lparr>po_prediction = p, po_record_id = rid, po_context_hash = h\<rparr>, tbl))"

definition f32_lit :: "rat \<Rightarrow> fp" where
  "f32_lit q = fp_round binary32 False q"

text \<open>The literals below are \<open>f64\<close>, cast by \<open>as f32\<close>; both roundings give the \<open>f32\<close>
  nearest to the decimal.\<close>

definition keyword_choice :: "string \<Rightarrow> string \<times> fp \<times> string" where
  "keyword_choice low =
     (if str_contains low ''tools/list'' \<or> str_contains low ''list'' \<and> str_contains low ''tool''
      then (''tools.list'', f32_lit (8 / 10), ''Matched '' @ sq @ ''tools/list'' @ sq @ '' pattern'')
      else if str_contains low ''resources/list'' \<or> str_contains low ''list'' \<and> str_contains low ''resource''
      then (''resources.list'', f32_lit (8 / 10), ''Matched '' @ sq @ ''resources/list'' @ sq @ '' pattern'')
      else if str_contains low ''resources/read'' \<or> str_contains low ''read'' \<and> str_contains low ''resource''
      then (''resources.read'', f32_lit (7 / 10), ''Matched '' @ sq @ ''resources/read'' @ sq @ '' pattern'')
      else if str_contains low ''prompts/list'' \<or> str_contains low ''list'' \<and> str_contains low ''prompt''
      then (''prompts.list'', f32_lit (8 / 10), ''Matched '' @ sq @ ''prompts/list'' @ sq @ '' pattern'')
      else if str_contains low ''prompts/get'' \<or> str_contains low ''get'' \<and> str_contains low ''prompt''
      then (''prompts.get'', f32_lit (7 / 10), ''Matched '' @ sq @ ''prompts/get'' @ sq @ '' pattern'')
      else (''tools.list'', f32_lit (5 / 10), ''No clear match - defaulting to tools.list''))"

definition named_tool :: "json \<Rightarrow> string option" where
  "named_tool j = Option.bind (value_get j ''params'')
     (\<lambda>params. Option.bind (value_get params ''name'') as_str)"

definition heuristic_choice :: "llm_ext \<Rightarrow> string \<Rightarrow> string \<times> fp \<times> string" where
  "heuristic_choice X ctx = (let low = lx_lower X ctx in
     if str_contains low ''tools/call'' \<or> str_contains low ''tools.call'' then
       (case (case lx_parse X ctx of Inl _ \<Rightarrow> None | Inr j \<Rightarrow> named_tool j) of
          Some name \<Rightarrow> (name, f32_lit (7 / 10),
            ''Extracted tool name '' @ sq @ name @ sq @ '' from tools/call params'')
        | None \<Rightarrow> (''tools.call'', f32_lit (5 / 10),
            ''Matched '' @ sq @ ''tools/call'' @ sq @ '' pattern but couldn'' @ sq @ ''t extract tool name''))
     else keyword_choice low)"

definition heuristic_predict ::
  "llm_ext \<Rightarrow> store_call \<Rightarrow> string \<Rightarrow> predictions_table
     \<Rightarrow> (LlmError + PredictionOutcome) \<times> predictions_table" where
  "heuristic_predict X k ctx tbl = (case heuristic_choice X ctx of
     (tool, conf, why) \<Rightarrow> persist_prediction X k ctx tool conf why tbl)"

text \<open>The semantic engine is optional; its failure falls back to the heuristic.\<close>

definition predict_tool ::
  "llm_ext \<Rightarrow> litert option \<Rightarrow> store_call \<Rightarrow> string \<Rightarrow> predictions_table
     \<Rightarrow> (LlmError + PredictionOutcome) \<times> predictions_table" where
  "predict_tool X engine k ctx tbl = (case engine of
     Some L \<Rightarrow> (case dspy_predict X L ctx of
        Inr p \<Rightarrow> persist_prediction X k ctx (tool_name p) (tp_confidence p) (tp_reasoning p) tbl
      | Inl _ \<Rightarrow> heuristic_predict X k ctx tbl)
   | None \<Rightarrow> heuristic_predict X k ctx tbl)"

definition update_prediction_result ::
  "sql_outcome \<Rightarrow> sql_outcome \<Rightarrow> string \<Rightarrow> string \<Rightarrow> predictions_table
     \<Rightarrow> (LlmError + unit) \<times> predictions_table" where
  "update_prediction_result out1 out2 rid actual tbl =
     db_update_prediction_result out1 out2 rid actual tbl"

section \<open>Every prediction is stored\<close>

lemma persist_prediction_stored:
  "persist_prediction X k ctx tool conf why tbl =
     (case sc_out k of
        Some e \<Rightarrow> (Inl (LlmDatabaseError e), tbl)
      | None \<Rightarrow>
         (let p = \<lparr>tool_name = tool, tp_confidence = conf, tp_reasoning = why, tp_parameters = Object []\<rparr>
          in (Inr \<lparr>po_prediction = p, po_record_id = sc_uuid k, po_context_hash = hash_context X ctx\<rparr>,
              tbl @ [\<lparr>pr_id = sc_uuid k, context_hash = hash_context X ctx, predicted_tool = tool,
                pr_actual_tool = None, pr_confidence = conf,
                prediction_data = tool_prediction_to_value p, pr_timestamp = sc_now k,
                correct = None\<rparr>])))"
  by (simp add: persist_prediction_def db_record_prediction_def sql_insert_def Let_def
      split: option.splits)

lemma predict_tool_cases:
  obtains tool conf why where
    "predict_tool X engine k ctx tbl = persist_prediction X k ctx tool conf why tbl"
    "(\<exists>L p. engine = Some L \<and> dspy_predict X L ctx = Inr p \<and> tool = tool_name p \<and>
        conf = tp_confidence p \<and> why = tp_reasoning p)
     \<or> heuristic_choice X ctx = (tool, conf, why)"
proof (cases "\<exists>L p. engine = Some L \<and> dspy_predict X L ctx = Inr p")
  case True
  then show ?thesis using that by (fastforce simp: predict_tool_def)
next
  case False
  then have "predict_tool X engine k ctx tbl = heuristic_predict X k ctx tbl"
    by (auto simp: predict_tool_def split: option.splits sum.splits)
  then show ?thesis using that by (cases "heuristic_choice X ctx") (auto simp: heuristic_predict_def)
qed

text \<open>Prediction always available. A prediction never fails because of the language model:
  it fails exactly when the database refuses the row, and leaves the table as it was. Otherwise it
  appends one unsettled row that carries the outcome's identifier, tool, confidence and context
  hash.\<close>

theorem prediction_stored:
  "case predict_tool X engine k ctx tbl of
     (Inl e, tbl') \<Rightarrow> sc_out k \<noteq> None \<and> e = LlmDatabaseError (the (sc_out k)) \<and> tbl' = tbl
   | (Inr out, tbl') \<Rightarrow> sc_out k = None \<and> (\<exists>row. tbl' = tbl @ [row] \<and>
       pr_id row = po_record_id out \<and> predicted_tool row = tool_name (po_prediction out) \<and>
       pr_confidence row = tp_confidence (po_prediction out) \<and>
       context_hash row = po_context_hash out \<and> pr_timestamp row = sc_now k \<and>
       pr_actual_tool row = None \<and> correct row = None)"
  by (rule predict_tool_cases [of X engine k ctx tbl])
    (simp add: persist_prediction_stored Let_def split: option.splits)

section \<open>The heuristic\<close>

definition heuristic_names :: "string list" where
  "heuristic_names = [''tools.list'', ''resources.list'', ''resources.read'', ''prompts.list'',
     ''prompts.get'', ''tools.call'']"

lemma keyword_choice_name: "fst (keyword_choice low) \<in> set heuristic_names"
  by (simp add: keyword_choice_def heuristic_names_def)

lemma heuristic_choice_name:
  "fst (heuristic_choice X ctx) \<in> set heuristic_names
   \<or> (\<exists>j. lx_parse X ctx = Inr j \<and> named_tool j = Some (fst (heuristic_choice X ctx)))"
  using keyword_choice_name
  by (auto simp: heuristic_choice_def heuristic_names_def Let_def split: option.splits sum.splits)

section \<open>Extraction of the answer\<close>

lemma str_find_here: "p \<noteq> [] \<Longrightarrow> str_find (p @ s) p = Some 0"
  by (cases p) (auto simp: starts_with_def)

lemma str_find_skip:
  assumes "hd p \<notin> set pre" "p \<noteq> []"
  shows "str_find (pre @ s) p = map_option (\<lambda>i. length pre + i) (str_find s p)"
  using assms
proof (induction pre)
  case (Cons c pre)
  then have "\<not> starts_with (c # pre @ s) p" by (cases p) (auto simp: starts_with_def)
  then show ?case using Cons by (simp add: option.map_comp comp_def)
qed (cases "str_find s p"; simp)

lemma dropWhile_stop:
  "x \<noteq> [] \<Longrightarrow> \<not> P (hd x) \<Longrightarrow> dropWhile P (pre @ x @ post) = dropWhile P pre @ x @ post"
  by (induction pre) (auto simp: neq_Nil_conv)

lemma trim_between:
  assumes "x \<noteq> []" "\<not> is_whitespace (hd x)" "\<not> is_whitespace (last x)"
  shows "trim (pre @ x @ post)
    = dropWhile is_whitespace pre @ x @ rev (dropWhile is_whitespace (rev post))"
  using dropWhile_stop [of x is_whitespace pre post]
    dropWhile_stop [of "rev x" is_whitespace "rev post"] assms
  by (simp add: trim_def hd_rev)

text \<open>Answer extraction. A JSON text without backquotes that the model wraps in a fenced
  block, with any prose before it that has no backquote and anything after it, is extracted
  without the whitespace around it.\<close>

theorem extract_json_fenced:
  assumes "CHR 0x60 \<notin> set pre" "CHR 0x60 \<notin> set j"
  shows "extract_json (pre @ fence @ ''json'' @ j @ fence @ post) = trim j"
proof -
  let ?pre = "dropWhile is_whitespace pre" and ?post = "rev (dropWhile is_whitespace (rev post))"
  let ?open = "fence @ ''json''"
  have t: "trim (pre @ (?open @ j @ fence) @ post) = ?pre @ (?open @ j @ fence) @ ?post"
    by (rule trim_between) (simp_all add: fence_def is_whitespace_def)
  have bq: "CHR 0x60 \<notin> set ?pre" using assms(1) set_dropWhileD by fast
  have "str_find (?pre @ ?open @ (j @ fence @ ?post)) ?open = Some (length ?pre)"
    using str_find_skip [of ?open ?pre "?open @ (j @ fence @ ?post)"]
      str_find_here [of ?open "j @ fence @ ?post"] bq
    by (simp add: fence_def)
  moreover have "str_find (j @ fence @ ?post) fence = Some (length j)"
    using str_find_skip [of fence j "fence @ ?post"] str_find_here [of fence ?post] assms(2)
    by (simp add: fence_def)
  ultimately have "fenced ?open (?pre @ (?open @ j @ fence) @ ?post) = Some (trim j)"
    by (simp add: fenced_def)
  then show ?thesis using t by (simp add: extract_json_def)
qed

theorem extract_json_fenced_witness:
  "extract_json (''Sure: '' @ fence @ ''json'' @ '' {} '' @ fence @ '' bye'') = ''{}''"
  using extract_json_fenced [of "''Sure: ''" "'' {} ''" "'' bye''"]
  by (simp add: trim_def is_whitespace_def)

section \<open>Streaming\<close>

lemma concat_stream_tokens: "concat (stream_tokens ws) = join_strings '' '' ws"
proof -
  have "concat (map (\<lambda>(i, w). if i < k + length ws - 1 then w @ '' '' else w) (enumerate k ws))
      = join_strings '' '' ws" for k
  proof (induction ws arbitrary: k)
    case (Cons w ws)
    show ?case using Cons [of "Suc k"] by (cases ws) simp_all
  qed simp
  from this [of 0] show ?thesis by (simp add: stream_tokens_def)
qed

end
