(* ===== verification/Gepa.thy ===== *)
theory Gepa
  imports Llm_Predictor
begin

text \<open>
  Prompt optimization (\<open>acdp-llm/src/gepa_optimizer.rs\<close>): the opportunistic optimizer, which
  looks at the last predictions of a tool and writes an improved prompt when their accuracy is
  low, and the training loop over a module. The module's forward step is a parameter indexed by
  the iteration and by whether it runs for the evaluation; the text of a trace list is the
  parameter \<open>ser\<close>. What a call reads from the clock, the identifier source and the database
  driver is the record \<open>gepa_call\<close>.
\<close>

section \<open>State\<close>

record GEPAOptimizer =
  has_lm_provider :: bool
  optimization_history :: "OptimizationIteration list"
  max_iterations :: nat
  improvement_threshold :: fp
  min_window_size :: nat
  trigger_accuracy :: fp
  cooldown :: int
  recent_runs :: "string \<rightharpoonup> datetime"

definition f64_lit :: "rat \<Rightarrow> fp" where
  "f64_lit q = fp_round binary64 False q"

definition GEPAOptimizer_new :: "bool \<Rightarrow> GEPAOptimizer" where
  "GEPAOptimizer_new provider = \<lparr>has_lm_provider = provider, optimization_history = [],
     max_iterations = 10, improvement_threshold = f64_lit (1 / 10), min_window_size = 20,
     trigger_accuracy = f64_lit (85 / 100), cooldown = 15 * 60 * 1000000000,
     recent_runs = Map.empty\<rparr>"

record gepa_call =
  gc_history :: sql_outcome
  gc_check_now :: datetime
  gc_recent :: sql_outcome
  gc_record_now :: datetime
  gc_uuid :: string
  gc_insert :: sql_outcome
  gc_run_now :: datetime

section \<open>Accuracy and prompts\<close>

definition settled :: "PredictionRecord list \<Rightarrow> bool list" where
  "settled rs = List.map_filter correct rs"

definition compute_accuracy :: "PredictionRecord list \<Rightarrow> fp option" where
  "compute_accuracy rs = (let counted = length (settled rs); good = length (filter id (settled rs))
     in if counted = 0 then None
        else Some (fp_div binary64 (fp_of_nat binary64 good) (fp_of_nat binary64 counted)))"

definition collect_failure_patterns :: "PredictionRecord list \<Rightarrow> string list" where
  "collect_failure_patterns rs =
     List.map_filter (\<lambda>r. Option.bind (value_get (prediction_data r) ''reasoning'') as_str)
       (filter (\<lambda>r. correct r = Some False) rs)"

definition percent :: "fp \<Rightarrow> string" where
  "percent x = show_fixed 1 (fp_mul binary64 x (f64_lit 100))"

definition synthesize_prompt :: "string \<Rightarrow> string \<Rightarrow> string list \<Rightarrow> fp option \<Rightarrow> string" where
  "synthesize_prompt module_name baseline failures accuracy =
     ''### Optimized prompt for '' @ module_name @ nl @ baseline @ nl @ nl @ ''Guidance:'' @ nl
   @ (if failures = [] then
        ''- Emphasize validating MCP arguments and prefer deterministic routing rules.'' @ nl
      else concat (map (\<lambda>f. ''- Address failure: '' @ f @ nl) (take 5 failures)))
   @ (case accuracy of None \<Rightarrow> []
      | Some acc \<Rightarrow> ''- Current accuracy '' @ percent acc @ ''%; aim to exceed ''
          @ percent (fp_min (fp_add binary64 acc (f64_lit (1 / 10))) (f64_lit (95 / 100))) @ ''%.'' @ nl)"

section \<open>Opportunistic optimization\<close>

definition next_iteration ::
  "gepa_call \<Rightarrow> string \<Rightarrow> PredictionRecord list \<Rightarrow> PredictionRecord list
     \<Rightarrow> GepaOptimizationRecord option \<Rightarrow> OptimizationIteration" where
  "next_iteration k module_name recent previous last_record =
     (let recent_accuracy = compute_accuracy recent;
          previous_accuracy = compute_accuracy previous;
          failures = collect_failure_patterns recent;
          baseline = (case last_record of Some r \<Rightarrow> gepa_optimized_prompt r
                      | None \<Rightarrow> ''Default prompt for '' @ module_name) in
      \<lparr>iteration = (case last_record of Some r \<Rightarrow> nat (gepa_iteration r mod 2 ^ 64) + 1 | None \<Rightarrow> 1),
       original_prompt = baseline,
       optimized_prompt = synthesize_prompt module_name baseline failures recent_accuracy,
       expected_improvement = (case recent_accuracy of
          Some acc \<Rightarrow> fp_clamp (Fin False 0) (f64_lit (1 / 2)) (fp_sub binary64 (f64_lit 1) acc)
        | None \<Rightarrow> f64_lit (1 / 10)),
       actual_improvement = (case (recent_accuracy, previous_accuracy) of
          (Some current, Some previous) \<Rightarrow> Some (fp_sub binary64 current previous) | _ \<Rightarrow> None),
       oi_reasoning = ''Recent accuracy '' @ percent (or_zero recent_accuracy) @ ''% with ''
         @ show_nat (length failures)
         @ '' tracked failures. Updated prompt emphasizes remediation for the most common mistakes.'',
       oi_timestamp = gc_record_now k\<rparr>)"

definition cooling_down :: "GEPAOptimizer \<Rightarrow> datetime \<Rightarrow> string \<Rightarrow> bool" where
  "cooling_down G now module_name = (case recent_runs G module_name of
     None \<Rightarrow> False | Some last_run \<Rightarrow> now - last_run < cooldown G)"

definition accurate_enough :: "GEPAOptimizer \<Rightarrow> PredictionRecord list \<Rightarrow> bool" where
  "accurate_enough G recent = (case compute_accuracy recent of
     None \<Rightarrow> False | Some acc \<Rightarrow> fp_le (trigger_accuracy G) acc)"

definition maybe_optimize_tool ::
  "gepa_call \<Rightarrow> string \<Rightarrow> predictions_table \<Rightarrow> GEPAOptimizer \<times> gepa_table
     \<Rightarrow> (LlmError + OptimizationIteration option) \<times> GEPAOptimizer \<times> gepa_table" where
  "maybe_optimize_tool k module_name preds st = (case st of (G, tbl) \<Rightarrow>
     (let w = min_window_size G in
      case get_predictions_by_tool (gc_history k) module_name (int (w * 2)) preds of
        Inl e \<Rightarrow> (Inl e, G, tbl)
      | Inr history \<Rightarrow>
         (if length history < w * 2 then (Inr None, G, tbl)
          else if cooling_down G (gc_check_now k) module_name then (Inr None, G, tbl)
          else if accurate_enough G (take w history) then (Inr None, G, tbl)
          else
            (case get_recent_optimizations (gc_recent k) module_name 1 tbl of
               Inl e \<Rightarrow> (Inl e, G, tbl)
             | Inr rows \<Rightarrow>
                (let it = next_iteration k module_name (take w history) (take w (drop w history))
                            (if rows = [] then None else Some (last rows));
                     tbl' = snd (record_optimization (gc_uuid k) (gc_insert k) module_name it tbl)
                 in (Inr (Some it), G\<lparr>recent_runs := (recent_runs G)(module_name \<mapsto> gc_run_now k)\<rparr>,
                     tbl'))))))"

section \<open>Training loop\<close>

record ('ex, 'p) ExecutionTrace =
  et_input :: 'ex
  et_prediction :: 'p
  execution_time_ms :: u64
  et_success :: bool
  et_error_message :: "string option"
  et_timestamp :: datetime

record PromptOptimizationResult =
  por_optimized_prompt :: string
  por_expected_improvement :: fp
  por_reasoning :: string

record OptimizationResult =
  or_iterations :: "OptimizationIteration list"
  final_improvement :: fp
  or_success :: bool
  or_total_time_ms :: u64

record ('ex, 'p) gepa_module =
  gm_forward :: "nat \<Rightarrow> bool \<Rightarrow> 'ex \<Rightarrow> string + 'p"
  gm_ser :: "('ex, 'p) ExecutionTrace list \<Rightarrow> string + string"
  gm_now :: "nat \<Rightarrow> datetime"
  gm_elapsed :: "nat \<Rightarrow> 'ex \<Rightarrow> u64"

definition evaluate_prediction_success :: "'ex \<Rightarrow> 'p \<Rightarrow> bool" where
  "evaluate_prediction_success example prediction = True"

definition extract_current_prompt :: string where
  "extract_current_prompt = ''Current prompt placeholder''"

fun generate_execution_traces ::
  "('ex, 'p) gepa_module \<Rightarrow> nat \<Rightarrow> 'ex list \<Rightarrow> LlmError + ('ex, 'p) ExecutionTrace list" where
  "generate_execution_traces M i [] = Inr []"
| "generate_execution_traces M i (ex # exs) =
     and_then (map_err LlmPredictionError (gm_forward M i False ex))
       (\<lambda>p. let ok = evaluate_prediction_success ex p;
                trace = \<lparr>et_input = ex, et_prediction = p, execution_time_ms = gm_elapsed M i ex, et_success = ok,
                  et_error_message = (if ok then None else Some ''Prediction failed evaluation''),
                  et_timestamp = gm_now M i\<rparr>
            in and_then (generate_execution_traces M i exs) (\<lambda>ts. Inr (trace # ts)))"

definition optimize_prompt_iteration ::
  "GEPAOptimizer \<Rightarrow> ('ex, 'p) gepa_module \<Rightarrow> string \<Rightarrow> ('ex, 'p) ExecutionTrace list
     \<Rightarrow> LlmError + PromptOptimizationResult" where
  "optimize_prompt_iteration G M prompt traces =
     and_then (if has_lm_provider G then map_err LlmSerializationError (gm_ser M traces) else Inr [])
       (\<lambda>_. Inr \<lparr>por_optimized_prompt = prompt @ nl @ nl
            @ ''Reminder: highlight common MCP failure modes and enumerate guard rails for tool routing.'',
          por_expected_improvement = f32_lit (5 / 100),
          por_reasoning = ''LiteRT provider unavailable; applied heuristic GEPA fallback.''\<rparr>)"

fun count_successes ::
  "('ex, 'p) gepa_module \<Rightarrow> nat \<Rightarrow> 'ex list \<Rightarrow> LlmError + nat" where
  "count_successes M i [] = Inr 0"
| "count_successes M i (ex # exs) =
     and_then (map_err LlmPredictionError (gm_forward M i True ex))
       (\<lambda>p. and_then (count_successes M i exs)
          (\<lambda>n. Inr (if evaluate_prediction_success ex p then Suc n else n)))"

definition evaluate_improvement ::
  "('ex, 'p) gepa_module \<Rightarrow> nat \<Rightarrow> 'ex list \<Rightarrow> LlmError + fp" where
  "evaluate_improvement M i exs = and_then (count_successes M i exs)
     (\<lambda>n. Inr (fp_div binary32 (fp_of_nat binary32 n) (fp_of_nat binary32 (length exs))))"

text \<open>The rounds \<open>i\<close>, \<open>i + 1\<close>, \dots of the loop; \<open>best\<close> is the best improvement so
  far and \<open>fuel\<close> the rounds left of \<open>1..=max_iterations\<close>.\<close>

fun optimize_rounds ::
  "GEPAOptimizer \<Rightarrow> ('ex, 'p) gepa_module \<Rightarrow> 'ex list \<Rightarrow> nat \<Rightarrow> nat \<Rightarrow> string \<Rightarrow> fp
     \<Rightarrow> OptimizationIteration list \<Rightarrow> LlmError + OptimizationIteration list \<times> fp" where
  "optimize_rounds G M exs 0 i prompt best its = Inr (its, best)"
| "optimize_rounds G M exs (Suc fuel) i prompt best its =
     and_then (generate_execution_traces M i exs) (\<lambda>traces.
     and_then (optimize_prompt_iteration G M prompt traces) (\<lambda>res.
     and_then (evaluate_improvement M i exs) (\<lambda>actual.
       let it = \<lparr>iteration = i, original_prompt = prompt,
                 optimized_prompt = por_optimized_prompt res,
                 expected_improvement = por_expected_improvement res,
                 actual_improvement = Some actual, oi_reasoning = por_reasoning res,
                 oi_timestamp = gm_now M i\<rparr>;
           better = fp_lt best actual;
           best' = (if better then actual else best);
           prompt' = (if better then por_optimized_prompt res else prompt)
       in if fp_le (improvement_threshold G) actual then Inr (its @ [it], best')
          else optimize_rounds G M exs fuel (Suc i) prompt' best' (its @ [it]))))"

definition optimize_module ::
  "GEPAOptimizer \<Rightarrow> ('ex, 'p) gepa_module \<Rightarrow> u64 \<Rightarrow> 'ex list \<Rightarrow> LlmError + OptimizationResult" where
  "optimize_module G M elapsed exs =
     and_then (optimize_rounds G M exs (max_iterations G) 1 extract_current_prompt (Fin False 0) [])
       (\<lambda>(its, best). Inr \<lparr>or_iterations = its, final_improvement = best,
          or_success = fp_le (improvement_threshold G) best, or_total_time_ms = elapsed\<rparr>)"

section \<open>When a tool is optimized\<close>

lemma compute_accuracy_unit:
  assumes "length rs \<le> 2 ^ 53" "compute_accuracy rs = Some a"
  shows "fp_upto 1 a"
proof -
  have sub: "length (settled rs) \<le> length rs" by (induction rs) (auto simp: settled_def map_filter_simps split: option.splits)
  then have ex: "n \<le> length (settled rs) \<Longrightarrow> exact binary64 (of_nat n)" for n
    using assms(1) by (simp add: exact64_nat)
  have one: "exact binary64 1" using exact64_nat [of 1] by simp
  have le: "length (filter id (settled rs)) \<le> length (settled rs)" by simp
  have n0: "settled rs \<noteq> []" and
    a: "a = fp_div binary64 (fp_of_nat binary64 (length (filter id (settled rs))))
          (fp_of_nat binary64 (length (settled rs)))"
    using assms(2) by (auto simp: compute_accuracy_def Let_def split: if_splits)
  show ?thesis unfolding a
    by (rule fp_div_upto [of "of_nat (length (settled rs))"])
      (use n0 le ex one in \<open>auto simp: fp_of_nat_exact fp_upto_def\<close>)
qed

text \<open>Optimization gate. The optimizer writes a new prompt for a tool only when the tool has
  two full windows of predictions, its last run is at least the cooldown ago, and the accuracy of
  the recent window is known to be below the trigger or unknown; the new record continues the
  numbering of the stored one. In every other case nothing changes.\<close>

theorem optimization_gate:
  "case maybe_optimize_tool k m preds (G, tbl) of
     (Inr (Some it), G', tbl') \<Rightarrow>
       2 * min_window_size G \<le> length (filter (\<lambda>r. predicted_tool r = m) preds) \<and>
       (\<forall>last_run. recent_runs G m = Some last_run \<longrightarrow> last_run + cooldown G \<le> gc_check_now k) \<and>
       (\<exists>recent. length recent = min_window_size G \<and> set recent \<subseteq> {r \<in> set preds. predicted_tool r = m} \<and>
         (\<forall>acc. compute_accuracy recent = Some acc \<longrightarrow> \<not> fp_le (trigger_accuracy G) acc)) \<and>
       G' = G\<lparr>recent_runs := (recent_runs G)(m \<mapsto> gc_run_now k)\<rparr> \<and>
       (gc_insert k = None \<longrightarrow> (\<exists>row. tbl' = tbl @ [row] \<and> gepa_module_name row = m \<and>
          gepa_optimized_prompt row = optimized_prompt it)) \<and>
       (gc_insert k \<noteq> None \<longrightarrow> tbl' = tbl)
   | (_, G', tbl') \<Rightarrow> G' = G \<and> tbl' = tbl"
proof -
  let ?w = "min_window_size G"
  let ?mine = "filter (\<lambda>r. predicted_tool r = m) preds"
  let ?hist = "take (2 * ?w) (order_desc pr_timestamp ?mine)"
  have hist: "get_predictions_by_tool None m (int ?w * 2) preds = Inr ?hist"
    by (simp add: get_predictions_by_tool_def sql_select_def sql_limit_def mult.commute
        nat_mult_distrib)
  have len: "length (order_desc pr_timestamp ?mine) = length ?mine"
    and set: "set (take ?w ?hist) \<subseteq> {r \<in> set preds. predicted_tool r = m}"
    by (auto simp: order_desc_def dest!: in_set_takeD)
  have recent: "\<exists>recent. length recent = ?w \<and> set recent \<subseteq> {r \<in> set preds. predicted_tool r = m} \<and>
      (\<forall>acc. compute_accuracy recent = Some acc \<longrightarrow> \<not> fp_le (trigger_accuracy G) acc)"
    if "\<not> accurate_enough G (take ?w ?hist)" "2 * ?w \<le> length ?mine"
    using that set len
    by (intro exI [of _ "take ?w ?hist"]) (auto simp: accurate_enough_def)
  have ins: "snd (record_optimization (gc_uuid k) (gc_insert k) m it tbl) =
      (case gc_insert k of Some _ \<Rightarrow> tbl | None \<Rightarrow> tbl @ [\<lparr>gepa_id = gc_uuid k, gepa_module_name = m,
        gepa_iteration = wrap_i64 (int (iteration it)), gepa_original_prompt = original_prompt it,
        gepa_optimized_prompt = optimized_prompt it,
        gepa_expected_improvement = expected_improvement it,
        gepa_actual_improvement = actual_improvement it,
        gepa_reasoning = Some (oi_reasoning it), gepa_timestamp = oi_timestamp it\<rparr>])" for it
    by (simp add: record_optimization_def sql_insert_def split: option.splits)
  show ?thesis
  proof (cases "gc_history k")
    case (Some e)
    then show ?thesis by (simp add: maybe_optimize_tool_def get_predictions_by_tool_def sql_select_def)
  next
    case None
    show ?thesis
    proof (cases "length ?hist < ?w * 2 \<or> cooling_down G (gc_check_now k) m
        \<or> accurate_enough G (take ?w ?hist) \<or> gc_recent k \<noteq> None")
      case True
      then show ?thesis using None
        by (auto simp: maybe_optimize_tool_def hist get_recent_optimizations_def sql_select_def Let_def)
    next
      case False
      then have "2 * ?w \<le> length ?mine" by (auto simp: len)
      moreover have "\<forall>last_run. recent_runs G m = Some last_run \<longrightarrow> last_run + cooldown G \<le> gc_check_now k"
        using False by (auto simp: cooling_down_def)
      ultimately show ?thesis using None False recent
        by (auto simp: maybe_optimize_tool_def hist get_recent_optimizations_def sql_select_def
            Let_def ins split: option.splits)
    qed
  qed
qed

section \<open>What the training loop measures\<close>

lemma count_successes_all:
  "(\<And>ex. ex \<in> set exs \<Longrightarrow> \<exists>p. gm_forward M i True ex = Inr p)
   \<Longrightarrow> count_successes M i exs = Inr (length exs)"
  by (induction exs) (fastforce simp: evaluate_prediction_success_def)+

lemma generate_traces_all:
  "(\<And>ex. ex \<in> set exs \<Longrightarrow> \<exists>p. gm_forward M i False ex = Inr p)
   \<Longrightarrow> \<exists>ts. generate_execution_traces M i exs = Inr ts"
  by (induction exs) (fastforce simp: Let_def)+

lemma self_division:
  assumes "0 < n" "n \<le> 2 ^ 24"
  shows "fp_div binary32 (fp_of_nat binary32 n) (fp_of_nat binary32 n) = Fin False 1"
proof -
  have "fp_of_nat binary32 n = Fin False (of_nat n)" by (rule fp_of_nat_exact) (rule exact32_nat [OF assms(2)])
  moreover have "exact binary32 1" using exact32_nat [of 1] by simp
  ultimately show ?thesis using assms by (simp add: fp_round_def exact_def)
qed

text \<open>Vacuous training. The training loop never looks at a prediction: on at least one
  example (and at most 2 to the power of 24), whenever the module answers and its traces can be
  serialized, it reports success with an improvement of 1 after a single round. Without examples
  it runs all its rounds and reports failure.\<close>

theorem training_vacuous:
  assumes "\<And>i b ex. \<exists>p. gm_forward M i b ex = Inr p" "\<And>ts. \<exists>s. gm_ser M ts = Inr s"
    "length exs \<le> 2 ^ 24"
  shows "\<exists>its. optimize_module (GEPAOptimizer_new provider) M elapsed exs = Inr
     (if exs = [] then \<lparr>or_iterations = its, final_improvement = Fin False 0, or_success = False,
        or_total_time_ms = elapsed\<rparr>
      else \<lparr>or_iterations = its, final_improvement = Fin False 1, or_success = True,
        or_total_time_ms = elapsed\<rparr>)
     \<and> length its = (if exs = [] then 10 else 1)"
proof -
  let ?G = "GEPAOptimizer_new provider"
  have traces: "\<exists>ts. generate_execution_traces M i exs = Inr ts" for i
    by (rule generate_traces_all) (rule assms(1))
  have prompt: "\<exists>r. optimize_prompt_iteration ?G M p ts = Inr r" for p ts
    using assms(2) [of ts] by (auto simp: optimize_prompt_iteration_def)
  have count: "count_successes M i exs = Inr (length exs)" for i
    by (rule count_successes_all) (rule assms(1))
  have thr: "improvement_threshold ?G = fp_round binary64 False (1 / 10)"
    by (simp add: GEPAOptimizer_new_def f64_lit_def)
  have mx: "max_iterations ?G = 10" by (simp add: GEPAOptimizer_new_def)
  have thr_val: "fp_round binary64 False (1 / 10) = Fin False (3602879701896397 / 36028797018963968)"
    by code_simp
  show ?thesis
  proof (cases "exs = []")
    case True
    have nan: "evaluate_improvement M i exs = Inr NaN" for i
      using True by (simp add: evaluate_improvement_def fp_of_nat_def fp_of_rat_def)
    have "\<exists>its'. optimize_rounds ?G M exs n i p (Fin False 0) its = Inr (its', Fin False 0)
        \<and> length its' = length its + n" for n i p its
    proof (induction n arbitrary: i p its)
      case (Suc n)
      obtain ts r where "generate_execution_traces M i exs = Inr ts"
        "optimize_prompt_iteration ?G M p ts = Inr r" using traces prompt by metis
      moreover obtain its' where "optimize_rounds ?G M exs n (Suc i) p (Fin False 0)
          (its @ [\<lparr>iteration = i, original_prompt = p, optimized_prompt = por_optimized_prompt r,
             expected_improvement = por_expected_improvement r, actual_improvement = Some NaN,
             oi_reasoning = por_reasoning r, oi_timestamp = gm_now M i\<rparr>]) = Inr (its', Fin False 0)"
        "length its' = Suc (length its) + n"
        using Suc [of "Suc i" p "its @ [_]"] by force
      ultimately show ?case by (simp add: nan Let_def thr thr_val fp_lt_def)
    qed simp
    from this [of 10 1 extract_current_prompt "[]"] show ?thesis
      using True mx by (auto simp: optimize_module_def thr thr_val fp_val_def)
  next
    case False
    have one: "evaluate_improvement M i exs = Inr (Fin False 1)" for i
      using False assms(3) by (simp add: evaluate_improvement_def count self_division)
    obtain ts r where "generate_execution_traces M 1 exs = Inr ts"
      "optimize_prompt_iteration ?G M extract_current_prompt ts = Inr r" using traces prompt by metis
    moreover obtain n where "max_iterations ?G = Suc n" using mx by (cases "max_iterations ?G") auto
    ultimately show ?thesis using False
      by (simp add: optimize_module_def one Let_def thr thr_val fp_lt_def fp_val_def)
  qed
qed

definition sample_module :: "(nat, nat) gepa_module" where
  "sample_module = \<lparr>gm_forward = (\<lambda>i b ex. Inr ex), gm_ser = (\<lambda>ts. Inr []), gm_now = (\<lambda>i. 0),
     gm_elapsed = (\<lambda>i ex. 0)\<rparr>"

theorem training_vacuous_witness:
  "\<exists>r. optimize_module (GEPAOptimizer_new True) sample_module 5 [7] = Inr r \<and> or_success r"
  using training_vacuous [of sample_module "[7]" True 5] by (auto simp: sample_module_def)

end
