(* ===== verification/Rate_Limit.thy ===== *)
theory Rate_Limit
  imports Interceptor
begin

text \<open>
  The sliding-window rate limiter and its interceptor
  (\<open>acdp-transport/src/interceptors/rate_limit.rs\<close>). Instants of the monotonic clock
  are nanoseconds; subtracting a duration panics when the seconds leave the \<open>i64\<close> range of
  the clock's representation. \<open>usize\<close> has 64 bits.
\<close>

section \<open>The limiter\<close>

type_synonym instant = int

definition instant_sub :: "instant \<Rightarrow> u64 \<Rightarrow> instant rust" where
  "instant_sub now secs =
     (let t = now - uint secs * 1000000000
      in if in_i64 (t div 1000000000) then Done t else Panic)"

record RateLimiter =
  max_requests :: u64
  window_secs :: u64
  request_history :: "string \<rightharpoonup> instant list"

definition RateLimiter_new :: "u64 \<Rightarrow> u64 \<Rightarrow> RateLimiter" where
  "RateLimiter_new n w = \<lparr>max_requests = n, window_secs = w, request_history = Map.empty\<rparr>"

definition history_of :: "RateLimiter \<Rightarrow> string \<Rightarrow> instant list" where
  "history_of L m = (case request_history L m of Some h \<Rightarrow> h | None \<Rightarrow> [])"

definition check_and_record :: "RateLimiter \<Rightarrow> instant \<Rightarrow> string \<Rightarrow> (bool \<times> RateLimiter) rust" where
  "check_and_record L now m =
     (case instant_sub now (window_secs L) of
        Panic \<Rightarrow> Panic
      | Done window_start \<Rightarrow>
          let history = filter (\<lambda>t. t > window_start) (history_of L m)
          in if length history < unat (max_requests L)
             then Done (True, L\<lparr>request_history := (request_history L)(m \<mapsto> history @ [now])\<rparr>)
             else Done (False, L\<lparr>request_history := (request_history L)(m \<mapsto> history)\<rparr>))"

definition get_current_rate :: "RateLimiter \<Rightarrow> instant \<Rightarrow> string \<Rightarrow> nat rust" where
  "get_current_rate L now m =
     (case instant_sub now (window_secs L) of
        Panic \<Rightarrow> Panic
      | Done window_start \<Rightarrow>
          Done (case request_history L m of
                  Some history \<Rightarrow> length (filter (\<lambda>t. t > window_start) history)
                | None \<Rightarrow> 0))"

section \<open>The interceptor\<close>

record RateLimitInterceptor =
  rli_name :: string
  rli_stats :: InterceptorStats
  limiter :: RateLimiter

definition RateLimitInterceptor_new :: "u64 \<Rightarrow> u64 \<Rightarrow> RateLimitInterceptor" where
  "RateLimitInterceptor_new n w = \<lparr>rli_name = ''RateLimitInterceptor'',
     rli_stats = InterceptorStats_default, limiter = RateLimiter_new n w\<rparr>"

definition permissive :: RateLimitInterceptor where
  "permissive = RateLimitInterceptor_new 100 60"

definition moderate :: RateLimitInterceptor where
  "moderate = RateLimitInterceptor_new 30 60"

definition strict :: RateLimitInterceptor where
  "strict = RateLimitInterceptor_new 10 60"

definition rl_priority :: "RateLimitInterceptor \<Rightarrow> u32" where
  "rl_priority _ = 30"

definition rl_should_intercept :: "RateLimitInterceptor \<Rightarrow> MessageContext \<Rightarrow> bool" where
  "rl_should_intercept _ c \<longleftrightarrow>
     (case ctx_direction c of Outgoing \<Rightarrow> True | _ \<Rightarrow> False) \<and> ctx_method c \<noteq> None"

definition rl_intercept ::
  "f64_ops \<Rightarrow> RateLimitInterceptor \<Rightarrow> call_env \<Rightarrow> MessageContext
     \<Rightarrow> (('err + InterceptionResult) \<times> RateLimitInterceptor) rust" where
  "rl_intercept F i e c =
     (let method = (case ctx_method c of Some m \<Rightarrow> m | None \<Rightarrow> ''unknown'') in
      case check_and_record (limiter i) (at_check e) method of
        Panic \<Rightarrow> Panic
      | Done (allowed, L) \<Rightarrow>
        (case get_current_rate L (at_rate e) method of
           Panic \<Rightarrow> Panic
         | Done current_rate \<Rightarrow>
             let stats = note_call F e (rli_stats i) in
             if allowed then
               Done (Inr (pass_through (ctx_message c)), i\<lparr>limiter := L, rli_stats := stats\<rparr>)
             else
               let stats = stats\<lparr>total_blocked := total_blocked stats + 1\<rparr>
               in Done (Inr (blocked (''Rate limit exceeded for method '' @ [CHR 0x27] @ method
                          @ [CHR 0x27] @ '' ('' @ show_nat current_rate @ ''/window)'')),
                        i\<lparr>limiter := L, rli_stats := stats\<rparr>)))"

section \<open>The sliding window\<close>

text \<open>A run of the limiter on requests with their times, and the times of the accepted requests
  of a method.\<close>

fun limiter_run :: "RateLimiter \<Rightarrow> (instant \<times> string) list \<Rightarrow> (bool list \<times> RateLimiter) rust" where
  "limiter_run L [] = Done ([], L)"
| "limiter_run L ((t, m) # rs) =
     (case check_and_record L t m of
        Panic \<Rightarrow> Panic
      | Done (ok, L') \<Rightarrow> map_rust (map_prod (Cons ok) id) (limiter_run L' rs))"

definition accepted :: "string \<Rightarrow> (instant \<times> string) list \<Rightarrow> bool list \<Rightarrow> instant list" where
  "accepted m rs oks = map (fst \<circ> fst) (filter (\<lambda>((t, m'), ok). ok \<and> m' = m) (zip rs oks))"

definition in_window :: "int \<Rightarrow> instant \<Rightarrow> instant \<Rightarrow> bool" where
  "in_window w t x \<longleftrightarrow> t - w < x \<and> x \<le> t"

definition window_ns :: "RateLimiter \<Rightarrow> int" where
  "window_ns L = uint (window_secs L) * 1000000000"

lemma instant_sub_Done: "instant_sub now w = Done t \<Longrightarrow> t = now - uint w * 1000000000"
  by (simp add: instant_sub_def Let_def split: if_splits)

text \<open>The invariant, for a method with accepted times \<open>acc\<close> when the clock has reached \<open>now\<close>:
  the stored history agrees with the accepted times inside the window, and no window holds
  more than the limit.\<close>

definition window_inv :: "RateLimiter \<Rightarrow> instant \<Rightarrow> string \<Rightarrow> instant list \<Rightarrow> bool" where
  "window_inv L now m acc \<longleftrightarrow>
     filter (\<lambda>x. now - window_ns L < x) (history_of L m) = filter (\<lambda>x. now - window_ns L < x) acc
     \<and> (\<forall>x\<in>set acc. x \<le> now)
     \<and> (\<forall>t. length (filter (in_window (window_ns L) t) acc) \<le> unat (max_requests L))"

lemma window_inv_later:
  assumes "window_inv L now m acc" and "now \<le> later"
  shows "window_inv L later m acc"
proof -
  let ?P = "\<lambda>s x. s - window_ns L < x"
  have "filter (?P later) xs = filter (?P later) (filter (?P now) xs)" for xs
    using assms(2) by (simp add: filter_filter cong: conj_cong) (rule filter_cong, auto)
  with assms show ?thesis unfolding window_inv_def by (metis order_trans)
qed

lemma check_and_record_Done:
  assumes "check_and_record L now m = Done (ok, L')"
  shows "let h = filter (\<lambda>t. now - window_ns L < t) (history_of L m) in
      (ok \<longleftrightarrow> length h < unat (max_requests L))
      \<and> L' = L\<lparr>request_history := (request_history L)(m \<mapsto> if ok then h @ [now] else h)\<rparr>"
  using assms
  by (auto simp: check_and_record_def window_ns_def Let_def dest!: instant_sub_Done
      split: rust.splits if_splits)

lemma check_keeps:
  assumes "check_and_record L now m = Done (ok, L')"
  shows "max_requests L' = max_requests L" "window_secs L' = window_secs L"
    "window_ns L' = window_ns L" "m' \<noteq> m \<Longrightarrow> history_of L' m' = history_of L m'"
  using check_and_record_Done [OF assms] by (simp_all add: Let_def window_ns_def history_of_def)

text \<open>The accepted times in the window ending now are those the limiter counts.\<close>

lemma window_now:
  assumes "window_inv L now m acc"
  shows "filter (\<lambda>t. now - window_ns L < t) (history_of L m) = filter (in_window (window_ns L) now) acc"
  using assms by (auto simp: window_inv_def in_window_def intro: filter_cong)

lemma window_push:
  assumes acc: "\<forall>x\<in>set acc. x \<le> now"
    and room: "length (filter (in_window w now) acc) < n"
    and old: "\<And>t. length (filter (in_window w t) acc) \<le> n"
  shows "length (filter (in_window w t) (acc @ [now])) \<le> n"
proof (cases "in_window w t now")
  case False
  with old show ?thesis by simp
next
  case True
  then have "length (filter (in_window w t) acc) \<le> length (filter (in_window w now) acc)"
    using acc by (induction acc) (auto simp: in_window_def)
  with room True show ?thesis by simp
qed

lemma check_step:
  assumes c: "check_and_record L now m = Done (ok, L')" and inv: "window_inv L now m acc"
  shows "ok \<longleftrightarrow> length (filter (in_window (window_ns L) now) acc) < unat (max_requests L)"
    and "window_inv L' now m (if ok then acc @ [now] else acc)"
proof -
  let ?P = "\<lambda>t. now - window_ns L < t"
  let ?h = "filter ?P (history_of L m)"
  note D = check_and_record_Done [OF c, unfolded Let_def]
  note W = window_now [OF inv]
  show ok: "ok \<longleftrightarrow> length (filter (in_window (window_ns L) now) acc) < unat (max_requests L)"
    using D W by simp
  have h: "history_of L' m = (if ok then ?h @ [now] else ?h)"
    using D by (simp add: history_of_def)
  have eq: "filter ?P (history_of L m) = filter ?P acc" and le: "\<forall>x\<in>set acc. x \<le> now"
    and lim: "\<And>t. length (filter (in_window (window_ns L) t) acc) \<le> unat (max_requests L)"
    using inv by (auto simp: window_inv_def)
  have "filter ?P (history_of L' m) = filter ?P (if ok then acc @ [now] else acc)"
    unfolding h using eq by simp
  moreover have "length (filter (in_window (window_ns L) t) (if ok then acc @ [now] else acc))
      \<le> unat (max_requests L)" for t
    using window_push [OF le _ lim] lim ok by auto
  ultimately show "window_inv L' now m (if ok then acc @ [now] else acc)"
    using le unfolding window_inv_def check_keeps(1,3) [OF c] by auto
qed

lemma accepted_snoc:
  assumes "length rs = length oks"
  shows "accepted m (rs @ [(t, m')]) (oks @ [ok])
    = (if ok \<and> m' = m then accepted m rs oks @ [t] else accepted m rs oks)"
  using assms by (simp add: accepted_def)

lemma limiter_run_inv:
  assumes "limiter_run L rs = Done (oks, L')"
    and "\<And>m. window_inv L now m (accepted m ps pok)" and "length ps = length pok"
    and "sorted (now # map fst rs)"
  shows "length oks = length rs
    \<and> (\<forall>m t. length (filter (in_window (window_ns L) t) (accepted m (ps @ rs) (pok @ oks)))
              \<le> unat (max_requests L))
    \<and> (\<forall>k<length rs. oks ! k \<longleftrightarrow> length (filter (in_window (window_ns L) (fst (rs ! k)))
          (accepted (snd (rs ! k)) (ps @ take k rs) (pok @ take k oks))) < unat (max_requests L))"
  using assms
proof (induction rs arbitrary: L oks now ps pok)
  case Nil
  then show ?case by (simp add: window_inv_def)
next
  case (Cons r rs)
  obtain t m where r: "r = (t, m)" by (cases r)
  from Cons.prems(1) obtain ok L1 oks' where c: "check_and_record L t m = Done (ok, L1)"
    and rest: "limiter_run L1 rs = Done (oks', L')" and oks: "oks = ok # oks'"
    by (auto simp: r map_rust_Done split: rust.splits prod.splits)
  have now: "now \<le> t" "sorted (t # map fst rs)" using Cons.prems(4) by (auto simp: r)
  have inv: "window_inv L t m' (accepted m' ps pok)" for m'
    using window_inv_later [OF Cons.prems(2) now(1)] .
  have "window_inv L1 t m' (accepted m' (ps @ [r]) (pok @ [ok]))" for m'
  proof (cases "m' = m")
    case True
    with check_step(2) [OF c inv] show ?thesis by (simp add: r accepted_snoc Cons.prems(3))
  next
    case False
    with inv [of m'] check_keeps [OF c] show ?thesis
      by (simp add: r accepted_snoc Cons.prems(3) window_inv_def)
  qed
  from Cons.IH [OF rest this _ now(2)] Cons.prems(3)
  have IH: "length oks' = length rs
    \<and> (\<forall>m t. length (filter (in_window (window_ns L) t) (accepted m (ps @ r # rs) (pok @ ok # oks')))
              \<le> unat (max_requests L))
    \<and> (\<forall>k<length rs. oks' ! k \<longleftrightarrow> length (filter (in_window (window_ns L) (fst (rs ! k)))
          (accepted (snd (rs ! k)) (ps @ r # take k rs) (pok @ ok # take k oks'))) < unat (max_requests L))"
    by (simp add: check_keeps(1,3) [OF c])
  have "(ok # oks') ! k \<longleftrightarrow> length (filter (in_window (window_ns L) (fst ((r # rs) ! k)))
          (accepted (snd ((r # rs) ! k)) (ps @ take k (r # rs)) (pok @ take k (ok # oks'))))
          < unat (max_requests L)" if "k < length (r # rs)" for k
    using IH that check_step(1) [OF c inv] by (cases k) (simp_all add: r)
  with IH show ?case by (simp add: oks)
qed

section \<open>Properties\<close>

text \<open>C13 (sliding window). On a non-decreasing clock, no half-open window of the configured
  length contains more than \<open>max_requests\<close> accepted requests of a method, and a request is
  accepted exactly when the window ending at it contains fewer accepted requests of its
  method: the limiter neither over-admits nor refuses without cause, and methods do not
  influence each other.\<close>

theorem sliding_window_exact:
  assumes "limiter_run (RateLimiter_new n w) rs = Done (oks, L)" and "sorted (map fst rs)"
  shows "(length (filter (in_window (uint w * 1000000000) t) (accepted m rs oks)) \<le> unat n)
    \<and> (k < length rs \<longrightarrow> oks ! k \<longleftrightarrow>
      length (filter (in_window (uint w * 1000000000) (fst (rs ! k)))
        (accepted (snd (rs ! k)) (take k rs) (take k oks))) < unat n)"
proof -
  have "window_inv (RateLimiter_new n w) now m (accepted m [] [])" for m now
    by (simp add: window_inv_def accepted_def RateLimiter_new_def history_of_def)
  moreover obtain now where "sorted (now # map fst rs)"
    using assms(2) by (cases rs) (auto intro: that)
  ultimately have *: "length oks = length rs
    \<and> (\<forall>m t. length (filter (in_window (uint w * 1000000000) t) (accepted m rs oks)) \<le> unat n)
    \<and> (\<forall>k<length rs. oks ! k \<longleftrightarrow> length (filter (in_window (uint w * 1000000000) (fst (rs ! k)))
          (accepted (snd (rs ! k)) (take k rs) (take k oks))) < unat n)"
    using limiter_run_inv [OF assms(1), of now "[]" "[]"]
    by (simp add: RateLimiter_new_def window_ns_def)
  then show ?thesis by blast
qed

definition sample_requests :: "(instant \<times> string) list" where
  "sample_requests = [(0, ''m''), (500000000, ''m''), (600000000, ''m''), (700000000, ''n''),
     (1600000000, ''m'')]"

lemma sample_run:
  "\<exists>L. limiter_run (RateLimiter_new 2 1) sample_requests = Done ([True, True, False, True, True], L)"
  by (simp add: sample_requests_def check_and_record_def instant_sub_def in_i64_def
      RateLimiter_new_def history_of_def)

theorem sliding_window_exact_witness:
  "length (filter (in_window 1000000000 600000000)
     (accepted ''m'' sample_requests [True, True, False, True, True])) \<le> 2"
proof -
  obtain L where L: "limiter_run (RateLimiter_new 2 1) sample_requests
      = Done ([True, True, False, True, True], L)"
    using sample_run by blast
  have "sorted (map fst sample_requests)" by (simp add: sample_requests_def)
  from sliding_window_exact [OF L this, of 600000000 "''m''"] show ?thesis by simp
qed

end
