(* ===== verification/Transform.thy ===== *)
theory Transform
  imports Interceptor
begin

text \<open>
  Rule-based rewriting of messages (\<open>acdp-transport/src/interceptors/transform.rs\<close>):
  dotted paths into the parameters or the result of a message, the five operations, and the
  interceptor that applies the matching rules in order. Unicode case conversion is the
  parameter \<open>text_ops\<close>. \<open>checks\<close> tells whether the build has overflow checks, as in
  \<open>i64_add\<close>.
\<close>

section \<open>Paths\<close>

record text_ops =
  to_uppercase :: "string \<Rightarrow> string"
  to_lowercase :: "string \<Rightarrow> string"

primrec get_at_path :: "string list \<Rightarrow> json \<Rightarrow> json option" where
  "get_at_path [] v = Some v"
| "get_at_path (k # ks) v = (case value_get v k of None \<Rightarrow> None | Some c \<Rightarrow> get_at_path ks c)"

text \<open>\<open>get_at_path_mut\<close> followed by an assignment through the reference: the whole value with
  the target replaced, \<open>None\<close> when the path leads nowhere.\<close>

primrec update_at_path :: "string list \<Rightarrow> (json \<Rightarrow> json) \<Rightarrow> json \<Rightarrow> json option" where
  "update_at_path [] f v = Some (f v)"
| "update_at_path (k # ks) f v = (case v of
     Object m \<Rightarrow> (case obj_get m k of
         Some c \<Rightarrow> map_option (\<lambda>c'. Object (obj_insert k c' m)) (update_at_path ks f c)
       | None \<Rightarrow> None)
   | _ \<Rightarrow> None)"

text \<open>Mutate the object at a path; \<open>None\<close> when there is no object.\<close>

definition update_object :: "string list \<Rightarrow> (json obj \<Rightarrow> json obj) \<Rightarrow> json \<Rightarrow> json option" where
  "update_object p f v = (case get_at_path p v of
     Some parent \<Rightarrow> (case as_object parent of
         Some m \<Rightarrow> update_at_path p (\<lambda>_. Object (f m)) v | None \<Rightarrow> None)
   | None \<Rightarrow> None)"

section \<open>Operations\<close>

definition set_at_path :: "json \<Rightarrow> string list \<Rightarrow> json \<Rightarrow> string + json" where
  "set_at_path v path new_value =
     (if path = [] then Inl ''Empty path''
      else if length path = 1 then
        (case as_object v of
           Some m \<Rightarrow> Inr (Object (obj_insert (path ! 0) new_value m))
         | None \<Rightarrow> Inl ''Cannot set field on non-object'')
      else
        (let parent_path = take (length path - 1) path; field_name = path ! (length path - 1)
         in case update_object parent_path (obj_insert field_name new_value) v of
              Some v' \<Rightarrow> Inr v'
            | None \<Rightarrow> Inl ''Path not found''))"

definition remove_at_path :: "json \<Rightarrow> string list \<Rightarrow> string + json" where
  "remove_at_path v path =
     (if path = [] then Inl ''Empty path''
      else if length path = 1 then
        (case as_object v of
           Some m \<Rightarrow> Inr (Object (obj_remove (path ! 0) m))
         | None \<Rightarrow> Inl ''Cannot remove field from non-object'')
      else
        (let parent_path = take (length path - 1) path; field_name = path ! (length path - 1)
         in case update_object parent_path (obj_remove field_name) v of
              Some v' \<Rightarrow> Inr v'
            | None \<Rightarrow> Inr v))"

definition rename_field :: "string \<Rightarrow> string \<Rightarrow> json obj \<Rightarrow> json obj" where
  "rename_field old new m =
     (case obj_get m old of Some v \<Rightarrow> obj_insert new v (obj_remove old m) | None \<Rightarrow> m)"

definition rename_at_path :: "json \<Rightarrow> string list \<Rightarrow> string \<Rightarrow> json" where
  "rename_at_path v path new_name =
     (if path = [] then v
      else case update_object (take (length path - 1) path) (rename_field (last path) new_name) v of
             Some v' \<Rightarrow> v' | None \<Rightarrow> v)"

definition apply_function :: "text_ops \<Rightarrow> bool \<Rightarrow> json \<Rightarrow> string list \<Rightarrow> string \<Rightarrow> (string + json) rust" where
  "apply_function X checks v path func_name =
     (case get_at_path path v of
        None \<Rightarrow> Done (Inr v)
      | Some target \<Rightarrow>
          (let put = (\<lambda>new. case update_at_path path (\<lambda>_. new) v of Some v' \<Rightarrow> v' | None \<Rightarrow> v) in
           if func_name = ''uppercase'' then
             Done (Inr (case as_str target of Some s \<Rightarrow> put (String (to_uppercase X s)) | None \<Rightarrow> v))
           else if func_name = ''lowercase'' then
             Done (Inr (case as_str target of Some s \<Rightarrow> put (String (to_lowercase X s)) | None \<Rightarrow> v))
           else if func_name = ''increment'' then
             (case as_i64 target of
                Some n \<Rightarrow> map_rust (\<lambda>k. Inr (put (Number (number_from_i64 k)))) (i64_add checks n 1)
              | None \<Rightarrow> Done (Inr v))
           else Done (Inl (''Unknown function: '' @ func_name))))"

datatype TransformOperation =
    Set json
  | AddIfMissing json
  | Remove
  | Rename string
  | Function string "json list"

record TransformRule =
  rule_name :: string
  method_pattern :: string
  rule_path :: string
  operation :: TransformOperation

definition rule_matches :: "TransformRule \<Rightarrow> MessageContext \<Rightarrow> bool" where
  "rule_matches r c = (case ctx_method c of
     Some m \<Rightarrow> method_pattern r = ''*'' \<or> method_pattern r = m | None \<Rightarrow> False)"

definition apply_to_value :: "text_ops \<Rightarrow> bool \<Rightarrow> TransformRule \<Rightarrow> json \<Rightarrow> (string + json) rust" where
  "apply_to_value X checks r v =
     (let path_parts = split_on (CHR ''.'') (rule_path r) in
      case operation r of
        Set new_value \<Rightarrow> Done (set_at_path v path_parts new_value)
      | AddIfMissing new_value \<Rightarrow>
          Done (if get_at_path path_parts v = None then set_at_path v path_parts new_value else Inr v)
      | Remove \<Rightarrow> Done (remove_at_path v path_parts)
      | Rename new_name \<Rightarrow> Done (Inr (rename_at_path v path_parts new_name))
      | Function name args \<Rightarrow> apply_function X checks v path_parts name)"

text \<open>The optional payload of a message is rewritten in place; without one, nothing happens.\<close>

definition apply_to_payload ::
  "text_ops \<Rightarrow> bool \<Rightarrow> TransformRule \<Rightarrow> json option \<Rightarrow> (string + json option) rust" where
  "apply_to_payload X checks r p = (case p of
     None \<Rightarrow> Done (Inr None)
   | Some v \<Rightarrow> map_rust (\<lambda>res. and_then res (\<lambda>v'. Inr (Some v'))) (apply_to_value X checks r v))"

definition rule_apply :: "text_ops \<Rightarrow> bool \<Rightarrow> TransformRule \<Rightarrow> JsonRpcMessage \<Rightarrow> (string + JsonRpcMessage) rust" where
  "rule_apply X checks r msg = (case msg of
     Request q \<Rightarrow> map_rust (\<lambda>res. and_then res (\<lambda>p. Inr (Request (q\<lparr>req_params := p\<rparr>))))
                   (apply_to_payload X checks r (req_params q))
   | Response q \<Rightarrow> map_rust (\<lambda>res. and_then res (\<lambda>p. Inr (Response (q\<lparr>resp_result := p\<rparr>))))
                   (apply_to_payload X checks r (resp_result q))
   | Notification q \<Rightarrow> map_rust (\<lambda>res. and_then res (\<lambda>p. Inr (Notification (q\<lparr>notif_params := p\<rparr>))))
                   (apply_to_payload X checks r (notif_params q)))"

section \<open>The interceptor\<close>

record TransformInterceptor =
  ti_name :: string
  ti_stats :: InterceptorStats
  rules :: "TransformRule list"

definition TransformInterceptor_new :: TransformInterceptor where
  "TransformInterceptor_new = \<lparr>ti_name = ''TransformInterceptor'',
     ti_stats = InterceptorStats_default, rules = []\<rparr>"

definition add_rule :: "TransformInterceptor \<Rightarrow> TransformRule \<Rightarrow> TransformInterceptor" where
  "add_rule i r = i\<lparr>rules := rules i @ [r]\<rparr>"

definition remove_rule :: "TransformInterceptor \<Rightarrow> string \<Rightarrow> bool \<times> TransformInterceptor" where
  "remove_rule i name =
     (let i' = i\<lparr>rules := filter (\<lambda>r. rule_name r \<noteq> name) (rules i)\<rparr>
      in (length (rules i') \<noteq> length (rules i), i'))"

definition list_rules :: "TransformInterceptor \<Rightarrow> string list" where
  "list_rules i = map rule_name (rules i)"

definition ti_priority :: "TransformInterceptor \<Rightarrow> u32" where
  "ti_priority _ = 40"

definition ti_should_intercept :: "TransformInterceptor \<Rightarrow> MessageContext \<Rightarrow> bool" where
  "ti_should_intercept i c = list_ex (\<lambda>r. rule_matches r c) (rules i)"

text \<open>The loop over the rules: current message and the names of the applied rules.\<close>

fun apply_rules ::
  "text_ops \<Rightarrow> bool \<Rightarrow> MessageContext \<Rightarrow> TransformRule list \<Rightarrow> JsonRpcMessage \<Rightarrow> string list
     \<Rightarrow> (JsonRpcMessage \<times> string list) rust" where
  "apply_rules X checks c [] msg applied = Done (msg, applied)"
| "apply_rules X checks c (r # rs) msg applied =
     (if rule_matches r c then
        (case rule_apply X checks r msg of
           Panic \<Rightarrow> Panic
         | Done (Inr m) \<Rightarrow> apply_rules X checks c rs m (applied @ [rule_name r])
         | Done (Inl e) \<Rightarrow> apply_rules X checks c rs msg applied)
      else apply_rules X checks c rs msg applied)"

definition f64_one :: f64 where
  "f64_one = 0x3FF0000000000000"

definition ti_intercept ::
  "text_ops \<Rightarrow> bool \<Rightarrow> f64_ops \<Rightarrow> TransformInterceptor \<Rightarrow> call_env \<Rightarrow> MessageContext
     \<Rightarrow> (('err + InterceptionResult) \<times> TransformInterceptor) rust" where
  "ti_intercept X checks F i e c =
     (case apply_rules X checks c (rules i) (ctx_message c) [] of
        Panic \<Rightarrow> Panic
      | Done (current, applied) \<Rightarrow>
          let was_modified = (applied \<noteq> []);
              stats = ti_stats i;
              stats = (if was_modified then stats\<lparr>total_modified := total_modified stats + 1\<rparr> else stats);
              i' = i\<lparr>ti_stats := note_call F e stats\<rparr>
          in Done (Inr (if was_modified
                then modified current (''Applied rules: '' @ join_strings '', '' applied) f64_one
                else pass_through current), i'))"

section \<open>Lemmas on paths\<close>

lemma get_at_path_append:
  "get_at_path (p @ q) v = (case get_at_path p v of None \<Rightarrow> None | Some x \<Rightarrow> get_at_path q x)"
  by (induction p arbitrary: v) (auto split: option.splits)

lemma value_get_Object [simp]: "value_get (Object m) k = obj_get m k"
  by (simp add: value_get_def)

lemma value_get_Some: "value_get v k = Some c \<longleftrightarrow> (\<exists>m. v = Object m \<and> obj_get m k = Some c)"
  by (cases v) (simp_all add: value_get_def)

text \<open>An assignment through a path succeeds exactly when the path leads somewhere.\<close>

lemma update_at_path_Some:
  "get_at_path p v = Some x \<Longrightarrow> \<exists>v'. update_at_path p f v = Some v'"
proof (induction p arbitrary: v)
  case Nil
  then show ?case by simp
next
  case (Cons k ks)
  then obtain m c where "v = Object m" "obj_get m k = Some c" "get_at_path ks c = Some x"
    by (auto simp: value_get_Some split: option.splits)
  with Cons.IH [of c] show ?case by auto
qed

text \<open>Afterwards the path and everything below it are those of the new target; paths that part
  from it are as before.\<close>

lemma get_update_below:
  "get_at_path p v = Some x \<Longrightarrow> update_at_path p f v = Some v' \<Longrightarrow>
   get_at_path (p @ q) v' = get_at_path q (f x)"
  by (induction p arbitrary: v v')
    (auto simp: value_get_def obj_get_insert split: option.splits json.splits)

lemma get_update_apart:
  "update_at_path p f v = Some v' \<Longrightarrow> p \<parallel> q \<Longrightarrow> get_at_path q v' = get_at_path q v"
proof (induction p arbitrary: v v' q)
  case Nil
  then show ?case by simp
next
  case (Cons k ks)
  then obtain m c c' where v: "v = Object m" "obj_get m k = Some c" "update_at_path ks f c = Some c'"
    "v' = Object (obj_insert k c' m)"
    by (auto split: json.splits option.splits)
  from Cons.prems(2) obtain j js where q: "q = j # js" by (cases q) auto
  show ?case
  proof (cases "j = k")
    case True
    with Cons.prems(2) q have "ks \<parallel> js" by (simp add: parallel_def)
    with Cons.IH [OF v(3)] True show ?thesis by (simp add: v q obj_get_insert)
  next
    case False
    then show ?thesis by (simp add: v q obj_get_insert)
  qed
qed

lemma update_object_Some:
  "update_object p f v = Some v' \<longleftrightarrow>
     (\<exists>m. get_at_path p v = Some (Object m) \<and> update_at_path p (\<lambda>_. Object (f m)) v = Some v')"
  by (auto simp: update_object_def as_object_def split: option.splits json.splits)

lemma update_object_None:
  "update_object p f v = None \<longleftrightarrow> (\<nexists>m. get_at_path p v = Some (Object m))"
proof
  assume "update_object p f v = None"
  show "\<nexists>m. get_at_path p v = Some (Object m)"
  proof
    assume "\<exists>m. get_at_path p v = Some (Object m)"
    then obtain m where m: "get_at_path p v = Some (Object m)" ..
    from update_at_path_Some [OF this] \<open>update_object p f v = None\<close> m show False
      by (metis update_object_Some option.distinct(1))
  qed
qed (auto simp: update_object_def as_object_def split: option.splits json.splits)

text \<open>A change of one field of the object at \<open>p\<close>.\<close>

lemma update_object_get:
  assumes "update_object p f v = Some v'"
    and "\<And>m j. j \<noteq> k \<Longrightarrow> obj_get (f m) j = obj_get m j"
  shows "\<exists>m. get_at_path p v = Some (Object m) \<and> get_at_path (p @ q) v' = get_at_path q (Object (f m))"
    and "p @ [k] \<parallel> q \<Longrightarrow> get_at_path q v' = get_at_path q v"
proof -
  from assms(1) obtain m where m: "get_at_path p v = Some (Object m)"
    and u: "update_at_path p (\<lambda>_. Object (f m)) v = Some v'"
    by (auto simp: update_object_Some)
  show "\<exists>m. get_at_path p v = Some (Object m) \<and> get_at_path (p @ q) v' = get_at_path q (Object (f m))"
    using m get_update_below [OF m u, of q] by blast
  assume par: "p @ [k] \<parallel> q"
  show "get_at_path q v' = get_at_path q v"
  proof (cases "p \<parallel> q")
    case True
    then show ?thesis by (rule get_update_apart [OF u])
  next
    case False
    with par obtain r where q: "q = p @ r"
      by (auto simp: parallel_def prefix_def)
    with par obtain j js where r: "r = j # js" "j \<noteq> k"
      by (cases r) (auto simp: parallel_def)
    then show ?thesis
      unfolding q get_update_below [OF m u] by (simp add: get_at_path_append m assms(2))
  qed
qed

text \<open>The two cases of \<open>set_at_path\<close> and \<open>remove_at_path\<close> for paths of one and of more
  fields as one.\<close>

lemma update_object_Nil:
  "update_object [] f v = map_option (\<lambda>m. Object (f m)) (as_object v)"
  by (auto simp: update_object_def split: option.split)

lemma set_at_path_snoc:
  "set_at_path v (p @ [k]) new = (case update_object p (obj_insert k new) v of
     Some v' \<Rightarrow> Inr v'
   | None \<Rightarrow> Inl (if p = [] then ''Cannot set field on non-object'' else ''Path not found''))"
  by (auto simp: set_at_path_def update_object_Nil split: option.splits)

lemma remove_at_path_snoc:
  "remove_at_path v (p @ [k]) = (case update_object p (obj_remove k) v of
     Some v' \<Rightarrow> Inr v'
   | None \<Rightarrow> if p = [] then Inl ''Cannot remove field from non-object'' else Inr v)"
  by (auto simp: remove_at_path_def update_object_Nil split: option.splits)

lemma rename_at_path_snoc:
  "rename_at_path v (p @ [k]) new = (case update_object p (rename_field k new) v of
     Some v' \<Rightarrow> v' | None \<Rightarrow> v)"
  by (simp add: rename_at_path_def)

section \<open>Lemmas on rules\<close>

lemma rule_apply_keeps_method:
  assumes "rule_apply X checks r msg = Done (Inr msg')"
  shows "ctx_method (c\<lparr>ctx_message := msg'\<rparr>) = ctx_method (c\<lparr>ctx_message := msg\<rparr>)"
    and "message_id msg' = message_id msg"
  using assms
  by (auto simp: rule_apply_def ctx_method_def map_rust_Done res_simps split: JsonRpcMessage.splits)

lemma apply_rules_keeps_method:
  "apply_rules X checks c rs msg applied = Done (msg', applied') \<Longrightarrow>
   ctx_method (c'\<lparr>ctx_message := msg'\<rparr>) = ctx_method (c'\<lparr>ctx_message := msg\<rparr>)
   \<and> message_id msg' = message_id msg"
proof (induction rs arbitrary: msg applied)
  case Nil
  then show ?case by simp
next
  case (Cons r rs)
  then show ?case
    by (auto dest: rule_apply_keeps_method split: if_splits rust.splits sum.splits)
qed

section \<open>Properties\<close>

text \<open>Setting a field. \<open>set_at_path\<close> succeeds exactly when the parent of the path is an
  object. Afterwards the path reads the new value, everything below it is that of the new
  value, and every path that parts from it reads as before.\<close>

theorem set_at_path_lens:
  "((\<exists>v'. set_at_path v (p @ [k]) new = Inr v') \<longleftrightarrow> (\<exists>m. get_at_path p v = Some (Object m)))
    \<and> (set_at_path v (p @ [k]) new = Inr v' \<longrightarrow>
     get_at_path ((p @ [k]) @ q) v' = get_at_path q new
     \<and> (\<forall>q. p @ [k] \<parallel> q \<longrightarrow> get_at_path q v' = get_at_path q v))"
proof (rule conjI; (intro impI)?)
  have "(\<exists>v'. update_object p (obj_insert k new) v = Some v')
      \<longleftrightarrow> (\<exists>m. get_at_path p v = Some (Object m))"
    using update_object_None [of p "obj_insert k new" v] by (metis not_None_eq)
  then show "(\<exists>v'. set_at_path v (p @ [k]) new = Inr v') \<longleftrightarrow> (\<exists>m. get_at_path p v = Some (Object m))"
    unfolding set_at_path_snoc by (auto split: option.splits)
next
  assume "set_at_path v (p @ [k]) new = Inr v'"
  then have u: "update_object p (obj_insert k new) v = Some v'"
    by (simp add: set_at_path_snoc split: option.splits)
  have f: "obj_get (obj_insert k new m) j = obj_get m j" if "j \<noteq> k" for m j
    using that by (simp add: obj_get_insert)
  from update_object_get(1) [where k = k, OF u f, of "k # q"]
    update_object_get(2) [where k = k, OF u f]
  show "get_at_path ((p @ [k]) @ q) v' = get_at_path q new
     \<and> (\<forall>q. p @ [k] \<parallel> q \<longrightarrow> get_at_path q v' = get_at_path q v)"
    by (auto simp: obj_get_insert)
qed

definition sample_params :: json where
  "sample_params = Object [(''arguments'', Object []), (''name'', String ''t'')]"

theorem set_at_path_lens_witness:
  "\<exists>v'. set_at_path sample_params [''arguments'', ''verbose''] (Bool True) = Inr v'
     \<and> get_at_path [''arguments'', ''verbose''] v' = Some (Bool True)
     \<and> get_at_path [''name''] v' = Some (String ''t'')"
proof -
  have p: "[''arguments'', ''verbose''] = [''arguments''] @ [''verbose'']" by simp
  have "\<exists>m. get_at_path [''arguments''] sample_params = Some (Object m)"
    by (simp add: sample_params_def obj_get_def)
  then obtain v' where v: "set_at_path sample_params [''arguments'', ''verbose''] (Bool True) = Inr v'"
    unfolding p using set_at_path_lens [THEN conjunct1, of sample_params "[''arguments'']" "''verbose''" "Bool True"]
    by blast
  have "[''arguments''] @ [''verbose''] \<parallel> [''name'']" by (simp add: parallel_def)
  with set_at_path_lens [THEN conjunct2, rule_format, OF v [unfolded p], of "[]"]
  have "get_at_path [''name''] v' = get_at_path [''name''] sample_params"
    "get_at_path ([''arguments''] @ [''verbose'']) v' = Some (Bool True)" by (blast, simp)
  with v show ?thesis by (simp add: sample_params_def obj_get_def)
qed

text \<open>Removing and renaming. After \<open>remove_at_path\<close> nothing is found at or below the
  path, whether or not it existed. A rename moves the value, replacing what was stored under
  the new name, and leaves the old name empty. Both leave every path that parts from the
  touched fields alone.\<close>

theorem remove_rename_at_path:
  "(remove_at_path v (p @ [k]) = Inr v' \<longrightarrow>
     get_at_path ((p @ [k]) @ q) v' = None
     \<and> (\<forall>q. p @ [k] \<parallel> q \<longrightarrow> get_at_path q v' = get_at_path q v))
    \<and> (get_at_path (p @ [k]) v = Some x \<longrightarrow> k \<noteq> new \<longrightarrow>
     get_at_path ((p @ [new]) @ q) (rename_at_path v (p @ [k]) new) = get_at_path q x
     \<and> get_at_path (p @ [k]) (rename_at_path v (p @ [k]) new) = None
     \<and> get_at_path (p @ [j]) (rename_at_path v (p @ [k]) new)
         = (if j = new then Some x else if j = k then None else get_at_path (p @ [j]) v))"
proof (rule conjI; (intro impI)?)
  assume r: "remove_at_path v (p @ [k]) = Inr v'"
  have f: "obj_get (obj_remove k m) j = obj_get m j" if "j \<noteq> k" for m :: "json obj" and j
    using that by (simp add: obj_get_remove)
  show "get_at_path ((p @ [k]) @ q) v' = None
     \<and> (\<forall>q. p @ [k] \<parallel> q \<longrightarrow> get_at_path q v' = get_at_path q v)"
  proof (cases "update_object p (obj_remove k) v")
    case None
    then have "get_at_path (p @ [k]) v = None"
      by (auto simp: update_object_None get_at_path_append value_get_def
          split: option.splits json.splits)
    with r None show ?thesis
      by (auto simp: remove_at_path_snoc get_at_path_append split: if_splits option.splits)
  next
    case (Some w)
    with r have "w = v'" by (simp add: remove_at_path_snoc)
    with update_object_get(1) [where k = k, OF Some f, of "k # q"]
      update_object_get(2) [where k = k, OF Some f]
    show ?thesis by (auto simp: obj_get_remove)
  qed
next
  assume x: "get_at_path (p @ [k]) v = Some x" and k: "k \<noteq> new"
  then obtain m where m: "get_at_path p v = Some (Object m)" "obj_get m k = Some x"
    by (auto simp: get_at_path_append value_get_Some split: option.splits)
  then obtain v' where u: "update_at_path p (\<lambda>_. Object (rename_field k new m)) v = Some v'"
    using update_at_path_Some by blast
  with m have "rename_at_path v (p @ [k]) new = v'"
    by (simp add: rename_at_path_snoc update_object_def as_object_def)
  with get_update_below [OF m(1) u] m k
  show "get_at_path ((p @ [new]) @ q) (rename_at_path v (p @ [k]) new) = get_at_path q x
     \<and> get_at_path (p @ [k]) (rename_at_path v (p @ [k]) new) = None
     \<and> get_at_path (p @ [j]) (rename_at_path v (p @ [k]) new)
         = (if j = new then Some x else if j = k then None else get_at_path (p @ [j]) v)"
    by (simp add: rename_field_def obj_get_insert obj_get_remove get_at_path_append)
qed

theorem remove_rename_at_path_witness:
  "get_at_path [''tool''] (rename_at_path sample_params [''name''] ''tool'') = Some (String ''t'')"
  using remove_rename_at_path [THEN conjunct2, rule_format, of "[]" "''name''" sample_params "String ''t''" "''tool''" "[]"]
  by (simp add: sample_params_def obj_get_def)

text \<open>Documented paths do not work. The rule's path is documented with the example
  \<open>params.arguments.verbose\<close>, but it is followed from the parameters themselves: on the
  parameters of an ordinary tool call, such a rule fails, and the documented field is reached
  without the leading \<open>params\<close>.\<close>

definition verbose_rule :: "string \<Rightarrow> TransformRule" where
  "verbose_rule path = \<lparr>rule_name = ''add-verbose'', method_pattern = ''tools/call'',
     rule_path = path, operation = Set (Bool True)\<rparr>"

theorem documented_path_fails:
  "(apply_to_value X checks (verbose_rule ''params.arguments.verbose'') sample_params
     = Done (Inl ''Path not found''))
    \<and> (apply_to_value X checks (verbose_rule ''arguments.verbose'') sample_params
     = Done (Inr (Object [(''arguments'', Object [(''verbose'', Bool True)]), (''name'', String ''t'')])))"
  by (simp_all add: apply_to_value_def verbose_rule_def sample_params_def set_at_path_def
      update_object_def as_object_def obj_get_def)

text \<open>Increment at the largest integer. Incrementing the number \<open>2 ^ 63 - 1\<close> panics in a
  build with overflow checks and stores the smallest \<open>i64\<close> otherwise; every other \<open>i64\<close> is
  replaced by its successor.\<close>

lemma increment_overflow:
  "apply_function X checks (Number (PosInt (2 ^ 63 - 1))) [] ''increment''
     = (if checks then Panic else Done (Inr (Number (NegInt (- (2 ^ 63))))))"
  "- (2 ^ 63) \<le> n \<Longrightarrow> n < 2 ^ 63 - 1 \<Longrightarrow>
     apply_function X checks (Number (number_from_i64 n)) [] ''increment''
       = Done (Inr (Number (number_from_i64 (n + 1))))"
  by (simp_all add: apply_function_def as_i64_from_i64 i64_add_def in_i64_def)
    (simp add: as_i64_def number_from_i64_def wrap_i64_def i64_add_def in_i64_def)

end
