(* ===== verification/Builtins.thy ===== *)
theory Builtins
  imports Rate_Limit Transform
begin

text \<open>
  The logging and validation interceptors (\<open>logging.rs\<close> and \<open>validation.rs\<close> under
  \<open>acdp-transport/src/interceptors\<close>), and the four built-in interceptors together as one
  implementation of the interceptor trait. They satisfy the contract of the pipeline, so a
  manager of built-in interceptors implements the abstract semantics. Log output is not
  modelled; the JSON text a log line needs can fail, and is the parameter \<open>ser_message\<close>.
\<close>

section \<open>Logging\<close>

record LoggingInterceptor =
  li_name :: string
  li_stats :: InterceptorStats
  log_content :: bool

definition LoggingInterceptor_new :: "bool \<Rightarrow> LoggingInterceptor" where
  "LoggingInterceptor_new content = \<lparr>li_name = ''LoggingInterceptor'',
     li_stats = InterceptorStats_default, log_content = content\<rparr>"

definition li_priority :: "LoggingInterceptor \<Rightarrow> u32" where
  "li_priority _ = 10"

definition li_should_intercept :: "LoggingInterceptor \<Rightarrow> MessageContext \<Rightarrow> bool" where
  "li_should_intercept _ _ = True"

text \<open>The arguments of a log line are evaluated only when its level is enabled.\<close>

definition li_intercept ::
  "(JsonRpcMessage \<Rightarrow> 'err + string) \<Rightarrow> bool \<Rightarrow> f64_ops \<Rightarrow> LoggingInterceptor \<Rightarrow> call_env \<Rightarrow> MessageContext
     \<Rightarrow> (('err + InterceptionResult) \<times> LoggingInterceptor) rust" where
  "li_intercept ser_message info_enabled F i e c =
     (let logged = (if log_content i \<and> info_enabled
                    then and_then (ser_message (ctx_message c)) (\<lambda>_. Inr ()) else Inr ())
      in case logged of
           Inl err \<Rightarrow> Done (Inl err, i)
         | Inr _ \<Rightarrow> Done (Inr (pass_through (ctx_message c)), i\<lparr>li_stats := note_call F e (li_stats i)\<rparr>))"

section \<open>Validation\<close>

record ValidationInterceptor =
  vi_name :: string
  vi_stats :: InterceptorStats
  strict_mode :: bool

definition ValidationInterceptor_new :: "bool \<Rightarrow> ValidationInterceptor" where
  "ValidationInterceptor_new mode = \<lparr>vi_name = ''ValidationInterceptor'',
     vi_stats = InterceptorStats_default, strict_mode = mode\<rparr>"

definition vi_priority :: "ValidationInterceptor \<Rightarrow> u32" where
  "vi_priority _ = 20"

definition vi_should_intercept :: "ValidationInterceptor \<Rightarrow> MessageContext \<Rightarrow> bool" where
  "vi_should_intercept _ _ = True"

definition validate_message :: "JsonRpcMessage \<Rightarrow> string + unit" where
  "validate_message m = (case m of
     Request r \<Rightarrow>
       if req_jsonrpc r \<noteq> ''2.0'' then Inl (''Invalid JSON-RPC version: '' @ req_jsonrpc r)
       else if req_method r = [] then Inl ''Request method cannot be empty''
       else Inr ()
   | Response r \<Rightarrow>
       if resp_jsonrpc r \<noteq> ''2.0'' then Inl (''Invalid JSON-RPC version: '' @ resp_jsonrpc r)
       else (case (resp_result r, resp_error r) of
           (Some _, Some _) \<Rightarrow> Inl ''Response has both result and error''
         | (None, None) \<Rightarrow> Inl ''Response must have either result or error''
         | _ \<Rightarrow> Inr ())
   | Notification n \<Rightarrow>
       if notif_jsonrpc n \<noteq> ''2.0'' then Inl (''Invalid JSON-RPC version: '' @ notif_jsonrpc n)
       else if notif_method n = [] then Inl ''Notification method cannot be empty''
       else Inr ())"

definition vi_intercept ::
  "f64_ops \<Rightarrow> ValidationInterceptor \<Rightarrow> call_env \<Rightarrow> MessageContext
     \<Rightarrow> (('err + InterceptionResult) \<times> ValidationInterceptor) rust" where
  "vi_intercept F i e c = (case validate_message (ctx_message c) of
     Inr _ \<Rightarrow> Done (Inr (pass_through (ctx_message c)), i\<lparr>vi_stats := note_call F e (vi_stats i)\<rparr>)
   | Inl err \<Rightarrow>
       (let stats = vi_stats i;
            stats = stats\<lparr>total_intercepted := total_intercepted stats + 1\<rparr>;
            stats = stats\<lparr>last_processed := Some (at_utc e)\<rparr>
        in if strict_mode i then
             (let stats = stats\<lparr>total_blocked := total_blocked stats + 1\<rparr>
              in Done (Inr (blocked (''Protocol validation failed: '' @ err)), i\<lparr>vi_stats := stats\<rparr>))
           else Done (Inr (pass_through (ctx_message c)), i\<lparr>vi_stats := stats\<rparr>)))"

section \<open>The built-in interceptors as one implementation of the trait\<close>

datatype builtin =
    Logging LoggingInterceptor
  | Validation ValidationInterceptor
  | RateLimit RateLimitInterceptor
  | Transformer TransformInterceptor

text \<open>The settings and parameters the four need.\<close>

record 'err builtin_ext =
  bx_f64 :: f64_ops
  bx_text :: text_ops
  bx_checks :: bool
  ser_message :: "JsonRpcMessage \<Rightarrow> 'err + string"
  info_enabled :: bool

primrec builtin_name :: "builtin \<Rightarrow> string" where
  "builtin_name (Logging i) = li_name i"
| "builtin_name (Validation i) = vi_name i"
| "builtin_name (RateLimit i) = rli_name i"
| "builtin_name (Transformer i) = ti_name i"

primrec builtin_priority :: "builtin \<Rightarrow> u32" where
  "builtin_priority (Logging i) = li_priority i"
| "builtin_priority (Validation i) = vi_priority i"
| "builtin_priority (RateLimit i) = rl_priority i"
| "builtin_priority (Transformer i) = ti_priority i"

primrec builtin_should :: "builtin \<Rightarrow> MessageContext \<Rightarrow> bool" where
  "builtin_should (Logging i) = li_should_intercept i"
| "builtin_should (Validation i) = vi_should_intercept i"
| "builtin_should (RateLimit i) = rl_should_intercept i"
| "builtin_should (Transformer i) = ti_should_intercept i"

primrec builtin_intercept ::
  "'err builtin_ext \<Rightarrow> builtin \<Rightarrow> call_env \<Rightarrow> MessageContext \<Rightarrow> (('err + InterceptionResult) \<times> builtin) rust"
  where
  "builtin_intercept X (Logging i) = (\<lambda>e c. map_rust (map_prod id Logging)
     (li_intercept (ser_message X) (info_enabled X) (bx_f64 X) i e c))"
| "builtin_intercept X (Validation i) = (\<lambda>e c. map_rust (map_prod id Validation)
     (vi_intercept (bx_f64 X) i e c))"
| "builtin_intercept X (RateLimit i) = (\<lambda>e c. map_rust (map_prod id RateLimit)
     (rl_intercept (bx_f64 X) i e c))"
| "builtin_intercept X (Transformer i) = (\<lambda>e c. map_rust (map_prod id Transformer)
     (ti_intercept (bx_text X) (bx_checks X) (bx_f64 X) i e c))"

definition builtin_ops :: "'err builtin_ext \<Rightarrow> (builtin, call_env, 'err) interceptor_ops" where
  "builtin_ops X = \<lparr>i_name = builtin_name, i_priority = builtin_priority, i_should = builtin_should,
     i_intercept = builtin_intercept X\<rparr>"

section \<open>Lemmas\<close>

lemma builtin_ops_sel [simp]:
  "i_name (builtin_ops X) = builtin_name" "i_priority (builtin_ops X) = builtin_priority"
  "i_should (builtin_ops X) = builtin_should" "i_intercept (builtin_ops X) = builtin_intercept X"
  by (simp_all add: builtin_ops_def)

lemma li_intercept_cases:
  assumes "li_intercept ser en F i e c = Done (res, i')"
  shows "li_name i' = li_name i \<and> (\<forall>r. res = Inr r \<longrightarrow> r = pass_through (ctx_message c))"
  using assms by (auto simp: li_intercept_def Let_def split: sum.splits)

lemma vi_intercept_cases:
  assumes "vi_intercept F i e c = Done (res, i')"
  shows "vi_name i' = vi_name i \<and> strict_mode i' = strict_mode i"
    and "res = Inr r \<Longrightarrow> r = pass_through (ctx_message c) \<and> (is_ok (validate_message (ctx_message c)) \<or> \<not> strict_mode i)
      \<or> ir_block r \<and> \<not> ir_modified r \<and> strict_mode i \<and> \<not> is_ok (validate_message (ctx_message c))"
  using assms
  by (auto simp: vi_intercept_def Let_def blocked_def split: sum.splits if_splits)

lemma rl_intercept_cases:
  assumes "rl_intercept F i e c = Done (res, i')"
  shows "rli_name i' = rli_name i
    \<and> (\<forall>r. res = Inr r \<longrightarrow> r = pass_through (ctx_message c) \<or> ir_block r \<and> \<not> ir_modified r)"
  using assms
  by (auto simp: rl_intercept_def Let_def blocked_def split: rust.splits prod.splits if_splits)

lemma pass_through_sel [simp]:
  "\<not> ir_modified (pass_through m)" "\<not> ir_block (pass_through m)" "ir_message (pass_through m) = m"
  by (simp_all add: pass_through_def)

lemma modified_sel [simp]:
  "ir_modified (modified m r c)" "\<not> ir_block (modified m r c)" "ir_message (modified m r c) = m"
  by (simp_all add: modified_def)

lemma ti_intercept_cases:
  assumes "ti_intercept X checks F i e c = Done (res, i')"
  shows "ti_name i' = ti_name i \<and> rules i' = rules i
    \<and> (\<exists>r applied. apply_rules X checks c (rules i) (ctx_message c) [] = Done (ir_message r, applied)
        \<and> res = Inr r \<and> \<not> ir_block r \<and> ir_modified r = (applied \<noteq> []))"
  using assms
  by (cases "apply_rules X checks c (rules i) (ctx_message c) []")
    (auto simp: ti_intercept_def Let_def split: prod.splits if_splits)

text \<open>The four interceptors meet the contract of the pipeline.\<close>

lemma builtin_keeps_identity:
  "builtin_intercept X i e c = Done (res, i') \<Longrightarrow>
   builtin_name i' = builtin_name i \<and> builtin_priority i' = builtin_priority i"
  by (cases i)
    (auto simp: map_rust_Done li_priority_def vi_priority_def rl_priority_def ti_priority_def
      dest!: li_intercept_cases vi_intercept_cases(1) rl_intercept_cases ti_intercept_cases)

lemma builtin_should_by_method:
  "ctx_method c = ctx_method (c\<lparr>ctx_message := m\<rparr>) \<Longrightarrow>
   builtin_should i (c\<lparr>ctx_message := m\<rparr>) = builtin_should i c"
  by (cases i)
    (simp_all add: li_should_intercept_def vi_should_intercept_def rl_should_intercept_def
      ti_should_intercept_def rule_matches_def)

lemma builtin_modified:
  assumes "builtin_intercept X i e c = Done (Inr r, i')" and "ir_modified r"
  shows "\<exists>t applied. i = Transformer t
    \<and> apply_rules (bx_text X) (bx_checks X) c (rules t) (ctx_message c) [] = Done (ir_message r, applied)"
proof (cases i)
  case (Logging j)
  with assms(1) obtain j' where
    "li_intercept (ser_message X) (info_enabled X) (bx_f64 X) j e c = Done (Inr r, j')"
    by (auto simp: map_rust_Done)
  from li_intercept_cases [OF this] assms(2) show ?thesis by simp
next
  case (Validation j)
  with assms(1) obtain j' :: ValidationInterceptor where
    "(vi_intercept (bx_f64 X) j e c :: (('a + InterceptionResult) \<times> _) rust) = Done (Inr r, j')"
    by (auto simp: map_rust_Done)
  from vi_intercept_cases(2) [OF this refl] assms(2) show ?thesis by auto
next
  case (RateLimit j)
  with assms(1) obtain j' where
    "(rl_intercept (bx_f64 X) j e c :: (('a + InterceptionResult) \<times> _) rust) = Done (Inr r, j')"
    by (auto simp: map_rust_Done)
  from rl_intercept_cases [OF this] assms(2) show ?thesis by auto
next
  case (Transformer t)
  with assms(1) obtain t' where
    "(ti_intercept (bx_text X) (bx_checks X) (bx_f64 X) t e c :: (('a + InterceptionResult) \<times> _) rust)
       = Done (Inr r, t')"
    by (auto simp: map_rust_Done)
  from ti_intercept_cases [OF this] Transformer show ?thesis by auto
qed

lemma builtin_keeps_method:
  assumes "builtin_intercept X i e c = Done (Inr r, i')" and "ir_modified r"
  shows "ctx_method (c\<lparr>ctx_message := ir_message r\<rparr>) = ctx_method c"
proof -
  from builtin_modified [OF assms] obtain t :: TransformInterceptor and applied where
    "apply_rules (bx_text X) (bx_checks X) c (rules t) (ctx_message c) [] = Done (ir_message r, applied)"
    by blast
  from apply_rules_keeps_method [OF this, of c] show ?thesis by (simp add: ctx_method_def)
qed

interpretation bi: interceptor_contract "builtin_ops X" for X
  by unfold_locales
    (simp_all add: builtin_keeps_identity builtin_should_by_method builtin_keeps_method)

section \<open>Properties\<close>

text \<open>C14 (the pipeline of built-in interceptors). For every manager of built-in interceptors and
  every message, the result of processing is the one of the abstract semantics, in which each
  interceptor is asked about and given the message as the earlier ones left it: the first
  blocking result if there is one, else the message with all modifications, their reasons
  joined and their confidences averaged. A failing interceptor is skipped.\<close>

theorem builtin_pipeline:
  "map_rust fst (process_message_with_metadata (builtin_ops X) F env now elapsed M m d md)
     = map_rust (\<lambda>(x, _). Inr (ideal_result F x))
         (ideal_run (builtin_ops X) env 0 (interceptors M) (ls_context (initial_loop now m d md)) [])"
  by (rule bi.process_refines)

text \<open>Order of the built-in interceptors. However interceptors are added, removed and used,
  those of a manager stay in priority order: logging, validation, rate limiting,
  transformation. Processing a message changes neither the registered names nor their
  order.\<close>

theorem builtin_order:
  assumes "manager_run (builtin_ops X) F calls M"
  shows "(sorted (map builtin_priority (interceptors M)))
    \<and> (process_message_with_metadata (builtin_ops X) F env now elapsed M m d md = Done (r, M')
      \<longrightarrow> list_interceptors (builtin_ops X) M' = list_interceptors (builtin_ops X) M)"
  using bi.run_by_priority [OF assms] bi.process_keeps_identity(1) [of X F env now elapsed M m d md r M']
  by (simp_all add: by_priority_def)

definition sample_builtin_ext :: "string builtin_ext" where
  "sample_builtin_ext = \<lparr>bx_f64 = example_f64,
     bx_text = \<lparr>to_uppercase = id, to_lowercase = id\<rparr>, bx_checks = True,
     ser_message = (\<lambda>_. Inr []), info_enabled = False\<rparr>"

theorem builtin_order_witness:
  "sorted (map builtin_priority (interceptors (add_interceptor (builtin_ops sample_builtin_ext)
     (add_interceptor (builtin_ops sample_builtin_ext) manager_new (RateLimit strict))
     (Logging (LoggingInterceptor_new False)))))"
proof -
  have "manager_run (builtin_ops sample_builtin_ext) F (([] @ [Add (RateLimit strict)])
      @ [Add (Logging (LoggingInterceptor_new False))])
    (add_interceptor (builtin_ops sample_builtin_ext) (add_interceptor (builtin_ops sample_builtin_ext) manager_new (RateLimit strict))
      (Logging (LoggingInterceptor_new False)))" for F
    by (rule manager_run.intros(2) [OF manager_run.intros(2) [OF manager_run.intros(1)
          manager_step.intros(1)] manager_step.intros(1)])
  then show ?thesis by (rule builtin_order [THEN conjunct1])
qed

text \<open>A rule leaves the outcome of the protocol check unchanged.\<close>

lemma rule_apply_validate:
  assumes "rule_apply X checks r msg = Done (Inr msg')"
  shows "validate_message msg' = validate_message msg"
  using assms
  by (auto simp: rule_apply_def validate_message_def apply_to_payload_def map_rust_Done res_simps
      split: JsonRpcMessage.splits option.splits)

lemma apply_rules_validate:
  "apply_rules X checks c rs msg applied = Done (msg', applied') \<Longrightarrow>
   validate_message msg' = validate_message msg"
proof (induction rs arbitrary: msg applied)
  case Nil
  then show ?case by simp
next
  case (Cons r rs)
  then show ?case by (auto dest: rule_apply_validate split: if_splits rust.splits sum.splits)
qed

lemma builtin_keeps_validity:
  assumes "builtin_intercept X i e c = Done (Inr r, i')" and "ir_modified r"
  shows "validate_message (ir_message r) = validate_message (ctx_message c)"
  using builtin_modified [OF assms] apply_rules_validate by blast

lemma strict_validation_blocks:
  assumes "builtin_intercept X (Validation v) e c = Done (res, i')"
    and "strict_mode v" and "\<not> is_ok (validate_message (ctx_message c))"
  shows "\<exists>r. res = Inr r \<and> ir_block r"
proof -
  obtain err where "validate_message (ctx_message c) = Inl err"
    using assms(3) by (cases "validate_message (ctx_message c)") auto
  with assms(1,2) have "\<exists>why. Inr (blocked why) = res" by (simp add: vi_intercept_def Let_def) blast
  moreover have "ir_block (blocked why)" for why by (simp add: blocked_def)
  ultimately show ?thesis by metis
qed

lemma ideal_run_strict:
  assumes "Validation v \<in> set is" and "strict_mode v" and "\<not> is_ok (validate_message (ctx_message c))"
    and "ideal_run (builtin_ops X) env k is c acc = Done (out, js)"
  shows "\<exists>r. out = Inl r \<and> ir_block r"
  using assms
proof (induction "is" arbitrary: k c acc out js)
  case Nil
  then show ?case by simp
next
  case (Cons i "is")
  show ?case
  proof (cases "builtin_should i c")
    case False
    then have "i \<noteq> Validation v" by (auto simp: vi_should_intercept_def)
    with False Cons.prems Cons.IH [of c] show ?thesis by (auto simp: map_rust_Done)
  next
    case True
    with Cons.prems(4) obtain res i' where i: "builtin_intercept X i (env k) c = Done (res, i')"
      by (auto split: rust.splits)
    show ?thesis
    proof (cases res)
      case (Inl e)
      with i Cons.prems(2,3) have "i \<noteq> Validation v" by (auto dest: strict_validation_blocks)
      with Inl i True Cons.prems Cons.IH [of c] show ?thesis by (auto simp: map_rust_Done)
    next
      case (Inr r)
      with i have ir: "builtin_intercept X i (env k) c = Done (Inr r, i')" by simp
      show ?thesis
      proof (cases "ir_block r")
        case True
        with ir Cons.prems(4) \<open>builtin_should i c\<close> show ?thesis by auto
      next
        case False
        with ir Cons.prems(2,3) have ne: "i \<noteq> Validation v" by (auto dest: strict_validation_blocks)
        let ?c = "if ir_modified r then c\<lparr>ctx_message := ir_message r\<rparr> else c"
        have "\<not> is_ok (validate_message (ctx_message ?c))"
          using Cons.prems(3) builtin_keeps_validity [OF ir] by simp
        with ne False ir True Cons.prems Cons.IH [of ?c] show ?thesis
          by (auto simp: map_rust_Done)
      qed
    qed
  qed
qed

text \<open>C15 (strict validation). As soon as a strict validation interceptor is registered among the
  built-in ones, wherever it stands, a message that violates the protocol (wrong version,
  empty method, response with both or neither of result and error) is never passed on: the
  result of processing it is a block.\<close>

theorem strict_validation_holds:
  assumes "Validation v \<in> set (interceptors M)" and "strict_mode v"
    and "\<not> is_ok (validate_message m)"
    and "process_message_with_metadata (builtin_ops X) F env now elapsed M m d md = Done (res, M')"
  shows "\<exists>r. res = Inr r \<and> ir_block r"
proof -
  let ?c = "ls_context (initial_loop now m d md)"
  have c: "ctx_message ?c = m" by (simp add: initial_loop_def context_new_def Let_def)
  from assms(4) bi.process_refines [of X F env now elapsed M m d md]
  obtain out js where i: "ideal_run (builtin_ops X) env 0 (interceptors M) ?c [] = Done (out, js)"
    and res: "res = Inr (ideal_result F out)"
    by (cases "ideal_run (builtin_ops X) env 0 (interceptors M) ?c []") auto
  from ideal_run_strict [OF assms(1,2) _ i] assms(3) c obtain r where "out = Inl r" "ir_block r"
    by auto
  with res show ?thesis by (simp add: ideal_result_def)
qed

definition sample_validator :: "builtin InterceptorManager" where
  "sample_validator = add_interceptor (builtin_ops sample_builtin_ext) manager_new
     (Validation (ValidationInterceptor_new True))"

theorem strict_validation_holds_witness:
  "\<exists>r M'. process_message_with_metadata (builtin_ops sample_builtin_ext) example_f64
       (\<lambda>_. \<lparr>at_check = 0, at_rate = 0, at_utc = 0, at_elapsed = 0\<rparr>) 0 0 sample_validator
       (example_message []) Outgoing metadata_new = Done (Inr r, M') \<and> ir_block r"
proof -
  let ?env = "\<lambda>_ :: nat. \<lparr>at_check = 0, at_rate = 0, at_utc = 0, at_elapsed = 0\<rparr>"
  have i: "interceptors sample_validator = [Validation (ValidationInterceptor_new True)]"
    by (simp add: sample_validator_def add_interceptor_def manager_new_def)
  obtain res M' where p: "process_message_with_metadata (builtin_ops sample_builtin_ext) example_f64
       ?env 0 0 sample_validator (example_message []) Outgoing metadata_new = Done (res, M')"
    by (simp add: process_message_with_metadata_def i vi_should_intercept_def vi_intercept_def
        example_defs ValidationInterceptor_new_def validate_message_def Let_def)
  have "\<not> is_ok (validate_message (example_message []))"
    by (simp add: validate_message_def example_message_def notification_without_params_def)
  from strict_validation_holds [OF _ _ this p, of "ValidationInterceptor_new True"] p show ?thesis
    by (auto simp: i ValidationInterceptor_new_def)
qed

end
