(* ===== verification/Llm_Session.thy ===== *)
theory Llm_Session
  imports Gepa
begin

text \<open>
  Per-session tracking of predictions (\<open>acdp-llm/src/session_management.rs\<close>) and the service
  operation that records code generation attempts (\<open>service.rs\<close>). The manager's map of
  sessions, the predictions table, the optimizer and its table are explicit state. An operation
  that releases the lock around an \<open>await\<close> is two steps, so that what other tasks do in
  between can be stated. Counters are \<open>u64\<close> and wrap as in the release profile.
\<close>

section \<open>State\<close>

record SessionPrediction =
  sp_message_id :: MessageId
  sp_prediction :: ToolPrediction
  sp_actual_tool :: "string option"
  was_accurate :: bool
  sp_confidence :: fp
  sp_latency_ms :: u64
  sp_timestamp :: datetime
  prediction_record_id :: "string option"

record SessionPredictionContext =
  spc_session_id :: SessionId
  message_history :: "MessageFlow list"
  spc_predictions :: "SessionPrediction list"
  spc_total_predictions :: u64
  successful_predictions :: u64
  optimization_score :: fp
  last_updated :: datetime

definition SessionPrediction_new ::
  "datetime \<Rightarrow> MessageId \<Rightarrow> ToolPrediction \<Rightarrow> string option \<Rightarrow> u64 \<Rightarrow> SessionPrediction" where
  "SessionPrediction_new now mid p rid latency = \<lparr>sp_message_id = mid, sp_prediction = p,
     sp_actual_tool = None, was_accurate = False, sp_confidence = tp_confidence p,
     sp_latency_ms = latency, sp_timestamp = now, prediction_record_id = rid\<rparr>"

definition mark_actual :: "SessionPrediction \<Rightarrow> string \<Rightarrow> SessionPrediction" where
  "mark_actual p actual = p\<lparr>was_accurate := (tool_name (sp_prediction p) = actual),
     sp_actual_tool := Some actual\<rparr>"

definition SessionPredictionContext_new :: "datetime \<Rightarrow> SessionId \<Rightarrow> SessionPredictionContext" where
  "SessionPredictionContext_new now sid = \<lparr>spc_session_id = sid, message_history = [],
     spc_predictions = [], spc_total_predictions = 0, successful_predictions = 0,
     optimization_score = Fin False 0, last_updated = now\<rparr>"

section \<open>Operations on one session\<close>

definition ctx_add_message ::
  "datetime \<Rightarrow> MessageFlow \<Rightarrow> SessionPredictionContext \<Rightarrow> SessionPredictionContext" where
  "ctx_add_message now m c = c\<lparr>message_history := message_history c @ [m], last_updated := now\<rparr>"

definition score_of :: "SessionPrediction list \<Rightarrow> fp" where
  "score_of recent = (if recent = [] then Fin False 0
     else let n = fp_of_nat binary32 (length recent);
              accurate_count = fp_of_nat binary32 (length (filter was_accurate recent));
              avg_confidence = fp_div binary32 (fp_sum binary32 (map sp_confidence recent)) n
          in fp_add binary32
               (fp_mul binary32 (fp_div binary32 accurate_count n) (f32_lit (7 / 10)))
               (fp_mul binary32 avg_confidence (f32_lit (3 / 10))))"

definition update_optimization_score ::
  "SessionPredictionContext \<Rightarrow> SessionPredictionContext" where
  "update_optimization_score c = c\<lparr>optimization_score := score_of (take 10 (rev (spc_predictions c)))\<rparr>"

definition add_prediction ::
  "datetime \<Rightarrow> SessionPrediction \<Rightarrow> SessionPredictionContext \<Rightarrow> SessionPredictionContext" where
  "add_prediction now p c =
     (let c = c\<lparr>spc_total_predictions := spc_total_predictions c + 1\<rparr>;
          c = (if was_accurate p then c\<lparr>successful_predictions := successful_predictions c + 1\<rparr> else c);
          c = c\<lparr>spc_predictions := spc_predictions c @ [p]\<rparr>;
          c = update_optimization_score c
      in c\<lparr>last_updated := now\<rparr>)"

definition accuracy :: "SessionPredictionContext \<Rightarrow> fp" where
  "accuracy c = (if spc_total_predictions c = 0 then Fin False 0
     else fp_div binary32 (fp_of_nat binary32 (unat (successful_predictions c)))
            (fp_of_nat binary32 (unat (spc_total_predictions c))))"

text \<open>\<open>{:?}\<close> of a message status; the debug text of a string is the parameter \<open>dbg\<close>.\<close>

definition status_debug :: "(string \<Rightarrow> string) \<Rightarrow> MessageStatus \<Rightarrow> string" where
  "status_debug dbg s = (case s of PendingMessage \<Rightarrow> ''Pending'' | InFlight \<Rightarrow> ''InFlight''
     | CompletedMessage \<Rightarrow> ''Completed'' | FailedMessage e \<Rightarrow> ''Failed('' @ dbg e @ '')'')"

definition build_mcp_context :: "(string \<Rightarrow> string) \<Rightarrow> SessionPredictionContext \<Rightarrow> string" where
  "build_mcp_context dbg c =
     ''Session: '' @ spc_session_id c @ nl
   @ ''Accuracy: '' @ show_fixed 2 (fp_mul binary32 (accuracy c) (f32_lit 100))
   @ ''%, Optimization Score: '' @ show_fixed 2 (optimization_score c) @ nl
   @ ''Recent Messages:'' @ nl
   @ concat (map (\<lambda>m. ''  - Method: '' @ raw_req_method (client_request m) @ '', Status: ''
          @ status_debug dbg (mf_status m) @ nl)
        (rev (take 5 (rev (message_history c)))))"

section \<open>The manager\<close>

record LlmSessionManager =
  sm_sessions :: "SessionId \<rightharpoonup> SessionPredictionContext"
  sm_predictions :: predictions_table
  sm_optimizer :: "GEPAOptimizer option"
  sm_gepa :: gepa_table

definition get_or_create_session ::
  "datetime \<Rightarrow> SessionId \<Rightarrow> LlmSessionManager \<Rightarrow> SessionPredictionContext \<times> LlmSessionManager" where
  "get_or_create_session now sid M = (case sm_sessions M sid of
     Some c \<Rightarrow> (c, M)
   | None \<Rightarrow> (let c = SessionPredictionContext_new now sid
              in (c, M\<lparr>sm_sessions := (sm_sessions M)(sid \<mapsto> c)\<rparr>)))"

definition update_session :: "SessionPredictionContext \<Rightarrow> LlmSessionManager \<Rightarrow> LlmSessionManager" where
  "update_session c M = M\<lparr>sm_sessions := (sm_sessions M)(spc_session_id c \<mapsto> c)\<rparr>"

definition sm_add_message :: "datetime \<Rightarrow> SessionId \<Rightarrow> MessageFlow \<Rightarrow> LlmSessionManager \<Rightarrow> LlmSessionManager" where
  "sm_add_message now sid m M = (case sm_sessions M sid of
     Some c \<Rightarrow> M\<lparr>sm_sessions := (sm_sessions M)(sid \<mapsto> ctx_add_message now m c)\<rparr>
   | None \<Rightarrow> M)"

text \<open>\<open>predict_for_session\<close>: it copies the session, asks the predictor without a lock, and
  writes the extended copy back.\<close>

definition predict_begin ::
  "datetime \<Rightarrow> SessionId \<Rightarrow> LlmSessionManager \<Rightarrow> SessionPredictionContext \<times> LlmSessionManager" where
  "predict_begin now sid M = get_or_create_session now sid M"

definition predict_finish ::
  "llm_ext \<Rightarrow> litert option \<Rightarrow> (string \<Rightarrow> string) \<Rightarrow> store_call \<Rightarrow> datetime \<Rightarrow> u64 \<Rightarrow> MessageId \<Rightarrow> string
     \<Rightarrow> SessionPredictionContext \<Rightarrow> LlmSessionManager \<Rightarrow> (LlmError + SessionPrediction) \<times> LlmSessionManager" where
  "predict_finish X engine dbg k now latency mid meth c M =
     (let ctx = build_mcp_context dbg c @ nl @ ''Current Method: '' @ meth @ nl in
      case predict_tool X engine k ctx (sm_predictions M) of
        (Inl e, tbl) \<Rightarrow> (Inl e, M\<lparr>sm_predictions := tbl\<rparr>)
      | (Inr out, tbl) \<Rightarrow>
         (let p = SessionPrediction_new now mid (po_prediction out) (Some (po_record_id out)) latency
          in (Inr p, update_session (add_prediction now p c) (M\<lparr>sm_predictions := tbl\<rparr>))))"

definition predict_for_session ::
  "llm_ext \<Rightarrow> litert option \<Rightarrow> (string \<Rightarrow> string) \<Rightarrow> store_call \<Rightarrow> datetime \<Rightarrow> u64 \<Rightarrow> SessionId \<Rightarrow> MessageId
     \<Rightarrow> string \<Rightarrow> LlmSessionManager \<Rightarrow> (LlmError + SessionPrediction) \<times> LlmSessionManager" where
  "predict_for_session X engine dbg k now latency sid mid meth M =
     (case predict_begin now sid M of
        (c, M) \<Rightarrow> predict_finish X engine dbg k now latency mid meth c M)"

text \<open>The first prediction for the message is marked.\<close>

fun mark_first :: "MessageId \<Rightarrow> string \<Rightarrow> SessionPrediction list \<Rightarrow> SessionPrediction list" where
  "mark_first mid actual [] = []"
| "mark_first mid actual (p # ps) =
     (if sp_message_id p = mid then mark_actual p actual # ps else p # mark_first mid actual ps)"

record actual_call =
  ac_now :: datetime
  ac_select :: sql_outcome
  ac_update :: sql_outcome
  ac_gepa :: gepa_call

definition mark_session ::
  "datetime \<Rightarrow> SessionId \<Rightarrow> MessageId \<Rightarrow> string \<Rightarrow> LlmSessionManager
     \<Rightarrow> SessionPrediction option \<times> LlmSessionManager" where
  "mark_session now sid mid actual M = (case sm_sessions M sid of
     None \<Rightarrow> (None, M)
   | Some c \<Rightarrow> (case find (\<lambda>p. sp_message_id p = mid) (spc_predictions c) of
       None \<Rightarrow> (None, M)
     | Some p \<Rightarrow> (Some p, M\<lparr>sm_sessions := (sm_sessions M)(sid \<mapsto>
          c\<lparr>spc_predictions := mark_first mid actual (spc_predictions c), last_updated := now\<rparr>)\<rparr>)))"

definition optimize_after ::
  "actual_call \<Rightarrow> string \<Rightarrow> LlmSessionManager \<Rightarrow> LlmSessionManager" where
  "optimize_after k tool M = (case sm_optimizer M of
     None \<Rightarrow> M
   | Some G \<Rightarrow> (case maybe_optimize_tool (ac_gepa k) tool (sm_predictions M) (G, sm_gepa M) of
       (_, G', g') \<Rightarrow> M\<lparr>sm_optimizer := Some G', sm_gepa := g'\<rparr>))"

definition record_actual_tool ::
  "actual_call \<Rightarrow> SessionId \<Rightarrow> MessageId \<Rightarrow> string \<Rightarrow> LlmSessionManager \<Rightarrow> (LlmError + unit) \<times> LlmSessionManager" where
  "record_actual_tool k sid mid actual M =
     (case mark_session (ac_now k) sid mid actual M of
        (None, M) \<Rightarrow> (Inr (), M)
      | (Some p, M) \<Rightarrow>
         (case prediction_record_id p of
            None \<Rightarrow> (Inr (), optimize_after k (tool_name (sp_prediction p)) M)
          | Some rid \<Rightarrow>
             (case update_prediction_result (ac_select k) (ac_update k) rid actual (sm_predictions M) of
                (Inl e, tbl) \<Rightarrow> (Inl e, M\<lparr>sm_predictions := tbl\<rparr>)
              | (Inr _, tbl) \<Rightarrow> (Inr (), optimize_after k (tool_name (sp_prediction p))
                    (M\<lparr>sm_predictions := tbl\<rparr>)))))"

definition record_prediction_for_session ::
  "datetime \<Rightarrow> SessionId \<Rightarrow> SessionPrediction \<Rightarrow> LlmSessionManager \<Rightarrow> LlmSessionManager" where
  "record_prediction_for_session now sid p M =
     (case get_or_create_session now sid M of
        (c, M) \<Rightarrow> M\<lparr>sm_sessions := (sm_sessions M)(sid \<mapsto> add_prediction now p c)\<rparr>)"

record SessionStats =
  ss_session_id :: SessionId
  ss_total_predictions :: u64
  ss_successful_predictions :: u64
  ss_accuracy :: fp
  ss_optimization_score :: fp
  ss_message_count :: nat
  ss_last_updated :: datetime

definition get_session_stats :: "SessionId \<Rightarrow> LlmSessionManager \<Rightarrow> SessionStats option" where
  "get_session_stats sid M = map_option (\<lambda>c.
     \<lparr>ss_session_id = spc_session_id c, ss_total_predictions = spc_total_predictions c,
      ss_successful_predictions = successful_predictions c, ss_accuracy = accuracy c,
      ss_optimization_score = optimization_score c, ss_message_count = length (message_history c),
      ss_last_updated = last_updated c\<rparr>) (sm_sessions M sid)"

definition list_sessions :: "LlmSessionManager \<Rightarrow> SessionId set" where
  "list_sessions M = dom (sm_sessions M)"

text \<open>\<open>minus_hours\<close> is chrono's subtraction, which panics out of range.\<close>

definition cleanup_inactive_sessions ::
  "(datetime \<Rightarrow> int \<Rightarrow> datetime rust) \<Rightarrow> datetime \<Rightarrow> int \<Rightarrow> LlmSessionManager \<Rightarrow> LlmSessionManager rust" where
  "cleanup_inactive_sessions minus_hours now max_age_hours M =
     map_rust (\<lambda>cutoff. M\<lparr>sm_sessions := (\<lambda>sid. case sm_sessions M sid of
         Some c \<Rightarrow> if cutoff < last_updated c then Some c else None | None \<Rightarrow> None)\<rparr>)
       (minus_hours now max_age_hours)"

text \<open>\<open>LlmService::record_codegen_attempt\<close>.\<close>

definition record_codegen_attempt ::
  "store_call \<Rightarrow> sql_outcome \<Rightarrow> sql_outcome \<Rightarrow> string \<Rightarrow> bool \<Rightarrow> json \<Rightarrow> predictions_table
     \<Rightarrow> (LlmError + unit) \<times> predictions_table" where
  "record_codegen_attempt k out1 out2 hash success metadata tbl =
     (let label = (if success then ''codegen_success'' else ''codegen_failure'') in
      case db_record_prediction (sc_uuid k) (sc_now k) (sc_out k) hash label
             (if success then Fin False 1 else Fin False 0) metadata tbl of
        (Inl e, tbl) \<Rightarrow> (Inl e, tbl)
      | (Inr i, tbl) \<Rightarrow> db_update_prediction_result out1 out2 i label tbl)"

section \<open>The manager as a transition system\<close>

inductive sm_step :: "LlmSessionManager \<Rightarrow> LlmSessionManager \<Rightarrow> bool" where
  create: "sm_step M (snd (get_or_create_session now sid M))"
| message: "sm_step M (sm_add_message now sid m M)"
| predict: "predict_for_session X engine dbg k now latency sid mid meth M = (r, M')
     \<Longrightarrow> sm_step M M'"
| actual: "record_actual_tool k sid mid actual M = (r, M') \<Longrightarrow> sm_step M M'"
| recorded: "sm_step M (record_prediction_for_session now sid
     (SessionPrediction_new t mid p rid latency) M)"
| cleanup: "cleanup_inactive_sessions mh now h M = Done M' \<Longrightarrow> sm_step M M'"

inductive sm_reach :: "LlmSessionManager \<Rightarrow> bool" where
  start: "sm_sessions M = Map.empty \<Longrightarrow> sm_reach M"
| step: "sm_reach M \<Longrightarrow> sm_step M M' \<Longrightarrow> sm_reach M'"

definition ctx_inv :: "SessionId \<Rightarrow> SessionPredictionContext \<Rightarrow> bool" where
  "ctx_inv sid c \<longleftrightarrow> spc_session_id c = sid \<and> successful_predictions c = 0 \<and>
     spc_total_predictions c = of_nat (length (spc_predictions c))"

definition sm_inv :: "LlmSessionManager \<Rightarrow> bool" where
  "sm_inv M \<longleftrightarrow> (\<forall>sid c. sm_sessions M sid = Some c \<longrightarrow> ctx_inv sid c)"

lemma sm_inv_put:
  "sm_inv M \<Longrightarrow> ctx_inv sid c \<Longrightarrow> sm_inv (M\<lparr>sm_sessions := (sm_sessions M)(sid \<mapsto> c)\<rparr>)"
  by (auto simp: sm_inv_def)

lemma sm_inv_sessions: "sm_sessions M' = sm_sessions M \<Longrightarrow> sm_inv M' \<longleftrightarrow> sm_inv M"
  by (simp add: sm_inv_def)

lemma ctx_inv_new [simp]: "ctx_inv sid (SessionPredictionContext_new now sid)"
  by (simp add: ctx_inv_def SessionPredictionContext_new_def)

lemma ctx_inv_message: "ctx_inv sid c \<Longrightarrow> ctx_inv sid (ctx_add_message now m c)"
  by (simp add: ctx_inv_def ctx_add_message_def)

lemma ctx_inv_prediction:
  "ctx_inv sid c \<Longrightarrow> ctx_inv sid (add_prediction now (SessionPrediction_new t mid p rid l) c)"
  by (simp add: ctx_inv_def add_prediction_def SessionPrediction_new_def Let_def
      update_optimization_score_def add.commute)

lemma add_prediction_simps [simp]:
  "spc_session_id (add_prediction t p c) = spc_session_id c"
  "message_history (add_prediction t p c) = message_history c"
  "spc_predictions (add_prediction t p c) = spc_predictions c @ [p]"
  by (simp_all add: add_prediction_def Let_def update_optimization_score_def)

lemma length_mark_first [simp]: "length (mark_first mid a ps) = length ps"
  by (induction ps) auto

lemma get_or_create_inv:
  assumes "sm_inv M" "get_or_create_session now sid M = (c, M')"
  shows "ctx_inv sid c \<and> sm_inv M' \<and> sm_sessions M' sid = Some c"
  using assms
  by (auto simp: get_or_create_session_def Let_def sm_inv_def split: option.splits if_splits)

lemma optimize_after_sessions [simp]: "sm_sessions (optimize_after k tool M) = sm_sessions M"
  by (simp add: optimize_after_def split: option.splits prod.splits)

lemma predict_finish_sessions:
  assumes "predict_finish X engine dbg k now latency mid meth c M = (r, M')"
  shows "sm_sessions M' = sm_sessions M \<or> (\<exists>p rid. sm_sessions M' = (sm_sessions M)
    (spc_session_id c \<mapsto> add_prediction now (SessionPrediction_new now mid p rid latency) c))"
proof -
  obtain q tbl where "predict_tool X engine k (build_mcp_context dbg c @ nl @ ''Current Method: ''
      @ meth @ nl) (sm_predictions M) = (q, tbl)" by force
  then show ?thesis
  proof (cases q)
    case (Inr out)
    with \<open>predict_tool _ _ _ _ _ = _\<close> have "sm_sessions M' = (sm_sessions M)(spc_session_id c \<mapsto>
        add_prediction now (SessionPrediction_new now mid (po_prediction out) (Some (po_record_id out))
          latency) c)"
      using assms by (auto simp: predict_finish_def update_session_def Let_def)
    then show ?thesis by blast
  qed (use assms in \<open>auto simp: predict_finish_def\<close>)
qed

lemma predict_for_session_inv:
  assumes inv: "sm_inv M" and r: "predict_for_session X engine dbg k now latency sid mid meth M = (r, M')"
  shows "sm_inv M'"
proof -
  obtain c M1 where g: "get_or_create_session now sid M = (c, M1)" by force
  note i = get_or_create_inv [OF inv g]
  then have "spc_session_id c = sid" by (simp add: ctx_inv_def)
  moreover have "predict_finish X engine dbg k now latency mid meth c M1 = (r, M')"
    using r g by (simp add: predict_for_session_def predict_begin_def)
  ultimately show ?thesis
    using predict_finish_sessions [of X engine dbg k now latency mid meth c M1 r M'] i
      ctx_inv_prediction [of sid c]
    by (auto simp: sm_inv_def split: if_splits)
qed

lemma mark_session_inv:
  assumes "sm_inv M" "mark_session now sid mid a M = (p, M')"
  shows "sm_inv M'"
  using assms
  by (auto simp: mark_session_def sm_inv_def ctx_inv_def split: option.splits if_splits)

lemma record_actual_tool_inv:
  assumes inv: "sm_inv M" and r: "record_actual_tool k sid mid a M = (r, M')"
  shows "sm_inv M'"
proof -
  obtain p M1 where m: "mark_session (ac_now k) sid mid a M = (p, M1)" by force
  have "sm_sessions M' = sm_sessions M1"
    using r m by (auto simp: record_actual_tool_def split: option.splits sum.splits prod.splits)
  then show ?thesis using mark_session_inv [OF inv m] by (simp add: sm_inv_def)
qed

lemma sm_step_inv: "sm_step M M' \<Longrightarrow> sm_inv M \<Longrightarrow> sm_inv M'"
proof (induction rule: sm_step.induct)
  case (create M now sid)
  then show ?case using get_or_create_inv [OF create] by (metis prod.collapse)
next
  case (message M now sid m)
  then show ?case
    by (auto simp: sm_add_message_def sm_inv_def ctx_inv_message split: option.splits)
next
  case (predict X engine dbg k now latency sid mid meth M r M')
  then show ?case by (blast intro: predict_for_session_inv)
next
  case (actual k sid mid a M r M')
  then show ?case by (blast intro: record_actual_tool_inv)
next
  case (recorded M now sid t mid p rid latency)
  obtain c M1 where g: "get_or_create_session now sid M = (c, M1)" by force
  then show ?case using get_or_create_inv [OF recorded g]
    by (auto simp: record_prediction_for_session_def intro!: sm_inv_put ctx_inv_prediction)
next
  case (cleanup mh now h M M')
  then show ?case
    by (cases "mh now h") (auto simp: cleanup_inactive_sessions_def sm_inv_def split: option.splits if_splits)
qed

lemma sm_reach_inv: "sm_reach M \<Longrightarrow> sm_inv M"
  by (induction rule: sm_reach.induct) (auto simp: sm_inv_def [of "_ :: LlmSessionManager"] dest: sm_step_inv)

section \<open>Accuracy\<close>

text \<open>Reported accuracy. In every reachable state of the session manager each session counts
  its predictions and no success: outcomes that arrive later mark the prediction but not the
  counter, so the reported accuracy is zero whatever the model predicted.\<close>

theorem session_accuracy_zero:
  assumes "sm_reach M" "get_session_stats sid M = Some s" "unat (ss_total_predictions s) \<le> 2 ^ 24"
  shows "ss_session_id s = sid \<and> ss_successful_predictions s = 0 \<and> ss_accuracy s = Fin False 0"
proof -
  obtain c where c: "sm_sessions M sid = Some c" and
    s: "ss_session_id s = spc_session_id c" "ss_successful_predictions s = successful_predictions c"
       "ss_accuracy s = accuracy c" "ss_total_predictions s = spc_total_predictions c"
    using assms(2) by (auto simp: get_session_stats_def)
  have inv: "ctx_inv sid c" using sm_reach_inv [OF assms(1)] c by (simp add: sm_inv_def)
  define n where "n = unat (spc_total_predictions c)"
  have n0: "n = 0 \<longleftrightarrow> spc_total_predictions c = 0" by (simp add: n_def unat_eq_zero)
  have "fp_of_nat binary32 n = Fin False (of_nat n)"
    by (rule fp_of_nat_exact) (rule exact32_nat, use assms(3) s in \<open>simp add: n_def\<close>)
  moreover have "fp_of_nat binary32 0 = Fin False 0" by (simp add: fp_of_nat_def fp_of_rat_def)
  moreover have "successful_predictions c = 0" using inv by (simp add: ctx_inv_def)
  ultimately have "accuracy c = Fin False 0" using n0 by (simp add: accuracy_def flip: n_def)
  then show ?thesis using inv s by (simp add: ctx_inv_def)
qed

definition sample_prediction :: ToolPrediction where
  "sample_prediction = \<lparr>tool_name = ''t'', tp_confidence = Fin False 1, tp_reasoning = [],
     tp_parameters = Object []\<rparr>"

definition sample_manager :: LlmSessionManager where
  "sample_manager = \<lparr>sm_sessions = Map.empty, sm_predictions = [], sm_optimizer = None, sm_gepa = []\<rparr>"

definition sample_actual :: actual_call where
  "sample_actual = \<lparr>ac_now = 0, ac_select = None, ac_update = None,
     ac_gepa = \<lparr>gc_history = None, gc_check_now = 0, gc_recent = None, gc_record_now = 0,
       gc_uuid = [], gc_insert = None, gc_run_now = 0\<rparr>\<rparr>"

text \<open>A correct prediction, recorded and confirmed: the accuracy is still zero.\<close>

theorem session_accuracy_zero_witness:
  "let M1 = record_prediction_for_session 0 ''s'' (SessionPrediction_new 0 ''m'' sample_prediction None 0)
              sample_manager;
       M2 = snd (record_actual_tool sample_actual ''s'' ''m'' ''t'' M1)
   in \<exists>s. get_session_stats ''s'' M2 = Some s \<and> ss_total_predictions s = 1 \<and>
        ss_accuracy s = Fin False 0"
proof -
  let ?M1 = "record_prediction_for_session 0 ''s''
    (SessionPrediction_new 0 ''m'' sample_prediction None 0) sample_manager"
  let ?M2 = "snd (record_actual_tool sample_actual ''s'' ''m'' ''t'' ?M1)"
  have "sm_reach ?M1"
    by (rule sm_reach.step [OF sm_reach.start sm_step.recorded]) (simp add: sample_manager_def)
  then have r: "sm_reach ?M2"
    by (rule sm_reach.step) (rule sm_step.actual, simp add: prod_eq_iff)
  obtain s where s: "get_session_stats ''s'' ?M2 = Some s" "ss_total_predictions s = 1"
    by (simp add: record_prediction_for_session_def get_or_create_session_def sample_manager_def
        record_actual_tool_def mark_session_def get_session_stats_def add_prediction_def Let_def
        SessionPredictionContext_new_def SessionPrediction_new_def update_optimization_score_def
        optimize_after_def)
  then show ?thesis using session_accuracy_zero [OF r s(1)] by (simp add: Let_def)
qed

section \<open>Score\<close>

lemma fp_upto_Fin: "fp_upto c (Fin False m) \<longleftrightarrow> 0 \<le> m \<and> m \<le> c"
  by (auto simp: fp_upto_def)

lemma f32_weights:
  "f32_lit (7 / 10) = Fin False (11744051 / 16777216)"
  "f32_lit (3 / 10) = Fin False (5033165 / 16777216)"
  by (code_simp, code_simp)

lemma exact_weights:
  "exact binary32 (11744051 / 16777216)" "exact binary32 (5033165 / 16777216)"
  using mag_round_exact [of binary32 "- 24" 11744051] mag_round_exact [of binary32 "- 24" 5033165]
  by (simp_all add: exact_def binary32_def pow2_def)

text \<open>Score bound. When every confidence is between 0 and 1, the optimization score of a
  session is a number between 0 and 1: no rounding of the 32-bit arithmetic leaves the
  interval.\<close>

theorem score_in_unit_interval:
  assumes "\<forall>p\<in>set (spc_predictions c). is_finite (sp_confidence p) \<and> \<not> fp_neg (sp_confidence p) \<and>
      0 \<le> fp_val (sp_confidence p) \<and> fp_val (sp_confidence p) \<le> 1"
  shows "is_finite (optimization_score (update_optimization_score c)) \<and>
    0 \<le> fp_val (optimization_score (update_optimization_score c)) \<and>
    fp_val (optimization_score (update_optimization_score c)) \<le> 1"
proof -
  let ?r = "take 10 (rev (spc_predictions c))"
  have conf: "fp_upto 1 (sp_confidence p)" if "p \<in> set ?r" for p
  proof -
    have "p \<in> set (spc_predictions c)" using that in_set_takeD by fastforce
    then show ?thesis using assms
      by (cases "sp_confidence p") (auto simp: fp_upto_def is_finite_def fp_val_def fp_neg_def)
  qed
  have ex: "n \<le> length ?r \<Longrightarrow> exact binary32 (of_nat n)" for n by (simp add: exact32_nat)
  have one: "exact binary32 1" using exact32_nat [of 1] by simp
  have "fp_upto 1 (score_of ?r)"
  proof (cases "?r = []")
    case True
    then show ?thesis by (simp add: score_of_def)
  next
    case False
    let ?n = "fp_of_nat binary32 (length ?r)"
    have n: "?n = Fin False (of_nat (length ?r))" by (rule fp_of_nat_exact) (rule ex, simp)
    have pos: "0 < (of_nat (length ?r) :: rat)" using False by simp
    have "fp_upto (of_nat (length ?r)) (fp_sum binary32 (map sp_confidence ?r))"
      using fp_sum_upto [of "map sp_confidence ?r" binary32] conf ex by force
    then have avg: "fp_upto 1 (fp_div binary32 (fp_sum binary32 (map sp_confidence ?r)) ?n)"
      by (rule fp_div_upto [OF _ n pos one])
    have "fp_upto (of_nat (length ?r)) (fp_of_nat binary32 (length (filter was_accurate ?r)))"
      using fp_of_nat_exact [OF ex [of "length (filter was_accurate ?r)"]]
        length_filter_le [of was_accurate ?r] by (simp add: fp_upto_Fin)
    then have acc: "fp_upto 1 (fp_div binary32 (fp_of_nat binary32 (length (filter was_accurate ?r))) ?n)"
      by (rule fp_div_upto [OF _ n pos one])
    show ?thesis
      using False fp_add_upto [OF fp_mul_upto [OF acc _ exact_weights(1)]
          fp_mul_upto [OF avg _ exact_weights(2)] _ one, of "f32_lit (7 / 10)" "f32_lit (3 / 10)"]
      by (simp add: score_of_def Let_def f32_weights fp_upto_Fin)
  qed
  from fp_upto_val [OF this] show ?thesis by (simp add: update_optimization_score_def)
qed

theorem score_in_unit_interval_witness:
  "let c = (SessionPredictionContext_new 0 ''s'')\<lparr>spc_predictions :=
       [SessionPrediction_new 0 ''m'' sample_prediction None 0]\<rparr>
   in fp_val (optimization_score (update_optimization_score c)) \<le> 1"
  using score_in_unit_interval [of "(SessionPredictionContext_new 0 ''s'')\<lparr>spc_predictions :=
       [SessionPrediction_new 0 ''m'' sample_prediction None 0]\<rparr>"]
  by (simp add: Let_def SessionPrediction_new_def sample_prediction_def is_finite_def fp_neg_def
      fp_val_def)

section \<open>Interleavings\<close>

text \<open>Lost update. A message recorded for a session while a prediction for it is under way is
  lost: the prediction writes back the session as it was before the message.\<close>

theorem prediction_loses_message:
  assumes "sm_sessions M sid = Some c0" "spc_session_id c0 = sid"
    "predict_begin now sid M = (c, M1)"
    "predict_finish X engine dbg k now' latency mid meth c (sm_add_message t sid m M1) = (Inr p, M2)"
  shows "\<exists>c2. sm_sessions M2 sid = Some c2 \<and> message_history c2 = message_history c0 \<and>
    spc_predictions c2 = spc_predictions c0 @ [p]"
proof -
  have c: "c = c0" "M1 = M" using assms(1,3) by (simp_all add: predict_begin_def get_or_create_session_def)
  let ?M = "sm_add_message t sid m M1"
  obtain q tbl where q: "predict_tool X engine k (build_mcp_context dbg c @ nl @ ''Current Method: ''
      @ meth @ nl) (sm_predictions ?M) = (q, tbl)" by force
  then obtain out where "q = Inr out" using assms(4) by (cases q) (auto simp: predict_finish_def)
  then have "M2 = update_session (add_prediction now' p c) (?M\<lparr>sm_predictions := tbl\<rparr>)"
    using assms(4) q by (auto simp: predict_finish_def Let_def)
  then have "sm_sessions M2 sid = Some (add_prediction now' p c0)"
    using c assms(2) by (simp add: update_session_def)
  then show ?thesis by simp
qed

definition sample_llm_ext :: llm_ext where
  "sample_llm_ext = \<lparr>lx_lower = map ascii_lower, lx_parse = (\<lambda>s. Inl ''syntax''),
     lx_show = (\<lambda>j. []), lx_hash = (\<lambda>s. 0), lx_schema_error = (\<lambda>v. [])\<rparr>"

definition sample_session_manager :: LlmSessionManager where
  "sample_session_manager = sample_manager\<lparr>sm_sessions :=
     [''s'' \<mapsto> SessionPredictionContext_new 0 ''s'']\<rparr>"

theorem prediction_loses_message_witness:
  "\<exists>p M2 c2. predict_finish sample_llm_ext None id \<lparr>sc_uuid = ''u'', sc_now = 0, sc_out = None\<rparr> 1 0
      ''m'' ''tools/list'' (SessionPredictionContext_new 0 ''s'')
      (sm_add_message 0 ''s'' (MessageFlow_default ''x'' ''s'' 0) sample_session_manager) = (Inr p, M2) \<and>
    sm_sessions M2 ''s'' = Some c2 \<and> message_history c2 = []"
proof -
  let ?c = "SessionPredictionContext_new 0 ''s''" and ?k = "\<lparr>sc_uuid = ''u'', sc_now = 0, sc_out = None\<rparr>"
  let ?M = "sm_add_message 0 ''s'' (MessageFlow_default ''x'' ''s'' 0) sample_session_manager"
  have s: "sm_sessions sample_session_manager ''s'' = Some ?c"
    by (simp add: sample_session_manager_def)
  obtain p M2 where p: "predict_finish sample_llm_ext None id ?k 1 0 ''m'' ''tools/list'' ?c ?M = (Inr p, M2)"
    by (cases "heuristic_choice sample_llm_ext
          (build_mcp_context id ?c @ nl @ ''Current Method: '' @ ''tools/list'' @ nl)")
      (simp add: predict_finish_def predict_tool_def heuristic_predict_def
        persist_prediction_stored Let_def)
  have b: "predict_begin 0 ''s'' sample_session_manager = (?c, sample_session_manager)"
    by (simp add: predict_begin_def get_or_create_session_def s)
  from prediction_loses_message [OF s _ b p] p show ?thesis
    by (auto simp: SessionPredictionContext_new_def)
qed

section \<open>Code generation records\<close>

text \<open>Codegen record. A code generation attempt is stored as a settled, correct prediction
  whether it succeeded or failed, so failures raise the accuracy computed from the table.\<close>

theorem codegen_always_correct:
  assumes "sc_uuid k \<notin> pr_id ` set tbl" "sc_out k = None"
  shows "\<exists>row. record_codegen_attempt k None None hash success metadata tbl = (Inr (), tbl @ [row]) \<and>
    correct row = Some True \<and>
    predicted_tool row = (if success then ''codegen_success'' else ''codegen_failure'')"
proof -
  have "find (\<lambda>r. pr_id r = sc_uuid k) tbl = None" using assms by (force simp: find_None_iff)
  then have "find (\<lambda>r. pr_id r = sc_uuid k) (tbl @ [row]) = (if pr_id row = sc_uuid k then Some row else None)"
    for row by (induction tbl) (auto split: if_splits)
  moreover have "map (\<lambda>r. if pr_id r = sc_uuid k then f r else r) tbl = tbl" for f
    using assms by (intro map_idI) force
  ultimately show ?thesis using assms(2)
    by (simp add: record_codegen_attempt_def db_record_prediction_def sql_insert_def Let_def
        db_update_prediction_result_def get_prediction_tool_def sql_select_def)
qed

theorem codegen_always_correct_witness:
  "\<exists>row. record_codegen_attempt \<lparr>sc_uuid = ''u'', sc_now = 0, sc_out = None\<rparr> None None ''h'' False Null []
     = (Inr (), [row]) \<and> correct row = Some True"
  using codegen_always_correct [of "\<lparr>sc_uuid = ''u'', sc_now = 0, sc_out = None\<rparr>" "[]" "''h''" False Null]
  by auto

end
