(* ===== verification/Llm_Interceptor.thy ===== *)
theory Llm_Interceptor
  imports Llm_Session
begin

text \<open>
  The routing interceptor (\<open>acdp-llm/src/interceptor.rs\<close>): depending on the mode it passes
  an outgoing message on, annotates it with a predicted tool, or with the transport of a stored
  rule; on the way back it settles the prediction. The predictions table and the sessions are one
  store shared with the session manager (\<open>lli_store\<close>); \<open>lli_sessions\<close> says whether the
  interceptor was given the manager. The messages sent to the monitor are \<open>lli_ipc\<close>. What a
  call reads from clocks, identifier source and database is the record \<open>llm_call\<close>;
  \<open>Uuid::parse_str\<close> is the parameter \<open>parse_uuid\<close>.
\<close>

section \<open>State\<close>

record PendingPrediction =
  pp_record_id :: string
  pp_predicted_tool :: string
  pp_actual_tool :: "string option"
  pp_session_id :: "SessionId option"
  pp_message_id :: "MessageId option"

record LlmInterceptor =
  lli_engine :: "litert option"
  lli_rules :: rules_table
  lli_mode :: RoutingMode
  lli_threshold :: fp
  lli_pending :: "string \<rightharpoonup> PendingPrediction"
  lli_sessions :: bool
  lli_store :: LlmSessionManager
  lli_ipc :: "IpcMessage list option"

definition LlmInterceptor_new ::
  "litert option \<Rightarrow> RoutingMode \<Rightarrow> rules_table \<Rightarrow> bool \<Rightarrow> LlmSessionManager \<Rightarrow> LlmInterceptor" where
  "LlmInterceptor_new engine mode rules sessions store = \<lparr>lli_engine = engine, lli_rules = rules,
     lli_mode = mode, lli_threshold = f32_lit (8 / 10), lli_pending = Map.empty,
     lli_sessions = sessions, lli_store = store, lli_ipc = None\<rparr>"

definition set_ipc_sender :: "LlmInterceptor \<Rightarrow> LlmInterceptor" where
  "set_ipc_sender I = I\<lparr>lli_ipc := Some []\<rparr>"

definition set_routing_mode :: "RoutingMode \<Rightarrow> LlmInterceptor \<Rightarrow> LlmInterceptor" where
  "set_routing_mode m I = I\<lparr>lli_mode := m\<rparr>"

definition get_routing_mode :: "LlmInterceptor \<Rightarrow> RoutingMode" where
  "get_routing_mode I = lli_mode I"

record llm_call =
  lk_rules :: sql_outcome
  lk_store :: store_call
  lk_latency :: u64
  lk_message_id :: MessageId
  lk_now :: datetime
  lk_select :: sql_outcome
  lk_update :: sql_outcome
  lk_actual :: actual_call

section \<open>Management at run time\<close>

definition no_manager :: LlmError where
  "no_manager = LlmConfigError ''Interceptor manager not set''"

definition add_interceptor_at_runtime ::
  "('i, 'e, 'err) interceptor_ops \<Rightarrow> 'i \<Rightarrow> 'i InterceptorManager option
     \<Rightarrow> (LlmError + unit) \<times> 'i InterceptorManager option" where
  "add_interceptor_at_runtime T i mgr = (case mgr of
     Some M \<Rightarrow> (Inr (), Some (add_interceptor T M i)) | None \<Rightarrow> (Inl no_manager, None))"

definition remove_interceptor_at_runtime ::
  "('i, 'e, 'err) interceptor_ops \<Rightarrow> string \<Rightarrow> 'i InterceptorManager option
     \<Rightarrow> (LlmError + bool) \<times> 'i InterceptorManager option" where
  "remove_interceptor_at_runtime T name mgr = (case mgr of
     Some M \<Rightarrow> (case remove_interceptor T M name of (b, M') \<Rightarrow> (Inr b, Some M'))
   | None \<Rightarrow> (Inl no_manager, None))"

definition llm_list_interceptors ::
  "('i, 'e, 'err) interceptor_ops \<Rightarrow> 'i InterceptorManager option \<Rightarrow> LlmError + string list" where
  "llm_list_interceptors T mgr = (case mgr of
     Some M \<Rightarrow> Inr (list_interceptors T M) | None \<Rightarrow> Inl no_manager)"

section \<open>Reading messages\<close>

definition request_id_json :: "RequestId \<Rightarrow> json" where
  "request_id_json i = (case i of IdString s \<Rightarrow> String s
     | IdNumber n \<Rightarrow> Number (number_from_i64 n) | IdNull \<Rightarrow> Null)"

definition or_null :: "json option \<Rightarrow> json" where
  "or_null v = (case v of Some j \<Rightarrow> j | None \<Rightarrow> Null)"

definition mcp_context_json :: "JsonRpcMessage \<Rightarrow> json" where
  "mcp_context_json m = (case m of
     Request r \<Rightarrow> Object [(''id'', request_id_json (req_id r)), (''method'', String (req_method r)),
        (''params'', or_null (req_params r))]
   | Notification n \<Rightarrow> Object [(''id'', Null), (''method'', String (notif_method n)),
        (''params'', or_null (notif_params n))]
   | Response r \<Rightarrow> Object [(''id'', request_id_json (resp_id r)), (''method'', Null), (''params'', Null)])"

definition extract_mcp_context :: "llm_ext \<Rightarrow> JsonRpcMessage \<Rightarrow> string" where
  "extract_mcp_context X m = lx_show X (mcp_context_json m)"

definition llm_request_id :: "JsonRpcMessage \<Rightarrow> string option" where
  "llm_request_id m = (case m of
     Request r \<Rightarrow> Some (request_id_display (req_id r))
   | Response r \<Rightarrow> Some (request_id_display (resp_id r)) | Notification _ \<Rightarrow> None)"

fun first_name :: "json list \<Rightarrow> string option" where
  "first_name [] = None"
| "first_name (v # vs) =
     (case (case v of Object m \<Rightarrow> Option.bind (obj_get m ''name'') as_str | _ \<Rightarrow> None) of
        Some s \<Rightarrow> Some s | None \<Rightarrow> first_name vs)"

definition extract_tool_name :: "json option \<Rightarrow> string option" where
  "extract_tool_name params = (case params of
     Some (Object m) \<Rightarrow> Option.bind (obj_get m ''name'') as_str
   | Some (Array items) \<Rightarrow> first_name items
   | _ \<Rightarrow> None)"

definition is_tool_call :: "string \<Rightarrow> bool" where
  "is_tool_call meth \<longleftrightarrow> meth = ''tools/call'' \<or> meth = ''tools.call''"

definition determine_actual_tool :: "JsonRpcMessage \<Rightarrow> string option" where
  "determine_actual_tool m = (case m of
     Request r \<Rightarrow> (if is_tool_call (req_method r) then extract_tool_name (req_params r)
                   else Some (req_method r))
   | Notification n \<Rightarrow> (if is_tool_call (notif_method n) then extract_tool_name (notif_params n)
                   else Some (notif_method n))
   | Response _ \<Rightarrow> None)"

section \<open>Annotating messages\<close>

definition params_object :: "json option \<Rightarrow> (string \<times> json) list" where
  "params_object p = (case p of Some (Object m) \<Rightarrow> m | _ \<Rightarrow> [])"

text \<open>Two entries are added to the parameters; a confidence that is no JSON number is an
  error.\<close>

definition annotate ::
  "string \<Rightarrow> string \<Rightarrow> string \<Rightarrow> fp \<Rightarrow> json option \<Rightarrow> LlmError + json option" where
  "annotate k1 v1 k2 conf params =
     (if is_finite conf
      then Inr (Some (Object (obj_insert k2 (Number (Float (fp_bits64 conf)))
             (obj_insert k1 (String v1) (params_object params)))))
      else Inl (LlmConfigError ''Invalid confidence''))"

definition annotate_message ::
  "string \<Rightarrow> string \<Rightarrow> string \<Rightarrow> fp \<Rightarrow> JsonRpcMessage \<Rightarrow> LlmError + JsonRpcMessage" where
  "annotate_message k1 v1 k2 conf m = (case m of
     Request r \<Rightarrow> and_then (annotate k1 v1 k2 conf (req_params r))
       (\<lambda>p. Inr (Request (r\<lparr>req_params := p\<rparr>)))
   | Notification n \<Rightarrow> and_then (annotate k1 v1 k2 conf (notif_params n))
       (\<lambda>p. Inr (Notification (n\<lparr>notif_params := p\<rparr>)))
   | Response r \<Rightarrow> Inr (Response r))"

definition enhance_request_with_prediction :: "ToolPrediction \<Rightarrow> JsonRpcMessage \<Rightarrow> LlmError + JsonRpcMessage" where
  "enhance_request_with_prediction p m =
     annotate_message ''_predicted_tool'' (tool_name p) ''_prediction_confidence'' (tp_confidence p) m"

definition apply_routing_rule :: "DbRoutingRule \<Rightarrow> JsonRpcMessage \<Rightarrow> LlmError + JsonRpcMessage" where
  "apply_routing_rule rule m =
     annotate_message ''_routed_transport'' (target_transport rule) ''_routing_confidence''
       (rule_confidence rule) m"

section \<open>Routing\<close>

definition put_store :: "LlmSessionManager \<Rightarrow> LlmInterceptor \<Rightarrow> LlmInterceptor" where
  "put_store M I = I\<lparr>lli_store := M\<rparr>"

definition send_ipc :: "IpcMessage \<Rightarrow> LlmInterceptor \<Rightarrow> LlmInterceptor" where
  "send_ipc m I = I\<lparr>lli_ipc := map_option (\<lambda>sent. sent @ [m]) (lli_ipc I)\<rparr>"

definition remember_prediction ::
  "llm_call \<Rightarrow> JsonRpcMessage \<Rightarrow> SessionId option \<Rightarrow> PredictionOutcome \<Rightarrow> LlmInterceptor \<Rightarrow> LlmInterceptor" where
  "remember_prediction k m sid out I = (case llm_request_id m of
     None \<Rightarrow> I
   | Some rid \<Rightarrow> I\<lparr>lli_pending := (lli_pending I)(rid \<mapsto>
       \<lparr>pp_record_id = po_record_id out, pp_predicted_tool = tool_name (po_prediction out),
        pp_actual_tool = determine_actual_tool m, pp_session_id = sid,
        pp_message_id = Some (lk_message_id k)\<rparr>)\<rparr>)"

definition record_in_session ::
  "llm_call \<Rightarrow> SessionId option \<Rightarrow> PredictionOutcome \<Rightarrow> LlmInterceptor \<Rightarrow> LlmInterceptor" where
  "record_in_session k sid out I = (case (lli_sessions I, sid) of
     (True, Some s) \<Rightarrow> put_store (record_prediction_for_session (lk_now k) s
        (SessionPrediction_new (lk_now k) (lk_message_id k) (po_prediction out)
           (Some (po_record_id out)) (lk_latency k)) (lli_store I)) I
   | _ \<Rightarrow> I)"

definition semantic_routing ::
  "llm_ext \<Rightarrow> llm_call \<Rightarrow> JsonRpcMessage \<Rightarrow> string \<Rightarrow> SessionId option \<Rightarrow> LlmInterceptor
     \<Rightarrow> (LlmError + InterceptionResult) \<times> LlmInterceptor" where
  "semantic_routing X k m ctx sid I =
     (case predict_tool X (lli_engine I) (lk_store k) ctx (sm_predictions (lli_store I)) of
        (Inl e, tbl) \<Rightarrow> (Inl e, put_store ((lli_store I)\<lparr>sm_predictions := tbl\<rparr>) I)
      | (Inr out, tbl) \<Rightarrow>
         (let I = put_store ((lli_store I)\<lparr>sm_predictions := tbl\<rparr>) I;
              I = remember_prediction k m sid out I;
              I = record_in_session k sid out I;
              p = po_prediction out;
              I = send_ipc (SemanticPrediction ctx (tool_name p) (fp_bits64 (tp_confidence p)) None None) I
          in if fp_le (lli_threshold I) (tp_confidence p)
             then (and_then (enhance_request_with_prediction p m) (\<lambda>m'.
                     Inr (modified m' (''Enhanced with tool prediction: '' @ tool_name p)
                       (fp_bits64 (tp_confidence p)))), I)
             else (Inr (pass_through m), I)))"

definition hybrid_routing ::
  "llm_ext \<Rightarrow> llm_call \<Rightarrow> JsonRpcMessage \<Rightarrow> string \<Rightarrow> SessionId option \<Rightarrow> LlmInterceptor
     \<Rightarrow> (LlmError + InterceptionResult) \<times> LlmInterceptor" where
  "hybrid_routing X k m ctx sid I =
     (case find_matching_rule (lk_rules k) ctx (lli_rules I) of
        Inl e \<Rightarrow> (Inl e, I)
      | Inr (Some rule) \<Rightarrow>
          (and_then (apply_routing_rule rule m) (\<lambda>m'.
             Inr (modified m' (''Routed via rule: '' @ rule_pattern rule)
               (fp_bits64 (rule_confidence rule)))), I)
      | Inr None \<Rightarrow> semantic_routing X k m ctx sid I)"

text \<open>Errors are wrapped twice, once here and once by \<open>intercept\<close>.\<close>

definition predict_and_route ::
  "llm_ext \<Rightarrow> llm_call \<Rightarrow> JsonRpcMessage \<Rightarrow> string \<Rightarrow> SessionId option \<Rightarrow> LlmInterceptor
     \<Rightarrow> (McpError + InterceptionResult) \<times> LlmInterceptor" where
  "predict_and_route X k m ctx sid I = (case lli_mode I of
     BypassMode \<Rightarrow> (Inr (pass_through m), I)
   | SemanticMode \<Rightarrow> map_prod (map_err (\<lambda>e. Internal (llm_error_display e))) id
       (semantic_routing X k m ctx sid I)
   | HybridMode \<Rightarrow> map_prod (map_err (\<lambda>e. Internal (llm_error_display e))) id
       (hybrid_routing X k m ctx sid I))"

section \<open>Settling predictions\<close>

definition settle_pending ::
  "llm_call \<Rightarrow> PendingPrediction \<Rightarrow> string \<Rightarrow> LlmInterceptor \<Rightarrow> LlmInterceptor" where
  "settle_pending k p actual I =
     (let S = lli_store I;
          tbl = snd (update_prediction_result (lk_select k) (lk_update k) (pp_record_id p) actual
                  (sm_predictions S));
          I = put_store (S\<lparr>sm_predictions := tbl\<rparr>) I
      in case (lli_sessions I, pp_session_id p, pp_message_id p) of
           (True, Some sid, Some mid) \<Rightarrow>
             put_store (snd (record_actual_tool (lk_actual k) sid mid actual (lli_store I))) I
         | _ \<Rightarrow> I)"

definition update_prediction_accuracy ::
  "llm_call \<Rightarrow> JsonRpcMessage \<Rightarrow> LlmInterceptor \<Rightarrow> LlmInterceptor" where
  "update_prediction_accuracy k m I = (case llm_request_id m of
     None \<Rightarrow> I
   | Some rid \<Rightarrow> (case lli_pending I rid of
       None \<Rightarrow> I
     | Some p \<Rightarrow>
        (let I = I\<lparr>lli_pending := (lli_pending I)(rid := None)\<rparr> in
         case pp_actual_tool p of
           Some actual \<Rightarrow> settle_pending k p actual I
         | None \<Rightarrow> I)))"

section \<open>The interceptor\<close>

definition llm_should_intercept :: "MessageContext \<Rightarrow> bool" where
  "llm_should_intercept c \<longleftrightarrow> ctx_direction c = Outgoing
     \<or> (case ctx_message c of Response _ \<Rightarrow> True | _ \<Rightarrow> False)"

definition llm_intercept ::
  "llm_ext \<Rightarrow> (string \<Rightarrow> SessionId option) \<Rightarrow> LlmInterceptor \<Rightarrow> llm_call \<Rightarrow> MessageContext
     \<Rightarrow> (McpError + InterceptionResult) \<times> LlmInterceptor" where
  "llm_intercept X parse_uuid I k c =
     (let ctx = extract_mcp_context X (ctx_message c);
          sid = Option.bind (ctx_session_id c) parse_uuid in
      case ctx_direction c of
        Outgoing \<Rightarrow> map_prod (map_err (\<lambda>e. Internal (''Internal error: '' @
             (case e of Internal s \<Rightarrow> s | _ \<Rightarrow> [])))) id
           (predict_and_route X k (ctx_message c) ctx sid I)
      | Incoming \<Rightarrow> (Inr (pass_through (ctx_message c)),
           update_prediction_accuracy k (ctx_message c) I))"

text \<open>As one of the interceptors of a manager; its priority is the trait's default and it never
  panics.\<close>

definition llm_ops ::
  "llm_ext \<Rightarrow> (string \<Rightarrow> SessionId option) \<Rightarrow> (LlmInterceptor, llm_call, McpError) interceptor_ops" where
  "llm_ops X parse_uuid = \<lparr>i_name = (\<lambda>_. ''LLM Interceptor''), i_priority = (\<lambda>_. default_priority),
     i_should = (\<lambda>_ c. llm_should_intercept c),
     i_intercept = (\<lambda>I k c. Done (llm_intercept X parse_uuid I k c))\<rparr>"

section \<open>Routing only annotates\<close>

definition routing_keys :: "string set" where
  "routing_keys = {''_predicted_tool'', ''_prediction_confidence'', ''_routed_transport'',
     ''_routing_confidence''}"

text \<open>How parameters change when a message is annotated. An object keeps every field that is not an
  annotation. Absent parameters become an object of annotations. Parameters that are present but
  not an object, positional ones above all, are dropped: an object of annotations takes their
  place.\<close>

definition keeps_fields :: "(string \<times> json) list \<Rightarrow> (string \<times> json) list \<Rightarrow> bool" where
  "keeps_fields m0 m \<longleftrightarrow> (\<forall>key. key \<notin> routing_keys \<longrightarrow> obj_get m key = obj_get m0 key)"

definition only_annotations :: "(string \<times> json) list \<Rightarrow> bool" where
  "only_annotations m \<longleftrightarrow> (\<forall>key. obj_get m key \<noteq> None \<longrightarrow> key \<in> routing_keys)"

definition annotated_params :: "json option \<Rightarrow> json option \<Rightarrow> bool" where
  "annotated_params p q \<longleftrightarrow> (\<exists>m. q = Some (Object m) \<and> (case p of
     None \<Rightarrow> only_annotations m
   | Some (Object m0) \<Rightarrow> keeps_fields m0 m
   | Some _ \<Rightarrow> only_annotations m))"

lemma annotated_params_object:
  "annotated_params p q \<longleftrightarrow> (\<exists>m. q = Some (Object m) \<and> keeps_fields (params_object p) m)"
proof -
  have "keeps_fields [] m \<longleftrightarrow> only_annotations m" for m
    unfolding keeps_fields_def only_annotations_def by (auto simp: obj_get_def)
  then show ?thesis
    by (auto simp: annotated_params_def params_object_def split: option.splits json.splits)
qed

definition annotated :: "JsonRpcMessage \<Rightarrow> JsonRpcMessage \<Rightarrow> bool" where
  "annotated a b \<longleftrightarrow> b = a \<or> (case a of
     Request r \<Rightarrow> (\<exists>q. b = Request (r\<lparr>req_params := q\<rparr>) \<and> annotated_params (req_params r) q)
   | Notification n \<Rightarrow> (\<exists>q. b = Notification (n\<lparr>notif_params := q\<rparr>) \<and> annotated_params (notif_params n) q)
   | Response _ \<Rightarrow> False)"

lemma annotate_params:
  "annotate k1 v1 k2 conf p = Inr q \<Longrightarrow> k1 \<in> routing_keys \<Longrightarrow> k2 \<in> routing_keys \<Longrightarrow> annotated_params p q"
  by (auto simp: annotate_def annotated_params_object keeps_fields_def obj_get_insert split: if_splits)

lemma annotate_message_annotated:
  "annotate_message k1 v1 k2 conf m = Inr m' \<Longrightarrow> k1 \<in> routing_keys \<Longrightarrow> k2 \<in> routing_keys
   \<Longrightarrow> annotated m m'"
  by (cases m) (auto simp: annotate_message_def annotated_def and_then_eq_Inr dest: annotate_params)

lemma annotated_refl [simp]: "annotated m m"
  by (simp add: annotated_def)

lemma semantic_routing_annotates:
  assumes "semantic_routing X k m ctx sid I = (Inr r, I')"
  shows "\<not> ir_block r \<and> annotated m (ir_message r)"
proof -
  obtain q tbl where "predict_tool X (lli_engine I) (lk_store k) ctx (sm_predictions (lli_store I)) = (q, tbl)"
    by force
  then show ?thesis using assms
    by (cases q) (auto simp: semantic_routing_def Let_def modified_def pass_through_def
        and_then_eq_Inr enhance_request_with_prediction_def routing_keys_def
        dest!: annotate_message_annotated split: if_splits)
qed

lemma hybrid_routing_annotates:
  assumes "hybrid_routing X k m ctx sid I = (Inr r, I')"
  shows "\<not> ir_block r \<and> annotated m (ir_message r)"
  using assms semantic_routing_annotates [of X k m ctx sid I r I']
  by (auto simp: hybrid_routing_def modified_def and_then_eq_Inr apply_routing_rule_def routing_keys_def
      dest!: annotate_message_annotated split: sum.splits option.splits)

lemma llm_intercept_annotates:
  assumes "llm_intercept X parse_uuid I k c = (Inr r, I')"
  shows "\<not> ir_block r \<and> annotated (ctx_message c) (ir_message r) \<and>
    (lli_mode I = BypassMode \<longrightarrow> r = pass_through (ctx_message c))"
proof (cases "ctx_direction c")
  case Incoming
  then show ?thesis using assms by (auto simp: llm_intercept_def Let_def pass_through_def)
next
  case Outgoing
  let ?sid = "Option.bind (ctx_session_id c) parse_uuid"
  let ?ctx = "extract_mcp_context X (ctx_message c)"
  have "fst (predict_and_route X k (ctx_message c) ?ctx ?sid I) = Inr r"
    using assms Outgoing
    by (auto simp: llm_intercept_def Let_def map_prod_def map_err_eq_Inr split: prod.splits)
  then show ?thesis
    using semantic_routing_annotates [of X k "ctx_message c" ?ctx ?sid I r]
      hybrid_routing_annotates [of X k "ctx_message c" ?ctx ?sid I r]
    by (cases "lli_mode I")
      (auto simp: predict_and_route_def pass_through_def map_prod_def map_err_eq_Inr split: prod.splits)
qed

text \<open>C22 (what routing changes). Whatever the mode, the model and the database do, the routing
  interceptor never blocks a message and never touches a response; it leaves a request or
  notification as it is or changes its parameters alone. Parameters that are an object keep every
  field but the four annotation keys; absent parameters become an object with annotation keys only;
  parameters that are an array or another value are lost and replaced by such an object. In bypass
  mode the message is passed on as it is.\<close>

theorem routing_only_annotates:
  assumes "llm_intercept X parse_uuid I k c = (Inr r, I')"
  shows "\<not> ir_block r \<and> annotated (ctx_message c) (ir_message r) \<and>
    (lli_mode I = BypassMode \<longrightarrow> r = pass_through (ctx_message c))"
  by (rule llm_intercept_annotates [OF assms])

definition sample_llm :: "RoutingMode \<Rightarrow> rules_table \<Rightarrow> LlmInterceptor" where
  "sample_llm mode rules = LlmInterceptor_new None mode rules False sample_manager"

definition sample_llm_call :: llm_call where
  "sample_llm_call = \<lparr>lk_rules = None, lk_store = \<lparr>sc_uuid = ''u'', sc_now = 0, sc_out = None\<rparr>,
     lk_latency = 0, lk_message_id = ''m'', lk_now = 0, lk_select = None, lk_update = None,
     lk_actual = sample_actual\<rparr>"

definition sample_positional :: JsonRpcMessage where
  "sample_positional = Request (request_new (IdNumber 1) ''tools/list'' (Array [Bool True]))"

lemma sample_positional_routed:
  "llm_intercept sample_llm_ext (\<lambda>s. None) (sample_llm HybridMode [sample_rule [] (Fin False 1)])
     sample_llm_call (context_new 0 sample_positional Outgoing)
   = (Inr (modified (Request (request_new (IdNumber 1) ''tools/list''
        (Object [(''_routed_transport'', String ''stdio''),
                 (''_routing_confidence'', Number (Float (fp_bits64 (Fin False 1))))])))
       ''Routed via rule: '' (fp_bits64 (Fin False 1))),
      sample_llm HybridMode [sample_rule [] (Fin False 1)])"
  by (simp add: llm_intercept_def context_new_def sample_llm_def LlmInterceptor_new_def Let_def
      predict_and_route_def hybrid_routing_def find_matching_rule_def sql_select_def sample_llm_call_def
      order_by_confidence_def sample_rule_def extract_mcp_context_def sample_llm_ext_def
      apply_routing_rule_def annotate_message_def sample_positional_def request_new_def annotate_def
      is_finite_def params_object_def)

theorem routing_only_annotates_witness:
  "\<exists>r I'. llm_intercept sample_llm_ext (\<lambda>s. None) (sample_llm HybridMode [sample_rule [] (Fin False 1)])
      sample_llm_call (context_new 0 sample_positional Outgoing) = (Inr r, I') \<and>
    annotated sample_positional (ir_message r)"
  using routing_only_annotates [OF sample_positional_routed] sample_positional_routed
  by (auto simp: context_new_def)

text \<open>Positional parameters. A message that is annotated loses parameters that are not an
  object: a parameter array is replaced by the two annotations.\<close>

theorem positional_params_lost:
  assumes "req_params r = Some (Array items)"
    "annotate_message k1 v1 k2 conf (Request r) = Inr m'" "k1 < k2"
  shows "m' = Request (r\<lparr>req_params := Some (Object [(k1, String v1),
    (k2, Number (Float (fp_bits64 conf)))])\<rparr>)"
  using assms
  by (auto simp: annotate_message_def annotate_def params_object_def and_then_eq_Inr split: if_splits)

theorem positional_params_lost_witness:
  "annotate_message ''a'' ''x'' ''b'' (Fin False 0)
     (Request (request_new (IdNumber 1) ''m'' (Array [Bool True])))
   = Inr (Request (request_new (IdNumber 1) ''m''
       (Object [(''a'', String ''x''), (''b'', Number (Float (fp_bits64 (Fin False 0))))])))"
proof -
  let ?r = "request_new (IdNumber 1) ''m'' (Array [Bool True])"
  obtain m' where m: "annotate_message ''a'' ''x'' ''b'' (Fin False 0) (Request ?r) = Inr m'"
    by (simp add: annotate_message_def annotate_def is_finite_def)
  from positional_params_lost [OF _ this, of "[Bool True]"] m show ?thesis
    by (simp add: request_new_def)
qed

section \<open>Predictions of methods\<close>

lemma find_fresh_last:
  "f x \<notin> f ` set xs \<Longrightarrow> find (\<lambda>r. f r = f x) (xs @ [x]) = Some x"
  by (induction xs) auto

lemma semantic_heuristic:
  assumes "lli_engine I = None" "sc_out (lk_store k) = None" "\<not> lli_sessions I"
    and h: "heuristic_choice X ctx = (tool, conf, why)"
    and s: "semantic_routing X k (Request r) ctx sid I = (q, I1)"
  shows "\<exists>row. sm_predictions (lli_store I1) = sm_predictions (lli_store I) @ [row] \<and>
      pr_id row = sc_uuid (lk_store k) \<and> predicted_tool row = tool \<and>
      lli_pending I1 (request_id_display (req_id r)) = Some \<lparr>pp_record_id = sc_uuid (lk_store k),
        pp_predicted_tool = tool, pp_actual_tool = determine_actual_tool (Request r),
        pp_session_id = sid, pp_message_id = Some (lk_message_id k)\<rparr> \<and> \<not> lli_sessions I1"
proof -
  define p where "p = \<lparr>tool_name = tool, tp_confidence = conf, tp_reasoning = why, tp_parameters = Object []\<rparr>"
  define row where "row = \<lparr>pr_id = sc_uuid (lk_store k), context_hash = hash_context X ctx,
    predicted_tool = tool, pr_actual_tool = None, pr_confidence = conf,
    prediction_data = tool_prediction_to_value p, pr_timestamp = sc_now (lk_store k), correct = None\<rparr>"
  have "predict_tool X None (lk_store k) ctx (sm_predictions (lli_store I))
      = (Inr \<lparr>po_prediction = p, po_record_id = sc_uuid (lk_store k), po_context_hash = hash_context X ctx\<rparr>,
         sm_predictions (lli_store I) @ [row])"
    using assms(2) h
    by (simp add: predict_tool_def heuristic_predict_def persist_prediction_stored Let_def p_def row_def)
  then show ?thesis using s assms(1,3)
    by (intro exI [of _ row])
      (auto simp: semantic_routing_def Let_def remember_prediction_def llm_request_id_def
        record_in_session_def send_ipc_def put_store_def row_def p_def split: if_splits)
qed

text \<open>Method names. The heuristic names methods with a dot (\<open>tools.list\<close>) and the outcome of
  a request that is no tool call is its method, which the protocol spells with a slash. So without
  a language model a request for any method other than those dotted names is settled as a wrong
  prediction when its response arrives.\<close>

theorem method_prediction_wrong:
  assumes "lli_mode I = SemanticMode" "lli_engine I = None" "\<not> lli_sessions I"
    and "\<not> is_tool_call (req_method r)" "req_method r \<notin> set heuristic_names"
    and "fst (heuristic_choice X (extract_mcp_context X (Request r))) \<in> set heuristic_names"
    and "sc_out (lk_store k) = None"
      "sc_uuid (lk_store k) \<notin> pr_id ` set (sm_predictions (lli_store I))"
    and out: "llm_intercept X parse_uuid I k (context_new t (Request r) Outgoing) = (q, I1)"
    and answered: "llm_intercept X parse_uuid I1 k' (context_new t' (Response resp) Incoming) = (q', I2)"
    and "resp_id resp = req_id r" "lk_select k' = None" "lk_update k' = None"
  shows "\<exists>row\<in>set (sm_predictions (lli_store I2)). pr_id row = sc_uuid (lk_store k) \<and>
    pr_actual_tool row = Some (req_method r) \<and> correct row = Some False"
proof -
  let ?ctx = "extract_mcp_context X (Request r)"
  obtain tool conf why where h: "heuristic_choice X ?ctx = (tool, conf, why)" by (metis prod_cases3)
  then have wrong: "tool \<noteq> req_method r" using assms(5,6) by auto
  obtain q1 where "semantic_routing X k (Request r) ?ctx None I = (q1, I1)"
    using out assms(1)
    by (cases "semantic_routing X k (Request r) ?ctx None I")
      (auto simp: llm_intercept_def context_new_def Let_def predict_and_route_def)
  from semantic_heuristic [OF assms(2,7,3) h this]
  obtain row where row: "sm_predictions (lli_store I1) = sm_predictions (lli_store I) @ [row]"
    "pr_id row = sc_uuid (lk_store k)" "predicted_tool row = tool"
    and pend: "lli_pending I1 (request_id_display (req_id r)) = Some \<lparr>pp_record_id = sc_uuid (lk_store k),
        pp_predicted_tool = tool, pp_actual_tool = Some (req_method r),
        pp_session_id = None, pp_message_id = Some (lk_message_id k)\<rparr>" and ns: "\<not> lli_sessions I1"
    using assms(4) by (auto simp: determine_actual_tool_def)
  have f: "find (\<lambda>x. pr_id x = sc_uuid (lk_store k)) (sm_predictions (lli_store I1)) = Some row"
    using find_fresh_last [of pr_id row "sm_predictions (lli_store I)"] row assms(8) by simp
  have "sm_predictions (lli_store I2) = map (\<lambda>x. if pr_id x = sc_uuid (lk_store k)
      then x\<lparr>pr_actual_tool := Some (req_method r), correct := Some False\<rparr> else x)
      (sm_predictions (lli_store I1))"
    using answered pend ns f wrong row(3) assms(11-13)
    by (auto simp: llm_intercept_def context_new_def Let_def update_prediction_accuracy_def
        llm_request_id_def settle_pending_def put_store_def update_prediction_result_def
        db_update_prediction_result_def get_prediction_tool_def sql_select_def)
  then show ?thesis using row by auto
qed

theorem method_prediction_wrong_witness:
  "let I1 = snd (llm_intercept sample_llm_ext (\<lambda>s. None) (sample_llm SemanticMode []) sample_llm_call
                   (context_new 0 sample_positional Outgoing));
       I2 = snd (llm_intercept sample_llm_ext (\<lambda>s. None) I1 sample_llm_call
                   (context_new 0 (Response (response_success (IdNumber 1) Null)) Incoming))
   in \<exists>row\<in>set (sm_predictions (lli_store I2)). correct row = Some False"
proof -
  let ?r = "request_new (IdNumber 1) ''tools/list'' (Array [Bool True])"
  let ?I = "sample_llm SemanticMode []"
  let ?o = "llm_intercept sample_llm_ext (\<lambda>s. None) ?I sample_llm_call (context_new 0 (Request ?r) Outgoing)"
  let ?b = "llm_intercept sample_llm_ext (\<lambda>s. None) (snd ?o) sample_llm_call
    (context_new 0 (Response (response_success (IdNumber 1) Null)) Incoming)"
  have "fst (heuristic_choice sample_llm_ext []) \<in> set heuristic_names"
    by (simp add: heuristic_choice_def sample_llm_ext_def keyword_choice_name Let_def)
  moreover have "extract_mcp_context sample_llm_ext (Request ?r) = []"
    by (simp add: extract_mcp_context_def sample_llm_ext_def)
  ultimately have "\<exists>row\<in>set (sm_predictions (lli_store (snd ?b))).
      pr_id row = sc_uuid (lk_store sample_llm_call) \<and>
      pr_actual_tool row = Some (req_method ?r) \<and> correct row = Some False"
    by (intro method_prediction_wrong [where I = ?I and r = ?r and q = "fst ?o" and q' = "fst ?b"
          and resp = "response_success (IdNumber 1) Null" and t = 0 and t' = 0 and k' = sample_llm_call])
      (auto simp: sample_llm_def LlmInterceptor_new_def sample_manager_def sample_llm_call_def
        request_new_def response_success_def is_tool_call_def heuristic_names_def)
  then show ?thesis by (auto simp: Let_def sample_positional_def)
qed

end
