(* ===== verification/Ipc_Server.thy ===== *)
theory Ipc_Server
  imports Llm_Interceptor
begin

text \<open>
  The proxy's side of the connection with the monitor (\<open>acdp-transport/src/ipc_server.rs\<close>): a
  query from the monitor becomes a job for the transport, whose completion is sent back. Handling
  a message suspends while the job is under way, so the completion (or that the job was dropped)
  is an argument, as are the answers of the channels and of the buffered client. The text of a
  JSON value is the parameter \<open>show_json\<close>.
\<close>

section \<open>Jobs and completions\<close>

record TuiQueryJob =
  tj_correlation_id :: string
  tj_query :: string
  tj_mcp_method :: "string option"
  tj_mcp_params :: "json option"

record TuiQueryCompletion =
  tc_response :: string
  tc_error :: "string option"
  tc_ttft_ms :: "fp option"
  tc_tokens_per_sec :: "fp option"
  tc_total_tokens :: "nat option"
  tc_interceptor_delay_ms :: "fp option"

definition as_secs_f64 :: "duration \<Rightarrow> fp" where
  "as_secs_f64 d = fp_add binary64 (fp_of_nat binary64 (d div 1000000000))
     (fp_div binary64 (fp_of_nat binary64 (d mod 1000000000)) (fp_of_nat binary64 1000000000))"

definition names_of :: "json list \<Rightarrow> string list" where
  "names_of tools = List.map_filter (\<lambda>t. Option.bind (value_get t ''name'') as_str) tools"

definition json_array :: "json \<Rightarrow> json list option" where
  "json_array v = (case v of Array xs \<Rightarrow> Some xs | _ \<Rightarrow> None)"

fun first_text :: "json list \<Rightarrow> string option" where
  "first_text [] = None"
| "first_text (i # is) = (case Option.bind (value_get i ''text'') as_str of
     Some t \<Rightarrow> (if trim t \<noteq> [] then Some (trim t) else first_text is)
   | None \<Rightarrow> first_text is)"

definition tools_text :: "json \<Rightarrow> string option" where
  "tools_text v = (case Option.bind (value_get v ''tools'') json_array of
     Some tools \<Rightarrow> (if names_of tools \<noteq> []
        then Some (''Available tools: '' @ join_strings '', '' (names_of tools)) else None)
   | None \<Rightarrow> None)"

definition extract_text_from_value :: "json \<Rightarrow> string option" where
  "extract_text_from_value v = (case tools_text v of
     Some t \<Rightarrow> Some t
   | None \<Rightarrow> (case Option.bind (Option.bind (value_get v ''content'') json_array) first_text of
       Some t \<Rightarrow> Some t
     | None \<Rightarrow> (case Option.bind (value_get v ''text'') as_str of
         Some t \<Rightarrow> (if trim t \<noteq> [] then Some (trim t) else None)
       | None \<Rightarrow> None)))"

definition extract_text :: "(json \<Rightarrow> string) \<Rightarrow> JsonRpcResponse \<Rightarrow> string" where
  "extract_text show_json r = (case resp_result r of
     Some v \<Rightarrow> (case extract_text_from_value v of Some t \<Rightarrow> t | None \<Rightarrow> show_json v)
   | None \<Rightarrow> [])"

definition completion_from_response :: "(json \<Rightarrow> string) \<Rightarrow> JsonRpcResponse \<Rightarrow> duration \<Rightarrow> TuiQueryCompletion" where
  "completion_from_response show_json r elapsed =
     (let text = extract_text show_json r;
          n = (if text = [] then 0 else length (split_whitespace text));
          s = as_secs_f64 elapsed in
      \<lparr>tc_response = text,
       tc_error = map_option (\<lambda>e. err_message e @ '' (code '' @ show_int (code e) @ '')'') (resp_error r),
       tc_ttft_ms = Some (fp_mul binary64 s (fp_of_nat binary64 1000)),
       tc_tokens_per_sec = (if 0 < n \<and> fp_lt (Fin False 0) s
          then Some (fp_div binary64 (fp_of_nat binary64 n) s) else None),
       tc_total_tokens = (if 0 < n then Some n else None),
       tc_interceptor_delay_ms = None\<rparr>)"

definition error_completion :: "string \<Rightarrow> TuiQueryCompletion" where
  "error_completion e = \<lparr>tc_response = [], tc_error = Some e, tc_ttft_ms = None,
     tc_tokens_per_sec = None, tc_total_tokens = None, tc_interceptor_delay_ms = None\<rparr>"

definition query_response :: "string \<Rightarrow> TuiQueryCompletion \<Rightarrow> IpcMessage" where
  "query_response cid c = TuiQueryResponse cid (tc_response c) (tc_error c)
     (map_option fp_bits64 (tc_ttft_ms c)) (map_option fp_bits64 (tc_tokens_per_sec c))
     (tc_total_tokens c) (map_option fp_bits64 (tc_interceptor_delay_ms c))"

section \<open>Message handling\<close>

record ProxyIpcServer =
  has_query_tx :: bool
  has_routing_tx :: bool

text \<open>What the handling of one message meets: whether the job could be queued (\<open>Some e\<close> when
  the channel is closed), the completion (\<open>None\<close> when the job was dropped), and the answer of
  the client to the message sent back.\<close>

record handle_env =
  hv_queue :: "string option"
  hv_completion :: "TuiQueryCompletion option"
  hv_ipc :: "string option"
  hv_routing_open :: bool

record handle_effects =
  hf_jobs :: "TuiQueryJob list"
  hf_sent :: "IpcMessage list"
  hf_modes :: "RoutingMode list"

definition no_effects :: handle_effects where
  "no_effects = \<lparr>hf_jobs = [], hf_sent = [], hf_modes = []\<rparr>"

text \<open>A failing client fails the handling; nothing is delivered then.\<close>

definition ipc_reply :: "handle_env \<Rightarrow> IpcMessage \<Rightarrow> handle_effects \<Rightarrow> (string + unit) \<times> handle_effects" where
  "ipc_reply V m f = (case hv_ipc V of Some e \<Rightarrow> (Inl e, f)
     | None \<Rightarrow> (Inr (), f\<lparr>hf_sent := hf_sent f @ [m]\<rparr>))"

definition send_query_error ::
  "handle_env \<Rightarrow> string \<Rightarrow> string \<Rightarrow> handle_effects \<Rightarrow> (string + unit) \<times> handle_effects" where
  "send_query_error V cid message f = ipc_reply V (query_response cid (error_completion message)) f"

definition handle_mcp_request ::
  "ProxyIpcServer \<Rightarrow> handle_env \<Rightarrow> string \<Rightarrow> json option \<Rightarrow> string \<Rightarrow> (string + unit) \<times> handle_effects" where
  "handle_mcp_request S V meth params cid =
     (if has_query_tx S then
        (case hv_queue V of
           Some e \<Rightarrow> send_query_error V cid (''Failed to queue request: '' @ e) no_effects
         | None \<Rightarrow>
            (let f = no_effects\<lparr>hf_jobs := [\<lparr>tj_correlation_id = cid, tj_query = meth,
                  tj_mcp_method = Some meth, tj_mcp_params = params\<rparr>]\<rparr> in
             case hv_completion V of
               Some c \<Rightarrow> (Inr (), snd (ipc_reply V (query_response cid c) f))
             | None \<Rightarrow> (Inr (), f)))
      else send_query_error V cid ''Query processing not available'' no_effects)"

definition handle_query ::
  "ProxyIpcServer \<Rightarrow> handle_env \<Rightarrow> string \<Rightarrow> string \<Rightarrow> (string + unit) \<times> handle_effects" where
  "handle_query S V query cid =
     (if has_query_tx S then
        (case hv_queue V of
           Some e \<Rightarrow> send_query_error V cid ''Proxy transport unavailable'' no_effects
         | None \<Rightarrow>
            (let f = no_effects\<lparr>hf_jobs := [\<lparr>tj_correlation_id = cid, tj_query = query,
                  tj_mcp_method = None, tj_mcp_params = None\<rparr>]\<rparr> in
             case hv_completion V of
               Some c \<Rightarrow> ipc_reply V (query_response cid c) f
             | None \<Rightarrow> send_query_error V cid ''Proxy query handler dropped'' f))
      else send_query_error V cid ''Proxy not ready to process queries'' no_effects)"

definition handle_message ::
  "ProxyIpcServer \<Rightarrow> handle_env \<Rightarrow> IpcMessage \<Rightarrow> (string + unit) \<times> handle_effects" where
  "handle_message S V m = (case m of
     TuiMcpRequest meth params cid \<Rightarrow> handle_mcp_request S V meth params cid
   | TuiQuery query cid \<Rightarrow> handle_query S V query cid
   | RoutingModeChange _ mode \<Rightarrow>
       (if has_routing_tx S then
          (case mode_from_str mode of
             Inr parsed \<Rightarrow> (Inr (), if hv_routing_open V then no_effects\<lparr>hf_modes := [parsed]\<rparr> else no_effects)
           | Inl _ \<Rightarrow> (Inr (), no_effects))
        else (Inr (), no_effects))
   | _ \<Rightarrow> (Inr (), no_effects))"

section \<open>Replies\<close>

definition replies_to :: "string \<Rightarrow> IpcMessage \<Rightarrow> bool" where
  "replies_to cid m = (case m of TuiQueryResponse c _ _ _ _ _ _ \<Rightarrow> c = cid | _ \<Rightarrow> False)"

lemma replies_to_response [simp]: "replies_to cid (query_response cid' c) \<longleftrightarrow> cid' = cid"
  by (simp add: replies_to_def query_response_def)

text \<open>One reply per query. While the connection to the monitor works, every text query gets
  exactly one reply, and it carries the query's correlation identifier, whether the transport is
  missing, closed, answers or drops the job. A structured request gets one as well, except when
  its job is dropped: then no reply is ever sent.\<close>

theorem query_replied_once:
  assumes "hv_ipc V = None"
  shows "(let sent = hf_sent (snd (handle_message S V (TuiQuery query cid)))
          in length sent = 1 \<and> replies_to cid (hd sent)) \<and>
    (let sent = hf_sent (snd (handle_message S V (TuiMcpRequest meth params cid)))
     in if has_query_tx S \<and> hv_queue V = None \<and> hv_completion V = None then sent = []
        else length sent = 1 \<and> replies_to cid (hd sent))"
  using assms
  by (auto simp: handle_message_def handle_query_def handle_mcp_request_def send_query_error_def
      ipc_reply_def no_effects_def Let_def split: option.splits)

theorem query_replied_once_witness:
  "hf_sent (snd (handle_message \<lparr>has_query_tx = True, has_routing_tx = True\<rparr>
     \<lparr>hv_queue = None, hv_completion = None, hv_ipc = None, hv_routing_open = True\<rparr>
     (TuiMcpRequest ''tools/list'' None ''c''))) = []"
  using query_replied_once [of "\<lparr>hv_queue = None, hv_completion = None, hv_ipc = None,
      hv_routing_open = True\<rparr>" "\<lparr>has_query_tx = True, has_routing_tx = True\<rparr>" "[]" "''c''"
      "''tools/list''" None]
  by (simp add: Let_def)

text \<open>A routing mode reaches the transport exactly when its text is a mode in any
  capitalization.\<close>

lemma routing_mode_forwarded:
  assumes "has_routing_tx S" "hv_routing_open V"
  shows "hf_modes (snd (handle_message S V (RoutingModeChange p text))) =
    (case mode_from_str text of Inr m \<Rightarrow> [m] | Inl _ \<Rightarrow> [])"
  using assms by (simp add: handle_message_def no_effects_def split: sum.splits)

end
