(* ===== verification/Stdio_Proxy.thy ===== *)
theory Stdio_Proxy
  imports Ipc_Server Client
begin

text \<open>
  The proxy for servers that speak over standard streams
  (\<open>acdp-transport/src/stdio_handler.rs\<close>): every line of the user and of the server goes
  through the interceptors, queries of the monitor are sent to the server and their responses
  captured, statistics and log entries are sent to the monitor. One turn of the \<open>select!\<close> loop
  is an \<open>event\<close> with the answers of the streams it writes to; \<open>handle_event\<close> is the body
  of its branch. The interceptors are those of any \<open>interceptor_ops\<close>; \<open>sx_set_mode\<close> is
  \<open>LlmInterceptor::set_routing_mode\<close> on the shared routing interceptor. The parser and
  printer of JSON-RPC lines and the lower case of a string are parameters.
\<close>

section \<open>State\<close>

record PendingQuery =
  pq_correlation_id :: string
  pq_started_at :: nat
  pq_interceptor_delay_ms :: "fp option"

record 'i StdioHandler =
  sh_proxy_id :: ProxyId
  sh_stats :: ProxyStats
  sh_ipc :: "IpcMessage list option"
  sh_manager :: "'i InterceptorManager"
  sh_session_id :: "SessionId option"
  sh_has_llm :: bool
  current_routing_mode :: RoutingMode
  pending_queries :: "string \<rightharpoonup> PendingQuery"
  sh_query_rx :: bool
  available_tools :: "string list option"
  to_child :: "string list"
  to_user :: "string list"
  completions :: "(string \<times> TuiQueryCompletion) list"

record ('i, 'e) stdio_ext =
  sx_ops :: "('i, 'e, McpError) interceptor_ops"
  sx_f64 :: f64_ops
  sx_parse :: "string \<Rightarrow> JsonRpcMessage option"
  sx_show :: "JsonRpcMessage \<Rightarrow> string + string"
  sx_show_json :: "json \<Rightarrow> string"
  sx_lower :: "string \<Rightarrow> string"
  sx_set_mode :: "RoutingMode \<Rightarrow> 'i \<Rightarrow> 'i"

definition StdioHandler_new ::
  "ProxyId \<Rightarrow> ProxyStats \<Rightarrow> bool \<Rightarrow> 'i InterceptorManager \<Rightarrow> SessionId option \<Rightarrow> bool \<Rightarrow> RoutingMode \<Rightarrow> 'i StdioHandler" where
  "StdioHandler_new pid stats ipc mgr sid llm mode = \<lparr>sh_proxy_id = pid, sh_stats = stats,
     sh_ipc = (if ipc then Some [] else None), sh_manager = mgr, sh_session_id = sid,
     sh_has_llm = llm, current_routing_mode = mode, pending_queries = Map.empty,
     sh_query_rx = ipc, available_tools = None, to_child = [], to_user = [], completions = []\<rparr>"

definition sh_metadata :: "'i StdioHandler \<Rightarrow> InterceptionMetadata" where
  "sh_metadata h = (case sh_session_id h of
     Some s \<Rightarrow> with_session_id metadata_new s | None \<Rightarrow> metadata_new)"

text \<open>Messages to the monitor are buffered; a failure is only logged.\<close>

definition sh_notify :: "IpcMessage \<Rightarrow> 'i StdioHandler \<Rightarrow> 'i StdioHandler" where
  "sh_notify m h = h\<lparr>sh_ipc := map_option (\<lambda>sent. sent @ [m]) (sh_ipc h)\<rparr>"

definition bump :: "(ProxyStats \<Rightarrow> ProxyStats) \<Rightarrow> 'i StdioHandler \<Rightarrow> 'i StdioHandler" where
  "bump f h = h\<lparr>sh_stats := f (sh_stats h)\<rparr>"

section \<open>Routing mode\<close>

definition apply_routing_mode :: "('i, 'e) stdio_ext \<Rightarrow> RoutingMode \<Rightarrow> 'i StdioHandler \<Rightarrow> 'i StdioHandler" where
  "apply_routing_mode E mode h =
     (let h = h\<lparr>current_routing_mode := mode\<rparr>;
          h = (if sh_has_llm h then h\<lparr>sh_manager := (sh_manager h)\<lparr>interceptors :=
                 map (sx_set_mode E mode) (interceptors (sh_manager h))\<rparr>\<rparr> else h)
      in sh_notify (RoutingModeChanged (sh_proxy_id h) (mode_as_str mode)) h)"

definition process_pending_routing_updates ::
  "('i, 'e) stdio_ext \<Rightarrow> RoutingMode list \<Rightarrow> 'i StdioHandler \<Rightarrow> 'i StdioHandler" where
  "process_pending_routing_updates E modes h = fold (apply_routing_mode E) modes h"

section \<open>Tools and queries\<close>

definition get_available_tool_name :: "'i StdioHandler \<Rightarrow> string option" where
  "get_available_tool_name h = (case available_tools h of
     Some (t # _) \<Rightarrow> Some t | _ \<Rightarrow> None)"

definition update_tools_cache :: "json \<Rightarrow> 'i StdioHandler \<Rightarrow> 'i StdioHandler" where
  "update_tools_cache response h =
     (case Option.bind (Option.bind (value_get response ''result'') (\<lambda>r. value_get r ''tools'')) json_array of
        Some tools \<Rightarrow> (if names_of tools \<noteq> [] then h\<lparr>available_tools := Some (names_of tools)\<rparr> else h)
      | None \<Rightarrow> h)"

text \<open>\<open>elapsed_of t\<close> is the time since the instant \<open>t\<close>.\<close>

definition capture_query_response ::
  "('i, 'e) stdio_ext \<Rightarrow> (nat \<Rightarrow> duration) \<Rightarrow> JsonRpcMessage \<Rightarrow> 'i StdioHandler \<Rightarrow> 'i StdioHandler" where
  "capture_query_response E elapsed_of m h = (case m of
     Response response \<Rightarrow>
       (let h = (case resp_result response of
              Some result \<Rightarrow> (if value_get result ''tools'' \<noteq> None then update_tools_cache result h else h)
            | None \<Rightarrow> h);
            rid = request_id_display (resp_id response) in
        case pending_queries h rid of
          None \<Rightarrow> h
        | Some p \<Rightarrow>
           (let c = completion_from_response (sx_show_json E) response (elapsed_of (pq_started_at p))
            in h\<lparr>pending_queries := (pending_queries h)(rid := None),
                 completions := completions h @ [(pq_correlation_id p,
                    c\<lparr>tc_interceptor_delay_ms := pq_interceptor_delay_ms p\<rparr>)]\<rparr>))
   | _ \<Rightarrow> h)"

section \<open>Lines\<close>

definition pipeline ::
  "('i, 'e) stdio_ext \<Rightarrow> 'e icall \<Rightarrow> JsonRpcMessage \<Rightarrow> MessageDirection \<Rightarrow> 'i StdioHandler
     \<Rightarrow> ((McpError + InterceptionResult) \<times> 'i StdioHandler) rust" where
  "pipeline E k m d h = map_rust (map_prod id (\<lambda>M. h\<lparr>sh_manager := M\<rparr>))
     (process_message_with_metadata (sx_ops E) (sx_f64 E) (ic_env k) (ic_now k) (ic_elapsed k)
        (sh_manager h) m d (sh_metadata h))"

text \<open>A blocked message and a message that cannot be printed are errors; a failing pipeline and a
  line that is no JSON-RPC message let the line through as it is.\<close>

definition forward_result ::
  "('i, 'e) stdio_ext \<Rightarrow> InterceptionResult \<Rightarrow> string + string \<times> bool" where
  "forward_result E r =
     (if ir_block r then Inl (''Message blocked: '' @ (case ir_reasoning r of Some s \<Rightarrow> s | None \<Rightarrow> []))
      else and_then (sx_show E (ir_message r)) (\<lambda>s. Inr (s @ nl, ir_modified r)))"

definition sh_process_outgoing ::
  "('i, 'e) stdio_ext \<Rightarrow> 'e icall \<Rightarrow> string \<Rightarrow> 'i StdioHandler
     \<Rightarrow> ((string + string \<times> bool) \<times> 'i StdioHandler) rust" where
  "sh_process_outgoing E k content h = (case sx_parse E (trim content) of
     None \<Rightarrow> Done (Inr (content, False), h)
   | Some m \<Rightarrow> (case pipeline E k m Outgoing h of
       Panic \<Rightarrow> Panic
     | Done (Inl _, h) \<Rightarrow> Done (Inr (content, False), h)
     | Done (Inr r, h) \<Rightarrow> Done (forward_result E r, h)))"

definition sh_process_incoming ::
  "('i, 'e) stdio_ext \<Rightarrow> 'e icall \<Rightarrow> (nat \<Rightarrow> duration) \<Rightarrow> string \<Rightarrow> 'i StdioHandler
     \<Rightarrow> ((string + string \<times> bool) \<times> 'i StdioHandler) rust" where
  "sh_process_incoming E k elapsed_of content h = (case sx_parse E (trim content) of
     None \<Rightarrow> Done (Inr (content, False), h)
   | Some m \<Rightarrow> (case pipeline E k m Incoming h of
       Panic \<Rightarrow> Panic
     | Done (Inl _, h) \<Rightarrow> Done (Inr (content, False), h)
     | Done (Inr r, h) \<Rightarrow>
         (let h = capture_query_response E elapsed_of (ir_message r) h
          in Done (forward_result E r, h))))"

section \<open>Log and statistics\<close>

text \<open>The entry's identifier and time are arguments.\<close>

definition log_line ::
  "string \<times> datetime \<Rightarrow> LogLevel \<Rightarrow> string \<Rightarrow> 'i StdioHandler \<Rightarrow> 'i StdioHandler" where
  "log_line stamp level text h =
     sh_notify (LogEntryMsg (LogEntry_new (fst stamp) (snd stamp) level text (sh_proxy_id h))) h"

definition arrow_right :: string where
  "arrow_right = [CHR 0xE2, CHR 0x86, CHR 0x92]"

definition arrow_left :: string where
  "arrow_left = [CHR 0xE2, CHR 0x86, CHR 0x90]"

definition log_request ::
  "string \<times> datetime \<Rightarrow> string \<Rightarrow> bool \<Rightarrow> 'i StdioHandler \<Rightarrow> 'i StdioHandler" where
  "log_request stamp content chg h = log_line stamp RequestLevel
     (arrow_right @ (if chg then '' [MODIFIED]'' else []) @ '' '' @ trim content) h"

definition log_response ::
  "string \<times> datetime \<Rightarrow> string \<Rightarrow> bool \<Rightarrow> 'i StdioHandler \<Rightarrow> 'i StdioHandler" where
  "log_response stamp content chg h = log_line stamp ResponseLevel
     (arrow_left @ (if chg then '' [MODIFIED]'' else []) @ '' '' @ trim content) h"

definition log_error :: "string \<times> datetime \<Rightarrow> string \<Rightarrow> 'i StdioHandler \<Rightarrow> 'i StdioHandler" where
  "log_error stamp content h = log_line stamp InfoLevel (''stderr: '' @ trim content) h"

definition get_interceptor_stats :: "('i, 'e) stdio_ext \<Rightarrow> 'i StdioHandler \<Rightarrow> InterceptorManagerInfo" where
  "get_interceptor_stats E h = (let s = get_stats (sh_manager h) in
     \<lparr>im_total_messages_processed = total_messages_processed s,
      im_total_modifications_made = total_modifications_made s,
      im_total_messages_blocked = total_messages_blocked s,
      im_avg_processing_time_ms = mgr_avg_processing_time_ms s,
      im_messages_by_method = messages_by_method s,
      im_interceptors = map (\<lambda>name. \<lparr>ii_name = name, ii_priority = 0, ii_enabled = True,
         ii_total_intercepted = 0, ii_total_modified = 0, ii_total_blocked = 0,
         ii_avg_processing_time_ms = f64_zero\<rparr>) (list_interceptors (sx_ops E) (sh_manager h))\<rparr>)"

definition emit_session_stats :: "LlmSessionManager option \<Rightarrow> 'i StdioHandler \<Rightarrow> 'i StdioHandler" where
  "emit_session_stats sessions h = (case (sessions, sh_session_id h) of
     (Some M, Some sid) \<Rightarrow> (case get_session_stats sid M of
        Some s \<Rightarrow> sh_notify (SessionStatsMsg \<lparr>sm_proxy_id = sh_proxy_id h, sm_session_id = sid,
            sm_total_predictions = ss_total_predictions s,
            sm_successful_predictions = ss_successful_predictions s,
            sm_accuracy = fp_bits32 (ss_accuracy s),
            sm_optimization_score = fp_bits32 (ss_optimization_score s),
            sm_message_count = of_nat (ss_message_count s)\<rparr>) h
      | None \<Rightarrow> h)
   | _ \<Rightarrow> h)"

definition stats_tick :: "('i, 'e) stdio_ext \<Rightarrow> LlmSessionManager option \<Rightarrow> 'i StdioHandler \<Rightarrow> 'i StdioHandler" where
  "stats_tick E sessions h =
     (let h = sh_notify (StatsUpdate (sh_stats h)) h;
          h = sh_notify (InterceptorStatsMsg (sh_proxy_id h) (get_interceptor_stats E h)) h
      in emit_session_stats sessions h)"

section \<open>Queries of the monitor\<close>

definition query_request ::
  "('i, 'e) stdio_ext \<Rightarrow> TuiQueryJob \<Rightarrow> 'i StdioHandler \<Rightarrow> string \<times> json" where
  "query_request E job h = (case tj_mcp_method job of
     Some meth \<Rightarrow> (meth, case tj_mcp_params job of Some p \<Rightarrow> p | None \<Rightarrow> Object [])
   | None \<Rightarrow>
       (if str_contains (sx_lower E (tj_query job)) ''tools''
           \<and> str_contains (sx_lower E (tj_query job)) ''available''
        then (''tools/list'', Object [])
        else (case get_available_tool_name h of
            Some tool \<Rightarrow> (''tools/call'', Object [(''arguments'', Object [(''input'', String (tj_query job))]),
               (''name'', String tool)])
          | None \<Rightarrow> (''tools/list'', Object []))))"

definition query_line :: "('i, 'e) stdio_ext \<Rightarrow> TuiQueryJob \<Rightarrow> 'i StdioHandler \<Rightarrow> string" where
  "query_line E job h = (case query_request E job h of (meth, params) \<Rightarrow>
     sx_show_json E (Object [(''id'', String (tj_correlation_id job)), (''jsonrpc'', String ''2.0''),
       (''method'', String meth), (''params'', params)]) @ nl)"

definition complete_query_with_error :: "TuiQueryJob \<Rightarrow> string \<Rightarrow> 'i StdioHandler \<Rightarrow> 'i StdioHandler" where
  "complete_query_with_error job e h =
     h\<lparr>completions := completions h @ [(tj_correlation_id job, error_completion e)]\<rparr>"

text \<open>What a write meets: the error text of the failing write or flush.\<close>

record write_env =
  wr_write :: "string option"
  wr_flush :: "string option"

definition process_tui_query ::
  "('i, 'e) stdio_ext \<Rightarrow> 'e icall \<Rightarrow> string \<times> datetime \<Rightarrow> write_env \<Rightarrow> nat \<Rightarrow> duration \<Rightarrow> TuiQueryJob
     \<Rightarrow> 'i StdioHandler \<Rightarrow> 'i StdioHandler rust" where
  "process_tui_query E k stamp w started delay job h =
     (case sh_process_outgoing E k (query_line E job h) h of
        Panic \<Rightarrow> Panic
      | Done (Inl e, h) \<Rightarrow> Done (complete_query_with_error job (''Query rejected: '' @ e) h)
      | Done (Inr (text, chg), h) \<Rightarrow>
         (let h = log_request stamp text chg h in
          case (wr_write w, wr_flush w) of
            (Some e, _) \<Rightarrow> Done (complete_query_with_error job (''Failed to send query: '' @ e) h)
          | (None, Some e) \<Rightarrow>
              Done (complete_query_with_error job (''Failed to flush query: '' @ e)
                (h\<lparr>to_child := to_child h @ [text]\<rparr>))
          | (None, None) \<Rightarrow>
             (let h = h\<lparr>to_child := to_child h @ [text],
                   pending_queries := (pending_queries h)(tj_correlation_id job \<mapsto>
                     \<lparr>pq_correlation_id = tj_correlation_id job, pq_started_at = started,
                      pq_interceptor_delay_ms = Some (fp_mul binary64 (as_secs_f64 delay)
                        (fp_of_nat binary64 1000))\<rparr>)\<rparr>
              in Done (bump (\<lambda>s. s\<lparr>total_requests := total_requests s + 1,
                   bytes_transferred := bytes_transferred s + of_nat (length text)\<rparr>) h))))"

section \<open>The loop\<close>

datatype 'e event =
    Shutdown
  | StatsTick "LlmSessionManager option"
  | QueryJob "'e icall" "string \<times> datetime" write_env nat duration TuiQueryJob
  | UserLine "'e icall" "string \<times> datetime" write_env string
  | UserEof
  | UserReadError
  | ChildLine "'e icall" "nat \<Rightarrow> duration" "string \<times> datetime" write_env string
  | ChildEof
  | ChildReadError
  | StderrLine "string \<times> datetime" string
  | StderrEof
  | ChildExit "string + bool" string

datatype control = Continue | Break | Return string

definition fail_one :: "'i StdioHandler \<Rightarrow> 'i StdioHandler" where
  "fail_one h = bump (\<lambda>s. s\<lparr>failed_requests := failed_requests s + 1\<rparr>) h"

definition handle_user_line ::
  "('i, 'e) stdio_ext \<Rightarrow> 'e icall \<Rightarrow> string \<times> datetime \<Rightarrow> write_env \<Rightarrow> string \<Rightarrow> 'i StdioHandler
     \<Rightarrow> (control \<times> 'i StdioHandler) rust" where
  "handle_user_line E k stamp w input h =
     (case sh_process_outgoing E k input h of
        Panic \<Rightarrow> Panic
      | Done (Inl _, h) \<Rightarrow> Done (Continue, fail_one (log_request stamp input False h))
      | Done (Inr (text, chg), h) \<Rightarrow>
         (let h = log_request stamp text chg h in
          case (wr_write w, wr_flush w) of
            (Some _, _) \<Rightarrow> Done (Break, h)
          | (None, Some _) \<Rightarrow> Done (Break, h\<lparr>to_child := to_child h @ [text]\<rparr>)
          | (None, None) \<Rightarrow> Done (Continue,
              bump (\<lambda>s. s\<lparr>total_requests := total_requests s + 1,
                   bytes_transferred := bytes_transferred s + of_nat (length text)\<rparr>)
                (h\<lparr>to_child := to_child h @ [text]\<rparr>))))"

definition handle_child_line ::
  "('i, 'e) stdio_ext \<Rightarrow> 'e icall \<Rightarrow> (nat \<Rightarrow> duration) \<Rightarrow> string \<times> datetime \<Rightarrow> write_env \<Rightarrow> string
     \<Rightarrow> 'i StdioHandler \<Rightarrow> (control \<times> 'i StdioHandler) rust" where
  "handle_child_line E k elapsed_of stamp w output h =
     (case sh_process_incoming E k elapsed_of output h of
        Panic \<Rightarrow> Panic
      | Done (Inl _, h) \<Rightarrow> Done (Continue, fail_one (log_response stamp output False h))
      | Done (Inr (text, chg), h) \<Rightarrow>
         (let h = log_response stamp text chg h in
          case (wr_write w, wr_flush w) of
            (Some _, _) \<Rightarrow> Done (Break, h)
          | (None, Some _) \<Rightarrow> Done (Break, h\<lparr>to_user := to_user h @ [text]\<rparr>)
          | (None, None) \<Rightarrow> Done (Continue,
              bump (\<lambda>s. s\<lparr>successful_requests := successful_requests s + 1,
                   bytes_transferred := bytes_transferred s + of_nat (length text)\<rparr>)
                (h\<lparr>to_user := to_user h @ [text]\<rparr>))))"

definition handle_event ::
  "('i, 'e) stdio_ext \<Rightarrow> 'e event \<Rightarrow> 'i StdioHandler \<Rightarrow> (control \<times> 'i StdioHandler) rust" where
  "handle_event E ev h = (case ev of
     Shutdown \<Rightarrow> Done (Break, h)
   | StatsTick sessions \<Rightarrow> Done (Continue, stats_tick E sessions h)
   | QueryJob k stamp w started delay job \<Rightarrow>
       map_rust (Pair Continue) (process_tui_query E k stamp w started delay job h)
   | UserLine k stamp w input \<Rightarrow> handle_user_line E k stamp w input h
   | UserEof \<Rightarrow> Done (Break, h)
   | UserReadError \<Rightarrow> Done (Break, h)
   | ChildLine k elapsed_of stamp w output \<Rightarrow> handle_child_line E k elapsed_of stamp w output h
   | ChildEof \<Rightarrow> Done (Break, h)
   | ChildReadError \<Rightarrow> Done (Break, fail_one h)
   | StderrLine stamp text \<Rightarrow> Done (Continue, log_error stamp text h)
   | StderrEof \<Rightarrow> Done (Continue, h)
   | ChildExit status dbg \<Rightarrow> (case status of
       Inr success \<Rightarrow> (if success then Done (Break, h)
          else Done (Return (''Backend process crashed with status '' @ dbg), fail_one h))
     | Inl e \<Rightarrow> Done (Return (''Failed to wait for child process: '' @ e), h)))"

text \<open>A turn applies the routing modes that arrived and then one event.\<close>

fun run_loop ::
  "('i, 'e) stdio_ext \<Rightarrow> (RoutingMode list \<times> 'e event) list \<Rightarrow> 'i StdioHandler
     \<Rightarrow> ((string + unit) option \<times> 'i StdioHandler) rust" where
  "run_loop E [] h = Done (None, h)"
| "run_loop E ((modes, ev) # evs) h =
     (case handle_event E ev (process_pending_routing_updates E modes h) of
        Panic \<Rightarrow> Panic
      | Done (Continue, h) \<Rightarrow> run_loop E evs h
      | Done (Break, h) \<Rightarrow> Done (Some (Inr ()), h)
      | Done (Return e, h) \<Rightarrow> Done (Some (Inl e), h))"

text \<open>The receiver of the monitor's queries is taken for the time of the loop and put back when the
  loop is left by \<open>break\<close>, but not when it is left by \<open>return\<close>. Without it no query arrives.\<close>

fun is_query :: "'e event \<Rightarrow> bool" where
  "is_query (QueryJob k stamp w started delay job) = True"
| "is_query _ = False"

definition handle_communication ::
  "('i, 'e) stdio_ext \<Rightarrow> (RoutingMode list \<times> 'e event) list \<Rightarrow> 'i StdioHandler
     \<Rightarrow> ((string + unit) option \<times> 'i StdioHandler) rust" where
  "handle_communication E evs h =
     (let query_rx = sh_query_rx h;
          arriving = (if query_rx then evs else filter (\<lambda>e. \<not> is_query (snd e)) evs)
      in case run_loop E arriving (h\<lparr>sh_query_rx := False\<rparr>) of
           Panic \<Rightarrow> Panic
         | Done (Some (Inr u), h) \<Rightarrow> Done (Some (Inr u), h\<lparr>sh_query_rx := query_rx\<rparr>)
         | Done (r, h) \<Rightarrow> Done (r, h))"

section \<open>Every forwarded line is mediated\<close>

text \<open>What a line may become, given the manager at that moment: a line that is no JSON-RPC message
  stays as it is and does not concern the interceptors; any other is the text of the message that
  this manager returns for it, and nothing when the manager blocks it or it cannot be printed. The
  relation also fixes the manager that is left.\<close>

inductive relays ::
  "('i, 'e) stdio_ext \<Rightarrow> InterceptionMetadata \<Rightarrow> 'e icall \<Rightarrow> MessageDirection \<Rightarrow> string
     \<Rightarrow> 'i InterceptorManager \<Rightarrow> string option \<Rightarrow> 'i InterceptorManager \<Rightarrow> bool"
  for E md k d s M where
  verbatim: "sx_parse E (trim s) = None \<Longrightarrow> relays E md k d s M (Some s) M"
| passed: "sx_parse E (trim s) = Some m \<Longrightarrow>
    process_message_with_metadata (sx_ops E) (sx_f64 E) (ic_env k) (ic_now k) (ic_elapsed k) M m d md
      = Done (Inr r, M') \<Longrightarrow>
    \<not> ir_block r \<Longrightarrow> sx_show E (ir_message r) = Inr u \<Longrightarrow> relays E md k d s M (Some (u @ nl)) M'"
| unprintable: "sx_parse E (trim s) = Some m \<Longrightarrow>
    process_message_with_metadata (sx_ops E) (sx_f64 E) (ic_env k) (ic_now k) (ic_elapsed k) M m d md
      = Done (Inr r, M') \<Longrightarrow>
    \<not> ir_block r \<Longrightarrow> sx_show E (ir_message r) = Inl e \<Longrightarrow> relays E md k d s M None M'"
| refused: "sx_parse E (trim s) = Some m \<Longrightarrow>
    process_message_with_metadata (sx_ops E) (sx_f64 E) (ic_env k) (ic_now k) (ic_elapsed k) M m d md
      = Done (Inr r, M') \<Longrightarrow>
    ir_block r \<Longrightarrow> relays E md k d s M None M'"

text \<open>The lines an event writes, by direction: at most the one its own line became, and that one
  exactly when the write does not fail. Events without a line write nothing and leave the manager
  alone. The line of a query is one built from it, with the tool name cached at that time.\<close>

type_synonym outputs = "(MessageDirection \<times> string) list"

definition delivered :: "write_env \<Rightarrow> MessageDirection \<Rightarrow> string option \<Rightarrow> outputs" where
  "delivered w d out = (case out of
     Some s \<Rightarrow> if wr_write w = None then [(d, s)] else []
   | None \<Rightarrow> [])"

definition event_writes ::
  "('i, 'e) stdio_ext \<Rightarrow> InterceptionMetadata \<Rightarrow> 'e event \<Rightarrow> 'i InterceptorManager \<Rightarrow> outputs
     \<Rightarrow> 'i InterceptorManager \<Rightarrow> bool" where
  "event_writes E md ev M out M' \<longleftrightarrow> (case ev of
     UserLine k stamp w s \<Rightarrow> \<exists>o1. relays E md k Outgoing s M o1 M' \<and> out = delivered w Outgoing o1
   | ChildLine k el stamp w s \<Rightarrow> \<exists>o1. relays E md k Incoming s M o1 M' \<and> out = delivered w Incoming o1
   | QueryJob k stamp w started delay job \<Rightarrow>
       \<exists>(h :: 'i StdioHandler) o1. relays E md k Outgoing (query_line E job h) M o1 M' \<and> out = delivered w Outgoing o1
   | _ \<Rightarrow> out = [] \<and> M' = M)"

definition switched :: "('i, 'e) stdio_ext \<Rightarrow> bool \<Rightarrow> RoutingMode list \<Rightarrow> 'i InterceptorManager \<Rightarrow> 'i InterceptorManager" where
  "switched E llm modes M = fold (\<lambda>mode M. if llm
     then M\<lparr>interceptors := map (sx_set_mode E mode) (interceptors M)\<rparr> else M) modes M"

fun run_writes ::
  "('i, 'e) stdio_ext \<Rightarrow> bool \<Rightarrow> InterceptionMetadata \<Rightarrow> (RoutingMode list \<times> 'e event) list
     \<Rightarrow> 'i InterceptorManager \<Rightarrow> outputs \<Rightarrow> 'i InterceptorManager \<Rightarrow> bool" where
  "run_writes E llm md [] M out M' \<longleftrightarrow> out = [] \<and> M' = M"
| "run_writes E llm md ((modes, ev) # evs) M out M' \<longleftrightarrow>
     (\<exists>o1 o2 M1. event_writes E md ev (switched E llm modes M) o1 M1
        \<and> run_writes E llm md evs M1 o2 M' \<and> out = o1 @ o2)"

definition lines_to :: "MessageDirection \<Rightarrow> outputs \<Rightarrow> string list" where
  "lines_to d out = map snd (filter (\<lambda>x. fst x = d) out)"

lemma lines_to_append [simp]: "lines_to d (xs @ ys) = lines_to d xs @ lines_to d ys"
  by (simp add: lines_to_def)

lemma lines_to_simps [simp]:
  "lines_to d [] = []" "lines_to d ((d', s) # xs) = (if d' = d then [s] else []) @ lines_to d xs"
  by (simp_all add: lines_to_def)

text \<open>The parts of the handler that determine later turns: the manager, the metadata, and whether
  there is a routing interceptor to switch.\<close>

abbreviation same_setup :: "'i StdioHandler \<Rightarrow> 'i StdioHandler \<Rightarrow> bool" where
  "same_setup h h' \<equiv> sh_has_llm h' = sh_has_llm h \<and> sh_session_id h' = sh_session_id h"

definition kept :: "'i StdioHandler \<Rightarrow> 'i StdioHandler \<Rightarrow> bool" where
  "kept h h' \<longleftrightarrow> same_setup h h' \<and> sh_manager h' = sh_manager h \<and> to_child h' = to_child h \<and> to_user h' = to_user h"

lemma kept_trans: "kept a b \<Longrightarrow> kept b c \<Longrightarrow> kept a c"
  by (simp add: kept_def)

lemma kept_notify [simp]: "kept h (sh_notify m h)"
  by (simp add: sh_notify_def kept_def)

lemma kept_bump [simp]: "kept h (bump f h)" "kept h (fail_one h)"
  by (simp_all add: bump_def fail_one_def kept_def)

lemma kept_log [simp]:
  "kept h (log_request st s c h)" "kept h (log_response st s c h)" "kept h (log_error st s h)"
  by (simp_all add: log_request_def log_response_def log_error_def log_line_def)

lemma kept_completed [simp]: "kept h (complete_query_with_error job s h)"
  by (simp add: complete_query_with_error_def kept_def)

lemma kept_capture [simp]: "kept h (capture_query_response E el m h)"
  by (simp add: capture_query_response_def update_tools_cache_def Let_def kept_def
      split: JsonRpcMessage.split option.split)

lemma kept_tick [simp]: "kept h (stats_tick E sessions h)"
  unfolding stats_tick_def Let_def emit_session_stats_def
  by (auto simp: kept_def sh_notify_def split: option.split)

lemma process_message_no_error [simp]:
  "process_message_with_metadata T F env now el M m d md \<noteq> Done (Inl e, M')"
  by (auto simp: process_message_with_metadata_def split: rust.splits sum.splits)

lemma pipeline_cases:
  assumes "pipeline E k m d h = Done (q, h')"
  obtains r M' where "q = Inr r" "h' = h\<lparr>sh_manager := M'\<rparr>"
    "process_message_with_metadata (sx_ops E) (sx_f64 E) (ic_env k) (ic_now k) (ic_elapsed k)
        (sh_manager h) m d (sh_metadata h) = Done (Inr r, M')"
proof (cases q)
  case (Inl e)
  then show ?thesis using assms by (auto simp: pipeline_def map_rust_eq_Done)
next
  case (Inr r)
  then show ?thesis using assms that by (auto simp: pipeline_def map_rust_eq_Done)
qed

definition line_of_result :: "string + string \<times> bool \<Rightarrow> string option" where
  "line_of_result q = (case q of Inl _ \<Rightarrow> None | Inr (s, chg) \<Rightarrow> Some s)"

lemma forward_result_relays:
  assumes "sx_parse E (trim s) = Some m"
    "process_message_with_metadata (sx_ops E) (sx_f64 E) (ic_env k) (ic_now k) (ic_elapsed k) M m d md
      = Done (Inr r, M')"
  shows "relays E md k d s M (line_of_result (forward_result E r)) M'"
  using assms
  by (cases "ir_block r"; cases "sx_show E (ir_message r)")
    (auto simp: forward_result_def line_of_result_def intro: relays.intros)

lemma process_outgoing_relays:
  assumes "sh_process_outgoing E k content h = Done (q, h')"
  shows "relays E (sh_metadata h) k Outgoing content (sh_manager h) (line_of_result q) (sh_manager h')
    \<and> (\<exists>M'. h' = h\<lparr>sh_manager := M'\<rparr>)"
proof (cases "sx_parse E (trim content)")
  case None
  then have "q = Inr (content, False)" "h' = h" using assms by (simp_all add: sh_process_outgoing_def)
  with None show ?thesis
    by (auto simp: line_of_result_def intro: relays.verbatim exI [of _ "sh_manager h"])
next
  case (Some m)
  then obtain p h1 where p: "pipeline E k m Outgoing h = Done (p, h1)"
    using assms by (cases "pipeline E k m Outgoing h") (auto simp: sh_process_outgoing_def)
  obtain r M' where "p = Inr r" "h1 = h\<lparr>sh_manager := M'\<rparr>"
    and r: "process_message_with_metadata (sx_ops E) (sx_f64 E) (ic_env k) (ic_now k) (ic_elapsed k)
        (sh_manager h) m Outgoing (sh_metadata h) = Done (Inr r, M')"
    using pipeline_cases [OF p] .
  then show ?thesis using assms Some p forward_result_relays [OF Some r]
    by (auto simp: sh_process_outgoing_def)
qed

lemma process_incoming_relays:
  assumes "sh_process_incoming E k el content h = Done (q, h')"
  shows "relays E (sh_metadata h) k Incoming content (sh_manager h) (line_of_result q) (sh_manager h')
    \<and> (\<exists>M'. kept (h\<lparr>sh_manager := M'\<rparr>) h')"
proof (cases "sx_parse E (trim content)")
  case None
  then have "q = Inr (content, False)" "h' = h" using assms by (simp_all add: sh_process_incoming_def)
  with None show ?thesis
    by (auto simp: line_of_result_def kept_def intro: relays.verbatim exI [of _ "sh_manager h"])
next
  case (Some m)
  then obtain p h1 where p: "pipeline E k m Incoming h = Done (p, h1)"
    using assms by (cases "pipeline E k m Incoming h") (auto simp: sh_process_incoming_def)
  obtain r M' where pr: "p = Inr r" and h1: "h1 = h\<lparr>sh_manager := M'\<rparr>"
    and r: "process_message_with_metadata (sx_ops E) (sx_f64 E) (ic_env k) (ic_now k) (ic_elapsed k)
        (sh_manager h) m Incoming (sh_metadata h) = Done (Inr r, M')"
    using pipeline_cases [OF p] .
  have "q = forward_result E r" "h' = capture_query_response E el (ir_message r) h1"
    using assms Some p pr by (auto simp: sh_process_incoming_def Let_def)
  with forward_result_relays [OF Some r] kept_capture [of h1] h1 show ?thesis
    by (auto simp: kept_def)
qed

text \<open>Writing the result of a line.\<close>

definition appended :: "'i StdioHandler \<Rightarrow> outputs \<Rightarrow> 'i StdioHandler \<Rightarrow> bool" where
  "appended h out h' \<longleftrightarrow> same_setup h h' \<and> to_child h' = to_child h @ lines_to Outgoing out
     \<and> to_user h' = to_user h @ lines_to Incoming out"

lemmas line_effects = delivered_def appended_def line_of_result_def log_request_def log_response_def log_line_def
  sh_notify_def fail_one_def bump_def complete_query_with_error_def

lemma user_line_writes:
  assumes "handle_user_line E k st w s h = Done (c, h')"
  shows "\<exists>out. event_writes E (sh_metadata h) (UserLine k st w s) (sh_manager h) out (sh_manager h')
    \<and> appended h out h'"
proof -
  obtain q h1 where p: "sh_process_outgoing E k s h = Done (q, h1)"
    using assms by (cases "sh_process_outgoing E k s h") (auto simp: handle_user_line_def)
  note rel = process_outgoing_relays [OF p]
  then obtain M' where h1: "h1 = h\<lparr>sh_manager := M'\<rparr>" by blast
  have "sh_manager h' = M' \<and> appended h (delivered w Outgoing (line_of_result q)) h'"
    using assms p h1
    by (cases q; cases "wr_write w"; cases "wr_flush w")
      (auto simp: handle_user_line_def line_effects Let_def)
  with rel h1 show ?thesis by (auto simp: event_writes_def)
qed

lemma child_line_writes:
  assumes "handle_child_line E k el st w s h = Done (c, h')"
  shows "\<exists>out. event_writes E (sh_metadata h) (ChildLine k el st w s) (sh_manager h) out (sh_manager h')
    \<and> appended h out h'"
proof -
  obtain q h1 where p: "sh_process_incoming E k el s h = Done (q, h1)"
    using assms by (cases "sh_process_incoming E k el s h") (auto simp: handle_child_line_def)
  note rel = process_incoming_relays [OF p]
  then obtain M' where h1: "kept (h\<lparr>sh_manager := M'\<rparr>) h1" by blast
  have "sh_manager h' = sh_manager h1 \<and> appended h (delivered w Incoming (line_of_result q)) h'"
    using assms p h1
    by (cases q; cases "wr_write w"; cases "wr_flush w")
      (auto simp: handle_child_line_def line_effects kept_def Let_def)
  with rel show ?thesis by (auto simp: event_writes_def)
qed

lemma tui_query_writes:
  assumes "process_tui_query E k st w started delay job h = Done h'"
  shows "\<exists>out. event_writes E (sh_metadata h) (QueryJob k st w started delay job) (sh_manager h) out (sh_manager h')
    \<and> appended h out h'"
proof -
  obtain q h1 where p: "sh_process_outgoing E k (query_line E job h) h = Done (q, h1)"
    using assms by (cases "sh_process_outgoing E k (query_line E job h) h") (auto simp: process_tui_query_def)
  note rel = process_outgoing_relays [OF p]
  then obtain M' where h1: "h1 = h\<lparr>sh_manager := M'\<rparr>" by blast
  have "sh_manager h' = M' \<and> appended h (delivered w Outgoing (line_of_result q)) h'"
    using assms p h1
    by (cases q; cases "wr_write w"; cases "wr_flush w")
      (auto simp: process_tui_query_def line_effects Let_def)
  with rel h1 show ?thesis by (auto simp: event_writes_def)
qed

lemma kept_appended: "kept h h' \<Longrightarrow> appended h [] h'"
  by (simp add: kept_def appended_def)

lemma event_writes_all:
  assumes "handle_event E ev h = Done (c, h')"
  shows "\<exists>out. event_writes E (sh_metadata h) ev (sh_manager h) out (sh_manager h') \<and> appended h out h'"
proof (cases ev)
  case (QueryJob k st w started delay job)
  then show ?thesis using assms tui_query_writes [of E k st w started delay job h h']
    by (simp add: handle_event_def map_rust_eq_Done)
next
  case (UserLine k st w input)
  then show ?thesis using assms user_line_writes [of E k st w input h c h']
    by (simp add: handle_event_def)
next
  case (ChildLine k el st w out)
  then show ?thesis using assms child_line_writes [of E k el st w out h c h']
    by (simp add: handle_event_def)
next
  case (StatsTick sessions)
  then show ?thesis using assms kept_tick [of h E sessions]
    by (auto simp: handle_event_def event_writes_def kept_def appended_def)
next
  case (StderrLine st s)
  then show ?thesis using assms kept_log(3) [of h st s]
    by (auto simp: handle_event_def event_writes_def kept_def appended_def)
next
  case ChildReadError
  then show ?thesis using assms kept_bump(2) [of h]
    by (auto simp: handle_event_def event_writes_def kept_def appended_def)
next
  case (ChildExit status dbg)
  then show ?thesis using assms kept_bump(2) [of h]
    by (auto simp: handle_event_def event_writes_def kept_def appended_def split: sum.splits if_splits)
qed (use assms in \<open>simp_all add: handle_event_def event_writes_def appended_def\<close>)

lemma modes_switched:
  "let h' = process_pending_routing_updates E modes h in
   sh_manager h' = switched E (sh_has_llm h) modes (sh_manager h) \<and> appended h [] h'"
proof -
  have "sh_manager (fold (apply_routing_mode E) modes h) = switched E (sh_has_llm h) modes (sh_manager h)
      \<and> appended h [] (fold (apply_routing_mode E) modes h)"
    by (induction modes arbitrary: h)
      (simp_all add: switched_def appended_def apply_routing_mode_def sh_notify_def Let_def)
  then show ?thesis by (simp add: process_pending_routing_updates_def Let_def)
qed

text \<open>C18 (complete mediation). Whatever the user, the server, the monitor and the clocks do, the
  loop handles some of the events from the first on, all of them unless it ends early, and what it
  writes to the server and to the user is exactly this: each line that is no JSON-RPC message as it
  is; each other line as the text of what the proxy's own interceptors return for it, in the state
  the earlier lines and mode switches left them in, and not at all when they block it or it cannot
  be printed; nothing else, and nothing less unless the write itself fails.\<close>

theorem proxy_mediates:
  assumes "run_loop E evs h = Done (r, h')"
  shows "\<exists>n out. n \<le> length evs \<and> (r = None \<longrightarrow> n = length evs)
    \<and> run_writes E (sh_has_llm h) (sh_metadata h) (take n evs) (sh_manager h) out (sh_manager h')
    \<and> to_child h' = to_child h @ lines_to Outgoing out \<and> to_user h' = to_user h @ lines_to Incoming out"
  using assms
proof (induction evs arbitrary: h)
  case Nil
  then show ?case by (intro exI [of _ 0] exI [of _ "[]"]) simp
next
  case (Cons x evs)
  obtain modes ev where x: "x = (modes, ev)" by force
  let ?h = "process_pending_routing_updates E modes h"
  have m: "sh_manager ?h = switched E (sh_has_llm h) modes (sh_manager h)" "appended h [] ?h"
    using modes_switched [of E modes h] by (simp_all add: Let_def)
  obtain c h1 where e: "handle_event E ev ?h = Done (c, h1)"
    using Cons.prems x by (cases "handle_event E ev ?h") auto
  obtain o1 where o1: "event_writes E (sh_metadata h) ev (switched E (sh_has_llm h) modes (sh_manager h)) o1 (sh_manager h1)"
    and a1: "appended h o1 h1"
    using event_writes_all [OF e] m by (auto simp: appended_def sh_metadata_def)
  show ?case
  proof (cases c)
    case Continue
    with Cons.prems x e have "run_loop E evs h1 = Done (r, h')" by simp
    from Cons.IH [OF this] obtain n out where n: "n \<le> length evs" "r = None \<longrightarrow> n = length evs"
      "run_writes E (sh_has_llm h) (sh_metadata h) (take n evs) (sh_manager h1) out (sh_manager h')"
      "to_child h' = to_child h1 @ lines_to Outgoing out" "to_user h' = to_user h1 @ lines_to Incoming out"
      using a1 by (auto simp: appended_def sh_metadata_def)
    then show ?thesis using o1 a1 x
      by (intro exI [of _ "Suc n"] exI [of _ "o1 @ out"]) (auto simp: appended_def)
  next
    case Break
    with Cons.prems x e have "r = Some (Inr ())" "h' = h1" by simp_all
    then show ?thesis using o1 a1 x
      by (intro exI [of _ "Suc 0"] exI [of _ o1]) (auto simp: appended_def)
  next
    case (Return err)
    with Cons.prems x e have "r = Some (Inl err)" "h' = h1" by simp_all
    then show ?thesis using o1 a1 x
      by (intro exI [of _ "Suc 0"] exI [of _ o1]) (auto simp: appended_def)
  qed
qed

definition sample_stdio_ext :: "(LlmInterceptor, llm_call) stdio_ext" where
  "sample_stdio_ext = \<lparr>sx_ops = llm_ops sample_llm_ext (\<lambda>s. None), sx_f64 = example_f64,
     sx_parse = (\<lambda>s. if s = ''{'' then Some sample_positional else None),
     sx_show = (\<lambda>m. Inr ''printed''), sx_show_json = (\<lambda>j. ''json''), sx_lower = map ascii_lower,
     sx_set_mode = set_routing_mode\<rparr>"

definition stdio_icall :: "llm_call icall" where
  "stdio_icall = \<lparr>ic_env = (\<lambda>n. sample_llm_call), ic_now = 0, ic_elapsed = 0\<rparr>"

definition sample_handler :: "LlmInterceptor StdioHandler" where
  "sample_handler = StdioHandler_new ''p'' (ProxyStats_default ''p'') True
     (manager_new\<lparr>interceptors := [sample_llm BypassMode []]\<rparr>) None True BypassMode"

definition good_write :: write_env where
  "good_write = \<lparr>wr_write = None, wr_flush = None\<rparr>"

theorem proxy_mediates_witness:
  "\<exists>h'. run_loop sample_stdio_ext
      [([], UserLine stdio_icall (''l'', 0) good_write ''{''),
       ([SemanticMode], UserLine stdio_icall (''l'', 0) good_write ''hello'')] sample_handler
     = Done (None, h') \<and>
    to_child h' = [''printed'' @ nl, ''hello''] \<and>
    (\<exists>out. run_writes sample_stdio_ext True (sh_metadata sample_handler)
       [([], UserLine stdio_icall (''l'', 0) good_write ''{''),
        ([SemanticMode], UserLine stdio_icall (''l'', 0) good_write ''hello'')]
       (sh_manager sample_handler) out (sh_manager h') \<and> lines_to Outgoing out = [''printed'' @ nl, ''hello''])"
proof -
  have t: "trim ''{'' = ''{''" "trim ''hello'' = ''hello''" by (simp_all add: trim_def is_whitespace_def)
  have "\<exists>h'. run_loop sample_stdio_ext
      [([], UserLine stdio_icall (''l'', 0) good_write ''{''),
       ([SemanticMode], UserLine stdio_icall (''l'', 0) good_write ''hello'')] sample_handler
      = Done (None, h') \<and> to_child h' = [''printed'' @ nl, ''hello'']"
    by (simp add: handle_event_def handle_user_line_def sh_process_outgoing_def t pipeline_def
        sample_stdio_ext_def process_message_with_metadata_def sample_handler_def StdioHandler_new_def
        manager_new_def process_pending_routing_updates_def llm_ops_def llm_should_intercept_def
        initial_loop_def context_new_def llm_intercept_def predict_and_route_def sample_llm_def
        LlmInterceptor_new_def pass_through_def take_modification_def final_result_def
        forward_result_def Let_def good_write_def apply_routing_mode_def sh_metadata_def metadata_new_def
        stdio_icall_def bump_def log_request_def log_line_def sh_notify_def)
  then obtain h' where h: "run_loop sample_stdio_ext
      [([], UserLine stdio_icall (''l'', 0) good_write ''{''),
       ([SemanticMode], UserLine stdio_icall (''l'', 0) good_write ''hello'')] sample_handler
      = Done (None, h')" "to_child h' = [''printed'' @ nl, ''hello'']" by blast
  have start: "sh_has_llm sample_handler = True" "to_child sample_handler = []"
    by (simp_all add: sample_handler_def StdioHandler_new_def)
  obtain n out where n: "n = length [([], UserLine stdio_icall (''l'', 0) good_write ''{''),
       ([SemanticMode], UserLine stdio_icall (''l'', 0) good_write ''hello'')]"
    and w: "run_writes sample_stdio_ext True (sh_metadata sample_handler) (take n
       [([], UserLine stdio_icall (''l'', 0) good_write ''{''),
        ([SemanticMode], UserLine stdio_icall (''l'', 0) good_write ''hello'')])
       (sh_manager sample_handler) out (sh_manager h')"
    and "lines_to Outgoing out = [''printed'' @ nl, ''hello'']"
    using proxy_mediates [OF h(1)] unfolding start h(2) append_Nil by metis
  with h w [unfolded n take_all [OF order_refl]] show ?thesis by blast
qed

section \<open>Queries\<close>

text \<open>Query accounting. A query of the monitor is either refused at once, with one completion
  that carries an error, or written to the server and registered: never both, never neither.\<close>

theorem query_accounted:
  assumes "process_tui_query E k st w started delay job h = Done h'"
  shows "(\<exists>e. completions h' = completions h @ [(tj_correlation_id job, error_completion e)] \<and>
        pending_queries h' = pending_queries h) \<or>
    (\<exists>text p. completions h' = completions h \<and> to_child h' = to_child h @ [text] \<and>
        relays E (sh_metadata h) k Outgoing (query_line E job h) (sh_manager h) (Some text) (sh_manager h') \<and>
        pq_correlation_id p = tj_correlation_id job \<and>
        pending_queries h' = (pending_queries h)(tj_correlation_id job \<mapsto> p))"
proof -
  obtain q h1 where p: "sh_process_outgoing E k (query_line E job h) h = Done (q, h1)"
    using assms by (cases "sh_process_outgoing E k (query_line E job h) h") (auto simp: process_tui_query_def)
  note rel = process_outgoing_relays [OF p]
  then have kept: "to_child h1 = to_child h" "completions h1 = completions h" "pending_queries h1 = pending_queries h"
    by auto
  show ?thesis
  proof (cases q)
    case (Inl e)
    then show ?thesis using assms p kept by (auto simp: process_tui_query_def complete_query_with_error_def)
  next
    case (Inr b)
    obtain s chg where b: "b = (s, chg)" by force
    have keep: "completions (log_request st s chg h1) = completions h1"
      "pending_queries (log_request st s chg h1) = pending_queries h1"
      "sh_manager (log_request st s chg h1) = sh_manager h1" "to_child (log_request st s chg h1) = to_child h1"
      by (simp_all add: log_request_def log_line_def sh_notify_def)
    show ?thesis
    proof (cases "wr_write w = None \<and> wr_flush w = None")
      case True
      then show ?thesis using assms p kept Inr b keep conjunct1 [OF rel]
        by (intro disjI2 exI [of _ s] exI [of _ "\<lparr>pq_correlation_id = tj_correlation_id job,
              pq_started_at = started, pq_interceptor_delay_ms = Some (fp_mul binary64
                (as_secs_f64 delay) (fp_of_nat binary64 1000))\<rparr>"])
          (auto simp: process_tui_query_def Let_def bump_def line_of_result_def)
    next
      case False
      then show ?thesis using assms p kept Inr b keep
        by (intro disjI1)
          (auto simp: process_tui_query_def Let_def complete_query_with_error_def split: option.splits)
    qed
  qed
qed

definition sample_job :: TuiQueryJob where
  "sample_job = \<lparr>tj_correlation_id = ''c'', tj_query = ''hi'', tj_mcp_method = None, tj_mcp_params = None\<rparr>"

theorem query_accounted_witness:
  "\<exists>h'. process_tui_query sample_stdio_ext stdio_icall (''l'', 0) good_write 0 0 sample_job sample_handler
     = Done h' \<and> to_child h' = [''json'' @ nl]"
proof -
  have t: "trim (''json'' @ nl) = ''json''" by (simp add: trim_def is_whitespace_def)
  have l: "query_line sample_stdio_ext sample_job sample_handler = ''json'' @ nl"
    by (simp add: query_line_def sample_stdio_ext_def split: prod.splits)
  obtain h' where h: "process_tui_query sample_stdio_ext stdio_icall (''l'', 0) good_write 0 0 sample_job
      sample_handler = Done h'" "to_child h' = [''json'' @ nl]"
    using l t
    by (simp add: process_tui_query_def sh_process_outgoing_def sample_stdio_ext_def good_write_def Let_def
        bump_def log_request_def log_line_def sh_notify_def
        sample_handler_def StdioHandler_new_def)
  from query_accounted [OF h(1)] h show ?thesis by blast
qed

text \<open>Blocked response. When an interceptor blocks the response to a query of the monitor, the
  query is never completed: it stays registered and no completion is sent.\<close>

theorem blocked_response_unanswered:
  assumes "sx_parse E (trim content) = Some m"
    "pipeline E k m Incoming h = Done (Inr (blocked reason), h1)"
    "sh_process_incoming E k el content h = Done (q, h')"
  shows "completions h' = completions h \<and> pending_queries h' = pending_queries h \<and>
    q = Inl (''Message blocked: '' @ reason)"
proof -
  obtain M' where "h1 = h\<lparr>sh_manager := M'\<rparr>" using pipeline_cases [OF assms(2)] by blast
  then show ?thesis using assms
    by (auto simp: sh_process_incoming_def Let_def capture_query_response_def blocked_def forward_result_def)
qed

text \<open>An interceptor that blocks everything, for the example below.\<close>

definition blocking_ops :: "(unit, unit, McpError) interceptor_ops" where
  "blocking_ops = \<lparr>i_name = (\<lambda>_. ''deny''), i_priority = (\<lambda>_. 1), i_should = (\<lambda>_ c. True),
     i_intercept = (\<lambda>i e c. Done (Inr (blocked ''policy''), i))\<rparr>"

definition blocking_ext :: "(unit, unit) stdio_ext" where
  "blocking_ext = \<lparr>sx_ops = blocking_ops, sx_f64 = example_f64,
     sx_parse = (\<lambda>s. Some (Response (response_success (IdString ''c'') Null))),
     sx_show = (\<lambda>m. Inr []), sx_show_json = (\<lambda>j. []), sx_lower = id, sx_set_mode = (\<lambda>m i. i)\<rparr>"

definition waiting_stdio :: "unit StdioHandler" where
  "waiting_stdio = (StdioHandler_new ''p'' (ProxyStats_default ''p'') True
     (manager_new\<lparr>interceptors := [()]\<rparr>) None False BypassMode)
     \<lparr>pending_queries := [''c'' \<mapsto> \<lparr>pq_correlation_id = ''c'', pq_started_at = 0,
        pq_interceptor_delay_ms = None\<rparr>]\<rparr>"

theorem blocked_response_unanswered_witness:
  "\<exists>h'. sh_process_incoming blocking_ext \<lparr>ic_env = (\<lambda>n. ()), ic_now = 0, ic_elapsed = 0\<rparr> (\<lambda>t. 0) ''{}''
      waiting_stdio = Done (Inl ''Message blocked: policy'', h') \<and>
    completions h' = [] \<and> pending_queries h' ''c'' \<noteq> None"
proof -
  let ?k = "\<lparr>ic_env = (\<lambda>n. ()), ic_now = 0, ic_elapsed = 0\<rparr>"
  let ?m = "Response (response_success (IdString ''c'') Null)"
  have p: "sx_parse blocking_ext (trim ''{}'') = Some ?m" by (simp add: blocking_ext_def)
  obtain h1 where b: "pipeline blocking_ext ?k ?m Incoming waiting_stdio = Done (Inr (blocked ''policy''), h1)"
    by (simp add: pipeline_def blocking_ext_def blocking_ops_def waiting_stdio_def StdioHandler_new_def
        manager_new_def process_message_with_metadata_def Let_def blocked_def)
  obtain q h' where i: "sh_process_incoming blocking_ext ?k (\<lambda>t. 0) ''{}'' waiting_stdio = Done (q, h')"
    by (simp add: sh_process_incoming_def p b)
  from blocked_response_unanswered [OF p b i] i show ?thesis
    by (simp add: waiting_stdio_def StdioHandler_new_def)
qed

section \<open>The tools cache\<close>

text \<open>Tools cache. The cache looks for the tool list one level too deep: a response whose
  result has no field \<open>result\<close>, as every \<open>tools/list\<close> response, leaves it as it was. While
  it is empty, every text query of the monitor is turned into \<open>tools/list\<close>.\<close>

theorem tools_never_cached:
  assumes "\<forall>v. resp_result r = Some v \<longrightarrow> value_get v ''result'' = None"
    "available_tools h = None" "tj_mcp_method job = None"
  shows "available_tools (capture_query_response E el (Response r) h) = None \<and>
    query_request E job (capture_query_response E el (Response r) h) = (''tools/list'', Object [])"
proof -
  have "available_tools (capture_query_response E el (Response r) h) = None"
    using assms(1,2)
    by (auto simp: capture_query_response_def update_tools_cache_def Let_def split: option.splits)
  then show ?thesis using assms(3) by (simp add: query_request_def get_available_tool_name_def)
qed

theorem tools_never_cached_witness:
  "query_request sample_stdio_ext sample_job (capture_query_response sample_stdio_ext (\<lambda>t. 0)
     (Response (response_success (IdNumber 1) (Object [(''tools'', Array [Object [(''name'', String ''calc'')]])])))
     sample_handler) = (''tools/list'', Object [])"
  using tools_never_cached [of "response_success (IdNumber 1)
      (Object [(''tools'', Array [Object [(''name'', String ''calc'')]])])" sample_handler sample_job
      sample_stdio_ext "\<lambda>t. 0"]
  by (simp add: response_success_def value_get_def obj_get_def sample_handler_def StdioHandler_new_def
      sample_job_def)

end
