(* ===== verification/Stdio_Startup.thy ===== *)
theory Stdio_Startup
  imports Stdio_Proxy Transform
begin

text \<open>
  The interceptors a stdio proxy starts with (\<open>StdioHandler::new\<close> of
  \<open>acdp-transport/src/stdio_handler.rs\<close>): outside bypass mode a demonstration rule of the
  transform interceptor, and the routing interceptor when the language model service is there.
  The timestamp text that the rule writes is taken once, at start.
\<close>

datatype proxy_interceptor = Demo TransformInterceptor | Routing LlmInterceptor

record proxy_ext =
  px_text :: text_ops
  px_checks :: bool
  px_f64 :: f64_ops
  px_llm :: llm_ext
  px_uuid :: "string \<Rightarrow> SessionId option"

primrec proxy_name :: "proxy_interceptor \<Rightarrow> string" where
  "proxy_name (Demo t) = ti_name t"
| "proxy_name (Routing i) = ''LLM Interceptor''"

primrec proxy_priority :: "proxy_interceptor \<Rightarrow> u32" where
  "proxy_priority (Demo t) = ti_priority t"
| "proxy_priority (Routing i) = default_priority"

primrec proxy_should :: "proxy_interceptor \<Rightarrow> MessageContext \<Rightarrow> bool" where
  "proxy_should (Demo t) = ti_should_intercept t"
| "proxy_should (Routing i) = llm_should_intercept"

primrec proxy_intercept ::
  "proxy_ext \<Rightarrow> proxy_interceptor \<Rightarrow> call_env \<times> llm_call \<Rightarrow> MessageContext
     \<Rightarrow> ((McpError + InterceptionResult) \<times> proxy_interceptor) rust" where
  "proxy_intercept X (Demo t) = (\<lambda>e c. map_rust (map_prod id Demo)
     (ti_intercept (px_text X) (px_checks X) (px_f64 X) t (fst e) c))"
| "proxy_intercept X (Routing i) = (\<lambda>e c. Done (map_prod id Routing
     (llm_intercept (px_llm X) (px_uuid X) i (snd e) c)))"

definition proxy_ops ::
  "proxy_ext \<Rightarrow> (proxy_interceptor, call_env \<times> llm_call, McpError) interceptor_ops" where
  "proxy_ops X = \<lparr>i_name = proxy_name, i_priority = proxy_priority, i_should = proxy_should,
     i_intercept = proxy_intercept X\<rparr>"

definition demo_rule :: "string \<Rightarrow> TransformRule" where
  "demo_rule ts = \<lparr>rule_name = ''replace-santa-with-timestamp'', method_pattern = ''tools/call'',
     rule_path = ''arguments.message'', operation = Set (String ts)\<rparr>"

definition startup_manager ::
  "proxy_ext \<Rightarrow> RoutingMode \<Rightarrow> string \<Rightarrow> LlmInterceptor option \<Rightarrow> proxy_interceptor InterceptorManager" where
  "startup_manager X mode ts llm =
     (let M = manager_new;
          M = (if mode \<noteq> BypassMode
               then add_interceptor (proxy_ops X) M (Demo (add_rule TransformInterceptor_new (demo_rule ts)))
               else M)
      in case llm of Some i \<Rightarrow> add_interceptor (proxy_ops X) M (Routing (set_ipc_sender i)) | None \<Rightarrow> M)"

definition stdio_new ::
  "proxy_ext \<Rightarrow> ProxyId \<Rightarrow> ProxyStats \<Rightarrow> bool \<Rightarrow> SessionId \<Rightarrow> RoutingMode \<Rightarrow> string \<Rightarrow> LlmInterceptor option
     \<Rightarrow> proxy_interceptor StdioHandler" where
  "stdio_new X pid stats ipc sid mode ts llm =
     StdioHandler_new pid stats ipc (startup_manager X mode ts llm) (Some sid) (llm \<noteq> None) mode"

section \<open>The demonstration rule\<close>

lemma demo_rule_applies:
  assumes "req_params r = Some (Object m)" "obj_get m ''arguments'' = Some (Object given)"
  shows "rule_apply T checks (demo_rule ts) (Request r) = Done (Inr (Request (r\<lparr>req_params :=
    Some (Object (obj_insert ''arguments'' (Object (obj_insert ''message'' (String ts) given)) m))\<rparr>)))"
proof -
  have p: "split_on (CHR ''.'') ''arguments.message'' = [''arguments'', ''message'']"
    by (simp add: split_on.simps)
  show ?thesis using assms
    by (simp add: rule_apply_def apply_to_payload_def apply_to_value_def demo_rule_def p
        set_at_path_def update_object_def value_get_def as_object_def Let_def)
qed

lemma demo_intercept:
  assumes "ctx_message c = Request r" "req_method r = ''tools/call''"
    "req_params r = Some (Object m)" "obj_get m ''arguments'' = Some (Object given)"
  shows "\<exists>t'. ti_intercept T checks F (add_rule TransformInterceptor_new (demo_rule ts)) e c =
    Done (Inr (modified (Request (r\<lparr>req_params := Some (Object (obj_insert ''arguments''
       (Object (obj_insert ''message'' (String ts) given)) m))\<rparr>))
      (''Applied rules: '' @ ''replace-santa-with-timestamp'') f64_one), t')"
  using assms demo_rule_applies [OF assms(3,4), of T checks ts]
  by (simp add: ti_intercept_def add_rule_def TransformInterceptor_new_def rule_matches_def
      ctx_method_def demo_rule_def Let_def)

lemma annotated_request:
  assumes "annotated (Request r) m'" "req_params r = Some (Object m)"
  shows "\<exists>r' m2. m' = Request r' \<and> req_params r' = Some (Object m2) \<and>
    (\<forall>key. key \<notin> routing_keys \<longrightarrow> obj_get m2 key = obj_get m key)"
  using assms by (auto simp: annotated_def annotated_params_def keeps_fields_def)

lemma startup_interceptors:
  assumes "mode \<noteq> BypassMode"
  shows "interceptors (startup_manager X mode ts llm) =
    Demo (add_rule TransformInterceptor_new (demo_rule ts)) #
      (case llm of Some i \<Rightarrow> [Routing (set_ipc_sender i)] | None \<Rightarrow> [])"
  using assms
  by (simp add: startup_manager_def add_interceptor_def manager_new_def proxy_ops_def ti_priority_def
      default_priority_def split: option.split)

text \<open>Demonstration rule. Outside bypass mode, which includes the default mode, a freshly started
  stdio proxy rewrites every tool call whose arguments are an object: the field \<open>message\<close> of the
  arguments is set to the time the proxy was started, whether it was there or not.\<close>

theorem tool_calls_rewritten:
  assumes mode: "mode \<noteq> BypassMode" and r: "req_method r = ''tools/call''"
      "req_params r = Some (Object m)" "obj_get m ''arguments'' = Some (Object given)"
    and p: "process_message_with_metadata (proxy_ops X) F env now el (startup_manager X mode ts llm)
        (Request r) Outgoing md = Done (Inr res, M')"
  shows "\<exists>r' m'. ir_message res = Request r' \<and> req_params r' = Some (Object m') \<and>
    obj_get m' ''arguments'' = Some (Object (obj_insert ''message'' (String ts) given))"
proof -
  let ?t = "add_rule TransformInterceptor_new (demo_rule ts)"
  let ?m = "obj_insert ''arguments'' (Object (obj_insert ''message'' (String ts) given)) m"
  let ?r = "r\<lparr>req_params := Some (Object ?m)\<rparr>"
  let ?st = "initial_loop now (Request r) Outgoing md"
  have st: "ctx_message (ls_context ?st) = Request r" "current_message ?st = Request r"
    "ctx_direction (ls_context ?st) = Outgoing"
    by (simp_all add: initial_loop_def context_new_def Let_def)
  have ctx: "(ls_context ?st)\<lparr>ctx_message := current_message ?st\<rparr> = ls_context ?st"
    using st by simp
  have "?st\<lparr>ls_context := ls_context ?st\<rparr> = ?st" by simp
  obtain t' where t: "(ti_intercept (px_text X) (px_checks X) (px_f64 X) ?t (fst (env 0)) (ls_context ?st)
      :: ((McpError + InterceptionResult) \<times> TransformInterceptor) rust) = Done (Inr (modified (Request ?r) (''Applied rules: '' @ ''replace-santa-with-timestamp'') f64_one), t')"
    using demo_intercept [OF st(1) r, of "px_text X" "px_checks X" "px_f64 X" ts "fst (env 0)"]
    by (auto simp: r)
  have should: "ti_should_intercept ?t (ls_context ?st)"
    using st r by (simp add: ti_should_intercept_def add_rule_def TransformInterceptor_new_def
        rule_matches_def ctx_method_def demo_rule_def)
  define st1 where "st1 = take_modification F (modified (Request ?r)
    (''Applied rules: '' @ ''replace-santa-with-timestamp'') f64_one) ?st"
  have st1: "current_message st1 = Request ?r" "ctx_direction (ls_context st1) = Outgoing"
    using st by (simp_all add: st1_def take_modification_def modified_def)
  have step: "run_interceptors (proxy_ops X) F env 0 (Demo ?t # is) ?st =
      keep_state (Demo t') (run_interceptors (proxy_ops X) F env (Suc 0) is st1)" for "is"
    using should t ctx by (simp add: proxy_ops_def st1_def modified_def Let_def)
  have all: "run_interceptors (proxy_ops X) F env 0 (interceptors (startup_manager X mode ts llm)) ?st =
      keep_state (Demo t') (run_interceptors (proxy_ops X) F env (Suc 0)
        (case llm of Some i \<Rightarrow> [Routing (set_ipc_sender i)] | None \<Rightarrow> []) st1)"
    unfolding startup_interceptors [OF mode] by (rule step)
  have final: "ir_message (final_result F s) = current_message s" for s
    by (simp add: final_result_def modified_def pass_through_def Let_def)
  note given = obj_get_insert [of "''arguments''" _ m "''arguments''"]
  show ?thesis
  proof (cases llm)
    case None
    then have "ir_message res = Request ?r"
      using p st1 all by (auto simp: process_message_with_metadata_def final)
    then show ?thesis by (auto simp: given)
  next
    case (Some i)
    let ?c = "(ls_context st1)\<lparr>ctx_message := Request ?r\<rparr>"
    obtain q i' where q: "llm_intercept (px_llm X) (px_uuid X) (set_ipc_sender i) (snd (env (Suc 0))) ?c = (q, i')"
      by force
    have run: "run_interceptors (proxy_ops X) F env (Suc 0) [Routing (set_ipc_sender i)] st1 =
      (case q of Inr result \<Rightarrow> (if ir_block result then Done (Inl result, [Routing i'])
           else Done (Inr (take_modification F result (st1\<lparr>ls_context := ?c\<rparr>)), [Routing i']))
        | Inl e \<Rightarrow> Done (Inr (st1\<lparr>ls_context := ?c\<rparr>), [Routing i']))"
      using q st1 by (simp add: proxy_ops_def llm_should_intercept_def Let_def split: sum.splits)
    show ?thesis
    proof (cases q)
      case (Inl e)
      then have "ir_message res = Request ?r"
        using p Some st1 all run by (auto simp: process_message_with_metadata_def final
            simp del: run_interceptors.simps)
      then show ?thesis by (auto simp: given)
    next
      case (Inr result)
      note a = llm_intercept_annotates [OF q [unfolded Inr]]
      then have "ir_message res = (if ir_modified result then ir_message result else Request ?r)"
        using p Some st1 all run Inr by (auto simp: process_message_with_metadata_def final
            take_modification_def simp del: run_interceptors.simps)
      moreover have "annotated (Request ?r) (ir_message result)" using a by simp
      ultimately have "annotated (Request ?r) (ir_message res)" by auto
      from annotated_request [OF this] obtain r' m2 where
        "ir_message res = Request r'" "req_params r' = Some (Object m2)"
        "\<forall>key. key \<notin> routing_keys \<longrightarrow> obj_get m2 key = obj_get ?m key" by auto
      then show ?thesis by (auto simp: given routing_keys_def)
    qed
  qed
qed

definition sample_proxy_ext :: proxy_ext where
  "sample_proxy_ext = \<lparr>px_text = \<lparr>to_uppercase = id, to_lowercase = id\<rparr>, px_checks = True,
     px_f64 = example_f64, px_llm = sample_llm_ext, px_uuid = (\<lambda>s. None)\<rparr>"

definition sample_tool_call :: JsonRpcRequest where
  "sample_tool_call = request_new (IdNumber 1) ''tools/call''
     (Object [(''arguments'', Object [(''message'', String ''hello'')]), (''name'', String ''echo'')])"

theorem tool_calls_rewritten_witness:
  "\<exists>res M' r' m'. process_message_with_metadata (proxy_ops sample_proxy_ext) example_f64
      (\<lambda>n. (\<lparr>at_check = 0, at_rate = 0, at_utc = 0, at_elapsed = 0\<rparr>, sample_llm_call)) 0 0
      (startup_manager sample_proxy_ext RoutingMode_default ''2025'' None) (Request sample_tool_call)
      Outgoing metadata_new = Done (Inr res, M') \<and>
    ir_message res = Request r' \<and> req_params r' = Some (Object m') \<and>
    obj_get m' ''arguments'' = Some (Object [(''message'', String ''2025'')])"
proof -
  let ?env = "\<lambda>n :: nat. (\<lparr>at_check = 0, at_rate = 0, at_utc = 0, at_elapsed = 0\<rparr>, sample_llm_call)"
  let ?M = "startup_manager sample_proxy_ext RoutingMode_default ''2025'' None"
  let ?args = "[(''message'', String ''hello'')]"
  have m: "RoutingMode_default \<noteq> BypassMode" by (simp add: RoutingMode_default_def)
  have r: "req_method sample_tool_call = ''tools/call''"
    "req_params sample_tool_call = Some (Object [(''arguments'', Object ?args), (''name'', String ''echo'')])"
    "obj_get [(''arguments'', Object ?args), (''name'', String ''echo'')] ''arguments'' = Some (Object ?args)"
    by (simp_all add: sample_tool_call_def request_new_def obj_get_def)
  have not_panic: "process_message_with_metadata (proxy_ops sample_proxy_ext) example_f64 ?env 0 0 ?M
      (Request sample_tool_call) Outgoing metadata_new \<noteq> Panic"
    using demo_rule_applies [OF r(2,3)]
    by (simp add: process_message_with_metadata_def startup_interceptors [OF m] proxy_ops_def
        ti_intercept_def add_rule_def TransformInterceptor_new_def initial_loop_def context_new_def
        Let_def rule_matches_def ctx_method_def r(1) demo_rule_def split: if_splits rust.splits)
  then obtain res M' where p: "process_message_with_metadata (proxy_ops sample_proxy_ext) example_f64 ?env 0 0
      ?M (Request sample_tool_call) Outgoing metadata_new = Done (Inr res, M')"
    by (cases "process_message_with_metadata (proxy_ops sample_proxy_ext) example_f64 ?env 0 0 ?M
      (Request sample_tool_call) Outgoing metadata_new")
      (auto simp: process_message_with_metadata_def split: rust.splits sum.splits)
  from tool_calls_rewritten [OF m r p] p show ?thesis by auto
qed

end
