(* ===== verification/Message_Kind.thy ===== *)
theory Message_Kind
  imports Builtins Stdio_Startup
begin

text \<open>
  What an interceptor may change of a message. The locale \<open>kind_contract\<close> asks that a modified
  message is of the same kind, with the same version, identifier and method; then the pipeline
  keeps all of that, and the contract of \<open>interceptor_contract\<close> on methods follows. Both the
  built-in interceptors and those of the proxy satisfy it.
\<close>

section \<open>Kinds\<close>

definition same_kind :: "JsonRpcMessage \<Rightarrow> JsonRpcMessage \<Rightarrow> bool" where
  "same_kind a b = (case (a, b) of
     (Request r, Request s) \<Rightarrow> req_jsonrpc s = req_jsonrpc r \<and> req_id s = req_id r \<and> req_method s = req_method r
   | (Response r, Response s) \<Rightarrow> resp_jsonrpc s = resp_jsonrpc r \<and> resp_id s = resp_id r \<and> resp_error s = resp_error r
   | (Notification n, Notification s) \<Rightarrow> notif_jsonrpc s = notif_jsonrpc n \<and> notif_method s = notif_method n
   | _ \<Rightarrow> False)"

lemma same_kind_refl [simp]: "same_kind m m"
  by (simp add: same_kind_def split: JsonRpcMessage.split)

lemma same_kind_trans: "same_kind a b \<Longrightarrow> same_kind b c \<Longrightarrow> same_kind a c"
  by (cases a; cases b; cases c) (auto simp: same_kind_def)

lemma same_kind_method: "same_kind (ctx_message c) m \<Longrightarrow> ctx_method (c\<lparr>ctx_message := m\<rparr>) = ctx_method c"
  by (cases "ctx_message c"; cases m) (auto simp: same_kind_def ctx_method_def)

lemma same_kind_response:
  "same_kind (Response r) m \<Longrightarrow> \<exists>r'. m = Response r' \<and> resp_id r' = resp_id r"
  by (cases m) (auto simp: same_kind_def)

section \<open>The pipeline keeps the kind\<close>

locale kind_contract =
  fixes T :: "('i, 'e, 'err) interceptor_ops"
  assumes keeps_kind: "i_intercept T i e c = Done (Inr r, i') \<Longrightarrow> ir_modified r \<Longrightarrow>
      same_kind (ctx_message c) (ir_message r)"
begin

lemma method_kept:
  "i_intercept T i e c = Done (Inr r, i') \<Longrightarrow> ir_modified r \<Longrightarrow>
     ctx_method (c\<lparr>ctx_message := ir_message r\<rparr>) = ctx_method c"
  by (rule same_kind_method) (rule keeps_kind)

lemma run_blocks:
  "run_interceptors T F env k is st = Done (Inl r, js) \<Longrightarrow> ir_block r"
proof (induction "is" arbitrary: k st js)
  case (Cons i "is")
  then show ?case
    by (auto simp: map_rust_Done Let_def split: if_splits rust.splits sum.splits prod.splits)
qed simp

lemma final_message: "ir_message (final_result F st) = current_message st"
  by (simp add: final_result_def modified_def pass_through_def Let_def)

lemma run_keeps_kind:
  assumes "run_interceptors T F env k is st = Done (Inr st', js)"
  shows "same_kind (current_message st) (current_message st')"
  using assms
proof (induction "is" arbitrary: k st js)
  case (Cons i "is")
  show ?case
  proof (cases "i_should T i (ls_context st)")
    case False
    with Cons show ?thesis by (auto simp: map_rust_Done)
  next
    case True
    let ?st = "st\<lparr>ls_context := (ls_context st)\<lparr>ctx_message := current_message st\<rparr>\<rparr>"
    obtain q i' where q: "i_intercept T i (env k) (ls_context ?st) = Done (q, i')"
      using Cons.prems True by (cases "i_intercept T i (env k) (ls_context ?st)") auto
    show ?thesis
    proof (cases q)
      case (Inl e)
      with Cons True q show ?thesis by (fastforce simp: map_rust_Done)
    next
      case (Inr r)
      then have "same_kind (current_message (take_modification F r ?st)) (current_message st')"
        using Cons True q by (auto simp: map_rust_Done Let_def split: if_splits)
      moreover have "same_kind (current_message st) (current_message (take_modification F r ?st))"
        using keeps_kind [OF q [unfolded Inr]] by (auto simp: take_modification_def)
      ultimately show ?thesis by (blast intro: same_kind_trans)
    qed
  qed
qed simp

lemma process_keeps_kind:
  assumes "process_message_with_metadata T F env now el M m d md = Done (Inr r, M')" and "\<not> ir_block r"
  shows "same_kind m (ir_message r)"
proof -
  obtain q js where run: "run_interceptors T F env 0 (interceptors M) (initial_loop now m d md) = Done (q, js)"
    using assms(1) by (cases "run_interceptors T F env 0 (interceptors M) (initial_loop now m d md)")
      (auto simp: process_message_with_metadata_def)
  show ?thesis
  proof (cases q)
    case (Inl x)
    with run_blocks [OF run [unfolded Inl]] assms run show ?thesis
      by (simp add: process_message_with_metadata_def)
  next
    case (Inr st)
    with run_keeps_kind [OF run [unfolded Inr]] assms(1) run show ?thesis
      by (auto simp: process_message_with_metadata_def initial_loop_def final_message Let_def)
  qed
qed

end

section \<open>Both sets of interceptors\<close>

lemma rule_apply_kind: "rule_apply X checks r msg = Done (Inr msg') \<Longrightarrow> same_kind msg msg'"
  by (auto simp: rule_apply_def same_kind_def map_rust_Done res_simps split: JsonRpcMessage.splits)

lemma apply_rules_kind:
  "apply_rules X checks c rs msg applied = Done (msg', applied') \<Longrightarrow> same_kind msg msg'"
proof (induction rs arbitrary: msg applied)
  case (Cons r rs)
  then show ?case
    by (auto dest!: rule_apply_kind intro: same_kind_trans split: if_splits rust.splits sum.splits)
qed simp

lemma annotated_kind: "annotated a b \<Longrightarrow> same_kind a b"
  by (auto simp: annotated_def same_kind_def split: JsonRpcMessage.splits)

interpretation bk: kind_contract "builtin_ops X" for X
  by unfold_locales (auto dest!: builtin_modified apply_rules_kind)

lemma proxy_keeps_kind:
  assumes "proxy_intercept X i e c = Done (Inr r, i')" "ir_modified r"
  shows "same_kind (ctx_message c) (ir_message r)"
proof (cases i)
  case (Demo t)
  with assms(1) obtain t' where "(ti_intercept (px_text X) (px_checks X) (px_f64 X) t (fst e) c
      :: ((McpError + InterceptionResult) \<times> _) rust) = Done (Inr r, t')"
    by (auto simp: map_rust_Done)
  from ti_intercept_cases [OF this] show ?thesis by (auto intro: apply_rules_kind)
next
  case (Routing l)
  with assms(1) obtain l' where "llm_intercept (px_llm X) (px_uuid X) l (snd e) c = (Inr r, l')"
    by (cases "llm_intercept (px_llm X) (px_uuid X) l (snd e) c") auto
  from llm_intercept_annotates [OF this] show ?thesis by (auto intro: annotated_kind)
qed

interpretation pk: kind_contract "proxy_ops X" for X
  by unfold_locales (simp add: proxy_ops_def proxy_keeps_kind)

text \<open>With a fixed identity and a decision by method, the contract of the pipeline holds too.\<close>

locale kinded_interceptors = kind_contract +
  assumes identity_kept: "i_intercept T i e c = Done (res, i') \<Longrightarrow>
      i_name T i' = i_name T i \<and> i_priority T i' = i_priority T i"
    and asked_by_method: "ctx_method c = ctx_method (c\<lparr>ctx_message := m\<rparr>) \<Longrightarrow>
      i_should T i (c\<lparr>ctx_message := m\<rparr>) = i_should T i c"

sublocale kinded_interceptors \<subseteq> interceptor_contract T
  by unfold_locales (fact identity_kept, fact asked_by_method, fact method_kept)

lemma proxy_keeps_identity:
  assumes "proxy_intercept X i e c = Done (res, i')"
  shows "proxy_name i' = proxy_name i \<and> proxy_priority i' = proxy_priority i"
proof (cases i)
  case (Demo t)
  with assms obtain t' where "(ti_intercept (px_text X) (px_checks X) (px_f64 X) t (fst e) c
      :: ((McpError + InterceptionResult) \<times> _) rust) = Done (res, t')" and "i' = Demo t'"
    by (auto simp: map_rust_Done)
  with ti_intercept_cases [OF this(1)] Demo show ?thesis by (simp add: ti_priority_def)
next
  case (Routing l)
  with assms show ?thesis by (cases "llm_intercept (px_llm X) (px_uuid X) l (snd e) c") auto
qed

lemma proxy_asked_by_method:
  "ctx_method c = ctx_method (c\<lparr>ctx_message := m\<rparr>) \<Longrightarrow>
   proxy_should i (c\<lparr>ctx_message := m\<rparr>) = proxy_should i c"
  by (cases i)
    (auto simp: ti_should_intercept_def rule_matches_def llm_should_intercept_def ctx_method_def
      split: JsonRpcMessage.splits)

interpretation px: kinded_interceptors "proxy_ops X" for X
  by unfold_locales (simp_all add: proxy_ops_def proxy_keeps_identity proxy_asked_by_method)

text \<open>The interceptors of a proxy never block.\<close>

lemma proxy_passes:
  assumes "proxy_intercept X i e c = Done (Inr r, i')"
  shows "\<not> ir_block r"
proof (cases i)
  case (Demo t)
  with assms obtain t' where "(ti_intercept (px_text X) (px_checks X) (px_f64 X) t (fst e) c
      :: ((McpError + InterceptionResult) \<times> _) rust) = Done (Inr r, t')"
    by (auto simp: map_rust_Done)
  from ti_intercept_cases [OF this] show ?thesis by auto
next
  case (Routing l)
  with assms obtain l' where "llm_intercept (px_llm X) (px_uuid X) l (snd e) c = (Inr r, l')"
    by (cases "llm_intercept (px_llm X) (px_uuid X) l (snd e) c") auto
  from llm_intercept_annotates [OF this] show ?thesis by simp
qed

lemma proxy_run_passes:
  "run_interceptors (proxy_ops X) F env k is st \<noteq> Done (Inl r, js)"
proof (induction "is" arbitrary: k st js)
  case (Cons i "is")
  then show ?case
    by (auto simp: proxy_ops_def map_rust_Done Let_def dest: proxy_passes
        split: if_splits rust.splits sum.splits prod.splits)
qed simp

lemma proxy_never_blocks:
  "process_message_with_metadata (proxy_ops X) F env now el M m d md = Done (Inr r, M') \<Longrightarrow> \<not> ir_block r"
  by (auto simp: process_message_with_metadata_def proxy_run_passes final_result_def modified_def
      pass_through_def Let_def split: rust.splits sum.splits prod.splits if_splits)

section \<open>Properties\<close>

text \<open>C21 (messages keep their type). A message that the interceptors of a proxy let through is of the
  kind of the message that entered, with the same version, and the same identifier, method and
  error where it has them; only parameters and results can differ.\<close>

theorem pipeline_keeps_type:
  assumes "process_message_with_metadata (proxy_ops X) F env now el M m d md = Done (Inr r, M')"
    and "\<not> ir_block r"
  shows "same_kind m (ir_message r)"
  using assms by (rule pk.process_keeps_kind)

text \<open>The same of the built-in interceptors.\<close>

theorem builtin_keeps_type:
  assumes "process_message_with_metadata (builtin_ops X) F env now el M m d md = Done (Inr r, M')"
    and "\<not> ir_block r"
  shows "same_kind m (ir_message r)"
  using assms by (rule bk.process_keeps_kind)

text \<open>The interceptors of a proxy implement the documented pipeline.\<close>

theorem proxy_pipeline:
  "map_rust fst (process_message_with_metadata (proxy_ops X) F env now el M m d md)
     = map_rust (\<lambda>(x, _). Inr (ideal_result F x))
         (ideal_run (proxy_ops X) env 0 (interceptors M) (ls_context (initial_loop now m d md)) [])"
  by (rule px.process_refines)

theorem pipeline_keeps_type_witness:
  "\<exists>r M'. process_message_with_metadata (proxy_ops sample_proxy_ext) example_f64
      (\<lambda>n. (\<lparr>at_check = 0, at_rate = 0, at_utc = 0, at_elapsed = 0\<rparr>, sample_llm_call)) 0 0
      (startup_manager sample_proxy_ext BypassMode ''2025'' None) (Request sample_tool_call)
      Outgoing metadata_new = Done (Inr r, M') \<and> \<not> ir_block r \<and> same_kind (Request sample_tool_call) (ir_message r)"
proof -
  let ?env = "\<lambda>n :: nat. (\<lparr>at_check = 0, at_rate = 0, at_utc = 0, at_elapsed = 0\<rparr>, sample_llm_call)"
  let ?M = "startup_manager sample_proxy_ext BypassMode ''2025'' None"
  obtain M' where "process_message_with_metadata (proxy_ops sample_proxy_ext) example_f64 ?env 0 0 ?M
      (Request sample_tool_call) Outgoing metadata_new = Done (Inr (pass_through (Request sample_tool_call)), M')"
    by (simp add: startup_manager_def manager_new_def process_message_with_metadata_def initial_loop_def
        final_result_def Let_def)
  with pipeline_keeps_type [OF this] show ?thesis by fastforce
qed

end
