(* ===== verification/Http_Proxy.thy ===== *)
theory Http_Proxy
  imports Message_Kind Client
begin

text \<open>
  The proxies for servers that speak HTTP: the streamable endpoint
  (\<open>acdp-transport/src/http_stream_server.rs\<close>), the endpoints with server-sent events
  (\<open>http_sse_server.rs\<close>) and the handler of monitor queries (\<open>http_handler.rs\<close>). A server
  and its upstream client share one interceptor manager, the field \<open>interceptor_manager\<close> of the
  client. Request bodies are JSON values; \<open>hx_parse\<close> and \<open>hx_show\<close> are \<open>serde_json\<close> on
  messages, \<open>hx_header_ok\<close> says which texts are header values. An early return with a status is
  \<open>Inl\<close>. Each call of the interceptors has its own clock readings.
\<close>

section \<open>Answering one request\<close>

record http_ext =
  hx_parse :: "json \<Rightarrow> JsonRpcMessage option"
  hx_show :: "JsonRpcResponse \<Rightarrow> string + string"
  hx_header_ok :: "string \<Rightarrow> bool"

record http_reply =
  hr_status :: nat
  hr_headers :: "(string \<times> string) list"
  hr_body :: string

definition session_of :: "string option \<Rightarrow> string \<Rightarrow> string" where
  "session_of header fresh = (case header of Some s \<Rightarrow> s | None \<Rightarrow> fresh)"

text \<open>The server's own pass through the shared interceptors.\<close>

definition server_intercept ::
  "('t, 'i, 'e) client_env \<Rightarrow> 'e icall \<Rightarrow> string \<Rightarrow> JsonRpcMessage \<Rightarrow> MessageDirection \<Rightarrow> ('t, 'i) McpClient
     \<Rightarrow> (InterceptionResult mcp_result \<times> ('t, 'i) McpClient) rust" where
  "server_intercept E k session m d c =
     (case process_message_with_metadata (ce_interceptors E) (ce_f64 E) (ic_env k) (ic_now k)
             (ic_elapsed k) (interceptor_manager c) m d (with_session_id metadata_new session) of
        Panic \<Rightarrow> Panic
      | Done (r, M) \<Rightarrow> Done (r, c\<lparr>interceptor_manager := M\<rparr>))"

definition params_or_empty :: "json option \<Rightarrow> json" where
  "params_or_empty p = (case p of Some v \<Rightarrow> v | None \<Rightarrow> Object [])"

definition sent_response :: JsonRpcResponse where
  "sent_response = \<lparr>resp_jsonrpc = ''2.0'', resp_id = IdNull,
     resp_result = Some (Object [(''status'', String ''sent'')]), resp_error = None\<rparr>"

text \<open>The upstream part of both servers. A failed request or notification is a bad gateway (502), a
  response in place of a request a bad request (400).\<close>

definition forward_upstream ::
  "('t, 'i, 'e) client_env \<Rightarrow> (nat \<Rightarrow> 'e icall \<times> 'e icall) \<Rightarrow> JsonRpcMessage \<Rightarrow> ('t, 'i) McpClient
     \<Rightarrow> ((nat + JsonRpcResponse) \<times> ('t, 'i) McpClient) rust" where
  "forward_upstream E ks m c = (case m of
     Request req \<Rightarrow>
       (case send_request E ks (req_method req) (Inr (params_or_empty (req_params req))) c of
          Panic \<Rightarrow> Panic
        | Done (Inl _, c, _) \<Rightarrow> Done (Inl 502, c)
        | Done (Inr response, c, _) \<Rightarrow> Done (Inr response, c))
   | Notification notif \<Rightarrow>
       (case send_notification E (notif_method notif) (Inr (params_or_empty (notif_params notif))) c of
          (Inl _, c) \<Rightarrow> Done (Inl 502, c)
        | (Inr _, c) \<Rightarrow> Done (Inr sent_response, c))
   | Response _ \<Rightarrow> Done (Inl 400, c))"

definition blocked_response :: "JsonRpcMessage \<Rightarrow> InterceptionResult \<Rightarrow> JsonRpcResponse" where
  "blocked_response m r = \<lparr>resp_jsonrpc = ''2.0'',
     resp_id = (case m of Request req \<Rightarrow> req_id req | _ \<Rightarrow> IdNull), resp_result = None,
     resp_error = Some \<lparr>code = - 32000, err_message = ''Request blocked by interceptor'',
       err_data = map_option String (ir_reasoning r)\<rparr>\<rparr>"

definition json_reply :: "string \<Rightarrow> string \<Rightarrow> http_reply" where
  "json_reply session b = \<lparr>hr_status = 200,
     hr_headers = [(''Content-Type'', ''application/json''), (''mcp-session-id'', session)], hr_body = b\<rparr>"

definition server_error_reply :: http_reply where
  "server_error_reply = \<lparr>hr_status = 500, hr_headers = [], hr_body = []\<rparr>"

text \<open>\<open>handle_mcp_request\<close> of the streamable endpoint. Whether the response was blocked is not
  asked; a result that is no response is replaced by what the server answered.\<close>

definition stream_answer ::
  "http_ext \<Rightarrow> ('t, 'i, 'e) client_env \<Rightarrow> 'e icall \<Rightarrow> string \<Rightarrow> JsonRpcResponse \<Rightarrow> ('t, 'i) McpClient
     \<Rightarrow> ((nat + http_reply) \<times> ('t, 'i) McpClient) rust" where
  "stream_answer X E k session response c =
     (case server_intercept E k session (Response response) Incoming c of
        Panic \<Rightarrow> Panic
      | Done (Inl _, c) \<Rightarrow> Done (Inl 500, c)
      | Done (Inr result, c) \<Rightarrow>
          let final = (case ir_message result of Response resp \<Rightarrow> resp | _ \<Rightarrow> response)
          in case hx_show X final of
               Inl _ \<Rightarrow> Done (Inl 500, c)
             | Inr b \<Rightarrow> Done (if hx_header_ok X session then Inr (json_reply session b) else Inl 500, c))"

definition handle_stream_post ::
  "http_ext \<Rightarrow> ('t, 'i, 'e) client_env \<Rightarrow> 'e icall \<Rightarrow> (nat \<Rightarrow> 'e icall \<times> 'e icall) \<Rightarrow> 'e icall
     \<Rightarrow> string option \<Rightarrow> string \<Rightarrow> json \<Rightarrow> ('t, 'i) McpClient
     \<Rightarrow> ((nat + http_reply) \<times> ('t, 'i) McpClient) rust" where
  "handle_stream_post X E k ks k' header fresh body c =
     (case hx_parse X body of
        None \<Rightarrow> Done (Inl 400, c)
      | Some m \<Rightarrow>
         (let session = session_of header fresh in
          case server_intercept E k session m Outgoing c of
            Panic \<Rightarrow> Panic
          | Done (Inl _, c) \<Rightarrow> Done (Inl 500, c)
          | Done (Inr result, c) \<Rightarrow>
              if ir_block result then
                Done (Inr (if hx_header_ok X session
                           then json_reply session (case hx_show X (blocked_response m result) of
                                  Inr b \<Rightarrow> b | Inl _ \<Rightarrow> [])
                           else server_error_reply), c)
              else
                (case forward_upstream E ks (ir_message result) c of
                   Panic \<Rightarrow> Panic
                 | Done (Inl status, c) \<Rightarrow> Done (Inl status, c)
                 | Done (Inr response, c) \<Rightarrow> stream_answer X E k' session response c)))"

section \<open>Server-sent events\<close>

text \<open>The messages broadcast on the channel of a session.\<close>

type_synonym HttpSession = "JsonRpcMessage list"

record ('t, 'i) HttpSseServerState =
  ss_sessions :: "string \<rightharpoonup> HttpSession"
  ss_client :: "('t, 'i) McpClient"

definition HttpSseServerState_new :: "('t, 'i) McpClient \<Rightarrow> ('t, 'i) HttpSseServerState" where
  "HttpSseServerState_new c = \<lparr>ss_sessions = Map.empty, ss_client = c\<rparr>"

definition event_reply :: "string \<Rightarrow> string \<Rightarrow> http_reply" where
  "event_reply session b = \<lparr>hr_status = 200,
     hr_headers = [(''Content-Type'', ''text/event-stream''), (''Cache-Control'', ''no-cache''),
       (''Mcp-Session-Id'', session)],
     hr_body = ''data: '' @ b @ nl @ nl\<rparr>"

definition handle_sse_post ::
  "http_ext \<Rightarrow> ('t, 'i, 'e) client_env \<Rightarrow> 'e icall \<Rightarrow> (nat \<Rightarrow> 'e icall \<times> 'e icall)
     \<Rightarrow> string option \<Rightarrow> string \<Rightarrow> json \<Rightarrow> ('t, 'i) HttpSseServerState
     \<Rightarrow> ((nat + http_reply) \<times> ('t, 'i) HttpSseServerState) rust" where
  "handle_sse_post X E k ks header fresh body s =
     (case hx_parse X body of
        None \<Rightarrow> Done (Inl 400, s)
      | Some m \<Rightarrow>
         (let session = session_of header fresh in
          case server_intercept E k session m Outgoing (ss_client s) of
            Panic \<Rightarrow> Panic
          | Done (Inl _, c) \<Rightarrow> Done (Inl 500, s\<lparr>ss_client := c\<rparr>)
          | Done (Inr result, c) \<Rightarrow>
              if ir_block result then Done (Inl 403, s\<lparr>ss_client := c\<rparr>)
              else
                (case forward_upstream E ks (ir_message result) c of
                   Panic \<Rightarrow> Panic
                 | Done (Inl status, c) \<Rightarrow> Done (Inl status, s\<lparr>ss_client := c\<rparr>)
                 | Done (Inr response, c) \<Rightarrow>
                    (case hx_show X response of
                       Inl _ \<Rightarrow> Done (Inl 500, s\<lparr>ss_client := c\<rparr>)
                     | Inr b \<Rightarrow> Done (if hx_header_ok X session then Inr (event_reply session b)
                                     else Inl 500, s\<lparr>ss_client := c\<rparr>)))))"

text \<open>A stream: the name of its first event, its session, and how many messages the channel had
  carried when the stream subscribed.\<close>

record sse_stream =
  st_first :: string
  st_session :: string
  st_from :: nat

definition session_json :: "string \<Rightarrow> string" where
  "session_json session = ''{'' @ dq @ ''session_id'' @ dq @ '':'' @ dq @ session @ dq @ ''}''"

text \<open>The events of a stream whose reader keeps up. The event of a message has no name; a message
  that cannot be printed is left out.\<close>

definition stream_events ::
  "(JsonRpcMessage \<Rightarrow> string + string) \<Rightarrow> sse_stream \<Rightarrow> ('t, 'i) HttpSseServerState
     \<Rightarrow> (string option \<times> string) list" where
  "stream_events show_message st s = (Some (st_first st), session_json (st_session st)) #
     (case ss_sessions s (st_session st) of
        None \<Rightarrow> []
      | Some ms \<Rightarrow> List.map_filter (\<lambda>m. case show_message m of Inr b \<Rightarrow> Some (None, b) | Inl _ \<Rightarrow> None)
                    (drop (st_from st) ms))"

definition handle_sse_get ::
  "string option \<Rightarrow> string \<Rightarrow> ('t, 'i) HttpSseServerState \<Rightarrow> sse_stream \<times> ('t, 'i) HttpSseServerState" where
  "handle_sse_get header fresh s =
     (let session = session_of header fresh in
      case ss_sessions s session of
        Some ms \<Rightarrow> (\<lparr>st_first = ''connected'', st_session = session, st_from = length ms\<rparr>, s)
      | None \<Rightarrow> (\<lparr>st_first = ''connected'', st_session = session, st_from = 0\<rparr>,
                 s\<lparr>ss_sessions := (ss_sessions s)(session \<mapsto> [])\<rparr>))"

definition handle_sse_session ::
  "string \<Rightarrow> ('t, 'i) HttpSseServerState \<Rightarrow> nat + sse_stream" where
  "handle_sse_session session s = (case ss_sessions s session of
     None \<Rightarrow> Inl 404
   | Some ms \<Rightarrow> Inr \<lparr>st_first = ''resumed'', st_session = session, st_from = length ms\<rparr>)"

section \<open>Queries of the monitor\<close>

record ('t, 'i) HttpHandler =
  hh_proxy_id :: ProxyId
  hh_ipc :: "IpcMessage list option"
  hh_session_id :: SessionId
  hh_has_llm :: bool
  hh_routing_mode :: RoutingMode
  hh_tools :: "string list option"
  hh_client :: "('t, 'i) McpClient"

text \<open>Printing of JSON values, lower case and \<open>Debug\<close> of a string, and
  \<open>LlmInterceptor::set_routing_mode\<close> on the shared interceptor.\<close>

record 'i query_ext =
  qx_show_json :: "json \<Rightarrow> string"
  qx_lower :: "string \<Rightarrow> string"
  qx_debug :: "string \<Rightarrow> string"
  qx_set_mode :: "RoutingMode \<Rightarrow> 'i \<Rightarrow> 'i"

definition hh_notify :: "IpcMessage \<Rightarrow> ('t, 'i) HttpHandler \<Rightarrow> ('t, 'i) HttpHandler" where
  "hh_notify m h = h\<lparr>hh_ipc := map_option (\<lambda>sent. sent @ [m]) (hh_ipc h)\<rparr>"

definition hh_log :: "string \<times> datetime \<Rightarrow> LogLevel \<Rightarrow> string \<Rightarrow> ('t, 'i) HttpHandler \<Rightarrow> ('t, 'i) HttpHandler" where
  "hh_log stamp level msg h =
     hh_notify (LogEntryMsg (LogEntry_new (fst stamp) (snd stamp) level msg (hh_proxy_id h))) h"

definition hh_apply_routing_mode ::
  "'i query_ext \<Rightarrow> RoutingMode \<Rightarrow> ('t, 'i) HttpHandler \<Rightarrow> ('t, 'i) HttpHandler" where
  "hh_apply_routing_mode Q mode h =
     (let h = h\<lparr>hh_routing_mode := mode\<rparr>;
          c = hh_client h; M = interceptor_manager c;
          h = (if hh_has_llm h then h\<lparr>hh_client := c\<lparr>interceptor_manager :=
                 M\<lparr>interceptors := map (qx_set_mode Q mode) (interceptors M)\<rparr>\<rparr>\<rparr> else h)
      in hh_notify (RoutingModeChanged (hh_proxy_id h) (mode_as_str mode)) h)"

definition listed_tools :: "JsonRpcResponse \<Rightarrow> string list" where
  "listed_tools r = (case Option.bind (Option.bind (resp_result r) (\<lambda>v. value_get v ''tools'')) json_array of
     Some tools \<Rightarrow> names_of tools | None \<Rightarrow> [])"

definition first_of :: "'a list \<Rightarrow> 'a option" where
  "first_of xs = (case xs of [] \<Rightarrow> None | x # _ \<Rightarrow> Some x)"

definition get_available_tool ::
  "('t, 'i, 'e) client_env \<Rightarrow> (nat \<Rightarrow> 'e icall \<times> 'e icall) \<Rightarrow> ('t, 'i) HttpHandler
     \<Rightarrow> (string option \<times> ('t, 'i) HttpHandler) rust" where
  "get_available_tool E ks h = (case hh_tools h of
     Some (t # _) \<Rightarrow> Done (Some t, h)
   | _ \<Rightarrow>
      (case send_request E ks ''tools/list'' (Inr (Object [])) (hh_client h) of
         Panic \<Rightarrow> Panic
       | Done (Inl _, c, _) \<Rightarrow> Done (None, h\<lparr>hh_client := c\<rparr>)
       | Done (Inr response, c, _) \<Rightarrow>
           let tools = listed_tools response
           in Done (first_of tools, h\<lparr>hh_client := c, hh_tools := (if tools = [] then None else Some tools)\<rparr>)))"

definition tool_input :: "string \<Rightarrow> string \<Rightarrow> json" where
  "tool_input tool query = Object [(''arguments'', Object [(''input'', String query)]), (''name'', String tool)]"

definition asks_for_tools :: "'i query_ext \<Rightarrow> string \<Rightarrow> bool" where
  "asks_for_tools Q query \<longleftrightarrow> str_contains (qx_lower Q query) ''tools''
     \<and> str_contains (qx_lower Q query) ''available''"

text \<open>The request of a query, or the error that ends it.\<close>

definition http_query_request ::
  "'i query_ext \<Rightarrow> ('t, 'i, 'e) client_env \<Rightarrow> (nat \<Rightarrow> 'e icall \<times> 'e icall) \<Rightarrow> TuiQueryJob \<Rightarrow> ('t, 'i) HttpHandler
     \<Rightarrow> ((string + string \<times> json) \<times> ('t, 'i) HttpHandler) rust" where
  "http_query_request Q E ks job h = (case tj_mcp_method job of
     Some meth \<Rightarrow> Done (Inr (meth, params_or_empty (tj_mcp_params job)), h)
   | None \<Rightarrow>
       if asks_for_tools Q (tj_query job) then Done (Inr (''tools/list'', Object []), h)
       else (case get_available_tool E ks h of
          Panic \<Rightarrow> Panic
        | Done (Some tool, h) \<Rightarrow> Done (Inr (''tools/call'', tool_input tool (tj_query job)), h)
        | Done (None, h) \<Rightarrow> Done (Inl
            ''No tools available from MCP server. Try 'tools/list' to see available tools.'', h)))"

text \<open>What is sent: the method the interceptors left, and parameters built anew from the tool name
  and the query. \<open>Inl None\<close> is the last resort of listing the tools.\<close>

definition final_request ::
  "('t, 'i, 'e) client_env \<Rightarrow> (nat \<Rightarrow> 'e icall \<times> 'e icall) \<Rightarrow> TuiQueryJob \<Rightarrow> JsonRpcMessage \<Rightarrow> ('t, 'i) HttpHandler
     \<Rightarrow> ((string \<times> json) option \<times> ('t, 'i) HttpHandler) rust" where
  "final_request E ks job m h = (case m of
     Request req \<Rightarrow>
       if req_method req = ''tools/list'' then Done (Some (''tools/list'', Object []), h)
       else (case Option.bind (Option.bind (req_params req) (\<lambda>p. value_get p ''name'')) as_str of
          Some tool \<Rightarrow> Done (Some (req_method req, tool_input tool (tj_query job)), h)
        | None \<Rightarrow> map_rust (\<lambda>(tool, h). (map_option (\<lambda>t. (req_method req, tool_input t (tj_query job))) tool, h))
                   (get_available_tool E ks h))
   | _ \<Rightarrow> map_rust (\<lambda>(tool, h). (Some (case tool of
              Some t \<Rightarrow> (''tools/call'', tool_input t (tj_query job)) | None \<Rightarrow> (''tools/list'', Object [])), h))
            (get_available_tool E ks h))"

definition ask_upstream ::
  "'i query_ext \<Rightarrow> ('t, 'i, 'e) client_env \<Rightarrow> (nat \<Rightarrow> 'e icall \<times> 'e icall) \<Rightarrow> duration \<Rightarrow> fp option \<Rightarrow> string
     \<Rightarrow> string \<Rightarrow> json \<Rightarrow> ('t, 'i) HttpHandler \<Rightarrow> (TuiQueryCompletion \<times> ('t, 'i) HttpHandler) rust" where
  "ask_upstream Q E ks elapsed delay err meth params h =
     (case send_request E ks meth (Inr params) (hh_client h) of
        Panic \<Rightarrow> Panic
      | Done (Inl e, c, _) \<Rightarrow> Done (error_completion (err @ mcp_error_display (ce_debug E) e), h\<lparr>hh_client := c\<rparr>)
      | Done (Inr response, c, _) \<Rightarrow>
          Done ((completion_from_response (qx_show_json Q) response elapsed)\<lparr>tc_interceptor_delay_ms := delay\<rparr>,
                h\<lparr>hh_client := c\<rparr>))"

definition debug_reason :: "'i query_ext \<Rightarrow> string option \<Rightarrow> string" where
  "debug_reason Q r = (case r of None \<Rightarrow> ''None'' | Some s \<Rightarrow> ''Some('' @ qx_debug Q s @ '')'')"

text \<open>\<open>process_tui_query\<close>; \<open>kss n\<close> are the readings of the n-th upstream request. An error of
  the interceptors drops the job, which is \<open>None\<close>.\<close>

definition http_tui_query ::
  "'i query_ext \<Rightarrow> ('t, 'i, 'e) client_env \<Rightarrow> 'e icall \<Rightarrow> (nat \<Rightarrow> nat \<Rightarrow> 'e icall \<times> 'e icall)
     \<Rightarrow> duration \<Rightarrow> duration \<Rightarrow> TuiQueryJob \<Rightarrow> ('t, 'i) HttpHandler
     \<Rightarrow> (TuiQueryCompletion option \<times> ('t, 'i) HttpHandler) rust" where
  "http_tui_query Q E k kss intercepted elapsed job h =
     (if \<not> is_ready (hh_client h)
      then Done (Some (error_completion ''MCP client not ready (initialization timeout)''), h)
      else case http_query_request Q E (kss 0) job h of
        Panic \<Rightarrow> Panic
      | Done (Inl e, h) \<Rightarrow> Done (Some (error_completion e), h)
      | Done (Inr (meth, params), h) \<Rightarrow>
          (let request = \<lparr>req_jsonrpc = ''2.0'', req_id = IdString (tj_correlation_id job),
                          req_method = meth, req_params = Some params\<rparr>;
               delay = Some (fp_mul binary64 (as_secs_f64 intercepted) (fp_of_nat binary64 1000))
           in case server_intercept E k (hh_session_id h) (Request request) Outgoing (hh_client h) of
             Panic \<Rightarrow> Panic
           | Done (Inl _, c) \<Rightarrow> Done (None, h\<lparr>hh_client := c\<rparr>)
           | Done (Inr result, c) \<Rightarrow>
              (let h = h\<lparr>hh_client := c\<rparr> in
               if ir_block result
               then Done (Some (error_completion
                      (''Query blocked by interceptor: '' @ debug_reason Q (ir_reasoning result))), h)
               else case final_request E (kss 1) job (ir_message result) h of
                 Panic \<Rightarrow> Panic
               | Done (Some (meth, params), h) \<Rightarrow>
                   map_rust (apfst Some) (ask_upstream Q E (kss 2) elapsed delay [] meth params h)
               | Done (None, h) \<Rightarrow>
                   map_rust (apfst Some) (ask_upstream Q E (kss 2) elapsed delay
                     ''Failed to get available tools: '' ''tools/list'' (Object []) h))))"

section \<open>What reaches the upstream server\<close>

definition upstream_request :: "u64 \<Rightarrow> string \<Rightarrow> json \<Rightarrow> JsonRpcRequest" where
  "upstream_request n meth p = \<lparr>req_jsonrpc = ''2.0'',
     req_id = IdString (request_id_text n), req_method = meth, req_params = Some p\<rparr>"

lemma send_request_eq:
  "send_request E ks meth (Inr p) c =
     (if \<not> is_ready c
      then Done (Inl (Protocol (NotInitialized ''Client not ready for requests'')), c, [])
      else retry_loop E ks (upstream_request (request_counter c) meth p) (request_timeout (cl_config c)) 0
             (unat (max_retries (cl_config c))) (c\<lparr>request_counter := request_counter c + 1\<rparr>))"
  by (simp add: send_request_def send_request_with_timeout_def send_request_with_retries_def
      generate_request_id_def upstream_request_def Let_def)

lemma server_intercept_Done:
  assumes "server_intercept E k session m d c = Done (r, c')"
  obtains x where "r = Inr x" "cl_transport c' = cl_transport c" "same_client c c'"
  using assms
  by (auto simp: server_intercept_def process_message_with_metadata_def same_client_def
      split: rust.splits prod.splits sum.splits)

lemma server_crossing:
  assumes "server_intercept E k session m d c = Done (Inr x, c')"
  shows "crossings E (interceptor_manager c) [\<lparr>cr_call = k, cr_metadata = with_session_id metadata_new session,
    cr_message = m, cr_direction = d, cr_result = x\<rparr>] (interceptor_manager c')"
  using assms by (auto simp: server_intercept_def split: rust.splits prod.splits)

lemma send_request_logged:
  assumes "send_request E ks meth (Inr p) c = Done (r, c', ds)"
    and "ce_transport E = logged T" and "cl_transport c = (t, l)"
  shows "\<exists>t' xs. cl_transport c' = (t', l @ List.map_filter granted xs)
    \<and> crossings E (interceptor_manager c) xs (interceptor_manager c')
    \<and> crossings_of (interception_metadata c) (upstream_request (request_counter c) meth p) xs
    \<and> length (filter outgoing xs) \<le> Suc (unat (max_retries (cl_config c)))"
proof (cases "is_ready c")
  case True
  let ?c = "c\<lparr>request_counter := request_counter c + 1\<rparr>"
  have "retry_loop E ks (upstream_request (request_counter c) meth p) (request_timeout (cl_config c)) 0
      (unat (max_retries (cl_config c))) ?c = Done (r, c', ds)"
    using assms(1) True by (simp add: send_request_eq)
  from retry_loop_run [OF this assms(2), of t l] assms(3) obtain t' xs where
    "cl_transport c' = (t', l @ List.map_filter granted xs)"
    "crossings E (interceptor_manager c) xs (interceptor_manager c')"
    "crossings_of (interception_metadata ?c) (upstream_request (request_counter c) meth p) xs"
    "length (filter outgoing xs) = Suc (length ds)" "length ds \<le> unat (max_retries (cl_config c))" by auto
  then show ?thesis
    by (intro exI [of _ t'] exI [of _ xs]) (simp add: interception_metadata_def)
next
  case False
  with assms show ?thesis
    by (auto simp: send_request_eq List.map_filter_simps crossings_of_def intro!: exI [of _ "[]"])
qed

lemma notify_logged:
  assumes "send_notification E meth p c = (r, c')"
    and "ce_transport E = logged T" and "cl_transport c = (t, l)"
  shows "\<exists>t'. cl_transport c' = (t', l)"
  using assms
  by (auto simp: send_notification_def notify_def logged_def split: if_splits sum.splits prod.splits)

text \<open>The crossings the client makes for a message the server hands it: those of one request, with an
  identifier of the client's own, when the message is a request; none for any other message.\<close>

definition upstream_crossings :: "('t, 'i) McpClient \<Rightarrow> JsonRpcMessage \<Rightarrow> 'e crossing list \<Rightarrow> bool" where
  "upstream_crossings c m xs \<longleftrightarrow> (case m of
     Request req \<Rightarrow> crossings_of (interception_metadata c)
       (upstream_request (request_counter c) (req_method req) (params_or_empty (req_params req))) xs
   | _ \<Rightarrow> xs = [])"

lemma notify_manager:
  "send_notification E meth p c = (r, c') \<Longrightarrow> interceptor_manager c' = interceptor_manager c"
  by (auto simp: send_notification_def notify_def split: if_splits sum.splits prod.splits)

lemma forward_upstream_logged:
  assumes "forward_upstream E ks m c = Done (r, c')"
    and "ce_transport E = logged T" and "cl_transport c = (t, l)"
  shows "\<exists>t' xs. cl_transport c' = (t', l @ List.map_filter granted xs)
    \<and> crossings E (interceptor_manager c) xs (interceptor_manager c') \<and> upstream_crossings c m xs
    \<and> length (filter outgoing xs) \<le> Suc (unat (max_retries (cl_config c)))"
proof (cases m)
  case (Request req)
  obtain q c1 ds where s: "send_request E ks (req_method req) (Inr (params_or_empty (req_params req))) c
      = Done (q, c1, ds)" and "c' = c1"
    using assms(1) Request
    by (cases "send_request E ks (req_method req) (Inr (params_or_empty (req_params req))) c")
      (auto simp: forward_upstream_def split: sum.splits)
  with send_request_logged [OF s assms(2,3)] Request show ?thesis by (simp add: upstream_crossings_def)
next
  case (Notification notif)
  obtain q c1 where s: "send_notification E (notif_method notif)
      (Inr (params_or_empty (notif_params notif))) c = (q, c1)" by (metis surj_pair)
  with assms(1) Notification have "c' = c1" by (auto simp: forward_upstream_def split: sum.splits)
  with notify_logged [OF s assms(2,3)] notify_manager [OF s] Notification show ?thesis
    by (auto simp: upstream_crossings_def List.map_filter_simps)
next
  case (Response resp)
  with assms show ?thesis by (auto simp: forward_upstream_def upstream_crossings_def List.map_filter_simps)
qed

text \<open>What a server and its client make of a posted message: the server's crossing of the message
  itself comes first; unless it blocks, the client's crossings follow, of the request the server's
  crossing left; \<open>ys\<close> are crossings of the server on the way back. The log grows by what the client's
  outgoing crossings granted.\<close>

definition relayed_post ::
  "('t, 'i, 'e) client_env \<Rightarrow> 'e icall \<Rightarrow> string \<Rightarrow> JsonRpcMessage \<Rightarrow> ('u \<times> JsonRpcRequest list, 'i) McpClient
     \<Rightarrow> JsonRpcRequest list \<Rightarrow> 'i InterceptorManager \<Rightarrow> bool" where
  "relayed_post E k session m c sent M' \<longleftrightarrow> (\<exists>x xs ys.
     crossings E (interceptor_manager c) (x # xs @ ys) M'
     \<and> cr_call x = k \<and> cr_metadata x = with_session_id metadata_new session
     \<and> cr_message x = m \<and> outgoing x
     \<and> (ir_block (cr_result x) \<longrightarrow> xs = []) \<and> upstream_crossings c (ir_message (cr_result x)) xs
     \<and> sent = List.map_filter granted xs
     \<and> length (filter outgoing xs) \<le> Suc (unat (max_retries (cl_config c)))
     \<and> filter outgoing ys = [])"



lemma upstream_crossings_same:
  assumes "same_client c c1"
  shows "upstream_crossings c1 m xs = upstream_crossings c m xs"
  using assms same_client_metadata [OF assms]
  by (cases m) (simp_all add: upstream_crossings_def same_client_def)

text \<open>The common part of the endpoints: the server's crossing, then the forwarding.\<close>

lemma posted_blocked:
  assumes "server_intercept E k session m Outgoing c = Done (Inr result, c1)" "ir_block result"
    and "cl_transport c = (t, l)"
  shows "cl_transport c1 = (t, l @ []) \<and> relayed_post E k session m c [] (interceptor_manager c1)"
proof -
  let ?x = "\<lparr>cr_call = k, cr_metadata = with_session_id metadata_new session, cr_message = m,
    cr_direction = Outgoing, cr_result = result\<rparr>"
  have "cl_transport c1 = (t, l)" using server_intercept_Done [OF assms(1)] assms(3) by metis
  moreover have "upstream_crossings c (ir_message result) []"
    by (simp add: upstream_crossings_def crossings_of_def split: JsonRpcMessage.split)
  ultimately show ?thesis
    using server_crossing [OF assms(1)] assms(2) unfolding relayed_post_def
    by (intro conjI exI [of _ ?x] exI [of _ "[]"]) (simp_all add: List.map_filter_simps)
qed

lemma posted_forwarded:
  assumes "server_intercept E k session m Outgoing c = Done (Inr result, c1)" "\<not> ir_block result"
    and "forward_upstream E ks (ir_message result) c1 = Done (f, c2)"
    and "ce_transport E = logged T" and "cl_transport c = (t, l)"
    and "crossings E (interceptor_manager c2) ys M'" "filter outgoing ys = []"
  shows "\<exists>t' sent. cl_transport c2 = (t', l @ sent) \<and> relayed_post E k session m c sent M'"
proof -
  let ?x = "\<lparr>cr_call = k, cr_metadata = with_session_id metadata_new session, cr_message = m,
    cr_direction = Outgoing, cr_result = result\<rparr>"
  have c1: "cl_transport c1 = (t, l)" and sc: "same_client c c1"
    using server_intercept_Done [OF assms(1)] assms(5) by metis+
  obtain t' xs where t': "cl_transport c2 = (t', l @ List.map_filter granted xs)"
    and xs: "crossings E (interceptor_manager c1) xs (interceptor_manager c2)"
      "upstream_crossings c (ir_message result) xs"
      "length (filter outgoing xs) \<le> Suc (unat (max_retries (cl_config c)))"
    using forward_upstream_logged [OF assms(3,4) c1] sc upstream_crossings_same [OF sc]
    by (auto simp: same_client_def)
  have "crossings E (interceptor_manager c) ([?x] @ xs @ ys) M'"
    using server_crossing [OF assms(1)] xs(1) assms(6) unfolding crossings_append by blast
  then have "relayed_post E k session m c (List.map_filter granted xs) M'"
    using xs(2,3) assms(2,7) unfolding relayed_post_def
    by (intro exI [of _ ?x] exI [of _ xs] exI [of _ ys]) simp
  with t' show ?thesis by blast
qed


section \<open>Servers without interceptors\<close>

lemma no_interceptors:
  assumes "interceptors M = []"
  shows "\<exists>M'. process_message_with_metadata T F env now el M m d md = Done (Inr (pass_through m), M')
    \<and> interceptors M' = []"
  using assms by (simp add: process_message_with_metadata_def initial_loop_def final_result_def Let_def)

lemma unfiltered_intercept:
  assumes "interceptors (interceptor_manager c) = []"
  shows "\<exists>M. intercept E k m d c = Done (Inr (pass_through m), c\<lparr>interceptor_manager := M\<rparr>) \<and> interceptors M = []"
    and "\<exists>M. server_intercept E k s m d c = Done (Inr (pass_through m), c\<lparr>interceptor_manager := M\<rparr>)
      \<and> interceptors M = []"
  using no_interceptors [OF assms] unfolding intercept_def server_intercept_def
  by (metis (no_types, lifting) case_prod_conv rust.simps(5))+

lemma unfiltered_single:
  assumes "interceptors (interceptor_manager c) = []"
    and "t_send_request (ce_transport E) rq (Some tmo) (cl_transport c) = (r, t')"
  shows "\<exists>c'. send_single_request E k rq tmo c = Done (r, c') \<and> cl_transport c' = t'
    \<and> interceptors (interceptor_manager c') = [] \<and> same_client c c'"
proof -
  obtain M where o1: "intercept E (fst k) (Request rq) Outgoing c
      = Done (Inr (pass_through (Request rq)), c\<lparr>interceptor_manager := M\<rparr>)" "interceptors M = []"
    using unfiltered_intercept(1) [OF assms(1)] by blast
  show ?thesis
  proof (cases r)
    case (Inl e)
    with o1 assms(2) show ?thesis
      by (simp add: send_single_request_def pass_through_def Let_def same_client_def)
  next
    case (Inr resp)
    let ?c = "bump_stats (\<lambda>s. s\<lparr>requests_sent := requests_sent s + 1\<rparr>)
      (c\<lparr>interceptor_manager := M, cl_transport := t'\<rparr>)"
    obtain M' where "intercept E (snd k) (Response resp) Incoming ?c
        = Done (Inr (pass_through (Response resp)), ?c\<lparr>interceptor_manager := M'\<rparr>)" "interceptors M' = []"
      using unfiltered_intercept(1) [of ?c E "snd k" "Response resp" Incoming] o1(2) by auto
    with o1 assms(2) Inr show ?thesis
      by (simp add: send_single_request_def pass_through_def Let_def same_client_def)
  qed
qed

lemma answered_loop:
  assumes "interceptors (interceptor_manager c) = []"
    and "t_send_request (ce_transport E) rq (Some tmo) (cl_transport c) = (Inr resp, t')"
  shows "\<exists>c'. retry_loop E ks rq tmo 0 n c = Done (Inr resp, c', []) \<and> cl_transport c' = t'
    \<and> interceptors (interceptor_manager c') = []"
proof -
  obtain c' where "send_single_request E (ks 0) rq tmo c = Done (Inr resp, c')" "cl_transport c' = t'"
    "interceptors (interceptor_manager c') = []"
    using unfiltered_single [OF assms] by blast
  then show ?thesis by (subst retry_loop.simps) simp
qed

lemma unfiltered_loop:
  assumes "retry_loop E ks rq tmo a left c = Done (r, c', ds)"
    and "interceptors (interceptor_manager c) = []" "ce_transport E = logged T" "cl_transport c = (t, l)"
  shows "\<exists>t' n. cl_transport c' = (t', l @ replicate (Suc n) rq)"
  using assms
proof (induction left arbitrary: a c ds t l)
  case 0
  obtain r1 t1 where "t_send_request T rq (Some tmo) t = (r1, t1)" by (metis surj_pair)
  then obtain c1 where "send_single_request E (ks a) rq tmo c = Done (r1, c1)" "cl_transport c1 = (t1, l @ [rq])"
    using unfiltered_single [of c E rq tmo r1 "(t1, l @ [rq])" "ks a"] "0.prems" by auto
  then have "cl_transport c' = (t1, l @ replicate (Suc 0) rq)" using "0.prems"(1)
    by (auto simp: retry_loop.simps [of _ _ _ _ _ 0] split: sum.splits if_splits)
  then show ?case by blast
next
  case (Suc left)
  obtain r1 t1 where "t_send_request T rq (Some tmo) t = (r1, t1)" by (metis surj_pair)
  then obtain c1 where s: "send_single_request E (ks a) rq tmo c = Done (r1, c1)" "cl_transport c1 = (t1, l @ [rq])"
    "interceptors (interceptor_manager c1) = []"
    using unfiltered_single [of c E rq tmo r1 "(t1, l @ [rq])" "ks a"] Suc.prems by auto
  show ?case
  proof (cases r1)
    case (Inr resp)
    then have "cl_transport c' = (t1, l @ replicate (Suc 0) rq)" using Suc.prems(1) s
      by (subst (asm) retry_loop.simps) (auto split: if_splits)
    then show ?thesis by blast
  next
    case (Inl e)
    obtain ds' where rest: "retry_loop E ks rq tmo (Suc a) left c1 = Done (r, c', ds')"
      using Suc.prems(1) s Inl
      by (subst (asm) retry_loop.simps) (auto simp: map_rust_Done split: rust.splits)
    obtain t' n where "cl_transport c' = (t', (l @ [rq]) @ replicate (Suc n) rq)"
      using Suc.IH [OF rest s(3) Suc.prems(3) s(2)] by blast
    then have "cl_transport c' = (t', l @ replicate (Suc (Suc n)) rq)" by simp
    then show ?thesis by blast
  qed
qed

text \<open>A transport that answers every request under the identifier of the request.\<close>

definition correlates :: "'t transport_ops \<Rightarrow> bool" where
  "correlates T \<longleftrightarrow> (\<forall>rq d t. \<exists>resp t'. t_send_request T rq d t = (Inr resp, t') \<and> resp_id resp = req_id rq)"

lemma unfiltered_answer:
  assumes "hx_parse X body = Some (Request rq)" and "\<And>r. \<exists>b. hx_show X r = Inr b"
    and "hx_header_ok X (session_of header fresh)"
    and "is_ready c" and "interceptors (interceptor_manager c) = []"
    and "correlates (ce_transport E)"
  shows "\<exists>reply c'. handle_stream_post X E k ks k' header fresh body c = Done (Inr reply, c')"
proof -
  let ?s = "session_of header fresh"
  let ?rq = "upstream_request (request_counter c) (req_method rq) (params_or_empty (req_params rq))"
  obtain M where o1: "server_intercept E k ?s (Request rq) Outgoing c
      = Done (Inr (pass_through (Request rq)), c\<lparr>interceptor_manager := M\<rparr>)" "interceptors M = []"
    using unfiltered_intercept(2) [OF assms(5)] by blast
  let ?c = "c\<lparr>interceptor_manager := M\<rparr>"
  let ?d = "?c\<lparr>request_counter := request_counter c + 1\<rparr>"
  obtain resp t' where t: "t_send_request (ce_transport E) ?rq (Some (request_timeout (cl_config c)))
      (cl_transport c) = (Inr resp, t')" "resp_id resp = req_id ?rq"
    using assms(6) unfolding correlates_def by blast
  obtain c1 where "retry_loop E ks ?rq (request_timeout (cl_config c)) 0 (unat (max_retries (cl_config c)))
      ?d = Done (Inr resp, c1, [])" and c1: "interceptors (interceptor_manager c1) = []"
    using answered_loop [of ?d] t(1) o1(2) by fastforce
  then have f: "forward_upstream E ks (Request rq) ?c = Done (Inr resp, c1)"
    using assms(4) by (simp add: forward_upstream_def send_request_eq is_ready_def)
  obtain M' where i: "server_intercept E k' ?s (Response resp) Incoming c1
      = Done (Inr (pass_through (Response resp)), c1\<lparr>interceptor_manager := M'\<rparr>)"
    using unfiltered_intercept(2) [OF c1] by blast
  obtain b where b: "hx_show X resp = Inr b" using assms(2) by blast
  have "handle_stream_post X E k ks k' header fresh body c =
      Done (Inr (json_reply ?s b), c1\<lparr>interceptor_manager := M'\<rparr>)"
    using assms(1,3) o1(1) f i b by (simp add: handle_stream_post_def stream_answer_def pass_through_def Let_def)
  then show ?thesis by blast
qed

text \<open>The event endpoint sends nothing but filtered requests either; its responses are not filtered by
  the server.\<close>

theorem sse_requests_mediated:
  assumes "handle_sse_post X E k ks header fresh body s = Done (r, s')"
    and "ce_transport E = logged T" and "cl_transport (ss_client s) = (t, l)"
  shows "case hx_parse X body of
     None \<Rightarrow> s' = s
   | Some m \<Rightarrow> \<exists>t' sent. cl_transport (ss_client s') = (t', l @ sent)
       \<and> relayed_post E k (session_of header fresh) m (ss_client s) sent (interceptor_manager (ss_client s'))"
proof (cases "hx_parse X body")
  case None
  with assms show ?thesis by (auto simp: handle_sse_post_def)
next
  case (Some m)
  let ?s = "session_of header fresh" and ?c = "ss_client s"
  obtain q c1 where si: "server_intercept E k ?s m Outgoing ?c = Done (q, c1)"
    using assms(1) Some by (cases "server_intercept E k ?s m Outgoing ?c") (auto simp: handle_sse_post_def)
  obtain result where q: "q = Inr result" using server_intercept_Done [OF si] by blast
  note si = si [unfolded q]
  have "\<exists>t' sent. cl_transport (ss_client s') = (t', l @ sent)
      \<and> relayed_post E k ?s m ?c sent (interceptor_manager (ss_client s'))"
  proof (cases "ir_block result")
    case True
    with assms(1) Some si have "ss_client s' = c1" by (auto simp: handle_sse_post_def Let_def)
    with posted_blocked [OF si True assms(3)] show ?thesis by metis
  next
    case False
    obtain f c2 where fw: "forward_upstream E ks (ir_message result) c1 = Done (f, c2)"
      using assms(1) Some si False
      by (cases "forward_upstream E ks (ir_message result) c1") (auto simp: handle_sse_post_def Let_def)
    have "ss_client s' = c2" using assms(1) Some si False fw
      by (cases f) (auto simp: handle_sse_post_def Let_def split: sum.splits)
    with posted_forwarded [OF si False fw assms(2,3), of "[]" "interceptor_manager c2"] show ?thesis by simp
  qed
  with Some show ?thesis by simp
qed

section \<open>Responses\<close>

text \<open>A response that an interceptor blocks is delivered all the same, as the server sent it.\<close>

lemma blocked_response_delivered:
  assumes "server_intercept E k session (Response response) Incoming c = Done (Inr result, c')"
    and "ir_message result = ir_message (blocked reason)"
    and "hx_show X response = Inr b" "hx_header_ok X session"
  shows "stream_answer X E k session response c = Done (Inr (json_reply session b), c')"
  using assms by (simp add: stream_answer_def blocked_def Let_def)

lemma proxy_intercept_kind:
  assumes "ce_interceptors E = proxy_ops Y"
    and "process_message_with_metadata (ce_interceptors E) F env now el M m d md = Done (Inr r, M')"
  shows "\<not> ir_block r \<and> same_kind m (ir_message r)"
  using assms proxy_never_blocks pk.process_keeps_kind by metis

lemma correlated_single:
  assumes "ce_interceptors E = proxy_ops Y" "correlates (ce_transport E)"
    and "send_single_request E k rq tmo c = Done (Inr resp, c')"
  shows "resp_id resp = req_id rq"
proof -
  obtain x c1 where o1: "intercept E (fst k) (Request rq) Outgoing c = Done (Inr x, c1)"
    using assms(3) by (cases "intercept E (fst k) (Request rq) Outgoing c")
      (auto simp: send_single_request_def split: sum.splits)
  then have x: "\<not> ir_block x" "same_kind (Request rq) (ir_message x)"
    using proxy_intercept_kind [OF assms(1)] by (auto simp: intercept_def split: rust.splits prod.splits)
  then obtain rq' where rq': "ir_message x = Request rq'" "req_id rq' = req_id rq"
    by (cases "ir_message x") (auto simp: same_kind_def)
  obtain r1 t' where s: "t_send_request (ce_transport E) rq' (Some tmo) (cl_transport c1) = (Inr r1, t')"
    "resp_id r1 = req_id rq'" using assms(2) unfolding correlates_def by blast
  let ?c = "bump_stats (\<lambda>s. s\<lparr>requests_sent := requests_sent s + 1\<rparr>) (c1\<lparr>cl_transport := t'\<rparr>)"
  obtain y c3 where i: "intercept E (snd k) (Response r1) Incoming ?c = Done (Inr y, c3)"
    using assms(3) o1 x(1) rq'(1) s(1) by (cases "intercept E (snd k) (Response r1) Incoming ?c")
      (auto simp: send_single_request_def Let_def split: sum.splits)
  then have y: "\<not> ir_block y" "same_kind (Response r1) (ir_message y)"
    using proxy_intercept_kind [OF assms(1)] by (auto simp: intercept_def split: rust.splits prod.splits)
  then have "ir_message y = Response resp"
    using assms(3) o1 x(1) rq'(1) s(1) i
    by (auto simp: send_single_request_def Let_def dest: same_kind_response)
  with y(2) rq'(2) s(2) show ?thesis by (auto dest: same_kind_response)
qed

lemma correlated_loop:
  assumes "ce_interceptors E = proxy_ops Y" "correlates (ce_transport E)"
    and "retry_loop E ks rq tmo a left c = Done (Inr resp, c', ds)"
  shows "resp_id resp = req_id rq"
  using assms(3)
proof (induction left arbitrary: a c ds)
  case 0
  then show ?case
    by (subst (asm) retry_loop.simps)
      (auto dest: correlated_single [OF assms(1,2)] split: rust.splits sum.splits)
next
  case (Suc left)
  obtain q c1 where s: "send_single_request E (ks a) rq tmo c = Done (q, c1)"
    using Suc.prems by (subst (asm) retry_loop.simps) (auto split: rust.splits)
  show ?case
  proof (cases q)
    case (Inl e)
    then obtain ds' where "retry_loop E ks rq tmo (Suc a) left c1 = Done (Inr resp, c', ds')"
      using Suc.prems s by (subst (asm) retry_loop.simps) (auto simp: map_rust_Done split: rust.splits)
    then show ?thesis by (rule Suc.IH)
  next
    case (Inr r)
    then have "r = resp" using Suc.prems s by (subst (asm) retry_loop.simps) auto
    with correlated_single [OF assms(1,2)] s Inr show ?thesis by blast
  qed
qed

text \<open>The answer has another identifier. With the interceptors of a proxy, and over a transport
  that answers each request under its own identifier, a request that the streamable endpoint
  answers is not answered under the caller's identifier but under the one that the upstream
  client chose for itself.\<close>

theorem answer_under_foreign_id:
  assumes "ce_interceptors E = proxy_ops Y" "correlates (ce_transport E)"
    and "hx_parse X body = Some (Request rq)"
    and "handle_stream_post X E k ks k' header fresh body c = Done (Inr reply, c')"
  shows "\<exists>resp. hx_show X resp = Inr (hr_body reply)
    \<and> resp_id resp = IdString (request_id_text (request_counter c))"
proof -
  let ?s = "session_of header fresh"
  obtain x c1 where o1: "server_intercept E k ?s (Request rq) Outgoing c = Done (Inr x, c1)"
    using assms(3,4) by (cases "server_intercept E k ?s (Request rq) Outgoing c")
      (auto simp: handle_stream_post_def Let_def split: sum.splits)
  then have x: "\<not> ir_block x" "same_kind (Request rq) (ir_message x)"
    using proxy_intercept_kind [OF assms(1)] by (auto simp: server_intercept_def split: rust.splits prod.splits)
  then obtain rq' where rq': "ir_message x = Request rq'"
    by (cases "ir_message x") (auto simp: same_kind_def)
  have cnt: "request_counter c1 = request_counter c"
    using server_intercept_Done [OF o1] by (metis same_client_def)
  obtain resp c2 where f: "forward_upstream E ks (Request rq') c1 = Done (Inr resp, c2)"
    and a: "stream_answer X E k' ?s resp c2 = Done (Inr reply, c')"
    using assms(3,4) o1 x(1) rq'
    by (auto simp: handle_stream_post_def Let_def split: rust.splits sum.splits prod.splits)
  have "resp_id resp = IdString (request_id_text (request_counter c))"
    using f cnt correlated_loop [OF assms(1,2)]
    by (fastforce simp: forward_upstream_def send_request_eq upstream_request_def
        split: rust.splits sum.splits prod.splits if_splits)
  obtain y c3 where i: "server_intercept E k' ?s (Response resp) Incoming c2 = Done (Inr y, c3)"
    using a by (cases "server_intercept E k' ?s (Response resp) Incoming c2")
      (auto simp: stream_answer_def split: sum.splits)
  then have "same_kind (Response resp) (ir_message y)"
    using proxy_intercept_kind [OF assms(1)] by (auto simp: server_intercept_def split: rust.splits prod.splits)
  then obtain final where "ir_message y = Response final" "resp_id final = resp_id resp"
    by (auto dest: same_kind_response)
  with a i have "hx_show X final = Inr (hr_body reply)"
    by (auto simp: stream_answer_def json_reply_def Let_def split: sum.splits if_splits)
  with \<open>resp_id final = resp_id resp\<close> \<open>resp_id resp = _\<close> show ?thesis by auto
qed

section \<open>Event streams\<close>

inductive sse_reach :: "http_ext \<Rightarrow> ('t, 'i, 'e) client_env \<Rightarrow> ('t, 'i) HttpSseServerState \<Rightarrow> bool"
  for X E where
  start: "sse_reach X E (HttpSseServerState_new c)"
| post: "sse_reach X E s \<Longrightarrow> handle_sse_post X E k ks header fresh body s = Done (r, s') \<Longrightarrow> sse_reach X E s'"
| subscribe: "sse_reach X E s \<Longrightarrow> handle_sse_get header fresh s = (st, s') \<Longrightarrow> sse_reach X E s'"

lemma post_keeps_sessions:
  "handle_sse_post X E k ks header fresh body s = Done (r, s') \<Longrightarrow> ss_sessions s' = ss_sessions s"
  by (auto simp: handle_sse_post_def Let_def split: option.splits rust.splits prod.splits sum.splits if_splits)

lemma sessions_empty:
  assumes "sse_reach X E s"
  shows "ss_sessions s session = Some ms \<Longrightarrow> ms = []"
  using assms
proof (induction arbitrary: session ms rule: sse_reach.induct)
  case (start c)
  then show ?case by (simp add: HttpSseServerState_new_def)
next
  case (post s k ks header fresh body r s')
  then show ?case by (metis post_keeps_sessions)
next
  case (subscribe s header fresh st s')
  then show ?case by (auto simp: handle_sse_get_def Let_def split: option.splits if_splits)
qed

text \<open>Event streams stay silent. In every reachable state of the server with events, a stream,
  opened or resumed, has yielded its first event and nothing else: no response, notification or
  request of the upstream server is ever sent on it.\<close>

theorem event_streams_silent:
  assumes "sse_reach X E s"
  shows "stream_events show_message st s = [(Some (st_first st), session_json (st_session st))]"
  using sessions_empty [OF assms, of "st_session st"]
  by (auto simp: stream_events_def List.map_filter_def split: option.splits)

section \<open>Structured queries\<close>

lemma unfiltered_ask:
  assumes "ask_upstream Q E ks elapsed delay err meth params h = Done (x, h')"
    and "is_ready (hh_client h)" "interceptors (interceptor_manager (hh_client h)) = []"
    and "ce_transport E = logged T" "cl_transport (hh_client h) = (t, l)"
  shows "\<exists>t' n. cl_transport (hh_client h') =
    (t', l @ replicate (Suc n) (upstream_request (request_counter (hh_client h)) meth params))"
proof -
  let ?c = "hh_client h"
  let ?rq = "upstream_request (request_counter ?c) meth params"
  obtain r c' ds where s: "send_request E ks meth (Inr params) ?c = Done (r, c', ds)" and "hh_client h' = c'"
    using assms(1) by (cases "send_request E ks meth (Inr params) ?c")
      (auto simp: ask_upstream_def split: sum.splits)
  moreover from s assms(2) have "retry_loop E ks ?rq (request_timeout (cl_config ?c)) 0
      (unat (max_retries (cl_config ?c))) (?c\<lparr>request_counter := request_counter ?c + 1\<rparr>) = Done (r, c', ds)"
    by (simp add: send_request_eq)
  from unfiltered_loop [OF this _ assms(4), of t l] assms(3,5) obtain t' n where
    "cl_transport c' = (t', l @ replicate (Suc n) ?rq)" by auto
  ultimately show ?thesis by auto
qed

text \<open>Arguments of structured queries are lost. A monitor's structured request for a method other
  than \<open>tools/list\<close> whose parameters name a tool reaches the server, where no interceptor is
  registered, with the arguments replaced by the text of the query; which arguments were given
  makes no difference.\<close>

theorem query_arguments_replaced:
  assumes "tj_mcp_method job = Some meth" "meth \<noteq> ''tools/list''"
    and "tj_mcp_params job = Some p" "Option.bind (value_get p ''name'') as_str = Some tool"
    and "is_ready (hh_client h)" "interceptors (interceptor_manager (hh_client h)) = []"
    and "ce_transport E = logged T" "cl_transport (hh_client h) = (t, l)"
    and "http_tui_query Q E k kss intercepted elapsed job h = Done (r, h')"
  shows "\<exists>t' n. cl_transport (hh_client h') = (t', l @ replicate (Suc n)
    (upstream_request (request_counter (hh_client h)) meth (tool_input tool (tj_query job))))"
proof -
  let ?rq = "\<lparr>req_jsonrpc = ''2.0'', req_id = IdString (tj_correlation_id job), req_method = meth,
    req_params = Some p\<rparr>"
  let ?c = "hh_client h"
  obtain M where i: "server_intercept E k (hh_session_id h) (Request ?rq) Outgoing ?c
      = Done (Inr (pass_through (Request ?rq)), ?c\<lparr>interceptor_manager := M\<rparr>)" "interceptors M = []"
    using unfiltered_intercept(2) [OF assms(6)] by blast
  let ?h = "h\<lparr>hh_client := ?c\<lparr>interceptor_manager := M\<rparr>\<rparr>"
  have q: "http_query_request Q E (kss 0) job h = Done (Inr (meth, p), h)"
    using assms(1,3) by (simp add: http_query_request_def params_or_empty_def)
  have f: "final_request E (kss 1) job (Request ?rq) ?h
      = Done (Some (meth, tool_input tool (tj_query job)), ?h)"
    using assms(2,4) by (simp add: final_request_def)
  obtain x where "ask_upstream Q E (kss 2) elapsed
      (Some (fp_mul binary64 (as_secs_f64 intercepted) (fp_of_nat binary64 1000))) []
      meth (tool_input tool (tj_query job)) ?h = Done (x, h')"
    using assms(5,9) q i(1) f
    by (auto simp: http_tui_query_def pass_through_def Let_def map_rust_Done is_ready_def)
  from unfiltered_ask [OF this] assms(5-8) i(2) show ?thesis by (simp add: is_ready_def)
qed

section \<open>Witnesses\<close>

definition proxy_env :: "'t transport_ops \<Rightarrow> ('t, proxy_interceptor, call_env \<times> llm_call) client_env" where
  "proxy_env T = \<lparr>ce_transport = T, ce_interceptors = proxy_ops sample_proxy_ext, ce_f64 = example_f64,
     ce_checks = True, ce_debug = http_debug sample_http, ce_init_to_value = (\<lambda>_. Inr Null),
     ce_init_from_value = (\<lambda>_. Inr (init_response_basic ''server'' ''1'')),
     ce_initialized_to_value = Inr Null\<rparr>"

definition proxy_icall :: "(call_env \<times> llm_call) icall" where
  "proxy_icall = \<lparr>ic_env = (\<lambda>n. (\<lparr>at_check = 0, at_rate = 0, at_utc = 0, at_elapsed = 0\<rparr>, sample_llm_call)),
     ic_now = 0, ic_elapsed = 0\<rparr>"

definition plain_http :: http_ext where
  "plain_http = \<lparr>hx_parse = (\<lambda>b. if b = Null then None else Some (Request sample_tool_call)),
     hx_show = (\<lambda>r. Inr (request_id_display (resp_id r))), hx_header_ok = (\<lambda>_. True)\<rparr>"

definition ready_client :: "(unit \<times> JsonRpcRequest list, proxy_interceptor) McpClient" where
  "ready_client = (McpClient_new ((), []) ClientConfig_default)\<lparr>cl_state := Ready\<rparr>"

abbreviation sample_post where
  "sample_post \<equiv> handle_stream_post plain_http (proxy_env (logged echo_ops)) proxy_icall
     (\<lambda>_. (proxy_icall, proxy_icall)) proxy_icall None ''session'' (Object []) ready_client"

lemma correlates_echo: "correlates (logged echo_ops)"
  by (auto simp: correlates_def logged_def echo_ops_def response_success_def)

lemma proxy_env_sel [simp]:
  "ce_interceptors (proxy_env T) = proxy_ops sample_proxy_ext" "ce_transport (proxy_env T) = T"
  by (simp_all add: proxy_env_def)

lemma ready_client_sel [simp]:
  "is_ready ready_client" "interceptors (interceptor_manager ready_client) = []"
  "cl_transport ready_client = ((), [])" "request_counter ready_client = 1"
  by (simp_all add: ready_client_def McpClient_new_def is_ready_def manager_new_def)

lemma sample_post_answers: "\<exists>reply c'. sample_post = Done (Inr reply, c')"
proof (rule unfiltered_answer)
  show "correlates (ce_transport (proxy_env (logged echo_ops)))" by (simp add: correlates_echo)
qed (simp_all add: plain_http_def)


theorem answer_under_foreign_id_witness:
  "\<exists>reply c' resp. sample_post = Done (Inr reply, c') \<and> hx_show plain_http resp = Inr (hr_body reply)
     \<and> resp_id resp \<noteq> req_id sample_tool_call"
proof -
  obtain reply c' where p: "sample_post = Done (Inr reply, c')" using sample_post_answers by blast
  have b: "hx_parse plain_http (Object []) = Some (Request sample_tool_call)" by (simp add: plain_http_def)
  have "correlates (ce_transport (proxy_env (logged echo_ops)))" by (simp add: correlates_echo)
  from answer_under_foreign_id [OF proxy_env_sel(1) this b p] obtain resp where
    r: "hx_show plain_http resp = Inr (hr_body reply)" "resp_id resp = IdString (request_id_text 1)" by auto
  have "resp_id resp \<noteq> req_id sample_tool_call"
    using r(2) by (simp add: sample_tool_call_def request_new_def request_id_text_def)
  with p r(1) show ?thesis by blast
qed

theorem event_streams_silent_witness:
  "stream_events (\<lambda>m. Inr ''m'') \<lparr>st_first = ''connected'', st_session = ''a'', st_from = 0\<rparr>
     (snd (handle_sse_get (Some ''a'') [] (HttpSseServerState_new ready_client)))
   = [(Some ''connected'', session_json ''a'')]"
proof -
  have "sse_reach plain_http (proxy_env (logged echo_ops))
      (snd (handle_sse_get (Some ''a'') [] (HttpSseServerState_new ready_client)))"
    by (rule sse_reach.subscribe [OF sse_reach.start prod.collapse [symmetric]])
  from event_streams_silent [OF this] show ?thesis by simp
qed

definition sample_query_ext :: "proxy_interceptor query_ext" where
  "sample_query_ext = \<lparr>qx_show_json = (\<lambda>_. ''json''), qx_lower = id, qx_debug = id, qx_set_mode = (\<lambda>_ i. i)\<rparr>"

definition sample_http_handler :: "(unit \<times> JsonRpcRequest list, proxy_interceptor) HttpHandler" where
  "sample_http_handler = \<lparr>hh_proxy_id = ''p'', hh_ipc = Some [], hh_session_id = ''s'', hh_has_llm = False,
     hh_routing_mode = BypassMode, hh_tools = None, hh_client = ready_client\<rparr>"

definition structured_job :: TuiQueryJob where
  "structured_job = \<lparr>tj_correlation_id = ''q'', tj_query = ''tools/call'', tj_mcp_method = Some ''tools/call'',
     tj_mcp_params = Some (Object [(''arguments'', Object [(''path'', String ''/tmp'')]), (''name'', String ''ls'')])\<rparr>"

lemma sample_query_runs:
  "\<exists>r h'. http_tui_query sample_query_ext (proxy_env (logged echo_ops)) proxy_icall
     (\<lambda>_ _. (proxy_icall, proxy_icall)) 0 0 structured_job sample_http_handler = Done (r, h')"
  by (simp add: http_tui_query_def http_query_request_def structured_job_def sample_http_handler_def
      server_intercept_def process_message_with_metadata_def initial_loop_def final_result_def
      pass_through_def final_request_def value_get_def obj_get_def as_str_def params_or_empty_def
      ask_upstream_def send_request_eq retry_loop.simps send_single_request_def intercept_def
      logged_def echo_ops_def is_ready_def ready_client_def McpClient_new_def manager_new_def
      ClientConfig_default_def Let_def)

theorem query_arguments_replaced_witness:
  "\<exists>r h' n. http_tui_query sample_query_ext (proxy_env (logged echo_ops)) proxy_icall
     (\<lambda>_ _. (proxy_icall, proxy_icall)) 0 0 structured_job sample_http_handler = Done (r, h') \<and>
   snd (cl_transport (hh_client h')) =
     replicate (Suc n) (upstream_request 1 ''tools/call'' (tool_input ''ls'' ''tools/call''))"
proof -
  obtain r h' where q: "http_tui_query sample_query_ext (proxy_env (logged echo_ops)) proxy_icall
     (\<lambda>_ _. (proxy_icall, proxy_icall)) 0 0 structured_job sample_http_handler = Done (r, h')"
    using sample_query_runs by blast
  have j: "tj_mcp_method structured_job = Some ''tools/call''" "''tools/call'' \<noteq> ''tools/list''"
    "tj_mcp_params structured_job = Some (Object [(''arguments'', Object [(''path'', String ''/tmp'')]), (''name'', String ''ls'')])"
    "Option.bind (value_get (Object [(''arguments'', Object [(''path'', String ''/tmp'')]), (''name'', String ''ls'')]) ''name'') as_str
      = Some ''ls''"
    by (simp_all add: structured_job_def value_get_def obj_get_def as_str_def)
  have h: "is_ready (hh_client sample_http_handler)"
    "interceptors (interceptor_manager (hh_client sample_http_handler)) = []"
    "cl_transport (hh_client sample_http_handler) = ((), [])"
    by (simp_all add: sample_http_handler_def)
  from query_arguments_replaced [OF j h(1,2) proxy_env_sel(2) h(3) q] q show ?thesis
    by (auto simp: sample_http_handler_def structured_job_def)
qed

end
