(* ===== verification/Stdio_Transport.thy ===== *)
theory Stdio_Transport
  imports Http_Stream
begin

text \<open>
  The stdio transport (\<open>acdp-core/src/transport/stdio.rs\<close>): a child process, the task that
  reads its standard output and correlates responses with pending requests, the task that
  writes queued messages to its standard input, and the operations of the trait. The tasks run
  whenever the transport looks (\<open>run_tasks\<close>): the environment decides how many queued
  messages the writer handles and what the reader reads until then. One child is modelled at a
  time; the task that logs standard error is left out, and the streams of a spawned child are
  there since they are piped.
\<close>

section \<open>Data\<close>

datatype read = Line string | Eof | ReadError

text \<open>\<open>sd_pending\<close> maps an identifier to whether its requester still waits;
  \<open>sd_inbound\<close> and \<open>sd_outbound\<close> are the two channels, \<open>sd_reader\<close> and
  \<open>sd_writer\<close> tell whether the tasks run.\<close>

record StdioTransport =
  sd_config :: TransportConfig
  sd_info :: TransportInfo
  sd_child :: "nat option"
  sd_sender :: bool
  sd_inbound :: "JsonRpcMessage list option"
  sd_outbound :: "JsonRpcMessage list option"
  sd_reader :: bool
  sd_writer :: bool
  sd_pending :: "string \<rightharpoonup> bool"

record 'w child_env =
  sd_spawn :: "StdioConfig \<Rightarrow> 'w \<Rightarrow> (string + nat) \<times> 'w"
  sd_kill :: "nat \<Rightarrow> 'w \<Rightarrow> 'w"
  sd_drained :: "'w \<Rightarrow> nat \<times> 'w"
  sd_write :: "string \<Rightarrow> 'w \<Rightarrow> bool \<times> 'w"
  sd_reads :: "'w \<Rightarrow> read list \<times> 'w"
  sd_clock :: "'w \<Rightarrow> datetime"
  sd_parse :: "string \<Rightarrow> JsonRpcMessage option"
  sd_to_string :: "JsonRpcMessage \<Rightarrow> string + string"
  sd_env_len :: "(string \<rightharpoonup> string) \<Rightarrow> nat"
  sd_debug :: debug_fmt

definition StdioTransport_new :: "TransportConfig \<Rightarrow> StdioTransport" where
  "StdioTransport_new config = \<lparr>sd_config = config, sd_info = TransportInfo_new ''stdio'',
     sd_child = None, sd_sender = False, sd_inbound = None, sd_outbound = None,
     sd_reader = False, sd_writer = False, sd_pending = Map.empty\<rparr>"

section \<open>The tasks\<close>

text \<open>Sending to the inbound channel fails when its receiver is gone, which ends the reader.\<close>

definition push_inbound :: "JsonRpcMessage \<Rightarrow> StdioTransport \<Rightarrow> StdioTransport" where
  "push_inbound m t = (case sd_inbound t of
     Some q \<Rightarrow> t\<lparr>sd_inbound := Some (q @ [m])\<rparr>
   | None \<Rightarrow> t\<lparr>sd_reader := False\<rparr>)"

text \<open>One round of the reader, with the response delivered to the waiting request.\<close>

definition reader_line ::
  "'w child_env \<Rightarrow> string \<Rightarrow> StdioTransport \<Rightarrow> StdioTransport \<times> JsonRpcResponse option" where
  "reader_line E line t =
     (let trimmed = trim line in
      if trimmed = [] then (t, None)
      else case sd_parse E trimmed of
             None \<Rightarrow> (t, None)
           | Some (Response response) \<Rightarrow>
               (case sd_pending t (request_id_display (resp_id response)) of
                  Some waiting \<Rightarrow>
                    (t\<lparr>sd_pending := (sd_pending t)(request_id_display (resp_id response) := None)\<rparr>,
                     if waiting then Some response else None)
                | None \<Rightarrow> (push_inbound (Response response) t, None))
           | Some message \<Rightarrow> (push_inbound message t, None))"

fun run_reader ::
  "'w child_env \<Rightarrow> read list \<Rightarrow> StdioTransport \<Rightarrow> StdioTransport \<times> JsonRpcResponse list" where
  "run_reader E [] t = (t, [])"
| "run_reader E (r # rs) t =
     (if \<not> sd_reader t then (t, [])
      else case r of
             Line line \<Rightarrow>
               (case reader_line E line t of
                  (t, delivered) \<Rightarrow>
                    (case run_reader E rs t of
                       (t, ds) \<Rightarrow> (t, (case delivered of Some d \<Rightarrow> d # ds | None \<Rightarrow> ds))))
           | _ \<Rightarrow> (t\<lparr>sd_reader := False\<rparr>, []))"

text \<open>The writer handles \<open>n\<close> of the queued messages.\<close>

fun run_writer :: "'w child_env \<Rightarrow> nat \<Rightarrow> StdioTransport \<times> 'w \<Rightarrow> StdioTransport \<times> 'w" where
  "run_writer E 0 s = s"
| "run_writer E (Suc n) (t, w) =
     (if \<not> sd_writer t then (t, w)
      else case sd_outbound t of
             Some (m # ms) \<Rightarrow>
               let t = t\<lparr>sd_outbound := Some ms\<rparr>
               in (case sd_to_string E m of
                     Inr json_line \<Rightarrow>
                       (case sd_write E (json_line @ [CHR 0x0A]) w of
                          (True, w) \<Rightarrow> run_writer E n (t, w)
                        | (False, w) \<Rightarrow> (t\<lparr>sd_writer := False\<rparr>, w))
                   | Inl e \<Rightarrow> run_writer E n (t, w))
           | _ \<Rightarrow> (t, w))"

definition run_tasks ::
  "'w child_env \<Rightarrow> StdioTransport \<times> 'w \<Rightarrow> JsonRpcResponse list \<times> StdioTransport \<times> 'w" where
  "run_tasks E s =
     (let (n, w) = sd_drained E (snd s);
          (t, w) = run_writer E n (fst s, w);
          (rs, w) = sd_reads E w;
          (t, ds) = run_reader E rs t
      in (ds, t, w))"

section \<open>The trait\<close>

definition spawn_process :: "'w child_env \<Rightarrow> StdioTransport \<times> 'w \<Rightarrow> unit mcp_result \<times> StdioTransport \<times> 'w" where
  "spawn_process E = (\<lambda>(t, w).
     case sd_config t of
       Stdio c \<Rightarrow>
         (case sd_spawn E c w of
            (Inl e, w) \<Rightarrow> (Inl (Transport (ConnectionError ''stdio'' (''Failed to spawn process: '' @ e))), t, w)
          | (Inr pid, w) \<Rightarrow>
              (Inr (), t\<lparr>sd_sender := True, sd_inbound := Some [], sd_outbound := Some [],
                          sd_reader := True, sd_writer := True, sd_child := Some pid\<rparr>, w))
     | _ \<Rightarrow> (Inl (Transport (InvalidConfig ''stdio'' ''Invalid configuration type'')), t, w))"

definition kill_process :: "'w child_env \<Rightarrow> StdioTransport \<times> 'w \<Rightarrow> StdioTransport \<times> 'w" where
  "kill_process E = (\<lambda>(t, w). case sd_child t of
     Some pid \<Rightarrow> (t\<lparr>sd_child := None\<rparr>, sd_kill E pid w)
   | None \<Rightarrow> (t, w))"

definition sd_connect :: "'w child_env \<Rightarrow> StdioTransport \<times> 'w \<Rightarrow> unit mcp_result \<times> StdioTransport \<times> 'w" where
  "sd_connect E s = (case spawn_process E s of
     (Inl e, s) \<Rightarrow> (Inl e, s)
   | (Inr _, t, w) \<Rightarrow> (Inr (), t\<lparr>sd_info := mark_connected (sd_clock E w) (sd_info t)\<rparr>, w))"

text \<open>Closing the outbound channel ends the writer once it has drained the queue; its messages
  are no longer observed.\<close>

definition sd_disconnect :: "'w child_env \<Rightarrow> StdioTransport \<times> 'w \<Rightarrow> unit mcp_result \<times> StdioTransport \<times> 'w" where
  "sd_disconnect E = (\<lambda>(t, w).
     let t = t\<lparr>sd_sender := False, sd_inbound := None, sd_outbound := None\<rparr>;
         (t, w) = kill_process E (t, w);
         t = t\<lparr>sd_pending := Map.empty\<rparr>
     in (Inr (), t\<lparr>sd_info := mark_disconnected (sd_info t)\<rparr>, w))"

definition sd_is_connected :: "StdioTransport \<Rightarrow> bool" where
  "sd_is_connected t \<longleftrightarrow> info_connected (sd_info t) \<and> sd_child t \<noteq> None \<and> sd_sender t \<and> sd_outbound t \<noteq> None"

definition sd_not_connected :: McpError where
  "sd_not_connected = Transport (NotConnected ''stdio'' ''Transport not connected'')"

text \<open>\<open>outbound_sender.send\<close> fails when the writer is gone.\<close>

definition send_outbound :: "JsonRpcMessage \<Rightarrow> StdioTransport \<Rightarrow> StdioTransport option" where
  "send_outbound m t = (case sd_outbound t of
     Some q \<Rightarrow> if sd_writer t then Some (t\<lparr>sd_outbound := Some (q @ [m])\<rparr>) else None
   | None \<Rightarrow> Some t)"

text \<open>A request waits while the tasks run; a requester that gave up no longer waits, but its
  entry stays.\<close>

definition sd_send_request ::
  "'w child_env \<Rightarrow> JsonRpcRequest \<Rightarrow> duration option \<Rightarrow> StdioTransport \<times> 'w
     \<Rightarrow> JsonRpcResponse mcp_result \<times> StdioTransport \<times> 'w" where
  "sd_send_request E request timeout_duration = (\<lambda>(t, w).
     if \<not> sd_is_connected t then (Inl sd_not_connected, t, w)
     else
       let request_id = request_id_display (req_id request);
           (ds, t, w) = run_tasks E (t, w);
           t = t\<lparr>sd_pending := (sd_pending t)(request_id \<mapsto> True)\<rparr>
       in case send_outbound (Request request) t of
            None \<Rightarrow> (Inl (Transport (ProcessError ''Failed to send request to child process'')),
                      t\<lparr>sd_pending := (sd_pending t)(request_id \<mapsto> False)\<rparr>, w)
          | Some t \<Rightarrow>
              let t = t\<lparr>sd_info := increment_requests_sent (sd_info t)\<rparr>;
                  timeout_duration = (case timeout_duration of Some d \<Rightarrow> d | None \<Rightarrow> secs 30);
                  (ds, t, w) = run_tasks E (t, w)
              in case ds of
                   response # _ \<Rightarrow>
                     (Inr response, t\<lparr>sd_info := increment_responses_received (sd_info t)\<rparr>, w)
                 | [] \<Rightarrow>
                     (Inl (Transport (TimeoutError ''stdio'' (''Request '' @ request_id
                        @ '' timed out after '' @ debug_duration (sd_debug E) timeout_duration))),
                      t\<lparr>sd_pending := (sd_pending t)(request_id \<mapsto> False)\<rparr>, w))"

definition sd_send_notification ::
  "'w child_env \<Rightarrow> JsonRpcNotification \<Rightarrow> StdioTransport \<times> 'w \<Rightarrow> unit mcp_result \<times> StdioTransport \<times> 'w" where
  "sd_send_notification E notification = (\<lambda>(t, w).
     if \<not> sd_is_connected t then (Inl sd_not_connected, t, w)
     else
       let (ds, t, w) = run_tasks E (t, w)
       in case send_outbound (Notification notification) t of
            None \<Rightarrow> (Inl (Transport (ProcessError ''Failed to send notification to child process'')), t, w)
          | Some t \<Rightarrow> (Inr (), t\<lparr>sd_info := increment_notifications_sent (sd_info t)\<rparr>, w))"

text \<open>A message is received when one is queued; the channel is closed once the reader and the
  transport's own sender are gone, which happens only on disconnection. With no message
  and no timeout the call does not return, which \<open>None\<close> stands for.\<close>

definition sd_receive_message ::
  "'w child_env \<Rightarrow> duration option \<Rightarrow> StdioTransport \<times> 'w
     \<Rightarrow> (JsonRpcMessage mcp_result \<times> StdioTransport \<times> 'w) option" where
  "sd_receive_message E timeout_duration = (\<lambda>(t, w).
     if \<not> sd_is_connected t then Some (Inl sd_not_connected, t, w)
     else
       let (ds, t, w) = run_tasks E (t, w)
       in case sd_inbound t of
            None \<Rightarrow> Some (Inl (Transport (NotConnected ''stdio'' ''Message receiver not available'')), t, w)
          | Some (message # q) \<Rightarrow>
              let t = t\<lparr>sd_inbound := Some q\<rparr>
              in Some (Inr message,
                   (case message of
                      Notification _ \<Rightarrow> t\<lparr>sd_info := increment_notifications_received (sd_info t)\<rparr>
                    | _ \<Rightarrow> t), w)
          | Some [] \<Rightarrow>
              (case timeout_duration of
                 Some d \<Rightarrow> Some (Inl (Transport (TimeoutError ''stdio''
                   (''Message receive timed out after '' @ debug_duration (sd_debug E) d))), t, w)
               | None \<Rightarrow> None))"

definition opt_string_json :: "string option \<Rightarrow> json" where
  "opt_string_json v = (case v of Some s \<Rightarrow> String s | None \<Rightarrow> Null)"

definition sd_get_info :: "'w child_env \<Rightarrow> StdioTransport \<Rightarrow> TransportInfo" where
  "sd_get_info E t =
     (let info = sd_info t;
          info = (case sd_config t of
            Stdio c \<Rightarrow>
              let info = add_metadata ''command'' (String (command c)) info;
                  info = add_metadata ''args'' (Array (map String (args c))) info;
                  info = add_metadata ''working_dir'' (opt_string_json (working_dir c)) info;
                  info = add_metadata ''timeout'' (Number (PosInt (of_nat (as_secs (stdio_timeout c))))) info
              in add_metadata ''environment_vars'' (Number (PosInt (of_nat (sd_env_len E (environment c))))) info
          | _ \<Rightarrow> info);
          info = add_metadata ''has_process'' (Bool (sd_child t \<noteq> None)) info
      in case sd_child t of
           Some pid \<Rightarrow> add_metadata ''process_id'' (Number (PosInt (of_nat pid))) info
         | None \<Rightarrow> info)"

definition stdio_ops :: "'w child_env \<Rightarrow> (StdioTransport \<times> 'w) transport_ops" where
  "stdio_ops E =
     \<lparr>t_connect = sd_connect E, t_disconnect = sd_disconnect E, t_is_connected = sd_is_connected \<circ> fst,
      t_send_request = sd_send_request E, t_send_notification = sd_send_notification E,
      t_receive_message = sd_receive_message E, t_get_info = sd_get_info E \<circ> fst,
      t_get_config = sd_config \<circ> fst\<rparr>"

section \<open>What the tasks keep\<close>

definition sd_static :: "StdioTransport \<Rightarrow> TransportConfig \<times> TransportInfo \<times> nat option \<times> bool \<times> bool \<times> bool" where
  "sd_static t = (sd_config t, sd_info t, sd_child t, sd_sender t, sd_inbound t = None, sd_outbound t = None)"

lemma push_inbound_keeps [simp]:
  "sd_static (push_inbound m t) = sd_static t" "sd_pending (push_inbound m t) = sd_pending t"
  "sd_outbound (push_inbound m t) = sd_outbound t" "sd_writer (push_inbound m t) = sd_writer t"
  by (simp_all add: push_inbound_def sd_static_def split: option.splits)

lemma reader_line_keeps:
  assumes "reader_line E line t = (t', delivered)"
  shows "sd_static t' = sd_static t \<and> sd_writer t' = sd_writer t \<and> sd_outbound t' = sd_outbound t
    \<and> (case delivered of
         None \<Rightarrow> \<forall>i. sd_pending t' i = Some True \<longleftrightarrow> sd_pending t i = Some True
       | Some r \<Rightarrow> sd_pending t (request_id_display (resp_id r)) = Some True
           \<and> sd_pending t' = (sd_pending t)(request_id_display (resp_id r) := None))"
  using assms
  by (auto simp: reader_line_def Let_def sd_static_def fun_upd_apply push_inbound_def
      split: if_splits option.splits JsonRpcMessage.splits)

text \<open>Deliveries go to waiting requests, one each.\<close>

lemma run_reader_keeps:
  "run_reader E rs t = (t', ds) \<Longrightarrow>
   sd_static t' = sd_static t \<and> sd_writer t' = sd_writer t \<and> sd_outbound t' = sd_outbound t
   \<and> (\<forall>i. sd_pending t' i = Some True \<longleftrightarrow>
        sd_pending t i = Some True \<and> i \<notin> set (map (request_id_display \<circ> resp_id) ds))
   \<and> (\<forall>i\<in>set (map (request_id_display \<circ> resp_id) ds). sd_pending t i = Some True)"
proof (induction E rs t arbitrary: t' ds rule: run_reader.induct)
  case (2 E r rs t)
  show ?case
  proof (cases "\<exists>line. sd_reader t \<and> r = Line line")
    case True
    then obtain line t1 d where r: "sd_reader t" "r = Line line" and l: "reader_line E line t = (t1, d)"
      by (metis surj_pair)
    obtain ds1 where rest: "run_reader E rs t1 = (t', ds1)"
      and ds: "ds = (case d of Some x \<Rightarrow> x # ds1 | None \<Rightarrow> ds1)"
      using 2(2) r l by (auto split: prod.splits)
    from 2(1) [OF _ r(2) l [symmetric] rest] r(1) reader_line_keeps [OF l] ds show ?thesis
      by (cases d) (auto split: if_splits)
  next
    case False
    with 2(2) show ?thesis by (auto simp: sd_static_def split: read.splits if_splits)
  qed
qed auto

lemma run_writer_keeps:
  "run_writer E n (t, w) = (t', w') \<Longrightarrow>
   sd_static t' = sd_static t \<and> sd_pending t' = sd_pending t \<and> sd_reader t' = sd_reader t
   \<and> sd_inbound t' = sd_inbound t"
proof (induction n arbitrary: t w)
  case (Suc n)
  then show ?case
    by (fastforce simp: sd_static_def Let_def
        split: if_splits option.splits list.splits sum.splits prod.splits bool.splits)
qed simp

lemma run_tasks_keeps:
  assumes "run_tasks E (t, w) = (ds, t', w')"
  shows "sd_static t' = sd_static t
    \<and> (\<forall>i. sd_pending t' i = Some True \<longleftrightarrow>
         sd_pending t i = Some True \<and> i \<notin> set (map (request_id_display \<circ> resp_id) ds))
    \<and> (\<forall>i\<in>set (map (request_id_display \<circ> resp_id) ds). sd_pending t i = Some True)"
proof -
  obtain n w1 t1 w2 rs w3 where "sd_drained E w = (n, w1)"
    and wr: "run_writer E n (t, w1) = (t1, w2)" and "sd_reads E w2 = (rs, w3)"
    by (metis surj_pair)
  moreover with assms have rd: "run_reader E rs t1 = (t', ds)"
    by (auto simp: run_tasks_def split: prod.splits)
  ultimately show ?thesis using run_writer_keeps [OF wr] run_reader_keeps [OF rd] by simp
qed

lemma run_reader_stopped: "\<not> sd_reader t \<Longrightarrow> run_reader E rs t = (t, [])"
  by (cases rs) auto

lemma run_tasks_stopped:
  assumes "run_tasks E (t, w) = (ds, t', w')" and "\<not> sd_reader t"
  shows "ds = [] \<and> \<not> sd_reader t' \<and> sd_inbound t' = sd_inbound t"
proof -
  obtain n w1 t1 w2 rs w3 where "sd_drained E w = (n, w1)"
    and wr: "run_writer E n (t, w1) = (t1, w2)" and "sd_reads E w2 = (rs, w3)"
    by (metis surj_pair)
  with assms run_writer_keeps [OF wr] show ?thesis
    by (auto simp: run_tasks_def run_reader_stopped split: prod.splits)
qed

lemma send_outbound_keeps:
  "send_outbound m t = Some t' \<Longrightarrow> sd_static t' = sd_static t \<and> sd_pending t' = sd_pending t
     \<and> sd_reader t' = sd_reader t"
  by (auto simp: send_outbound_def sd_static_def split: option.splits if_splits)

lemma sd_connected_static:
  "sd_static t' = sd_static t \<Longrightarrow> sd_is_connected t' = sd_is_connected t"
  by (simp add: sd_static_def sd_is_connected_def)

section \<open>Requests\<close>

definition no_waiter :: "StdioTransport \<Rightarrow> bool" where
  "no_waiter t \<longleftrightarrow> (\<forall>i. sd_pending t i \<noteq> Some True)"

text \<open>A request runs the tasks twice, around the hand-over to the writer.\<close>

lemma sd_send_requestE:
  assumes "sd_send_request E rq d (t, w) = (res, t', w')" and "sd_is_connected t"
  obtains ds1 t1 w1 where "run_tasks E (t, w) = (ds1, t1, w1)"
    and "send_outbound (Request rq) (t1\<lparr>sd_pending := (sd_pending t1)(request_id_display (req_id rq) \<mapsto> True)\<rparr>) = None"
    and "\<exists>e. res = Inl (Transport (ProcessError e))"
    and "t' = t1\<lparr>sd_pending := (sd_pending t1)(request_id_display (req_id rq) \<mapsto> False)\<rparr>"
  | ds1 t1 w1 t2 ds t3 where "run_tasks E (t, w) = (ds1, t1, w1)"
    and "send_outbound (Request rq) (t1\<lparr>sd_pending := (sd_pending t1)(request_id_display (req_id rq) \<mapsto> True)\<rparr>) = Some t2"
    and "run_tasks E (t2\<lparr>sd_info := increment_requests_sent (sd_info t2)\<rparr>, w1) = (ds, t3, w')"
    and "ds = [] \<longrightarrow> (\<exists>e. res = Inl (Transport (TimeoutError ''stdio'' e)))
           \<and> t' = t3\<lparr>sd_pending := (sd_pending t3)(request_id_display (req_id rq) \<mapsto> False)\<rparr>"
    and "ds \<noteq> [] \<longrightarrow> res = Inr (hd ds) \<and> t' = t3\<lparr>sd_info := increment_responses_received (sd_info t3)\<rparr>"
proof -
  obtain ds1 t1 w1 where r1: "run_tasks E (t, w) = (ds1, t1, w1)" by (metis prod_cases3)
  let ?t = "t1\<lparr>sd_pending := (sd_pending t1)(request_id_display (req_id rq) \<mapsto> True)\<rparr>"
  show ?thesis
  proof (cases "send_outbound (Request rq) ?t")
    case None
    with assms r1 have "t' = t1\<lparr>sd_pending := (sd_pending t1)(request_id_display (req_id rq) \<mapsto> False)\<rparr>"
      "\<exists>e. res = Inl (Transport (ProcessError e))"
      by (auto simp: sd_send_request_def)
    with None r1 show ?thesis by (intro that(1))
  next
    case (Some t2)
    obtain ds t3 w3 where "run_tasks E (t2\<lparr>sd_info := increment_requests_sent (sd_info t2)\<rparr>, w1) = (ds, t3, w3)"
      by (metis prod_cases3)
    moreover from this Some assms r1
    have "ds = [] \<longrightarrow> (\<exists>e. res = Inl (Transport (TimeoutError ''stdio'' e)))
        \<and> t' = t3\<lparr>sd_pending := (sd_pending t3)(request_id_display (req_id rq) \<mapsto> False)\<rparr>"
      and "ds \<noteq> [] \<longrightarrow> res = Inr (hd ds) \<and> t' = t3\<lparr>sd_info := increment_responses_received (sd_info t3)\<rparr>"
      and "w3 = w'"
      by (auto simp: sd_send_request_def Let_def split: list.splits)
    ultimately show ?thesis using that(2) [OF r1 Some] by simp
  qed
qed

lemma sd_request_keeps:
  assumes "sd_send_request E rq d (t, w) = (res, t', w')"
  shows "sd_is_connected t' = sd_is_connected t \<and> (no_waiter t \<longrightarrow> no_waiter t')
    \<and> (\<forall>r. no_waiter t \<longrightarrow> res = Inr r \<longrightarrow> request_id_display (resp_id r) = request_id_display (req_id rq))"
proof (cases "sd_is_connected t")
  case False
  with assms show ?thesis by (auto simp: sd_send_request_def)
next
  case True
  let ?i = "request_id_display (req_id rq)"
  from assms True show ?thesis
  proof (cases rule: sd_send_requestE)
    case (1 ds1 t1 w1)
    from run_tasks_keeps [OF 1(1)] 1(3,4) show ?thesis
      by (auto simp: no_waiter_def sd_static_def sd_is_connected_def)
  next
    case (2 ds1 t1 w1 t2 ds t3)
    have static: "sd_child t3 = sd_child t" "sd_sender t3 = sd_sender t"
      "(sd_outbound t3 = None) = (sd_outbound t = None)" "info_connected (sd_info t3) = info_connected (sd_info t)"
      using run_tasks_keeps [OF 2(1)] send_outbound_keeps [OF 2(2)] run_tasks_keeps [OF 2(3)]
      by (auto simp: sd_static_def info_ops)
    have waiters: "i = ?i \<and> (?i \<in> set (map (request_id_display \<circ> resp_id) ds) \<longrightarrow> sd_pending t3 i \<noteq> Some True)"
      if "no_waiter t" and "sd_pending t3 i = Some True \<or> i \<in> set (map (request_id_display \<circ> resp_id) ds)" for i
      using that run_tasks_keeps [OF 2(1)] send_outbound_keeps [OF 2(2)] run_tasks_keeps [OF 2(3)]
      by (auto simp: no_waiter_def fun_upd_apply split: if_splits)
    show ?thesis
    proof (cases ds)
      case Nil
      with 2(4) static waiters show ?thesis by (auto simp: no_waiter_def sd_is_connected_def fun_upd_apply)
    next
      case (Cons r rs)
      have "request_id_display (resp_id r) = ?i \<and> no_waiter t3" if "no_waiter t"
      proof -
        from waiters [OF that, of "request_id_display (resp_id r)"] Cons
        have r: "request_id_display (resp_id r) = ?i" by simp
        have "sd_pending t3 i \<noteq> Some True" for i
          using waiters [OF that, of i] Cons r by auto
        with r show ?thesis by (simp add: no_waiter_def)
      qed
      with Cons 2(5) static show ?thesis by (auto simp: no_waiter_def sd_is_connected_def info_ops)
    qed
  qed
qed

lemma sd_notification_keeps:
  assumes "sd_send_notification E n (t, w) = (res, t', w')"
  shows "sd_is_connected t' = sd_is_connected t \<and> (no_waiter t \<longrightarrow> no_waiter t')"
proof (cases "sd_is_connected t")
  case True
  obtain ds t1 w1 where r: "run_tasks E (t, w) = (ds, t1, w1)" by (metis prod_cases3)
  with assms True run_tasks_keeps [OF r] show ?thesis
    by (auto simp: sd_send_notification_def no_waiter_def sd_is_connected_def sd_static_def info_ops
        dest!: send_outbound_keeps split: option.splits)
qed (use assms in \<open>simp add: sd_send_notification_def\<close>)

lemma sd_receive_keeps:
  assumes "sd_receive_message E d (t, w) = Some (res, t', w')"
  shows "sd_is_connected t' = sd_is_connected t \<and> (no_waiter t \<longrightarrow> no_waiter t')"
proof (cases "sd_is_connected t")
  case True
  obtain ds t1 w1 where r: "run_tasks E (t, w) = (ds, t1, w1)" by (metis prod_cases3)
  with assms True run_tasks_keeps [OF r] show ?thesis
    by (auto simp: sd_receive_message_def no_waiter_def sd_is_connected_def sd_static_def info_ops Let_def
        split: option.splits list.splits JsonRpcMessage.splits)
qed (use assms in \<open>auto simp: sd_receive_message_def\<close>)

interpretation stdio: transport_contract "stdio_ops E"
proof
  fix t t' :: "StdioTransport \<times> 'a"
  show "t_connect (stdio_ops E) t = (Inr (), t') \<Longrightarrow> t_is_connected (stdio_ops E) t'"
    by (auto simp: stdio_ops_def sd_connect_def spawn_process_def sd_is_connected_def info_ops
        split: prod.splits sum.splits TransportConfig.splits)
  show "t_disconnect (stdio_ops E) t = (Inr (), t') \<Longrightarrow> \<not> t_is_connected (stdio_ops E) t'"
    by (auto simp: stdio_ops_def sd_disconnect_def sd_is_connected_def info_ops split: prod.splits)
next
  fix t rq d n assume "\<not> t_is_connected (stdio_ops E) t"
  then show "\<exists>k r. t_send_request (stdio_ops E) rq d t = (Inl (Transport (NotConnected k r)), t)"
    and "\<exists>k r. t_send_notification (stdio_ops E) n t = (Inl (Transport (NotConnected k r)), t)"
    by (auto simp: stdio_ops_def sd_send_request_def sd_send_notification_def
        sd_not_connected_def split: prod.splits)
next
  fix t rq d res t'
  assume "t_send_request (stdio_ops E) rq d t = (res, t')"
  then show "t_is_connected (stdio_ops E) t' = t_is_connected (stdio_ops E) t"
    by (cases t; cases t') (auto simp: stdio_ops_def dest: sd_request_keeps)
next
  fix t n res t'
  assume "t_send_notification (stdio_ops E) n t = (res, t')"
  then show "t_is_connected (stdio_ops E) t' = t_is_connected (stdio_ops E) t"
    by (cases t; cases t') (auto simp: stdio_ops_def dest: sd_notification_keeps)
qed

section \<open>Reachable transports\<close>

inductive stdio_reach :: "'w child_env \<Rightarrow> StdioTransport \<times> 'w \<Rightarrow> bool" for E where
  sd_new: "stdio_reach E (StdioTransport_new config, w)"
| sd_connect: "stdio_reach E s \<Longrightarrow> sd_connect E s = (r, s') \<Longrightarrow> stdio_reach E s'"
| sd_disconnect: "stdio_reach E s \<Longrightarrow> sd_disconnect E s = (r, s') \<Longrightarrow> stdio_reach E s'"
| sd_request: "stdio_reach E s \<Longrightarrow> sd_send_request E rq d s = (r', s') \<Longrightarrow> stdio_reach E s'"
| sd_notification: "stdio_reach E s \<Longrightarrow> sd_send_notification E n s = (r, s') \<Longrightarrow> stdio_reach E s'"
| sd_receive: "stdio_reach E s \<Longrightarrow> sd_receive_message E d s = Some (r'', s') \<Longrightarrow> stdio_reach E s'"

lemma stdio_reach_no_waiter: "stdio_reach E s \<Longrightarrow> no_waiter (fst s)"
proof (induction rule: stdio_reach.induct)
  case (sd_connect s r s')
  then show ?case
    by (auto simp: sd_connect_def spawn_process_def no_waiter_def
        split: prod.splits sum.splits TransportConfig.splits)
next
  case (sd_disconnect s r s')
  then show ?case by (auto simp: sd_disconnect_def no_waiter_def split: prod.splits)
next
  case (sd_request s rq d r s')
  then show ?case using sd_request_keeps [of E rq d "fst s" "snd s" r "fst s'" "snd s'"] by simp
next
  case (sd_notification s n r s')
  then show ?case using sd_notification_keeps [of E n "fst s" "snd s" r "fst s'" "snd s'"] by simp
next
  case (sd_receive s d r s')
  then show ?case using sd_receive_keeps [of E d "fst s" "snd s" r "fst s'" "snd s'"] by simp
qed (simp add: no_waiter_def StdioTransport_new_def)

text \<open>C30 (correlation). Over any history of the transport, whatever the child prints and whenever
  the tasks run, a request that succeeds returns a response that carries its own identifier:
  late answers to requests that timed out and messages in between never satisfy it.\<close>

theorem stdio_correlation:
  assumes "stdio_reach E (t, w)" and "sd_send_request E rq d (t, w) = (Inr r, t', w')"
  shows "request_id_display (resp_id r) = request_id_display (req_id rq)"
  using stdio_reach_no_waiter [OF assms(1)] sd_request_keeps [OF assms(2)] by simp

text \<open>A dead child goes unnoticed. After the end of the child's output the transport still
  counts as connected: requests fail only by timeout, or once a write has failed; and with an
  empty queue receiving without a timeout never returns, since the transport keeps a
  sender of its own channel.\<close>

theorem stdio_dead_child:
  assumes "sd_is_connected t" and "\<not> sd_reader t"
    and "sd_send_request E rq d (t, w) = (res, t', w')"
  shows "sd_is_connected t'
    \<and> (\<exists>e. res = Inl (Transport (TimeoutError ''stdio'' e)) \<or> res = Inl (Transport (ProcessError e)))
    \<and> (sd_inbound t = Some [] \<longrightarrow> sd_receive_message E None (t, w) = None)"
proof -
  have "\<exists>e. res = Inl (Transport (TimeoutError ''stdio'' e)) \<or> res = Inl (Transport (ProcessError e))"
    using assms(3,1)
  proof (cases rule: sd_send_requestE)
    case (2 ds1 t1 w1 t2 ds t3)
    have "\<not> sd_reader t2"
      using run_tasks_stopped [OF 2(1) assms(2)] send_outbound_keeps [OF 2(2)] by simp
    then have "ds = []" using run_tasks_stopped [OF 2(3)] by simp
    with 2(4) show ?thesis by blast
  qed blast
  moreover have "sd_receive_message E None (t, w) = None" if "sd_inbound t = Some []"
  proof -
    obtain ds t1 w1 where r: "run_tasks E (t, w) = (ds, t1, w1)" by (metis prod_cases3)
    from run_tasks_stopped [OF r assms(2)] that r assms(1) show ?thesis
      by (simp add: sd_receive_message_def)
  qed
  ultimately show ?thesis using sd_request_keeps [OF assms(3)] assms(1) by simp
qed

section \<open>Example\<close>

definition sample_sd_answer :: "int \<Rightarrow> JsonRpcResponse" where
  "sample_sd_answer i = \<lparr>resp_jsonrpc = ''2.0'', resp_id = IdNumber i, resp_result = Some Null, resp_error = None\<rparr>"

text \<open>A child that answers the request with number 1 after an answer nobody asked for.\<close>

definition sample_stdio :: "unit child_env" where
  "sample_stdio = \<lparr>sd_spawn = (\<lambda>c w. (Inr 42, w)), sd_kill = (\<lambda>p w. w), sd_drained = (\<lambda>w. (1, w)),
     sd_write = (\<lambda>s w. (True, w)), sd_reads = (\<lambda>w. ([Line ''7'', Line '' 1 ''], w)), sd_clock = (\<lambda>w. 0),
     sd_parse = (\<lambda>s. if s = ''7'' then Some (Response (sample_sd_answer 7)) else Some (Response (sample_sd_answer 1))),
     sd_to_string = (\<lambda>m. Inr ''{}''), sd_env_len = (\<lambda>e. 0),
     sd_debug = \<lparr>debug_duration = (\<lambda>d. []), debug_strings = (\<lambda>ss. [])\<rparr>\<rparr>"

definition sample_stdio_connected :: StdioTransport where
  "sample_stdio_connected = fst (snd (sd_connect sample_stdio
     (StdioTransport_new (config_stdio ''server'' []), ())))"

lemma sample_stdio_reach: "stdio_reach sample_stdio (sample_stdio_connected, ())"
  using sd_connect [OF sd_new, of sample_stdio "config_stdio ''server'' []" "()"]
  unfolding sample_stdio_connected_def by (metis prod.collapse old.unit.exhaust)

lemmas sample_stdio_simps = sample_stdio_connected_def sd_connect_def spawn_process_def
  StdioTransport_new_def config_stdio_def sample_stdio_def sd_is_connected_def info_ops

lemma sample_trim: "trim ''7'' = ''7''" "trim '' 1 '' = ''1''" by code_simp+

lemma sample_ids: "show_int 7 = ''7''" "show_int 1 = ''1''"
  by code_simp+

theorem stdio_correlation_witness:
  "\<exists>t'. sd_send_request sample_stdio (request_without_params (IdNumber 1) ''tools/list'') None
       (sample_stdio_connected, ()) = (Inr (sample_sd_answer 1), t', ())
     \<and> request_id_display (resp_id (sample_sd_answer 1)) = ''1''"
proof -
  let ?rq = "request_without_params (IdNumber 1) ''tools/list''"
  have "\<exists>t'. sd_send_request sample_stdio ?rq None (sample_stdio_connected, ()) = (Inr (sample_sd_answer 1), t', ())"
    by (simp add: sd_send_request_def sample_stdio_simps run_tasks_def reader_line_def sample_trim
        sample_ids sample_sd_answer_def push_inbound_def Let_def send_outbound_def request_without_params_def)
  then obtain t' where t': "sd_send_request sample_stdio ?rq None (sample_stdio_connected, ())
      = (Inr (sample_sd_answer 1), t', ())" by blast
  from stdio_correlation [OF sample_stdio_reach this] have
    "request_id_display (resp_id (sample_sd_answer 1)) = ''1''"
    by (simp add: request_without_params_def sample_ids)
  with t' show ?thesis by blast
qed

theorem stdio_dead_child_witness:
  "sd_receive_message sample_stdio None (sample_stdio_connected\<lparr>sd_reader := False\<rparr>, ()) = None"
proof -
  let ?t = "sample_stdio_connected\<lparr>sd_reader := False\<rparr>"
  obtain res t' w' where r: "sd_send_request sample_stdio
      (request_without_params (IdNumber 1) ''tools/list'') None (?t, ()) = (res, t', w')"
    by (metis prod_cases3)
  have "sd_is_connected ?t" "\<not> sd_reader ?t" "sd_inbound ?t = Some []"
    by (simp_all add: sample_stdio_simps)
  with stdio_dead_child [OF _ _ r] show ?thesis by blast
qed

end
