(* ===== verification/Http_Sse.thy ===== *)
theory Http_Sse
  imports Http_Stream
begin

text \<open>
  The HTTP transport with server-sent events (\<open>acdp-core/src/transport/http_sse.rs\<close>): security
  checks of the URL and of session identifiers, protocol detection, the modern (header) and the
  legacy (query) session protocol, the task that turns events into messages, and the wait for
  the response to a request.

  The network is the state \<open>'w\<close>. A response carries the events its stream will deliver, so
  the receiver of a stream is the list of messages its task will forward; when a message becomes
  available relative to a deadline is decided by the environment (\<open>se_recv\<close>,
  \<open>se_polls\<close>), and \<open>se_sessions\<close> yields the data of the events its monitor
  received since the last look. Actions that run under the timeout of \<open>send_request\<close> have type \<open>act\<close>:
  they may be cut off at every wait (\<open>Elapsed\<close>). Not modelled: code marked as dead in the
  source, and the background monitor beyond what arrives on its two channels.
\<close>

section \<open>Actions\<close>

type_synonym ('s, 'a) act = "'s \<Rightarrow> 'a mcp_result timed \<times> 's"

definition ret :: "'a \<Rightarrow> ('s, 'a) act" where
  "ret a s = (Finished (Inr a), s)"

definition fail :: "McpError \<Rightarrow> ('s, 'a) act" where
  "fail e s = (Finished (Inl e), s)"

definition bind_act :: "('s, 'a) act \<Rightarrow> ('a \<Rightarrow> ('s, 'b) act) \<Rightarrow> ('s, 'b) act" where
  "bind_act m f s = (case m s of
     (Elapsed, s) \<Rightarrow> (Elapsed, s)
   | (Finished (Inl e), s) \<Rightarrow> (Finished (Inl e), s)
   | (Finished (Inr a), s) \<Rightarrow> f a s)"

definition modify :: "('s \<Rightarrow> 's) \<Rightarrow> ('s, unit) act" where
  "modify f s = (Finished (Inr ()), f s)"

text \<open>What the parts of an action preserve, the action preserves.\<close>

definition preserves :: "('s \<Rightarrow> bool) \<Rightarrow> ('s, 'a) act \<Rightarrow> bool" where
  "preserves P m \<longleftrightarrow> (\<forall>s. P s \<longrightarrow> P (snd (m s)))"

named_theorems preserves_rules

lemma preserves_ret [preserves_rules]: "preserves P (ret a)" "preserves P (fail e)"
  by (simp_all add: preserves_def ret_def fail_def)

lemma preserves_modify: "(\<And>s. P s \<Longrightarrow> P (f s)) \<Longrightarrow> preserves P (modify f)"
  by (simp add: preserves_def modify_def)

lemma preserves_bind [preserves_rules]:
  assumes "preserves P m" and "\<And>a. preserves P (f a)"
  shows "preserves P (bind_act m f)"
  unfolding preserves_def
proof (intro allI impI)
  fix s assume "P s"
  obtain r s1 where m: "m s = (r, s1)" by (metis surj_pair)
  with assms(1) \<open>P s\<close> have "P s1" by (metis preserves_def snd_conv)
  with assms(2) m show "P (snd (bind_act m f s))"
    by (auto simp: bind_act_def preserves_def split: timed.splits sum.splits)
qed

lemma preservesD: "preserves P m \<Longrightarrow> P s \<Longrightarrow> m s = (r, s') \<Longrightarrow> P s'"
  unfolding preserves_def by (metis snd_conv)

text \<open>An action that first looks at the state preserves what its variants preserve.\<close>

lemma preserves_look [preserves_rules]:
  "(\<And>t w. preserves P (bind_act (m t w) (f t w)))
   \<Longrightarrow> preserves P (\<lambda>(t, w). bind_act (m t w) (f t w) (t, w))"
  by (simp add: preserves_def)

lemma preserves_if [preserves_rules]:
  "preserves P m \<Longrightarrow> preserves P n \<Longrightarrow> preserves P (if c then m else n)"
  by simp

section \<open>Data\<close>

record SseItem =
  ev_id :: string
  ev_data :: string

datatype stream_item = Event SseItem | StreamError string

record sse_response =
  sr_status :: u16
  sr_headers :: "(string \<times> string) list"
  sr_body :: http_body
  sr_events :: "stream_item list"

datatype sse_outcome = SseSendError string | SseElapsed | SseResponded sse_response

datatype recv_time = InTime | RecvTimeout | DeadlineOver | OuterElapsed

datatype poll = PollMessage JsonRpcMessage | PollEmpty | PollDisconnected

datatype McpProtocolVersion = StreamableHttp | HttpSseProtocol | AutoDetect

record SessionManager =
  auto_discover :: bool
  discovery_endpoints :: "string list"
  monitored :: bool
  sm_protocol :: McpProtocolVersion

definition SessionManager_default :: SessionManager where
  "SessionManager_default = \<lparr>auto_discover = True,
     discovery_endpoints = [''/events'', ''/session'', ''/discover''], monitored = False,
     sm_protocol = AutoDetect\<rparr>"

record SecurityConfig =
  sec_validate_origin :: bool
  enforce_localhost :: bool
  require_https :: bool
  validate_session_ids :: bool
  allowed_origins :: "string list"

definition SecurityConfig_default :: SecurityConfig where
  "SecurityConfig_default = \<lparr>sec_validate_origin = True, enforce_localhost = True,
     require_https = False, validate_session_ids = True,
     allowed_origins = [''http://localhost'', ''https://localhost'']\<rparr>"

text \<open>\<open>hs_stream\<close> is the receiver of the current stream: the messages its task will forward.\<close>

record HttpSseTransport =
  hss_config :: TransportConfig
  hss_info :: TransportInfo
  hss_session_id :: "string option"
  hss_base_url :: url
  hss_stream :: "JsonRpcMessage list option"
  hss_last_event_id :: "string option"
  hss_security :: SecurityConfig
  hss_manager :: SessionManager

record 'w sse_env =
  se_exchange :: "http_request \<Rightarrow> 'w \<Rightarrow> sse_outcome \<times> 'w"
  se_call :: "http_request \<Rightarrow> 'w \<Rightarrow> (string + sse_response) \<times> 'w"
  se_clock :: "'w \<Rightarrow> datetime"
  se_message_json :: "JsonRpcMessage \<Rightarrow> string"
  se_response_of :: "string \<Rightarrow> string + JsonRpcResponse"
  se_message_of :: "string \<Rightarrow> JsonRpcMessage option"
  se_join :: "url \<Rightarrow> string \<Rightarrow> string + url"
  se_set_query :: "string \<Rightarrow> url \<Rightarrow> url"
  se_client_ok :: "(string \<rightharpoonup> string) \<Rightarrow> duration \<Rightarrow> string + unit"
  se_sessions :: "'w \<Rightarrow> string list \<times> 'w"
  se_sleep :: "'w \<Rightarrow> bool \<times> 'w"
  se_headers_json :: "(string \<rightharpoonup> string) \<Rightarrow> json"
  se_polls :: "'w \<Rightarrow> poll list \<times> bool \<times> 'w"
  se_recv :: "'w \<Rightarrow> recv_time \<times> 'w"
  se_debug :: debug_fmt

abbreviation sse_type :: string where
  "sse_type \<equiv> ''streamable-http''"

section \<open>Construction and security\<close>

text \<open>Custom headers are added to the client when they parse; building it may fail
  (\<open>se_client_ok\<close>, the \<open>reqwest\<close> builder).\<close>

definition build_http_client :: "'w sse_env \<Rightarrow> TransportConfig \<Rightarrow> url mcp_result" where
  "build_http_client E config = (case config of
     HttpSse c \<Rightarrow>
       and_then (map_err (\<lambda>e. Transport (InvalidConfig sse_type (''Failed to build HTTP client: '' @ e)))
                   (se_client_ok E (sse_headers c) (sse_timeout c))) (\<lambda>_. Inr (sse_base_url c))
   | _ \<Rightarrow> Inl (Transport (InvalidConfig sse_type ''Invalid configuration type'')))"

definition build_security_config :: "url \<Rightarrow> SecurityConfig mcp_result" where
  "build_security_config base_url =
     (let sc = SecurityConfig_default;
          sc = (if url_host base_url \<noteq> Some ''localhost'' \<and> url_host base_url \<noteq> Some ''127.0.0.1''
                then sc\<lparr>require_https := True\<rparr> else sc)
      in if require_https sc \<and> url_scheme base_url \<noteq> ''https''
         then Inl (Transport (InvalidConfig sse_type
                (''HTTPS required for non-localhost URL: '' @ url_text base_url)))
         else Inr sc)"

definition HttpSseTransport_new :: "'w sse_env \<Rightarrow> TransportConfig \<Rightarrow> HttpSseTransport mcp_result" where
  "HttpSseTransport_new E config =
     and_then (build_http_client E config) (\<lambda>base_url.
     and_then (build_security_config base_url) (\<lambda>security_config.
       Inr \<lparr>hss_config = config, hss_info = TransportInfo_new sse_type, hss_session_id = None,
            hss_base_url = base_url, hss_stream = None, hss_last_event_id = None,
            hss_security = security_config, hss_manager = SessionManager_default\<rparr>))"

text \<open>\<open>char::is_alphanumeric\<close> on ASCII; the header values that reach this check are ASCII.\<close>

definition is_alphanumeric :: "char \<Rightarrow> bool" where
  "is_alphanumeric c \<longleftrightarrow> (let n = (of_char c :: nat) in
     (48 \<le> n \<and> n \<le> 57) \<or> (65 \<le> n \<and> n \<le> 90) \<or> (97 \<le> n \<and> n \<le> 122))"

definition validate_session_id :: "HttpSseTransport \<Rightarrow> string \<Rightarrow> unit mcp_result" where
  "validate_session_id t session_id =
     (if \<not> validate_session_ids (hss_security t) then Inr ()
      else if length session_id < 16
      then Inl (Transport (InvalidConfig sse_type ''Session ID too short - security risk''))
      else if \<not> list_all (\<lambda>c. is_alphanumeric c \<or> c = CHR ''-'') session_id
      then Inl (Transport (InvalidConfig sse_type ''Session ID contains invalid characters''))
      else Inr ())"

definition detect_protocol_version :: "HttpSseTransport \<Rightarrow> McpProtocolVersion \<times> HttpSseTransport" where
  "detect_protocol_version t =
     (if sm_protocol (hss_manager t) \<noteq> AutoDetect then (sm_protocol (hss_manager t), t)
      else
        let p = (if url_path (hss_base_url t) = ''/sse'' then HttpSseProtocol else StreamableHttp)
        in (p, t\<lparr>hss_manager := (hss_manager t)\<lparr>sm_protocol := p\<rparr>\<rparr>))"

section \<open>Session announcements\<close>

text \<open>The first match of \<open>sessionId=([a-fA-F0-9\-]+)\<close>: the identifier after the leftmost
  \<open>sessionId=\<close> that an identifier character follows.\<close>

definition is_id_char :: "char \<Rightarrow> bool" where
  "is_id_char c \<longleftrightarrow> (let n = (of_char c :: nat) in
     (48 \<le> n \<and> n \<le> 57) \<or> (65 \<le> n \<and> n \<le> 70) \<or> (97 \<le> n \<and> n \<le> 102) \<or> n = 45)"

fun match_session_id :: "string \<Rightarrow> string option" where
  "match_session_id [] = None"
| "match_session_id (x # xs) =
     (case strip_prefix (x # xs) ''sessionId='' of
        Some rest \<Rightarrow> if takeWhile is_id_char rest \<noteq> [] then Some (takeWhile is_id_char rest)
                     else match_session_id xs
      | None \<Rightarrow> match_session_id xs)"

definition extract_session :: "string \<Rightarrow> string option" where
  "extract_session data =
     (case str_find data ''/sse?sessionId='' of
        Some url_start \<Rightarrow> Some (takeWhile (\<lambda>c. \<not> is_whitespace c) (drop url_start data))
      | None \<Rightarrow> match_session_id data)"

text \<open>What the monitor's task sends on its session channel for the data of an event.\<close>

definition monitor_session :: "'w sse_env \<Rightarrow> string \<Rightarrow> string option" where
  "monitor_session E data = (case se_message_of E data of Some m \<Rightarrow> None | None \<Rightarrow> extract_session data)"

text \<open>\<open>split(''sessionId='').nth(1)\<close>: between the first and the second separator.\<close>

definition after_session_id :: "string \<Rightarrow> string option" where
  "after_session_id s = (case str_find s ''sessionId='' of
     None \<Rightarrow> None
   | Some i \<Rightarrow>
       let rest = drop (i + 10) s
       in Some (case str_find rest ''sessionId='' of Some j \<Rightarrow> take j rest | None \<Rightarrow> rest))"

definition take_session :: "string \<Rightarrow> string option \<Rightarrow> string option" where
  "take_session session_info current =
     (if starts_with session_info ''/sse?sessionId=''
      then (case after_session_id session_info of Some s \<Rightarrow> Some s | None \<Rightarrow> current)
      else Some session_info)"

definition get_fresh_session_id :: "'w sse_env \<Rightarrow> (HttpSseTransport \<times> 'w, string option) act" where
  "get_fresh_session_id E = (\<lambda>(t, w).
     if sm_protocol (hss_manager t) = StreamableHttp then (Finished (Inr (hss_session_id t)), t, w)
     else if monitored (hss_manager t) then
       let (datas, w) = se_sessions E w;
           t = t\<lparr>hss_session_id :=
                 fold take_session (List.map_filter (monitor_session E) datas) (hss_session_id t)\<rparr>
       in (Finished (Inr (hss_session_id t)), t, w)
     else (Finished (Inr (hss_session_id t)), t, w))"

section \<open>Streams\<close>

text \<open>The task behind a stream: session announcements are skipped, other data that parses is
  forwarded, and an error ends the stream.\<close>

fun forwarded :: "'w sse_env \<Rightarrow> stream_item list \<Rightarrow> JsonRpcMessage list" where
  "forwarded E [] = []"
| "forwarded E (StreamError e # is) = []"
| "forwarded E (Event ev # is) =
     (if starts_with (ev_data ev) ''/sse?sessionId='' \<or> starts_with (ev_data ev) ''/mcp?sessionId=''
      then forwarded E is
      else case se_message_of E (ev_data ev) of
             Some m \<Rightarrow> m # forwarded E is
           | None \<Rightarrow> forwarded E is)"

text \<open>The event identifiers are tracked in a local variable of the task.\<close>

definition handle_sse_response :: "'w sse_env \<Rightarrow> sse_response \<Rightarrow> HttpSseTransport \<Rightarrow> HttpSseTransport" where
  "handle_sse_response E r t = t\<lparr>hss_stream := Some (forwarded E (sr_events r))\<rparr>"

definition timeout_error :: "string \<Rightarrow> McpError" where
  "timeout_error r = Transport (TimeoutError sse_type r)"

text \<open>Waiting on the monitor: the outcomes of \<open>try_recv\<close> until the deadline.\<close>

fun search_polls :: "string \<Rightarrow> poll list \<Rightarrow> JsonRpcResponse option" where
  "search_polls i [] = None"
| "search_polls i (PollDisconnected # ps) = None"
| "search_polls i (PollEmpty # ps) = search_polls i ps"
| "search_polls i (PollMessage m # ps) =
     (case m of
        Response r \<Rightarrow> if request_id_display (resp_id r) = i then Some r else search_polls i ps
      | _ \<Rightarrow> search_polls i ps)"

text \<open>Waiting on the stream; the messages left in the receiver are returned.\<close>

fun wait_stream ::
  "'w sse_env \<Rightarrow> string \<Rightarrow> JsonRpcMessage list \<Rightarrow> 'w
     \<Rightarrow> JsonRpcResponse option mcp_result timed \<times> JsonRpcMessage list \<times> 'w" where
  "wait_stream E i [] w =
     (case se_recv E w of
        (OuterElapsed, w) \<Rightarrow> (Elapsed, [], w)
      | (DeadlineOver, w) \<Rightarrow> (Finished (Inr None), [], w)
      | (RecvTimeout, w) \<Rightarrow>
          (Finished (Inl (timeout_error (''SSE response timeout for request ID: '' @ i))), [], w)
      | (InTime, w) \<Rightarrow>
          (Finished (Inl (Transport (DisconnectedError sse_type
             ''SSE stream closed while waiting for response''))), [], w))"
| "wait_stream E i (m # ms) w =
     (case se_recv E w of
        (OuterElapsed, w) \<Rightarrow> (Elapsed, m # ms, w)
      | (DeadlineOver, w) \<Rightarrow> (Finished (Inr None), m # ms, w)
      | (RecvTimeout, w) \<Rightarrow>
          (Finished (Inl (timeout_error (''SSE response timeout for request ID: '' @ i))), m # ms, w)
      | (InTime, w) \<Rightarrow>
          (case m of
             Response r \<Rightarrow>
               if request_id_display (resp_id r) = i then (Finished (Inr (Some r)), ms, w)
               else wait_stream E i ms w
           | _ \<Rightarrow> wait_stream E i ms w))"

abbreviation count_response :: "HttpSseTransport \<Rightarrow> HttpSseTransport" where
  "count_response t \<equiv> t\<lparr>hss_info := increment_responses_received (hss_info t)\<rparr>"

definition wait_for_sse_response ::
  "'w sse_env \<Rightarrow> string \<Rightarrow> (HttpSseTransport \<times> 'w, JsonRpcResponse) act" where
  "wait_for_sse_response E i = (\<lambda>(t, w).
     let (polled, over, w) = (if monitored (hss_manager t)
           then (case se_polls E w of (ps, over, w) \<Rightarrow> (search_polls i ps, over, w))
           else (None, False, w))
     in case polled of
          Some r \<Rightarrow> (Finished (Inr r), count_response t, w)
        | None \<Rightarrow>
            if over then (Elapsed, t, w)
            else
              case hss_stream t of
                None \<Rightarrow> (Finished (Inl (timeout_error
                          (''Timeout waiting for response to request ID: '' @ i))), t, w)
              | Some ms \<Rightarrow>
                  (case wait_stream E i ms w of
                     (Elapsed, ms, w) \<Rightarrow> (Elapsed, t\<lparr>hss_stream := Some ms\<rparr>, w)
                   | (Finished (Inl e), ms, w) \<Rightarrow> (Finished (Inl e), t\<lparr>hss_stream := Some ms\<rparr>, w)
                   | (Finished (Inr (Some r)), ms, w) \<Rightarrow>
                       (Finished (Inr r), count_response (t\<lparr>hss_stream := Some ms\<rparr>), w)
                   | (Finished (Inr None), ms, w) \<Rightarrow>
                       (Finished (Inl (timeout_error
                          (''Timeout waiting for response to request ID: '' @ i))),
                        t\<lparr>hss_stream := Some ms\<rparr>, w)))"

section \<open>Sending\<close>

definition sse_post :: "'w sse_env \<Rightarrow> url \<Rightarrow> (string \<times> string) list \<Rightarrow> JsonRpcMessage \<Rightarrow> http_request" where
  "sse_post E u extra m = \<lparr>hr_method = ''POST'', hr_url = url_text u,
     hr_headers = [(''content-type'', ''application/json''),
                   (''Accept'', ''application/json, text/event-stream'')] @ extra,
     hr_body = se_message_json E m\<rparr>"

definition opt_header :: "string \<Rightarrow> string option \<Rightarrow> (string \<times> string) list" where
  "opt_header k v = (case v of Some x \<Rightarrow> [(k, x)] | None \<Rightarrow> [])"

definition sse_exchange :: "'w sse_env \<Rightarrow> string \<Rightarrow> http_request \<Rightarrow> (HttpSseTransport \<times> 'w, sse_response) act" where
  "sse_exchange E what rq = (\<lambda>(t, w). case se_exchange E rq w of
     (SseElapsed, w) \<Rightarrow> (Elapsed, t, w)
   | (SseSendError e, w) \<Rightarrow> (Finished (Inl (Transport (NetworkError sse_type (what @ e)))), t, w)
   | (SseResponded r, w) \<Rightarrow> (Finished (Inr r), t, w))"

definition header_str :: "sse_response \<Rightarrow> string \<Rightarrow> string option" where
  "header_str r k = Option.bind (map_of (sr_headers r) k) header_to_str"

text \<open>A single JSON answer; \<open>what\<close> names the protocol in the error texts.\<close>

definition read_json :: "'w sse_env \<Rightarrow> string \<Rightarrow> sse_response \<Rightarrow> (HttpSseTransport \<times> 'w, JsonRpcResponse option) act" where
  "read_json E what r = (case sr_body r of
     BodyElapsed \<Rightarrow> (\<lambda>s. (Elapsed, s))
   | BodyError e \<Rightarrow> fail (Transport (SerializationError sse_type
       (''Failed to get '' @ what @ '' response text: '' @ e)))
   | BodyText text \<Rightarrow>
       (case se_response_of E text of
          Inl e \<Rightarrow> fail (Transport (SerializationError sse_type
            (''Failed to parse '' @ what @ '' JSON response: '' @ e)))
        | Inr resp \<Rightarrow> ret (Some resp)))"

definition await_answer :: "'w sse_env \<Rightarrow> JsonRpcMessage \<Rightarrow> (HttpSseTransport \<times> 'w, JsonRpcResponse option) act" where
  "await_answer E message = (case message of
     Request req \<Rightarrow> bind_act (wait_for_sse_response E (request_id_display (req_id req))) (\<lambda>r. ret (Some r))
   | _ \<Rightarrow> ret None)"

definition open_stream :: "'w sse_env \<Rightarrow> sse_response \<Rightarrow> (HttpSseTransport \<times> 'w, unit) act" where
  "open_stream E r = modify (\<lambda>(t, w). (handle_sse_response E r t, w))"

text \<open>The session identifier of a response header is validated and then kept.\<close>

definition keep_session :: "sse_response \<Rightarrow> (HttpSseTransport \<times> 'w, unit) act" where
  "keep_session r = (case header_str r ''mcp-session-id'' of
     None \<Rightarrow> ret ()
   | Some session_str \<Rightarrow> (\<lambda>(t, w).
       case validate_session_id t session_str of
         Inl e \<Rightarrow> (Finished (Inl e), t, w)
       | Inr _ \<Rightarrow> (Finished (Inr ()), t\<lparr>hss_session_id := Some session_str\<rparr>, w)))"

definition send_streamable_http_request ::
  "'w sse_env \<Rightarrow> JsonRpcMessage \<Rightarrow> (HttpSseTransport \<times> 'w, JsonRpcResponse option) act" where
  "send_streamable_http_request E message = (\<lambda>(t, w).
     bind_act (sse_exchange E ''Modern HTTP request failed: ''
        (sse_post E (hss_base_url t)
           (opt_header ''Mcp-Session-Id'' (hss_session_id t)
            @ opt_header ''Last-Event-ID'' (hss_last_event_id t)) message)) (\<lambda>r.
     bind_act (keep_session r) (\<lambda>_.
       let content_type = (case header_str r ''content-type'' of Some c \<Rightarrow> c | None \<Rightarrow> ''application/json'')
       in if str_contains content_type ''application/json'' then read_json E ''Modern'' r
          else if str_contains content_type ''text/event-stream''
          then bind_act (open_stream E r) (\<lambda>_. await_answer E message)
          else fail (Transport (NetworkError sse_type (''Unexpected Modern content type: '' @ content_type)))))
     (t, w))"

text \<open>Up to fifty polls for a session, with a sleep after each that found none; the sleep may run
  into the deadline of the request.\<close>

fun await_session :: "'w sse_env \<Rightarrow> nat \<Rightarrow> (HttpSseTransport \<times> 'w, unit) act" where
  "await_session E 0 = ret ()"
| "await_session E (Suc n) = (\<lambda>(t, w).
     if hss_session_id t \<noteq> None then (Finished (Inr ()), t, w)
     else bind_act (get_fresh_session_id E) (\<lambda>session_id (t, w).
            if session_id \<noteq> None then (Finished (Inr ()), t, w)
            else (case se_sleep E w of
                    (True, w) \<Rightarrow> (Elapsed, t, w)
                  | (False, w) \<Rightarrow> await_session E n (t, w))) (t, w))"

definition send_legacy_sse_request ::
  "'w sse_env \<Rightarrow> JsonRpcMessage \<Rightarrow> (HttpSseTransport \<times> 'w, JsonRpcResponse option) act" where
  "send_legacy_sse_request E message =
     bind_act (await_session E 50) (\<lambda>_ (t, w).
       let u = (case hss_session_id t of
                  Some s \<Rightarrow> se_set_query E (''sessionId='' @ s) (hss_base_url t)
                | None \<Rightarrow> hss_base_url t)
       in bind_act (sse_exchange E ''Legacy HTTP+SSE request failed: '' (sse_post E u [] message)) (\<lambda>r.
            let content_type = (case header_str r ''content-type'' of Some c \<Rightarrow> c | None \<Rightarrow> [])
            in if sr_status r = 202 then await_answer E message
               else if str_contains content_type ''application/json'' then read_json E ''Legacy'' r
               else if str_contains content_type ''text/event-stream''
               then bind_act (open_stream E r) (\<lambda>_. await_answer E message)
               else fail (Transport (NetworkError sse_type
                      (''Unexpected Legacy response - Status: '' @ show_nat (unat (sr_status r))
                       @ '', Content-Type: '' @ content_type)))) (t, w))"

definition sse_send_mcp_request ::
  "'w sse_env \<Rightarrow> JsonRpcMessage \<Rightarrow> (HttpSseTransport \<times> 'w, JsonRpcResponse option) act" where
  "sse_send_mcp_request E message =
     bind_act (get_fresh_session_id E) (\<lambda>_ (t, w).
       let (protocol_version, t) = detect_protocol_version t
       in (case protocol_version of
             HttpSseProtocol \<Rightarrow> send_legacy_sse_request E message
           | _ \<Rightarrow> send_streamable_http_request E message) (t, w))"

section \<open>The trait\<close>

definition sse_not_connected :: McpError where
  "sse_not_connected = Transport (NotConnected sse_type ''Transport not connected'')"

text \<open>The monitor of a legacy server is started at the first discovery endpoint that answers with
  a stream.\<close>

fun start_monitor :: "'w sse_env \<Rightarrow> string list \<Rightarrow> HttpSseTransport \<times> 'w \<Rightarrow> HttpSseTransport \<times> 'w" where
  "start_monitor E [] s = s"
| "start_monitor E (endpoint # es) (t, w) =
     (case se_join E (hss_base_url t) (if endpoint = ''/sse'' then ''/events'' else endpoint) of
        Inl e \<Rightarrow> start_monitor E es (t, w)
      | Inr u \<Rightarrow>
          (case se_call E \<lparr>hr_method = ''GET'', hr_url = url_text u,
                           hr_headers = [(''Accept'', ''text/event-stream'')], hr_body = []\<rparr> w of
             (Inl e, w) \<Rightarrow> start_monitor E es (t, w)
           | (Inr r, w) \<Rightarrow>
               if str_contains (case header_str r ''content-type'' of Some c \<Rightarrow> c | None \<Rightarrow> [])
                    ''text/event-stream''
               then (t\<lparr>hss_manager := (hss_manager t)\<lparr>monitored := True\<rparr>\<rparr>, w)
               else start_monitor E es (t, w)))"

definition start_continuous_session_monitoring ::
  "'w sse_env \<Rightarrow> HttpSseTransport \<times> 'w \<Rightarrow> HttpSseTransport \<times> 'w" where
  "start_continuous_session_monitoring E = (\<lambda>(t, w).
     if \<not> auto_discover (hss_manager t) then (t, w)
     else if url_path (hss_base_url t) = ''/mcp''
     then (t\<lparr>hss_manager := (hss_manager t)\<lparr>sm_protocol := StreamableHttp\<rparr>\<rparr>, w)
     else start_monitor E (discovery_endpoints (hss_manager t)) (t, w))"

definition hss_connect :: "'w sse_env \<Rightarrow> HttpSseTransport \<times> 'w \<Rightarrow> unit mcp_result \<times> HttpSseTransport \<times> 'w" where
  "hss_connect E s =
     (let (t, w) = start_continuous_session_monitoring E s in
      case se_call E \<lparr>hr_method = ''HEAD'', hr_url = url_text (hss_base_url t), hr_headers = [], hr_body = []\<rparr> w of
        (Inr _, w) \<Rightarrow>
          let t = t\<lparr>hss_info := mark_connected (se_clock E w) (hss_info t)\<rparr>;
              t = (if hss_session_id t = None then t\<lparr>hss_session_id := Some ''default''\<rparr> else t)
          in (Inr (), t, w)
      | (Inl e, w) \<Rightarrow>
          (Inl (Transport (ConnectionError sse_type (''Failed to connect to server: '' @ e))), t, w))"

definition hss_disconnect :: "'w sse_env \<Rightarrow> HttpSseTransport \<times> 'w \<Rightarrow> unit mcp_result \<times> HttpSseTransport \<times> 'w" where
  "hss_disconnect E = (\<lambda>(t, w).
     let w = (case hss_session_id t of
                Some s \<Rightarrow> snd (se_call E \<lparr>hr_method = ''DELETE'', hr_url = url_text (hss_base_url t),
                               hr_headers = [(''Mcp-Session-Id'', s)], hr_body = []\<rparr> w)
              | None \<Rightarrow> w)
     in (Inr (), t\<lparr>hss_stream := None, hss_session_id := None,
                    hss_info := mark_disconnected (hss_info t)\<rparr>, w))"

definition hss_is_connected :: "HttpSseTransport \<times> 'w \<Rightarrow> bool" where
  "hss_is_connected = (\<lambda>(t, w). info_connected (hss_info t))"

definition hss_send_request ::
  "'w sse_env \<Rightarrow> JsonRpcRequest \<Rightarrow> duration option \<Rightarrow> HttpSseTransport \<times> 'w
     \<Rightarrow> JsonRpcResponse mcp_result \<times> HttpSseTransport \<times> 'w" where
  "hss_send_request E request timeout_duration s =
     (if \<not> hss_is_connected s then (Inl sse_not_connected, s)
      else
        let request_id = request_id_display (req_id request);
            timeout_duration = (case timeout_duration of Some d \<Rightarrow> d | None \<Rightarrow> secs 30)
        in case sse_send_mcp_request E (Request request) s of
             (Elapsed, s) \<Rightarrow>
               (Inl (timeout_error (''Request timed out after '' @ debug_duration (se_debug E) timeout_duration)), s)
           | (Finished (Inl e), s) \<Rightarrow> (Inl e, s)
           | (Finished (Inr response), t, w) \<Rightarrow>
               let t = t\<lparr>hss_info := increment_requests_sent (hss_info t)\<rparr>
               in case response of
                    Some json_response \<Rightarrow> (Inr json_response, count_response t, w)
                  | None \<Rightarrow>
                      (case wait_for_sse_response E request_id (t, w) of
                         (Finished r, s) \<Rightarrow> (r, s)
                       | (Elapsed, s) \<Rightarrow> (Inl (timeout_error
                           (''Timeout waiting for response to request ID: '' @ request_id)), s)))"

definition hss_send_notification ::
  "'w sse_env \<Rightarrow> JsonRpcNotification \<Rightarrow> HttpSseTransport \<times> 'w \<Rightarrow> unit mcp_result \<times> HttpSseTransport \<times> 'w" where
  "hss_send_notification E notification = (\<lambda>(t, w).
     if \<not> hss_is_connected (t, w) then (Inl sse_not_connected, t, w)
     else
       case se_call E (sse_post E (hss_base_url t) (opt_header ''Mcp-Session-Id'' (hss_session_id t))
                         (Notification notification)) w of
         (Inl e, w) \<Rightarrow> (Inl (Transport (NetworkError sse_type (''HTTP notification failed: '' @ e))), t, w)
       | (Inr _, w) \<Rightarrow> (Inr (), t\<lparr>hss_info := increment_notifications_sent (hss_info t)\<rparr>, w))"

definition count_message :: "JsonRpcMessage \<Rightarrow> HttpSseTransport \<Rightarrow> HttpSseTransport" where
  "count_message m t = (case m of
     Request _ \<Rightarrow> t
   | Response _ \<Rightarrow> count_response t
   | Notification _ \<Rightarrow> t\<lparr>hss_info := increment_notifications_received (hss_info t)\<rparr>)"

definition hss_receive_message ::
  "'w sse_env \<Rightarrow> duration option \<Rightarrow> HttpSseTransport \<times> 'w \<Rightarrow> JsonRpcMessage mcp_result \<times> HttpSseTransport \<times> 'w" where
  "hss_receive_message E timeout_duration = (\<lambda>(t, w).
     if \<not> hss_is_connected (t, w) then (Inl sse_not_connected, t, w)
     else
       case hss_stream t of
         None \<Rightarrow> (Inl (Transport (NotConnected sse_type
                   ''No SSE stream available - server uses single JSON responses'')), t, w)
       | Some ms \<Rightarrow>
           let (late, w) = (case timeout_duration of
                 Some d \<Rightarrow> (case se_recv E w of (x, w) \<Rightarrow> (x \<noteq> InTime, w))
               | None \<Rightarrow> (False, w))
           in if late then (Inl (timeout_error (''Message receive timed out after ''
                      @ debug_duration (se_debug E) (the timeout_duration))), t, w)
              else
                case ms of
                  [] \<Rightarrow> (Inl (Transport (DisconnectedError sse_type ''SSE stream closed'')), t, w)
                | m # ms \<Rightarrow> (Inr m, count_message m (t\<lparr>hss_stream := Some ms\<rparr>), w))"

text \<open>Resuming; \<open>can_resume\<close> tells whether it would do anything.\<close>

definition can_resume :: "HttpSseTransport \<Rightarrow> bool" where
  "can_resume t = (hss_last_event_id t \<noteq> None)"

definition resume_sse_connection :: "'w sse_env \<Rightarrow> HttpSseTransport \<times> 'w \<Rightarrow> unit mcp_result \<times> HttpSseTransport \<times> 'w" where
  "resume_sse_connection E = (\<lambda>(t, w).
     case hss_last_event_id t of
       None \<Rightarrow> (Inr (), t, w)
     | Some last_event_id \<Rightarrow>
         (case se_call E \<lparr>hr_method = ''GET'', hr_url = url_text (hss_base_url t),
             hr_headers = [(''Accept'', ''text/event-stream''), (''Last-Event-ID'', last_event_id)]
               @ opt_header ''Mcp-Session-Id'' (hss_session_id t), hr_body = []\<rparr> w of
            (Inl e, w) \<Rightarrow>
              (Inl (Transport (NetworkError sse_type (''Failed to resume SSE connection: '' @ e))), t, w)
          | (Inr r, w) \<Rightarrow>
              if header_str r ''content-type'' = Some ''text/event-stream''
              then (Inr (), handle_sse_response E r t, w)
              else (Inl (Transport (NetworkError sse_type
                     ''Server did not respond with SSE stream for resume request'')), t, w)))"

definition opt_json :: "string option \<Rightarrow> json" where
  "opt_json v = (case v of Some s \<Rightarrow> String s | None \<Rightarrow> Null)"

definition hss_get_info :: "'w sse_env \<Rightarrow> HttpSseTransport \<times> 'w \<Rightarrow> TransportInfo" where
  "hss_get_info E = (\<lambda>(t, w).
     let info = hss_info t;
         info = add_metadata ''base_url'' (String (url_text (hss_base_url t))) info;
         info = add_metadata ''session_id'' (opt_json (hss_session_id t)) info;
         info = add_metadata ''has_sse_stream'' (Bool (hss_stream t \<noteq> None)) info;
         info = add_metadata ''last_event_id'' (opt_json (hss_last_event_id t)) info;
         info = add_metadata ''can_resume'' (Bool (can_resume t)) info;
         info = add_metadata ''security_enabled'' (Bool (sec_validate_origin (hss_security t))) info
     in case hss_config t of
          HttpSse c \<Rightarrow>
            let info = add_metadata ''timeout'' (Number (PosInt (of_nat (as_secs (sse_timeout c))))) info;
                info = add_metadata ''headers'' (se_headers_json E (sse_headers c)) info;
                info = add_metadata ''has_auth'' (Bool (sse_auth c \<noteq> None)) info;
                info = add_metadata ''enforce_https'' (Bool (require_https (hss_security t))) info
            in add_metadata ''localhost_only'' (Bool (enforce_localhost (hss_security t))) info
        | _ \<Rightarrow> info)"

definition http_sse_ops :: "'w sse_env \<Rightarrow> (HttpSseTransport \<times> 'w) transport_ops" where
  "http_sse_ops E =
     \<lparr>t_connect = hss_connect E, t_disconnect = hss_disconnect E, t_is_connected = hss_is_connected,
      t_send_request = hss_send_request E, t_send_notification = hss_send_notification E,
      t_receive_message = (\<lambda>d s. Some (hss_receive_message E d s)), t_get_info = hss_get_info E,
      t_get_config = hss_config \<circ> fst\<rparr>"

section \<open>What a session keeps\<close>

text \<open>The part of the state that no request changes, and the identifiers a transport that is
  not monitored may hold: the default one of \<open>connect\<close> and validated ones.\<close>

definition sse_static :: "HttpSseTransport \<Rightarrow>
    TransportConfig \<times> url \<times> SecurityConfig \<times> string option \<times> bool \<times> bool" where
  "sse_static t = (hss_config t, hss_base_url t, hss_security t, hss_last_event_id t,
     info_connected (hss_info t), monitored (hss_manager t))"

definition session_ok :: "string option \<Rightarrow> bool" where
  "session_ok s \<longleftrightarrow> (case s of None \<Rightarrow> True
     | Some i \<Rightarrow> i = ''default'' \<or> 16 \<le> length i \<and> list_all (\<lambda>c. is_alphanumeric c \<or> c = CHR ''-'') i)"

definition session_inv :: "HttpSseTransport \<Rightarrow> bool" where
  "session_inv t \<longleftrightarrow> validate_session_ids (hss_security t)
     \<and> (monitored (hss_manager t) \<or> session_ok (hss_session_id t))"

definition sse_keeps :: "bool \<Rightarrow> _ \<Rightarrow> HttpSseTransport \<times> 'w \<Rightarrow> bool" where
  "sse_keeps b c s \<longleftrightarrow> sse_static (fst s) = c \<and> (b \<longrightarrow> session_inv (fst s))"

lemmas sse_simps = sse_keeps_def sse_static_def session_inv_def info_ops

lemma validated_session_ok:
  "validate_session_id t s = Inr () \<Longrightarrow> validate_session_ids (hss_security t) \<Longrightarrow> session_ok (Some s)"
  by (simp add: validate_session_id_def session_ok_def split: if_splits)

lemma get_fresh_preserves [preserves_rules]: "preserves (sse_keeps b c) (get_fresh_session_id E)"
  by (auto simp: preserves_def get_fresh_session_id_def sse_simps Let_def split: prod.splits)

lemma wait_preserves [preserves_rules]: "preserves (sse_keeps b c) (wait_for_sse_response E i)"
  by (auto simp: preserves_def wait_for_sse_response_def sse_simps Let_def
      split: prod.splits option.splits timed.splits sum.splits)

lemma exchange_preserves [preserves_rules]: "preserves (sse_keeps b c) (sse_exchange E what rq)"
  by (auto simp: preserves_def sse_exchange_def sse_keeps_def split: prod.splits sse_outcome.splits)

lemma read_json_preserves [preserves_rules]: "preserves P (read_json E what r)"
  by (auto simp: preserves_def read_json_def ret_def fail_def split: http_body.splits sum.splits)

lemma open_stream_preserves [preserves_rules]: "preserves (sse_keeps b c) (open_stream E r)"
  unfolding open_stream_def
  by (rule preserves_modify) (auto simp: handle_sse_response_def sse_simps)

lemma keep_session_preserves [preserves_rules]: "preserves (sse_keeps b c) (keep_session r)"
  by (auto simp: preserves_def keep_session_def ret_def sse_simps dest: validated_session_ok
      split: option.splits sum.splits)

lemma await_answer_preserves [preserves_rules]: "preserves (sse_keeps b c) (await_answer E m)"
  by (auto simp: await_answer_def intro!: preserves_rules split: JsonRpcMessage.splits)

lemma await_session_preserves [preserves_rules]: "preserves (sse_keeps b c) (await_session E n)"
proof (induction n)
  case (Suc n)
  have "preserves (sse_keeps b c) (\<lambda>(t, w).
      if session_id \<noteq> None then (Finished (Inr ()), t, w)
      else (case se_sleep E w of (True, w) \<Rightarrow> (Elapsed, t, w)
              | (False, w) \<Rightarrow> await_session E n (t, w)))" for session_id
    using Suc by (auto simp: preserves_def sse_keeps_def split: prod.splits bool.splits)
  note rest = preserves_bind [OF get_fresh_preserves [where b = b and c = c and E = E] this]
  show ?case
    unfolding preserves_def
  proof (intro allI impI)
    fix s :: "HttpSseTransport \<times> 'a" assume P: "sse_keeps b c s"
    obtain t w where s: "s = (t, w)" by (metis surj_pair)
    show "sse_keeps b c (snd (await_session E (Suc n) s))"
    proof (cases "hss_session_id t = None")
      case True
      with rest [of "\<lambda>x. x"] P s show ?thesis by (simp add: preserves_def)
    qed (use P s in simp)
  qed
qed (simp add: preserves_ret)

lemma streamable_preserves [preserves_rules]:
  "preserves (sse_keeps b c) (send_streamable_http_request E m)"
  unfolding send_streamable_http_request_def Let_def by (intro preserves_rules)

lemma legacy_preserves [preserves_rules]:
  "preserves (sse_keeps b c) (send_legacy_sse_request E m)"
  unfolding send_legacy_sse_request_def Let_def by (intro preserves_rules)

lemma detect_keeps:
  "detect_protocol_version t = (p, t') \<Longrightarrow> sse_static t' = sse_static t \<and> session_inv t' = session_inv t"
  by (auto simp: detect_protocol_version_def sse_simps Let_def split: if_splits)

lemma sse_send_preserves: "preserves (sse_keeps b c) (sse_send_mcp_request E m)"
  unfolding sse_send_mcp_request_def
proof (rule preserves_bind [OF get_fresh_preserves], unfold preserves_def, intro allI impI)
  fix s :: "HttpSseTransport \<times> 'a" and x assume P: "sse_keeps b c s"
  obtain t w p t1 where s: "s = (t, w)" and d: "detect_protocol_version t = (p, t1)" by (metis surj_pair)
  from P s detect_keeps [OF d] have P1: "sse_keeps b c (t1, w)"
    by (simp add: sse_keeps_def)
  have "preserves (sse_keeps b c) (case p of HttpSseProtocol \<Rightarrow> send_legacy_sse_request E m
           | _ \<Rightarrow> send_streamable_http_request E m)"
    by (cases p) (auto intro: preserves_rules)
  with P1 show "sse_keeps b c (snd ((\<lambda>(t, w). let (protocol_version, t) = detect_protocol_version t
       in (case protocol_version of HttpSseProtocol \<Rightarrow> send_legacy_sse_request E m
             | _ \<Rightarrow> send_streamable_http_request E m) (t, w)) s))"
    unfolding preserves_def s prod.case d Let_def by blast
qed

lemma request_preserves: "preserves (sse_keeps b c) (\<lambda>s. apfst Finished (hss_send_request E rq d s))"
  unfolding preserves_def
proof (intro allI impI)
  fix s :: "HttpSseTransport \<times> 'a" assume P: "sse_keeps b c s"
  obtain r s1 where r: "sse_send_mcp_request E (Request rq) s = (r, s1)" by (metis surj_pair)
  obtain t1 w1 where s1: "s1 = (t1, w1)" by (metis surj_pair)
  from preservesD [OF sse_send_preserves P r] have P1: "sse_keeps b c (t1, w1)" by (simp add: s1)
  let ?t = "t1\<lparr>hss_info := increment_requests_sent (hss_info t1)\<rparr>"
  obtain x s2 where x: "wait_for_sse_response E (request_id_display (req_id rq)) (?t, w1) = (x, s2)"
    by (metis surj_pair)
  from P1 have P2: "sse_keeps b c (?t, w1)" by (simp add: sse_simps)
  from preservesD [OF wait_preserves P2 x] have "sse_keeps b c s2" .
  with P P1 P2 x r s1 show "sse_keeps b c (snd (apfst Finished (hss_send_request E rq d s)))"
    by (auto simp: hss_send_request_def Let_def sse_simps split: timed.splits sum.splits option.splits)
qed

lemma hss_request_keeps:
  assumes "hss_send_request E rq d (t, w) = (r, t', w')"
  shows "sse_static t' = sse_static t \<and> (session_inv t \<longrightarrow> session_inv t')"
  using preservesD [OF request_preserves [where E = E and rq = rq and d = d and c = "sse_static t"],
      where s = "(t, w)" and r = "Finished r" and s' = "(t', w')"]
    assms by (auto simp: sse_keeps_def)

lemma hss_notification_keeps:
  "hss_send_notification E n (t, w) = (r, t', w') \<Longrightarrow>
   sse_static t' = sse_static t \<and> hss_session_id t' = hss_session_id t"
  by (auto simp: hss_send_notification_def sse_simps split: prod.splits sum.splits if_splits)

lemma hss_receive_keeps:
  "hss_receive_message E d (t, w) = (r, t', w') \<Longrightarrow>
   sse_static t' = sse_static t \<and> hss_session_id t' = hss_session_id t"
  by (auto simp: hss_receive_message_def sse_simps count_message_def Let_def
      split: prod.splits option.splits list.splits if_splits JsonRpcMessage.splits)

lemma start_monitor_keeps:
  "start_monitor E es (t, w) = (t', w') \<Longrightarrow>
   \<exists>m. t' = t\<lparr>hss_manager := (hss_manager t)\<lparr>monitored := m\<rparr>\<rparr> \<and> (monitored (hss_manager t) \<longrightarrow> m)"
proof (induction es arbitrary: w)
  case Nil
  then show ?case by (auto intro!: exI [of _ "monitored (hss_manager t)"])
next
  case (Cons e es)
  then show ?case by (auto split: sum.splits prod.splits if_splits)
qed

lemma start_monitoring_keeps:
  assumes "start_continuous_session_monitoring E (t, w) = (t', w')"
  shows "\<exists>m. t' = t\<lparr>hss_manager := m\<rparr> \<and> (monitored (hss_manager t) \<longrightarrow> monitored m)
    \<and> (url_path (hss_base_url t) = ''/mcp'' \<longrightarrow> monitored m = monitored (hss_manager t))"
  using assms start_monitor_keeps [of E "discovery_endpoints (hss_manager t)" t w t' w']
  by (auto simp: start_continuous_session_monitoring_def split: if_splits intro: exI [of _ "hss_manager t"])

interpretation http_sse: transport_contract "http_sse_ops E"
proof
  fix t t' :: "HttpSseTransport \<times> 'a"
  show "t_connect (http_sse_ops E) t = (Inr (), t') \<Longrightarrow> t_is_connected (http_sse_ops E) t'"
    by (auto simp: http_sse_ops_def hss_connect_def hss_is_connected_def info_ops Let_def
        split: prod.splits sum.splits if_splits)
  show "t_disconnect (http_sse_ops E) t = (Inr (), t') \<Longrightarrow> \<not> t_is_connected (http_sse_ops E) t'"
    by (auto simp: http_sse_ops_def hss_disconnect_def hss_is_connected_def info_ops split: prod.splits)
next
  fix t rq d n assume "\<not> t_is_connected (http_sse_ops E) t"
  then show "\<exists>k r. t_send_request (http_sse_ops E) rq d t = (Inl (Transport (NotConnected k r)), t)"
    and "\<exists>k r. t_send_notification (http_sse_ops E) n t = (Inl (Transport (NotConnected k r)), t)"
    by (auto simp: http_sse_ops_def hss_send_request_def hss_send_notification_def
        sse_not_connected_def split: prod.splits)
next
  fix t rq d res t'
  assume "t_send_request (http_sse_ops E) rq d t = (res, t')"
  then show "t_is_connected (http_sse_ops E) t' = t_is_connected (http_sse_ops E) t"
    by (cases t; cases t')
      (auto simp: http_sse_ops_def hss_is_connected_def sse_static_def dest!: hss_request_keeps)
next
  fix t n res t'
  assume "t_send_notification (http_sse_ops E) n t = (res, t')"
  then show "t_is_connected (http_sse_ops E) t' = t_is_connected (http_sse_ops E) t"
    by (cases t; cases t')
      (auto simp: http_sse_ops_def hss_is_connected_def sse_static_def dest!: hss_notification_keeps)
qed

section \<open>Reachable transports\<close>

inductive sse_reach :: "'w sse_env \<Rightarrow> HttpSseTransport \<times> 'w \<Rightarrow> bool" for E where
  sse_new: "HttpSseTransport_new E config = Inr t \<Longrightarrow> sse_reach E (t, w)"
| sse_connect: "sse_reach E s \<Longrightarrow> hss_connect E s = (r, s') \<Longrightarrow> sse_reach E s'"
| sse_disconnect: "sse_reach E s \<Longrightarrow> hss_disconnect E s = (r, s') \<Longrightarrow> sse_reach E s'"
| sse_request: "sse_reach E s \<Longrightarrow> hss_send_request E rq d s = (r', s') \<Longrightarrow> sse_reach E s'"
| sse_notification: "sse_reach E s \<Longrightarrow> hss_send_notification E n s = (r, s') \<Longrightarrow> sse_reach E s'"
| sse_receive: "sse_reach E s \<Longrightarrow> hss_receive_message E d s = (r'', s') \<Longrightarrow> sse_reach E s'"
| sse_resume: "sse_reach E s \<Longrightarrow> resume_sse_connection E s = (r, s') \<Longrightarrow> sse_reach E s'"

text \<open>The URLs \<open>build_security_config\<close> lets pass.\<close>

definition secure_url :: "url \<Rightarrow> bool" where
  "secure_url u \<longleftrightarrow> url_scheme u = ''https'' \<or> url_host u \<in> {Some ''localhost'', Some ''127.0.0.1''}"

lemma build_security_config_iff:
  "build_security_config u = Inr sc \<longleftrightarrow> secure_url u \<and>
     sc = SecurityConfig_default\<lparr>require_https := url_host u \<notin> {Some ''localhost'', Some ''127.0.0.1''}\<rparr>"
  by (auto simp: build_security_config_def secure_url_def SecurityConfig_default_def Let_def)

definition sse_ok :: "HttpSseTransport \<Rightarrow> bool" where
  "sse_ok t \<longleftrightarrow> hss_last_event_id t = None \<and> secure_url (hss_base_url t) \<and> session_inv t
     \<and> (monitored (hss_manager t) \<longrightarrow> url_path (hss_base_url t) \<noteq> ''/mcp'')"

lemma sse_new_ok: "HttpSseTransport_new E config = Inr t \<Longrightarrow> sse_ok t"
  by (auto simp: HttpSseTransport_new_def build_security_config_iff sse_ok_def session_inv_def
      SecurityConfig_default_def SessionManager_default_def session_ok_def res_simps)

lemma sse_connect_ok:
  assumes "hss_connect E (t, w) = (r, t', w')" and "sse_ok t"
  shows "sse_ok t'"
proof -
  obtain t1 w1 where m: "start_continuous_session_monitoring E (t, w) = (t1, w1)" by (metis surj_pair)
  from start_monitoring_keeps [OF m] assms(2) have "sse_ok t1"
    by (auto simp: sse_ok_def session_inv_def)
  then show ?thesis using assms(1) m
    by (auto simp: hss_connect_def sse_ok_def session_inv_def session_ok_def Let_def
        split: prod.splits sum.splits if_splits)
qed

lemma sse_reach_ok: "sse_reach E s \<Longrightarrow> sse_ok (fst s)"
proof (induction rule: sse_reach.induct)
  case (sse_connect s r s')
  then show ?case by (metis prod.collapse sse_connect_ok)
next
  case (sse_disconnect s r s')
  then show ?case
    by (auto simp: hss_disconnect_def sse_ok_def session_inv_def session_ok_def split: prod.splits)
next
  case (sse_request s rq d r s')
  then show ?case using hss_request_keeps [of E rq d "fst s" "snd s" r "fst s'" "snd s'"]
    by (auto simp: sse_ok_def sse_static_def)
next
  case (sse_notification s n r s')
  then show ?case using hss_notification_keeps [of E n "fst s" "snd s" r "fst s'" "snd s'"]
    by (auto simp: sse_ok_def sse_static_def session_inv_def)
next
  case (sse_receive s d r s')
  then show ?case using hss_receive_keeps [of E d "fst s" "snd s" r "fst s'" "snd s'"]
    by (auto simp: sse_ok_def sse_static_def session_inv_def)
next
  case (sse_resume s r s')
  then show ?case by (auto simp: resume_sse_connection_def sse_ok_def split: prod.splits)
qed (auto dest: sse_new_ok)

text \<open>C29 (secure endpoint and sessions). In every state the transport can reach, whatever the
  server answers, its endpoint is an HTTPS URL or on the local host; and at the endpoint
  \<open>/mcp\<close> the session identifier it sends is the default one or has at least sixteen
  characters, all alphanumeric or hyphens.\<close>

theorem sse_reach_secure:
  assumes "sse_reach E (t, w)"
  shows "secure_url (hss_base_url t)
    \<and> (url_path (hss_base_url t) = ''/mcp'' \<longrightarrow> session_ok (hss_session_id t))"
  using sse_reach_ok [OF assms] by (auto simp: sse_ok_def session_inv_def)

text \<open>Streams are never resumed. The identifier of the last event stays in a local variable
  of the stream's task, so in every reachable state \<open>can_resume\<close> is false and
  \<open>resume_sse_connection\<close> returns success without a request.\<close>

theorem sse_never_resumes:
  assumes "sse_reach E (t, w)"
  shows "\<not> can_resume t \<and> resume_sse_connection E (t, w) = (Inr (), t, w)"
  using sse_reach_ok [OF assms] by (simp add: sse_ok_def can_resume_def resume_sse_connection_def)

section \<open>Answers on a stream\<close>

definition answers_id :: "string \<Rightarrow> JsonRpcMessage \<Rightarrow> bool" where
  "answers_id i m \<longleftrightarrow> (case m of Response r \<Rightarrow> request_id_display (resp_id r) = i | _ \<Rightarrow> False)"

lemma wait_stream_found:
  assumes "\<forall>w. fst (se_recv E w) = InTime" and "\<not> list_ex (answers_id i) pre"
    and "request_id_display (resp_id r) = i"
  shows "\<exists>w'. wait_stream E i (pre @ Response r # post) w = (Finished (Inr (Some r)), post, w')"
  using assms(2)
proof (induction pre arbitrary: w)
  case Nil
  from assms(1) obtain w' where "se_recv E w = (InTime, w')" by (metis prod.collapse)
  with assms(3) show ?case by simp
next
  case (Cons m pre)
  from assms(1) obtain w' where "se_recv E w = (InTime, w')" by (metis prod.collapse)
  with Cons show ?case by (auto simp: answers_id_def split: JsonRpcMessage.splits)
qed

text \<open>Answers on a stream. A request over the modern protocol whose answer comes as an event
  stream returns the first response on the stream that carries its identifier, if the messages
  arrive in time: announcements, foreign responses and notifications before it are skipped, and
  what follows stays in the stream. Each such answer is counted as two received responses.\<close>

theorem sse_stream_answer:
  assumes "info_connected (hss_info t)" and "sm_protocol (hss_manager t) = StreamableHttp"
    and "\<not> monitored (hss_manager t)" and "\<forall>w. fst (se_recv E w) = InTime"
    and "se_exchange E (sse_post E (hss_base_url t) (opt_header ''Mcp-Session-Id'' (hss_session_id t)
           @ opt_header ''Last-Event-ID'' (hss_last_event_id t)) (Request rq)) w = (SseResponded resp, w1)"
    and "header_str resp ''mcp-session-id'' = None"
    and "header_str resp ''content-type'' = Some ''text/event-stream''"
    and "forwarded E (sr_events resp) = pre @ Response r # post"
    and "\<not> list_ex (answers_id (request_id_display (req_id rq))) pre"
    and "request_id_display (resp_id r) = request_id_display (req_id rq)"
  shows "\<exists>w'. hss_send_request E rq d (t, w) = (Inr r, t\<lparr>hss_stream := Some post,
     hss_info := (hss_info t)\<lparr>info_requests_sent := info_requests_sent (hss_info t) + 1,
       info_responses_received := info_responses_received (hss_info t) + 2\<rparr>\<rparr>, w')"
proof -
  let ?i = "request_id_display (req_id rq)"
  from wait_stream_found [OF assms(4,9,10)] obtain w' where
    w': "wait_stream E ?i (pre @ Response r # post) w1 = (Finished (Inr (Some r)), post, w')" by blast
  have "wait_for_sse_response E ?i (handle_sse_response E resp t, w1)
      = (Finished (Inr r), count_response (t\<lparr>hss_stream := Some post\<rparr>), w')"
    using assms(3,8) w' by (simp add: wait_for_sse_response_def handle_sse_response_def)
  then have "sse_send_mcp_request E (Request rq) (t, w)
      = (Finished (Inr (Some r)), count_response (t\<lparr>hss_stream := Some post\<rparr>), w')"
    using assms(2,5-7)
    by (simp add: sse_send_mcp_request_def bind_act_def get_fresh_session_id_def
        detect_protocol_version_def send_streamable_http_request_def sse_exchange_def keep_session_def
        ret_def await_answer_def open_stream_def modify_def starts_with_def)
  then show ?thesis using assms(1)
    by (intro exI [of _ w']) (simp add: hss_send_request_def hss_is_connected_def info_ops)
qed

section \<open>Example\<close>

definition sample_answer :: JsonRpcResponse where
  "sample_answer = \<lparr>resp_jsonrpc = ''2.0'', resp_id = IdNumber 1, resp_result = Some Null, resp_error = None\<rparr>"

definition sample_sse :: "unit sse_env" where
  "sample_sse =
     \<lparr>se_exchange = (\<lambda>r w. (SseResponded \<lparr>sr_status = 200,
        sr_headers = [(''content-type'', ''text/event-stream'')], sr_body = BodyText [],
        sr_events = [Event \<lparr>ev_id = ''7'', ev_data = ''/mcp?sessionId=1''\<rparr>,
                     Event \<lparr>ev_id = ''8'', ev_data = ''note''\<rparr>, Event \<lparr>ev_id = ''9'', ev_data = ''answer''\<rparr>]\<rparr>, w)),
      se_call = (\<lambda>r w. (Inr \<lparr>sr_status = 200, sr_headers = [], sr_body = BodyText [], sr_events = []\<rparr>, w)),
      se_clock = (\<lambda>w. 0), se_message_json = (\<lambda>m. []), se_response_of = (\<lambda>s. Inl ''no JSON''),
      se_message_of = (\<lambda>s. if s = ''answer'' then Some (Response sample_answer)
        else if s = ''note'' then Some (Notification \<lparr>notif_jsonrpc = ''2.0'', notif_method = ''n'', notif_params = None\<rparr>)
        else None),
      se_join = (\<lambda>u s. Inr u), se_set_query = (\<lambda>q u. u), se_client_ok = (\<lambda>h d. Inr ()),
      se_sessions = (\<lambda>w. ([], w)), se_sleep = (\<lambda>w. (False, w)), se_headers_json = (\<lambda>h. Null),
      se_polls = (\<lambda>w. ([], False, w)), se_recv = (\<lambda>w. (InTime, w)),
      se_debug = \<lparr>debug_duration = (\<lambda>d. []), debug_strings = (\<lambda>ss. [])\<rparr>\<rparr>"

definition sample_url :: url where
  "sample_url = \<lparr>url_scheme = ''http'', url_host = Some ''localhost'', url_path = ''/mcp'',
     url_text = ''http://localhost/mcp''\<rparr>"

definition sample_sse_transport :: HttpSseTransport where
  "sample_sse_transport = \<lparr>hss_config = HttpSse (HttpSseConfig_new sample_url),
     hss_info = TransportInfo_new sse_type, hss_session_id = None, hss_base_url = sample_url,
     hss_stream = None, hss_last_event_id = None, hss_security = SecurityConfig_default,
     hss_manager = SessionManager_default\<rparr>"

lemma sample_new: "HttpSseTransport_new sample_sse (HttpSse (HttpSseConfig_new sample_url)) = Inr sample_sse_transport"
  by (simp add: HttpSseTransport_new_def build_http_client_def sample_sse_def sample_url_def
      HttpSseConfig_new_def build_security_config_def sample_sse_transport_def
      SecurityConfig_default_def)

definition sample_connected :: HttpSseTransport where
  "sample_connected = fst (snd (hss_connect sample_sse (sample_sse_transport, ())))"

lemma sample_connected_reach: "sse_reach sample_sse (sample_connected, ())"
  using sse_connect [OF sse_new [OF sample_new], of "()"]
  unfolding sample_connected_def by (metis prod.collapse old.unit.exhaust)

lemmas sample_connected_simp = sample_connected_def hss_connect_def sample_sse_transport_def
  start_continuous_session_monitoring_def SessionManager_default_def sample_url_def
  sample_sse_def info_ops

theorem sse_reach_secure_witness:
  "sse_reach sample_sse (sample_connected, ()) \<and> secure_url (hss_base_url sample_connected)
   \<and> url_path (hss_base_url sample_connected) = ''/mcp'' \<and> hss_session_id sample_connected = Some ''default''"
  using sse_reach_secure [OF sample_connected_reach] sample_connected_reach
  by (simp add: sample_connected_simp)

theorem sse_never_resumes_witness:
  "sse_reach sample_sse (sample_connected, ()) \<and> \<not> can_resume sample_connected"
  using sse_never_resumes [OF sample_connected_reach] sample_connected_reach by simp

theorem sse_stream_answer_witness:
  "fst (hss_send_request sample_sse (request_without_params (IdNumber 1) ''tools/list'') None
     (sample_connected, ())) = Inr sample_answer"
proof -
  let ?rq = "request_without_params (IdNumber 1) ''tools/list''"
  let ?n = "Notification \<lparr>notif_jsonrpc = ''2.0'', notif_method = ''n'', notif_params = None\<rparr>"
  have "\<exists>w'. hss_send_request sample_sse ?rq None (sample_connected, ()) = (Inr sample_answer,
     sample_connected\<lparr>hss_stream := Some [],
     hss_info := (hss_info sample_connected)\<lparr>info_requests_sent := info_requests_sent (hss_info sample_connected) + 1,
       info_responses_received := info_responses_received (hss_info sample_connected) + 2\<rparr>\<rparr>, w')"
    by (rule sse_stream_answer [where resp = "\<lparr>sr_status = 200,
        sr_headers = [(''content-type'', ''text/event-stream'')], sr_body = BodyText [],
        sr_events = [Event \<lparr>ev_id = ''7'', ev_data = ''/mcp?sessionId=1''\<rparr>,
                     Event \<lparr>ev_id = ''8'', ev_data = ''note''\<rparr>, Event \<lparr>ev_id = ''9'', ev_data = ''answer''\<rparr>]\<rparr>"
        and pre = "[?n]"])
      (simp_all add: sample_connected_simp header_str_def header_to_str_def starts_with_def answers_id_def
        request_without_params_def sample_answer_def)
  then show ?thesis by auto
qed

end
