(* ===== verification/Base64.thy ===== *)
theory Base64
  imports Acdp_Prelude
begin

text \<open>
  The hand-written Base64 encoder of the transport factory
  (\<open>base64_encode\<close> in \<open>acdp-core/src/transport/factory.rs\<close>), an index loop over a byte
  slice that packs three bytes into a \<open>u32\<close> and takes four groups of six bits. The reference
  is RFC 4648 read literally: all bits of the input in order, zero bits up to a multiple of
  six, one character per group, padding characters up to a multiple of four; and the decoder
  that goes with it.
\<close>

unbundle bit_operations_syntax

section \<open>The encoder of the code\<close>

definition CHARSET :: string where
  "CHARSET = ''ABCDEFGHIJKLMNOPQRSTUVWXYZabcdefghijklmnopqrstuvwxyz0123456789+/''"

text \<open>The loop: \<open>i\<close> is the index, and \<open>result\<close> the string built so far.\<close>

function base64_loop :: "bytes \<Rightarrow> nat \<Rightarrow> string \<Rightarrow> string" where
  "base64_loop input i result =
     (if i < length input then
        let byte1 = input ! i;
            byte2 = (if i + 1 < length input then input ! (i + 1) else 0);
            byte3 = (if i + 2 < length input then input ! (i + 2) else 0);
            combined = push_bit 16 (ucast byte1 :: u32) OR push_bit 8 (ucast byte2) OR ucast byte3;
            result = result @ [CHARSET ! unat (drop_bit 18 combined AND 0x3F)];
            result = result @ [CHARSET ! unat (drop_bit 12 combined AND 0x3F)];
            result = (if i + 1 < length input
                      then result @ [CHARSET ! unat (drop_bit 6 combined AND 0x3F)]
                      else result @ ''='');
            result = (if i + 2 < length input
                      then result @ [CHARSET ! unat (combined AND 0x3F)]
                      else result @ ''='')
        in base64_loop input (i + 3) result
      else result)"
  by pat_completeness auto
termination
  by (relation "measure (\<lambda>(input, i, result). length input - i)") auto

declare base64_loop.simps [simp del]

definition base64_encode :: "bytes \<Rightarrow> string" where
  "base64_encode input = base64_loop input 0 []"

section \<open>The reference\<close>

definition byte_bits :: "u8 \<Rightarrow> bool list" where
  "byte_bits b = map (bit b) [7, 6, 5, 4, 3, 2, 1, 0]"

definition bits_value :: "bool list \<Rightarrow> nat" where
  "bits_value bs = horner_sum of_bool 2 (rev bs)"

text \<open>Groups of \<open>n\<close> elements; the last one may be shorter.\<close>

function groups_of :: "nat \<Rightarrow> 'a list \<Rightarrow> 'a list list" where
  "groups_of n xs = (if xs = [] \<or> n = 0 then [] else take n xs # groups_of n (drop n xs))"
  by pat_completeness auto
termination
  by (relation "measure (length \<circ> snd)") auto

declare groups_of.simps [simp del]

definition pad_group :: "bool list \<Rightarrow> bool list" where
  "pad_group g = g @ replicate (6 - length g) False"

definition padding :: "nat \<Rightarrow> string" where
  "padding n = replicate ((4 - n mod 4) mod 4) (CHR ''='')"

definition rfc4648_encode :: "bytes \<Rightarrow> string" where
  "rfc4648_encode input =
     (let text = map (\<lambda>g. CHARSET ! bits_value (pad_group g)) (groups_of 6 (concat (map byte_bits input)))
      in text @ padding (length text))"

definition char_index :: "char \<Rightarrow> nat" where
  "char_index c = length (takeWhile (\<lambda>d. d \<noteq> c) CHARSET)"

definition value_bits :: "nat \<Rightarrow> nat \<Rightarrow> bool list" where
  "value_bits k v = map (bit v) (rev [0..<k])"

definition bits_byte :: "bool list \<Rightarrow> u8" where
  "bits_byte bs = of_nat (bits_value bs)"

definition rfc4648_decode :: "string \<Rightarrow> bytes" where
  "rfc4648_decode s =
     (let bits = concat (map (\<lambda>c. value_bits 6 (char_index c)) (filter (\<lambda>c. c \<noteq> CHR ''='') s))
      in map bits_byte (filter (\<lambda>g. length g = 8) (groups_of 8 bits)))"

section \<open>The loop reads its input in groups of three\<close>

fun encode3 :: "bytes \<Rightarrow> string" where
  "encode3 [] = []"
| "encode3 [a] =
     (let c = push_bit 16 (ucast a :: u32)
      in [CHARSET ! unat (drop_bit 18 c AND 0x3F), CHARSET ! unat (drop_bit 12 c AND 0x3F)] @ ''=='')"
| "encode3 [a, b] =
     (let c = push_bit 16 (ucast a :: u32) OR push_bit 8 (ucast b)
      in [CHARSET ! unat (drop_bit 18 c AND 0x3F), CHARSET ! unat (drop_bit 12 c AND 0x3F),
          CHARSET ! unat (drop_bit 6 c AND 0x3F)] @ ''='')"
| "encode3 (a # b # d # xs) =
     (let c = push_bit 16 (ucast a :: u32) OR push_bit 8 (ucast b) OR ucast d
      in [CHARSET ! unat (drop_bit 18 c AND 0x3F), CHARSET ! unat (drop_bit 12 c AND 0x3F),
          CHARSET ! unat (drop_bit 6 c AND 0x3F), CHARSET ! unat (c AND 0x3F)] @ encode3 xs)"

lemma base64_loop_encode3: "base64_loop (ys @ xs) (length ys) r = r @ encode3 xs"
proof (induction xs arbitrary: ys r rule: encode3.induct)
  case 1
  show ?case by (simp add: base64_loop.simps [of ys])
next
  case (2 a)
  show ?case
    by (simp add: base64_loop.simps [of "ys @ [a]"] base64_loop.simps [of _ "length ys + 3"]
        nth_append Let_def)
next
  case (3 a b)
  show ?case
    by (simp add: base64_loop.simps [of "ys @ [a, b]"] base64_loop.simps [of _ "length ys + 3"]
        nth_append Let_def)
next
  case (4 a b d xs)
  have "base64_loop (ys @ a # b # d # xs) (length ys + 3) r' = r' @ encode3 xs" for r'
    using "4.IH" [OF refl, of "ys @ [a, b, d]" r'] by (simp add: numeral_3_eq_3)
  then show ?case
    by (simp add: base64_loop.simps [of "ys @ a # b # d # xs" "length ys"] nth_append Let_def)
qed

lemma base64_encode3: "base64_encode xs = encode3 xs"
  using base64_loop_encode3 [of "[]" xs "[]"] by (simp add: base64_encode_def)

section \<open>Six bits at a time\<close>

lemma bit_byte_ge: "8 \<le> n \<Longrightarrow> \<not> bit (b :: u8) n"
  using bit_imp_le_length [of b n] by auto

lemma bits_value_word:
  "bits_value [a, b, c, d, e, f] = unat (horner_sum of_bool 2 [f, e, d, c, b, a] :: u32)"
  by (cases a; cases b; cases c; cases d; cases e; cases f)
    (simp_all add: bits_value_def horner_sum_simps)

lemma sextet:
  fixes c :: u32
  shows "unat (drop_bit k c AND 0x3F)
    = bits_value [bit c (k + 5), bit c (k + 4), bit c (k + 3), bit c (k + 2), bit c (k + 1), bit c k]"
proof -
  have "drop_bit k c AND 0x3F = take_bit 6 (drop_bit k c)"
    by (simp add: take_bit_eq_mask mask_eq_exp_minus_1)
  also have "\<dots> = horner_sum of_bool 2 (map (bit (drop_bit k c)) [0..<6])"
    by (simp add: horner_sum_bit_eq_take_bit)
  also have "map (bit (drop_bit k c)) [0..<6]
      = [bit c k, bit c (k + 1), bit c (k + 2), bit c (k + 3), bit c (k + 4), bit c (k + 5)]"
    by (simp add: upt_rec bit_simps numeral_eq_Suc)
  finally show ?thesis by (simp add: bits_value_word)
qed

lemma sextet_0:
  fixes c :: u32
  shows "unat (c AND 0x3F) = bits_value [bit c 5, bit c 4, bit c 3, bit c 2, bit c 1, bit c 0]"
  using sextet [of 0 c] by (simp only: drop_bit_0 id_apply add_0)

lemmas sextets = sextet sextet_0

lemma groups_of_append:
  "length g = n \<Longrightarrow> 0 < n \<Longrightarrow> groups_of n (g @ xs) = g # groups_of n xs"
  by (subst groups_of.simps) auto

lemma groups_of_short:
  "xs \<noteq> [] \<Longrightarrow> length xs \<le> n \<Longrightarrow> groups_of n xs = [xs]"
  by (cases n) (simp_all add: groups_of.simps)

lemma groups_of_Nil [simp]: "groups_of n [] = []"
  by (simp add: groups_of.simps)

lemma groups_of_6:
  "groups_of 6 (a # b # c # d # e # f # xs) = [a, b, c, d, e, f] # groups_of 6 xs"
  using groups_of_append [of "[a, b, c, d, e, f]" 6 xs] by simp

lemma pad_group_simps [simp]:
  "pad_group [a, b] = [a, b, False, False, False, False]"
  "pad_group [a, b, c, d] = [a, b, c, d, False, False]"
  "pad_group [a, b, c, d, e, f] = [a, b, c, d, e, f]"
  by (simp_all add: pad_group_def numeral_eq_Suc)

lemma padding_simps [simp]:
  "padding 0 = []" "padding (Suc (Suc 0)) = ''==''" "padding (Suc (Suc (Suc 0))) = ''=''"
  "padding (Suc (Suc (Suc (Suc n)))) = padding n"
proof -
  have "Suc (Suc (Suc (Suc n))) = n + 4" by simp
  then show "padding (Suc (Suc (Suc (Suc n)))) = padding n"
    by (simp only: padding_def mod_add_self2)
qed (code_simp+)

lemma rfc4648_cons3:
  "rfc4648_encode (a # b # d # xs) = encode3 [a, b, d] @ rfc4648_encode xs"
  by (simp add: rfc4648_encode_def byte_bits_def groups_of_6 Let_def sextets bit_simps bit_byte_ge)

lemma base64_encode_rfc4648: "base64_encode input = rfc4648_encode input"
proof -
  have "encode3 input = rfc4648_encode input"
  proof (induction input rule: encode3.induct)
    case 1
    show ?case by (simp add: rfc4648_encode_def)
  next
    case (2 a)
    show ?case
      by (simp add: rfc4648_encode_def byte_bits_def groups_of_6 groups_of_short Let_def sextets
          bit_simps bit_byte_ge)
  next
    case (3 a b)
    show ?case
      by (simp add: rfc4648_encode_def byte_bits_def groups_of_6 groups_of_short Let_def sextets
          bit_simps bit_byte_ge)
  next
    case (4 a b d xs)
    then show ?case by (simp add: rfc4648_cons3 Let_def)
  qed
  then show ?thesis by (simp add: base64_encode3)
qed

section \<open>Decoding\<close>

lemma CHARSET_facts: "length CHARSET = 64" "distinct CHARSET" "CHR ''='' \<notin> set CHARSET"
  by (code_simp+)

lemma char_index_nth: "v < 64 \<Longrightarrow> char_index (CHARSET ! v) = v"
proof -
  assume "v < 64"
  then have v: "v < length CHARSET" by (simp add: CHARSET_facts)
  have "takeWhile (\<lambda>d. d \<noteq> CHARSET ! v) CHARSET = take v CHARSET"
  proof (rule takeWhile_eq_take_P_nth)
    show "\<And>i. i < v \<Longrightarrow> i < length CHARSET \<Longrightarrow> CHARSET ! i \<noteq> CHARSET ! v"
      using v CHARSET_facts(2) by (simp add: nth_eq_iff_index_eq)
  qed simp
  with v show ?thesis by (simp add: char_index_def)
qed

lemma bits_value_less: "bits_value bs < 2 ^ length bs"
  by (induction bs rule: rev_induct) (auto simp: bits_value_def)

lemma value_bits_value: "length bs = k \<Longrightarrow> value_bits k (bits_value bs) = bs"
  by (auto simp: value_bits_def bits_value_def bit_horner_sum_bit_iff rev_nth
      intro!: nth_equalityI)

lemma of_nat_horner: "of_nat (horner_sum of_bool 2 bs) = (horner_sum of_bool 2 bs :: 'a::comm_semiring_1)"
  by (induction bs) auto

lemma bits_byte_bits [simp]: "bits_byte (byte_bits b) = b"
proof -
  have "rev (byte_bits b) = map (bit b) [0..<8]"
    by (simp add: byte_bits_def upt_rec numeral_eq_Suc)
  then have "(of_nat (bits_value (byte_bits b)) :: u8) = horner_sum of_bool 2 (map (bit b) [0..<8])"
    by (simp add: bits_value_def of_nat_horner)
  also have "\<dots> = b" by (simp add: horner_sum_bit_eq_take_bit take_bit_word_eq_self)
  finally show ?thesis by (simp add: bits_byte_def)
qed

lemma length_byte_bits [simp]: "length (byte_bits b) = 8"
  by (simp add: byte_bits_def)

text \<open>Padding every group to six bits adds fewer than six zero bits after the input bits.\<close>

lemma concat_pad_groups:
  "\<exists>k<6. concat (map pad_group (groups_of 6 bs)) = bs @ replicate k False"
proof (induction "6 :: nat" bs rule: groups_of.induct)
  case (1 bs)
  show ?case
  proof (cases "length bs < 6")
    case True
    then show ?thesis
      by (cases "bs = []") (auto simp: groups_of_short pad_group_def intro: exI [of _ "6 - length bs"])
  next
    case False
    then have "bs \<noteq> []" by auto
    with 1 obtain k where "k < 6"
      "concat (map pad_group (groups_of 6 (drop 6 bs))) = drop 6 bs @ replicate k False" by auto
    with False show ?thesis
      by (subst groups_of.simps) (auto simp: pad_group_def simp flip: append_assoc)
  qed
qed

lemma groups_of_8_bytes:
  assumes "length zs < 8"
  shows "filter (\<lambda>g. length g = 8) (groups_of 8 (concat (map byte_bits xs) @ zs)) = map byte_bits xs"
proof (induction xs)
  case Nil
  show ?case using assms by (cases "zs = []") (auto simp: groups_of_short)
next
  case (Cons x xs)
  then show ?case by (simp add: groups_of_append)
qed

lemma groups_of_length: "g \<in> set (groups_of n xs) \<Longrightarrow> length g \<le> n"
  by (induction n xs rule: groups_of.induct) (subst (asm) (2) groups_of.simps, auto split: if_splits)

lemma base64_roundtrip: "rfc4648_decode (base64_encode input) = input"
proof -
  let ?gs = "groups_of 6 (concat (map byte_bits input))"
  let ?text = "map (\<lambda>g. CHARSET ! bits_value (pad_group g)) ?gs"
  have len: "length (pad_group g) = 6" if "g \<in> set ?gs" for g
    using groups_of_length [OF that] by (simp add: pad_group_def)
  have val: "bits_value (pad_group g) < 64" if "g \<in> set ?gs" for g
    using bits_value_less [of "pad_group g"] len [OF that] by simp
  have "set ?text \<subseteq> set CHARSET"
    using val by (auto simp: CHARSET_facts intro: nth_mem)
  then have "CHR ''='' \<notin> set ?text" using CHARSET_facts(3) by blast
  then have filt: "filter (\<lambda>c. c \<noteq> CHR ''='') (?text @ padding n) = ?text" for n
    by (simp add: padding_def filter_id_conv) (metis image_eqI)
  have "concat (map (\<lambda>c. value_bits 6 (char_index c)) ?text) = concat (map pad_group ?gs)"
    by (rule arg_cong [of _ _ concat])
      (auto simp: char_index_nth val value_bits_value len)
  moreover obtain k where "k < 6" "concat (map pad_group ?gs) = concat (map byte_bits input) @ replicate k False"
    using concat_pad_groups by blast
  ultimately have bits: "concat (map (\<lambda>c. value_bits 6 (char_index c)) ?text)
      = concat (map byte_bits input) @ replicate k False" by simp
  have "base64_encode input = ?text @ padding (length ?text)"
    by (simp only: base64_encode_rfc4648 rfc4648_encode_def Let_def)
  then show ?thesis
    using \<open>k < 6\<close> by (simp only: rfc4648_decode_def Let_def filt bits) (simp add: groups_of_8_bytes comp_def)
qed

text \<open>C31 (Base64 as in RFC 4648). The index loop computes the reference encoding for inputs of
  every length, and the reference decoder recovers the input.\<close>

theorem base64_correct:
  "base64_encode input = rfc4648_encode input \<and> rfc4648_decode (base64_encode input) = input"
  by (simp only: base64_encode_rfc4648 [symmetric] base64_roundtrip simp_thms)

end
