(* ===== verification/Transport_Factory.thy ===== *)
theory Transport_Factory
  imports Stdio_Transport Http_Sse Base64
begin

text \<open>
  The transport factory (\<open>acdp-core/src/transport/factory.rs\<close>) with the default features,
  which compile in all three transports: validation, the choice of the transport, the
  authorisation header of the streaming transport, and creation with retries.
\<close>

section \<open>Creation\<close>

datatype transport = StdioT StdioTransport | SseT HttpSseTransport | StreamT HttpStreamTransport

record 'w factory_env =
  fac_exists :: "string \<Rightarrow> bool"
  fac_http :: "'w http_env"
  fac_sse :: "'w sse_env"

definition auth_header_value :: "AuthConfig \<Rightarrow> string" where
  "auth_header_value auth = (case auth of
     BearerAuth token \<Rightarrow> token
   | BasicAuth username password \<Rightarrow>
       ''Basic '' @ base64_encode (str_bytes (username @ '':'' @ password))
   | HeaderAuth name val \<Rightarrow> val
   | OAuthConfig _ _ _ _ \<Rightarrow> ''Bearer oauth-token'')"

definition create :: "'w factory_env \<Rightarrow> TransportConfig \<Rightarrow> transport mcp_result rust" where
  "create E config = (case config_validate (fac_exists E) config of
     Inl e \<Rightarrow> Done (Inl e)
   | Inr _ \<Rightarrow>
       (case config of
          Stdio _ \<Rightarrow> Done (Inr (StdioT (StdioTransport_new config)))
        | HttpSse _ \<Rightarrow> Done (and_then (HttpSseTransport_new (fac_sse E) config) (\<lambda>t. Inr (SseT t)))
        | HttpStream c \<Rightarrow>
            map_rust (\<lambda>t. Inr (StreamT t))
              (HttpStreamTransport_new (fac_http E) (url_text (stream_base_url c))
                 (map_option auth_header_value (stream_auth c)))))"

definition supported_transports :: "string list" where
  "supported_transports = [''stdio'', ''http-sse'', ''http-stream'']"

text \<open>The loop over \<open>0..=max_retries\<close>: \<open>left\<close> attempts remain after this one. The
  environment may differ between attempts; the delays slept are collected.\<close>

fun create_attempts ::
  "(nat \<Rightarrow> 'w factory_env) \<Rightarrow> TransportConfig \<Rightarrow> duration \<Rightarrow> nat \<Rightarrow> nat
     \<Rightarrow> (transport mcp_result \<times> duration list) rust" where
  "create_attempts E config delay attempt left =
     (case create (E attempt) config of
        Panic \<Rightarrow> Panic
      | Done (Inr t) \<Rightarrow> Done (Inr t, [])
      | Done (Inl e) \<Rightarrow>
          (case left of
             0 \<Rightarrow> Done (Inl e, [])
           | Suc left \<Rightarrow>
               map_rust (\<lambda>(r, ds). (r, delay # ds)) (create_attempts E config delay (Suc attempt) left)))"

definition create_with_retry ::
  "(nat \<Rightarrow> 'w factory_env) \<Rightarrow> TransportConfig \<Rightarrow> u32 \<Rightarrow> duration
     \<Rightarrow> (transport mcp_result \<times> duration list) rust" where
  "create_with_retry E config max_retries retry_delay =
     create_attempts E config retry_delay 0 (unat max_retries)"

declare create_attempts.simps [simp del]

section \<open>Retries\<close>

lemma create_attempts_first:
  assumes "\<forall>k<n. \<exists>e. create (E (a + k)) config = Done (Inl e)" and "n \<le> left"
    and "create (E (a + n)) config = Done (Inr t)"
  shows "create_attempts E config d a left = Done (Inr t, replicate n d)"
  using assms
proof (induction n arbitrary: a left)
  case 0
  then show ?case by (simp add: create_attempts.simps)
next
  case (Suc n)
  from Suc.prems(1) obtain e where "create (E a) config = Done (Inl e)"
    by (metis add.right_neutral zero_less_Suc)
  moreover obtain l where l: "left = Suc l" using Suc.prems(2) by (cases left) auto
  moreover have "create_attempts E config d (Suc a) l = Done (Inr t, replicate n d)"
    using Suc.prems l by (intro Suc.IH) (force, simp_all)
  ultimately show ?case by (subst create_attempts.simps) simp
qed

lemma create_attempts_fail:
  assumes "\<forall>k\<le>left. \<exists>e. create (E (a + k)) config = Done (Inl e)"
  shows "\<exists>e. create (E (a + left)) config = Done (Inl e)
    \<and> create_attempts E config d a left = Done (Inl e, replicate left d)"
  using assms
proof (induction left arbitrary: a)
  case 0
  then show ?case by (auto simp: create_attempts.simps)
next
  case (Suc l)
  from Suc.prems obtain e where "create (E a) config = Done (Inl e)"
    by (metis add.right_neutral le0)
  moreover from Suc.prems have "\<forall>k\<le>l. \<exists>e. create (E (Suc a + k)) config = Done (Inl e)" by force
  from Suc.IH [OF this] obtain e' where "create (E (Suc a + l)) config = Done (Inl e')"
    "create_attempts E config d (Suc a) l = Done (Inl e', replicate l d)" by blast
  ultimately show ?case by (subst create_attempts.simps) simp
qed

text \<open>Creation with retries. If some attempt within the budget succeeds, the first such
  transport is returned after one delay per failed attempt; if none does, the error of the last
  attempt is returned after \<open>max_retries\<close> delays.\<close>

theorem create_with_retry_first:
  assumes "\<forall>k\<le>unat max_retries. create (E k) config \<noteq> Panic"
  shows "case find (\<lambda>k. \<exists>t. create (E k) config = Done (Inr t)) [0..<Suc (unat max_retries)] of
      Some n \<Rightarrow> \<exists>t. create (E n) config = Done (Inr t)
        \<and> create_with_retry E config max_retries d = Done (Inr t, replicate n d)
    | None \<Rightarrow> \<exists>e. create (E (unat max_retries)) config = Done (Inl e)
        \<and> create_with_retry E config max_retries d = Done (Inl e, replicate (unat max_retries) d)"
proof -
  have fails: "\<exists>e. create (E k) config = Done (Inl e)"
    if "k \<le> unat max_retries" "\<not> (\<exists>t. create (E k) config = Done (Inr t))" for k
    using assms that by (metis rust.exhaust sumE)
  show ?thesis
  proof (cases "find (\<lambda>k. \<exists>t. create (E k) config = Done (Inr t)) [0..<Suc (unat max_retries)]")
    case None
    then have "\<forall>k\<le>unat max_retries. \<not> (\<exists>t. create (E k) config = Done (Inr t))"
      by (auto simp: find_None_iff less_Suc_eq_le simp del: upt_Suc)
    with fails create_attempts_fail [of "unat max_retries" E 0 config d] None show ?thesis
      by (simp add: create_with_retry_def)
  next
    case (Some n)
    then have n: "n \<le> unat max_retries" "\<exists>t. create (E n) config = Done (Inr t)"
      "\<forall>k<n. \<not> (\<exists>t. create (E k) config = Done (Inr t))"
      by (auto simp: find_Some_iff less_Suc_eq_le simp del: upt_Suc)
    then show ?thesis using fails create_attempts_first [of n E 0 config "unat max_retries" _ d] Some
      by (fastforce simp: create_with_retry_def)
  qed
qed

section \<open>Authorisation\<close>

text \<open>Credentials on the wire. A streaming transport made by the factory posts exactly one
  authorisation header if the configuration has credentials: for user and password the Basic
  scheme with an encoding from which a server decodes them; but a bearer token is sent without
  its scheme, a custom header loses its name, and OAuth settings become a constant.\<close>

theorem factory_authorization:
  assumes "create E (HttpStream c) = Done (Inr (StreamT t))"
  shows "[v. (k, v) \<leftarrow> hr_headers (mcp_post t b body), k = ''Authorization''] =
    (case stream_auth c of
       None \<Rightarrow> []
     | Some (BasicAuth u p) \<Rightarrow> [''Basic '' @ base64_encode (str_bytes (u @ '':'' @ p))]
     | Some (BearerAuth token) \<Rightarrow> [token]
     | Some (HeaderAuth name v) \<Rightarrow> [v]
     | Some (OAuthConfig ci cs u s) \<Rightarrow> [''Bearer oauth-token''])
   \<and> rfc4648_decode (base64_encode (str_bytes (user @ '':'' @ password))) = str_bytes (user @ '':'' @ password)"
proof -
  from assms have "hst_auth_header t = map_option auth_header_value (stream_auth c)"
    by (auto simp: create_def HttpStreamTransport_new_def localhost_url_def split: sum.splits)
  then show ?thesis
    by (simp add: mcp_post_def auth_header_value_def base64_roundtrip
        split: option.splits AuthConfig.splits)
qed

section \<open>Examples\<close>

definition sample_factory :: "nat \<Rightarrow> unit factory_env" where
  "sample_factory n = \<lparr>fac_exists = (\<lambda>d. 2 \<le> n),
     fac_http = sample_http\<lparr>http_parse_url := (\<lambda>s. Inr sample_url)\<rparr>, fac_sse = sample_sse\<rparr>"

definition sample_dir_config :: TransportConfig where
  "sample_dir_config = Stdio (stdio_working_dir ''/work'' (StdioConfig_new ''server''))"

lemma sample_create:
  "create (sample_factory k) sample_dir_config = (if 2 \<le> k
     then Done (Inr (StdioT (StdioTransport_new sample_dir_config)))
     else Done (Inl (Config (InvalidValue ''working_dir'' ''/work'' ''Directory does not exist''))))"
  by (simp add: create_def sample_factory_def sample_dir_config_def stdio_validate_def
      stdio_working_dir_def StdioConfig_new_def)

theorem create_with_retry_first_witness:
  "create_with_retry sample_factory sample_dir_config 3 (secs 1)
     = Done (Inr (StdioT (StdioTransport_new sample_dir_config)), [secs 1, secs 1])"
proof -
  have u: "unat (3 :: u32) = 3" by simp
  have upt: "[0..<4] = [0, 1, 2, 3 :: nat]" by code_simp
  have "find (\<lambda>k. \<exists>t. create (sample_factory k) sample_dir_config = Done (Inr t)) [0..<Suc (unat (3 :: u32))]
      = Some 2" by (simp add: sample_create u upt del: upt_Suc)
  with create_with_retry_first [of 3 sample_factory sample_dir_config "secs 1"] show ?thesis
    by (simp add: sample_create numeral_2_eq_2)
qed

definition sample_stream_config :: HttpStreamConfig where
  "sample_stream_config = stream_with_auth (auth_basic ''user'' ''pass'') (HttpStreamConfig_new sample_url)"

theorem factory_authorization_witness:
  "\<exists>t. create (sample_factory 0) (HttpStream sample_stream_config) = Done (Inr (StreamT t))
     \<and> [v. (k, v) \<leftarrow> hr_headers (mcp_post t True []), k = ''Authorization''] = [''Basic dXNlcjpwYXNz'']"
proof -
  have "\<exists>t. create (sample_factory 0) (HttpStream sample_stream_config) = Done (Inr (StreamT t))"
    by (simp add: create_def sample_factory_def sample_http_def sample_stream_config_def stream_with_auth_def
        HttpStreamConfig_new_def stream_validate_def auth_basic_def auth_validate_def sample_url_def
        HttpStreamTransport_new_def)
  then obtain t where t: "create (sample_factory 0) (HttpStream sample_stream_config) = Done (Inr (StreamT t))"
    by blast
  have "base64_encode (str_bytes (''user'' @ '':'' @ ''pass'')) = ''dXNlcjpwYXNz''" by code_simp
  with factory_authorization [OF t, of True "[]"] t show ?thesis
    by (auto simp: sample_stream_config_def stream_with_auth_def auth_basic_def)
qed

end
