(* ===== verification/Proxy.thy ===== *)
theory Proxy
  imports Http_Proxy Transport_Factory
begin

text \<open>
  The proxy process: command line configuration (\<open>acdp-transport/src/transport_config.rs\<close>), the
  connection to an upstream server with retries (\<open>http_handler.rs\<close>,
  \<open>backend_connection.rs\<close>), and the supervision of a child process with restarts
  (\<open>proxy.rs\<close>). What the operating system answers is an argument: whether a spawn succeeds, the
  events of each run of the child, the outcome of each attempt to create a transport.
\<close>

section \<open>Configuration\<close>

datatype InboundTransport = InStdio | InHttpSse string | InHttpStream string

datatype OutboundTransport =
    OutStdio string bool
  | OutHttpSse string "string option"
  | OutHttpStream string "string option"

record ProxyTransportConfig =
  pt_inbound :: InboundTransport
  pt_outbound :: OutboundTransport

definition proxy_transport_type :: "ProxyTransportConfig \<Rightarrow> TransportType" where
  "proxy_transport_type c = (case pt_outbound c of
     OutStdio _ _ \<Rightarrow> StdioType | OutHttpSse _ _ \<Rightarrow> HttpSseType | OutHttpStream _ _ \<Rightarrow> HttpStreamType)"

definition display_target :: "ProxyTransportConfig \<Rightarrow> string" where
  "display_target c = (case pt_outbound c of
     OutStdio cmd _ \<Rightarrow> cmd | OutHttpSse u _ \<Rightarrow> u | OutHttpStream u _ \<Rightarrow> u)"

definition inbound_descriptor :: "ProxyTransportConfig \<Rightarrow> string" where
  "inbound_descriptor c = (case pt_inbound c of
     InStdio \<Rightarrow> ''stdio'' | InHttpSse a \<Rightarrow> ''http-sse@'' @ a | InHttpStream a \<Rightarrow> ''http-stream@'' @ a)"

primrec inbound_name :: "InboundTransport \<Rightarrow> string" where
  "inbound_name InStdio = ''stdio''"
| "inbound_name (InHttpSse a) = ''http-sse''"
| "inbound_name (InHttpStream a) = ''http-stream''"

primrec outbound_name :: "OutboundTransport \<Rightarrow> string" where
  "outbound_name (OutStdio c s) = ''stdio''"
| "outbound_name (OutHttpSse u k) = ''http-sse''"
| "outbound_name (OutHttpStream u k) = ''http-stream''"

definition bind_address :: "u16 option \<Rightarrow> string" where
  "bind_address port = ''127.0.0.1:'' @ show_nat (case port of Some p \<Rightarrow> unat p | None \<Rightarrow> 0)"

definition parse_inbound :: "string \<Rightarrow> u16 option \<Rightarrow> string + InboundTransport" where
  "parse_inbound inbound in_port =
     (if inbound = ''stdio'' then Inr InStdio
      else if inbound = ''http-sse'' then Inr (InHttpSse (bind_address in_port))
      else if inbound = ''http-stream'' then Inr (InHttpStream (bind_address in_port))
      else Inl (''Invalid inbound transport '' @ sq @ inbound @ sq
             @ ''. Expected one of: stdio, http-sse, http-stream''))"

definition parse_outbound ::
  "string \<Rightarrow> string option \<Rightarrow> string option \<Rightarrow> bool \<Rightarrow> string option \<Rightarrow> string + OutboundTransport" where
  "parse_outbound outbound cmd url use_shell api_key =
     (if outbound = ''stdio'' then (case cmd of
          Some c \<Rightarrow> Inr (OutStdio c use_shell)
        | None \<Rightarrow> Inl ''--command is required when --out stdio is specified'')
      else if outbound = ''http-sse'' then (case url of
          Some u \<Rightarrow> Inr (OutHttpSse u api_key)
        | None \<Rightarrow> Inl ''--url is required when --out http-sse is specified'')
      else if outbound = ''http-stream'' then (case url of
          Some u \<Rightarrow> Inr (OutHttpStream u api_key)
        | None \<Rightarrow> Inl ''--url is required when --out http-stream is specified'')
      else Inl (''Invalid outbound transport '' @ sq @ outbound @ sq
             @ ''. Expected one of: stdio, http-sse, http-stream''))"

definition matching :: "InboundTransport \<Rightarrow> OutboundTransport \<Rightarrow> bool" where
  "matching i out = (case (i, out) of
     (InStdio, OutStdio _ _) \<Rightarrow> True
   | (InHttpSse _, OutHttpSse _ _) \<Rightarrow> True
   | (InHttpStream _, OutHttpStream _ _) \<Rightarrow> True
   | _ \<Rightarrow> False)"

definition from_cli_args ::
  "string \<Rightarrow> string \<Rightarrow> string option \<Rightarrow> string option \<Rightarrow> bool \<Rightarrow> string option \<Rightarrow> u16 option
     \<Rightarrow> string + ProxyTransportConfig" where
  "from_cli_args inbound outbound cmd url use_shell api_key in_port =
     and_then (parse_inbound inbound in_port) (\<lambda>i.
     and_then (parse_outbound outbound cmd url use_shell api_key) (\<lambda>out.
       if matching i out then Inr \<lparr>pt_inbound = i, pt_outbound = out\<rparr>
       else Inl (''Unsupported transport combination: inbound '' @ sq @ inbound_name i @ sq
              @ '' with outbound '' @ sq @ outbound_name out @ sq)))"

section \<open>Interceptors of the HTTP handler\<close>

definition base_interceptor_manager ::
  "proxy_ext \<Rightarrow> RoutingMode \<Rightarrow> string \<Rightarrow> proxy_interceptor InterceptorManager" where
  "base_interceptor_manager X mode ts =
     (if mode \<noteq> BypassMode
      then add_interceptor (proxy_ops X) manager_new (Demo (add_rule TransformInterceptor_new (demo_rule ts)))
      else manager_new)"

definition build_interceptor_manager ::
  "proxy_ext \<Rightarrow> RoutingMode \<Rightarrow> string \<Rightarrow> LlmInterceptor option \<Rightarrow> proxy_interceptor InterceptorManager" where
  "build_interceptor_manager X mode ts llm = (case llm of
     None \<Rightarrow> base_interceptor_manager X mode ts
   | Some i \<Rightarrow> add_interceptor (proxy_ops X) (base_interceptor_manager X mode ts) (Routing i))"

text \<open>The handler once its client is connected.\<close>

definition HttpHandler_new ::
  "ProxyId \<Rightarrow> bool \<Rightarrow> SessionId \<Rightarrow> bool \<Rightarrow> RoutingMode \<Rightarrow> ('t, 'i) McpClient \<Rightarrow> ('t, 'i) HttpHandler" where
  "HttpHandler_new pid ipc sid llm mode c = \<lparr>hh_proxy_id = pid, hh_ipc = (if ipc then Some [] else None),
     hh_session_id = sid, hh_has_llm = llm, hh_routing_mode = mode, hh_tools = None, hh_client = c\<rparr>"

datatype 'e http_event =
    HttpShutdown
  | HttpJob "'e icall" "nat \<Rightarrow> nat \<Rightarrow> 'e icall \<times> 'e icall" duration duration TuiQueryJob
  | NoReceiver

text \<open>The loop of \<open>handle_communication\<close>; it returns the completions sent, by correlation
  identifier, and whether it was shut down. Without a receiver the branch of the queries is
  always ready and does nothing.\<close>

fun http_loop ::
  "'i query_ext \<Rightarrow> ('t, 'i, 'e) client_env \<Rightarrow> (RoutingMode list \<times> 'e http_event) list \<Rightarrow> ('t, 'i) HttpHandler
     \<Rightarrow> (bool \<times> (string \<times> TuiQueryCompletion) list \<times> ('t, 'i) HttpHandler) rust" where
  "http_loop Q E [] h = Done (False, [], h)"
| "http_loop Q E ((modes, ev) # evs) h =
     (let h = fold (hh_apply_routing_mode Q) modes h in
      case ev of
        HttpShutdown \<Rightarrow> Done (True, [], h)
      | NoReceiver \<Rightarrow> http_loop Q E evs h
      | HttpJob k kss d1 d2 job \<Rightarrow>
          (case http_tui_query Q E k kss d1 d2 job h of
             Panic \<Rightarrow> Panic
           | Done (None, h) \<Rightarrow> http_loop Q E evs h
           | Done (Some c, h) \<Rightarrow> map_rust (\<lambda>(b, cs, h). (b, (tj_correlation_id job, c) # cs, h)) (http_loop Q E evs h)))"

section \<open>Connecting with retries\<close>

definition MAX_RETRIES :: nat where
  "MAX_RETRIES = 5"

definition backoff_secs :: "nat \<Rightarrow> nat" where
  "backoff_secs retry_count = 1 * 2 ^ min (retry_count - 1) 4"

text \<open>The loop around an operation on a state; the list is the seconds slept.\<close>

fun with_backoff ::
  "(nat \<Rightarrow> 's \<Rightarrow> (('e + 'a) \<times> 's) rust) \<Rightarrow> nat \<Rightarrow> nat \<Rightarrow> 's \<Rightarrow> (('e + 'a) \<times> 's \<times> nat list) rust" where
  "with_backoff f retry_count left s =
     (case f retry_count s of
        Panic \<Rightarrow> Panic
      | Done (Inr x, s) \<Rightarrow> Done (Inr x, s, [])
      | Done (Inl e, s) \<Rightarrow>
         (case left of
            0 \<Rightarrow> Done (Inl e, s, [])
          | Suc left' \<Rightarrow> map_rust (\<lambda>(r, s, ds). (r, s, backoff_secs (Suc retry_count) # ds))
                          (with_backoff f (Suc retry_count) left' s)))"

declare with_backoff.simps [simp del]

text \<open>The configuration of the upstream client; an API key is not passed on.\<close>

definition upstream_config ::
  "parse_url \<Rightarrow> debug_fmt \<Rightarrow> OutboundTransport \<Rightarrow> string + TransportConfig" where
  "upstream_config parse D out = (case out of
     OutHttpSse u _ \<Rightarrow> map_err (mcp_error_display D) (config_http_sse parse u)
   | OutHttpStream u _ \<Rightarrow> map_err (mcp_error_display D) (config_http_stream parse u)
   | OutStdio _ _ \<Rightarrow> Inl ''HttpHandler only supports HTTP transports'')"

definition retry_error :: "string \<Rightarrow> string \<Rightarrow> string" where
  "retry_error server e = ''Failed to connect to upstream '' @ server @ '' after '' @ show_nat MAX_RETRIES
     @ '' retries: '' @ e"

text \<open>\<open>mk n\<close> is the outcome of the n-th creation of the transport (a configuration is fixed), \<open>prepare\<close> what is set on the
  new client.\<close>

definition connect_with_retries ::
  "string \<Rightarrow> (nat \<Rightarrow> McpError + 't) \<Rightarrow> ('t, 'i, 'e) client_env \<Rightarrow> (nat \<Rightarrow> nat \<Rightarrow> 'e icall \<times> 'e icall) \<Rightarrow> string
     \<Rightarrow> (('t, 'i) McpClient \<Rightarrow> ('t, 'i) McpClient) \<Rightarrow> ((string + ('t, 'i) McpClient) \<times> nat list) rust" where
  "connect_with_retries server mk E kss version prepare =
     (case with_backoff (\<lambda>n s. Done (mk n, s)) 0 MAX_RETRIES () of
        Panic \<Rightarrow> Panic
      | Done (Inl e, _, ds) \<Rightarrow> Done (Inl (retry_error server (mcp_error_display (ce_debug E) e)), ds)
      | Done (Inr t, _, ds) \<Rightarrow>
         (case with_backoff (\<lambda>n c. map_rust (\<lambda>(r, c, _). (r, c))
                 (connect E (kss n) (Implementation_new ''mcp-proxy'' version) c)) 0 MAX_RETRIES
                 (prepare (McpClient_new t ClientConfig_default)) of
            Panic \<Rightarrow> Panic
          | Done (Inl e, _, ds') \<Rightarrow>
              Done (Inl (retry_error server (mcp_error_display (ce_debug E) e)), ds @ ds')
          | Done (Inr _, c, ds') \<Rightarrow> Done (Inr c, ds @ ds')))"

definition http_handler_connect ::
  "parse_url \<Rightarrow> (TransportConfig \<Rightarrow> nat \<Rightarrow> McpError + 't) \<Rightarrow> ('t, 'i, 'e) client_env
     \<Rightarrow> (nat \<Rightarrow> nat \<Rightarrow> 'e icall \<times> 'e icall) \<Rightarrow> string \<Rightarrow> 'i InterceptorManager \<Rightarrow> SessionId
     \<Rightarrow> ProxyTransportConfig \<Rightarrow> ((string + ('t, 'i) McpClient) \<times> nat list) rust" where
  "http_handler_connect parse mk E kss version M session config =
     (case upstream_config parse (ce_debug E) (pt_outbound config) of
        Inl e \<Rightarrow> Done (Inl e, [])
      | Inr mcp_config \<Rightarrow> connect_with_retries ''HTTP server'' (mk mcp_config) E kss version
          (\<lambda>c. set_session_id (Some session) (set_interceptor_manager M c)))"

section \<open>Backend connections\<close>

datatype BackendConnectionInfo =
    ProcessInfo "nat option"
  | UpstreamHttpSse string
  | UpstreamHttpStream string

definition sse_backend_new ::
  "parse_url \<Rightarrow> (TransportConfig \<Rightarrow> nat \<Rightarrow> McpError + 't) \<Rightarrow> ('t, 'i, 'e) client_env
     \<Rightarrow> (nat \<Rightarrow> nat \<Rightarrow> 'e icall \<times> 'e icall) \<Rightarrow> string \<Rightarrow> string
     \<Rightarrow> ((string + ('t, 'i) McpClient) \<times> nat list) rust" where
  "sse_backend_new parse mk E kss version url = (case config_http_sse parse url of
     Inl e \<Rightarrow> Done (Inl (mcp_error_display (ce_debug E) e), [])
   | Inr config \<Rightarrow> connect_with_retries ''server'' (mk config) E kss version id)"

definition stream_backend_new ::
  "parse_url \<Rightarrow> (TransportConfig \<Rightarrow> McpError + 't) \<Rightarrow> ('t, 'i, 'e) client_env
     \<Rightarrow> (nat \<Rightarrow> 'e icall \<times> 'e icall) \<Rightarrow> string \<Rightarrow> string \<Rightarrow> (McpError + ('t, 'i) McpClient) rust" where
  "stream_backend_new parse mk E ks version url =
     (case and_then (config_http_stream parse url) mk of
        Inl e \<Rightarrow> Done (Inl e)
      | Inr t \<Rightarrow> map_rust (\<lambda>(r, c, _). and_then r (\<lambda>_. Inr c))
          (connect E ks (Implementation_new ''mcp-proxy'' version) (McpClient_new t ClientConfig_default)))"

text \<open>Missing parameters become \<open>null\<close> here, and the response of a request is dropped.\<close>

definition params_or_null :: "json option \<Rightarrow> json" where
  "params_or_null p = (case p of Some v \<Rightarrow> v | None \<Rightarrow> Null)"

definition upstream_send ::
  "('t, 'i, 'e) client_env \<Rightarrow> (nat \<Rightarrow> 'e icall \<times> 'e icall) \<Rightarrow> JsonRpcMessage \<Rightarrow> ('t, 'i) McpClient
     \<Rightarrow> ((string + unit) \<times> ('t, 'i) McpClient) rust" where
  "upstream_send E ks m c = (case m of
     Request req \<Rightarrow> map_rust (\<lambda>(r, c, _). (case r of Inl e \<Rightarrow> Inl (mcp_error_display (ce_debug E) e) | Inr _ \<Rightarrow> Inr (), c))
       (send_request E ks (req_method req) (Inr (params_or_null (req_params req))) c)
   | Notification notif \<Rightarrow>
       Done (apfst (map_err (mcp_error_display (ce_debug E)))
         (send_notification E (notif_method notif) (Inr (params_or_null (notif_params notif))) c))
   | Response _ \<Rightarrow> Done (Inl ''Cannot send response as request to upstream'', c))"

definition upstream_recv :: "string \<Rightarrow> string + JsonRpcMessage option" where
  "upstream_recv kind = Inl (kind @ '' receive not implemented in this context - use client's response handling'')"

definition process_send :: "(JsonRpcMessage \<Rightarrow> string + string) \<Rightarrow> JsonRpcMessage \<Rightarrow> string list \<Rightarrow> (string + unit) \<times> string list" where
  "process_send show_message m written = (case show_message m of
     Inl e \<Rightarrow> (Inl e, written) | Inr text \<Rightarrow> (Inr (), written @ [text @ nl]))"

text \<open>The lines the process has yet to write; the empty list is the end of its output.\<close>

fun process_recv ::
  "(string \<Rightarrow> string + JsonRpcMessage) \<Rightarrow> string list \<Rightarrow> (string + JsonRpcMessage option) \<times> string list" where
  "process_recv parse [] = (Inr None, [])"
| "process_recv parse (line # rest) =
     (if trim line = [] then process_recv parse rest
      else (and_then (parse (trim line)) (\<lambda>m. Inr (Some m)), rest))"

definition detect_transport_from_url :: "string \<Rightarrow> string option" where
  "detect_transport_from_url url =
     (if str_contains url ''/stream'' \<or> str_contains url ''/message'' then Some ''http-stream''
      else if starts_with url ''http://'' \<or> starts_with url ''https://'' then Some ''http-sse''
      else None)"

datatype backend_choice = SpawnProcess string | ConnectSse string | ConnectStream string

definition create_backend_connection ::
  "string option \<Rightarrow> string option \<Rightarrow> string option \<Rightarrow> string + backend_choice" where
  "create_backend_connection backend_url backend_command backend_transport = (case backend_url of
     Some url \<Rightarrow>
       (let transport = (case backend_transport of Some t \<Rightarrow> t
                         | None \<Rightarrow> (case detect_transport_from_url url of Some t \<Rightarrow> t | None \<Rightarrow> ''http-sse''))
        in if transport = ''http-sse'' then Inr (ConnectSse url)
           else if transport = ''http-stream'' then Inr (ConnectStream url)
           else Inl (''Unsupported transport: '' @ transport))
   | None \<Rightarrow> (case backend_command of
       Some cmd \<Rightarrow> if cmd = [] then Inl ''backend_command is empty and backend_url not set''
                   else Inr (SpawnProcess cmd)
     | None \<Rightarrow> Inl ''Either backend_url or backend_command must be set''))"

section \<open>Supervision of a child process\<close>

record MCPProxy =
  mp_id :: ProxyId
  mp_name :: string
  mp_transport_config :: ProxyTransportConfig
  mp_routing_mode :: RoutingMode

definition proxy_info ::
  "MCPProxy \<Rightarrow> string \<Rightarrow> string \<Rightarrow> ProxyStatus \<Rightarrow> ProxyStats \<Rightarrow> string option \<Rightarrow> ProxyInfo" where
  "proxy_info p address target status stats model_status = \<lparr>pi_id = mp_id p, pi_name = mp_name p,
     listen_address = address, target_command = [target], pi_status = status, pi_stats = stats,
     pi_transport_type = proxy_transport_type (mp_transport_config p),
     pi_routing_mode = Some (mode_as_str (mp_routing_mode p)), pi_model_status = model_status\<rparr>"

text \<open>The command line that is spawned; \<open>spawn\<close> is the answer of the operating system to it.\<close>

definition start_mcp_server :: "MCPProxy \<Rightarrow> (string list \<Rightarrow> string + unit) \<Rightarrow> string + string list" where
  "start_mcp_server p spawn = (case pt_outbound (mp_transport_config p) of
     OutStdio cmd use_shell \<Rightarrow>
       if cmd = [] then Inl ''No command specified''
       else if use_shell then and_then (spawn [''sh'', ''-c'', cmd]) (\<lambda>_. Inr [''sh'', ''-c'', cmd])
       else if split_whitespace cmd = [] then Inl ''Empty command''
       else and_then (spawn (split_whitespace cmd)) (\<lambda>_. Inr (split_whitespace cmd))
   | _ \<Rightarrow> Inl ''start_mcp_server only works for stdio outbound transport'')"

text \<open>One turn of the restart loop: the spawn, the status of the model, the events of the child.\<close>

record 'e turn =
  tn_spawn :: "string list \<Rightarrow> string + unit"
  tn_model :: "string option"
  tn_events :: "(RoutingMode list \<times> 'e event) list"

datatype effect = Spawned "string list" | Slept nat | Killed

definition MAX_RESTARTS :: nat where
  "MAX_RESTARTS = 5"

definition is_crash :: "string \<Rightarrow> bool" where
  "is_crash e \<longleftrightarrow> str_contains e ''crashed'' \<or> str_contains e ''exited with status''"

text \<open>The result is \<open>None\<close> while the child runs on, that is, when the events given are used up.\<close>

fun supervise ::
  "('i, 'e) stdio_ext \<Rightarrow> MCPProxy \<Rightarrow> 'e turn list \<Rightarrow> nat \<Rightarrow> 'i StdioHandler
     \<Rightarrow> ((string + unit) option \<times> 'i StdioHandler \<times> effect list) rust" where
  "supervise E p [] restart_count h = Done (None, h, [])"
| "supervise E p (turn # turns) restart_count h =
     (let again = (\<lambda>h. map_rust (\<lambda>(r, h, fx). (r, h, Slept (backoff_secs (Suc restart_count)) # fx))
                          (supervise E p turns (Suc restart_count) h))
      in case start_mcp_server p (tn_spawn turn) of
           Inl e \<Rightarrow> if restart_count < MAX_RESTARTS then again h else Done (Some (Inl e), h, [])
         | Inr argv \<Rightarrow>
            (let h = sh_notify (ProxyStarted (proxy_info p ''proxy'' (display_target (mp_transport_config p))
                       ProxyRunning (sh_stats h) (tn_model turn))) h
             in map_rust (\<lambda>(r, h, fx). (r, h, Spawned argv # fx))
                 (case handle_communication E (tn_events turn) h of
                    Panic \<Rightarrow> Panic
                  | Done (None, h) \<Rightarrow> Done (None, h, [])
                  | Done (Some (Inr _), h) \<Rightarrow> Done (Some (Inr ()), h, [])
                  | Done (Some (Inl e), h) \<Rightarrow>
                      if restart_count < MAX_RESTARTS then again h
                      else Done (Some (Inl e), h, if is_crash e then [] else [Killed]))))"

text \<open>\<open>start\<close> with standard streams on both sides.\<close>

definition start_stdio ::
  "('i, 'e) stdio_ext \<Rightarrow> MCPProxy \<Rightarrow> string option \<Rightarrow> 'e turn list \<Rightarrow> 'i StdioHandler
     \<Rightarrow> ((string + unit) option \<times> 'i StdioHandler \<times> effect list) rust" where
  "start_stdio E p model_status turns h =
     (let h = sh_notify (ProxyStarted (proxy_info p ''proxy'' (display_target (mp_transport_config p))
                ProxyStarting (sh_stats h) model_status)) h
      in map_rust (\<lambda>(r, h, fx). (r, case r of None \<Rightarrow> h | Some _ \<Rightarrow> sh_notify (ProxyStopped (mp_id p)) h, fx))
           (supervise E p turns 0 h))"

text \<open>The task that reports the status of the model whenever a poll finds it changed.\<close>

fun status_updates :: "(string \<Rightarrow> ProxyInfo) \<Rightarrow> string \<Rightarrow> string list \<Rightarrow> IpcMessage list" where
  "status_updates info last_status [] = []"
| "status_updates info last_status (s # polls) =
     (if s \<noteq> last_status then ProxyStarted (info s) # status_updates info s polls
      else status_updates info last_status polls)"

text \<open>The part of \<open>start\<close> for the other pairs. The server and its upstream client share the
  interceptors; an address that does not parse, a port that cannot be bound and a server that
  cannot be reached are errors. \<open>hs_pair\<close> is \<open>Debug\<close> of the two transports.\<close>

record 't http_start =
  hs_parse_address :: "string \<Rightarrow> string + string"
  hs_listen :: "string \<Rightarrow> string + string"
  hs_transport :: "McpError + 't"
  hs_pair :: "InboundTransport \<Rightarrow> OutboundTransport \<Rightarrow> string"

definition http_manager ::
  "proxy_ext \<Rightarrow> RoutingMode \<Rightarrow> string \<Rightarrow> LlmInterceptor option \<Rightarrow> proxy_interceptor InterceptorManager" where
  "http_manager X mode ts llm = (case llm of
     None \<Rightarrow> manager_new
   | Some i \<Rightarrow> add_interceptor (proxy_ops X) (base_interceptor_manager X mode ts) (Routing i))"

definition bind_server :: "'t http_start \<Rightarrow> string \<Rightarrow> string + string" where
  "bind_server S address =
     and_then (map_err (\<lambda>e. ''Failed to parse bind address '' @ sq @ address @ sq @ '': '' @ e)
       (hs_parse_address S address)) (hs_listen S)"

definition serve_http ::
  "'t http_start \<Rightarrow> ('t, proxy_interceptor, 'e) client_env \<Rightarrow> (nat \<Rightarrow> 'e icall \<times> 'e icall) \<Rightarrow> string
     \<Rightarrow> proxy_interceptor InterceptorManager \<Rightarrow> (string \<Rightarrow> ProxyInfo) \<Rightarrow> string \<Rightarrow> TransportConfig mcp_result
     \<Rightarrow> (string + ('t, proxy_interceptor) McpClient \<times> ProxyInfo) rust" where
  "serve_http S E ks version M info address config =
     (let err = mcp_error_display (ce_debug E) in
      case and_then (bind_server S address) (\<lambda>actual. and_then (map_err err config)
             (\<lambda>_. and_then (map_err err (hs_transport S)) (\<lambda>t. Inr (actual, t)))) of
        Inl e \<Rightarrow> Done (Inl e)
      | Inr (actual, t) \<Rightarrow>
          map_rust (\<lambda>(r, c, _). and_then (map_err err r) (\<lambda>_. Inr (c, info actual)))
            (connect E ks (Implementation_new ''mcp-proxy'' version)
              (set_interceptor_manager M (McpClient_new t ClientConfig_default))))"

definition start_http ::
  "parse_url \<Rightarrow> 't http_start \<Rightarrow> ('t, proxy_interceptor, 'e) client_env \<Rightarrow> (nat \<Rightarrow> 'e icall \<times> 'e icall) \<Rightarrow> string
     \<Rightarrow> proxy_ext \<Rightarrow> MCPProxy \<Rightarrow> string \<Rightarrow> LlmInterceptor option \<Rightarrow> ProxyStats \<Rightarrow> string option
     \<Rightarrow> (string + ('t, proxy_interceptor) McpClient \<times> ProxyInfo) rust" where
  "start_http parse S E ks version X p ts llm stats model_status =
     (let M = http_manager X (mp_routing_mode p) ts llm;
          serve = (\<lambda>address url config. serve_http S E ks version M
             (\<lambda>actual. proxy_info p actual url ProxyRunning stats model_status) address config)
      in case (pt_inbound (mp_transport_config p), pt_outbound (mp_transport_config p)) of
           (InHttpSse address, OutHttpSse url _) \<Rightarrow> serve address url (config_http_sse parse url)
         | (InHttpStream address, OutHttpStream url _) \<Rightarrow> serve address url (config_http_stream parse url)
         | (i, out) \<Rightarrow> Done (Inl (''Unsupported transport pairing: '' @ hs_pair S i out)))"

section \<open>Retries and restarts\<close>

lemma backoff_secs_values: "map backoff_secs [1..<6] = [1, 2, 4, 8, 16]"
  by (simp add: backoff_secs_def upt_rec)

lemma backoff_prefix:
  assumes "ds = map backoff_secs [1..<Suc (length ds)]" "length ds \<le> 5"
  shows "ds = take (length ds) [1, 2, 4, 8, 16]"
proof -
  have "ds = take (length ds) (map backoff_secs [1..<6])"
    using assms by (subst take_map) (simp add: take_upt)
  then show ?thesis unfolding backoff_secs_values .
qed

lemma backoff_sum:
  assumes "ds = take n [1, 2, 4, 8, 16 :: nat]"
  shows "sum_list ds \<le> 31"
proof -
  have "n \<in> {0, 1, 2, 3, 4} \<or> 5 \<le> n" by (simp, linarith)
  then show ?thesis using assms by (auto simp: numeral_eq_Suc)
qed

lemma schedule_Cons:
  "map f [m..<m + Suc k] = f m # map f [Suc m..<Suc m + k]"
  by (simp add: upt_conv_Cons del: upt_Suc)

lemma with_backoff_run:
  assumes "with_backoff f n left s = Done (r, s', ds)"
  shows "ds = map backoff_secs [Suc n..<Suc n + length ds] \<and> length ds \<le> left
    \<and> (\<forall>e. r = Inl e \<longrightarrow> length ds = left)"
  using assms
proof (induction left arbitrary: n s ds)
  case 0
  then show ?case
    by (subst (asm) with_backoff.simps) (auto split: rust.splits sum.splits prod.splits)
next
  case (Suc left)
  obtain q s1 where q: "f n s = Done (q, s1)"
    using Suc.prems by (subst (asm) with_backoff.simps) (auto split: rust.splits)
  show ?case
  proof (cases q)
    case (Inr x)
    with q Suc.prems show ?thesis by (subst (asm) with_backoff.simps) auto
  next
    case (Inl e)
    with q Suc.prems obtain ds' where w: "with_backoff f (Suc n) left s1 = Done (r, s', ds')"
      and ds: "ds = backoff_secs (Suc n) # ds'"
      by (subst (asm) with_backoff.simps) (auto simp: map_rust_Done)
    have "map backoff_secs [Suc n..<Suc n + length ds]
        = backoff_secs (Suc n) # map backoff_secs [Suc (Suc n)..<Suc (Suc n) + length ds']"
      using schedule_Cons [of backoff_secs "Suc n" "length ds'"] ds by (simp del: upt_Suc)
    with Suc.IH [OF w] ds show ?thesis by auto
  qed
qed

lemma with_backoff_result:
  assumes "with_backoff f n left s = Done (Inr x, s', ds)"
  shows "\<exists>k s0. f k s0 = Done (Inr x, s')"
  using assms
proof (induction left arbitrary: n s ds)
  case 0
  then show ?case
    by (subst (asm) with_backoff.simps) (auto split: rust.splits sum.splits prod.splits)
next
  case (Suc left)
  then show ?case
    by (subst (asm) with_backoff.simps)
      (fastforce simp: map_rust_Done split: rust.splits sum.splits prod.splits)
qed

text \<open>Connecting upstream. A connection attempt that returns has slept at most five times for the
  creation of the client and five times for its initialisation, each time 1, 2, 4, 8 and 16
  seconds in this order, and so at most 62 seconds. A client is returned only when it is ready
  and knows its server; an error only when one of the two phases has used up its retries.\<close>

theorem upstream_connection:
  assumes "connect_with_retries server mk E kss version prepare = Done (r, ds)"
  shows "\<exists>m n. m \<le> 5 \<and> n \<le> 5 \<and> ds = take m [1, 2, 4, 8, 16] @ take n [1, 2, 4, 8, 16] \<and> sum_list ds \<le> 62
    \<and> (case r of Inr c \<Rightarrow> is_ready c \<and> cl_server_info c \<noteq> None | Inl e \<Rightarrow> m = 5 \<or> n = 5)"
proof -
  obtain q u d1 where w1: "with_backoff (\<lambda>n s. Done (mk n, s)) 0 MAX_RETRIES () = Done (q, u, d1)"
    using assms by (cases "with_backoff (\<lambda>n s. Done (mk n, s)) 0 MAX_RETRIES ()")
      (auto simp: connect_with_retries_def)
  have d1: "d1 = take (length d1) [1, 2, 4, 8, 16]" "length d1 \<le> 5" "\<forall>e. q = Inl e \<longrightarrow> length d1 = 5"
    using with_backoff_run [OF w1] backoff_prefix [of d1] by (auto simp: MAX_RETRIES_def)
  show ?thesis
  proof (cases q)
    case (Inl e)
    then have "r = Inl (retry_error server (mcp_error_display (ce_debug E) e))" "ds = d1"
      using assms w1 by (simp_all add: connect_with_retries_def)
    then show ?thesis using d1 Inl backoff_sum [OF d1(1)]
      by (intro exI [of _ 5] exI [of _ 0]) auto
  next
    case (Inr t)
    let ?f = "\<lambda>n c. map_rust (\<lambda>(r, c, _). (r, c)) (connect E (kss n) (Implementation_new ''mcp-proxy'' version) c)"
    let ?c = "prepare (McpClient_new t ClientConfig_default)"
    obtain q2 c2 d2 where w2: "with_backoff ?f 0 MAX_RETRIES ?c = Done (q2, c2, d2)"
      using assms w1 Inr by (cases "with_backoff ?f 0 MAX_RETRIES ?c") (auto simp: connect_with_retries_def)
    have d2: "d2 = take (length d2) [1, 2, 4, 8, 16]" "length d2 \<le> 5" "\<forall>e. q2 = Inl e \<longrightarrow> length d2 = 5"
      using with_backoff_run [OF w2] backoff_prefix [of d2] by (auto simp: MAX_RETRIES_def)
    have ds: "ds = d1 @ d2" using assms w1 Inr w2
      by (auto simp: connect_with_retries_def split: sum.splits)
    have r: "case r of Inr c \<Rightarrow> is_ready c \<and> cl_server_info c \<noteq> None | Inl e \<Rightarrow> length d2 = 5"
    proof (cases q2)
      case (Inl e)
      with assms w1 Inr w2 d2(3) show ?thesis by (auto simp: connect_with_retries_def)
    next
      case (Inr si)
      then have "r = Inr c2" using assms w1 \<open>q = Inr t\<close> w2 by (simp add: connect_with_retries_def)
      moreover obtain k c0 xs where "connect E (kss k) (Implementation_new ''mcp-proxy'' version) c0
          = Done (Inr si, c2, xs)"
        using with_backoff_result [OF w2 [unfolded Inr]] by (auto simp: map_rust_Done)
      then have "is_ready c2 \<and> cl_server_info c2 \<noteq> None"
        by (auto simp: connect_def is_ready_def Let_def split: prod.splits sum.splits rust.splits)
      ultimately show ?thesis by simp
    qed
    have "ds = take (length d1) [1, 2, 4, 8, 16] @ take (length d2) [1, 2, 4, 8, 16]"
      using ds d1(1) d2(1) by metis
    moreover have "sum_list ds \<le> 62" using ds backoff_sum [OF d1(1)] backoff_sum [OF d2(1)] by simp
    ultimately show ?thesis using d1(2) d2(2) r
      by (intro exI [of _ "length d1"] exI [of _ "length d2"]) (auto split: sum.splits)
  qed
qed

primrec slept :: "effect list \<Rightarrow> nat list" where
  "slept [] = []"
| "slept (x # fx) = (case x of Slept n \<Rightarrow> [n] | _ \<Rightarrow> []) @ slept fx"

primrec spawned :: "effect list \<Rightarrow> string list list" where
  "spawned [] = []"
| "spawned (x # fx) = (case x of Spawned argv \<Rightarrow> [argv] | _ \<Rightarrow> []) @ spawned fx"

lemma supervise_run:
  assumes "supervise E p turns n h = Done (r, h', fx)" "n \<le> MAX_RESTARTS"
  shows "slept fx = map backoff_secs [Suc n..<Suc n + length (slept fx)] \<and> n + length (slept fx) \<le> MAX_RESTARTS
    \<and> length (spawned fx) \<le> Suc (length (slept fx))
    \<and> (\<forall>e. r = Some (Inl e) \<longrightarrow> n + length (slept fx) = MAX_RESTARTS)"
  using assms
proof (induction turns arbitrary: n h fx)
  case (Cons turn turns)
  have again: ?case if "supervise E p turns (Suc n) h1 = Done (r, h', fx')" "n < MAX_RESTARTS"
    "slept fx = backoff_secs (Suc n) # slept fx'" "length (spawned fx) \<le> Suc (length (spawned fx'))" for h1 fx'
  proof -
    have "map backoff_secs [Suc n..<Suc n + length (slept fx)]
        = backoff_secs (Suc n) # map backoff_secs [Suc (Suc n)..<Suc (Suc n) + length (slept fx')]"
      using schedule_Cons [of backoff_secs "Suc n" "length (slept fx')"] that(3) by (simp del: upt_Suc)
    with Cons.IH [OF that(1)] that(2-4) show ?thesis by auto
  qed
  show ?case
  proof (cases "start_mcp_server p (tn_spawn turn)")
    case (Inl e)
    show ?thesis
    proof (cases "n < MAX_RESTARTS")
      case True
      with Cons.prems(1) Inl obtain fx' where "supervise E p turns (Suc n) h = Done (r, h', fx')"
        "fx = Slept (backoff_secs (Suc n)) # fx'" by (auto simp: Let_def map_rust_Done)
      with True show ?thesis by (intro again [of h fx']) simp_all
    next
      case False
      with Cons.prems Inl show ?thesis by (simp add: Let_def)
    qed
  next
    case (Inr argv)
    let ?h = "sh_notify (ProxyStarted (proxy_info p ''proxy'' (display_target (mp_transport_config p))
                       ProxyRunning (sh_stats h) (tn_model turn))) h"
    obtain q h1 where c: "handle_communication E (tn_events turn) ?h = Done (q, h1)"
      using Cons.prems Inr by (cases "handle_communication E (tn_events turn) ?h") (auto simp: Let_def)
    show ?thesis
    proof (cases "(\<exists>e. q = Some (Inl e)) \<and> n < MAX_RESTARTS")
      case True
      with Cons.prems(1) Inr c obtain fx' where "supervise E p turns (Suc n) h1 = Done (r, h', fx')"
        "fx = Spawned argv # Slept (backoff_secs (Suc n)) # fx'"
        by (fastforce simp: Let_def map_rust_Done)
      with True show ?thesis by (intro again [of h1 fx']) simp_all
    next
      case False
      with Cons.prems Inr c show ?thesis
        by (cases q) (auto simp: Let_def split: sum.splits if_splits)
    qed
  qed
qed simp

text \<open>C38 (restarts are bounded). However often the child process crashes or cannot be spawned, the
  proxy starts it at most six times, sleeping 1, 2, 4, 8 and 16 seconds in between, and reports
  an error only after the fifth restart.\<close>

theorem restarts_bounded:
  assumes "supervise E p turns 0 h = Done (r, h', fx)"
  shows "\<exists>k \<le> 5. slept fx = take k [1, 2, 4, 8, 16] \<and> length (spawned fx) \<le> Suc k
    \<and> (case r of Some (Inl e) \<Rightarrow> k = 5 | _ \<Rightarrow> True)"
proof -
  note s = supervise_run [OF assms, simplified MAX_RESTARTS_def, simplified]
  then have "slept fx = take (length (slept fx)) [1, 2, 4, 8, 16]"
    using backoff_prefix [of "slept fx"] by simp
  with s show ?thesis
    by (intro exI [of _ "length (slept fx)"]) (auto split: option.splits sum.splits)
qed

section \<open>Queries after a crash\<close>

lemma keeps_rx [simp]:
  "sh_query_rx (sh_notify m h) = sh_query_rx h"
  "sh_query_rx (log_line stamp level msg h) = sh_query_rx h"
  "sh_query_rx (log_request stamp s b h) = sh_query_rx h"
  "sh_query_rx (log_response stamp s b h) = sh_query_rx h"
  "sh_query_rx (log_error stamp s h) = sh_query_rx h"
  "sh_query_rx (bump f h) = sh_query_rx h"
  "sh_query_rx (fail_one h) = sh_query_rx h"
  "sh_query_rx (apply_routing_mode E mode h) = sh_query_rx h"
  "sh_query_rx (complete_query_with_error job e h) = sh_query_rx h"
  "sh_query_rx (emit_session_stats sm h) = sh_query_rx h"
  "sh_query_rx (stats_tick E sm h) = sh_query_rx h"
  "sh_query_rx (capture_query_response E el rm h) = sh_query_rx h"
  by (simp_all add: sh_notify_def log_line_def log_request_def log_response_def log_error_def bump_def
      fail_one_def apply_routing_mode_def complete_query_with_error_def emit_session_stats_def
      stats_tick_def capture_query_response_def update_tools_cache_def Let_def
      split: option.splits JsonRpcMessage.splits)

lemma pending_updates_keep_rx [simp]:
  "sh_query_rx (process_pending_routing_updates E modes h) = sh_query_rx h"
  by (induction modes arbitrary: h) (simp_all add: process_pending_routing_updates_def)

lemma pipeline_keeps_rx: "pipeline E k m d h = Done (q, h') \<Longrightarrow> sh_query_rx h' = sh_query_rx h"
  by (auto simp: pipeline_def map_rust_Done)

lemma outgoing_keeps_rx: "sh_process_outgoing E k s h = Done (q, h') \<Longrightarrow> sh_query_rx h' = sh_query_rx h"
  by (auto simp: sh_process_outgoing_def dest: pipeline_keeps_rx split: option.splits rust.splits sum.splits prod.splits)

lemma incoming_keeps_rx: "sh_process_incoming E k el s h = Done (q, h') \<Longrightarrow> sh_query_rx h' = sh_query_rx h"
  by (auto simp: sh_process_incoming_def Let_def dest: pipeline_keeps_rx
      split: option.splits rust.splits sum.splits prod.splits if_splits)

lemma event_keeps_rx:
  "handle_event E ev h = Done (ctl, h') \<Longrightarrow> sh_query_rx h' = sh_query_rx h"
  by (cases ev)
    (auto simp: handle_event_def handle_user_line_def handle_child_line_def process_tui_query_def Let_def
      map_rust_Done dest!: outgoing_keeps_rx incoming_keeps_rx
      split: rust.splits sum.splits prod.splits option.splits if_splits)

lemma loop_keeps_rx: "run_loop E evs h = Done (r, h') \<Longrightarrow> sh_query_rx h' = sh_query_rx h"
proof (induction evs arbitrary: h)
  case (Cons e evs)
  then show ?case
    by (cases e) (auto dest!: event_keeps_rx split: rust.splits prod.splits control.splits)
qed simp

lemma crash_drops_receiver:
  "handle_communication E evs h = Done (Some (Inl e), h') \<Longrightarrow> \<not> sh_query_rx h'"
  by (auto simp: handle_communication_def Let_def dest: loop_keeps_rx
      split: rust.splits prod.splits option.splits sum.splits)

lemma communication_keeps_dropped:
  "\<not> sh_query_rx h \<Longrightarrow> handle_communication E evs h = Done (r, h') \<Longrightarrow> \<not> sh_query_rx h'"
  by (auto simp: handle_communication_def Let_def dest: loop_keeps_rx
      split: rust.splits prod.splits option.splits sum.splits if_splits)

definition without_queries :: "'e turn \<Rightarrow> 'e turn" where
  "without_queries tn = tn\<lparr>tn_events := filter (\<lambda>e. \<not> is_query (snd e)) (tn_events tn)\<rparr>"

lemma deaf_communication:
  "\<not> sh_query_rx h \<Longrightarrow>
     handle_communication E (filter (\<lambda>e. \<not> is_query (snd e)) evs) h = handle_communication E evs h"
  by (simp add: handle_communication_def)

lemma deaf_supervise:
  "\<not> sh_query_rx h \<Longrightarrow> supervise E p (map without_queries turns) n h = supervise E p turns n h"
proof (induction turns arbitrary: n h)
  case (Cons turn turns)
  let ?h = "sh_notify (ProxyStarted (proxy_info p ''proxy'' (display_target (mp_transport_config p))
                       ProxyRunning (sh_stats h) (tn_model turn))) h"
  have "\<not> sh_query_rx h1" if "handle_communication E (tn_events turn) ?h = Done (Some (Inl e), h1)" for e h1
    using that by (rule crash_drops_receiver)
  with Cons show ?case
    by (auto simp: without_queries_def deaf_communication Let_def intro!: arg_cong [where f = "map_rust _"]
        split: sum.splits rust.splits option.splits prod.splits)
qed simp

text \<open>No queries after a restart. Once a run of the child has ended in an error and the child was
  restarted, the queries of the monitor that arrive from then on have no effect: the proxy
  behaves as if they had never been made, and so answers none of them.\<close>

theorem queries_lost_after_restart:
  assumes "start_mcp_server p (tn_spawn turn) = Inr argv"
    and "handle_communication E (tn_events turn)
          (sh_notify (ProxyStarted (proxy_info p ''proxy'' (display_target (mp_transport_config p))
             ProxyRunning (sh_stats h) (tn_model turn))) h) = Done (Some (Inl e), h')"
  shows "supervise E p (turn # turns) n h = supervise E p (turn # map without_queries turns) n h"
  using assms deaf_supervise [OF crash_drops_receiver [OF assms(2)], of E p turns "Suc n"]
  by (simp add: Let_def)

section \<open>Other properties of the configuration and the connections\<close>

text \<open>A configuration is accepted exactly when both sides are of the same known kind and what the
  outbound side needs is given.\<close>

theorem cli_args_accepted:
  "(\<exists>c. from_cli_args inbound outbound cmd url use_shell api_key in_port = Inr c) \<longleftrightarrow>
     inbound = outbound \<and> (outbound = ''stdio'' \<and> cmd \<noteq> None
       \<or> (outbound = ''http-sse'' \<or> outbound = ''http-stream'') \<and> url \<noteq> None)"
  by (auto simp: from_cli_args_def parse_inbound_def parse_outbound_def matching_def and_then_def
      split: option.splits)

text \<open>The status task sends a message for every change of the status and for nothing else.\<close>

theorem status_updates_changes:
  "status_updates info s polls = map (\<lambda>x. ProxyStarted (info x)) (tl (remdups_adj (s # polls)))"
proof (induction polls arbitrary: s)
  case (Cons x polls)
  have "tl (remdups_adj (s # x # polls)) = (if s = x then tl (remdups_adj (x # polls))
      else x # tl (remdups_adj (x # polls)))"
    by simp
  then show ?case unfolding status_updates.simps
    using Cons by (cases "s = x") (simp_all del: remdups_adj.simps remdups_adj_Cons_alt)
qed simp

text \<open>What is written to a process backend comes back from one that echoes its input, in order.\<close>

fun recv_all :: "(string \<Rightarrow> string + JsonRpcMessage) \<Rightarrow> nat \<Rightarrow> string list \<Rightarrow> (string + JsonRpcMessage option) list" where
  "recv_all parse 0 ls = []"
| "recv_all parse (Suc n) ls = (case process_recv parse ls of (r, ls) \<Rightarrow> r # recv_all parse n ls)"

theorem process_backend_roundtrip:
  assumes "list_all (\<lambda>m. \<exists>text. show_message m = Inr text \<and> trim (text @ nl) \<noteq> [] \<and> parse (trim (text @ nl)) = Inr m) ms"
  shows "recv_all parse (Suc (length ms)) (fold (\<lambda>m w. snd (process_send show_message m w)) ms [])
    = map (\<lambda>m. Inr (Some m)) ms @ [Inr None]"
proof -
  have f: "fold (\<lambda>m w. snd (process_send show_message m w)) ms w
      = w @ map (\<lambda>m. (case show_message m of Inr text \<Rightarrow> text | Inl _ \<Rightarrow> []) @ nl) ms" for w
    using assms by (induction ms arbitrary: w) (auto simp: process_send_def)
  have "recv_all parse (Suc (length ms))
      (map (\<lambda>m. (case show_message m of Inr text \<Rightarrow> text | Inl _ \<Rightarrow> []) @ nl) ms)
      = map (\<lambda>m. Inr (Some m)) ms @ [Inr None]"
    using assms by (induction ms) (auto simp: res_simps)
  with f [of "[]"] show ?thesis by simp
qed

section \<open>Witnesses\<close>

definition sample_mcp_proxy :: MCPProxy where
  "sample_mcp_proxy = \<lparr>mp_id = ''p'', mp_name = ''proxy'',
     mp_transport_config = \<lparr>pt_inbound = InStdio, pt_outbound = OutStdio ''server'' True\<rparr>,
     mp_routing_mode = BypassMode\<rparr>"

text \<open>A child that always crashes.\<close>

definition crashing_turn :: "llm_call turn" where
  "crashing_turn = \<lparr>tn_spawn = (\<lambda>_. Inr ()), tn_model = None,
     tn_events = [([], ChildExit (Inr False) ''1'')]\<rparr>"

lemma crashing_runs:
  "\<exists>h'. supervise sample_stdio_ext sample_mcp_proxy (replicate 6 crashing_turn) 0 sample_handler =
     Done (Some (Inl ''Backend process crashed with status 1''), h',
       concat (map (\<lambda>n. [Spawned [''sh'', ''-c'', ''server''], Slept n]) [1, 2, 4, 8, 16])
         @ [Spawned [''sh'', ''-c'', ''server'']])"
  by (simp add: numeral_eq_Suc supervise.simps start_mcp_server_def sample_mcp_proxy_def crashing_turn_def
      handle_communication_def handle_event_def process_pending_routing_updates_def MAX_RESTARTS_def
      backoff_secs_def is_crash_def starts_with_def res_simps Let_def)

theorem restarts_bounded_witness:
  "\<exists>h' fx. supervise sample_stdio_ext sample_mcp_proxy (replicate 6 crashing_turn) 0 sample_handler =
     Done (Some (Inl ''Backend process crashed with status 1''), h', fx) \<and> slept fx = [1, 2, 4, 8, 16]"
proof -
  obtain h' fx where s: "supervise sample_stdio_ext sample_mcp_proxy (replicate 6 crashing_turn) 0 sample_handler =
     Done (Some (Inl ''Backend process crashed with status 1''), h', fx)" using crashing_runs by blast
  from restarts_bounded [OF s] s show ?thesis by auto
qed

definition query_turn :: "llm_call turn" where
  "query_turn = \<lparr>tn_spawn = (\<lambda>_. Inr ()), tn_model = None,
     tn_events = [([], QueryJob stdio_icall (''l'', 0) good_write 0 0 sample_job)]\<rparr>"

theorem queries_lost_after_restart_witness:
  "supervise sample_stdio_ext sample_mcp_proxy [crashing_turn, query_turn] 0 sample_handler
     = supervise sample_stdio_ext sample_mcp_proxy [crashing_turn, query_turn\<lparr>tn_events := []\<rparr>] 0 sample_handler"
proof -
  let ?h = "sh_notify (ProxyStarted (proxy_info sample_mcp_proxy ''proxy''
      (display_target (mp_transport_config sample_mcp_proxy)) ProxyRunning (sh_stats sample_handler)
      (tn_model crashing_turn))) sample_handler"
  have s: "start_mcp_server sample_mcp_proxy (tn_spawn crashing_turn) = Inr [''sh'', ''-c'', ''server'']"
    by (simp add: start_mcp_server_def sample_mcp_proxy_def crashing_turn_def res_simps)
  obtain h' where c: "handle_communication sample_stdio_ext (tn_events crashing_turn) ?h
      = Done (Some (Inl ''Backend process crashed with status 1''), h')"
    by (simp add: handle_communication_def handle_event_def process_pending_routing_updates_def crashing_turn_def
        Let_def)
  have m: "map without_queries [query_turn] = [query_turn\<lparr>tn_events := []\<rparr>]"
    by (simp add: without_queries_def query_turn_def)
  from queries_lost_after_restart [OF s c, of "[query_turn]" 0] show ?thesis unfolding m .
qed

lemma sample_connection:
  "\<exists>c. connect_with_retries ''server'' (\<lambda>n. if n = 0 then Inl (Internal []) else Inr ()) (sample_env echo_ops response_guard)
     (\<lambda>_. sample_clocks) ''1'' id = Done (Inr c, [1])"
  by (simp add: connect_with_retries_def with_backoff.simps MAX_RETRIES_def backoff_secs_def numeral_eq_Suc connect_def
      perform_initialization_def send_request_with_timeout_def send_request_with_retries_def generate_request_id_def
      retry_loop.simps send_single_request_def intercept_def process_message_with_metadata_def initial_loop_def
      final_result_def pass_through_def notify_def echo_ops_def sample_client_defs response_success_def Let_def)

theorem upstream_connection_witness:
  "\<exists>c. connect_with_retries ''server'' (\<lambda>n. if n = 0 then Inl (Internal []) else Inr ()) (sample_env echo_ops response_guard)
     (\<lambda>_. sample_clocks) ''1'' id = Done (Inr c, [1]) \<and> is_ready c"
proof -
  obtain c where c: "connect_with_retries ''server'' (\<lambda>n. if n = 0 then Inl (Internal []) else Inr ())
     (sample_env echo_ops response_guard) (\<lambda>_. sample_clocks) ''1'' id = Done (Inr c, [1])"
    using sample_connection by blast
  from upstream_connection [OF c] c show ?thesis by auto
qed

theorem process_backend_roundtrip_witness:
  "recv_all (\<lambda>s. Inr (Request sample_rq)) 2 (snd (process_send (\<lambda>_. Inr ''x'') (Request sample_rq) []))
    = [Inr (Some (Request sample_rq)), Inr None]"
proof -
  have t: "trim (''x'' @ nl) = ''x''" by code_simp
  have "list_all (\<lambda>m. \<exists>text. (Inr ''x'' :: string + string) = Inr text \<and> trim (text @ nl) \<noteq> []
      \<and> (Inr (Request sample_rq) :: string + JsonRpcMessage) = Inr m) [Request sample_rq]"
    using t by simp
  from process_backend_roundtrip [OF this] show ?thesis by (simp add: numeral_eq_Suc)
qed

section \<open>Every query over HTTP is answered\<close>

lemma http_query_completes:
  "http_tui_query Q E k kss d1 d2 job h = Done (r, h') \<Longrightarrow> r \<noteq> None"
  by (auto simp: http_tui_query_def Let_def map_rust_Done elim!: server_intercept_Done
      split: if_splits rust.splits sum.splits prod.splits option.splits)

fun jobs_of :: "(RoutingMode list \<times> 'e http_event) list \<Rightarrow> string list" where
  "jobs_of [] = []"
| "jobs_of ((modes, ev) # evs) = (case ev of
     HttpShutdown \<Rightarrow> [] | NoReceiver \<Rightarrow> jobs_of evs
   | HttpJob k kss d1 d2 job \<Rightarrow> tj_correlation_id job # jobs_of evs)"

text \<open>Queries over HTTP are answered. A run of the HTTP handler that does not panic sends exactly
  one completion for every query that arrived before it was shut down, in their order.\<close>

theorem http_queries_answered:
  assumes "http_loop Q E evs h = Done (b, cs, h')"
  shows "map fst cs = jobs_of evs"
  using assms
proof (induction evs arbitrary: h b cs)
  case (Cons e evs)
  obtain modes ev where e: "e = (modes, ev)" by (cases e)
  let ?h = "fold (hh_apply_routing_mode Q) modes h"
  show ?case
  proof (cases ev)
    case (HttpJob k kss d1 d2 job)
    obtain r h1 where q: "http_tui_query Q E k kss d1 d2 job ?h = Done (r, h1)"
      using Cons.prems e HttpJob by (cases "http_tui_query Q E k kss d1 d2 job ?h") (auto simp: Let_def)
    then obtain c where "r = Some c" using http_query_completes [OF q] by blast
    with Cons e HttpJob q show ?thesis by (auto simp: Let_def map_rust_Done)
  qed (use Cons e in \<open>auto simp: Let_def\<close>)
qed simp

theorem http_queries_answered_witness:
  "\<exists>b cs h'. http_loop sample_query_ext (proxy_env (logged echo_ops))
     [([], HttpJob proxy_icall (\<lambda>_ _. (proxy_icall, proxy_icall)) 0 0 structured_job), ([], HttpShutdown)]
     sample_http_handler = Done (b, cs, h') \<and> map fst cs = [''q'']"
proof -
  obtain r h1 where q: "http_tui_query sample_query_ext (proxy_env (logged echo_ops)) proxy_icall
     (\<lambda>_ _. (proxy_icall, proxy_icall)) 0 0 structured_job sample_http_handler = Done (r, h1)"
    using sample_query_runs by blast
  obtain c where "r = Some c" using http_query_completes [OF q] by blast
  with q obtain b cs h' where l: "http_loop sample_query_ext (proxy_env (logged echo_ops))
     [([], HttpJob proxy_icall (\<lambda>_ _. (proxy_icall, proxy_icall)) 0 0 structured_job), ([], HttpShutdown)]
     sample_http_handler = Done (b, cs, h')" by (simp add: Let_def)
  from http_queries_answered [OF l] l show ?thesis by (auto simp: structured_job_def)
qed

end
