(* ===== verification/Monitor.thy ===== *)
theory Monitor
  imports Ipc_Server Ipc
begin

text \<open>
  The receiving side of the monitor: the data it shows (\<open>acdp-tui/src/components.rs\<close>,
  \<open>diagnostics.rs\<close>, \<open>semantic_status.rs\<close>) and the handler that turns the messages of proxies
  into updates of the application's state (\<open>acdp-tui/src/ipc_handler.rs\<close>). Styles are not
  modelled. The text of a JSON value and the \<open>Debug\<close> text of a string are parameters; the clock
  is an argument.
\<close>

section \<open>Floating-point casts\<close>

text \<open>\<open>f32 as f64\<close> of a bit pattern, and \<open>f64 as u64\<close>, which truncates and saturates.\<close>

definition fp_of_bits32 :: "u32 \<Rightarrow> fp" where
  "fp_of_bits32 w = (let s = bit w 31; e = uint (take_bit 8 (drop_bit 23 w));
       f = uint (take_bit 23 w)
     in if e = 255 then (if f = 0 then Infinite s else NaN)
        else if e = 0 then Fin s (of_int f * pow2 (- 149))
        else Fin s (of_int (2 ^ 23 + f) * pow2 (e - 150)))"

definition fp_to_u64 :: "fp \<Rightarrow> u64" where
  "fp_to_u64 x = (case x of NaN \<Rightarrow> 0 | Infinite s \<Rightarrow> (if s then 0 else - 1)
     | Fin s m \<Rightarrow> (if s then 0 else word_of_int (min \<lfloor>m\<rfloor> (2 ^ 64 - 1))))"

section \<open>What the monitor shows\<close>

datatype FocusArea = MainTabs | QueryInput | SettingsFocus | DiagnosticsFocus | SearchFocus

datatype ClientStatus = StatusConnected | StatusDisconnected | StatusError

definition client_status_label :: "ClientStatus \<Rightarrow> string" where
  "client_status_label s = (case s of StatusConnected \<Rightarrow> ''Connected''
     | StatusDisconnected \<Rightarrow> ''Disconnected'' | StatusError \<Rightarrow> ''Error'')"

datatype ServerType = ProxyServer | GatewayServer | PlainServer

datatype ShownStatus = ShownStarting | ShownRunning | ShownDegraded | ShownStopped | ShownError

definition server_status_label :: "ShownStatus \<Rightarrow> string" where
  "server_status_label s = (case s of ShownStarting \<Rightarrow> ''Starting'' | ShownRunning \<Rightarrow> ''Running''
     | ShownDegraded \<Rightarrow> ''Degraded'' | ShownStopped \<Rightarrow> ''Stopped'' | ShownError \<Rightarrow> ''Error'')"

datatype ActivityStatus = Processing | Success | Failed

definition activity_status_label :: "ActivityStatus \<Rightarrow> string" where
  "activity_status_label s = (case s of Processing \<Rightarrow> ''Processing'' | Success \<Rightarrow> ''Success''
     | Failed \<Rightarrow> ''Failed'')"

record ShownClient =
  cl_id :: string
  cl_name :: string
  cl_description :: string
  cl_status :: ClientStatus
  cl_requests_sent :: u64
  cl_last_activity :: datetime

definition ShownClient_new :: "datetime \<Rightarrow> string \<Rightarrow> string \<Rightarrow> string \<Rightarrow> ClientStatus \<Rightarrow> ShownClient" where
  "ShownClient_new now i nm desc st = \<lparr>cl_id = i, cl_name = nm, cl_description = desc,
     cl_status = st, cl_requests_sent = 0, cl_last_activity = now\<rparr>"

record ShownServer =
  sv_id :: string
  sv_name :: string
  sv_description :: string
  sv_type :: ServerType
  sv_status :: ShownStatus
  sv_requests_received :: u64
  sv_last_activity :: datetime
  sv_routing_mode :: "string option"
  sv_model_status :: "string option"
  sv_target_address :: "string option"

definition ShownServer_new :: "datetime \<Rightarrow> string \<Rightarrow> string \<Rightarrow> string \<Rightarrow> ShownStatus \<Rightarrow> ShownServer" where
  "ShownServer_new now i nm desc st = \<lparr>sv_id = i, sv_name = nm, sv_description = desc,
     sv_type = PlainServer, sv_status = st, sv_requests_received = 0, sv_last_activity = now,
     sv_routing_mode = None, sv_model_status = None, sv_target_address = None\<rparr>"

record ActivityMetrics =
  am_ttft_ms :: "f64 option"
  am_tokens_per_sec :: "f64 option"
  am_total_tokens :: "u64 option"
  am_interceptor_delay_ms :: "f64 option"

record ActivityItem =
  ac_timestamp :: datetime
  ac_client :: string
  ac_server :: string
  ac_action :: string
  ac_status :: ActivityStatus
  ac_metrics :: "ActivityMetrics option"

definition activity :: "datetime \<Rightarrow> string \<Rightarrow> string \<Rightarrow> string \<Rightarrow> ActivityStatus \<Rightarrow> ActivityItem" where
  "activity now cl sv act st = \<lparr>ac_timestamp = now, ac_client = cl, ac_server = sv,
     ac_action = act, ac_status = st, ac_metrics = None\<rparr>"

lemma activity_sel [simp]:
  "ac_timestamp (activity now cl sv act st) = now" "ac_client (activity now cl sv act st) = cl"
  "ac_server (activity now cl sv act st) = sv" "ac_action (activity now cl sv act st) = act"
  "ac_status (activity now cl sv act st) = st" "ac_metrics (activity now cl sv act st) = None"
  by (simp_all add: activity_def)

section \<open>Updates\<close>

datatype (plugins only: code) AppStateUpdate =
    UpdClientAdded ShownClient
  | UpdClientRemoved string
  | UpdClientUpdated string u64 datetime
  | UpdServerAdded ShownServer
  | UpdServerRemoved string
  | UpdServerStats string u64
  | UpdServerUpdated string string ShownStatus
  | UpdServerHealth string HealthMetrics
  | UpdActivityAdded ActivityItem
  | UpdSessionAdded ProxySession
  | UpdSessionUpdated ProxySession
  | UpdSessionRemoved SessionId
  | UpdSessionStats SessionMetrics
  | UpdInterceptorStats string InterceptorManagerInfo
  | UpdGatewayState nat nat nat u64
  | UpdGatewayMetrics u64 u64 fp fp
  | UpdQueryResponse string string "string option" "f64 option" "f64 option" "nat option" "f64 option"
  | UpdRoutingModeChanged string string
  | UpdSemanticPrediction string string f64 "string option" "bool option"
  | UpdPingReceived
  | UpdPongReceived

text \<open>The \<open>Debug\<close> texts of the enums the handler prints; \<open>dbg\<close> is the text of a string.\<close>

record monitor_ext =
  mx_debug :: "string \<Rightarrow> string"
  mx_show_json :: "json \<Rightarrow> string"

definition debug_transport :: "TransportType \<Rightarrow> string" where
  "debug_transport t = (case t of StdioType \<Rightarrow> ''Stdio'' | HttpSseType \<Rightarrow> ''HttpSse''
     | HttpStreamType \<Rightarrow> ''HttpStream'')"

definition debug_connection :: "monitor_ext \<Rightarrow> ClientConnectionType \<Rightarrow> string" where
  "debug_connection X c = (case c of WebSocketClient \<Rightarrow> ''WebSocket'' | StdioClient \<Rightarrow> ''Stdio''
     | HttpClient \<Rightarrow> ''Http'' | HttpSseClient \<Rightarrow> ''HttpSse''
     | CustomClient s \<Rightarrow> ''Custom('' @ mx_debug X s @ '')'')"

definition debug_endpoint :: "monitor_ext \<Rightarrow> ServerEndpoint \<Rightarrow> string" where
  "debug_endpoint X e = (case e of
     CommandEndpoint p as \<Rightarrow> ''Command { program: '' @ mx_debug X p @ '', args: [''
       @ join_strings '', '' (map (mx_debug X) as) @ ''] }''
   | UrlEndpoint s \<Rightarrow> ''Url('' @ mx_debug X s @ '')''
   | SocketEndpoint s \<Rightarrow> ''Socket('' @ mx_debug X s @ '')''
   | CustomEndpoint s \<Rightarrow> ''Custom('' @ mx_debug X s @ '')'')"

definition shown_proxy_status :: "ProxyStatus \<Rightarrow> ShownStatus" where
  "shown_proxy_status s = (case s of ProxyStarting \<Rightarrow> ShownStarting | ProxyRunning \<Rightarrow> ShownRunning
     | ProxyIsStopped \<Rightarrow> ShownStopped | ProxyError _ \<Rightarrow> ShownError)"

definition shown_server_status :: "ServerStatus \<Rightarrow> ShownStatus" where
  "shown_server_status s = (case s of ServerStarting \<Rightarrow> ShownStarting | ServerRunning \<Rightarrow> ShownRunning
     | ServerDegraded _ \<Rightarrow> ShownDegraded | ServerStopped \<Rightarrow> ShownStopped | ServerError _ \<Rightarrow> ShownError)"

section \<open>The handler\<close>

text \<open>A started proxy and a connected server as entries of the server list.\<close>

definition server_of_proxy :: "datetime \<Rightarrow> ProxyInfo \<Rightarrow> ShownServer" where
  "server_of_proxy now p = \<lparr>sv_id = pi_id p, sv_name = pi_name p,
     sv_description = ''Transport: '' @ debug_transport (pi_transport_type p),
     sv_type = ProxyServer, sv_status = shown_proxy_status (pi_status p),
     sv_requests_received = successful_requests (pi_stats p), sv_last_activity = now,
     sv_routing_mode = pi_routing_mode p, sv_model_status = pi_model_status p,
     sv_target_address = (if target_command p = [] then None else Some (hd (target_command p)))\<rparr>"

definition server_of_info :: "monitor_ext \<Rightarrow> datetime \<Rightarrow> IpcServerInfo \<Rightarrow> ShownServer" where
  "server_of_info X now s = \<lparr>sv_id = si_id s, sv_name = si_name s,
     sv_description = debug_endpoint X (si_endpoint s), sv_type = PlainServer,
     sv_status = shown_server_status (si_status s), sv_requests_received = 0,
     sv_last_activity = now, sv_routing_mode = None, sv_model_status = None,
     sv_target_address = Some (debug_endpoint X (si_endpoint s))\<rparr>"

definition client_of_info :: "monitor_ext \<Rightarrow> ClientInfo \<Rightarrow> ShownClient" where
  "client_of_info X c = \<lparr>cl_id = ci_id c, cl_name = ci_name c,
     cl_description = debug_connection X (connection_type c), cl_status = StatusConnected,
     cl_requests_sent = ci_total_requests c, cl_last_activity = ci_last_activity c\<rparr>"

definition flow_status :: "MessageFlow \<Rightarrow> ActivityStatus" where
  "flow_status f = (case server_response f of
     Some r \<Rightarrow> (if raw_resp_error r \<noteq> None then Failed else Success) | None \<Rightarrow> Processing)"

text \<open>The update a message becomes; \<open>None\<close> for the messages that the monitor sends itself. The
  \<open>match\<close> of the source is cut where its comments cut it: proxies, clients, servers and sessions;
  requests and responses; the rest.\<close>

definition additional_update :: "monitor_ext \<Rightarrow> datetime \<Rightarrow> IpcMessage \<Rightarrow> AppStateUpdate option" where
  "additional_update X now m = (case m of
     InterceptorStatsMsg p s \<Rightarrow> Some (UpdInterceptorStats p s)
   | ServerUpdated s \<Rightarrow> Some (UpdServerUpdated (si_id s) (si_name s) (shown_server_status (si_status s)))
   | ServerHealthUpdate s h \<Rightarrow> Some (UpdServerHealth s h)
   | SessionUpdated s \<Rightarrow> Some (UpdSessionUpdated s)
   | TransformationApplied s t \<Rightarrow> Some (UpdActivityAdded (activity now (''Session '' @ s) ''Transform''
       (''Applied: '' @ at_rule_name t @ '' ('' @ at_rule_id t @ '')'')
       (if at_success t then Success else Failed)))
   | RoutingDecisionMsg d \<Rightarrow> Some (UpdActivityAdded (activity (rd_timestamp d)
       (''Session '' @ rd_session_id d) ''Router''
       (''Route to '' @ rd_target_server d @ '' - '' @ rd_reason d) Success))
   | SemanticPrediction q t c a s \<Rightarrow> Some (UpdSemanticPrediction q t c a s)
   | GatewayStateUpdated s \<Rightarrow> Some (UpdGatewayState 0 0 0 (gs_uptime_seconds s))
   | GatewayMetricsMsg g \<Rightarrow> Some (UpdGatewayMetrics 0
       (fp_to_u64 (fp_mul binary64 (fp_of_bits64 (error_rate g)) (fp_of_nat binary64 100)))
       (fp_of_bits64 (average_latency_ms g))
       (fp_div binary64 (fp_of_bits64 (requests_per_minute g)) (fp_of_nat binary64 60)))
   | MessageFlowUpdate f \<Rightarrow> Some (UpdActivityAdded (activity now (''Session '' @ mf_session_id f)
       ''Gateway'' (''Message '' @ mf_id f @ '': '' @ raw_req_method (client_request f)) (flow_status f)))
   | ErrorMsg text p \<Rightarrow> Some (UpdActivityAdded (activity now
       (case p of Some i \<Rightarrow> ''Proxy '' @ i | None \<Rightarrow> ''System'') ''Gateway''
       (''Error: '' @ text) Failed))
   | Ping \<Rightarrow> Some UpdPingReceived
   | Pong \<Rightarrow> Some UpdPongReceived
   | _ \<Rightarrow> None)"

definition request_update :: "monitor_ext \<Rightarrow> datetime \<Rightarrow> IpcMessage \<Rightarrow> AppStateUpdate option" where
  "request_update X now m = (case m of
     ClientRequest c r _ \<Rightarrow> Some (UpdActivityAdded (activity now c ''Gateway''
       (raw_req_method r @ '' ('' @ mx_show_json X (raw_req_id r) @ '')'') Processing))
   | ServerResponse s r _ \<Rightarrow> Some (UpdActivityAdded (activity now ''Gateway'' s
       (''Response for '' @ mx_show_json X (raw_resp_id r))
       (if raw_resp_error r \<noteq> None then Failed else Success)))
   | TuiQueryResponse cid r e ttft tps n delay \<Rightarrow> Some (UpdQueryResponse cid r e ttft tps n delay)
   | RoutingModeChanged p mode \<Rightarrow> Some (UpdRoutingModeChanged p mode)
   | _ \<Rightarrow> additional_update X now m)"

definition message_update :: "monitor_ext \<Rightarrow> datetime \<Rightarrow> IpcMessage \<Rightarrow> AppStateUpdate option" where
  "message_update X now m = (case m of
     ProxyStarted p \<Rightarrow> Some (UpdServerAdded (server_of_proxy now p))
   | ProxyStopped p \<Rightarrow> Some (UpdServerRemoved p)
   | LogEntryMsg e \<Rightarrow> Some (UpdActivityAdded (activity (log_timestamp e)
       (''proxy-'' @ log_proxy_id e) ''Gateway'' (log_message e)
       (if log_level e \<in> {ErrorLevel, WarningLevel} then Failed else Success)))
   | StatsUpdate s \<Rightarrow> Some (UpdServerStats (ps_proxy_id s) (total_requests s))
   | ClientConnected c \<Rightarrow> Some (UpdClientAdded (client_of_info X c))
   | ClientDisconnected c \<Rightarrow> Some (UpdClientRemoved c)
   | ClientUpdated c \<Rightarrow> Some (UpdClientUpdated (ci_id c) (ci_total_requests c) (ci_last_activity c))
   | ServerConnected s \<Rightarrow> Some (UpdServerAdded (server_of_info X now s))
   | ServerDisconnected s \<Rightarrow> Some (UpdServerRemoved s)
   | SessionStarted s \<Rightarrow> Some (UpdSessionAdded s)
   | SessionEnded s \<Rightarrow> Some (UpdSessionRemoved s)
   | SessionStatsMsg s \<Rightarrow> Some (UpdSessionStats s)
   | _ \<Rightarrow> request_update X now m)"

lemmas message_update_defs = message_update_def request_update_def additional_update_def

text \<open>Sending the update: it fails once the application has dropped its receiver.\<close>

definition process_ipc_message ::
  "monitor_ext \<Rightarrow> bool \<Rightarrow> datetime \<Rightarrow> IpcMessage \<Rightarrow> (string + unit) \<times> AppStateUpdate list" where
  "process_ipc_message X receiver_open now m = (case message_update X now m of
     None \<Rightarrow> (Inr (), [])
   | Some u \<Rightarrow> (if receiver_open then (Inr (), [u])
       else (Inl ''Failed to send update: channel closed'', [])))"

text \<open>The loop over one connection: every envelope is processed, a failure is only logged, and the
  loop ends with the stream or at the first line that cannot be read.\<close>

fun process_envelopes ::
  "monitor_ext \<Rightarrow> bool \<Rightarrow> (nat \<Rightarrow> datetime) \<Rightarrow> nat \<Rightarrow> IpcMessage IpcEnvelope list \<Rightarrow> AppStateUpdate list" where
  "process_envelopes X r clock n [] = []"
| "process_envelopes X r clock n (e # es) =
     snd (process_ipc_message X r (clock n) (env_message e)) @ process_envelopes X r clock (Suc n) es"

definition handle_ipc_connection ::
  "monitor_ext \<Rightarrow> bool \<Rightarrow> (nat \<Rightarrow> datetime) \<Rightarrow> IpcMessage ipc_serde \<Rightarrow> IpcConnection \<Rightarrow> AppStateUpdate list" where
  "handle_ipc_connection X r clock S c = process_envelopes X r clock 0 (fst (receive_all S c))"

section \<open>What reaches the application\<close>

text \<open>Messages that only the monitor sends.\<close>

definition from_monitor :: "IpcMessage \<Rightarrow> bool" where
  "from_monitor m = (case m of GetStatus _ \<Rightarrow> True | GetLogs _ _ \<Rightarrow> True | ShutdownMsg _ \<Rightarrow> True
     | ToggleInterceptor _ _ \<Rightarrow> True | TuiQuery _ _ \<Rightarrow> True | TuiMcpRequest _ _ _ \<Rightarrow> True
     | RoutingModeChange _ _ \<Rightarrow> True | TransformationRules _ \<Rightarrow> True | RoutingRules _ \<Rightarrow> True | _ \<Rightarrow> False)"

lemma message_update_None: "message_update X now m = None \<longleftrightarrow> from_monitor m"
  by (cases m) (simp_all add: message_update_defs from_monitor_def)

lemma process_ipc_message_open:
  "process_ipc_message X True now m =
    (Inr (), if from_monitor m then [] else [the (message_update X now m)])"
  using message_update_None [of X now m] by (auto simp: process_ipc_message_def split: option.splits)

lemma length_process_envelopes:
  "length (process_envelopes X True clock n es) = length (filter (\<lambda>e. \<not> from_monitor (env_message e)) es)"
  by (induction es arbitrary: n) (simp_all add: process_ipc_message_open)

end
