(* ===== verification/Tui_Ui.thy ===== *)
theory Tui_Ui
  imports Monitor
begin

text \<open>
  The state of the monitor's user interface: tabs (\<open>acdp-tui/src/tabs.rs\<close>), keyboard events
  (\<open>events.rs\<close>), lists with a selected row (\<open>servers_panel.rs\<close>, \<open>clients_panel.rs\<close>,
  \<open>activity_feed.rs\<close>, \<open>quick_access.rs\<close>), settings (\<open>settings_panel.rs\<close>) and the focus and
  overlays of \<open>ui.rs\<close>. Drawing is not modelled. The selected row of a list is an
  \<open>option\<close>; indices are natural numbers.
\<close>

section \<open>Tabs and events\<close>

datatype MainTab = ActivityTab | ServersTab | SettingsTab

definition tab_title :: "MainTab \<Rightarrow> string" where
  "tab_title t = (case t of ActivityTab \<Rightarrow> ''Activity'' | ServersTab \<Rightarrow> ''Servers''
     | SettingsTab \<Rightarrow> ''Settings'')"

definition tab_index :: "MainTab \<Rightarrow> nat" where
  "tab_index t = (case t of ActivityTab \<Rightarrow> 0 | ServersTab \<Rightarrow> 1 | SettingsTab \<Rightarrow> 2)"

definition tab_next :: "MainTab \<Rightarrow> MainTab" where
  "tab_next t = (case t of ActivityTab \<Rightarrow> ServersTab | ServersTab \<Rightarrow> SettingsTab
     | SettingsTab \<Rightarrow> ActivityTab)"

definition tab_prev :: "MainTab \<Rightarrow> MainTab" where
  "tab_prev t = (case t of ActivityTab \<Rightarrow> SettingsTab | ServersTab \<Rightarrow> ActivityTab
     | SettingsTab \<Rightarrow> ServersTab)"

definition tab_from_index :: "nat \<Rightarrow> MainTab" where
  "tab_from_index i = (if i = 0 then ActivityTab else if i = 1 then ServersTab
     else if i = 2 then SettingsTab else ActivityTab)"

datatype Event = Quit | Escape | Input char | Enter | Backspace | Tab | FocusNext | FocusPrev
  | Up | Down | Left | Right | CycleProxy | StartProxy

text \<open>A key event of the terminal library, as far as it is read.\<close>

datatype KeyCode = KeyEsc | KeyEnter | KeyTab | KeyBackTab | KeyBackspace | KeyLeft | KeyRight
  | KeyUp | KeyDown | KeyChar char | OtherKey

record KeyEvent =
  key_code :: KeyCode
  key_shift :: bool
  key_control :: bool
  key_press :: bool

definition map_event :: "KeyEvent option \<Rightarrow> Event option" where
  "map_event ev = (case ev of None \<Rightarrow> None | Some k \<Rightarrow>
     if \<not> key_press k then None
     else case key_code k of
       KeyEsc \<Rightarrow> Some Escape | KeyEnter \<Rightarrow> Some Enter
     | KeyTab \<Rightarrow> Some (if key_shift k then FocusPrev else if key_control k then FocusNext else Tab)
     | KeyBackTab \<Rightarrow> Some FocusPrev | KeyBackspace \<Rightarrow> Some Backspace
     | KeyLeft \<Rightarrow> Some Left | KeyRight \<Rightarrow> Some Right | KeyUp \<Rightarrow> Some Up | KeyDown \<Rightarrow> Some Down
     | KeyChar c \<Rightarrow> Some (if c \<in> {CHR ''c'', CHR ''q''} \<and> key_control k then Quit
         else if c \<in> {CHR ''p'', CHR ''P''} \<and> key_control k then CycleProxy
         else if c \<in> {CHR ''n'', CHR ''N''} \<and> key_control k then StartProxy else Input c)
     | OtherKey \<Rightarrow> None)"

section \<open>Lists with a selected row\<close>

text \<open>The panels of servers and of clients: selection wraps around.\<close>

definition sp_next :: "nat \<Rightarrow> nat option \<Rightarrow> nat option" where
  "sp_next len sel = (if len = 0 then None
     else let idx = (case sel of Some i \<Rightarrow> i | None \<Rightarrow> 0)
          in Some (if len \<le> idx + 1 then 0 else idx + 1))"

definition sp_previous :: "nat \<Rightarrow> nat option \<Rightarrow> nat option" where
  "sp_previous len sel = (if len = 0 then None
     else let idx = (case sel of Some i \<Rightarrow> i | None \<Rightarrow> 0)
          in Some (if idx = 0 then len - 1 else idx - 1))"

definition cp_next :: "nat \<Rightarrow> nat option \<Rightarrow> nat option" where
  "cp_next len sel = (if len = 0 then None
     else let idx = (case sel of Some i \<Rightarrow> i | None \<Rightarrow> 0)
          in Some (if len \<le> idx + 1 then 0 else idx + 1))"

definition cp_previous :: "nat \<Rightarrow> nat option \<Rightarrow> nat option" where
  "cp_previous len sel = (if len = 0 then None
     else let idx = (case sel of Some i \<Rightarrow> i | None \<Rightarrow> 0)
          in Some (if idx = 0 then len - 1 else idx - 1))"

text \<open>The activity feed: selection stops at the ends, and drawing moves it into range.\<close>

definition af_next :: "nat \<Rightarrow> nat option \<Rightarrow> nat option" where
  "af_next len sel = (let idx = (case sel of Some i \<Rightarrow> i | None \<Rightarrow> 0) in
     if len = 0 then None else Some (if len \<le> idx + 1 then len - 1 else idx + 1))"

definition af_previous :: "nat option \<Rightarrow> nat option" where
  "af_previous sel = (let idx = (case sel of Some i \<Rightarrow> i | None \<Rightarrow> 0) in Some (idx - 1))"

definition af_focus :: "nat option \<Rightarrow> nat option" where
  "af_focus sel = (if sel = None then Some 0 else sel)"

definition af_render :: "nat \<Rightarrow> nat option \<Rightarrow> nat option" where
  "af_render len sel = map_option (\<lambda>i. min i (len - 1)) sel"

text \<open>\<open>&id[0..9]\<close> panics inside a character; a continuation byte is \<open>10xxxxxx\<close>.\<close>

definition shorten_proxy_id :: "string \<Rightarrow> string rust" where
  "shorten_proxy_id i = (if starts_with i ''proxy-'' \<and> 15 < length i
     then (let b = (of_char (i ! 9) :: nat) in
           if 128 \<le> b \<and> b < 192 then Panic else Done (take 9 i))
     else Done i)"

section \<open>Quick actions\<close>

record QuickAction =
  qa_label :: string
  qa_description :: string
  qa_command :: string

record QuickAccess =
  qk_items :: "QuickAction list"
  qk_selected :: "nat option"
  qk_expanded :: bool

definition common_actions :: "QuickAction list" where
  "common_actions = [
     \<lparr>qa_label = ''Start Gemini Client'', qa_description = ''Launch Gemini MCP client in shell'',
      qa_command = ''start_gemini_client''\<rparr>,
     \<lparr>qa_label = ''List available tools'', qa_description = ''Inspect which tools MCP exposes'',
      qa_command = ''list_tools''\<rparr>,
     \<lparr>qa_label = ''Check server health'', qa_description = ''Gather latest health metrics'',
      qa_command = ''check_health''\<rparr>,
     \<lparr>qa_label = ''Open session'', qa_description = ''Start a new interactive session'',
      qa_command = ''open_session''\<rparr>]"

definition default_actions :: "QuickAction list" where
  "default_actions =
     \<lparr>qa_label = ''Start Default Proxy'',
      qa_description = ''Launch new proxy with semantic routing (multi-server support)'',
      qa_command = ''start_default_proxy''\<rparr> # common_actions @ [
     \<lparr>qa_label = ''Routing: Bypass'', qa_description = ''Force proxy to bypass LLM predictions'',
      qa_command = ''set_mode_bypass''\<rparr>,
     \<lparr>qa_label = ''Routing: Semantic'', qa_description = ''Enable semantic-only routing via LiteRT'',
      qa_command = ''set_mode_semantic''\<rparr>,
     \<lparr>qa_label = ''Routing: Hybrid'', qa_description = ''Combine rules with semantic fallback'',
      qa_command = ''set_mode_hybrid''\<rparr>]"

definition default_actions_with_start_proxy :: "QuickAction list" where
  "default_actions_with_start_proxy =
     \<lparr>qa_label = ''Start Default Proxy'',
      qa_description = ''Launch proxy with semantic routing enabled'',
      qa_command = ''start_default_proxy''\<rparr> # common_actions"

definition QuickAccess_new :: QuickAccess where
  "QuickAccess_new = \<lparr>qk_items = default_actions, qk_selected = Some 0, qk_expanded = False\<rparr>"

definition update_actions :: "bool \<Rightarrow> QuickAccess \<Rightarrow> QuickAccess" where
  "update_actions has_proxies q =
     (let new_items = (if has_proxies then default_actions else default_actions_with_start_proxy) in
      if length (qk_items q) \<noteq> length new_items then
        (let current_idx = (case qk_selected q of Some i \<Rightarrow> i | None \<Rightarrow> 0); q = q\<lparr>qk_items := new_items\<rparr>
         in if length new_items \<le> current_idx then q\<lparr>qk_selected := Some 0\<rparr> else q)
      else q)"

definition qk_focus :: "QuickAccess \<Rightarrow> QuickAccess" where
  "qk_focus q = (if qk_selected q = None \<and> qk_expanded q then q\<lparr>qk_selected := Some 0\<rparr> else q)"

definition toggle_expanded :: "QuickAccess \<Rightarrow> QuickAccess" where
  "toggle_expanded q = (let q = q\<lparr>qk_expanded := \<not> qk_expanded q\<rparr> in
     if \<not> qk_expanded q then q\<lparr>qk_selected := None\<rparr>
     else if qk_selected q = None \<and> qk_items q \<noteq> [] then q\<lparr>qk_selected := Some 0\<rparr> else q)"

definition drawer_height :: "QuickAccess \<Rightarrow> nat" where
  "drawer_height q = (if qk_expanded q then 8 else 3)"

definition qk_next :: "QuickAccess \<Rightarrow> QuickAccess" where
  "qk_next q = (if \<not> qk_expanded q then q
     else if qk_items q = [] then q\<lparr>qk_selected := None\<rparr>
     else let idx = (case qk_selected q of Some i \<Rightarrow> i | None \<Rightarrow> 0)
          in q\<lparr>qk_selected := Some (if length (qk_items q) \<le> idx + 1 then 0 else idx + 1)\<rparr>)"

definition qk_previous :: "QuickAccess \<Rightarrow> QuickAccess" where
  "qk_previous q = (if \<not> qk_expanded q then q
     else if qk_items q = [] then q\<lparr>qk_selected := None\<rparr>
     else let idx = (case qk_selected q of Some i \<Rightarrow> i | None \<Rightarrow> 0)
          in q\<lparr>qk_selected := Some (if idx = 0 then length (qk_items q) - 1 else idx - 1)\<rparr>)"

definition nth_opt :: "'a list \<Rightarrow> nat \<Rightarrow> 'a option" where
  "nth_opt xs i = (if i < length xs then Some (xs ! i) else None)"

definition execute_selected_action :: "QuickAccess \<Rightarrow> string option" where
  "execute_selected_action q = (if \<not> qk_expanded q then None
     else map_option qa_command (Option.bind (qk_selected q) (nth_opt (qk_items q))))"

definition execute_shortcut :: "nat \<Rightarrow> QuickAccess \<Rightarrow> string option" where
  "execute_shortcut slot q = map_option qa_command (nth_opt (qk_items q) slot)"

definition get_selected_action :: "QuickAccess \<Rightarrow> QuickAction option" where
  "get_selected_action q = Option.bind (qk_selected q) (nth_opt (qk_items q))"

section \<open>Settings\<close>

record LiteRTModel =
  lm_name :: string
  lm_size :: string
  lm_description :: string
  lm_installed :: bool

datatype SettingsSubtab = ModelsTab | TuiEngineTab | ProxyEngineTab | AdvancedTab

definition subtab_next :: "SettingsSubtab \<Rightarrow> SettingsSubtab" where
  "subtab_next t = (case t of ModelsTab \<Rightarrow> TuiEngineTab | TuiEngineTab \<Rightarrow> ProxyEngineTab
     | ProxyEngineTab \<Rightarrow> AdvancedTab | AdvancedTab \<Rightarrow> ModelsTab)"

definition subtab_prev :: "SettingsSubtab \<Rightarrow> SettingsSubtab" where
  "subtab_prev t = (case t of ModelsTab \<Rightarrow> AdvancedTab | TuiEngineTab \<Rightarrow> ModelsTab
     | ProxyEngineTab \<Rightarrow> TuiEngineTab | AdvancedTab \<Rightarrow> ProxyEngineTab)"

record EngineSettings =
  es_backend :: string
  es_temperature :: fp
  es_max_tokens :: nat
  es_semantic_routing :: bool
  es_semantic_model_path :: "string option"
  es_active_model :: "string option"

definition EngineSettings_default :: EngineSettings where
  "EngineSettings_default = \<lparr>es_backend = ''cpu'', es_temperature = f32_lit (7 / 10),
     es_max_tokens = 1000, es_semantic_routing = False, es_semantic_model_path = None,
     es_active_model = Some ''gemma3-1b-it-int4''\<rparr>"

datatype PanelFocus = ModelsList | Details

record SettingsPanel =
  st_current_tab :: SettingsSubtab
  st_models :: "LiteRTModel list"
  st_model_selected :: "nat option"
  st_tui_engine :: EngineSettings
  st_proxy_engine :: EngineSettings
  st_selected_setting :: nat
  st_hf_token :: string
  st_loading :: bool
  st_status_message :: "string option"
  st_panel_focus :: PanelFocus

definition SettingsPanel_new :: "string option \<Rightarrow> SettingsPanel" where
  "SettingsPanel_new hf = \<lparr>st_current_tab = ModelsTab, st_models = [], st_model_selected = None,
     st_tui_engine = EngineSettings_default, st_proxy_engine = EngineSettings_default,
     st_selected_setting = 0, st_hf_token = (case hf of Some t \<Rightarrow> t | None \<Rightarrow> []),
     st_loading = False, st_status_message = None, st_panel_focus = ModelsList\<rparr>"

text \<open>\<open>{:.0}\<close> of a non-negative value.\<close>

definition show_rounded :: "fp \<Rightarrow> string" where
  "show_rounded x = show_nat (nat (round_even (fp_val x)))"

definition format_size :: "u64 \<Rightarrow> string" where
  "format_size b =
     (let x = fp_of_nat binary64 (unat b) in
      if 2 ^ 30 \<le> unat b then show_fixed 2 (fp_div binary64 x (fp_of_nat binary64 (2 ^ 30))) @ ''GB''
      else if 2 ^ 20 \<le> unat b then show_rounded (fp_div binary64 x (fp_of_nat binary64 (2 ^ 20))) @ ''MB''
      else if 2 ^ 10 \<le> unat b then show_rounded (fp_div binary64 x (fp_of_nat binary64 (2 ^ 10))) @ ''KB''
      else show_nat (unat b) @ ''B'')"

text \<open>The model service as the panel sees it: the answers of its three calls.\<close>

record ModelInfo =
  mi_name :: string
  mi_path :: string
  mi_size_bytes :: u64
  mi_is_cached :: bool

record model_service =
  ms_cached :: "string + ModelInfo list"
  ms_available :: "string + ModelInfo list"
  ms_download :: "string \<Rightarrow> string + unit"

fun add_available :: "ModelInfo list \<Rightarrow> LiteRTModel list \<Rightarrow> LiteRTModel list" where
  "add_available [] ms = ms"
| "add_available (m # rest) ms = add_available rest
     (if list_ex (\<lambda>x. lm_name x = mi_name m) ms then ms
      else ms @ [\<lparr>lm_name = mi_name m, lm_size = format_size (mi_size_bytes m),
             lm_description = ''Available for download'', lm_installed = False\<rparr>])"

definition refresh_models :: "model_service option \<Rightarrow> SettingsPanel \<Rightarrow> SettingsPanel" where
  "refresh_models service p =
     (let p = p\<lparr>st_loading := True, st_status_message := Some ''Loading models...''\<rparr>;
          p = (case service of
            None \<Rightarrow> p\<lparr>st_status_message := Some ''LLM service not available''\<rparr>
          | Some s \<Rightarrow>
             (case ms_cached s of
                Inl e \<Rightarrow> p\<lparr>st_status_message := Some (''Failed to load models: '' @ e)\<rparr>
              | Inr cached \<Rightarrow>
                 (let models = map (\<lambda>m. \<lparr>lm_name = mi_name m, lm_size = format_size (mi_size_bytes m),
                         lm_description = ''Cached model: '' @ mi_path m, lm_installed = True\<rparr>) cached;
                      models = (case ms_available s of Inr av \<Rightarrow> add_available av models | Inl _ \<Rightarrow> models)
                  in p\<lparr>st_models := models,
                       st_status_message := Some (''Found '' @ show_nat (length models) @ '' models'')\<rparr>)))
      in p\<lparr>st_loading := False\<rparr>)"

definition pull_model :: "string \<Rightarrow> model_service option \<Rightarrow> SettingsPanel \<Rightarrow> SettingsPanel" where
  "pull_model model service p =
     (let p = p\<lparr>st_loading := True, st_status_message := Some (''Downloading '' @ model @ ''...'')\<rparr>;
          p = (case service of
            None \<Rightarrow> p\<lparr>st_status_message := Some ''LLM service not available''\<rparr>
          | Some s \<Rightarrow>
             (case ms_download s model of
                Inr _ \<Rightarrow> refresh_models (Some s)
                  (p\<lparr>st_status_message := Some (''Successfully downloaded '' @ model)\<rparr>)
              | Inl e \<Rightarrow> p\<lparr>st_status_message := Some (''Failed to download: '' @ e)\<rparr>))
      in p\<lparr>st_loading := False\<rparr>)"

definition toggle_panel_focus :: "SettingsPanel \<Rightarrow> SettingsPanel" where
  "toggle_panel_focus p = p\<lparr>st_panel_focus :=
     (case st_panel_focus p of ModelsList \<Rightarrow> Details | Details \<Rightarrow> ModelsList)\<rparr>"

definition model_next :: "nat \<Rightarrow> nat option \<Rightarrow> nat option" where
  "model_next len sel = (if len = 0 then sel
     else Some (case sel of Some i \<Rightarrow> (if len - 1 \<le> i then 0 else i + 1) | None \<Rightarrow> 0))"

definition model_prev :: "nat \<Rightarrow> nat option \<Rightarrow> nat option" where
  "model_prev len sel = (if len = 0 then sel
     else Some (case sel of Some i \<Rightarrow> (if i = 0 then len - 1 else i - 1) | None \<Rightarrow> 0))"

definition next_model :: "SettingsPanel \<Rightarrow> SettingsPanel" where
  "next_model p = p\<lparr>st_model_selected := model_next (length (st_models p)) (st_model_selected p)\<rparr>"

definition prev_model :: "SettingsPanel \<Rightarrow> SettingsPanel" where
  "prev_model p = p\<lparr>st_model_selected := model_prev (length (st_models p)) (st_model_selected p)\<rparr>"

definition next_setting :: "SettingsPanel \<Rightarrow> SettingsPanel" where
  "next_setting p = p\<lparr>st_selected_setting := (st_selected_setting p + 1) mod 6\<rparr>"

definition prev_setting :: "SettingsPanel \<Rightarrow> SettingsPanel" where
  "prev_setting p = p\<lparr>st_selected_setting :=
     (if st_selected_setting p = 0 then 5 else st_selected_setting p - 1)\<rparr>"

text \<open>\<open>f32::max\<close>.\<close>

definition fp_max :: "fp \<Rightarrow> fp \<Rightarrow> fp" where
  "fp_max x y = (if x = NaN then y else if y = NaN then x else if fp_le y x then x else y)"

definition position :: "('a \<Rightarrow> bool) \<Rightarrow> 'a list \<Rightarrow> nat option" where
  "position P xs = (let n = length (takeWhile (\<lambda>x. \<not> P x) xs) in if n < length xs then Some n else None)"

definition cycle_model :: "bool \<Rightarrow> LiteRTModel list \<Rightarrow> EngineSettings \<Rightarrow> EngineSettings" where
  "cycle_model increase models s =
     (let installed = filter lm_installed models in
      if installed = [] then s
      else let current_index = (case Option.bind (es_active_model s)
                 (\<lambda>nm. position (\<lambda>m. lm_name m = nm) installed) of Some i \<Rightarrow> i | None \<Rightarrow> 0);
               new_index = (if increase then (current_index + 1) mod length installed
                 else if current_index = 0 then length installed - 1 else current_index - 1)
           in s\<lparr>es_active_model := Some (lm_name (installed ! new_index))\<rparr>)"

definition adjust_engine :: "bool \<Rightarrow> nat \<Rightarrow> LiteRTModel list \<Rightarrow> EngineSettings \<Rightarrow> EngineSettings" where
  "adjust_engine increase setting models s =
     (if setting = 0 then cycle_model increase models s
      else if setting = 1 then s\<lparr>es_backend := (if es_backend s = ''cpu'' then ''gpu'' else ''cpu'')\<rparr>
      else if setting = 2 then s\<lparr>es_temperature :=
        (if increase then fp_min (fp_add binary32 (es_temperature s) (f32_lit (1 / 10))) (f32_lit 2)
         else fp_max (fp_sub binary32 (es_temperature s) (f32_lit (1 / 10))) (f32_lit 0))\<rparr>
      else if setting = 3 then s\<lparr>es_max_tokens :=
        (if increase then min (es_max_tokens s + 100) 4096 else max (es_max_tokens s - 100) 1)\<rparr>
      else if setting = 4 then s\<lparr>es_semantic_routing := \<not> es_semantic_routing s\<rparr>
      else s)"

definition adjust_setting :: "bool \<Rightarrow> SettingsPanel \<Rightarrow> SettingsPanel" where
  "adjust_setting increase p = (case st_current_tab p of
     TuiEngineTab \<Rightarrow> p\<lparr>st_tui_engine :=
       adjust_engine increase (st_selected_setting p) (st_models p) (st_tui_engine p)\<rparr>
   | ProxyEngineTab \<Rightarrow> p\<lparr>st_proxy_engine :=
       adjust_engine increase (st_selected_setting p) (st_models p) (st_proxy_engine p)\<rparr>
   | _ \<Rightarrow> p)"

section \<open>Focus, overlays and navigation\<close>

record UI =
  ui_current_tab :: MainTab
  ui_focus :: FocusArea
  ui_activity_feed :: "nat option"
  ui_servers_panel :: "nat option"
  ui_settings_panel :: SettingsPanel
  ui_diagnostics_prev_focus :: FocusArea
  ui_search_prev_focus :: FocusArea
  ui_search_overlay :: "string option"
  ui_models_refreshed :: bool

definition UI_new :: "string option \<Rightarrow> UI" where
  "UI_new hf = \<lparr>ui_current_tab = ActivityTab, ui_focus = MainTabs, ui_activity_feed = Some 0,
     ui_servers_panel = Some 0, ui_settings_panel = SettingsPanel_new hf,
     ui_diagnostics_prev_focus = MainTabs, ui_search_prev_focus = MainTabs,
     ui_search_overlay = None, ui_models_refreshed = False\<rparr>"

definition search_matches :: "ActivityItem \<Rightarrow> string \<Rightarrow> bool" where
  "search_matches item needle \<longleftrightarrow> str_contains (map ascii_lower (ac_client item)) needle
     \<or> str_contains (map ascii_lower (ac_server item)) needle
     \<or> str_contains (map ascii_lower (ac_action item)) needle
     \<or> str_contains (map ascii_lower (activity_status_label (ac_status item))) needle"

definition filtered_activities :: "UI \<Rightarrow> ActivityItem list \<Rightarrow> ActivityItem list \<times> nat" where
  "filtered_activities ui activities = (case ui_search_overlay ui of
     None \<Rightarrow> (activities, length activities)
   | Some query \<Rightarrow>
      (if trim query = [] then (activities, length activities)
       else let filtered = filter (\<lambda>i. search_matches i (map ascii_lower query)) activities
            in (filtered, length filtered)))"

definition next_tab :: "UI \<Rightarrow> UI" where
  "next_tab ui = ui\<lparr>ui_current_tab := tab_next (ui_current_tab ui)\<rparr>"

definition prev_tab :: "UI \<Rightarrow> UI" where
  "prev_tab ui = ui\<lparr>ui_current_tab := tab_prev (ui_current_tab ui)\<rparr>"

definition switch_to_tab :: "MainTab \<Rightarrow> UI \<Rightarrow> UI" where
  "switch_to_tab t ui = ui\<lparr>ui_current_tab := t\<rparr>"

definition toggle_focus :: "UI \<Rightarrow> UI" where
  "toggle_focus ui = ui\<lparr>ui_focus := (case ui_focus ui of MainTabs \<Rightarrow> QueryInput | _ \<Rightarrow> MainTabs)\<rparr>"

definition open_settings :: "UI \<Rightarrow> UI" where
  "open_settings ui = (if ui_focus ui \<noteq> SettingsFocus then ui\<lparr>ui_focus := SettingsFocus\<rparr> else ui)"

definition close_settings :: "UI \<Rightarrow> UI" where
  "close_settings ui = (if ui_focus ui = SettingsFocus then ui\<lparr>ui_focus := MainTabs\<rparr> else ui)"

definition open_diagnostics :: "UI \<Rightarrow> UI" where
  "open_diagnostics ui = (if ui_focus ui \<noteq> DiagnosticsFocus
     then ui\<lparr>ui_diagnostics_prev_focus := ui_focus ui, ui_focus := DiagnosticsFocus\<rparr> else ui)"

definition close_diagnostics :: "UI \<Rightarrow> UI" where
  "close_diagnostics ui = (if ui_focus ui = DiagnosticsFocus
     then ui\<lparr>ui_focus := ui_diagnostics_prev_focus ui\<rparr> else ui)"

definition open_search :: "UI \<Rightarrow> UI" where
  "open_search ui = (if ui_focus ui \<noteq> SearchFocus
     then ui\<lparr>ui_search_prev_focus := ui_focus ui, ui_search_overlay := Some [], ui_focus := SearchFocus\<rparr>
     else ui)"

definition close_search :: "UI \<Rightarrow> UI" where
  "close_search ui = (if ui_focus ui = SearchFocus
     then ui\<lparr>ui_search_overlay := None, ui_focus := ui_search_prev_focus ui\<rparr> else ui)"

text \<open>\<open>char::is_control\<close> on the characters of one byte.\<close>

definition is_control :: "char \<Rightarrow> bool" where
  "is_control c \<longleftrightarrow> (let n = (of_char c :: nat) in n < 32 \<or> n = 127)"

definition handle_search_input :: "char \<Rightarrow> UI \<Rightarrow> UI" where
  "handle_search_input ch ui = (case ui_search_overlay ui of
     Some q \<Rightarrow> (if is_control ch then ui else ui\<lparr>ui_search_overlay := Some (q @ [ch])\<rparr>)
   | None \<Rightarrow> ui)"

definition search_backspace :: "UI \<Rightarrow> UI" where
  "search_backspace ui = ui\<lparr>ui_search_overlay := map_option butlast (ui_search_overlay ui)\<rparr>"

definition should_refresh_models :: "UI \<Rightarrow> bool \<times> UI" where
  "should_refresh_models ui = (if ui_focus ui = SettingsFocus \<and> \<not> ui_models_refreshed ui
     then (True, ui\<lparr>ui_models_refreshed := True\<rparr>) else (False, ui))"

definition reset_models_refresh_flag :: "UI \<Rightarrow> UI" where
  "reset_models_refresh_flag ui = (if ui_focus ui \<noteq> SettingsFocus \<and> ui_models_refreshed ui
     then ui\<lparr>ui_models_refreshed := False\<rparr> else ui)"

record NavigationContext =
  nv_activity_len :: nat
  nv_server_len :: nat

definition handle_up :: "NavigationContext \<Rightarrow> UI \<Rightarrow> UI" where
  "handle_up ctx ui = (case ui_current_tab ui of
     ActivityTab \<Rightarrow> ui\<lparr>ui_activity_feed := af_previous (ui_activity_feed ui)\<rparr>
   | ServersTab \<Rightarrow> ui\<lparr>ui_servers_panel := sp_previous (nv_server_len ctx) (ui_servers_panel ui)\<rparr>
   | SettingsTab \<Rightarrow> ui\<lparr>ui_settings_panel :=
       (if st_current_tab (ui_settings_panel ui) = ModelsTab then prev_model (ui_settings_panel ui)
        else prev_setting (ui_settings_panel ui))\<rparr>)"

definition handle_down :: "NavigationContext \<Rightarrow> UI \<Rightarrow> UI" where
  "handle_down ctx ui = (case ui_current_tab ui of
     ActivityTab \<Rightarrow> ui\<lparr>ui_activity_feed := af_next (nv_activity_len ctx) (ui_activity_feed ui)\<rparr>
   | ServersTab \<Rightarrow> ui\<lparr>ui_servers_panel := sp_next (nv_server_len ctx) (ui_servers_panel ui)\<rparr>
   | SettingsTab \<Rightarrow> ui\<lparr>ui_settings_panel :=
       (if st_current_tab (ui_settings_panel ui) = ModelsTab then next_model (ui_settings_panel ui)
        else next_setting (ui_settings_panel ui))\<rparr>)"

definition handle_left :: "UI \<Rightarrow> UI" where
  "handle_left ui = (if ui_current_tab ui = SettingsTab then
     ui\<lparr>ui_settings_panel := (let p = ui_settings_panel ui in
       case st_current_tab p of TuiEngineTab \<Rightarrow> adjust_setting False p | ProxyEngineTab \<Rightarrow> adjust_setting False p
       | _ \<Rightarrow> p\<lparr>st_current_tab := subtab_prev (st_current_tab p)\<rparr>)\<rparr> else ui)"

definition handle_right :: "UI \<Rightarrow> UI" where
  "handle_right ui = (if ui_current_tab ui = SettingsTab then
     ui\<lparr>ui_settings_panel := (let p = ui_settings_panel ui in
       case st_current_tab p of TuiEngineTab \<Rightarrow> adjust_setting True p | ProxyEngineTab \<Rightarrow> adjust_setting True p
       | _ \<Rightarrow> p\<lparr>st_current_tab := subtab_next (st_current_tab p)\<rparr>)\<rparr> else ui)"

section \<open>Cursors that wrap around\<close>

text \<open>The contract of a list whose selection moves down and up and wraps at the ends, however the
  panel computes it.\<close>

locale wrap_cursor =
  fixes nxt :: "nat \<Rightarrow> nat option \<Rightarrow> nat option"
    and prv :: "nat \<Rightarrow> nat option \<Rightarrow> nat option"
  assumes nxt_Some: "i < n \<Longrightarrow> nxt n (Some i) = Some (if Suc i = n then 0 else Suc i)"
    and prv_Some: "i < n \<Longrightarrow> prv n (Some i) = Some (if i = 0 then n - 1 else i - 1)"
begin

lemma prv_nxt: "i < n \<Longrightarrow> prv n (nxt n (Some i)) = Some i"
  by (auto simp: nxt_Some prv_Some)

lemma nxt_prv: "i < n \<Longrightarrow> nxt n (prv n (Some i)) = Some i"
  by (auto simp: nxt_Some prv_Some)

lemma nxt_mod: "i < n \<Longrightarrow> nxt n (Some i) = Some (Suc i mod n)"
  by (auto simp: nxt_Some mod_Suc)

lemma nxt_funpow: "i < n \<Longrightarrow> (nxt n ^^ k) (Some i) = Some ((i + k) mod n)"
proof (induction k)
  case (Suc k)
  then have "nxt n (Some ((i + k) mod n)) = Some (Suc ((i + k) mod n) mod n)" by (intro nxt_mod) simp
  then show ?case using Suc by (simp add: mod_Suc_eq)
qed simp

lemma nxt_reaches: "i < n \<Longrightarrow> j < n \<Longrightarrow> \<exists>k<n. (nxt n ^^ k) (Some i) = Some j"
  by (rule exI [of _ "(n + j - i) mod n"]) (simp add: nxt_funpow mod_add_right_eq)

end

interpretation servers: wrap_cursor sp_next sp_previous
  by unfold_locales (auto simp: sp_next_def sp_previous_def)

interpretation clients: wrap_cursor cp_next cp_previous
  by unfold_locales (auto simp: cp_next_def cp_previous_def)

interpretation models: wrap_cursor model_next model_prev
  by unfold_locales (auto simp: model_next_def model_prev_def)

text \<open>Every row can be reached. From a selected row of the server list, pressing the down key
  fewer than \<open>n\<close> times reaches any other row, and the up key undoes the down key; the same holds
  for the clients and the models.\<close>

theorem rows_reachable:
  assumes "i < n" "j < n"
  shows "\<exists>k<n. (sp_next n ^^ k) (Some i) = Some j \<and> (cp_next n ^^ k) (Some i) = Some j
      \<and> (model_next n ^^ k) (Some i) = Some j"
    and "sp_previous n (sp_next n (Some i)) = Some i \<and> cp_previous n (cp_next n (Some i)) = Some i
      \<and> model_prev n (model_next n (Some i)) = Some i"
  using servers.nxt_reaches [OF assms] servers.nxt_funpow [OF assms(1)] clients.nxt_funpow [OF assms(1)]
    models.nxt_funpow [OF assms(1)] servers.prv_nxt [OF assms(1)] clients.prv_nxt [OF assms(1)]
    models.prv_nxt [OF assms(1)]
  by auto

text \<open>The expanded quick actions move the same way, and never name an action that is not shown.\<close>

lemma qk_next_cursor: "qk_expanded q \<Longrightarrow> qk_items q \<noteq> [] \<Longrightarrow>
    qk_next q = q\<lparr>qk_selected := sp_next (length (qk_items q)) (qk_selected q)\<rparr>"
  by (simp add: qk_next_def sp_next_def Let_def)

lemma qk_previous_cursor: "qk_expanded q \<Longrightarrow> qk_items q \<noteq> [] \<Longrightarrow>
    qk_previous q = q\<lparr>qk_selected := sp_previous (length (qk_items q)) (qk_selected q)\<rparr>"
  by (simp add: qk_previous_def sp_previous_def Let_def)

definition qk_ok :: "QuickAccess \<Rightarrow> bool" where
  "qk_ok q \<longleftrightarrow> qk_items q \<in> {default_actions, default_actions_with_start_proxy}
     \<and> (\<forall>i. qk_selected q = Some i \<longrightarrow> i < length (qk_items q))"

lemma action_lists_nonempty [simp]:
  "default_actions \<noteq> []" "default_actions_with_start_proxy \<noteq> []"
  "0 < length default_actions" "0 < length default_actions_with_start_proxy"
  by (simp_all add: default_actions_def default_actions_with_start_proxy_def)

lemma qk_ok_new: "qk_ok QuickAccess_new"
  by (simp add: qk_ok_def QuickAccess_new_def)

lemma qk_ok_ops:
  assumes "qk_ok q"
  shows "qk_ok (update_actions b q)" "qk_ok (qk_focus q)" "qk_ok (toggle_expanded q)"
    "qk_ok (qk_next q)" "qk_ok (qk_previous q)"
proof -
  have ne: "qk_items q \<noteq> []" "0 < length (qk_items q)" using assms by (auto simp: qk_ok_def)
  show "qk_ok (update_actions b q)"
    using assms by (auto simp: qk_ok_def update_actions_def Let_def split: option.splits)
  show "qk_ok (qk_focus q)" using assms ne by (auto simp: qk_ok_def qk_focus_def)
  show "qk_ok (toggle_expanded q)" using assms ne by (auto simp: qk_ok_def toggle_expanded_def Let_def)
  show "qk_ok (qk_next q)" using assms ne by (auto simp: qk_ok_def qk_next_def Let_def split: option.splits)
  show "qk_ok (qk_previous q)"
    using assms ne by (fastforce simp: qk_ok_def qk_previous_def Let_def split: option.splits)
qed

text \<open>Once expanded, the quick access always has an action to run: expanding selects the first one,
  and no move loses the selection.\<close>

lemma expanded_runs_action:
  assumes "qk_ok q" "\<not> qk_expanded q"
  shows "\<exists>i\<in>set (qk_items q). execute_selected_action (toggle_expanded q) = Some (qa_command i)"
proof -
  have "qk_items q \<noteq> []" using assms by (auto simp: qk_ok_def)
  then show ?thesis
    using assms by (cases "qk_selected q")
      (auto simp: qk_ok_def toggle_expanded_def execute_selected_action_def nth_opt_def Let_def)
qed

section \<open>Settings stay in range\<close>

definition engine_ok :: "EngineSettings \<Rightarrow> bool" where
  "engine_ok s \<longleftrightarrow> es_backend s \<in> {''cpu'', ''gpu''} \<and> fp_upto 2 (es_temperature s)
     \<and> 1 \<le> es_max_tokens s \<and> es_max_tokens s \<le> 4096"

definition settings_ok :: "SettingsPanel \<Rightarrow> bool" where
  "settings_ok p \<longleftrightarrow> engine_ok (st_tui_engine p) \<and> engine_ok (st_proxy_engine p)
     \<and> st_selected_setting p < 6"

lemma f32_lits: "f32_lit 2 = Fin False 2" "f32_lit 0 = Fin False 0"
proof -
  show "f32_lit 2 = Fin False 2" using fp_of_nat_exact [OF exact32_nat, of 2]
    by (simp add: f32_lit_def fp_of_nat_def fp_of_rat_def)
  show "f32_lit 0 = Fin False 0"
    by (simp add: f32_lit_def fp_round_def mag_round_def not_le)
qed

lemma f32_lit_upto: "0 \<le> q \<Longrightarrow> q \<le> of_nat n \<Longrightarrow> n \<le> 2 ^ 24 \<Longrightarrow> fp_upto (of_nat n) (f32_lit q)"
  unfolding f32_lit_def by (intro fp_round_upto exact32_nat)

lemma fp_upto_min: "fp_upto c x \<Longrightarrow> 0 \<le> b \<Longrightarrow> fp_upto b (fp_min x (Fin False b))"
  by (auto simp: fp_upto_def fp_min_def fp_val_def)

lemma fp_upto_max_sub:
  assumes "fp_upto c x" "fp_upto d y" "exact F c"
  shows "fp_upto c (fp_max (fp_sub F x y) (Fin False 0))"
proof -
  obtain s m t n where xy: "x = Fin s m" "y = Fin t n" "0 \<le> m" "m \<le> c" "s \<longrightarrow> m = 0" "0 \<le> n" "t \<longrightarrow> n = 0"
    using assms unfolding fp_upto_def by blast
  define z where "z = (s \<and> \<not> t)"
  have z: "fp_sub F x y = fp_of_rat F z (m - n)"
    using xy by (cases s; cases t) (simp_all add: fp_sub_def fp_val_def z_def)
  show ?thesis
  proof (cases "0 \<le> m - n")
    case True
    then have "fp_upto c (fp_of_rat F z (m - n))" using xy assms(3) by (intro fp_of_rat_upto) auto
    then show ?thesis using z by (auto simp: fp_upto_def fp_max_def)
  next
    case False
    have "0 \<le> c" using xy by simp
    moreover have "0 \<le> mag_round F \<bar>m - n\<bar>" by (rule mag_round_nonneg) simp
    ultimately show ?thesis using False z
      by (auto simp: fp_of_rat_def fp_round_def Let_def fp_max_def fp_upto_def fp_val_def)
  qed
qed

lemma engine_default_ok: "engine_ok EngineSettings_default"
  using f32_lit_upto [of "7 / 10" 2] by (simp add: engine_ok_def EngineSettings_default_def)

lemma adjust_engine_ok:
  assumes "engine_ok s"
  shows "engine_ok (adjust_engine up k models s)"
proof -
  have t: "fp_upto 2 (es_temperature s)" and d: "fp_upto 1 (f32_lit (1 / 10))"
    using assms f32_lit_upto [of "1 / 10" 1] by (simp_all add: engine_ok_def)
  have e: "exact binary32 2" "exact binary32 3" using exact32_nat [of 2] exact32_nat [of 3] by simp_all
  have "fp_upto 2 (fp_min (fp_add binary32 (es_temperature s) (f32_lit (1 / 10))) (f32_lit 2))"
    unfolding f32_lits using fp_add_upto [OF t d _ e(2)] by (intro fp_upto_min) simp_all
  moreover have "fp_upto 2 (fp_max (fp_sub binary32 (es_temperature s) (f32_lit (1 / 10))) (f32_lit 0))"
    unfolding f32_lits using t d e(1) by (rule fp_upto_max_sub)
  ultimately show ?thesis
    using assms by (auto simp: adjust_engine_def engine_ok_def cycle_model_def Let_def)
qed

lemma settings_ops_ok:
  assumes "settings_ok p"
  shows "settings_ok (adjust_setting up p)" "settings_ok (next_setting p)" "settings_ok (prev_setting p)"
    "settings_ok (next_model p)" "settings_ok (prev_model p)" "settings_ok (p\<lparr>st_current_tab := t\<rparr>)"
  using assms adjust_engine_ok
  by (auto simp: settings_ok_def adjust_setting_def next_setting_def prev_setting_def next_model_def
      prev_model_def split: SettingsSubtab.splits)

lemma settings_new_ok: "settings_ok (SettingsPanel_new hf)"
  using engine_default_ok by (simp add: settings_ok_def SettingsPanel_new_def)

lemma refresh_models_keeps: "settings_ok (refresh_models s p) = settings_ok p"
  by (simp add: settings_ok_def refresh_models_def Let_def split: option.splits sum.splits)

section \<open>The list of models\<close>

lemma add_available_step:
  fixes ms :: "LiteRTModel list"
  defines "has m \<equiv> mi_name m \<in> lm_name ` set ms"
  shows "add_available (m # rest) ms = add_available rest (if has m then ms
     else ms @ [\<lparr>lm_name = mi_name m, lm_size = format_size (mi_size_bytes m),
            lm_description = ''Available for download'', lm_installed = False\<rparr>])"
  by (auto simp: has_def list_ex_iff image_iff eq_commute)

lemma add_available_names:
  "lm_name ` set (add_available av ms) = lm_name ` set ms \<union> mi_name ` set av"
  by (induction av arbitrary: ms) (auto simp: add_available_step simp del: add_available.simps(2))

lemma add_available_distinct:
  "distinct (map lm_name ms) \<Longrightarrow> distinct (map lm_name (add_available av ms))"
  by (induction av arbitrary: ms) (auto simp: add_available_step simp del: add_available.simps(2))

lemma add_available_installed: "filter lm_installed (add_available av ms) = filter lm_installed ms"
  by (induction av arbitrary: ms) (auto simp: add_available_step simp del: add_available.simps(2))

text \<open>Models listed once. When the cache lists every model once, the refreshed panel lists each
  cached or available model exactly once, and the installed ones are the cached ones.\<close>

theorem models_listed_once:
  assumes "ms_cached s = Inr cached" "ms_available s = Inr av" "distinct (map mi_name cached)"
  shows "distinct (map lm_name (st_models (refresh_models (Some s) p)))
    \<and> set (map lm_name (st_models (refresh_models (Some s) p))) = mi_name ` (set cached \<union> set av)
    \<and> map lm_name (filter lm_installed (st_models (refresh_models (Some s) p))) = map mi_name cached"
proof -
  define c where "c = map (\<lambda>m. \<lparr>lm_name = mi_name m, lm_size = format_size (mi_size_bytes m),
      lm_description = ''Cached model: '' @ mi_path m, lm_installed = True\<rparr>) cached"
  have m: "st_models (refresh_models (Some s) p) = add_available av c"
    using assms by (simp add: refresh_models_def Let_def c_def)
  have n: "map lm_name c = map mi_name cached" "filter lm_installed c = c"
    by (simp_all add: comp_def filter_map c_def)
  then have "lm_name ` set c = mi_name ` set cached" by (metis list.set_map)
  then show ?thesis unfolding m
    using add_available_distinct [of c av] add_available_names [of av c] add_available_installed [of av c]
      n assms(3) by (simp add: image_Un)
qed

section \<open>Tabs and overlays\<close>

lemma tab_cycle [simp]: "tab_prev (tab_next t) = t" "tab_next (tab_prev t) = t"
  "tab_from_index (tab_index t) = t" "tab_index (tab_next t) = (tab_index t + 1) mod 3"
  by (cases t; simp add: tab_next_def tab_prev_def tab_index_def tab_from_index_def)+

text \<open>An overlay that is opened and closed again leaves the interface where it was, up to the
  remembered focus; the settings overlay always returns to the tabs.\<close>

lemma overlay_returns:
  "ui_focus ui \<noteq> DiagnosticsFocus \<Longrightarrow> ui_focus (close_diagnostics (open_diagnostics ui)) = ui_focus ui"
  "ui_focus ui \<noteq> SearchFocus \<Longrightarrow> ui_focus (close_search (open_search ui)) = ui_focus ui"
  "ui_focus (close_settings (open_settings ui)) = MainTabs"
  by (simp_all add: close_diagnostics_def open_diagnostics_def close_search_def open_search_def
      close_settings_def open_settings_def)

end
