(* ===== verification/Tui_App.thy ===== *)
theory Tui_App
  imports Tui_Ui "HOL-Library.AList"
begin

text \<open>
  The monitor application (\<open>acdp-tui/src/app.rs\<close>): its state, keyboard events, queries to the
  proxy, the gateway or the local model, selection of proxies and routing modes, and the updates
  from proxies and from the model. Terminal, file system, processes, sockets and the model are the
  answers in \<open>app_env\<close>; what the application sends to proxies is kept in \<open>ap_sent\<close>. A hash map
  is a partial map, and the order in which its values are visited is an argument. Characters are
  of one byte.
\<close>

section \<open>State\<close>

datatype ModelStatus = NotLoaded | Loading | Ready | ModelError string

record DownloadProgress =
  dp_model_name :: string
  dp_bytes_downloaded :: u64
  dp_total_bytes :: "u64 option"
  dp_percentage :: fp

record GenerationMetrics =
  gn_total_tokens :: nat
  gn_duration :: duration
  gn_time_to_first_token :: "duration option"
  gn_tokens_per_second :: "fp option"

record DiagnosticsData =
  dg_model_status :: ModelStatus
  dg_model_name :: "string option"
  dg_download_progress :: "DownloadProgress option"
  dg_ttft :: "fp option"
  dg_tokens_per_sec :: "fp option"
  dg_gepa_optimization :: "fp option"
  dg_dspy_accuracy :: "fp option"
  dg_last_query :: "string option"
  dg_last_response :: "string option"
  dg_routing_mode :: "string option"
  dg_session_accuracy :: "fp option"
  dg_session_total :: "u64 option"
  dg_session_successful :: "u64 option"
  dg_interceptor_count :: "u64 option"
  dg_interceptor_modifications :: "u64 option"
  dg_interceptor_blocks :: "u64 option"
  dg_gateway_active_proxies :: "u64 option"
  dg_gateway_total_clients :: "u64 option"
  dg_gateway_total_servers :: "u64 option"
  dg_gateway_uptime_seconds :: "u64 option"
  dg_gateway_total_requests :: "u64 option"
  dg_gateway_total_errors :: "u64 option"
  dg_gateway_avg_response_time :: "fp option"
  dg_gateway_requests_per_sec :: "fp option"

definition DiagnosticsData_default :: DiagnosticsData where
  "DiagnosticsData_default = \<lparr>dg_model_status = NotLoaded, dg_model_name = None,
     dg_download_progress = None, dg_ttft = None, dg_tokens_per_sec = None,
     dg_gepa_optimization = None, dg_dspy_accuracy = None, dg_last_query = None,
     dg_last_response = None, dg_routing_mode = None, dg_session_accuracy = None,
     dg_session_total = None, dg_session_successful = None, dg_interceptor_count = None,
     dg_interceptor_modifications = None, dg_interceptor_blocks = None,
     dg_gateway_active_proxies = None, dg_gateway_total_clients = None,
     dg_gateway_total_servers = None, dg_gateway_uptime_seconds = None,
     dg_gateway_total_requests = None, dg_gateway_total_errors = None,
     dg_gateway_avg_response_time = None, dg_gateway_requests_per_sec = None\<rparr>"

record ShownPrediction =
  sn_query :: "string option"
  sn_predicted_tool :: "string option"
  sn_confidence :: "f64 option"
  sn_actual_tool :: "string option"
  sn_success :: "bool option"

record ActiveGeneration =
  ag_prompt :: string
  ag_accumulated :: string
  ag_activity_index :: nat

datatype UiGenerationEvent = GenToken u64 string | GenCompleted u64 GenerationMetrics

datatype LlmEvent = LlmModelStatus ModelStatus | LlmDownloadProgress DownloadProgress
  | LlmModelReady string | LlmGenerationFinished GenerationMetrics

record App =
  ap_ui :: UI
  ap_clients :: "string \<rightharpoonup> ShownClient"
  ap_servers :: "string \<rightharpoonup> ShownServer"
  ap_activities :: "ActivityItem list"
  ap_query_input :: string
  ap_running :: bool
  ap_gateway :: bool
  ap_ipc :: bool
  ap_sent :: "IpcMessage list"
  ap_pending :: "string \<rightharpoonup> string \<times> nat"
  ap_sessions :: "SessionId \<rightharpoonup> ProxySession"
  ap_selected_proxy :: "string option"
  ap_llm :: bool
  ap_next_generation :: u64
  ap_generations :: "(u64 \<times> ActiveGeneration) list"
  ap_diagnostics :: DiagnosticsData
  ap_prediction :: ShownPrediction

text \<open>The state after start-up, with what could be connected then.\<close>

definition App_new :: "string option \<Rightarrow> string \<Rightarrow> bool \<Rightarrow> bool \<Rightarrow> App" where
  "App_new hf routing_mode gateway llm = \<lparr>ap_ui = UI_new hf, ap_clients = Map.empty,
     ap_servers = Map.empty, ap_activities = [], ap_query_input = [], ap_running = True,
     ap_gateway = gateway, ap_ipc = False, ap_sent = [], ap_pending = Map.empty,
     ap_sessions = Map.empty, ap_selected_proxy = None, ap_llm = llm, ap_next_generation = 0,
     ap_generations = [],
     ap_diagnostics = DiagnosticsData_default\<lparr>dg_routing_mode := Some routing_mode\<rparr>,
     ap_prediction = \<lparr>sn_query = None, sn_predicted_tool = None, sn_confidence = None,
       sn_actual_tool = None, sn_success = None\<rparr>\<rparr>"

text \<open>Answers of the environment to one call: the clock, a fresh correlation id, whether a send to
  the proxy fails, the proxy socket, the gateway client, the model, the visiting order of the
  server map and its size and that of the other maps, and the processes the monitor can start.\<close>

record app_env =
  ae_now :: datetime
  ae_uuid :: string
  ae_ipc_send :: "IpcMessage \<Rightarrow> string option"
  ae_ipc_connect :: "string \<Rightarrow> bool"
  ae_ipc_socket :: "string option"
  ae_parse_uuid :: "string \<Rightarrow> string option"
  ae_gateway_ready :: bool
  ae_gateway_send :: "string \<Rightarrow> json \<Rightarrow> string + JsonRpcResponse"
  ae_llm_start :: "string \<Rightarrow> string option"
  ae_servers :: "string list"
  ae_clients_len :: nat
  ae_sessions_len :: nat
  ae_path_exists :: "string \<Rightarrow> bool"
  ae_manifest_dir :: string
  ae_spawn :: "string list \<Rightarrow> string option"
  ae_gemini_add :: "string + bool \<times> string"
  ae_launch :: "string option"

section \<open>Activities\<close>

definition push_activity :: "ActivityItem \<Rightarrow> App \<Rightarrow> App" where
  "push_activity i a = a\<lparr>ap_activities := ap_activities a @ [i]\<rparr>"

definition modify_activity :: "nat \<Rightarrow> (ActivityItem \<Rightarrow> ActivityItem) \<Rightarrow> App \<Rightarrow> App" where
  "modify_activity i f a = (if i < length (ap_activities a)
     then a\<lparr>ap_activities := (ap_activities a)[i := f (ap_activities a ! i)]\<rparr> else a)"

definition settle :: "ActivityStatus \<Rightarrow> string \<Rightarrow> ActivityItem \<Rightarrow> ActivityItem" where
  "settle st act i = i\<lparr>ac_status := st, ac_action := act\<rparr>"

section \<open>Proxies\<close>

text \<open>The proxies in visiting order.\<close>

definition proxies :: "app_env \<Rightarrow> App \<Rightarrow> ShownServer list" where
  "proxies E a = filter (\<lambda>s. sv_type s = ProxyServer) (List.map_filter (ap_servers a) (ae_servers E))"

definition mode_label :: "string \<Rightarrow> string option" where
  "mode_label m = (if m = ''bypass'' then Some ''Bypass'' else if m = ''semantic'' then Some ''Semantic''
     else if m = ''hybrid'' then Some ''Hybrid'' else None)"

text \<open>The proxy a mode change is meant for: the selected one, or the only one, which becomes the
  selection.\<close>

definition target_proxy :: "app_env \<Rightarrow> App \<Rightarrow> (string + ShownServer) \<times> App" where
  "target_proxy E a = (let ps = proxies E a in
     if ps = [] then (Inl ''No proxy registered with monitor'', a)
     else case ap_selected_proxy a of
       Some i \<Rightarrow> (case find (\<lambda>p. sv_id p = i) ps of
           Some p \<Rightarrow> (Inr p, a) | None \<Rightarrow> (Inl ''Selected proxy not found'', a))
     | None \<Rightarrow>
        (if length ps = 1 then (Inr (hd ps), a\<lparr>ap_selected_proxy := Some (sv_id (hd ps))\<rparr>)
         else (Inl (''Multiple proxies detected ('' @ show_nat (length ps)
           @ ''). Use '' @ [CHR 0x27] @ ''P'' @ [CHR 0x27] @ '' key to select target proxy first''), a)))"

definition handle_routing_mode_change :: "app_env \<Rightarrow> string \<Rightarrow> App \<Rightarrow> ActivityItem \<times> App" where
  "handle_routing_mode_change E mode a =
     (let normalized = map ascii_lower mode; item = (\<lambda>sv t st. activity (ae_now E) ''User'' sv t st) in
      case mode_label normalized of
        None \<Rightarrow> (item ''Proxy'' (''Invalid routing mode '' @ [CHR 0x27] @ mode @ [CHR 0x27]
            @ ''. Valid modes: bypass, semantic, hybrid'') Failed, a)
      | Some label \<Rightarrow>
         (if \<not> ap_ipc a then (item ''Proxy'' ''Cannot set routing mode (IPC not connected)'' Failed, a)
          else case target_proxy E a of
            (Inl e, a) \<Rightarrow> (item ''Proxy'' e Failed, a)
          | (Inr p, a) \<Rightarrow>
             (case ae_parse_uuid E (sv_id p) of
                None \<Rightarrow> (item (sv_name p) ''Invalid proxy identifier'' Failed, a)
              | Some u \<Rightarrow>
                 (case ae_ipc_send E (RoutingModeChange u normalized) of
                    None \<Rightarrow> (item (sv_name p) (''Routing mode set to '' @ label) Success,
                      a\<lparr>ap_sent := ap_sent a @ [RoutingModeChange u normalized],
                        ap_diagnostics := (ap_diagnostics a)\<lparr>dg_routing_mode := Some label\<rparr>\<rparr>)
                  | Some e \<Rightarrow> (item (sv_name p) (''Failed to set routing mode: '' @ e) Failed, a)))))"

definition cycle_proxy_selection :: "app_env \<Rightarrow> App \<Rightarrow> ActivityItem \<times> App" where
  "cycle_proxy_selection E a =
     (let ps = proxies E a; item = (\<lambda>t st. activity (ae_now E) ''User'' ''System'' t st) in
      if ps = [] then (item ''No proxies available to select'' Failed, a)
      else if length ps = 1 then
        (item (''Only one proxy: '' @ sv_name (hd ps) @ '' (auto-selected)'') Success,
         a\<lparr>ap_selected_proxy := Some (sv_id (hd ps))\<rparr>)
      else
        (let current = Option.bind (ap_selected_proxy a) (\<lambda>i. position (\<lambda>p. sv_id p = i) ps);
             k = (case current of Some i \<Rightarrow> (i + 1) mod length ps | None \<Rightarrow> 0);
             p = ps ! k;
             mode = (case sv_routing_mode p of Some m \<Rightarrow> '' (mode: '' @ m @ '')'' | None \<Rightarrow> [])
         in (item (''Selected proxy '' @ show_nat (k + 1) @ '' of '' @ show_nat (length ps) @ '': ''
               @ sv_name p @ mode) Success,
             a\<lparr>ap_selected_proxy := Some (sv_id p)\<rparr>)))"

section \<open>Starting processes\<close>

definition handle_start_default_proxy :: "app_env \<Rightarrow> ActivityItem" where
  "handle_start_default_proxy E =
     (let server = ae_manifest_dir E @ ''/../tests/common/test_server.py'';
          binary = ae_manifest_dir E @ ''/../target/release/mcp-cli'';
          item = (\<lambda>t st. activity (ae_now E) ''User'' ''System'' t st) in
      if \<not> ae_path_exists E server then item ''Cannot start proxy: test_server.py not found'' Failed
      else if \<not> ae_path_exists E binary
      then item ''Binary not found. Run: cargo build --release -p mcp-cli'' Failed
      else case ae_spawn E [binary, ''proxy'', ''--routing-mode'', ''semantic'', ''--transport'',
               ''stdio'', ''--command'', ''python3 '' @ server] of
             None \<Rightarrow> item ''Started default proxy with semantic routing (check Servers panel)'' Success
           | Some e \<Rightarrow> item (''Failed to start proxy: '' @ e) Failed)"

definition handle_start_gemini_client :: "app_env \<Rightarrow> ActivityItem" where
  "handle_start_gemini_client E =
     (let item = (\<lambda>t st. activity (ae_now E) ''User'' ''System'' t st);
          launch = (case ae_launch E of
            None \<Rightarrow> item ''Launched Gemini MCP client in new terminal (server configured)'' Success
          | Some e \<Rightarrow> item (''Failed to launch Gemini client: '' @ e) Failed) in
      case ae_gemini_add E of
        Inl e \<Rightarrow> item (''Failed to configure Gemini (gemini CLI not found?): '' @ e) Failed
      | Inr (ok, stderr) \<Rightarrow>
          (if ok then launch
           else if \<not> str_contains stderr ''already'' \<and> stderr \<noteq> []
           then item (''Failed to configure Gemini MCP server: '' @ stderr) Failed
           else launch))"

definition spawn_auto_proxy :: "app_env \<Rightarrow> string \<Rightarrow> string + unit" where
  "spawn_auto_proxy E url =
     (let binary = ae_manifest_dir E @ ''/../target/release/mcp-cli'' in
      if \<not> ae_path_exists E binary
      then Inl (''mcp-cli binary not found at '' @ binary @ ''. Run: cargo build --release -p mcp-cli'')
      else case ae_spawn E [binary, ''proxy'', ''--in'', ''http-sse'', ''--out'', ''http-sse'', ''--url'',
               url, ''--name'', ''tui-auto-proxy''] of
             None \<Rightarrow> Inr () | Some e \<Rightarrow> Inl ''Failed to spawn auto-proxy process'')"

definition resolve_gateway_config_path :: "app_env \<Rightarrow> string option \<Rightarrow> string option" where
  "resolve_gateway_config_path E var =
     (let default_path = ae_manifest_dir E @ ''/../mcp-core/config.json'';
          default = (if ae_path_exists E default_path then Some default_path else None) in
      case var of Some p \<Rightarrow> (if ae_path_exists E p then Some p else default) | None \<Rightarrow> default)"

section \<open>Tools and health\<close>

text \<open>The servers in visiting order.\<close>

definition servers_list :: "app_env \<Rightarrow> App \<Rightarrow> ShownServer list" where
  "servers_list E a = List.map_filter (ap_servers a) (ae_servers E)"

definition list_tools_from_state :: "app_env \<Rightarrow> string option \<Rightarrow> App \<Rightarrow> ActivityItem" where
  "list_tools_from_state E gateway_error a =
     (let names = map sv_name (servers_list E a);
          base = (if names = [] then ''No servers connected. Start proxies to see available tools.''
            else ''Connected to '' @ show_nat (length names) @ '' server(s): '' @ join_strings '', '' names @ ''.'')
      in activity (ae_now E) ''User'' ''Gateway''
           (case gateway_error of Some e \<Rightarrow> ''Gateway unavailable ('' @ e @ ''). '' @ base | None \<Rightarrow> base)
           (if names = [] then Failed else if gateway_error \<noteq> None then Failed else Success))"

definition health_text :: "app_env \<Rightarrow> App \<Rightarrow> string" where
  "health_text E a = ''Health: ''
     @ show_nat (length (filter (\<lambda>s. sv_status s = ShownRunning) (servers_list E a))) @ ''/''
     @ show_nat (length (servers_list E a)) @ '' servers running, '' @ show_nat (ae_clients_len E)
     @ '' clients, '' @ show_nat (ae_sessions_len E) @ '' active sessions''"

definition check_health_from_state :: "app_env \<Rightarrow> string option \<Rightarrow> App \<Rightarrow> ActivityItem" where
  "check_health_from_state E gateway_error a =
     (let total = length (servers_list E a);
          healthy = length (filter (\<lambda>s. sv_status s = ShownRunning) (servers_list E a)) in
      activity (ae_now E) ''User'' ''Gateway''
        (case gateway_error of
           Some e \<Rightarrow> ''Gateway health unavailable ('' @ e @ ''). '' @ health_text E a
         | None \<Rightarrow> health_text E a)
        (if total = 0 then Failed
         else if healthy = total \<and> gateway_error = None then Success
         else if gateway_error \<noteq> None then Failed else Processing))"

text \<open>A request through the gateway client, up to its result; the three callers differ in the
  texts of their errors.\<close>

definition gateway_request ::
  "app_env \<Rightarrow> string \<Rightarrow> json \<Rightarrow> string \<Rightarrow> string \<Rightarrow> string + json" where
  "gateway_request E meth params context missing =
     (if \<not> ae_gateway_ready E then Inl ''gateway client not ready''
      else case ae_gateway_send E meth params of
        Inl _ \<Rightarrow> Inl context
      | Inr r \<Rightarrow>
         (case resp_error r of
            Some e \<Rightarrow> Inl (err_message e @ '' (code '' @ show_int (code e) @ '')'')
          | None \<Rightarrow> ok_or missing (resp_result r)))"

definition list_tools_via_gateway :: "app_env \<Rightarrow> string + ActivityItem" where
  "list_tools_via_gateway E = and_then (gateway_request E ''tools/list'' (Object [])
       ''gateway tools/list request failed'' ''gateway response missing tools'')
     (\<lambda>v. let names = (case Option.bind (value_get v ''tools'') json_array of
                Some tools \<Rightarrow> names_of tools | None \<Rightarrow> [])
          in Inr (activity (ae_now E) ''User'' ''Gateway''
               (if names = [] then ''Gateway reports no tools''
                else ''Tools available: '' @ join_strings '', '' names) Success))"

definition check_health_via_gateway :: "app_env \<Rightarrow> App \<Rightarrow> string + ActivityItem" where
  "check_health_via_gateway E a = and_then (gateway_request E ''resources/list'' (Object [])
       ''gateway resources/list request failed'' ''gateway response missing health data'')
     (\<lambda>v. let n = (case Option.bind (value_get v ''resources'') json_array of Some rs \<Rightarrow> length rs | None \<Rightarrow> 0)
          in Inr (activity (ae_now E) ''User'' ''Gateway''
               (health_text E a @ '', '' @ show_nat n @ '' resources'') Success))"

definition handle_list_tools :: "app_env \<Rightarrow> App \<Rightarrow> ActivityItem" where
  "handle_list_tools E a = (if ap_gateway a then
      (case list_tools_via_gateway E of Inr i \<Rightarrow> i | Inl e \<Rightarrow> list_tools_from_state E (Some e) a)
    else list_tools_from_state E None a)"

definition handle_check_health :: "app_env \<Rightarrow> App \<Rightarrow> ActivityItem" where
  "handle_check_health E a = (if ap_gateway a then
      (case check_health_via_gateway E a of Inr i \<Rightarrow> i | Inl e \<Rightarrow> check_health_from_state E (Some e) a)
    else check_health_from_state E None a)"

section \<open>Queries\<close>

fun item_text :: "json list \<Rightarrow> string option" where
  "item_text [] = None"
| "item_text (i # is) = (case Option.bind (value_get i ''text'') as_str of
     Some t \<Rightarrow> Some t | None \<Rightarrow> item_text is)"

fun message_text :: "json list \<Rightarrow> string option" where
  "message_text [] = None"
| "message_text (m # ms) = (case Option.bind (value_get m ''content'')
       (\<lambda>c. Option.bind (value_get c ''text'') as_str) of
     Some t \<Rightarrow> Some t | None \<Rightarrow> message_text ms)"

definition extract_text_from_result :: "json \<Rightarrow> string option" where
  "extract_text_from_result v =
     (case Option.bind (Option.bind (value_get v ''content'') json_array) item_text of
        Some t \<Rightarrow> Some t
      | None \<Rightarrow>
         (case Option.bind (Option.bind (value_get v ''messages'') json_array) message_text of
            Some t \<Rightarrow> Some t
          | None \<Rightarrow> Option.bind (value_get v ''text'') as_str))"

text \<open>The query is registered before it is sent, and stays registered when sending fails.\<close>

definition process_query_via_ipc :: "app_env \<Rightarrow> string \<Rightarrow> nat \<Rightarrow> App \<Rightarrow> (string + unit) \<times> App" where
  "process_query_via_ipc E query idx a =
     (let a = a\<lparr>ap_pending := (ap_pending a)(ae_uuid E \<mapsto> (query, idx))\<rparr>;
          m = TuiQuery query (ae_uuid E) in
      case ae_ipc_send E m of
        Some e \<Rightarrow> (Inl e, a)
      | None \<Rightarrow> (Inr (), a\<lparr>ap_sent := ap_sent a @ [m]\<rparr>))"

definition process_query_via_gateway :: "app_env \<Rightarrow> string \<Rightarrow> nat \<Rightarrow> App \<Rightarrow> (string + unit) \<times> App" where
  "process_query_via_gateway E query idx a =
     (case gateway_request E ''tools/call'' (Object [(''arguments'', Object [(''input'', String query)]),
             (''name'', String ''web_search'')])
           ''gateway tools/call request failed'' ''gateway response missing result payload'' of
        Inl e \<Rightarrow> (Inl e, a)
      | Inr v \<Rightarrow>
         (let text = (case extract_text_from_result v of Some t \<Rightarrow> t
                | None \<Rightarrow> ''Request completed but no textual response received'')
          in (Inr (), modify_activity idx (\<lambda>i. (settle Success (query @ '': '' @ trim text) i)
                \<lparr>ac_server := ''Gateway''\<rparr>) a)))"

definition process_query_via_llm :: "app_env \<Rightarrow> string \<Rightarrow> nat \<Rightarrow> App \<Rightarrow> (string + unit) \<times> App" where
  "process_query_via_llm E query idx a =
     (if \<not> ap_llm a then (Inl ''LLM service unavailable'', a)
      else
        (let g = ap_next_generation a;
             a = a\<lparr>ap_next_generation := g + 1,
                   ap_generations := AList.update g \<lparr>ag_prompt = query, ag_accumulated = [],
                     ag_activity_index = idx\<rparr> (ap_generations a)\<rparr> in
         case ae_llm_start E query of
           None \<Rightarrow> (Inr (), a)
         | Some e \<Rightarrow> (Inl e, modify_activity idx (settle Failed (query @ '' (error starting generation)''))
             (a\<lparr>ap_generations := AList.delete g (ap_generations a)\<rparr>))))"

definition fail_query :: "string \<Rightarrow> string \<Rightarrow> nat \<Rightarrow> (string + unit) \<times> App \<Rightarrow> App" where
  "fail_query query kind idx r = (case r of
     (Inr _, a) \<Rightarrow> a
   | (Inl e, a) \<Rightarrow> modify_activity idx (settle Failed (query @ '' ('' @ kind @ '': '' @ e @ '')'')) a)"

definition query_target :: "string \<Rightarrow> string \<times> string" where
  "query_target query = (case strip_prefix query ''@proxy '' of
     Some rest \<Rightarrow> (''Proxy'', rest)
   | None \<Rightarrow> (case strip_prefix query ''@gateway '' of
       Some rest \<Rightarrow> (''Gateway'', rest) | None \<Rightarrow> (''LLM'', query)))"

definition process_query :: "app_env \<Rightarrow> App \<Rightarrow> App" where
  "process_query E a =
     (let query = trim (ap_query_input a) in
      if query = [] then a
      else
        (let (target, q) = query_target query;
             idx = length (ap_activities a);
             a = push_activity (activity (ae_now E) ''User'' target q Processing) a;
             a = a\<lparr>ap_diagnostics := (ap_diagnostics a)\<lparr>dg_ttft := None, dg_tokens_per_sec := None\<rparr>\<rparr> in
         if target = ''Proxy'' then
           (if ap_ipc a then fail_query q ''proxy error'' idx (process_query_via_ipc E q idx a)
            else modify_activity idx (settle Failed (q @ '' (no proxy connected)'')) a)
         else if target = ''Gateway'' then
           (if ap_gateway a then fail_query q ''gateway error'' idx (process_query_via_gateway E q idx a)
            else modify_activity idx (settle Failed (q @ '' (no gateway connected)'')) a)
         else fail_query q ''processing failed'' idx (process_query_via_llm E q idx a)))"

definition quick_query :: "string \<Rightarrow> string" where
  "quick_query action = (if action = ''list_tools'' then ''What tools are available?''
     else if action = ''check_health'' then ''Check the health status of all servers''
     else if action = ''open_session'' then ''Start a new interactive session'' else action)"

definition handle_quick_action :: "app_env \<Rightarrow> string \<Rightarrow> App \<Rightarrow> App" where
  "handle_quick_action E action a =
     (case strip_prefix action ''set_mode_'' of
        Some mode \<Rightarrow> (let (i, a) = handle_routing_mode_change E mode a in push_activity i a)
      | None \<Rightarrow>
         if ap_ipc a then
           (let idx = length (ap_activities a);
                a = push_activity (activity (ae_now E) ''User'' ''Proxy''
                      (''Executing action: '' @ action) Processing) a in
            case process_query_via_ipc E (quick_query action) idx a of
              (Inr _, a) \<Rightarrow> a
            | (Inl _, a) \<Rightarrow> modify_activity idx (settle Failed (action @ '' (proxy routing failed)'')) a)
         else push_activity
           (if action = ''list_tools'' then handle_list_tools E a
            else if action = ''check_health'' then handle_check_health E a
            else if action = ''open_session'' then activity (ae_now E) ''User'' ''System''
              ''Session opened (connect proxy for full functionality)'' Success
            else if action = ''start_default_proxy'' then handle_start_default_proxy E
            else if action = ''start_gemini_client'' then handle_start_gemini_client E
            else activity (ae_now E) ''User'' ''System'' (''Unknown action: '' @ action) Failed) a)"

section \<open>Keyboard events\<close>

definition in_tabs :: "(UI \<Rightarrow> UI) \<Rightarrow> App \<Rightarrow> App" where
  "in_tabs f a = (if ui_focus (ap_ui a) = MainTabs then a\<lparr>ap_ui := f (ap_ui a)\<rparr> else a)"

definition app_handle_event :: "app_env \<Rightarrow> Event \<Rightarrow> App \<Rightarrow> App" where
  "app_handle_event E ev a =
     (let ctx = \<lparr>nv_activity_len = length (ap_activities a), nv_server_len = length (ae_servers E)\<rparr>;
          focus = ui_focus (ap_ui a) in
      case ev of
        Quit \<Rightarrow> a\<lparr>ap_running := False\<rparr>
      | Escape \<Rightarrow>
         (if focus = SettingsFocus then a\<lparr>ap_ui := close_settings (ap_ui a)\<rparr>
          else if focus = DiagnosticsFocus then a\<lparr>ap_ui := close_diagnostics (ap_ui a)\<rparr>
          else if focus = SearchFocus then a\<lparr>ap_ui := close_search (ap_ui a)\<rparr>
          else a\<lparr>ap_running := False\<rparr>)
      | Input c \<Rightarrow> (if focus = QueryInput then a\<lparr>ap_query_input := ap_query_input a @ [c]\<rparr> else a)
      | Backspace \<Rightarrow> (if focus = QueryInput then a\<lparr>ap_query_input := butlast (ap_query_input a)\<rparr> else a)
      | Enter \<Rightarrow> (if focus = QueryInput \<and> ap_query_input a \<noteq> []
          then (process_query E a)\<lparr>ap_query_input := []\<rparr> else a)
      | Tab \<Rightarrow> a\<lparr>ap_ui := (if focus = MainTabs then next_tab (ap_ui a) else toggle_focus (ap_ui a))\<rparr>
      | FocusNext \<Rightarrow> a\<lparr>ap_ui := toggle_focus (ap_ui a)\<rparr>
      | FocusPrev \<Rightarrow> a\<lparr>ap_ui := toggle_focus (ap_ui a)\<rparr>
      | Up \<Rightarrow> in_tabs (handle_up ctx) a
      | Down \<Rightarrow> in_tabs (handle_down ctx) a
      | Left \<Rightarrow> in_tabs handle_left a
      | Right \<Rightarrow> in_tabs handle_right a
      | CycleProxy \<Rightarrow> (let (i, a) = cycle_proxy_selection E a in push_activity i a)
      | StartProxy \<Rightarrow> push_activity (handle_start_default_proxy E) a)"

section \<open>Updates\<close>

definition arrow :: string where
  "arrow = [CHR 0xE2, CHR 0x86, CHR 0x92]"

definition query_answered ::
  "string \<Rightarrow> string \<Rightarrow> string option \<Rightarrow> f64 option \<Rightarrow> f64 option \<Rightarrow> App \<Rightarrow> App" where
  "query_answered cid response err ttft tps a = (case ap_pending a cid of
     None \<Rightarrow> a
   | Some (query, idx) \<Rightarrow>
      (let a = a\<lparr>ap_pending := (ap_pending a)(cid := None)\<rparr> in
       if idx < length (ap_activities a) then
         (case err of
            Some e \<Rightarrow> modify_activity idx (settle Failed (query @ '' (Error: '' @ e @ '')'')) a
          | None \<Rightarrow>
             (let a = modify_activity idx (settle Success (query @ '' '' @ arrow @ '' '' @ response)) a;
                  d = (ap_diagnostics a)\<lparr>dg_last_query := Some query, dg_last_response := Some response\<rparr>;
                  d = (case ttft of Some t \<Rightarrow> d\<lparr>dg_ttft := Some (fp_of_bits64 t)\<rparr> | None \<Rightarrow> d);
                  d = (case tps of Some t \<Rightarrow> d\<lparr>dg_tokens_per_sec := Some (fp_of_bits64 t)\<rparr> | None \<Rightarrow> d)
              in a\<lparr>ap_diagnostics := d\<rparr>))
       else a))"

text \<open>A proxy is the first reason to connect to the socket it listens on.\<close>

definition connect_to_proxy :: "app_env \<Rightarrow> ShownServer \<Rightarrow> App \<Rightarrow> App" where
  "connect_to_proxy E s a = (if sv_type s = ProxyServer \<and> \<not> ap_ipc a
     then (let socket = (case ae_ipc_socket E of Some p \<Rightarrow> p | None \<Rightarrow> ''/tmp/mcp-monitor.sock'')
           in if ae_ipc_connect E (socket @ ''.recv'') then a\<lparr>ap_ipc := True\<rparr> else a)
     else a)"

definition with_diagnostics :: "(DiagnosticsData \<Rightarrow> DiagnosticsData) \<Rightarrow> App \<Rightarrow> App" where
  "with_diagnostics f a = a\<lparr>ap_diagnostics := f (ap_diagnostics a)\<rparr>"

definition update_server :: "string \<Rightarrow> (ShownServer \<Rightarrow> ShownServer) \<Rightarrow> App \<Rightarrow> App" where
  "update_server i f a = a\<lparr>ap_servers := (ap_servers a)(i := map_option f (ap_servers a i))\<rparr>"

text \<open>The reports of servers, interceptors and the gateway; pings are only logged.\<close>

definition apply_report :: "app_env \<Rightarrow> AppStateUpdate \<Rightarrow> App \<Rightarrow> App" where
  "apply_report E u a = (case u of
     UpdServerUpdated i nm st \<Rightarrow> update_server i
       (\<lambda>s. s\<lparr>sv_name := nm, sv_status := st, sv_last_activity := ae_now E\<rparr>) a
   | UpdServerHealth _ _ \<Rightarrow> a
   | UpdSessionUpdated s \<Rightarrow> a\<lparr>ap_sessions := (ap_sessions a)(sess_id s \<mapsto> s)\<rparr>
   | UpdInterceptorStats _ s \<Rightarrow> with_diagnostics (\<lambda>d. d\<lparr>
       dg_interceptor_count := Some (of_nat (length (im_interceptors s))),
       dg_interceptor_modifications := Some (im_total_modifications_made s),
       dg_interceptor_blocks := Some (im_total_messages_blocked s)\<rparr>) a
   | UpdGatewayState p c s up \<Rightarrow> with_diagnostics (\<lambda>d. d\<lparr>dg_gateway_active_proxies := Some (of_nat p),
       dg_gateway_total_clients := Some (of_nat c), dg_gateway_total_servers := Some (of_nat s),
       dg_gateway_uptime_seconds := Some up\<rparr>) a
   | UpdGatewayMetrics rq er avg rps \<Rightarrow> with_diagnostics (\<lambda>d. d\<lparr>dg_gateway_total_requests := Some rq,
       dg_gateway_total_errors := Some er, dg_gateway_avg_response_time := Some avg,
       dg_gateway_requests_per_sec := Some rps\<rparr>) a
   | _ \<Rightarrow> a)"

definition apply_update :: "app_env \<Rightarrow> AppStateUpdate \<Rightarrow> App \<Rightarrow> App" where
  "apply_update E u a = (case u of
     UpdClientAdded c \<Rightarrow> a\<lparr>ap_clients := (ap_clients a)(cl_id c \<mapsto> c)\<rparr>
   | UpdClientRemoved i \<Rightarrow> a\<lparr>ap_clients := (ap_clients a)(i := None)\<rparr>
   | UpdClientUpdated i n t \<Rightarrow> a\<lparr>ap_clients := (ap_clients a)(i := map_option
       (\<lambda>c. c\<lparr>cl_requests_sent := n, cl_last_activity := t\<rparr>) (ap_clients a i))\<rparr>
   | UpdServerAdded s \<Rightarrow> (let a = connect_to_proxy E s a in a\<lparr>ap_servers := (ap_servers a)(sv_id s \<mapsto> s)\<rparr>)
   | UpdServerRemoved i \<Rightarrow> a\<lparr>ap_servers := (ap_servers a)(i := None)\<rparr>
   | UpdServerStats i n \<Rightarrow> update_server i (\<lambda>s. s\<lparr>sv_requests_received := n, sv_last_activity := ae_now E\<rparr>) a
   | UpdActivityAdded i \<Rightarrow> push_activity i a
   | UpdSessionAdded s \<Rightarrow> a\<lparr>ap_sessions := (ap_sessions a)(sess_id s \<mapsto> s)\<rparr>
   | UpdSessionRemoved i \<Rightarrow> a\<lparr>ap_sessions := (ap_sessions a)(i := None)\<rparr>
   | UpdRoutingModeChanged p mode \<Rightarrow> with_diagnostics (\<lambda>d. d\<lparr>dg_routing_mode := Some mode\<rparr>)
       (update_server p (\<lambda>s. s\<lparr>sv_routing_mode := Some mode\<rparr>) a)
   | UpdSemanticPrediction q t c act ok \<Rightarrow> a\<lparr>ap_prediction := \<lparr>sn_query = Some q,
       sn_predicted_tool = Some t, sn_confidence = Some c, sn_actual_tool = act, sn_success = ok\<rparr>\<rparr>
   | UpdSessionStats m \<Rightarrow> with_diagnostics (\<lambda>d. d\<lparr>dg_session_accuracy := Some (fp_of_bits32 (sm_accuracy m)),
       dg_session_total := Some (sm_total_predictions m),
       dg_session_successful := Some (sm_successful_predictions m)\<rparr>) a
   | UpdQueryResponse cid r e ttft tps n delay \<Rightarrow> query_answered cid r e ttft tps a
   | _ \<Rightarrow> apply_report E u a)"

lemmas apply_update_defs = apply_update_def apply_report_def

definition set_metrics :: "GenerationMetrics \<Rightarrow> App \<Rightarrow> App" where
  "set_metrics m = with_diagnostics (\<lambda>d. d\<lparr>dg_ttft := map_option as_secs_f64 (gn_time_to_first_token m),
     dg_tokens_per_sec := gn_tokens_per_second m\<rparr>)"

definition generation_action :: "ActiveGeneration \<Rightarrow> string" where
  "generation_action g = ag_prompt g @ '': '' @ ag_accumulated g"

definition apply_generation :: "UiGenerationEvent \<Rightarrow> App \<Rightarrow> App" where
  "apply_generation e a = (case e of
     GenToken i token \<Rightarrow>
       (case map_of (ap_generations a) i of
          None \<Rightarrow> a
        | Some g \<Rightarrow> (let g = g\<lparr>ag_accumulated := ag_accumulated g @ token\<rparr>
            in modify_activity (ag_activity_index g) (\<lambda>x. x\<lparr>ac_action := generation_action g\<rparr>)
                 (a\<lparr>ap_generations := AList.update i g (ap_generations a)\<rparr>)))
   | GenCompleted i metrics \<Rightarrow>
       (case map_of (ap_generations a) i of
          None \<Rightarrow> a
        | Some g \<Rightarrow> set_metrics metrics
            (modify_activity (ag_activity_index g) (settle Success (generation_action g))
              (a\<lparr>ap_generations := AList.delete i (ap_generations a)\<rparr>))))"

definition apply_llm_event :: "LlmEvent \<Rightarrow> App \<Rightarrow> App" where
  "apply_llm_event e = (case e of
     LlmModelStatus s \<Rightarrow> with_diagnostics (\<lambda>d. d\<lparr>dg_model_status := s\<rparr>)
   | LlmDownloadProgress p \<Rightarrow> with_diagnostics (\<lambda>d. d\<lparr>dg_download_progress := Some p\<rparr>)
   | LlmModelReady nm \<Rightarrow> with_diagnostics (\<lambda>d. d\<lparr>dg_model_name := Some nm, dg_model_status := Ready,
       dg_download_progress := None\<rparr>)
   | LlmGenerationFinished m \<Rightarrow> set_metrics m)"

text \<open>What the model service and its databases answer when they are asked after the events.\<close>

record llm_view =
  lv_models :: model_service
  lv_status :: ModelStatus
  lv_progress :: "DownloadProgress option"
  lv_accuracy :: "fp option"
  lv_improvement :: "fp option"

definition ask_llm :: "llm_view option \<Rightarrow> App \<Rightarrow> App" where
  "ask_llm v a = (case v of
     Some v \<Rightarrow> with_diagnostics (\<lambda>d. d\<lparr>dg_model_status := lv_status v, dg_download_progress := lv_progress v,
       dg_dspy_accuracy := lv_accuracy v, dg_gepa_optimization := lv_improvement v\<rparr>) a
   | None \<Rightarrow> with_diagnostics (\<lambda>d. d\<lparr>dg_dspy_accuracy := None, dg_gepa_optimization := None\<rparr>) a)"

definition clean_activities :: "App \<Rightarrow> App" where
  "clean_activities a = (if 100 < length (ap_activities a)
     then a\<lparr>ap_activities := drop 50 (ap_activities a)\<rparr> else a)"

definition refresh_ui :: "model_service option \<Rightarrow> UI \<Rightarrow> UI" where
  "refresh_ui service ui = (let (refresh, ui) = should_refresh_models ui;
       ui = (if refresh then ui\<lparr>ui_settings_panel := refresh_models service (ui_settings_panel ui)\<rparr> else ui)
     in reset_models_refresh_flag ui)"

definition update_state ::
  "app_env \<Rightarrow> llm_view option \<Rightarrow> AppStateUpdate list \<Rightarrow> UiGenerationEvent list \<Rightarrow> LlmEvent list
     \<Rightarrow> App \<Rightarrow> App" where
  "update_state E v us gs es a =
     (let a = a\<lparr>ap_ui := refresh_ui (map_option lv_models v) (ap_ui a)\<rparr>;
          a = fold (apply_update E) us a;
          a = fold apply_generation gs a;
          a = fold apply_llm_event es a;
          a = ask_llm v a
      in clean_activities a)"

section \<open>The main loop\<close>

text \<open>One turn: all pending key events, then, when anything arrived, the updates. While the flag
  \<open>running\<close> is set the next turn follows; \<open>None\<close> means that it is still set after the turns
  given.\<close>

record app_turn =
  tu_events :: "(app_env \<times> Event) list"
  tu_env :: app_env
  tu_view :: "llm_view option"
  tu_updates :: "AppStateUpdate list"
  tu_generations :: "UiGenerationEvent list"
  tu_llm :: "LlmEvent list"

definition run_turn :: "app_turn \<Rightarrow> App \<Rightarrow> App" where
  "run_turn t a =
     (let a = fold (\<lambda>(E, ev). app_handle_event E ev) (tu_events t) a in
      if tu_updates t \<noteq> [] \<or> (ap_generations a \<noteq> [] \<and> tu_generations t \<noteq> []) \<or> tu_llm t \<noteq> []
      then update_state (tu_env t) (tu_view t) (tu_updates t) (tu_generations t) (tu_llm t) a else a)"

fun run_app :: "app_turn list \<Rightarrow> App \<Rightarrow> App option" where
  "run_app ts a = (if \<not> ap_running a then Some a
     else case ts of [] \<Rightarrow> None | t # ts \<Rightarrow> run_app ts (run_turn t a))"

text \<open>A concrete environment and a monitor with a query typed.\<close>

definition sample_app_env :: app_env where
  "sample_app_env = \<lparr>ae_now = 0, ae_uuid = ''c'', ae_ipc_send = (\<lambda>_. None), ae_ipc_connect = (\<lambda>_. True),
     ae_ipc_socket = None, ae_parse_uuid = Some, ae_gateway_ready = False,
     ae_gateway_send = (\<lambda>_ _. Inl []), ae_llm_start = (\<lambda>_. None), ae_servers = [''p'', ''q''],
     ae_clients_len = 0, ae_sessions_len = 0, ae_path_exists = (\<lambda>_. False), ae_manifest_dir = [],
     ae_spawn = (\<lambda>_. None), ae_gemini_add = Inl [], ae_launch = None\<rparr>"

definition sample_app :: App where
  "sample_app = (App_new None ''bypass'' False False)\<lparr>ap_ipc := True, ap_query_input := ''@proxy hi''\<rparr>"

section \<open>What updates keep\<close>

declare run_app.simps [simp del]

lemma modify_activity_simps [simp]:
  "length (ap_activities (modify_activity i f a)) = length (ap_activities a)"
  "ap_pending (modify_activity i f a) = ap_pending a" "ap_ui (modify_activity i f a) = ap_ui a"
  "ap_servers (modify_activity i f a) = ap_servers a" "ap_sent (modify_activity i f a) = ap_sent a"
  "ap_generations (modify_activity i f a) = ap_generations a"
  "ap_running (modify_activity i f a) = ap_running a" "ap_diagnostics (modify_activity i f a) = ap_diagnostics a"
  by (simp_all add: modify_activity_def)

lemma nth_modify_activity:
  "j < length (ap_activities a) \<Longrightarrow> ap_activities (modify_activity i f a) ! j =
    (if i = j then f (ap_activities a ! j) else ap_activities a ! j)"
  by (simp add: modify_activity_def)

lemma push_activity_simps [simp]:
  "ap_activities (push_activity i a) = ap_activities a @ [i]" "ap_pending (push_activity i a) = ap_pending a"
  "ap_ui (push_activity i a) = ap_ui a" "ap_servers (push_activity i a) = ap_servers a"
  "ap_generations (push_activity i a) = ap_generations a" "ap_ipc (push_activity i a) = ap_ipc a"
  "ap_sent (push_activity i a) = ap_sent a" "ap_diagnostics (push_activity i a) = ap_diagnostics a"
  by (simp_all add: push_activity_def)

lemma with_diagnostics_simps [simp]:
  "ap_activities (with_diagnostics f a) = ap_activities a" "ap_pending (with_diagnostics f a) = ap_pending a"
  "ap_ui (with_diagnostics f a) = ap_ui a" "ap_servers (with_diagnostics f a) = ap_servers a"
  "ap_generations (with_diagnostics f a) = ap_generations a"
  by (simp_all add: with_diagnostics_def)

lemma update_server_simps [simp]:
  "ap_activities (update_server i f a) = ap_activities a" "ap_pending (update_server i f a) = ap_pending a"
  "ap_ui (update_server i f a) = ap_ui a" "ap_generations (update_server i f a) = ap_generations a"
  by (simp_all add: update_server_def)

lemma connect_to_proxy_simps [simp]:
  "ap_activities (connect_to_proxy E s a) = ap_activities a" "ap_pending (connect_to_proxy E s a) = ap_pending a"
  "ap_ui (connect_to_proxy E s a) = ap_ui a" "ap_servers (connect_to_proxy E s a) = ap_servers a"
  "ap_generations (connect_to_proxy E s a) = ap_generations a"
  by (simp_all add: connect_to_proxy_def Let_def)

lemma query_answered_keeps [simp]:
  "length (ap_activities (query_answered c r e t s a)) = length (ap_activities a)"
  "ap_ui (query_answered c r e t s a) = ap_ui a" "ap_servers (query_answered c r e t s a) = ap_servers a"
  "ap_pending (query_answered c r e t s a) = (ap_pending a)(c := None)"
  by (auto simp: query_answered_def Let_def split: option.splits)

definition answers :: "string \<Rightarrow> AppStateUpdate \<Rightarrow> bool" where
  "answers cid u = (case u of UpdQueryResponse c _ _ _ _ _ _ \<Rightarrow> c = cid | _ \<Rightarrow> False)"

lemma apply_update_ui [simp]: "ap_ui (apply_update E u a) = ap_ui a"
  by (cases u) (simp_all add: apply_update_defs Let_def)

lemma apply_update_pending: "\<not> answers cid u \<Longrightarrow> ap_pending (apply_update E u a) cid = ap_pending a cid"
  by (cases u) (simp_all add: apply_update_defs Let_def answers_def)

lemma apply_update_length:
  "length (ap_activities a) \<le> length (ap_activities (apply_update E u a))
   \<and> length (ap_activities (apply_update E u a)) \<le> Suc (length (ap_activities a))"
  by (cases u) (simp_all add: apply_update_defs Let_def)

lemma fold_update_pending:
  "list_all (\<lambda>u. \<not> answers cid u) us \<Longrightarrow> ap_pending (fold (apply_update E) us a) cid = ap_pending a cid"
  by (induction us arbitrary: a) (simp_all add: apply_update_pending)

lemma fold_update_length:
  "length (ap_activities a) \<le> length (ap_activities (fold (apply_update E) us a))
   \<and> length (ap_activities (fold (apply_update E) us a)) \<le> length (ap_activities a) + length us"
proof (induction us arbitrary: a)
  case (Cons u us)
  show ?case using Cons [of "apply_update E u a"] apply_update_length [of a E u] by simp
qed simp

lemma fold_update_ui [simp]: "ap_ui (fold (apply_update E) us a) = ap_ui a"
  by (induction us arbitrary: a) simp_all

section \<open>A query to the proxy\<close>

lemma process_query_proxy:
  assumes "strip_prefix (trim (ap_query_input a)) ''@proxy '' = Some q" "ap_ipc a"
    "ae_ipc_send E (TuiQuery q (ae_uuid E)) = None"
  shows "process_query E a = a\<lparr>ap_activities := ap_activities a @ [activity (ae_now E) ''User'' ''Proxy'' q Processing],
     ap_diagnostics := (ap_diagnostics a)\<lparr>dg_ttft := None, dg_tokens_per_sec := None\<rparr>,
     ap_pending := (ap_pending a)(ae_uuid E \<mapsto> (q, length (ap_activities a))),
     ap_sent := ap_sent a @ [TuiQuery q (ae_uuid E)]\<rparr>"
proof -
  have "trim (ap_query_input a) \<noteq> []" using assms(1)
    by (auto simp: strip_prefix_def starts_with_iff split: if_splits)
  then show ?thesis using assms
    by (simp add: process_query_def query_target_def Let_def fail_query_def process_query_via_ipc_def push_activity_def)
qed

lemma query_answered_settles:
  assumes "ap_pending a cid = Some (q, i)" "i < length (ap_activities a)"
  shows "ap_activities (query_answered cid r e t s a) ! i =
    (case e of Some err \<Rightarrow> settle Failed (q @ '' (Error: '' @ err @ '')'') (ap_activities a ! i)
     | None \<Rightarrow> settle Success (q @ '' '' @ arrow @ '' '' @ r) (ap_activities a ! i))"
  using assms by (simp add: query_answered_def Let_def modify_activity_def split: option.splits)

definition reply_updates :: "monitor_ext \<Rightarrow> datetime \<Rightarrow> IpcMessage list \<Rightarrow> AppStateUpdate list" where
  "reply_updates X now ms = concat (map (\<lambda>m. snd (process_ipc_message X True now m)) ms)"

text \<open>The completion the proxy answers a text query with.\<close>

definition query_outcome :: "ProxyIpcServer \<Rightarrow> handle_env \<Rightarrow> TuiQueryCompletion" where
  "query_outcome S V = (if has_query_tx S then
      (case hv_queue V of Some _ \<Rightarrow> error_completion ''Proxy transport unavailable''
       | None \<Rightarrow> (case hv_completion V of Some c \<Rightarrow> c
           | None \<Rightarrow> error_completion ''Proxy query handler dropped''))
    else error_completion ''Proxy not ready to process queries'')"

lemma query_reply:
  assumes "hv_ipc V = None"
  shows "hf_sent (snd (handle_message S V (TuiQuery q cid))) = [query_response cid (query_outcome S V)]"
  using assms by (auto simp: handle_message_def handle_query_def send_query_error_def ipc_reply_def
      query_outcome_def no_effects_def Let_def split: option.splits)

lemma reply_updates_response:
  "reply_updates X now [query_response cid c] = [UpdQueryResponse cid (tc_response c) (tc_error c)
     (map_option fp_bits64 (tc_ttft_ms c)) (map_option fp_bits64 (tc_tokens_per_sec c))
     (tc_total_tokens c) (map_option fp_bits64 (tc_interceptor_delay_ms c))]"
  by (simp add: reply_updates_def query_response_def process_ipc_message_def message_update_defs)

section \<open>Bounded memory, and what it costs\<close>

text \<open>Activities are bounded. After an update the list holds at most a hundred activities, or fifty
  fewer than before plus the number of updates that arrived.\<close>

lemma apply_generation_length [simp]:
  "length (ap_activities (apply_generation g a)) = length (ap_activities a)"
  by (cases g) (simp_all add: apply_generation_def set_metrics_def Let_def split: option.splits)

lemma apply_generation_ui [simp]: "ap_ui (apply_generation g a) = ap_ui a"
  by (cases g) (simp_all add: apply_generation_def set_metrics_def Let_def split: option.splits)

lemma apply_llm_event_keeps [simp]:
  "ap_activities (apply_llm_event e a) = ap_activities a" "ap_ui (apply_llm_event e a) = ap_ui a"
  by (cases e; simp add: apply_llm_event_def set_metrics_def)+

lemma fold_generation_keeps [simp]:
  "length (ap_activities (fold apply_generation gs a)) = length (ap_activities a)"
  "ap_ui (fold apply_generation gs a) = ap_ui a"
  by (induction gs arbitrary: a) simp_all

lemma fold_llm_keeps [simp]:
  "ap_activities (fold apply_llm_event es a) = ap_activities a"
  "ap_ui (fold apply_llm_event es a) = ap_ui a"
  by (induction es arbitrary: a) simp_all

lemma ask_llm_keeps [simp]:
  "ap_activities (ask_llm v a) = ap_activities a" "ap_ui (ask_llm v a) = ap_ui a"
  by (simp_all add: ask_llm_def split: option.splits)

theorem activities_bounded:
  "length (ap_activities (update_state E v us gs es a))
    \<le> max 100 (length (ap_activities a) + length us - 50)"
proof -
  define b where "b = fold (apply_update E) us (a\<lparr>ap_ui := refresh_ui (map_option lv_models v) (ap_ui a)\<rparr>)"
  have "length (ap_activities b) \<le> length (ap_activities a) + length us"
    using fold_update_length [of "a\<lparr>ap_ui := refresh_ui (map_option lv_models v) (ap_ui a)\<rparr>" E us]
    by (simp add: b_def)
  then show ?thesis by (auto simp: update_state_def Let_def clean_activities_def b_def [symmetric] le_max_iff_disj)
qed

text \<open>State updates that do not trim leave a pending query and its activity to the answer: the rows
  that running generations write to are other rows.\<close>

definition generation_rows :: "App \<Rightarrow> nat set" where
  "generation_rows a = ag_activity_index ` ran (map_of (ap_generations a))"

lemma query_answered_generations [simp]: "ap_generations (query_answered c r e t s a) = ap_generations a"
  by (auto simp: query_answered_def Let_def split: option.splits)

lemma apply_update_generations [simp]: "ap_generations (apply_update E u a) = ap_generations a"
  by (cases u) (simp_all add: apply_update_defs Let_def)

lemma fold_update_rows [simp]: "generation_rows (fold (apply_update E) us a) = generation_rows a"
  by (induction us arbitrary: a) (simp_all add: generation_rows_def)

lemma apply_generation_row:
  assumes "i \<notin> generation_rows a" "i < length (ap_activities a)"
  shows "ap_activities (apply_generation e a) ! i = ap_activities a ! i
    \<and> i \<notin> generation_rows (apply_generation e a) \<and> ap_pending (apply_generation e a) = ap_pending a"
proof (cases e)
  case (GenToken j token)
  show ?thesis
  proof (cases "map_of (ap_generations a) j")
    case (Some g)
    then have "ag_activity_index g \<noteq> i" using assms(1) by (auto simp: generation_rows_def ran_def)
    with assms GenToken Some show ?thesis
      by (auto simp: apply_generation_def Let_def modify_activity_def generation_rows_def update_conv
          ran_def split: if_splits)
  qed (use assms GenToken in \<open>simp add: apply_generation_def\<close>)
next
  case (GenCompleted j m)
  show ?thesis
  proof (cases "map_of (ap_generations a) j")
    case (Some g)
    then have "ag_activity_index g \<noteq> i" using assms(1) by (auto simp: generation_rows_def ran_def)
    with assms GenCompleted Some show ?thesis
      by (auto simp: apply_generation_def Let_def modify_activity_def set_metrics_def generation_rows_def
          delete_conv ran_def split: if_splits)
  qed (use assms GenCompleted in \<open>simp add: apply_generation_def\<close>)
qed

lemma fold_generation_row:
  assumes "i \<notin> generation_rows a" "i < length (ap_activities a)"
  shows "ap_activities (fold apply_generation gs a) ! i = ap_activities a ! i
    \<and> i \<notin> generation_rows (fold apply_generation gs a) \<and> ap_pending (fold apply_generation gs a) = ap_pending a"
  using assms
proof (induction gs arbitrary: a)
  case (Cons g gs)
  from apply_generation_row [OF Cons.prems, of g] Cons.IH [of "apply_generation g a"] Cons.prems
  show ?case by simp
qed simp

lemma apply_llm_event_rows [simp]:
  "ap_pending (apply_llm_event e a) = ap_pending a" "generation_rows (apply_llm_event e a) = generation_rows a"
  by (cases e; simp add: apply_llm_event_def set_metrics_def generation_rows_def)+

lemma fold_llm_rows [simp]:
  "ap_pending (fold apply_llm_event es a) = ap_pending a"
  "generation_rows (fold apply_llm_event es a) = generation_rows a"
  by (induction es arbitrary: a) simp_all

lemma ask_llm_rows [simp]:
  "ap_pending (ask_llm v a) = ap_pending a" "generation_rows (ask_llm v a) = generation_rows a"
  by (simp_all add: ask_llm_def generation_rows_def split: option.splits)

text \<open>One state update below the limit of a hundred activities, as far as row \<open>i\<close> is concerned.\<close>

lemma update_state_row:
  fixes E v us a
  defines "b \<equiv> fold (apply_update E) us (a\<lparr>ap_ui := refresh_ui (map_option lv_models v) (ap_ui a)\<rparr>)"
  assumes "i \<notin> generation_rows a" "i < length (ap_activities a)" "length (ap_activities a) + length us \<le> 100"
  shows "ap_activities (update_state E v us gs es a) ! i = ap_activities b ! i"
    and "ap_pending (update_state E v us gs es a) = ap_pending b"
    and "i \<notin> generation_rows (update_state E v us gs es a)"
    and "i < length (ap_activities (update_state E v us gs es a))"
    and "length (ap_activities (update_state E v us gs es a)) \<le> length (ap_activities a) + length us"
proof -
  have len: "i < length (ap_activities b)" "length (ap_activities b) \<le> length (ap_activities a) + length us"
    using fold_update_length [of "a\<lparr>ap_ui := refresh_ui (map_option lv_models v) (ap_ui a)\<rparr>" E us] assms(3)
    by (auto simp: b_def)
  have gen: "i \<notin> generation_rows b" using assms(2) by (simp add: b_def) (simp add: generation_rows_def)
  have eq: "update_state E v us gs es a = ask_llm v (fold apply_llm_event es (fold apply_generation gs b))"
    using len(2) assms(4) by (simp add: update_state_def Let_def clean_activities_def b_def [symmetric])
  show "ap_activities (update_state E v us gs es a) ! i = ap_activities b ! i"
    "ap_pending (update_state E v us gs es a) = ap_pending b" "i \<notin> generation_rows (update_state E v us gs es a)"
    "i < length (ap_activities (update_state E v us gs es a))"
    "length (ap_activities (update_state E v us gs es a)) \<le> length (ap_activities a) + length us"
    unfolding eq using fold_generation_row [OF gen len(1), of gs] len by simp_all
qed

record update_round =
  rd_env :: app_env
  rd_view :: "llm_view option"
  rd_updates :: "AppStateUpdate list"
  rd_generations :: "UiGenerationEvent list"
  rd_events :: "LlmEvent list"

definition run_round :: "update_round \<Rightarrow> App \<Rightarrow> App" where
  "run_round R = update_state (rd_env R) (rd_view R) (rd_updates R) (rd_generations R) (rd_events R)"

definition arriving :: "update_round list \<Rightarrow> nat" where
  "arriving Rs = sum_list (map (\<lambda>R. length (rd_updates R)) Rs)"

lemma rounds_keep_query:
  assumes "ap_pending a cid = Some (q, i)" "i \<notin> generation_rows a" "i < length (ap_activities a)"
    and "length (ap_activities a) + arriving Rs \<le> 100"
    and "list_all (\<lambda>R. list_all (\<lambda>u. \<not> answers cid u) (rd_updates R)) Rs"
  shows "let b = fold run_round Rs a in ap_pending b cid = Some (q, i) \<and> i \<notin> generation_rows b
    \<and> i < length (ap_activities b) \<and> length (ap_activities b) \<le> length (ap_activities a) + arriving Rs"
  using assms
proof (induction Rs arbitrary: a)
  case (Cons R Rs)
  let ?a = "run_round R a"
  have R: "length (ap_activities a) + length (rd_updates R) \<le> 100" using Cons.prems(4) by (simp add: arriving_def)
  note row = update_state_row [OF Cons.prems(2,3) R, of "rd_env R" "rd_view R" "rd_generations R" "rd_events R",
      folded run_round_def]
  have "ap_pending ?a cid = Some (q, i)"
    using Cons.prems(1,5) unfolding row(2) by (simp add: fold_update_pending)
  from Cons.IH [OF this row(3,4)] row(5) Cons.prems(4,5) show ?case
    by (simp add: arriving_def Let_def)
qed (simp add: arriving_def)

text \<open>C23 (a query typed at the monitor is settled by the proxy's reply). A query with the prefix for the
  proxy is shown as processing and sent. Any number of state updates may follow, with other updates,
  tokens of running generations and model events; when the state update with the reply of the
  proxy's handler has been applied, the query is no longer pending and its own activity shows the
  answer, or the error when the transport is missing, closed, drops the job or fails. This holds as
  long as the activities shown, with one for each update that arrives, number at most a hundred, so
  that no state update trims the list, and running generations write to activities of the list.\<close>

theorem proxy_query_settled:
  assumes q: "strip_prefix (trim (ap_query_input a)) ''@proxy '' = Some q" "ap_ipc a"
      "ae_ipc_send E (TuiQuery q (ae_uuid E)) = None"
    and "hv_ipc V = None"
    and other: "list_all (\<lambda>R. list_all (\<lambda>u. \<not> answers (ae_uuid E) u) (rd_updates R)) Rs"
      "list_all (\<lambda>u. \<not> answers (ae_uuid E) u) us"
    and gen: "\<forall>j \<in> generation_rows a. j < length (ap_activities a)"
    and room: "length (ap_activities a) + arriving Rs + length us + 2 \<le> 100"
  shows "let i = length (ap_activities a); a1 = process_query E a;
      replies = hf_sent (snd (handle_message S V (last (ap_sent a1))));
      a2 = update_state E2 v (us @ reply_updates X now replies) gs es (fold run_round Rs a1);
      c = query_outcome S V
    in ap_sent a1 = ap_sent a @ [TuiQuery q (ae_uuid E)]
      \<and> ac_status (ap_activities a1 ! i) = Processing
      \<and> ap_pending a2 (ae_uuid E) = None \<and> i < length (ap_activities a2)
      \<and> (case tc_error c of
           None \<Rightarrow> ac_status (ap_activities a2 ! i) = Success
             \<and> ac_action (ap_activities a2 ! i) = q @ '' '' @ arrow @ '' '' @ tc_response c
         | Some e \<Rightarrow> ac_status (ap_activities a2 ! i) = Failed
             \<and> ac_action (ap_activities a2 ! i) = q @ '' (Error: '' @ e @ '')'')"
proof -
  define a1 where "a1 = process_query E a"
  define b where "b = fold run_round Rs a1"
  let ?i = "length (ap_activities a)" and ?c = "query_outcome S V"
  let ?replies = "hf_sent (snd (handle_message S V (last (ap_sent a1))))"
  let ?us = "us @ reply_updates X now ?replies"
  note a1 = process_query_proxy [OF q, folded a1_def]
  have s: "ap_sent a1 = ap_sent a @ [TuiQuery q (ae_uuid E)]" "ac_status (ap_activities a1 ! ?i) = Processing"
    by (simp_all add: a1)
  have "ap_pending a1 (ae_uuid E) = Some (q, ?i)" "?i \<notin> generation_rows a1" "?i < length (ap_activities a1)"
    "length (ap_activities a1) + arriving Rs \<le> 100"
    using gen room by (auto simp: a1 generation_rows_def)
  note b = rounds_keep_query [OF this other(1), folded b_def, unfolded Let_def]
  have one: "length ?us = Suc (length us)"
    by (simp add: s(1) query_reply [OF assms(4)] reply_updates_response)
  have "length (ap_activities b) + length ?us \<le> 100" unfolding one using b room by (simp add: a1)
  note row = update_state_row [OF conjunct1 [OF conjunct2 [OF b]] conjunct1 [OF conjunct2 [OF conjunct2 [OF b]]] this,
      of E2 v gs es]
  let ?b = "fold (apply_update E2) us (b\<lparr>ap_ui := refresh_ui (map_option lv_models v) (ap_ui b)\<rparr>)"
  have p: "ap_pending ?b (ae_uuid E) = Some (q, ?i)" using fold_update_pending [OF other(2)] b by simp
  have l: "?i < length (ap_activities ?b)"
    using fold_update_length [of "b\<lparr>ap_ui := refresh_ui (map_option lv_models v) (ap_ui b)\<rparr>" E2 us] b by simp
  show ?thesis unfolding Let_def a1_def [symmetric] b_def [symmetric] row(1,2)
    using s p l row(4) query_answered_settles [OF p l, of "tc_response ?c" "tc_error ?c"]
    by (cases "tc_error ?c")
      (simp_all add: query_reply [OF assms(4)] reply_updates_response apply_update_defs settle_def)
qed

theorem proxy_query_settled_witness:
  "ac_action (ap_activities (update_state sample_app_env None
      (reply_updates \<lparr>mx_debug = id, mx_show_json = (\<lambda>_. [])\<rparr> 0
        (hf_sent (snd (handle_message \<lparr>has_query_tx = False, has_routing_tx = True\<rparr>
          \<lparr>hv_queue = None, hv_completion = None, hv_ipc = None, hv_routing_open = True\<rparr>
          (last (ap_sent (process_query sample_app_env sample_app)))))))
      [GenToken 0 ''x''] [] (process_query sample_app_env sample_app)) ! 0)
    = ''hi (Error: Proxy not ready to process queries)''"
proof -
  have p: "strip_prefix (trim (ap_query_input sample_app)) ''@proxy '' = Some ''hi''" by code_simp
  have s: "ap_ipc sample_app" "ap_activities sample_app = []" "ae_ipc_send sample_app_env m = None"
    "generation_rows sample_app = {}" for m
    by (simp_all add: sample_app_def sample_app_env_def App_new_def generation_rows_def)
  from proxy_query_settled [OF p, of sample_app_env
      "\<lparr>hv_queue = None, hv_completion = None, hv_ipc = None, hv_routing_open = True\<rparr>" "[]" "[]"
      "\<lparr>has_query_tx = False, has_routing_tx = True\<rparr>" sample_app_env None "\<lparr>mx_debug = id, mx_show_json = (\<lambda>_. [])\<rparr>" 0
      "[GenToken 0 ''x'']" "[]"]
  show ?thesis
    by (auto simp: Let_def query_outcome_def error_completion_def s arriving_def)
qed

text \<open>Trimming misdirects answers. Trimming the activity list moves every activity fifty rows up
  but not the row remembered for a pending query. When the answer arrives, the activity of the
  query keeps its state, and the activity that has moved to the remembered row, if any, is
  overwritten instead.\<close>

theorem trimming_misdirects:
  assumes "100 < length (ap_activities a)" "ap_pending a cid = Some (q, i)" "50 \<le> i"
    "i < length (ap_activities a)"
  shows "let a' = apply_update E (UpdQueryResponse cid r None t s n d) (clean_activities a)
    in ap_pending a' cid = None \<and> ap_activities a' ! (i - 50) = ap_activities a ! i
      \<and> (i + 50 < length (ap_activities a) \<longrightarrow>
           ap_activities a' ! i = settle Success (q @ '' '' @ arrow @ '' '' @ r) (ap_activities a ! (i + 50)))"
  using assms
  by (auto simp: apply_update_defs clean_activities_def query_answered_def Let_def modify_activity_def add.commute
      split: option.splits)

theorem trimming_misdirects_witness:
  "let a = sample_app\<lparr>ap_activities := replicate 100 (activity 0 [] [] ''log'' Success)
             @ [activity 0 ''User'' ''Proxy'' ''hi'' Processing], ap_pending := [''c'' \<mapsto> (''hi'', 100)]\<rparr>
   in ac_status (ap_activities (apply_update sample_app_env
        (UpdQueryResponse ''c'' ''ok'' None None None None None) (clean_activities a)) ! 50) = Processing"
proof -
  let ?a = "sample_app\<lparr>ap_activities := replicate 100 (activity 0 [] [] ''log'' Success)
      @ [activity 0 ''User'' ''Proxy'' ''hi'' Processing], ap_pending := [''c'' \<mapsto> (''hi'', 100)]\<rparr>"
  have "ap_activities ?a ! 100 = activity 0 ''User'' ''Proxy'' ''hi'' Processing" by (simp add: nth_append)
  then show ?thesis
    using trimming_misdirects [of ?a "''c''" "''hi''" 100 sample_app_env "''ok''" None None None None]
    by (simp add: Let_def)
qed

section \<open>The list of servers\<close>

text \<open>The proxies and servers announced and not withdrawn, from the messages alone.\<close>

definition announce :: "IpcMessage \<Rightarrow> (string \<rightharpoonup> ServerType) \<Rightarrow> (string \<rightharpoonup> ServerType)" where
  "announce m T = (case m of ProxyStarted p \<Rightarrow> T(pi_id p \<mapsto> ProxyServer)
     | ServerConnected s \<Rightarrow> T(si_id s \<mapsto> PlainServer)
     | ProxyStopped p \<Rightarrow> T(p := None) | ServerDisconnected s \<Rightarrow> T(s := None) | _ \<Rightarrow> T)"

definition shown_types :: "App \<Rightarrow> (string \<rightharpoonup> ServerType)" where
  "shown_types a = (\<lambda>i. map_option sv_type (ap_servers a i))"

lemma shown_types_update_server [simp]:
  "(\<And>s. sv_type (f s) = sv_type s) \<Longrightarrow> shown_types (update_server i f a) = shown_types a"
  by (rule ext) (simp add: shown_types_def update_server_def option.map_comp comp_def)

lemma shown_types_same [simp]:
  "shown_types (with_diagnostics g a) = shown_types a" "shown_types (push_activity x a) = shown_types a"
  "shown_types (query_answered c r e t s a) = shown_types a" "shown_types (connect_to_proxy E sv a) = shown_types a"
  "shown_types (a\<lparr>ap_clients := cs\<rparr>) = shown_types a" "shown_types (a\<lparr>ap_sessions := ss\<rparr>) = shown_types a"
  "shown_types (a\<lparr>ap_prediction := p\<rparr>) = shown_types a"
  by (simp_all add: shown_types_def)

lemma shown_types_set [simp]:
  "shown_types (a\<lparr>ap_servers := (ap_servers b)(i \<mapsto> s)\<rparr>) = (shown_types b)(i \<mapsto> sv_type s)"
  "shown_types (a\<lparr>ap_servers := (ap_servers b)(i := None)\<rparr>) = (shown_types b)(i := None)"
  by (auto simp: shown_types_def)

lemma shown_types_message:
  "message_update X now m = Some u \<Longrightarrow> shown_types (apply_update E u a) = announce m (shown_types a)"
  by (cases m) (auto simp: message_update_defs apply_update_defs announce_def server_of_proxy_def
      server_of_info_def Let_def simp del: connect_to_proxy_simps(4))

lemma announce_from_monitor: "from_monitor m \<Longrightarrow> announce m T = T"
  by (cases m) (simp_all add: from_monitor_def announce_def)

lemma shown_types_envelopes:
  "shown_types (fold (apply_update E) (process_envelopes X True clock n es) a)
    = fold announce (map env_message es) (shown_types a)"
proof (induction es arbitrary: n a)
  case (Cons e es)
  show ?case
  proof (cases "message_update X (clock n) (env_message e)")
    case None
    then show ?thesis using Cons message_update_None [of X "clock n" "env_message e"]
      by (simp add: process_ipc_message_def announce_from_monitor)
  next
    case (Some u)
    then show ?thesis using Cons by (simp add: process_ipc_message_def shown_types_message)
  qed
qed simp

text \<open>C39 (the monitor mirrors the proxies). Whatever messages a proxy writes to the connection, the
  monitor, after reading it, lists exactly the proxies and servers that were announced and not
  withdrawn since, each with its kind.\<close>

theorem monitor_mirrors_proxies:
  assumes "\<forall>m\<in>set ms. compact S (envelope m)"
  shows "shown_types (fold (apply_update E) (handle_ipc_connection X True clock S
      \<lparr>ic_written = out, ic_unread = ic_written (send_messages S ms \<lparr>ic_written = [], ic_unread = inp\<rparr>)\<rparr>)
      (App_new hf mode gateway llm)) = fold announce (map snd ms) Map.empty"
proof -
  have m: "map env_message (map envelope ms) = map snd ms" by (auto simp: envelope_def)
  have n: "shown_types (App_new hf mode gateway llm) = Map.empty"
    by (simp add: shown_types_def App_new_def)
  show ?thesis
    unfolding handle_ipc_connection_def receive_all_sent [OF assms] fst_conv shown_types_envelopes m n ..
qed

definition sample_info :: ProxyInfo where
  "sample_info = \<lparr>pi_id = ''p'', pi_name = ''proxy'', listen_address = [], target_command = [''server''],
     pi_status = ProxyRunning, pi_stats = ProxyStats_default ''p'', pi_transport_type = StdioType,
     pi_routing_mode = None, pi_model_status = None\<rparr>"

definition sample_wire :: "IpcMessage ipc_serde" where
  "sample_wire = \<lparr>to_json = (\<lambda>e. Inr (case env_message e of ProxyStarted _ \<Rightarrow> ''{1}'' | _ \<Rightarrow> ''{2}'')),
     of_json = (\<lambda>s. Inr \<lparr>env_message = (if s = ''{1}'' then ProxyStarted sample_info else ProxyStopped ''q''),
       env_timestamp = 0, env_correlation_id = Some ''u''\<rparr>)\<rparr>"

theorem monitor_mirrors_proxies_witness:
  "shown_types (fold (apply_update sample_app_env) (handle_ipc_connection
      \<lparr>mx_debug = id, mx_show_json = (\<lambda>_. [])\<rparr> True (\<lambda>_. 0) sample_wire
      \<lparr>ic_written = [], ic_unread = ic_written (send_messages sample_wire
         [((0, ''u''), ProxyStarted sample_info), ((0, ''u''), ProxyStopped ''q'')]
         \<lparr>ic_written = [], ic_unread = []\<rparr>)\<rparr>) (App_new None ''bypass'' False False)) = [''p'' \<mapsto> ProxyServer]"
proof -
  have t: "trim ''{1}\<newline>'' = ''{1}''" "trim ''{2}\<newline>'' = ''{2}''" by code_simp+
  show ?thesis
    by (subst monitor_mirrors_proxies)
      (auto simp: compact_def envelope_def sample_wire_def t announce_def sample_info_def)
qed

section \<open>Routing modes and the selected proxy\<close>

lemma mode_label_modes:
  "mode_label (map ascii_lower s) = Some l \<Longrightarrow> \<exists>m. mode_from_str s = Inr m \<and> map ascii_lower s = mode_as_str m"
  by (auto simp: mode_label_def mode_from_str_def mode_as_str_def Let_def split: if_splits)

lemma ascii_lower_idem: "ascii_lower (ascii_lower c) = ascii_lower c"
proof -
  have "(65 :: nat) + k \<le> 90 \<Longrightarrow> of_char (char_of (97 + k :: nat)) = 97 + k" for k by simp
  then show ?thesis by (simp add: ascii_lower_def)
qed

lemma target_proxy_Inr:
  assumes "target_proxy E a = (Inr p, b)"
  shows "p \<in> set (proxies E a) \<and> b = a\<lparr>ap_selected_proxy := Some (sv_id p)\<rparr>"
  using assms
  by (auto simp: target_proxy_def Let_def find_Some_iff length_Suc_conv split: if_splits option.splits)

lemma target_proxy_sent: "target_proxy E a = (r, b) \<Longrightarrow> ap_sent b = ap_sent a"
  by (auto simp: target_proxy_def Let_def split: if_splits option.splits)

text \<open>A routing mode change. The monitor reports success exactly when it sent one message; then
  the message names the selected proxy, the text is one of the three modes in any capitalization, and
  the proxy that receives it switches to that mode. Otherwise nothing is sent.\<close>

theorem mode_change_reaches_proxy:
  assumes "handle_routing_mode_change E mode a = (i, a')"
  shows "if ac_status i = Success
    then \<exists>m p u. mode_from_str mode = Inr m \<and> p \<in> set (proxies E a) \<and> ae_parse_uuid E (sv_id p) = Some u
      \<and> ap_selected_proxy a' = Some (sv_id p)
      \<and> ap_sent a' = ap_sent a @ [RoutingModeChange u (mode_as_str m)]
      \<and> hf_modes (snd (handle_message \<lparr>has_query_tx = q, has_routing_tx = True\<rparr>
           \<lparr>hv_queue = x, hv_completion = c, hv_ipc = y, hv_routing_open = True\<rparr> (last (ap_sent a')))) = [m]
    else ac_status i = Failed \<and> ap_sent a' = ap_sent a"
proof (cases "ac_status i = Success")
  case True
  then obtain l p b u where l: "mode_label (map ascii_lower mode) = Some l"
    and t: "target_proxy E a = (Inr p, b)" and u: "ae_parse_uuid E (sv_id p) = Some u"
    and a': "a' = b\<lparr>ap_sent := ap_sent b @ [RoutingModeChange u (map ascii_lower mode)],
        ap_diagnostics := (ap_diagnostics b)\<lparr>dg_routing_mode := Some l\<rparr>\<rparr>"
    using assms
    by (auto simp: handle_routing_mode_change_def Let_def split: option.splits if_splits prod.splits sum.splits)
  from mode_label_modes [OF l] obtain m
    where m: "mode_from_str mode = Inr m" "map ascii_lower mode = mode_as_str m" by blast
  have "mode_from_str (map ascii_lower mode) = mode_from_str mode"
    by (simp add: mode_from_str_def ascii_lower_idem comp_def)
  then have "mode_from_str (mode_as_str m) = Inr m" using m by simp
  then show ?thesis using True m u a' target_proxy_Inr [OF t]
    by (auto simp: handle_message_def no_effects_def)
next
  case False
  then show ?thesis using assms target_proxy_sent [of E a]
    by (auto simp: handle_routing_mode_change_def Let_def split: option.splits if_splits prod.splits sum.splits)
qed

lemma position_nth:
  assumes "distinct (map f xs)" "i < length xs"
  shows "position (\<lambda>x. f x = f (xs ! i)) xs = Some i"
proof -
  have "f (xs ! j) \<noteq> f (xs ! i)" if "j < i" for j
    using that assms nth_eq_iff_index_eq [OF assms(1), of j i] by simp
  then have "takeWhile (\<lambda>x. f x \<noteq> f (xs ! i)) xs = take i xs"
    using assms(2) by (intro takeWhile_eq_take_P_nth) auto
  then show ?thesis using assms by (simp add: position_def)
qed

lemma cycle_keeps_servers [simp]:
  "ap_servers (snd (cycle_proxy_selection E a)) = ap_servers a"
  by (simp add: cycle_proxy_selection_def Let_def)

lemma proxies_cycle [simp]: "proxies E (snd (cycle_proxy_selection E a)) = proxies E a"
  by (simp add: proxies_def)

lemma cycle_step:
  assumes "distinct (map sv_id (proxies E a))" "i < length (proxies E a)"
    "ap_selected_proxy a = Some (sv_id (proxies E a ! i))"
  shows "ap_selected_proxy (snd (cycle_proxy_selection E a))
    = Some (sv_id (proxies E a ! (Suc i mod length (proxies E a))))"
proof (cases "length (proxies E a) = 1")
  case True
  then obtain p where "proxies E a = [p]" by (auto simp: length_Suc_conv)
  then show ?thesis using assms by (simp add: cycle_proxy_selection_def Let_def)
next
  case False
  have "proxies E a \<noteq> []" using assms(2) by auto
  then show ?thesis using False assms position_nth [OF assms(1,2)]
    by (simp add: cycle_proxy_selection_def Let_def)
qed

text \<open>Cycling visits all. While the proxies stay the same, pressing the key \<open>k\<close> times moves the
  selection \<open>k\<close> proxies on, around the list.\<close>

theorem cycling_visits_all:
  assumes "distinct (map sv_id (proxies E a))" "i < length (proxies E a)"
    "ap_selected_proxy a = Some (sv_id (proxies E a ! i))"
  shows "ap_selected_proxy (((\<lambda>b. snd (cycle_proxy_selection E b)) ^^ k) a)
    = Some (sv_id (proxies E a ! ((i + k) mod length (proxies E a))))"
proof -
  have "proxies E (((\<lambda>b. snd (cycle_proxy_selection E b)) ^^ k) a) = proxies E a \<and>
    ap_selected_proxy (((\<lambda>b. snd (cycle_proxy_selection E b)) ^^ k) a)
      = Some (sv_id (proxies E a ! ((i + k) mod length (proxies E a))))"
  proof (induction k)
    case (Suc k)
    let ?b = "((\<lambda>b. snd (cycle_proxy_selection E b)) ^^ k) a" and ?n = "length (proxies E a)"
    have "0 < ?n" using assms(2) by linarith
    then have "(i + k) mod ?n < ?n" by (rule mod_less_divisor)
    then show ?case using cycle_step [of E ?b "(i + k) mod ?n"] Suc assms(1) by (simp add: mod_Suc_eq)
  qed (use assms in simp)
  then show ?thesis ..
qed

theorem mode_change_reaches_proxy_witness:
  "ap_sent (snd (handle_routing_mode_change sample_app_env ''Hybrid''
     (sample_app\<lparr>ap_servers := [''p'' \<mapsto> server_of_proxy 0 sample_info]\<rparr>))) = [RoutingModeChange ''p'' ''hybrid'']"
proof -
  let ?a = "sample_app\<lparr>ap_servers := [''p'' \<mapsto> server_of_proxy 0 sample_info]\<rparr>"
  let ?r = "handle_routing_mode_change sample_app_env ''Hybrid'' ?a"
  have l: "map ascii_lower ''Hybrid'' = ''hybrid''" "mode_from_str ''Hybrid'' = Inr HybridMode" by code_simp+
  have p: "proxies sample_app_env ?a = [server_of_proxy 0 sample_info]"
    by (simp add: proxies_def sample_app_env_def server_of_proxy_def List.map_filter_def)
  have s: "ap_ipc sample_app" "ap_selected_proxy sample_app = None" "ap_sent sample_app = []"
    "ae_parse_uuid sample_app_env = Some" "ae_ipc_send sample_app_env = (\<lambda>_. None)"
    by (simp_all add: sample_app_def sample_app_env_def App_new_def)
  have i: "sv_id (server_of_proxy 0 sample_info) = ''p''" by (simp add: server_of_proxy_def sample_info_def)
  have "ac_status (fst ?r) = Success"
    unfolding handle_routing_mode_change_def l(1) by (simp add: mode_label_def target_proxy_def p Let_def s)
  then show ?thesis
    using mode_change_reaches_proxy [of sample_app_env "''Hybrid''" ?a "fst ?r" "snd ?r" False None None None]
    by (auto simp: l p s i mode_as_str_def)
qed

section \<open>Streamed answers of the local model\<close>

lemma apply_token:
  assumes "map_of (ap_generations a) g = Some x" "ag_activity_index x < length (ap_activities a)"
  shows "let b = apply_generation (GenToken g t) a; y = x\<lparr>ag_accumulated := ag_accumulated x @ t\<rparr> in
    map_of (ap_generations b) g = Some y \<and> ag_activity_index y < length (ap_activities b)"
  using assms by (simp add: apply_generation_def Let_def update_conv')

lemma fold_tokens:
  assumes "map_of (ap_generations a) g = Some x" "ag_activity_index x < length (ap_activities a)"
  shows "let b = fold apply_generation (map (GenToken g) ts) a;
      y = x\<lparr>ag_accumulated := ag_accumulated x @ concat ts\<rparr> in
    map_of (ap_generations b) g = Some y \<and> ag_activity_index y < length (ap_activities b)"
  using assms
proof (induction ts arbitrary: a x)
  case (Cons t ts)
  let ?y = "x\<lparr>ag_accumulated := ag_accumulated x @ t\<rparr>"
  show ?case
    using Cons.IH [of "apply_generation (GenToken g t) a" ?y] apply_token [OF Cons.prems, of t]
    by (simp add: Let_def)
qed simp

text \<open>Streamed answers. The tokens of a generation, followed by its completion, leave in its
  activity the prompt and the concatenation of all tokens, marked as successful; the generation is
  forgotten, so a second completion changes nothing.\<close>

theorem generation_streamed:
  assumes "map_of (ap_generations a) g = Some x" "ag_activity_index x < length (ap_activities a)"
    "ag_accumulated x = []"
  shows "let b = fold apply_generation (map (GenToken g) ts @ [GenCompleted g m]) a; i = ag_activity_index x in
    ac_action (ap_activities b ! i) = ag_prompt x @ '': '' @ concat ts \<and> ac_status (ap_activities b ! i) = Success
    \<and> map_of (ap_generations b) g = None \<and> apply_generation (GenCompleted g m') b = b"
proof -
  define b where "b = fold apply_generation (map (GenToken g) ts) a"
  have b: "map_of (ap_generations b) g = Some (x\<lparr>ag_accumulated := concat ts\<rparr>)"
    "ag_activity_index x < length (ap_activities b)"
    using fold_tokens [OF assms(1,2), of ts] assms(3) by (simp_all add: b_def Let_def)
  show ?thesis using b
    by (simp add: apply_generation_def Let_def b_def [symmetric] set_metrics_def nth_modify_activity
        settle_def generation_action_def delete_conv')
qed

theorem generation_streamed_witness:
  "let a = sample_app\<lparr>ap_activities := [activity 0 ''User'' ''LLM'' ''hi'' Processing],
        ap_generations := [(0, \<lparr>ag_prompt = ''hi'', ag_accumulated = [], ag_activity_index = 0\<rparr>)]\<rparr>
   in ac_action (ap_activities (fold apply_generation [GenToken 0 ''a'', GenToken 0 ''b'',
        GenCompleted 0 \<lparr>gn_total_tokens = 2, gn_duration = 0, gn_time_to_first_token = None,
          gn_tokens_per_second = None\<rparr>] a) ! 0) = ''hi: ab''"
  using generation_streamed [of "sample_app\<lparr>ap_activities := [activity 0 ''User'' ''LLM'' ''hi'' Processing],
      ap_generations := [(0, \<lparr>ag_prompt = ''hi'', ag_accumulated = [], ag_activity_index = 0\<rparr>)]\<rparr>"
    0 _ "[''a'', ''b'']" "\<lparr>gn_total_tokens = 2, gn_duration = 0, gn_time_to_first_token = None,
          gn_tokens_per_second = None\<rparr>"]
  by (simp add: Let_def)

section \<open>Reachable states of the interface\<close>

text \<open>What every run keeps of the interface: the focus is on the tabs or on the input line, no model
  list was ever loaded, and the settings are in range.\<close>

definition ui_ok :: "UI \<Rightarrow> bool" where
  "ui_ok ui \<longleftrightarrow> ui_focus ui \<in> {MainTabs, QueryInput} \<and> \<not> ui_models_refreshed ui
     \<and> st_models (ui_settings_panel ui) = [] \<and> settings_ok (ui_settings_panel ui)"

lemma ui_ok_new: "ui_ok (UI_new hf)"
  using settings_new_ok [of hf] by (simp add: ui_ok_def UI_new_def SettingsPanel_new_def)

lemma st_models_ops [simp]:
  "st_models (adjust_setting b p) = st_models p" "st_models (next_setting p) = st_models p"
  "st_models (prev_setting p) = st_models p" "st_models (next_model p) = st_models p"
  "st_models (prev_model p) = st_models p"
  by (simp_all add: adjust_setting_def next_setting_def prev_setting_def next_model_def prev_model_def
      split: SettingsSubtab.splits)

lemma ui_ok_moves:
  assumes "ui_ok ui"
  shows "ui_ok (next_tab ui)" "ui_ok (toggle_focus ui)" "ui_ok (handle_up c ui)" "ui_ok (handle_down c ui)"
    "ui_ok (handle_left ui)" "ui_ok (handle_right ui)" "ui_ok (refresh_ui s ui)"
  using assms settings_ops_ok
  by (auto simp: ui_ok_def next_tab_def toggle_focus_def handle_up_def handle_down_def handle_left_def
      handle_right_def refresh_ui_def should_refresh_models_def reset_models_refresh_flag_def Let_def
      split: MainTab.splits SettingsSubtab.splits FocusArea.splits)

lemma query_via_ui [simp]:
  "ap_ui (fail_query q k i x) = ap_ui (snd x)" "ap_ui (snd (process_query_via_ipc E q i a)) = ap_ui a"
  "ap_ui (snd (process_query_via_gateway E q i a)) = ap_ui a"
  "ap_ui (snd (process_query_via_llm E q i a)) = ap_ui a"
proof -
  show "ap_ui (fail_query q k i x) = ap_ui (snd x)"
    by (cases x) (simp add: fail_query_def split: sum.splits)
  show "ap_ui (snd (process_query_via_ipc E q i a)) = ap_ui a"
    by (simp add: process_query_via_ipc_def Let_def split: option.splits)
  show "ap_ui (snd (process_query_via_gateway E q i a)) = ap_ui a"
    by (simp add: process_query_via_gateway_def Let_def split: sum.splits)
  show "ap_ui (snd (process_query_via_llm E q i a)) = ap_ui a"
    by (simp add: process_query_via_llm_def Let_def split: option.splits)
qed

lemma process_query_ui [simp]: "ap_ui (process_query E a) = ap_ui a"
  by (simp add: process_query_def Let_def case_prod_beta)

lemma cycle_ui [simp]: "ap_ui (snd (cycle_proxy_selection E a)) = ap_ui a"
  by (simp add: cycle_proxy_selection_def Let_def)

lemma event_ui_ok:
  assumes "ui_ok (ap_ui a)"
  shows "ui_ok (ap_ui (app_handle_event E ev a))"
proof (cases ev)
  case CycleProxy
  then show ?thesis using assms cycle_ui [of E a] by (simp add: app_handle_event_def case_prod_beta)
qed (use assms in \<open>auto simp: app_handle_event_def in_tabs_def Let_def ui_ok_moves close_settings_def
      close_diagnostics_def close_search_def ui_ok_def [of "ap_ui a"]\<close>)

lemma run_turn_ui_ok:
  assumes "ui_ok (ap_ui a)"
  shows "ui_ok (ap_ui (run_turn t a))"
proof -
  have "ui_ok (ap_ui (fold (\<lambda>(E, ev). app_handle_event E ev) es b))" if "ui_ok (ap_ui b)" for es b
    using that by (induction es arbitrary: b) (auto simp: event_ui_ok)
  note ev = this [OF assms, of "tu_events t"]
  show ?thesis using ev ui_ok_moves(7) [OF ev]
    by (simp add: run_turn_def update_state_def clean_activities_def Let_def)
qed

text \<open>Reachable states of the interface. In every state a run can reach from start-up, whatever
  keys are pressed and whatever arrives, the settings are in range (temperature from 0 to 2, one to
  4096 tokens, a known backend), no overlay is open, the settings list no model, and the escape key
  ends the program.\<close>

theorem interface_reachable:
  "let a = fold run_turn ts (App_new hf mode gateway llm); p = ui_settings_panel (ap_ui a) in
    ui_focus (ap_ui a) \<in> {MainTabs, QueryInput} \<and> st_models p = [] \<and> st_selected_setting p < 6
    \<and> (\<forall>s. s = st_tui_engine p \<or> s = st_proxy_engine p \<longrightarrow> fp_upto 2 (es_temperature s)
         \<and> 1 \<le> es_max_tokens s \<and> es_max_tokens s \<le> 4096 \<and> es_backend s \<in> {''cpu'', ''gpu''})
    \<and> \<not> ap_running (app_handle_event E Escape a)"
proof -
  have "ui_ok (ap_ui (fold run_turn ts b))" if "ui_ok (ap_ui b)" for b
    using that by (induction ts arbitrary: b) (simp_all add: run_turn_ui_ok)
  then have "ui_ok (ap_ui (fold run_turn ts (App_new hf mode gateway llm)))"
    by (simp add: App_new_def ui_ok_new)
  then show ?thesis
    by (auto simp: Let_def ui_ok_def settings_ok_def engine_ok_def app_handle_event_def)
qed

theorem interface_reachable_witness:
  "st_selected_setting (ui_settings_panel (ap_ui (fold run_turn [] (App_new None [] False False)))) < 6"
  using interface_reachable [of "[]" None "[]" False False] by (simp add: Let_def)

text \<open>The engine settings cannot be left: once one of the two engine tabs is shown, the left and
  right keys change values, and no other event changes the tab.\<close>

definition engine_tab :: "SettingsSubtab \<Rightarrow> bool" where
  "engine_tab t \<longleftrightarrow> t \<in> {TuiEngineTab, ProxyEngineTab}"

lemma adjust_setting_tab [simp]:
  "st_current_tab (adjust_setting b p) = st_current_tab p" "st_current_tab (next_setting p) = st_current_tab p"
  "st_current_tab (prev_setting p) = st_current_tab p" "st_current_tab (next_model p) = st_current_tab p"
  "st_current_tab (prev_model p) = st_current_tab p" "st_current_tab (refresh_models s p) = st_current_tab p"
  by (simp_all add: adjust_setting_def next_setting_def prev_setting_def next_model_def prev_model_def
      refresh_models_def Let_def split: SettingsSubtab.splits option.splits sum.splits)

abbreviation settings_tab :: "App \<Rightarrow> SettingsSubtab" where
  "settings_tab a \<equiv> st_current_tab (ui_settings_panel (ap_ui a))"

lemma moves_keep_engine_tab:
  assumes "engine_tab (st_current_tab (ui_settings_panel ui))"
  shows "ui_settings_panel (next_tab ui) = ui_settings_panel ui"
    "ui_settings_panel (toggle_focus ui) = ui_settings_panel ui"
    "st_current_tab (ui_settings_panel (handle_up c ui)) = st_current_tab (ui_settings_panel ui)"
    "st_current_tab (ui_settings_panel (handle_down c ui)) = st_current_tab (ui_settings_panel ui)"
    "st_current_tab (ui_settings_panel (handle_left ui)) = st_current_tab (ui_settings_panel ui)"
    "st_current_tab (ui_settings_panel (handle_right ui)) = st_current_tab (ui_settings_panel ui)"
    "st_current_tab (ui_settings_panel (refresh_ui s ui)) = st_current_tab (ui_settings_panel ui)"
  using assms
  by (auto simp: engine_tab_def next_tab_def toggle_focus_def handle_up_def handle_down_def handle_left_def
      handle_right_def refresh_ui_def should_refresh_models_def reset_models_refresh_flag_def Let_def
      split: MainTab.splits)

lemma event_keeps_engine_tab:
  assumes "engine_tab (settings_tab a)"
  shows "settings_tab (app_handle_event E ev a) = settings_tab a"
proof (cases ev)
  case CycleProxy
  then show ?thesis using cycle_ui [of E a] by (simp add: app_handle_event_def case_prod_beta)
qed (use moves_keep_engine_tab [OF assms] in \<open>auto simp: app_handle_event_def in_tabs_def Let_def
      close_settings_def close_diagnostics_def close_search_def\<close>)

lemma run_turn_keeps_engine_tab:
  assumes "engine_tab (settings_tab a)"
  shows "settings_tab (run_turn t a) = settings_tab a"
proof -
  have "settings_tab (fold (\<lambda>(E, ev). app_handle_event E ev) es b) = settings_tab b"
    if "engine_tab (settings_tab b)" for es b
    using that by (induction es arbitrary: b) (auto simp: event_keeps_engine_tab)
  note ev = this [OF assms, of "tu_events t"]
  show ?thesis using ev moves_keep_engine_tab(7) [of "ap_ui (fold (\<lambda>(E, ev). app_handle_event E ev) (tu_events t) a)"] assms
    by (simp add: run_turn_def update_state_def clean_activities_def Let_def)
qed

theorem engine_tab_final:
  assumes "engine_tab (settings_tab a)"
  shows "settings_tab (fold run_turn ts a) = settings_tab a"
  using assms by (induction ts arbitrary: a) (simp_all add: run_turn_keeps_engine_tab)

end
