(* ===== verification/Typed_Messages.thy ===== *)
theory Typed_Messages
  imports Json "HOL-Library.Multiset"
begin

text \<open>
  The typed messages of the Model Context Protocol (\<open>acdp-core/src/messages\<close>): tools with
  their hand-written reader, resources, prompts, sampling, logging and progress. A message is
  written to a JSON object field by field with the names and the omissions that its
  attributes declare; the reader of a tool walks the entries in document order. Readers that
  the \<open>serde\<close> macros derive are given for the flat objects; those of the elements of a list are
  parameters. Floats are kept as their bit patterns.
\<close>

section \<open>Writing objects\<close>

text \<open>The fields of a value are inserted into the map one after the other; an absent optional
  field with \<open>skip_serializing_if\<close> is not written.\<close>

definition to_obj :: "(string \<times> json) list \<Rightarrow> json obj" where
  "to_obj fields = fold (\<lambda>(k, v). obj_insert k v) fields []"

definition opt_entry :: "string \<Rightarrow> ('a \<Rightarrow> json) \<Rightarrow> 'a option \<Rightarrow> (string \<times> json) list" where
  "opt_entry k f x = (case x of None \<Rightarrow> [] | Some y \<Rightarrow> [(k, f y)])"

lemma opt_entry_simps [simp]: "opt_entry k f None = []" "opt_entry k f (Some y) = [(k, f y)]"
  by (simp_all add: opt_entry_def)

lemma fold_insert_wf: "obj_wf m \<Longrightarrow> obj_wf (fold (\<lambda>(k, v). obj_insert k v) fs m)"
  by (induction fs arbitrary: m) (auto simp: obj_wf_insert)

lemma fold_insert_get:
  "obj_get (fold (\<lambda>(k, v). obj_insert k v) fs m) k =
     (case map_of (rev fs) k of Some v \<Rightarrow> Some v | None \<Rightarrow> obj_get m k)"
proof (induction fs arbitrary: m)
  case (Cons f fs)
  obtain k' v where "f = (k', v)" by (cases f)
  with Cons show ?case by (auto simp: obj_get_insert map_add_def split: option.splits)
qed simp

lemma to_obj_wf: "obj_wf (to_obj fs)"
  unfolding to_obj_def by (rule fold_insert_wf) (simp add: obj_wf_def)

lemma to_obj_get: "obj_get (to_obj fs) k = map_of (rev fs) k"
  unfolding to_obj_def fold_insert_get by (simp add: obj_get_def split: option.split)

lemma map_of_rev_distinct: "distinct (map fst fs) \<Longrightarrow> map_of (rev fs) = map_of fs"
  by (rule map_of_eqI) (auto simp: rev_map [symmetric])

lemma to_obj_entry: "distinct (map fst fs) \<Longrightarrow> obj_get (to_obj fs) k = map_of fs k"
  by (simp add: to_obj_get map_of_rev_distinct)

lemma map_of_rev_wf: "obj_wf m \<Longrightarrow> map_of (rev m) k = obj_get m k"
  by (simp add: obj_wf_def obj_get_def strict_sorted_iff map_of_rev_distinct)

text \<open>The reader of an optional field takes a missing field and a \<open>null\<close> for an absent
  value.\<close>

definition opt_value :: "(json \<Rightarrow> 'a option) \<Rightarrow> json option \<Rightarrow> 'a option option" where
  "opt_value f v = (case v of None \<Rightarrow> Some None | Some Null \<Rightarrow> Some None
     | Some w \<Rightarrow> (case f w of None \<Rightarrow> None | Some y \<Rightarrow> Some (Some y)))"

definition as_bool :: "json \<Rightarrow> bool option" where
  "as_bool v = (case v of Bool b \<Rightarrow> Some b | _ \<Rightarrow> None)"

section \<open>Tools\<close>

record Tool =
  tool_name :: string
  tool_description :: string
  input_schema :: "json option"
  extensions :: "json option"
  read_only :: "bool option"
  return_type :: "json option"

datatype Field = FName | FDescription | FInputSchema | FParametersSchema | FExtensions
  | FReadOnly | FReturnType | FUnknown

definition field_of :: "string \<Rightarrow> Field" where
  "field_of k =
     (if k = ''name'' then FName
      else if k = ''description'' then FDescription
      else if k = ''inputSchema'' \<or> k = ''input_schema'' then FInputSchema
      else if k = ''parametersSchema'' \<or> k = ''parameters_schema'' then FParametersSchema
      else if k = ''extensions'' then FExtensions
      else if k = ''readOnly'' \<or> k = ''read_only'' then FReadOnly
      else if k = ''returnType'' then FReturnType
      else FUnknown)"

datatype read_error = DuplicateField string | MissingField string | InvalidType

definition read_string :: "json \<Rightarrow> read_error + string" where
  "read_string v = (case v of String s \<Rightarrow> Inr s | _ \<Rightarrow> Inl InvalidType)"

definition read_bool :: "json \<Rightarrow> read_error + bool" where
  "read_bool v = (case v of Bool b \<Rightarrow> Inr b | _ \<Rightarrow> Inl InvalidType)"

text \<open>The local variables of the reader.\<close>

record tool_vars =
  v_name :: "string option"
  v_description :: "string option"
  v_input_schema :: "json option"
  v_extensions :: "json option"
  v_read_only :: "bool option"
  v_return_type :: "json option"

definition tool_vars_init :: tool_vars where
  "tool_vars_init = \<lparr>v_name = None, v_description = None, v_input_schema = None,
     v_extensions = None, v_read_only = None, v_return_type = None\<rparr>"

definition visit_entry :: "tool_vars \<Rightarrow> string \<times> json \<Rightarrow> read_error + tool_vars" where
  "visit_entry s e = (let v = snd e in case field_of (fst e) of
     FName \<Rightarrow>
       if v_name s \<noteq> None then Inl (DuplicateField ''name'')
       else and_then (read_string v) (\<lambda>x. Inr (s\<lparr>v_name := Some x\<rparr>))
   | FDescription \<Rightarrow>
       if v_description s \<noteq> None then Inl (DuplicateField ''description'')
       else and_then (read_string v) (\<lambda>x. Inr (s\<lparr>v_description := Some x\<rparr>))
   | FInputSchema \<Rightarrow>
       if v_input_schema s = None then Inr (s\<lparr>v_input_schema := Some v\<rparr>) else Inr s
   | FParametersSchema \<Rightarrow>
       if v_input_schema s = None then Inr (s\<lparr>v_input_schema := Some v\<rparr>) else Inr s
   | FExtensions \<Rightarrow>
       if v_extensions s \<noteq> None then Inl (DuplicateField ''extensions'')
       else Inr (s\<lparr>v_extensions := Some v\<rparr>)
   | FReadOnly \<Rightarrow>
       if v_read_only s \<noteq> None then Inl (DuplicateField ''readOnly'')
       else and_then (read_bool v) (\<lambda>x. Inr (s\<lparr>v_read_only := Some x\<rparr>))
   | FReturnType \<Rightarrow>
       if v_return_type s \<noteq> None then Inl (DuplicateField ''returnType'')
       else Inr (s\<lparr>v_return_type := Some v\<rparr>)
   | FUnknown \<Rightarrow> Inr s)"

fun visit_entries :: "tool_vars \<Rightarrow> (string \<times> json) list \<Rightarrow> read_error + tool_vars" where
  "visit_entries s [] = Inr s"
| "visit_entries s (e # es) = and_then (visit_entry s e) (\<lambda>s'. visit_entries s' es)"

definition finish_tool :: "tool_vars \<Rightarrow> read_error + Tool" where
  "finish_tool s =
     and_then (ok_or (MissingField ''name'') (v_name s)) (\<lambda>n.
     and_then (ok_or (MissingField ''description'') (v_description s)) (\<lambda>d.
       Inr \<lparr>tool_name = n, tool_description = d, input_schema = v_input_schema s,
         extensions = v_extensions s, read_only = v_read_only s, return_type = v_return_type s\<rparr>))"

definition visit_map :: "(string \<times> json) list \<Rightarrow> read_error + Tool" where
  "visit_map es = and_then (visit_entries tool_vars_init es) finish_tool"

text \<open>A tool read from a \<open>Value\<close>: its visitor takes a map and nothing else.\<close>

definition tool_deserialize :: "json \<Rightarrow> read_error + Tool" where
  "tool_deserialize v = (case v of Object m \<Rightarrow> visit_map m | _ \<Rightarrow> Inl InvalidType)"

definition tool_entries :: "Tool \<Rightarrow> (string \<times> json) list" where
  "tool_entries t =
     [(''name'', String (tool_name t)), (''description'', String (tool_description t))] @
     opt_entry ''input_schema'' id (input_schema t) @
     opt_entry ''extensions'' id (extensions t) @
     opt_entry ''readOnly'' Bool (read_only t) @
     opt_entry ''returnType'' id (return_type t)"

definition tool_serialize :: "Tool \<Rightarrow> json" where
  "tool_serialize t = Object (to_obj (tool_entries t))"

definition Tool_new :: "string \<Rightarrow> string \<Rightarrow> Tool" where
  "Tool_new name description = \<lparr>tool_name = name, tool_description = description,
     input_schema = None, extensions = None, read_only = None, return_type = None\<rparr>"

definition with_input_schema :: "json \<Rightarrow> Tool \<Rightarrow> Tool" where
  "with_input_schema schema t = t\<lparr>input_schema := Some schema\<rparr>"

definition with_extensions :: "json \<Rightarrow> Tool \<Rightarrow> Tool" where
  "with_extensions ext t = t\<lparr>extensions := Some ext\<rparr>"

definition with_read_only :: "bool \<Rightarrow> Tool \<Rightarrow> Tool" where
  "with_read_only b t = t\<lparr>read_only := Some b\<rparr>"

definition with_return_type :: "json \<Rightarrow> Tool \<Rightarrow> Tool" where
  "with_return_type ty t = t\<lparr>return_type := Some ty\<rparr>"

subsection \<open>What the reader accepts\<close>

text \<open>The specification does not mention the order in which the entries are visited, except for
  the schema: the values of a field are those of its names, in document order.\<close>

definition field_values :: "Field set \<Rightarrow> (string \<times> json) list \<Rightarrow> json list" where
  "field_values fs es = map snd (filter (\<lambda>e. field_of (fst e) \<in> fs) es)"

lemma field_values_simps [simp]:
  "field_values fs [] = []"
  "field_values fs (e # es) = (if field_of (fst e) \<in> fs then snd e # field_values fs es else field_values fs es)"
  by (simp_all add: field_values_def)

fun fills :: "'a option \<Rightarrow> (json \<Rightarrow> 'a option) \<Rightarrow> json list \<Rightarrow> 'a option \<Rightarrow> bool" where
  "fills x f [] y \<longleftrightarrow> y = x"
| "fills x f (v # vs) y \<longleftrightarrow> x = None \<and> f v \<noteq> None \<and> fills (f v) f vs y"

definition at_most_one :: "(json \<Rightarrow> 'a option) \<Rightarrow> json list \<Rightarrow> 'a option \<Rightarrow> bool" where
  "at_most_one f vs y \<longleftrightarrow> (vs = [] \<and> y = None) \<or> (\<exists>v. vs = [v] \<and> y \<noteq> None \<and> f v = y)"

definition earliest :: "json option \<Rightarrow> json list \<Rightarrow> json option" where
  "earliest x vs = (case x of Some v \<Rightarrow> Some v | None \<Rightarrow> (case vs of [] \<Rightarrow> None | v # _ \<Rightarrow> Some v))"

definition reads_tool :: "(string \<times> json) list \<Rightarrow> Tool \<Rightarrow> bool" where
  "reads_tool es t \<longleftrightarrow>
     at_most_one as_str (field_values {FName} es) (Some (tool_name t)) \<and>
     at_most_one as_str (field_values {FDescription} es) (Some (tool_description t)) \<and>
     input_schema t = earliest None (field_values {FInputSchema, FParametersSchema} es) \<and>
     at_most_one Some (field_values {FExtensions} es) (extensions t) \<and>
     at_most_one as_bool (field_values {FReadOnly} es) (read_only t) \<and>
     at_most_one Some (field_values {FReturnType} es) (return_type t)"

lemma fills_at_most_one: "fills None f vs y \<longleftrightarrow> at_most_one f vs y"
  by (cases vs; cases "tl vs") (auto simp: at_most_one_def)

lemma read_string_eq: "read_string v = Inr x \<longleftrightarrow> as_str v = Some x"
  by (simp add: read_string_def as_str_def split: json.split)

lemma read_bool_eq: "read_bool v = Inr x \<longleftrightarrow> as_bool v = Some x"
  by (simp add: read_bool_def as_bool_def split: json.split)

lemma visit_entries_iff:
  "visit_entries s es = Inr s' \<longleftrightarrow>
     fills (v_name s) as_str (field_values {FName} es) (v_name s') \<and>
     fills (v_description s) as_str (field_values {FDescription} es) (v_description s') \<and>
     v_input_schema s' = earliest (v_input_schema s) (field_values {FInputSchema, FParametersSchema} es) \<and>
     fills (v_extensions s) Some (field_values {FExtensions} es) (v_extensions s') \<and>
     fills (v_read_only s) as_bool (field_values {FReadOnly} es) (v_read_only s') \<and>
     fills (v_return_type s) Some (field_values {FReturnType} es) (v_return_type s')"
proof (induction es arbitrary: s)
  case Nil
  show ?case by (cases s; cases s') (auto simp: earliest_def split: option.split)
next
  case (Cons e es)
  show ?case
    by (cases "field_of (fst e)")
      (auto simp: visit_entry_def Let_def res_simps read_string_eq read_bool_eq Cons.IH earliest_def split: option.splits)
qed

lemma visit_map_iff: "visit_map es = Inr t \<longleftrightarrow> reads_tool es t"
proof -
  have "visit_map es = Inr t \<longleftrightarrow> (\<exists>s. visit_entries tool_vars_init es = Inr s \<and>
      s = \<lparr>v_name = Some (tool_name t), v_description = Some (tool_description t),
        v_input_schema = input_schema t, v_extensions = extensions t, v_read_only = read_only t,
        v_return_type = return_type t\<rparr>)"
    by (cases t) (auto simp: visit_map_def finish_tool_def res_simps)
  then show ?thesis
    by (simp add: visit_entries_iff reads_tool_def fills_at_most_one tool_vars_init_def)
qed


lemma at_most_one_mset: "mset vs = mset ws \<Longrightarrow> at_most_one f vs y \<longleftrightarrow> at_most_one f ws y"
proof -
  assume m: "mset vs = mset ws"
  then have "vs = [] \<longleftrightarrow> ws = []" "\<And>v. vs = [v] \<longleftrightarrow> ws = [v]"
    by (metis mset_zero_iff mset_zero_iff_right, metis mset_single_iff mset_single_iff_right)
  then show ?thesis by (simp add: at_most_one_def)
qed

lemma field_values_mset: "mset es = mset es' \<Longrightarrow> mset (field_values fs es) = mset (field_values fs es')"
  by (simp add: field_values_def)

lemma short_mset_eq: "mset vs = mset ws \<Longrightarrow> length vs \<le> 1 \<Longrightarrow> vs = ws"
  by (cases vs; cases "tl vs") (auto dest: mset_eq_length)

lemma reads_tool_mset:
  assumes m: "mset es = mset es'" and s: "length (field_values {FInputSchema, FParametersSchema} es) \<le> 1"
  shows "reads_tool es t \<longleftrightarrow> reads_tool es' t"
proof -
  note vs = field_values_mset [OF m]
  show ?thesis
    by (simp add: reads_tool_def at_most_one_mset [OF vs] short_mset_eq [OF vs s])
qed

lemma obj_insert_mset: "k \<notin> fst ` set m \<Longrightarrow> mset (obj_insert k v m) = add_mset (k, v) (mset m)"
  by (induction k v m rule: obj_insert.induct) auto

lemma fold_insert_mset:
  "distinct (map fst fs) \<Longrightarrow> fst ` set fs \<inter> fst ` set m = {} \<Longrightarrow>
     mset (fold (\<lambda>(k, v). obj_insert k v) fs m) = mset fs + mset m"
proof (induction fs arbitrary: m)
  case (Cons f fs)
  obtain k v where f: "f = (k, v)" by (cases f)
  have "fst ` set (obj_insert k v m) = insert k (fst ` set m)"
    using keys_obj_insert [of k v m] by simp
  with Cons f show ?case by (auto simp: obj_insert_mset)
qed simp

lemma to_obj_mset: "distinct (map fst fs) \<Longrightarrow> mset (to_obj fs) = mset fs"
  by (simp add: to_obj_def fold_insert_mset)

lemma reads_tool_entries:
  "reads_tool (tool_entries t) t" "length (field_values {FInputSchema, FParametersSchema} (tool_entries t)) \<le> 1"
  "distinct (map fst (tool_entries t))"
  by (cases "input_schema t"; cases "extensions t"; cases "read_only t"; cases "return_type t";
      simp add: reads_tool_def tool_entries_def field_of_def at_most_one_def as_str_def as_bool_def earliest_def)+

lemma tool_deserialize_serialize: "tool_deserialize (tool_serialize t) = Inr t"
  using reads_tool_mset [OF to_obj_mset [symmetric], of "tool_entries t" t] reads_tool_entries [of t]
  by (simp add: tool_deserialize_def tool_serialize_def visit_map_iff)

section \<open>Lists and calls\<close>

record ListToolsRequest =
  ltr_cursor :: "string option"

record ListToolsResponse =
  tools :: "Tool list"
  next_cursor :: "string option"

fun read_all :: "(json \<Rightarrow> 'e + 'a) \<Rightarrow> json list \<Rightarrow> 'e + 'a list" where
  "read_all f [] = Inr []"
| "read_all f (v # vs) = and_then (f v) (\<lambda>x. and_then (read_all f vs) (\<lambda>xs. Inr (x # xs)))"

text \<open>The derived reader of the response on an object: \<open>tools\<close> is a list of tools, the cursor an
  optional string under its Rust name.\<close>

definition list_tools_read :: "json obj \<Rightarrow> ListToolsResponse option" where
  "list_tools_read m =
     (case obj_get m ''tools'' of
        Some (Array vs) \<Rightarrow>
          (case (read_all tool_deserialize vs, opt_value as_str (obj_get m ''next_cursor'')) of
             (Inr ts, Some c) \<Rightarrow> Some \<lparr>tools = ts, next_cursor = c\<rparr>
           | _ \<Rightarrow> None)
      | _ \<Rightarrow> None)"

definition list_tools_write :: "ListToolsResponse \<Rightarrow> json obj" where
  "list_tools_write r = to_obj ((''tools'', Array (map tool_serialize (tools r))) #
     opt_entry ''next_cursor'' String (next_cursor r))"

record CallToolRequest =
  call_name :: string
  call_arguments :: "json option"

definition call_tool_write :: "CallToolRequest \<Rightarrow> json obj" where
  "call_tool_write r = to_obj ((''name'', String (call_name r)) # opt_entry ''arguments'' id (call_arguments r))"

definition call_tool_read :: "json obj \<Rightarrow> CallToolRequest option" where
  "call_tool_read m =
     (case (obj_get m ''name'', opt_value Some (obj_get m ''arguments'')) of
        (Some (String n), Some a) \<Rightarrow> Some \<lparr>call_name = n, call_arguments = a\<rparr>
      | _ \<Rightarrow> None)"

record ResourceReference =
  ref_uri :: string
  ref_text :: "string option"

definition reference_write :: "ResourceReference \<Rightarrow> json" where
  "reference_write r = Object (to_obj ((''uri'', String (ref_uri r)) # opt_entry ''text'' String (ref_text r)))"

datatype ToolResult =
    TextResult string
  | ImageResult string string
  | ResourceResult ResourceReference

definition tool_result_write :: "ToolResult \<Rightarrow> json" where
  "tool_result_write r = Object (to_obj (case r of
     TextResult t \<Rightarrow> [(''type'', String ''text''), (''text'', String t)]
   | ImageResult d m \<Rightarrow> [(''type'', String ''image''), (''data'', String d), (''mimeType'', String m)]
   | ResourceResult ref \<Rightarrow> [(''type'', String ''resource''), (''resource'', reference_write ref)]))"

record CallToolResponse =
  call_content :: "ToolResult list"
  call_is_error :: "bool option"

definition call_response_write :: "CallToolResponse \<Rightarrow> json obj" where
  "call_response_write r = to_obj ((''content'', Array (map tool_result_write (call_content r))) #
     opt_entry ''is_error'' Bool (call_is_error r))"

definition call_response_read :: "(json \<Rightarrow> ToolResult option) \<Rightarrow> json obj \<Rightarrow> CallToolResponse option" where
  "call_response_read rd m =
     (let content = (case obj_get m ''content'' of
        None \<Rightarrow> Some []
      | Some (Array vs) \<Rightarrow> those (map rd vs)
      | Some _ \<Rightarrow> None)
      in case (content, opt_value as_bool (obj_get m ''is_error'')) of
        (Some c, Some e) \<Rightarrow> Some \<lparr>call_content = c, call_is_error = e\<rparr>
      | _ \<Rightarrow> None)"

lemma read_all_map: "(\<And>x. f (g x) = Inr x) \<Longrightarrow> read_all f (map g xs) = Inr xs"
  by (induction xs) (simp_all add: and_then_def)

lemma opt_value_Some: "w \<noteq> Null \<Longrightarrow> opt_value f (Some w) = map_option Some (f w)"
  by (cases w) (auto simp: opt_value_def split: option.split)

lemma opt_value_map_option:
  assumes "\<And>x. f (g x) = Some x" "\<And>x. g x \<noteq> Null"
  shows "opt_value f (map_option g y) = Some y"
proof (cases y)
  case None
  then show ?thesis by (simp add: opt_value_def)
next
  case (Some x)
  then show ?thesis by (simp add: opt_value_Some assms)
qed

lemma map_of_opt_entry: "map_of (opt_entry k g y) k' = (if k' = k then map_option g y else None)"
  by (cases y) auto

section \<open>Logging and progress\<close>

datatype McpLogLevel = Debug | Info | Notice | Warning | ErrorLevel | Critical

text \<open>The derived order is that of the declarations.\<close>

primrec level_index :: "McpLogLevel \<Rightarrow> nat" where
  "level_index Debug = 0"
| "level_index Info = 1"
| "level_index Notice = 2"
| "level_index Warning = 3"
| "level_index ErrorLevel = 4"
| "level_index Critical = 5"

lemma level_index_inject: "level_index a = level_index b \<longleftrightarrow> a = b"
  by (cases a; cases b) auto

instantiation McpLogLevel :: linorder
begin

definition less_eq_McpLogLevel :: "McpLogLevel \<Rightarrow> McpLogLevel \<Rightarrow> bool" where
  "less_eq_McpLogLevel a b \<longleftrightarrow> level_index a \<le> level_index b"

definition less_McpLogLevel :: "McpLogLevel \<Rightarrow> McpLogLevel \<Rightarrow> bool" where
  "less_McpLogLevel a b \<longleftrightarrow> level_index a < level_index b"

instance
  by standard (auto simp: less_eq_McpLogLevel_def less_McpLogLevel_def level_index_inject)

end

definition log_levels :: "McpLogLevel list" where
  "log_levels = [Debug, Info, Notice, Warning, ErrorLevel, Critical]"

definition is_more_verbose_than :: "McpLogLevel \<Rightarrow> McpLogLevel \<Rightarrow> bool" where
  "is_more_verbose_than a b \<longleftrightarrow> a < b"

definition is_less_verbose_than :: "McpLogLevel \<Rightarrow> McpLogLevel \<Rightarrow> bool" where
  "is_less_verbose_than a b \<longleftrightarrow> a > b"

primrec log_level_display :: "McpLogLevel \<Rightarrow> string" where
  "log_level_display Debug = ''debug''"
| "log_level_display Info = ''info''"
| "log_level_display Notice = ''notice''"
| "log_level_display Warning = ''warning''"
| "log_level_display ErrorLevel = ''error''"
| "log_level_display Critical = ''critical''"

text \<open>\<open>rename_all = "lowercase"\<close> gives the variants the names that \<open>Display\<close> prints.\<close>

definition log_level_write :: "McpLogLevel \<Rightarrow> json" where
  "log_level_write l = String (log_level_display l)"

record LoggingNotification =
  log_level :: McpLogLevel
  log_data :: json
  log_logger :: "string option"

definition LoggingNotification_new :: "McpLogLevel \<Rightarrow> json \<Rightarrow> LoggingNotification" where
  "LoggingNotification_new level data = \<lparr>log_level = level, log_data = data, log_logger = None\<rparr>"

definition log_with_logger :: "McpLogLevel \<Rightarrow> json \<Rightarrow> string \<Rightarrow> LoggingNotification" where
  "log_with_logger level data logger = \<lparr>log_level = level, log_data = data, log_logger = Some logger\<rparr>"

definition log_debug :: "string \<Rightarrow> LoggingNotification" where
  "log_debug message = LoggingNotification_new Debug (String message)"

definition log_info :: "string \<Rightarrow> LoggingNotification" where
  "log_info message = LoggingNotification_new Info (String message)"

definition log_notice :: "string \<Rightarrow> LoggingNotification" where
  "log_notice message = LoggingNotification_new Notice (String message)"

definition log_warning :: "string \<Rightarrow> LoggingNotification" where
  "log_warning message = LoggingNotification_new Warning (String message)"

definition log_err :: "string \<Rightarrow> LoggingNotification" where
  "log_err message = LoggingNotification_new ErrorLevel (String message)"

definition log_critical :: "string \<Rightarrow> LoggingNotification" where
  "log_critical message = LoggingNotification_new Critical (String message)"

definition logging_write :: "LoggingNotification \<Rightarrow> json obj" where
  "logging_write n = to_obj ([(''level'', log_level_write (log_level n)), (''data'', log_data n)] @
     opt_entry ''logger'' String (log_logger n))"

datatype ProgressToken = TokenString string | TokenNumber int

definition token_from_i32 :: "int \<Rightarrow> ProgressToken" where
  "token_from_i32 n = TokenNumber n"

primrec token_display :: "ProgressToken \<Rightarrow> string" where
  "token_display (TokenString s) = s"
| "token_display (TokenNumber n) = show_int n"

text \<open>An untagged enumeration: the first variant that the value fits.\<close>

primrec token_write :: "ProgressToken \<Rightarrow> json" where
  "token_write (TokenString s) = String s"
| "token_write (TokenNumber n) = Number (number_from_i64 n)"

definition token_read :: "json \<Rightarrow> ProgressToken option" where
  "token_read v = (case as_str v of
     Some s \<Rightarrow> Some (TokenString s)
   | None \<Rightarrow> map_option TokenNumber (as_i64 v))"

record ProgressNotification =
  progress_token :: ProgressToken
  progress :: u64
  total :: "u64 option"

definition ProgressNotification_new :: "ProgressToken \<Rightarrow> u64 \<Rightarrow> ProgressNotification" where
  "ProgressNotification_new tok p = \<lparr>progress_token = tok, progress = p, total = None\<rparr>"

definition progress_with_total :: "ProgressToken \<Rightarrow> u64 \<Rightarrow> u64 \<Rightarrow> ProgressNotification" where
  "progress_with_total tok p n = \<lparr>progress_token = tok, progress = p, total = Some n\<rparr>"

lemma token_read_write:
  "case tok of TokenNumber n \<Rightarrow> in_i64 n | _ \<Rightarrow> True \<Longrightarrow> token_read (token_write tok) = Some tok"
  by (cases tok) (auto simp: token_read_def as_str_def as_i64_from_i64 in_i64_def)

section \<open>Resources\<close>

record Resource =
  resource_uri :: string
  resource_name :: string
  resource_description :: "string option"
  resource_mime_type :: "string option"

definition Resource_new :: "string \<Rightarrow> string \<Rightarrow> Resource" where
  "Resource_new uri name = \<lparr>resource_uri = uri, resource_name = name,
     resource_description = None, resource_mime_type = None\<rparr>"

definition with_description :: "string \<Rightarrow> Resource \<Rightarrow> Resource" where
  "with_description d r = r\<lparr>resource_description := Some d\<rparr>"

definition with_mime_type :: "string \<Rightarrow> Resource \<Rightarrow> Resource" where
  "with_mime_type t r = r\<lparr>resource_mime_type := Some t\<rparr>"

definition resource_write :: "Resource \<Rightarrow> json obj" where
  "resource_write r = to_obj ([(''uri'', String (resource_uri r)), (''name'', String (resource_name r))] @
     opt_entry ''description'' String (resource_description r) @
     opt_entry ''mime_type'' String (resource_mime_type r))"

definition resource_read :: "json obj \<Rightarrow> Resource option" where
  "resource_read m =
     (case (obj_get m ''uri'', obj_get m ''name'', opt_value as_str (obj_get m ''description''),
            opt_value as_str (obj_get m ''mime_type'')) of
        (Some (String u), Some (String n), Some d, Some t) \<Rightarrow>
          Some \<lparr>resource_uri = u, resource_name = n, resource_description = d, resource_mime_type = t\<rparr>
      | _ \<Rightarrow> None)"

datatype ResourceContent =
    TextContent (content_body: string) (content_uri: string) (content_mime_type: "string option")
  | BlobContent (content_body: string) (content_uri: string) (content_mime_type: "string option")

definition content_text :: "string \<Rightarrow> string \<Rightarrow> ResourceContent" where
  "content_text uri t = TextContent t uri None"

definition content_text_with_mime_type :: "string \<Rightarrow> string \<Rightarrow> string \<Rightarrow> ResourceContent" where
  "content_text_with_mime_type uri t mt = TextContent t uri (Some mt)"

definition content_blob :: "string \<Rightarrow> string \<Rightarrow> ResourceContent" where
  "content_blob uri b = BlobContent b uri None"

definition content_blob_with_mime_type :: "string \<Rightarrow> string \<Rightarrow> string \<Rightarrow> ResourceContent" where
  "content_blob_with_mime_type uri b mt = BlobContent b uri (Some mt)"

definition resource_content_write :: "ResourceContent \<Rightarrow> json" where
  "resource_content_write c = Object (to_obj (case c of
     TextContent t u mt \<Rightarrow> [(''type'', String ''text''), (''text'', String t), (''uri'', String u)] @
       opt_entry ''mimeType'' String mt
   | BlobContent b u mt \<Rightarrow> [(''type'', String ''blob''), (''blob'', String b), (''uri'', String u)] @
       opt_entry ''mimeType'' String mt))"

section \<open>Prompts\<close>

datatype MessageRole = System | User | Assistant

primrec role_write :: "MessageRole \<Rightarrow> json" where
  "role_write System = String ''system''"
| "role_write User = String ''user''"
| "role_write Assistant = String ''assistant''"

datatype PromptContent =
    PromptText string
  | PromptImage string string
  | PromptResource ResourceReference

definition prompt_resource :: "string \<Rightarrow> PromptContent" where
  "prompt_resource uri = PromptResource \<lparr>ref_uri = uri, ref_text = None\<rparr>"

definition prompt_resource_with_text :: "string \<Rightarrow> string \<Rightarrow> PromptContent" where
  "prompt_resource_with_text uri t = PromptResource \<lparr>ref_uri = uri, ref_text = Some t\<rparr>"

definition prompt_content_write :: "PromptContent \<Rightarrow> json" where
  "prompt_content_write c = Object (to_obj (case c of
     PromptText t \<Rightarrow> [(''type'', String ''text''), (''text'', String t)]
   | PromptImage d m \<Rightarrow> [(''type'', String ''image''), (''data'', String d), (''mimeType'', String m)]
   | PromptResource ref \<Rightarrow> [(''type'', String ''resource''), (''resource'', reference_write ref)]))"

record PromptMessage =
  prompt_role :: MessageRole
  prompt_content :: PromptContent

definition prompt_system :: "string \<Rightarrow> PromptMessage" where
  "prompt_system content = \<lparr>prompt_role = System, prompt_content = PromptText content\<rparr>"

definition prompt_user :: "string \<Rightarrow> PromptMessage" where
  "prompt_user content = \<lparr>prompt_role = User, prompt_content = PromptText content\<rparr>"

definition prompt_assistant :: "string \<Rightarrow> PromptMessage" where
  "prompt_assistant content = \<lparr>prompt_role = Assistant, prompt_content = PromptText content\<rparr>"

definition prompt_message_write :: "PromptMessage \<Rightarrow> json" where
  "prompt_message_write m = Object (to_obj [(''role'', role_write (prompt_role m)),
     (''content'', prompt_content_write (prompt_content m))])"

record Prompt =
  prompt_name :: string
  prompt_description :: string
  prompt_arguments :: "json option"

definition Prompt_new :: "string \<Rightarrow> string \<Rightarrow> Prompt" where
  "Prompt_new name description = \<lparr>prompt_name = name, prompt_description = description, prompt_arguments = None\<rparr>"

definition with_arguments :: "json \<Rightarrow> Prompt \<Rightarrow> Prompt" where
  "with_arguments a p = p\<lparr>prompt_arguments := Some a\<rparr>"

definition prompt_write :: "Prompt \<Rightarrow> json obj" where
  "prompt_write p = to_obj ([(''name'', String (prompt_name p)), (''description'', String (prompt_description p))] @
     opt_entry ''arguments'' id (prompt_arguments p))"

definition prompt_read :: "json obj \<Rightarrow> Prompt option" where
  "prompt_read m =
     (case (obj_get m ''name'', obj_get m ''description'', opt_value Some (obj_get m ''arguments'')) of
        (Some (String n), Some (String d), Some a) \<Rightarrow>
          Some \<lparr>prompt_name = n, prompt_description = d, prompt_arguments = a\<rparr>
      | _ \<Rightarrow> None)"

section \<open>Messages with open metadata\<close>

text \<open>Several messages carry a map of metadata that is flattened into their object
  (\<open>serde(flatten)\<close>): the declared fields are written first, then the entries of the map.\<close>

locale flattened =
  fixes own :: "'t \<Rightarrow> (string \<times> json) list"
    and meta :: "'t \<Rightarrow> json obj"
    and put :: "string \<Rightarrow> json \<Rightarrow> 't \<Rightarrow> 't"
    and written :: "'t \<Rightarrow> json obj"
  assumes written_fields: "written x = to_obj (own x @ meta x)"
    and own_distinct: "distinct (map fst (own x))"
    and own_put: "own (put k v x) = own x"
    and meta_put: "meta (put k v x) = obj_insert k v (meta x)"
begin

lemma get_write:
  "obj_wf (meta x) \<Longrightarrow>
     obj_get (written x) k = (case obj_get (meta x) k of Some v \<Rightarrow> Some v | None \<Rightarrow> map_of (own x) k)"
  by (simp add: written_fields to_obj_get map_add_def map_of_rev_wf map_of_rev_distinct own_distinct)

lemma get_write_put:
  "obj_wf (meta x) \<Longrightarrow> obj_get (written (put k v x)) k' = (if k' = k then Some v else obj_get (written x) k')"
  by (simp add: get_write meta_put own_put obj_wf_insert obj_get_insert split: option.split)

text \<open>Taking the declared fields out of the written object gives back the metadata, unless they
  share a name.\<close>

lemma metadata_back:
  assumes "obj_wf (meta x)" and "fst ` set (own x) \<inter> fst ` set (meta x) = {}"
  shows "fold obj_remove (map fst (own x)) (written x) = meta x"
proof (rule obj_eqI)
  have g: "obj_get (fold obj_remove ks m) k = (if k \<in> set ks then None else obj_get m k)"
    and w: "obj_wf m \<Longrightarrow> obj_wf (fold obj_remove ks m)" for ks k and m :: "json obj"
    by (induction ks arbitrary: m) (auto simp: obj_get_remove obj_wf_remove)
  show "obj_wf (fold obj_remove (map fst (own x)) (written x))"
    by (rule w) (simp add: written_fields to_obj_wf)
  show "obj_wf (meta x)" by fact
  show "obj_get (fold obj_remove (map fst (own x)) (written x)) k = obj_get (meta x) k" for k
  proof (cases "k \<in> fst ` set (own x)")
    case True
    with assms(2) have "obj_get (meta x) k = None" by (auto simp: obj_get_None_iff)
    with True show ?thesis by (simp add: g)
  next
    case False
    then have "map_of (own x) k = None" by (simp add: map_of_eq_None_iff)
    with False show ?thesis by (auto simp: g get_write assms(1) split: option.split)
  qed
qed

end

record list_changed =
  lc_metadata :: "json obj"

definition list_changed_new :: list_changed where
  "list_changed_new = \<lparr>lc_metadata = []\<rparr>"

definition list_changed_with_metadata :: "string \<Rightarrow> json \<Rightarrow> list_changed \<Rightarrow> list_changed" where
  "list_changed_with_metadata k v n = n\<lparr>lc_metadata := obj_insert k v (lc_metadata n)\<rparr>"

definition list_changed_write :: "list_changed \<Rightarrow> json obj" where
  "list_changed_write n = to_obj (lc_metadata n)"

interpretation lc: flattened "\<lambda>_. []" lc_metadata list_changed_with_metadata list_changed_write
  by unfold_locales (simp_all add: list_changed_write_def list_changed_with_metadata_def)

record ResourceUpdatedNotification =
  ru_uri :: string
  ru_metadata :: "json obj"

definition ResourceUpdatedNotification_new :: "string \<Rightarrow> ResourceUpdatedNotification" where
  "ResourceUpdatedNotification_new uri = \<lparr>ru_uri = uri, ru_metadata = []\<rparr>"

definition ru_with_metadata :: "string \<Rightarrow> json \<Rightarrow> ResourceUpdatedNotification \<Rightarrow> ResourceUpdatedNotification" where
  "ru_with_metadata k v n = n\<lparr>ru_metadata := obj_insert k v (ru_metadata n)\<rparr>"

definition ru_entries :: "ResourceUpdatedNotification \<Rightarrow> (string \<times> json) list" where
  "ru_entries n = [(''uri'', String (ru_uri n))]"

definition resource_updated_write :: "ResourceUpdatedNotification \<Rightarrow> json obj" where
  "resource_updated_write n = to_obj (ru_entries n @ ru_metadata n)"

definition resource_updated_read :: "json obj \<Rightarrow> ResourceUpdatedNotification option" where
  "resource_updated_read m = (case obj_get m ''uri'' of
     Some (String u) \<Rightarrow> Some \<lparr>ru_uri = u, ru_metadata = obj_remove ''uri'' m\<rparr>
   | _ \<Rightarrow> None)"

interpretation ru: flattened ru_entries ru_metadata ru_with_metadata resource_updated_write
  by unfold_locales (simp_all add: resource_updated_write_def ru_with_metadata_def ru_entries_def)

section \<open>Sampling\<close>

datatype SamplingContent = SamplingText string | SamplingImage string string

definition sampling_content_write :: "SamplingContent \<Rightarrow> json" where
  "sampling_content_write c = Object (to_obj (case c of
     SamplingText t \<Rightarrow> [(''type'', String ''text''), (''text'', String t)]
   | SamplingImage d m \<Rightarrow> [(''type'', String ''image''), (''data'', String d), (''mimeType'', String m)]))"

record SamplingMessage =
  sampling_role :: MessageRole
  sampling_content :: SamplingContent

definition sampling_system :: "string \<Rightarrow> SamplingMessage" where
  "sampling_system content = \<lparr>sampling_role = System, sampling_content = SamplingText content\<rparr>"

definition sampling_user :: "string \<Rightarrow> SamplingMessage" where
  "sampling_user content = \<lparr>sampling_role = User, sampling_content = SamplingText content\<rparr>"

definition sampling_assistant :: "string \<Rightarrow> SamplingMessage" where
  "sampling_assistant content = \<lparr>sampling_role = Assistant, sampling_content = SamplingText content\<rparr>"

definition sampling_message_write :: "SamplingMessage \<Rightarrow> json" where
  "sampling_message_write m = Object (to_obj [(''role'', role_write (sampling_role m)),
     (''content'', sampling_content_write (sampling_content m))])"

text \<open>The three priority scales have the same levels and names.\<close>

datatype Priority = Low | Medium | High

primrec priority_write :: "Priority \<Rightarrow> json" where
  "priority_write Low = String ''low''"
| "priority_write Medium = String ''medium''"
| "priority_write High = String ''high''"

record ModelPreferences =
  models :: "string list option"
  cost_priority :: "Priority option"
  speed_priority :: "Priority option"
  intelligence_priority :: "Priority option"

definition ModelPreferences_new :: ModelPreferences where
  "ModelPreferences_new = \<lparr>models = None, cost_priority = None, speed_priority = None,
     intelligence_priority = None\<rparr>"

definition with_models :: "string list \<Rightarrow> ModelPreferences \<Rightarrow> ModelPreferences" where
  "with_models ms p = p\<lparr>models := Some ms\<rparr>"

definition with_cost_priority :: "Priority \<Rightarrow> ModelPreferences \<Rightarrow> ModelPreferences" where
  "with_cost_priority c p = p\<lparr>cost_priority := Some c\<rparr>"

definition with_speed_priority :: "Priority \<Rightarrow> ModelPreferences \<Rightarrow> ModelPreferences" where
  "with_speed_priority c p = p\<lparr>speed_priority := Some c\<rparr>"

definition with_intelligence_priority :: "Priority \<Rightarrow> ModelPreferences \<Rightarrow> ModelPreferences" where
  "with_intelligence_priority c p = p\<lparr>intelligence_priority := Some c\<rparr>"

definition preferences_write :: "ModelPreferences \<Rightarrow> json" where
  "preferences_write p = Object (to_obj (
     opt_entry ''models'' (\<lambda>ms. Array (map String ms)) (models p) @
     opt_entry ''cost_priority'' priority_write (cost_priority p) @
     opt_entry ''speed_priority'' priority_write (speed_priority p) @
     opt_entry ''intelligence_priority'' priority_write (intelligence_priority p)))"

record CompletionArgument =
  ca_messages :: "SamplingMessage list"
  ca_model_preferences :: "ModelPreferences option"
  ca_system_prompt :: "string option"
  ca_include_context :: "string option"
  ca_temperature :: "u64 option"
  ca_max_tokens :: "int option"
  ca_stop_sequences :: "string list option"
  ca_metadata :: "json obj"

definition CompletionArgument_new :: "SamplingMessage list \<Rightarrow> CompletionArgument" where
  "CompletionArgument_new ms = \<lparr>ca_messages = ms, ca_model_preferences = None, ca_system_prompt = None,
     ca_include_context = None, ca_temperature = None, ca_max_tokens = None,
     ca_stop_sequences = None, ca_metadata = []\<rparr>"

definition ca_with_model_preferences :: "ModelPreferences \<Rightarrow> CompletionArgument \<Rightarrow> CompletionArgument" where
  "ca_with_model_preferences p a = a\<lparr>ca_model_preferences := Some p\<rparr>"

definition ca_with_system_prompt :: "string \<Rightarrow> CompletionArgument \<Rightarrow> CompletionArgument" where
  "ca_with_system_prompt p a = a\<lparr>ca_system_prompt := Some p\<rparr>"

definition ca_with_temperature :: "u64 \<Rightarrow> CompletionArgument \<Rightarrow> CompletionArgument" where
  "ca_with_temperature t a = a\<lparr>ca_temperature := Some t\<rparr>"

definition ca_with_max_tokens :: "int \<Rightarrow> CompletionArgument \<Rightarrow> CompletionArgument" where
  "ca_with_max_tokens n a = a\<lparr>ca_max_tokens := Some n\<rparr>"

definition ca_with_stop_sequences :: "string list \<Rightarrow> CompletionArgument \<Rightarrow> CompletionArgument" where
  "ca_with_stop_sequences ss a = a\<lparr>ca_stop_sequences := Some ss\<rparr>"

definition ca_with_metadata :: "string \<Rightarrow> json \<Rightarrow> CompletionArgument \<Rightarrow> CompletionArgument" where
  "ca_with_metadata k v a = a\<lparr>ca_metadata := obj_insert k v (ca_metadata a)\<rparr>"

text \<open>A float that is not finite has no JSON form and is written as \<open>null\<close>.\<close>

definition finite_bits :: "u64 \<Rightarrow> bool" where
  "finite_bits b \<longleftrightarrow> drop_bit 52 b mod 2048 \<noteq> 2047"

definition f64_write :: "u64 \<Rightarrow> json" where
  "f64_write b = (if finite_bits b then Number (Float b) else Null)"

definition ca_entries :: "CompletionArgument \<Rightarrow> (string \<times> json) list" where
  "ca_entries a =
     [(''messages'', Array (map sampling_message_write (ca_messages a)))] @
     opt_entry ''model_preferences'' preferences_write (ca_model_preferences a) @
     opt_entry ''system_prompt'' String (ca_system_prompt a) @
     opt_entry ''include_context'' String (ca_include_context a) @
     opt_entry ''temperature'' f64_write (ca_temperature a) @
     opt_entry ''max_tokens'' (\<lambda>n. Number (number_from_i64 n)) (ca_max_tokens a) @
     opt_entry ''stop_sequences'' (\<lambda>ss. Array (map String ss)) (ca_stop_sequences a)"

definition completion_write :: "CompletionArgument \<Rightarrow> json obj" where
  "completion_write a = to_obj (ca_entries a @ ca_metadata a)"

definition complete_request_write :: "CompletionArgument \<Rightarrow> json obj" where
  "complete_request_write a = to_obj [(''argument'', Object (completion_write a))]"

lemma opt_entry_keys: "map fst (opt_entry k f x) = (if x = None then [] else [k])"
  by (cases x) auto

interpretation ca: flattened ca_entries ca_metadata ca_with_metadata completion_write
  by unfold_locales
    (simp_all add: completion_write_def ca_with_metadata_def ca_entries_def opt_entry_keys)

datatype StopReason = EndTurn | MaxTokens | StopSequence | ToolUse

primrec stop_reason_write :: "StopReason \<Rightarrow> json" where
  "stop_reason_write EndTurn = String ''end_turn''"
| "stop_reason_write MaxTokens = String ''max_tokens''"
| "stop_reason_write StopSequence = String ''stop_sequence''"
| "stop_reason_write ToolUse = String ''tool_use''"

record CompleteResponse =
  completion_text :: string
  completion_model :: "string option"
  completion_stop_reason :: "StopReason option"

definition complete_response_write :: "CompleteResponse \<Rightarrow> json obj" where
  "complete_response_write r = to_obj (
     (''completion'', Object (to_obj [(''type'', String ''text''), (''text'', String (completion_text r))])) #
     opt_entry ''model'' String (completion_model r) @
     opt_entry ''stop_reason'' stop_reason_write (completion_stop_reason r))"

section \<open>Claims\<close>

text \<open>C20 (a tool is read exactly as specified). The reader returns a tool if and only if the
  name and the description occur once, as strings, the other fields at most once under all
  their names together, a read-only flag being a boolean, and then the schema is the value of
  the first of its four names in the document. Everything else is an error.\<close>

theorem tool_reader_exact: "visit_map es = Inr t \<longleftrightarrow> reads_tool es t"
  by (rule visit_map_iff)

text \<open>Tools survive writing and reading. What is written for a tool reads back as that
  tool, both from the text, whose entries are in declaration order, and from the \<open>Value\<close>,
  whose entries are sorted; a field whose value is \<open>null\<close> is kept, too.\<close>

theorem tool_round_trip:
  "visit_map (tool_entries t) = Inr t \<and> tool_deserialize (tool_serialize t) = Inr t"
  by (simp add: tool_deserialize_serialize visit_map_iff reads_tool_entries)

text \<open>Order matters for the schema only. Reordering the entries of a tool document that has
  at most one schema does not change what is read.\<close>

theorem tool_order:
  assumes "mset es = mset es'" and "length (field_values {FInputSchema, FParametersSchema} es) \<le> 1"
  shows "visit_map es = Inr t \<longleftrightarrow> visit_map es' = Inr t"
  using reads_tool_mset [OF assms] by (simp add: visit_map_iff)

theorem tool_order_witness:
  "visit_map [(''name'', String ''t''), (''description'', String ''d'')] = Inr (Tool_new ''t'' ''d'') \<longleftrightarrow>
   visit_map [(''description'', String ''d''), (''name'', String ''t'')] = Inr (Tool_new ''t'' ''d'')"
  by (rule tool_order) (simp_all add: field_of_def)

definition two_schemas :: "json \<Rightarrow> json \<Rightarrow> (string \<times> json) list" where
  "two_schemas a b = [(''name'', String ''t''), (''description'', String ''d''),
     (''parametersSchema'', a), (''inputSchema'', b)]"

text \<open>Two schemas, two tools. A document with \<open>parametersSchema\<close> before \<open>inputSchema\<close> read
  from its text has the first schema; read from the \<open>Value\<close> of the same text, whose entries are
  sorted by name, it has the second.\<close>

theorem tool_routes_disagree:
  "visit_map (two_schemas a b) = Inr (with_input_schema a (Tool_new ''t'' ''d'')) \<and>
   tool_deserialize (Object (to_obj (two_schemas a b))) = Inr (with_input_schema b (Tool_new ''t'' ''d''))"
proof -
  have "to_obj (two_schemas a b) = [(''description'', String ''d''), (''inputSchema'', b),
      (''name'', String ''t''), (''parametersSchema'', a)]"
    by (simp add: to_obj_def two_schemas_def less_char_def)
  then show ?thesis
    by (simp add: two_schemas_def visit_map_iff reads_tool_def field_of_def at_most_one_def as_str_def
        earliest_def tool_deserialize_def with_input_schema_def Tool_new_def)
qed


text \<open>The response to a listing survives. What is written for a page of tools reads back as
  that page.\<close>

theorem list_tools_round_trip: "list_tools_read (list_tools_write r) = Some r"
proof -
  have t: "read_all tool_deserialize (map tool_serialize (tools r)) = Inr (tools r)"
    by (rule read_all_map) (rule tool_deserialize_serialize)
  have "opt_value as_str (map_option String (next_cursor r)) = Some (next_cursor r)"
    by (rule opt_value_map_option) (simp_all add: as_str_def)
  then show ?thesis
    by (cases "next_cursor r") (simp_all add: list_tools_read_def list_tools_write_def to_obj_entry t)
qed

text \<open>Arguments that are \<open>null\<close> get lost. A call reads back as it was written if and only if
  its arguments are not the value \<open>null\<close>, which is read as no arguments.\<close>

theorem call_tool_round_trip:
  "call_tool_read (call_tool_write r) = Some r \<longleftrightarrow> call_arguments r \<noteq> Some Null"
  by (cases r; cases "call_arguments r")
    (auto simp: call_tool_read_def call_tool_write_def to_obj_entry opt_value_def split: json.splits)

text \<open>The protocol's own names are not read. A page cursor sent as \<open>nextCursor\<close> and an
  error flag sent as \<open>isError\<close>, the names the protocol uses, make no difference to what the
  client reads.\<close>

theorem protocol_names_ignored:
  "list_tools_read (obj_insert ''nextCursor'' v m) = list_tools_read m \<and>
   call_response_read rd (obj_insert ''isError'' v m) = call_response_read rd m"
proof -
  have "obj_get (obj_insert ''nextCursor'' v m) ''tools'' = obj_get m ''tools''"
    "obj_get (obj_insert ''nextCursor'' v m) ''next_cursor'' = obj_get m ''next_cursor''"
    "obj_get (obj_insert ''isError'' v m) ''content'' = obj_get m ''content''"
    "obj_get (obj_insert ''isError'' v m) ''is_error'' = obj_get m ''is_error''"
    by (simp_all add: obj_get_insert)
  note kept = this
  show ?thesis unfolding list_tools_read_def call_response_read_def kept by simp
qed

text \<open>Log levels are ordered by severity. The list of all levels is complete and strictly
  increasing, each level is more verbose than exactly those after it, and no two levels print
  alike.\<close>

theorem log_levels_ordered:
  "set log_levels = UNIV \<and> sorted_wrt is_more_verbose_than log_levels \<and>
   (is_more_verbose_than a b \<longleftrightarrow> is_less_verbose_than b a) \<and>
   (log_level_write a = log_level_write b \<longleftrightarrow> a = b)"
proof -
  have "l \<in> set log_levels" for l by (cases l) (simp_all add: log_levels_def)
  then have "set log_levels = UNIV" by blast
  moreover have "sorted_wrt is_more_verbose_than log_levels"
    by (simp add: log_levels_def is_more_verbose_than_def less_McpLogLevel_def)
  ultimately show ?thesis
    by (cases a; cases b) (simp_all add: is_more_verbose_than_def is_less_verbose_than_def log_level_write_def)
qed


text \<open>Resources survive writing and reading. What is written for a resource reads back as
  that resource.\<close>

theorem resource_round_trip: "resource_read (resource_write r) = Some r"
proof -
  let ?w = "resource_write r"
  have "opt_value as_str (map_option String x) = Some x" for x
    by (rule opt_value_map_option) (simp_all add: as_str_def)
  moreover have "obj_get ?w ''uri'' = Some (String (resource_uri r))"
    "obj_get ?w ''name'' = Some (String (resource_name r))"
    "obj_get ?w ''description'' = map_option String (resource_description r)"
    "obj_get ?w ''mime_type'' = map_option String (resource_mime_type r)"
    by (simp_all add: resource_write_def to_obj_entry opt_entry_keys map_of_opt_entry map_add_def
        split: option.split)
  ultimately show ?thesis by (simp add: resource_read_def)
qed

text \<open>Metadata of an update notification. A notification reads back as it was written when
  its metadata is a map without the key \<open>uri\<close>; metadata under that key replaces the address of
  the resource in what is sent.\<close>

theorem update_metadata:
  assumes "obj_wf (ru_metadata n)"
  shows "obj_get (resource_updated_write (ru_with_metadata ''uri'' v n)) ''uri'' = Some v \<and>
    (obj_get (ru_metadata n) ''uri'' = None \<longrightarrow>
      resource_updated_read (resource_updated_write n) = Some n)"
proof -
  have rt: "resource_updated_read (resource_updated_write n) = Some n" if u: "obj_get (ru_metadata n) ''uri'' = None"
  proof -
    have "obj_remove ''uri'' (resource_updated_write n) = ru_metadata n"
      using ru.metadata_back [OF assms] u by (simp add: ru_entries_def obj_get_None_iff)
    moreover have "obj_get (resource_updated_write n) ''uri'' = Some (String (ru_uri n))"
      using u by (simp add: ru.get_write [OF assms] ru_entries_def)
    ultimately show ?thesis by (simp add: resource_updated_read_def)
  qed
  then show ?thesis using ru.get_write_put [OF assms] by simp
qed

theorem update_metadata_witness:
  "obj_get (resource_updated_write (ru_with_metadata ''uri'' Null (ResourceUpdatedNotification_new ''a''))) ''uri'' = Some Null \<and>
   resource_updated_read (resource_updated_write (ResourceUpdatedNotification_new ''a'')) =
     Some (ResourceUpdatedNotification_new ''a'')"
  using update_metadata [of "ResourceUpdatedNotification_new ''a''" Null]
  by (simp add: ResourceUpdatedNotification_new_def obj_wf_def obj_get_def)

end
