(* ===== verification/Mcp_Server.thy ===== *)
theory Mcp_Server
  imports Client Ipc_Server
begin

text \<open>
  The server that the monitor offers to MCP clients (\<open>acdp-tui/src/acdp_server.rs\<close>): the shared
  state with its metrics, the listener that admits TCP clients, and the proxy of one client
  (\<open>client_proxy.rs\<close>). The table of clients is a map from identifiers; counters are \<open>u64\<close> and
  wrap as in a release build; instants are nanoseconds. Clock readings, fresh identifiers and the
  answers of sockets and backends are arguments. \<open>update_tx\<close> holds what was sent to the user
  interface, when it listens.
\<close>

section \<open>State\<close>

record ClientConnection =
  cc_id :: string
  cc_connected_at :: nat
  cc_total_requests :: u64
  cc_total_responses :: u64
  cc_last_request_at :: "nat option"
  cc_last_response_at :: "nat option"
  cc_bytes_sent :: u64
  cc_bytes_received :: u64

definition ClientConnection_new :: "string \<Rightarrow> nat \<Rightarrow> ClientConnection" where
  "ClientConnection_new cid now = \<lparr>cc_id = cid, cc_connected_at = now, cc_total_requests = 0,
     cc_total_responses = 0, cc_last_request_at = None, cc_last_response_at = None,
     cc_bytes_sent = 0, cc_bytes_received = 0\<rparr>"

definition cc_duration :: "nat \<Rightarrow> ClientConnection \<Rightarrow> duration" where
  "cc_duration now c = now - cc_connected_at c"

definition cc_is_healthy :: "nat \<Rightarrow> u64 \<Rightarrow> ClientConnection \<Rightarrow> bool" where
  "cc_is_healthy now timeout_secs c =
     (let timeout = unat timeout_secs * 1000000000;
          activity = (case cc_last_request_at c of Some t \<Rightarrow> Some t | None \<Rightarrow> cc_last_response_at c)
      in case activity of
           Some t \<Rightarrow> now - t < timeout
         | None \<Rightarrow> now - cc_connected_at c < timeout)"

datatype ServerHealth = Healthy | Degraded | Unhealthy

record ServerMetrics =
  sm_total_connections :: u64
  sm_active_connections :: nat
  sm_total_requests :: u64
  sm_total_responses :: u64
  sm_total_errors :: u64
  sm_requests_per_second :: fp
  sm_average_latency_ms :: fp
  sm_bytes_sent :: u64
  sm_bytes_received :: u64
  sm_uptime_seconds :: u64
  sm_peak_rps :: fp
  sm_ema_latency_ms :: fp
  sm_total_messages :: u64

definition ServerMetrics_default :: ServerMetrics where
  "ServerMetrics_default = \<lparr>sm_total_connections = 0, sm_active_connections = 0,
     sm_total_requests = 0, sm_total_responses = 0, sm_total_errors = 0,
     sm_requests_per_second = Fin False 0, sm_average_latency_ms = Fin False 0,
     sm_bytes_sent = 0, sm_bytes_received = 0, sm_uptime_seconds = 0,
     sm_peak_rps = Fin False 0, sm_ema_latency_ms = Fin False 0, sm_total_messages = 0\<rparr>"

datatype ClientUpdate =
    ClientJoined string string
  | ClientLeft string
  | RequestSent string nat
  | ResponseReceived string nat
  | BackendFailure string string
  | BackendRestart string nat
  | MetricsUpdate ServerMetrics

record AppStateInner =
  as_clients :: "ClientConnection obj"
  as_update_tx :: "ClientUpdate list option"
  as_backend_command :: string
  as_backend_url :: "string option"
  as_backend_transport :: "string option"
  as_max_clients :: nat
  as_connection_timeout_secs :: u64
  as_auto_restart :: bool
  as_metrics :: ServerMetrics
  as_started_at :: nat
  as_last_metrics_update :: nat
  as_last_request_count :: u64

definition AppStateInner_default :: "nat \<Rightarrow> AppStateInner" where
  "AppStateInner_default now = \<lparr>as_clients = [], as_update_tx = None, as_backend_command = [],
     as_backend_url = None, as_backend_transport = None, as_max_clients = 100,
     as_connection_timeout_secs = 300, as_auto_restart = False, as_metrics = ServerMetrics_default,
     as_started_at = now, as_last_metrics_update = now, as_last_request_count = 0\<rparr>"

definition tell_ui :: "ClientUpdate \<Rightarrow> AppStateInner \<Rightarrow> AppStateInner" where
  "tell_ui u s = s\<lparr>as_update_tx := map_option (\<lambda>sent. sent @ [u]) (as_update_tx s)\<rparr>"

section \<open>Metrics and health\<close>

definition rate :: "nat \<Rightarrow> nat \<Rightarrow> fp" where
  "rate n d = fp_of_rat binary64 False (of_nat n / of_nat d)"

definition error_rate :: "ServerMetrics \<Rightarrow> fp" where
  "error_rate m =
     (if sm_total_requests m > 0
      then fp_div binary64 (fp_of_nat binary64 (unat (sm_total_errors m))) (fp_of_nat binary64 (unat (sm_total_requests m)))
      else Fin False 0)"

definition health_of :: "fp \<Rightarrow> nat \<Rightarrow> nat \<Rightarrow> ServerHealth" where
  "health_of err active max_clients =
     (if fp_lt (rate 1 2) err \<or> max_clients \<le> active then Unhealthy
      else if fp_lt (rate 1 10) err \<or>
           fp_lt (fp_mul binary64 (fp_of_nat binary64 max_clients) (rate 8 10)) (fp_of_nat binary64 active)
      then Degraded
      else Healthy)"

definition health :: "AppStateInner \<Rightarrow> ServerHealth" where
  "health s = health_of (error_rate (as_metrics s)) (length (as_clients s)) (as_max_clients s)"

definition smoothed_rps :: "fp \<Rightarrow> fp \<Rightarrow> fp" where
  "smoothed_rps current old =
     fp_add binary64 (fp_mul binary64 (rate 3 10) current)
       (fp_mul binary64 (fp_sub binary64 (rate 1 1) (rate 3 10)) old)"

definition update_rps :: "nat \<Rightarrow> AppStateInner \<Rightarrow> AppStateInner" where
  "update_rps now s =
     (let elapsed = as_secs_f64 (now - as_last_metrics_update s); m = as_metrics s in
      if fp_lt (Fin False 0) elapsed then
        let since = saturating_sub (sm_total_requests m) (as_last_request_count s);
            rps = smoothed_rps (fp_div binary64 (fp_of_nat binary64 (unat since)) elapsed) (sm_requests_per_second m)
        in s\<lparr>as_metrics := m\<lparr>sm_requests_per_second := rps,
                sm_peak_rps := (if fp_lt (sm_peak_rps m) rps then rps else sm_peak_rps m)\<rparr>,
             as_last_metrics_update := now,
             as_last_request_count := sm_total_requests m\<rparr>
      else s)"

definition update_metrics :: "nat \<Rightarrow> nat \<Rightarrow> AppStateInner \<Rightarrow> ServerHealth \<times> AppStateInner" where
  "update_metrics now0 now s =
     (let s = s\<lparr>as_metrics := (as_metrics s)\<lparr>sm_active_connections := length (as_clients s),
            sm_uptime_seconds := of_nat (as_secs (now0 - as_started_at s)),
            sm_total_messages := sm_total_requests (as_metrics s) + sm_total_responses (as_metrics s)\<rparr>\<rparr>;
          s = update_rps now s
      in (health_of (error_rate (as_metrics s)) (sm_active_connections (as_metrics s)) (as_max_clients s), s))"

definition metrics_tick :: "nat \<Rightarrow> nat \<Rightarrow> AppStateInner \<Rightarrow> AppStateInner" where
  "metrics_tick now0 now s =
     (let s = snd (update_metrics now0 now s) in tell_ui (MetricsUpdate (as_metrics s)) s)"

section \<open>Clients come and go\<close>

definition register_client :: "string \<Rightarrow> nat \<Rightarrow> string \<Rightarrow> AppStateInner \<Rightarrow> AppStateInner" where
  "register_client cid now addr s =
     (let cs = obj_insert cid (ClientConnection_new cid now) (as_clients s) in
      tell_ui (ClientJoined cid addr) (s\<lparr>as_clients := cs,
        as_metrics := (as_metrics s)\<lparr>sm_total_connections := sm_total_connections (as_metrics s) + 1,
          sm_active_connections := length cs\<rparr>\<rparr>))"

definition unregister_client :: "string \<Rightarrow> AppStateInner \<Rightarrow> AppStateInner" where
  "unregister_client cid s =
     tell_ui (ClientLeft cid) (case obj_get (as_clients s) cid of
        None \<Rightarrow> s
      | Some conn \<Rightarrow>
          let cs = obj_remove cid (as_clients s); m = as_metrics s in
          s\<lparr>as_clients := cs,
            as_metrics := m\<lparr>sm_active_connections := length cs,
              sm_bytes_sent := sm_bytes_sent m + cc_bytes_sent conn,
              sm_bytes_received := sm_bytes_received m + cc_bytes_received conn\<rparr>\<rparr>)"

text \<open>\<open>limit_reached\<close> is what the accept loop asks before it registers a client, in an earlier
  critical section.\<close>

definition limit_reached :: "AppStateInner \<Rightarrow> bool" where
  "limit_reached s \<longleftrightarrow> as_max_clients s \<le> length (as_clients s)"

definition update_client :: "string \<Rightarrow> (ClientConnection \<Rightarrow> ClientConnection) \<Rightarrow> AppStateInner \<Rightarrow> AppStateInner" where
  "update_client cid f s = (case obj_get (as_clients s) cid of
     None \<Rightarrow> s
   | Some conn \<Rightarrow> s\<lparr>as_clients := obj_insert cid (f conn) (as_clients s)\<rparr>)"

definition count_sent :: "string \<Rightarrow> nat \<Rightarrow> nat \<Rightarrow> AppStateInner \<Rightarrow> AppStateInner" where
  "count_sent cid bytes now s =
     (let s = update_client cid (\<lambda>conn. conn\<lparr>cc_total_requests := cc_total_requests conn + 1,
            cc_last_request_at := Some now, cc_bytes_sent := cc_bytes_sent conn + of_nat bytes\<rparr>) s;
          m = as_metrics s
      in tell_ui (RequestSent cid bytes) (s\<lparr>as_metrics := m\<lparr>sm_total_requests := sm_total_requests m + 1,
           sm_bytes_sent := sm_bytes_sent m + of_nat bytes\<rparr>\<rparr>))"

definition count_received :: "string \<Rightarrow> nat \<Rightarrow> nat \<Rightarrow> AppStateInner \<Rightarrow> AppStateInner" where
  "count_received cid bytes now s =
     (let s = update_client cid (\<lambda>conn. conn\<lparr>cc_total_responses := cc_total_responses conn + 1,
            cc_last_response_at := Some now, cc_bytes_received := cc_bytes_received conn + of_nat bytes\<rparr>) s;
          m = as_metrics s
      in tell_ui (ResponseReceived cid bytes) (s\<lparr>as_metrics := m\<lparr>sm_total_responses := sm_total_responses m + 1,
           sm_bytes_received := sm_bytes_received m + of_nat bytes\<rparr>\<rparr>))"

section \<open>The proxy of one client\<close>

record msg_ext =
  mx_parse :: "string \<Rightarrow> JsonRpcMessage option"
  mx_show :: "JsonRpcMessage \<Rightarrow> string option"

record ('i, 'b) ClientProxy =
  cp_id :: string
  cp_manager :: "'i InterceptorManager"
  cp_backend :: 'b
  cp_written :: "string list"
  cp_forwarded :: "JsonRpcMessage list"
  cp_state :: AppStateInner

record ('i, 'e, 'err, 'b) mediation_env =
  pe_ops :: "('i, 'e, 'err) interceptor_ops"
  pe_f64 :: f64_ops
  pe_msg :: msg_ext
  pe_send :: "JsonRpcMessage \<Rightarrow> 'b \<Rightarrow> bool \<times> 'b"

definition mediate ::
  "('i, 'e, 'err, 'b) mediation_env \<Rightarrow> 'e icall \<Rightarrow> MessageDirection \<Rightarrow> JsonRpcMessage \<Rightarrow> 'i InterceptorManager
     \<Rightarrow> (('err + InterceptionResult) \<times> 'i InterceptorManager) rust" where
  "mediate E k d m M = process_message (pe_ops E) (pe_f64 E) (ic_env k) (ic_now k) (ic_elapsed k) M m d"

text \<open>The two handlers return whether they succeeded. \<open>cp_forwarded\<close> and \<open>cp_written\<close> record
  what went to the backend and to the client.\<close>

definition handle_client_message ::
  "('i, 'e, 'err, 'b) mediation_env \<Rightarrow> 'e icall \<Rightarrow> nat \<Rightarrow> string \<Rightarrow> ('i, 'b) ClientProxy
     \<Rightarrow> (bool \<times> ('i, 'b) ClientProxy) rust" where
  "handle_client_message E k now line p =
     (let trimmed = trim line in
      if trimmed = [] then Done (True, p)
      else case mx_parse (pe_msg E) trimmed of
        None \<Rightarrow> Done (False, p)
      | Some message \<Rightarrow>
         (case mediate E k Outgoing message (cp_manager p) of
            Panic \<Rightarrow> Panic
          | Done (Inl _, M) \<Rightarrow> Done (False, p\<lparr>cp_manager := M\<rparr>)
          | Done (Inr result, M) \<Rightarrow>
             (let p = p\<lparr>cp_manager := M\<rparr> in
              if ir_block result then Done (True, p)
              else case pe_send E (ir_message result) (cp_backend p) of
                (False, b) \<Rightarrow> Done (False, p\<lparr>cp_backend := b\<rparr>)
              | (True, b) \<Rightarrow>
                 (let p = p\<lparr>cp_backend := b, cp_forwarded := cp_forwarded p @ [ir_message result]\<rparr> in
                  case mx_show (pe_msg E) (ir_message result) of
                    None \<Rightarrow> Done (False, p)
                  | Some s \<Rightarrow> Done (True, p\<lparr>cp_state := count_sent (cp_id p) (length s) now (cp_state p)\<rparr>)))))"

definition handle_backend_message ::
  "('i, 'e, 'err, 'b) mediation_env \<Rightarrow> 'e icall \<Rightarrow> nat \<Rightarrow> bool \<Rightarrow> string \<Rightarrow> ('i, 'b) ClientProxy
     \<Rightarrow> (bool \<times> ('i, 'b) ClientProxy) rust" where
  "handle_backend_message E k now writable line p =
     (let trimmed = trim line in
      if trimmed = [] then Done (True, p)
      else case mx_parse (pe_msg E) trimmed of
        None \<Rightarrow> Done (False, p)
      | Some message \<Rightarrow>
         (case mediate E k Incoming message (cp_manager p) of
            Panic \<Rightarrow> Panic
          | Done (Inl _, M) \<Rightarrow> Done (False, p\<lparr>cp_manager := M\<rparr>)
          | Done (Inr result, M) \<Rightarrow>
             (let p = p\<lparr>cp_manager := M\<rparr> in
              if ir_block result then Done (True, p)
              else case mx_show (pe_msg E) (ir_message result) of
                None \<Rightarrow> Done (False, p)
              | Some s \<Rightarrow>
                  if writable
                  then Done (True, p\<lparr>cp_written := cp_written p @ [s],
                         cp_state := count_received (cp_id p) (length s) now (cp_state p)\<rparr>)
                  else Done (False, p))))"

datatype 'e proxy_event =
    ClientEof
  | ClientLine "'e icall" nat string
  | ClientFailed
  | BackendMessage "'e icall" nat bool JsonRpcMessage
  | BackendClosed
  | BackendFailed string

definition not_implemented :: "string \<Rightarrow> bool" where
  "not_implemented e \<longleftrightarrow> str_contains e ''HTTP-SSE receive not implemented''
     \<or> str_contains e ''HTTP-Stream receive not implemented''"

text \<open>One turn of the loop: \<open>Some ok\<close> ends it with success or an error. A restart is announced
  and then refused with an error, so the count of restarts is 0 whenever it is compared with its
  maximum.\<close>

definition ended :: "bool \<times> 'p \<Rightarrow> bool option \<times> 'p" where
  "ended r = (if fst r then (None, snd r) else (Some False, snd r))"

definition proxy_turn ::
  "('i, 'e, 'err, 'b) mediation_env \<Rightarrow> 'e proxy_event \<Rightarrow> ('i, 'b) ClientProxy
     \<Rightarrow> (bool option \<times> ('i, 'b) ClientProxy) rust" where
  "proxy_turn E ev p = (case ev of
     ClientEof \<Rightarrow> Done (Some True, p)
   | ClientLine k now line \<Rightarrow> map_rust ended (handle_client_message E k now line p)
   | ClientFailed \<Rightarrow> Done (Some False, p)
   | BackendMessage k now w message \<Rightarrow>
      (case mx_show (pe_msg E) message of
         None \<Rightarrow> Done (Some False, p)
       | Some line \<Rightarrow> map_rust ended (handle_backend_message E k now w line p))
   | BackendClosed \<Rightarrow>
       if as_auto_restart (cp_state p)
       then Done (Some False, p\<lparr>cp_state := tell_ui (BackendRestart (cp_id p) 1) (cp_state p)\<rparr>)
       else Done (Some True, p)
   | BackendFailed e \<Rightarrow> if not_implemented e then Done (None, p) else Done (Some False, p))"

fun proxy_loop ::
  "('i, 'e, 'err, 'b) mediation_env \<Rightarrow> 'e proxy_event list \<Rightarrow> ('i, 'b) ClientProxy
     \<Rightarrow> (bool option \<times> ('i, 'b) ClientProxy) rust" where
  "proxy_loop E [] p = Done (None, p)"
| "proxy_loop E (ev # evs) p =
     (case proxy_turn E ev p of
        Panic \<Rightarrow> Panic
      | Done (Some ok, p) \<Rightarrow> Done (Some ok, p)
      | Done (None, p) \<Rightarrow> proxy_loop E evs p)"

definition ClientProxy_new ::
  "string \<Rightarrow> 'i InterceptorManager \<Rightarrow> 'b option \<Rightarrow> AppStateInner \<Rightarrow> ('i, 'b) ClientProxy option" where
  "ClientProxy_new cid M backend s = map_option (\<lambda>b. \<lparr>cp_id = cid, cp_manager = M, cp_backend = b,
     cp_written = [], cp_forwarded = [], cp_state = s\<rparr>) backend"

text \<open>The task of an admitted client: the proxy, then the clean-up on every path. It returns the
  messages forwarded and the new state; without an end event the task is still running.\<close>

definition client_task ::
  "('i, 'e, 'err, 'b) mediation_env \<Rightarrow> string \<Rightarrow> 'i InterceptorManager \<Rightarrow> 'b option \<Rightarrow> 'e proxy_event list
     \<Rightarrow> AppStateInner \<Rightarrow> (bool option \<times> JsonRpcMessage list \<times> string list \<times> AppStateInner) rust" where
  "client_task E cid M backend evs s =
     (case ClientProxy_new cid M backend s of
        None \<Rightarrow> Done (Some False, [], [], unregister_client cid s)
      | Some p \<Rightarrow>
         (case proxy_loop E evs p of
            Panic \<Rightarrow> Panic
          | Done (None, p) \<Rightarrow> Done (None, cp_forwarded p, cp_written p, cp_state p)
          | Done (Some ok, p) \<Rightarrow>
              Done (Some ok, cp_forwarded p, cp_written p, unregister_client cid (cp_state p))))"


section \<open>The listener among the other tasks\<close>

text \<open>Between the check of the limit and the registration (\<open>Admitted\<close>) other tasks may run: clients
  leave, their messages are counted, the metrics tick, and sessions of the HTTP server register
  clients without a check; the third component counts those sessions.\<close>

datatype listener = Accepting | Admitted

inductive srv_reach :: "listener \<times> AppStateInner \<times> nat \<Rightarrow> bool" where
  start: "as_clients s = [] \<Longrightarrow> sm_active_connections (as_metrics s) = 0 \<Longrightarrow> srv_reach (Accepting, s, 0)"
| admit: "srv_reach (Accepting, s, h) \<Longrightarrow> \<not> limit_reached s \<Longrightarrow> srv_reach (Admitted, s, h)"
| enter: "srv_reach (Admitted, s, h) \<Longrightarrow> srv_reach (Accepting, register_client cid now addr s, h)"
| session: "srv_reach (l, s, h) \<Longrightarrow> srv_reach (l, register_client cid now addr s, Suc h)"
| leave: "srv_reach (l, s, h) \<Longrightarrow> srv_reach (l, unregister_client cid s, h)"
| request: "srv_reach (l, s, h) \<Longrightarrow> srv_reach (l, count_sent cid n now s, h)"
| response: "srv_reach (l, s, h) \<Longrightarrow> srv_reach (l, count_received cid n now s, h)"
| tick: "srv_reach (l, s, h) \<Longrightarrow> srv_reach (l, metrics_tick now0 now s, h)"

inductive_cases enter_cases: "srv_reach (Admitted, s, h)"

lemma length_obj_insert:
  "length (obj_insert k v m) \<le> Suc (length m)" "obj_get m k \<noteq> None \<Longrightarrow> obj_wf m \<Longrightarrow> length (obj_insert k v m) = length m"
proof -
  show "length (obj_insert k v m) \<le> Suc (length m)"
    by (induction k v m rule: obj_insert.induct) auto
  show "obj_get m k \<noteq> None \<Longrightarrow> obj_wf m \<Longrightarrow> length (obj_insert k v m) = length m"
    by (induction k v m rule: obj_insert.induct)
      (auto simp: obj_get_def obj_wf_def dest!: map_of_SomeD split: if_splits)
qed

lemma length_obj_remove: "length (obj_remove k m) \<le> length m"
  by (simp add: obj_remove_def)

lemma tell_ui_simps [simp]:
  "as_clients (tell_ui u s) = as_clients s" "as_metrics (tell_ui u s) = as_metrics s"
  "as_max_clients (tell_ui u s) = as_max_clients s" "as_auto_restart (tell_ui u s) = as_auto_restart s"
  by (simp_all add: tell_ui_def)

lemma update_client_simps [simp]:
  "as_metrics (update_client cid f s) = as_metrics s" "as_max_clients (update_client cid f s) = as_max_clients s"
  "as_auto_restart (update_client cid f s) = as_auto_restart s"
  by (simp_all add: update_client_def split: option.split)

lemma update_client_get:
  "obj_get (as_clients (update_client cid f s)) k =
     (if k = cid then map_option f (obj_get (as_clients s) cid) else obj_get (as_clients s) k)"
  by (simp add: update_client_def obj_get_insert split: option.split)

lemma update_client_length:
  "obj_wf (as_clients s) \<Longrightarrow> obj_wf (as_clients (update_client cid f s)) \<and>
     length (as_clients (update_client cid f s)) = length (as_clients s)"
  by (auto simp: update_client_def obj_wf_insert length_obj_insert split: option.split)

lemma update_rps_simps [simp]:
  "as_clients (update_rps now s) = as_clients s" "as_max_clients (update_rps now s) = as_max_clients s"
  "sm_active_connections (as_metrics (update_rps now s)) = sm_active_connections (as_metrics s)"
  by (simp_all add: update_rps_def Let_def)

text \<open>The invariant: the gauge is the number of clients, and admission keeps within the limit up to
  the sessions that were never asked.\<close>

definition srv_ok :: "listener \<times> AppStateInner \<times> nat \<Rightarrow> bool" where
  "srv_ok x = (case x of (l, s, h) \<Rightarrow> obj_wf (as_clients s) \<and>
     sm_active_connections (as_metrics s) = length (as_clients s) \<and>
     (case l of Accepting \<Rightarrow> length (as_clients s) \<le> as_max_clients s + h
              | Admitted \<Rightarrow> length (as_clients s) < as_max_clients s + h))"

lemma register_ok:
  "obj_wf (as_clients s) \<Longrightarrow> (let t = register_client cid now addr s in obj_wf (as_clients t) \<and>
     sm_active_connections (as_metrics t) = length (as_clients t) \<and> as_max_clients t = as_max_clients s \<and>
     length (as_clients t) \<le> Suc (length (as_clients s)))"
  by (simp add: register_client_def Let_def obj_wf_insert length_obj_insert)

lemma unregister_ok:
  "obj_wf (as_clients s) \<Longrightarrow> sm_active_connections (as_metrics s) = length (as_clients s) \<Longrightarrow>
   (let t = unregister_client cid s in obj_wf (as_clients t) \<and>
     sm_active_connections (as_metrics t) = length (as_clients t) \<and> as_max_clients t = as_max_clients s \<and>
     length (as_clients t) \<le> length (as_clients s))"
  by (simp add: unregister_client_def Let_def obj_wf_remove length_obj_remove split: option.split)

lemma srv_reach_ok: "srv_reach x \<Longrightarrow> srv_ok x"
proof (induction rule: srv_reach.induct)
  case (start s)
  then show ?case by (simp add: srv_ok_def obj_wf_def)
next
  case (admit s h)
  then show ?case by (simp add: srv_ok_def limit_reached_def)
next
  case (enter s h cid now addr)
  then show ?case using register_ok [of s cid now addr] by (simp add: srv_ok_def Let_def)
next
  case (session l s h cid now addr)
  then show ?case using register_ok [of s cid now addr] by (simp add: srv_ok_def Let_def split: listener.splits)
next
  case (leave l s h cid)
  then show ?case using unregister_ok [of s cid] by (simp add: srv_ok_def Let_def split: listener.splits)
next
  case (request l s h cid n now)
  then show ?case by (simp add: srv_ok_def count_sent_def Let_def update_client_length split: listener.splits)
next
  case (response l s h cid n now)
  then show ?case by (simp add: srv_ok_def count_received_def Let_def update_client_length split: listener.splits)
next
  case (tick l s h now0 now)
  then show ?case by (simp add: srv_ok_def metrics_tick_def update_metrics_def Let_def split: listener.splits)
qed

section \<open>What a proxy lets through\<close>

definition passed ::
  "('i, 'e, 'err, 'b) mediation_env \<Rightarrow> MessageDirection \<Rightarrow> JsonRpcMessage \<Rightarrow> JsonRpcMessage \<Rightarrow> bool" where
  "passed E d m m' \<longleftrightarrow> (\<exists>(k :: 'e icall) M r M'.
     mediate E k d m M = Done (Inr r, M') \<and> \<not> ir_block r \<and> ir_message r = m')"

lemma passedI: "mediate E k d m M = Done (Inr r, M') \<Longrightarrow> \<not> ir_block r \<Longrightarrow> passed E d m (ir_message r)"
  unfolding passed_def by blast

text \<open>Relaying: a subsequence of the inputs, each answered by one output, in the same order.\<close>

definition relay :: "('a \<Rightarrow> 'b \<Rightarrow> bool) \<Rightarrow> 'a list \<Rightarrow> 'b list \<Rightarrow> bool" where
  "relay R xs ys \<longleftrightarrow> (\<exists>zs. subseq zs xs \<and> list_all2 R zs ys)"

lemma relay_Nil [simp]: "relay R xs []"
  by (auto simp: relay_def)

lemma relay_skip: "relay R xs ys \<Longrightarrow> relay R (x # xs) ys"
  by (auto simp: relay_def intro: subseq_Cons')

lemma relay_take: "R x y \<Longrightarrow> relay R xs ys \<Longrightarrow> relay R (x # xs) (y # ys)"
  unfolding relay_def by (meson list.rel_intros(2) subseq_Cons2)

lemma relay_append: "relay R xs ys \<Longrightarrow> relay R (x # xs) (zs @ ys)"
  if "zs = [] \<or> (\<exists>y. zs = [y] \<and> R x y)"
  using that by (auto intro: relay_skip relay_take)

definition client_lines :: "'e proxy_event list \<Rightarrow> string list" where
  "client_lines evs = concat (map (\<lambda>ev. case ev of ClientLine _ _ line \<Rightarrow> [line] | _ \<Rightarrow> []) evs)"

definition backend_messages :: "'e proxy_event list \<Rightarrow> JsonRpcMessage list" where
  "backend_messages evs = concat (map (\<lambda>ev. case ev of BackendMessage _ _ _ m \<Rightarrow> [m] | _ \<Rightarrow> []) evs)"

definition forwards :: "('i, 'e, 'err, 'b) mediation_env \<Rightarrow> string \<Rightarrow> JsonRpcMessage \<Rightarrow> bool" where
  "forwards E line m \<longleftrightarrow> (\<exists>m0. mx_parse (pe_msg E) (trim line) = Some m0 \<and> passed E Outgoing m0 m)"

definition delivers :: "('i, 'e, 'err, 'b) mediation_env \<Rightarrow> JsonRpcMessage \<Rightarrow> string \<Rightarrow> bool" where
  "delivers E b out \<longleftrightarrow> (\<exists>line m0 m. mx_show (pe_msg E) b = Some line \<and>
     mx_parse (pe_msg E) (trim line) = Some m0 \<and> passed E Incoming m0 m \<and> mx_show (pe_msg E) m = Some out)"

lemma handle_client_message_passes:
  assumes "handle_client_message E k now line p = Done (ok, p')"
  shows "\<exists>ys. cp_forwarded p' = cp_forwarded p @ ys \<and> cp_written p' = cp_written p \<and>
    (ys = [] \<or> (\<exists>m. ys = [m] \<and> forwards E line m))"
  using assms
  by (auto simp: handle_client_message_def Let_def forwards_def intro: passedI
      split: if_splits option.splits rust.splits prod.splits sum.splits bool.splits)

lemma handle_backend_message_passes:
  assumes "handle_backend_message E k now w line p = Done (ok, p')" and "mx_show (pe_msg E) b = Some line"
  shows "\<exists>zs. cp_written p' = cp_written p @ zs \<and> cp_forwarded p' = cp_forwarded p \<and>
    (zs = [] \<or> (\<exists>out. zs = [out] \<and> delivers E b out))"
  using assms
  by (fastforce simp: handle_backend_message_def Let_def delivers_def intro: passedI
      split: if_splits option.splits rust.splits prod.splits sum.splits)

lemma proxy_turn_passes:
  assumes "proxy_turn E ev p = Done (r, p')"
  shows "\<exists>ys zs. cp_forwarded p' = cp_forwarded p @ ys \<and> cp_written p' = cp_written p @ zs \<and>
    (ys = [] \<or> (\<exists>k now line m. ev = ClientLine k now line \<and> ys = [m] \<and> forwards E line m)) \<and>
    (zs = [] \<or> (\<exists>k now w b out. ev = BackendMessage k now w b \<and> zs = [out] \<and> delivers E b out))"
proof (cases ev)
  case (ClientLine k now line)
  then obtain ok where "handle_client_message E k now line p = Done (ok, p')"
    using assms by (auto simp: proxy_turn_def map_rust_Done ended_def split: if_splits)
  from handle_client_message_passes [OF this] ClientLine show ?thesis by auto
next
  case (BackendMessage k now w b)
  show ?thesis
  proof (cases "mx_show (pe_msg E) b")
    case None
    with assms BackendMessage show ?thesis by (auto simp: proxy_turn_def)
  next
    case (Some line)
    then obtain ok where "handle_backend_message E k now w line p = Done (ok, p')"
      using assms BackendMessage by (auto simp: proxy_turn_def map_rust_Done ended_def split: if_splits)
    from handle_backend_message_passes [OF this Some] BackendMessage show ?thesis by auto
  qed
qed (use assms in \<open>auto simp: proxy_turn_def split: if_splits\<close>)

lemma proxy_loop_passes:
  assumes "proxy_loop E evs p = Done (r, p')"
  shows "\<exists>ys zs. cp_forwarded p' = cp_forwarded p @ ys \<and> cp_written p' = cp_written p @ zs \<and>
    relay (forwards E) (client_lines evs) ys \<and> relay (delivers E) (backend_messages evs) zs"
  using assms
proof (induction evs arbitrary: p)
  case Nil
  then show ?case by simp
next
  case (Cons ev evs)
  obtain q p1 where t: "proxy_turn E ev p = Done (q, p1)"
    using Cons.prems by (auto split: rust.splits prod.splits)
  from proxy_turn_passes [OF t] obtain y z where yz:
    "cp_forwarded p1 = cp_forwarded p @ y" "cp_written p1 = cp_written p @ z"
    "y = [] \<or> (\<exists>k now line m. ev = ClientLine k now line \<and> y = [m] \<and> forwards E line m)"
    "z = [] \<or> (\<exists>k now w b out. ev = BackendMessage k now w b \<and> z = [out] \<and> delivers E b out)"
    by blast
  have step: "relay (forwards E) (client_lines (ev # evs)) (y @ ys)" "relay (delivers E) (backend_messages (ev # evs)) (z @ zs)"
    if "relay (forwards E) (client_lines evs) ys" "relay (delivers E) (backend_messages evs) zs" for ys zs
    using yz(3,4) that
    by (cases ev; auto simp: client_lines_def backend_messages_def intro: relay_skip relay_take)+
  show ?case
  proof (cases q)
    case (Some ok)
    with Cons.prems t have "p' = p1" by simp
    with yz step [of "[]" "[]"] show ?thesis by auto
  next
    case None
    with Cons.prems t have "proxy_loop E evs p1 = Done (r, p')" by simp
    from Cons.IH [OF this] obtain ys zs where
      "cp_forwarded p' = cp_forwarded p1 @ ys" "cp_written p' = cp_written p1 @ zs"
      "relay (forwards E) (client_lines evs) ys" "relay (delivers E) (backend_messages evs) zs" by blast
    with yz step [of ys zs] show ?thesis by auto
  qed
qed


section \<open>Accounting\<close>

text \<open>Along a run the totals of the server and the counters of the client grow together.\<close>

definition in_step :: "string \<Rightarrow> AppStateInner \<Rightarrow> u64 \<Rightarrow> u64 \<Rightarrow> bool" where
  "in_step cid s a b \<longleftrightarrow> (\<exists>conn. obj_get (as_clients s) cid = Some conn \<and>
     sm_bytes_sent (as_metrics s) = a + cc_bytes_sent conn \<and>
     sm_bytes_received (as_metrics s) = b + cc_bytes_received conn)"

lemma in_step_count:
  "in_step cid s a b \<Longrightarrow> in_step cid (count_sent cid n now s) a b"
  "in_step cid s a b \<Longrightarrow> in_step cid (count_received cid n now s) a b"
  by (auto simp: in_step_def count_sent_def count_received_def Let_def update_client_get)

lemma in_step_tell [simp]: "in_step cid (tell_ui u s) a b = in_step cid s a b"
  by (simp add: in_step_def)

definition bytes_shown :: "('i, 'e, 'err, 'b) mediation_env \<Rightarrow> JsonRpcMessage \<Rightarrow> u64" where
  "bytes_shown E m = (case mx_show (pe_msg E) m of Some s \<Rightarrow> of_nat (length s) | None \<Rightarrow> 0)"

text \<open>What the client has been charged with: the size of everything forwarded for it and of
  everything written to it.\<close>

definition charged :: "('i, 'e, 'err, 'b) mediation_env \<Rightarrow> ('i, 'b) ClientProxy \<Rightarrow> bool" where
  "charged E p \<longleftrightarrow> (\<exists>conn. obj_get (as_clients (cp_state p)) (cp_id p) = Some conn \<and>
     cc_bytes_sent conn = sum_list (map (bytes_shown E) (cp_forwarded p)) \<and>
     cc_bytes_received conn = sum_list (map (\<lambda>s. of_nat (length s)) (cp_written p)))"

definition books :: "('i, 'e, 'err, 'b) mediation_env \<Rightarrow> string \<Rightarrow> u64 \<Rightarrow> u64 \<Rightarrow> ('i, 'b) ClientProxy \<Rightarrow> bool" where
  "books E cid a b p \<longleftrightarrow> cp_id p = cid \<and> in_step cid (cp_state p) a b \<and> charged E p"

lemma charged_sent:
  assumes "charged E p" and "mx_show (pe_msg E) m = Some s"
  shows "charged E (p\<lparr>cp_manager := M, cp_backend := bk, cp_forwarded := cp_forwarded p @ [m],
    cp_state := count_sent (cp_id p) (length s) now (cp_state p)\<rparr>)"
  using assms by (auto simp: charged_def count_sent_def Let_def update_client_get bytes_shown_def)

lemma charged_received:
  assumes "charged E p"
  shows "charged E (p\<lparr>cp_manager := M, cp_written := cp_written p @ [s],
    cp_state := count_received (cp_id p) (length s) now (cp_state p)\<rparr>)"
  using assms by (auto simp: charged_def count_received_def Let_def update_client_get)

lemma handle_client_message_books:
  assumes "handle_client_message E k now line p = Done (ok, p')" and "books E cid a b p"
  shows "books E cid a b p'"
proof -
  have "cp_id p = cid" "charged E p" "in_step (cp_id p) (cp_state p) a b"
    using assms(2) by (auto simp: books_def)
  note p = this
  have "cp_id p' = cp_id p \<and> in_step (cp_id p) (cp_state p') a b \<and> charged E p'"
    using assms(1) p(2,3) charged_sent [OF p(2)] in_step_count(1) [OF p(3)]
    by (auto simp: handle_client_message_def Let_def charged_def bytes_shown_def
        split: if_splits option.splits rust.splits prod.splits sum.splits bool.splits)
  then show ?thesis using p(1) by (simp add: books_def)
qed


lemma handle_backend_message_books:
  assumes "handle_backend_message E k now w line p = Done (ok, p')" and "books E cid a b p"
  shows "books E cid a b p'"
proof -
  have "cp_id p = cid" "charged E p" "in_step (cp_id p) (cp_state p) a b"
    using assms(2) by (auto simp: books_def)
  note p = this
  have "cp_id p' = cp_id p \<and> in_step (cp_id p) (cp_state p') a b \<and> charged E p'"
    using assms(1) p(2,3) charged_received [OF p(2)] in_step_count(2) [OF p(3)]
    by (auto simp: handle_backend_message_def Let_def charged_def
        split: if_splits option.splits rust.splits prod.splits sum.splits)
  then show ?thesis using p(1) by (simp add: books_def)
qed

lemma books_tell [simp]: "books E cid a b (p\<lparr>cp_state := tell_ui u (cp_state p)\<rparr>) = books E cid a b p"
  by (simp add: books_def charged_def)

lemma proxy_turn_books:
  assumes "proxy_turn E ev p = Done (r, p')" and "books E cid a b p"
  shows "books E cid a b p'"
  using assms
  by (cases ev)
    (auto simp: proxy_turn_def map_rust_Done ended_def
      split: if_splits option.splits
      dest: handle_client_message_books handle_backend_message_books)

lemma proxy_loop_books:
  "proxy_loop E evs p = Done (r, p') \<Longrightarrow> books E cid a b p \<Longrightarrow> books E cid a b p'"
proof (induction evs arbitrary: p)
  case (Cons ev evs)
  then show ?case by (auto split: rust.splits option.splits dest: proxy_turn_books)
qed simp

section \<open>Claims\<close>

text \<open>C12 (the number of clients). In every state the server can reach, whatever the order in which
  its tasks run, the gauge of active connections is the number of clients in the table, and that
  number exceeds the configured maximum by at most the number of HTTP sessions; between the check
  of the limit and the registration there is room for one more.\<close>

theorem connections_bounded:
  assumes "srv_reach (l, s, h)"
  shows "sm_active_connections (as_metrics s) = length (as_clients s) \<and>
    length (as_clients s) \<le> as_max_clients s + h \<and>
    (l = Admitted \<longrightarrow> length (as_clients s) < as_max_clients s + h)"
  using srv_reach_ok [OF assms] by (simp add: srv_ok_def split: listener.splits)

definition one_client :: AppStateInner where
  "one_client = register_client ''a'' 1 ''addr'' (AppStateInner_default 0)"

theorem connections_bounded_witness:
  "sm_active_connections (as_metrics one_client) = length (as_clients one_client) \<and>
   length (as_clients one_client) \<le> as_max_clients one_client + 0"
proof -
  have "srv_reach (Accepting, AppStateInner_default 0, 0)"
    by (rule srv_reach.start) (simp_all add: AppStateInner_default_def ServerMetrics_default_def)
  then have "srv_reach (Admitted, AppStateInner_default 0, 0)"
    by (rule srv_reach.admit) (simp add: AppStateInner_default_def limit_reached_def)
  then have "srv_reach (Accepting, one_client, 0)"
    unfolding one_client_def by (rule srv_reach.enter)
  from connections_bounded [OF this] show ?thesis by simp
qed

text \<open>A client sees and sends only what the interceptors pass. What the task of a client
  forwards to the backend answers a subsequence of the client's lines, in order and each at most
  once, by messages that interceptors of this kind pass for them in some state of theirs (the order
  and the pairing with the lines is the point here); what it writes to the client answers the
  messages of the backend in the same way.\<close>

theorem client_mediated:
  assumes "client_task E cid M backend evs s = Done (r, fwd, wr, s')"
  shows "relay (forwards E) (client_lines evs) fwd \<and> relay (delivers E) (backend_messages evs) wr"
proof (cases backend)
  case None
  with assms show ?thesis by (auto simp: client_task_def ClientProxy_new_def)
next
  case (Some b)
  let ?p = "\<lparr>cp_id = cid, cp_manager = M, cp_backend = b, cp_written = [], cp_forwarded = [], cp_state = s\<rparr>"
  from assms Some obtain q p' where l: "proxy_loop E evs ?p = Done (q, p')"
    and "fwd = cp_forwarded p'" "wr = cp_written p'"
    by (auto simp: client_task_def ClientProxy_new_def split: rust.splits option.splits)
  with proxy_loop_passes [OF l] show ?thesis by auto
qed

text \<open>Traffic is counted twice. When the task of a newly registered client ends, the client is
  no longer in the table, and the totals of the server have grown by twice the size of what was
  forwarded for it and written to it: once message by message, and once more on its
  disconnection.\<close>

theorem traffic_counted_twice:
  assumes "client_task E cid M (Some b) evs (register_client cid now addr s) = Done (Some ok, fwd, wr, s')"
  shows "obj_get (as_clients s') cid = None \<and>
    sm_bytes_sent (as_metrics s') = sm_bytes_sent (as_metrics s) + 2 * sum_list (map (bytes_shown E) fwd) \<and>
    sm_bytes_received (as_metrics s') =
      sm_bytes_received (as_metrics s) + 2 * sum_list (map (\<lambda>x. of_nat (length x)) wr)"
proof -
  let ?p = "\<lparr>cp_id = cid, cp_manager = M, cp_backend = b, cp_written = [], cp_forwarded = [],
    cp_state = register_client cid now addr s\<rparr>"
  from assms obtain p' where l: "proxy_loop E evs ?p = Done (Some ok, p')"
    and r: "fwd = cp_forwarded p'" "wr = cp_written p'" "s' = unregister_client cid (cp_state p')"
    by (auto simp: client_task_def ClientProxy_new_def split: rust.splits option.splits)
  have "books E cid (sm_bytes_sent (as_metrics s)) (sm_bytes_received (as_metrics s)) ?p"
    by (simp add: books_def in_step_def charged_def register_client_def Let_def obj_get_insert ClientConnection_new_def)
  from proxy_loop_books [OF l this] obtain conn where
    "obj_get (as_clients (cp_state p')) cid = Some conn"
    "sm_bytes_sent (as_metrics (cp_state p')) = sm_bytes_sent (as_metrics s) + cc_bytes_sent conn"
    "sm_bytes_received (as_metrics (cp_state p')) = sm_bytes_received (as_metrics s) + cc_bytes_received conn"
    "cc_bytes_sent conn = sum_list (map (bytes_shown E) fwd)"
    "cc_bytes_received conn = sum_list (map (\<lambda>x. of_nat (length x)) wr)"
    by (auto simp: books_def in_step_def charged_def r)
  then show ?thesis
    by (simp add: r(3) unregister_client_def Let_def obj_get_remove)
qed

text \<open>The reported health. The verdict of the metrics update is the health of the state it
  leaves, and a full server is always reported as unhealthy.\<close>

theorem health_reported:
  "fst (update_metrics now0 now s) = health (snd (update_metrics now0 now s)) \<and>
   (limit_reached s \<longleftrightarrow> as_max_clients s \<le> length (as_clients (snd (update_metrics now0 now s)))) \<and>
   (health s \<noteq> Unhealthy \<longrightarrow> \<not> limit_reached s)"
  by (simp add: update_metrics_def health_def Let_def limit_reached_def health_of_def)

end
