(* ===== verification/Mcp_Http_Server.thy ===== *)
theory Mcp_Http_Server
  imports Mcp_Server
begin

text \<open>
  The HTTP server of the monitor for MCP clients (\<open>acdp-tui/src/http_server.rs\<close>) and the
  configuration it is started with (\<open>config.rs\<close>). A session has its interceptors, a queue of
  requests for the task that talks to the backend, and the streams that are subscribed to its
  answers; a stream that falls behind loses its oldest messages. A request is handled in one step,
  as is each event of a backend task, and the steps of all of them interleave. Fresh identifiers, clocks and
  the answers of backends are arguments.
\<close>

section \<open>Sessions\<close>

record 'i McpHttpSession =
  hs_client_id :: string
  hs_manager :: "'i InterceptorManager"
  hs_requests :: "JsonRpcMessage list"
  hs_receiver :: bool
  hs_streams :: "JsonRpcMessage list list"

record 'i McpHttpState =
  hv_app :: AppStateInner
  hv_sessions :: "'i McpHttpSession obj"

record 'err post_ext =
  px_parse :: "json \<Rightarrow> JsonRpcMessage option"
  px_header_ok :: "string \<Rightarrow> bool"
  px_show_error :: "'err \<Rightarrow> string"
  px_capacity :: nat

datatype post_answer = Refused nat | Answered nat string

definition broadcast :: "nat \<Rightarrow> JsonRpcMessage \<Rightarrow> 'i McpHttpSession \<Rightarrow> 'i McpHttpSession" where
  "broadcast cap m ses = ses\<lparr>hs_streams :=
     map (\<lambda>q. drop (length q + 1 - cap) (q @ [m])) (hs_streams ses)\<rparr>"

definition failure_response :: "RequestId \<Rightarrow> int \<Rightarrow> string \<Rightarrow> json option \<Rightarrow> JsonRpcMessage" where
  "failure_response rid c msg d = Response \<lparr>resp_jsonrpc = ''2.0'', resp_id = rid, resp_result = None,
     resp_error = Some \<lparr>code = c, err_message = msg, err_data = d\<rparr>\<rparr>"

definition put_session :: "string \<Rightarrow> 'i McpHttpSession \<Rightarrow> 'i McpHttpState \<Rightarrow> 'i McpHttpState" where
  "put_session sid ses s = s\<lparr>hv_sessions := obj_insert sid ses (hv_sessions s)\<rparr>"

text \<open>A session is entered into the table before it is known whether there is a backend; without
  one the receiver of its queue is dropped with the error.\<close>

definition backend_configured :: "AppStateInner \<Rightarrow> bool" where
  "backend_configured a \<longleftrightarrow> as_backend_url a \<noteq> None \<or> as_backend_command a \<noteq> []"

definition create_session ::
  "string \<Rightarrow> string \<Rightarrow> nat \<Rightarrow> 'i InterceptorManager \<Rightarrow> 'i McpHttpState
     \<Rightarrow> (nat + 'i McpHttpSession) \<times> 'i McpHttpState" where
  "create_session sid cid now M s =
     (let s = s\<lparr>hv_app := register_client cid now ''0.0.0.0:0'' (hv_app s)\<rparr>;
          ses = \<lparr>hs_client_id = cid, hs_manager = M, hs_requests = [], hs_receiver = True, hs_streams = []\<rparr>
      in if backend_configured (hv_app s) then (Inr ses, put_session sid ses s)
         else (Inl 500, put_session sid (ses\<lparr>hs_receiver := False\<rparr>) s))"

definition find_session ::
  "string \<Rightarrow> string \<Rightarrow> nat \<Rightarrow> 'i InterceptorManager \<Rightarrow> 'i McpHttpState
     \<Rightarrow> (nat + 'i McpHttpSession) \<times> 'i McpHttpState" where
  "find_session sid cid now M s = (case obj_get (hv_sessions s) sid of
     Some ses \<Rightarrow> (Inr ses, s)
   | None \<Rightarrow> create_session sid cid now M s)"

definition post_request ::
  "'err post_ext \<Rightarrow> ('i, 'e, 'err, 'b) mediation_env \<Rightarrow> 'e icall \<Rightarrow> nat \<Rightarrow> string \<Rightarrow> JsonRpcRequest
     \<Rightarrow> 'i McpHttpSession \<Rightarrow> 'i McpHttpState \<Rightarrow> 'i McpHttpState rust" where
  "post_request X E k now sid req ses s =
     (case mediate E k Outgoing (Request req) (hs_manager ses) of
        Panic \<Rightarrow> Panic
      | Done (Inl e, M) \<Rightarrow>
          Done (put_session sid (broadcast (px_capacity X) (failure_response (req_id req) (- 32603) ''Internal error''
                  (Some (Object [(''error'', String (px_show_error X e))]))) (ses\<lparr>hs_manager := M\<rparr>)) s)
      | Done (Inr result, M) \<Rightarrow>
          let ses = ses\<lparr>hs_manager := M\<rparr> in
          if ir_block result then
            Done (put_session sid (broadcast (px_capacity X) (failure_response (req_id req) (- 32000)
                    ''Message blocked by interceptor'' None) ses) s)
          else if hs_receiver ses then
            Done (put_session sid (ses\<lparr>hs_requests := hs_requests ses @ [ir_message result]\<rparr>)
                    (s\<lparr>hv_app := count_sent (hs_client_id ses) 0 now (hv_app s)\<rparr>))
          else
            Done (put_session sid (broadcast (px_capacity X) (failure_response (req_id req) (- 32603)
                    ''Failed to forward request to backend'' None) ses) s))"

definition handle_mcp_post ::
  "'err post_ext \<Rightarrow> ('i, 'e, 'err, 'b) mediation_env \<Rightarrow> 'e icall \<Rightarrow> nat \<Rightarrow> string option \<Rightarrow> string \<Rightarrow> string
     \<Rightarrow> 'i InterceptorManager \<Rightarrow> json \<Rightarrow> 'i McpHttpState \<Rightarrow> (post_answer \<times> 'i McpHttpState) rust" where
  "handle_mcp_post X E k now header fresh cid M body s =
     (let sid = (case header of Some h \<Rightarrow> h | None \<Rightarrow> fresh);
          answer = (\<lambda>status. if px_header_ok X sid then Answered status sid else Refused 500) in
      case px_parse X body of
        None \<Rightarrow> Done (Refused 400, s)
      | Some message \<Rightarrow>
         (case find_session sid cid now M s of
            (Inl status, s) \<Rightarrow> Done (Refused status, s)
          | (Inr ses, s) \<Rightarrow>
             (case message of
                Request req \<Rightarrow> map_rust (\<lambda>s. (answer 200, s)) (post_request X E k now sid req ses s)
              | Notification _ \<Rightarrow> Done (answer 202, s)
              | Response _ \<Rightarrow> Done (Refused 400, s))))"

definition handle_sse_stream :: "string \<Rightarrow> 'i McpHttpState \<Rightarrow> (nat + nat) \<times> 'i McpHttpState" where
  "handle_sse_stream sid s = (case obj_get (hv_sessions s) sid of
     None \<Rightarrow> (Inl 404, s)
   | Some ses \<Rightarrow> (Inr (length (hs_streams ses)), put_session sid (ses\<lparr>hs_streams := hs_streams ses @ [[]]\<rparr>) s))"

section \<open>The backend task of a session\<close>

record ('i, 'b) backend_task =
  bt_session :: "'i McpHttpSession"
  bt_app :: AppStateInner
  bt_backend :: 'b
  bt_sent :: "JsonRpcMessage list"
  bt_connects :: nat
  bt_restarts :: nat

datatype 'e task_event =
    Arrive JsonRpcMessage
  | TakeRequest "'e icall"
  | FromBackend "'e icall" nat JsonRpcMessage
  | ClosedByBackend
  | FailedBackend string

datatype life = Going | Broken | Over bool

definition BT_MAX_RESTARTS :: nat where
  "BT_MAX_RESTARTS = 5"

definition should_restart :: "('i, 'b) backend_task \<Rightarrow> bool" where
  "should_restart t \<longleftrightarrow> as_auto_restart (bt_app t) \<and> bt_restarts t < BT_MAX_RESTARTS"

definition task_failure :: "string \<Rightarrow> ('i, 'b) backend_task \<Rightarrow> ('i, 'b) backend_task" where
  "task_failure msg t = (let a = bt_app t; m = as_metrics a in
     t\<lparr>bt_app := tell_ui (BackendFailure (hs_client_id (bt_session t)) msg)
         (a\<lparr>as_metrics := m\<lparr>sm_total_errors := sm_total_errors m + 1\<rparr>\<rparr>)\<rparr>)"

definition with_manager :: "'i InterceptorManager \<Rightarrow> ('i, 'b) backend_task \<Rightarrow> ('i, 'b) backend_task" where
  "with_manager M t = t\<lparr>bt_session := (bt_session t)\<lparr>hs_manager := M\<rparr>\<rparr>"

definition task_request ::
  "('i, 'e, 'err, 'b) mediation_env \<Rightarrow> 'e icall \<Rightarrow> ('i, 'b) backend_task \<Rightarrow> (life \<times> ('i, 'b) backend_task) rust" where
  "task_request E k t = (case hs_requests (bt_session t) of
     [] \<Rightarrow> Done (Going, t)
   | message # rest \<Rightarrow>
      (let t = t\<lparr>bt_session := (bt_session t)\<lparr>hs_requests := rest\<rparr>\<rparr> in
       case mediate E k Outgoing message (hs_manager (bt_session t)) of
         Panic \<Rightarrow> Panic
       | Done (Inl _, M) \<Rightarrow> Done (Broken, with_manager M t)
       | Done (Inr result, M) \<Rightarrow>
           if ir_block result then Done (Going, with_manager M t)
           else case pe_send E (ir_message result) (bt_backend t) of
             (False, b) \<Rightarrow> Done (Broken, (with_manager M t)\<lparr>bt_backend := b\<rparr>)
           | (True, b) \<Rightarrow> Done (Going, (with_manager M t)\<lparr>bt_backend := b,
               bt_sent := bt_sent t @ [ir_message result]\<rparr>)))"

definition task_answer ::
  "nat \<Rightarrow> ('i, 'e, 'err, 'b) mediation_env \<Rightarrow> 'e icall \<Rightarrow> nat \<Rightarrow> JsonRpcMessage \<Rightarrow> ('i, 'b) backend_task
     \<Rightarrow> (life \<times> ('i, 'b) backend_task) rust" where
  "task_answer cap E k now message t =
     (case mediate E k Incoming message (hs_manager (bt_session t)) of
        Panic \<Rightarrow> Panic
      | Done (Inl _, M) \<Rightarrow> Done (Going, with_manager M t)
      | Done (Inr result, M) \<Rightarrow>
          (let t = with_manager M t in
           if ir_block result then Done (Going, t)
           else let t = t\<lparr>bt_session := broadcast cap (ir_message result) (bt_session t)\<rparr> in
             case mx_show (pe_msg E) (ir_message result) of
               None \<Rightarrow> Done (Over False, t)
             | Some text \<Rightarrow> Done (Going,
                 t\<lparr>bt_app := count_received (hs_client_id (bt_session t)) (length text) now (bt_app t)\<rparr>)))"

definition task_step ::
  "nat \<Rightarrow> ('i, 'e, 'err, 'b) mediation_env \<Rightarrow> 'e task_event \<Rightarrow> ('i, 'b) backend_task
     \<Rightarrow> (life \<times> ('i, 'b) backend_task) rust" where
  "task_step cap E ev t = (case ev of
     Arrive m \<Rightarrow> Done (Going, t\<lparr>bt_session := (bt_session t)\<lparr>hs_requests := hs_requests (bt_session t) @ [m]\<rparr>\<rparr>)
   | TakeRequest k \<Rightarrow> task_request E k t
   | FromBackend k now m \<Rightarrow> task_answer cap E k now m t
   | ClosedByBackend \<Rightarrow>
       if should_restart t
       then Done (Broken, t\<lparr>bt_restarts := bt_restarts t + 1,
              bt_app := tell_ui (BackendRestart (hs_client_id (bt_session t)) (bt_restarts t + 1)) (bt_app t)\<rparr>)
       else Done (Over True, task_failure ''Backend connection closed'' t)
   | FailedBackend e \<Rightarrow> Done (if not_implemented e then Going else Broken, t))"

fun task_life ::
  "nat \<Rightarrow> ('i, 'e, 'err, 'b) mediation_env \<Rightarrow> 'e task_event list \<Rightarrow> ('i, 'b) backend_task
     \<Rightarrow> (life \<times> ('i, 'b) backend_task) rust" where
  "task_life cap E [] t = Done (Going, t)"
| "task_life cap E (ev # evs) t = (case task_step cap E ev t of
     Panic \<Rightarrow> Panic
   | Done (Going, t) \<Rightarrow> task_life cap E evs t
   | Done (l, t) \<Rightarrow> Done (l, t))"

text \<open>The outer loop; each element is the outcome of one attempt to connect to the backend, with
  the events that follow. \<open>Some ok\<close> is how the task ended.\<close>

fun run_task ::
  "nat \<Rightarrow> ('i, 'e, 'err, 'b) mediation_env \<Rightarrow> ((string + 'b) \<times> 'e task_event list) list \<Rightarrow> ('i, 'b) backend_task
     \<Rightarrow> (bool option \<times> ('i, 'b) backend_task) rust" where
  "run_task cap E [] t = Done (None, t)"
| "run_task cap E ((c, evs) # lives) t = (case c of
     Inl e \<Rightarrow> Done (Some False, task_failure (''Failed to create backend connection: '' @ e) t)
   | Inr b \<Rightarrow>
      (case task_life cap E evs (t\<lparr>bt_backend := b, bt_connects := bt_connects t + 1\<rparr>) of
         Panic \<Rightarrow> Panic
       | Done (Going, t) \<Rightarrow> Done (None, t)
       | Done (Over ok, t) \<Rightarrow> Done (Some ok, t)
       | Done (Broken, t) \<Rightarrow> if should_restart t then run_task cap E lives t else Done (Some True, t)))"

section \<open>Configuration\<close>

text \<open>The section of the configuration file for this server, and the process environment.\<close>

record TlsConfig =
  tls_enabled :: bool
  tls_domains :: "string list"
  tls_acme_directory :: string
  tls_challenge_type :: string
  tls_email :: "string option"
  tls_dns_provider :: "string option"
  tls_dns_credentials :: "string option"
  tls_cert_dir :: string
  tls_use_staging :: bool

definition TlsConfig_default :: TlsConfig where
  "TlsConfig_default = \<lparr>tls_enabled = False, tls_domains = [],
     tls_acme_directory = ''https://acme-v02.api.letsencrypt.org/directory'', tls_challenge_type = ''http-01'',
     tls_email = None, tls_dns_provider = None, tls_dns_credentials = None, tls_cert_dir = ''./certs'',
     tls_use_staging = False\<rparr>"

record McpServerConfig =
  mc_enabled :: bool
  mc_bind_address :: string
  mc_backend_command :: string
  mc_backend_url :: "string option"
  mc_backend_transport :: "string option"
  mc_server_bind_addr :: "string option"
  mc_max_concurrent_clients :: nat
  mc_connection_timeout_secs :: u64
  mc_auto_restart_backend :: bool
  mc_http_bind_address :: string
  mc_tls :: TlsConfig

definition McpServerConfig_default :: McpServerConfig where
  "McpServerConfig_default = \<lparr>mc_enabled = False, mc_bind_address = ''0.0.0.0:9000'',
     mc_backend_command = [], mc_backend_url = None, mc_backend_transport = None,
     mc_server_bind_addr = None, mc_max_concurrent_clients = 100, mc_connection_timeout_secs = 300,
     mc_auto_restart_backend = False, mc_http_bind_address = [], mc_tls = TlsConfig_default\<rparr>"

type_synonym environ = "string \<Rightarrow> string option"

definition lower_ascii :: "char \<Rightarrow> char" where
  "lower_ascii c = (let n = (of_char c :: nat) in if 65 \<le> n \<and> n \<le> 90 then char_of (n + 32) else c)"

definition truthy :: "string \<Rightarrow> bool" where
  "truthy value \<longleftrightarrow> map lower_ascii (trim value) \<in> {''1'', ''true'', ''yes'', ''on''}"

definition env_flag :: "environ \<Rightarrow> string \<Rightarrow> bool \<Rightarrow> bool" where
  "env_flag env k dflt = (case env k of Some value \<Rightarrow> truthy value | None \<Rightarrow> dflt)"

definition env_or :: "environ \<Rightarrow> string \<Rightarrow> string \<Rightarrow> string" where
  "env_or env k dflt = (case env k of Some value \<Rightarrow> value | None \<Rightarrow> dflt)"

definition enable_mcp_server :: "environ \<Rightarrow> McpServerConfig \<Rightarrow> bool" where
  "enable_mcp_server env c = env_flag env ''MCP_SERVER_MODE'' (mc_enabled c)"

definition mcp_server_bind_addr :: "environ \<Rightarrow> McpServerConfig \<Rightarrow> string" where
  "mcp_server_bind_addr env c = env_or env ''MCP_SERVER_BIND_ADDR'' (mc_bind_address c)"

definition backend_url :: "environ \<Rightarrow> McpServerConfig \<Rightarrow> string option" where
  "backend_url env c = (case env ''MCP_BACKEND_URL'' of Some u \<Rightarrow> Some u | None \<Rightarrow> mc_backend_url c)"

definition needs_backend_command :: "environ \<Rightarrow> McpServerConfig \<Rightarrow> bool" where
  "needs_backend_command env c \<longleftrightarrow> backend_url env c = None"

definition backend_command :: "environ \<Rightarrow> McpServerConfig \<Rightarrow> string option option" where
  "backend_command env c =
     (if backend_url env c \<noteq> None then Some None
      else let cmd = env_or env ''MCP_BACKEND_COMMAND'' (mc_backend_command c)
           in if cmd = [] then None else Some (Some cmd))"

definition detect_transport :: "string \<Rightarrow> string option" where
  "detect_transport url =
     (if str_contains url ''/stream'' \<or> str_contains url ''/message'' then Some ''http-stream''
      else if starts_with url ''http://'' \<or> starts_with url ''https://'' then Some ''http-sse''
      else None)"

definition backend_transport :: "environ \<Rightarrow> McpServerConfig \<Rightarrow> string option" where
  "backend_transport env c = (case env ''MCP_BACKEND_TRANSPORT'' of
     Some t \<Rightarrow> Some t
   | None \<Rightarrow> (case Option.bind (backend_url env c) detect_transport of
       Some t \<Rightarrow> Some t
     | None \<Rightarrow> mc_backend_transport c))"

definition auto_restart_backend :: "environ \<Rightarrow> McpServerConfig \<Rightarrow> bool" where
  "auto_restart_backend env c = env_flag env ''MCP_AUTO_RESTART'' (mc_auto_restart_backend c)"

definition http_server_bind_addr :: "environ \<Rightarrow> McpServerConfig \<Rightarrow> string" where
  "http_server_bind_addr env c = env_or env ''MCP_HTTP_BIND_ADDR'' (mc_http_bind_address c)"

definition enable_http_server :: "environ \<Rightarrow> McpServerConfig \<Rightarrow> bool" where
  "enable_http_server env c \<longleftrightarrow> http_server_bind_addr env c \<noteq> []"

definition enable_tls :: "environ \<Rightarrow> McpServerConfig \<Rightarrow> bool" where
  "enable_tls env c = env_flag env ''MCP_TLS_ENABLED'' (tls_enabled (mc_tls c))"

definition server_bind_addr :: "environ \<Rightarrow> McpServerConfig \<Rightarrow> string option" where
  "server_bind_addr env c = (case env ''MCP_SERVER_BIND_ADDR'' of
     Some a \<Rightarrow> Some a
   | None \<Rightarrow> (case mc_server_bind_addr c of
       Some a \<Rightarrow> Some a
     | None \<Rightarrow> Some (if http_server_bind_addr env c \<noteq> [] then http_server_bind_addr env c
                     else mcp_server_bind_addr env c)))"

definition max_concurrent_clients :: "(string \<Rightarrow> nat option) \<Rightarrow> environ \<Rightarrow> McpServerConfig \<Rightarrow> nat" where
  "max_concurrent_clients parse env c = (case Option.bind (env ''MCP_MAX_CLIENTS'') parse of
     Some n \<Rightarrow> n | None \<Rightarrow> mc_max_concurrent_clients c)"


definition connection_timeout_secs :: "(string \<Rightarrow> u64 option) \<Rightarrow> environ \<Rightarrow> McpServerConfig \<Rightarrow> u64" where
  "connection_timeout_secs parse env c = (case Option.bind (env ''MCP_CONNECTION_TIMEOUT'') parse of
     Some n \<Rightarrow> n | None \<Rightarrow> mc_connection_timeout_secs c)"

text \<open>The checks before the server is started; \<open>parses\<close> tells which texts are socket addresses. The
  directories of the certificates are assumed to be created.\<close>

definition check_bind_addr :: "(string \<Rightarrow> bool) \<Rightarrow> string \<Rightarrow> string \<Rightarrow> string \<Rightarrow> string + unit" where
  "check_bind_addr parses scheme example addr =
     (if addr = [] then Inl (scheme @ '' bind address is empty'')
      else if \<not> parses addr then Inl (''Invalid '' @ scheme @ '' bind address format: '' @ [CHR 0x27] @ addr @ [CHR 0x27]
        @ ''. Expected '' @ [CHR 0x27] @ ''host:port'' @ [CHR 0x27] @ '' (e.g., '' @ [CHR 0x27] @ example @ [CHR 0x27] @ '')'')
      else Inr ())"

definition start_http_server :: "(string \<Rightarrow> bool) \<Rightarrow> environ \<Rightarrow> McpServerConfig \<Rightarrow> string \<Rightarrow> string + unit" where
  "start_http_server parses env c addr =
     (if enable_tls env c then
        if tls_domains (mc_tls c) = [] then Inl ''TLS enabled but no domains configured''
        else check_bind_addr parses ''HTTPS'' ''127.0.0.1:8443'' addr
      else check_bind_addr parses ''HTTP'' ''127.0.0.1:8080'' addr)"

definition acme_contacts :: "TlsConfig \<Rightarrow> string list" where
  "acme_contacts c = map (\<lambda>e. ''mailto:'' @ e)
     (case tls_email c of Some e \<Rightarrow> [''mailto:'' @ e] | None \<Rightarrow> [''mailto:admin@example.com''])"

section \<open>The server and its tasks\<close>

inductive http_reach ::
  "'err post_ext \<Rightarrow> ('i, 'e, 'err, 'b) mediation_env \<Rightarrow> 'i McpHttpState \<times> JsonRpcMessage list \<Rightarrow> bool"
  for X and E where
  start: "hv_sessions s = [] \<Longrightarrow> http_reach X E (s, [])"
| post: "http_reach X E (s, sent) \<Longrightarrow>
    handle_mcp_post X E k now header fresh cid M body s = Done (a, s') \<Longrightarrow> http_reach X E (s', sent)"
| stream: "http_reach X E (s, sent) \<Longrightarrow> http_reach X E (snd (handle_sse_stream sid s), sent)"
| task: "http_reach X E (s, sent) \<Longrightarrow> obj_get (hv_sessions s) sid = Some ses \<Longrightarrow> (\<forall>m. ev \<noteq> Arrive m) \<Longrightarrow>
    task_step (px_capacity X) E ev \<lparr>bt_session = ses, bt_app = hv_app s, bt_backend = b, bt_sent = sent,
      bt_connects = c, bt_restarts = r\<rparr> = Done (l, t) \<Longrightarrow>
    http_reach X E (put_session sid (bt_session t) (s\<lparr>hv_app := bt_app t\<rparr>), bt_sent t)"

definition queued_ok :: "('i, 'e, 'err, 'b) mediation_env \<Rightarrow> 'i McpHttpSession \<Rightarrow> bool" where
  "queued_ok E ses \<longleftrightarrow> (\<forall>m\<in>set (hs_requests ses). \<exists>req. passed E Outgoing (Request req) m)"

definition sessions_ok :: "('i, 'e, 'err, 'b) mediation_env \<Rightarrow> 'i McpHttpState \<Rightarrow> bool" where
  "sessions_ok E s \<longleftrightarrow> (\<forall>sid ses. obj_get (hv_sessions s) sid = Some ses \<longrightarrow> queued_ok E ses)"

definition twice_passed :: "('i, 'e, 'err, 'b) mediation_env \<Rightarrow> JsonRpcMessage \<Rightarrow> bool" where
  "twice_passed E m \<longleftrightarrow> (\<exists>req m'. passed E Outgoing (Request req) m' \<and> passed E Outgoing m' m)"

lemma sessions_ok_put: "sessions_ok E s \<Longrightarrow> queued_ok E ses \<Longrightarrow> sessions_ok E (put_session sid ses s)"
  by (auto simp: sessions_ok_def put_session_def obj_get_insert)

lemma sessions_ok_app [simp]: "sessions_ok E (s\<lparr>hv_app := a\<rparr>) = sessions_ok E s"
  by (simp add: sessions_ok_def)

lemma queued_ok_simps [simp]:
  "queued_ok E (broadcast cap m ses) = queued_ok E ses" "queued_ok E (ses\<lparr>hs_manager := M\<rparr>) = queued_ok E ses"
  "queued_ok E (ses\<lparr>hs_streams := q\<rparr>) = queued_ok E ses"
  by (simp_all add: queued_ok_def broadcast_def)

lemma find_session_ok:
  assumes "find_session sid cid now M s = (q, s')" and "sessions_ok E s"
  shows "sessions_ok E s' \<and> (\<forall>ses. q = Inr ses \<longrightarrow> queued_ok E ses)"
proof (cases "obj_get (hv_sessions s) sid")
  case None
  have "queued_ok E \<lparr>hs_client_id = cid, hs_manager = M, hs_requests = [], hs_receiver = w, hs_streams = []\<rparr>" for w
    by (simp add: queued_ok_def)
  with assms None show ?thesis
    by (auto simp: find_session_def create_session_def Let_def intro!: sessions_ok_put split: if_splits)
next
  case (Some ses)
  with assms show ?thesis by (auto simp: find_session_def sessions_ok_def)
qed

lemma post_request_ok:
  assumes "post_request X E k now sid req ses s = Done s'" "sessions_ok E s" "queued_ok E ses"
  shows "sessions_ok E s'"
proof -
  have "queued_ok E (ses\<lparr>hs_manager := M, hs_requests := hs_requests ses @ [ir_message r]\<rparr>)"
    if "mediate E k Outgoing (Request req) (hs_manager ses) = Done (Inr r, M)" "\<not> ir_block r" for r M
    using passedI [OF that] assms(3) by (auto simp: queued_ok_def)
  with assms show ?thesis
    by (auto simp: post_request_def Let_def intro!: sessions_ok_put split: rust.splits sum.splits if_splits)
qed

lemma handle_mcp_post_ok:
  assumes "handle_mcp_post X E k now header fresh cid M body s = Done (a, s')" "sessions_ok E s"
  shows "sessions_ok E s'"
  using assms
  by (auto simp: handle_mcp_post_def Let_def map_rust_Done
      dest: find_session_ok [OF _ assms(2)] post_request_ok
      split: option.splits prod.splits sum.splits JsonRpcMessage.splits)

lemma with_manager_simps [simp]:
  "bt_session (with_manager M t) = (bt_session t)\<lparr>hs_manager := M\<rparr>" "bt_sent (with_manager M t) = bt_sent t"
  by (simp_all add: with_manager_def)

lemma task_failure_simps [simp]:
  "bt_session (task_failure msg t) = bt_session t" "bt_sent (task_failure msg t) = bt_sent t"
  by (simp_all add: task_failure_def Let_def)

lemma task_request_ok:
  assumes "task_request E k t = Done (l, t')" "queued_ok E (bt_session t)" "\<forall>m\<in>set (bt_sent t). twice_passed E m"
  shows "queued_ok E (bt_session t') \<and> (\<forall>m\<in>set (bt_sent t'). twice_passed E m)"
proof (cases "hs_requests (bt_session t)")
  case Nil
  with assms show ?thesis by (simp add: task_request_def)
next
  case (Cons m ms)
  then obtain req where req: "passed E Outgoing (Request req) m"
    using assms(2) by (auto simp: queued_ok_def)
  have "twice_passed E (ir_message r)" if "mediate E k Outgoing m M = Done (Inr r, M')" "\<not> ir_block r" for r M M'
    using req passedI [OF that] by (auto simp: twice_passed_def)
  then show ?thesis using assms Cons
    by (auto simp: task_request_def queued_ok_def Let_def
        split: rust.splits sum.splits prod.splits bool.splits if_splits)
qed

lemma task_step_ok:
  assumes "task_step cap E ev t = Done (l, t')" "\<forall>m. ev \<noteq> Arrive m" "queued_ok E (bt_session t)"
    "\<forall>m\<in>set (bt_sent t). twice_passed E m"
  shows "queued_ok E (bt_session t') \<and> (\<forall>m\<in>set (bt_sent t'). twice_passed E m)"
proof (cases ev)
  case (TakeRequest k)
  with assms task_request_ok show ?thesis by (simp add: task_step_def)
next
  case (FromBackend k now m)
  with assms show ?thesis
    by (auto simp: task_step_def task_answer_def Let_def split: rust.splits sum.splits if_splits option.splits)
qed (use assms in \<open>auto simp: task_step_def split: if_splits\<close>)

section \<open>Claims\<close>

text \<open>The backend of an HTTP client gets mediated requests only. Whatever the order of posted
  messages, streams and steps of the backend tasks, every message sent to a backend was posted as
  a request and passed by the interceptors twice, once on arrival and once more before it was
  sent.\<close>

theorem http_clients_mediated:
  assumes "http_reach X E (s, sent)"
  shows "\<forall>m\<in>set sent. twice_passed E m"
proof -
  have "sessions_ok E (fst x) \<and> (\<forall>m\<in>set (snd x). twice_passed E m)" if "http_reach X E x" for x
    using that
  proof (induction rule: http_reach.induct)
    case (start s)
    then show ?case by (simp add: sessions_ok_def obj_get_def)
  next
    case (post s sent k now header fresh cid M body a s')
    then show ?case by (auto dest: handle_mcp_post_ok)
  next
    case (stream s sent sid)
    then show ?case
      by (auto simp: handle_sse_stream_def intro!: sessions_ok_put split: option.split)
        (auto simp: sessions_ok_def)
  next
    case (task s sent sid ses ev b c r l t)
    then have "queued_ok E ses" by (auto simp: sessions_ok_def)
    with task_step_ok [OF task.hyps(4,3)] task.IH show ?case
      by (auto intro: sessions_ok_put)
  qed
  from this [OF assms] show ?thesis by simp
qed

text \<open>Notifications are acknowledged and dropped. A notification posted to an existing session
  is answered with status 202 and changes nothing: it is not passed on to the backend.\<close>

theorem notification_dropped:
  assumes "px_parse X body = Some (Notification n)" and "obj_get (hv_sessions s) sid = Some ses"
    and "px_header_ok X sid"
  shows "handle_mcp_post X E k now (Some sid) fresh cid M body s = Done (Answered 202 sid, s)"
  using assms by (simp add: handle_mcp_post_def find_session_def)

text \<open>A server without a backend. The first request of a session is refused with status 500,
  but the session stays: the next request of the same session is answered with status 200 although
  nothing is queued for it, and the client remains in the table.\<close>

theorem unconfigured_backend:
  assumes "px_parse X body = Some (Request req)" "obj_get (hv_sessions s) sid = None"
    and "\<not> backend_configured (hv_app s)" "px_header_ok X sid"
    and "mediate E k' Outgoing (Request req) M = Done (Inr r, M')"
  shows "\<exists>s1 s2 ses. handle_mcp_post X E k now (Some sid) fresh cid M body s = Done (Refused 500, s1) \<and>
    handle_mcp_post X E k' now' (Some sid) fresh' cid' M0 body s1 = Done (Answered 200 sid, s2) \<and>
    obj_get (hv_sessions s2) sid = Some ses \<and> hs_requests ses = [] \<and>
    obj_get (as_clients (hv_app s2)) cid \<noteq> None"
proof -
  define ses0 where "ses0 = \<lparr>hs_client_id = cid, hs_manager = M, hs_requests = [], hs_receiver = False, hs_streams = []\<rparr>"
  define s1 where "s1 = put_session sid ses0 (s\<lparr>hv_app := register_client cid now ''0.0.0.0:0'' (hv_app s)\<rparr>)"
  have b: "\<not> backend_configured (register_client cid now a (hv_app s))" for a
    using assms(3) by (simp add: backend_configured_def register_client_def tell_ui_def Let_def)
  have 1: "handle_mcp_post X E k now (Some sid) fresh cid M body s = Done (Refused 500, s1)"
    using assms(1,2) b by (simp add: handle_mcp_post_def find_session_def create_session_def s1_def ses0_def Let_def)
  have g: "obj_get (hv_sessions s1) sid = Some ses0"
    by (simp add: s1_def put_session_def obj_get_insert)
  have c: "obj_get (as_clients (hv_app s1)) cid \<noteq> None"
    by (simp add: s1_def put_session_def register_client_def Let_def obj_get_insert)
  define ses where "ses = broadcast (px_capacity X) (if ir_block r
    then failure_response (req_id req) (- 32000) ''Message blocked by interceptor'' None
    else failure_response (req_id req) (- 32603) ''Failed to forward request to backend'' None) (ses0\<lparr>hs_manager := M'\<rparr>)"
  have "post_request X E k' now' sid req ses0 s1 = Done (put_session sid ses s1)"
    using assms(5) by (simp add: post_request_def ses_def ses0_def Let_def)
  then have "handle_mcp_post X E k' now' (Some sid) fresh' cid' M0 body s1 =
      Done (Answered 200 sid, put_session sid ses s1)"
    using assms(1,4) g by (simp add: handle_mcp_post_def find_session_def)
  moreover have "hs_requests ses = []" by (simp add: ses_def ses0_def broadcast_def)
  ultimately show ?thesis using 1 c by (auto simp: put_session_def obj_get_insert)
qed

lemma run_task_closed:
  assumes "as_auto_restart (bt_app t)" "bt_restarts t + n = BT_MAX_RESTARTS" "0 < n" "n \<le> length lives"
    and "\<forall>x\<in>set lives. \<exists>b. x = (Inr b, [ClosedByBackend])"
  shows "\<exists>t'. run_task cap E lives t = Done (Some True, t') \<and> bt_connects t' = bt_connects t + n \<and>
    bt_restarts t' = BT_MAX_RESTARTS"
  using assms
proof (induction n arbitrary: t lives)
  case (Suc n)
  obtain b lives' where l: "lives = (Inr b, [ClosedByBackend]) # lives'"
    using Suc.prems(4,5) by (cases lives) auto
  define t1 where "t1 = t\<lparr>bt_backend := b, bt_connects := bt_connects t + 1, bt_restarts := bt_restarts t + 1,
    bt_app := tell_ui (BackendRestart (hs_client_id (bt_session t)) (bt_restarts t + 1)) (bt_app t)\<rparr>"
  have "run_task cap E lives t = (if should_restart t1 then run_task cap E lives' t1 else Done (Some True, t1))"
    using Suc.prems(1,2) by (simp add: l task_step_def should_restart_def t1_def)
  moreover have "as_auto_restart (bt_app t1)" "bt_restarts t1 + n = BT_MAX_RESTARTS" "bt_connects t1 = bt_connects t + 1"
    using Suc.prems(1,2) by (simp_all add: t1_def)
  moreover have "n \<le> length lives'" "\<forall>x\<in>set lives'. \<exists>b. x = (Inr b, [ClosedByBackend])"
    using Suc.prems(4,5) by (simp_all add: l)
  ultimately show ?case
    using Suc.IH [of t1 lives'] by (cases n) (auto simp: should_restart_def)
qed simp

lemma run_task_failing:
  assumes "as_auto_restart (bt_app t)" "bt_restarts t < BT_MAX_RESTARTS" "\<not> not_implemented e"
  shows "\<exists>t'. run_task cap E (replicate n (Inr b, [FailedBackend e])) t = Done (None, t') \<and>
    bt_connects t' = bt_connects t + n \<and> bt_restarts t' = bt_restarts t"
  using assms
proof (induction n arbitrary: t)
  case (Suc n)
  then show ?case
    using Suc.IH [of "t\<lparr>bt_backend := b, bt_connects := bt_connects t + 1\<rparr>"]
    by (auto simp: task_step_def should_restart_def)
qed simp


text \<open>Restarts are bounded for closed connections only. With automatic restarts, a backend that
  closes its connection each time is connected to five times, although five restarts are announced
  after the first; a backend whose connection fails each time is connected to again without
  bound.\<close>

theorem http_restarts:
  assumes "as_auto_restart (bt_app t)" "bt_restarts t = 0"
  shows "(\<exists>t'. run_task cap E (replicate (5 + n) (Inr b, [ClosedByBackend])) t = Done (Some True, t') \<and>
      bt_connects t' = bt_connects t + 5 \<and> bt_restarts t' = 5) \<and>
    (\<exists>t'. run_task cap E (replicate n (Inr b, [FailedBackend ''broken pipe''])) t = Done (None, t') \<and>
      bt_connects t' = bt_connects t + n)"
proof -
  have "\<not> not_implemented ''broken pipe''" by (simp add: not_implemented_def starts_with_def)
  with run_task_failing [of t "''broken pipe''" cap E n b] assms
  have "\<exists>t'. run_task cap E (replicate n (Inr b, [FailedBackend ''broken pipe''])) t = Done (None, t') \<and>
      bt_connects t' = bt_connects t + n" by (auto simp: BT_MAX_RESTARTS_def)
  moreover have "\<exists>t'. run_task cap E (replicate (5 + n) (Inr b, [ClosedByBackend])) t = Done (Some True, t') \<and>
      bt_connects t' = bt_connects t + 5 \<and> bt_restarts t' = BT_MAX_RESTARTS"
    by (rule run_task_closed) (use assms in \<open>auto simp: BT_MAX_RESTARTS_def\<close>)
  ultimately show ?thesis by (auto simp: BT_MAX_RESTARTS_def)
qed

text \<open>The detected transport wins over the configured one. For a backend with an HTTP address
  and no environment variable the transport is detected from the address, whatever transport the
  configuration file names.\<close>

theorem configured_transport_ignored:
  assumes "env ''MCP_BACKEND_TRANSPORT'' = None" "backend_url env c = Some url"
    and "starts_with url ''http://'' \<or> starts_with url ''https://''"
  shows "backend_transport env c = backend_transport env (c\<lparr>mc_backend_transport := t\<rparr>)"
proof -
  have "backend_url env (c\<lparr>mc_backend_transport := t\<rparr>) = Some url"
    using assms(2) by (simp add: backend_url_def split: option.splits)
  with assms show ?thesis by (auto simp: backend_transport_def detect_transport_def split: option.split)
qed


text \<open>Contacts of the certificate authority. Every contact that is registered carries the
  scheme twice, so none is an address of the form \<open>mailto:\<close> and a mailbox.\<close>

theorem contacts_malformed:
  "\<forall>x\<in>set (acme_contacts c). starts_with x ''mailto:mailto:''"
  by (auto simp: acme_contacts_def starts_with_def split: option.split)

end
