(* ===== verification/Llm_Models.thy ===== *)
theory Llm_Models
  imports Tui_App Llm_Predictor
begin

text \<open>
  The manager of local models (\<open>acdp-llm/src/model_management.rs\<close>) and the part of the
  configuration it reads (\<open>acdp-llm/src/config.rs\<close>). Directories are trees; the answers of the
  network, of the file operations and of the engine's constructor are arguments. Status updates
  are recorded in the order they are broadcast. Paths and names are strings of one-byte
  characters, and model names are not empty.
\<close>

section \<open>Paths and configuration\<close>

definition path_join :: "string \<Rightarrow> string \<Rightarrow> string" where
  "path_join base p =
     (if starts_with p ''/'' then p
      else if base = [] \<or> ends_with base (CHR ''/'') then base @ p
      else base @ ''/'' @ p)"

definition path_file_name :: "string \<Rightarrow> string option" where
  "path_file_name p =
     (let cs = filter (\<lambda>s. s \<noteq> [] \<and> s \<noteq> ''.'') (split_on (CHR ''/'') p)
      in if cs = [] \<or> last cs = ''..'' then None else Some (last cs))"

definition split_dot :: "string \<Rightarrow> string \<times> string option" where
  "split_dot name =
     (let ps = split_on (CHR ''.'') name; before = join_strings ''.'' (butlast ps)
      in if name = ''..'' \<or> length ps < 2 \<or> before = [] then (name, None) else (before, Some (last ps)))"

definition expand_path :: "string option \<Rightarrow> string \<Rightarrow> LlmError + string" where
  "expand_path home path =
     (if starts_with path ''~/'' then (case home of
          None \<Rightarrow> Inl (LlmConfigError ''Cannot determine home directory'')
        | Some h \<Rightarrow> Inr (path_join h (drop 2 path)))
      else if starts_with path ''~'' then (case home of
          None \<Rightarrow> Inl (LlmConfigError ''Cannot determine home directory'')
        | Some h \<Rightarrow> Inr (path_join h (drop 1 path)))
      else Inr path)"

record ModelConfig =
  preferred_model :: "string option"
  cfg_cache_dir :: string
  cfg_backend :: string
  cfg_routing_mode :: string
  cfg_semantic_model_path :: "string option"

definition ModelConfig_default :: ModelConfig where
  "ModelConfig_default = \<lparr>preferred_model = None, cfg_cache_dir = ''~/.litert-lm/models'',
     cfg_backend = ''gpu'', cfg_routing_mode = ''hybrid'',
     cfg_semantic_model_path = Some ''~/.litert-lm/models/gemma3-1b-it-int4.litertlm''\<rparr>"

definition cache_dir :: "string option \<Rightarrow> ModelConfig \<Rightarrow> LlmError + string" where
  "cache_dir home c = expand_path home (cfg_cache_dir c)"

definition config_backend :: "ModelConfig \<Rightarrow> LlmError + LiteRTBackend" where
  "config_backend c = (let b = map ascii_lower (cfg_backend c) in
     if b = ''cpu'' then Inr CpuBackend
     else if b = ''gpu'' then Inr GpuBackend
     else Inl (LlmConfigError (''Invalid backend: '' @ cfg_backend c)))"

definition config_routing_mode :: "ModelConfig \<Rightarrow> LlmError + RoutingMode" where
  "config_routing_mode c = map_err LlmConfigError (mode_from_str (cfg_routing_mode c))"

definition semantic_model_path :: "string option \<Rightarrow> ModelConfig \<Rightarrow> LlmError + string option" where
  "semantic_model_path home c = (case cfg_semantic_model_path c of
     Some p \<Rightarrow> and_then (expand_path home p) (\<lambda>q. Inr (Some q))
   | None \<Rightarrow> Inr None)"

section \<open>The cache\<close>

text \<open>A directory entry: a file with its length, a directory, or one that cannot be read, with the error.\<close>

datatype node = FileNode u64 | DirNode "(string \<times> node) list" | Unreadable string

definition is_dir :: "node \<Rightarrow> bool" where
  "is_dir n = (case n of FileNode _ \<Rightarrow> False | _ \<Rightarrow> True)"

definition is_model_file :: "string \<Rightarrow> bool" where
  "is_model_file name =
     (if str_contains name ''.litertlm_'' \<and> starts_with (rev name) (rev ''.bin'') then False
      else case snd (split_dot name) of
        Some ext \<Rightarrow> map ascii_lower ext \<in> {''gguf'', ''safetensors'', ''pt'', ''pth'', ''onnx'', ''litertlm''}
      | None \<Rightarrow> False)"

definition read_dir :: "string \<Rightarrow> node \<Rightarrow> LlmError + (string \<times> node) list" where
  "read_dir what n = (case n of
     DirNode es \<Rightarrow> Inr es
   | Unreadable e \<Rightarrow> Inl (LlmConfigError (''Failed to read '' @ what @ '': '' @ e))
   | FileNode _ \<Rightarrow> Inl (LlmConfigError (''Failed to read '' @ what @ '': Not a directory (os error 20)'')))"

definition is_model_directory :: "node \<Rightarrow> LlmError + bool" where
  "is_model_directory n = and_then (read_dir ''directory'' n) (\<lambda>es. Inr (list_ex (\<lambda>e. is_model_file (fst e)) es))"

fun directory_size :: "node \<Rightarrow> LlmError + u64"
  and entries_size :: "(string \<times> node) list \<Rightarrow> u64 \<Rightarrow> LlmError + u64" where
  "directory_size (FileNode n) = Inr n"
| "directory_size (Unreadable e) = Inl (LlmConfigError (''Failed to read directory: '' @ e))"
| "directory_size (DirNode es) = entries_size es 0"
| "entries_size [] tot = Inr tot"
| "entries_size ((name, n) # es) tot = and_then (directory_size n) (\<lambda>k. entries_size es (tot + k))"

definition cached_model :: "string \<Rightarrow> string \<times> node \<Rightarrow> LlmError + ModelInfo list" where
  "cached_model dir e = (let (name, n) = e; path = path_join dir name in
     case n of
       FileNode len \<Rightarrow> Inr (if is_model_file name
         then [\<lparr>mi_name = fst (split_dot name), mi_path = path, mi_size_bytes = len, mi_is_cached = True\<rparr>] else [])
     | _ \<Rightarrow> and_then (is_model_directory n) (\<lambda>b. if b
         then and_then (directory_size n) (\<lambda>size. Inr [\<lparr>mi_name = name, mi_path = path, mi_size_bytes = size, mi_is_cached = True\<rparr>])
         else Inr []))"

fun cached_models :: "string \<Rightarrow> (string \<times> node) list \<Rightarrow> LlmError + ModelInfo list" where
  "cached_models dir [] = Inr []"
| "cached_models dir (e # es) = and_then (cached_model dir e) (\<lambda>ms.
     and_then (cached_models dir es) (\<lambda>rest. Inr (ms @ rest)))"

text \<open>\<open>cache\<close> is the node at the cache directory, when it exists.\<close>

definition list_cached_models :: "string option \<Rightarrow> node option \<Rightarrow> ModelConfig \<Rightarrow> LlmError + ModelInfo list" where
  "list_cached_models home cache c =
     and_then (cache_dir home c) (\<lambda>dir. case cache of
       None \<Rightarrow> Inr []
     | Some n \<Rightarrow> and_then (read_dir ''cache directory'' n) (cached_models dir))"

definition remote_model :: "string \<Rightarrow> u64 \<Rightarrow> ModelInfo" where
  "remote_model name n = \<lparr>mi_name = name, mi_path = [], mi_size_bytes = n, mi_is_cached = False\<rparr>"

definition popular_litert_models :: "ModelInfo list" where
  "popular_litert_models = [remote_model ''gemma3-1b'' 584417280, remote_model ''gemma-3n-E2B'' 2500000000,
     remote_model ''gemma-3n-E4B'' 4500000000, remote_model ''phi-4-mini'' 3800000000,
     remote_model ''qwen2.5-1.5b'' 1600000000]"

definition litert_tag :: "json \<Rightarrow> bool" where
  "litert_tag t = (case as_str t of
     Some s \<Rightarrow> str_contains s ''litert'' \<or> str_contains s ''int4'' \<or> str_contains s ''tflite''
   | None \<Rightarrow> False)"

definition value_array :: "json \<Rightarrow> json list option" where
  "value_array v = (case v of Array xs \<Rightarrow> Some xs | _ \<Rightarrow> None)"

definition huggingface_model :: "json \<Rightarrow> ModelInfo list" where
  "huggingface_model item = (case Option.bind (value_get item ''id'') as_str of
     None \<Rightarrow> []
   | Some model_id \<Rightarrow>
      (let is_litert = (case Option.bind (value_get item ''tags'') value_array of
             Some tags \<Rightarrow> list_ex litert_tag tags | None \<Rightarrow> False)
       in if is_litert \<or> str_contains model_id ''litert'' \<or> str_contains model_id ''int4''
          then [remote_model model_id 0] else []))"

definition huggingface_models :: "json \<Rightarrow> ModelInfo list" where
  "huggingface_models v = (case value_array v of
     Some items \<Rightarrow> concat (map huggingface_model items) | None \<Rightarrow> [])"

definition value_u64 :: "json \<Rightarrow> u64 option" where
  "value_u64 v = (case v of Number (PosInt n) \<Rightarrow> Some n | _ \<Rightarrow> None)"

definition kaggle_model :: "json \<Rightarrow> ModelInfo list" where
  "kaggle_model item =
     (case (Option.bind (value_get item ''slug'') as_str, Option.bind (value_get item ''ownerSlug'') as_str) of
        (Some name, Some owner) \<Rightarrow>
          [remote_model (owner @ ''/'' @ name)
             (case Option.bind (value_get item ''totalBytes'') value_u64 of Some n \<Rightarrow> n | None \<Rightarrow> 0)]
      | _ \<Rightarrow> [])"

definition kaggle_models :: "json \<Rightarrow> ModelInfo list" where
  "kaggle_models v = (case Option.bind (value_get v ''models'') value_array of
     Some items \<Rightarrow> concat (map kaggle_model items) | None \<Rightarrow> [])"

text \<open>The answers of the two services, absent when they are not asked or fail.\<close>

definition list_available_models ::
  "string option \<Rightarrow> node option \<Rightarrow> json option \<Rightarrow> json option \<Rightarrow> ModelConfig \<Rightarrow> LlmError + ModelInfo list" where
  "list_available_models home cache hf kaggle c =
     and_then (list_cached_models home cache c) (\<lambda>models. Inr (models @ popular_litert_models
       @ (case hf of Some v \<Rightarrow> huggingface_models v | None \<Rightarrow> [])
       @ (case kaggle of Some v \<Rightarrow> kaggle_models v | None \<Rightarrow> [])))"

text \<open>\<open>Iterator::min_by_key\<close> returns the first of the least elements.\<close>

fun min_by_key :: "('a \<Rightarrow> 'k::linorder) \<Rightarrow> 'a list \<Rightarrow> 'a option" where
  "min_by_key f [] = None"
| "min_by_key f (x # xs) = (case min_by_key f xs of
     None \<Rightarrow> Some x
   | Some y \<Rightarrow> Some (if f y < f x then y else x))"

definition get_smallest_model ::
  "string option \<Rightarrow> node option \<Rightarrow> json option \<Rightarrow> json option \<Rightarrow> ModelConfig \<Rightarrow> LlmError + ModelInfo option" where
  "get_smallest_model home cache hf kaggle c =
     and_then (list_available_models home cache hf kaggle c) (\<lambda>ms. Inr (min_by_key mi_size_bytes ms))"

section \<open>The manager\<close>

datatype ModelStatusUpdate = StatusChanged ModelStatus | Downloading DownloadProgress | ModelAvailable string string

record 'g ModelManager =
  mm_engine :: "'g option"
  mm_path :: "string option"
  mm_status :: ModelStatus
  mm_progress :: "DownloadProgress option"
  mm_updates :: "ModelStatusUpdate list"

definition ModelManager_new :: "'g ModelManager" where
  "ModelManager_new = \<lparr>mm_engine = None, mm_path = None, mm_status = NotLoaded, mm_progress = None, mm_updates = []\<rparr>"

definition send_update :: "ModelStatusUpdate \<Rightarrow> 'g ModelManager \<Rightarrow> 'g ModelManager" where
  "send_update u m = m\<lparr>mm_updates := mm_updates m @ [u]\<rparr>"

definition set_status :: "ModelStatus \<Rightarrow> 'g ModelManager \<Rightarrow> 'g ModelManager" where
  "set_status st m = send_update (StatusChanged st) (m\<lparr>mm_status := st\<rparr>)"

subsection \<open>Downloads\<close>

datatype chunk = Chunk nat | StreamFails string | WriteFails string

record download_io =
  di_mkdir :: "string + unit"
  di_response :: "string + (nat \<times> u64 option)"
  di_create :: "string + unit"
  di_chunks :: "chunk list"
  di_flush :: "string + unit"
  di_rename :: "string + unit"

definition download_url :: "string \<Rightarrow> string" where
  "download_url model =
     (if starts_with model ''google/'' then ''https://www.kaggle.com/models/'' @ model @ ''/download''
      else ''https://huggingface.co/'' @ model @ ''/resolve/main/model.gguf'')"

definition safe_name :: "string \<Rightarrow> string" where
  "safe_name model = map (\<lambda>c. if c = CHR ''/'' then CHR ''_'' else c) model"

definition temp_name :: "string \<Rightarrow> string" where
  "temp_name name = fst (split_dot name) @ ''.tmp''"

definition percentage_of :: "u64 \<Rightarrow> u64 option \<Rightarrow> fp" where
  "percentage_of n tot = (case tot of
     Some t \<Rightarrow> fp_mul binary32 (fp_div binary32 (fp_of_nat binary32 (unat n)) (fp_of_nat binary32 (unat t)))
                 (fp_of_nat binary32 100)
   | None \<Rightarrow> Fin False 0)"

definition progress_at :: "string \<Rightarrow> u64 option \<Rightarrow> u64 \<Rightarrow> DownloadProgress" where
  "progress_at model tot n = \<lparr>dp_model_name = model, dp_bytes_downloaded = n, dp_total_bytes = tot,
     dp_percentage = percentage_of n tot\<rparr>"

fun take_chunks ::
  "string \<Rightarrow> u64 option \<Rightarrow> chunk list \<Rightarrow> u64 \<Rightarrow> 'g ModelManager \<Rightarrow> (LlmError + u64) \<times> 'g ModelManager" where
  "take_chunks model tot [] n m = (Inr n, m)"
| "take_chunks model tot (StreamFails e # cs) n m = (Inl (LlmConfigError (''Download stream error: '' @ e)), m)"
| "take_chunks model tot (WriteFails e # cs) n m = (Inl (LlmConfigError (''Failed to write chunk: '' @ e)), m)"
| "take_chunks model tot (Chunk k # cs) n m =
     (let n = n + of_nat k; p = progress_at model tot n
      in take_chunks model tot cs n (send_update (Downloading p) (m\<lparr>mm_progress := Some p\<rparr>)))"

definition finish_download :: "string \<Rightarrow> string \<Rightarrow> 'g ModelManager \<Rightarrow> 'g ModelManager" where
  "finish_download model path m =
     send_update (ModelAvailable model path) (set_status Ready (m\<lparr>mm_progress := None\<rparr>))"

definition download_model ::
  "string option \<Rightarrow> ModelConfig \<Rightarrow> download_io \<Rightarrow> string \<Rightarrow> 'g ModelManager
     \<Rightarrow> (LlmError + DownloadProgress) \<times> 'g ModelManager" where
  "download_model home c io model m =
     (let m = set_status Loading m;
          fail = (\<lambda>pre e. Inl (LlmConfigError (pre @ e))) in
      case cache_dir home c of Inl e \<Rightarrow> (Inl e, m) | Inr dir \<Rightarrow>
      (case di_mkdir io of Inl e \<Rightarrow> (fail ''Failed to create cache dir: '' e, m) | Inr _ \<Rightarrow>
      (case di_response io of
         Inl e \<Rightarrow> (fail ''Failed to start download: '' e, m)
       | Inr (status, tot) \<Rightarrow>
          if \<not> (200 \<le> status \<and> status < 300) then (fail ''Download failed with status: '' (show_nat status), m)
          else (case di_create io of Inl e \<Rightarrow> (fail ''Failed to create temp file: '' e, m) | Inr _ \<Rightarrow>
            (case take_chunks model tot (di_chunks io) 0 m of
               (Inl e, m) \<Rightarrow> (Inl e, m)
             | (Inr n, m) \<Rightarrow>
                (case di_flush io of Inl e \<Rightarrow> (fail ''Failed to flush file: '' e, m) | Inr _ \<Rightarrow>
                (case di_rename io of Inl e \<Rightarrow> (fail ''Failed to rename file: '' e, m) | Inr _ \<Rightarrow>
                  (Inr \<lparr>dp_model_name = model, dp_bytes_downloaded = n, dp_total_bytes = tot,
                      dp_percentage = fp_of_nat binary32 100\<rparr>,
                   finish_download model (path_join dir (safe_name model)) m))))))))"

subsection \<open>Loading\<close>

definition load_engine :: "(string \<Rightarrow> LiteRTBackend \<Rightarrow> LlmError + 'g) \<Rightarrow> LiteRTBackend \<Rightarrow> string \<Rightarrow> LlmError + 'g" where
  "load_engine new b path = (case b of
     CpuBackend \<Rightarrow> new path CpuBackend
   | GpuBackend \<Rightarrow> (case new path GpuBackend of
       Inr g \<Rightarrow> Inr g
     | Inl gpu_err \<Rightarrow> map_err (\<lambda>cpu_err. LlmRuntimeError (''GPU backend failed: '' @ llm_error_display gpu_err
         @ ''. CPU fallback also failed: '' @ llm_error_display cpu_err)) (new path CpuBackend)))"

definition load_model ::
  "(string \<Rightarrow> LiteRTBackend \<Rightarrow> LlmError + 'g) \<Rightarrow> ModelConfig \<Rightarrow> string \<Rightarrow> 'g ModelManager
     \<Rightarrow> (LlmError + unit) \<times> 'g ModelManager" where
  "load_model new c path m =
     (let m = set_status Loading m in
      case config_backend c of
        Inl e \<Rightarrow> (Inl e, m)
      | Inr b \<Rightarrow>
         (case load_engine new b path of
            Inr g \<Rightarrow> (Inr (), send_update (ModelAvailable (case path_file_name path of Some n \<Rightarrow> n | None \<Rightarrow> ''unknown'') path)
                       (set_status Ready (m\<lparr>mm_engine := Some g, mm_path := Some path\<rparr>)))
          | Inl e \<Rightarrow> (let msg = ''Failed to load model: '' @ llm_error_display e
                      in (Inl (LlmRuntimeError msg), set_status (ModelError msg) m))))"

definition choose_cached :: "string option \<Rightarrow> ModelInfo list \<Rightarrow> ModelInfo option" where
  "choose_cached preferred ms =
     (let first = (case ms of [] \<Rightarrow> None | x # _ \<Rightarrow> Some x) in
      case preferred of
        Some p \<Rightarrow> (case find (\<lambda>x. mi_name x = p) ms of Some x \<Rightarrow> Some x | None \<Rightarrow> first)
      | None \<Rightarrow> first)"

text \<open>\<open>exists\<close> tells which paths exist when \<open>ensure_model_available\<close> asks.\<close>

definition ensure_model_available ::
  "(string \<Rightarrow> LiteRTBackend \<Rightarrow> LlmError + 'g) \<Rightarrow> string option \<Rightarrow> (string \<Rightarrow> bool) \<Rightarrow> node option \<Rightarrow> json option
     \<Rightarrow> json option \<Rightarrow> ModelConfig \<Rightarrow> download_io \<Rightarrow> 'g ModelManager \<Rightarrow> (LlmError + unit) \<times> 'g ModelManager" where
  "ensure_model_available new home path_exists cache hf kaggle c io m =
     (if mm_engine m \<noteq> None then (Inr (), m)
      else case (case semantic_model_path home c of Inr (Some p) \<Rightarrow> if path_exists p then Some p else None | _ \<Rightarrow> None) of
        Some p \<Rightarrow> load_model new c p m
      | None \<Rightarrow>
         (case list_cached_models home cache c of
            Inl e \<Rightarrow> (Inl e, m)
          | Inr cached \<Rightarrow>
             (case choose_cached (preferred_model c) cached of
                Some info \<Rightarrow> load_model new c (mi_path info) m
              | None \<Rightarrow>
                 (case (case preferred_model c of
                          Some p \<Rightarrow> Inr p
                        | None \<Rightarrow> and_then (get_smallest_model home cache hf kaggle c) (\<lambda>s. case s of
                            Some i \<Rightarrow> Inr (mi_name i)
                          | None \<Rightarrow> Inl (LlmConfigError ''No models available''))) of
                    Inl e \<Rightarrow> (Inl e, m)
                  | Inr name \<Rightarrow>
                     (case download_model home c io name m of
                        (Inl e, m) \<Rightarrow> (Inl e, m)
                      | (Inr _, m) \<Rightarrow>
                         (case cache_dir home c of
                            Inl e \<Rightarrow> (Inl e, m)
                          | Inr dir \<Rightarrow> load_model new c (path_join dir name) m))))))"


section \<open>Facts\<close>

text \<open>The reference for the size of a directory: the lengths of all files below it.\<close>

fun files_below :: "node \<Rightarrow> u64 list"
  and files_in :: "(string \<times> node) list \<Rightarrow> u64 list" where
  "files_below (FileNode n) = [n]"
| "files_below (Unreadable e) = []"
| "files_below (DirNode es) = files_in es"
| "files_in [] = []"
| "files_in ((name, n) # es) = files_below n @ files_in es"

fun readable :: "node \<Rightarrow> bool"
  and all_readable :: "(string \<times> node) list \<Rightarrow> bool" where
  "readable (FileNode n) = True"
| "readable (Unreadable e) = False"
| "readable (DirNode es) = all_readable es"
| "all_readable [] = True"
| "all_readable ((name, n) # es) = (readable n \<and> all_readable es)"

lemma directory_size_sum:
  "directory_size n = Inr k \<longleftrightarrow> readable n \<and> k = sum_list (files_below n)"
  "entries_size es t = Inr k \<longleftrightarrow> all_readable es \<and> k = t + sum_list (files_in es)"
proof (induction n and es t arbitrary: k and k rule: directory_size_entries_size.induct)
  case (5 name n es t)
  show ?case
    by (auto simp: res_simps 5 add.assoc)
qed auto

lemma min_by_key_None: "min_by_key f xs = None \<longleftrightarrow> xs = []"
  by (cases xs) (auto split: option.split)

lemma min_by_key_least: "min_by_key f xs = Some x \<Longrightarrow> x \<in> set xs \<and> (\<forall>y\<in>set xs. f x \<le> f y)"
proof (induction xs arbitrary: x)
  case (Cons a xs)
  show ?case
  proof (cases "min_by_key f xs")
    case None
    with Cons.prems show ?thesis by (simp add: min_by_key_None)
  next
    case (Some y)
    from Cons.IH [OF Some] Cons.prems Some show ?thesis
      by (auto split: if_splits)
  qed
qed simp

lemma set_status_simps [simp]:
  "mm_status (set_status st m) = st" "mm_engine (set_status st m) = mm_engine m" "mm_path (set_status st m) = mm_path m"
  "mm_progress (set_status st m) = mm_progress m"
  by (simp_all add: set_status_def send_update_def)

lemma send_update_simps [simp]:
  "mm_status (send_update u m) = mm_status m" "mm_engine (send_update u m) = mm_engine m"
  "mm_path (send_update u m) = mm_path m" "mm_progress (send_update u m) = mm_progress m"
  by (simp_all add: send_update_def)

lemma finish_download_simps [simp]:
  "mm_status (finish_download model path m) = Ready" "mm_engine (finish_download model path m) = mm_engine m"
  "mm_path (finish_download model path m) = mm_path m" "mm_progress (finish_download model path m) = None"
  by (simp_all add: finish_download_def)

lemma take_chunks_keeps:
  "take_chunks model tot cs n m = (r, m') \<Longrightarrow>
     mm_status m' = mm_status m \<and> mm_engine m' = mm_engine m \<and> mm_path m' = mm_path m"
  by (induction model tot cs n m rule: take_chunks.induct) (auto simp: Let_def)

primrec chunk_bytes :: "chunk \<Rightarrow> u64 option" where
  "chunk_bytes (Chunk k) = Some (of_nat k)"
| "chunk_bytes (StreamFails e) = None"
| "chunk_bytes (WriteFails e) = None"

lemma take_chunks_sum:
  "take_chunks model tot cs n m = (Inr k, m') \<Longrightarrow>
     (\<forall>c\<in>set cs. chunk_bytes c \<noteq> None) \<and> k = n + sum_list (map (the \<circ> chunk_bytes) cs)"
  by (induction model tot cs n m rule: take_chunks.induct) (auto simp: Let_def add.assoc)

lemma download_model_keeps:
  assumes "download_model home c io model m = (r, m')"
  shows "mm_engine m' = mm_engine m \<and> mm_path m' = mm_path m \<and>
    mm_status m' = (case r of Inr _ \<Rightarrow> Ready | Inl _ \<Rightarrow> Loading) \<and> (\<forall>p. r = Inr p \<longrightarrow> mm_progress m' = None)"
  using assms
  by (auto simp: download_model_def Let_def dest: take_chunks_keeps
      split: sum.splits prod.splits if_splits)

lemma load_engine_ok:
  "(\<exists>g. load_engine new b path = Inr g) \<longleftrightarrow>
     (\<exists>g. new path CpuBackend = Inr g) \<or> (b = GpuBackend \<and> (\<exists>g. new path GpuBackend = Inr g))"
  by (auto simp: load_engine_def res_simps split: LiteRTBackend.split sum.split)

lemma load_model_keeps:
  assumes "load_model new c path m = (r, m')"
  shows "(case r of
      Inr _ \<Rightarrow> mm_status m' = Ready \<and> mm_engine m' \<noteq> None \<and> mm_path m' = Some path
    | Inl _ \<Rightarrow> mm_engine m' = mm_engine m \<and> mm_path m' = mm_path m \<and>
        (if is_ok (config_backend c) then \<exists>msg. mm_status m' = ModelError msg else mm_status m' = Loading))"
  using assms by (auto simp: load_model_def Let_def res_simps split: sum.splits)


lemma ensure_loads:
  "\<exists>m1 path. ensure_model_available new home ex cache hf kaggle c io m = load_model new c path m1 \<and>
       mm_engine m1 = mm_engine m \<and> mm_path m1 = mm_path m \<or>
   (\<exists>e. ensure_model_available new home ex cache hf kaggle c io m = (Inl e, m1) \<and>
       mm_engine m1 = mm_engine m \<and> mm_path m1 = mm_path m) \<or>
   ensure_model_available new home ex cache hf kaggle c io m = (Inr (), m)"
proof (cases "ensure_model_available new home ex cache hf kaggle c io m = (Inr (), m)")
  case False
  then show ?thesis
    by (auto simp: ensure_model_available_def split: option.splits sum.splits prod.splits if_splits
        dest!: download_model_keeps)
qed blast

section \<open>Histories of a manager\<close>

inductive mm_reach :: "(string \<Rightarrow> LiteRTBackend \<Rightarrow> LlmError + 'g) \<Rightarrow> 'g ModelManager \<Rightarrow> bool" for new where
  start: "mm_reach new ModelManager_new"
| load: "mm_reach new m \<Longrightarrow> load_model new c path m = (r, m') \<Longrightarrow> mm_reach new m'"
| download: "mm_reach new m \<Longrightarrow> download_model home c io model m = (r, m') \<Longrightarrow> mm_reach new m'"
| ensure: "mm_reach new m \<Longrightarrow> ensure_model_available new home ex cache hf kaggle c io m = (r, m') \<Longrightarrow> mm_reach new m'"

definition mm_ok :: "(string \<Rightarrow> LiteRTBackend \<Rightarrow> LlmError + 'g) \<Rightarrow> 'g ModelManager \<Rightarrow> bool" where
  "mm_ok new m \<longleftrightarrow> (case mm_engine m of
     None \<Rightarrow> mm_path m = None
   | Some g \<Rightarrow> \<exists>path b. mm_path m = Some path \<and> new path b = Inr g)"

lemma mm_ok_cong: "mm_engine m' = mm_engine m \<Longrightarrow> mm_path m' = mm_path m \<Longrightarrow> mm_ok new m' = mm_ok new m"
  unfolding mm_ok_def by (simp cong: option.case_cong)

lemma load_model_ok:
  assumes "load_model new c path m = (r, m')" and "mm_ok new m"
  shows "mm_ok new m'"
proof (cases r)
  case (Inl e)
  with load_model_keeps [OF assms(1)] assms(2) show ?thesis by (simp add: mm_ok_cong [of m' m])
next
  case (Inr u)
  then obtain b g where "load_engine new b path = Inr g" "mm_engine m' = Some g" "mm_path m' = Some path"
    using assms(1) by (auto simp: load_model_def Let_def split: sum.splits)
  then show ?thesis
    by (auto simp: mm_ok_def load_engine_def res_simps split: LiteRTBackend.splits sum.splits)
qed

lemma mm_reach_ok: "mm_reach new m \<Longrightarrow> mm_ok new m"
proof (induction rule: mm_reach.induct)
  case start
  show ?case by (simp add: mm_ok_def ModelManager_new_def)
next
  case (load m c path r m')
  then show ?case by (blast intro: load_model_ok)
next
  case (download m home c io model r m')
  from download_model_keeps [OF download.hyps(2)] download.IH show ?case by (simp add: mm_ok_cong [of m' m])
next
  case (ensure m home ex cache hf kaggle c io r m')
  note out = ensure.hyps(2)
  from ensure_loads [of new home ex cache hf kaggle c io m, unfolded out] obtain m1 path where
    "(r, m') = load_model new c path m1 \<and> mm_engine m1 = mm_engine m \<and> mm_path m1 = mm_path m \<or>
     (\<exists>e. (r, m') = (Inl e, m1) \<and> mm_engine m1 = mm_engine m \<and> mm_path m1 = mm_path m) \<or>
     (r, m') = (Inr (), m)" by blast
  then show ?case
  proof (elim disjE conjE exE)
    assume l: "(r, m') = load_model new c path m1" and "mm_engine m1 = mm_engine m" "mm_path m1 = mm_path m"
    with ensure.IH have "mm_ok new m1" using mm_ok_cong by blast
    with l [symmetric] show ?thesis by (rule load_model_ok)
  next
    fix e
    assume "(r, m') = (Inl e, m1)" "mm_engine m1 = mm_engine m" "mm_path m1 = mm_path m"
    with ensure.IH show ?thesis using mm_ok_cong by blast
  next
    assume "(r, m') = (Inr (), m)"
    with ensure.IH show ?thesis by simp
  qed
qed

section \<open>Claims\<close>

text \<open>The engine in use. After any sequence of loads, downloads and calls that ensure a model,
  the manager has a model path exactly when it has an engine, and the engine is one that was made
  from the file at that path.\<close>

theorem engine_matches_path:
  assumes "mm_reach new m"
  shows "case mm_engine m of None \<Rightarrow> mm_path m = None
    | Some g \<Rightarrow> \<exists>path b. mm_path m = Some path \<and> new path b = Inr g"
  using mm_reach_ok [OF assms] by (simp add: mm_ok_def)

text \<open>Loading falls back to the processor. Loading succeeds exactly when the configured backend
  is valid and the engine can be made on the processor, or on the graphics unit when that is
  configured; then the status is ready. A failure of the engine is reported in the status; an
  invalid backend leaves the manager loading for ever.\<close>

theorem load_outcome:
  assumes "load_model new c path m = (r, m')"
  shows "(is_ok r \<longleftrightarrow> (\<exists>b. config_backend c = Inr b \<and> ((\<exists>g. new path CpuBackend = Inr g) \<or>
       b = GpuBackend \<and> (\<exists>g. new path GpuBackend = Inr g)))) \<and>
    (is_ok r \<longrightarrow> mm_status m' = Ready \<and> mm_engine m' \<noteq> None) \<and>
    (\<not> is_ok r \<longrightarrow> (if is_ok (config_backend c) then \<exists>msg. mm_status m' = ModelError msg
       else mm_status m' = Loading))"
proof -
  have "is_ok r \<longleftrightarrow> (\<exists>b. config_backend c = Inr b \<and> (\<exists>g. load_engine new b path = Inr g))"
    using assms by (auto simp: load_model_def Let_def res_simps split: sum.splits)
  then show ?thesis
    using load_model_keeps [OF assms] by (auto simp: load_engine_ok res_simps split: sum.splits)
qed

text \<open>A failed download looks like one in progress. A download that fails leaves the status at
  loading; one that succeeds reports the number of bytes received and sets the status to ready,
  although no model has been loaded.\<close>

theorem download_status:
  assumes "download_model home c io model m = (r, m')"
  shows "mm_engine m' = mm_engine m \<and> mm_status m' = (case r of Inr _ \<Rightarrow> Ready | Inl _ \<Rightarrow> Loading) \<and>
    (\<forall>p. r = Inr p \<longrightarrow> mm_progress m' = None \<and>
      dp_bytes_downloaded p = sum_list (map (the \<circ> chunk_bytes) (di_chunks io)))"
proof -
  have "dp_bytes_downloaded p = sum_list (map (the \<circ> chunk_bytes) (di_chunks io))" if "r = Inr p" for p
    using assms that
    by (auto simp: download_model_def Let_def split: sum.splits prod.splits if_splits dest!: take_chunks_sum)
  then show ?thesis using download_model_keeps [OF assms] by auto
qed

text \<open>A downloaded model is not found. When nothing is cached and the preferred model has a
  slash in its name, the file is saved under one path and loaded from another.\<close>

theorem downloaded_model_missed:
  assumes "mm_engine m = None" "cfg_semantic_model_path c = None" "preferred_model c = Some name"
    and "cache_dir home c = Inr dir" "download_model home c io name m = (Inr p, m')"
    and "CHR ''/'' \<in> set name" "\<not> starts_with name ''/''"
  shows "ensure_model_available new home ex None hf kaggle c io m = load_model new c (path_join dir name) m' \<and>
    ModelAvailable name (path_join dir (safe_name name)) \<in> set (mm_updates m') \<and>
    path_join dir name \<noteq> path_join dir (safe_name name)"
proof -
  have "CHR ''/'' \<notin> set (safe_name name)" by (auto simp: safe_name_def)
  then have n: "safe_name name \<noteq> name" "\<not> starts_with (safe_name name) ''/''"
    using assms(6) by (auto simp: starts_with_iff)
  have "ModelAvailable name (path_join dir (safe_name name)) \<in> set (mm_updates m')"
    using assms(4,5) by (auto simp: download_model_def Let_def finish_download_def send_update_def
        split: sum.splits prod.splits if_splits)
  moreover have "ensure_model_available new home ex None hf kaggle c io m = load_model new c (path_join dir name) m'"
    using assms(1-5) by (simp add: ensure_model_available_def semantic_model_path_def list_cached_models_def choose_cached_def)
  ultimately show ?thesis using n assms(7) by (auto simp: path_join_def)
qed

text \<open>An unknown size counts as the smallest. When HuggingFace lists a model, the smallest model
  is one whose size is given as zero.\<close>

theorem smallest_has_no_size:
  assumes "list_cached_models home cache c = Inr ms" and "huggingface_models v \<noteq> []"
  shows "\<exists>i. get_smallest_model home cache (Some v) kaggle c = Inr (Some i) \<and> mi_size_bytes i = 0"
proof -
  let ?all = "ms @ popular_litert_models @ huggingface_models v @ (case kaggle of Some w \<Rightarrow> kaggle_models w | None \<Rightarrow> [])"
  obtain h where h: "h \<in> set (huggingface_models v)" using assms(2) by (cases "huggingface_models v") auto
  have "mi_size_bytes h = 0"
    using h by (auto simp: huggingface_models_def huggingface_model_def remote_model_def Let_def split: option.splits if_splits)
  moreover obtain i where i: "min_by_key mi_size_bytes ?all = Some i"
    using h min_by_key_None [of mi_size_bytes ?all] by (cases "min_by_key mi_size_bytes ?all") auto
  moreover have "mi_size_bytes i \<le> mi_size_bytes h"
    using min_by_key_least [OF i] h by auto
  ultimately show ?thesis
    using assms(1) by (auto simp: get_smallest_model_def list_available_models_def word_le_nat_alt unat_eq_zero)
qed

text \<open>The size of a cached model. The size of a directory is the sum of the lengths of all
  files below it, whatever their depth; it is an error exactly when some directory below cannot be
  read.\<close>

theorem directory_size_exact:
  "directory_size n = Inr k \<longleftrightarrow> readable n \<and> k = sum_list (files_below n)"
  by (rule directory_size_sum)

end
