(* ===== verification/Conversation.thy ===== *)
theory Conversation
  imports Llm_Predictor
begin

text \<open>
  Conversation contexts for predictions (\<open>acdp-llm/src/conversation_context.rs\<close>) and the commands
  that clients send to a proxy (\<open>acdp-common/src/commands.rs\<close>). A hash map is an association list
  without repeated keys; the order in which it is visited is an argument. The debug form of a
  string and the pretty form of a document are arguments, as is the outcome of sending.
\<close>

section \<open>The context of a conversation\<close>

record conv_ext =
  cx_debug :: "string \<Rightarrow> string"
  cx_pretty :: "json \<Rightarrow> string option"

record ConversationContextBuilder =
  cb_messages :: "MessageFlow list"
  cb_session :: "ProxySession option"
  cb_max_messages :: nat
  cb_include_timing :: bool
  cb_include_parameters :: bool
  cb_include_predictions :: bool

definition ConversationContextBuilder_new :: ConversationContextBuilder where
  "ConversationContextBuilder_new = \<lparr>cb_messages = [], cb_session = None, cb_max_messages = 10,
     cb_include_timing = True, cb_include_parameters = False, cb_include_predictions = True\<rparr>"

definition cb_with_messages :: "MessageFlow list \<Rightarrow> ConversationContextBuilder \<Rightarrow> ConversationContextBuilder" where
  "cb_with_messages ms b = b\<lparr>cb_messages := ms\<rparr>"

definition cb_with_session :: "ProxySession \<Rightarrow> ConversationContextBuilder \<Rightarrow> ConversationContextBuilder" where
  "cb_with_session s b = b\<lparr>cb_session := Some s\<rparr>"

definition session_status_debug :: "conv_ext \<Rightarrow> SessionStatus \<Rightarrow> string" where
  "session_status_debug X st = (case st of
     SessionStarting \<Rightarrow> ''Starting'' | SessionActive \<Rightarrow> ''Active'' | SessionIdle \<Rightarrow> ''Idle''
   | SessionCompleted \<Rightarrow> ''Completed'' | SessionFailed e \<Rightarrow> ''Failed('' @ cx_debug X e @ '')'')"

definition message_status_debug :: "conv_ext \<Rightarrow> MessageStatus \<Rightarrow> string" where
  "message_status_debug X st = (case st of
     PendingMessage \<Rightarrow> ''Pending'' | InFlight \<Rightarrow> ''InFlight'' | CompletedMessage \<Rightarrow> ''Completed''
   | FailedMessage e \<Rightarrow> ''Failed('' @ cx_debug X e @ '')'')"

text \<open>\<open>num_milliseconds\<close> rounds towards zero.\<close>

definition millis_between :: "datetime \<Rightarrow> datetime \<Rightarrow> int" where
  "millis_between t u = (if u \<le> t then (t - u) div 1000000 else - ((u - t) div 1000000))"

definition session_text :: "conv_ext \<Rightarrow> ProxySession \<Rightarrow> string" where
  "session_text X s = ''=== Session Context ==='' @ nl @ ''Session ID: '' @ sess_id s @ nl
     @ ''Request Count: '' @ show_nat (unat (request_count s)) @ nl
     @ ''Status: '' @ session_status_debug X (sess_status s) @ nl @ nl"

definition flow_text :: "conv_ext \<Rightarrow> ConversationContextBuilder \<Rightarrow> nat \<Rightarrow> MessageFlow \<Rightarrow> string" where
  "flow_text X b idx m =
     nl @ ''[Message '' @ show_nat (idx + 1) @ '']'' @ nl
     @ ''Method: '' @ raw_req_method (client_request m) @ nl
     @ ''Status: '' @ message_status_debug X (mf_status m) @ nl
     @ (if cb_include_timing b
        then ''Duration: '' @ show_int (case responded_at (mf_timing m) of
               Some t \<Rightarrow> millis_between t (received_at (mf_timing m)) | None \<Rightarrow> 0) @ ''ms'' @ nl
        else [])
     @ (case (cb_include_parameters b, raw_req_params (client_request m)) of
          (True, Some p) \<Rightarrow> ''Parameters: '' @ (case cx_pretty X p of Some s \<Rightarrow> s | None \<Rightarrow> ''{}'') @ nl
        | _ \<Rightarrow> [])
     @ (if mf_transformations m \<noteq> []
        then ''Transformations Applied: '' @ join_strings '', '' (map at_rule_name (mf_transformations m)) @ nl
        else [])"

definition recent_messages :: "ConversationContextBuilder \<Rightarrow> MessageFlow list" where
  "recent_messages b = rev (take (cb_max_messages b) (rev (cb_messages b)))"

definition build_context :: "conv_ext \<Rightarrow> ConversationContextBuilder \<Rightarrow> string" where
  "build_context X b =
     (case cb_session b of Some s \<Rightarrow> session_text X s | None \<Rightarrow> [])
     @ ''=== Conversation History ==='' @ nl
     @ (let ms = recent_messages b in
        if ms = [] then ''(No previous messages)'' @ nl
        else concat (map (\<lambda>(i, m). flow_text X b i m) (enumerate 0 ms)))
     @ nl @ ''=== Current Request ==='' @ nl"

section \<open>Patterns\<close>

record ConversationPatterns =
  method_frequency :: "(string \<times> nat) list"
  most_common_method :: "string option"
  success_rate :: fp
  average_duration_ms :: u64
  sequence_patterns :: "(string \<times> nat) list"

definition ConversationPatterns_default :: ConversationPatterns where
  "ConversationPatterns_default = \<lparr>method_frequency = [], most_common_method = None,
     success_rate = Fin False 0, average_duration_ms = 0, sequence_patterns = []\<rparr>"

fun count_key :: "string \<Rightarrow> (string \<times> nat) list \<Rightarrow> (string \<times> nat) list" where
  "count_key k [] = [(k, 1)]"
| "count_key k ((k', n) # m) = (if k = k' then (k', n + 1) # m else (k', n) # count_key k m)"

definition frequencies :: "string list \<Rightarrow> (string \<times> nat) list" where
  "frequencies ks = fold count_key ks []"

text \<open>\<open>Iterator::max_by_key\<close> returns the last of the greatest elements.\<close>

fun max_by_key :: "('a \<Rightarrow> nat) \<Rightarrow> 'a list \<Rightarrow> 'a option" where
  "max_by_key f [] = None"
| "max_by_key f (x # xs) = (case max_by_key f xs of
     None \<Rightarrow> Some x
   | Some y \<Rightarrow> Some (if f y < f x then x else y))"

definition flow_method :: "MessageFlow \<Rightarrow> string" where
  "flow_method m = raw_req_method (client_request m)"

definition durations :: "MessageFlow list \<Rightarrow> nat list" where
  "durations ms = concat (map (\<lambda>m. case responded_at (mf_timing m) of
     None \<Rightarrow> []
   | Some t \<Rightarrow> (let d = millis_between t (received_at (mf_timing m)) in if 0 \<le> d then [nat d] else [])) ms)"

fun windows2 :: "'a list \<Rightarrow> ('a \<times> 'a) list" where
  "windows2 (x # y # xs) = (x, y) # windows2 (y # xs)"
| "windows2 xs = []"

definition sequence_name :: "MessageFlow \<times> MessageFlow \<Rightarrow> string" where
  "sequence_name w = flow_method (fst w) @ '' -> '' @ flow_method (snd w)"

text \<open>\<open>visit\<close> is the order in which a map is iterated. The sum of the durations is a \<open>u64\<close> that wraps
  as in a release build.\<close>

definition analyze_patterns ::
  "((string \<times> nat) list \<Rightarrow> (string \<times> nat) list) \<Rightarrow> MessageFlow list \<Rightarrow> ConversationPatterns" where
  "analyze_patterns visit ms =
     (if ms = [] then ConversationPatterns_default
      else let freq = frequencies (map flow_method ms); ds = durations ms in
        \<lparr>method_frequency = freq,
         most_common_method = map_option fst (max_by_key snd (visit freq)),
         success_rate = fp_div binary32
           (fp_of_nat binary32 (length (filter (\<lambda>m. mf_status m = CompletedMessage) ms)))
           (fp_of_nat binary32 (length ms)),
         average_duration_ms = (if ds \<noteq> [] then (\<Sum>d\<leftarrow>ds. of_nat d) div of_nat (length ds) else 0),
         sequence_patterns = frequencies (map sequence_name (windows2 ms))\<rparr>)"

definition get_prediction_hints ::
  "((string \<times> nat) list \<Rightarrow> (string \<times> nat) list) \<Rightarrow> ConversationPatterns \<Rightarrow> string list" where
  "get_prediction_hints visit p =
     (case most_common_method p of Some m \<Rightarrow> [''Most frequently used method: '' @ m] | None \<Rightarrow> [])
     @ (if fp_lt (success_rate p) (Fin False (1 / 2)) then [''Low success rate - consider error handling''] else [])
     @ (if 5000 < average_duration_ms p then [''High average latency detected''] else [])
     @ (case max_by_key snd (visit (sequence_patterns p)) of
          Some (s, n) \<Rightarrow> if 2 \<le> n then [''Common sequence: '' @ s @ '' (observed '' @ show_nat n @ '' times)''] else []
        | None \<Rightarrow> [])"

section \<open>Commands\<close>

definition client_send :: "string + unit \<Rightarrow> IpcMessage \<Rightarrow> IpcMessage list \<Rightarrow> (string + unit) \<times> IpcMessage list" where
  "client_send outcome msg sent = (case outcome of Inl e \<Rightarrow> (Inl e, sent) | Inr _ \<Rightarrow> (Inr (), sent @ [msg]))"

record IpcQueryResponse =
  qr_correlation_id :: string
  qr_response :: string
  qr_error :: "string option"
  qr_ttft_ms :: "f64 option"
  qr_tokens_per_sec :: "f64 option"
  qr_total_tokens :: "nat option"
  qr_interceptor_delay_ms :: "f64 option"

definition qr_is_success :: "IpcQueryResponse \<Rightarrow> bool" where
  "qr_is_success r \<longleftrightarrow> qr_error r = None"

definition qr_text :: "IpcQueryResponse \<Rightarrow> string" where
  "qr_text r = (case qr_error r of Some e \<Rightarrow> e | None \<Rightarrow> qr_response r)"

definition send_ipc_query ::
  "string + unit \<Rightarrow> string \<Rightarrow> string \<Rightarrow> IpcMessage list \<Rightarrow> (string + IpcQueryResponse) \<times> IpcMessage list" where
  "send_ipc_query outcome uuid query sent = (case client_send outcome (TuiQuery query uuid) sent of
     (Inl e, sent) \<Rightarrow> (Inl e, sent)
   | (Inr _, sent) \<Rightarrow> (Inl ''send_ipc_query requires async response handling - use send_ipc_query_async'', sent))"

definition send_ipc_query_async ::
  "string + unit \<Rightarrow> string \<Rightarrow> string \<Rightarrow> IpcMessage list \<Rightarrow> (string + string) \<times> IpcMessage list" where
  "send_ipc_query_async outcome uuid query sent = (case client_send outcome (TuiQuery query uuid) sent of
     (Inl e, sent) \<Rightarrow> (Inl e, sent) | (Inr _, sent) \<Rightarrow> (Inr uuid, sent))"

definition send_ipc_mcp_request_async ::
  "string + unit \<Rightarrow> string \<Rightarrow> string \<Rightarrow> json option \<Rightarrow> IpcMessage list \<Rightarrow> (string + string) \<times> IpcMessage list" where
  "send_ipc_mcp_request_async outcome uuid meth ps sent = (case client_send outcome (TuiMcpRequest meth ps uuid) sent of
     (Inl e, sent) \<Rightarrow> (Inl e, sent) | (Inr _, sent) \<Rightarrow> (Inr uuid, sent))"

definition send_routing_mode ::
  "string + unit \<Rightarrow> ProxyId \<Rightarrow> string \<Rightarrow> IpcMessage list \<Rightarrow> (string + unit) \<times> IpcMessage list" where
  "send_routing_mode outcome pid mode sent =
     (let normalized = map ascii_lower mode in
      if normalized \<notin> {''bypass'', ''semantic'', ''hybrid''}
      then (Inl (''Invalid routing mode '' @ [CHR 0x27] @ mode @ [CHR 0x27] @ ''. Valid modes: bypass, semantic, hybrid''), sent)
      else client_send outcome (RoutingModeChange pid normalized) sent)"

definition get_proxy_status :: "string + unit \<Rightarrow> ProxyId \<Rightarrow> IpcMessage list \<Rightarrow> (string + unit) \<times> IpcMessage list" where
  "get_proxy_status outcome pid sent = client_send outcome (GetStatus pid) sent"

definition get_proxy_logs ::
  "string + unit \<Rightarrow> ProxyId \<Rightarrow> nat option \<Rightarrow> IpcMessage list \<Rightarrow> (string + unit) \<times> IpcMessage list" where
  "get_proxy_logs outcome pid limit sent = client_send outcome (GetLogs pid limit) sent"

definition shutdown_proxy :: "string + unit \<Rightarrow> ProxyId \<Rightarrow> IpcMessage list \<Rightarrow> (string + unit) \<times> IpcMessage list" where
  "shutdown_proxy outcome pid sent = client_send outcome (ShutdownMsg pid) sent"

definition toggle_interceptor ::
  "string + unit \<Rightarrow> ProxyId \<Rightarrow> string \<Rightarrow> IpcMessage list \<Rightarrow> (string + unit) \<times> IpcMessage list" where
  "toggle_interceptor outcome pid name sent = client_send outcome (ToggleInterceptor pid name) sent"

definition send_ping :: "string + unit \<Rightarrow> IpcMessage list \<Rightarrow> (string + unit) \<times> IpcMessage list" where
  "send_ping outcome sent = client_send outcome Ping sent"


section \<open>Facts\<close>

lemma count_key_get: "map_of (count_key k m) k' = (if k' = k then Some (case map_of m k of Some n \<Rightarrow> n + 1 | None \<Rightarrow> 1) else map_of m k')"
  by (induction m) auto

lemma count_key_keys: "set (map fst (count_key k m)) = insert k (set (map fst m))"
proof (induction m)
  case (Cons x m)
  then show ?case by (cases x) (simp add: insert_commute del: set_map)
qed simp

lemma count_key_distinct: "distinct (map fst m) \<Longrightarrow> distinct (map fst (count_key k m))"
proof (induction m)
  case (Cons x m)
  then show ?case
    using count_key_keys [of k m] by (cases x) (auto simp del: set_map)
qed simp

lemma count_key_sum: "sum_list (map snd (count_key k m)) = sum_list (map snd m) + 1"
  by (induction m) auto

definition counts :: "string list \<Rightarrow> (string \<times> nat) list \<Rightarrow> bool" where
  "counts ks m \<longleftrightarrow> distinct (map fst m) \<and> sum_list (map snd m) = length ks \<and>
     (\<forall>k. map_of m k = (if k \<in> set ks then Some (count_list ks k) else None))"

lemma counts_snoc: "counts ks m \<Longrightarrow> counts (ks @ [k]) (count_key k m)"
  by (auto simp: counts_def count_key_get count_key_distinct count_key_sum)

lemma frequencies_counts: "counts ks (frequencies ks)"
proof (induction ks rule: rev_induct)
  case Nil
  show ?case by (simp add: counts_def frequencies_def)
next
  case (snoc k ks)
  then have "counts (ks @ [k]) (count_key k (frequencies ks))" by (rule counts_snoc)
  then show ?case by (simp add: frequencies_def)
qed

lemma max_by_key_None: "max_by_key f xs = None \<longleftrightarrow> xs = []"
  by (cases xs) (auto split: option.split)

lemma max_by_key_greatest: "max_by_key f xs = Some x \<Longrightarrow> x \<in> set xs \<and> (\<forall>y\<in>set xs. f y \<le> f x)"
proof (induction xs arbitrary: x)
  case (Cons a xs)
  show ?case
  proof (cases "max_by_key f xs")
    case None
    with Cons.prems show ?thesis by (simp add: max_by_key_None)
  next
    case (Some y)
    from Cons.IH [OF Some] Cons.prems Some show ?thesis by (auto split: if_splits)
  qed
qed simp

lemma length_windows2: "length (windows2 xs) = length xs - 1"
  by (induction xs rule: windows2.induct) auto

section \<open>Claims\<close>

text \<open>The most common method. For a conversation that is not empty the frequencies count each
  method, the method reported as the most common one occurs in the conversation at least as often
  as any other, whatever the order in which the map is visited, and the sequences counted are the
  pairs of neighbours.\<close>

theorem patterns_count:
  assumes "ms \<noteq> []" and "\<And>m. set (visit m) = set m"
  shows "counts (map flow_method ms) (method_frequency (analyze_patterns visit ms)) \<and>
    (\<exists>k. most_common_method (analyze_patterns visit ms) = Some k \<and> k \<in> set (map flow_method ms) \<and>
      (\<forall>k'. count_list (map flow_method ms) k' \<le> count_list (map flow_method ms) k)) \<and>
    sum_list (map snd (sequence_patterns (analyze_patterns visit ms))) = length ms - 1"
proof -
  let ?ks = "map flow_method ms" and ?fr = "frequencies (map flow_method ms)"
  note c = frequencies_counts [of ?ks]
  have sq: "sum_list (map snd (frequencies (map sequence_name (windows2 ms)))) = length ms - 1"
    using frequencies_counts [of "map sequence_name (windows2 ms)"] by (simp add: counts_def length_windows2)
  have ne: "?fr \<noteq> []"
    using c assms(1) by (auto simp: counts_def)
  have "visit ?fr \<noteq> []"
    using assms(2) [of ?fr] ne by (metis set_empty)
  then obtain k n where kn: "max_by_key snd (visit ?fr) = Some (k, n)"
    by (cases "max_by_key snd (visit ?fr)") (auto simp: max_by_key_None)
  have in_fr: "(k, n) \<in> set ?fr" and mx: "\<And>k' n'. (k', n') \<in> set ?fr \<Longrightarrow> n' \<le> n"
    using max_by_key_greatest [OF kn] assms(2) [of ?fr] by force+
  have "map_of ?fr k = Some n"
    using in_fr c by (intro map_of_is_SomeI) (simp_all only: counts_def)
  then have k: "k \<in> set ?ks" "n = count_list ?ks k" using c by (auto simp: counts_def split: if_splits)
  have "count_list ?ks k' \<le> count_list ?ks k" for k'
  proof (cases "k' \<in> set ?ks")
    case True
    then have "map_of ?fr k' = Some (count_list ?ks k')" using c by (simp add: counts_def)
    then have "(k', count_list ?ks k') \<in> set ?fr" by (rule map_of_SomeD)
    from mx [OF this] k(2) show ?thesis by simp
  next
    case False
    then show ?thesis by (simp add: count_notin)
  qed
  with k(1) kn c sq assms(1) show ?thesis
    by (auto simp: analyze_patterns_def Let_def)
qed

text \<open>What the context shows. The context contains the latest messages of the conversation, at
  most as many as allowed, in their order.\<close>

theorem recent_messages_last:
  "recent_messages b = drop (length (cb_messages b) - cb_max_messages b) (cb_messages b) \<and>
   length (recent_messages b) = min (cb_max_messages b) (length (cb_messages b))"
  by (simp add: recent_messages_def rev_take min.commute)

text \<open>Routing modes by command. The command that changes the routing mode sends a message
  exactly for the texts that the proxy can parse as a mode, whatever their case, and the message
  names that mode.\<close>

theorem routing_command_parses:
  "send_routing_mode (Inr ()) pid mode sent = (Inr (), sent') \<longleftrightarrow>
     (\<exists>m. mode_from_str mode = Inr m \<and> sent' = sent @ [RoutingModeChange pid (mode_as_str m)])"
proof -
  let ?l = "map ascii_lower mode"
  have e: "send_routing_mode (Inr ()) pid mode sent = (Inr (), sent') \<longleftrightarrow>
      ?l \<in> {''bypass'', ''semantic'', ''hybrid''} \<and> sent' = sent @ [RoutingModeChange pid ?l]"
    unfolding send_routing_mode_def Let_def client_send_def by (simp only: sum.case split: if_split) auto
  consider "?l = ''bypass''" | "?l = ''semantic''" | "?l = ''hybrid''"
    | "?l \<notin> {''bypass'', ''semantic'', ''hybrid''}" by blast
  then show ?thesis
    unfolding e by cases (simp_all add: mode_from_str_def Let_def mode_as_str_def)
qed

text \<open>The synchronous query has no answer. The query command that promises to wait for a
  response never returns one, although the query is sent.\<close>

theorem query_never_answered:
  "\<exists>e. fst (send_ipc_query outcome uuid query sent) = Inl e \<and>
     (is_ok outcome \<longrightarrow> snd (send_ipc_query outcome uuid query sent) = sent @ [TuiQuery query uuid])"
  by (cases outcome) (simp_all add: send_ipc_query_def client_send_def)

end
