(* ===== verification/Spec2Isabelle.thy ===== *)
theory Spec2Isabelle
  imports Gateway Gateway_Server Selector Client Ipc Plan_Interpreter Param_Validation Gepa Proxy Tui_App
    Typed_Messages Mcp_Http_Server Llm_Models Conversation
begin

text \<open>
  A verification of \<open>acdp\<close>, a Rust workspace that issues and checks delegation credentials
  for AI agents, relays and filters their MCP (JSON-RPC) traffic, predicts and routes tool
  calls, and sandboxes the tools they run.

  \<^bold>\<open>The program.\<close> The crate \<open>acdp-auth\<close> is the credential system. A gateway turns an
  identity assertion (an ID-JAG token) of a human principal into a credential for an agent:
  identity-bound (signed), anonymous (an algebraic-MAC credential with a presentation
  budget) or hybrid. Agents may delegate capabilities that only shrink; an MCP server has a
  credential verified before a tool is called. \<open>acdp-gateway\<close> is the service around it, with
  a database of issued credentials. \<open>acdp-core\<close> has the JSON-RPC messages, the transports, the
  client and the interceptor pipeline every message passes through. \<open>acdp-transport\<close> is the
  proxy between an MCP client and an MCP server (over standard streams or HTTP), which runs
  each message through built-in interceptors and reports to a monitor (\<open>acdp-tui\<close>) over the
  IPC messages of \<open>acdp-common\<close>. \<open>acdp-llm\<close> is an interceptor that predicts tool calls and the database,
  sessions and optimizer behind it. \<open>acdp-sandbox\<close> decides in which runtime a tool runs and
  interprets execution plans under capability tokens.

  \<^bold>\<open>Theories: shared.\<close>
  \<^item> \<open>Acdp_Prelude\<close>: results (\<open>and_then\<close> is \<open>?\<close>), panics, machine integers, strings,
    little-endian bytes, and the locale \<open>reduction_order\<close> of ``may only shrink'' checks.
  \<^item> \<open>Json\<close>: \<open>serde_json\<close> values and maps, with the locale \<open>field_map\<close> (the laws of
    lookup, insertion and removal) interpreted on the object operations.
  \<^item> \<open>Ieee\<close>: rounding of rationals to \<open>f32\<close> and \<open>f64\<close> with the operations the code uses.
  \<^item> \<open>Base64\<close>: the hand-written encoder of the transport factory, its index loop against a
    reference by chunks of three, and its inverse.

  \<^bold>\<open>Theories: credentials\<close> (\<open>acdp-auth/src\<close>, \<open>acdp-gateway\<close>).
  \<^item> \<open>Acdp_Error\<close> (\<open>error.rs\<close>); \<open>Capabilities\<close> (\<open>capabilities.rs\<close>: tool patterns,
    limits, access and subset checks, three interpretations of \<open>reduction_order\<close>);
    \<open>Identity\<close> (\<open>principal.rs\<close>, \<open>agent.rs\<close>); \<open>Delegation\<close> (\<open>delegation.rs\<close>);
    \<open>Id_Jag\<close> (\<open>mcp.rs\<close>).
  \<^item> \<open>Small_Field\<close>, \<open>Arc\<close>, \<open>Arc_Presentation\<close>: \<open>arc.rs\<close> and \<open>arc_zkp.rs\<close> over any
    curve that satisfies \<open>curve_laws\<close>, with a three-element field as concrete instance.
  \<^item> \<open>Credentials\<close>, \<open>Verification\<close>, \<open>Gateway\<close>: \<open>credentials.rs\<close>, \<open>verification.rs\<close>,
    \<open>gateway.rs\<close>. \<open>Gateway_Server\<close>: routes and services of the gateway with its tables.

  \<^bold>\<open>Theories: messages, transports and client\<close> (\<open>acdp-core/src\<close>).
  \<^item> \<open>Mcp_Error\<close> (\<open>error.rs\<close>), \<open>Jsonrpc\<close> (\<open>messages/core.rs\<close>), \<open>Transport_Config\<close>
    (\<open>transport/config.rs\<close>), \<open>Param_Validation\<close> (\<open>validation.rs\<close>). \<open>Typed_Messages\<close>: the
    messages about tools (\<open>messages/tools.rs\<close> with its hand-written reader), resources, prompts,
    sampling and logging; the locale \<open>flattened\<close> of messages with open metadata is interpreted
    on three of them.
  \<^item> \<open>Http_Stream\<close>, \<open>Http_Sse\<close>, \<open>Stdio_Transport\<close>, \<open>Transport_Factory\<close>: the transports
    and their factory; \<open>Http_Stream\<close> states the trait \<open>Transport\<close> as the locale
    \<open>transport_contract\<close>, and each transport is an interpretation of it.
  \<^item> \<open>Client\<close>: \<open>client.rs\<close> with the messages of \<open>messages/initialization.rs\<close>, over any
    transport operations and any interceptors.
  \<^item> \<open>Interceptor\<close>: \<open>interceptor.rs\<close>, the manager and its abstract semantics, with the
    locale \<open>interceptor_contract\<close>. \<open>Message_Kind\<close>: the locales \<open>kind_contract\<close> and
    \<open>kinded_interceptors\<close> (a sublocale of \<open>interceptor_contract\<close>): what an interceptor may
    change of a message; interpreted on the built-in and on the proxy's interceptors.

  \<^bold>\<open>Theories: proxy and monitor\<close> (\<open>acdp-transport/src\<close>, \<open>acdp-common/src\<close>).
  \<^item> \<open>Rate_Limit\<close>, \<open>Transform\<close>, \<open>Builtins\<close>: \<open>interceptors/*.rs\<close>; \<open>Builtins\<close>
    interprets \<open>interceptor_contract\<close>.
  \<^item> \<open>Ipc_Types\<close> (\<open>types.rs\<close>, \<open>mcp.rs\<close>), \<open>Ipc\<close> (\<open>ipc.rs\<close>, \<open>messages.rs\<close> and
    \<open>buffered_ipc_client.rs\<close> as a state machine), \<open>Ipc_Server\<close> (\<open>ipc_server.rs\<close>).
  \<^item> \<open>Stdio_Proxy\<close>, \<open>Stdio_Startup\<close>: \<open>stdio_handler.rs\<close>, the loop event by event and
    the interceptors it starts with. \<open>Http_Proxy\<close>: \<open>http_stream_server.rs\<close>,
    \<open>http_sse_server.rs\<close> and the queries of \<open>http_handler.rs\<close>. \<open>Proxy\<close>:
    \<open>transport_config.rs\<close>, \<open>backend_connection.rs\<close>, \<open>proxy.rs\<close> and the rest of
    \<open>http_handler.rs\<close>: configuration, connection, supervision and restarts.

  \<^bold>\<open>Theories: the monitor\<close> (\<open>acdp-tui/src\<close>).
  \<^item> \<open>Monitor\<close> (\<open>components.rs\<close>, \<open>ipc_handler.rs\<close>: messages of proxies become updates),
    \<open>Tui_Ui\<close> (\<open>ui.rs\<close>, \<open>tabs.rs\<close>, \<open>events.rs\<close>, \<open>quick_access.rs\<close>, \<open>settings_panel.rs\<close> and
    the list panels; the locale \<open>wrap_cursor\<close> of lists whose selection wraps around is
    interpreted on three of them), \<open>Tui_App\<close> (\<open>app.rs\<close>: key events, queries and updates).
  \<^item> \<open>Mcp_Server\<close> (\<open>acdp_server.rs\<close>, \<open>client_proxy.rs\<close>: the server the monitor offers to MCP
    clients, its tasks as a step relation) and \<open>Mcp_Http_Server\<close> (\<open>http_server.rs\<close>,
    \<open>config.rs\<close>: sessions over HTTP and the tasks that talk to their backends).

  \<^bold>\<open>Theories: routing\<close> (\<open>acdp-llm/src\<close>).
  \<^item> \<open>Llm_Database\<close> (\<open>error.rs\<close>, \<open>routing_modes.rs\<close>, \<open>database/*.rs\<close>,
    \<open>metrics.rs\<close>), \<open>Llm_Predictor\<close> (\<open>predictors.rs\<close>, \<open>dspy_predictor.rs\<close>,
    \<open>lm_provider.rs\<close>), \<open>Llm_Session\<close> (\<open>session_management.rs\<close>, \<open>service.rs\<close>),
    \<open>Llm_Interceptor\<close> (\<open>interceptor.rs\<close>), \<open>Gepa\<close> (\<open>gepa_optimizer.rs\<close>), \<open>Llm_Models\<close>
    (\<open>model_management.rs\<close>, \<open>config.rs\<close>), \<open>Conversation\<close> (\<open>conversation_context.rs\<close> and
    \<open>acdp-common/src/commands.rs\<close>).

  \<^bold>\<open>Theories: sandbox\<close> (\<open>acdp-sandbox/src\<close>).
  \<^item> \<open>Sandbox_Policy\<close>, \<open>Selector\<close> (\<open>policy.rs\<close>, \<open>limits.rs\<close>, \<open>selector.rs\<close>),
    \<open>Sandbox_Execution\<close> (\<open>types.rs\<close>, \<open>execution.rs\<close>), \<open>Plan_Interpreter\<close>
    (\<open>service.rs\<close>, \<open>gencode.rs\<close> and \<open>acdp-common/src/gencode.rs\<close>).

  \<^bold>\<open>How code becomes definitions.\<close> A struct is a \<open>record\<close>, an enum a \<open>datatype\<close>, a method
  a function of the same name (prefixed where two types share it) that returns the updated
  value. \<open>Err\<close> is \<open>Inl\<close> with the source's error value and text, a panic is
  \<open>Panic\<close>. Unsigned integers are words of their width; an \<open>i64\<close> is an \<open>int\<close> with the
  wrap-around written out. The clock and all randomness are arguments. A \<open>select!\<close> loop is a
  function of the list of events it receives; channels and sockets are the lists of what
  passes through them, and concurrent callers are interleavings of atomic steps. SQL statements
  are operations on the list of rows. Code of other crates (Ed25519, hexadecimal and URL syntax,
  JWT, the curve P-256 with its hash and its proof system, chrono's date arithmetic, Unicode
  case conversion, the HTTP client, the operating system, the language model) is a parameter;
  what a theorem needs of it is a hypothesis of the theorem, and the witnesses instantiate it.

  \<^bold>\<open>Loops and bounds.\<close> Recursions are structural or have a measure (the index loop of
  \<open>Base64\<close>, the receive loop of \<open>Ipc_Server\<close>, which shortens the bytes left to read).
  An event loop that has consumed its list without leaving the loop answers \<open>None\<close>: it is
  still running. The optimizer runs \<open>max_iterations\<close> rounds and the supervisor at most five
  restarts, as the code bounds them; connection retries and client retries are counted as in
  the code. No other fuel is used.

  \<^bold>\<open>What is shown.\<close> Access: the deny list wins, capabilities shrink along chains, an accepted
  tool lies within the root's allow list (this theory), and where the subset checks leak
  (deny lists, patterns ending in two stars). Delegation: depth bounds of the guarded
  protocol and where the 8-bit depth wraps; what a proof's signature binds. ARC: blind
  issuance yields valid MACs, presentations are complete and, by the witness extracted from
  the proof, sound relative to the proof system, the budget holds sequentially and is exceeded by concurrent callers by at most the
  number of callers in flight. Verification and gateway: the exact verdict and its first
  failing reason, what is disclosed, who is issued what and for how long; that credentials
  signed by the gateway do not verify, and that anonymous ones verify without proof; at the
  service, what an issuance records and what racing verifications may take from a budget.
  Pipeline: stable priority order, counters, refinement of the abstract semantics by the
  built-in interceptors, the exact sliding window, strict validation, the laws of path
  edits, and that a message let through keeps its kind, identifier and method. Transports and
  client: correlation of answers, connection life cycle, encodings that can be read back, how
  often a request is sent. Proxy: what is forwarded is exactly what the
  proxy's own interceptors return, in the state earlier messages left them; queries of the monitor are answered once, restarts are bounded, frames survive the IPC channel in
  order. Monitor: it lists exactly the proxies announced, a query typed there is settled by
  the proxy's reply (until the activity list is trimmed, which misdirects it), its settings
  stay in range; its server admits clients up to the limit, forwards in order and at most once, and
  counts their traffic twice. Typed messages: the reader of tools against its specification, what
  survives writing and reading. Models: the engine in use comes from the path
  shown. Routing: the interceptor only adds its annotations to object parameters (and drops positional
  ones), scores stay in the unit interval, predictions are stored and settled once. Sandbox: selection stays within the
  policy, plans have only the effects their capability tokens permit.

  \<^bold>\<open>What is not modelled.\<close> Serde's wire formats (beyond those of \<open>Typed_Messages\<close>) and logging.
  Locks: every operation that takes one is atomic; races are modelled where the code reads
  and writes under different locks. The runtimes of the sandbox (V8, WASM, processes), the
  foreign functions of the language model and the network behind the download of models are calls
  into other programs. The drawing of the user interface, the command line tools, the binaries and the
  tests are output, argument parsing and wiring. Readers that the serde macros derive are
  parameters where they are nested.
\<close>

section \<open>Access control from delegation to verification\<close>

text \<open>C3 (an accepted tool lies within the root's grant). Take a chain of capability sets, each
  accepted by \<open>is_subset_of\<close> against its predecessor, without patterns that end in two
  stars. Whenever the verifier accepts a request made with a credential that carries one of
  them, the requested tool matches the allow list of the chain's root and no deny pattern of
  the credential itself.\<close>

theorem accepted_tool_within_root:
  assumes "successively (\<lambda>x y. caps_subset y x) (rc # cs)"
    and "\<forall>c\<in>set (rc # cs). wf_caps c"
    and "mcp_capabilities (vr_credential rq) \<in> set (rc # cs)"
    and "valid (verify X canonical now stamp V rq)"
  shows "any_match (allowed_tools rc) (tool (vr_context rq))
    \<and> \<not> any_match (denied_tools (mcp_capabilities (vr_credential rq))) (tool (vr_context rq))"
proof -
  let ?leaf = "mcp_capabilities (vr_credential rq)"
  let ?t = "tool (vr_context rq)"
  have le: "caps_subset ?leaf rc" by (rule caps.chain_le_head [OF assms(1-3)])
  have allowed: "\<not> any_match (denied_tools ?leaf) ?t" "any_match (allowed_tools ?leaf) ?t"
    using assms(4) by (simp_all add: verify_valid is_tool_allowed_Inr)
  from allowed(2) obtain c where c: "c \<in> set (allowed_tools ?leaf)" "tool_matches c ?t"
    by auto
  from le c(1) obtain p where p: "p \<in> set (allowed_tools rc)" "pattern_subset c p"
    by (auto simp: caps_subset_iff)
  have "wf_pattern p" using assms(2) p(1) by (auto simp: wf_caps_def)
  with p c(2) have "any_match (allowed_tools rc) ?t"
    by (auto intro: pattern_subset_matches)
  with allowed(1) show ?thesis by simp
qed

theorem accepted_tool_within_root_witness:
  "any_match (allowed_tools sample_root) ''filesystem/read_file''"
proof -
  have "valid (verify sample_ext (\<lambda>_. Inr [1]) 5 6 sample_verifier sample_request)"
    by (simp add: sample_request_result)
  moreover have "mcp_capabilities (vr_credential sample_request) = sample_root"
    by (simp add: sample_request_def sample_ib_def)
  ultimately have "any_match (allowed_tools sample_root) (tool (vr_context sample_request))"
    using accepted_tool_within_root [of sample_root "[]" sample_request] sample_wf by auto
  then show ?thesis by (simp add: sample_request_def)
qed

end
